(* ===== verification/Go_Text.thy ===== *)
theory Go_Text
  imports Main
begin

text \<open>
  Go strings as byte strings. A Go \<open>string\<close> is a sequence of bytes, so it is modelled as a
  \<open>char list\<close> (one \<open>char\<close> per byte) and \<open>length\<close> is Go's \<open>len\<close>. This theory holds the functions
  of packages \<open>strings\<close> and \<open>strconv\<close> that the modelled code calls, with the facts the
  component theories use about them.

  Two conventions. \<open>trim_space\<close> removes the UTF-8 encodings of every code point that
  \<open>unicode.IsSpace\<close> accepts, not only ASCII blanks. \<open>to_lower\<close>, \<open>to_upper\<close> and
  \<open>equal_fold\<close> map the ASCII letters and leave all other bytes alone; Go also maps letters
  outside ASCII, so statements about case mapping speak about ASCII text.
\<close>

named_theorems go_text "evaluation rules for the string functions"

section \<open>Trimming white space\<close>

text \<open>
  The encodings of the white-space code points: tab, newline, vertical tab, form feed, carriage
  return, space, U+0085, U+00A0, U+1680, U+2000 to U+200A, U+2028, U+2029, U+202F, U+205F, U+3000.
\<close>

definition ws_units :: "string list" where
  "ws_units =
     [[CHR 0x20], [CHR 0x09], [CHR 0x0A], [CHR 0x0B], [CHR 0x0C], [CHR 0x0D],
      [CHR 0xC2, CHR 0x85], [CHR 0xC2, CHR 0xA0], [CHR 0xE1, CHR 0x9A, CHR 0x80],
      [CHR 0xE2, CHR 0x80, CHR 0x80], [CHR 0xE2, CHR 0x80, CHR 0x81],
      [CHR 0xE2, CHR 0x80, CHR 0x82], [CHR 0xE2, CHR 0x80, CHR 0x83],
      [CHR 0xE2, CHR 0x80, CHR 0x84], [CHR 0xE2, CHR 0x80, CHR 0x85],
      [CHR 0xE2, CHR 0x80, CHR 0x86], [CHR 0xE2, CHR 0x80, CHR 0x87],
      [CHR 0xE2, CHR 0x80, CHR 0x88], [CHR 0xE2, CHR 0x80, CHR 0x89],
      [CHR 0xE2, CHR 0x80, CHR 0x8A], [CHR 0xE2, CHR 0x80, CHR 0xA8],
      [CHR 0xE2, CHR 0x80, CHR 0xA9], [CHR 0xE2, CHR 0x80, CHR 0xAF],
      [CHR 0xE2, CHR 0x81, CHR 0x9F], [CHR 0xE3, CHR 0x80, CHR 0x80]]"

definition starts_with :: "string \<Rightarrow> string \<Rightarrow> bool" where
  "starts_with p s \<longleftrightarrow> take (length p) s = p"

lemma starts_with_iff: "starts_with p s \<longleftrightarrow> (\<exists>r. s = p @ r)"
proof
  assume "starts_with p s"
  then have "s = p @ drop (length p) s"
    by (metis append_take_drop_id starts_with_def)
  then show "\<exists>r. s = p @ r" by blast
qed (auto simp: starts_with_def)

lemma starts_with_Nil [simp]: "starts_with [] s"
  by (simp add: starts_with_def)

lemma starts_with_Cons [simp]:
  "starts_with (c # p) s = (case s of [] \<Rightarrow> False | d # r \<Rightarrow> c = d \<and> starts_with p r)"
  by (cases s) (auto simp: starts_with_def)

lemma starts_with_shorter: "starts_with u (p @ q) \<or> \<not> starts_with u p"
  by (auto simp: starts_with_iff)

text \<open>Remove units of \<open>us\<close> from the front as long as one is there.\<close>

function strip_units :: "string list \<Rightarrow> string \<Rightarrow> string" where
  "strip_units us s =
     (case find (\<lambda>u. u \<noteq> [] \<and> starts_with u s) us of
        None \<Rightarrow> s
      | Some u \<Rightarrow> strip_units us (drop (length u) s))"
  by pat_completeness auto
termination
  by (relation "measure (\<lambda>(us, s). length s)")
     (auto simp: find_Some_iff starts_with_iff)

declare strip_units.simps [simp del]

definition trim_space :: "string \<Rightarrow> string" where
  "trim_space s = rev (strip_units (map rev ws_units) (rev (strip_units ws_units s)))"

definition stripped :: "string list \<Rightarrow> string \<Rightarrow> bool" where
  "stripped us s \<longleftrightarrow> (\<forall>u \<in> set us. u \<noteq> [] \<longrightarrow> \<not> starts_with u s)"

lemma stripped_find: "stripped us s \<longleftrightarrow> find (\<lambda>u. u \<noteq> [] \<and> starts_with u s) us = None"
  by (auto simp: stripped_def find_None_iff)

lemma strip_units_stripped: "stripped us s \<Longrightarrow> strip_units us s = s"
  by (subst strip_units.simps) (simp add: stripped_find)

lemma stripped_strip_units: "stripped us (strip_units us s)"
proof (induction us s rule: strip_units.induct)
  case (1 us s)
  show ?case
  proof (cases "find (\<lambda>u. u \<noteq> [] \<and> starts_with u s) us")
    case None
    then show ?thesis by (simp add: strip_units.simps [of us s] stripped_find)
  next
    case (Some u)
    with "1.IH" show ?thesis by (simp add: strip_units.simps [of us s])
  qed
qed

lemma strip_units_suffix: "\<exists>p. s = p @ strip_units us s"
proof (induction us s rule: strip_units.induct)
  case (1 us s)
  show ?case
  proof (cases "find (\<lambda>u. u \<noteq> [] \<and> starts_with u s) us")
    case None
    then show ?thesis by (simp add: strip_units.simps [of us s])
  next
    case (Some u)
    then obtain p where "drop (length u) s = p @ strip_units us s"
      using "1.IH" by (auto simp: strip_units.simps [of us s])
    then have "s = (take (length u) s @ p) @ strip_units us s"
      by (metis append_assoc append_take_drop_id)
    then show ?thesis by blast
  qed
qed

lemma stripped_prefix: "stripped us (p @ q) \<Longrightarrow> stripped us p"
  using starts_with_shorter by (auto simp: stripped_def)

lemma strip_units_Nil [simp]: "strip_units us [] = []"
  by (rule strip_units_stripped) (auto simp: stripped_def starts_with_iff)

lemma trim_space_Nil [simp, go_text]: "trim_space [] = []"
  by (simp add: trim_space_def)

lemma trim_space_fixpoint:
  "stripped ws_units s \<Longrightarrow> stripped (map rev ws_units) (rev s) \<Longrightarrow> trim_space s = s"
  by (simp add: trim_space_def strip_units_stripped)

lemma trim_space_idem [simp, go_text]: "trim_space (trim_space s) = trim_space s"
proof (rule trim_space_fixpoint)
  let ?l = "strip_units ws_units s"
  obtain p where "rev ?l = p @ rev (trim_space s)"
    using strip_units_suffix [of "rev ?l" "map rev ws_units"] by (auto simp: trim_space_def)
  then have "?l = trim_space s @ rev p"
    by (metis rev_append rev_rev_ident)
  then show "stripped ws_units (trim_space s)"
    using stripped_strip_units [of ws_units s] stripped_prefix by metis
  show "stripped (map rev ws_units) (rev (trim_space s))"
    by (simp add: trim_space_def stripped_strip_units)
qed

text \<open>Go code asks whether a string is blank by comparing its trimmed form with \<open>""\<close>.\<close>

definition blank :: "string \<Rightarrow> bool" where
  "blank s \<longleftrightarrow> trim_space s = []"

lemma blank_Nil [simp]: "blank []"
  by (simp add: blank_def)

lemma blank_trim [simp]: "blank (trim_space s) = blank s"
  by (simp add: blank_def)

lemma trim_space_length: "length (trim_space s) \<le> length s"
proof -
  have "length (strip_units us r) \<le> length r" for us r
    using strip_units_suffix [of r us] by (metis length_append le_add2)
  then show ?thesis
    unfolding trim_space_def by (metis length_rev order_trans)
qed

text \<open>A string of printable ASCII characters without blanks is its own trimmed form.\<close>

definition visible :: "char \<Rightarrow> bool" where
  "visible c \<longleftrightarrow> 0x21 \<le> (of_char c :: nat) \<and> (of_char c :: nat) < 0x7F"

lemma ws_units_hd: "u \<in> set ws_units \<Longrightarrow> u \<noteq> [] \<and> \<not> visible (hd u) \<and> \<not> visible (last u)"
  by (auto simp: ws_units_def visible_def)

lemma trim_visible: "list_all visible s \<Longrightarrow> trim_space s = s"
proof (rule trim_space_fixpoint)
  assume vis: "list_all visible s"
  show "stripped ws_units s"
    unfolding stripped_def
  proof (intro ballI impI notI)
    fix u assume u: "u \<in> set ws_units" and "starts_with u s"
    then obtain r where "s = u @ r" by (auto simp: starts_with_iff)
    with vis have "\<forall>c \<in> set u. visible c" by (simp add: list_all_iff)
    with ws_units_hd [OF u] show False using list.set_sel(1) by blast
  qed
  show "stripped (map rev ws_units) (rev s)"
    unfolding stripped_def
  proof (intro ballI impI notI)
    fix v assume "v \<in> set (map rev ws_units)" and v: "starts_with v (rev s)"
    then obtain u where u: "u \<in> set ws_units" "v = rev u" by auto
    with v obtain r where "rev s = rev u @ r" by (auto simp: starts_with_iff)
    then have "s = rev r @ u" by (metis rev_append rev_rev_ident)
    with vis have "\<forall>c \<in> set u. visible c" by (simp add: list_all_iff)
    with ws_units_hd [OF u(1)] show False using last_in_set by blast
  qed
qed

section \<open>Prefixes, substrings, replacement\<close>

definition has_prefix :: "string \<Rightarrow> string \<Rightarrow> bool" where
  "has_prefix s p = starts_with p s"

definition trim_prefix :: "string \<Rightarrow> string \<Rightarrow> string" where
  "trim_prefix s p = (if starts_with p s then drop (length p) s else s)"

lemma trim_prefix_append [simp]: "trim_prefix (p @ s) p = s"
  by (simp add: trim_prefix_def starts_with_iff)

text \<open>\<open>strings.Index\<close>: the position of the first occurrence of \<open>p\<close> (Go's \<open>-1\<close> is \<open>None\<close>).\<close>

fun str_index :: "string \<Rightarrow> string \<Rightarrow> nat option" where
  "str_index [] p = (if p = [] then Some 0 else None)"
| "str_index (c # s) p =
     (if starts_with p (c # s) then Some 0 else map_option Suc (str_index s p))"

definition contains :: "string \<Rightarrow> string \<Rightarrow> bool" where
  "contains s p = (str_index s p \<noteq> None)"

lemma str_index_Some: "str_index s p = Some i \<Longrightarrow> i \<le> length s \<and> starts_with p (drop i s)"
  by (induction s p arbitrary: i rule: str_index.induct)
     (auto simp: starts_with_iff split: if_splits)

lemma str_index_None: "str_index s p = None \<Longrightarrow> \<not> starts_with p (drop i s)"
proof (induction s p arbitrary: i rule: str_index.induct)
  case (1 p)
  then show ?case by (auto simp: starts_with_iff split: if_splits)
next
  case (2 c s p)
  then have "\<not> starts_with p (c # s)" and "str_index s p = None"
    by (auto split: if_splits)
  with "2.IH" show ?case by (cases i) (auto split: if_splits)
qed

definition remove_char :: "char \<Rightarrow> string \<Rightarrow> string" where
  "remove_char c s = filter (\<lambda>d. d \<noteq> c) s"

definition trim_right_char :: "char \<Rightarrow> string \<Rightarrow> string" where
  "trim_right_char c s = rev (dropWhile (\<lambda>d. d = c) (rev s))"

section \<open>ASCII case mapping\<close>

definition lower_char :: "char \<Rightarrow> char" where
  "lower_char c =
     (if 65 \<le> (of_char c :: nat) \<and> (of_char c :: nat) \<le> 90 then char_of ((of_char c :: nat) + 32) else c)"

definition upper_char :: "char \<Rightarrow> char" where
  "upper_char c =
     (if 97 \<le> (of_char c :: nat) \<and> (of_char c :: nat) \<le> 122 then char_of ((of_char c :: nat) - 32) else c)"

definition to_lower :: "string \<Rightarrow> string" where
  "to_lower s = map lower_char s"

definition to_upper :: "string \<Rightarrow> string" where
  "to_upper s = map upper_char s"

definition equal_fold :: "string \<Rightarrow> string \<Rightarrow> bool" where
  "equal_fold a b \<longleftrightarrow> to_lower a = to_lower b"

lemma of_char_char_of_small: "n < 256 \<Longrightarrow> of_char (char_of n :: char) = (n :: nat)"
  by simp

lemma lower_char_idem [simp]: "lower_char (lower_char c) = lower_char c"
proof -
  have "(of_char c :: nat) \<le> 90 \<Longrightarrow> of_char (char_of (of_char c + (32 :: nat)) :: char) = (of_char c + 32 :: nat)"
    by (rule of_char_char_of_small) simp
  then show ?thesis by (auto simp: lower_char_def)
qed

lemma upper_char_idem [simp]: "upper_char (upper_char c) = upper_char c"
proof -
  have "(of_char c :: nat) \<le> 122 \<Longrightarrow> of_char (char_of (of_char c - (32 :: nat)) :: char) = (of_char c - 32 :: nat)"
    by (rule of_char_char_of_small) simp
  then show ?thesis by (auto simp: upper_char_def)
qed

lemma to_lower_idem [simp]: "to_lower (to_lower s) = to_lower s"
  by (simp add: to_lower_def)

lemma to_upper_idem [simp]: "to_upper (to_upper s) = to_upper s"
  by (simp add: to_upper_def)

lemma to_upper_append: "to_upper (a @ b) = to_upper a @ to_upper b"
  by (simp add: to_upper_def)

lemma length_to_upper [simp]: "length (to_upper s) = length s"
  by (simp add: to_upper_def)

lemma equal_fold_refl [simp]: "equal_fold s s"
  by (simp add: equal_fold_def)

section \<open>Decimal integers\<close>

text \<open>\<open>strconv.FormatInt(n, 10)\<close>, which is also what \<open>%v\<close> and \<open>%d\<close> print for an integer.\<close>

fun show_nat :: "nat \<Rightarrow> string" where
  "show_nat n =
     (if n < 10 then [char_of (48 + n)] else show_nat (n div 10) @ [char_of (48 + n mod 10)])"

declare show_nat.simps [simp del]

definition show_int :: "int \<Rightarrow> string" where
  "show_int i = (if i < 0 then CHR ''-'' # show_nat (nat (- i)) else show_nat (nat i))"

definition digit_value :: "char \<Rightarrow> nat option" where
  "digit_value c =
     (if 48 \<le> (of_char c :: nat) \<and> (of_char c :: nat) \<le> 57 then Some (of_char c - 48) else None)"

fun parse_digits :: "nat \<Rightarrow> string \<Rightarrow> nat option" where
  "parse_digits acc [] = Some acc"
| "parse_digits acc (c # s) =
     (case digit_value c of None \<Rightarrow> None | Some d \<Rightarrow> parse_digits (10 * acc + d) s)"

definition parse_nat :: "string \<Rightarrow> nat option" where
  "parse_nat s = (if s = [] then None else parse_digits 0 s)"

definition in_int64 :: "int \<Rightarrow> bool" where
  "in_int64 i \<longleftrightarrow> - (2 ^ 63) \<le> i \<and> i < 2 ^ 63"

text \<open>\<open>strconv.ParseInt(s, 10, 64)\<close>; every error (syntax or range) is \<open>None\<close>.\<close>

definition parse_int64 :: "string \<Rightarrow> int option" where
  "parse_int64 s =
     (let r = (case s of
                 c # t \<Rightarrow> if c = CHR ''-'' then map_option (\<lambda>n. - int n) (parse_nat t)
                          else if c = CHR ''+'' then map_option int (parse_nat t)
                          else map_option int (parse_nat s)
               | [] \<Rightarrow> None)
      in case r of None \<Rightarrow> None | Some i \<Rightarrow> if in_int64 i then Some i else None)"

lemma parse_digits_append:
  "parse_digits acc (s @ t) = (case parse_digits acc s of None \<Rightarrow> None | Some n \<Rightarrow> parse_digits n t)"
  by (induction acc s rule: parse_digits.induct) (auto split: option.splits)

lemma digit_value_char_of: "n < 10 \<Longrightarrow> digit_value (char_of (48 + n)) = Some n"
proof -
  assume "n < 10"
  then have "of_char (char_of (48 + n) :: char) = (48 + n :: nat)"
    by (intro of_char_char_of_small) simp
  with \<open>n < 10\<close> show ?thesis by (simp add: digit_value_def)
qed

lemma parse_digits_show_nat: "parse_digits 0 (show_nat n) = Some n"
proof (induction n rule: show_nat.induct)
  case (1 n)
  show ?case
  proof (cases "n < 10")
    case True
    then show ?thesis by (simp add: show_nat.simps [of n] digit_value_char_of)
  next
    case False
    have "10 * (n div 10) + n mod 10 = n" by simp
    with False "1.IH" show ?thesis
      by (simp add: show_nat.simps [of n] parse_digits_append digit_value_char_of)
  qed
qed

lemma show_nat_nonempty [simp]: "show_nat n \<noteq> []"
  by (subst show_nat.simps) simp

lemma parse_nat_show_nat [simp]: "parse_nat (show_nat n) = Some n"
  by (simp add: parse_nat_def parse_digits_show_nat)

lemma show_nat_digit: "c \<in> set (show_nat n) \<Longrightarrow> digit_value c \<noteq> None"
proof (induction n rule: show_nat.induct)
  case (1 n)
  then show ?case
    by (cases "n < 10") (auto simp: show_nat.simps [of n] digit_value_char_of)
qed

lemma show_nat_chars: "c \<in> set (show_nat n) \<Longrightarrow> visible c \<and> c \<noteq> CHR ''.''"
proof -
  assume "c \<in> set (show_nat n)"
  then have "digit_value c \<noteq> None" by (rule show_nat_digit)
  then show ?thesis by (auto simp: digit_value_def visible_def split: if_splits)
qed

lemma show_int_chars: "c \<in> set (show_int i) \<Longrightarrow> visible c \<and> c \<noteq> CHR ''.''"
  using show_nat_chars by (auto simp: show_int_def visible_def split: if_splits)

lemma show_nat_hd_not_sign: "show_nat n = c # t \<Longrightarrow> c \<noteq> CHR ''-'' \<and> c \<noteq> CHR ''+''"
proof -
  assume "show_nat n = c # t"
  then have "digit_value c \<noteq> None" using show_nat_digit [of c n] by simp
  then show ?thesis by (auto simp: digit_value_def)
qed

theorem parse_show_int64 [simp, go_text]: "in_int64 i \<Longrightarrow> parse_int64 (show_int i) = Some i"
proof (cases "i < 0")
  case True
  assume "in_int64 i"
  with True show ?thesis by (simp add: parse_int64_def show_int_def)
next
  case False
  assume "in_int64 i"
  obtain c t where ct: "show_nat (nat i) = c # t"
    using show_nat_nonempty [of "nat i"] by (cases "show_nat (nat i)") auto
  then have "parse_nat (c # t) = Some (nat i)"
    by (metis parse_nat_show_nat)
  with False ct show_nat_hd_not_sign [OF ct] \<open>in_int64 i\<close> show ?thesis
    by (auto simp: parse_int64_def show_int_def)
qed

section \<open>UTF-8 literals\<close>

text \<open>The bytes of a source literal, given by its code points (all below \<open>0x10000\<close> here).\<close>

definition utf8_rune :: "nat \<Rightarrow> string" where
  "utf8_rune n =
     (if n < 0x80 then [char_of n]
      else if n < 0x800 then [char_of (0xC0 + n div 0x40), char_of (0x80 + n mod 0x40)]
      else [char_of (0xE0 + n div 0x1000), char_of (0x80 + n div 0x40 mod 0x40),
            char_of (0x80 + n mod 0x40)])"

definition utf8 :: "nat list \<Rightarrow> string" where
  "utf8 ns = concat (map utf8_rune ns)"

lemma utf8_rune_nonempty [simp]: "utf8_rune n \<noteq> []"
  by (simp add: utf8_rune_def)

lemma utf8_eq_Nil [simp]: "utf8 ns = [] \<longleftrightarrow> ns = []"
  by (cases ns) (simp_all add: utf8_def)

text \<open>
  \<open>len([]rune(s))\<close>: the number of code points, where every byte that does not start a well-formed
  sequence counts as one.
\<close>

definition byte :: "char \<Rightarrow> nat" where "byte c = of_char c"

definition continuation :: "char \<Rightarrow> bool" where
  "continuation c \<longleftrightarrow> 0x80 \<le> byte c \<and> byte c \<le> 0xBF"

definition rune_width :: "string \<Rightarrow> nat" where
  "rune_width s =
     (case s of
        a # b # c # d # _ \<Rightarrow>
          if (byte a = 0xF0 \<and> 0x90 \<le> byte b \<or> byte a \<in> {0xF1, 0xF2, 0xF3} \<or> byte a = 0xF4 \<and> byte b \<le> 0x8F)
             \<and> continuation b \<and> continuation c \<and> continuation d then 4
          else if (byte a = 0xE0 \<and> 0xA0 \<le> byte b \<or> 0xE1 \<le> byte a \<and> byte a \<le> 0xEF \<and> (byte a = 0xED \<longrightarrow> byte b \<le> 0x9F))
             \<and> continuation b \<and> continuation c then 3
          else if 0xC2 \<le> byte a \<and> byte a \<le> 0xDF \<and> continuation b then 2 else 1
      | a # b # c # [] \<Rightarrow>
          if (byte a = 0xE0 \<and> 0xA0 \<le> byte b \<or> 0xE1 \<le> byte a \<and> byte a \<le> 0xEF \<and> (byte a = 0xED \<longrightarrow> byte b \<le> 0x9F))
             \<and> continuation b \<and> continuation c then 3
          else if 0xC2 \<le> byte a \<and> byte a \<le> 0xDF \<and> continuation b then 2 else 1
      | a # b # [] \<Rightarrow> if 0xC2 \<le> byte a \<and> byte a \<le> 0xDF \<and> continuation b then 2 else 1
      | _ \<Rightarrow> 1)"

lemma rune_width_pos: "0 < rune_width s"
  by (simp add: rune_width_def split: list.split)

function rune_count :: "string \<Rightarrow> nat" where
  "rune_count s = (if s = [] then 0 else Suc (rune_count (drop (rune_width s) s)))"
  by pat_completeness auto
termination
  by (relation "measure length") (auto simp: rune_width_pos)

declare rune_count.simps [simp del]

lemma rune_count_le: "rune_count s \<le> length s"
proof (induction s rule: rune_count.induct)
  case (1 s)
  show ?case
  proof (cases "s = []")
    case True
    then show ?thesis by (simp add: rune_count.simps)
  next
    case False
    then have "0 < length s" by simp
    moreover have "rune_count (drop (rune_width s) s) \<le> length s - rune_width s"
      using 1 [OF False] by simp
    moreover have "rune_count s = Suc (rune_count (drop (rune_width s) s))"
      using False by (simp add: rune_count.simps [of s])
    ultimately show ?thesis using rune_width_pos [of s] by arith
  qed
qed

section \<open>64-bit wrap-around\<close>

text \<open>The value an \<open>int64\<close> (and \<open>int\<close>, \<open>time.Duration\<close>) operation stores: two's complement.\<close>

definition wrap64 :: "int \<Rightarrow> int" where
  "wrap64 i = (i + 2 ^ 63) mod 2 ^ 64 - 2 ^ 63"

lemma wrap64_id [simp]: "in_int64 i \<Longrightarrow> wrap64 i = i"
  by (simp add: wrap64_def in_int64_def)

lemma in_int64_wrap64 [simp]: "in_int64 (wrap64 i)"
  by (simp add: wrap64_def in_int64_def)

lemma wrap64_eq_sint: "wrap64 (wrap64 i) = wrap64 i"
  by simp

end
