(* ===== verification/Seven_Prelude.thy ===== *)
theory Seven_Prelude
  imports Go_Text
begin

text \<open>
  What all components share: instants and durations, nullable values, dynamically typed values
  (Go's \<open>any\<close>) with their printed form, and facts on lists that the component proofs use.

  A \<open>time.Time\<close> is its distance from the Unix epoch in nanoseconds, so \<open>Before\<close>, \<open>After\<close> and
  \<open>UTC()\<close> are \<open><\<close>, \<open>>\<close> and the identity; \<open>zero_time\<close> is Go's zero value (January 1 of year 1).
  A \<open>time.Duration\<close> is an \<open>int64\<close> count of nanoseconds, and the product
  \<open>time.Duration(n) * time.Second\<close> wraps around. A pointer that may be nil is an \<open>option\<close>.
\<close>

section \<open>Time\<close>

type_synonym time = int

definition second :: int where "second = 1000000000"
definition minute :: int where "minute = 60 * second"
definition hour :: int where "hour = 60 * minute"

definition zero_time :: time where "zero_time = -62135596800 * second"

definition is_zero_time :: "time \<Rightarrow> bool" where
  "is_zero_time t \<longleftrightarrow> t = zero_time"

text \<open>\<open>time.Duration(n) * time.Second\<close> on an \<open>int\<close> of 64 bits.\<close>

definition seconds_duration :: "int \<Rightarrow> int" where
  "seconds_duration n = wrap64 (n * second)"

text \<open>\<open>t.Sub(u)\<close> saturates at the bounds of \<open>int64\<close>.\<close>

definition time_sub :: "time \<Rightarrow> time \<Rightarrow> int" where
  "time_sub t u = max (- (2 ^ 63)) (min (2 ^ 63 - 1) (t - u))"

text \<open>\<open>t.Unix()\<close>.\<close>

definition unix_seconds :: "time \<Rightarrow> int" where "unix_seconds t = t div second"

text \<open>
  \<open>int(d.Seconds())\<close>: a duration truncated towards zero to whole seconds. Go computes it in
  \<open>float64\<close>, which is exact to a nanosecond for durations below \<open>2 ^ 22\<close> seconds.
\<close>

definition whole_seconds :: "int \<Rightarrow> int" where
  "whole_seconds d = (if 0 \<le> d then d div second else - ((- d) div second))"

lemma second_pos [simp]: "0 < second"
  by (simp add: second_def)

lemma seconds_duration_exact:
  "0 \<le> n \<Longrightarrow> n \<le> 9223372036 \<Longrightarrow> seconds_duration n = n * second"
  by (simp add: seconds_duration_def second_def in_int64_def)

lemma time_sub_pos [simp]: "0 < time_sub t u \<longleftrightarrow> u < t"
  by (auto simp: time_sub_def)

lemma whole_seconds_nonneg: "0 \<le> d \<Longrightarrow> 0 \<le> whole_seconds d"
  by (simp add: whole_seconds_def pos_imp_zdiv_nonneg_iff)

section \<open>Values of dynamic type\<close>

text \<open>
  The dynamic types the modelled code stores in an \<open>any\<close>. A nil map and an empty map are
  identified: no modelled code tells them apart. \<open>AFloat\<close> carries what the code reads off a
  \<open>float64\<close>: its truncation to an integer and its printed form; \<open>ATime\<close> an instant and its printed form.
\<close>

datatype anyv =
    ANil
  | AStr string
  | ABool bool
  | AInt int
  | AFloat int string
  | ATime int string
  | AStrs "string list"
  | AList "anyv list"
  | AMap "(string \<times> anyv) list"

type_synonym anymap = "string \<rightharpoonup> anyv"

text \<open>Reading a missing key of a \<open>map[string]any\<close> gives nil.\<close>

definition any_get :: "anymap \<Rightarrow> string \<Rightarrow> anyv" where
  "any_get m k = (case m k of None \<Rightarrow> ANil | Some v \<Rightarrow> v)"

lemma any_get_upd [simp]: "any_get (m(k \<mapsto> v)) k' = (if k' = k then v else any_get m k')"
  by (simp add: any_get_def)

lemma any_get_empty [simp]: "any_get Map.empty k = ANil"
  by (simp add: any_get_def)

fun join_words :: "string list \<Rightarrow> string" where
  "join_words [] = []"
| "join_words [x] = x"
| "join_words (x # xs) = x @ '' '' @ join_words xs"

text \<open>
  \<open>fmt.Sprintf("%v", v)\<close>. A map prints its entries in key order; the entries of an \<open>AMap\<close> are
  kept in that order.
\<close>

fun show_any :: "anyv \<Rightarrow> string" where
  "show_any ANil = ''<nil>''"
| "show_any (AStr s) = s"
| "show_any (ABool b) = (if b then ''true'' else ''false'')"
| "show_any (AInt i) = show_int i"
| "show_any (AFloat i s) = s"
| "show_any (ATime t s) = s"
| "show_any (AStrs xs) = ''['' @ join_words xs @ '']''"
| "show_any (AList xs) = ''['' @ join_words (map show_any xs) @ '']''"
| "show_any (AMap es) =
     ''map['' @ join_words (map (\<lambda>(k, v). k @ '':'' @ show_any v) es) @ '']''"

definition string_value :: "anyv \<Rightarrow> string" where
  "string_value v = (if v = ANil then [] else show_any v)"

lemma string_value_simps [simp]:
  "string_value ANil = []"
  "string_value (AStr s) = s"
  "string_value (AInt i) = show_int i"
  by (simp_all add: string_value_def)

section \<open>Lists\<close>

text \<open>The position of the first element that satisfies a test: a Go loop over indices with an early return.\<close>

fun find_index :: "('a \<Rightarrow> bool) \<Rightarrow> 'a list \<Rightarrow> nat option" where
  "find_index P [] = None"
| "find_index P (x # xs) = (if P x then Some 0 else map_option Suc (find_index P xs))"

lemma find_index_Some:
  "find_index P xs = Some i \<Longrightarrow> i < length xs \<and> P (xs ! i) \<and> (\<forall>j < i. \<not> P (xs ! j))"
  by (induction xs arbitrary: i) (auto split: if_splits simp: nth_Cons split: nat.splits)

lemma find_index_SomeD:
  assumes "find_index P xs = Some i"
  shows "i < length xs" "P (xs ! i)"
  using find_index_Some [OF assms] by auto

lemma find_index_None [simp]: "find_index P xs = None \<longleftrightarrow> (\<forall>x \<in> set xs. \<not> P x)"
  by (induction xs) auto

lemma find_index_exists: "x \<in> set xs \<Longrightarrow> P x \<Longrightarrow> \<exists>i. find_index P xs = Some i"
  by (metis find_index_None not_None_eq)

lemma find_index_cong:
  "(\<And>x. x \<in> set xs \<Longrightarrow> P x = Q x) \<Longrightarrow> find_index P xs = find_index Q xs"
  by (induction xs) auto

text \<open>Changing the element at a position is changing the element with its key, when keys are distinct.\<close>

lemma list_update_by_key:
  assumes "distinct (map key xs)" "i < length xs"
  shows "xs[i := f (xs ! i)] = map (\<lambda>x. if key x = key (xs ! i) then f x else x) xs"
proof (rule nth_equalityI)
  fix j assume j: "j < length (xs[i := f (xs ! i)])"
  then have "key (xs ! j) = key (xs ! i) \<longleftrightarrow> j = i"
    using assms by (simp add: distinct_conv_nth) (metis)
  with j assms(2) show "xs[i := f (xs ! i)] ! j = map (\<lambda>x. if key x = key (xs ! i) then f x else x) xs ! j"
    by (simp add: nth_list_update)
qed simp

lemma nth_key_eq:
  assumes "distinct (map key xs)" "x \<in> set xs" "i < length xs" "key x = key (xs ! i)"
  shows "x = xs ! i"
  using assms by (metis distinct_map inj_onD nth_mem)

text \<open>Rows of a table that satisfy a test, updated in place: an SQL \<open>UPDATE ... WHERE\<close>.\<close>

definition update_where :: "('r \<Rightarrow> bool) \<Rightarrow> ('r \<Rightarrow> 'r) \<Rightarrow> 'r list \<Rightarrow> 'r list" where
  "update_where P f rs = map (\<lambda>r. if P r then f r else r) rs"

definition count_where :: "('r \<Rightarrow> bool) \<Rightarrow> 'r list \<Rightarrow> nat" where
  "count_where P rs = length (filter P rs)"

lemma length_update_where [simp]: "length (update_where P f rs) = length rs"
  by (simp add: update_where_def)

lemma nth_update_where [simp]:
  "i < length rs \<Longrightarrow> update_where P f rs ! i = (if P (rs ! i) then f (rs ! i) else rs ! i)"
  by (simp add: update_where_def)

lemma set_update_where: "set (update_where P f rs) = (\<lambda>r. if P r then f r else r) ` set rs"
  by (simp add: update_where_def)

lemma update_where_no_match: "count_where P rs = 0 \<Longrightarrow> update_where P f rs = rs"
  by (induction rs) (auto simp: update_where_def count_where_def split: if_splits)

lemma map_update_where:
  "(\<And>r. g (f r) = g r) \<Longrightarrow> map g (update_where P f rs) = map g rs"
  by (simp add: update_where_def)

lemma find_update_where:
  "(\<And>r. A (f r) = A r) \<Longrightarrow>
   find A (update_where P f rs) = map_option (\<lambda>r. if P r then f r else r) (find A rs)"
  by (induction rs) (auto simp: update_where_def)

text \<open>With at most one row that satisfies \<open>A\<close>, a narrower condition is one on the row found.\<close>

lemma count_where_found:
  assumes "\<And>r. P r \<Longrightarrow> A r" "\<And>r r'. r \<in> set rs \<Longrightarrow> r' \<in> set rs \<Longrightarrow> A r \<Longrightarrow> A r' \<Longrightarrow> r = r'"
  shows "0 < count_where P rs \<longleftrightarrow> (case find A rs of None \<Rightarrow> False | Some r \<Rightarrow> P r)"
proof (cases "find A rs")
  case None
  then have "\<not> (\<exists>x \<in> set rs. P x)" using assms(1) by (auto simp: find_None_iff)
  with None show ?thesis by (simp add: count_where_def filter_empty_conv)
next
  case (Some r)
  then have r: "r \<in> set rs" "A r" by (auto simp: find_Some_iff)
  then have "(\<exists>x \<in> set rs. P x) \<longleftrightarrow> P r" using assms by metis
  with Some show ?thesis by (auto simp: count_where_def filter_empty_conv)
qed

lemma count_where_pos: "0 < count_where P rs \<longleftrightarrow> (\<exists>r \<in> set rs. P r)"
  by (auto simp: count_where_def filter_empty_conv)

end
