(* ===== verification/App_Errors.thy ===== *)
theory App_Errors
  imports Seven_Prelude
begin

text \<open>
  The application errors (\<open>internal/common/errors/errors.go\<close>): the codes and kinds, the
  constructors with their default messages, the conversion \<open>From\<close> of an arbitrary error, the
  HTTP status, and the recognition of a client that went away.

  A Go \<open>error\<close> is a \<open>go_error\<close>: an \<open>*AppError\<close>, an opaque error with its text, an error that wraps
  another one (\<open>fmt.Errorf\<close> with \<open>%w\<close>, or a library error with \<open>Unwrap\<close>), or \<open>errors.Join\<close> of several.
  A fallible function returns \<open>go_error + 'a\<close>, the error on the left. The literals are the UTF-8 bytes
  of the source.
\<close>

section \<open>Errors\<close>

datatype error_kind =
    KindParams
  | KindAuth
  | KindForbidden
  | KindDataScopeDenied
  | KindMethodNotAllowed
  | KindNotFound
  | KindObjectState
  | KindRateLimited
  | KindSystem
  | KindServiceUnavailable
  | KindOperation
  | KindChallengeThrottle

definition CodeSuccess :: int where "CodeSuccess = 0"
definition CodeParamsError :: int where "CodeParamsError = 40000"
definition CodeNotLogin :: int where "CodeNotLogin = 40100"
definition CodeNoAuth :: int where "CodeNoAuth = 40101"
definition CodeChallengeRequired :: int where "CodeChallengeRequired = 40120"
definition CodeForbidden :: int where "CodeForbidden = 40300"
definition CodeDataScopeDenied :: int where "CodeDataScopeDenied = 40310"
definition CodeNotFound :: int where "CodeNotFound = 40400"
definition CodeObjectStateInvalid :: int where "CodeObjectStateInvalid = 40900"
definition CodeRateLimited :: int where "CodeRateLimited = 42900"
definition CodeSystemError :: int where "CodeSystemError = 50000"
definition CodeOperateError :: int where "CodeOperateError = 50001"
definition CodeServiceUnavailable :: int where "CodeServiceUnavailable = 50300"

datatype go_error =
    AppError (err_code: int) (err_kind: error_kind) (err_message: string) (err_details: anyv)
      (err_cause: "go_error option")
  | PlainError string
  | WrapError string go_error
  | JoinError "go_error list"

type_synonym 'a result = "go_error + 'a"

definition new_error :: "int \<Rightarrow> error_kind \<Rightarrow> string \<Rightarrow> go_error" where
  "new_error code kind message = AppError code kind message ANil None"

definition wrap_error :: "int \<Rightarrow> error_kind \<Rightarrow> string \<Rightarrow> go_error \<Rightarrow> go_error" where
  "wrap_error code kind message cause = AppError code kind message ANil (Some cause)"

fun with_details :: "go_error \<Rightarrow> anyv \<Rightarrow> go_error" where
  "with_details (AppError c k m d e) details = AppError c k m details e"
| "with_details e details = e"

definition or_default :: "string \<Rightarrow> string \<Rightarrow> string" where
  "or_default message fallback = (if message = [] then fallback else message)"

definition params_error :: "string \<Rightarrow> go_error" where
  "params_error message =
     new_error CodeParamsError KindParams
       (or_default message (utf8 [0x8BF7, 0x6C42, 0x53C2, 0x6570, 0x9519, 0x8BEF]))"

definition params_with_details :: "string \<Rightarrow> anyv \<Rightarrow> go_error" where
  "params_with_details message details = with_details (params_error message) details"

definition unauthorized :: "string \<Rightarrow> go_error" where
  "unauthorized message =
     new_error CodeNotLogin KindAuth (or_default message (utf8 [0x672A, 0x767B, 0x5F55]))"

definition challenge_required :: "string \<Rightarrow> anyv \<Rightarrow> go_error" where
  "challenge_required message details =
     with_details
       (new_error CodeChallengeRequired KindAuth
          (or_default message (utf8 [0x9700, 0x8981, 0x989D, 0x5916, 0x6311, 0x6218, 0x9A8C, 0x8BC1])))
       details"

definition forbidden :: "string \<Rightarrow> go_error" where
  "forbidden message =
     new_error CodeForbidden KindForbidden (or_default message (utf8 [0x65E0, 0x6743, 0x9650]))"

definition permission_denied :: "string \<Rightarrow> go_error" where
  "permission_denied permission =
     with_details (forbidden (utf8 [0x65E0, 0x6743, 0x9650]))
       (AMap [(''reasonCode'', AStr ''PERMISSION_NOT_GRANTED''),
              (''requiredPermission'', AStr (trim_space permission))])"

definition data_scope_denied :: "string \<Rightarrow> go_error" where
  "data_scope_denied message =
     new_error CodeDataScopeDenied KindDataScopeDenied
       (or_default message (utf8 [0x6570, 0x636E, 0x8303, 0x56F4, 0x4E0D, 0x8DB3]))"

definition method_not_allowed :: "string \<Rightarrow> go_error" where
  "method_not_allowed message =
     new_error CodeForbidden KindMethodNotAllowed
       (or_default message (utf8 [0x8BF7, 0x6C42, 0x65B9, 0x6CD5, 0x4E0D, 0x88AB, 0x5141, 0x8BB8]))"

definition not_found :: "string \<Rightarrow> go_error" where
  "not_found message =
     new_error CodeNotFound KindNotFound
       (or_default message (utf8 [0x8BF7, 0x6C42, 0x8DEF, 0x5F84, 0x4E0D, 0x5B58, 0x5728]))"

definition system_error :: "string \<Rightarrow> go_error" where
  "system_error message =
     new_error CodeSystemError KindSystem
       (or_default message (utf8 [0x7CFB, 0x7EDF, 0x5185, 0x90E8, 0x5F02, 0x5E38]))"

definition service_unavailable :: "string \<Rightarrow> go_error" where
  "service_unavailable message =
     new_error CodeServiceUnavailable KindServiceUnavailable
       (or_default message (utf8 [0x670D, 0x52A1, 0x6682, 0x65F6, 0x4E0D, 0x53EF, 0x7528]))"

definition operation_error :: "string \<Rightarrow> go_error" where
  "operation_error message =
     new_error CodeOperateError KindOperation
       (or_default message (utf8 [0x64CD, 0x4F5C, 0x5931, 0x8D25]))"

definition challenge_throttled :: "string \<Rightarrow> go_error" where
  "challenge_throttled message =
     new_error CodeRateLimited KindChallengeThrottle
       (or_default message
          (utf8 [0x6311, 0x6218, 0x89E6, 0x53D1, 0x8FC7, 0x4E8E, 0x9891, 0x7E41, 0xFF0C, 0x8BF7, 0x7A0D, 0x540E, 0x518D, 0x8BD5]))"

definition rate_limited :: "string \<Rightarrow> go_error" where
  "rate_limited message =
     new_error CodeRateLimited KindRateLimited
       (or_default message
          (utf8 [0x8BF7, 0x6C42, 0x8FC7, 0x4E8E, 0x9891, 0x7E41, 0xFF0C, 0x8BF7, 0x7A0D, 0x540E, 0x518D, 0x8BD5]))"

definition object_state_error :: "string \<Rightarrow> go_error" where
  "object_state_error message =
     new_error CodeObjectStateInvalid KindObjectState
       (or_default message (utf8 [0x5F53, 0x524D, 0x72B6, 0x6001, 0x4E0D, 0x5141, 0x8BB8, 0x64CD, 0x4F5C]))"

lemmas error_constructors =
  params_error_def unauthorized_def forbidden_def data_scope_denied_def method_not_allowed_def
  not_found_def system_error_def service_unavailable_def operation_error_def
  challenge_throttled_def rate_limited_def object_state_error_def new_error_def

section \<open>Reading an error\<close>

text \<open>\<open>Error()\<close>: \<open>errors.Join\<close> separates the texts with newlines.\<close>

fun join_lines :: "string list \<Rightarrow> string" where
  "join_lines [] = []"
| "join_lines [x] = x"
| "join_lines (x # xs) = x @ [CHR 0x0A] @ join_lines xs"

fun error_text :: "go_error \<Rightarrow> string" where
  "error_text (AppError c k m d e) = m"
| "error_text (PlainError s) = s"
| "error_text (WrapError s e) = s"
| "error_text (JoinError es) = join_lines (map error_text es)"

text \<open>\<open>errors.Unwrap\<close>: a joined error has no single cause.\<close>

fun unwrap :: "go_error \<Rightarrow> go_error option" where
  "unwrap (AppError c k m d e) = e"
| "unwrap (PlainError s) = None"
| "unwrap (WrapError s e) = Some e"
| "unwrap (JoinError es) = None"

text \<open>
  \<open>errors.As(err, &coded)\<close>: the first error of the tree, depth first, that implements the interface
  \<open>Error\<close>. \<open>*AppError\<close> is the only type of the repository that does.
\<close>

fun find_coded :: "go_error \<Rightarrow> go_error option"
  and find_coded_list :: "go_error list \<Rightarrow> go_error option" where
  "find_coded (AppError c k m d e) = Some (AppError c k m d e)"
| "find_coded (PlainError s) = None"
| "find_coded (WrapError s e) = find_coded e"
| "find_coded (JoinError es) = find_coded_list es"
| "find_coded_list [] = None"
| "find_coded_list (e # es) =
     (case find_coded e of None \<Rightarrow> find_coded_list es | Some a \<Rightarrow> Some a)"

definition from_error :: "go_error option \<Rightarrow> go_error option" where
  "from_error err =
     (case err of
        None \<Rightarrow> None
      | Some (AppError c k m d e) \<Rightarrow> Some (AppError c k m d e)
      | Some e \<Rightarrow>
          (case find_coded e of
             Some coded \<Rightarrow>
               Some (AppError (err_code coded) (err_kind coded) (err_message coded)
                       (err_details coded) (Some e))
           | None \<Rightarrow>
               Some (wrap_error CodeSystemError KindSystem
                       (utf8 [0x7CFB, 0x7EDF, 0x5185, 0x90E8, 0x5F02, 0x5E38]) e)))"

definition http_status :: "go_error option \<Rightarrow> nat" where
  "http_status err =
     (case from_error err of
        None \<Rightarrow> 200
      | Some e \<Rightarrow>
          (case err_kind e of
             KindNotFound \<Rightarrow> 404
           | KindMethodNotAllowed \<Rightarrow> 405
           | KindRateLimited \<Rightarrow> 429
           | KindChallengeThrottle \<Rightarrow> 429
           | KindServiceUnavailable \<Rightarrow> 503
           | _ \<Rightarrow> 200))"

definition disconnect_phrases :: "string list" where
  "disconnect_phrases =
     [''broken pipe'', ''connection reset by peer'', ''asyncrequestnotusableexception'',
      ''client disconnected'', ''client abort'', ''use of closed network connection'']"

text \<open>The loop follows \<open>errors.Unwrap\<close>, so it ends with the depth of the error.\<close>

fun disconnect_chain :: "go_error \<Rightarrow> bool" where
  "disconnect_chain e =
     ((let message = to_lower (trim_space (error_text e))
       in list_ex (contains message) disconnect_phrases)
      \<or> (case e of
           AppError c k m d (Some e') \<Rightarrow> disconnect_chain e'
         | WrapError s e' \<Rightarrow> disconnect_chain e'
         | _ \<Rightarrow> False))"

declare disconnect_chain.simps [simp del]

definition is_client_disconnect :: "go_error option \<Rightarrow> bool" where
  "is_client_disconnect err = (case err of None \<Rightarrow> False | Some e \<Rightarrow> disconnect_chain e)"

section \<open>Properties\<close>

definition is_app_error :: "go_error \<Rightarrow> bool" where
  "is_app_error e = (case e of AppError _ _ _ _ _ \<Rightarrow> True | _ \<Rightarrow> False)"

lemma find_coded_app:
  "find_coded e = Some a \<Longrightarrow> is_app_error a"
  "find_coded_list es = Some a \<Longrightarrow> is_app_error a"
  by (induction e and es rule: find_coded_find_coded_list.induct)
     (auto simp: is_app_error_def split: option.splits)

lemma from_error_app: "from_error (Some e) = Some a \<Longrightarrow> is_app_error a"
  by (auto simp: from_error_def is_app_error_def wrap_error_def split: go_error.splits option.splits)

lemma from_error_total: "\<exists>a. from_error (Some e) = Some a"
  by (auto simp: from_error_def split: go_error.splits option.splits)

lemma from_error_idem:
  assumes "from_error (Some e) = Some a"
  shows "from_error (Some a) = Some a"
  using from_error_app [OF assms] by (cases a) (auto simp: is_app_error_def from_error_def)

lemma from_error_AppError [simp]:
  "from_error (Some (AppError c k m d e)) = Some (AppError c k m d e)"
  by (simp add: from_error_def)

text \<open>
  The chain of causes as the loop of \<open>IsClientDisconnect\<close> visits it: an abstract reading of the
  error, the list of the visited texts.
\<close>

fun cause_texts :: "go_error \<Rightarrow> string list" where
  "cause_texts e =
     error_text e #
     (case e of
        AppError c k m d (Some e') \<Rightarrow> cause_texts e'
      | WrapError s e' \<Rightarrow> cause_texts e'
      | _ \<Rightarrow> [])"

declare cause_texts.simps [simp del]

lemma disconnect_chain_texts:
  "disconnect_chain e \<longleftrightarrow>
     (\<exists>t \<in> set (cause_texts e). \<exists>p \<in> set disconnect_phrases. contains (to_lower (trim_space t)) p)"
proof (induction e rule: cause_texts.induct)
  case (1 e)
  then show ?case
    by (subst disconnect_chain.simps, subst cause_texts.simps)
       (auto simp: list_ex_iff Let_def split: go_error.splits option.splits)
qed

end
