(* ===== verification/Sql_Model.thy ===== *)
theory Sql_Model
  imports App_Errors
begin

text \<open>
  How the repositories' SQL statements are modelled. A table is the list of its rows; a statement is a
  function on the list, and \<open>update_where\<close>/\<open>count_where\<close> of the prelude give an \<open>UPDATE ... WHERE\<close> and
  its number of affected rows. A nullable column is an \<open>option\<close>. Each statement also has an outcome
  of its execution: it succeeds, it is lost before it takes effect, or it takes effect and its
  acknowledgement is lost; in the last two cases the driver returns an error.

  String comparison is exact (the collation of a MySQL deployment may be coarser), and instants keep
  their nanoseconds (a \<open>DATETIME\<close> column may round them).
\<close>

datatype sql_outcome = SqlOk | SqlLost go_error | SqlUnacked go_error

definition exec_sql :: "sql_outcome \<Rightarrow> 'a \<times> 't \<Rightarrow> 't \<Rightarrow> 'a result \<times> 't" where
  "exec_sql outcome effect t =
     (case outcome of
        SqlOk \<Rightarrow> (Inr (fst effect), snd effect)
      | SqlLost e \<Rightarrow> (Inl e, t)
      | SqlUnacked e \<Rightarrow> (Inl e, snd effect))"

definition query_sql :: "sql_outcome \<Rightarrow> 'a \<Rightarrow> 'a result" where
  "query_sql outcome x = (case outcome of SqlOk \<Rightarrow> Inr x | SqlLost e \<Rightarrow> Inl e | SqlUnacked e \<Rightarrow> Inl e)"

definition update_rows :: "('r \<Rightarrow> bool) \<Rightarrow> ('r \<Rightarrow> 'r) \<Rightarrow> 'r list \<Rightarrow> nat \<times> 'r list" where
  "update_rows P f rs = (count_where P rs, update_where P f rs)"

text \<open>An \<open>INSERT\<close> fails with the driver's error \<open>dup\<close> when a row breaks a unique key.\<close>

definition insert_rows ::
    "go_error \<Rightarrow> ('r list \<Rightarrow> bool) \<Rightarrow> 'r list \<Rightarrow> sql_outcome \<Rightarrow> 'r list \<Rightarrow> unit result \<times> 'r list" where
  "insert_rows dup unique new outcome rs =
     (if unique (rs @ new) then exec_sql outcome ((), rs @ new) rs
      else case outcome of
             SqlOk \<Rightarrow> (Inl dup, rs)
           | SqlLost e \<Rightarrow> (Inl e, rs)
           | SqlUnacked e \<Rightarrow> (Inl e, rs))"

text \<open>\<open>nullString\<close> and \<open>nullTime\<close>: how the repositories write empty values, and how they read NULL.\<close>

definition null_string :: "string \<Rightarrow> string option" where
  "null_string v = (if blank v then None else Some v)"

definition null_time :: "time \<Rightarrow> time option" where
  "null_time t = (if is_zero_time t then None else Some t)"

definition string_of_null :: "string option \<Rightarrow> string" where
  "string_of_null v = (case v of None \<Rightarrow> [] | Some s \<Rightarrow> s)"

definition time_of_null :: "time option \<Rightarrow> time" where
  "time_of_null v = (case v of None \<Rightarrow> zero_time | Some t \<Rightarrow> t)"

lemma time_null_round [simp]: "time_of_null (null_time t) = t"
  by (simp add: time_of_null_def null_time_def is_zero_time_def)

lemma string_null_round: "\<not> blank v \<Longrightarrow> string_of_null (null_string v) = v"
  by (simp add: string_of_null_def null_string_def)

text \<open>Go on with the state after a step, unless the step returned an error.\<close>

definition then_do :: "'a result \<times> 's \<Rightarrow> ('a \<Rightarrow> 's \<Rightarrow> 'b result \<times> 's) \<Rightarrow> 'b result \<times> 's" where
  "then_do r f = (case r of (Inl e, s) \<Rightarrow> (Inl e, s) | (Inr x, s) \<Rightarrow> f x s)"

lemma then_do_simps [simp]:
  "then_do (Inl e, s) f = (Inl e, s)" "then_do (Inr x, s) f = f x s"
  by (simp_all add: then_do_def)

lemma then_do_Inr: "then_do r f = (Inr y, s') \<longleftrightarrow> (\<exists>x s. r = (Inr x, s) \<and> f x s = (Inr y, s'))"
  by (auto simp: then_do_def split: prod.splits sum.splits)

text \<open>
  A transaction: an error inside rolls everything back. A transaction that runs to its end may still be
  lost (a statement or the commit fails, nothing is kept) or commit without the caller learning it.
\<close>

definition within_transaction ::
    "sql_outcome \<Rightarrow> ('s \<Rightarrow> 'a result \<times> 's) \<Rightarrow> 's \<Rightarrow> 'a result \<times> 's" where
  "within_transaction outcome body st =
     (case body st of
        (Inl e, st') \<Rightarrow> (Inl e, st)
      | (Inr x, st') \<Rightarrow> exec_sql outcome (x, st') st)"

lemma within_transaction_Inr:
  "within_transaction outcome body st = (Inr x, st') \<longleftrightarrow> outcome = SqlOk \<and> body st = (Inr x, st')"
  by (cases outcome) (auto simp: within_transaction_def exec_sql_def split: prod.splits sum.splits)

lemma within_transaction_state:
  "snd (within_transaction outcome body st) = st \<or>
   (\<exists>x. body st = (Inr x, snd (within_transaction outcome body st)))"
  by (cases outcome) (auto simp: within_transaction_def exec_sql_def split: prod.splits sum.splits)

lemma exec_sql_simps [simp]:
  "exec_sql SqlOk effect t = (Inr (fst effect), snd effect)"
  "exec_sql (SqlLost e) effect t = (Inl e, t)"
  "exec_sql (SqlUnacked e) effect t = (Inl e, snd effect)"
  by (simp_all add: exec_sql_def)

lemma exec_sql_Inr: "exec_sql o1 effect t = (Inr x, t') \<longleftrightarrow> o1 = SqlOk \<and> effect = (x, t')"
  by (cases o1; cases effect) auto

lemma exec_sql_state: "snd (exec_sql o1 effect t) \<in> {t, snd effect}"
  by (cases o1) auto

lemma query_sql_Inr [simp]: "query_sql o1 x = Inr y \<longleftrightarrow> o1 = SqlOk \<and> x = y"
  by (cases o1) (auto simp: query_sql_def)

lemma query_sql_SqlOk [simp]: "query_sql SqlOk x = Inr x"
  by (simp add: query_sql_def)

lemma update_rows_none: "count_where P rs = 0 \<Longrightarrow> update_rows P f rs = (0, rs)"
  by (simp add: update_rows_def update_where_no_match)

lemma count_where_key:
  assumes "distinct (map key rs)" "\<And>r. P r \<Longrightarrow> key r = k"
  shows "count_where P rs \<le> 1"
proof (rule ccontr)
  assume "\<not> count_where P rs \<le> 1"
  then obtain a b ys where eq: "filter P rs = a # b # ys"
    unfolding count_where_def by (cases "filter P rs" rule: remdups_adj.cases) auto
  have "\<forall>x \<in> set (filter P rs). x \<in> set rs \<and> P x" by simp
  then have "a \<in> set rs" "b \<in> set rs" "P a" "P b"
    unfolding eq by simp_all
  moreover have "a \<noteq> b"
    using assms(1) eq by (metis distinct.simps(2) distinct_filter distinct_map list.set_intros(1))
  ultimately show False
    using assms by (metis distinct_map inj_onD)
qed

end
