(* ===== verification/Go_Lists.thy ===== *)
theory Go_Lists
  imports Seven_Prelude "HOL-Library.List_Lexorder" "HOL-Library.Char_ord"
begin

text \<open>
  Loops over slices that several components write out: removing duplicates through a map of seen
  values, sorting, cutting into chunks, and Go maps built by a loop.

  \<open>sort.Strings\<close> orders by bytes, which is the lexicographic order of byte strings; on integers
  \<open>sort.Slice\<close> with \<open><\<close> is the order of \<open>int\<close>. The results never depend on the stability of the sort.
\<close>

section \<open>Removing duplicates\<close>

text \<open>The elements in the order of their first occurrence.\<close>

definition distinct_first :: "'a list \<Rightarrow> 'a list" where
  "distinct_first xs = rev (remdups (rev xs))"

lemma set_distinct_first [simp]: "set (distinct_first xs) = set xs"
  by (simp add: distinct_first_def)

lemma distinct_distinct_first [simp]: "distinct (distinct_first xs)"
  by (simp add: distinct_first_def)

lemma distinct_first_Nil [simp]: "distinct_first [] = []"
  by (simp add: distinct_first_def)

lemma distinct_first_id: "distinct xs \<Longrightarrow> distinct_first xs = xs"
  by (simp add: distinct_first_def distinct_remdups_id)

lemma distinct_first_idem [simp]: "distinct_first (distinct_first xs) = distinct_first xs"
  by (simp add: distinct_first_id)

lemma distinct_first_eq_Nil [simp]: "distinct_first xs = [] \<longleftrightarrow> xs = []"
  by (simp add: distinct_first_def)

lemma length_distinct_first: "length (distinct_first xs) = card (set xs)"
  by (metis distinct_card distinct_distinct_first set_distinct_first)

text \<open>Positive identifiers, each once.\<close>

definition unique_int64 :: "int list \<Rightarrow> int list" where
  "unique_int64 values = distinct_first (filter (\<lambda>i. 0 < i) values)"

lemma set_unique_int64 [simp]: "set (unique_int64 ids) = {i \<in> set ids. 0 < i}"
  by (auto simp: unique_int64_def)

lemma distinct_unique_int64 [simp]: "distinct (unique_int64 ids)"
  by (simp add: unique_int64_def)

lemma unique_int64_Nil [simp]: "unique_int64 [] = []"
  by (simp add: unique_int64_def)

lemma unique_int64_id: "distinct ids \<Longrightarrow> \<forall>i \<in> set ids. 0 < i \<Longrightarrow> unique_int64 ids = ids"
  by (simp add: unique_int64_def distinct_first_id filter_id_conv)

lemma unique_int64_idem [simp]: "unique_int64 (unique_int64 ids) = unique_int64 ids"
  by (rule unique_int64_id) auto

lemma unique_int64_empty: "unique_int64 ids = [] \<longleftrightarrow> (\<forall>i \<in> set ids. i \<le> 0)"
proof -
  have "unique_int64 ids = [] \<longleftrightarrow> set (unique_int64 ids) = {}" by (simp only: set_empty)
  also have "\<dots> \<longleftrightarrow> (\<forall>i \<in> set ids. i \<le> 0)" by (auto simp: not_less)
  finally show ?thesis .
qed

text \<open>Trimmed strings, without blank ones, each once.\<close>

definition unique_string :: "string list \<Rightarrow> string list" where
  "unique_string values = distinct_first (filter (\<lambda>v. v \<noteq> []) (map trim_space values))"

lemma set_unique_string [simp]: "set (unique_string vs) = trim_space ` set vs - {[]}"
  by (auto simp: unique_string_def)

lemma distinct_unique_string [simp]: "distinct (unique_string vs)"
  by (simp add: unique_string_def)

lemma unique_string_Nil [simp]: "unique_string [] = []"
  by (simp add: unique_string_def)

section \<open>Sorting\<close>

definition sorted_ids :: "int list \<Rightarrow> int list" where
  "sorted_ids values = sort (unique_int64 values)"

lemma set_sorted_ids [simp]: "set (sorted_ids ids) = {i \<in> set ids. 0 < i}"
  by (simp add: sorted_ids_def)

lemma sorted_ids_sorted [simp]: "sorted (sorted_ids ids)" "distinct (sorted_ids ids)"
  by (simp_all add: sorted_ids_def)

lemma sorted_ids_determined: "{i \<in> set xs. 0 < i} = {i \<in> set ys. 0 < i} \<Longrightarrow> sorted_ids xs = sorted_ids ys"
  by (rule sorted_distinct_set_unique) simp_all

lemma sorted_ids_idem [simp]: "sorted_ids (sorted_ids ids) = sorted_ids ids"
  by (rule sorted_ids_determined) auto

section \<open>Chunks\<close>

function chunks :: "nat \<Rightarrow> 'a list \<Rightarrow> 'a list list" where
  "chunks n xs = (if n = 0 \<or> xs = [] then [] else take n xs # chunks n (drop n xs))"
  by pat_completeness auto
termination by (relation "measure (\<lambda>(n, xs). length xs)") auto

declare chunks.simps [simp del]

lemma concat_chunks: "0 < n \<Longrightarrow> concat (chunks n xs) = xs"
proof (induction n xs rule: chunks.induct)
  case (1 n xs)
  then show ?case by (cases "xs = []") (subst chunks.simps, simp)+
qed

lemma chunks_length: "c \<in> set (chunks n xs) \<Longrightarrow> length c \<le> n"
proof (induction n xs rule: chunks.induct)
  case (1 n xs)
  from "1.prems" have "n \<noteq> 0 \<and> xs \<noteq> [] \<and> (c = take n xs \<or> c \<in> set (chunks n (drop n xs)))"
    by (subst (asm) chunks.simps) (auto split: if_splits)
  then show ?case using "1.IH" by auto
qed

lemma set_chunks: "0 < n \<Longrightarrow> (\<Union>c \<in> set (chunks n xs). set c) = set xs"
  using concat_chunks [of n xs] by (metis set_concat)

section \<open>Maps built by a loop\<close>

text \<open>\<open>for _, x := range xs { m[key(x)] = x }\<close>: a later entry overwrites an earlier one.\<close>

definition by_key :: "('a \<Rightarrow> 'k) \<Rightarrow> 'a list \<Rightarrow> 'k \<rightharpoonup> 'a" where
  "by_key key xs = map_of (rev (map (\<lambda>x. (key x, x)) xs))"

lemma by_key_Nil [simp]: "by_key key [] = Map.empty"
  by (simp add: by_key_def)

lemma by_key_append: "by_key key (xs @ [x]) = (by_key key xs)(key x \<mapsto> x)"
  by (simp add: by_key_def)

lemma by_key_Some: "by_key key xs k = Some x \<Longrightarrow> x \<in> set xs \<and> key x = k"
  by (auto simp: by_key_def dest: map_of_SomeD)

lemma by_key_dom: "by_key key xs k = None \<longleftrightarrow> k \<notin> key ` set xs"
  by (auto simp: by_key_def map_of_eq_None_iff image_iff)

lemma by_key_distinct:
  assumes "distinct (map key xs)" "x \<in> set xs"
  shows "by_key key xs (key x) = Some x"
proof -
  have "distinct (map fst (rev (map (\<lambda>x. (key x, x)) xs)))"
    using assms(1) by (simp add: rev_map comp_def flip: distinct_rev [of "map key xs"])
  then show ?thesis using assms(2) by (simp add: by_key_def map_of_eq_Some_iff)
qed

lemma in_map_filter: "x \<in> set (List.map_filter f xs) \<longleftrightarrow> (\<exists>y \<in> set xs. f y = Some x)"
  by (force simp: map_filter_def image_iff)

end
