(* ===== verification/Authz_Policy.thy ===== *)
theory Authz_Policy
  imports Sql_Model Go_Lists
begin

text \<open>
  The decisions of the authorization component that need no state: the protection of roles
  (\<open>app/authorization/domain/role_security.go\<close>), which permission code allows which
  (\<open>permissionMatches\<close> and its callers in \<open>application/service.go\<close>), the data scope of a set of roles
  (\<open>domain/service.go\<close>), temporary permissions, the optional features of a deployment
  (\<open>shared/features\<close>), the proof a privileged operation demands (\<open>shared/stepup\<close>) with the bindings
  that tie it to one operation, and the records built from the commands of the administration.

  The creation and update instants of rows are not represented: no modelled operation reads them.
\<close>

section \<open>Roles\<close>

record role_record =
  ro_id :: int
  ro_name :: string
  ro_code :: string
  ro_system_key :: string
  ro_type :: int
  ro_status :: int
  ro_data_scope :: int
  ro_sort :: int
  ro_remark :: string
  ro_revision :: int

definition RoleTypeSystem :: int where "RoleTypeSystem = 1"
definition RoleStatusEnabled :: int where "RoleStatusEnabled = 0"
definition AuthorizationRootSystemKey :: string where "AuthorizationRootSystemKey = ''AUTHORIZATION_ROOT''"

definition is_system :: "role_record \<Rightarrow> bool" where
  "is_system r \<longleftrightarrow> ro_type r = RoleTypeSystem"

definition is_authorization_root :: "role_record \<Rightarrow> bool" where
  "is_authorization_root r \<longleftrightarrow> equal_fold (trim_space (ro_system_key r)) AuthorizationRootSystemKey"

definition is_active_super_admin :: "role_record \<Rightarrow> bool" where
  "is_active_super_admin r \<longleftrightarrow> is_authorization_root r \<and> ro_status r = RoleStatusEnabled"

datatype role_protection =
    RoleProtectionNone
  | RoleProtectionCode
  | RoleProtectionType
  | RoleProtectionStatus
  | RoleProtectionDataScope

definition protected_mutation :: "role_record \<Rightarrow> role_record \<Rightarrow> role_protection" where
  "protected_mutation r next_role =
     (if \<not> is_system r then RoleProtectionNone
      else if trim_space (ro_code r) \<noteq> trim_space (ro_code next_role) then RoleProtectionCode
      else if ro_type r \<noteq> ro_type next_role then RoleProtectionType
      else if ro_status r \<noteq> ro_status next_role then RoleProtectionStatus
      else if ro_data_scope r \<noteq> ro_data_scope next_role then RoleProtectionDataScope
      else RoleProtectionNone)"

record super_admin_snapshot =
  sa_active_users :: nat
  sa_target_active :: bool

definition would_remove_last_user :: "super_admin_snapshot \<Rightarrow> bool \<Rightarrow> bool" where
  "would_remove_last_user s next_has_super_admin \<longleftrightarrow>
     sa_target_active s \<and> \<not> next_has_super_admin \<and> sa_active_users s \<le> 1"

definition would_remove_active_role :: "super_admin_snapshot \<Rightarrow> role_record \<Rightarrow> role_record \<Rightarrow> bool" where
  "would_remove_active_role s current next_role \<longleftrightarrow>
     is_active_super_admin current \<and> \<not> is_active_super_admin next_role \<and> 0 < sa_active_users s"

definition is_admin :: "role_record list \<Rightarrow> bool" where
  "is_admin roles \<longleftrightarrow> list_ex is_active_super_admin roles"

definition system_role_protection_error :: "role_protection \<Rightarrow> go_error" where
  "system_role_protection_error v =
     (case v of
        RoleProtectionCode \<Rightarrow> operation_error (''SYSTEM'' @ utf8 [0x89D2, 0x8272, 0x7F16, 0x7801, 0x4E0D, 0x53EF, 0x4FEE, 0x6539])
      | RoleProtectionType \<Rightarrow> operation_error (''SYSTEM'' @ utf8 [0x89D2, 0x8272, 0x7C7B, 0x578B, 0x4E0D, 0x53EF, 0x4FEE, 0x6539])
      | RoleProtectionStatus \<Rightarrow> operation_error (''SYSTEM'' @ utf8 [0x89D2, 0x8272, 0x4E0D, 0x53EF, 0x7981, 0x7528])
      | _ \<Rightarrow> operation_error (''SYSTEM'' @ utf8 [0x89D2, 0x8272, 0x53D7, 0x4FDD, 0x62A4]))"

definition last_super_admin_error :: go_error where
  "last_super_admin_error = operation_error (utf8 [0x5FC5, 0x987B, 0x4FDD, 0x7559, 0x81F3, 0x5C11, 0x4E00, 0x4E2A, 0x6709, 0x6548, 0x8D85, 0x7EA7, 0x7BA1, 0x7406, 0x5458])"

definition role_type_code :: "string \<Rightarrow> int" where
  "role_type_code value =
     (let v = to_upper (trim_space value)
      in if v = ''SYSTEM'' then 1 else if v = ''BUSINESS'' then 2 else 3)"

definition role_type_name :: "int \<Rightarrow> string" where
  "role_type_name value =
     (if value = 1 then ''SYSTEM'' else if value = 2 then ''BUSINESS'' else ''CUSTOM'')"

record role_command =
  rc_id :: int
  rc_name :: string
  rc_code :: string
  rc_type :: string
  rc_status :: "int option"
  rc_data_scope :: "int option"
  rc_sort_order :: "int option"
  rc_sort :: "int option"
  rc_remark :: string
  rc_operator :: int

definition int_value :: "int option \<Rightarrow> int \<Rightarrow> int" where
  "int_value v fallback = (case v of None \<Rightarrow> fallback | Some x \<Rightarrow> x)"

text \<open>
  The flag \<open>creating\<close> changes nothing: a blank type is already \<open>CUSTOM\<close>. Fields the builder leaves
  alone have Go's zero value.
\<close>

definition build_role_record :: "role_command \<Rightarrow> bool \<Rightarrow> role_record result" where
  "build_role_record c creating =
     (let name = trim_space (rc_name c); code = trim_space (rc_code c)
      in if name = [] \<or> code = [] then Inl (params_error (utf8 [0x89D2, 0x8272, 0x540D, 0x79F0, 0x548C, 0x7F16, 0x7801, 0x4E0D, 0x80FD, 0x4E3A, 0x7A7A]))
         else if 30 < rune_count name then Inl (params_error (utf8 [0x89D2, 0x8272, 0x540D, 0x79F0, 0x6700, 0x591A] @ ''30'' @ utf8 [0x4E2A, 0x5B57, 0x7B26]))
         else if 100 < rune_count code then Inl (params_error (utf8 [0x89D2, 0x8272, 0x7F16, 0x7801, 0x6700, 0x591A] @ ''100'' @ utf8 [0x4E2A, 0x5B57, 0x7B26]))
         else Inr \<lparr>ro_id = 0, ro_name = name, ro_code = code, ro_system_key = [],
                   ro_type = (if creating \<and> trim_space (rc_type c) = [] then 3 else role_type_code (rc_type c)),
                   ro_status = int_value (rc_status c) 0, ro_data_scope = int_value (rc_data_scope c) 1,
                   ro_sort = (case rc_sort_order c of Some v \<Rightarrow> v | None \<Rightarrow> int_value (rc_sort c) 0),
                   ro_remark = rc_remark c, ro_revision = 0\<rparr>)"

section \<open>Permission codes\<close>

definition has_suffix :: "string \<Rightarrow> string \<Rightarrow> bool" where
  "has_suffix s p \<longleftrightarrow> starts_with (rev p) (rev s)"

definition trim_suffix :: "string \<Rightarrow> string \<Rightarrow> string" where
  "trim_suffix s p = (if has_suffix s p then take (length s - length p) s else s)"

definition permission_matches :: "string \<Rightarrow> string \<Rightarrow> bool" where
  "permission_matches candidate permission =
     (let c = trim_space candidate; p = trim_space permission
      in if c = [] \<or> p = [] then False
         else if c = ''*'' \<or> c = p then True
         else if has_suffix c '':*'' then has_prefix p (trim_suffix c ''*'')
         else False)"

definition permission_code_set_allows :: "string list \<Rightarrow> string \<Rightarrow> bool" where
  "permission_code_set_allows held requested =
     (if trim_space requested = [] then False
      else list_ex (\<lambda>c. permission_matches c (trim_space requested)) held)"

definition normalize_permission_codes :: "string list \<Rightarrow> string list" where
  "normalize_permission_codes values =
     distinct_first (filter (\<lambda>v. v \<noteq> []) (map trim_space values))"

definition normalize_codes :: "string list \<Rightarrow> string list" where
  "normalize_codes values = sort (distinct_first (filter (\<lambda>v. v \<noteq> []) (map trim_space values)))"

fun replace_char :: "char \<Rightarrow> char \<Rightarrow> string \<Rightarrow> string" where
  "replace_char a b [] = []"
| "replace_char a b (c # s) = (if c = a then b else c) # replace_char a b s"

definition filter_permissions_by_module :: "string list \<Rightarrow> string \<Rightarrow> string list" where
  "filter_permissions_by_module values module_name =
     (let m = trim_space (to_lower module_name)
      in if m = [] then normalize_codes values
         else let m1 = replace_char (CHR ''-'') (CHR '':'') m
              in normalize_codes
                   (filter (\<lambda>v. let c = trim_space (to_lower v)
                                in c \<noteq> [] \<and> (has_prefix c m1 \<or> contains c m1)) values))"

section \<open>Data scope\<close>

datatype data_scope_type =
    DataScopeNone
  | DataScopeAll
  | DataScopeCustom
  | DataScopeDept
  | DataScopeDeptAndChild
  | DataScopeSelf

record user_data_scope =
  ds_depts :: "int list"
  ds_orgs :: "int list"
  ds_type :: data_scope_type

text \<open>The smallest of the data scopes 1 to 5 of the roles, 99 when there is none.\<close>

definition best_data_scope :: "role_record list \<Rightarrow> int" where
  "best_data_scope roles =
     foldl (\<lambda>best r. if 1 \<le> ro_data_scope r \<and> ro_data_scope r \<le> 5 then min best (ro_data_scope r) else best)
       99 roles"

definition effective_data_scope ::
    "role_record list \<Rightarrow> int list \<Rightarrow> int list \<Rightarrow> int list \<Rightarrow> (int \<rightharpoonup> string) \<Rightarrow> (string \<rightharpoonup> int list) \<Rightarrow>
     user_data_scope" where
  "effective_data_scope roles custom depts orgs hierarchies by_hierarchy =
     (if roles = [] then \<lparr>ds_depts = [], ds_orgs = [], ds_type = DataScopeNone\<rparr>
      else
        let best = best_data_scope roles;
            of_dept = (\<lambda>d. let h = trim_space (case hierarchies d of None \<Rightarrow> [] | Some h \<Rightarrow> h)
                          in if h = [] then [d]
                             else (case by_hierarchy h of None \<Rightarrow> [] | Some ds \<Rightarrow> ds))
        in if best = 1 then \<lparr>ds_depts = [], ds_orgs = [], ds_type = DataScopeAll\<rparr>
           else if best = 2 then \<lparr>ds_depts = sorted_ids custom, ds_orgs = sorted_ids orgs, ds_type = DataScopeCustom\<rparr>
           else if best = 3 then \<lparr>ds_depts = sorted_ids depts, ds_orgs = sorted_ids orgs, ds_type = DataScopeDept\<rparr>
           else if best = 4 then \<lparr>ds_depts = sorted_ids (concat (map of_dept (sorted_ids depts))),
                                  ds_orgs = sorted_ids orgs, ds_type = DataScopeDeptAndChild\<rparr>
           else if best = 5 then \<lparr>ds_depts = sorted_ids depts, ds_orgs = sorted_ids orgs, ds_type = DataScopeSelf\<rparr>
           else \<lparr>ds_depts = sorted_ids depts, ds_orgs = sorted_ids orgs, ds_type = DataScopeNone\<rparr>)"

section \<open>Temporary permissions\<close>

record temporary_permission =
  tp_user :: int
  tp_code :: string
  tp_name :: string
  tp_type :: int
  tp_expire :: "time option"
  tp_source :: string
  tp_reason :: string
  tp_granted_by :: int

definition is_temp_permission_valid :: "temporary_permission \<Rightarrow> time \<Rightarrow> bool" where
  "is_temp_permission_valid item now =
     (if tp_type item \<noteq> 1 then True
      else case tp_expire item of None \<Rightarrow> True | Some e \<Rightarrow> now < e)"

datatype temporary_status = TempPermanent | TempExpired | TempActive

definition temporary_permission_status :: "temporary_permission \<Rightarrow> time \<Rightarrow> temporary_status" where
  "temporary_permission_status item now =
     (if tp_type item \<noteq> 1 then TempPermanent
      else case tp_expire item of
             None \<Rightarrow> TempPermanent
           | Some e \<Rightarrow> if \<not> now < e then TempExpired else TempActive)"

section \<open>Features of a deployment\<close>

definition PlatformControl :: string where "PlatformControl = ''platform.control''"
definition FederationHub :: string where "FederationHub = ''federation.hub''"
definition FederationNode :: string where "FederationNode = ''federation.node''"
definition DockerAdmin :: string where "DockerAdmin = ''docker.admin''"

definition known_feature :: "string \<Rightarrow> bool" where
  "known_feature code \<longleftrightarrow> code \<in> set [PlatformControl, FederationHub, FederationNode, DockerAdmin]"

text \<open>The mode of the platform is a string of the configuration; the docker switch a boolean.\<close>

definition resolve_features :: "string \<Rightarrow> bool \<Rightarrow> string list" where
  "resolve_features mode docker =
     (if mode = ''hub'' then [PlatformControl, FederationHub]
      else if mode = ''node'' then [FederationNode] else [])
     @ (if docker then [DockerAdmin] else [])"

definition without_feature :: "string list \<Rightarrow> string \<Rightarrow> string list" where
  "without_feature fs code = filter (\<lambda>f. f \<noteq> code) fs"

definition enabled_codes :: "string list \<Rightarrow> string list" where
  "enabled_codes fs = sort fs"

definition feature_enabled :: "string list option \<Rightarrow> string \<Rightarrow> bool" where
  "feature_enabled features code =
     (let c = trim_space code
      in c = [] \<or> (case features of None \<Rightarrow> True | Some fs \<Rightarrow> c \<in> set fs))"

section \<open>Menus and permissions\<close>

record menu_record =
  mn_id :: int
  mn_parent :: int
  mn_sort :: int
  mn_name :: string
  mn_path :: string
  mn_component :: string
  mn_type :: string
  mn_permission :: string
  mn_feature :: string
  mn_icon :: string
  mn_status :: int
  mn_visible :: int
  mn_frame :: int
  mn_cache :: int
  mn_remark :: string

record permission_record =
  pm_id :: int
  pm_code :: string
  pm_feature :: string
  pm_name :: string
  pm_resource :: string
  pm_method :: string
  pm_path :: string
  pm_status :: int
  pm_description :: string

record menu_command =
  mc_id :: int
  mc_parent :: int
  mc_name :: string
  mc_sort :: "int option"
  mc_path :: string
  mc_component :: string
  mc_type :: string
  mc_status :: "int option"
  mc_permission :: string
  mc_feature :: string
  mc_icon :: string
  mc_frame :: "int option"
  mc_cache :: "int option"
  mc_visible :: "int option"
  mc_remark :: string
  mc_operator :: int

record permission_command =
  pc_id :: int
  pc_code :: string
  pc_feature :: string
  pc_name :: string
  pc_resource :: string
  pc_method :: string
  pc_path :: string
  pc_status :: "int option"
  pc_description :: string
  pc_operator :: int

text \<open>\<open>buildMenuRecord\<close> after the parent was looked up: \<open>parent_found\<close> is the answer of that lookup.\<close>

definition build_menu_record :: "menu_command \<Rightarrow> (int \<Rightarrow> bool) \<Rightarrow> menu_record result" where
  "build_menu_record c parent_found =
     (let name = trim_space (mc_name c); kind = trim_space (mc_type c); feature = trim_space (mc_feature c)
      in if name = [] \<or> kind = [] then Inl (params_error (utf8 [0x83DC, 0x5355, 0x540D, 0x79F0, 0x548C, 0x7C7B, 0x578B, 0x4E0D, 0x80FD, 0x4E3A, 0x7A7A]))
         else if 0 < mc_parent c \<and> \<not> parent_found (mc_parent c) then Inl (params_error (utf8 [0x7236, 0x83DC, 0x5355, 0x4E0D, 0x5B58, 0x5728]))
         else if feature \<noteq> [] \<and> \<not> known_feature feature then Inl (params_error (utf8 [0x529F, 0x80FD, 0x80FD, 0x529B, 0x7F16, 0x7801, 0x65E0, 0x6548]))
         else Inr \<lparr>mn_id = 0, mn_parent = mc_parent c, mn_sort = int_value (mc_sort c) 0, mn_name = name,
                   mn_path = trim_space (mc_path c), mn_component = trim_space (mc_component c),
                   mn_type = kind, mn_permission = trim_space (mc_permission c), mn_feature = feature,
                   mn_icon = trim_space (mc_icon c), mn_status = int_value (mc_status c) 0,
                   mn_visible = int_value (mc_visible c) 0, mn_frame = int_value (mc_frame c) 0,
                   mn_cache = int_value (mc_cache c) 0, mn_remark = mc_remark c\<rparr>)"

definition build_permission_record :: "permission_command \<Rightarrow> permission_record result" where
  "build_permission_record c =
     (let code = trim_space (pc_code c); name = trim_space (pc_name c);
          resource = trim_space (pc_resource c); feature = trim_space (pc_feature c)
      in if code = [] \<or> name = [] then Inl (params_error (utf8 [0x6743, 0x9650, 0x7F16, 0x7801, 0x548C, 0x540D, 0x79F0, 0x4E0D, 0x80FD, 0x4E3A, 0x7A7A]))
         else if feature \<noteq> [] \<and> \<not> known_feature feature then Inl (params_error (utf8 [0x529F, 0x80FD, 0x80FD, 0x529B, 0x7F16, 0x7801, 0x65E0, 0x6548]))
         else Inr \<lparr>pm_id = 0, pm_code = code, pm_feature = feature, pm_name = name,
                   pm_resource = (if resource = [] then ''API'' else resource),
                   pm_method = trim_space (pc_method c), pm_path = trim_space (pc_path c),
                   pm_status = int_value (pc_status c) 0, pm_description = pc_description c\<rparr>)"

definition intersect_ids :: "int list \<Rightarrow> int list \<Rightarrow> int list" where
  "intersect_ids values allowed = distinct_first (filter (\<lambda>i. i \<in> set allowed) values)"

definition subtract_ids :: "int list \<Rightarrow> int list \<Rightarrow> int list" where
  "subtract_ids left right = filter (\<lambda>i. i \<notin> set right) (sorted_ids left)"

definition ids_within_guard :: "int list \<Rightarrow> int list \<Rightarrow> bool" where
  "ids_within_guard ids guard = list_all (\<lambda>i. i \<in> set (unique_int64 guard)) (unique_int64 ids)"

section \<open>Proof of a privileged operation\<close>

record proof_metadata =
  pf_action :: string
  pf_binding :: string
  pf_proof_id :: string
  pf_challenge_id :: string
  pf_level :: string
  pf_methods :: "string list"

definition accepted_privileged_proof_methods :: "string list" where
  "accepted_privileged_proof_methods =
     [''WEBAUTHN_PASSKEY_ASSERTION'', ''PASSKEY'', ''TIME_BASED_ONE_TIME_PASSWORD'', ''TOTP'',
      ''EMAIL_ONE_TIME_PASSWORD'', ''EMAIL_OTP'']"

definition normalized_proof :: "proof_metadata \<Rightarrow> proof_metadata" where
  "normalized_proof p =
     \<lparr>pf_action = trim_space (pf_action p), pf_binding = trim_space (pf_binding p),
      pf_proof_id = trim_space (pf_proof_id p), pf_challenge_id = trim_space (pf_challenge_id p),
      pf_level = to_upper (trim_space (pf_level p)),
      pf_methods = map to_upper (filter (\<lambda>v. v \<noteq> []) (map trim_space (pf_methods p)))\<rparr>"

definition has_accepted_privileged_proof_method :: "string list \<Rightarrow> bool" where
  "has_accepted_privileged_proof_method ms \<longleftrightarrow>
     list_ex (\<lambda>m. to_upper (trim_space m) \<in> set accepted_privileged_proof_methods) ms"

definition require_proof :: "proof_metadata \<Rightarrow> string \<Rightarrow> string \<Rightarrow> unit result" where
  "require_proof p action binding =
     (let n = normalized_proof p; a = trim_space action; b = trim_space binding
      in if a = [] \<or> b = [] then Inl (system_error (''step-up proof contract'' @ utf8 [0x672A, 0x914D, 0x7F6E]))
         else if pf_proof_id n = [] then Inl (forbidden (utf8 [0x7F3A, 0x5C11] @ ''step-up proof'' @ utf8 [0x5143, 0x6570, 0x636E]))
         else if pf_challenge_id n = [] then Inl (forbidden (utf8 [0x7F3A, 0x5C11] @ ''step-up challenge'' @ utf8 [0x5143, 0x6570, 0x636E]))
         else if pf_level n \<noteq> ''AAL2'' then Inl (forbidden (''step-up proof'' @ utf8 [0x4FDD, 0x8BC1, 0x7B49, 0x7EA7, 0x4E0D, 0x8DB3]))
         else if \<not> has_accepted_privileged_proof_method (pf_methods n)
           then Inl (forbidden (''step-up proof'' @ utf8 [0x8BA4, 0x8BC1, 0x65B9, 0x5F0F, 0x4E0D, 0x8DB3]))
         else if pf_action n \<noteq> a then Inl (forbidden (''step-up proof'' @ utf8 [0x4E1A, 0x52A1, 0x52A8, 0x4F5C, 0x4E0D, 0x5339, 0x914D]))
         else if pf_binding n \<noteq> b then Inl (forbidden (''step-up proof'' @ utf8 [0x64CD, 0x4F5C, 0x7ED1, 0x5B9A, 0x4E0D, 0x5339, 0x914D]))
         else Inr ())"

section \<open>What a proof is bound to\<close>

fun join_comma :: "string list \<Rightarrow> string" where
  "join_comma [] = []"
| "join_comma [x] = x"
| "join_comma (x # xs) = x @ '','' @ join_comma xs"

definition join_sorted_ids :: "int list \<Rightarrow> string" where
  "join_sorted_ids ids = join_comma (map show_int (sorted_ids ids))"

definition user_role_assignment_binding :: "int \<Rightarrow> int list \<Rightarrow> string" where
  "user_role_assignment_binding user ids = ''user:'' @ show_int user @ ''|roles:'' @ join_sorted_ids ids"

definition created_user_role_assignment_binding :: "string \<Rightarrow> int list \<Rightarrow> string" where
  "created_user_role_assignment_binding username ids =
     ''user:create:'' @ trim_space username @ ''|roles:'' @ join_sorted_ids ids"

definition role_permission_assignment_binding :: "int \<Rightarrow> int list \<Rightarrow> int list \<Rightarrow> string" where
  "role_permission_assignment_binding role permissions menus =
     ''role:'' @ show_int role @ ''|permissions:'' @ join_sorted_ids permissions
       @ ''|menus:'' @ join_sorted_ids menus"

definition role_menu_assignment_binding :: "int \<Rightarrow> int list \<Rightarrow> string" where
  "role_menu_assignment_binding role menus = ''role:'' @ show_int role @ ''|menus:'' @ join_sorted_ids menus"

definition role_dept_assignment_binding :: "int \<Rightarrow> int list \<Rightarrow> string" where
  "role_dept_assignment_binding role depts = ''role:'' @ show_int role @ ''|depts:'' @ join_sorted_ids depts"

definition menu_permission_assignment_binding :: "int \<Rightarrow> int list \<Rightarrow> string" where
  "menu_permission_assignment_binding menu permissions =
     ''menu:'' @ show_int menu @ ''|permissions:'' @ join_sorted_ids permissions"

text \<open>\<open>digest\<close> is the hexadecimal SHA-256 and \<open>instant\<close> the RFC 3339 text of an instant in UTC.\<close>

definition temporary_permission_binding ::
    "(string \<Rightarrow> string) \<Rightarrow> (time \<Rightarrow> string) \<Rightarrow> string \<Rightarrow> int \<Rightarrow> string \<Rightarrow> time option \<Rightarrow> string \<Rightarrow> string" where
  "temporary_permission_binding digest instant action user code expire reason =
     (let nul = [CHR 0x00];
          payload = trim_space action @ nul @ show_int user @ nul @ trim_space code @ nul
                      @ (case expire of None \<Rightarrow> [] | Some e \<Rightarrow> instant e) @ nul @ trim_space reason
      in ''user:'' @ show_int user @ ''|permission:'' @ trim_space code @ ''|changeHash:'' @ digest payload)"

end
