(* ===== verification/Tx_Store.thy ===== *)
theory Tx_Store
  imports Sql_Model
begin

text \<open>
  The transaction boundaries of \<open>infrastructure/datasource/store/tx.go\<close>. A Go context carries the
  transaction it runs in, so a boundary behaves differently when it is entered inside another one:
  \<open>WithinTransaction\<close> joins any transaction, while \<open>WithinConsistentTransaction\<close> and
  \<open>WithinReadOnlySnapshot\<close> join only a repeatable-read one and refuse an ordinary one.

  The context is the \<open>tx_mode\<close> handed to the body. The outermost boundary rolls back on an error and
  may fail at the commit, as \<open>within_transaction\<close> says; a joined boundary does neither. A snapshot is
  read-only: what its body would write is dropped. The queues of callbacks after commit and rollback
  run local cache actions, which no modelled state depends on; only whether they can be registered
  is represented.
\<close>

section \<open>Going on after a fallible step\<close>

definition if_ok :: "'a result \<Rightarrow> ('a \<Rightarrow> 'b result) \<Rightarrow> 'b result" where
  "if_ok r f = (case r of Inl e \<Rightarrow> Inl e | Inr x \<Rightarrow> f x)"

lemma if_ok_simps [simp]: "if_ok (Inl e) f = Inl e" "if_ok (Inr x) f = f x"
  by (simp_all add: if_ok_def)

lemma if_ok_Inr: "if_ok r f = Inr y \<longleftrightarrow> (\<exists>x. r = Inr x \<and> f x = Inr y)"
  by (cases r) simp_all

lemma if_ok_cong [fundef_cong]:
  "r = r' \<Longrightarrow> (\<And>x. r' = Inr x \<Longrightarrow> f x = g x) \<Longrightarrow> if_ok r f = if_ok r' g"
  by (cases r') simp_all

text \<open>A check that returns an error or lets the code go on.\<close>

definition require :: "bool \<Rightarrow> go_error \<Rightarrow> unit result" where
  "require ok e = (if ok then Inr () else Inl e)"

lemma require_Inr [simp]: "require ok e = Inr u \<longleftrightarrow> ok"
  by (simp add: require_def)

section \<open>Contexts\<close>

datatype tx_mode = NoTx | OrdinaryTx | ConsistentTx | SnapshotTx

definition in_consistent_transaction :: "tx_mode \<Rightarrow> bool" where
  "in_consistent_transaction m \<longleftrightarrow> m = ConsistentTx \<or> m = SnapshotTx"

text \<open>\<open>RegisterAfterCommit\<close> and \<open>RegisterAfterRollback\<close>: a read-only snapshot has no queue.\<close>

definition has_callbacks :: "tx_mode \<Rightarrow> bool" where
  "has_callbacks m \<longleftrightarrow> m = OrdinaryTx \<or> m = ConsistentTx"

definition not_consistent :: go_error where
  "not_consistent = PlainError ''existing sqlx transaction is not a repeatable-read consistent transaction''"

definition not_snapshot :: go_error where
  "not_snapshot = PlainError ''existing sqlx transaction is not a read-only repeatable-read snapshot''"

type_synonym ('a, 'd) tx_body = "tx_mode \<Rightarrow> 'd \<Rightarrow> 'a result \<times> 'd"

definition tx_ordinary :: "sql_outcome \<Rightarrow> ('a, 'd) tx_body \<Rightarrow> ('a, 'd) tx_body" where
  "tx_ordinary outcome body m d =
     (if m = NoTx then within_transaction outcome (body OrdinaryTx) d else body m d)"

definition tx_snapshot :: "sql_outcome \<Rightarrow> ('a, 'd) tx_body \<Rightarrow> ('a, 'd) tx_body" where
  "tx_snapshot outcome body m d =
     (if m = NoTx then
        (case body SnapshotTx d of
           (Inl e, _) \<Rightarrow> (Inl e, d)
         | (Inr x, _) \<Rightarrow> (query_sql outcome x, d))
      else if in_consistent_transaction m then body m d
      else (Inl not_snapshot, d))"

definition tx_consistent :: "sql_outcome \<Rightarrow> ('a, 'd) tx_body \<Rightarrow> ('a, 'd) tx_body" where
  "tx_consistent outcome body m d =
     (if m = NoTx then within_transaction outcome (body ConsistentTx) d
      else if in_consistent_transaction m then body m d
      else (Inl not_consistent, d))"

section \<open>Repeating a consistent transaction\<close>

text \<open>
  \<open>withTransaction\<close> of the authorization service: at most three attempts as long as the database reports
  a serialization failure (\<open>serial\<close>, SQLSTATE 40001). \<open>run i\<close> is the attempt number \<open>i\<close>.
\<close>

fun retry_serialization ::
    "(go_error \<Rightarrow> bool) \<Rightarrow> (nat \<Rightarrow> 'd \<Rightarrow> 'a result \<times> 'd) \<Rightarrow> nat \<Rightarrow> nat \<Rightarrow> 'd \<Rightarrow> 'a result \<times> 'd" where
  "retry_serialization serial run 0 i d = run i d"
| "retry_serialization serial run (Suc k) i d =
     (case run i d of
        (Inr x, d1) \<Rightarrow> (Inr x, d1)
      | (Inl e, d1) \<Rightarrow> if serial e then retry_serialization serial run k (Suc i) d1 else (Inl e, d1))"

section \<open>Mutations that invalidate cached projections\<close>

text \<open>
  \<open>RunInvalidatedMutationClasses\<close> of \<open>system/cache_governance/facade/transaction.go\<close>. The operation
  says whether it changed anything. A registrar is \<open>None\<close> when cache governance is disabled. Otherwise a
  fence is acquired for every class before the transaction, and after an operation that changed something
  the invalidation of every class is registered inside it; the completion callbacks need a context that
  has a queue. The two classes of an authorization mutation are registered in order.
\<close>

record 'd registrar =
  rg_fence :: "string \<Rightarrow> unit result"
  rg_register :: "string \<Rightarrow> 'd \<Rightarrow> unit result \<times> 'd"

fun acquire_fences :: "'d registrar \<Rightarrow> string list \<Rightarrow> unit result" where
  "acquire_fences rg [] = Inr ()"
| "acquire_fences rg (c # cs) = (case rg_fence rg c of Inl e \<Rightarrow> Inl e | Inr _ \<Rightarrow> acquire_fences rg cs)"

fun register_classes :: "'d registrar \<Rightarrow> string list \<Rightarrow> 'd \<Rightarrow> unit result \<times> 'd" where
  "register_classes rg [] d = (Inr (), d)"
| "register_classes rg (c # cs) d = then_do (rg_register rg c d) (\<lambda>_. register_classes rg cs)"

definition no_rollback_hook :: go_error where
  "no_rollback_hook = PlainError ''cache invalidation rollback completion hook is unavailable''"

definition run_invalidated_mutation_classes ::
    "'d registrar option \<Rightarrow> string list \<Rightarrow> (('a, 'd) tx_body \<Rightarrow> ('a, 'd) tx_body) \<Rightarrow>
     (bool \<times> 'a, 'd) tx_body \<Rightarrow> ('a, 'd) tx_body" where
  "run_invalidated_mutation_classes registrar classes boundary operation m d =
     (case registrar of
        None \<Rightarrow> boundary (\<lambda>m1 d1. then_do (operation m1 d1) (\<lambda>(_, x) d2. (Inr x, d2))) m d
      | Some rg \<Rightarrow>
          (case acquire_fences rg classes of
             Inl e \<Rightarrow> (Inl e, d)
           | Inr _ \<Rightarrow>
               boundary (\<lambda>m1 d1.
                 then_do (operation m1 d1) (\<lambda>(changed, x) d2.
                   if \<not> changed then (Inr x, d2)
                   else then_do (register_classes rg classes d2) (\<lambda>_ d3.
                        if has_callbacks m1 then (Inr x, d3) else (Inl no_rollback_hook, d3)))) m d))"

text \<open>
  The closure that \<open>withAuthorizationInvalidationTx\<close> hands over, in the authorization service and in the
  user service: a mutation that succeeds counts as a change.
\<close>

definition changing :: "('a, 'd) tx_body \<Rightarrow> (bool \<times> 'a, 'd) tx_body" where
  "changing fn m d = then_do (fn m d) (\<lambda>x d1. (Inr (True, x), d1))"

lemma then_do_changing: "then_do (changing fn m d) g = then_do (fn m d) (\<lambda>x. g (True, x))"
  by (simp add: changing_def then_do_def split: sum.split prod.split)

lemma then_do_return: "then_do r (\<lambda>x d. (Inr x, d)) = r"
  by (simp add: then_do_def split: sum.split prod.split)

lemma run_invalidated_changing:
  "run_invalidated_mutation_classes registrar classes boundary (changing fn) m d =
     (case registrar of
        None \<Rightarrow> boundary fn m d
      | Some rg \<Rightarrow>
          (case acquire_fences rg classes of
             Inl e \<Rightarrow> (Inl e, d)
           | Inr _ \<Rightarrow>
               boundary (\<lambda>m1 d1.
                 then_do (fn m1 d1) (\<lambda>x d2.
                 then_do (register_classes rg classes d2) (\<lambda>_ d3.
                   if has_callbacks m1 then (Inr x, d3) else (Inl no_rollback_hook, d3)))) m d))"
  by (cases registrar)
    (simp_all add: run_invalidated_mutation_classes_def then_do_changing then_do_return split: sum.split)

section \<open>Properties\<close>

text \<open>What a boundary commits is the effect of a run of its body that succeeded.\<close>

lemma tx_ordinary_Inr:
  "tx_ordinary o1 body m d = (Inr x, d') \<Longrightarrow>
   body (if m = NoTx then OrdinaryTx else m) d = (Inr x, d')"
  by (auto simp: tx_ordinary_def within_transaction_Inr split: if_splits)

lemma tx_consistent_Inr:
  "tx_consistent o1 body m d = (Inr x, d') \<Longrightarrow>
   body (if m = NoTx then ConsistentTx else m) d = (Inr x, d')"
  by (auto simp: tx_consistent_def within_transaction_Inr split: if_splits)

lemma tx_consistent_in_ordinary [simp]:
  "tx_consistent o1 body OrdinaryTx d = (Inl not_consistent, d)"
  by (simp add: tx_consistent_def in_consistent_transaction_def)

lemma tx_snapshot_in_ordinary [simp]:
  "tx_snapshot o1 body OrdinaryTx d = (Inl not_snapshot, d)"
  by (simp add: tx_snapshot_def in_consistent_transaction_def)

text \<open>Outside a transaction a boundary keeps every property of the state its body keeps when it succeeds.\<close>

lemma tx_ordinary_keeps:
  assumes "\<And>x d'. body OrdinaryTx d = (Inr x, d') \<Longrightarrow> I d'" "I d"
  shows "I (snd (tx_ordinary o1 body NoTx d))"
proof -
  from within_transaction_state [of o1 "body OrdinaryTx" d]
  show ?thesis using assms unfolding tx_ordinary_def by auto
qed

lemma tx_consistent_keeps:
  assumes "\<And>x d'. body ConsistentTx d = (Inr x, d') \<Longrightarrow> I d'" "I d"
  shows "I (snd (tx_consistent o1 body NoTx d))"
proof -
  from within_transaction_state [of o1 "body ConsistentTx" d]
  show ?thesis using assms unfolding tx_consistent_def by auto
qed

lemma retry_keeps:
  assumes "\<And>i d. I d \<Longrightarrow> I (snd (run i d))"
  shows "I d \<Longrightarrow> I (snd (retry_serialization serial run k i d))"
proof (induction k arbitrary: i d)
  case 0
  then show ?case by (simp add: assms)
next
  case (Suc k)
  from assms [OF Suc.prems, of i] show ?case
    by (auto split: prod.splits sum.splits intro: Suc.IH)
qed

lemma retry_Inr:
  assumes "retry_serialization serial run k i d = (Inr x, d')"
    "\<And>j e d d1. run j d = (Inl e, d1) \<Longrightarrow> I d \<Longrightarrow> I d1" "I d"
  shows "\<exists>j d1. I d1 \<and> run j d1 = (Inr x, d')"
  using assms(1,3)
proof (induction k arbitrary: i d)
  case 0
  then show ?case by auto
next
  case (Suc k)
  show ?case
  proof (cases "run i d")
    case (Pair r d1)
    with Suc assms(2) show ?thesis by (cases r) (auto split: if_splits)
  qed
qed

lemma retry_fixed_error:
  assumes "run i d = (Inl e, d)" "\<not> serial e"
  shows "retry_serialization serial run k i d = (Inl e, d)"
  using assms by (cases k) auto

lemma register_classes_keeps:
  assumes "\<And>c d. I d \<Longrightarrow> I (snd (rg_register rg c d))"
  shows "I d \<Longrightarrow> I (snd (register_classes rg cs d))"
proof (induction cs arbitrary: d)
  case (Cons c cs)
  from assms [OF Cons.prems, of c] show ?case
    by (cases "rg_register rg c d") (auto simp: then_do_def split: sum.splits intro: Cons.IH)
qed simp

end
