(* ===== verification/Authz_Model.thy ===== *)
theory Authz_Model
  imports Authz_Policy Tx_Store "HOL-Library.Product_Lexorder"
begin

text \<open>
  The tables of the authorization component and of the organization of users, and the statements on
  them (\<open>app/authorization/infrastructure/repository.go\<close>, \<open>app/system/user/infrastructure/user_repository.go\<close>).

  A table is the list of its rows. A nullable column that every query reads through \<open>COALESCE\<close> is
  stored with that default. A statement is a function on the tables; queries return at most a bounded
  number of rows and report an error beyond it, which is a branch here. Locking reads and updates of
  \<open>updateTime\<close> alone have no effect on this state: a transaction is one step. A failure of the
  database inside a transaction is a failure of the transaction (\<open>Tx_Store\<close>).
\<close>

section \<open>Tables\<close>

record user_row =
  us_id :: int
  us_account :: string
  us_nick :: string
  us_email :: string
  us_phone :: "string option"
  us_status :: int
  us_unseal :: "time option"
  us_version :: nat
  us_hash :: "string option"
  us_avatar :: string
  us_profile :: string
  us_deleted :: bool

record org_row =
  og_id :: int
  og_code :: string
  og_name :: string
  og_parent :: int
  og_status :: int
  og_sort :: int
  og_leader :: int
  og_deleted :: bool

record dept_row =
  dp_id :: int
  dp_code :: string
  dp_name :: string
  dp_org :: int
  dp_parent :: int
  dp_leader :: int
  dp_status :: int
  dp_sort :: int
  dp_hierarchy :: string
  dp_level :: int
  dp_deleted :: bool

record post_row =
  po_id :: int
  po_code :: string
  po_name :: string
  po_dept :: int
  po_org :: int
  po_sort :: int
  po_status :: int
  po_remark :: string
  po_deleted :: bool

text \<open>A user in an organization, a department or a position.\<close>

record member_row =
  mb_user :: int
  mb_of :: int
  mb_primary :: int
  mb_deleted :: bool

record role_row = role_record + ro_deleted :: bool
record menu_row = menu_record + mn_deleted :: bool
record permission_row = permission_record + pm_deleted :: bool

record user_role_row =
  ur_user :: int
  ur_role :: int
  ur_deleted :: bool

record role_permission_row =
  rp_role :: int
  rp_permission :: int
  rp_source :: string

record user_permission_row =
  up_id :: int
  up_user :: int
  up_permission :: int
  up_type :: int
  up_expire :: "time option"
  up_source :: string
  up_reason :: string
  up_granted_by :: int
  up_deleted :: bool

record grant_request_row =
  gr_role :: int
  gr_key :: string
  gr_hash :: string
  gr_revision :: int
  gr_impacted :: nat
  gr_changed :: int

record bootstrap_row =
  bs_key :: string
  bs_role :: int
  bs_code :: string

record authz_db =
  db_users :: "user_row list"
  db_orgs :: "org_row list"
  db_depts :: "dept_row list"
  db_posts :: "post_row list"
  db_user_orgs :: "member_row list"
  db_user_depts :: "member_row list"
  db_user_posts :: "member_row list"
  db_roles :: "role_row list"
  db_menus :: "menu_row list"
  db_permissions :: "permission_row list"
  db_user_roles :: "user_role_row list"
  db_post_roles :: "(int \<times> int) list"
  db_role_permissions :: "role_permission_row list"
  db_role_menus :: "(int \<times> int) list"
  db_menu_permissions :: "(int \<times> int) list"
  db_role_depts :: "(int \<times> int) list"
  db_user_permissions :: "user_permission_row list"
  db_grant_requests :: "grant_request_row list"
  db_bootstrap :: "bootstrap_row list"
  db_invalidations :: "string list"

definition authorizationSetQueryChunkSize :: nat where "authorizationSetQueryChunkSize = 200"
definition authorizationSetQueryMaxIDs :: nat where "authorizationSetQueryMaxIDs = 1000"
definition authorizationDerivedRelationMax :: nat where "authorizationDerivedRelationMax = 10000"

definition exceeds :: "string \<Rightarrow> go_error" where
  "exceeds what = PlainError what"

definition at_most :: "nat \<Rightarrow> string \<Rightarrow> 'a list \<Rightarrow> 'a list result" where
  "at_most n what xs = (if n < length xs then Inl (exceeds what) else Inr xs)"

lemma at_most_Inr [simp]: "at_most n what xs = Inr ys \<longleftrightarrow> ys = xs \<and> length xs \<le> n"
  by (auto simp: at_most_def)

section \<open>Users and their organization\<close>

definition find_subject :: "authz_db \<Rightarrow> int \<Rightarrow> user_row option" where
  "find_subject db user =
     (if user \<le> 0 then None else find (\<lambda>r. us_id r = user \<and> \<not> us_deleted r) (db_users db))"

definition member_ids :: "(member_row \<Rightarrow> bool) \<Rightarrow> member_row list \<Rightarrow> int list" where
  "member_ids P rows =
     map mb_of (sort_key (\<lambda>r. (- mb_primary r, mb_of r)) (filter P rows))"

definition list_user_org_ids :: "authz_db \<Rightarrow> int \<Rightarrow> int list" where
  "list_user_org_ids db user = member_ids (\<lambda>r. mb_user r = user \<and> \<not> mb_deleted r) (db_user_orgs db)"

definition list_user_dept_ids :: "authz_db \<Rightarrow> int \<Rightarrow> int list" where
  "list_user_dept_ids db user = member_ids (\<lambda>r. mb_user r = user) (db_user_depts db)"

definition list_user_post_ids :: "authz_db \<Rightarrow> int \<Rightarrow> int list" where
  "list_user_post_ids db user = member_ids (\<lambda>r. mb_user r = user \<and> \<not> mb_deleted r) (db_user_posts db)"

definition find_orgs_by_ids :: "authz_db \<Rightarrow> int list \<Rightarrow> org_row list" where
  "find_orgs_by_ids db ids =
     filter (\<lambda>r. og_id r \<in> set (unique_int64 ids) \<and> \<not> og_deleted r) (db_orgs db)"

definition find_depts_by_ids :: "authz_db \<Rightarrow> int list \<Rightarrow> dept_row list" where
  "find_depts_by_ids db ids =
     filter (\<lambda>r. dp_id r \<in> set (unique_int64 ids) \<and> \<not> dp_deleted r) (db_depts db)"

definition find_posts_by_ids :: "authz_db \<Rightarrow> int list \<Rightarrow> post_row list" where
  "find_posts_by_ids db ids =
     filter (\<lambda>r. po_id r \<in> set (unique_int64 ids) \<and> \<not> po_deleted r) (db_posts db)"

text \<open>\<open>ListDepts(ctx, false, "", 0, nil, 0)\<close>.\<close>

definition list_depts :: "authz_db \<Rightarrow> dept_row list" where
  "list_depts db =
     sort_key (\<lambda>r. (dp_sort r, dp_id r)) (filter (\<lambda>r. \<not> dp_deleted r) (db_depts db))"

definition update_lock_state :: "int \<Rightarrow> int \<Rightarrow> time option \<Rightarrow> authz_db \<Rightarrow> authz_db" where
  "update_lock_state user status unseal db =
     (if user \<le> 0 then db
      else db\<lparr>db_users := update_where (\<lambda>r. us_id r = user \<and> \<not> us_deleted r)
        (\<lambda>r. r\<lparr>us_status := status, us_unseal := unseal, us_version := Suc (us_version r), us_hash := None\<rparr>)
        (db_users db)\<rparr>)"

definition compare_and_set_managed_user_status ::
    "int \<Rightarrow> int \<Rightarrow> nat \<Rightarrow> int \<Rightarrow> time option \<Rightarrow> string \<Rightarrow> authz_db \<Rightarrow> bool \<times> authz_db" where
  "compare_and_set_managed_user_status user expected version status unseal hash db =
     (if user \<le> 0 then (False, db)
      else
        let P = (\<lambda>r. us_id r = user \<and> us_status r = expected \<and> us_version r = version \<and> \<not> us_deleted r)
        in (0 < count_where P (db_users db),
            db\<lparr>db_users := update_where P
              (\<lambda>r. r\<lparr>us_status := status, us_unseal := unseal, us_version := Suc (us_version r),
                     us_hash := Some (trim_space hash)\<rparr>) (db_users db)\<rparr>))"

text \<open>
  \<open>UpdateAdminUser\<close>: blank texts are written as \<open>NULL\<close>, which the column \<open>userEmail\<close> does not take; \<open>null\<close> is
  the error of the database for it.
\<close>

definition nullable_text :: "string \<Rightarrow> string option" where
  "nullable_text t = (if blank t then None else Some (trim_space t))"

definition update_admin_user ::
    "go_error \<Rightarrow> int \<Rightarrow> string \<Rightarrow> string \<Rightarrow> string \<Rightarrow> string option \<Rightarrow> int option \<Rightarrow> authz_db \<Rightarrow>
     unit result \<times> authz_db" where
  "update_admin_user null user nick email phone profile status db =
     (if user \<le> 0 then (Inr (), db)
      else if blank email \<and> (\<exists>r \<in> set (db_users db). us_id r = user \<and> \<not> us_deleted r) then (Inl null, db)
      else (Inr (), db\<lparr>db_users := update_where (\<lambda>r. us_id r = user \<and> \<not> us_deleted r)
        (\<lambda>r. let r1 = r\<lparr>us_nick := trim_space nick, us_email := trim_space email, us_phone := nullable_text phone,
                          us_profile := (case profile of None \<Rightarrow> us_profile r | Some p \<Rightarrow> trim_space p)\<rparr>
             in case status of
                  None \<Rightarrow> r1
                | Some s \<Rightarrow> r1\<lparr>us_status := s, us_version := Suc (us_version r), us_hash := None\<rparr>)
        (db_users db)\<rparr>))"

text \<open>
  The key \<open>uk_user_account_deleted\<close> on (\<open>userAccount\<close>, \<open>isDeleted\<close>): an update or insert that would
  break it is refused by the database with the error \<open>dup\<close>.
\<close>

definition account_keys_unique :: "user_row list \<Rightarrow> bool" where
  "account_keys_unique rows \<longleftrightarrow> distinct (map (\<lambda>r. (us_account r, us_deleted r)) rows)"

definition soft_delete_user :: "go_error \<Rightarrow> int \<Rightarrow> authz_db \<Rightarrow> unit result \<times> authz_db" where
  "soft_delete_user dup user db =
     (let rows = update_where (\<lambda>r. us_id r = user \<and> \<not> us_deleted r) (\<lambda>r. r\<lparr>us_deleted := True\<rparr>) (db_users db)
      in if account_keys_unique rows then (Inr (), db\<lparr>db_users := rows\<rparr>) else (Inl dup, db))"

definition insert_user :: "go_error \<Rightarrow> user_row \<Rightarrow> authz_db \<Rightarrow> unit result \<times> authz_db" where
  "insert_user dup r db =
     (if us_id r \<in> us_id ` set (db_users db) \<or> \<not> account_keys_unique (db_users db @ [r]) then (Inl dup, db)
      else (Inr (), db\<lparr>db_users := db_users db @ [r]\<rparr>))"

section \<open>Roles\<close>

text \<open>A role as the queries return it.\<close>

definition live_role :: "int \<Rightarrow> role_row \<Rightarrow> bool" where
  "live_role role r \<longleftrightarrow> ro_id r = role \<and> \<not> ro_deleted r"

definition as_role :: "role_row \<Rightarrow> role_record" where
  "as_role r = role_record.truncate r"

definition find_role_by_id :: "authz_db \<Rightarrow> int \<Rightarrow> role_record option" where
  "find_role_by_id db role = map_option as_role (find (live_role role) (db_roles db))"

definition lock_role_grant :: "authz_db \<Rightarrow> int \<Rightarrow> role_record option" where
  "lock_role_grant db role = map_option as_role (find (live_role role) (db_roles db))"

definition lock_role_grants :: "authz_db \<Rightarrow> int list \<Rightarrow> role_record list result" where
  "lock_role_grants db roles =
     (let ids = unique_int64 roles
      in if ids = [] then Inr []
         else if authorizationSetQueryMaxIDs < length ids then Inl (exceeds ''lock role grants exceeds limit'')
         else Inr (map as_role (sort_key ro_id
                (filter (\<lambda>r. ro_id r \<in> set ids \<and> \<not> ro_deleted r) (db_roles db)))))"

definition list_role_list :: "authz_db \<Rightarrow> role_record list" where
  "list_role_list db =
     map as_role (sort_key (\<lambda>r. (ro_sort r, ro_id r))
       (filter (\<lambda>r. \<not> ro_deleted r \<and> ro_status r = 0) (db_roles db)))"

definition revision_conflict :: go_error where
  "revision_conflict = PlainError ''role grant revision changed concurrently''"

definition update_role_grant_revision :: "int \<Rightarrow> int \<Rightarrow> int \<Rightarrow> authz_db \<Rightarrow> unit result \<times> authz_db" where
  "update_role_grant_revision role expected nxt db =
     (let (n, rows) = update_rows (\<lambda>r. live_role role r \<and> ro_revision r = expected)
                        (\<lambda>r. r\<lparr>ro_revision := nxt\<rparr>) (db_roles db);
          db1 = db\<lparr>db_roles := rows\<rparr>
      in if n \<noteq> 1 then (Inl revision_conflict, db1) else (Inr (), db1))"

text \<open>One statement for every 200 roles, each of which must hit all of its roles.\<close>

definition bump_revisions :: "role_record list \<Rightarrow> authz_db \<Rightarrow> unit result \<times> authz_db" where
  "bump_revisions chunk db =
     (let (n, rows) = update_rows
            (\<lambda>r. \<not> ro_deleted r \<and> (\<exists>x \<in> set chunk. ro_id x = ro_id r \<and> ro_revision x = ro_revision r))
            (\<lambda>r. r\<lparr>ro_revision := ro_revision r + 1\<rparr>) (db_roles db);
          db1 = db\<lparr>db_roles := rows\<rparr>
      in if n \<noteq> length chunk then (Inl (PlainError ''role grant revision conflict''), db1) else (Inr (), db1))"

fun bump_chunks :: "role_record list list \<Rightarrow> authz_db \<Rightarrow> unit result \<times> authz_db" where
  "bump_chunks [] db = (Inr (), db)"
| "bump_chunks (c # cs) db = then_do (bump_revisions c db) (\<lambda>_. bump_chunks cs)"

definition update_role_grant_revisions :: "role_record list \<Rightarrow> authz_db \<Rightarrow> unit result \<times> authz_db" where
  "update_role_grant_revisions roles db =
     (let normalized = filter (\<lambda>r. 0 < ro_id r) roles
      in if \<not> distinct (map ro_id normalized)
           then (Inl (PlainError ''batch role grant revision contains duplicate role''), db)
         else if normalized = [] then (Inr (), db)
         else if authorizationSetQueryMaxIDs < length normalized
           then (Inl (exceeds ''batch role grant revision exceeds role limit''), db)
         else bump_chunks (chunks authorizationSetQueryChunkSize (sort_key ro_id normalized)) db)"

definition count_role_code_excluding :: "authz_db \<Rightarrow> int \<Rightarrow> string \<Rightarrow> nat" where
  "count_role_code_excluding db role code =
     count_where (\<lambda>r. ro_code r = trim_space code \<and> ro_id r \<noteq> role \<and> \<not> ro_deleted r) (db_roles db)"

definition count_roles_by_ids :: "authz_db \<Rightarrow> int list \<Rightarrow> nat" where
  "count_roles_by_ids db roles =
     length (remdups (map ro_id (filter (\<lambda>r. ro_id r \<in> set (unique_int64 roles) \<and> \<not> ro_deleted r \<and> ro_status r = 0)
       (db_roles db))))"

text \<open>The authorization root as the queries select it: by its exact key.\<close>

definition root_row :: "role_row \<Rightarrow> bool" where
  "root_row r \<longleftrightarrow> ro_system_key r = AuthorizationRootSystemKey \<and> \<not> ro_deleted r"

definition count_authorization_root_roles :: "authz_db \<Rightarrow> int list \<Rightarrow> nat result" where
  "count_authorization_root_roles db roles =
     (let ids = unique_int64 roles
      in if ids = [] then Inr 0
         else if authorizationSetQueryMaxIDs < length ids
           then Inl (exceeds ''count authorization root roles: role set exceeds 1000'')
         else Inr (length (remdups (map ro_id (filter (\<lambda>r. ro_id r \<in> set ids \<and> root_row r) (db_roles db))))))"

text \<open>The users with an enabled account and a direct, enabled root role.\<close>

definition root_user_ids :: "authz_db \<Rightarrow> int \<Rightarrow> int list" where
  "root_user_ids db role =
     map us_id (filter (\<lambda>u. \<not> us_deleted u \<and> us_status u = 0
       \<and> (\<exists>l \<in> set (db_user_roles db). ur_user l = us_id u \<and> \<not> ur_deleted l
            \<and> (\<exists>r \<in> set (db_roles db). ro_id r = ur_role l \<and> ro_id r = role \<and> root_row r \<and> ro_status r = 0)))
       (db_users db))"

definition lock_super_admin_invariant :: "authz_db \<Rightarrow> int \<Rightarrow> super_admin_snapshot" where
  "lock_super_admin_invariant db target =
     (case sort_key ro_id (filter root_row (db_roles db)) of
        [] \<Rightarrow> \<lparr>sa_active_users = 0, sa_target_active = False\<rparr>
      | r # _ \<Rightarrow> let users = root_user_ids db (ro_id r)
                in \<lparr>sa_active_users = length (remdups users), sa_target_active = target \<in> set users\<rparr>)"

text \<open>A guard that serializes the creation of codes; it also fails when the root role is missing.\<close>

definition lock_authorization_creation_guard :: "authz_db \<Rightarrow> unit result" where
  "lock_authorization_creation_guard db =
     (if list_ex root_row (db_roles db) then Inr ()
      else Inl (PlainError ''authorization creation guard is missing''))"

definition create_role_row :: "go_error \<Rightarrow> role_record \<Rightarrow> authz_db \<Rightarrow> unit result \<times> authz_db" where
  "create_role_row dup r db =
     (if ro_id r \<in> ro_id ` set (db_roles db) then (Inl dup, db)
      else (Inr (), db\<lparr>db_roles := db_roles db @
        [\<lparr>ro_id = ro_id r, ro_name = trim_space (ro_name r), ro_code = trim_space (ro_code r),
          ro_system_key = [], ro_type = ro_type r, ro_status = ro_status r, ro_data_scope = ro_data_scope r,
          ro_sort = ro_sort r, ro_remark = trim_space (ro_remark r), ro_revision = 0, ro_deleted = False\<rparr>]\<rparr>))"

definition update_role_row :: "role_record \<Rightarrow> authz_db \<Rightarrow> authz_db" where
  "update_role_row n db =
     db\<lparr>db_roles := update_where (live_role (ro_id n))
       (\<lambda>r. r\<lparr>ro_name := trim_space (ro_name n), ro_code := trim_space (ro_code n), ro_type := ro_type n,
              ro_status := ro_status n, ro_data_scope := ro_data_scope n, ro_sort := ro_sort n,
              ro_remark := trim_space (ro_remark n)\<rparr>) (db_roles db)\<rparr>"

definition update_role_grant_data_scope :: "int \<Rightarrow> int \<Rightarrow> authz_db \<Rightarrow> authz_db" where
  "update_role_grant_data_scope role scope db =
     db\<lparr>db_roles := update_where (live_role role) (\<lambda>r. r\<lparr>ro_data_scope := scope\<rparr>) (db_roles db)\<rparr>"

definition delete_role_row :: "int \<Rightarrow> authz_db \<Rightarrow> authz_db" where
  "delete_role_row role db =
     db\<lparr>db_role_menus := filter (\<lambda>(r, m). r \<noteq> role) (db_role_menus db),
        db_role_permissions := filter (\<lambda>l. rp_role l \<noteq> role) (db_role_permissions db),
        db_role_depts := filter (\<lambda>(r, d). r \<noteq> role) (db_role_depts db),
        db_roles := update_where (live_role role) (\<lambda>r. r\<lparr>ro_deleted := True\<rparr>) (db_roles db)\<rparr>"

definition count_user_role_references :: "authz_db \<Rightarrow> int \<Rightarrow> nat" where
  "count_user_role_references db role = count_where (\<lambda>l. ur_role l = role \<and> \<not> ur_deleted l) (db_user_roles db)"

definition count_post_role_references :: "authz_db \<Rightarrow> int \<Rightarrow> nat" where
  "count_post_role_references db role = count_where (\<lambda>(p, r). r = role) (db_post_roles db)"

definition count_user_ids_by_role_id :: "authz_db \<Rightarrow> int \<Rightarrow> nat" where
  "count_user_ids_by_role_id db role =
     length (remdups
       (map ur_user (filter (\<lambda>l. ur_role l = role \<and> \<not> ur_deleted l) (db_user_roles db))
        @ [mb_user m. m \<leftarrow> db_user_posts db, \<not> mb_deleted m, (p, r) \<leftarrow> db_post_roles db, p = mb_of m, r = role]))"

section \<open>Menus\<close>

definition as_menu :: "menu_row \<Rightarrow> menu_record" where
  "as_menu m =
     (menu_record.truncate m)\<lparr>mn_visible := (if mn_visible m = 0 then 0 else 1),
        mn_frame := (if mn_frame m = 0 then 0 else 1), mn_cache := (if mn_cache m = 0 then 0 else 1)\<rparr>"

definition live_menu :: "int \<Rightarrow> menu_row \<Rightarrow> bool" where
  "live_menu menu m \<longleftrightarrow> mn_id m = menu \<and> \<not> mn_deleted m"

definition menu_order :: "menu_row list \<Rightarrow> menu_record list" where
  "menu_order rows = map as_menu (sort_key (\<lambda>m. (mn_parent m, mn_sort m, mn_id m)) rows)"

definition list_menus :: "authz_db \<Rightarrow> bool \<Rightarrow> menu_record list result" where
  "list_menus db enabled_only =
     at_most authorizationSetQueryMaxIDs ''list all menus: result exceeds 1000''
       (menu_order (filter (\<lambda>m. \<not> mn_deleted m \<and> (enabled_only \<longrightarrow> mn_status m = 0)) (db_menus db)))"

definition find_menu_by_id :: "authz_db \<Rightarrow> int \<Rightarrow> menu_record option" where
  "find_menu_by_id db menu = map_option as_menu (find (live_menu menu) (db_menus db))"

definition lock_menu_grants :: "authz_db \<Rightarrow> int list \<Rightarrow> menu_record list result" where
  "lock_menu_grants db menus =
     (let ids = unique_int64 menus
      in if ids = [] then Inr []
         else if authorizationSetQueryMaxIDs < length ids then Inl (exceeds ''lock menu grants exceeds limit'')
         else Inr (map as_menu (sort_key mn_id
                (filter (\<lambda>m. mn_id m \<in> set ids \<and> \<not> mn_deleted m) (db_menus db)))))"

definition count_menu_permission_excluding :: "authz_db \<Rightarrow> int \<Rightarrow> string \<Rightarrow> nat" where
  "count_menu_permission_excluding db menu permission =
     (let code = trim_space permission
      in if code = [] then 0
         else count_where (\<lambda>m. mn_permission m = code \<and> mn_id m \<noteq> menu \<and> \<not> mn_deleted m) (db_menus db))"

definition count_menu_children :: "authz_db \<Rightarrow> int \<Rightarrow> nat" where
  "count_menu_children db menu = count_where (\<lambda>m. mn_parent m = menu \<and> \<not> mn_deleted m) (db_menus db)"

definition count_role_menu_references :: "authz_db \<Rightarrow> int \<Rightarrow> nat" where
  "count_role_menu_references db menu = count_where (\<lambda>(r, m). m = menu) (db_role_menus db)"

definition count_menus_by_ids :: "authz_db \<Rightarrow> int list \<Rightarrow> nat" where
  "count_menus_by_ids db menus =
     length (remdups (map mn_id (filter (\<lambda>m. mn_id m \<in> set (unique_int64 menus) \<and> \<not> mn_deleted m) (db_menus db))))"

definition list_menu_permission_codes :: "authz_db \<Rightarrow> int list \<Rightarrow> string list" where
  "list_menu_permission_codes db menus =
     remdups (map mn_permission
       (filter (\<lambda>m. mn_id m \<in> set (unique_int64 menus) \<and> \<not> mn_deleted m \<and> \<not> blank (mn_permission m)) (db_menus db)))"

definition menu_columns :: "menu_record \<Rightarrow> menu_row \<Rightarrow> menu_row" where
  "menu_columns n m =
     m\<lparr>mn_name := trim_space (mn_name n), mn_parent := mn_parent n, mn_sort := mn_sort n, mn_path := mn_path n,
       mn_component := trim_space (mn_component n), mn_icon := trim_space (mn_icon n), mn_type := mn_type n,
       mn_permission := trim_space (mn_permission n), mn_feature := trim_space (mn_feature n),
       mn_frame := mn_frame n, mn_cache := mn_cache n, mn_visible := mn_visible n, mn_status := mn_status n,
       mn_remark := trim_space (mn_remark n)\<rparr>"

definition create_menu_row :: "go_error \<Rightarrow> menu_record \<Rightarrow> authz_db \<Rightarrow> unit result \<times> authz_db" where
  "create_menu_row dup n db =
     (if mn_id n \<in> mn_id ` set (db_menus db) then (Inl dup, db)
      else (Inr (), db\<lparr>db_menus := db_menus db @
             [menu_columns n (menu_record.extend n \<lparr>mn_deleted = False\<rparr>)]\<rparr>))"

definition update_menu_row :: "menu_record \<Rightarrow> authz_db \<Rightarrow> authz_db" where
  "update_menu_row n db =
     db\<lparr>db_menus := update_where (live_menu (mn_id n)) (menu_columns n) (db_menus db)\<rparr>"

definition delete_menu_row :: "int \<Rightarrow> authz_db \<Rightarrow> authz_db" where
  "delete_menu_row menu db =
     db\<lparr>db_menus := update_where (live_menu menu) (\<lambda>m. m\<lparr>mn_deleted := True\<rparr>) (db_menus db)\<rparr>"

definition delete_menu_permissions_by_menu :: "int \<Rightarrow> authz_db \<Rightarrow> authz_db" where
  "delete_menu_permissions_by_menu menu db =
     db\<lparr>db_menu_permissions := filter (\<lambda>(m, p). m \<noteq> menu) (db_menu_permissions db)\<rparr>"

text \<open>A relation joined with a live menu.\<close>

definition menu_is_live :: "authz_db \<Rightarrow> int \<Rightarrow> bool" where
  "menu_is_live db menu \<longleftrightarrow> list_ex (live_menu menu) (db_menus db)"

definition list_role_menu_ids :: "authz_db \<Rightarrow> int \<Rightarrow> int list result" where
  "list_role_menu_ids db role =
     at_most authorizationSetQueryMaxIDs ''list role menu ids exceeds 1000''
       (sort (map snd (filter (\<lambda>(r, m). r = role \<and> menu_is_live db m) (db_role_menus db))))"

definition list_role_ids_by_menu_id :: "authz_db \<Rightarrow> int \<Rightarrow> int list" where
  "list_role_ids_by_menu_id db menu =
     unique_int64 (take (Suc authorizationSetQueryMaxIDs)
       (sort (remdups (map fst (filter (\<lambda>(r, m). m = menu) (db_role_menus db))))))"

definition list_role_menu_ids_by_role_ids :: "authz_db \<Rightarrow> int list \<Rightarrow> (int \<times> int) list result" where
  "list_role_menu_ids_by_role_ids db roles =
     (let ids = unique_int64 roles
      in if ids = [] then Inr []
         else if authorizationSetQueryMaxIDs < length ids
           then Inl (exceeds ''list role menu ids by role ids exceeds role limit'')
         else map_sum id (filter (\<lambda>(r, m). 0 < r \<and> 0 < m))
                (at_most authorizationDerivedRelationMax ''list role menu ids by role ids exceeds relation limit''
                  (sort (filter (\<lambda>(r, m). r \<in> set ids \<and> menu_is_live db m) (db_role_menus db)))))"

section \<open>Permissions\<close>

definition as_permission :: "permission_row \<Rightarrow> permission_record" where
  "as_permission p = permission_record.truncate p"

definition live_permission :: "int \<Rightarrow> permission_row \<Rightarrow> bool" where
  "live_permission permission p \<longleftrightarrow> pm_id p = permission \<and> \<not> pm_deleted p"

text \<open>A live and enabled permission.\<close>

definition open_permission :: "permission_row \<Rightarrow> bool" where
  "open_permission p \<longleftrightarrow> \<not> pm_deleted p \<and> pm_status p = 0"

definition permission_is_open :: "authz_db \<Rightarrow> int \<Rightarrow> bool" where
  "permission_is_open db permission \<longleftrightarrow>
     list_ex (\<lambda>p. pm_id p = permission \<and> open_permission p) (db_permissions db)"

definition list_menu_permission_ids :: "authz_db \<Rightarrow> int list \<Rightarrow> int list result" where
  "list_menu_permission_ids db menus =
     (let ids = unique_int64 menus
      in if ids = [] then Inr []
         else if authorizationSetQueryMaxIDs < length ids
           then Inl (exceeds ''list menu permission ids exceeds menu limit'')
         else map_sum id unique_int64
                (at_most authorizationSetQueryMaxIDs ''list menu permission ids exceeds result limit''
                  (sort (remdups (map snd
                    (filter (\<lambda>(m, p). m \<in> set ids \<and> permission_is_open db p) (db_menu_permissions db)))))))"

definition list_menu_permission_ids_by_menu_ids :: "authz_db \<Rightarrow> int list \<Rightarrow> (int \<times> int) list result" where
  "list_menu_permission_ids_by_menu_ids db menus =
     (let ids = unique_int64 menus
      in if ids = [] then Inr []
         else if authorizationSetQueryMaxIDs < length ids
           then Inl (exceeds ''list menu permission ids by menu ids exceeds menu limit'')
         else map_sum id (filter (\<lambda>(m, p). 0 < m \<and> 0 < p))
                (at_most authorizationDerivedRelationMax ''list menu permission ids by menu ids exceeds relation limit''
                  (sort (filter (\<lambda>(m, p). m \<in> set ids \<and> permission_is_open db p) (db_menu_permissions db)))))"

definition is_direct_source :: "string \<Rightarrow> bool" where
  "is_direct_source s \<longleftrightarrow> s = ''DIRECT'' \<or> s = ''BOTH''"

text \<open>The pairs of a role and a permission it holds directly; a map of slices in the code.\<close>

definition list_direct_role_permission_ids :: "authz_db \<Rightarrow> int list \<Rightarrow> (int \<times> int) list result" where
  "list_direct_role_permission_ids db roles =
     (let ids = unique_int64 roles
      in if ids = [] then Inr []
         else if authorizationSetQueryMaxIDs < length ids
           then Inl (exceeds ''list direct role permission ids exceeds role limit'')
         else map_sum id (filter (\<lambda>(r, p). 0 < r \<and> 0 < p))
                (at_most authorizationDerivedRelationMax ''list direct role permission ids exceeds relation limit''
                  (sort (map (\<lambda>l. (rp_role l, rp_permission l))
                    (filter (\<lambda>l. rp_role l \<in> set ids \<and> is_direct_source (rp_source l)) (db_role_permissions db))))))"

text \<open>Reading a map of slices: a missing key gives the empty slice.\<close>

definition slice_of :: "(int \<times> int) list \<Rightarrow> int \<Rightarrow> int list" where
  "slice_of pairs k = map snd (filter (\<lambda>(r, p). r = k) pairs)"

definition list_permission_codes_by_ids :: "authz_db \<Rightarrow> int list \<Rightarrow> int \<rightharpoonup> string" where
  "list_permission_codes_by_ids db permissions =
     map_of (rev [(pm_id p, trim_space (pm_code p)). p \<leftarrow> db_permissions db,
                  pm_id p \<in> set (unique_int64 permissions), open_permission p, trim_space (pm_code p) \<noteq> []])"

definition list_permissions_by_ids :: "authz_db \<Rightarrow> int list \<Rightarrow> permission_record list" where
  "list_permissions_by_ids db permissions =
     map as_permission (filter (\<lambda>p. pm_id p \<in> set (unique_int64 permissions) \<and> \<not> pm_deleted p) (db_permissions db))"

definition find_permission_by_id :: "authz_db \<Rightarrow> int \<Rightarrow> permission_record option" where
  "find_permission_by_id db permission =
     map_option as_permission (find (live_permission permission) (db_permissions db))"

definition lock_permission_grants :: "authz_db \<Rightarrow> int list \<Rightarrow> permission_record list result" where
  "lock_permission_grants db permissions =
     (let ids = unique_int64 permissions
      in if ids = [] then Inr []
         else if authorizationSetQueryMaxIDs < length ids
           then Inl (exceeds ''lock permission grants exceeds limit'')
         else Inr (map as_permission (sort_key pm_id
                (filter (\<lambda>p. pm_id p \<in> set ids \<and> \<not> pm_deleted p) (db_permissions db)))))"

definition count_permission_code_excluding :: "authz_db \<Rightarrow> int \<Rightarrow> string \<Rightarrow> nat" where
  "count_permission_code_excluding db permission code =
     count_where (\<lambda>p. pm_code p = trim_space code \<and> pm_id p \<noteq> permission \<and> \<not> pm_deleted p) (db_permissions db)"

definition count_permissions_by_ids :: "authz_db \<Rightarrow> int list \<Rightarrow> nat" where
  "count_permissions_by_ids db permissions =
     length (remdups (map pm_id
       (filter (\<lambda>p. pm_id p \<in> set (unique_int64 permissions) \<and> open_permission p) (db_permissions db))))"

definition count_depts_by_ids :: "authz_db \<Rightarrow> int list \<Rightarrow> nat" where
  "count_depts_by_ids db depts =
     length (remdups (map dp_id
       (filter (\<lambda>d. dp_id d \<in> set (unique_int64 depts) \<and> \<not> dp_deleted d \<and> dp_status d = 0) (db_depts db))))"

definition permission_columns :: "permission_record \<Rightarrow> permission_row \<Rightarrow> permission_row" where
  "permission_columns n p =
     p\<lparr>pm_code := trim_space (pm_code n), pm_feature := trim_space (pm_feature n), pm_name := trim_space (pm_name n),
       pm_resource := (if blank (pm_resource n) then ''API'' else trim_space (pm_resource n)),
       pm_method := trim_space (pm_method n), pm_path := trim_space (pm_path n), pm_status := pm_status n,
       pm_description := trim_space (pm_description n)\<rparr>"

text \<open>The key \<open>uk_permission_code\<close> on \<open>code\<close> counts deleted rows as well.\<close>

definition permission_keys_unique :: "permission_row list \<Rightarrow> bool" where
  "permission_keys_unique rows \<longleftrightarrow> distinct (map pm_id rows) \<and> distinct (map pm_code rows)"

definition create_permission_row :: "go_error \<Rightarrow> permission_record \<Rightarrow> authz_db \<Rightarrow> unit result \<times> authz_db" where
  "create_permission_row dup n db =
     (let rows = db_permissions db @ [permission_columns n (permission_record.extend n \<lparr>pm_deleted = False\<rparr>)]
      in if permission_keys_unique rows then (Inr (), db\<lparr>db_permissions := rows\<rparr>) else (Inl dup, db))"

definition update_permission_row :: "go_error \<Rightarrow> permission_record \<Rightarrow> authz_db \<Rightarrow> unit result \<times> authz_db" where
  "update_permission_row dup n db =
     (let rows = update_where (live_permission (pm_id n)) (permission_columns n) (db_permissions db)
      in if permission_keys_unique rows then (Inr (), db\<lparr>db_permissions := rows\<rparr>) else (Inl dup, db))"

definition delete_permission_row :: "int \<Rightarrow> authz_db \<Rightarrow> authz_db" where
  "delete_permission_row permission db =
     db\<lparr>db_permissions := update_where (live_permission permission) (\<lambda>p. p\<lparr>pm_deleted := True\<rparr>) (db_permissions db),
        db_role_permissions := filter (\<lambda>l. rp_permission l \<noteq> permission) (db_role_permissions db),
        db_menu_permissions := filter (\<lambda>(m, p). p \<noteq> permission) (db_menu_permissions db)\<rparr>"

definition soft_delete_user_permissions :: "int \<Rightarrow> authz_db \<Rightarrow> authz_db" where
  "soft_delete_user_permissions permission db =
     db\<lparr>db_user_permissions := update_where (\<lambda>u. up_permission u = permission \<and> \<not> up_deleted u)
          (\<lambda>u. u\<lparr>up_deleted := True\<rparr>) (db_user_permissions db)\<rparr>"

definition list_role_ids_by_permission_ids :: "authz_db \<Rightarrow> int list \<Rightarrow> int list result" where
  "list_role_ids_by_permission_ids db permissions =
     (let ids = unique_int64 permissions
      in if ids = [] then Inr []
         else if authorizationSetQueryMaxIDs < length ids
           then Inl (exceeds ''list role ids by permission ids exceeds permission limit'')
         else map_sum id unique_int64
                (at_most authorizationSetQueryMaxIDs ''list role ids by permission ids exceeds role limit''
                  (sort (remdups (map rp_role
                    (filter (\<lambda>l. rp_permission l \<in> set ids) (db_role_permissions db)))))))"

definition list_menu_ids_by_permission_ids :: "authz_db \<Rightarrow> int list \<Rightarrow> int list result" where
  "list_menu_ids_by_permission_ids db permissions =
     (let ids = unique_int64 permissions
      in if ids = [] then Inr []
         else if authorizationSetQueryMaxIDs < length ids
           then Inl (exceeds ''list menu ids by permission ids exceeds permission limit'')
         else map_sum id unique_int64
                (at_most authorizationSetQueryMaxIDs ''list menu ids by permission ids exceeds menu limit''
                  (sort (remdups (map fst
                    (filter (\<lambda>(m, p). p \<in> set ids) (db_menu_permissions db)))))))"

definition find_permission_id_by_code :: "authz_db \<Rightarrow> string \<Rightarrow> int" where
  "find_permission_id_by_code db code =
     (case find (\<lambda>p. pm_code p = trim_space code \<and> open_permission p) (db_permissions db) of
        None \<Rightarrow> 0 | Some p \<Rightarrow> pm_id p)"

section \<open>Replacing relations\<close>

definition replace_menu_permissions :: "int \<Rightarrow> int list \<Rightarrow> authz_db \<Rightarrow> authz_db" where
  "replace_menu_permissions menu permissions db =
     db\<lparr>db_menu_permissions := filter (\<lambda>(m, p). m \<noteq> menu) (db_menu_permissions db)
          @ map (\<lambda>p. (menu, p)) (unique_int64 permissions)\<rparr>"

definition replace_user_roles :: "int \<Rightarrow> int list \<Rightarrow> authz_db \<Rightarrow> authz_db" where
  "replace_user_roles user roles db =
     db\<lparr>db_user_roles := filter (\<lambda>l. ur_user l \<noteq> user) (db_user_roles db)
          @ map (\<lambda>r. \<lparr>ur_user = user, ur_role = r, ur_deleted = False\<rparr>) (filter (\<lambda>r. 0 < r) roles)\<rparr>"

definition replace_role_depts :: "int \<Rightarrow> int list \<Rightarrow> authz_db \<Rightarrow> authz_db" where
  "replace_role_depts role depts db =
     db\<lparr>db_role_depts := filter (\<lambda>(r, d). r \<noteq> role) (db_role_depts db)
          @ map (\<lambda>d. (role, d)) (unique_int64 depts)\<rparr>"

text \<open>
  \<open>rolePermissionRows\<close>: the code collects the sources in a map, whose order of iteration is open; here
  the permissions of the menus that are not direct follow the direct ones.
\<close>

definition role_permission_rows :: "int \<Rightarrow> int list \<Rightarrow> int list \<Rightarrow> role_permission_row list" where
  "role_permission_rows role direct menu =
     (if role \<le> 0 then []
      else map (\<lambda>p. \<lparr>rp_role = role, rp_permission = p,
                     rp_source = (if p \<in> set (unique_int64 menu) then ''BOTH'' else ''DIRECT'')\<rparr>) (unique_int64 direct)
           @ map (\<lambda>p. \<lparr>rp_role = role, rp_permission = p, rp_source = ''MENU''\<rparr>)
               (filter (\<lambda>p. p \<notin> set (unique_int64 direct)) (unique_int64 menu)))"

definition replace_role_permissions :: "int \<Rightarrow> int list \<Rightarrow> int list \<Rightarrow> int list \<Rightarrow> authz_db \<Rightarrow> authz_db" where
  "replace_role_permissions role direct derived menus db =
     db\<lparr>db_role_permissions := filter (\<lambda>l. rp_role l \<noteq> role) (db_role_permissions db)
          @ role_permission_rows role direct derived,
        db_role_menus := filter (\<lambda>(r, m). r \<noteq> role) (db_role_menus db)
          @ map (\<lambda>m. (role, m)) (filter (\<lambda>m. 0 < m) menus)\<rparr>"

record role_permission_assignment =
  as_role_id :: int
  as_direct :: "int list"
  as_derived :: "int list"

text \<open>
  \<open>ReplaceDerivedRolePermissionsBatch\<close>: rows that a menu contributes are turned back, then set again
  from the assignments; direct rows stay.
\<close>

definition replace_derived_role_permissions ::
    "role_permission_assignment list \<Rightarrow> authz_db \<Rightarrow> unit result \<times> authz_db" where
  "replace_derived_role_permissions assignments db =
     (let as = filter (\<lambda>a. 0 < as_role_id a) assignments;
          ids = unique_int64 (map as_role_id as);
          pairs = [(as_role_id a, p, p \<in> set (unique_int64 (as_direct a))). a \<leftarrow> as, p \<leftarrow> unique_int64 (as_derived a)];
          both = [(r, p). (r, p, b) \<leftarrow> pairs, b];
          menu_only = [\<lparr>rp_role = r, rp_permission = p, rp_source = ''MENU''\<rparr>. (r, p, b) \<leftarrow> pairs, \<not> b]
      in if authorizationDerivedRelationMax < length pairs
           then (Inl (exceeds ''replace derived role permissions exceeds relation limit''), db)
         else if ids = [] then (Inr (), db)
         else if authorizationSetQueryMaxIDs < length ids
           then (Inl (exceeds ''replace derived role permissions exceeds role limit''), db)
         else
           let rows1 = update_where (\<lambda>l. rp_role l \<in> set ids \<and> rp_source l = ''BOTH'')
                         (\<lambda>l. l\<lparr>rp_source := ''DIRECT''\<rparr>) (db_role_permissions db);
               rows2 = filter (\<lambda>l. \<not> (rp_role l \<in> set ids \<and> rp_source l = ''MENU'')) rows1;
               rows3 = update_where (\<lambda>l. rp_source l = ''DIRECT'' \<and> (rp_role l, rp_permission l) \<in> set both)
                         (\<lambda>l. l\<lparr>rp_source := ''BOTH''\<rparr>) rows2
           in (Inr (), db\<lparr>db_role_permissions := rows3 @ menu_only\<rparr>))"

section \<open>Temporary permissions\<close>

definition temporary_permission_type :: "time option \<Rightarrow> int" where
  "temporary_permission_type expire = (if expire = None then 0 else 1)"

text \<open>\<open>INSERT ... ON DUPLICATE KEY UPDATE\<close> on the key (\<open>userId\<close>, \<open>permissionId\<close>).\<close>

definition grant_temporary_row ::
    "int \<Rightarrow> int \<Rightarrow> string \<Rightarrow> time option \<Rightarrow> string \<Rightarrow> string \<Rightarrow> int \<Rightarrow> authz_db \<Rightarrow> unit result \<times> authz_db" where
  "grant_temporary_row row_id user code expire source reason granted_by db =
     (let permission = find_permission_id_by_code db code;
          key = (\<lambda>u. up_user u = user \<and> up_permission u = permission);
          columns = (\<lambda>u. u\<lparr>up_type := temporary_permission_type expire, up_expire := expire,
                           up_source := trim_space source, up_reason := trim_space reason,
                           up_granted_by := granted_by, up_deleted := False\<rparr>)
      in if permission \<le> 0 then (Inl (PlainError (''temporary permission code not found: '' @ code)), db)
         else if list_ex key (db_user_permissions db)
           then (Inr (), db\<lparr>db_user_permissions := update_where key columns (db_user_permissions db)\<rparr>)
         else (Inr (), db\<lparr>db_user_permissions := db_user_permissions db @
                [\<lparr>up_id = row_id, up_user = user, up_permission = permission,
                  up_type = temporary_permission_type expire, up_expire = expire,
                  up_source = trim_space source, up_reason = trim_space reason, up_granted_by = granted_by,
                  up_deleted = False\<rparr>]\<rparr>))"

definition live_grant :: "int \<Rightarrow> int \<Rightarrow> user_permission_row \<Rightarrow> bool" where
  "live_grant user permission u \<longleftrightarrow> up_user u = user \<and> up_permission u = permission \<and> \<not> up_deleted u"

definition revoke_temporary_row :: "int \<Rightarrow> string \<Rightarrow> authz_db \<Rightarrow> authz_db" where
  "revoke_temporary_row user code db =
     (let permission = find_permission_id_by_code db code
      in if permission \<le> 0 then db
         else db\<lparr>db_user_permissions := update_where (live_grant user permission)
                (\<lambda>u. u\<lparr>up_deleted := True\<rparr>) (db_user_permissions db)\<rparr>)"

definition extend_temporary_row :: "int \<Rightarrow> string \<Rightarrow> time option \<Rightarrow> string \<Rightarrow> authz_db \<Rightarrow> authz_db" where
  "extend_temporary_row user code expire reason db =
     (let permission = find_permission_id_by_code db code
      in if permission \<le> 0 then db
         else db\<lparr>db_user_permissions := update_where (live_grant user permission)
                (\<lambda>u. u\<lparr>up_expire := expire, up_type := temporary_permission_type expire,
                       up_reason := trim_space reason\<rparr>) (db_user_permissions db)\<rparr>)"

definition list_user_temporary_permissions :: "authz_db \<Rightarrow> int \<Rightarrow> temporary_permission list" where
  "list_user_temporary_permissions db user =
     [\<lparr>tp_user = up_user u, tp_code = pm_code p, tp_name = pm_name p, tp_type = (if up_type u = 0 then 0 else 1),
       tp_expire = up_expire u, tp_source = up_source u, tp_reason = up_reason u, tp_granted_by = up_granted_by u\<rparr>.
      u \<leftarrow> sort_key (\<lambda>u. - up_id u) (db_user_permissions db), up_user u = user, \<not> up_deleted u,
      p \<leftarrow> db_permissions db, pm_id p = up_permission u, \<not> pm_deleted p]"

definition expired_grant :: "time \<Rightarrow> user_permission_row \<Rightarrow> bool" where
  "expired_grant now u \<longleftrightarrow>
     \<not> up_deleted u \<and> up_type u \<noteq> 0 \<and> (case up_expire u of None \<Rightarrow> False | Some e \<Rightarrow> e \<le> now)"

definition list_expired_user_ids_page :: "authz_db \<Rightarrow> time \<Rightarrow> int \<Rightarrow> nat \<Rightarrow> int list result" where
  "list_expired_user_ids_page db now after limit =
     (if after < 0 then Inl (PlainError ''list expired temporary permission users page cursor is invalid'')
      else if limit = 0 \<or> authorizationSetQueryChunkSize < limit
        then Inl (PlainError ''list expired temporary permission users page limit is invalid'')
      else Inr (unique_int64 (take limit (sort (remdups (map up_user
             (filter (\<lambda>u. after < up_user u \<and> expired_grant now u) (db_user_permissions db))))))))"

definition cleanup_expired_rows :: "time \<Rightarrow> int list \<Rightarrow> authz_db \<Rightarrow> unit result \<times> authz_db" where
  "cleanup_expired_rows now users db =
     (let ids = unique_int64 users
      in if ids = [] then (Inr (), db)
         else if authorizationSetQueryChunkSize < length ids
           then (Inl (exceeds ''cleanup expired temporary permissions exceeds user limit''), db)
         else (Inr (), db\<lparr>db_user_permissions := update_where (\<lambda>u. up_user u \<in> set ids \<and> expired_grant now u)
                (\<lambda>u. u\<lparr>up_deleted := True\<rparr>) (db_user_permissions db)\<rparr>))"

section \<open>The requests that committed a role's grants\<close>

definition find_role_grant_request :: "authz_db \<Rightarrow> int \<Rightarrow> string \<Rightarrow> grant_request_row option" where
  "find_role_grant_request db role key =
     find (\<lambda>g. gr_role g = role \<and> gr_key g = trim_space key) (db_grant_requests db)"

text \<open>The primary key is (\<open>roleId\<close>, \<open>idempotencyKey\<close>).\<close>

definition create_role_grant_request :: "go_error \<Rightarrow> grant_request_row \<Rightarrow> authz_db \<Rightarrow> unit result \<times> authz_db" where
  "create_role_grant_request dup g db =
     (let row = g\<lparr>gr_key := trim_space (gr_key g)\<rparr>
      in if list_ex (\<lambda>x. gr_role x = gr_role row \<and> gr_key x = gr_key row) (db_grant_requests db) then (Inl dup, db)
         else (Inr (), db\<lparr>db_grant_requests := db_grant_requests db @ [row]\<rparr>))"

end
