(* ===== verification/Authz_Matching.thy ===== *)
theory Authz_Matching
  imports Authz_Policy
begin

text \<open>
  Facts on permission codes: matching is a preorder on codes that are not blank, so a set of held codes
  that allows every code of another set allows whatever that set allows. The facts are collected in
  the locale \<open>permission_preorder\<close>, which is interpreted on \<open>permission_matches\<close>: the proofs about
  granting use only these laws.
\<close>

section \<open>A set of grants over a preorder of codes\<close>

locale permission_preorder =
  fixes matches :: "'c \<Rightarrow> 'c \<Rightarrow> bool" and proper :: "'c \<Rightarrow> bool"
  assumes matches_refl: "proper c \<Longrightarrow> matches c c"
    and matches_trans: "matches a b \<Longrightarrow> matches b c \<Longrightarrow> matches a c"
    and matches_proper: "matches a b \<Longrightarrow> proper a \<and> proper b"
begin

definition allows :: "'c list \<Rightarrow> 'c \<Rightarrow> bool" where
  "allows held c \<longleftrightarrow> (\<exists>h \<in> set held. matches h c)"

definition covers :: "'c list \<Rightarrow> 'c list \<Rightarrow> bool" where
  "covers held granted \<longleftrightarrow> (\<forall>g \<in> set granted. proper g \<longrightarrow> allows held g)"

lemma allows_mono: "set xs \<subseteq> set ys \<Longrightarrow> allows xs c \<Longrightarrow> allows ys c"
  by (auto simp: allows_def)

lemma allows_append: "allows (xs @ ys) c \<longleftrightarrow> allows xs c \<or> allows ys c"
  by (auto simp: allows_def)

lemma covers_allows: "covers held granted \<Longrightarrow> allows granted c \<Longrightarrow> allows held c"
  unfolding covers_def allows_def using matches_trans matches_proper by blast

lemma covers_trans: "covers a b \<Longrightarrow> covers b c \<Longrightarrow> covers a c"
  using covers_allows by (auto simp: covers_def)

lemma covers_subset: "set granted \<subseteq> set held \<Longrightarrow> covers held granted"
  unfolding covers_def allows_def using matches_refl by blast

lemma covers_append: "covers held (xs @ ys) \<longleftrightarrow> covers held xs \<and> covers held ys"
  by (auto simp: covers_def)

end

section \<open>Matching of codes\<close>

lemma has_suffix_iff: "has_suffix s p \<longleftrightarrow> (\<exists>q. s = q @ p)"
proof
  assume "has_suffix s p"
  then obtain r where "rev s = rev p @ r" by (auto simp: has_suffix_def starts_with_iff)
  then have "s = rev r @ p" by (metis rev_append rev_rev_ident)
  then show "\<exists>q. s = q @ p" ..
next
  assume "\<exists>q. s = q @ p"
  then show "has_suffix s p" by (auto simp: has_suffix_def starts_with_iff)
qed

lemma trim_suffix_append [simp]: "trim_suffix (q @ p) p = q"
  by (auto simp: trim_suffix_def has_suffix_iff)

lemma wildcard_prefix [simp]: "trim_suffix (q @ '':*'') ''*'' = q @ '':''"
  using trim_suffix_append [of "q @ '':''" "''*''"] by simp

text \<open>The rule without trimming: everything, the code itself, or a prefix that ends in a colon.\<close>

definition code_matches :: "string \<Rightarrow> string \<Rightarrow> bool" where
  "code_matches c p \<longleftrightarrow> c \<noteq> [] \<and> p \<noteq> [] \<and>
     (c = ''*'' \<or> c = p \<or> (\<exists>q. c = q @ '':*'' \<and> starts_with (q @ '':'') p))"

lemma permission_matches_eq: "permission_matches c p \<longleftrightarrow> code_matches (trim_space c) (trim_space p)"
  by (auto simp: permission_matches_def code_matches_def Let_def has_suffix_iff has_prefix_def)

lemma colon_prefix:
  assumes "starts_with (q @ '':'') (r @ '':*'')"
  shows "starts_with (q @ '':'') (r @ '':'')"
proof -
  obtain t where t: "r @ '':*'' = (q @ '':'') @ t" using assms by (auto simp: starts_with_iff)
  then have "t \<noteq> []" by (cases t) (auto dest: arg_cong [where f = last])
  then obtain t' c where "t = t' @ [c]" by (metis rev_exhaust)
  with t have "r @ '':'' = (q @ '':'') @ t'" by simp
  then show ?thesis by (auto simp: starts_with_iff)
qed

lemma colon_star: "\<not> starts_with (q @ '':'') ''*''"
  by (cases q) (auto simp: starts_with_iff Cons_eq_append_conv)

lemma starts_with_trans: "starts_with a b \<Longrightarrow> starts_with b c \<Longrightarrow> starts_with a c"
  by (auto simp: starts_with_iff)

lemma code_matches_trans:
  assumes "code_matches c d" "code_matches d p"
  shows "code_matches c p"
proof -
  have ne: "c \<noteq> []" "d \<noteq> []" "p \<noteq> []" using assms by (auto simp: code_matches_def)
  consider "c = ''*''" | "c = d" | q where "c = q @ '':*''" "starts_with (q @ '':'') d"
    using assms(1) by (auto simp: code_matches_def)
  then show ?thesis
  proof cases
    case 3
    consider "d = ''*''" | "d = p" | r where "d = r @ '':*''" "starts_with (r @ '':'') p"
      using assms(2) by (auto simp: code_matches_def)
    then show ?thesis
    proof cases
      case 1
      with 3 colon_star show ?thesis by simp
    next
      case 2
      with 3 ne show ?thesis by (auto simp: code_matches_def)
    next
      case (3 r)
      then have "starts_with (q @ '':'') p"
        using \<open>starts_with (q @ '':'') d\<close> colon_prefix starts_with_trans by blast
      with \<open>c = q @ '':*''\<close> ne show ?thesis by (auto simp: code_matches_def)
    qed
  qed (use assms ne in \<open>auto simp: code_matches_def\<close>)
qed

lemma permission_matches_refl: "\<not> blank c \<Longrightarrow> permission_matches c c"
  by (simp add: permission_matches_eq code_matches_def blank_def)

lemma permission_matches_trans:
  "permission_matches a b \<Longrightarrow> permission_matches b c \<Longrightarrow> permission_matches a c"
  unfolding permission_matches_eq by (rule code_matches_trans)

lemma permission_matches_proper: "permission_matches a b \<Longrightarrow> \<not> blank a \<and> \<not> blank b"
  by (auto simp: permission_matches_eq code_matches_def blank_def)

lemma permission_matches_trim [simp]:
  "permission_matches (trim_space a) b = permission_matches a b"
  "permission_matches a (trim_space b) = permission_matches a b"
  by (simp_all add: permission_matches_eq)

interpretation pc: permission_preorder permission_matches "\<lambda>c. \<not> blank c"
  by unfold_locales
    (use permission_matches_refl permission_matches_trans permission_matches_proper in blast)+

lemma permission_code_set_allows_iff: "permission_code_set_allows held c \<longleftrightarrow> pc.allows held c"
proof (cases "blank c")
  case True
  then show ?thesis
    using permission_matches_proper by (auto simp: permission_code_set_allows_def pc.allows_def blank_def)
qed (auto simp: permission_code_set_allows_def pc.allows_def blank_def list_ex_iff)

text \<open>Trimming, dropping blank codes and removing duplicates change nothing about what is allowed.\<close>

lemma set_normalize_permission_codes [simp]:
  "set (normalize_permission_codes vs) = trim_space ` set vs - {[]}"
  by (auto simp: normalize_permission_codes_def)

lemma set_normalize_codes [simp]: "set (normalize_codes vs) = trim_space ` set vs - {[]}"
  by (auto simp: normalize_codes_def)

lemma normalize_codes_sorted [simp]: "sorted (normalize_codes vs)" "distinct (normalize_codes vs)"
  by (simp_all add: normalize_codes_def)

lemma allows_normalized:
  assumes "set xs = trim_space ` set vs - {[]}"
  shows "pc.allows xs c \<longleftrightarrow> pc.allows vs c"
proof
  assume "pc.allows xs c"
  then show "pc.allows vs c" using assms by (auto simp: pc.allows_def)
next
  assume "pc.allows vs c"
  then obtain v where v: "v \<in> set vs" "permission_matches v c" by (auto simp: pc.allows_def)
  then have "trim_space v \<noteq> []" using permission_matches_proper blank_def by blast
  with v assms have "trim_space v \<in> set xs" by auto
  with v show "pc.allows xs c" unfolding pc.allows_def by (metis permission_matches_trim(1))
qed

lemma allows_normalize_codes [simp]: "pc.allows (normalize_codes vs) c \<longleftrightarrow> pc.allows vs c"
  by (rule allows_normalized) simp

text \<open>The check of the grant code: every code that is not blank is allowed.\<close>

lemma covers_check:
  "(\<forall>c \<in> set (normalize_permission_codes vs). permission_code_set_allows held c) \<longleftrightarrow> pc.covers held vs"
proof -
  have "set (normalize_permission_codes vs) = trim_space ` {v \<in> set vs. \<not> blank v}"
    by (auto simp: blank_def)
  then have "(\<forall>c \<in> set (normalize_permission_codes vs). permission_code_set_allows held c) \<longleftrightarrow>
          (\<forall>v \<in> set vs. \<not> blank v \<longrightarrow> pc.allows held v)"
    by (simp only: permission_code_set_allows_iff ball_simps(9) pc.allows_def permission_matches_trim
          Ball_Collect [symmetric] mem_Collect_eq) blast
  then show ?thesis by (simp add: pc.covers_def)
qed

end
