(* ===== verification/Authz_Context.thy ===== *)
theory Authz_Context
  imports Authz_Model Authz_Matching
begin

text \<open>
  What a user may do at an instant: the roles, permissions, menus and departments the repository
  finds for the user, and the context the service builds from them
  (\<open>ListUserRoles\<close>, \<open>ListUserPermissions\<close>, \<open>BuildUserContext\<close>, \<open>HasPermission\<close> and their callers in
  \<open>app/authorization\<close>). All of them only read.
\<close>

section \<open>The surroundings of a request\<close>

text \<open>
  What a request of the service meets: the features of the deployment (\<open>None\<close> when no set was given),
  whether a consistent transactor is configured, which errors of the database are serialization
  failures, how each attempt of a transaction and each snapshot ends, the registrar of cache
  invalidations with its fences (\<open>None\<close> when cache governance is disabled), the candidate the governed
  cache holds for a user (\<open>None\<close> when it is not configured), the driver's errors for a duplicate key and for a
  \<open>NULL\<close> in a column that takes none, the next identifier of the generator, and the texts of digests and instants.
\<close>

record user_context =
  uc_user :: int
  uc_username :: string
  uc_nickname :: string
  uc_role_ids :: "int list"
  uc_roles :: "string list"
  uc_permissions :: "string list"
  uc_primary_org :: int
  uc_org_ids :: "int list"
  uc_primary_dept :: int
  uc_dept_ids :: "int list"
  uc_post_ids :: "int list"
  uc_post_codes :: "string list"
  uc_scope_depts :: "int list"
  uc_scope_orgs :: "int list"
  uc_scope_type :: data_scope_type
  uc_session :: string
  uc_issued :: int
  uc_expires :: int
  uc_source :: string
  uc_admin :: bool

record authz_env =
  az_features :: "string list option"
  az_transactor :: bool
  az_serial :: "go_error \<Rightarrow> bool"
  az_outcome :: "nat \<Rightarrow> sql_outcome"
  az_snapshot :: sql_outcome
  az_governance :: "((string \<Rightarrow> unit result) \<times> (string \<Rightarrow> unit result)) option"
  az_cache :: "(int \<Rightarrow> user_context option) option"
  az_dup :: go_error
  az_null :: go_error
  az_new_id :: int
  az_digest :: "string \<Rightarrow> string"
  az_instant :: "time \<Rightarrow> string"

section \<open>The user\<close>

record user_aggregate =
  ua_user :: int
  ua_username :: string
  ua_nickname :: string
  ua_enabled :: bool
  ua_locked :: bool
  ua_primary_org :: int
  ua_primary_dept :: int
  ua_primary_post :: int

definition UserStatusNormal :: int where "UserStatusNormal = 0"
definition UserStatusDisabled :: int where "UserStatusDisabled = 1"
definition UserStatusPendingReview :: int where "UserStatusPendingReview = 2"

definition user_enabled :: "int \<Rightarrow> bool" where
  "user_enabled status \<longleftrightarrow> status = UserStatusNormal"

definition user_locked :: "int \<Rightarrow> time option \<Rightarrow> time \<Rightarrow> bool" where
  "user_locked status unseal now \<longleftrightarrow>
     \<not> (status = UserStatusNormal) \<and> (case unseal of None \<Rightarrow> False | Some t \<Rightarrow> now < t)"

definition valid_user_status :: "int \<Rightarrow> bool" where
  "valid_user_status s \<longleftrightarrow> s = UserStatusNormal \<or> s = UserStatusDisabled \<or> s = UserStatusPendingReview"

definition first_id :: "int list \<Rightarrow> int" where
  "first_id ids = (case ids of [] \<Rightarrow> 0 | i # _ \<Rightarrow> i)"

definition find_user_aggregate :: "authz_db \<Rightarrow> time \<Rightarrow> int \<Rightarrow> user_aggregate option" where
  "find_user_aggregate db now user =
     (case find_subject db user of
        None \<Rightarrow> None
      | Some r \<Rightarrow> Some
          \<lparr>ua_user = us_id r, ua_username = us_account r, ua_nickname = us_nick r,
           ua_enabled = user_enabled (us_status r), ua_locked = user_locked (us_status r) (us_unseal r) now,
           ua_primary_org = first_id (list_user_org_ids db user),
           ua_primary_dept = first_id (list_user_dept_ids db user),
           ua_primary_post = first_id (list_user_post_ids db user)\<rparr>)"

text \<open>The records of the ids that exist, in the order of the ids.\<close>

definition in_order_of :: "('a \<Rightarrow> int) \<Rightarrow> 'a list \<Rightarrow> int list \<Rightarrow> 'a list" where
  "in_order_of key items ids = List.map_filter (by_key key items) ids"

definition list_authorization_orgs :: "authz_db \<Rightarrow> int \<Rightarrow> org_row list" where
  "list_authorization_orgs db user =
     (let ids = list_user_org_ids db user in in_order_of og_id (find_orgs_by_ids db ids) ids)"

definition list_authorization_depts :: "authz_db \<Rightarrow> int \<Rightarrow> dept_row list" where
  "list_authorization_depts db user =
     (let ids = list_user_dept_ids db user in in_order_of dp_id (find_depts_by_ids db ids) ids)"

definition list_authorization_posts :: "authz_db \<Rightarrow> int \<Rightarrow> post_row list" where
  "list_authorization_posts db user =
     (let ids = list_user_post_ids db user in in_order_of po_id (find_posts_by_ids db ids) ids)"

definition list_dept_ids_by_hierarchies :: "authz_db \<Rightarrow> string list \<Rightarrow> (string \<times> int list) list" where
  "list_dept_ids_by_hierarchies db hierarchies =
     [(p, map dp_id (filter (\<lambda>d. dp_hierarchy d = p \<or> has_prefix (dp_hierarchy d) (p @ ''/'')) (list_depts db))).
        p \<leftarrow> map trim_space hierarchies, p \<noteq> []]"

definition dept_ids_by_hierarchies :: "authz_db \<Rightarrow> string list \<Rightarrow> (string \<times> int list) list result" where
  "dept_ids_by_hierarchies db hierarchies =
     (if authorizationSetQueryMaxIDs < length hierarchies
        then Inl (exceeds ''list department ids by hierarchies: hierarchy set exceeds 1000'')
      else let result = list_dept_ids_by_hierarchies db hierarchies
           in if authorizationSetQueryMaxIDs < length (concat (map snd result))
                then Inl (exceeds ''list department ids by hierarchies: result exceeds 1000'')
              else Inr result)"

section \<open>Effective roles\<close>

text \<open>Roles held directly, joined with the live and enabled role rows.\<close>

definition open_role :: "role_row \<Rightarrow> bool" where
  "open_role r \<longleftrightarrow> \<not> ro_deleted r \<and> ro_status r = 0"

definition direct_role_ids :: "authz_db \<Rightarrow> int \<Rightarrow> int list" where
  "direct_role_ids db user =
     sort [ur_role l. l \<leftarrow> db_user_roles db, ur_user l = user, \<not> ur_deleted l,
                      r \<leftarrow> db_roles db, ro_id r = ur_role l, open_role r]"

text \<open>Roles of the user's positions, the authorization root excepted.\<close>

definition post_role_ids :: "authz_db \<Rightarrow> int list \<Rightarrow> int list" where
  "post_role_ids db posts =
     map fst (sort [(r, p). (p, r) \<leftarrow> db_post_roles db, p \<in> set posts,
                            x \<leftarrow> db_roles db, ro_id x = r, open_role x,
                            ro_system_key x \<noteq> AuthorizationRootSystemKey])"

definition user_posts :: "authz_db \<Rightarrow> int \<Rightarrow> int list" where
  "user_posts db user = filter (\<lambda>p. 0 < p) (map po_id (list_authorization_posts db user))"

definition list_effective_role_ids :: "authz_db \<Rightarrow> int \<Rightarrow> int list result" where
  "list_effective_role_ids db user =
     (if user \<le> 0 then Inr []
      else
        let direct = direct_role_ids db user; posts = user_posts db user; from_posts = post_role_ids db posts
        in if authorizationSetQueryMaxIDs < length direct
             then Inl (exceeds ''list effective role ids: direct role set exceeds 1000'')
           else if authorizationSetQueryMaxIDs < length posts
             then Inl (exceeds ''list effective role ids: post set exceeds 1000'')
           else if posts \<noteq> [] \<and> authorizationSetQueryMaxIDs < length direct + length from_posts
             then Inl (exceeds ''list effective role ids: accumulated role set exceeds 1000'')
           else Inr (unique_int64 (direct @ (if posts = [] then [] else from_posts))))"

text \<open>The order of the roles is the database's; here it is the order of the table.\<close>

definition list_user_roles :: "authz_db \<Rightarrow> int \<Rightarrow> role_record list result" where
  "list_user_roles db user =
     if_ok (list_effective_role_ids db user) (\<lambda>ids.
       Inr (map as_role (filter (\<lambda>r. open_role r \<and> ro_id r \<in> set ids) (db_roles db))))"

section \<open>Effective permissions\<close>

text \<open>A code with the feature it belongs to.\<close>

type_synonym coded = "string \<times> string"

definition role_permission_codes :: "authz_db \<Rightarrow> int list \<Rightarrow> coded list" where
  "role_permission_codes db ids =
     [(pm_code p, pm_feature p). l \<leftarrow> db_role_permissions db, rp_role l \<in> set ids,
                                 p \<leftarrow> db_permissions db, pm_id p = rp_permission l, open_permission p]"

definition role_menu_codes :: "authz_db \<Rightarrow> int list \<Rightarrow> coded list" where
  "role_menu_codes db ids =
     [(mn_permission m, mn_feature m). (r, i) \<leftarrow> db_role_menus db, r \<in> set ids,
        m \<leftarrow> db_menus db, mn_id m = i, \<not> mn_deleted m, mn_status m = 0, mn_permission m \<noteq> []]"

definition temporary_codes :: "authz_db \<Rightarrow> time \<Rightarrow> int \<Rightarrow> coded list" where
  "temporary_codes db now user =
     [(pm_code p, pm_feature p). u \<leftarrow> db_user_permissions db, up_user u = user, \<not> up_deleted u,
        up_type u = 0 \<or> (case up_expire u of None \<Rightarrow> True | Some e \<Rightarrow> now < e),
        p \<leftarrow> db_permissions db, pm_id p = up_permission u, open_permission p]"

definition too_many_codes :: go_error where
  "too_many_codes = exceeds ''list authorization user permissions: result exceeds 1000''"

text \<open>The two queries for every chunk of roles; each may return what is left of 1000 rows.\<close>

fun collect_codes :: "authz_db \<Rightarrow> int list list \<Rightarrow> coded list \<Rightarrow> coded list result" where
  "collect_codes db [] records = Inr records"
| "collect_codes db (ids # cs) records =
     (let rows = role_permission_codes db ids; records1 = records @ rows;
          menus = role_menu_codes db ids; records2 = records1 @ menus
      in if authorizationSetQueryMaxIDs < length records1 then Inl too_many_codes
         else if authorizationSetQueryMaxIDs < length records2 then Inl too_many_codes
         else collect_codes db cs records2)"

definition coded_key :: "coded \<Rightarrow> string" where
  "coded_key c = fst c @ [CHR 0x00] @ snd c"

definition distinct_codes :: "coded list \<Rightarrow> coded list" where
  "distinct_codes records =
     (let items = filter (\<lambda>c. fst c \<noteq> []) (map (map_prod trim_space trim_space) records)
      in List.map_filter (by_key coded_key items) (sort (remdups (map coded_key items))))"

definition list_user_permissions :: "authz_db \<Rightarrow> time \<Rightarrow> int \<Rightarrow> coded list result" where
  "list_user_permissions db now user =
     if_ok (list_effective_role_ids db user) (\<lambda>ids.
     if_ok (require (length ids \<le> authorizationSetQueryMaxIDs)
              (exceeds ''list authorization user permissions: role set exceeds 1000'')) (\<lambda>_.
     if_ok (collect_codes db (chunks authorizationSetQueryChunkSize ids) []) (\<lambda>records.
       let records1 = records @ temporary_codes db now user
       in if authorizationSetQueryMaxIDs < length records1 then Inl too_many_codes
          else Inr (distinct_codes records1))))"

text \<open>The codes of roles, for the check of what an assignment would confer.\<close>

fun collect_role_codes :: "authz_db \<Rightarrow> int list list \<Rightarrow> string list \<Rightarrow> string list result" where
  "collect_role_codes db [] codes = Inr codes"
| "collect_role_codes db (ids # cs) codes =
     (let rows = map fst (role_permission_codes db ids); codes1 = unique_string (codes @ rows);
          menus = map fst (role_menu_codes db ids); codes2 = unique_string (codes1 @ menus);
          limit = exceeds ''list permission codes by role ids: result exceeds 1000''
      in if authorizationSetQueryMaxIDs < length codes + length rows then Inl limit
         else if authorizationSetQueryMaxIDs < length codes1 + length menus then Inl limit
         else collect_role_codes db cs codes2)"

definition list_permission_codes_by_role_ids :: "authz_db \<Rightarrow> int list \<Rightarrow> string list result" where
  "list_permission_codes_by_role_ids db roles =
     (let ids = unique_int64 roles
      in if ids = [] then Inr []
         else if authorizationSetQueryMaxIDs < length ids
           then Inl (exceeds ''list permission codes by role ids: role set exceeds 1000'')
         else map_sum id sort (collect_role_codes db (chunks authorizationSetQueryChunkSize ids) []))"

definition enabled_permission_codes :: "string list option \<Rightarrow> coded list \<Rightarrow> string list" where
  "enabled_permission_codes features records =
     map fst (filter (\<lambda>c. feature_enabled features (snd c)) records)"

section \<open>The context of a user\<close>

definition user_unavailable :: go_error where
  "user_unavailable = unauthorized (utf8 [0x5F53, 0x524D, 0x7528, 0x6237, 0x4E0D, 0x5B58, 0x5728, 0x6216, 0x5DF2, 0x5931, 0x6548])"

definition require_available :: "authz_db \<Rightarrow> time \<Rightarrow> int \<Rightarrow> user_aggregate result" where
  "require_available db now user =
     (case find_user_aggregate db now user of
        None \<Rightarrow> Inl user_unavailable
      | Some a \<Rightarrow> if \<not> ua_enabled a \<or> ua_locked a then Inl user_unavailable else Inr a)"

definition list_role_dept_ids :: "authz_db \<Rightarrow> int list \<Rightarrow> int list" where
  "list_role_dept_ids db roles = remdups (map snd (filter (\<lambda>(r, d). r \<in> set roles) (db_role_depts db)))"

definition dept_hierarchies :: "dept_row list \<Rightarrow> int \<rightharpoonup> string" where
  "dept_hierarchies depts = (\<lambda>d. map_option dp_hierarchy (by_key dp_id depts d))"

definition hierarchy_values :: "dept_row list \<Rightarrow> string list" where
  "hierarchy_values depts = unique_string (map dp_hierarchy depts)"

definition build_context_source :: "authz_env \<Rightarrow> authz_db \<Rightarrow> time \<Rightarrow> int \<Rightarrow> user_context result" where
  "build_context_source env db now user =
     if_ok (require_available db now user) (\<lambda>a.
     if_ok (list_user_roles db user) (\<lambda>roles.
     if_ok (list_user_permissions db now user) (\<lambda>permissions.
       let orgs = map og_id (list_authorization_orgs db user);
           depts = list_authorization_depts db user;
           posts = list_authorization_posts db user;
           role_ids = map ro_id roles;
           custom = list_role_dept_ids db role_ids
       in if_ok (dept_ids_by_hierarchies db (hierarchy_values depts)) (\<lambda>by_hierarchy.
            let scope = effective_data_scope roles custom (map dp_id depts) orgs (dept_hierarchies depts)
                          (map_of by_hierarchy)
            in Inr \<lparr>uc_user = ua_user a, uc_username = ua_username a, uc_nickname = ua_nickname a,
                    uc_role_ids = unique_int64 role_ids, uc_roles = normalize_codes (map ro_code roles),
                    uc_permissions = normalize_codes (enabled_permission_codes (az_features env) permissions),
                    uc_primary_org = ua_primary_org a, uc_org_ids = unique_int64 orgs,
                    uc_primary_dept = ua_primary_dept a, uc_dept_ids = unique_int64 (map dp_id depts),
                    uc_post_ids = unique_int64 (map po_id posts), uc_post_codes = normalize_codes (map po_code posts),
                    uc_scope_depts = unique_int64 (ds_depts scope), uc_scope_orgs = unique_int64 (ds_orgs scope),
                    uc_scope_type = ds_type scope, uc_session = [], uc_issued = 0, uc_expires = 0,
                    uc_source = [], uc_admin = is_admin roles\<rparr>))))"

definition has_active_temporary_permission :: "authz_db \<Rightarrow> time \<Rightarrow> int \<Rightarrow> bool" where
  "has_active_temporary_permission db now user \<longleftrightarrow>
     list_ex (\<lambda>t. tp_type t \<noteq> 0 \<and> (case tp_expire t of None \<Rightarrow> True | Some e \<Rightarrow> now < e))
       (list_user_temporary_permissions db user)"

text \<open>
  \<open>loadAuthorizationContextSnapshot\<close>: the governed cache answers only for a user that is available and
  has no temporary permission running; everything else is read from the tables.
\<close>

definition load_context_snapshot :: "authz_env \<Rightarrow> authz_db \<Rightarrow> time \<Rightarrow> int \<Rightarrow> user_context result" where
  "load_context_snapshot env db now user =
     (case az_cache env of
        None \<Rightarrow> build_context_source env db now user
      | Some candidate \<Rightarrow>
          (case require_available db now user of
             Inl e \<Rightarrow> build_context_source env db now user
           | Inr _ \<Rightarrow>
               if has_active_temporary_permission db now user then build_context_source env db now user
               else (case candidate user of
                       Some c \<Rightarrow> if 0 < uc_user c then Inr c else build_context_source env db now user
                     | None \<Rightarrow> build_context_source env db now user)))"

definition with_session ::
    "user_context \<Rightarrow> string \<Rightarrow> time option \<Rightarrow> time option \<Rightarrow> string \<Rightarrow> user_context" where
  "with_session c session issued expires source =
     c\<lparr>uc_session := trim_space session,
       uc_issued := (case issued of None \<Rightarrow> 0 | Some t \<Rightarrow> unix_seconds t),
       uc_expires := (case expires of None \<Rightarrow> 0 | Some t \<Rightarrow> unix_seconds t), uc_source := trim_space source\<rparr>"

definition not_logged_in :: go_error where
  "not_logged_in = unauthorized (utf8 [0x672A, 0x767B, 0x5F55, 0x6216, 0x767B, 0x5F55, 0x4FE1, 0x606F, 0x5931, 0x6548])"

definition build_user_context ::
    "authz_env \<Rightarrow> tx_mode \<Rightarrow> authz_db \<Rightarrow> time \<Rightarrow> int \<Rightarrow> string \<Rightarrow> time option \<Rightarrow> time option \<Rightarrow> string \<Rightarrow>
     user_context result" where
  "build_user_context env m db now user session issued expires source =
     (if user \<le> 0 then Inl not_logged_in
      else if \<not> az_transactor env then Inl (system_error (utf8 [0x6388, 0x6743, 0x4E0A, 0x4E0B, 0x6587, 0x4E00, 0x81F4, 0x6027, 0x5FEB, 0x7167, 0x80FD, 0x529B, 0x672A, 0x914D, 0x7F6E]))
      else if_ok (fst (tx_snapshot (az_snapshot env) (\<lambda>_ d. (load_context_snapshot env d now user, d)) m db))
             (\<lambda>c. Inr (with_session c session issued expires source)))"

text \<open>The context without a session, as the checks of the service ask for it.\<close>

definition context_of :: "authz_env \<Rightarrow> tx_mode \<Rightarrow> authz_db \<Rightarrow> time \<Rightarrow> int \<Rightarrow> string \<Rightarrow> user_context result" where
  "context_of env m db now user source = build_user_context env m db now user [] None None source"

section \<open>Questions about a user\<close>

definition has_permission :: "authz_env \<Rightarrow> tx_mode \<Rightarrow> authz_db \<Rightarrow> time \<Rightarrow> int \<Rightarrow> string \<Rightarrow> bool result" where
  "has_permission env m db now user permission =
     if_ok (context_of env m db now user ''auth-facade'') (\<lambda>c.
       Inr (uc_admin c \<or> list_ex (\<lambda>p. permission_matches p (trim_space permission)) (uc_permissions c)))"

definition has_role :: "authz_env \<Rightarrow> tx_mode \<Rightarrow> authz_db \<Rightarrow> time \<Rightarrow> int \<Rightarrow> string \<Rightarrow> bool result" where
  "has_role env m db now user role =
     if_ok (context_of env m db now user ''auth-facade'') (\<lambda>c. Inr (trim_space role \<in> set (uc_roles c)))"

definition get_user_permissions :: "authz_env \<Rightarrow> authz_db \<Rightarrow> time \<Rightarrow> int \<Rightarrow> string list result" where
  "get_user_permissions env db now user =
     map_sum id (\<lambda>ps. normalize_codes (enabled_permission_codes (az_features env) ps))
       (list_user_permissions db now user)"

definition get_user_permissions_by_module ::
    "authz_env \<Rightarrow> authz_db \<Rightarrow> time \<Rightarrow> int \<Rightarrow> string \<Rightarrow> string list result" where
  "get_user_permissions_by_module env db now user module_name =
     (if user \<le> 0 then Inl (unauthorized (utf8 [0x672A, 0x767B, 0x5F55]))
      else map_sum id (\<lambda>ps. filter_permissions_by_module (enabled_permission_codes (az_features env) ps) module_name)
             (list_user_permissions db now user))"

definition get_user_roles :: "authz_db \<Rightarrow> int \<Rightarrow> string list result" where
  "get_user_roles db user = map_sum id (\<lambda>rs. normalize_codes (map ro_code rs)) (list_user_roles db user)"

definition is_authorization_root_user :: "authz_db \<Rightarrow> int \<Rightarrow> bool result" where
  "is_authorization_root_user db user =
     (if user \<le> 0 then Inr False else map_sum id is_admin (list_user_roles db user))"

record root_security_status =
  rs_role :: int
  rs_code :: string
  rs_admins :: nat
  rs_healthy :: bool

text \<open>The count of \<open>GetAuthorizationRootSecuritySnapshot\<close> does not ask whether the role is enabled.\<close>

definition get_root_security_status :: "authz_db \<Rightarrow> root_security_status result" where
  "get_root_security_status db =
     (case find root_row (db_roles db) of
        None \<Rightarrow> Inl (system_error (utf8 [0x6388, 0x6743, 0x5B89, 0x5168, 0x6839, 0x4E0D, 0x5B58, 0x5728]))
      | Some r \<Rightarrow>
          let n = length (remdups [us_id u. u \<leftarrow> db_users db, us_status u = 0, \<not> us_deleted u,
                                    l \<leftarrow> db_user_roles db, ur_user l = us_id u, \<not> ur_deleted l, ur_role l = ro_id r])
          in if \<not> is_authorization_root (as_role r) then Inl (system_error (utf8 [0x6388, 0x6743, 0x5B89, 0x5168, 0x6839, 0x4E0D, 0x5B58, 0x5728]))
             else Inr \<lparr>rs_role = ro_id r, rs_code = ro_code r, rs_admins = n, rs_healthy = 2 \<le> n\<rparr>)"

section \<open>The grants of an operator\<close>

definition grant_refused :: go_error where
  "grant_refused = forbidden (utf8 [0x4E0D, 0x80FD, 0x6388, 0x4E88, 0x5F53, 0x524D, 0x7528, 0x6237, 0x672A, 0x6301, 0x6709, 0x7684, 0x6743, 0x9650])"

text \<open>An operator that is not positive stands for the system itself, which may grant everything.\<close>

definition ensure_operator_can_grant_codes ::
    "authz_env \<Rightarrow> tx_mode \<Rightarrow> authz_db \<Rightarrow> time \<Rightarrow> int \<Rightarrow> string list \<Rightarrow> unit result" where
  "ensure_operator_can_grant_codes env m db now operator codes =
     (let cs = normalize_permission_codes codes
      in if operator \<le> 0 \<or> cs = [] then Inr ()
         else if_ok (context_of env m db now operator ''auth-rbac-grant'') (\<lambda>c.
           require (uc_admin c \<or> list_all (permission_code_set_allows (uc_permissions c)) cs) grant_refused))"

definition invalid_permission :: go_error where
  "invalid_permission = params_error (utf8 [0x5B58, 0x5728, 0x65E0, 0x6548, 0x6743, 0x9650] @ ''ID'')"

definition permission_codes_by_ids :: "authz_db \<Rightarrow> int list \<Rightarrow> string list result" where
  "permission_codes_by_ids db permissions =
     (let ids = unique_int64 permissions; codes = list_permission_codes_by_ids db ids
      in if list_ex (\<lambda>i. codes i = None \<or> codes i = Some []) ids then Inl invalid_permission
         else Inr (List.map_filter codes ids))"

definition ensure_operator_can_grant_ids ::
    "authz_env \<Rightarrow> tx_mode \<Rightarrow> authz_db \<Rightarrow> time \<Rightarrow> int \<Rightarrow> int list \<Rightarrow> unit result" where
  "ensure_operator_can_grant_ids env m db now operator permissions =
     (if operator \<le> 0 then Inr ()
      else if_ok (permission_codes_by_ids db permissions)
             (ensure_operator_can_grant_codes env m db now operator))"

definition root_assignment_refused :: go_error where
  "root_assignment_refused = forbidden (utf8 [0x4E0D, 0x80FD, 0x5206, 0x914D, 0x8D85, 0x7EA7, 0x7BA1, 0x7406, 0x5458, 0x89D2, 0x8272])"

definition ensure_may_assign_root :: "authz_db \<Rightarrow> int \<Rightarrow> nat \<Rightarrow> unit result" where
  "ensure_may_assign_root db operator roots =
     (if roots = 0 then Inr ()
      else if operator \<le> 0 then Inl root_assignment_refused
      else if_ok (list_user_roles db operator) (\<lambda>held. require (is_admin held) root_assignment_refused))"

definition ensure_operator_can_assign_user_roles ::
    "authz_env \<Rightarrow> tx_mode \<Rightarrow> authz_db \<Rightarrow> time \<Rightarrow> int \<Rightarrow> int list \<Rightarrow> unit result" where
  "ensure_operator_can_assign_user_roles env m db now operator roles =
     if_ok (ensure_operator_can_grant_codes env m db now operator [''system:user-role:assign'']) (\<lambda>_.
     if_ok (count_authorization_root_roles db (unique_int64 roles)) (\<lambda>roots.
     if_ok (ensure_may_assign_root db operator roots) (\<lambda>_.
     if_ok (list_permission_codes_by_role_ids db roles)
       (ensure_operator_can_grant_codes env m db now operator))))"

end
