(* ===== verification/Authz_Grant.thy ===== *)
theory Authz_Grant
  imports Authz_Context
begin

text \<open>
  The operations that change who holds what: the roles of users, the menus, permissions and
  departments of roles (\<open>app/authorization/application/service.go\<close>).

  An operation that reads before it opens its transaction takes two states: \<open>seen\<close>, the tables as the
  reads before the transaction found them, and the tables the transaction runs on. Other requests may
  have changed the tables in between.
\<close>

section \<open>Boundaries\<close>

definition invalidation_classes :: "string list" where
  "invalidation_classes = [''authorization.context.v1'', ''authorization.menu.v1'']"

definition authz_registrar :: "authz_env \<Rightarrow> authz_db registrar option" where
  "authz_registrar env =
     (case az_governance env of
        None \<Rightarrow> None
      | Some (fence, register) \<Rightarrow> Some
          \<lparr>rg_fence = fence,
           rg_register = (\<lambda>c db. (case register c of
                                   Inl e \<Rightarrow> (Inl e, db)
                                 | Inr _ \<Rightarrow> (Inr (), db\<lparr>db_invalidations := db_invalidations db @ [c]\<rparr>)))\<rparr>)"

definition transaction_unconfigured_authz :: go_error where
  "transaction_unconfigured_authz = system_error (utf8 [0x6388, 0x6743, 0x5B89, 0x5168, 0x5199, 0x4E00, 0x81F4, 0x6027, 0x4E8B, 0x52A1, 0x80FD, 0x529B, 0x672A, 0x914D, 0x7F6E])"

definition authz_transaction :: "authz_env \<Rightarrow> ('a, authz_db) tx_body \<Rightarrow> ('a, authz_db) tx_body" where
  "authz_transaction env body m db =
     (if \<not> az_transactor env then (Inl transaction_unconfigured_authz, db)
      else retry_serialization (az_serial env) (\<lambda>i. tx_consistent (az_outcome env i) body m) 2 0 db)"

definition authz_mutation :: "authz_env \<Rightarrow> ('a, authz_db) tx_body \<Rightarrow> ('a, authz_db) tx_body" where
  "authz_mutation env fn =
     run_invalidated_mutation_classes (authz_registrar env) invalidation_classes (authz_transaction env) (changing fn)"

section \<open>Locking and checking what an operation refers to\<close>

definition invalid_role :: go_error where
  "invalid_role = params_error (utf8 [0x5B58, 0x5728, 0x65E0, 0x6548, 0x89D2, 0x8272] @ ''ID'')"

definition lock_role_parents :: "authz_db \<Rightarrow> int list \<Rightarrow> role_record list result" where
  "lock_role_parents db roles =
     (let ids = unique_int64 roles
      in if ids = [] then Inr []
         else if authorizationSetQueryMaxIDs < length ids then Inl (params_error (utf8 [0x89D2, 0x8272, 0x6570, 0x91CF, 0x8D85, 0x8FC7, 0x5355, 0x6B21, 0x6388, 0x6743, 0x4E0A, 0x9650]))
         else if_ok (lock_role_grants db (sort ids)) (\<lambda>rows.
           if length rows \<noteq> length ids then Inl invalid_role
           else if list_all2 (\<lambda>r i. ro_id r = i \<and> ro_status r = 0) rows (sort ids) then Inr rows
           else Inl invalid_role))"

definition lock_permission_parents :: "authz_db \<Rightarrow> int list \<Rightarrow> permission_record list result" where
  "lock_permission_parents db permissions =
     (let ids = unique_int64 permissions
      in if ids = [] then Inr []
         else if authorizationSetQueryMaxIDs < length ids then Inl (params_error (utf8 [0x6743, 0x9650, 0x6570, 0x91CF, 0x8D85, 0x8FC7, 0x5355, 0x6B21, 0x6388, 0x6743, 0x4E0A, 0x9650]))
         else if_ok (lock_permission_grants db (sort ids)) (\<lambda>rows.
           if length rows \<noteq> length ids then Inl invalid_permission
           else if list_all2 (\<lambda>p i. pm_id p = i) rows (sort ids) then Inr rows
           else Inl invalid_permission))"

definition validate_locked_permission_grant ::
    "authz_env \<Rightarrow> tx_mode \<Rightarrow> authz_db \<Rightarrow> time \<Rightarrow> int \<Rightarrow> permission_record list \<Rightarrow> int list \<Rightarrow> unit result" where
  "validate_locked_permission_grant env m db now operator locked requested =
     (let by_id = by_key pm_id locked; ids = unique_int64 requested;
          ok = (\<lambda>i. case by_id i of None \<Rightarrow> False
                                   | Some p \<Rightarrow> pm_status p = 0 \<and> feature_enabled (az_features env) (pm_feature p))
      in if \<not> list_all ok ids then Inl (object_state_error (utf8 [0x6743, 0x9650, 0x72B6, 0x6001, 0x5DF2, 0x53D8, 0x5316, 0xFF0C, 0x8BF7, 0x91CD, 0x8BD5]))
         else ensure_operator_can_grant_codes env m db now operator (map pm_code (List.map_filter by_id ids)))"

definition ensure_roles_exist :: "authz_db \<Rightarrow> int list \<Rightarrow> unit result" where
  "ensure_roles_exist db roles =
     (let ids = unique_int64 roles
      in if ids = [] then Inr () else require (count_roles_by_ids db ids = length ids) invalid_role)"

definition ensure_depts_exist :: "authz_db \<Rightarrow> int list \<Rightarrow> unit result" where
  "ensure_depts_exist db depts =
     (let ids = unique_int64 depts
      in if ids = [] then Inr ()
         else require (count_depts_by_ids db ids = length ids) (params_error (utf8 [0x5B58, 0x5728, 0x65E0, 0x6548, 0x90E8, 0x95E8] @ ''ID'')))"

definition ensure_menus_exist :: "authz_db \<Rightarrow> int list \<Rightarrow> unit result" where
  "ensure_menus_exist db menus =
     (let ids = unique_int64 menus
      in if ids = [] then Inr ()
         else require (count_menus_by_ids db ids = length ids) (params_error (utf8 [0x5B58, 0x5728, 0x65E0, 0x6548, 0x83DC, 0x5355] @ ''ID'')))"

definition ensure_permissions_exist :: "authz_db \<Rightarrow> int list \<Rightarrow> unit result" where
  "ensure_permissions_exist db permissions =
     (let ids = unique_int64 permissions
      in if ids = [] then Inr ()
         else require (count_permissions_by_ids db ids = length ids) invalid_permission)"

text \<open>The ids whose feature is switched off; ids that are not found are not among them.\<close>

definition disabled_menu_ids :: "authz_env \<Rightarrow> authz_db \<Rightarrow> int list \<Rightarrow> int list result" where
  "disabled_menu_ids env db menus =
     (let ids = unique_int64 menus
      in if ids = [] \<or> az_features env = None then Inr []
         else if_ok (list_menus db False) (\<lambda>records.
           Inr (filter (\<lambda>i. case by_key mn_id records i of
                              None \<Rightarrow> False
                            | Some r \<Rightarrow> \<not> feature_enabled (az_features env) (mn_feature r)) ids)))"

definition ensure_menu_features_enabled :: "authz_env \<Rightarrow> authz_db \<Rightarrow> int list \<Rightarrow> unit result" where
  "ensure_menu_features_enabled env db menus =
     if_ok (disabled_menu_ids env db menus) (\<lambda>off.
       require (off = []) (forbidden (utf8 [0x4E0D, 0x80FD, 0x5206, 0x914D, 0x672A, 0x542F, 0x7528, 0x529F, 0x80FD, 0x7684, 0x83DC, 0x5355])))"

definition disabled_permission_ids :: "authz_env \<Rightarrow> authz_db \<Rightarrow> int list \<Rightarrow> int list" where
  "disabled_permission_ids env db permissions =
     (let ids = unique_int64 permissions
      in if ids = [] \<or> az_features env = None then []
         else filter (\<lambda>i. case by_key pm_id (list_permissions_by_ids db ids) i of
                            None \<Rightarrow> False
                          | Some p \<Rightarrow> \<not> feature_enabled (az_features env) (pm_feature p)) ids)"

definition ensure_permission_features_enabled :: "authz_env \<Rightarrow> authz_db \<Rightarrow> int list \<Rightarrow> unit result" where
  "ensure_permission_features_enabled env db permissions =
     require (disabled_permission_ids env db permissions = []) (forbidden (utf8 [0x4E0D, 0x80FD, 0x5206, 0x914D, 0x672A, 0x542F, 0x7528, 0x529F, 0x80FD, 0x7684, 0x6743, 0x9650]))"

definition role_missing :: go_error where "role_missing = not_found (utf8 [0x89D2, 0x8272, 0x4E0D, 0x5B58, 0x5728])"

definition role_id_required :: go_error where "role_id_required = params_error (''roleId'' @ utf8 [0x4E0D, 0x80FD, 0x4E3A, 0x7A7A])"

text \<open>
  \<open>lockRoleMenuMutation\<close>. The role's menus are read, locked and read again; in one step of the database
  both reads agree, and what remains of the guard is that every menu of the union is live.
\<close>

definition lock_role_menu_mutation ::
    "authz_db \<Rightarrow> int \<Rightarrow> int list \<Rightarrow> (role_record \<times> int list) result" where
  "lock_role_menu_mutation db role requested =
     if_ok (list_role_menu_ids db role) (\<lambda>observed.
       let guard = unique_int64 (observed @ requested)
       in if authorizationSetQueryMaxIDs < length guard
            then Inl (operation_error (utf8 [0x89D2, 0x8272, 0x83DC, 0x5355, 0x5173, 0x7CFB, 0x6570, 0x91CF, 0x8D85, 0x8FC7, 0x5355, 0x6B21, 0x6388, 0x6743, 0x4E0A, 0x9650]))
          else if_ok (lock_menu_grants db (sort guard)) (\<lambda>locked.
            if length locked \<noteq> length guard then Inl (object_state_error (utf8 [0x89D2, 0x8272, 0x83DC, 0x5355, 0x5173, 0x7CFB, 0x5DF2, 0x53D8, 0x5316, 0xFF0C, 0x8BF7, 0x91CD, 0x8BD5]))
            else
              (case lock_role_grant db role of
                 None \<Rightarrow> Inl role_missing
               | Some r \<Rightarrow>
                   if_ok (list_role_menu_ids db role) (\<lambda>current.
                     if \<not> list_all (\<lambda>i. i \<in> set guard) (unique_int64 current)
                       then Inl (object_state_error (utf8 [0x89D2, 0x8272, 0x83DC, 0x5355, 0x5173, 0x7CFB, 0x5DF2, 0x5E76, 0x53D1, 0x53D8, 0x5316, 0xFF0C, 0x8BF7, 0x91CD, 0x8BD5]))
                     else Inr (r, unique_int64 current)))))"

section \<open>Roles of users\<close>

definition assign_user_roles_within_policy ::
    "authz_env \<Rightarrow> time \<Rightarrow> int \<Rightarrow> int list \<Rightarrow> int \<Rightarrow> (unit, authz_db) tx_body" where
  "assign_user_roles_within_policy env now user roles operator m db =
     then_do (lock_role_parents db roles, db) (\<lambda>locked db1.
     then_do (ensure_operator_can_assign_user_roles env m db1 now operator roles, db1) (\<lambda>_ db2.
       let next_has_super_admin = list_ex is_authorization_root locked;
           snapshot = lock_super_admin_invariant db2 user
       in if would_remove_last_user snapshot next_has_super_admin then (Inl last_super_admin_error, db2)
          else (Inr (), replace_user_roles user roles db2)))"

definition user_id_required :: go_error where "user_id_required = params_error (''userId'' @ utf8 [0x4E0D, 0x80FD, 0x4E3A, 0x7A7A])"

definition assign_user_roles ::
    "authz_env \<Rightarrow> time \<Rightarrow> int \<Rightarrow> int list \<Rightarrow> int \<Rightarrow> proof_metadata \<Rightarrow> (unit, authz_db) tx_body" where
  "assign_user_roles env now user role_ids operator proof m db =
     (if user \<le> 0 then (Inl user_id_required, db)
      else
        let roles = unique_int64 role_ids
        in then_do (require_proof proof ''RBAC_ASSIGN_USER_ROLES'' (user_role_assignment_binding user roles), db)
             (\<lambda>_. authz_mutation env (assign_user_roles_within_policy env now user roles operator) m))"

definition assign_created_user_roles ::
    "authz_env \<Rightarrow> time \<Rightarrow> int \<Rightarrow> string \<Rightarrow> int list \<Rightarrow> int \<Rightarrow> proof_metadata \<Rightarrow> (unit, authz_db) tx_body" where
  "assign_created_user_roles env now user username role_ids operator proof m db =
     (if user \<le> 0 then (Inl user_id_required, db)
      else
        let roles = unique_int64 role_ids
        in then_do (require_proof proof ''RBAC_ASSIGN_USER_ROLES''
                      (created_user_role_assignment_binding username roles), db)
             (\<lambda>_. authz_mutation env (assign_user_roles_within_policy env now user roles operator) m))"

definition validate_created_user_roles ::
    "authz_env \<Rightarrow> tx_mode \<Rightarrow> authz_db \<Rightarrow> time \<Rightarrow> string \<Rightarrow> int list \<Rightarrow> int \<Rightarrow> proof_metadata \<Rightarrow> unit result" where
  "validate_created_user_roles env m db now username role_ids operator proof =
     (let roles = unique_int64 role_ids
      in if_ok (require_proof proof ''RBAC_ASSIGN_USER_ROLES'' (created_user_role_assignment_binding username roles))
           (\<lambda>_. if_ok (ensure_roles_exist db roles)
           (\<lambda>_. ensure_operator_can_assign_user_roles env m db now operator roles)))"

definition assign_provisioned_user_roles :: "authz_env \<Rightarrow> int \<Rightarrow> int list \<Rightarrow> (unit, authz_db) tx_body" where
  "assign_provisioned_user_roles env user role_ids m db =
     (if user \<le> 0 then (Inl user_id_required, db)
      else
        let roles = unique_int64 role_ids
        in authz_mutation env (\<lambda>_ db.
             then_do (lock_role_parents db roles, db) (\<lambda>locked db1.
               if list_ex is_authorization_root locked
                 then (Inl (forbidden (utf8 [0x81EA, 0x52A8, 0x914D, 0x7F6E, 0x4E0D, 0x80FD, 0x5206, 0x914D, 0x8D85, 0x7EA7, 0x7BA1, 0x7406, 0x5458, 0x89D2, 0x8272])), db1)
               else (Inr (), replace_user_roles user roles db1))) m db)"

definition bootstrap_owner_roles :: "authz_env \<Rightarrow> int \<Rightarrow> int list \<Rightarrow> int \<Rightarrow> (unit, authz_db) tx_body" where
  "bootstrap_owner_roles env user role_ids operator m db =
     (let roles = unique_int64 role_ids
      in if user \<le> 0 then (Inl user_id_required, db)
         else if roles = [] then (Inl (params_error (''roleIds'' @ utf8 [0x4E0D, 0x80FD, 0x4E3A, 0x7A7A])), db)
         else authz_mutation env (\<lambda>_ db.
             then_do (lock_role_parents db roles, db) (\<lambda>locked db1.
               if \<not> list_ex is_authorization_root locked
                 then (Inl (params_error (utf8 [0x521D, 0x59CB, 0x5316] @ ''Owner'' @ utf8 [0x5FC5, 0x987B, 0x5305, 0x542B, 0x8D85, 0x7EA7, 0x7BA1, 0x7406, 0x5458, 0x89D2, 0x8272])), db1)
               else (Inr (), replace_user_roles user roles db1))) m db)"

definition guard_user_deactivation :: "authz_db \<Rightarrow> int \<Rightarrow> unit result" where
  "guard_user_deactivation db user =
     (if user \<le> 0 then Inl user_id_required
      else require (\<not> would_remove_last_user (lock_super_admin_invariant db user) False) last_super_admin_error)"

section \<open>Roles of positions\<close>

definition validate_post_role_assignments ::
    "authz_env \<Rightarrow> tx_mode \<Rightarrow> authz_db \<Rightarrow> time \<Rightarrow> int \<Rightarrow> int list \<Rightarrow> bool result" where
  "validate_post_role_assignments env m db now user role_ids =
     (let roles = unique_int64 role_ids
      in if user \<le> 0 \<or> roles = [] \<or> authorizationSetQueryMaxIDs < length roles then Inr False
         else if count_roles_by_ids db roles \<noteq> length roles then Inr False
         else if_ok (count_authorization_root_roles db roles) (\<lambda>roots.
           if 0 < roots then Inr False
           else if_ok (context_of env m db now user ''auth-facade'') (\<lambda>c.
             if uc_admin c then Inr True
             else if_ok (list_user_roles db user) (\<lambda>held.
               Inr (list_all (\<lambda>i. i \<in> ro_id ` set held) roles)))))"

definition lock_and_validate_post_role_assignments ::
    "authz_env \<Rightarrow> tx_mode \<Rightarrow> authz_db \<Rightarrow> time \<Rightarrow> int \<Rightarrow> int \<Rightarrow> int list \<Rightarrow> bool result" where
  "lock_and_validate_post_role_assignments env m db now user post role_ids =
     (let ids = unique_int64 role_ids
      in if user \<le> 0 \<or> post \<le> 0 \<or> ids = [] \<or> authorizationSetQueryMaxIDs < length ids then Inr False
         else if \<not> in_consistent_transaction m
           then Inl (system_error (utf8 [0x5C97, 0x4F4D, 0x89D2, 0x8272, 0x7236, 0x8BB0, 0x5F55, 0x6821, 0x9A8C, 0x5FC5, 0x987B, 0x8FD0, 0x884C, 0x5728, 0x4E00, 0x81F4, 0x6027, 0x4E8B, 0x52A1, 0x5185]))
         else if_ok (lock_authorization_creation_guard db) (\<lambda>_.
           if_ok (lock_role_grants db (sort ids)) (\<lambda>rows.
             if \<not> list_all2 (\<lambda>r i. ro_id r = i \<and> ro_status r = 0 \<and> \<not> is_authorization_root r) rows (sort ids)
               then Inr False
             else if_ok (context_of env m db now user ''auth-post-role-guard'') (\<lambda>c.
               if uc_admin c then Inr True
               else if_ok (list_user_roles db user) (\<lambda>held.
                 Inr (list_all (\<lambda>i. i \<in> ro_id ` set held) (sort ids)))))))"

section \<open>Departments of roles\<close>

definition root_scope_managed :: go_error where
  "root_scope_managed = operation_error (utf8 [0x6388, 0x6743, 0x5B89, 0x5168, 0x6839, 0x7684, 0x6570, 0x636E, 0x8303, 0x56F4, 0x7531, 0x7CFB, 0x7EDF, 0x7BA1, 0x7406])"

definition only_custom_scope :: go_error where
  "only_custom_scope = params_error (utf8 [0x53EA, 0x6709, 0x81EA, 0x5B9A, 0x6570, 0x636E, 0x6743, 0x9650, 0x89D2, 0x8272, 0x53EF, 0x4EE5, 0x7ED1, 0x5B9A, 0x90E8, 0x95E8, 0x8303, 0x56F4])"

definition may_bind_depts :: "role_record option \<Rightarrow> int list \<Rightarrow> role_record result" where
  "may_bind_depts role depts =
     (case role of
        None \<Rightarrow> Inl role_missing
      | Some r \<Rightarrow> if is_authorization_root r then Inl root_scope_managed
                  else if ro_data_scope r \<noteq> 2 \<and> depts \<noteq> [] then Inl only_custom_scope
                  else Inr r)"

definition assign_role_depts ::
    "authz_env \<Rightarrow> int \<Rightarrow> int list \<Rightarrow> int \<Rightarrow> proof_metadata \<Rightarrow> authz_db \<Rightarrow> (unit, authz_db) tx_body" where
  "assign_role_depts env role dept_ids operator proof seen m db =
     (let depts = unique_int64 dept_ids
      in if role \<le> 0 then (Inl role_id_required, db)
         else then_do (if_ok (require_proof proof ''RBAC_ASSIGN_ROLE_DEPTS'' (role_dept_assignment_binding role depts))
                (\<lambda>_. if_ok (may_bind_depts (find_role_by_id seen role) depts)
                (\<lambda>_. ensure_depts_exist seen depts)), db) (\<lambda>_.
           authz_mutation env (\<lambda>_ db.
             then_do (may_bind_depts (lock_role_grant db role) depts, db) (\<lambda>locked db1.
               update_role_grant_revision role (ro_revision locked) (ro_revision locked + 1)
                 (replace_role_depts role depts db1))) m))"

section \<open>Menus and permissions of roles\<close>

definition root_grants_managed :: go_error where
  "root_grants_managed = operation_error (utf8 [0x6388, 0x6743, 0x5B89, 0x5168, 0x6839, 0x7684, 0x83DC, 0x5355, 0x4E0E, 0x6743, 0x9650, 0x7531, 0x7CFB, 0x7EDF, 0x7BA1, 0x7406])"

definition role_relations_changed :: go_error where
  "role_relations_changed = object_state_error (utf8 [0x89D2, 0x8272, 0x6743, 0x9650, 0x5173, 0x7CFB, 0x5DF2, 0x5E76, 0x53D1, 0x53D8, 0x5316, 0xFF0C, 0x8BF7, 0x91CD, 0x8BD5])"

definition editable_role :: "authz_db \<Rightarrow> int \<Rightarrow> role_record result" where
  "editable_role db role =
     (case find_role_by_id db role of
        None \<Rightarrow> Inl role_missing
      | Some r \<Rightarrow> if is_authorization_root r then Inl root_grants_managed else Inr r)"

text \<open>The permissions guarded by an assignment, as the reads before the transaction find them.\<close>

definition observed_guard :: "authz_db \<Rightarrow> int \<Rightarrow> int list \<Rightarrow> int list \<Rightarrow> int list result" where
  "observed_guard db role permissions menus =
     if_ok (list_role_menu_ids db role) (\<lambda>observed.
     if_ok (list_menu_permission_ids db (unique_int64 (observed @ menus))) (\<lambda>derived.
     if_ok (list_direct_role_permission_ids db [role]) (\<lambda>direct.
       Inr (unique_int64 (permissions @ derived @ slice_of direct role)))))"

definition assign_role_menus_checks ::
    "authz_env \<Rightarrow> tx_mode \<Rightarrow> time \<Rightarrow> int \<Rightarrow> int list \<Rightarrow> int \<Rightarrow> authz_db \<Rightarrow> int list result" where
  "assign_role_menus_checks env m now role menus operator seen =
     if_ok (editable_role seen role) (\<lambda>_.
     if_ok (ensure_menus_exist seen menus) (\<lambda>_.
     if_ok (ensure_menu_features_enabled env seen menus) (\<lambda>_.
     if_ok (list_menu_permission_ids seen menus) (\<lambda>requested.
     if_ok (ensure_operator_can_grant_ids env m seen now operator requested) (\<lambda>_.
     if_ok (ensure_operator_can_grant_codes env m seen now operator (list_menu_permission_codes seen menus)) (\<lambda>_.
       observed_guard seen role [] menus))))))"

definition assign_role_menus_body ::
    "authz_env \<Rightarrow> time \<Rightarrow> int \<Rightarrow> int list \<Rightarrow> int \<Rightarrow> int list \<Rightarrow> (unit, authz_db) tx_body" where
  "assign_role_menus_body env now role menus operator guard m db =
     then_do (
       if_ok (lock_permission_parents db guard) (\<lambda>permissions.
       if_ok (lock_role_menu_mutation db role menus) (\<lambda>(locked, existing).
       if_ok (ensure_menu_features_enabled env db menus) (\<lambda>_.
       if_ok (list_menu_permission_ids db menus) (\<lambda>requested.
       if_ok (validate_locked_permission_grant env m db now operator permissions requested) (\<lambda>_.
       if_ok (ensure_operator_can_grant_codes env m db now operator (list_menu_permission_codes db menus)) (\<lambda>_.
       if_ok (list_direct_role_permission_ids db [role]) (\<lambda>direct.
       if_ok (disabled_menu_ids env db existing) (\<lambda>disabled.
         let next_menus = unique_int64 (menus @ disabled)
         in if_ok (list_menu_permission_ids db next_menus) (\<lambda>derived.
              if \<not> ids_within_guard derived guard \<or> \<not> ids_within_guard (slice_of direct role) guard
                then Inl role_relations_changed
              else Inr (locked, slice_of direct role, derived, next_menus)))))))))), db)
       (\<lambda>(locked, direct, derived, next_menus) db1.
          update_role_grant_revision role (ro_revision locked) (ro_revision locked + 1)
            (replace_role_permissions role direct derived next_menus db1))"

definition assign_role_menus ::
    "authz_env \<Rightarrow> time \<Rightarrow> int \<Rightarrow> int list \<Rightarrow> int \<Rightarrow> proof_metadata \<Rightarrow> authz_db \<Rightarrow> (unit, authz_db) tx_body" where
  "assign_role_menus env now role menu_ids operator proof seen m db =
     (let menus = unique_int64 menu_ids
      in if role \<le> 0 then (Inl role_id_required, db)
         else then_do (if_ok (require_proof proof ''RBAC_ASSIGN_ROLE_MENUS'' (role_menu_assignment_binding role menus))
                (\<lambda>_. assign_role_menus_checks env m now role menus operator seen), db) (\<lambda>guard.
           authz_mutation env (assign_role_menus_body env now role menus operator guard) m))"

definition assign_role_permissions_checks ::
    "authz_env \<Rightarrow> tx_mode \<Rightarrow> time \<Rightarrow> int \<Rightarrow> int list \<Rightarrow> int list \<Rightarrow> int \<Rightarrow> authz_db \<Rightarrow> int list result" where
  "assign_role_permissions_checks env m now role permissions menus operator seen =
     if_ok (editable_role seen role) (\<lambda>_.
     if_ok (ensure_menus_exist seen menus) (\<lambda>_.
     if_ok (ensure_permissions_exist seen permissions) (\<lambda>_.
     if_ok (ensure_menu_features_enabled env seen menus) (\<lambda>_.
     if_ok (ensure_permission_features_enabled env seen permissions) (\<lambda>_.
     if_ok (list_menu_permission_ids seen menus) (\<lambda>requested.
     if_ok (ensure_operator_can_grant_ids env m seen now operator (unique_int64 (permissions @ requested))) (\<lambda>_.
     if_ok (ensure_operator_can_grant_codes env m seen now operator (list_menu_permission_codes seen menus)) (\<lambda>_.
       observed_guard seen role permissions menus))))))))"

definition assign_role_permissions_body ::
    "authz_env \<Rightarrow> time \<Rightarrow> int \<Rightarrow> int list \<Rightarrow> int list \<Rightarrow> int \<Rightarrow> int list \<Rightarrow> (unit, authz_db) tx_body" where
  "assign_role_permissions_body env now role permissions menus operator guard m db =
     then_do (
       if_ok (lock_permission_parents db guard) (\<lambda>locked_permissions.
       if_ok (lock_role_menu_mutation db role menus) (\<lambda>(locked, existing).
       if_ok (ensure_menu_features_enabled env db menus) (\<lambda>_.
       if_ok (list_menu_permission_ids db menus) (\<lambda>of_menus.
       if_ok (validate_locked_permission_grant env m db now operator locked_permissions
                (unique_int64 (permissions @ of_menus))) (\<lambda>_.
       if_ok (ensure_operator_can_grant_codes env m db now operator (list_menu_permission_codes db menus)) (\<lambda>_.
       if_ok (disabled_menu_ids env db existing) (\<lambda>disabled.
         let next_menus = unique_int64 (menus @ disabled)
         in if_ok (list_menu_permission_ids db next_menus) (\<lambda>derived.
            if_ok (list_direct_role_permission_ids db [role]) (\<lambda>direct.
              if \<not> ids_within_guard derived guard \<or> \<not> ids_within_guard (slice_of direct role) guard
                then Inl role_relations_changed
              else Inr (locked,
                     unique_int64 (permissions @ disabled_permission_ids env db (slice_of direct role)),
                     derived, next_menus)))))))))), db)
       (\<lambda>(locked, direct, derived, next_menus) db1.
          update_role_grant_revision role (ro_revision locked) (ro_revision locked + 1)
            (replace_role_permissions role direct derived next_menus db1))"

definition assign_role_permissions ::
    "authz_env \<Rightarrow> time \<Rightarrow> int \<Rightarrow> int list \<Rightarrow> int list \<Rightarrow> int \<Rightarrow> proof_metadata \<Rightarrow> authz_db \<Rightarrow>
     (unit, authz_db) tx_body" where
  "assign_role_permissions env now role permission_ids menu_ids operator proof seen m db =
     (let menus = unique_int64 menu_ids; permissions = unique_int64 permission_ids
      in if role \<le> 0 then (Inl role_id_required, db)
         else then_do (if_ok (require_proof proof ''RBAC_ASSIGN_ROLE_PERMISSIONS''
                  (role_permission_assignment_binding role permissions menus))
                (\<lambda>_. assign_role_permissions_checks env m now role permissions menus operator seen), db) (\<lambda>guard.
           authz_mutation env (assign_role_permissions_body env now role permissions menus operator guard) m))"

end
