(* ===== verification/Org_Units.thy ===== *)
theory Org_Units
  imports Authz_Grant
begin

text \<open>
  Organizations, departments and positions (\<open>app/system/user/application/service.go\<close>, lines 1338 to 1650,
  with their statements in \<open>app/system/user/infrastructure/user_repository.go\<close>) over the tables of
  \<open>Authz_Model\<close>.

  Every mutation runs through \<open>user_mutation\<close>, the ordinary transaction of the service with the invalidation
  of the cached projections of the authorization component. A record is built, and what must not refer
  to a row is counted, before that transaction: the state read there, \<open>seen\<close>, is an argument of its own.
  Deleting positions and assigning their roles read inside.
\<close>

section \<open>Boundary\<close>

definition user_with_tx :: "authz_env \<Rightarrow> ('a, 'd) tx_body \<Rightarrow> ('a, 'd) tx_body" where
  "user_with_tx env body m d = (if az_transactor env then tx_ordinary (az_outcome env 0) body m d else body m d)"

definition user_mutation_boundary ::
    "authz_env \<Rightarrow> (('a, authz_db) tx_body \<Rightarrow> ('a, authz_db) tx_body) \<Rightarrow> ('a, authz_db) tx_body \<Rightarrow> ('a, authz_db) tx_body" where
  "user_mutation_boundary env boundary fn =
     run_invalidated_mutation_classes (authz_registrar env) invalidation_classes boundary (changing fn)"

definition user_mutation :: "authz_env \<Rightarrow> ('a, authz_db) tx_body \<Rightarrow> ('a, authz_db) tx_body" where
  "user_mutation env = user_mutation_boundary env (user_with_tx env)"

text \<open>A statement without a result; inside a transaction its failure is the transaction's.\<close>

definition change_db :: "(authz_db \<Rightarrow> authz_db) \<Rightarrow> (unit, authz_db) tx_body" where
  "change_db f m db = (Inr (), f db)"

section \<open>Organizations\<close>

record org_command =
  oc_id :: int
  oc_code :: string
  oc_name :: string
  oc_parent :: int
  oc_status :: "int option"
  oc_sort :: "int option"
  oc_leader :: int

definition nullable_id :: "int \<Rightarrow> int" where
  "nullable_id i = (if i \<le> 0 then 0 else i)"

definition org_columns :: "org_row \<Rightarrow> org_row \<Rightarrow> org_row" where
  "org_columns x r =
     r\<lparr>og_code := trim_space (og_code x), og_name := trim_space (og_name x), og_parent := og_parent x,
       og_status := og_status x, og_sort := og_sort x, og_leader := nullable_id (og_leader x)\<rparr>"

text \<open>The key \<open>uk_org_code\<close> covers deleted rows too.\<close>

definition org_keys_unique :: "org_row list \<Rightarrow> bool" where
  "org_keys_unique rows \<longleftrightarrow> distinct (map og_id rows) \<and> distinct (map og_code rows)"

definition put_orgs :: "go_error \<Rightarrow> org_row list \<Rightarrow> authz_db \<Rightarrow> unit result \<times> authz_db" where
  "put_orgs dup rows db =
     (if org_keys_unique rows then (Inr (), db\<lparr>db_orgs := rows\<rparr>) else (Inl dup, db))"

definition create_org_row :: "go_error \<Rightarrow> org_row \<Rightarrow> authz_db \<Rightarrow> unit result \<times> authz_db" where
  "create_org_row dup x db = put_orgs dup (db_orgs db @ [(org_columns x x)\<lparr>og_deleted := False\<rparr>]) db"

definition live_org :: "int \<Rightarrow> org_row \<Rightarrow> bool" where
  "live_org org r \<longleftrightarrow> og_id r = org \<and> \<not> og_deleted r"

definition update_org_row :: "go_error \<Rightarrow> org_row \<Rightarrow> authz_db \<Rightarrow> unit result \<times> authz_db" where
  "update_org_row dup x db = put_orgs dup (update_where (live_org (og_id x)) (org_columns x) (db_orgs db)) db"

definition delete_org_row :: "int \<Rightarrow> authz_db \<Rightarrow> authz_db" where
  "delete_org_row org db = db\<lparr>db_orgs := update_where (live_org org) (\<lambda>r. r\<lparr>og_deleted := True\<rparr>) (db_orgs db)\<rparr>"

definition update_org_status :: "int \<Rightarrow> int \<Rightarrow> authz_db \<Rightarrow> authz_db" where
  "update_org_status org status db =
     db\<lparr>db_orgs := update_where (live_org org) (\<lambda>r. r\<lparr>og_status := status\<rparr>) (db_orgs db)\<rparr>"

definition update_org_parent :: "int \<Rightarrow> int \<Rightarrow> authz_db \<Rightarrow> authz_db" where
  "update_org_parent org parent db =
     db\<lparr>db_orgs := update_where (live_org org) (\<lambda>r. r\<lparr>og_parent := parent\<rparr>) (db_orgs db)\<rparr>"

definition find_org_by_id :: "authz_db \<Rightarrow> int \<Rightarrow> org_row option" where
  "find_org_by_id db org = find (live_org org) (db_orgs db)"

definition list_orgs :: "authz_db \<Rightarrow> bool \<Rightarrow> org_row list" where
  "list_orgs db enabled_only =
     sort_key (\<lambda>r. (og_sort r, og_id r))
       (filter (\<lambda>r. \<not> og_deleted r \<and> (enabled_only \<longrightarrow> og_status r = 0)) (db_orgs db))"

definition count_org_code_excluding :: "authz_db \<Rightarrow> int \<Rightarrow> string \<Rightarrow> nat" where
  "count_org_code_excluding db org code =
     count_where (\<lambda>r. og_code r = trim_space code \<and> og_id r \<noteq> org \<and> \<not> og_deleted r) (db_orgs db)"

definition count_org_children :: "authz_db \<Rightarrow> int \<Rightarrow> nat" where
  "count_org_children db org = count_where (\<lambda>r. og_parent r = org \<and> \<not> og_deleted r) (db_orgs db)"

definition count_dept_by_org :: "authz_db \<Rightarrow> int \<Rightarrow> nat" where
  "count_dept_by_org db org = count_where (\<lambda>r. dp_org r = org \<and> \<not> dp_deleted r) (db_depts db)"

definition count_user_org :: "authz_db \<Rightarrow> int \<Rightarrow> nat" where
  "count_user_org db org = count_where (\<lambda>r. mb_of r = org \<and> \<not> mb_deleted r) (db_user_orgs db)"

definition build_org_record :: "authz_env \<Rightarrow> authz_db \<Rightarrow> org_command \<Rightarrow> bool \<Rightarrow> org_row result" where
  "build_org_record env db cmd creating =
     (let code = trim_space (oc_code cmd)
      in if \<not> creating \<and> oc_id cmd \<le> 0 then Inl (params_error ((utf8 [0x7EC4, 0x7EC7] @ ''ID'' @ utf8 [0x4E0D, 0x80FD, 0x4E3A, 0x7A7A])))
         else if code = [] then Inl (params_error ((utf8 [0x7EC4, 0x7EC7, 0x7F16, 0x7801, 0x4E0D, 0x80FD, 0x4E3A, 0x7A7A])))
         else if blank (oc_name cmd) then Inl (params_error ((utf8 [0x7EC4, 0x7EC7, 0x540D, 0x79F0, 0x4E0D, 0x80FD, 0x4E3A, 0x7A7A])))
         else if 0 < count_org_code_excluding db (oc_id cmd) code then Inl (params_error ((utf8 [0x7EC4, 0x7EC7, 0x7F16, 0x7801, 0x5DF2, 0x5B58, 0x5728])))
         else if 0 < oc_parent cmd \<and> oc_parent cmd = oc_id cmd then Inl (params_error ((utf8 [0x7236, 0x7EC4, 0x7EC7, 0x4E0D, 0x80FD, 0x662F, 0x81EA, 0x8EAB])))
         else if 0 < oc_parent cmd \<and>
             (case find_org_by_id db (oc_parent cmd) of None \<Rightarrow> True | Some p \<Rightarrow> og_status p \<noteq> 0)
           then Inl (params_error ((utf8 [0x7236, 0x7EC4, 0x7EC7, 0x4E0D, 0x5B58, 0x5728, 0x6216, 0x5DF2, 0x7981, 0x7528])))
         else Inr \<lparr>og_id = (if creating then az_new_id env else oc_id cmd), og_code = code,
                   og_name = trim_space (oc_name cmd), og_parent = oc_parent cmd,
                   og_status = int_value (oc_status cmd) 0, og_sort = int_value (oc_sort cmd) 0,
                   og_leader = oc_leader cmd, og_deleted = False\<rparr>)"

definition create_org :: "authz_env \<Rightarrow> authz_db \<Rightarrow> org_command \<Rightarrow> (unit, authz_db) tx_body" where
  "create_org env seen cmd m db =
     then_do (build_org_record env seen cmd True, db) (\<lambda>x.
       user_mutation env (\<lambda>_. create_org_row (az_dup env) x) m)"

definition update_org :: "authz_env \<Rightarrow> authz_db \<Rightarrow> org_command \<Rightarrow> (unit, authz_db) tx_body" where
  "update_org env seen cmd m db =
     then_do (build_org_record env seen cmd False, db) (\<lambda>x.
       user_mutation env (\<lambda>_. update_org_row (az_dup env) x) m)"

definition delete_org :: "authz_env \<Rightarrow> authz_db \<Rightarrow> int \<Rightarrow> (unit, authz_db) tx_body" where
  "delete_org env seen org m db =
     (if 0 < count_org_children seen org then (Inl (operation_error ((utf8 [0x5B58, 0x5728, 0x5B50, 0x7EC4, 0x7EC7, 0xFF0C, 0x4E0D, 0x80FD, 0x5220, 0x9664]))), db)
      else if 0 < count_dept_by_org seen org then (Inl (operation_error ((utf8 [0x7EC4, 0x7EC7, 0x4E0B, 0x5B58, 0x5728, 0x90E8, 0x95E8, 0xFF0C, 0x4E0D, 0x80FD, 0x5220, 0x9664]))), db)
      else if 0 < count_user_org seen org then (Inl (operation_error ((utf8 [0x7EC4, 0x7EC7, 0x4E0B, 0x5B58, 0x5728, 0x7528, 0x6237, 0xFF0C, 0x4E0D, 0x80FD, 0x5220, 0x9664]))), db)
      else user_mutation env (change_db (delete_org_row org)) m db)"

definition change_org_status :: "authz_env \<Rightarrow> int \<Rightarrow> int \<Rightarrow> (unit, authz_db) tx_body" where
  "change_org_status env org status m db =
     (if status \<noteq> 0 \<and> status \<noteq> 1 then (Inl (params_error ((utf8 [0x7EC4, 0x7EC7, 0x72B6, 0x6001, 0x9519, 0x8BEF]))), db)
      else user_mutation env (change_db (update_org_status org status)) m db)"

definition move_org :: "authz_env \<Rightarrow> int \<Rightarrow> int \<Rightarrow> (unit, authz_db) tx_body" where
  "move_org env org parent m db =
     (if org = parent then (Inl (params_error ((utf8 [0x7236, 0x7EC4, 0x7EC7, 0x4E0D, 0x80FD, 0x662F, 0x81EA, 0x8EAB]))), db)
      else user_mutation env (change_db (update_org_parent org parent)) m db)"

section \<open>Departments\<close>

record dept_command =
  dc_id :: int
  dc_name :: string
  dc_code :: string
  dc_org :: int
  dc_parent :: int
  dc_leader :: int
  dc_status :: "int option"
  dc_sort :: "int option"

definition live_dept :: "int \<Rightarrow> dept_row \<Rightarrow> bool" where
  "live_dept dept r \<longleftrightarrow> dp_id r = dept \<and> \<not> dp_deleted r"

definition dept_columns :: "dept_row \<Rightarrow> dept_row \<Rightarrow> dept_row" where
  "dept_columns x r =
     r\<lparr>dp_code := trim_space (dp_code x), dp_name := trim_space (dp_name x), dp_org := dp_org x,
       dp_parent := dp_parent x, dp_leader := nullable_id (dp_leader x), dp_status := dp_status x,
       dp_sort := dp_sort x, dp_hierarchy := dp_hierarchy x, dp_level := dp_level x\<rparr>"

text \<open>The key \<open>uk_dept_code_deleted\<close> on (\<open>code\<close>, \<open>isDeleted\<close>).\<close>

definition dept_keys_unique :: "dept_row list \<Rightarrow> bool" where
  "dept_keys_unique rows \<longleftrightarrow> distinct (map dp_id rows) \<and> distinct (map (\<lambda>r. (dp_code r, dp_deleted r)) rows)"

definition put_depts :: "go_error \<Rightarrow> dept_row list \<Rightarrow> authz_db \<Rightarrow> unit result \<times> authz_db" where
  "put_depts dup rows db =
     (if dept_keys_unique rows then (Inr (), db\<lparr>db_depts := rows\<rparr>) else (Inl dup, db))"

definition create_dept_row :: "go_error \<Rightarrow> dept_row \<Rightarrow> authz_db \<Rightarrow> unit result \<times> authz_db" where
  "create_dept_row dup x db = put_depts dup (db_depts db @ [(dept_columns x x)\<lparr>dp_deleted := False\<rparr>]) db"

definition update_dept_row :: "go_error \<Rightarrow> dept_row \<Rightarrow> authz_db \<Rightarrow> unit result \<times> authz_db" where
  "update_dept_row dup x db = put_depts dup (update_where (live_dept (dp_id x)) (dept_columns x) (db_depts db)) db"

definition delete_dept_row :: "go_error \<Rightarrow> int \<Rightarrow> authz_db \<Rightarrow> unit result \<times> authz_db" where
  "delete_dept_row dup dept db =
     put_depts dup (update_where (live_dept dept) (\<lambda>r. r\<lparr>dp_deleted := True\<rparr>) (db_depts db)) db"

definition find_dept_by_id :: "authz_db \<Rightarrow> int \<Rightarrow> dept_row option" where
  "find_dept_by_id db dept = find (live_dept dept) (db_depts db)"

definition list_child_dept_ids :: "authz_db \<Rightarrow> int \<Rightarrow> int list" where
  "list_child_dept_ids db dept = sort (map dp_id (filter (\<lambda>r. dp_parent r = dept \<and> \<not> dp_deleted r) (db_depts db)))"

definition count_dept_name_under_parent :: "authz_db \<Rightarrow> int \<Rightarrow> int \<Rightarrow> string \<Rightarrow> nat" where
  "count_dept_name_under_parent db dept parent name =
     count_where (\<lambda>r. dp_parent r = parent \<and> dp_name r = trim_space name \<and> dp_id r \<noteq> dept \<and> \<not> dp_deleted r) (db_depts db)"

definition count_dept_children :: "authz_db \<Rightarrow> int \<Rightarrow> nat" where
  "count_dept_children db dept = count_where (\<lambda>r. dp_parent r = dept \<and> \<not> dp_deleted r) (db_depts db)"

definition count_user_dept :: "authz_db \<Rightarrow> int \<Rightarrow> nat" where
  "count_user_dept db dept = count_where (\<lambda>r. mb_of r = dept) (db_user_depts db)"

text \<open>
  \<open>buildDeptRecord\<close>: the path of a department is the one of its parent, without trailing slashes, a slash
  and its own id.
\<close>

definition dept_path :: "dept_row option \<Rightarrow> int \<Rightarrow> string" where
  "dept_path parent dept =
     (case parent of
        None \<Rightarrow> ''/'' @ show_int dept
      | Some p \<Rightarrow> trim_right_char (CHR ''/'') (dp_hierarchy p) @ ''/'' @ show_int dept)"

definition build_dept_record :: "authz_env \<Rightarrow> authz_db \<Rightarrow> dept_command \<Rightarrow> dept_row result" where
  "build_dept_record env db cmd =
     (let dept = (if dc_id cmd \<le> 0 then az_new_id env else dc_id cmd);
          parent = (if 0 < dc_parent cmd then find_dept_by_id db (dc_parent cmd) else None);
          code = trim_space (dc_code cmd)
      in if blank (dc_name cmd) then Inl (params_error ((utf8 [0x90E8, 0x95E8, 0x540D, 0x79F0, 0x4E0D, 0x80FD, 0x4E3A, 0x7A7A])))
         else if dc_org cmd \<le> 0 then Inl (params_error ((utf8 [0x7EC4, 0x7EC7, 0x4E0D, 0x80FD, 0x4E3A, 0x7A7A])))
         else if find_org_by_id db (dc_org cmd) = None then Inl (params_error ((utf8 [0x7EC4, 0x7EC7, 0x4E0D, 0x5B58, 0x5728])))
         else if dc_parent cmd = dept \<and> 0 < dept then Inl (params_error ((utf8 [0x7236, 0x90E8, 0x95E8, 0x4E0D, 0x80FD, 0x662F, 0x81EA, 0x8EAB])))
         else if 0 < dc_parent cmd \<and> parent = None then Inl (params_error ((utf8 [0x7236, 0x90E8, 0x95E8, 0x4E0D, 0x5B58, 0x5728])))
         else if (case parent of None \<Rightarrow> False | Some p \<Rightarrow> dp_org p \<noteq> dc_org cmd)
           then Inl (params_error ((utf8 [0x7236, 0x90E8, 0x95E8, 0x4E0D, 0x5C5E, 0x4E8E, 0x6307, 0x5B9A, 0x7EC4, 0x7EC7])))
         else if 0 < count_dept_name_under_parent db (dc_id cmd) (dc_parent cmd) (dc_name cmd)
           then Inl (params_error ((utf8 [0x540C, 0x7EA7, 0x90E8, 0x95E8, 0x540D, 0x79F0, 0x5DF2, 0x5B58, 0x5728])))
         else Inr \<lparr>dp_id = dept, dp_code = (if code = [] then show_int dept else code),
                   dp_name = trim_space (dc_name cmd), dp_org = dc_org cmd, dp_parent = dc_parent cmd,
                   dp_leader = dc_leader cmd, dp_status = int_value (dc_status cmd) 0,
                   dp_sort = int_value (dc_sort cmd) 0, dp_hierarchy = dept_path parent dept,
                   dp_level = (case parent of None \<Rightarrow> 1 | Some p \<Rightarrow> dp_level p + 1), dp_deleted = False\<rparr>)"

definition create_dept :: "authz_env \<Rightarrow> authz_db \<Rightarrow> dept_command \<Rightarrow> (unit, authz_db) tx_body" where
  "create_dept env seen cmd m db =
     then_do (build_dept_record env seen cmd, db) (\<lambda>x.
       user_mutation env (\<lambda>_. create_dept_row (az_dup env) x) m)"

definition update_dept :: "authz_env \<Rightarrow> authz_db \<Rightarrow> dept_command \<Rightarrow> (unit, authz_db) tx_body" where
  "update_dept env seen cmd m db =
     then_do (build_dept_record env seen cmd, db) (\<lambda>x.
       user_mutation env (\<lambda>_. update_dept_row (az_dup env) x) m)"

definition delete_dept :: "authz_env \<Rightarrow> authz_db \<Rightarrow> int \<Rightarrow> (unit, authz_db) tx_body" where
  "delete_dept env seen dept m db =
     (if 0 < count_dept_children seen dept then (Inl (operation_error ((utf8 [0x5B58, 0x5728, 0x5B50, 0x90E8, 0x95E8, 0xFF0C, 0x4E0D, 0x80FD, 0x5220, 0x9664]))), db)
      else if 0 < count_user_dept seen dept then (Inl (operation_error ((utf8 [0x90E8, 0x95E8, 0x4E0B, 0x5B58, 0x5728, 0x7528, 0x6237, 0xFF0C, 0x4E0D, 0x80FD, 0x5220, 0x9664]))), db)
      else user_mutation env (\<lambda>_. delete_dept_row (az_dup env) dept) m db)"

section \<open>Positions\<close>

record post_command =
  pc_id :: int
  pc_code :: string
  pc_name :: string
  pc_dept :: int
  pc_org :: int
  pc_sort :: "int option"
  pc_status :: "int option"
  pc_remark :: string

definition live_post :: "int \<Rightarrow> post_row \<Rightarrow> bool" where
  "live_post post r \<longleftrightarrow> po_id r = post \<and> \<not> po_deleted r"

definition post_columns :: "post_row \<Rightarrow> post_row \<Rightarrow> post_row" where
  "post_columns x r =
     r\<lparr>po_code := trim_space (po_code x), po_name := trim_space (po_name x), po_dept := nullable_id (po_dept x),
       po_org := nullable_id (po_org x), po_sort := po_sort x, po_status := po_status x,
       po_remark := trim_space (po_remark x)\<rparr>"

definition create_post_row :: "go_error \<Rightarrow> post_row \<Rightarrow> authz_db \<Rightarrow> unit result \<times> authz_db" where
  "create_post_row dup x db =
     (if po_id x \<in> po_id ` set (db_posts db) then (Inl dup, db)
      else (Inr (), db\<lparr>db_posts := db_posts db @ [(post_columns x x)\<lparr>po_deleted := False\<rparr>]\<rparr>))"

definition update_post_row :: "post_row \<Rightarrow> authz_db \<Rightarrow> authz_db" where
  "update_post_row x db = db\<lparr>db_posts := update_where (live_post (po_id x)) (post_columns x) (db_posts db)\<rparr>"

definition no_transaction :: "string \<Rightarrow> go_error" where
  "no_transaction text = PlainError text"

definition delete_posts_rows :: "int list \<Rightarrow> authz_db \<Rightarrow> authz_db" where
  "delete_posts_rows posts db =
     db\<lparr>db_post_roles := filter (\<lambda>(p, r). p \<notin> set posts) (db_post_roles db),
        db_posts := update_where (\<lambda>r. po_id r \<in> set posts \<and> \<not> po_deleted r) (\<lambda>r. r\<lparr>po_deleted := True\<rparr>) (db_posts db)\<rparr>"

definition delete_post_row :: "int \<Rightarrow> (unit, authz_db) tx_body" where
  "delete_post_row post m db =
     (if m = NoTx then (Inl (no_transaction ''delete post requires an active transaction''), db)
      else (Inr (), delete_posts_rows [post] db))"

definition list_referenced_post_ids :: "authz_db \<Rightarrow> int list \<Rightarrow> int list result" where
  "list_referenced_post_ids db posts =
     (let ids = unique_int64 posts
      in if ids = [] then Inr []
         else if 100 < length ids then Inl (PlainError ''post set exceeds 100'')
         else Inr (sort (remdups (map mb_of (filter (\<lambda>r. mb_of r \<in> set ids \<and> \<not> mb_deleted r) (db_user_posts db))))))"

definition delete_posts :: "int list \<Rightarrow> (unit, authz_db) tx_body" where
  "delete_posts posts m db =
     (let ids = unique_int64 posts
      in if ids = [] then (Inr (), db)
         else if 100 < length ids then (Inl (PlainError ''post set exceeds 100''), db)
         else if m = NoTx then (Inl (no_transaction ''delete posts requires an active transaction''), db)
         else (Inr (), delete_posts_rows ids db))"

definition update_post_status :: "int \<Rightarrow> int \<Rightarrow> authz_db \<Rightarrow> authz_db" where
  "update_post_status post status db =
     db\<lparr>db_posts := update_where (live_post post) (\<lambda>r. r\<lparr>po_status := status\<rparr>) (db_posts db)\<rparr>"

definition count_post_code_excluding :: "authz_db \<Rightarrow> int \<Rightarrow> string \<Rightarrow> nat" where
  "count_post_code_excluding db post code =
     count_where (\<lambda>r. po_code r = trim_space code \<and> po_id r \<noteq> post \<and> \<not> po_deleted r) (db_posts db)"

definition count_post_name_excluding :: "authz_db \<Rightarrow> int \<Rightarrow> string \<Rightarrow> nat" where
  "count_post_name_excluding db post name =
     count_where (\<lambda>r. po_name r = trim_space name \<and> po_id r \<noteq> post \<and> \<not> po_deleted r) (db_posts db)"

definition count_user_post :: "authz_db \<Rightarrow> int \<Rightarrow> nat" where
  "count_user_post db post = count_where (\<lambda>r. mb_of r = post \<and> \<not> mb_deleted r) (db_user_posts db)"

definition replace_post_roles :: "int \<Rightarrow> int list \<Rightarrow> authz_db \<Rightarrow> unit result \<times> authz_db" where
  "replace_post_roles post roles db =
     (let ids = unique_int64 roles; db1 = db\<lparr>db_post_roles := filter (\<lambda>(p, r). p \<noteq> post) (db_post_roles db)\<rparr>
      in if 100 < length ids then (Inl (PlainError ''post role set exceeds 100''), db1)
         else (Inr (), db1\<lparr>db_post_roles := db_post_roles db1 @ map (\<lambda>i. (post, i)) ids\<rparr>))"

definition build_post_record :: "authz_env \<Rightarrow> authz_db \<Rightarrow> post_command \<Rightarrow> post_row result" where
  "build_post_record env db cmd =
     (if blank (pc_code cmd) \<or> blank (pc_name cmd) then Inl (params_error ((utf8 [0x5C97, 0x4F4D, 0x7F16, 0x7801, 0x548C, 0x540D, 0x79F0, 0x4E0D, 0x80FD, 0x4E3A, 0x7A7A])))
      else if pc_dept cmd \<le> 0 then Inl (params_error ((utf8 [0x8BF7, 0x9009, 0x62E9, 0x6240, 0x5C5E, 0x90E8, 0x95E8])))
      else if 0 < count_post_code_excluding db (pc_id cmd) (pc_code cmd) then Inl (params_error ((utf8 [0x5C97, 0x4F4D, 0x7F16, 0x7801, 0x5DF2, 0x5B58, 0x5728])))
      else if 0 < count_post_name_excluding db (pc_id cmd) (pc_name cmd) then Inl (params_error ((utf8 [0x5C97, 0x4F4D, 0x540D, 0x79F0, 0x5DF2, 0x5B58, 0x5728])))
      else case find_dept_by_id db (pc_dept cmd) of
             None \<Rightarrow> Inl (params_error ((utf8 [0x90E8, 0x95E8, 0x4E0D, 0x5B58, 0x5728])))
           | Some d \<Rightarrow>
               if 0 < pc_org cmd \<and> dp_org d \<noteq> pc_org cmd then Inl (params_error ((utf8 [0x5C97, 0x4F4D, 0x90E8, 0x95E8, 0x4E0D, 0x5C5E, 0x4E8E, 0x6307, 0x5B9A, 0x7EC4, 0x7EC7])))
               else Inr \<lparr>po_id = (if pc_id cmd \<le> 0 then az_new_id env else pc_id cmd),
                         po_code = trim_space (pc_code cmd), po_name = trim_space (pc_name cmd),
                         po_dept = pc_dept cmd, po_org = (if pc_org cmd \<le> 0 then dp_org d else pc_org cmd),
                         po_sort = int_value (pc_sort cmd) 0, po_status = int_value (pc_status cmd) 0,
                         po_remark = trim_space (pc_remark cmd), po_deleted = False\<rparr>)"

definition create_post :: "authz_env \<Rightarrow> authz_db \<Rightarrow> post_command \<Rightarrow> (unit, authz_db) tx_body" where
  "create_post env seen cmd m db =
     then_do (build_post_record env seen cmd, db) (\<lambda>x.
       user_mutation env (\<lambda>_. create_post_row (az_dup env) x) m)"

definition update_post :: "authz_env \<Rightarrow> authz_db \<Rightarrow> post_command \<Rightarrow> (unit, authz_db) tx_body" where
  "update_post env seen cmd m db =
     then_do (build_post_record env seen cmd, db) (\<lambda>x. user_mutation env (change_db (update_post_row x)) m)"

definition posts_in_use :: go_error where
  "posts_in_use = operation_error ((utf8 [0x5C97, 0x4F4D, 0x4E0B, 0x5B58, 0x5728, 0x7528, 0x6237, 0xFF0C, 0x4E0D, 0x80FD, 0x5220, 0x9664]))"

definition delete_post :: "authz_env \<Rightarrow> int \<Rightarrow> (unit, authz_db) tx_body" where
  "delete_post env post m db =
     (if \<not> az_transactor env then (Inl (system_error ((utf8 [0x5C97, 0x4F4D, 0x5220, 0x9664, 0x4E8B, 0x52A1, 0x80FD, 0x529B, 0x672A, 0x914D, 0x7F6E]))), db)
      else user_mutation env (\<lambda>m1 db1.
             if 0 < count_user_post db1 post then (Inl posts_in_use, db1) else delete_post_row post m1 db1) m db)"

definition adminMutationBatchMax :: nat where "adminMutationBatchMax = 100"

definition batch_delete_posts :: "authz_env \<Rightarrow> int list \<Rightarrow> (unit, authz_db) tx_body" where
  "batch_delete_posts env posts m db =
     (let ids = unique_int64 posts
      in if ids = [] then (Inl (params_error ((utf8 [0x5C97, 0x4F4D] @ ''ID'' @ utf8 [0x4E0D, 0x80FD, 0x4E3A, 0x7A7A]))), db)
         else if adminMutationBatchMax < length ids then (Inl (params_error ((utf8 [0x5C97, 0x4F4D, 0x6570, 0x91CF, 0x8D85, 0x8FC7, 0x5355, 0x6B21, 0x6279, 0x91CF, 0x4E0A, 0x9650]))), db)
         else if \<not> az_transactor env then (Inl (system_error ((utf8 [0x5C97, 0x4F4D, 0x6279, 0x91CF, 0x5220, 0x9664, 0x4E8B, 0x52A1, 0x80FD, 0x529B, 0x672A, 0x914D, 0x7F6E]))), db)
         else user_mutation env (\<lambda>m1 db1.
                then_do (list_referenced_post_ids db1 ids, db1) (\<lambda>used db2.
                  if used \<noteq> [] then (Inl posts_in_use, db2) else delete_posts ids m1 db2)) m db)"

definition change_post_status :: "authz_env \<Rightarrow> int \<Rightarrow> int \<Rightarrow> (unit, authz_db) tx_body" where
  "change_post_status env post status m db =
     (if status \<noteq> 0 \<and> status \<noteq> 1 then (Inl (params_error ((utf8 [0x5C97, 0x4F4D, 0x72B6, 0x6001, 0x9519, 0x8BEF]))), db)
      else user_mutation env (change_db (update_post_status post status)) m db)"

text \<open>
  \<open>AssignPostRoles\<close> is the one operation of this service with a consistent transaction of its own, in which
  the authorization component checks the roles.
\<close>

definition post_role_assignment_binding :: "int \<Rightarrow> int list \<Rightarrow> string" where
  "post_role_assignment_binding post roles = ''post:'' @ show_int post @ ''|roles:'' @ join_sorted_ids roles"

definition assign_post_roles ::
    "authz_env \<Rightarrow> time \<Rightarrow> int \<Rightarrow> int list \<Rightarrow> int \<Rightarrow> proof_metadata \<Rightarrow> (unit, authz_db) tx_body" where
  "assign_post_roles env now post role_ids operator proof m db =
     (let roles = unique_int64 role_ids
      in if adminMutationBatchMax < length roles then (Inl (params_error ((utf8 [0x89D2, 0x8272, 0x6570, 0x91CF, 0x8D85, 0x8FC7, 0x5355, 0x6B21, 0x6279, 0x91CF, 0x4E0A, 0x9650]))), db)
         else then_do (require_proof proof ''RBAC_ASSIGN_POST_ROLES'' (post_role_assignment_binding post roles), db) (\<lambda>_ db0.
           if \<not> az_transactor env then (Inl (system_error ((utf8 [0x5C97, 0x4F4D, 0x89D2, 0x8272, 0x5206, 0x914D, 0x4E00, 0x81F4, 0x6027, 0x4E8B, 0x52A1, 0x80FD, 0x529B, 0x672A, 0x914D, 0x7F6E]))), db0)
           else user_mutation_boundary env (tx_consistent (az_outcome env 0)) (\<lambda>m1 db1.
             then_do ((if roles = [] then Inr True
                       else lock_and_validate_post_role_assignments env m1 db1 now operator post roles), db1) (\<lambda>allowed db2.
               if \<not> allowed then (Inl (forbidden ((utf8 [0x65E0, 0x6743, 0x5206, 0x914D, 0x8BE5, 0x5C97, 0x4F4D, 0x89D2, 0x8272]))), db2)
               else replace_post_roles post roles db2)) m db0))"

end
