(* ===== verification/Credentials.thy ===== *)
theory Credentials
  imports Tx_Store
begin

text \<open>
  The credentials of users: passwords, TOTP secrets, passkeys and recovery codes
  (\<open>app/credential/domain/service.go\<close>, \<open>application/service.go\<close>, \<open>infrastructure/repository.go\<close> and
  \<open>infrastructure/security/recoverycode/service.go\<close>).

  The state is the table of credentials. Random values, the generator of ids, the key derivation and the
  codecs of the payloads are the environment; a call that draws several values indexes them. A text that
  is blank is stored as \<open>NULL\<close> and read back as the empty text. \<open>metadataJson\<close> is never written.
\<close>

section \<open>Data\<close>

definition CredentialTypePassword :: string where "CredentialTypePassword = ''PASSWORD''"
definition CredentialTypeTotp :: string where "CredentialTypeTotp = ''TOTP''"
definition CredentialTypePasskey :: string where "CredentialTypePasskey = ''PASSKEY''"
definition CredentialTypeRecoveryCode :: string where "CredentialTypeRecoveryCode = ''RECOVERY_CODE''"
definition PrimaryCredentialKey :: string where "PrimaryCredentialKey = ''PRIMARY''"
definition DefaultRecoveryHashIteration :: int where "DefaultRecoveryHashIteration = 210000"

datatype credential_status =
    CredentialStatusActive
  | CredentialStatusDisabled
  | CredentialStatusConsumed
  | CredentialStatusInvalidated

record credential_row =
  cr_id :: int
  cr_user :: int
  cr_kind :: string
  cr_key :: string
  cr_hash :: string
  cr_cipher :: string
  cr_payload :: string
  cr_status :: credential_status
  cr_verified :: "time option"
  cr_used :: "time option"
  cr_invalidated :: "time option"
  cr_must_change :: bool
  cr_password_changed :: "time option"
  cr_creator :: "int option"
  cr_created :: "time option"
  cr_updater :: "int option"
  cr_updated :: "time option"
  cr_deleted :: bool

record passkey_payload =
  pp_public_key :: string
  pp_sign_count :: int
  pp_user_handle :: string
  pp_aaguid :: string
  pp_transports :: string
  pp_attestation :: string
  pp_display_name :: string

record recovery_payload =
  rcp_salt :: string
  rcp_algorithm :: string
  rcp_iterations :: int
  rcp_batch :: string

record cred_env =
  ce_transactor :: bool
  ce_outcome :: sql_outcome
  ce_dup :: go_error
  ce_new_id :: "nat \<Rightarrow> int"
  ce_uuid :: "nat \<Rightarrow> string"
  ce_random_code :: "nat \<Rightarrow> string result"
  ce_random_salt :: "nat \<Rightarrow> string result"
  ce_base64_encode :: "string \<Rightarrow> string"
  ce_base64_decode :: "string \<Rightarrow> string result"
  ce_pbkdf2 :: "string \<Rightarrow> string \<Rightarrow> int \<Rightarrow> string"
  ce_encode_passkey :: "passkey_payload \<Rightarrow> string result"
  ce_decode_passkey :: "string \<Rightarrow> passkey_payload result"
  ce_encode_recovery :: "recovery_payload \<Rightarrow> string result"
  ce_decode_recovery :: "string \<Rightarrow> recovery_payload result"

type_synonym 'a cred_action = "credential_row list \<Rightarrow> 'a result \<times> credential_row list"

section \<open>Recovery codes\<close>

definition HashAlgorithm :: string where "HashAlgorithm = ''PBKDF2WithHmacSHA256''"
definition DefaultIterationCount :: int where "DefaultIterationCount = 210000"

definition normalize_code :: "string \<Rightarrow> string" where
  "normalize_code value = to_upper (trim_space (remove_char CHR ''-'' value))"

text \<open>A dash before every fourth byte but the first.\<close>

fun format_code_from :: "nat \<Rightarrow> string \<Rightarrow> string" where
  "format_code_from i [] = []"
| "format_code_from i (c # cs) =
     (if 0 < i \<and> i mod 4 = 0 then CHR ''-'' # c # format_code_from (Suc i) cs else c # format_code_from (Suc i) cs)"

definition format_code :: "string \<Rightarrow> string" where
  "format_code raw = format_code_from 0 raw"

fun generate_codes_from :: "cred_env \<Rightarrow> nat \<Rightarrow> nat \<Rightarrow> string list result" where
  "generate_codes_from env i 0 = Inr []"
| "generate_codes_from env i (Suc n) =
     if_ok (ce_random_code env i) (\<lambda>raw.
     if_ok (generate_codes_from env (Suc i) n) (\<lambda>codes. Inr (format_code (to_upper raw) # codes)))"

definition generate_codes :: "cred_env \<Rightarrow> int \<Rightarrow> string list result" where
  "generate_codes env batch_size = generate_codes_from env 0 (nat batch_size)"

definition hash_code :: "cred_env \<Rightarrow> string \<Rightarrow> string \<Rightarrow> int \<Rightarrow> string result" where
  "hash_code env code salt iterations =
     if_ok (ce_base64_decode env (trim_space salt)) (\<lambda>bytes.
       Inr (ce_base64_encode env
         (ce_pbkdf2 env (normalize_code code) bytes (if iterations \<le> 0 then DefaultIterationCount else iterations))))"

definition verify_code :: "cred_env \<Rightarrow> string \<Rightarrow> string \<Rightarrow> int \<Rightarrow> string \<Rightarrow> bool" where
  "verify_code env code salt iterations expected =
     (case hash_code env code salt iterations of Inl _ \<Rightarrow> False | Inr actual \<Rightarrow> actual = trim_space expected)"

section \<open>The table\<close>

definition stored_text :: "string \<Rightarrow> string" where
  "stored_text v = (if blank v then [] else v)"

definition stored_credential :: "credential_row \<Rightarrow> credential_row" where
  "stored_credential r = r\<lparr>cr_hash := stored_text (cr_hash r), cr_cipher := stored_text (cr_cipher r),
     cr_payload := stored_text (cr_payload r)\<rparr>"

text \<open>
  The unique keys: the primary key, \<open>uk_user_credential_scope\<close> and \<open>uk_credential_type_key\<close>. The last one
  leaves out the user.
\<close>

definition credential_keys_unique :: "credential_row list \<Rightarrow> bool" where
  "credential_keys_unique rows \<longleftrightarrow>
     distinct (map cr_id rows)
     \<and> distinct (map (\<lambda>r. (cr_user r, cr_kind r, cr_key r, cr_deleted r)) rows)
     \<and> distinct (map (\<lambda>r. (cr_kind r, cr_key r, cr_deleted r)) rows)"

definition in_scope :: "int \<Rightarrow> string \<Rightarrow> string \<Rightarrow> credential_row \<Rightarrow> bool" where
  "in_scope user kind key r \<longleftrightarrow> cr_user r = user \<and> cr_kind r = kind \<and> cr_key r = key \<and> \<not> cr_deleted r"

definition active :: "credential_row \<Rightarrow> bool" where
  "active r \<longleftrightarrow> cr_status r = CredentialStatusActive \<and> \<not> cr_deleted r"

definition find_single_active :: "int \<Rightarrow> string \<Rightarrow> string \<Rightarrow> credential_row list \<Rightarrow> credential_row option" where
  "find_single_active user kind key rows = find (\<lambda>r. in_scope user kind key r \<and> active r) rows"

definition find_single_any :: "int \<Rightarrow> string \<Rightarrow> string \<Rightarrow> credential_row list \<Rightarrow> credential_row option" where
  "find_single_any user kind key rows = find (in_scope user kind key) rows"

definition find_active_by_type_and_key :: "string \<Rightarrow> string \<Rightarrow> credential_row list \<Rightarrow> credential_row option" where
  "find_active_by_type_and_key kind key rows = find (\<lambda>r. cr_kind r = kind \<and> cr_key r = key \<and> active r) rows"

text \<open>\<open>ORDER BY createTime DESC LIMIT 1\<close>: the key leaves at most one row.\<close>

definition find_any_by_type_and_key :: "string \<Rightarrow> string \<Rightarrow> credential_row list \<Rightarrow> credential_row option" where
  "find_any_by_type_and_key kind key rows = find (\<lambda>r. cr_kind r = kind \<and> cr_key r = key \<and> \<not> cr_deleted r) rows"

definition active_of :: "int \<Rightarrow> string \<Rightarrow> credential_row \<Rightarrow> bool" where
  "active_of user kind r \<longleftrightarrow> cr_user r = user \<and> cr_kind r = kind \<and> active r"

text \<open>A missing creation instant comes first, as \<open>NULL\<close> does in MySQL.\<close>

definition created_order :: "credential_row \<Rightarrow> time" where
  "created_order r = (case cr_created r of None \<Rightarrow> zero_time | Some t \<Rightarrow> t)"

definition list_active_by_user_and_type :: "int \<Rightarrow> string \<Rightarrow> credential_row list \<Rightarrow> credential_row list" where
  "list_active_by_user_and_type user kind rows = sort_key created_order (filter (active_of user kind) rows)"

definition count_active_by_user_and_type :: "int \<Rightarrow> string \<Rightarrow> credential_row list \<Rightarrow> nat" where
  "count_active_by_user_and_type user kind rows = count_where (active_of user kind) rows"

definition put_credentials :: "cred_env \<Rightarrow> credential_row list \<Rightarrow> unit cred_action" where
  "put_credentials env next_rows rows =
     (if credential_keys_unique next_rows then (Inr (), next_rows) else (Inl (ce_dup env), rows))"

definition insert_credential :: "cred_env \<Rightarrow> credential_row \<Rightarrow> unit cred_action" where
  "insert_credential env r rows = put_credentials env (rows @ [stored_credential r]) rows"

definition update_credential :: "cred_env \<Rightarrow> credential_row \<Rightarrow> unit cred_action" where
  "update_credential env n rows =
     put_credentials env
       (update_where (\<lambda>r. cr_id r = cr_id n \<and> \<not> cr_deleted r)
          (\<lambda>r. (stored_credential n)\<lparr>cr_id := cr_id r, cr_creator := cr_creator r, cr_created := cr_created r,
                 cr_deleted := cr_deleted r\<rparr>) rows) rows"

definition mark_status :: "credential_status \<Rightarrow> time \<Rightarrow> credential_row \<Rightarrow> credential_row" where
  "mark_status st at r = r\<lparr>cr_status := st, cr_invalidated := Some at, cr_updated := Some at\<rparr>"

definition update_status_by_user_and_type ::
    "int \<Rightarrow> string \<Rightarrow> credential_status \<Rightarrow> time \<Rightarrow> credential_row list \<Rightarrow> nat \<times> credential_row list" where
  "update_status_by_user_and_type user kind to_status at rows =
     update_rows (active_of user kind) (mark_status to_status at) rows"

definition update_status_by_scope ::
    "int \<Rightarrow> string \<Rightarrow> string \<Rightarrow> credential_status \<Rightarrow> time \<Rightarrow> credential_row list \<Rightarrow> nat \<times> credential_row list" where
  "update_status_by_scope user kind key to_status at rows =
     update_rows (\<lambda>r. in_scope user kind key r \<and> active r) (mark_status to_status at) rows"

definition update_last_used_by_scope ::
    "int \<Rightarrow> string \<Rightarrow> string \<Rightarrow> time \<Rightarrow> credential_row list \<Rightarrow> credential_row list" where
  "update_last_used_by_scope user kind key used rows =
     update_where (\<lambda>r. in_scope user kind key r \<and> active r) (\<lambda>r. r\<lparr>cr_used := Some used, cr_updated := Some used\<rparr>) rows"

definition invalidate_active_recovery_codes :: "int \<Rightarrow> time \<Rightarrow> credential_row list \<Rightarrow> nat \<times> credential_row list" where
  "invalidate_active_recovery_codes user at rows =
     update_rows (active_of user CredentialTypeRecoveryCode) (mark_status CredentialStatusInvalidated at) rows"

definition consume_recovery_code_by_id :: "int \<Rightarrow> time \<Rightarrow> credential_row list \<Rightarrow> bool \<times> credential_row list" where
  "consume_recovery_code_by_id i used rows =
     (case update_rows (\<lambda>r. cr_id r = i \<and> active r)
             (\<lambda>r. (mark_status CredentialStatusConsumed used r)\<lparr>cr_used := Some used\<rparr>) rows of
        (n, rows1) \<Rightarrow> (0 < n, rows1))"

section \<open>Instants and ids\<close>

definition cred_user_required :: go_error where "cred_user_required = params_error (''userId'' @ utf8 [0x4E0D, 0x80FD, 0x4E3A, 0x7A7A])"

definition validate_user_id :: "int \<Rightarrow> unit result" where
  "validate_user_id user = require (0 < user) cred_user_required"

definition choose_time :: "time \<Rightarrow> time option \<Rightarrow> time" where
  "choose_time now value = (case value of None \<Rightarrow> now | Some t \<Rightarrow> if is_zero_time t then now else t)"

definition choose_instant :: "time \<Rightarrow> time \<Rightarrow> time" where
  "choose_instant now value = (if is_zero_time value then now else value)"

definition compact_uuid :: "cred_env \<Rightarrow> nat \<Rightarrow> string" where
  "compact_uuid env i = remove_char CHR ''-'' (ce_uuid env i)"

definition empty_credential :: credential_row where
  "empty_credential =
     \<lparr>cr_id = 0, cr_user = 0, cr_kind = [], cr_key = [], cr_hash = [], cr_cipher = [], cr_payload = [],
      cr_status = CredentialStatusActive, cr_verified = None, cr_used = None, cr_invalidated = None,
      cr_must_change = False, cr_password_changed = None, cr_creator = None, cr_created = None,
      cr_updater = None, cr_updated = None, cr_deleted = False\<rparr>"

section \<open>Passwords\<close>

record password_input =
  pi_user :: int
  pi_hash :: string
  pi_must_change :: bool
  pi_changed_at :: "time option"
  pi_creator :: "int option"
  pi_updater :: "int option"

definition upsert_password_credential :: "cred_env \<Rightarrow> time \<Rightarrow> password_input \<Rightarrow> unit cred_action" where
  "upsert_password_credential env now i rows =
     then_do (validate_user_id (pi_user i), rows) (\<lambda>_ rows1.
       if blank (pi_hash i) then (Inl (params_error (''passwordHash'' @ utf8 [0x4E0D, 0x80FD, 0x4E3A, 0x7A7A])), rows1)
       else
         let at = choose_time now (pi_changed_at i)
         in case find_single_any (pi_user i) CredentialTypePassword PrimaryCredentialKey rows1 of
              None \<Rightarrow> insert_credential env
                (empty_credential\<lparr>cr_id := ce_new_id env 0, cr_user := pi_user i, cr_kind := CredentialTypePassword,
                   cr_key := PrimaryCredentialKey, cr_hash := pi_hash i, cr_must_change := pi_must_change i,
                   cr_password_changed := Some at, cr_verified := Some at, cr_creator := pi_creator i,
                   cr_updater := pi_updater i, cr_created := Some at, cr_updated := Some at\<rparr>) rows1
            | Some r \<Rightarrow> update_credential env
                (r\<lparr>cr_hash := pi_hash i, cr_status := CredentialStatusActive, cr_invalidated := None,
                   cr_must_change := pi_must_change i, cr_password_changed := Some at, cr_verified := Some at,
                   cr_updater := pi_updater i, cr_updated := Some at\<rparr>) rows1)"

definition find_active_password :: "int \<Rightarrow> credential_row list \<Rightarrow> credential_row option result" where
  "find_active_password user rows =
     if_ok (validate_user_id user) (\<lambda>_.
       Inr (find_single_active user CredentialTypePassword PrimaryCredentialKey rows))"

definition mark_password_used :: "time \<Rightarrow> int \<Rightarrow> time \<Rightarrow> unit cred_action" where
  "mark_password_used now user used rows =
     then_do (validate_user_id user, rows) (\<lambda>_ rows1.
       (Inr (), update_last_used_by_scope user CredentialTypePassword PrimaryCredentialKey (choose_instant now used) rows1))"

section \<open>TOTP\<close>

record totp_input =
  ti_user :: int
  ti_cipher :: string
  ti_verified_at :: "time option"
  ti_creator :: "int option"
  ti_updater :: "int option"

definition upsert_totp_credential :: "cred_env \<Rightarrow> time \<Rightarrow> totp_input \<Rightarrow> unit cred_action" where
  "upsert_totp_credential env now i rows =
     then_do (validate_user_id (ti_user i), rows) (\<lambda>_ rows1.
       if blank (ti_cipher i) then (Inl (params_error (''secretCiphertext'' @ utf8 [0x4E0D, 0x80FD, 0x4E3A, 0x7A7A])), rows1)
       else
         let at = choose_time now (ti_verified_at i)
         in case find_single_any (ti_user i) CredentialTypeTotp PrimaryCredentialKey rows1 of
              None \<Rightarrow> insert_credential env
                (empty_credential\<lparr>cr_id := ce_new_id env 0, cr_user := ti_user i, cr_kind := CredentialTypeTotp,
                   cr_key := PrimaryCredentialKey, cr_cipher := ti_cipher i, cr_verified := Some at,
                   cr_creator := ti_creator i, cr_updater := ti_updater i, cr_created := Some at,
                   cr_updated := Some at\<rparr>) rows1
            | Some r \<Rightarrow> update_credential env
                (r\<lparr>cr_cipher := ti_cipher i, cr_status := CredentialStatusActive, cr_invalidated := None,
                   cr_verified := Some at, cr_updater := ti_updater i, cr_updated := Some at\<rparr>) rows1)"

definition find_active_totp :: "int \<Rightarrow> credential_row list \<Rightarrow> credential_row option result" where
  "find_active_totp user rows =
     if_ok (validate_user_id user) (\<lambda>_. Inr (find_single_active user CredentialTypeTotp PrimaryCredentialKey rows))"

definition disable_totp_credential :: "time \<Rightarrow> int \<Rightarrow> bool cred_action" where
  "disable_totp_credential now user rows =
     then_do (validate_user_id user, rows) (\<lambda>_ rows1.
       let (n, rows2) = update_status_by_scope user CredentialTypeTotp PrimaryCredentialKey CredentialStatusDisabled now rows1
       in if 0 < n then (Inr True, rows2)
          else case find_single_any user CredentialTypeTotp PrimaryCredentialKey rows2 of
                 None \<Rightarrow> (Inr False, rows2)
               | Some r \<Rightarrow> (Inr (cr_status r = CredentialStatusDisabled), rows2))"

definition mark_totp_used :: "time \<Rightarrow> int \<Rightarrow> time \<Rightarrow> unit cred_action" where
  "mark_totp_used now user used rows =
     then_do (validate_user_id user, rows) (\<lambda>_ rows1.
       (Inr (), update_last_used_by_scope user CredentialTypeTotp PrimaryCredentialKey (choose_instant now used) rows1))"

section \<open>Passkeys\<close>

record passkey_input =
  ki_user :: int
  ki_key :: string
  ki_public_key :: string
  ki_sign_count :: int
  ki_user_handle :: string
  ki_aaguid :: string
  ki_transports :: string
  ki_attestation :: string
  ki_display_name :: string
  ki_disable_existing :: bool
  ki_verified_at :: "time option"
  ki_creator :: "int option"
  ki_updater :: "int option"

definition credential_key_required :: go_error where
  "credential_key_required = params_error (''credentialKey'' @ utf8 [0x4E0D, 0x80FD, 0x4E3A, 0x7A7A])"

definition key_taken :: go_error where "key_taken = params_error (''credentialKey'' @ utf8 [0x5DF2, 0x88AB, 0x5176, 0x4ED6, 0x7528, 0x6237, 0x5360, 0x7528])"

definition passkey_input_ok :: "passkey_input \<Rightarrow> unit result" where
  "passkey_input_ok i =
     if_ok (validate_user_id (ki_user i)) (\<lambda>_.
     if_ok (require (\<not> blank (ki_key i)) credential_key_required) (\<lambda>_.
       require (\<not> blank (ki_public_key i)) (params_error (''publicKeyCose'' @ utf8 [0x4E0D, 0x80FD, 0x4E3A, 0x7A7A]))))"

definition payload_of_input :: "passkey_input \<Rightarrow> passkey_payload" where
  "payload_of_input i =
     \<lparr>pp_public_key = ki_public_key i, pp_sign_count = ki_sign_count i, pp_user_handle = trim_space (ki_user_handle i),
      pp_aaguid = trim_space (ki_aaguid i), pp_transports = trim_space (ki_transports i),
      pp_attestation = trim_space (ki_attestation i), pp_display_name = trim_space (ki_display_name i)\<rparr>"

definition save_passkey_credential :: "cred_env \<Rightarrow> time \<Rightarrow> passkey_input \<Rightarrow> unit cred_action" where
  "save_passkey_credential env now i rows =
     then_do (if_ok (passkey_input_ok i) (\<lambda>_.
        case find_active_by_type_and_key CredentialTypePasskey (ki_key i) rows of
          None \<Rightarrow> Inr ()
        | Some r \<Rightarrow> require (cr_user r = ki_user i) key_taken), rows) (\<lambda>_ rows1.
       let at = choose_time now (ki_verified_at i);
           rows2 = (if ki_disable_existing i
                    then snd (update_status_by_user_and_type (ki_user i) CredentialTypePasskey CredentialStatusDisabled at rows1)
                    else rows1)
       in then_do (ce_encode_passkey env (payload_of_input i), rows2) (\<lambda>payload rows3.
            case find_any_by_type_and_key CredentialTypePasskey (ki_key i) rows3 of
              None \<Rightarrow> insert_credential env
                (empty_credential\<lparr>cr_id := ce_new_id env 0, cr_user := ki_user i, cr_kind := CredentialTypePasskey,
                   cr_key := ki_key i, cr_payload := payload, cr_verified := Some at, cr_used := Some at,
                   cr_creator := ki_creator i, cr_updater := ki_updater i, cr_created := Some at,
                   cr_updated := Some at\<rparr>) rows3
            | Some r \<Rightarrow> update_credential env
                (r\<lparr>cr_user := ki_user i, cr_payload := payload, cr_status := CredentialStatusActive,
                   cr_invalidated := None, cr_verified := Some at, cr_used := Some at,
                   cr_updater := ki_updater i, cr_updated := Some at\<rparr>) rows3))"

record passkey_credential =
  pk_user :: int
  pk_key :: string
  pk_payload :: passkey_payload
  pk_verified :: "time option"
  pk_created :: "time option"
  pk_used :: "time option"

definition empty_passkey :: passkey_payload where
  "empty_passkey =
     \<lparr>pp_public_key = [], pp_sign_count = 0, pp_user_handle = [], pp_aaguid = [], pp_transports = [],
      pp_attestation = [], pp_display_name = []\<rparr>"

definition decode_passkey :: "cred_env \<Rightarrow> string \<Rightarrow> passkey_payload result" where
  "decode_passkey env payload =
     (if blank payload then Inr empty_passkey else ce_decode_passkey env (trim_space payload))"

definition to_passkey_credential :: "cred_env \<Rightarrow> credential_row \<Rightarrow> passkey_credential result" where
  "to_passkey_credential env r =
     if_ok (decode_passkey env (cr_payload r)) (\<lambda>p. Inr
       \<lparr>pk_user = cr_user r, pk_key = cr_key r, pk_payload = p, pk_verified = cr_verified r,
        pk_created = cr_created r, pk_used = cr_used r\<rparr>)"

definition list_active_passkeys :: "cred_env \<Rightarrow> int \<Rightarrow> credential_row list \<Rightarrow> passkey_credential list result" where
  "list_active_passkeys env user rows =
     if_ok (validate_user_id user) (\<lambda>_. Inr
       (List.map_filter (\<lambda>r. case to_passkey_credential env r of Inl _ \<Rightarrow> None | Inr p \<Rightarrow> Some p)
         (list_active_by_user_and_type user CredentialTypePasskey rows)))"

definition find_active_passkey :: "cred_env \<Rightarrow> string \<Rightarrow> credential_row list \<Rightarrow> passkey_credential option result" where
  "find_active_passkey env key rows =
     (if blank key then Inl credential_key_required
      else case find_active_by_type_and_key CredentialTypePasskey (trim_space key) rows of
             None \<Rightarrow> Inr None
           | Some r \<Rightarrow> if_ok (to_passkey_credential env r) (\<lambda>p. Inr (Some p)))"

definition disable_passkey_credential :: "time \<Rightarrow> int \<Rightarrow> string \<Rightarrow> bool cred_action" where
  "disable_passkey_credential now user credential_key rows =
     (let key = trim_space credential_key
      in then_do (if_ok (validate_user_id user) (\<lambda>_. require (key \<noteq> []) credential_key_required), rows) (\<lambda>_ rows1.
           let (n, rows2) = update_status_by_scope user CredentialTypePasskey key CredentialStatusDisabled now rows1
           in if 0 < n then (Inr True, rows2)
              else case find_any_by_type_and_key CredentialTypePasskey key rows2 of
                     None \<Rightarrow> (Inr False, rows2)
                   | Some r \<Rightarrow> (Inr (cr_user r = user \<and> cr_status r = CredentialStatusDisabled), rows2)))"

definition update_passkey_usage :: "cred_env \<Rightarrow> time \<Rightarrow> string \<Rightarrow> int \<Rightarrow> time \<Rightarrow> unit cred_action" where
  "update_passkey_usage env now credential_key sign_count used_at rows =
     (let key = trim_space credential_key
      in if key = [] then (Inr (), rows)
         else case find_active_by_type_and_key CredentialTypePasskey key rows of
                None \<Rightarrow> (Inr (), rows)
              | Some r \<Rightarrow>
                  then_do (if_ok (decode_passkey env (cr_payload r)) (\<lambda>p.
                             ce_encode_passkey env (p\<lparr>pp_sign_count := sign_count\<rparr>)), rows) (\<lambda>payload.
                    let used = choose_instant now used_at
                    in update_credential env
                         (r\<lparr>cr_payload := payload, cr_used := Some used, cr_updated := Some used\<rparr>)))"

section \<open>Recovery codes of a user\<close>

definition count_available_recovery_codes :: "int \<Rightarrow> credential_row list \<Rightarrow> nat result" where
  "count_available_recovery_codes user rows =
     if_ok (validate_user_id user) (\<lambda>_. Inr (count_active_by_user_and_type user CredentialTypeRecoveryCode rows))"

text \<open>The row of one code; the index counts the codes of the batch, the uuid 0 is the batch's and the id 0 is drawn by
  other steps of the same transaction.\<close>

definition recovery_row :: "cred_env \<Rightarrow> time \<Rightarrow> int \<Rightarrow> string \<Rightarrow> nat \<Rightarrow> string \<Rightarrow> credential_row result" where
  "recovery_row env now user batch i code =
     if_ok (ce_random_salt env i) (\<lambda>salt.
     if_ok (hash_code env code salt DefaultRecoveryHashIteration) (\<lambda>hash.
     if_ok (ce_encode_recovery env \<lparr>rcp_salt = salt, rcp_algorithm = HashAlgorithm,
              rcp_iterations = DefaultRecoveryHashIteration, rcp_batch = batch\<rparr>) (\<lambda>payload. Inr
       (empty_credential\<lparr>cr_id := ce_new_id env (Suc i), cr_user := user, cr_kind := CredentialTypeRecoveryCode,
          cr_key := ''rc_'' @ compact_uuid env (Suc i), cr_hash := hash, cr_payload := payload,
          cr_verified := Some now, cr_created := Some now, cr_updated := Some now\<rparr>))))"

fun insert_recovery_codes ::
    "cred_env \<Rightarrow> time \<Rightarrow> int \<Rightarrow> string \<Rightarrow> nat \<Rightarrow> string list \<Rightarrow> unit cred_action" where
  "insert_recovery_codes env now user batch i [] rows = (Inr (), rows)"
| "insert_recovery_codes env now user batch i (code # codes) rows =
     then_do (recovery_row env now user batch i code, rows) (\<lambda>r rows1.
     then_do (insert_credential env r rows1) (\<lambda>_.
       insert_recovery_codes env now user batch (Suc i) codes))"

record recovery_batch =
  rb_batch :: string
  rb_codes :: "string list"
  rb_at :: time

definition regenerate_recovery_codes :: "cred_env \<Rightarrow> time \<Rightarrow> int \<Rightarrow> int \<Rightarrow> recovery_batch cred_action" where
  "regenerate_recovery_codes env now user batch_size rows =
     then_do (if_ok (validate_user_id user) (\<lambda>_.
                require (0 < batch_size) (params_error (''batchSize'' @ utf8 [0x5FC5, 0x987B, 0x5927, 0x4E8E] @ ''0''))), rows) (\<lambda>_ rows1.
       let rows2 = snd (invalidate_active_recovery_codes user now rows1);
           batch = ''batch_'' @ compact_uuid env 0
       in then_do (generate_codes env batch_size, rows2) (\<lambda>codes rows3.
          then_do (insert_recovery_codes env now user batch 0 codes rows3) (\<lambda>_ rows4.
            (Inr \<lparr>rb_batch = batch, rb_codes = codes, rb_at = now\<rparr>, rows4))))"

definition decode_recovery_code :: "cred_env \<Rightarrow> string \<Rightarrow> recovery_payload result" where
  "decode_recovery_code env payload =
     (if blank payload then Inl (PlainError ''recovery code payload is empty'')
      else ce_decode_recovery env (trim_space payload))"

definition is_valid_recovery_code_payload :: "recovery_payload \<Rightarrow> bool" where
  "is_valid_recovery_code_payload p \<longleftrightarrow>
     \<not> blank (rcp_salt p) \<and> \<not> blank (rcp_algorithm p) \<and> 0 < rcp_iterations p \<and> \<not> blank (rcp_batch p)"

definition recovery_code_fits :: "cred_env \<Rightarrow> string \<Rightarrow> credential_row \<Rightarrow> bool" where
  "recovery_code_fits env code r =
     (case decode_recovery_code env (cr_payload r) of
        Inl _ \<Rightarrow> False
      | Inr p \<Rightarrow> is_valid_recovery_code_payload p \<and> verify_code env code (rcp_salt p) (rcp_iterations p) (cr_hash r))"

fun consume_first :: "cred_env \<Rightarrow> time \<Rightarrow> string \<Rightarrow> credential_row list \<Rightarrow> credential_row list \<Rightarrow> bool \<times> credential_row list" where
  "consume_first env used code [] rows = (False, rows)"
| "consume_first env used code (c # cs) rows =
     (if \<not> recovery_code_fits env code c then consume_first env used code cs rows
      else case consume_recovery_code_by_id (cr_id c) used rows of
             (ok, rows1) \<Rightarrow> if ok then (True, rows1) else consume_first env used code cs rows1)"

text \<open>
  The candidates come from the snapshot \<open>seen\<close> that the reads of the transaction see; the update of a row
  looks at the row as it is.
\<close>

definition consume_recovery_code ::
    "cred_env \<Rightarrow> time \<Rightarrow> int \<Rightarrow> string \<Rightarrow> time \<Rightarrow> credential_row list \<Rightarrow> bool cred_action" where
  "consume_recovery_code env now user code used_at seen rows =
     then_do (validate_user_id user, rows) (\<lambda>_ rows1.
       if blank code then (Inr False, rows1)
       else case consume_first env (choose_instant now used_at) code
                   (list_active_by_user_and_type user CredentialTypeRecoveryCode seen) rows1 of
              (ok, rows2) \<Rightarrow> (Inr ok, rows2))"

section \<open>The service\<close>

definition cred_with_tx :: "cred_env \<Rightarrow> (tx_mode \<Rightarrow> 'a cred_action) \<Rightarrow> tx_mode \<Rightarrow> 'a cred_action" where
  "cred_with_tx env body m rows =
     (if \<not> ce_transactor env then body m rows else tx_ordinary (ce_outcome env) body m rows)"

definition upsert_password :: "cred_env \<Rightarrow> time \<Rightarrow> password_input \<Rightarrow> tx_mode \<Rightarrow> unit cred_action" where
  "upsert_password env now i = cred_with_tx env (\<lambda>_. upsert_password_credential env now i)"

definition complete_passkey_binding ::
    "cred_env \<Rightarrow> time \<Rightarrow> passkey_input \<Rightarrow> int \<Rightarrow> tx_mode \<Rightarrow> unit cred_action" where
  "complete_passkey_binding env now i batch_size = cred_with_tx env (\<lambda>_ rows.
     then_do (save_passkey_credential env now (i\<lparr>ki_creator := None, ki_updater := None\<rparr>) rows) (\<lambda>_ rows1.
     then_do (regenerate_recovery_codes env now (ki_user i) batch_size rows1) (\<lambda>_ rows2. (Inr (), rows2))))"

text \<open>\<open>encrypt\<close> is the envelope service followed by the codec of its secrets, \<open>None\<close> where one is missing.\<close>

definition complete_totp_binding ::
    "cred_env \<Rightarrow> (string \<Rightarrow> string result) option \<Rightarrow> time \<Rightarrow> int \<Rightarrow> string \<Rightarrow> time option \<Rightarrow> int \<Rightarrow> tx_mode \<Rightarrow>
     unit cred_action" where
  "complete_totp_binding env encrypt now user plain verified_at batch_size m rows =
     (case encrypt of
        None \<Rightarrow> (Inl (PlainError ''credential totp binding service is not configured''), rows)
      | Some enc \<Rightarrow> cred_with_tx env (\<lambda>_ rows.
          then_do (enc plain, rows) (\<lambda>cipher rows1.
          then_do (upsert_totp_credential env now
                     \<lparr>ti_user = user, ti_cipher = cipher, ti_verified_at = verified_at, ti_creator = None,
                      ti_updater = None\<rparr> rows1) (\<lambda>_ rows2.
          then_do (regenerate_recovery_codes env now user batch_size rows2) (\<lambda>_ rows3. (Inr (), rows3))))) m rows)"

definition totp_unavailable :: go_error where
  "totp_unavailable = object_state_error (''TOTP'' @ utf8 [0x51ED, 0x8BC1, 0x4E0D, 0x53EF, 0x7528, 0xFF0C, 0x8BF7, 0x91CD, 0x65B0, 0x7ED1, 0x5B9A])"

definition find_active_totp_secret ::
    "(string \<Rightarrow> string result) option \<Rightarrow> int \<Rightarrow> credential_row list \<Rightarrow> string option result" where
  "find_active_totp_secret decrypt user rows =
     (case decrypt of
        None \<Rightarrow> Inl (PlainError ''credential totp secret service is not configured'')
      | Some dec \<Rightarrow> if_ok (find_active_totp user rows) (\<lambda>found.
          case found of
            None \<Rightarrow> Inr None
          | Some r \<Rightarrow> (case dec (cr_cipher r) of Inl _ \<Rightarrow> Inl totp_unavailable | Inr s \<Rightarrow> Inr (Some s))))"

end
