(* ===== verification/Federation.thy ===== *)
theory Federation
  imports Sql_Model
begin

text \<open>
  The names that the hub and the single sign-on service agree on (\<open>shared/federation/contracts.go\<close>):
  the code of a managed owner, and the character classes of such codes.
\<close>

definition owner_start :: "char \<Rightarrow> bool" where
  "owner_start c \<longleftrightarrow> 97 \<le> byte c \<and> byte c \<le> 122 \<or> 48 \<le> byte c \<and> byte c \<le> 57"

definition owner_char :: "char \<Rightarrow> bool" where
  "owner_char c \<longleftrightarrow> owner_start c \<or> c \<in> {CHR ''.'', CHR ''_'', CHR ''-''}"

text \<open>\<open>CanonicalManagedOwner\<close> with the pattern \<open>^[a-z0-9][a-z0-9._-]{1,59}$\<close>.\<close>

definition managed_owner_pattern :: "string \<Rightarrow> bool" where
  "managed_owner_pattern s =
     (case s of [] \<Rightarrow> False
      | c # r \<Rightarrow> owner_start c \<and> list_all owner_char r \<and> 1 \<le> length r \<and> length r \<le> 59)"

definition canonical_managed_owner :: "string \<Rightarrow> string result" where
  "canonical_managed_owner value =
     (let owner = trim_space value
      in if 60 < length owner \<or> \<not> managed_owner_pattern owner
         then Inl (PlainError (''invalid managed owner: '' @ value)) else Inr owner)"

end
