(* ===== verification/Sso_Policy.thy ===== *)
theory Sso_Policy
  imports Federation "HOL-Library.List_Lexorder" "HOL-Library.Char_ord"
begin

text \<open>
  The decisions of the single sign-on service that need no state (\<open>app/sso/application/service.go\<close>):
  which clients may authenticate how, which scopes and redirect URIs a request may name, the proof key
  of a code exchange, the source of a session, and how claims of a token are read.

  \<open>sort.Strings\<close> orders by bytes, which is the lexicographic order of byte strings.
\<close>

section \<open>Clients\<close>

text \<open>A client as the repository loads it, with its active redirect URIs and secrets.\<close>

record sso_client =
  sc_client_id :: string
  sc_type :: string
  sc_auth_method :: string
  sc_grants :: "string list"
  sc_scopes :: "string list"
  sc_require_pkce :: bool
  sc_require_consent :: bool
  sc_trusted :: bool
  sc_access_ttl :: int
  sc_refresh_ttl :: int
  sc_status :: int
  sc_redirects :: "string list"
  sc_secrets :: "string list"

definition ClientStatusActive :: int where "ClientStatusActive = 0"

definition has_scope :: "string list \<Rightarrow> string \<Rightarrow> bool" where
  "has_scope scopes target \<longleftrightarrow> (\<exists>x \<in> set scopes. trim_space x = target)"

definition is_redirect_allowed :: "sso_client \<Rightarrow> string \<Rightarrow> bool" where
  "is_redirect_allowed client uri \<longleftrightarrow> (\<exists>x \<in> set (sc_redirects client). trim_space x = trim_space uri)"

definition client_allows_grant :: "sso_client \<Rightarrow> string \<Rightarrow> bool" where
  "client_allows_grant client grant \<longleftrightarrow>
     (\<exists>x \<in> set (sc_grants client). to_lower (trim_space x) = to_lower (trim_space grant))"

definition client_requires_pkce :: "sso_client \<Rightarrow> bool" where
  "client_requires_pkce client \<longleftrightarrow>
     sc_require_pkce client \<or> equal_fold (trim_space (sc_auth_method client)) ''none''"

definition normalize_client_type :: "string \<Rightarrow> string" where
  "normalize_client_type t =
     (let u = to_upper (trim_space t)
      in if u \<in> {''FIRST_PARTY_SPA'', ''THIRD_PARTY_SPA'', ''PUBLIC''} then ''public''
         else if u \<in> {''CONFIDENTIAL_WEB'', ''CONFIDENTIAL''} then ''confidential''
         else to_lower (trim_space t))"

definition client_auth_failed :: go_error where
  "client_auth_failed = unauthorized (''client '' @ utf8 [0x8BA4, 0x8BC1, 0x5931, 0x8D25])"

definition validate_client_auth_policy :: "sso_client \<Rightarrow> unit result" where
  "validate_client_auth_policy client =
     (let kind = normalize_client_type (sc_type client);
          m = to_lower (trim_space (sc_auth_method client));
          auth = (if m = [] then ''none'' else m)
      in if kind = [] then Inr ()
         else if kind = ''public'' then (if auth \<noteq> ''none'' then Inl client_auth_failed else Inr ())
         else if kind = ''confidential'' then (if auth = ''none'' then Inl client_auth_failed else Inr ())
         else Inl (params_error (''client '' @ utf8 [0x7C7B, 0x578B, 0x4E0D, 0x652F, 0x6301])))"

text \<open>\<open>verify secret hash\<close> is the verdict of the password service.\<close>

definition authenticate_client :: "(string \<Rightarrow> string \<Rightarrow> bool) \<Rightarrow> sso_client \<Rightarrow> string \<Rightarrow> unit result" where
  "authenticate_client verify client secret =
     (case validate_client_auth_policy client of
        Inl e \<Rightarrow> Inl e
      | Inr _ \<Rightarrow>
          (let auth = to_lower (trim_space (sc_auth_method client))
           in if auth = [] \<or> auth = ''none''
              then (if trim_space secret \<noteq> [] then Inl client_auth_failed else Inr ())
              else if auth = ''client_secret_basic''
              then (if trim_space secret = [] then Inl client_auth_failed
                    else if list_ex (verify secret) (sc_secrets client) then Inr ()
                    else Inl client_auth_failed)
              else Inl (params_error (''client '' @ utf8 [0x8BA4, 0x8BC1, 0x65B9, 0x5F0F, 0x4E0D, 0x652F, 0x6301]))))"

section \<open>Scopes\<close>

fun clean_scopes :: "string list \<Rightarrow> string list \<Rightarrow> string list result" where
  "clean_scopes allow [] = Inr []"
| "clean_scopes allow (x # xs) =
     (let scope = trim_space x
      in if scope = [] then clean_scopes allow xs
         else if scope \<notin> set allow then Inl (params_error (''scope '' @ utf8 [0x4E0D, 0x88AB, 0x5141, 0x8BB8]))
         else map_sum id ((#) scope) (clean_scopes allow xs))"

definition scope_missing :: go_error where
  "scope_missing = params_error (''scope '' @ utf8 [0x4E0D, 0x80FD, 0x4E3A, 0x7A7A])"

definition normalize_scopes :: "sso_client \<Rightarrow> string list \<Rightarrow> string list result" where
  "normalize_scopes client requested =
     (if requested = [] then Inl scope_missing
      else case clean_scopes (map trim_space (sc_scopes client)) requested of
             Inl e \<Rightarrow> Inl e
           | Inr cleaned \<Rightarrow>
               if cleaned = [] then Inl scope_missing
               else if \<not> has_scope cleaned ''openid''
               then Inl (params_error (''OIDC '' @ utf8 [0x8BF7, 0x6C42, 0x5FC5, 0x987B, 0x5305, 0x542B] @ '' openid''))
               else Inr (sort cleaned))"

text \<open>\<open>strings.Fields\<close>: the maximal runs without white space.\<close>

function fields_from :: "string \<Rightarrow> string \<Rightarrow> string list" where
  "fields_from cur s =
     (case s of
        [] \<Rightarrow> if cur = [] then [] else [rev cur]
      | c # t \<Rightarrow>
          (case find (\<lambda>u. u \<noteq> [] \<and> starts_with u s) ws_units of
             None \<Rightarrow> fields_from (c # cur) t
           | Some u \<Rightarrow> (if cur = [] then [] else [rev cur]) @ fields_from [] (drop (length u) s)))"
  by pat_completeness auto
termination
  by (relation "measure (\<lambda>(cur, s). length s)") (auto simp: find_Some_iff)

declare fields_from.simps [simp del]

definition str_fields :: "string \<Rightarrow> string list" where "str_fields s = fields_from [] s"

section \<open>The proof key of a code\<close>

definition pkce_char :: "char \<Rightarrow> bool" where
  "pkce_char c \<longleftrightarrow>
     97 \<le> byte c \<and> byte c \<le> 122 \<or> 65 \<le> byte c \<and> byte c \<le> 90 \<or> 48 \<le> byte c \<and> byte c \<le> 57 \<or>
     c \<in> {CHR ''-'', CHR ''.'', CHR ''_'', CHR ''~''}"

definition is_valid_pkce_verifier :: "string \<Rightarrow> bool" where
  "is_valid_pkce_verifier value \<longleftrightarrow> 43 \<le> length value \<and> length value \<le> 128 \<and> list_all pkce_char value"

text \<open>\<open>digest\<close> is the unpadded base64url text of the SHA-256 hash.\<close>

definition verify_pkce :: "(string \<Rightarrow> string) \<Rightarrow> string \<Rightarrow> string \<Rightarrow> bool" where
  "verify_pkce digest challenge verifier \<longleftrightarrow>
     is_valid_pkce_verifier (trim_space verifier) \<and> trim_space challenge = digest (trim_space verifier)"

section \<open>Authorization requests\<close>

definition validate_pkce_parameters :: "sso_client \<Rightarrow> string \<Rightarrow> string \<Rightarrow> unit result" where
  "validate_pkce_parameters client challenge kind =
     (let c = trim_space challenge; m = trim_space kind
      in if client_requires_pkce client \<and> c = [] then Inl (params_error (utf8 [0x5F53, 0x524D, 0x5BA2, 0x6237, 0x7AEF, 0x5FC5, 0x987B, 0x643A, 0x5E26] @ '' PKCE''))
         else if c \<noteq> [] \<and> \<not> is_valid_pkce_verifier c
         then Inl (params_error (''PKCE code_challenge '' @ utf8 [0x683C, 0x5F0F, 0x4E0D, 0x5408, 0x6CD5]))
         else if c \<noteq> [] \<and> m = []
         then Inl (params_error (''PKCE '' @ utf8 [0x5FC5, 0x987B, 0x663E, 0x5F0F, 0x4F7F, 0x7528] @ '' S256 code_challenge_method''))
         else if m \<noteq> [] \<and> \<not> equal_fold m ''S256''
         then Inl (params_error (utf8 [0x4EC5, 0x652F, 0x6301] @ '' S256 code_challenge_method''))
         else Inr ())"

definition validate_authorize_request ::
    "sso_client \<Rightarrow> string \<Rightarrow> string \<Rightarrow> string \<Rightarrow> string \<Rightarrow> string \<Rightarrow> unit result" where
  "validate_authorize_request client response_type redirect_uri challenge kind prompt =
     (case validate_client_auth_policy client of
        Inl e \<Rightarrow> Inl e
      | Inr _ \<Rightarrow>
          if trim_space response_type = [] then Inl (params_error (utf8 [0x7F3A, 0x5C11] @ '' response_type''))
          else if trim_space response_type \<noteq> ''code''
          then Inl (params_error (utf8 [0x4EC5, 0x652F, 0x6301] @ '' response_type=code''))
          else if \<not> client_allows_grant client ''authorization_code''
          then Inl (params_error (utf8 [0x5F53, 0x524D, 0x5BA2, 0x6237, 0x7AEF, 0x4E0D, 0x5141, 0x8BB8] @ '' authorization_code '' @ utf8 [0x6388, 0x6743]))
          else if \<not> is_redirect_allowed client redirect_uri
          then Inl (params_error (''redirect_uri '' @ utf8 [0x4E0D, 0x88AB, 0x5141, 0x8BB8]))
          else if trim_space prompt \<noteq> [] \<and> ''none'' \<in> set (str_fields (trim_space prompt)) \<and>
                  1 < length (str_fields (trim_space prompt))
          then Inl (params_error (''prompt=none '' @ utf8 [0x4E0D, 0x80FD, 0x4E0E, 0x5176, 0x4ED6, 0x503C, 0x7EC4, 0x5408]))
          else validate_pkce_parameters client challenge kind)"

section \<open>The source of a session\<close>

fun keep_new :: "string list \<Rightarrow> string list \<Rightarrow> string list" where
  "keep_new seen [] = []"
| "keep_new seen (x # xs) =
     (let v = trim_space x
      in if v = [] \<or> v \<in> set seen then keep_new seen xs else v # keep_new (v # seen) xs)"

definition normalize_amr :: "string list \<Rightarrow> string list" where
  "normalize_amr items = sort (keep_new [] items)"

definition without_oauth_amr :: "string list \<Rightarrow> string list" where
  "without_oauth_amr items =
     filter (\<lambda>v. \<not> (v = [] \<or> to_lower v = ''oauth'' \<or> has_prefix (to_lower v) ''oauth:''))
       (map trim_space items)"

text \<open>The pattern \<open>^[a-z0-9][a-z0-9._-]{0,63}$\<close>.\<close>

definition external_provider_code_pattern :: "string \<Rightarrow> bool" where
  "external_provider_code_pattern s =
     (case s of [] \<Rightarrow> False | c # r \<Rightarrow> owner_start c \<and> list_all owner_char r \<and> length r \<le> 63)"

definition canonical_external_provider_code :: "string \<Rightarrow> string result" where
  "canonical_external_provider_code code =
     (let canonical = to_lower (trim_space code)
      in if canonical = [] then Inl (params_error (''externalProviderCode'' @ utf8 [0x4E0D, 0x80FD, 0x4E3A, 0x7A7A]))
         else if has_prefix canonical ''hub:''
         then (case canonical_managed_owner (trim_prefix canonical ''hub:'') of
                 Inl _ \<Rightarrow> Inl (params_error (''externalProviderCode'' @ utf8 [0x683C, 0x5F0F, 0x65E0, 0x6548]))
               | Inr _ \<Rightarrow> Inr canonical)
         else if \<not> external_provider_code_pattern canonical
         then Inl (params_error (''externalProviderCode'' @ utf8 [0x683C, 0x5F0F, 0x65E0, 0x6548]))
         else Inr canonical)"

definition session_amr :: "string list \<Rightarrow> string list" where
  "session_amr amr = (let items = normalize_amr amr in if items = [] then [''pwd''] else items)"

definition normalize_session_source ::
    "string \<Rightarrow> string \<Rightarrow> int \<Rightarrow> string \<Rightarrow> string list \<Rightarrow> (string \<times> string \<times> int \<times> string \<times> string list) result" where
  "normalize_session_source login_kind provider_code identity acr amr =
     (let kind = to_upper (trim_space login_kind); provider = trim_space provider_code; level = trim_space acr
      in if kind = ''EXTERNAL_OAUTH'' \<or> provider \<noteq> [] \<or> 0 < identity
         then (case canonical_external_provider_code provider of
                 Inl e \<Rightarrow> Inl e
               | Inr p \<Rightarrow>
                   Inr (''EXTERNAL_OAUTH'', p, identity, if level = [] then ''LEVEL_1'' else level,
                        session_amr (without_oauth_amr amr @ [''oauth''] @
                                     (if p \<noteq> [] then [''oauth:'' @ p] else []))))
         else Inr (if kind = [] then ''LOCAL'' else kind, provider, identity, level, session_amr amr))"

section \<open>Claims\<close>

text \<open>
  \<open>json\<close> is the JSON text of a value that is not a string, as \<open>sonic.MarshalString\<close> gives it. The text of
  a missing claim is \<open>null\<close>.
\<close>

definition trim_char :: "char \<Rightarrow> string \<Rightarrow> string" where
  "trim_char c s = trim_right_char c (dropWhile (\<lambda>d. d = c) s)"

fun claim_text :: "(anyv \<Rightarrow> string) \<Rightarrow> anyv \<Rightarrow> string" where
  "claim_text json (AStr s) = s"
| "claim_text json v = trim_char (CHR 0x22) (json v)"

fun claim_texts :: "(anyv \<Rightarrow> string) \<Rightarrow> anyv \<Rightarrow> string list" where
  "claim_texts json (AStrs xs) = xs"
| "claim_texts json (AList xs) = filter (\<lambda>s. s \<noteq> []) (map (\<lambda>x. trim_space (claim_text json x)) xs)"
| "claim_texts json v = []"

fun claim_scopes :: "(anyv \<Rightarrow> string) \<Rightarrow> anyv \<Rightarrow> string list" where
  "claim_scopes json (AStr s) = (if trim_space s = [] then [] else str_fields (trim_space s))"
| "claim_scopes json v = claim_texts json v"

fun first_claim :: "anymap \<Rightarrow> string list \<Rightarrow> anyv" where
  "first_claim claims [] = ANil"
| "first_claim claims (k # ks) =
     (case claims k of
        None \<Rightarrow> first_claim claims ks
      | Some v \<Rightarrow> if v \<noteq> ANil then v else first_claim claims ks)"

fun claim_int :: "anyv \<Rightarrow> int" where
  "claim_int (AInt i) = i"
| "claim_int (AFloat i s) = i"
| "claim_int (AStr s) = (case parse_int64 (trim_space s) of Some i \<Rightarrow> i | None \<Rightarrow> 0)"
| "claim_int v = 0"

fun unix_time_claim :: "anyv \<Rightarrow> time option" where
  "unix_time_claim (ATime t s) = Some t"
| "unix_time_claim v = (let seconds = claim_int v in if seconds \<le> 0 then None else Some (seconds * second))"

fun claim_contains :: "(anyv \<Rightarrow> string) \<Rightarrow> anyv \<Rightarrow> string \<Rightarrow> bool" where
  "claim_contains json (AStrs xs) target =
     (trim_space target \<noteq> [] \<and> (\<exists>x \<in> set xs. trim_space x = trim_space target))"
| "claim_contains json (AList xs) target =
     (trim_space target \<noteq> [] \<and> (\<exists>x \<in> set xs. trim_space (claim_text json x) = trim_space target))"
| "claim_contains json v target =
     (trim_space target \<noteq> [] \<and> trim_space (claim_text json v) = trim_space target)"

definition resolve_issuer :: "string \<Rightarrow> string \<Rightarrow> string" where
  "resolve_issuer issuer base_url =
     (if trim_space issuer \<noteq> [] then trim_space issuer
      else trim_right_char (CHR ''/'') (trim_space base_url))"

definition token_issuer_valid :: "(anyv \<Rightarrow> string) \<Rightarrow> string \<Rightarrow> anymap \<Rightarrow> bool" where
  "token_issuer_valid json issuer claims \<longleftrightarrow>
     (let expected = trim_space issuer; actual = trim_space (claim_text json (any_get claims ''iss''))
      in \<not> (expected = [] \<or> actual = [] \<or> actual \<noteq> expected))"

definition token_user_claims :: "(anyv \<Rightarrow> string) \<Rightarrow> anymap \<Rightarrow> (int \<times> string) option" where
  "token_user_claims json claims =
     (let uid = claim_int (any_get claims ''uid'');
          subject = trim_space (claim_text json (any_get claims ''sub''))
      in if uid \<le> 0 \<or> subject = [] then None
         else let subject_id = claim_int (AStr subject)
              in if subject_id \<le> 0 \<or> subject_id \<noteq> uid then None else Some (uid, subject))"

definition max_int :: "int \<Rightarrow> int \<Rightarrow> int" where
  "max_int current fallback = (if 0 < current then current else fallback)"

end
