(* ===== verification/Fenced_Lease.thy ===== *)
theory Fenced_Lease
  imports Seven_Prelude
begin

text \<open>
  The contract that the work queues and locks of the server share: a claim stores a fresh token with a
  deadline, and only the worker that presents the stored token may finish the work. The locale
  \<open>fenced_lease\<close> states what a provider promises; its lemmas say what a client may rely on when claims
  and completions of several workers interleave. It is interpreted on the outbox table, on the consume
  log and on the submit lock of a challenge.
\<close>

section \<open>Interleavings\<close>

datatype ('t, 'r) lease_op =
    ClaimOp time 't time
  | FinishOp time 't 'r

fun claims :: "'t \<Rightarrow> ('t, 'r) lease_op \<Rightarrow> bool" where
  "claims t (ClaimOp now t' until) = (t' = t)"
| "claims t (FinishOp now t' r) = False"

fun finishes :: "'t \<Rightarrow> ('t, 'r) lease_op \<Rightarrow> bool" where
  "finishes t (ClaimOp now t' until) = False"
| "finishes t (FinishOp now t' r) = (t' = t)"

fun op_time :: "('t, 'r) lease_op \<Rightarrow> time" where
  "op_time (ClaimOp now t until) = now"
| "op_time (FinishOp now t r) = now"

text \<open>The outcomes of a sequence of operations, and the state after it.\<close>

fun run_lease ::
    "(time \<Rightarrow> 't \<Rightarrow> time \<Rightarrow> 's \<Rightarrow> bool \<times> 's) \<Rightarrow> (time \<Rightarrow> 't \<Rightarrow> 'r \<Rightarrow> 's \<Rightarrow> bool \<times> 's) \<Rightarrow>
     ('t, 'r) lease_op list \<Rightarrow> 's \<Rightarrow> bool list \<times> 's" where
  "run_lease claim finish [] s = ([], s)"
| "run_lease claim finish (ClaimOp now t until # ops) s =
     (let (ok, s') = claim now t until s; (oks, s'') = run_lease claim finish ops s' in (ok # oks, s''))"
| "run_lease claim finish (FinishOp now t r # ops) s =
     (let (ok, s') = finish now t r s; (oks, s'') = run_lease claim finish ops s' in (ok # oks, s''))"

lemma length_run_lease [simp]: "length (fst (run_lease claim finish ops s)) = length ops"
proof (induction ops arbitrary: s)
  case (Cons p ops)
  then show ?case by (cases p) (simp_all add: case_prod_beta Let_def)
qed simp

text \<open>How often \<open>t\<close> finished: the successes among the completions that present \<open>t\<close>.\<close>

definition finish_count :: "'t \<Rightarrow> ('t, 'r) lease_op list \<Rightarrow> bool list \<Rightarrow> nat" where
  "finish_count t ops oks = length (filter (\<lambda>(p, ok). finishes t p \<and> ok) (zip ops oks))"

lemma finish_count_simps [simp]:
  "finish_count t [] oks = 0"
  "finish_count t (p # ops) (ok # oks) = (if finishes t p \<and> ok then 1 else 0) + finish_count t ops oks"
  by (simp_all add: finish_count_def)

section \<open>The contract\<close>

locale fenced_lease =
  fixes claim :: "time \<Rightarrow> 't \<Rightarrow> time \<Rightarrow> 's \<Rightarrow> bool \<times> 's"
    and finish :: "time \<Rightarrow> 't \<Rightarrow> 'r \<Rightarrow> 's \<Rightarrow> bool \<times> 's"
    and holder :: "'s \<Rightarrow> ('t \<times> time option) option"
    and invar :: "'s \<Rightarrow> bool"
  assumes claim_invar: "invar s \<Longrightarrow> invar (snd (claim now t until s))"
    and finish_invar: "invar s \<Longrightarrow> invar (snd (finish now t r s))"
    and claim_refused: "invar s \<Longrightarrow> \<not> fst (claim now t until s) \<Longrightarrow> snd (claim now t until s) = s"
    and claim_holds:
      "invar s \<Longrightarrow> fst (claim now t until s) \<Longrightarrow> holder (snd (claim now t until s)) = Some (t, Some until)"
    and claim_live:
      "invar s \<Longrightarrow> holder s = Some (t', Some u) \<Longrightarrow> now < u \<Longrightarrow> \<not> fst (claim now t until s)"
    and finish_refused: "invar s \<Longrightarrow> \<not> fst (finish now t r s) \<Longrightarrow> snd (finish now t r s) = s"
    and finish_owner: "invar s \<Longrightarrow> fst (finish now t r s) \<Longrightarrow> \<exists>u. holder s = Some (t, u)"
    and finish_live: "invar s \<Longrightarrow> holder s = Some (t, Some u) \<Longrightarrow> now < u \<Longrightarrow> fst (finish now t r s)"
    and finish_frees: "invar s \<Longrightarrow> fst (finish now t r s) \<Longrightarrow> holder (snd (finish now t r s)) = None"
begin

abbreviation run :: "('t, 'r) lease_op list \<Rightarrow> 's \<Rightarrow> bool list \<times> 's" where
  "run \<equiv> run_lease claim finish"

definition owned_by :: "'t \<Rightarrow> 's \<Rightarrow> bool" where
  "owned_by t s \<longleftrightarrow> (\<exists>u. holder s = Some (t, u))"

lemma run_invar: "invar s \<Longrightarrow> invar (snd (run ops s))"
proof (induction ops arbitrary: s)
  case (Cons p ops)
  then show ?case
    using claim_invar finish_invar by (cases p) (auto simp: Let_def case_prod_beta)
qed simp

lemma not_owned_claim: "invar s \<Longrightarrow> \<not> owned_by t s \<Longrightarrow> t' \<noteq> t \<Longrightarrow> \<not> owned_by t (snd (claim now t' until s))"
  using claim_refused claim_holds unfolding owned_by_def
  by (cases "fst (claim now t' until s)") force+

lemma not_owned_finish: "invar s \<Longrightarrow> \<not> owned_by t s \<Longrightarrow> \<not> owned_by t (snd (finish now t' r s))"
  using finish_refused finish_frees unfolding owned_by_def
  by (cases "fst (finish now t' r s)") force+

text \<open>A token that does not hold the lease finishes nothing, until it is issued again.\<close>

lemma stale_token:
  assumes "invar s" "\<not> owned_by t s" "\<forall>p \<in> set ops. \<not> claims t p"
  shows "finish_count t ops (fst (run ops s)) = 0 \<and> \<not> owned_by t (snd (run ops s))"
  using assms
proof (induction ops arbitrary: s)
  case (Cons p ops)
  show ?case
  proof (cases p)
    case (ClaimOp now t' until)
    with Cons.prems have "invar (snd (claim now t' until s))" "\<not> owned_by t (snd (claim now t' until s))"
      using claim_invar not_owned_claim by auto
    with Cons ClaimOp show ?thesis by (simp add: Let_def case_prod_beta)
  next
    case (FinishOp now t' r)
    with Cons.prems have "invar (snd (finish now t' r s))" "\<not> owned_by t (snd (finish now t' r s))"
      using finish_invar not_owned_finish by auto
    moreover have "t' = t \<Longrightarrow> \<not> fst (finish now t' r s)"
      using Cons.prems finish_owner unfolding owned_by_def by blast
    ultimately show ?thesis using Cons FinishOp by (auto simp: Let_def case_prod_beta)
  qed
qed simp

text \<open>One issue of a token is worth at most one completion.\<close>

lemma finish_at_most_once:
  assumes "invar s" "\<forall>p \<in> set ops. \<not> claims t p"
  shows "finish_count t ops (fst (run ops s)) \<le> 1"
  using assms
proof (induction ops arbitrary: s)
  case (Cons p ops)
  show ?case
  proof (cases p)
    case (ClaimOp now t' until)
    with Cons claim_invar show ?thesis by (simp add: Let_def case_prod_beta)
  next
    case (FinishOp now t' r)
    have inv: "invar (snd (finish now t' r s))" using Cons.prems finish_invar by blast
    show ?thesis
    proof (cases "t' = t \<and> fst (finish now t' r s)")
      case True
      then have "\<not> owned_by t (snd (finish now t' r s))"
        using finish_frees Cons.prems unfolding owned_by_def by force
      with inv Cons.prems stale_token FinishOp show ?thesis
        by (auto simp: Let_def case_prod_beta)
    next
      case False
      with Cons.IH [OF inv] Cons.prems FinishOp show ?thesis
        by (auto simp: Let_def case_prod_beta)
    qed
  qed
qed simp

text \<open>While a lease is live and its holder does not finish, nothing anyone else does has an effect.\<close>

lemma live_lease_exclusive:
  assumes "invar s" "holder s = Some (t, Some u)"
    "\<forall>p \<in> set ops. op_time p < u \<and> \<not> finishes t p"
  shows "run ops s = (replicate (length ops) False, s)"
  using assms
proof (induction ops)
  case (Cons p ops)
  then have IH: "run ops s = (replicate (length ops) False, s)" by simp
  show ?case
  proof (cases p)
    case (ClaimOp now t' until)
    with Cons.prems have no: "\<not> fst (claim now t' until s)" using claim_live [of s t u now t' until] by simp
    with Cons.prems have "claim now t' until s = (False, s)"
      using claim_refused by (metis prod.collapse)
    with IH ClaimOp show ?thesis by simp
  next
    case (FinishOp now t' r)
    with Cons.prems have no: "\<not> fst (finish now t' r s)" using finish_owner [of s now t' r] by auto
    with Cons.prems have "finish now t' r s = (False, s)"
      using finish_refused by (metis prod.collapse)
    with IH FinishOp show ?thesis by simp
  qed
qed simp

text \<open>The holder of a live lease can finish whatever others attempted meanwhile.\<close>

lemma holder_can_finish:
  assumes "invar s" "fst (claim now t u s)"
    "\<forall>p \<in> set ops. op_time p < u \<and> \<not> finishes t p" "now' < u"
  shows "fst (finish now' t r (snd (run ops (snd (claim now t u s)))))"
proof -
  let ?s = "snd (claim now t u s)"
  have "invar ?s" "holder ?s = Some (t, Some u)"
    using assms claim_invar claim_holds by auto
  with live_lease_exclusive [of ?s t u ops] assms(3,4) finish_live show ?thesis by simp
qed

end

end
