(* ===== verification/Redis_Store.thy ===== *)
theory Redis_Store
  imports Sql_Model Fenced_Lease
begin

text \<open>
  The key-value layer of the server (\<open>infrastructure/cache/redis_layer.go\<close> and the Lua scripts of
  \<open>cache/redis/scripts.go\<close>) over the documented meaning of the commands it sends: a key holds a value
  and perhaps a deadline, after which the key does not exist. Each command, and each script, is one
  atomic change of the key space; the clock is the server's. Values of a kind (texts, counters, encoded
  sessions) are in maps of their own, as their keys have different prefixes. The codec is taken to
  return what was encoded. Like an SQL statement, a command may fail before or after its effect.

  A duration is sent in whole seconds or milliseconds: a positive one below a millisecond counts as one
  millisecond (with a warning), others lose what is below a millisecond.
\<close>

section \<open>The key space\<close>

type_synonym 'v kv = "string \<rightharpoonup> 'v \<times> time option"

definition millisecond :: int where "millisecond = 1000000"

text \<open>What the client library sends for a duration, and the milliseconds the scripts receive.\<close>

definition sent_duration :: "int \<Rightarrow> int" where
  "sent_duration d = (if 0 < d \<and> d < millisecond then millisecond else (d div millisecond) * millisecond)"

definition whole_millis :: "int \<Rightarrow> int" where
  "whole_millis d = (if 0 \<le> d then d div millisecond else - ((- d) div millisecond))"

definition kv_get :: "time \<Rightarrow> string \<Rightarrow> 'v kv \<Rightarrow> 'v option" where
  "kv_get now k kv =
     (case kv k of
        None \<Rightarrow> None
      | Some (v, None) \<Rightarrow> Some v
      | Some (v, Some deadline) \<Rightarrow> if now < deadline then Some v else None)"

text \<open>\<open>SET key value [PX ttl]\<close>: without a positive duration the key does not expire.\<close>

definition kv_set :: "time \<Rightarrow> string \<Rightarrow> 'v \<Rightarrow> int \<Rightarrow> 'v kv \<Rightarrow> 'v kv" where
  "kv_set now k v ttl kv = kv(k \<mapsto> (v, if 0 < ttl then Some (now + sent_duration ttl) else None))"

text \<open>\<open>SET key value NX [PX ttl]\<close>: a negative duration is refused by the server.\<close>

definition err_invalid_expire :: go_error where
  "err_invalid_expire = PlainError ''ERR invalid expire time in 'set' command''"

definition kv_set_nx :: "time \<Rightarrow> string \<Rightarrow> 'v \<Rightarrow> int \<Rightarrow> 'v kv \<Rightarrow> bool result \<times> 'v kv" where
  "kv_set_nx now k v ttl kv =
     (if ttl < 0 then (Inl err_invalid_expire, kv)
      else if kv_get now k kv \<noteq> None then (Inr False, kv)
      else (Inr True, kv(k \<mapsto> (v, if 0 < ttl then Some (now + sent_duration ttl) else None))))"

definition kv_compare_and_delete :: "time \<Rightarrow> string \<Rightarrow> 'v \<Rightarrow> 'v kv \<Rightarrow> bool \<times> 'v kv" where
  "kv_compare_and_delete now k expected kv =
     (if kv_get now k kv = Some expected then (True, kv(k := None)) else (False, kv))"

text \<open>\<open>INCR\<close>, and \<open>PEXPIRE\<close> when the counter was created and the duration is positive.\<close>

definition kv_incr :: "time \<Rightarrow> string \<Rightarrow> int \<Rightarrow> int kv \<Rightarrow> int \<times> int kv" where
  "kv_incr now k ttl kv =
     (case kv_get now k kv of
        None \<Rightarrow>
          (1, kv(k \<mapsto> (1, if 0 < whole_millis ttl then Some (now + whole_millis ttl * millisecond) else None)))
      | Some n \<Rightarrow>
          (let n' = n + 1; deadline = (case kv k of None \<Rightarrow> None | Some (_, e) \<Rightarrow> e)
           in (n', kv(k \<mapsto> (n', if n' = 1 \<and> 0 < whole_millis ttl
                               then Some (now + whole_millis ttl * millisecond) else deadline)))))"

definition kv_delete_many :: "string list \<Rightarrow> 'v kv \<Rightarrow> 'v kv" where
  "kv_delete_many ks kv = (\<lambda>k. if k \<in> set (filter (\<lambda>k. k \<noteq> []) ks) then None else kv k)"

definition kv_get_del :: "time \<Rightarrow> string \<Rightarrow> 'v kv \<Rightarrow> 'v option \<times> 'v kv" where
  "kv_get_del now k kv =
     (case kv_get now k kv of None \<Rightarrow> (None, kv) | Some v \<Rightarrow> (Some v, kv(k := None)))"

definition kv_compare_and_set :: "time \<Rightarrow> string \<Rightarrow> 'v \<Rightarrow> 'v \<Rightarrow> int \<Rightarrow> 'v kv \<Rightarrow> bool result \<times> 'v kv" where
  "kv_compare_and_set now k expected replacement ttl kv =
     (if kv_get now k kv \<noteq> Some expected then (Inr False, kv)
      else if whole_millis ttl \<le> 0 then (Inl err_invalid_expire, kv)
      else (Inr True, kv(k \<mapsto> (replacement, Some (now + whole_millis ttl * millisecond)))))"

text \<open>
  \<open>SetMaxTimestamp\<close>: the script keeps the later of the stored and the new instant. It compares texts of
  fixed width, whose order is that of the instants in the years 0 to 9999.
\<close>

definition kv_set_max :: "time \<Rightarrow> string \<Rightarrow> time \<Rightarrow> int \<Rightarrow> time kv \<Rightarrow> bool result \<times> time kv" where
  "kv_set_max now k v ttl kv =
     (case kv_get now k kv of
        Some current \<Rightarrow>
          if v \<le> current then (Inr False, kv)
          else if whole_millis ttl \<le> 0 then (Inl err_invalid_expire, kv)
          else (Inr True, kv(k \<mapsto> (v, Some (now + whole_millis ttl * millisecond))))
      | None \<Rightarrow>
          if whole_millis ttl \<le> 0 then (Inl err_invalid_expire, kv)
          else (Inr True, kv(k \<mapsto> (v, Some (now + whole_millis ttl * millisecond)))))"

section \<open>Facts on keys and deadlines\<close>

lemma millisecond_pos [simp]: "0 < millisecond"
  by (simp add: millisecond_def)

lemma sent_duration_pos: "0 < d \<Longrightarrow> 0 < sent_duration d"
  by (auto simp: sent_duration_def millisecond_def pos_imp_zdiv_pos_iff)

lemma sent_duration_lower: "d - millisecond < sent_duration d"
  by (simp add: sent_duration_def millisecond_def) linarith

lemma sent_duration_upper: "millisecond \<le> d \<Longrightarrow> sent_duration d \<le> d"
  by (simp add: sent_duration_def millisecond_def)

lemma sent_duration_exact: "d mod millisecond = 0 \<Longrightarrow> sent_duration d = d"
  using div_mult_mod_eq [of d millisecond] by (auto simp: sent_duration_def)

lemma kv_get_other_simps [simp]:
  "k' \<noteq> k \<Longrightarrow> kv_get now k' (kv(k := x)) = kv_get now k' kv"
  "kv_get now k (kv(k := None)) = None"
  by (simp_all add: kv_get_def)

lemma kv_get_set:
  "kv_get t k' (kv_set now k v ttl kv) =
     (if k' = k then (if ttl \<le> 0 \<or> t < now + sent_duration ttl then Some v else None) else kv_get t k' kv)"
  by (simp add: kv_get_def kv_set_def)

lemma kv_get_set_nx:
  "kv_set_nx now k v ttl kv = (Inr True, kv') \<Longrightarrow>
     kv_get now k kv = None \<and>
     (\<forall>t. kv_get t k kv' = (if ttl = 0 \<or> t < now + sent_duration ttl then Some v else None)) \<and>
     (\<forall>t k'. k' \<noteq> k \<longrightarrow> kv_get t k' kv' = kv_get t k' kv)"
  by (auto simp: kv_set_nx_def kv_get_def split: if_split_asm)

lemma kv_set_nx_refused: "kv_set_nx now k v ttl kv = (r, kv') \<Longrightarrow> r \<noteq> Inr True \<Longrightarrow> kv' = kv"
  by (auto simp: kv_set_nx_def split: if_split_asm)

lemma kv_get_delete_many:
  "kv_get t k (kv_delete_many ks kv) = (if k \<noteq> [] \<and> k \<in> set ks then None else kv_get t k kv)"
  by (simp add: kv_get_def kv_delete_many_def)

end
