(* ===== verification/Sso_Model.thy ===== *)
theory Sso_Model
  imports Sso_Policy Redis_Store
begin

text \<open>
  The state of the single sign-on service and the statements of its repository
  (\<open>app/sso/domain/model.go\<close>, \<open>app/sso/infrastructure/repository.go\<close>, and the cache of
  \<open>app/sso/infrastructure/support.go\<close>).

  The tables are lists of rows. A text column that is NULL and one that is empty are not told apart:
  \<open>nullIfBlank\<close> writes NULL for a blank text and the trimmed text otherwise, \<open>nullableString\<close> reads the
  trimmed text. Columns that hold a JSON list written by this service hold the list; the lists of a
  client are decoded by the parameter \<open>se_decode\<close>. The creation time of a row is the database's clock,
  which is taken to be that of the request. Audit rows and metadata are left out.

  Statements and cache commands take their outcomes from the schedule \<open>sw_faults\<close>: each succeeds, is
  lost, or takes effect without its acknowledgement.
\<close>

section \<open>Rows\<close>

datatype session_status = SessionStatusActive | SessionStatusRevoked | SessionStatusExpired
datatype code_status = CodeStatusActive | CodeStatusConsumed | CodeStatusExpired
datatype family_status = RefreshFamilyStatusActive | RefreshFamilyStatusRevoked | RefreshFamilyStatusExpired

record sso_session =
  ss_id :: string
  ss_user :: int
  ss_client :: string
  ss_platform :: string
  ss_device :: string
  ss_ip :: string
  ss_agent :: string
  ss_acr :: string
  ss_amr :: "string list"
  ss_login_method :: string
  ss_provider :: string
  ss_identity :: int
  ss_login_at :: time
  ss_last_access :: "time option"
  ss_expires :: time
  ss_revoked :: "time option"
  ss_status :: session_status
  ss_create :: time

record auth_code =
  ac_code :: string
  ac_client :: string
  ac_user :: int
  ac_session :: string
  ac_redirect :: string
  ac_scopes :: "string list"
  ac_challenge :: string
  ac_challenge_method :: string
  ac_nonce :: string
  ac_acr :: string
  ac_amr :: "string list"
  ac_expires :: time
  ac_consumed :: "time option"
  ac_status :: code_status

record refresh_family =
  rf_id :: string
  rf_session :: string
  rf_client :: string
  rf_user :: int
  rf_current :: string
  rf_previous :: string
  rf_reuse :: bool
  rf_rotated :: "time option"
  rf_expires :: time
  rf_revoked :: "time option"
  rf_status :: family_status
  rf_scopes :: "string list"
  rf_create :: time

record client_row =
  cl_client_id :: string
  cl_type :: string
  cl_auth_method :: string
  cl_grants_json :: string
  cl_scopes_json :: string
  cl_require_pkce :: bool
  cl_require_consent :: bool
  cl_trusted :: bool
  cl_access_ttl :: int
  cl_refresh_ttl :: int
  cl_status :: int
  cl_deleted :: bool

record redirect_row =
  rd_client :: string
  rd_uri :: string
  rd_status :: int
  rd_deleted :: bool

record secret_row =
  sk_client :: string
  sk_hash :: string
  sk_expires :: "time option"
  sk_status :: int
  sk_deleted :: bool

datatype consent_status = ConsentStatusActive | ConsentStatusRevoked

record consent_grant =
  cg_user :: int
  cg_client :: string
  cg_scopes :: "string list"
  cg_granted :: time
  cg_revoked :: "time option"
  cg_status :: consent_status

record sso_tables =
  st_clients :: "client_row list"
  st_redirects :: "redirect_row list"
  st_secrets :: "secret_row list"
  st_sessions :: "sso_session list"
  st_codes :: "auth_code list"
  st_families :: "refresh_family list"
  st_consents :: "consent_grant list"

text \<open>
  What the cache holds: the snapshot of a pending login (\<open>AuthorizationSessionSnapshot\<close>) and the result of
  a completed one. A redirect is given by its parts, the URI, the code and the state.
\<close>

record login_snapshot =
  ln_id :: string
  ln_client :: string
  ln_redirect :: string
  ln_scopes :: "string list"
  ln_state :: string
  ln_nonce :: string
  ln_challenge :: string
  ln_challenge_method :: string
  ln_device :: string
  ln_tenant :: string
  ln_ip :: string
  ln_agent :: string
  ln_trace :: string
  ln_created :: "time option"
  ln_expires :: "time option"

record code_redirect =
  cr_uri :: string
  cr_code :: string
  cr_state :: string

record completion_result =
  cp_authenticated :: bool
  cp_login :: string
  cp_redirect :: code_redirect
  cp_session_cookie :: string
  cp_session_expires :: time

section \<open>The service and its surroundings\<close>

text \<open>
  \<open>sw_ids\<close> counts the identifiers drawn from the generator, \<open>sw_marks\<close> holds the revocation watermarks of
  users, \<open>sw_texts\<close> the marks and locks whose value is a text, \<open>sw_logins\<close> and \<open>sw_results\<close> pending and
  completed logins, and \<open>sw_outside\<close> the state of the registrar of cache invalidations.
\<close>

record 'w sso_world =
  sw_sql :: sso_tables
  sw_marks :: "time kv"
  sw_texts :: "string kv"
  sw_logins :: "login_snapshot kv"
  sw_results :: "completion_result kv"
  sw_ids :: nat
  sw_faults :: "sql_outcome list"
  sw_outside :: 'w

type_synonym ('a, 'w) sso_action = "'w sso_world \<Rightarrow> 'a result \<times> 'w sso_world"

record sso_profile =
  pf_account_name :: string
  pf_nick_name :: string
  pf_email :: string

text \<open>
  Parameters: the configuration, the JWT service (\<open>se_sign\<close>, \<open>se_verify\<close>), \<open>se_digest\<close> (base64url of
  SHA-256), the password service, \<open>se_json\<close> and \<open>se_decode\<close> (sonic), the user profiles, the identifier
  generator, and the registrar of invalidations, which is \<open>None\<close> when it is not bound or disabled.
\<close>

record 'w sso_env =
  se_issuer :: string
  se_base_url :: string
  se_default_client :: string
  se_session_idle :: int
  se_login_ttl :: int
  se_touch_throttle :: int
  se_replay_skew :: int
  se_sign :: "anymap \<Rightarrow> string result"
  se_verify :: "string \<Rightarrow> anymap result"
  se_digest :: "string \<Rightarrow> string"
  se_password :: "string \<Rightarrow> string \<Rightarrow> bool"
  se_json :: "anyv \<Rightarrow> string"
  se_decode :: "string \<Rightarrow> string list"
  se_profile :: "int \<Rightarrow> sso_profile option"
  se_id :: "nat \<Rightarrow> int"
  se_register :: "(string \<Rightarrow> 'w \<Rightarrow> unit result \<times> 'w) option"
  se_transactor :: bool

definition invalidating :: "'w sso_env \<Rightarrow> bool" where
  "invalidating env \<longleftrightarrow> se_register env \<noteq> None"

text \<open>\<open>newID\<close> with a generator.\<close>

definition new_id :: "'w sso_env \<Rightarrow> string \<Rightarrow> 'w sso_world \<Rightarrow> string \<times> 'w sso_world" where
  "new_id env prefix w = (prefix @ ''_'' @ show_int (se_id env (sw_ids w)), w\<lparr>sw_ids := Suc (sw_ids w)\<rparr>)"

section \<open>Executing a statement\<close>

definition scheduled :: "('a, 'w) sso_action \<Rightarrow> ('a, 'w) sso_action" where
  "scheduled effect w =
     (case sw_faults w of
        [] \<Rightarrow> effect w
      | outcome # rest \<Rightarrow>
          (let w1 = w\<lparr>sw_faults := rest\<rparr>
           in case outcome of
                SqlOk \<Rightarrow> effect w1
              | SqlLost e \<Rightarrow> (Inl e, w1)
              | SqlUnacked e \<Rightarrow> (Inl e, snd (effect w1))))"

text \<open>\<open>fmt.Errorf("label: %w", err)\<close>.\<close>

definition labelled :: "string \<Rightarrow> ('a, 'w) sso_action \<Rightarrow> ('a, 'w) sso_action" where
  "labelled label f w =
     (case f w of
        (Inl e, w') \<Rightarrow> (Inl (WrapError (label @ '': '' @ error_text e) e), w')
      | (Inr x, w') \<Rightarrow> (Inr x, w'))"

definition sql_read :: "string \<Rightarrow> (sso_tables \<Rightarrow> 'a) \<Rightarrow> ('a, 'w) sso_action" where
  "sql_read label q = labelled label (scheduled (\<lambda>w. (Inr (q (sw_sql w)), w)))"

definition sql_write :: "string \<Rightarrow> (sso_tables \<Rightarrow> 'a result \<times> sso_tables) \<Rightarrow> ('a, 'w) sso_action" where
  "sql_write label f =
     labelled label (scheduled (\<lambda>w. let (r, t) = f (sw_sql w) in (r, w\<lparr>sw_sql := t\<rparr>)))"

definition duplicate_key :: go_error where
  "duplicate_key = PlainError ''Duplicate entry''"

section \<open>Clients\<close>

definition loaded_client :: "(string \<Rightarrow> string list) \<Rightarrow> client_row \<Rightarrow> string list \<Rightarrow> string list \<Rightarrow> sso_client" where
  "loaded_client decode r uris hashes =
     \<lparr>sc_client_id = cl_client_id r, sc_type = cl_type r, sc_auth_method = cl_auth_method r,
      sc_grants = decode (cl_grants_json r), sc_scopes = decode (cl_scopes_json r),
      sc_require_pkce = cl_require_pkce r, sc_require_consent = cl_require_consent r, sc_trusted = cl_trusted r,
      sc_access_ttl = cl_access_ttl r, sc_refresh_ttl = cl_refresh_ttl r, sc_status = cl_status r,
      sc_redirects = uris, sc_secrets = hashes\<rparr>"

definition client_redirects :: "string \<Rightarrow> sso_tables \<Rightarrow> string list" where
  "client_redirects cid t =
     map rd_uri (filter (\<lambda>r. rd_client r = cid \<and> rd_status r = 0 \<and> \<not> rd_deleted r) (st_redirects t))"

definition client_secrets :: "time \<Rightarrow> string \<Rightarrow> sso_tables \<Rightarrow> string list" where
  "client_secrets now cid t =
     map sk_hash (filter (\<lambda>r. sk_client r = cid \<and> sk_status r = 0 \<and> \<not> sk_deleted r \<and>
                              (case sk_expires r of None \<Rightarrow> True | Some e \<Rightarrow> now < e)) (st_secrets t))"

definition find_client :: "'w sso_env \<Rightarrow> time \<Rightarrow> string \<Rightarrow> (sso_client option, 'w) sso_action" where
  "find_client env now cid w =
     then_do (sql_read ''find sso client'' (\<lambda>t. find (\<lambda>r. cl_client_id r = cid \<and> \<not> cl_deleted r) (st_clients t)) w)
       (\<lambda>row w1. case row of
          None \<Rightarrow> (Inr None, w1)
        | Some r \<Rightarrow>
            then_do (sql_read ''list client redirect uris'' (client_redirects cid) w1) (\<lambda>uris w2.
            then_do (sql_read ''list client secrets'' (client_secrets now cid) w2) (\<lambda>hashes w3.
              (Inr (Some (loaded_client (se_decode env) r uris hashes)), w3))))"

section \<open>Sessions\<close>

definition insert_session :: "sso_session \<Rightarrow> (unit, 'w) sso_action" where
  "insert_session s =
     sql_write ''insert sso session'' (\<lambda>t.
       if ss_id s \<in> ss_id ` set (st_sessions t) then (Inl duplicate_key, t)
       else (Inr (), t\<lparr>st_sessions := st_sessions t @
               [s\<lparr>ss_platform := trim_space (ss_platform s), ss_device := trim_space (ss_device s),
                  ss_ip := trim_space (ss_ip s), ss_agent := trim_space (ss_agent s),
                  ss_acr := trim_space (ss_acr s), ss_login_method := trim_space (ss_login_method s),
                  ss_provider := trim_space (ss_provider s)\<rparr>]\<rparr>))"

definition find_session_by_session_id :: "string \<Rightarrow> (sso_session option, 'w) sso_action" where
  "find_session_by_session_id sid =
     sql_read ''find sso session'' (\<lambda>t. find (\<lambda>r. ss_id r = sid) (st_sessions t))"

definition touch_session_row :: "string \<Rightarrow> time \<Rightarrow> (unit, 'w) sso_action" where
  "touch_session_row sid touched =
     sql_write ''touch sso session'' (\<lambda>t. (Inr (), t\<lparr>st_sessions :=
       update_where (\<lambda>r. ss_id r = sid \<and> ss_status r = SessionStatusActive)
         (\<lambda>r. r\<lparr>ss_last_access := Some touched\<rparr>) (st_sessions t)\<rparr>))"

definition close_sessions :: "(sso_session \<Rightarrow> bool) \<Rightarrow> time \<Rightarrow> sso_tables \<Rightarrow> nat result \<times> sso_tables" where
  "close_sessions P at t =
     (let (n, rows) = update_rows (\<lambda>r. P r \<and> ss_status r = SessionStatusActive)
                        (\<lambda>r. r\<lparr>ss_revoked := Some at, ss_status := SessionStatusRevoked\<rparr>) (st_sessions t)
      in (Inr n, t\<lparr>st_sessions := rows\<rparr>))"

definition revoke_session_row :: "string \<Rightarrow> time \<Rightarrow> (bool, 'w) sso_action" where
  "revoke_session_row sid at w =
     then_do (sql_write ''revoke sso session'' (close_sessions (\<lambda>r. ss_id r = sid) at) w)
       (\<lambda>n w1. (Inr (0 < n), w1))"

definition revoke_session_rows_by_user :: "int \<Rightarrow> time \<Rightarrow> (nat, 'w) sso_action" where
  "revoke_session_rows_by_user user at =
     sql_write ''revoke sso sessions by user'' (close_sessions (\<lambda>r. ss_user r = user \<and> ss_create r \<le> at) at)"

definition revoke_session_rows_by_user_cutoff :: "int \<Rightarrow> time \<Rightarrow> (nat, 'w) sso_action" where
  "revoke_session_rows_by_user_cutoff user cutoff =
     sql_write ''revoke sso sessions by user cutoff''
       (close_sessions (\<lambda>r. ss_user r = user \<and> ss_create r \<le> cutoff) cutoff)"

definition expire_active_sessions :: "time \<Rightarrow> (unit, 'w) sso_action" where
  "expire_active_sessions now =
     sql_write ''expire sso sessions'' (\<lambda>t. (Inr (), t\<lparr>st_sessions :=
       update_where (\<lambda>r. ss_status r = SessionStatusActive \<and> ss_expires r \<le> now)
         (\<lambda>r. r\<lparr>ss_status := SessionStatusExpired\<rparr>) (st_sessions t)\<rparr>))"

section \<open>Authorization codes\<close>

definition insert_authorization_code :: "auth_code \<Rightarrow> (unit, 'w) sso_action" where
  "insert_authorization_code c =
     sql_write ''insert sso authorization code'' (\<lambda>t.
       if ac_code c \<in> ac_code ` set (st_codes t) then (Inl duplicate_key, t)
       else (Inr (), t\<lparr>st_codes := st_codes t @
               [c\<lparr>ac_challenge := trim_space (ac_challenge c),
                  ac_challenge_method := trim_space (ac_challenge_method c),
                  ac_nonce := trim_space (ac_nonce c), ac_acr := trim_space (ac_acr c)\<rparr>]\<rparr>))"

definition find_authorization_code :: "string \<Rightarrow> (auth_code option, 'w) sso_action" where
  "find_authorization_code code =
     sql_read ''find sso authorization code'' (\<lambda>t. find (\<lambda>r. ac_code r = code) (st_codes t))"

definition consume_authorization_code :: "string \<Rightarrow> time \<Rightarrow> (bool, 'w) sso_action" where
  "consume_authorization_code code at w =
     then_do (sql_write ''consume authorization code'' (\<lambda>t.
         let (n, rows) = update_rows (\<lambda>r. ac_code r = code \<and> ac_status r = CodeStatusActive)
                           (\<lambda>r. r\<lparr>ac_consumed := Some at, ac_status := CodeStatusConsumed\<rparr>) (st_codes t)
         in (Inr n, t\<lparr>st_codes := rows\<rparr>)) w)
       (\<lambda>n w1. (Inr (0 < n), w1))"

definition expire_authorization_codes :: "time \<Rightarrow> (unit, 'w) sso_action" where
  "expire_authorization_codes now =
     sql_write ''expire authorization codes'' (\<lambda>t. (Inr (), t\<lparr>st_codes :=
       update_where (\<lambda>r. ac_status r = CodeStatusActive \<and> ac_expires r \<le> now)
         (\<lambda>r. r\<lparr>ac_status := CodeStatusExpired\<rparr>) (st_codes t)\<rparr>))"

section \<open>Families of refresh tokens\<close>

definition insert_refresh_token_family :: "refresh_family \<Rightarrow> (unit, 'w) sso_action" where
  "insert_refresh_token_family f =
     sql_write ''insert refresh token family'' (\<lambda>t.
       if rf_id f \<in> rf_id ` set (st_families t) then (Inl duplicate_key, t)
       else (Inr (), t\<lparr>st_families := st_families t @ [f\<lparr>rf_previous := trim_space (rf_previous f)\<rparr>]\<rparr>))"

definition find_refresh_family_by_current_hash :: "string \<Rightarrow> (refresh_family option, 'w) sso_action" where
  "find_refresh_family_by_current_hash hash =
     sql_read ''find refresh family'' (\<lambda>t. find (\<lambda>r. rf_current r = hash) (st_families t))"

text \<open>A family that never rotated has NULL as its previous hash, which equals no text.\<close>

definition find_refresh_family_by_previous_hash :: "string \<Rightarrow> (refresh_family option, 'w) sso_action" where
  "find_refresh_family_by_previous_hash hash =
     sql_read ''find refresh family'' (\<lambda>t. find (\<lambda>r. rf_previous r \<noteq> [] \<and> rf_previous r = hash) (st_families t))"

definition rotate_refresh_family :: "string \<Rightarrow> string \<Rightarrow> string \<Rightarrow> time \<Rightarrow> (bool, 'w) sso_action" where
  "rotate_refresh_family fid previous next_hash at w =
     then_do (sql_write ''rotate refresh family'' (\<lambda>t.
         let (n, rows) = update_rows
               (\<lambda>r. rf_id r = fid \<and> rf_current r = previous \<and> rf_status r = RefreshFamilyStatusActive)
               (\<lambda>r. r\<lparr>rf_previous := previous, rf_current := next_hash, rf_rotated := Some at\<rparr>) (st_families t)
         in (Inr n, t\<lparr>st_families := rows\<rparr>)) w)
       (\<lambda>n w1. (Inr (0 < n), w1))"

definition mark_refresh_family_reuse_detected :: "string \<Rightarrow> time \<Rightarrow> (unit, 'w) sso_action" where
  "mark_refresh_family_reuse_detected fid at =
     sql_write ''mark refresh family reuse detected'' (\<lambda>t. (Inr (), t\<lparr>st_families :=
       update_where (\<lambda>r. rf_id r = fid)
         (\<lambda>r. r\<lparr>rf_reuse := True, rf_revoked := Some at, rf_status := RefreshFamilyStatusRevoked\<rparr>)
         (st_families t)\<rparr>))"

definition close_families :: "(refresh_family \<Rightarrow> bool) \<Rightarrow> time \<Rightarrow> sso_tables \<Rightarrow> unit result \<times> sso_tables" where
  "close_families P at t =
     (Inr (), t\<lparr>st_families :=
        update_where (\<lambda>r. P r \<and> rf_status r = RefreshFamilyStatusActive)
          (\<lambda>r. r\<lparr>rf_revoked := Some at, rf_status := RefreshFamilyStatusRevoked\<rparr>) (st_families t)\<rparr>)"

definition revoke_refresh_families_by_session_id :: "string \<Rightarrow> time \<Rightarrow> (unit, 'w) sso_action" where
  "revoke_refresh_families_by_session_id sid at =
     sql_write ''revoke refresh families by session'' (close_families (\<lambda>r. rf_session r = sid) at)"

definition revoke_refresh_families_by_user_id :: "int \<Rightarrow> time \<Rightarrow> (unit, 'w) sso_action" where
  "revoke_refresh_families_by_user_id user at =
     sql_write ''revoke refresh families by user'' (close_families (\<lambda>r. rf_user r = user \<and> rf_create r \<le> at) at)"

definition revoke_refresh_families_by_user_id_cutoff :: "int \<Rightarrow> time \<Rightarrow> (unit, 'w) sso_action" where
  "revoke_refresh_families_by_user_id_cutoff user cutoff =
     sql_write ''revoke refresh families by user cutoff''
       (close_families (\<lambda>r. rf_user r = user \<and> rf_create r \<le> cutoff) cutoff)"

definition expire_refresh_families :: "time \<Rightarrow> (unit, 'w) sso_action" where
  "expire_refresh_families now =
     sql_write ''expire refresh families'' (\<lambda>t. (Inr (), t\<lparr>st_families :=
       update_where (\<lambda>r. rf_status r = RefreshFamilyStatusActive \<and> rf_expires r \<le> now)
         (\<lambda>r. r\<lparr>rf_status := RefreshFamilyStatusExpired\<rparr>) (st_families t)\<rparr>))"

section \<open>Consent\<close>

definition upsert_consent_grant :: "consent_grant \<Rightarrow> (unit, 'w) sso_action" where
  "upsert_consent_grant g =
     sql_write ''upsert consent grant'' (\<lambda>t. (Inr (), t\<lparr>st_consents :=
       if \<exists>r \<in> set (st_consents t). cg_user r = cg_user g \<and> cg_client r = cg_client g
       then update_where (\<lambda>r. cg_user r = cg_user g \<and> cg_client r = cg_client g) (\<lambda>_. g) (st_consents t)
       else st_consents t @ [g]\<rparr>))"

section \<open>The cache\<close>

definition revoked_marker_ttl :: int where "revoked_marker_ttl = 30 * 24 * hour"

definition revoked_marker_key :: "int \<Rightarrow> string" where
  "revoked_marker_key user = ''sso:session:revoked:user:'' @ show_int user"

definition touch_key :: "string \<Rightarrow> string" where
  "touch_key sid = ''sso:session-touch:'' @ sid"

definition mark_user_revoked :: "time \<Rightarrow> int \<Rightarrow> time \<Rightarrow> (unit, 'w) sso_action" where
  "mark_user_revoked now user at w =
     (if user \<le> 0 then (Inr (), w)
      else then_do (scheduled (\<lambda>w. let (r, kv) = kv_set_max now (revoked_marker_key user) at revoked_marker_ttl (sw_marks w)
                                    in (r, w\<lparr>sw_marks := kv\<rparr>)) w)
             (\<lambda>_ w1. (Inr (), w1)))"

definition user_revoked_at :: "time \<Rightarrow> int \<Rightarrow> (time option, 'w) sso_action" where
  "user_revoked_at now user w =
     (if user \<le> 0 then (Inr None, w)
      else scheduled (\<lambda>w. (Inr (kv_get now (revoked_marker_key user) (sw_marks w)), w)) w)"

definition allow_touch :: "time \<Rightarrow> string \<Rightarrow> int \<Rightarrow> (bool, 'w) sso_action" where
  "allow_touch now sid throttle w =
     (if blank sid \<or> throttle \<le> 0 then (Inr True, w)
      else scheduled (\<lambda>w. let (r, kv) = kv_set_nx now (touch_key sid) ''1'' throttle (sw_texts w)
                          in (r, w\<lparr>sw_texts := kv\<rparr>)) w)"

definition clear_session_touch :: "string \<Rightarrow> (unit, 'w) sso_action" where
  "clear_session_touch sid w =
     (if blank sid then (Inr (), w)
      else scheduled (\<lambda>w. (Inr (), w\<lparr>sw_texts := (sw_texts w)(touch_key sid := None)\<rparr>)) w)"

text \<open>Pending logins, the lock and the mark of a completion, and its result.\<close>

definition login_key :: "string \<Rightarrow> string" where "login_key login = ''sso:auth-session:'' @ login"
definition login_lock_key :: "string \<Rightarrow> string" where "login_lock_key login = ''sso:auth-session-lock:'' @ login"
definition finalized_key :: "string \<Rightarrow> string" where "finalized_key login = ''sso:auth-session-finalized:'' @ login"
definition result_key :: "string \<Rightarrow> string" where "result_key login = ''sso:auth-session-result:'' @ login"

definition save_login :: "time \<Rightarrow> login_snapshot \<Rightarrow> int \<Rightarrow> (unit, 'w) sso_action" where
  "save_login now s ttl w =
     (if blank (ln_id s) then (Inr (), w)
      else scheduled (\<lambda>w. (Inr (), w\<lparr>sw_logins := kv_set now (login_key (ln_id s)) s ttl (sw_logins w)\<rparr>)) w)"

definition get_login :: "time \<Rightarrow> string \<Rightarrow> (login_snapshot option, 'w) sso_action" where
  "get_login now login w =
     (if blank login then (Inr None, w)
      else scheduled (\<lambda>w. (Inr (kv_get now (login_key login) (sw_logins w)), w)) w)"

definition remove_login :: "string \<Rightarrow> (unit, 'w) sso_action" where
  "remove_login login w =
     (if blank login then (Inr (), w)
      else scheduled (\<lambda>w. (Inr (), w\<lparr>sw_logins := (sw_logins w)(login_key login := None)\<rparr>)) w)"

definition acquire_completion_lock :: "time \<Rightarrow> string \<Rightarrow> (bool, 'w) sso_action" where
  "acquire_completion_lock now login =
     scheduled (\<lambda>w. let (r, kv) = kv_set_nx now (login_lock_key login) ''1'' (15 * second) (sw_texts w)
                    in (r, w\<lparr>sw_texts := kv\<rparr>))"

definition release_completion_lock :: "string \<Rightarrow> (unit, 'w) sso_action" where
  "release_completion_lock login =
     scheduled (\<lambda>w. (Inr (), w\<lparr>sw_texts := (sw_texts w)(login_lock_key login := None)\<rparr>))"

definition mark_session_finalized :: "time \<Rightarrow> string \<Rightarrow> int \<Rightarrow> (bool, 'w) sso_action" where
  "mark_session_finalized now login ttl =
     scheduled (\<lambda>w. let (r, kv) = kv_set_nx now (finalized_key login) ''1'' ttl (sw_texts w)
                    in (r, w\<lparr>sw_texts := kv\<rparr>))"

definition release_session_finalized :: "string \<Rightarrow> (unit, 'w) sso_action" where
  "release_session_finalized login =
     scheduled (\<lambda>w. (Inr (), w\<lparr>sw_texts := (sw_texts w)(finalized_key login := None)\<rparr>))"

definition save_completion_result :: "time \<Rightarrow> string \<Rightarrow> completion_result \<Rightarrow> int \<Rightarrow> (unit, 'w) sso_action" where
  "save_completion_result now login r ttl =
     scheduled (\<lambda>w. (Inr (), w\<lparr>sw_results := kv_set now (result_key login) r ttl (sw_results w)\<rparr>))"

definition get_completion_result :: "time \<Rightarrow> string \<Rightarrow> (completion_result option, 'w) sso_action" where
  "get_completion_result now login =
     scheduled (\<lambda>w. (Inr (kv_get now (result_key login) (sw_results w)), w))"

section \<open>Transactions\<close>

text \<open>
  A transaction covers the tables only: an error inside, or a commit that fails, restores them, while
  drawn identifiers and cache entries stay. The registrar's rows are in the same database, so its state
  is restored with them.
\<close>

definition roll_back :: "'w sso_world \<Rightarrow> 'w sso_world \<Rightarrow> 'w sso_world" where
  "roll_back w w1 = w1\<lparr>sw_sql := sw_sql w, sw_outside := sw_outside w\<rparr>"

definition in_transaction :: "('a, 'w) sso_action \<Rightarrow> ('a, 'w) sso_action" where
  "in_transaction operation w =
     (case operation w of
        (Inl e, w1) \<Rightarrow> (Inl e, roll_back w w1)
      | (Inr x, w1) \<Rightarrow>
          (case sw_faults w1 of
             [] \<Rightarrow> (Inr x, w1)
           | outcome # rest \<Rightarrow>
               (let w2 = w1\<lparr>sw_faults := rest\<rparr>
                in case outcome of
                     SqlOk \<Rightarrow> (Inr x, w2)
                   | SqlLost e \<Rightarrow> (Inl e, roll_back w w2)
                   | SqlUnacked e \<Rightarrow> (Inl e, w2))))"

definition transaction_unconfigured :: go_error where
  "transaction_unconfigured = system_error (utf8 [0x4F1A, 0x8BDD, 0x7F13, 0x5B58, 0x5931, 0x6548, 0x4E8B, 0x52A1, 0x672A, 0x914D, 0x7F6E])"

definition validity_transaction :: "'w sso_env \<Rightarrow> ('a, 'w) sso_action \<Rightarrow> ('a, 'w) sso_action" where
  "validity_transaction env operation w =
     (if \<not> invalidating env then operation w
      else if \<not> se_transactor env then (Inl transaction_unconfigured, w)
      else in_transaction operation w)"

text \<open>
  Registering the invalidation of sessions: fence and registration of each are the registrar's, and may
  fail. Nothing happens without a registrar.
\<close>

fun register_targets :: "'w sso_env \<Rightarrow> string list \<Rightarrow> (unit, 'w) sso_action" where
  "register_targets env [] w = (Inr (), w)"
| "register_targets env (sid # sids) w =
     (case se_register env of
        None \<Rightarrow> (Inr (), w)
      | Some register \<Rightarrow>
          (case register sid (sw_outside w) of
             (Inl e, out) \<Rightarrow> (Inl e, w\<lparr>sw_outside := out\<rparr>)
           | (Inr _, out) \<Rightarrow> register_targets env sids (w\<lparr>sw_outside := out\<rparr>)))"

end
