(* ===== verification/Sso_Flow.thy ===== *)
theory Sso_Flow
  imports Sso_Model
begin

text \<open>
  The operations of the single sign-on service (\<open>app/sso/application/service.go\<close>): issuing and reading
  tokens, authorization by an active session, the exchange of codes, the rotation of refresh tokens, and
  the revocation of sessions and tokens. The JWT and password services and the cache are bound; the
  cache of session validity is not, so every check reads the database. An operation
  reads the clock once. Audit rows are not written.
\<close>

section \<open>Issuing tokens\<close>

definition access_ttl_default :: int where "access_ttl_default = 1800"
definition refresh_ttl_default :: int where "refresh_ttl_default = 2592000"

definition default_scopes :: "string list" where
  "default_scopes = [''openid'', ''profile'', ''email'', ''offline_access'']"

fun join_scopes :: "string list \<Rightarrow> string" where
  "join_scopes [] = []"
| "join_scopes [x] = x"
| "join_scopes (x # xs) = x @ '' '' @ join_scopes xs"

definition service_issuer :: "'w sso_env \<Rightarrow> string" where
  "service_issuer env = resolve_issuer (se_issuer env) (se_base_url env)"

text \<open>The claims that access and refresh tokens have in common.\<close>

definition token_claims :: "'w sso_env \<Rightarrow> string \<Rightarrow> string \<Rightarrow> sso_client \<Rightarrow> sso_session \<Rightarrow> string list \<Rightarrow> time \<Rightarrow> time \<Rightarrow> anymap" where
  "token_claims env kind jti client session scopes now expires =
     [''iss'' \<mapsto> AStr (service_issuer env), ''sub'' \<mapsto> AStr (show_int (ss_user session)),
      ''aud'' \<mapsto> AStrs [sc_client_id client], ''jti'' \<mapsto> AStr jti,
      ''iat'' \<mapsto> AInt (unix_seconds now), ''exp'' \<mapsto> AInt (unix_seconds expires),
      ''token_type'' \<mapsto> AStr kind, ''uid'' \<mapsto> AStr (show_int (ss_user session)),
      ''sid'' \<mapsto> AStr (ss_id session), ''client_id'' \<mapsto> AStr (sc_client_id client),
      ''scope'' \<mapsto> AStr (join_scopes scopes)]"

definition access_expiry :: "sso_client \<Rightarrow> time \<Rightarrow> time" where
  "access_expiry client now = now + seconds_duration (max_int (sc_access_ttl client) access_ttl_default)"

definition refresh_expiry :: "sso_client \<Rightarrow> time \<Rightarrow> time" where
  "refresh_expiry client now = now + seconds_duration (max_int (sc_refresh_ttl client) refresh_ttl_default)"

definition issue_access_token ::
    "'w sso_env \<Rightarrow> time \<Rightarrow> sso_client \<Rightarrow> sso_session \<Rightarrow> string list \<Rightarrow> (string \<times> time, 'w) sso_action" where
  "issue_access_token env now client session scopes w =
     (let expires = access_expiry client now; (jti, w1) = new_id env ''atk'' w
      in case se_sign env ((token_claims env ''access_token'' jti client session scopes now expires)
                (''acr'' \<mapsto> AStr (ss_acr session), ''amr'' \<mapsto> AStrs (ss_amr session))) of
           Inl e \<Rightarrow> (Inl e, w1)
         | Inr token \<Rightarrow> (Inr (token, expires), w1))"

definition profile_claims :: "sso_profile option \<Rightarrow> string list \<Rightarrow> anymap \<Rightarrow> anymap" where
  "profile_claims profile scopes payload =
     (case profile of
        None \<Rightarrow> payload
      | Some p \<Rightarrow>
          (let c1 = (if blank (pf_account_name p) then payload
                     else payload(''preferred_username'' \<mapsto> AStr (pf_account_name p)));
               c2 = (if blank (pf_nick_name p) then c1 else c1(''name'' \<mapsto> AStr (pf_nick_name p)))
           in if has_scope scopes ''email'' \<and> \<not> blank (pf_email p)
              then c2(''email'' \<mapsto> AStr (pf_email p), ''email_verified'' \<mapsto> ABool True) else c2))"

definition issue_id_token ::
    "'w sso_env \<Rightarrow> time \<Rightarrow> sso_client \<Rightarrow> sso_session \<Rightarrow> string list \<Rightarrow> string \<Rightarrow> (string, 'w) sso_action" where
  "issue_id_token env now client session scopes nonce w =
     (if \<not> has_scope scopes ''openid'' then (Inr [], w)
      else
        let (jti, w1) = new_id env ''idt'' w;
            payload = [''iss'' \<mapsto> AStr (service_issuer env), ''sub'' \<mapsto> AStr (show_int (ss_user session)),
                      ''aud'' \<mapsto> AStrs [sc_client_id client], ''jti'' \<mapsto> AStr jti,
                      ''iat'' \<mapsto> AInt (unix_seconds now),
                      ''exp'' \<mapsto> AInt (unix_seconds (access_expiry client now)),
                      ''typ'' \<mapsto> AStr ''id_token'', ''sid'' \<mapsto> AStr (ss_id session),
                      ''acr'' \<mapsto> AStr (ss_acr session), ''amr'' \<mapsto> AStrs (ss_amr session),
                      ''auth_time'' \<mapsto> AInt (unix_seconds (ss_login_at session))];
            with_nonce = (if blank nonce then payload else payload(''nonce'' \<mapsto> AStr (trim_space nonce)))
        in (se_sign env (profile_claims (se_profile env (ss_user session)) scopes with_nonce), w1))"

definition issue_refresh_token ::
    "'w sso_env \<Rightarrow> time \<Rightarrow> sso_client \<Rightarrow> sso_session \<Rightarrow> string list \<Rightarrow> (string \<times> time, 'w) sso_action" where
  "issue_refresh_token env now client session scopes w =
     (let expires = refresh_expiry client now; (jti, w1) = new_id env ''rft'' w
      in case se_sign env (token_claims env ''refresh_token'' jti client session scopes now expires) of
           Inl e \<Rightarrow> (Inl e, w1)
         | Inr token \<Rightarrow> (Inr (token, expires), w1))"

definition build_token_hash :: "'w sso_env \<Rightarrow> string \<Rightarrow> string" where
  "build_token_hash env raw = se_digest env (trim_space raw)"

section \<open>Reading tokens\<close>

record token_principal =
  tp_token_id :: string
  tp_user :: int
  tp_subject :: string
  tp_client :: string
  tp_session :: string
  tp_scopes :: "string list"
  tp_acr :: string
  tp_amr :: "string list"
  tp_issued :: "time option"
  tp_expires :: "time option"

definition claim_field :: "'w sso_env \<Rightarrow> anymap \<Rightarrow> string list \<Rightarrow> string" where
  "claim_field env payload ks = trim_space (claim_text (se_json env) (first_claim payload ks))"

definition verify_kind :: "'w sso_env \<Rightarrow> go_error \<Rightarrow> string \<Rightarrow> string \<Rightarrow> anymap result" where
  "verify_kind env invalid kind token =
     (case se_verify env (trim_space token) of
        Inl _ \<Rightarrow> Inl invalid
      | Inr payload \<Rightarrow>
          if claim_field env payload [''token_type'', ''typ''] \<noteq> kind then Inl invalid
          else if \<not> token_issuer_valid (se_json env) (service_issuer env) payload then Inl invalid
          else Inr payload)"

definition refresh_token_invalid :: go_error where
  "refresh_token_invalid = unauthorized (''refresh token '' @ utf8 [0x65E0, 0x6548])"

definition access_token_invalid :: go_error where
  "access_token_invalid = unauthorized (''access token '' @ utf8 [0x975E, 0x6CD5, 0x6216, 0x5DF2, 0x5931, 0x6548])"

definition parse_refresh_token :: "'w sso_env \<Rightarrow> time \<Rightarrow> string \<Rightarrow> token_principal result" where
  "parse_refresh_token env now token =
     (case verify_kind env refresh_token_invalid ''refresh_token'' token of
        Inl e \<Rightarrow> Inl e
      | Inr payload \<Rightarrow>
          (let sid = trim_space (claim_text (se_json env) (any_get payload ''sid''));
               cid = claim_field env payload [''client_id'', ''cid'']
           in case (token_user_claims (se_json env) payload, unix_time_claim (any_get payload ''exp'')) of
                (Some (user, subject), Some expires) \<Rightarrow>
                  if sid = [] \<or> cid = [] \<or> \<not> now < expires then Inl refresh_token_invalid
                  else if \<not> claim_contains (se_json env) (any_get payload ''aud'') cid
                  then Inl refresh_token_invalid
                  else Inr \<lparr>tp_token_id = trim_space (claim_text (se_json env) (any_get payload ''jti'')),
                            tp_user = user, tp_subject = subject, tp_client = cid, tp_session = sid,
                            tp_scopes = claim_scopes (se_json env) (first_claim payload [''scope'', ''scp'']),
                            tp_acr = [], tp_amr = [], tp_issued = None, tp_expires = Some expires\<rparr>
              | _ \<Rightarrow> Inl refresh_token_invalid))"

definition access_principal :: "'w sso_env \<Rightarrow> anymap \<Rightarrow> int \<Rightarrow> string \<Rightarrow> string \<Rightarrow> string \<Rightarrow> time \<Rightarrow> token_principal" where
  "access_principal env payload user subject cid sid expires =
     \<lparr>tp_token_id = trim_space (claim_text (se_json env) (any_get payload ''jti'')),
      tp_user = user, tp_subject = subject, tp_client = cid, tp_session = sid,
      tp_scopes = claim_scopes (se_json env) (first_claim payload [''scope'', ''scp'']),
      tp_acr = trim_space (claim_text (se_json env) (any_get payload ''acr'')),
      tp_amr = claim_texts (se_json env) (any_get payload ''amr''),
      tp_issued = unix_time_claim (any_get payload ''iat''), tp_expires = Some expires\<rparr>"

definition parse_access_token_for_revocation :: "'w sso_env \<Rightarrow> time \<Rightarrow> string \<Rightarrow> token_principal result" where
  "parse_access_token_for_revocation env now token =
     (case verify_kind env access_token_invalid ''access_token'' token of
        Inl e \<Rightarrow> Inl e
      | Inr payload \<Rightarrow>
          (let sid = trim_space (claim_text (se_json env) (any_get payload ''sid''));
               cid = claim_field env payload [''client_id'', ''cid'']
           in case (token_user_claims (se_json env) payload, unix_time_claim (any_get payload ''exp'')) of
                (Some (user, subject), Some expires) \<Rightarrow>
                  if cid = [] \<or> sid = [] \<or> \<not> now < expires \<or>
                     \<not> claim_contains (se_json env) (any_get payload ''aud'') cid
                  then Inl access_token_invalid
                  else Inr (access_principal env payload user subject cid sid expires)
              | _ \<Rightarrow> Inl access_token_invalid))"

section \<open>Sessions\<close>

definition revoked_by_user_watermark :: "time \<Rightarrow> time \<Rightarrow> bool" where
  "revoked_by_user_watermark issued cutoff \<longleftrightarrow> \<not> cutoff < issued"

definition not_revoked :: "time option \<Rightarrow> bool" where
  "not_revoked r = (case r of None \<Rightarrow> True | Some t \<Rightarrow> is_zero_time t)"

definition resolve_active_session :: "'w sso_env \<Rightarrow> time \<Rightarrow> string \<Rightarrow> (sso_session option, 'w) sso_action" where
  "resolve_active_session env now sid w =
     then_do (find_session_by_session_id (trim_space sid) w) (\<lambda>found w1.
       case found of
         None \<Rightarrow> (Inr None, w1)
       | Some s \<Rightarrow>
           if ss_status s \<noteq> SessionStatusActive \<or> ss_expires s < now \<or> \<not> not_revoked (ss_revoked s)
           then (Inr None, w1)
           else then_do (user_revoked_at now (ss_user s) w1) (\<lambda>mark w2.
             case mark of
               None \<Rightarrow> (Inr (Some s), w2)
             | Some cutoff \<Rightarrow>
                 if is_zero_time (ss_create s) \<or> revoked_by_user_watermark (ss_create s) cutoff
                 then (Inr None, w2) else (Inr (Some s), w2)))"

text \<open>
  The session of a request as it is used for automatic authorization and for access tokens; the identifier
  is the one of the request.
\<close>

record session_candidate =
  cd_session :: string
  cd_user :: int
  cd_client :: string
  cd_acr :: string
  cd_amr :: "string list"
  cd_expires :: time

definition candidate_of :: "string \<Rightarrow> sso_session \<Rightarrow> session_candidate" where
  "candidate_of sid s =
     \<lparr>cd_session = trim_space sid, cd_user = ss_user s, cd_client = ss_client s, cd_acr = ss_acr s,
      cd_amr = ss_amr s, cd_expires = ss_expires s\<rparr>"

definition resolve_candidate :: "'w sso_env \<Rightarrow> time \<Rightarrow> string \<Rightarrow> (session_candidate option, 'w) sso_action" where
  "resolve_candidate env now sid w =
     then_do (resolve_active_session env now (trim_space sid) w)
       (\<lambda>found w1. (Inr (map_option (candidate_of (trim_space sid)) found), w1))"

definition require_client :: "'w sso_env \<Rightarrow> time \<Rightarrow> string \<Rightarrow> (sso_client, 'w) sso_action" where
  "require_client env now cid w =
     then_do (find_client env now (trim_space cid) w) (\<lambda>found w1.
       case found of
         None \<Rightarrow> (Inl (unauthorized (utf8 [0x5BA2, 0x6237, 0x7AEF, 0x4E0D, 0x5B58, 0x5728, 0x6216, 0x5DF2, 0x7981, 0x7528])), w1)
       | Some c \<Rightarrow>
           if sc_status c \<noteq> ClientStatusActive then (Inl (unauthorized (utf8 [0x5BA2, 0x6237, 0x7AEF, 0x4E0D, 0x5B58, 0x5728, 0x6216, 0x5DF2, 0x7981, 0x7528])), w1)
           else (Inr c, w1))"

text \<open>A failed mark or touch of the session is ignored.\<close>

definition touch_throttled :: "'w sso_env \<Rightarrow> time \<Rightarrow> string \<Rightarrow> 'w sso_world \<Rightarrow> 'w sso_world" where
  "touch_throttled env now sid w =
     (case allow_touch now sid (seconds_duration (max_int (se_touch_throttle env) 30)) w of
        (Inr True, w1) \<Rightarrow> snd (touch_session_row sid now w1)
      | (_, w1) \<Rightarrow> w1)"

definition validate_access_token :: "'w sso_env \<Rightarrow> time \<Rightarrow> string \<Rightarrow> (token_principal, 'w) sso_action" where
  "validate_access_token env now token w =
     (case verify_kind env access_token_invalid ''access_token'' token of
        Inl e \<Rightarrow> (Inl e, w)
      | Inr payload \<Rightarrow>
          (case unix_time_claim (any_get payload ''exp'') of
             None \<Rightarrow> (Inl access_token_invalid, w)
           | Some expires \<Rightarrow>
               if \<not> now < expires then (Inl access_token_invalid, w)
               else
                 let cid = claim_field env payload [''client_id'', ''cid'']
                 in case token_user_claims (se_json env) payload of
                      None \<Rightarrow> (Inl access_token_invalid, w)
                    | Some (user, subject) \<Rightarrow>
                        if cid = [] \<or> \<not> claim_contains (se_json env) (any_get payload ''aud'') cid
                        then (Inl access_token_invalid, w)
                        else
                          let sid = trim_space (claim_text (se_json env) (any_get payload ''sid''))
                          in then_do (resolve_candidate env now sid w) (\<lambda>found w1.
                               case found of
                                 None \<Rightarrow> (Inl (unauthorized (''access token '' @ utf8 [0x5BF9, 0x5E94, 0x4F1A, 0x8BDD, 0x4E0D, 0x5B58, 0x5728, 0x6216, 0x5DF2, 0x5931, 0x6548])), w1)
                               | Some s \<Rightarrow>
                                   if cd_user s \<noteq> user \<or> cd_client s \<noteq> cid
                                   then (Inl (unauthorized (''access token '' @ utf8 [0x4E0E, 0x4F1A, 0x8BDD, 0x4E0D, 0x5339, 0x914D])), w1)
                                   else (Inr (access_principal env payload user subject cid sid expires),
                                         touch_throttled env now (cd_session s) w1))))"

end
