(* ===== verification/Sso_Service.thy ===== *)
theory Sso_Service
  imports Sso_Flow
begin

text \<open>
  The operations that change sessions, codes and families (\<open>app/sso/application/service.go\<close>). Cookies
  are given by the values they carry.
\<close>

section \<open>Authorization by an active session\<close>

definition authorize_with_active_session ::
    "'w sso_env \<Rightarrow> time \<Rightarrow> string \<Rightarrow> string \<Rightarrow> string \<Rightarrow> string \<Rightarrow> string \<Rightarrow> string \<Rightarrow> string \<Rightarrow> session_candidate \<Rightarrow>
     (code_redirect, 'w) sso_action" where
  "authorize_with_active_session env now cid redirect_uri scope state nonce challenge kind candidate w =
     then_do (require_client env now cid w) (\<lambda>client w1.
       case validate_authorize_request client ''code'' redirect_uri challenge kind [] of
         Inl e \<Rightarrow> (Inl e, w1)
       | Inr _ \<Rightarrow>
           (case normalize_scopes client (str_fields (trim_space scope)) of
              Inl e \<Rightarrow> (Inl e, w1)
            | Inr scopes \<Rightarrow>
                (let (code, w2) = new_id env ''sso_code'' w1
                 in then_do (insert_authorization_code
                      \<lparr>ac_code = code, ac_client = sc_client_id client, ac_user = cd_user candidate,
                       ac_session = cd_session candidate, ac_redirect = redirect_uri, ac_scopes = scopes,
                       ac_challenge = trim_space challenge, ac_challenge_method = to_upper (trim_space kind),
                       ac_nonce = trim_space nonce, ac_acr = cd_acr candidate, ac_amr = cd_amr candidate,
                       ac_expires = now + 5 * minute, ac_consumed = None, ac_status = CodeStatusActive\<rparr> w2)
                    (\<lambda>_ w3. (Inr \<lparr>cr_uri = redirect_uri, cr_code = code, cr_state = state\<rparr>, w3)))))"

section \<open>Exchange of an authorization code\<close>

record token_bundle =
  tb_access :: string
  tb_id :: string
  tb_refresh :: string
  tb_type :: string
  tb_expires_in :: int
  tb_scope :: string
  tb_refresh_expires :: "time option"
  tb_refresh_in_body :: bool

definition code_invalid :: go_error where "code_invalid = unauthorized (''authorization code '' @ utf8 [0x65E0, 0x6548])"
definition pkce_failed :: go_error where "pkce_failed = unauthorized (''PKCE '' @ utf8 [0x6821, 0x9A8C, 0x5931, 0x8D25])"
definition session_invalid :: go_error where "session_invalid = unauthorized (utf8 [0x767B, 0x5F55, 0x4F1A, 0x8BDD, 0x4E0D, 0x5B58, 0x5728, 0x6216, 0x5DF2, 0x5931, 0x6548])"

definition check_code ::
    "'w sso_env \<Rightarrow> time \<Rightarrow> sso_client \<Rightarrow> string \<Rightarrow> string \<Rightarrow> auth_code \<Rightarrow> unit result" where
  "check_code env now client redirect_uri verifier item =
     (if ac_status item \<noteq> CodeStatusActive \<or> ac_expires item < now then Inl code_invalid
      else if ac_client item \<noteq> sc_client_id client then Inl code_invalid
      else if redirect_uri \<noteq> ac_redirect item then Inl (unauthorized (''redirect_uri '' @ utf8 [0x4E0D, 0x5339, 0x914D]))
      else if client_requires_pkce client \<and> trim_space (ac_challenge item) = [] then Inl pkce_failed
      else if ac_challenge item \<noteq> [] \<and>
              (\<not> equal_fold (trim_space (ac_challenge_method item)) ''S256'' \<or> trim_space verifier = [] \<or>
               \<not> verify_pkce (se_digest env) (ac_challenge item) (trim_space verifier))
      then Inl pkce_failed
      else Inr ())"

definition token_expires_in :: "time \<Rightarrow> time \<Rightarrow> int" where
  "token_expires_in now expires = whole_seconds (time_sub expires now)"

text \<open>The tokens for a consumed code; the family of the refresh token is stored when offline access was granted.\<close>

definition issue_for_code ::
    "'w sso_env \<Rightarrow> time \<Rightarrow> sso_client \<Rightarrow> sso_session \<Rightarrow> auth_code \<Rightarrow> (token_bundle, 'w) sso_action" where
  "issue_for_code env now client session item w =
     then_do (issue_access_token env now client session (ac_scopes item) w) (\<lambda>(access, access_expires) w1.
     then_do (issue_id_token env now client session (ac_scopes item) (ac_nonce item) w1) (\<lambda>id_token w2.
       let bundle = \<lparr>tb_access = access, tb_id = id_token, tb_refresh = [], tb_type = ''Bearer'',
                     tb_expires_in = token_expires_in now access_expires,
                     tb_scope = join_scopes (ac_scopes item), tb_refresh_expires = None,
                     tb_refresh_in_body = (\<not> sc_trusted client)\<rparr>
       in if has_scope (ac_scopes item) ''offline_access'' \<and> client_allows_grant client ''refresh_token''
          then then_do (issue_refresh_token env now client session (ac_scopes item) w2) (\<lambda>(refresh, refresh_expires) w3.
                 let (fid, w4) = new_id env ''sso_rtf'' w3
                 in then_do (insert_refresh_token_family
                      \<lparr>rf_id = fid, rf_session = ss_id session, rf_client = ss_client session,
                       rf_user = ss_user session, rf_current = build_token_hash env refresh,
                       rf_previous = [], rf_reuse = False, rf_rotated = None, rf_expires = refresh_expires,
                       rf_revoked = None, rf_status = RefreshFamilyStatusActive, rf_scopes = ac_scopes item,
                       rf_create = now\<rparr> w4)
                    (\<lambda>_ w5. (Inr (bundle\<lparr>tb_refresh := refresh, tb_refresh_expires := Some refresh_expires\<rparr>), w5)))
          else (Inr bundle, w2)))"

definition check_code_session :: "time \<Rightarrow> sso_client \<Rightarrow> auth_code \<Rightarrow> sso_session option \<Rightarrow> sso_session result" where
  "check_code_session now client item found =
     (case found of
        None \<Rightarrow> Inl session_invalid
      | Some s \<Rightarrow>
          if ss_status s \<noteq> SessionStatusActive \<or> ss_expires s < now then Inl session_invalid
          else if ss_user s \<noteq> ac_user item \<or> ss_client s \<noteq> sc_client_id client
          then Inl (unauthorized (''authorization code '' @ utf8 [0x4E0E, 0x767B, 0x5F55, 0x4F1A, 0x8BDD, 0x4E0D, 0x5339, 0x914D]))
          else Inr s)"

text \<open>A read that fails counts as one that finds nothing, with the given error.\<close>

definition found_or :: "go_error \<Rightarrow> 'a option result \<times> 'w sso_world \<Rightarrow> 'a result \<times> 'w sso_world" where
  "found_or e r = (case r of (Inr (Some x), w) \<Rightarrow> (Inr x, w) | (_, w) \<Rightarrow> (Inl e, w))"

definition redeem_code ::
    "'w sso_env \<Rightarrow> time \<Rightarrow> sso_client \<Rightarrow> auth_code \<Rightarrow> (token_bundle, 'w) sso_action" where
  "redeem_code env now client item w =
     then_do (consume_authorization_code (ac_code item) now w) (\<lambda>consumed w1.
       if \<not> consumed then (Inl (unauthorized (''authorization code '' @ utf8 [0x5DF2, 0x88AB, 0x6D88, 0x8D39])), w1)
       else then_do (found_or session_invalid (find_session_by_session_id (ac_session item) w1)) (\<lambda>s w2.
         case check_code_session now client item (Some s) of
           Inl e \<Rightarrow> (Inl e, w2)
         | Inr session \<Rightarrow> issue_for_code env now client session item w2))"

definition exchange_authorization_code ::
    "'w sso_env \<Rightarrow> time \<Rightarrow> string \<Rightarrow> string \<Rightarrow> string \<Rightarrow> string \<Rightarrow> string \<Rightarrow> (token_bundle, 'w) sso_action" where
  "exchange_authorization_code env now cid secret code redirect_uri verifier w =
     (if trim_space cid = [] then (Inl (params_error (utf8 [0x7F3A, 0x5C11] @ '' client_id'')), w)
      else if trim_space code = [] \<or> trim_space redirect_uri = []
      then (Inl (params_error (utf8 [0x7F3A, 0x5C11] @ '' code '' @ utf8 [0x6216] @ '' redirect_uri'')), w)
      else then_do (require_client env now cid w) (\<lambda>client w1.
        if \<not> client_allows_grant client ''authorization_code''
        then (Inl (unauthorized (utf8 [0x5F53, 0x524D, 0x5BA2, 0x6237, 0x7AEF, 0x4E0D, 0x5141, 0x8BB8] @ '' authorization_code '' @ utf8 [0x6388, 0x6743])), w1)
        else case authenticate_client (se_password env) client secret of
               Inl e \<Rightarrow> (Inl e, w1)
             | Inr _ \<Rightarrow>
                 then_do (found_or code_invalid (find_authorization_code (trim_space code) w1)) (\<lambda>item w2.
                   case check_code env now client redirect_uri verifier item of
                     Inl e \<Rightarrow> (Inl e, w2)
                   | Inr _ \<Rightarrow> redeem_code env now client item w2)))"

section \<open>Revocation of sessions\<close>

definition revoke_families_and_session ::
    "'w sso_env \<Rightarrow> time \<Rightarrow> string \<Rightarrow> (bool, 'w) sso_action" where
  "revoke_families_and_session env now session_id w =
     (let sid = trim_space session_id
      in then_do
           (if \<not> invalidating env then (Inr (), w)
            else then_do (find_session_by_session_id sid w) (\<lambda>found w1.
                   case found of None \<Rightarrow> (Inr (), w1) | Some s \<Rightarrow> register_targets env [ss_id s] w1))
         (\<lambda>_ w2. then_do (revoke_refresh_families_by_session_id sid now w2)
         (\<lambda>_ w3. revoke_session_row sid now w3)))"

definition revoke_session_and_families :: "'w sso_env \<Rightarrow> time \<Rightarrow> string \<Rightarrow> (bool, 'w) sso_action" where
  "revoke_session_and_families env now sid =
     validity_transaction env (revoke_families_and_session env now sid)"

definition revoke_session_within :: "'w sso_env \<Rightarrow> time \<Rightarrow> string \<Rightarrow> (bool, 'w) sso_action" where
  "revoke_session_within env now sid w =
     then_do (find_session_by_session_id (trim_space sid) w) (\<lambda>found w1.
       case found of
         None \<Rightarrow> (Inr False, w1)
       | Some s \<Rightarrow> revoke_families_and_session env now (ss_id s) w1)"

definition revoke_session :: "'w sso_env \<Rightarrow> time \<Rightarrow> string \<Rightarrow> (bool, 'w) sso_action" where
  "revoke_session env now sid = validity_transaction env (revoke_session_within env now sid)"

definition revoke_managed_session :: "'w sso_env \<Rightarrow> time \<Rightarrow> string \<Rightarrow> (bool, 'w) sso_action" where
  "revoke_managed_session env now sid =
     (if \<not> invalidating env then revoke_session_and_families env now (trim_space sid)
      else revoke_session env now sid)"

text \<open>
  The active sessions that a revocation concerns are read in pages of 100 in the order of their rows; each
  page is registered for invalidation and its touch marks are deleted, which may fail unnoticed.
\<close>

definition session_page :: nat where "session_page = 100"

fun clear_touches :: "string list \<Rightarrow> 'w sso_world \<Rightarrow> 'w sso_world" where
  "clear_touches [] w = w"
| "clear_touches (sid # sids) w = clear_touches sids (snd (clear_session_touch sid w))"

function collect_effects :: "'w sso_env \<Rightarrow> string \<Rightarrow> sso_session list \<Rightarrow> (unit, 'w) sso_action" where
  "collect_effects env label rest w =
     (case sql_read label (\<lambda>_. take session_page rest) w of
        (Inl e, w1) \<Rightarrow> (Inl e, w1)
      | (Inr page, w1) \<Rightarrow>
          if rest = [] then (Inr (), w1)
          else case register_targets env (map ss_id (take session_page rest)) w1 of
                 (Inl e, w2) \<Rightarrow> (Inl e, w2)
               | (Inr _, w2) \<Rightarrow>
                   (let w3 = clear_touches (map ss_id (take session_page rest)) w2
                    in if length rest < session_page then (Inr (), w3)
                       else collect_effects env label (drop session_page rest) w3))"
  by pat_completeness auto
termination
  by (relation "measure (\<lambda>(env, label, rest, w). length rest)") (auto simp: session_page_def)

declare collect_effects.simps [simp del]

definition active_before :: "(sso_session \<Rightarrow> bool) \<Rightarrow> time \<Rightarrow> sso_tables \<Rightarrow> sso_session list" where
  "active_before P cutoff t =
     filter (\<lambda>r. P r \<and> ss_status r = SessionStatusActive \<and> ss_create r \<le> cutoff) (st_sessions t)"

definition capture_cutoff :: "time \<Rightarrow> (time, 'w) sso_action" where
  "capture_cutoff now w =
     then_do (sql_read ''capture managed session cutoff'' (\<lambda>_. now) w) (\<lambda>cutoff w1.
       if is_zero_time cutoff
       then (Inl (service_unavailable (utf8 [0x7528, 0x6237, 0x4F1A, 0x8BDD, 0x64A4, 0x9500, 0x622A, 0x6B62, 0x6761, 0x4EF6, 0x4E0D, 0x53EF, 0x7528])), w1) else (Inr cutoff, w1))"

definition user_page_label :: string where
  "user_page_label = ''list active sso sessions by user page''"

definition revoke_user_within :: "'w sso_env \<Rightarrow> time \<Rightarrow> int \<Rightarrow> (nat, 'w) sso_action" where
  "revoke_user_within env now user w =
     then_do (capture_cutoff now w) (\<lambda>cutoff w1.
     then_do (collect_effects env user_page_label (active_before (\<lambda>r. ss_user r = user) cutoff (sw_sql w1)) w1) (\<lambda>_ w2.
     then_do (revoke_refresh_families_by_user_id user cutoff w2) (\<lambda>_ w3.
     then_do (revoke_session_rows_by_user user cutoff w3) (\<lambda>n w4.
     then_do (mark_user_revoked now user cutoff w4) (\<lambda>_ w5. (Inr n, w5))))))"

definition revoke_sessions_by_user_id :: "'w sso_env \<Rightarrow> time \<Rightarrow> int \<Rightarrow> (nat, 'w) sso_action" where
  "revoke_sessions_by_user_id env now user = validity_transaction env (revoke_user_within env now user)"

definition revoke_user_before_within :: "'w sso_env \<Rightarrow> time \<Rightarrow> int \<Rightarrow> time \<Rightarrow> (nat, 'w) sso_action" where
  "revoke_user_before_within env now user cutoff w =
     (if user \<le> 0 \<or> is_zero_time cutoff then (Inl (params_error (utf8 [0x7528, 0x6237, 0x4F1A, 0x8BDD, 0x64A4, 0x9500, 0x622A, 0x6B62, 0x6761, 0x4EF6, 0x65E0, 0x6548])), w)
      else then_do
        (if invalidating env
         then collect_effects env user_page_label (active_before (\<lambda>r. ss_user r = user) cutoff (sw_sql w)) w
         else (Inr (), w)) (\<lambda>_ w1.
      then_do (revoke_refresh_families_by_user_id_cutoff user cutoff w1) (\<lambda>_ w2.
      then_do (revoke_session_rows_by_user_cutoff user cutoff w2) (\<lambda>n w3.
      then_do (mark_user_revoked now user cutoff w3) (\<lambda>_ w4. (Inr n, w4))))))"

definition revoke_sessions_by_user_id_at_or_before ::
    "'w sso_env \<Rightarrow> time \<Rightarrow> int \<Rightarrow> time \<Rightarrow> (nat, 'w) sso_action" where
  "revoke_sessions_by_user_id_at_or_before env now user cutoff =
     validity_transaction env (revoke_user_before_within env now user cutoff)"

end
