(* ===== verification/User_Accounts.thy ===== *)
theory User_Accounts
  imports Org_Units Credentials Sso_Service
begin

text \<open>
  The accounts of users (\<open>app/system/user/application/service.go\<close>, \<open>domain/service.go\<close> and
  \<open>infrastructure/user_repository.go\<close>): how subjects are created, changed, locked and deleted, with the
  roles, the password and the SSO sessions that go with them.

  An account lives in three components: the tables of \<open>Authz_Model\<close>, the table of \<open>Credentials\<close> and the
  SSO service of \<open>Sso_Service\<close>. The state holds all three; a transaction covers their tables and leaves
  the caches of the SSO service alone. What an operation reads before its transaction is \<open>seen\<close>. A
  binding that the composition may leave out is a flag of the environment. Gender, register codes and
  operators of rows are not represented.
\<close>

section \<open>Validation\<close>

definition is_digit :: "char \<Rightarrow> bool" where "is_digit c \<longleftrightarrow> c \<in> set ''0123456789''"
definition is_lower_letter :: "char \<Rightarrow> bool" where "is_lower_letter c \<longleftrightarrow> c \<in> set ''abcdefghijklmnopqrstuvwxyz''"
definition is_upper_letter :: "char \<Rightarrow> bool" where "is_upper_letter c \<longleftrightarrow> c \<in> set ''ABCDEFGHIJKLMNOPQRSTUVWXYZ''"
definition is_letter :: "char \<Rightarrow> bool" where "is_letter c \<longleftrightarrow> is_lower_letter c \<or> is_upper_letter c"
definition word_char :: "char \<Rightarrow> bool" where "word_char c \<longleftrightarrow> is_letter c \<or> is_digit c \<or> c = CHR ''_''"

definition email_local_char :: "char \<Rightarrow> bool" where
  "email_local_char c \<longleftrightarrow> word_char c \<or> c \<in> set ''!#$%&*+/=?^`{|}~-'' \<or> c = CHR 0x27"

text \<open>
  The pattern of an email address is not anchored: an address is found as soon as a local character, \<open>@\<close>,
  a label that begins and ends with a word character, a dot and a word character follow each other.
\<close>

definition email_domain_follows :: "string \<Rightarrow> bool" where
  "email_domain_follows s =
     (let label = takeWhile (\<lambda>c. word_char c \<or> c = CHR ''-'') s
      in label \<noteq> [] \<and> word_char (hd label) \<and> word_char (last label)
         \<and> (case drop (length label) s of
              d # w # _ \<Rightarrow> d = CHR ''.'' \<and> word_char w
            | _ \<Rightarrow> False))"

fun email_matches :: "string \<Rightarrow> bool" where
  "email_matches (c # a # s) \<longleftrightarrow> (email_local_char c \<and> a = CHR 0x40 \<and> email_domain_follows s) \<or> email_matches (a # s)"
| "email_matches _ \<longleftrightarrow> False"

definition validate_email :: "string \<Rightarrow> bool" where "validate_email v = email_matches (trim_space v)"

definition validate_phone :: "string \<Rightarrow> bool" where
  "validate_phone v =
     (case trim_space v of
        a # b # rest \<Rightarrow> a = CHR ''1'' \<and> b \<in> set ''3456789'' \<and> length rest = 9 \<and> list_all is_digit rest
      | _ \<Rightarrow> False)"

definition validate_account :: "string \<Rightarrow> bool" where
  "validate_account v =
     (case trim_space v of
        [] \<Rightarrow> False
      | c # rest \<Rightarrow> is_letter c \<and> 4 \<le> length rest \<and> length rest \<le> 15
                     \<and> list_all (\<lambda>x. is_letter x \<or> is_digit x) rest)"

definition validate_password :: "string \<Rightarrow> bool" where
  "validate_password v =
     (let s = trim_space v
      in 8 \<le> length s \<and> length s \<le> 20 \<and> list_ex is_upper_letter s \<and> list_ex is_lower_letter s \<and> list_ex is_digit s)"

definition hex_char :: "char \<Rightarrow> bool" where
  "hex_char c \<longleftrightarrow> is_digit c \<or> c \<in> set ''abcdefABCDEF''"

definition valid_status_command_hash :: "string \<Rightarrow> bool" where
  "valid_status_command_hash v \<longleftrightarrow> length (trim_space v) = 64 \<and> list_all hex_char (trim_space v)"

section \<open>Statements\<close>

definition find_subject_by_account :: "authz_db \<Rightarrow> string \<Rightarrow> user_row option" where
  "find_subject_by_account db account =
     (if blank account then None
      else find (\<lambda>r. us_account r = trim_space account \<and> \<not> us_deleted r) (db_users db))"

definition find_row_by_email :: "authz_db \<Rightarrow> string \<Rightarrow> user_row option result" where
  "find_row_by_email db email =
     (let e = to_lower (trim_space email)
      in if e = [] then Inr None
         else case filter (\<lambda>r. to_lower (us_email r) = e \<and> us_status r = 0 \<and> \<not> us_deleted r) (db_users db) of
                [] \<Rightarrow> Inr None
              | [r] \<Rightarrow> Inr (Some r)
              | _ \<Rightarrow> Inl (operation_error (utf8 [0x90AE, 0x7BB1, 0x5339, 0x914D, 0x5230, 0x591A, 0x4E2A, 0x7528, 0x6237, 0xFF0C, 0x7981, 0x6B62, 0x81EA, 0x52A8, 0x7ED1, 0x5B9A])))"

definition count_by_account :: "authz_db \<Rightarrow> int \<Rightarrow> string \<Rightarrow> nat" where
  "count_by_account db user account =
     (if blank account then 0
      else count_where (\<lambda>r. us_account r = trim_space account \<and> us_id r \<noteq> user \<and> \<not> us_deleted r) (db_users db))"

definition count_by_email :: "authz_db \<Rightarrow> int \<Rightarrow> string \<Rightarrow> nat" where
  "count_by_email db user email =
     (if blank email then 0
      else count_where (\<lambda>r. us_email r = trim_space email \<and> us_id r \<noteq> user \<and> \<not> us_deleted r) (db_users db))"

definition count_by_phone :: "authz_db \<Rightarrow> int \<Rightarrow> string \<Rightarrow> nat" where
  "count_by_phone db user phone =
     (if blank phone then 0
      else count_where (\<lambda>r. us_phone r = Some (trim_space phone) \<and> us_id r \<noteq> user \<and> \<not> us_deleted r) (db_users db))"

text \<open>The texts written where a pointer is given; \<open>sanitizeOptional\<close> has trimmed them.\<close>

definition update_profile ::
    "int \<Rightarrow> string option \<Rightarrow> string option \<Rightarrow> string option \<Rightarrow> string option \<Rightarrow> authz_db \<Rightarrow> authz_db" where
  "update_profile user nick phone avatar profile db =
     (if user \<le> 0 \<or> (nick = None \<and> phone = None \<and> avatar = None \<and> profile = None) then db
      else db\<lparr>db_users := update_where (\<lambda>r. us_id r = user \<and> \<not> us_deleted r)
        (\<lambda>r. r\<lparr>us_nick := (case nick of None \<Rightarrow> us_nick r | Some v \<Rightarrow> trim_space v),
               us_phone := (case phone of None \<Rightarrow> us_phone r | Some v \<Rightarrow> nullable_text v),
               us_avatar := (case avatar of None \<Rightarrow> us_avatar r | Some v \<Rightarrow> trim_space v),
               us_profile := (case profile of None \<Rightarrow> us_profile r | Some v \<Rightarrow> trim_space v)\<rparr>) (db_users db)\<rparr>)"

definition update_email :: "int \<Rightarrow> string \<Rightarrow> authz_db \<Rightarrow> authz_db" where
  "update_email user email db =
     (if user \<le> 0 then db
      else db\<lparr>db_users := update_where (\<lambda>r. us_id r = user \<and> \<not> us_deleted r)
        (\<lambda>r. r\<lparr>us_email := trim_space email\<rparr>) (db_users db)\<rparr>)"

definition new_user_row :: "int \<Rightarrow> string \<Rightarrow> string \<Rightarrow> string \<Rightarrow> string option \<Rightarrow> string \<Rightarrow> string \<Rightarrow> int \<Rightarrow> user_row" where
  "new_user_row i account nick email phone avatar profile status =
     \<lparr>us_id = i, us_account = trim_space account, us_nick = trim_space nick, us_email = trim_space email,
      us_phone = phone, us_status = status, us_unseal = None, us_version = 0, us_hash = None,
      us_avatar = trim_space avatar, us_profile = trim_space profile, us_deleted = False\<rparr>"

definition create_owner_row :: "go_error \<Rightarrow> int \<Rightarrow> string \<Rightarrow> string \<Rightarrow> authz_db \<Rightarrow> unit result \<times> authz_db" where
  "create_owner_row dup i account nick db =
     (if i \<le> 0 then (Inr (), db) else insert_user dup (new_user_row i account nick [] None [] [] 0) db)"

text \<open>The column \<open>userEmail\<close> takes no \<open>NULL\<close>, which is what a blank email is written as here.\<close>

definition create_admin_row ::
    "go_error \<Rightarrow> go_error \<Rightarrow> int \<Rightarrow> string \<Rightarrow> string \<Rightarrow> string \<Rightarrow> string \<Rightarrow> string \<Rightarrow> int \<Rightarrow> authz_db \<Rightarrow>
     unit result \<times> authz_db" where
  "create_admin_row dup null i account nick email phone profile status db =
     (if blank email then (Inl null, db)
      else insert_user dup (new_user_row i account nick email (nullable_text phone) [] profile status) db)"

definition create_subject_row ::
    "go_error \<Rightarrow> int \<Rightarrow> string \<Rightarrow> string \<Rightarrow> string \<Rightarrow> string \<Rightarrow> authz_db \<Rightarrow> unit result \<times> authz_db" where
  "create_subject_row dup i account nick email avatar db =
     insert_user dup (new_user_row i account nick email None avatar [] 0) db"

fun relation_primaries :: "int \<Rightarrow> int list \<Rightarrow> (int \<times> int) list" where
  "relation_primaries primary [] = []"
| "relation_primaries primary (i # ids) =
     (if i = primary \<or> primary \<le> 0 then (i, 1) # relation_primaries i ids
      else (i, 0) # relation_primaries primary ids)"

definition member_rows :: "int \<Rightarrow> int list \<Rightarrow> int \<Rightarrow> member_row list" where
  "member_rows user ids primary =
     map (\<lambda>(i, p). \<lparr>mb_user = user, mb_of = i, mb_primary = p, mb_deleted = False\<rparr>)
       (relation_primaries primary (sort (unique_int64 ids)))"

definition relation_checks :: "tx_mode \<Rightarrow> string \<Rightarrow> int list \<Rightarrow> unit result" where
  "relation_checks m what ids =
     if_ok (require (m \<noteq> NoTx) (PlainError (''replace user '' @ what @ ''s requires active transaction''))) (\<lambda>_.
       require (length (unique_int64 ids) \<le> 100) (PlainError (''user '' @ what @ '' set exceeds 100'')))"

definition replace_user_orgs :: "int \<Rightarrow> int list \<Rightarrow> int \<Rightarrow> (unit, authz_db) tx_body" where
  "replace_user_orgs user ids primary m db =
     then_do (relation_checks m ''org'' ids, db) (\<lambda>_ db1. (Inr (),
       db1\<lparr>db_user_orgs := filter (\<lambda>r. mb_user r \<noteq> user) (db_user_orgs db1) @ member_rows user ids primary\<rparr>))"

definition replace_user_depts :: "int \<Rightarrow> int list \<Rightarrow> int \<Rightarrow> (unit, authz_db) tx_body" where
  "replace_user_depts user ids primary m db =
     then_do (relation_checks m ''dept'' ids, db) (\<lambda>_ db1. (Inr (),
       db1\<lparr>db_user_depts := filter (\<lambda>r. mb_user r \<noteq> user) (db_user_depts db1) @ member_rows user ids primary\<rparr>))"

definition replace_user_posts :: "int \<Rightarrow> int list \<Rightarrow> int \<Rightarrow> (unit, authz_db) tx_body" where
  "replace_user_posts user ids primary m db =
     then_do (relation_checks m ''post'' ids, db) (\<lambda>_ db1. (Inr (),
       db1\<lparr>db_user_posts := filter (\<lambda>r. mb_user r \<noteq> user) (db_user_posts db1) @ member_rows user ids primary\<rparr>))"

section \<open>The state of accounts\<close>

record 'w accounts =
  ac_db :: authz_db
  ac_credentials :: "credential_row list"
  ac_sso :: "'w sso_world"

record 'w account_env =
  ae_authz :: authz_env
  ae_cred :: cred_env
  ae_sso :: "'w sso_env"
  ae_has_roles :: bool
  ae_has_permissions :: bool
  ae_has_sessions :: bool
  ae_has_managed :: bool
  ae_has_credentials :: bool
  ae_has_password :: bool
  ae_has_ids :: bool
  ae_hash :: "string \<Rightarrow> string result"
  ae_sha256_hex :: "string \<Rightarrow> string"
  ae_user_id :: int

type_synonym ('a, 'w) account_body = "('a, 'w accounts) tx_body"

definition on_db :: "('a, authz_db) tx_body \<Rightarrow> ('a, 'w) account_body" where
  "on_db body m w = (case body m (ac_db w) of (r, db) \<Rightarrow> (r, w\<lparr>ac_db := db\<rparr>))"

definition on_credentials :: "(tx_mode \<Rightarrow> 'a cred_action) \<Rightarrow> ('a, 'w) account_body" where
  "on_credentials body m w = (case body m (ac_credentials w) of (r, rows) \<Rightarrow> (r, w\<lparr>ac_credentials := rows\<rparr>))"

definition on_sso :: "(tx_mode \<Rightarrow> ('a, 'w) sso_action) \<Rightarrow> ('a, 'w) account_body" where
  "on_sso body m w = (case body m (ac_sso w) of (r, s) \<Rightarrow> (r, w\<lparr>ac_sso := s\<rparr>))"

definition checked :: "'a result \<Rightarrow> ('a, 'w) account_body" where
  "checked r m w = (r, w)"

definition seq_body :: "('a, 'w) account_body \<Rightarrow> ('a \<Rightarrow> ('b, 'w) account_body) \<Rightarrow> ('b, 'w) account_body" where
  "seq_body a f m w = then_do (a m w) (\<lambda>x. f x m)"

definition undo_accounts :: "'w accounts \<Rightarrow> 'w accounts \<Rightarrow> 'w accounts" where
  "undo_accounts w w1 = w\<lparr>ac_sso := roll_back (ac_sso w) (ac_sso w1)\<rparr>"

definition account_tx :: "'w account_env \<Rightarrow> ('a, 'w) account_body \<Rightarrow> ('a, 'w) account_body" where
  "account_tx env body m w =
     (if \<not> az_transactor (ae_authz env) \<or> m \<noteq> NoTx then body m w
      else case body OrdinaryTx w of
             (Inl e, w1) \<Rightarrow> (Inl e, undo_accounts w w1)
           | (Inr x, w1) \<Rightarrow>
               (case az_outcome (ae_authz env) 0 of
                  SqlOk \<Rightarrow> (Inr x, w1)
                | SqlLost e \<Rightarrow> (Inl e, undo_accounts w w1)
                | SqlUnacked e \<Rightarrow> (Inl e, w1)))"

definition account_registrar :: "'w account_env \<Rightarrow> 'w accounts registrar option" where
  "account_registrar env =
     map_option (\<lambda>rg. \<lparr>rg_fence = rg_fence rg,
       rg_register = (\<lambda>c w. case rg_register rg c (ac_db w) of (r, db) \<Rightarrow> (r, w\<lparr>ac_db := db\<rparr>))\<rparr>)
       (authz_registrar (ae_authz env))"

definition account_mutation :: "'w account_env \<Rightarrow> ('a, 'w) account_body \<Rightarrow> ('a, 'w) account_body" where
  "account_mutation env fn =
     run_invalidated_mutation_classes (account_registrar env) invalidation_classes (account_tx env) (changing fn)"

text \<open>
  What follows a committed mutation: \<open>refreshUser\<close>, and the \<open>RefreshUserPermissionCache\<close> of the
  authorization service that it calls. Since the snapshots are gated by generations nothing is left to do
  there, and no call of it fails.
\<close>

definition refresh_user_permission_cache :: "int \<Rightarrow> unit result" where
  "refresh_user_permission_cache user = (if user \<le> 0 then Inl (params_error (''userId'' @ utf8 [0x4E0D, 0x80FD, 0x4E3A, 0x7A7A])) else Inr ())"

definition refresh_user :: "'w account_env \<Rightarrow> int \<Rightarrow> unit result" where
  "refresh_user env user =
     (if \<not> ae_has_permissions env \<or> user \<le> 0 then Inr () else refresh_user_permission_cache user)"

definition refreshed :: "'w account_env \<Rightarrow> int \<Rightarrow> ('a, 'w) account_body \<Rightarrow> ('a, 'w) account_body" where
  "refreshed env user body m w =
     then_do (body m w) (\<lambda>x w1. then_do (refresh_user env user, w1) (\<lambda>_ w2. (Inr x, w2)))"

lemma refresh_user_ok: "refresh_user env user = Inr ()"
  by (simp add: refresh_user_def refresh_user_permission_cache_def)

lemma refreshed_same [simp]: "refreshed env user body = body"
  by (intro ext) (simp add: refreshed_def refresh_user_ok then_do_return)

section \<open>Collaborators\<close>

definition roles_unbound :: go_error where "roles_unbound = system_error (utf8 [0x7528, 0x6237, 0x89D2, 0x8272, 0x7B56, 0x7565, 0x670D, 0x52A1, 0x672A, 0x914D, 0x7F6E])"

definition sessions_unbound :: go_error where "sessions_unbound = operation_error (''SSO'' @ utf8 [0x4F1A, 0x8BDD, 0x56DE, 0x6536, 0x80FD, 0x529B, 0x672A, 0x914D, 0x7F6E])"

definition guard_deactivation :: "'w account_env \<Rightarrow> int \<Rightarrow> (unit, 'w) account_body" where
  "guard_deactivation env user m w =
     (if \<not> ae_has_roles env then Inl roles_unbound else guard_user_deactivation (ac_db w) user, w)"

text \<open>Inside a transaction the SSO service joins it; outside it opens one where it invalidates a cache.\<close>

definition revoke_of_user :: "'w account_env \<Rightarrow> time \<Rightarrow> int \<Rightarrow> (nat, 'w) account_body" where
  "revoke_of_user env now user = on_sso (\<lambda>m. if m = NoTx then revoke_sessions_by_user_id (ae_sso env) now user
                                             else revoke_user_within (ae_sso env) now user)"

definition revoke_of_user_before :: "'w account_env \<Rightarrow> time \<Rightarrow> int \<Rightarrow> time \<Rightarrow> (nat, 'w) account_body" where
  "revoke_of_user_before env now user cutoff = on_sso (\<lambda>m.
     if m = NoTx then revoke_sessions_by_user_id_at_or_before (ae_sso env) now user cutoff
     else revoke_user_before_within (ae_sso env) now user cutoff)"

definition store_password ::
    "'w account_env \<Rightarrow> time \<Rightarrow> int \<Rightarrow> string \<Rightarrow> int option \<Rightarrow> (unit, 'w) account_body" where
  "store_password env now user hash operator =
     on_credentials (upsert_password (ae_cred env) now
       \<lparr>pi_user = user, pi_hash = hash, pi_must_change = False, pi_changed_at = Some now, pi_creator = operator,
        pi_updater = operator\<rparr>)"

definition pointer_int64 :: "int \<Rightarrow> int option" where
  "pointer_int64 v = (if v \<le> 0 then None else Some v)"

definition hash_password :: "'w account_env \<Rightarrow> string \<Rightarrow> string result" where
  "hash_password env raw =
     (case ae_hash env raw of
        Inl e \<Rightarrow> Inl (wrap_error CodeSystemError KindSystem (utf8 [0x5BC6, 0x7801, 0x52A0, 0x5BC6, 0x5931, 0x8D25]) e)
      | Inr h \<Rightarrow> Inr h)"

definition ensure_unique_user_fields :: "authz_db \<Rightarrow> int \<Rightarrow> string \<Rightarrow> string \<Rightarrow> string \<Rightarrow> unit result" where
  "ensure_unique_user_fields db user account email phone =
     if_ok (require (count_by_account db user account = 0) (params_error (utf8 [0x7528, 0x6237, 0x540D, 0x5DF2, 0x5B58, 0x5728]))) (\<lambda>_.
     if_ok (require (blank email \<or> validate_email email) (params_error (utf8 [0x90AE, 0x7BB1, 0x683C, 0x5F0F, 0x9519, 0x8BEF]))) (\<lambda>_.
     if_ok (require (count_by_email db user email = 0) (params_error (utf8 [0x90AE, 0x7BB1, 0x5DF2, 0x5B58, 0x5728]))) (\<lambda>_.
     if_ok (require (blank phone \<or> validate_phone phone) (params_error (utf8 [0x624B, 0x673A, 0x53F7, 0x683C, 0x5F0F, 0x9519, 0x8BEF]))) (\<lambda>_.
       require (count_by_phone db user phone = 0) (params_error (utf8 [0x624B, 0x673A, 0x53F7, 0x5DF2, 0x5B58, 0x5728]))))))"

section \<open>Subjects that register themselves\<close>

definition find_subject_by_id :: "authz_db \<Rightarrow> int \<Rightarrow> user_row option result" where
  "find_subject_by_id db user = (if user \<le> 0 then Inl user_id_required else Inr (find_subject db user))"

text \<open>A subject that is not enabled, or locked, is not found by its email.\<close>

definition find_subject_by_email :: "authz_db \<Rightarrow> time \<Rightarrow> string \<Rightarrow> user_row option result" where
  "find_subject_by_email db now email =
     if_ok (find_row_by_email db email) (\<lambda>found.
       case found of
         None \<Rightarrow> Inr None
       | Some r \<Rightarrow> Inr (if user_enabled (us_status r) \<and> \<not> user_locked (us_status r) (us_unseal r) now
                        then Some r else None))"

definition external_account_name :: "'w account_env \<Rightarrow> string \<Rightarrow> string" where
  "external_account_name env email = CHR ''u'' # take 15 (ae_sha256_hex env (to_lower (trim_space email)))"

record subject_command =
  sc_account :: string
  sc_nick :: string
  sc_email :: string
  sc_password :: string
  sc_avatar :: string
  sc_roles :: "int list"
  sc_posts :: "int list"
  sc_org :: "int option"
  sc_dept :: "int option"
  sc_disable_merge :: bool

definition default_unit :: "int option \<Rightarrow> int list" where
  "default_unit i = (case i of None \<Rightarrow> [] | Some v \<Rightarrow> if 0 < v then [v] else [])"

definition first_or_zero :: "int list \<Rightarrow> int" where
  "first_or_zero ids = (case ids of [] \<Rightarrow> 0 | i # _ \<Rightarrow> i)"

text \<open>What follows the insertion of a subject: its default roles and the units it belongs to.\<close>

definition provision_defaults :: "'w account_env \<Rightarrow> subject_command \<Rightarrow> (unit, 'w) account_body" where
  "provision_defaults env c =
     (let user = ae_user_id env; roles = unique_int64 (sc_roles c); posts = unique_int64 (sc_posts c);
          orgs = default_unit (sc_org c); depts = default_unit (sc_dept c);
          skip = checked (Inr ())
      in seq_body (if roles = [] then skip
                   else if \<not> ae_has_roles env then checked (Inl roles_unbound)
                   else on_db (assign_provisioned_user_roles (ae_authz env) user roles)) (\<lambda>_.
         seq_body (if orgs = [] then skip else on_db (replace_user_orgs user orgs (first_or_zero orgs))) (\<lambda>_.
         seq_body (if depts = [] then skip else on_db (replace_user_depts user depts (first_or_zero depts))) (\<lambda>_.
           if posts = [] then skip else on_db (replace_user_posts user posts 0)))))"

definition no_user_ids :: "string \<Rightarrow> go_error" where
  "no_user_ids what = system_error (what @ (utf8 [0x672A, 0x914D, 0x7F6E]))"

definition external_subject_checks ::
    "'w account_env \<Rightarrow> time \<Rightarrow> subject_command \<Rightarrow> authz_db \<Rightarrow> (user_row + string \<times> string) result" where
  "external_subject_checks env now c seen =
     (let email = to_lower (trim_space (sc_email c))
      in if email = [] \<or> \<not> validate_email email then Inl (params_error (utf8 [0x5916, 0x90E8, 0x767B, 0x5F55, 0x90AE, 0x7BB1, 0x65E0, 0x6548]))
         else if \<not> ae_has_ids env then Inl (no_user_ids ''user id generator'')
         else if_ok (if sc_disable_merge c then Inr None else find_subject_by_email seen now email) (\<lambda>existing.
           case existing of
             Some r \<Rightarrow> Inr (Inl r)
           | None \<Rightarrow>
               let account = (if validate_account (sc_account c) then trim_space (sc_account c)
                              else external_account_name env email);
                   unique_email = (if sc_disable_merge c then [] else email)
               in if_ok (ensure_unique_user_fields seen 0 account unique_email []) (\<lambda>_. Inr (Inr (account, email)))))"

definition create_external_subject ::
    "'w account_env \<Rightarrow> time \<Rightarrow> subject_command \<Rightarrow> authz_db \<Rightarrow> (user_row option, 'w) account_body" where
  "create_external_subject env now c seen m w =
     then_do (external_subject_checks env now c seen, w) (\<lambda>decision w0.
       case decision of
         Inl r \<Rightarrow> (Inr (Some r), w0)
       | Inr (account, email) \<Rightarrow>
           let nick = (if blank (sc_nick c) then email else trim_space (sc_nick c)); user = ae_user_id env
           in then_do (account_mutation env (seq_body
                  (on_db (\<lambda>_. create_subject_row (az_dup (ae_authz env)) user account nick email (sc_avatar c)))
                  (\<lambda>_. provision_defaults env c)) m w0)
                (\<lambda>_ w1. (find_subject_by_id (ac_db w1) user, w1)))"

definition form_subject_checks :: "'w account_env \<Rightarrow> subject_command \<Rightarrow> authz_db \<Rightarrow> (string \<times> string \<times> string \<times> string) result" where
  "form_subject_checks env c seen =
     (let account = trim_space (sc_account c); email = to_lower (trim_space (sc_email c));
          nick = (if blank (sc_nick c) then account else trim_space (sc_nick c))
      in if \<not> ae_has_credentials env \<or> \<not> ae_has_password env then Inl (no_user_ids ''user registration password credential'')
         else if \<not> ae_has_ids env then Inl (no_user_ids ''user registration id generator'')
         else if account = [] then Inl (params_error (utf8 [0x7528, 0x6237, 0x540D, 0x4E0D, 0x80FD, 0x4E3A, 0x7A7A]))
         else if \<not> validate_account account then Inl (params_error (utf8 [0x7528, 0x6237, 0x540D, 0x683C, 0x5F0F, 0x9519, 0x8BEF]))
         else if email = [] \<or> \<not> validate_email email then Inl (params_error (utf8 [0x90AE, 0x7BB1, 0x683C, 0x5F0F, 0x9519, 0x8BEF]))
         else if \<not> validate_password (sc_password c) then Inl (params_error (utf8 [0x5BC6, 0x7801, 0x4E0D, 0x7B26, 0x5408, 0x8981, 0x6C42]))
         else case ensure_unique_user_fields seen 0 account email [] of
                Inl _ \<Rightarrow> Inl (operation_error (utf8 [0x6CE8, 0x518C, 0x4FE1, 0x606F, 0x4E0D, 0x53EF, 0x7528, 0x6216, 0x5DF2, 0x88AB, 0x5360, 0x7528]))
              | Inr _ \<Rightarrow>
                  if 30 < rune_count nick then Inl (params_error (utf8 [0x7528, 0x6237, 0x6635, 0x79F0, 0x4E0D, 0x80FD, 0x8D85, 0x8FC7] @ '' 30 '' @ utf8 [0x4E2A, 0x5B57, 0x7B26]))
                  else if_ok (hash_password env (sc_password c)) (\<lambda>hash. Inr (account, email, nick, hash)))"

definition create_form_subject ::
    "'w account_env \<Rightarrow> time \<Rightarrow> subject_command \<Rightarrow> authz_db \<Rightarrow> (user_row option, 'w) account_body" where
  "create_form_subject env now c seen m w =
     then_do (form_subject_checks env c seen, w) (\<lambda>(account, email, nick, hash) w0.
       let user = ae_user_id env
       in then_do (account_mutation env (seq_body
              (on_db (\<lambda>_. create_subject_row (az_dup (ae_authz env)) user account nick email []))
              (\<lambda>_. seq_body (store_password env now user hash None) (\<lambda>_. provision_defaults env c))) m w0)
            (\<lambda>_ w1. (find_subject_by_id (ac_db w1) user, w1)))"

end
