(* ===== verification/User_Admin.thy ===== *)
theory User_Admin
  imports User_Accounts
begin

text \<open>
  The administration of accounts and what users change of their own
  (\<open>app/system/user/application/service.go\<close>, lines 391 to 1216).
\<close>

section \<open>Profiles\<close>

definition self_required :: go_error where "self_required = unauthorized (utf8 [0x672A, 0x767B, 0x5F55, 0x6216, 0x767B, 0x5F55, 0x4FE1, 0x606F, 0x5931, 0x6548])"
definition self_missing :: go_error where "self_missing = not_found (utf8 [0x5F53, 0x524D, 0x7528, 0x6237, 0x4E0D, 0x5B58, 0x5728])"

definition sanitize_optional :: "string option \<Rightarrow> string option" where
  "sanitize_optional = map_option trim_space"

definition phone_text :: "user_row \<Rightarrow> string" where
  "phone_text r = (case us_phone r of None \<Rightarrow> [] | Some p \<Rightarrow> p)"

definition phone_to_store :: "authz_db \<Rightarrow> int \<Rightarrow> user_row \<Rightarrow> string option \<Rightarrow> string option result" where
  "phone_to_store seen user r phone =
     (case phone of
        None \<Rightarrow> Inr None
      | Some p \<Rightarrow>
          let t = trim_space p
          in if t = [] \<or> t = phone_text r then Inr None
             else if \<not> validate_phone t then Inl (params_error (utf8 [0x624B, 0x673A, 0x53F7, 0x683C, 0x5F0F, 0x9519, 0x8BEF]))
             else if 0 < count_by_phone seen user t then Inl (params_error (utf8 [0x624B, 0x673A, 0x53F7, 0x5DF2, 0x5B58, 0x5728]))
             else Inr (Some t))"

definition update_self_profile ::
    "int \<Rightarrow> string option \<Rightarrow> string option \<Rightarrow> string option \<Rightarrow> string option \<Rightarrow> authz_db \<Rightarrow> (unit, 'w) account_body" where
  "update_self_profile user nick phone avatar profile seen m w =
     then_do (if user \<le> 0 then Inl self_required
              else case find_subject seen user of
                     None \<Rightarrow> Inl self_missing
                   | Some r \<Rightarrow> phone_to_store seen user r phone, w) (\<lambda>stored.
       on_db (change_db (update_profile user (sanitize_optional nick) stored (sanitize_optional avatar) profile)) m)"

definition update_self_email :: "int \<Rightarrow> string \<Rightarrow> authz_db \<Rightarrow> (unit, 'w) account_body" where
  "update_self_email user email seen m w =
     then_do (if user \<le> 0 then Inl self_required
              else case find_subject seen user of
                     None \<Rightarrow> Inl self_missing
                   | Some r \<Rightarrow>
                       let e = trim_space email
                       in if e = [] then Inl (params_error (utf8 [0x65B0, 0x90AE, 0x7BB1, 0x4E0D, 0x80FD, 0x4E3A, 0x7A7A]))
                          else if \<not> validate_email e then Inl (params_error (utf8 [0x90AE, 0x7BB1, 0x683C, 0x5F0F, 0x9519, 0x8BEF]))
                          else if e = trim_space (us_email r) then Inl (params_error (utf8 [0x65B0, 0x65E7, 0x90AE, 0x7BB1, 0x4E0D, 0x80FD, 0x4E00, 0x81F4]))
                          else require (count_by_email seen user e = 0) (params_error (utf8 [0x90AE, 0x7BB1, 0x5DF2, 0x5B58, 0x5728])), w) (\<lambda>_.
       on_db (change_db (update_email user (trim_space email))) m)"

record external_profile =
  xp_user :: int
  xp_nick :: string
  xp_login :: string
  xp_avatar :: string
  xp_email :: string
  xp_verified :: bool

text \<open>The profile is written before the email is looked at; each is a statement of its own.\<close>

definition sync_external_profile :: "external_profile \<Rightarrow> authz_db \<Rightarrow> (unit, 'w) account_body" where
  "sync_external_profile c seen m w =
     then_do (if xp_user c \<le> 0 then Inl user_id_required
              else case find_subject seen (xp_user c) of None \<Rightarrow> Inl self_missing | Some r \<Rightarrow> Inr r, w) (\<lambda>r w0.
       let nick = (if blank (xp_nick c) then trim_space (xp_login c) else trim_space (xp_nick c));
           avatar = trim_space (xp_avatar c);
           email = to_lower (trim_space (xp_email c))
       in then_do (on_db (change_db (update_profile (xp_user c)
                (if nick \<noteq> [] \<and> nick \<noteq> trim_space (us_nick r) then Some nick else None) None
                (if avatar \<noteq> [] \<and> avatar \<noteq> trim_space (us_avatar r) then Some avatar else None) None)) m w0) (\<lambda>_ w1.
            if \<not> xp_verified c \<or> email = [] \<or> email = to_lower (trim_space (us_email r)) \<or> \<not> validate_email email
                \<or> 0 < count_by_email (ac_db w1) (xp_user c) email
              then (Inr (), w1)
            else on_db (change_db (update_email (xp_user c) email)) m w1))"

section \<open>Passwords and locks\<close>

definition verify_password ::
    "'w account_env \<Rightarrow> (string \<Rightarrow> string \<Rightarrow> bool) \<Rightarrow> int \<Rightarrow> string \<Rightarrow> 'w accounts \<Rightarrow> bool result" where
  "verify_password env matches user raw w =
     (if user \<le> 0 \<or> blank raw then Inr False
      else if \<not> ae_has_credentials env \<or> \<not> ae_has_password env then Inl (no_user_ids ''password verification'')
      else if_ok (find_active_password user (ac_credentials w)) (\<lambda>found.
        case found of None \<Rightarrow> Inr False | Some r \<Rightarrow> Inr (matches raw (cr_hash r))))"

definition password_checks :: "'w account_env \<Rightarrow> int \<Rightarrow> string \<Rightarrow> string result" where
  "password_checks env user raw =
     (if user \<le> 0 then Inl (params_error (utf8 [0x7528, 0x6237, 0x4E0D, 0x5B58, 0x5728]))
      else if \<not> ae_has_credentials env \<or> \<not> ae_has_password env then Inl (no_user_ids ''password update'')
      else if \<not> validate_password raw then Inl (params_error (utf8 [0x5BC6, 0x7801, 0x4E0D, 0x7B26, 0x5408, 0x8981, 0x6C42]))
      else if \<not> ae_has_sessions env then Inl sessions_unbound
      else hash_password env raw)"

definition update_password :: "'w account_env \<Rightarrow> time \<Rightarrow> int \<Rightarrow> string \<Rightarrow> int \<Rightarrow> (unit, 'w) account_body" where
  "update_password env now user raw operator m w =
     then_do (password_checks env user raw, w) (\<lambda>hash.
       account_mutation env
         (seq_body (store_password env now user hash (pointer_int64 operator)) (\<lambda>_.
          seq_body (revoke_of_user env now user) (\<lambda>_. checked (Inr ())))) m)"

definition reset_admin_user_password :: "'w account_env \<Rightarrow> time \<Rightarrow> int \<Rightarrow> string \<Rightarrow> int \<Rightarrow> (unit, 'w) account_body" where
  "reset_admin_user_password env now user raw operator m w =
     (if blank raw then (Inl (params_error (utf8 [0x65B0, 0x5BC6, 0x7801, 0x4E0D, 0x80FD, 0x4E3A, 0x7A7A])), w) else update_password env now user raw operator m w)"

text \<open>The statements of a new status: a user that is not normal any more loses the sessions.\<close>

definition status_guard :: "'w account_env \<Rightarrow> int \<Rightarrow> bool \<Rightarrow> (unit, 'w) account_body" where
  "status_guard env user leaves =
     (if leaves then seq_body (guard_deactivation env user) (\<lambda>_. checked (require (ae_has_sessions env) sessions_unbound))
      else checked (Inr ()))"

definition end_sessions :: "'w account_env \<Rightarrow> time \<Rightarrow> int \<Rightarrow> bool \<Rightarrow> (unit, 'w) account_body" where
  "end_sessions env now user leaves =
     (if leaves then seq_body (revoke_of_user env now user) (\<lambda>_. checked (Inr ())) else checked (Inr ()))"

definition lock_state_body :: "'w account_env \<Rightarrow> time \<Rightarrow> int \<Rightarrow> int \<Rightarrow> time option \<Rightarrow> (unit, 'w) account_body" where
  "lock_state_body env now user status unseal =
     seq_body (status_guard env user (status \<noteq> UserStatusNormal)) (\<lambda>_.
     seq_body (on_db (change_db (update_lock_state user status unseal))) (\<lambda>_.
       end_sessions env now user (status \<noteq> UserStatusNormal)))"

definition change_lock_state :: "'w account_env \<Rightarrow> time \<Rightarrow> int \<Rightarrow> int \<Rightarrow> time option \<Rightarrow> (unit, 'w) account_body" where
  "change_lock_state env now user status unseal m w =
     (if user \<le> 0 then (Inl user_id_required, w)
      else account_mutation env (lock_state_body env now user status unseal) m w)"

section \<open>Creating users\<close>

record created_user =
  cu_id :: int
  cu_account :: string
  cu_nick :: string

definition owner_checks :: "'w account_env \<Rightarrow> string \<Rightarrow> string \<Rightarrow> authz_db \<Rightarrow> string result" where
  "owner_checks env account_name raw seen =
     (let account = trim_space account_name
      in if \<not> ae_has_credentials env \<or> \<not> ae_has_password env then Inl (no_user_ids ''user provisioning password credential'')
         else if \<not> ae_has_ids env then Inl (no_user_ids ''user provisioning id generator'')
         else if account = [] then Inl (params_error (utf8 [0x7528, 0x6237, 0x540D, 0x4E0D, 0x80FD, 0x4E3A, 0x7A7A]))
         else if \<not> validate_account account then Inl (params_error (utf8 [0x7528, 0x6237, 0x540D, 0x683C, 0x5F0F, 0x9519, 0x8BEF]))
         else if \<not> validate_password raw then Inl (params_error (utf8 [0x5BC6, 0x7801, 0x4E0D, 0x7B26, 0x5408, 0x8981, 0x6C42]))
         else if find_subject_by_account seen account \<noteq> None then Inl (params_error (utf8 [0x7528, 0x6237, 0x540D, 0x5DF2, 0x5B58, 0x5728]))
         else hash_password env raw)"

definition create_owner_user ::
    "'w account_env \<Rightarrow> time \<Rightarrow> string \<Rightarrow> string \<Rightarrow> string \<Rightarrow> authz_db \<Rightarrow> (created_user, 'w) account_body" where
  "create_owner_user env now account_name nick_name raw seen m w =
     (let account = trim_space account_name; user = ae_user_id env;
          nick = (if blank nick_name then account else trim_space nick_name)
      in then_do (owner_checks env account_name raw seen, w) (\<lambda>hash w0.
         then_do (account_tx env (seq_body
                (on_db (\<lambda>_. create_owner_row (az_dup (ae_authz env)) user account nick))
                (\<lambda>_. store_password env now user hash (pointer_int64 user))) m w0)
           (\<lambda>_ w1. (Inr \<lparr>cu_id = user, cu_account = account, cu_nick = nick\<rparr>, w1))))"

record admin_user_command =
  au_id :: int
  au_username :: string
  au_password :: string
  au_nick :: string
  au_email :: string
  au_phone :: string
  au_remark :: "string option"
  au_status :: "int option"
  au_roles :: "int list"
  au_orgs :: "int list"
  au_depts :: "int list"
  au_posts :: "int list"
  au_operator :: int
  au_proof :: proof_metadata

definition remark_text :: "string option \<Rightarrow> string" where
  "remark_text r = (case r of None \<Rightarrow> [] | Some v \<Rightarrow> v)"

definition admin_user_checks ::
    "'w account_env \<Rightarrow> time \<Rightarrow> tx_mode \<Rightarrow> admin_user_command \<Rightarrow> authz_db \<Rightarrow> string result" where
  "admin_user_checks env now m c seen =
     (let account = trim_space (au_username c)
      in if account = [] then Inl (params_error (utf8 [0x7528, 0x6237, 0x540D, 0x4E0D, 0x80FD, 0x4E3A, 0x7A7A]))
         else if \<not> validate_account account then Inl (params_error (utf8 [0x7528, 0x6237, 0x540D, 0x683C, 0x5F0F, 0x9519, 0x8BEF]))
         else if \<not> validate_password (au_password c) then Inl (params_error (utf8 [0x5BC6, 0x7801, 0x4E0D, 0x7B26, 0x5408, 0x8981, 0x6C42]))
         else if_ok (if au_roles c = [] then Inr ()
                     else if \<not> ae_has_roles env then Inl roles_unbound
                     else validate_created_user_roles (ae_authz env) m seen now account (au_roles c) (au_operator c) (au_proof c)) (\<lambda>_.
              if \<not> ae_has_ids env then Inl (no_user_ids ''user admin id generator'')
              else if_ok (ensure_unique_user_fields seen 0 account (au_email c) (au_phone c)) (\<lambda>_.
                if \<not> valid_user_status (int_value (au_status c) 0) then Inl (params_error (utf8 [0x7528, 0x6237, 0x72B6, 0x6001, 0x9519, 0x8BEF]))
                else hash_password env (au_password c))))"

definition admin_user_body ::
    "'w account_env \<Rightarrow> time \<Rightarrow> admin_user_command \<Rightarrow> string \<Rightarrow> (unit, 'w) account_body" where
  "admin_user_body env now c hash =
     (let account = trim_space (au_username c); user = ae_user_id env;
          nick = (if blank (au_nick c) then account else trim_space (au_nick c))
      in seq_body (on_db (\<lambda>_. create_admin_row (az_dup (ae_authz env)) (az_null (ae_authz env)) user account nick
              (au_email c) (au_phone c) (remark_text (au_remark c)) (int_value (au_status c) 0))) (\<lambda>_.
         seq_body (if \<not> ae_has_credentials env then checked (Inl (no_user_ids ''password credential''))
                   else store_password env now user hash (pointer_int64 (au_operator c))) (\<lambda>_.
         seq_body (if au_roles c = [] then checked (Inr ())
                   else if \<not> ae_has_roles env then checked (Inl roles_unbound)
                   else on_db (assign_created_user_roles (ae_authz env) now user account (au_roles c) (au_operator c) (au_proof c))) (\<lambda>_.
         seq_body (on_db (replace_user_orgs user (au_orgs c) 0)) (\<lambda>_.
         seq_body (on_db (replace_user_depts user (au_depts c) 0)) (\<lambda>_.
           on_db (replace_user_posts user (au_posts c) 0)))))))"

definition create_admin_user ::
    "'w account_env \<Rightarrow> time \<Rightarrow> admin_user_command \<Rightarrow> authz_db \<Rightarrow> (int, 'w) account_body" where
  "create_admin_user env now c seen m w =
     then_do (admin_user_checks env now m c seen, w) (\<lambda>hash w0.
     then_do (account_mutation env (admin_user_body env now c hash) m w0) (\<lambda>_ w1. (Inr (ae_user_id env), w1)))"

section \<open>Changing and deleting users\<close>

definition admin_id_required :: go_error where "admin_id_required = params_error (utf8 [0x7528, 0x6237] @ ''ID'' @ utf8 [0x4E0D, 0x80FD, 0x4E3A, 0x7A7A])"
definition user_missing :: go_error where "user_missing = not_found (utf8 [0x7528, 0x6237, 0x4E0D, 0x5B58, 0x5728])"

definition or_existing :: "string \<Rightarrow> string \<Rightarrow> string" where
  "or_existing new old = (if blank new then old else trim_space new)"

definition update_admin_checks :: "admin_user_command \<Rightarrow> authz_db \<Rightarrow> (user_row \<times> int option) result" where
  "update_admin_checks c seen =
     (if au_id c \<le> 0 then Inl admin_id_required
      else case find_subject seen (au_id c) of
        None \<Rightarrow> Inl user_missing
      | Some r \<Rightarrow>
          if \<not> blank (au_username c) \<and> trim_space (au_username c) \<noteq> us_account r
            then Inl (params_error (utf8 [0x8D26, 0x53F7, 0x521B, 0x5EFA, 0x540E, 0x4E0D, 0x53EF, 0x4FEE, 0x6539]))
          else if_ok (ensure_unique_user_fields seen (au_id c) [] (or_existing (au_email c) (us_email r))
                        (or_existing (au_phone c) (phone_text r))) (\<lambda>_.
            let status = int_value (au_status c) (us_status r)
            in if \<not> valid_user_status status then Inl (params_error (utf8 [0x7528, 0x6237, 0x72B6, 0x6001, 0x9519, 0x8BEF]))
               else Inr (r, if au_status c \<noteq> None \<and> status \<noteq> us_status r then Some status else None)))"

definition leaves_normal :: "int option \<Rightarrow> bool" where
  "leaves_normal status \<longleftrightarrow> (case status of None \<Rightarrow> False | Some s \<Rightarrow> s \<noteq> UserStatusNormal)"

definition update_admin_body ::
    "'w account_env \<Rightarrow> time \<Rightarrow> admin_user_command \<Rightarrow> user_row \<Rightarrow> int option \<Rightarrow> (unit, 'w) account_body" where
  "update_admin_body env now c r status =
     seq_body (status_guard env (au_id c) (leaves_normal status)) (\<lambda>_.
     seq_body (on_db (\<lambda>_. update_admin_user (az_null (ae_authz env)) (au_id c) (or_existing (au_nick c) (us_nick r))
                 (or_existing (au_email c) (us_email r)) (or_existing (au_phone c) (phone_text r)) (au_remark c) status)) (\<lambda>_.
       end_sessions env now (au_id c) (leaves_normal status)))"

definition change_admin_user ::
    "'w account_env \<Rightarrow> time \<Rightarrow> admin_user_command \<Rightarrow> authz_db \<Rightarrow> (unit, 'w) account_body" where
  "change_admin_user env now c seen m w =
     then_do (update_admin_checks c seen, w) (\<lambda>(r, status). refreshed env (au_id c) (account_mutation env (update_admin_body env now c r status)) m)"

definition admin_delete_user_binding :: "int \<Rightarrow> string" where
  "admin_delete_user_binding user = ''user:'' @ show_int user @ ''|delete''"

definition admin_change_user_status_binding :: "int \<Rightarrow> int \<Rightarrow> string" where
  "admin_change_user_status_binding user status = ''user:'' @ show_int user @ ''|status:'' @ show_int status"

definition delete_user_body :: "'w account_env \<Rightarrow> time \<Rightarrow> int \<Rightarrow> (unit, 'w) account_body" where
  "delete_user_body env now user =
     seq_body (status_guard env user True) (\<lambda>_.
     seq_body (on_db (\<lambda>_. soft_delete_user (az_dup (ae_authz env)) user)) (\<lambda>_.
       end_sessions env now user True))"

definition delete_admin_user ::
    "'w account_env \<Rightarrow> time \<Rightarrow> int \<Rightarrow> int \<Rightarrow> proof_metadata \<Rightarrow> (unit, 'w) account_body" where
  "delete_admin_user env now user operator proof m w =
     then_do (if user \<le> 0 then Inl admin_id_required
              else if user = operator then Inl (operation_error (utf8 [0x4E0D, 0x80FD, 0x5220, 0x9664, 0x5F53, 0x524D, 0x7528, 0x6237]))
              else require_proof proof ''ADMIN_DELETE_USER'' (admin_delete_user_binding user), w) (\<lambda>_.
       refreshed env user (account_mutation env (delete_user_body env now user)) m)"

definition update_admin_user_status ::
    "'w account_env \<Rightarrow> time \<Rightarrow> int \<Rightarrow> int \<Rightarrow> int \<Rightarrow> proof_metadata \<Rightarrow> (unit, 'w) account_body" where
  "update_admin_user_status env now user status operator proof m w =
     then_do (if user \<le> 0 then Inl admin_id_required
              else if user = operator then Inl (operation_error (utf8 [0x4E0D, 0x80FD, 0x4FEE, 0x6539, 0x5F53, 0x524D, 0x7528, 0x6237, 0x72B6, 0x6001]))
              else if \<not> valid_user_status status then Inl (params_error (utf8 [0x7528, 0x6237, 0x72B6, 0x6001, 0x9519, 0x8BEF]))
              else require_proof proof ''ADMIN_CHANGE_USER_STATUS'' (admin_change_user_status_binding user status), w) (\<lambda>_.
       refreshed env user (account_mutation env (lock_state_body env now user status None)) m)"

section \<open>The status a node manages\<close>

definition get_managed_user_status_snapshot :: "authz_db \<Rightarrow> int \<Rightarrow> (int \<times> nat) result" where
  "get_managed_user_status_snapshot db user =
     (if user \<le> 0 then Inl admin_id_required
      else case find_subject db user of None \<Rightarrow> Inl user_missing | Some r \<Rightarrow> Inr (us_status r, us_version r))"

record managed_status_command =
  ms_user :: int
  ms_expected :: int
  ms_version :: nat
  ms_status :: int
  ms_cutoff :: time
  ms_hash :: string

definition accepted_replay :: "managed_status_command \<Rightarrow> user_row \<Rightarrow> bool" where
  "accepted_replay c r \<longleftrightarrow>
     ms_version c < 2 ^ 64 - 1 \<and> us_status r = ms_status c \<and> us_version r = ms_version c + 1
     \<and> (case us_hash r of None \<Rightarrow> [] | Some h \<Rightarrow> h) = ms_hash c"

definition managed_status_checks :: "managed_status_command \<Rightarrow> unit result" where
  "managed_status_checks c =
     (if ms_user c \<le> 0 then Inl admin_id_required
      else if \<not> valid_user_status (ms_status c) then Inl (params_error (utf8 [0x7528, 0x6237, 0x72B6, 0x6001, 0x9519, 0x8BEF]))
      else if \<not> valid_user_status (ms_expected c) then Inl (params_error (utf8 [0x7528, 0x6237, 0x72B6, 0x6001, 0x524D, 0x7F6E, 0x6761, 0x4EF6, 0x9519, 0x8BEF]))
      else if \<not> valid_status_command_hash (ms_hash c) then Inl (params_error (utf8 [0x7528, 0x6237, 0x72B6, 0x6001, 0x547D, 0x4EE4, 0x6807, 0x8BC6, 0x65E0, 0x6548]))
      else require (ms_status c = UserStatusNormal \<or> \<not> is_zero_time (ms_cutoff c))
             (params_error (utf8 [0x7528, 0x6237, 0x4F1A, 0x8BDD, 0x64A4, 0x9500, 0x622A, 0x6B62, 0x6761, 0x4EF6, 0x65E0, 0x6548])))"

definition managed_revoke :: "'w account_env \<Rightarrow> time \<Rightarrow> managed_status_command \<Rightarrow> (unit, 'w) account_body" where
  "managed_revoke env now c =
     (if ms_status c = UserStatusNormal then checked (Inr ())
      else seq_body (revoke_of_user_before env now (ms_user c) (ms_cutoff c)) (\<lambda>_. checked (Inr ())))"

definition managed_guard :: "'w account_env \<Rightarrow> managed_status_command \<Rightarrow> (unit, 'w) account_body" where
  "managed_guard env c =
     (if ms_status c = UserStatusNormal then checked (Inr ())
      else seq_body (guard_deactivation env (ms_user c)) (\<lambda>_.
        checked (require (ae_has_managed env) (service_unavailable (utf8 [0x4F1A, 0x8BDD, 0x64A4, 0x9500, 0x80FD, 0x529B, 0x4E0D, 0x53EF, 0x7528])))))"

text \<open>A command whose precondition no longer holds is accepted again if it is the one that was applied last.\<close>

definition managed_replay :: "'w account_env \<Rightarrow> time \<Rightarrow> managed_status_command \<Rightarrow> (unit, 'w) account_body" where
  "managed_replay env now c m w =
     (case find_subject (ac_db w) (ms_user c) of
        None \<Rightarrow> (Inl user_missing, w)
      | Some r \<Rightarrow>
          if \<not> accepted_replay c r then (Inl (object_state_error (utf8 [0x7528, 0x6237, 0x72B6, 0x6001, 0x5DF2, 0x88AB, 0x66F4, 0x65B0, 0xFF0C, 0x8BF7, 0x91CD, 0x65B0, 0x63D0, 0x4EA4, 0x547D, 0x4EE4])), w)
          else managed_revoke env now c m w)"

definition managed_status_body :: "'w account_env \<Rightarrow> time \<Rightarrow> managed_status_command \<Rightarrow> (unit, 'w) account_body" where
  "managed_status_body env now c =
     seq_body (managed_guard env c) (\<lambda>_.
     seq_body (on_db (\<lambda>_ db. case compare_and_set_managed_user_status (ms_user c) (ms_expected c) (ms_version c)
                                    (ms_status c) None (ms_hash c) db of (ok, db1) \<Rightarrow> (Inr ok, db1))) (\<lambda>applied.
       if applied then managed_revoke env now c else managed_replay env now c))"

definition set_managed_user_status ::
    "'w account_env \<Rightarrow> time \<Rightarrow> managed_status_command \<Rightarrow> (int, 'w) account_body" where
  "set_managed_user_status env now c m w =
     then_do (managed_status_checks c, w) (\<lambda>_ w0.
     then_do (refreshed env (ms_user c) (account_mutation env (managed_status_body env now c)) m w0) (\<lambda>_ w1.
       (Inr (if ms_expected c \<noteq> ms_status c then 1 else 0), w1)))"

section \<open>The units of a user\<close>

definition ensure_relation_operator :: "'w account_env \<Rightarrow> authz_db \<Rightarrow> int \<Rightarrow> unit result" where
  "ensure_relation_operator env seen operator =
     (if operator \<le> 0 then Inl self_required
      else if \<not> ae_has_roles env then Inr ()
      else if_ok (is_authorization_root_user seen operator) (\<lambda>root.
        require root (forbidden (utf8 [0x4EC5, 0x8D85, 0x7EA7, 0x7BA1, 0x7406, 0x5458, 0x53EF, 0x7EF4, 0x62A4, 0x7528, 0x6237, 0x7EC4, 0x7EC7, 0x5173, 0x7CFB]))))"

definition assign_user_orgs ::
    "'w account_env \<Rightarrow> int \<Rightarrow> int list \<Rightarrow> int \<Rightarrow> int \<Rightarrow> authz_db \<Rightarrow> (unit, 'w) account_body" where
  "assign_user_orgs env user ids primary operator seen m w =
     then_do (ensure_relation_operator env seen operator, w) (\<lambda>_.
       refreshed env user (account_mutation env (on_db (replace_user_orgs user ids primary))) m)"

definition assign_user_depts ::
    "'w account_env \<Rightarrow> int \<Rightarrow> int list \<Rightarrow> int \<Rightarrow> int \<Rightarrow> authz_db \<Rightarrow> (unit, 'w) account_body" where
  "assign_user_depts env user ids primary operator seen m w =
     then_do (ensure_relation_operator env seen operator, w) (\<lambda>_.
       refreshed env user (account_mutation env (on_db (replace_user_depts user ids primary))) m)"

definition assign_user_posts ::
    "'w account_env \<Rightarrow> int \<Rightarrow> int list \<Rightarrow> int \<Rightarrow> int \<Rightarrow> authz_db \<Rightarrow> (unit, 'w) account_body" where
  "assign_user_posts env user ids primary operator seen m w =
     then_do (ensure_relation_operator env seen operator, w) (\<lambda>_.
       refreshed env user (account_mutation env (on_db (replace_user_posts user ids primary))) m)"

definition assign_roles_of_user ::
    "'w account_env \<Rightarrow> time \<Rightarrow> int \<Rightarrow> int list \<Rightarrow> int \<Rightarrow> proof_metadata \<Rightarrow> (unit, 'w) account_body" where
  "assign_roles_of_user env now user ids operator proof =
     (if \<not> ae_has_roles env then checked (Inl roles_unbound)
      else on_db (assign_user_roles (ae_authz env) now user ids operator proof))"

end
