(* ===== verification/Authz_Roots.thy ===== *)
theory Authz_Roots
  imports Authz_Grant
begin

text \<open>
  The security root: the users with an enabled account that hold the authorization root directly. The
  invariant \<open>roots_inv\<close> says that the root role exists once, is a system role and enabled, and that at
  least one such user exists. This theory shows that the assignment of roles to users keeps it; what
  an operation may do to the three tables the invariant reads is summed up in \<open>keeps_root\<close>.
\<close>

section \<open>The invariant\<close>

definition active_roots :: "authz_db \<Rightarrow> int set" where
  "active_roots db =
     {us_id u | u l r. u \<in> set (db_users db) \<and> \<not> us_deleted u \<and> us_status u = 0
        \<and> l \<in> set (db_user_roles db) \<and> ur_user l = us_id u \<and> \<not> ur_deleted l
        \<and> r \<in> set (db_roles db) \<and> ro_id r = ur_role l \<and> root_row r \<and> ro_status r = 0}"

text \<open>What the schema guarantees of the table of roles, and what the migrations put there.\<close>

definition roles_ok :: "role_row list \<Rightarrow> bool" where
  "roles_ok roles \<longleftrightarrow>
     distinct (map ro_id roles) \<and> (\<forall>r \<in> set roles. 0 < ro_id r)
     \<and> (\<forall>r \<in> set roles. ro_system_key r = [] \<or> ro_system_key r = AuthorizationRootSystemKey)
     \<and> (\<forall>r \<in> set roles. \<forall>r' \<in> set roles. root_row r \<and> root_row r' \<longrightarrow> r = r')
     \<and> (\<exists>r \<in> set roles. root_row r)
     \<and> (\<forall>r \<in> set roles. root_row r \<longrightarrow> is_system (as_role r) \<and> ro_status r = 0)"

definition roots_inv :: "authz_db \<Rightarrow> bool" where
  "roots_inv db \<longleftrightarrow> roles_ok (db_roles db) \<and> active_roots db \<noteq> {}"

lemma as_role_simps [simp]:
  "ro_id (as_role r) = ro_id r" "ro_system_key (as_role r) = ro_system_key r" "ro_type (as_role r) = ro_type r"
  "ro_status (as_role r) = ro_status r" "ro_code (as_role r) = ro_code r"
  "ro_data_scope (as_role r) = ro_data_scope r" "ro_revision (as_role r) = ro_revision r"
  by (simp_all add: as_role_def role_record.defs)

lemma root_key_recognized [simp]:
  "ro_system_key r = AuthorizationRootSystemKey \<Longrightarrow> is_authorization_root r"
  by (simp add: is_authorization_root_def trim_visible AuthorizationRootSystemKey_def visible_def)

lemma no_key_no_root [simp]: "ro_system_key r = [] \<Longrightarrow> \<not> is_authorization_root r"
  by (simp add: is_authorization_root_def AuthorizationRootSystemKey_def equal_fold_def to_lower_def)

text \<open>On such tables the test of the domain and the one of the queries agree.\<close>

lemma is_authorization_root_iff:
  assumes "roles_ok roles" "r \<in> set roles"
  shows "is_authorization_root (as_role r) \<longleftrightarrow> ro_system_key r = AuthorizationRootSystemKey"
proof -
  from assms consider "ro_system_key r = []" | "ro_system_key r = AuthorizationRootSystemKey"
    unfolding roles_ok_def by blast
  then show ?thesis
  proof cases
    case 1
    then show ?thesis by (simp add: AuthorizationRootSystemKey_def)
  qed simp
qed

lemma roles_ok_same_id:
  "roles_ok roles \<Longrightarrow> r \<in> set roles \<Longrightarrow> r' \<in> set roles \<Longrightarrow> ro_id r = ro_id r' \<Longrightarrow> r = r'"
  unfolding roles_ok_def distinct_map inj_on_def by blast

section \<open>The snapshot\<close>

lemma finite_active_roots [simp]: "finite (active_roots db)"
proof -
  have "active_roots db \<subseteq> us_id ` set (db_users db)" by (auto simp: active_roots_def)
  then show ?thesis using finite_subset by blast
qed

lemma active_roots_iff:
  "u \<in> active_roots db \<longleftrightarrow>
     (\<exists>x \<in> set (db_users db). us_id x = u \<and> \<not> us_deleted x \<and> us_status x = 0
        \<and> (\<exists>l \<in> set (db_user_roles db). ur_user l = u \<and> \<not> ur_deleted l
             \<and> (\<exists>r \<in> set (db_roles db). ro_id r = ur_role l \<and> root_row r \<and> ro_status r = 0)))"
  unfolding active_roots_def by blast

lemma set_root_user_ids:
  assumes "roles_ok (db_roles db)" "x \<in> set (db_roles db)" "root_row x"
  shows "set (root_user_ids db (ro_id x)) = active_roots db"
proof -
  have "(\<exists>r \<in> set (db_roles db). ro_id r = i \<and> ro_id r = ro_id x \<and> root_row r \<and> ro_status r = 0) \<longleftrightarrow>
      (\<exists>r \<in> set (db_roles db). ro_id r = i \<and> root_row r \<and> ro_status r = 0)" for i
    using assms unfolding roles_ok_def by blast
  then have "set (root_user_ids db (ro_id x)) =
      us_id ` {u \<in> set (db_users db). \<not> us_deleted u \<and> us_status u = 0
        \<and> (\<exists>l \<in> set (db_user_roles db). ur_user l = us_id u \<and> \<not> ur_deleted l
             \<and> (\<exists>r \<in> set (db_roles db). ro_id r = ur_role l \<and> root_row r \<and> ro_status r = 0))}"
    by (simp add: root_user_ids_def)
  also have "\<dots> = active_roots db" by (rule set_eqI) (simp only: active_roots_iff image_iff mem_Collect_eq, blast)
  finally show ?thesis .
qed

lemma lock_super_admin_invariant_root:
  assumes "roles_ok (db_roles db)"
  shows "sa_active_users (lock_super_admin_invariant db t) = card (active_roots db)"
    "sa_target_active (lock_super_admin_invariant db t) \<longleftrightarrow> t \<in> active_roots db"
proof -
  obtain x where x: "x \<in> set (db_roles db)" "root_row x" using assms unfolding roles_ok_def by blast
  then obtain y ys where y: "sort_key ro_id (filter root_row (db_roles db)) = y # ys"
    by (cases "sort_key ro_id (filter root_row (db_roles db))")
       (auto dest: arg_cong [where f = set])
  then have "y \<in> set (sort_key ro_id (filter root_row (db_roles db)))" by simp
  then have "y \<in> set (db_roles db)" "root_row y" by auto
  from set_root_user_ids [OF assms this]
  show "sa_active_users (lock_super_admin_invariant db t) = card (active_roots db)"
    "sa_target_active (lock_super_admin_invariant db t) \<longleftrightarrow> t \<in> active_roots db"
    by (simp_all add: lock_super_admin_invariant_def y Let_def length_remdups_card_conv)
qed

section \<open>Locked roles\<close>

lemma list_all2_map_eq: "list_all2 (\<lambda>r i. f r = i \<and> P r) rows ids \<longleftrightarrow> map f rows = ids \<and> (\<forall>r \<in> set rows. P r)"
  by (auto simp: list_all2_conv_all_nth list_eq_iff_nth_eq set_conv_nth)

lemma lock_role_parents_Inr:
  assumes "lock_role_parents db roles = Inr rows"
  shows "map ro_id rows = sort (unique_int64 roles)"
    "r \<in> set rows \<Longrightarrow> ro_status r = 0 \<and> (\<exists>x \<in> set (db_roles db). \<not> ro_deleted x \<and> r = as_role x)"
proof -
  have "map ro_id rows = sort (unique_int64 roles) \<and>
      (\<forall>r \<in> set rows. ro_status r = 0 \<and> (\<exists>x \<in> set (db_roles db). \<not> ro_deleted x \<and> r = as_role x))"
  proof (cases "unique_int64 roles = []")
    case True
    with assms show ?thesis by (simp add: lock_role_parents_def)
  next
    case False
    with assms show ?thesis
      by (auto simp: lock_role_parents_def Let_def if_ok_Inr lock_role_grants_def list_all2_map_eq
               split: if_splits)
  qed
  then show "map ro_id rows = sort (unique_int64 roles)"
    "r \<in> set rows \<Longrightarrow> ro_status r = 0 \<and> (\<exists>x \<in> set (db_roles db). \<not> ro_deleted x \<and> r = as_role x)"
    by auto
qed

lemma locked_root:
  assumes "roles_ok (db_roles db)" "lock_role_parents db roles = Inr rows"
    "x \<in> set (db_roles db)" "root_row x" "list_ex is_authorization_root rows"
  shows "ro_id x \<in> set roles"
proof -
  obtain r where r: "r \<in> set rows" "is_authorization_root r" using assms(5) by (auto simp: list_ex_iff)
  obtain y where y: "y \<in> set (db_roles db)" "\<not> ro_deleted y" "r = as_role y"
    using lock_role_parents_Inr(2) [OF assms(2) r(1)] by blast
  then have "root_row y" using is_authorization_root_iff [OF assms(1) y(1)] r(2) by (simp add: root_row_def)
  then have "y = x" using assms(1,3,4) y(1) unfolding roles_ok_def by blast
  moreover have "ro_id r \<in> set (map ro_id rows)" using r(1) by simp
  ultimately show ?thesis using y(3) by (simp add: lock_role_parents_Inr(1) [OF assms(2)])
qed

section \<open>Replacing the roles of a user\<close>

lemma active_roots_replace: "active_roots db - {user} \<subseteq> active_roots (replace_user_roles user roles db)"
  by (fastforce simp: active_roots_def replace_user_roles_def)

lemma active_roots_replaced:
  assumes "user \<in> active_roots db" "x \<in> set (db_roles db)" "root_row x" "ro_status x = 0" "0 < ro_id x"
    "ro_id x \<in> set roles"
  shows "user \<in> active_roots (replace_user_roles user roles db)"
proof -
  obtain u where u: "u \<in> set (db_users db)" "us_id u = user" "\<not> us_deleted u" "us_status u = 0"
    using assms(1) unfolding active_roots_def by blast
  let ?l = "\<lparr>ur_user = user, ur_role = ro_id x, ur_deleted = False\<rparr>"
  have "?l \<in> set (db_user_roles (replace_user_roles user roles db))"
    using assms(5,6) by (auto simp: replace_user_roles_def)
  then show ?thesis unfolding active_roots_def using u assms(2-4)
    by (auto simp: replace_user_roles_def intro!: exI [of _ u] exI [of _ ?l] exI [of _ x])
qed

lemma replace_user_roles_keeps:
  assumes inv: "roots_inv db"
    and guard: "user \<in> active_roots db \<Longrightarrow> (\<exists>x \<in> set (db_roles db). root_row x \<and> ro_id x \<in> set roles)
                  \<or> 1 < card (active_roots db)"
  shows "roots_inv (replace_user_roles user roles db)"
proof -
  let ?db = "replace_user_roles user roles db"
  have ok: "roles_ok (db_roles db)" and ne: "active_roots db \<noteq> {}" using inv by (auto simp: roots_inv_def)
  have "active_roots ?db \<noteq> {}"
  proof (cases "user \<in> active_roots db")
    case False
    with ne active_roots_replace [of db user roles] show ?thesis by blast
  next
    case True
    from guard [OF True] show ?thesis
    proof
      assume "\<exists>x \<in> set (db_roles db). root_row x \<and> ro_id x \<in> set roles"
      then obtain x where "x \<in> set (db_roles db)" "root_row x" "ro_id x \<in> set roles" by blast
      moreover from this ok have "ro_status x = 0" "0 < ro_id x" unfolding roles_ok_def by blast+
      ultimately show ?thesis using active_roots_replaced [OF True] by blast
    next
      assume "1 < card (active_roots db)"
      then have "active_roots db \<noteq> {user}" by auto
      with True active_roots_replace [of db user roles] show ?thesis by blast
    qed
  qed
  with ok show ?thesis by (simp add: roots_inv_def replace_user_roles_def)
qed

lemma assign_user_roles_within_policy_keeps:
  assumes inv: "roots_inv db"
    and run: "assign_user_roles_within_policy env now user roles operator m db = (Inr u, db')"
  shows "roots_inv db'"
proof -
  from run obtain locked where locked: "lock_role_parents db roles = Inr locked"
    and guard: "\<not> would_remove_last_user (lock_super_admin_invariant db user) (list_ex is_authorization_root locked)"
    and db': "db' = replace_user_roles user roles db"
    by (auto simp: assign_user_roles_within_policy_def then_do_Inr Let_def split: if_splits)
  have ok: "roles_ok (db_roles db)" using inv by (simp add: roots_inv_def)
  then obtain x where x: "x \<in> set (db_roles db)" "root_row x" unfolding roles_ok_def by blast
  have "(\<exists>x \<in> set (db_roles db). root_row x \<and> ro_id x \<in> set roles) \<or> 1 < card (active_roots db)"
    if "user \<in> active_roots db"
    using guard that locked_root [OF ok locked x] x
    by (auto simp: would_remove_last_user_def lock_super_admin_invariant_root [OF ok])
  with inv show ?thesis unfolding db' by (rule replace_user_roles_keeps)
qed

lemma bootstrap_owner_body_keeps:
  assumes "roots_inv db" "lock_role_parents db roles = Inr locked" "list_ex is_authorization_root locked"
  shows "roots_inv (replace_user_roles user roles db)"
proof (rule replace_user_roles_keeps [OF assms(1)])
  have ok: "roles_ok (db_roles db)" using assms(1) by (simp add: roots_inv_def)
  then obtain x where x: "x \<in> set (db_roles db)" "root_row x" unfolding roles_ok_def by blast
  with locked_root [OF ok assms(2) x assms(3)]
  show "(\<exists>x \<in> set (db_roles db). root_row x \<and> ro_id x \<in> set roles) \<or> 1 < card (active_roots db)" by blast
qed

section \<open>Operations that leave the root alone\<close>

text \<open>The columns of a role that the invariant reads.\<close>

definition role_identity :: "role_row \<Rightarrow> int \<times> string \<times> int \<times> int \<times> bool" where
  "role_identity r = (ro_id r, ro_system_key r, ro_type r, ro_status r, ro_deleted r)"

definition root_identity :: "role_row \<Rightarrow> int \<times> string \<times> int \<times> int \<times> bool" where
  "root_identity r =
     (if ro_system_key r = AuthorizationRootSystemKey then role_identity r
      else (ro_id r, ro_system_key r, 0, 0, True))"

text \<open>
  Users and their roles unchanged, and the table of roles changed row by row without touching the
  identity of the root, or extended by roles without a key.
\<close>

definition keeps_root :: "authz_db \<Rightarrow> authz_db \<Rightarrow> bool" where
  "keeps_root db db' \<longleftrightarrow>
     db_users db' = db_users db \<and> db_user_roles db' = db_user_roles db \<and>
     (\<exists>rows new. db_roles db' = rows @ new \<and> list_all2 (\<lambda>r r'. root_identity r' = root_identity r) (db_roles db) rows
        \<and> distinct (map ro_id (rows @ new)) \<and> (\<forall>r \<in> set new. 0 < ro_id r \<and> ro_system_key r = []))"

lemma keeps_root_same:
  assumes "roles_ok (db_roles db)" "db_users db' = db_users db" "db_user_roles db' = db_user_roles db"
    "db_roles db' = db_roles db"
  shows "keeps_root db db'"
  using assms unfolding keeps_root_def roles_ok_def
  by (intro conjI exI [of _ "db_roles db"] exI [of _ "[]"]) (auto intro!: list.rel_refl)

lemma keeps_root_update:
  assumes "roles_ok (db_roles db)" "db_users db' = db_users db" "db_user_roles db' = db_user_roles db"
    "db_roles db' = update_where P f (db_roles db)"
    "\<And>r. r \<in> set (db_roles db) \<Longrightarrow> P r \<Longrightarrow> root_identity (f r) = root_identity r \<and> ro_id (f r) = ro_id r"
  shows "keeps_root db db'"
proof -
  have "list_all2 (\<lambda>r r'. root_identity r' = root_identity r) (db_roles db) (db_roles db')"
    using assms(4,5) by (auto simp: list_all2_conv_all_nth)
  moreover have "map ro_id (db_roles db') = map ro_id (db_roles db)"
    using assms(4,5) by (auto simp: update_where_def)
  ultimately show ?thesis using assms(1-3) unfolding keeps_root_def roles_ok_def
    by (intro conjI exI [of _ "db_roles db'"] exI [of _ "[]"]) auto
qed

lemma root_identity_id: "root_identity r' = root_identity r \<Longrightarrow> ro_id r' = ro_id r \<and> ro_system_key r' = ro_system_key r"
  by (auto simp: root_identity_def role_identity_def split: if_splits)

lemma root_identity_root:
  "root_identity r' = root_identity r \<Longrightarrow>
     (root_row r' \<longleftrightarrow> root_row r) \<and> (root_row r \<longrightarrow> ro_status r' = ro_status r \<and> ro_type r' = ro_type r)"
  by (auto simp: root_identity_def role_identity_def root_row_def split: if_splits)

lemma keeps_root_inv:
  assumes "roots_inv db" "keeps_root db db'"
  shows "roots_inv db'"
proof -
  have ok: "roles_ok (db_roles db)" and ne: "active_roots db \<noteq> {}" using assms(1) by (auto simp: roots_inv_def)
  obtain rows new where rn: "db_users db' = db_users db" "db_user_roles db' = db_user_roles db"
      "db_roles db' = rows @ new" "list_all2 (\<lambda>r r'. root_identity r' = root_identity r) (db_roles db) rows"
      "distinct (map ro_id (rows @ new))" "\<forall>r \<in> set new. 0 < ro_id r \<and> ro_system_key r = []"
    using assms(2) unfolding keeps_root_def by blast
  have old: "\<exists>r \<in> set (db_roles db). root_identity r' = root_identity r" if row: "r' \<in> set rows" for r'
  proof -
    obtain i where "i < length rows" "r' = rows ! i" using row by (auto simp: in_set_conv_nth)
    with rn(4) show ?thesis by (auto simp: list_all2_conv_all_nth intro!: bexI [of _ "db_roles db ! i"])
  qed
  have forth: "\<exists>r' \<in> set rows. root_identity r' = root_identity r" if row: "r \<in> set (db_roles db)" for r
  proof -
    obtain i where "i < length (db_roles db)" "r = db_roles db ! i" using row by (auto simp: in_set_conv_nth)
    with rn(4) show ?thesis by (auto simp: list_all2_conv_all_nth intro!: bexI [of _ "rows ! i"])
  qed
  have fresh: "\<not> root_row r" if "r \<in> set new" for r
    using rn(6) that by (auto simp: root_row_def AuthorizationRootSystemKey_def)
  have "roles_ok (db_roles db')"
    unfolding roles_ok_def rn(3)
  proof (intro conjI ballI impI)
    show "distinct (map ro_id (rows @ new))" by (rule rn(5))
  next
    fix r assume "r \<in> set (rows @ new)"
    then consider "r \<in> set rows" | "r \<in> set new" by auto
    then show "0 < ro_id r"
    proof cases
      case 1
      from old [OF this] ok show ?thesis unfolding roles_ok_def using root_identity_id by metis
    qed (use rn(6) in auto)
  next
    fix r assume "r \<in> set (rows @ new)"
    then consider "r \<in> set rows" | "r \<in> set new" by auto
    then show "ro_system_key r = [] \<or> ro_system_key r = AuthorizationRootSystemKey"
    proof cases
      case 1
      from old [OF this] ok show ?thesis unfolding roles_ok_def using root_identity_id by metis
    qed (use rn(6) in auto)
  next
    fix r r' assume a: "r \<in> set (rows @ new)" "r' \<in> set (rows @ new)" "root_row r \<and> root_row r'"
    then have "r \<in> set rows" "r' \<in> set rows" using fresh by auto
    then obtain x x' where x: "x \<in> set (db_roles db)" "root_identity r = root_identity x"
        "x' \<in> set (db_roles db)" "root_identity r' = root_identity x'" using old by metis
    then have "root_row x" "root_row x'" using a(3) root_identity_root by blast+
    then have "x = x'" using ok x unfolding roles_ok_def by blast
    then have "ro_id r = ro_id r'" using x root_identity_id by metis
    with rn(5) a(1,2) show "r = r'" unfolding distinct_map inj_on_def by blast
  next
    obtain x where "x \<in> set (db_roles db)" "root_row x" using ok unfolding roles_ok_def by blast
    with forth root_identity_root show "\<exists>r \<in> set (rows @ new). root_row r" by (metis Un_iff set_append)
  next
    fix r assume a: "r \<in> set (rows @ new)" "root_row r"
    then have "r \<in> set rows" using fresh by auto
    then obtain x where x: "x \<in> set (db_roles db)" "root_identity r = root_identity x" using old by blast
    then have "root_row x" using a(2) root_identity_root by blast
    then have "is_system (as_role x)" "ro_status x = 0" using ok x(1) unfolding roles_ok_def by blast+
    with root_identity_root [OF x(2)] \<open>root_row x\<close>
    show "is_system (as_role r)" "ro_status r = 0" by (simp_all add: is_system_def)
  qed
  moreover have "active_roots db \<subseteq> active_roots db'"
  proof
    fix u assume "u \<in> active_roots db"
    then obtain us l r where w: "u = us_id us" "us \<in> set (db_users db)" "\<not> us_deleted us" "us_status us = 0"
        "l \<in> set (db_user_roles db)" "ur_user l = us_id us" "\<not> ur_deleted l"
        "r \<in> set (db_roles db)" "ro_id r = ur_role l" "root_row r" "ro_status r = 0"
      unfolding active_roots_def by blast
    obtain r' where r': "r' \<in> set rows" "root_identity r' = root_identity r" using forth [OF w(8)] by blast
    then have "ro_id r' = ur_role l" "root_row r'" "ro_status r' = 0"
      using root_identity_id [OF r'(2)] root_identity_root [OF r'(2)] w by auto
    with w r'(1) show "u \<in> active_roots db'"
      unfolding active_roots_def rn(1-3) by (auto intro!: exI [of _ us] exI [of _ l] exI [of _ r'])
  qed
  ultimately show ?thesis using ne unfolding roots_inv_def by blast
qed

end
