(* ===== verification/Authz_Admin.thy ===== *)
theory Authz_Admin
  imports Authz_Grant
begin

text \<open>
  The administration of roles, menus and permissions and the temporary permissions of users
  (\<open>app/authorization/application/service.go\<close>). As in \<open>Authz_Grant\<close>, \<open>seen\<close> is the state the reads before the
  transaction found. Operations that return the record they wrote read it after the transaction.
\<close>

section \<open>Roles\<close>

definition get_role :: "authz_db \<Rightarrow> int \<Rightarrow> role_record result" where
  "get_role db role =
     (if role \<le> 0 then Inl role_id_required
      else case find_role_by_id db role of None \<Rightarrow> Inl role_missing | Some r \<Rightarrow> Inr r)"

definition ensure_role_code_unique :: "authz_db \<Rightarrow> int \<Rightarrow> string \<Rightarrow> unit result" where
  "ensure_role_code_unique db role code =
     require (count_role_code_excluding db role code = 0) (operation_error (utf8 [0x89D2, 0x8272, 0x7F16, 0x7801, 0x5DF2, 0x5B58, 0x5728]))"

definition create_role :: "authz_env \<Rightarrow> role_command \<Rightarrow> (role_record, authz_db) tx_body" where
  "create_role env c m db =
     then_do (build_role_record c True, db) (\<lambda>r0 db0.
       if is_system r0 then (Inl (operation_error (utf8 [0x666E, 0x901A, 0x7BA1, 0x7406, 0x63A5, 0x53E3, 0x4E0D, 0x80FD, 0x521B, 0x5EFA] @ ''SYSTEM'' @ utf8 [0x89D2, 0x8272])), db0)
       else
         let r = r0\<lparr>ro_id := az_new_id env\<rparr>
         in then_do (authz_mutation env (\<lambda>_ db1.
                then_do (if_ok (lock_authorization_creation_guard db1) (\<lambda>_.
                           ensure_role_code_unique db1 (ro_id r) (ro_code r)), db1) (\<lambda>_ db2.
                  create_role_row (az_dup env) r db2)) m db0)
              (\<lambda>_ db3. (get_role db3 (ro_id r), db3)))"

definition update_role_body :: "role_command \<Rightarrow> (unit, authz_db) tx_body" where
  "update_role_body c m db =
     then_do (
       if_ok (lock_authorization_creation_guard db) (\<lambda>_.
         case lock_role_grant db (rc_id c) of
           None \<Rightarrow> Inl role_missing
         | Some existing \<Rightarrow>
             if_ok (build_role_record c False) (\<lambda>r0.
               let r = r0\<lparr>ro_id := rc_id c, ro_system_key := ro_system_key existing\<rparr>
               in if ro_data_scope existing \<noteq> ro_data_scope r
                    then Inl (operation_error (utf8 [0x89D2, 0x8272, 0x6570, 0x636E, 0x8303, 0x56F4, 0x8BF7, 0x901A, 0x8FC7, 0x7EDF, 0x4E00, 0x6388, 0x6743, 0x63A5, 0x53E3, 0x4FEE, 0x6539]))
                  else if protected_mutation existing r \<noteq> RoleProtectionNone
                    then Inl (system_role_protection_error (protected_mutation existing r))
                  else if is_active_super_admin existing \<and> \<not> is_active_super_admin r
                      \<and> would_remove_active_role (lock_super_admin_invariant db 0) existing r
                    then Inl last_super_admin_error
                  else if_ok (ensure_role_code_unique db (ro_id r) (ro_code r)) (\<lambda>_. Inr r))), db)
       (\<lambda>r db1. (Inr (), update_role_row r db1))"

definition update_role :: "authz_env \<Rightarrow> role_command \<Rightarrow> (role_record, authz_db) tx_body" where
  "update_role env c m db =
     (if rc_id c \<le> 0 then (Inl (params_error (utf8 [0x89D2, 0x8272] @ ''ID'' @ utf8 [0x4E0D, 0x80FD, 0x4E3A, 0x7A7A])), db)
      else then_do (authz_mutation env (update_role_body c) m db)
             (\<lambda>_ db1. (get_role db1 (rc_id c), db1)))"

definition delete_role_body :: "int \<Rightarrow> (unit, authz_db) tx_body" where
  "delete_role_body role m db =
     then_do (
       if_ok (lock_role_menu_mutation db role []) (\<lambda>(existing, menus).
         if is_system existing then Inl (operation_error (''SYSTEM'' @ utf8 [0x89D2, 0x8272, 0x4E0D, 0x53EF, 0x5220, 0x9664]))
         else if is_active_super_admin existing
             \<and> would_remove_active_role (lock_super_admin_invariant db 0) existing (existing\<lparr>ro_status := 1\<rparr>)
           then Inl last_super_admin_error
         else if 0 < count_user_role_references db role
           then Inl (operation_error (utf8 [0x8BE5, 0x89D2, 0x8272, 0x5DF2, 0x5206, 0x914D, 0x7ED9, 0x7528, 0x6237, 0xFF0C, 0x65E0, 0x6CD5, 0x5220, 0x9664]))
         else if 0 < count_post_role_references db role
           then Inl (operation_error (utf8 [0x8BE5, 0x89D2, 0x8272, 0x5DF2, 0x5206, 0x914D, 0x7ED9, 0x5C97, 0x4F4D, 0xFF0C, 0x65E0, 0x6CD5, 0x5220, 0x9664]))
         else Inr ()), db)
       (\<lambda>_ db1. (Inr (), delete_role_row role db1))"

definition delete_role :: "authz_env \<Rightarrow> int \<Rightarrow> (unit, authz_db) tx_body" where
  "delete_role env role m db =
     (if role \<le> 0 then (Inl role_id_required, db)
      else authz_mutation env (delete_role_body role) m db)"

definition advance_role_grant_revision :: "authz_env \<Rightarrow> int \<Rightarrow> (unit, authz_db) tx_body" where
  "advance_role_grant_revision env role m db =
     (if role \<le> 0 then (Inl role_id_required, db)
      else authz_mutation env (\<lambda>_ db1.
             (case lock_role_grant db1 role of
                None \<Rightarrow> (Inl role_missing, db1)
              | Some r \<Rightarrow> update_role_grant_revision role (ro_revision r) (ro_revision r + 1) db1)) m db)"

section \<open>Menus\<close>

definition menu_missing :: go_error where "menu_missing = not_found (utf8 [0x83DC, 0x5355, 0x4E0D, 0x5B58, 0x5728])"

definition menu_id_required :: go_error where "menu_id_required = params_error (''menuId'' @ utf8 [0x4E0D, 0x80FD, 0x4E3A, 0x7A7A])"

definition get_menu :: "authz_db \<Rightarrow> int \<Rightarrow> menu_record result" where
  "get_menu db menu =
     (if menu \<le> 0 then Inl menu_id_required
      else case find_menu_by_id db menu of None \<Rightarrow> Inl menu_missing | Some r \<Rightarrow> Inr r)"

definition ensure_menu_permission_unique :: "authz_db \<Rightarrow> int \<Rightarrow> string \<Rightarrow> unit result" where
  "ensure_menu_permission_unique db menu permission =
     require (count_menu_permission_excluding db menu permission = 0) (operation_error (utf8 [0x6743, 0x9650, 0x6807, 0x8BC6, 0x5DF2, 0x5B58, 0x5728]))"

definition menu_exists :: "authz_db \<Rightarrow> int \<Rightarrow> bool" where
  "menu_exists db menu \<longleftrightarrow> find_menu_by_id db menu \<noteq> None"

definition create_menu ::
    "authz_env \<Rightarrow> time \<Rightarrow> menu_command \<Rightarrow> authz_db \<Rightarrow> (menu_record, authz_db) tx_body" where
  "create_menu env now c seen m db =
     then_do (if_ok (build_menu_record c (menu_exists seen)) (\<lambda>r.
                if_ok (ensure_operator_can_grant_codes env m seen now (mc_operator c) [mn_permission r])
                  (\<lambda>_. Inr (r\<lparr>mn_id := az_new_id env\<rparr>))), db) (\<lambda>r db0.
     then_do (authz_mutation env (\<lambda>_ db1.
                then_do (if_ok (lock_authorization_creation_guard db1) (\<lambda>_.
                           ensure_menu_permission_unique db1 (mn_id r) (mn_permission r)), db1) (\<lambda>_ db2.
                  create_menu_row (az_dup env) r db2)) m db0)
       (\<lambda>_ db3. (get_menu db3 (mn_id r), db3)))"

text \<open>The roles that hold a menu or a permission, locked in ascending order.\<close>

definition lock_affected_roles :: "authz_db \<Rightarrow> int list \<Rightarrow> go_error \<Rightarrow> go_error \<Rightarrow> role_record list result" where
  "lock_affected_roles db roles too_many changed =
     (let affected = unique_int64 roles
      in if authorizationSetQueryMaxIDs < length affected then Inl too_many
         else if_ok (lock_role_grants db (sort affected)) (\<lambda>rows.
           if length rows \<noteq> length affected then Inl changed else Inr rows))"

definition locked_menu :: "authz_db \<Rightarrow> int \<Rightarrow> menu_record result" where
  "locked_menu db menu =
     if_ok (lock_menu_grants db [menu]) (\<lambda>rows.
       case rows of
         [r] \<Rightarrow> if mn_id r = menu then Inr r else Inl menu_missing
       | _ \<Rightarrow> Inl menu_missing)"

definition update_menu_body :: "menu_record \<Rightarrow> (unit, authz_db) tx_body" where
  "update_menu_body r m db =
     then_do (
       if_ok (locked_menu db (mn_id r)) (\<lambda>_.
       if_ok (lock_authorization_creation_guard db) (\<lambda>_.
       if_ok (ensure_menu_permission_unique db (mn_id r) (mn_permission r)) (\<lambda>_.
         lock_affected_roles db (list_role_ids_by_menu_id db (mn_id r))
           (operation_error (utf8 [0x83DC, 0x5355, 0x5173, 0x8054, 0x89D2, 0x8272, 0x6570, 0x91CF, 0x8D85, 0x8FC7, 0x5355, 0x6B21, 0x66F4, 0x65B0, 0x4E0A, 0x9650]))
           (object_state_error (utf8 [0x83DC, 0x5355, 0x5173, 0x8054, 0x89D2, 0x8272, 0x5DF2, 0x53D8, 0x5316, 0xFF0C, 0x8BF7, 0x91CD, 0x8BD5]))))), db)
       (\<lambda>roles db1. update_role_grant_revisions roles (update_menu_row r db1))"

definition update_menu_checks ::
    "authz_env \<Rightarrow> tx_mode \<Rightarrow> time \<Rightarrow> menu_command \<Rightarrow> authz_db \<Rightarrow> menu_record result" where
  "update_menu_checks env m now c seen =
     (if mc_id c \<le> 0 then Inl (params_error (utf8 [0x83DC, 0x5355] @ ''ID'' @ utf8 [0x4E0D, 0x80FD, 0x4E3A, 0x7A7A]))
      else if mc_parent c = mc_id c then Inl (params_error (utf8 [0x7236, 0x83DC, 0x5355, 0x4E0D, 0x80FD, 0x662F, 0x81EA, 0x8EAB]))
      else if \<not> menu_exists seen (mc_id c) then Inl menu_missing
      else if_ok (build_menu_record c (menu_exists seen)) (\<lambda>r0.
        let r = r0\<lparr>mn_id := mc_id c\<rparr>
        in if_ok (ensure_operator_can_grant_codes env m seen now (mc_operator c) [mn_permission r]) (\<lambda>_.
           if_ok (ensure_menu_permission_unique seen (mn_id r) (mn_permission r)) (\<lambda>_. Inr r))))"

definition update_menu ::
    "authz_env \<Rightarrow> time \<Rightarrow> menu_command \<Rightarrow> authz_db \<Rightarrow> (menu_record, authz_db) tx_body" where
  "update_menu env now c seen m db =
     then_do (update_menu_checks env m now c seen, db) (\<lambda>r db0.
     then_do (authz_mutation env (update_menu_body r) m db0) (\<lambda>_ db1. (get_menu db1 (mn_id r), db1)))"

definition delete_menu_body :: "authz_env \<Rightarrow> int \<Rightarrow> (unit, authz_db) tx_body" where
  "delete_menu_body env menu m db =
     then_do (
       if_ok (locked_menu db menu) (\<lambda>r.
         if \<not> feature_enabled (az_features env) (mn_feature r)
           then Inl (forbidden (utf8 [0x4E0D, 0x80FD, 0x4E3A, 0x672A, 0x542F, 0x7528, 0x529F, 0x80FD, 0x7684, 0x83DC, 0x5355, 0x5206, 0x914D, 0x6743, 0x9650]))
         else if 0 < count_menu_children db menu then Inl (operation_error (utf8 [0x5B58, 0x5728, 0x5B50, 0x83DC, 0x5355, 0xFF0C, 0x65E0, 0x6CD5, 0x5220, 0x9664]))
         else if 0 < count_role_menu_references db menu
           then Inl (operation_error (utf8 [0x8BE5, 0x83DC, 0x5355, 0x5DF2, 0x5206, 0x914D, 0x7ED9, 0x89D2, 0x8272, 0xFF0C, 0x65E0, 0x6CD5, 0x5220, 0x9664]))
         else Inr ()), db)
       (\<lambda>_ db1. (Inr (), delete_menu_row menu (delete_menu_permissions_by_menu menu db1)))"

definition delete_menu :: "authz_env \<Rightarrow> int \<Rightarrow> (unit, authz_db) tx_body" where
  "delete_menu env menu m db =
     (if menu \<le> 0 then (Inl menu_id_required, db) else authz_mutation env (delete_menu_body env menu) m db)"

section \<open>Permissions\<close>

definition permission_missing :: go_error where "permission_missing = not_found (utf8 [0x6743, 0x9650, 0x4E0D, 0x5B58, 0x5728])"

definition permission_id_required :: go_error where
  "permission_id_required = params_error (''permissionId'' @ utf8 [0x4E0D, 0x80FD, 0x4E3A, 0x7A7A])"

definition get_permission :: "authz_db \<Rightarrow> int \<Rightarrow> permission_record result" where
  "get_permission db permission =
     (if permission \<le> 0 then Inl permission_id_required
      else case find_permission_by_id db permission of None \<Rightarrow> Inl permission_missing | Some r \<Rightarrow> Inr r)"

definition ensure_permission_code_unique :: "authz_db \<Rightarrow> int \<Rightarrow> string \<Rightarrow> unit result" where
  "ensure_permission_code_unique db permission code =
     require (count_permission_code_excluding db permission code = 0) (operation_error (utf8 [0x6743, 0x9650, 0x7F16, 0x7801, 0x5DF2, 0x5B58, 0x5728]))"

definition create_permission ::
    "authz_env \<Rightarrow> time \<Rightarrow> permission_command \<Rightarrow> authz_db \<Rightarrow> (permission_record, authz_db) tx_body" where
  "create_permission env now c seen m db =
     then_do (if_ok (build_permission_record c) (\<lambda>r.
                if_ok (ensure_operator_can_grant_codes env m seen now (pc_operator c) [pm_code r])
                  (\<lambda>_. Inr (r\<lparr>pm_id := az_new_id env\<rparr>))), db) (\<lambda>r db0.
     then_do (authz_mutation env (\<lambda>_ db1.
                then_do (if_ok (lock_authorization_creation_guard db1) (\<lambda>_.
                           ensure_permission_code_unique db1 (pm_id r) (pm_code r)), db1) (\<lambda>_ db2.
                  create_permission_row (az_dup env) r db2)) m db0)
       (\<lambda>_ db3. (get_permission db3 (pm_id r), db3)))"

definition update_permission_checks ::
    "authz_env \<Rightarrow> tx_mode \<Rightarrow> time \<Rightarrow> int \<Rightarrow> permission_command \<Rightarrow> authz_db \<Rightarrow> permission_record result" where
  "update_permission_checks env m now permission c seen =
     (if permission \<le> 0 then Inl permission_id_required
      else if find_permission_by_id seen permission = None then Inl permission_missing
      else if_ok (build_permission_record c) (\<lambda>r0.
        let r = r0\<lparr>pm_id := permission\<rparr>
        in if_ok (ensure_operator_can_grant_codes env m seen now (pc_operator c) [pm_code r]) (\<lambda>_.
           if_ok (ensure_permission_code_unique seen (pm_id r) (pm_code r)) (\<lambda>_. Inr r))))"

definition update_permission_body :: "authz_env \<Rightarrow> permission_record \<Rightarrow> (unit, authz_db) tx_body" where
  "update_permission_body env r m db =
     then_do (
       if_ok (lock_permission_parents db [pm_id r]) (\<lambda>locked.
         if length locked \<noteq> 1 then Inl permission_missing
         else if_ok (lock_authorization_creation_guard db) (\<lambda>_.
              if_ok (ensure_permission_code_unique db (pm_id r) (pm_code r)) (\<lambda>_.
              if_ok (list_role_ids_by_permission_ids db [pm_id r]) (\<lambda>roles.
                lock_affected_roles db roles (operation_error (utf8 [0x6743, 0x9650, 0x5173, 0x8054, 0x89D2, 0x8272, 0x6570, 0x91CF, 0x8D85, 0x8FC7, 0x5355, 0x6B21, 0x66F4, 0x65B0, 0x4E0A, 0x9650]))
                  (object_state_error (utf8 [0x6743, 0x9650, 0x5173, 0x8054, 0x89D2, 0x8272, 0x5DF2, 0x53D8, 0x5316, 0xFF0C, 0x8BF7, 0x91CD, 0x8BD5])))))), db)
       (\<lambda>roles db1. then_do (update_permission_row (az_dup env) r db1) (\<lambda>_. update_role_grant_revisions roles))"

definition update_permission ::
    "authz_env \<Rightarrow> time \<Rightarrow> int \<Rightarrow> permission_command \<Rightarrow> authz_db \<Rightarrow> (permission_record, authz_db) tx_body" where
  "update_permission env now permission c seen m db =
     then_do (update_permission_checks env m now permission c seen, db) (\<lambda>r db0.
     then_do (authz_mutation env (update_permission_body env r) m db0)
       (\<lambda>_ db1. (get_permission db1 permission, db1)))"

definition delete_permission_body :: "int \<Rightarrow> (unit, authz_db) tx_body" where
  "delete_permission_body permission m db =
     then_do (
       if_ok (lock_permission_parents db [permission]) (\<lambda>_.
       if_ok (list_menu_ids_by_permission_ids db [permission]) (\<lambda>menus.
       if_ok (lock_menu_grants db (sort menus)) (\<lambda>locked.
         if length locked \<noteq> length menus then Inl (object_state_error (utf8 [0x6743, 0x9650, 0x5173, 0x8054, 0x83DC, 0x5355, 0x5DF2, 0x53D8, 0x5316, 0xFF0C, 0x8BF7, 0x91CD, 0x8BD5]))
         else if_ok (list_role_ids_by_permission_ids db [permission]) (\<lambda>roles.
           lock_affected_roles db roles (operation_error (utf8 [0x6743, 0x9650, 0x5173, 0x8054, 0x89D2, 0x8272, 0x6570, 0x91CF, 0x8D85, 0x8FC7, 0x5355, 0x6B21, 0x5220, 0x9664, 0x4E0A, 0x9650]))
             (object_state_error (utf8 [0x6743, 0x9650, 0x5173, 0x8054, 0x89D2, 0x8272, 0x5DF2, 0x53D8, 0x5316, 0xFF0C, 0x8BF7, 0x91CD, 0x8BD5])))))), db)
       (\<lambda>roles db1. update_role_grant_revisions roles
                      (delete_permission_row permission (soft_delete_user_permissions permission db1)))"

definition delete_permission :: "authz_env \<Rightarrow> int \<Rightarrow> (unit, authz_db) tx_body" where
  "delete_permission env permission m db =
     (if permission \<le> 0 then (Inl permission_id_required, db)
      else authz_mutation env (delete_permission_body permission) m db)"

section \<open>Permissions of a menu\<close>

definition bind_menu_permissions_checks ::
    "authz_env \<Rightarrow> tx_mode \<Rightarrow> time \<Rightarrow> int \<Rightarrow> int list \<Rightarrow> int \<Rightarrow> authz_db \<Rightarrow> int list result" where
  "bind_menu_permissions_checks env m now menu permissions operator seen =
     (case find_menu_by_id seen menu of
        None \<Rightarrow> Inl menu_missing
      | Some r \<Rightarrow>
          if \<not> feature_enabled (az_features env) (mn_feature r)
            then Inl (forbidden (utf8 [0x4E0D, 0x80FD, 0x4E3A, 0x672A, 0x542F, 0x7528, 0x529F, 0x80FD, 0x7684, 0x83DC, 0x5355, 0x5206, 0x914D, 0x6743, 0x9650]))
          else if_ok (ensure_permissions_exist seen permissions) (\<lambda>_.
               if_ok (ensure_permission_features_enabled env seen permissions) (\<lambda>_.
               if_ok (ensure_operator_can_grant_ids env m seen now operator permissions) (\<lambda>_.
               if_ok (list_menu_permission_ids seen [menu]) (\<lambda>observed.
                 Inr (unique_int64 (permissions @ observed)))))))"

record derived_plan =
  pl_roles :: "role_record list"
  pl_permissions :: "int list"
  pl_assignments :: "role_permission_assignment list"

definition roles_of_menu_missing :: go_error where
  "roles_of_menu_missing = not_found (utf8 [0x5173, 0x8054, 0x89D2, 0x8272, 0x4E0D, 0x5B58, 0x5728])"

text \<open>What the transaction decides to write, from the relations it reads.\<close>

definition plan_derived ::
    "authz_env \<Rightarrow> authz_db \<Rightarrow> int \<Rightarrow> int list \<Rightarrow> int list \<Rightarrow> role_record list \<Rightarrow> derived_plan result" where
  "plan_derived env db menu permissions guard roles =
     (let locked = map ro_id roles
      in if_ok (list_role_menu_ids_by_role_ids db locked) (\<lambda>role_menus.
         if_ok (list_direct_role_permission_ids db locked) (\<lambda>direct.
           let all_menus = unique_int64 (menu # map snd role_menus)
           in if authorizationDerivedRelationMax < length (concat (map (\<lambda>r. unique_int64 (slice_of role_menus r)) locked))
                then Inl (operation_error (utf8 [0x89D2, 0x8272, 0x83DC, 0x5355, 0x5173, 0x7CFB, 0x6570, 0x91CF, 0x8D85, 0x8FC7, 0x5355, 0x6B21, 0x6D3E, 0x751F, 0x6388, 0x6743, 0x4E0A, 0x9650]))
              else if authorizationSetQueryMaxIDs < length all_menus
                then Inl (operation_error (utf8 [0x6D3E, 0x751F, 0x6388, 0x6743, 0x83DC, 0x5355, 0x6570, 0x91CF, 0x8D85, 0x8FC7, 0x5355, 0x6B21, 0x4E0A, 0x9650]))
              else if_ok (list_menu_permission_ids_by_menu_ids db all_menus) (\<lambda>menu_permissions.
                if \<not> list_all (\<lambda>p. p \<in> set guard) (unique_int64 (slice_of menu_permissions menu))
                  then Inl (object_state_error (utf8 [0x83DC, 0x5355, 0x6743, 0x9650, 0x5173, 0x7CFB, 0x5DF2, 0x5E76, 0x53D1, 0x53D8, 0x5316, 0xFF0C, 0x8BF7, 0x91CD, 0x8BD5]))
                else if authorizationDerivedRelationMax
                    < length (concat (map (\<lambda>i. unique_int64 (slice_of menu_permissions i)) all_menus))
                  then Inl (operation_error (utf8 [0x83DC, 0x5355, 0x6743, 0x9650, 0x5173, 0x7CFB, 0x6570, 0x91CF, 0x8D85, 0x8FC7, 0x5355, 0x6B21, 0x6D3E, 0x751F, 0x6388, 0x6743, 0x4E0A, 0x9650]))
                else
                  let next_permissions = unique_int64 (permissions
                        @ disabled_permission_ids env db (slice_of menu_permissions menu));
                      of_menu = (\<lambda>i. if i = menu then next_permissions else slice_of menu_permissions i);
                      assignments = map (\<lambda>r. \<lparr>as_role_id = r, as_direct = unique_int64 (slice_of direct r),
                        as_derived = unique_int64 (concat (map of_menu (unique_int64 (slice_of role_menus r))))\<rparr>) locked
                  in if authorizationDerivedRelationMax < length (concat (map as_derived assignments))
                       then Inl (operation_error (utf8 [0x89D2, 0x8272, 0x6D3E, 0x751F, 0x6743, 0x9650, 0x5173, 0x7CFB, 0x6570, 0x91CF, 0x8D85, 0x8FC7, 0x5355, 0x6B21, 0x66F4, 0x65B0, 0x4E0A, 0x9650]))
                     else Inr \<lparr>pl_roles = roles, pl_permissions = next_permissions,
                               pl_assignments = assignments\<rparr>))))"

definition bind_menu_permissions_body ::
    "authz_env \<Rightarrow> time \<Rightarrow> int \<Rightarrow> int list \<Rightarrow> int \<Rightarrow> int list \<Rightarrow> (unit, authz_db) tx_body" where
  "bind_menu_permissions_body env now menu permissions operator guard m db =
     then_do (
       if_ok (lock_permission_parents db guard) (\<lambda>locked.
       if_ok (validate_locked_permission_grant env m db now operator locked permissions) (\<lambda>_.
       if_ok (locked_menu db menu) (\<lambda>_.
       if_ok (lock_affected_roles db (list_role_ids_by_menu_id db menu)
                (operation_error (utf8 [0x83DC, 0x5355, 0x5173, 0x8054, 0x89D2, 0x8272, 0x6570, 0x91CF, 0x8D85, 0x8FC7, 0x5355, 0x6B21, 0x6388, 0x6743, 0x4E0A, 0x9650])) roles_of_menu_missing) (\<lambda>roles.
         if list_ex (\<lambda>r. ro_id r \<le> 0) roles then Inl roles_of_menu_missing
         else plan_derived env db menu permissions guard roles)))), db)
       (\<lambda>plan db1.
          then_do (replace_derived_role_permissions (pl_assignments plan)
                     (replace_menu_permissions menu (pl_permissions plan) db1))
            (\<lambda>_. update_role_grant_revisions (pl_roles plan)))"

definition bind_menu_permissions ::
    "authz_env \<Rightarrow> time \<Rightarrow> int \<Rightarrow> int list \<Rightarrow> int \<Rightarrow> proof_metadata \<Rightarrow> authz_db \<Rightarrow> (unit, authz_db) tx_body" where
  "bind_menu_permissions env now menu permission_ids operator proof seen m db =
     (let permissions = unique_int64 permission_ids
      in if menu \<le> 0 then (Inl menu_id_required, db)
         else then_do (if_ok (require_proof proof ''RBAC_ASSIGN_MENU_PERMISSIONS''
                  (menu_permission_assignment_binding menu permissions))
                (\<lambda>_. bind_menu_permissions_checks env m now menu permissions operator seen), db) (\<lambda>guard.
           authz_mutation env (bind_menu_permissions_body env now menu permissions operator guard) m))"

section \<open>Temporary permissions\<close>

record temporary_command =
  tc_user :: int
  tc_code :: string
  tc_expire :: "time option"
  tc_source :: string
  tc_reason :: string
  tc_operator :: int
  tc_proof :: proof_metadata

definition permission_state_changed :: go_error where
  "permission_state_changed = object_state_error (utf8 [0x6743, 0x9650, 0x72B6, 0x6001, 0x5DF2, 0x53D8, 0x5316, 0xFF0C, 0x8BF7, 0x91CD, 0x8BD5])"

definition permission_code_missing :: go_error where
  "permission_code_missing = params_error (utf8 [0x6743, 0x9650, 0x7F16, 0x7801, 0x4E0D, 0x5B58, 0x5728])"

text \<open>
  \<open>ensurePermissionCodeExists\<close>: a live permission of that code, whatever its status, whose feature is
  enabled. The code of a permission is unique, so the first match decides.
\<close>

definition ensure_permission_code_exists :: "authz_env \<Rightarrow> authz_db \<Rightarrow> string \<Rightarrow> unit result" where
  "ensure_permission_code_exists env db code =
     (if blank code then Inl (params_error (''permissionCode'' @ utf8 [0x4E0D, 0x80FD, 0x4E3A, 0x7A7A]))
      else case find (\<lambda>p. \<not> pm_deleted p \<and> trim_space (pm_code p) = trim_space code) (db_permissions db) of
             None \<Rightarrow> Inl permission_code_missing
           | Some p \<Rightarrow> require (feature_enabled (az_features env) (pm_feature p))
                         (forbidden (utf8 [0x4E0D, 0x80FD, 0x5206, 0x914D, 0x672A, 0x542F, 0x7528, 0x529F, 0x80FD, 0x7684, 0x6743, 0x9650])))"

definition temporary_checks ::
    "authz_env \<Rightarrow> tx_mode \<Rightarrow> time \<Rightarrow> string \<Rightarrow> go_error \<Rightarrow> time option \<Rightarrow> temporary_command \<Rightarrow> authz_db \<Rightarrow> int result" where
  "temporary_checks env m now action reason_missing expire c seen =
     (let code = trim_space (tc_code c)
      in if tc_user c \<le> 0 \<or> code = [] then Inl (params_error (''userId'' @ utf8 [0x548C] @ ''permissionCode'' @ utf8 [0x4E0D, 0x80FD, 0x4E3A, 0x7A7A]))
         else if blank (tc_reason c) then Inl reason_missing
         else if_ok (require_proof (tc_proof c) action
                (temporary_permission_binding (az_digest env) (az_instant env) action (tc_user c) code expire (tc_reason c)))
              (\<lambda>_. if_ok (ensure_permission_code_exists env seen code)
              (\<lambda>_. if_ok (ensure_operator_can_grant_codes env m seen now (tc_operator c) [code])
              (\<lambda>_. let permission = find_permission_id_by_code seen code
                   in if permission \<le> 0 then Inl permission_code_missing else Inr permission))))"

text \<open>The locked permission: \<open>must_be_open\<close> for granting and extending, any status for revoking.\<close>

definition locked_temporary ::
    "authz_env \<Rightarrow> tx_mode \<Rightarrow> authz_db \<Rightarrow> time \<Rightarrow> temporary_command \<Rightarrow> int \<Rightarrow> bool \<Rightarrow> unit result" where
  "locked_temporary env m db now c permission must_be_open =
     if_ok (lock_permission_parents db [permission]) (\<lambda>locked.
       case locked of
         [p] \<Rightarrow> if trim_space (pm_code p) \<noteq> trim_space (tc_code c) \<or> (must_be_open \<and> pm_status p \<noteq> 0)
                  then Inl permission_state_changed
                else ensure_operator_can_grant_codes env m db now (tc_operator c) [pm_code p]
       | _ \<Rightarrow> Inl permission_state_changed)"

definition grant_temporary_permission ::
    "authz_env \<Rightarrow> time \<Rightarrow> temporary_command \<Rightarrow> authz_db \<Rightarrow> (unit, authz_db) tx_body" where
  "grant_temporary_permission env now c seen m db =
     then_do (temporary_checks env m now ''RBAC_GRANT_TEMP_PERMISSION''
                (params_error (utf8 [0x4E34, 0x65F6, 0x6743, 0x9650, 0x6388, 0x4E88, 0x539F, 0x56E0, 0x4E0D, 0x80FD, 0x4E3A, 0x7A7A])) (tc_expire c) c seen, db) (\<lambda>permission.
       authz_mutation env (\<lambda>m1 db1.
         then_do (locked_temporary env m1 db1 now c permission True, db1) (\<lambda>_.
           grant_temporary_row (az_new_id env) (tc_user c) (trim_space (tc_code c)) (tc_expire c) (tc_source c)
             (tc_reason c) (tc_operator c))) m)"

definition revoke_temporary_permission ::
    "authz_env \<Rightarrow> time \<Rightarrow> temporary_command \<Rightarrow> authz_db \<Rightarrow> (unit, authz_db) tx_body" where
  "revoke_temporary_permission env now c seen m db =
     then_do (temporary_checks env m now ''RBAC_REVOKE_TEMP_PERMISSION''
                (params_error (utf8 [0x4E34, 0x65F6, 0x6743, 0x9650, 0x64A4, 0x9500, 0x539F, 0x56E0, 0x4E0D, 0x80FD, 0x4E3A, 0x7A7A])) None c seen, db) (\<lambda>permission.
       authz_mutation env (\<lambda>m1 db1.
         then_do (locked_temporary env m1 db1 now c permission False, db1) (\<lambda>_ db2.
           (Inr (), revoke_temporary_row (tc_user c) (trim_space (tc_code c)) db2))) m)"

definition extend_temporary_permission ::
    "authz_env \<Rightarrow> time \<Rightarrow> temporary_command \<Rightarrow> authz_db \<Rightarrow> (unit, authz_db) tx_body" where
  "extend_temporary_permission env now c seen m db =
     then_do (temporary_checks env m now ''RBAC_EXTEND_TEMP_PERMISSION''
                (params_error (utf8 [0x4E34, 0x65F6, 0x6743, 0x9650, 0x5EF6, 0x671F, 0x539F, 0x56E0, 0x4E0D, 0x80FD, 0x4E3A, 0x7A7A])) (tc_expire c) c seen, db) (\<lambda>permission.
       authz_mutation env (\<lambda>m1 db1.
         then_do (locked_temporary env m1 db1 now c permission True, db1) (\<lambda>_ db2.
           (Inr (), extend_temporary_row (tc_user c) (trim_space (tc_code c)) (tc_expire c) (tc_reason c) db2))) m)"

text \<open>
  \<open>CleanupExpiredTemporaryPermissions\<close>: pages of 200 users in ascending order, one transaction each. The
  fuel bounds the number of pages; \<open>None\<close> is a run that needs more. The clock stands still during a run.
\<close>

definition authorizationAffectedUserPageSize :: nat where "authorizationAffectedUserPageSize = 200"

definition cleanup_page :: "authz_env \<Rightarrow> time \<Rightarrow> int \<Rightarrow> (int list, authz_db) tx_body" where
  "cleanup_page env now after =
     authz_mutation env (\<lambda>_ db.
       then_do (list_expired_user_ids_page db now after authorizationAffectedUserPageSize, db) (\<lambda>users db1.
       then_do (cleanup_expired_rows now users db1) (\<lambda>_ db2. (Inr users, db2))))"

fun cleanup_expired ::
    "nat \<Rightarrow> authz_env \<Rightarrow> time \<Rightarrow> int \<Rightarrow> tx_mode \<Rightarrow> authz_db \<Rightarrow> (unit result \<times> authz_db) option" where
  "cleanup_expired 0 env now after m db = None"
| "cleanup_expired (Suc fuel) env now after m db =
     (case cleanup_page env now after m db of
        (Inl e, db1) \<Rightarrow> Some (Inl e, db1)
      | (Inr users, db1) \<Rightarrow>
          if users = [] then Some (Inr (), db1)
          else if length users < authorizationAffectedUserPageSize then Some (Inr (), db1)
          else cleanup_expired fuel env now (last users) m db1)"

definition list_temporary_permissions :: "authz_db \<Rightarrow> time \<Rightarrow> int \<Rightarrow> (temporary_permission \<times> temporary_status) list" where
  "list_temporary_permissions db now user =
     map (\<lambda>t. (t, temporary_permission_status t now)) (list_user_temporary_permissions db user)"

end
