(* ===== verification/Tx_Boundary.thy ===== *)
theory Tx_Boundary
  imports Tx_Store
begin

text \<open>
  The contract of a transaction boundary, as the services of the repository rely on it: whatever a call
  outside any transaction leaves behind has been produced by runs of its body that succeeded inside a
  transaction, and a call that succeeds ends with such a run. The ordinary and the consistent transactor
  meet it, and so does the repetition of a consistent transaction.
\<close>

definition body_step :: "('a, 'd) tx_body \<Rightarrow> 'd \<Rightarrow> 'd \<Rightarrow> bool" where
  "body_step body d d' \<longleftrightarrow> (\<exists>m x. m \<noteq> NoTx \<and> body m d = (Inr x, d'))"

lemma body_stepI: "m \<noteq> NoTx \<Longrightarrow> body m d = (Inr x, d') \<Longrightarrow> body_step body d d'"
  by (auto simp: body_step_def)

locale tx_boundary =
  fixes boundary :: "('a, 'd) tx_body \<Rightarrow> ('a, 'd) tx_body"
  assumes produced: "boundary body NoTx d = (r, d') \<Longrightarrow> (body_step body)\<^sup>*\<^sup>* d d'"
    and succeeded: "boundary body NoTx d = (Inr x, d') \<Longrightarrow>
      \<exists>m d1. m \<noteq> NoTx \<and> (body_step body)\<^sup>*\<^sup>* d d1 \<and> body m d1 = (Inr x, d')"
begin

lemma keeps:
  assumes "\<And>m d x d'. m \<noteq> NoTx \<Longrightarrow> I d \<Longrightarrow> body m d = (Inr x, d') \<Longrightarrow> I d'" "I d"
  shows "I (snd (boundary body NoTx d))"
proof -
  obtain r d' where run: "boundary body NoTx d = (r, d')" by fastforce
  from produced [OF this] have "I d'"
  proof induction
    case (step y z)
    then show ?case using assms(1) unfolding body_step_def by blast
  qed (rule assms(2))
  with run show ?thesis by simp
qed

lemma last_run:
  assumes "boundary body NoTx d = (Inr x, d')" "I d"
    "\<And>m d x d'. m \<noteq> NoTx \<Longrightarrow> I d \<Longrightarrow> body m d = (Inr x, d') \<Longrightarrow> I d'"
  obtains m d1 where "m \<noteq> NoTx" "I d1" "body m d1 = (Inr x, d')"
proof -
  obtain m d1 where run: "m \<noteq> NoTx" "(body_step body)\<^sup>*\<^sup>* d d1" "body m d1 = (Inr x, d')"
    using succeeded [OF assms(1)] by blast
  from run(2) have "I d1"
  proof induction
    case (step y z)
    then show ?case using assms(3) unfolding body_step_def by blast
  qed (rule assms(2))
  with run that show ?thesis by blast
qed

end

lemma within_step:
  assumes "within_transaction o1 (body m) d = (r, d')" "m \<noteq> NoTx"
  shows "(body_step body)\<^sup>*\<^sup>* d d'"
  using within_transaction_state [of o1 "body m" d] assms body_stepI [of m body] by auto

lemma ordinary_boundary: "tx_boundary (tx_ordinary o1)"
proof (rule tx_boundary.intro)
  show "tx_ordinary o1 body NoTx d = (r, d') \<Longrightarrow> (body_step body)\<^sup>*\<^sup>* d d'" for body d r d'
    unfolding tx_ordinary_def by (auto dest: within_step [of o1 body OrdinaryTx])
  show "\<exists>m d1. m \<noteq> NoTx \<and> (body_step body)\<^sup>*\<^sup>* d d1 \<and> body m d1 = (Inr x, d')"
    if "tx_ordinary o1 body NoTx d = (Inr x, d')" for body d x d'
    using tx_ordinary_Inr [OF that] by (metis rtranclp.rtrancl_refl tx_mode.distinct(1))
qed

lemma consistent_boundary: "tx_boundary (tx_consistent o1)"
proof (rule tx_boundary.intro)
  show "tx_consistent o1 body NoTx d = (r, d') \<Longrightarrow> (body_step body)\<^sup>*\<^sup>* d d'" for body d r d'
    unfolding tx_consistent_def by (auto dest: within_step [of o1 body ConsistentTx])
  show "\<exists>m d1. m \<noteq> NoTx \<and> (body_step body)\<^sup>*\<^sup>* d d1 \<and> body m d1 = (Inr x, d')"
    if "tx_consistent o1 body NoTx d = (Inr x, d')" for body d x d'
    using tx_consistent_Inr [OF that] by (metis rtranclp.rtrancl_refl tx_mode.distinct(3))
qed

interpretation ordinary: tx_boundary "tx_ordinary o1" for o1
  by (rule ordinary_boundary)

interpretation consistent: tx_boundary "tx_consistent o1" for o1
  by (rule consistent_boundary)

lemma retry_boundary:
  assumes "\<And>i. tx_boundary (run i)"
  shows "tx_boundary (\<lambda>body m. retry_serialization serial (\<lambda>i. run i body m) k n)"
proof unfold_locales
  fix body d r d'
  show "retry_serialization serial (\<lambda>i. run i body NoTx) k n d = (r, d') \<Longrightarrow> (body_step body)\<^sup>*\<^sup>* d d'"
  proof (induction k arbitrary: n d)
    case 0
    then show ?case using tx_boundary.produced [OF assms, of n body d] by simp
  next
    case (Suc k)
    obtain r1 d1 where first: "run n body NoTx d = (r1, d1)" by fastforce
    from tx_boundary.produced [OF assms first] have "(body_step body)\<^sup>*\<^sup>* d d1" .
    moreover have "d' = d1 \<or> (body_step body)\<^sup>*\<^sup>* d1 d'"
      using Suc.prems first Suc.IH by (cases r1) (auto split: if_splits)
    ultimately show ?case by auto
  qed
next
  fix body d x d'
  show "retry_serialization serial (\<lambda>i. run i body NoTx) k n d = (Inr x, d') \<Longrightarrow>
    \<exists>m d1. m \<noteq> NoTx \<and> (body_step body)\<^sup>*\<^sup>* d d1 \<and> body m d1 = (Inr x, d')"
  proof (induction k arbitrary: n d)
    case 0
    then show ?case using tx_boundary.succeeded [OF assms, of n body d] by simp
  next
    case (Suc k)
    obtain r1 d1 where first: "run n body NoTx d = (r1, d1)" by fastforce
    show ?case
    proof (cases r1)
      case (Inr y)
      then show ?thesis using Suc.prems first tx_boundary.succeeded [OF assms, of n body d] by simp
    next
      case (Inl e)
      then have "retry_serialization serial (\<lambda>i. run i body NoTx) k (Suc n) d1 = (Inr x, d')"
        using Suc.prems first by (simp split: if_splits)
      moreover have "(body_step body)\<^sup>*\<^sup>* d d1" by (rule tx_boundary.produced [OF assms first])
      ultimately show ?thesis using Suc.IH by (meson rtranclp_trans)
    qed
  qed
qed

section \<open>Mutations with invalidations\<close>

text \<open>
  The wrapper of a mutation adds the registration of its invalidations to the body. What the body keeps is
  kept, provided the registration keeps it.
\<close>

lemma invalidated_keeps:
  assumes "tx_boundary boundary"
    and body: "\<And>m d x d'. m \<noteq> NoTx \<Longrightarrow> I d \<Longrightarrow> body m d = (Inr x, d') \<Longrightarrow> I d'"
    and register: "\<And>rg c d. registrar = Some rg \<Longrightarrow> I d \<Longrightarrow> I (snd (rg_register rg c d))" and "I d"
  shows "I (snd (run_invalidated_mutation_classes registrar classes boundary (changing body) NoTx d))"
proof (cases registrar)
  case None
  then show ?thesis
    using tx_boundary.keeps [OF assms(1), of I body d] body \<open>I d\<close> by (simp add: run_invalidated_changing)
next
  case (Some rg)
  let ?body = "\<lambda>m1 d1. then_do (body m1 d1) (\<lambda>x d2. then_do (register_classes rg classes d2) (\<lambda>_ d3.
        if has_callbacks m1 then (Inr x, d3) else (Inl no_rollback_hook, d3)))"
  have "I d''" if run: "m \<noteq> NoTx" "I d1" "?body m d1 = (Inr x, d'')" for m d1 x d''
  proof -
    from run(3) obtain y d2 u d3 where "body m d1 = (Inr y, d2)" and reg: "register_classes rg classes d2 = (Inr u, d3)"
      and "d'' = d3" by (auto simp: then_do_Inr split: if_splits)
    then have "I d2" using body run(1,2) by blast
    then have "I (snd (register_classes rg classes d2))"
      by (rule register_classes_keeps [rotated]) (use register Some in blast)
    then show ?thesis using reg \<open>d'' = d3\<close> by simp
  qed
  then have "I (snd (boundary ?body NoTx d))" using tx_boundary.keeps [OF assms(1), of I ?body d] \<open>I d\<close> by blast
  then show ?thesis
    using Some \<open>I d\<close> by (simp add: run_invalidated_changing split: sum.split)
qed

text \<open>
  A mutation that succeeds has run its body with success on the very state it was called with: an attempt
  that fails or is rolled back leaves that state, whatever the later attempts find.
\<close>

lemma boundary_first:
  assumes "tx_boundary boundary" "boundary body NoTx d = (Inr x, d')"
  shows "\<exists>m y d2. m \<noteq> NoTx \<and> body m d = (Inr y, d2)"
proof (rule ccontr)
  assume none: "\<nexists>m y d2. m \<noteq> NoTx \<and> body m d = (Inr y, d2)"
  obtain m d1 where "m \<noteq> NoTx" "d1 = d" "body m d1 = (Inr x, d')"
    by (rule tx_boundary.last_run [OF assms, where I = "\<lambda>d1. d1 = d"]) (use none in blast)+
  with none show False by blast
qed

lemma invalidated_first:
  assumes "tx_boundary boundary"
    and run: "run_invalidated_mutation_classes registrar classes boundary (changing body) NoTx d = (Inr x, d')"
  shows "\<exists>m y d2. m \<noteq> NoTx \<and> body m d = (Inr y, d2)"
proof (cases registrar)
  case None
  then show ?thesis using boundary_first [OF assms(1)] run by (simp add: run_invalidated_changing)
next
  case (Some rg)
  let ?body = "\<lambda>m1 d1. then_do (body m1 d1) (\<lambda>x d2. then_do (register_classes rg classes d2) (\<lambda>_ d3.
        if has_callbacks m1 then (Inr x, d3) else (Inl no_rollback_hook, d3)))"
  have "boundary ?body NoTx d = (Inr x, d')"
    using run Some by (simp add: run_invalidated_changing split: sum.splits)
  from boundary_first [OF assms(1) this] obtain m y d2 where "m \<noteq> NoTx" "?body m d = (Inr y, d2)" by blast
  then show ?thesis by (auto simp: then_do_Inr)
qed

end
