(* ===== verification/Authz_Frame.thy ===== *)
theory Authz_Frame
  imports Authz_Roots Authz_Admin Tx_Boundary
begin

text \<open>
  The operations on roles, menus, permissions and grants keep the security root. The transactions of the
  authorization component meet the contract of a boundary, so a mutation keeps what every successful
  run of its body keeps.
\<close>

section \<open>The boundary of the component\<close>

lemma authz_transaction_retries:
  "az_transactor env \<Longrightarrow> authz_transaction env =
     (\<lambda>body m. retry_serialization (az_serial env) (\<lambda>i. tx_consistent (az_outcome env i) body m) 2 0)"
  by (intro ext) (simp add: authz_transaction_def)

lemma authz_transaction_boundary:
  assumes "az_transactor env"
  shows "tx_boundary (authz_transaction env)"
  unfolding authz_transaction_retries [OF assms] by (rule retry_boundary) (rule consistent_boundary)

lemma registrar_invalidations:
  "authz_registrar env = Some rg \<Longrightarrow>
     snd (rg_register rg c db) = db \<or> snd (rg_register rg c db) = db\<lparr>db_invalidations := db_invalidations db @ [c]\<rparr>"
  by (auto simp: authz_registrar_def split: option.splits sum.splits)

definition root_body :: "('a, authz_db) tx_body \<Rightarrow> bool" where
  "root_body body \<longleftrightarrow> (\<forall>m db x db'. roots_inv db \<longrightarrow> body m db = (Inr x, db') \<longrightarrow> roots_inv db')"

lemma root_bodyI: "(\<And>m db x db'. roots_inv db \<Longrightarrow> body m db = (Inr x, db') \<Longrightarrow> roots_inv db') \<Longrightarrow> root_body body"
  by (auto simp: root_body_def)

lemma root_bodyD: "root_body body \<Longrightarrow> roots_inv db \<Longrightarrow> body m db = (Inr x, db') \<Longrightarrow> roots_inv db'"
  by (auto simp: root_body_def)

named_theorems root_intros

lemma roots_inv_same:
  "db_users db' = db_users db \<Longrightarrow> db_user_roles db' = db_user_roles db \<Longrightarrow> db_roles db' = db_roles db \<Longrightarrow>
   roots_inv db' = roots_inv db"
  by (simp add: roots_inv_def active_roots_def)

lemma roots_inv_register:
  "authz_registrar env = Some rg \<Longrightarrow> roots_inv db \<Longrightarrow> roots_inv (snd (rg_register rg c db))"
  using registrar_invalidations [of env rg c db] by (auto simp: roots_inv_same [of "db\<lparr>db_invalidations := _\<rparr>" db])

theorem authz_mutation_keeps_roots:
  assumes "root_body body" "roots_inv db"
  shows "roots_inv (snd (authz_mutation env body NoTx db))"
proof (cases "az_transactor env")
  case True
  show ?thesis unfolding authz_mutation_def
  proof (rule invalidated_keeps [OF authz_transaction_boundary [OF True]])
    show "roots_inv db'" if "roots_inv d" "body m d = (Inr x, db')" for m d x db'
      by (rule root_bodyD [OF assms(1) that])
    show "roots_inv (snd (rg_register rg c d))" if "authz_registrar env = Some rg" "roots_inv d" for rg c d
      by (rule roots_inv_register [OF that])
    show "roots_inv db" by (rule assms(2))
  qed
next
  case False
  then show ?thesis using assms(2)
    by (simp add: authz_mutation_def run_invalidated_changing authz_transaction_def
        split: option.split sum.split)
qed

section \<open>Statements\<close>

lemma statements_leave_roots [simp]:
  "roots_inv (update_menu_row n db) = roots_inv db"
  "roots_inv (delete_menu_row menu db) = roots_inv db"
  "roots_inv (delete_menu_permissions_by_menu menu db) = roots_inv db"
  "roots_inv (delete_permission_row permission db) = roots_inv db"
  "roots_inv (soft_delete_user_permissions permission db) = roots_inv db"
  "roots_inv (replace_menu_permissions menu permissions db) = roots_inv db"
  "roots_inv (replace_role_depts role depts db) = roots_inv db"
  "roots_inv (replace_role_permissions role direct derived menus db) = roots_inv db"
  "roots_inv (revoke_temporary_row user code db) = roots_inv db"
  "roots_inv (extend_temporary_row user code expire reason db) = roots_inv db"
  by (rule roots_inv_same;
      simp add: update_menu_row_def delete_menu_row_def delete_menu_permissions_by_menu_def
        delete_permission_row_def soft_delete_user_permissions_def replace_menu_permissions_def
        replace_role_depts_def replace_role_permissions_def revoke_temporary_row_def extend_temporary_row_def Let_def)+

lemma fallible_statements_leave_roots [root_intros]:
  "create_menu_row dup n db = (Inr u, db') \<Longrightarrow> roots_inv db \<Longrightarrow> roots_inv db'"
  "create_permission_row dup p db = (Inr u, db') \<Longrightarrow> roots_inv db \<Longrightarrow> roots_inv db'"
  "update_permission_row dup p db = (Inr u, db') \<Longrightarrow> roots_inv db \<Longrightarrow> roots_inv db'"
  "grant_temporary_row i user code expire source reason granted_by db = (Inr u, db') \<Longrightarrow> roots_inv db \<Longrightarrow> roots_inv db'"
  "cleanup_expired_rows now users db = (Inr u, db') \<Longrightarrow> roots_inv db \<Longrightarrow> roots_inv db'"
  "replace_derived_role_permissions as db = (Inr u, db') \<Longrightarrow> roots_inv db \<Longrightarrow> roots_inv db'"
  by (subst roots_inv_same [of db' db];
      auto simp: create_menu_row_def create_permission_row_def update_permission_row_def grant_temporary_row_def
        cleanup_expired_rows_def replace_derived_role_permissions_def Let_def split: if_splits)+

lemma update_roles_keeps:
  assumes "roots_inv db" "\<And>r. root_identity (f r) = root_identity r"
  shows "roots_inv (db\<lparr>db_roles := update_where P f (db_roles db)\<rparr>)"
proof -
  have "keeps_root db (db\<lparr>db_roles := update_where P f (db_roles db)\<rparr>)"
  proof (rule keeps_root_update [where P = P and f = f])
    show "roles_ok (db_roles db)" using assms(1) by (simp add: roots_inv_def)
  next
    show "root_identity (f r) = root_identity r \<and> ro_id (f r) = ro_id r" for r
      using assms(2) [of r] root_identity_id by blast
  qed simp_all
  with assms(1) show ?thesis by (rule keeps_root_inv)
qed

lemma root_identity_revision [simp]: "root_identity (r\<lparr>ro_revision := n\<rparr>) = root_identity r"
  by (simp add: root_identity_def role_identity_def)

lemma update_role_grant_revision_keeps [root_intros]:
  "update_role_grant_revision role e n db = (Inr u, db') \<Longrightarrow> roots_inv db \<Longrightarrow> roots_inv db'"
  by (auto simp: update_role_grant_revision_def update_rows_def Let_def split: if_splits intro!: update_roles_keeps)

lemma bump_chunks_keeps:
  "bump_chunks cs db = (Inr u, db') \<Longrightarrow> roots_inv db \<Longrightarrow> roots_inv db'"
proof (induction cs arbitrary: db)
  case (Cons c cs)
  then obtain v db1 where "bump_revisions c db = (Inr v, db1)" "bump_chunks cs db1 = (Inr u, db')"
    by (auto simp: then_do_Inr)
  moreover from this(1) Cons.prems(2) have "roots_inv db1"
    by (auto simp: bump_revisions_def update_rows_def Let_def split: if_splits intro!: update_roles_keeps)
  ultimately show ?case using Cons.IH by blast
qed simp

lemma update_role_grant_revisions_keeps [root_intros]:
  "update_role_grant_revisions roles db = (Inr u, db') \<Longrightarrow> roots_inv db \<Longrightarrow> roots_inv db'"
  by (auto simp: update_role_grant_revisions_def Let_def split: if_splits intro: bump_chunks_keeps)

section \<open>The table of roles\<close>

lemma create_role_row_keeps [root_intros]:
  assumes "create_role_row dup r db = (Inr u, db')" "roots_inv db" "0 < ro_id r"
  shows "roots_inv db'"
proof -
  have ok: "roles_ok (db_roles db)" using assms(2) by (simp add: roots_inv_def)
  define new where "new = \<lparr>ro_id = ro_id r, ro_name = trim_space (ro_name r), ro_code = trim_space (ro_code r),
    ro_system_key = [], ro_type = ro_type r, ro_status = ro_status r, ro_data_scope = ro_data_scope r,
    ro_sort = ro_sort r, ro_remark = trim_space (ro_remark r), ro_revision = 0, ro_deleted = False\<rparr>"
  have fresh: "ro_id r \<notin> ro_id ` set (db_roles db)" and db': "db' = db\<lparr>db_roles := db_roles db @ [new]\<rparr>"
    using assms(1) by (auto simp: create_role_row_def new_def split: if_splits)
  have "keeps_root db db'" unfolding keeps_root_def db'
    using ok fresh assms(3) unfolding roles_ok_def
    by (intro conjI exI [of _ "db_roles db"] exI [of _ "[new]"]) (auto intro!: list.rel_refl simp: new_def)
  with assms(2) show ?thesis by (rule keeps_root_inv)
qed

text \<open>A role as a locked read returns it.\<close>

lemma lock_role_grant_Some:
  assumes "lock_role_grant db role = Some e"
  obtains x where "x \<in> set (db_roles db)" "live_role role x" "e = as_role x"
  using assms unfolding lock_role_grant_def by (auto simp: find_Some_iff in_set_conv_nth)

lemma root_not_system:
  "roots_inv db \<Longrightarrow> x \<in> set (db_roles db) \<Longrightarrow> \<not> ro_deleted x \<Longrightarrow> \<not> is_system (as_role x) \<Longrightarrow>
     ro_system_key x \<noteq> AuthorizationRootSystemKey"
  unfolding roots_inv_def roles_ok_def by (auto simp: root_row_def)

lemma update_role_row_keeps:
  assumes "roots_inv db" "lock_role_grant db role = Some e" "protected_mutation e n = RoleProtectionNone" "ro_id n = role"
  shows "roots_inv (update_role_row n db)"
proof -
  obtain x where x: "x \<in> set (db_roles db)" "live_role role x" "e = as_role x"
    using lock_role_grant_Some [OF assms(2)] .
  have ok: "roles_ok (db_roles db)" using assms(1) by (simp add: roots_inv_def)
  have "keeps_root db (update_role_row n db)"
  proof (rule keeps_root_update [OF ok, where P = "live_role (ro_id n)"])
    fix r assume r: "r \<in> set (db_roles db)" "live_role (ro_id n) r"
    then have "r = x" using roles_ok_same_id [OF ok r(1) x(1)] x(2) assms(4) by (simp add: live_role_def)
    let ?r = "r\<lparr>ro_name := trim_space (ro_name n), ro_code := trim_space (ro_code n), ro_type := ro_type n,
              ro_status := ro_status n, ro_data_scope := ro_data_scope n, ro_sort := ro_sort n,
              ro_remark := trim_space (ro_remark n)\<rparr>"
    have "ro_type n = ro_type r \<and> ro_status n = ro_status r" if "ro_system_key r = AuthorizationRootSystemKey"
    proof -
      have "is_system e"
        using root_not_system [OF assms(1) x(1)] x(2,3) that \<open>r = x\<close> by (auto simp: live_role_def)
      then show ?thesis
        using assms(3) x(3) \<open>r = x\<close> by (auto simp: protected_mutation_def split: if_splits)
    qed
    then show "root_identity ?r = root_identity r \<and> ro_id ?r = ro_id r"
      by (auto simp: root_identity_def role_identity_def)
  qed (simp_all add: update_role_row_def)
  with assms(1) show ?thesis by (rule keeps_root_inv)
qed

lemma delete_role_row_keeps:
  assumes "roots_inv db" "lock_role_grant db role = Some e" "\<not> is_system e"
  shows "roots_inv (delete_role_row role db)"
proof -
  obtain x where x: "x \<in> set (db_roles db)" "live_role role x" "e = as_role x"
    using lock_role_grant_Some [OF assms(2)] .
  have ok: "roles_ok (db_roles db)" using assms(1) by (simp add: roots_inv_def)
  have "keeps_root db (delete_role_row role db)"
  proof (rule keeps_root_update [OF ok, where P = "live_role role"])
    fix r assume r: "r \<in> set (db_roles db)" "live_role role r"
    then have "r = x" using roles_ok_same_id [OF ok r(1) x(1)] x(2) by (simp add: live_role_def)
    then have "ro_system_key r \<noteq> AuthorizationRootSystemKey"
      using root_not_system [OF assms(1) x(1)] x assms(3) by (auto simp: live_role_def)
    then show "root_identity (r\<lparr>ro_deleted := True\<rparr>) = root_identity r \<and> ro_id (r\<lparr>ro_deleted := True\<rparr>) = ro_id r"
      by (simp add: root_identity_def)
  qed (simp_all add: delete_role_row_def)
  with assms(1) show ?thesis by (rule keeps_root_inv)
qed

section \<open>Bodies\<close>

lemma lock_role_menu_mutation_Inr:
  "lock_role_menu_mutation db role requested = Inr (e, menus) \<Longrightarrow> lock_role_grant db role = Some e"
  by (auto simp: lock_role_menu_mutation_def if_ok_Inr Let_def split: if_splits option.splits)

lemma root_body_assign_user_roles: "root_body (assign_user_roles_within_policy env now user roles operator)"
  by (rule root_bodyI) (rule assign_user_roles_within_policy_keeps)

lemma root_body_role_depts:
  "root_body (\<lambda>m db. then_do (may_bind_depts (lock_role_grant db role) depts, db) (\<lambda>locked db1.
     update_role_grant_revision role (ro_revision locked) (ro_revision locked + 1) (replace_role_depts role depts db1)))"
  by (rule root_bodyI) (auto simp: then_do_Inr intro: root_intros)

lemma root_body_role_menus: "root_body (assign_role_menus_body env now role menus operator guard)"
proof (rule root_bodyI)
  fix m db x db'
  assume inv: "roots_inv db" and run: "assign_role_menus_body env now role menus operator guard m db = (Inr x, db')"
  from run obtain e n direct derived next_menus where
    "update_role_grant_revision role e n (replace_role_permissions role direct derived next_menus db) = (Inr x, db')"
    unfolding assign_role_menus_body_def by (elim then_do_Inr [THEN iffD1, elim_format] exE conjE) auto
  then show "roots_inv db'" by (rule root_intros) (simp add: inv)
qed

lemma root_body_role_permissions: "root_body (assign_role_permissions_body env now role permissions menus operator guard)"
proof (rule root_bodyI)
  fix m db x db'
  assume inv: "roots_inv db"
    and run: "assign_role_permissions_body env now role permissions menus operator guard m db = (Inr x, db')"
  from run obtain e n direct derived next_menus where
    "update_role_grant_revision role e n (replace_role_permissions role direct derived next_menus db) = (Inr x, db')"
    unfolding assign_role_permissions_body_def by (elim then_do_Inr [THEN iffD1, elim_format] exE conjE) auto
  then show "roots_inv db'" by (rule root_intros) (simp add: inv)
qed

lemma root_body_checked:
  assumes "\<And>m db x y db'. roots_inv db \<Longrightarrow> check m db = Inr x \<Longrightarrow> f x db = (Inr y, db') \<Longrightarrow> roots_inv db'"
  shows "root_body (\<lambda>m db. then_do (check m db, db) f)"
  by (rule root_bodyI) (auto simp: then_do_Inr intro: assms)

lemma root_body_create_role:
  assumes "0 < ro_id r"
  shows "root_body (\<lambda>_ db1. then_do (if_ok (lock_authorization_creation_guard db1) (\<lambda>_.
           ensure_role_code_unique db1 i code), db1) (\<lambda>_ db2. create_role_row dup r db2))"
  by (rule root_body_checked) (use assms create_role_row_keeps in blast)

lemma root_body_update_role: "root_body (update_role_body c)"
  unfolding update_role_body_def [abs_def]
proof (rule root_body_checked, goal_cases)
  case (1 m db r y db')
  from 1(2) obtain e where "lock_role_grant db (rc_id c) = Some e" "protected_mutation e r = RoleProtectionNone"
      "ro_id r = rc_id c"
    by (auto simp: if_ok_Inr Let_def split: option.splits if_splits)
  then show ?case using update_role_row_keeps [OF 1(1)] 1(3) by auto
qed

lemma root_body_delete_role: "root_body (delete_role_body role)"
  unfolding delete_role_body_def [abs_def]
proof (rule root_body_checked, goal_cases)
  case (1 m db r y db')
  from 1(2) obtain e menus where "lock_role_grant db role = Some e" "\<not> is_system e"
    by (auto simp: if_ok_Inr split: if_splits dest!: lock_role_menu_mutation_Inr)
  then show ?case using delete_role_row_keeps [OF 1(1)] 1(3) by auto
qed

lemma root_body_advance:
  "root_body (\<lambda>_ db1. case lock_role_grant db1 role of
       None \<Rightarrow> (Inl role_missing, db1)
     | Some r \<Rightarrow> update_role_grant_revision role (ro_revision r) (ro_revision r + 1) db1)"
  by (rule root_bodyI) (auto split: option.splits intro: root_intros)

lemma root_body_menus:
  "root_body (\<lambda>_ db1. then_do (if_ok (lock_authorization_creation_guard db1) (\<lambda>_.
     ensure_menu_permission_unique db1 (mn_id r) (mn_permission r)), db1) (\<lambda>_ db2. create_menu_row dup r db2))"
  "root_body (update_menu_body r)"
  "root_body (delete_menu_body env menu)"
  unfolding update_menu_body_def [abs_def] delete_menu_body_def [abs_def]
  by (rule root_body_checked; auto intro: root_intros)+

lemma root_body_permissions:
  "root_body (\<lambda>_ db1. then_do (if_ok (lock_authorization_creation_guard db1) (\<lambda>_.
     ensure_permission_code_unique db1 (pm_id p) (pm_code p)), db1) (\<lambda>_ db2. create_permission_row dup p db2))"
  "root_body (delete_permission_body permission)"
  unfolding delete_permission_body_def [abs_def]
  by (rule root_body_checked; auto intro: root_intros)+

lemma root_body_update_permission: "root_body (update_permission_body env p)"
  unfolding update_permission_body_def [abs_def]
  by (rule root_body_checked) (auto simp: then_do_Inr intro: root_intros)

lemma root_body_bind_menu: "root_body (bind_menu_permissions_body env now menu permissions operator guard)"
  unfolding bind_menu_permissions_body_def [abs_def]
proof (rule root_body_checked, goal_cases)
  case (1 m db plan y db')
  from 1(3) obtain u db1 where
      "replace_derived_role_permissions (pl_assignments plan) (replace_menu_permissions menu (pl_permissions plan) db) = (Inr u, db1)"
      "update_role_grant_revisions (pl_roles plan) db1 = (Inr y, db')"
    by (auto simp: then_do_Inr)
  moreover from this(1) have "roots_inv db1" by (rule fallible_statements_leave_roots) (simp add: 1(1))
  ultimately show ?case using update_role_grant_revisions_keeps by blast
qed

lemma root_body_temporary:
  "root_body (\<lambda>m1 db1. then_do (locked_temporary env m1 db1 now c permission open, db1) (\<lambda>_.
     grant_temporary_row i user code expire source reason granted_by))"
  "root_body (\<lambda>m1 db1. then_do (locked_temporary env m1 db1 now c permission open, db1) (\<lambda>_ db2.
     (Inr (), revoke_temporary_row user code db2)))"
  "root_body (\<lambda>m1 db1. then_do (locked_temporary env m1 db1 now c permission open, db1) (\<lambda>_ db2.
     (Inr (), extend_temporary_row user code expire reason db2)))"
  by (rule root_body_checked; auto intro: root_intros)+

lemma root_body_cleanup:
  "root_body (\<lambda>_ db. then_do (list_expired_user_ids_page db now after n, db) (\<lambda>users db1.
     then_do (cleanup_expired_rows now users db1) (\<lambda>_ db2. (Inr users, db2))))"
  by (rule root_body_checked) (auto simp: then_do_Inr intro: root_intros)

lemma root_body_provisioned:
  "root_body (\<lambda>_ db. then_do (lock_role_parents db roles, db) (\<lambda>locked db1.
     if \<not> list_ex is_authorization_root locked then (Inl e, db1) else (Inr (), replace_user_roles user roles db1)))"
  by (rule root_body_checked) (auto split: if_splits intro: bootstrap_owner_body_keeps)

section \<open>Operations\<close>

text \<open>A request that fails before its transaction changes nothing; what follows the transaction only reads.\<close>

lemma keeps_after_checks:
  "roots_inv db \<Longrightarrow> (\<And>x. check = Inr x \<Longrightarrow> roots_inv (snd (f x db))) \<Longrightarrow> roots_inv (snd (then_do (check, db) f))"
  by (cases check) auto

lemma keeps_before_read: "snd (then_do step (\<lambda>x d. (read x d, d))) = snd step"
  by (cases step) (auto simp: then_do_def split: sum.split)

lemma grants_keep_roots [root_intros]:
  assumes "roots_inv db"
  shows "roots_inv (snd (assign_user_roles env now user ids operator proof NoTx db))"
    "roots_inv (snd (assign_created_user_roles env now user username ids operator proof NoTx db))"
    "roots_inv (snd (bootstrap_owner_roles env user ids operator NoTx db))"
    "roots_inv (snd (assign_role_depts env role ids operator proof seen NoTx db))"
    "roots_inv (snd (assign_role_menus env now role ids operator proof seen NoTx db))"
    "roots_inv (snd (assign_role_permissions env now role ids menus operator proof seen NoTx db))"
  unfolding assign_user_roles_def assign_created_user_roles_def bootstrap_owner_roles_def assign_role_depts_def
    assign_role_menus_def assign_role_permissions_def Let_def
  by (auto intro!: keeps_after_checks assms authz_mutation_keeps_roots root_body_assign_user_roles
        root_body_provisioned root_body_role_depts root_body_role_menus root_body_role_permissions)

lemma role_admin_keeps_roots [root_intros]:
  assumes "roots_inv db"
  shows "0 < az_new_id env \<Longrightarrow> roots_inv (snd (create_role env c NoTx db))"
    "roots_inv (snd (update_role env c NoTx db))"
    "roots_inv (snd (delete_role env role NoTx db))"
    "roots_inv (snd (advance_role_grant_revision env role NoTx db))"
  unfolding create_role_def update_role_def delete_role_def advance_role_grant_revision_def Let_def
  by (auto simp: keeps_before_read intro!: keeps_after_checks assms authz_mutation_keeps_roots root_body_create_role
        root_body_update_role root_body_delete_role root_body_advance)

lemma menu_admin_keeps_roots [root_intros]:
  assumes "roots_inv db"
  shows "roots_inv (snd (create_menu env now mc seen NoTx db))"
    "roots_inv (snd (update_menu env now mc seen NoTx db))"
    "roots_inv (snd (delete_menu env menu NoTx db))"
    "roots_inv (snd (bind_menu_permissions env now menu ids operator proof seen NoTx db))"
  unfolding create_menu_def update_menu_def delete_menu_def bind_menu_permissions_def Let_def
  by (auto simp: keeps_before_read intro!: keeps_after_checks assms authz_mutation_keeps_roots root_body_menus
        root_body_bind_menu)

lemma permission_admin_keeps_roots [root_intros]:
  assumes "roots_inv db"
  shows "roots_inv (snd (create_permission env now pc seen NoTx db))"
    "roots_inv (snd (update_permission env now permission pc seen NoTx db))"
    "roots_inv (snd (delete_permission env permission NoTx db))"
    "roots_inv (snd (grant_temporary_permission env now tc seen NoTx db))"
    "roots_inv (snd (revoke_temporary_permission env now tc seen NoTx db))"
    "roots_inv (snd (extend_temporary_permission env now tc seen NoTx db))"
  unfolding create_permission_def update_permission_def delete_permission_def grant_temporary_permission_def
    revoke_temporary_permission_def extend_temporary_permission_def
  by (auto simp: keeps_before_read intro!: keeps_after_checks assms authz_mutation_keeps_roots root_body_permissions
        root_body_update_permission root_body_temporary)

lemma cleanup_keeps_roots [root_intros]:
  "roots_inv db \<Longrightarrow> cleanup_expired fuel env now after NoTx db = Some (r, db') \<Longrightarrow> roots_inv db'"
proof (induction fuel arbitrary: after db)
  case (Suc fuel)
  have page: "roots_inv (snd (cleanup_page env now after NoTx db))"
    unfolding cleanup_page_def using Suc.prems(1) by (intro authz_mutation_keeps_roots root_body_cleanup)
  then show ?case using Suc.prems(2) Suc.IH
    by (cases "cleanup_page env now after NoTx db") (auto split: sum.splits if_splits)
qed simp

end
