(* ===== verification/Account_Frame.thy ===== *)
theory Account_Frame
  imports User_Admin Authz_Frame
begin

text \<open>
  What the operations on accounts leave behind. A mutation of an account either leaves the tables as
  they were or is a successful run of its body, up to registered invalidations; roles cannot be assigned
  inside it, because their assignment insists on a consistent transaction; and the security root
  survives all of it.
\<close>

section \<open>The boundary\<close>

definition db_like :: "authz_db \<Rightarrow> authz_db \<Rightarrow> bool" where
  "db_like db db' \<longleftrightarrow> (\<exists>inv. db' = db\<lparr>db_invalidations := inv\<rparr>)"

lemma db_like_refl [simp]: "db_like db db"
  unfolding db_like_def by (rule exI [of _ "db_invalidations db"]) simp

definition accounts_like :: "'w accounts \<Rightarrow> 'w accounts \<Rightarrow> bool" where
  "accounts_like w w' \<longleftrightarrow> (\<exists>db. db_like (ac_db w) db \<and> w' = w\<lparr>ac_db := db\<rparr>)"

lemma accounts_like_refl [simp]: "accounts_like w w"
  unfolding accounts_like_def by (rule exI [of _ "ac_db w"]) simp

lemma accounts_like_parts:
  "accounts_like w w' \<Longrightarrow> db_like (ac_db w) (ac_db w') \<and> ac_sso w' = ac_sso w \<and> ac_credentials w' = ac_credentials w"
  by (auto simp: accounts_like_def)

lemma account_register_like:
  assumes "account_registrar env = Some rg"
  shows "accounts_like w (snd (rg_register rg c w))"
proof -
  obtain r0 where r0: "authz_registrar (ae_authz env) = Some r0"
      "snd (rg_register rg c w) = w\<lparr>ac_db := snd (rg_register r0 c (ac_db w))\<rparr>"
    using assms by (auto simp: account_registrar_def split: prod.split)
  then show ?thesis using registrar_invalidations [OF r0(1), of c "ac_db w"]
    unfolding accounts_like_def db_like_def by (metis db_like_def db_like_refl)
qed

lemma accounts_like_trans:
  assumes "accounts_like w w1" "accounts_like w1 w2"
  shows "accounts_like w w2"
proof -
  obtain i where i: "w1 = w\<lparr>ac_db := (ac_db w)\<lparr>db_invalidations := i\<rparr>\<rparr>"
    using assms(1) by (auto simp: accounts_like_def db_like_def)
  obtain j where "w2 = w1\<lparr>ac_db := (ac_db w1)\<lparr>db_invalidations := j\<rparr>\<rparr>"
    using assms(2) by (auto simp: accounts_like_def db_like_def)
  with i have "w2 = w\<lparr>ac_db := (ac_db w)\<lparr>db_invalidations := j\<rparr>\<rparr>" by simp
  then show ?thesis by (auto simp: accounts_like_def db_like_def)
qed

lemma account_register_classes_like:
  assumes "account_registrar env = Some rg"
  shows "accounts_like w (snd (register_classes rg cs w))"
proof (rule register_classes_keeps [where I = "accounts_like w"])
  show "accounts_like w (snd (rg_register rg c d))" if "accounts_like w d" for c d
    using accounts_like_trans [OF that account_register_like [OF assms]] .
qed simp

definition tables_same :: "'w accounts \<Rightarrow> 'w accounts \<Rightarrow> bool" where
  "tables_same w w' \<longleftrightarrow> ac_db w' = ac_db w \<and> ac_credentials w' = ac_credentials w
     \<and> sw_sql (ac_sso w') = sw_sql (ac_sso w)"

lemma tables_same_refl [simp]: "tables_same w w"
  by (simp add: tables_same_def)

lemma undo_tables [simp]: "tables_same w (undo_accounts w w1)"
  by (simp add: tables_same_def undo_accounts_def roll_back_def)

lemma account_tx_cases:
  assumes "az_transactor (ae_authz env)" "account_tx env body NoTx w = (r, w')"
  shows "(tables_same w w' \<and> (\<exists>e. r = Inl e)) \<or> (\<exists>x. body OrdinaryTx w = (Inr x, w') \<and> (r = Inr x \<or> (\<exists>e. r = Inl e)))"
  using assms by (auto simp: account_tx_def split: prod.splits sum.splits sql_outcome.splits)

theorem account_mutation_cases:
  assumes tx: "az_transactor (ae_authz env)" and run: "account_mutation env body NoTx w = (r, w')"
  shows "(tables_same w w' \<and> (\<exists>e. r = Inl e)) \<or>
    (\<exists>x w1. body OrdinaryTx w = (Inr x, w1) \<and> accounts_like w1 w' \<and> (r = Inr x \<or> (\<exists>e. r = Inl e)))"
proof (cases "account_registrar env")
  case None
  then have "account_tx env body NoTx w = (r, w')"
    using run by (simp add: account_mutation_def run_invalidated_changing)
  from account_tx_cases [OF tx this] show ?thesis by fastforce
next
  case (Some rg)
  let ?body = "\<lambda>m1 d1. then_do (body m1 d1) (\<lambda>x d2. then_do (register_classes rg invalidation_classes d2) (\<lambda>_ d3.
        if has_callbacks m1 then (Inr x, d3) else (Inl no_rollback_hook, d3)))"
  have like: "\<exists>w1. body OrdinaryTx w = (Inr x, w1) \<and> accounts_like w1 w2" if body: "?body OrdinaryTx w = (Inr x, w2)" for x w2
  proof -
    obtain w1 u where "body OrdinaryTx w = (Inr x, w1)" "register_classes rg invalidation_classes w1 = (Inr u, w2)"
      using body by (auto simp: then_do_Inr split: if_splits)
    then show ?thesis using account_register_classes_like [OF Some, of w1 invalidation_classes] by auto
  qed
  show ?thesis
  proof (cases "acquire_fences rg invalidation_classes")
    case (Inl e)
    then show ?thesis using run Some by (auto simp: account_mutation_def run_invalidated_changing)
  next
    case (Inr u)
    then have "account_tx env ?body NoTx w = (r, w')"
      using run Some by (simp add: account_mutation_def run_invalidated_changing)
    from account_tx_cases [OF tx this] like show ?thesis by blast
  qed
qed

lemma account_mutation_Inr:
  assumes "az_transactor (ae_authz env)" "account_mutation env body NoTx w = (Inr x, w')"
  obtains w1 where "body OrdinaryTx w = (Inr x, w1)" "accounts_like w1 w'"
  using account_mutation_cases [OF assms] by auto

lemma account_mutation_fails:
  assumes tx: "az_transactor (ae_authz env)" and "\<And>x w1. body OrdinaryTx w \<noteq> (Inr x, w1)"
  obtains e w' where "account_mutation env body NoTx w = (Inl e, w')" "tables_same w w'"
proof -
  obtain r w' where run: "account_mutation env body NoTx w = (r, w')" by fastforce
  with account_mutation_cases [OF tx run] assms(2) that show ?thesis by blast
qed

section \<open>Roles inside a mutation of an account\<close>

lemma retry_constant:
  "(\<And>i. run i d = (Inl e, d)) \<Longrightarrow> retry_serialization serial run k i d = (Inl e, d)"
  by (induction k arbitrary: i) simp_all

lemma authz_transaction_in_ordinary:
  "\<exists>e. authz_transaction env body OrdinaryTx db = (Inl e, db)"
  using retry_constant [of "\<lambda>i. tx_consistent (az_outcome env i) body OrdinaryTx" db not_consistent]
  by (simp add: authz_transaction_def)

lemma authz_mutation_in_ordinary:
  "\<exists>e. authz_mutation env body OrdinaryTx db = (Inl e, db)"
  by (simp add: authz_mutation_def run_invalidated_changing authz_transaction_in_ordinary
      split: option.split sum.split)

lemma roles_in_ordinary:
  "\<exists>e. assign_provisioned_user_roles aenv user roles OrdinaryTx db = (Inl e, db)"
  "\<exists>e. assign_created_user_roles aenv now user name roles operator proof OrdinaryTx db = (Inl e, db)"
  "\<exists>e. bootstrap_owner_roles aenv user roles operator OrdinaryTx db = (Inl e, db)"
proof -
  show "\<exists>e. assign_provisioned_user_roles aenv user roles OrdinaryTx db = (Inl e, db)"
    by (simp add: assign_provisioned_user_roles_def Let_def authz_mutation_in_ordinary)
  show "\<exists>e. assign_created_user_roles aenv now user name roles operator proof OrdinaryTx db = (Inl e, db)"
    using authz_mutation_in_ordinary by (auto simp: assign_created_user_roles_def Let_def then_do_def split: sum.split)
  show "\<exists>e. bootstrap_owner_roles aenv user roles operator OrdinaryTx db = (Inl e, db)"
    by (simp add: bootstrap_owner_roles_def Let_def authz_mutation_in_ordinary)
qed

lemma seq_body_Inr:
  "seq_body a f m w = (Inr y, w') \<longleftrightarrow> (\<exists>x w1. a m w = (Inr x, w1) \<and> f x m w1 = (Inr y, w'))"
  by (simp add: seq_body_def then_do_Inr)

lemma on_db_Inr: "on_db body m w = (Inr x, w') \<longleftrightarrow> (\<exists>db. body m (ac_db w) = (Inr x, db) \<and> w' = w\<lparr>ac_db := db\<rparr>)"
  by (auto simp: on_db_def split: prod.splits)

lemma on_sso_Inr: "on_sso body m w = (Inr x, w') \<longleftrightarrow> (\<exists>s. body m (ac_sso w) = (Inr x, s) \<and> w' = w\<lparr>ac_sso := s\<rparr>)"
  by (auto simp: on_sso_def split: prod.splits)

lemma on_credentials_Inr:
  "on_credentials body m w = (Inr x, w') \<longleftrightarrow> (\<exists>s. body m (ac_credentials w) = (Inr x, s) \<and> w' = w\<lparr>ac_credentials := s\<rparr>)"
  by (auto simp: on_credentials_def split: prod.splits)

lemma checked_Inr [simp]: "checked r m w = (Inr x, w') \<longleftrightarrow> r = Inr x \<and> w' = w"
  by (auto simp: checked_def)

lemmas account_steps = seq_body_Inr on_db_Inr on_sso_Inr on_credentials_Inr

lemma provision_roles_fail:
  assumes "unique_int64 (sc_roles c) \<noteq> []"
  shows "provision_defaults env c OrdinaryTx w \<noteq> (Inr u, w')"
proof
  assume "provision_defaults env c OrdinaryTx w = (Inr u, w')"
  then obtain x db where "assign_provisioned_user_roles (ae_authz env) (ae_user_id env) (unique_int64 (sc_roles c))
      OrdinaryTx (ac_db w) = (Inr x, db)"
    using assms by (auto simp: provision_defaults_def Let_def account_steps split: if_splits)
  then show False using roles_in_ordinary(1) [of "ae_authz env" "ae_user_id env" "unique_int64 (sc_roles c)" "ac_db w"]
    by auto
qed

lemma admin_roles_fail:
  assumes "au_roles c \<noteq> []"
  shows "admin_user_body env now c hash OrdinaryTx w \<noteq> (Inr u, w')"
proof
  assume "admin_user_body env now c hash OrdinaryTx w = (Inr u, w')"
  then obtain x db db' where "assign_created_user_roles (ae_authz env) now (ae_user_id env) (trim_space (au_username c))
      (au_roles c) (au_operator c) (au_proof c) OrdinaryTx db = (Inr x, db')"
    using assms by (auto simp: admin_user_body_def Let_def account_steps split: if_splits)
  then show False
    using roles_in_ordinary(2) [of "ae_authz env" now "ae_user_id env" "trim_space (au_username c)" "au_roles c"
        "au_operator c" "au_proof c" db] by auto
qed

section \<open>The security root\<close>

definition root_account :: "('a, 'w) account_body \<Rightarrow> bool" where
  "root_account body \<longleftrightarrow>
     (\<forall>w x w'. roots_inv (ac_db w) \<longrightarrow> body OrdinaryTx w = (Inr x, w') \<longrightarrow> roots_inv (ac_db w'))"

lemma root_accountI:
  "(\<And>w x w'. roots_inv (ac_db w) \<Longrightarrow> body OrdinaryTx w = (Inr x, w') \<Longrightarrow> roots_inv (ac_db w')) \<Longrightarrow> root_account body"
  by (auto simp: root_account_def)

lemma db_like_roots: "db_like db db' \<Longrightarrow> roots_inv db' = roots_inv db"
  unfolding db_like_def by (auto simp: roots_inv_same [of "db\<lparr>db_invalidations := _\<rparr>" db])

lemma account_mutation_keeps_roots:
  assumes "az_transactor (ae_authz env)" "root_account body" "roots_inv (ac_db w)"
  shows "roots_inv (ac_db (snd (account_mutation env body NoTx w)))"
proof -
  obtain r w' where run: "account_mutation env body NoTx w = (r, w')" by fastforce
  from account_mutation_cases [OF assms(1) run] assms(2,3) show ?thesis
    unfolding run root_account_def by (auto simp: tables_same_def dest!: accounts_like_parts simp: db_like_roots)
qed

lemma root_account_seq [intro]:
  assumes "root_account a" "\<And>x. root_account (f x)"
  shows "root_account (seq_body a f)"
proof (rule root_accountI)
  fix w y w'
  assume inv: "roots_inv (ac_db w)" and "seq_body a f OrdinaryTx w = (Inr y, w')"
  then obtain x w1 where "a OrdinaryTx w = (Inr x, w1)" "f x OrdinaryTx w1 = (Inr y, w')"
    unfolding seq_body_Inr by blast
  with inv assms show "roots_inv (ac_db w')" unfolding root_account_def by blast
qed

lemma root_account_checked [intro]: "root_account (checked r)"
  by (simp add: root_account_def)

lemma root_account_sso [intro]: "root_account (on_sso body)"
  by (auto simp: root_account_def on_sso_Inr)

lemma root_account_credentials [intro]: "root_account (on_credentials body)"
  by (auto simp: root_account_def on_credentials_Inr)

lemma root_account_db: "root_body body \<Longrightarrow> root_account (on_db body)"
  by (auto simp: root_account_def root_body_def on_db_Inr)

lemma root_account_never:
  "(\<And>w. \<exists>e w'. body OrdinaryTx w = (Inl e, w')) \<Longrightarrow> root_account body"
  by (rule root_accountI) (metis Inl_Inr_False prod.inject)

text \<open>Inserting a user, and changing a user's status under the guard.\<close>

lemma active_roots_more_users:
  "db_user_roles db' = db_user_roles db \<Longrightarrow> db_roles db' = db_roles db \<Longrightarrow>
   (\<And>u. u \<in> set (db_users db) \<Longrightarrow> \<not> us_deleted u \<Longrightarrow> us_status u = 0 \<Longrightarrow>
      \<exists>u' \<in> set (db_users db'). us_id u' = us_id u \<and> \<not> us_deleted u' \<and> us_status u' = 0) \<Longrightarrow>
   active_roots db \<subseteq> active_roots db'"
  unfolding subset_iff active_roots_iff by (metis (no_types, lifting))

lemma insert_user_keeps:
  assumes "insert_user dup r db = (Inr u, db')" "roots_inv db"
  shows "roots_inv db'"
proof -
  have db': "db' = db\<lparr>db_users := db_users db @ [r]\<rparr>"
    using assms(1) by (auto simp: insert_user_def split: if_splits)
  have "active_roots db \<subseteq> active_roots db'"
    by (rule active_roots_more_users) (auto simp: db')
  with assms(2) show ?thesis by (auto simp: roots_inv_def db')
qed

lemma change_users_keeps:
  assumes inv: "roots_inv db" and "db' = db\<lparr>db_users := update_where P f (db_users db)\<rparr>"
    "\<And>r. us_id (f r) = us_id r" "\<And>r. P r \<Longrightarrow> us_id r = user"
    and guard: "(\<forall>r. us_deleted (f r) = us_deleted r \<and> (us_status r = 0 \<longrightarrow> us_status (f r) = 0))
      \<or> guard_user_deactivation db user = Inr ()"
  shows "roots_inv db'"
proof -
  have ok: "roles_ok (db_roles db)" and ne: "active_roots db \<noteq> {}" using inv by (auto simp: roots_inv_def)
  have rest: "active_roots db - {user} \<subseteq> active_roots db'"
  proof
    fix u assume u: "u \<in> active_roots db - {user}"
    then obtain x where x: "x \<in> set (db_users db)" "us_id x = u" "\<not> us_deleted x" "us_status x = 0"
      "\<exists>l \<in> set (db_user_roles db). ur_user l = u \<and> \<not> ur_deleted l
             \<and> (\<exists>r \<in> set (db_roles db). ro_id r = ur_role l \<and> root_row r \<and> ro_status r = 0)"
      unfolding Diff_iff active_roots_iff by blast
    then have "\<not> P x" using assms(4) u by blast
    then have "x \<in> set (db_users db')" using x(1) by (auto simp: assms(2) set_update_where rev_image_eqI)
    then show "u \<in> active_roots db'" unfolding active_roots_iff using x by (auto simp: assms(2))
  qed
  from guard have "active_roots db' \<noteq> {}"
  proof
    assume keep: "\<forall>r. us_deleted (f r) = us_deleted r \<and> (us_status r = 0 \<longrightarrow> us_status (f r) = 0)"
    have "active_roots db \<subseteq> active_roots db'"
    proof (rule active_roots_more_users)
      fix u assume "u \<in> set (db_users db)" "\<not> us_deleted u" "us_status u = 0"
      then show "\<exists>u' \<in> set (db_users db'). us_id u' = us_id u \<and> \<not> us_deleted u' \<and> us_status u' = 0"
        using keep assms(3) by (intro bexI [of _ "if P u then f u else u"]) (auto simp: assms(2) set_update_where)
    qed (simp_all add: assms(2))
    with ne show ?thesis by blast
  next
    assume "guard_user_deactivation db user = Inr ()"
    then have "\<not> (user \<in> active_roots db \<and> card (active_roots db) \<le> 1)"
      by (auto simp: guard_user_deactivation_def would_remove_last_user_def lock_super_admin_invariant_root [OF ok]
          split: if_splits)
    then have "active_roots db \<noteq> {user}" by auto
    with rest ne show ?thesis by blast
  qed
  with ok show ?thesis by (simp add: roots_inv_def assms(2))
qed

section \<open>Bodies\<close>

lemma roots_inv_members [simp]:
  "roots_inv (db\<lparr>db_user_orgs := a\<rparr>) = roots_inv db" "roots_inv (db\<lparr>db_user_depts := a\<rparr>) = roots_inv db"
  "roots_inv (db\<lparr>db_user_posts := a\<rparr>) = roots_inv db"
  by (rule roots_inv_same; simp)+

lemma root_body_members:
  "root_body (replace_user_orgs user ids primary)" "root_body (replace_user_depts user ids primary)"
  "root_body (replace_user_posts user ids primary)"
  unfolding replace_user_orgs_def [abs_def] replace_user_depts_def [abs_def] replace_user_posts_def [abs_def]
  by (rule root_body_checked; auto)+

lemma root_body_insert: "root_body (\<lambda>_. insert_user dup r)"
  by (rule root_bodyI) (rule insert_user_keeps)

lemma root_body_new_rows:
  "root_body (\<lambda>_. create_owner_row dup i account nick)"
  "root_body (\<lambda>_. create_admin_row dup null i account nick email phone profile status)"
  "root_body (\<lambda>_. create_subject_row dup i account nick email avatar)"
  using root_body_insert unfolding root_body_def create_owner_row_def create_admin_row_def create_subject_row_def
  by (simp_all split: if_split)

lemma same_status_keeps:
  assumes "roots_inv db" "\<And>r. us_id (f r) = us_id r \<and> us_deleted (f r) = us_deleted r \<and> us_status (f r) = us_status r"
  shows "roots_inv (db\<lparr>db_users := update_where (\<lambda>r. us_id r = user \<and> \<not> us_deleted r) f (db_users db)\<rparr>)"
  by (rule change_users_keeps [OF assms(1) refl, where user = user]) (simp_all add: assms(2))

lemma update_profile_keeps: "roots_inv db \<Longrightarrow> roots_inv (update_profile user nick phone avatar profile db)"
  unfolding update_profile_def by (simp only: if_split) (simp add: same_status_keeps)

lemma update_email_keeps: "roots_inv db \<Longrightarrow> roots_inv (update_email user email db)"
  unfolding update_email_def by (simp add: same_status_keeps)

lemma root_body_same_status:
  "root_body (change_db (update_profile user nick phone avatar profile))"
  "root_body (change_db (update_email user email))"
  by (auto simp: root_body_def change_db_def update_profile_keeps update_email_keeps)

lemma guarded:
  "status_guard env user True m w = (Inr u, w') \<Longrightarrow> guard_user_deactivation (ac_db w) user = Inr () \<and> w' = w"
  by (auto simp: status_guard_def seq_body_Inr guard_deactivation_def split: if_splits)

lemma unguarded: "status_guard env user False m w = (Inr u, w') \<Longrightarrow> w' = w"
  by (simp add: status_guard_def)

lemma end_sessions_db: "end_sessions env now user leaves m w = (Inr u, w') \<Longrightarrow> ac_db w' = ac_db w"
  by (auto simp: end_sessions_def account_steps revoke_of_user_def split: if_splits)

lemma update_lock_state_keeps:
  assumes "roots_inv db" "status \<noteq> UserStatusNormal \<Longrightarrow> guard_user_deactivation db user = Inr ()"
  shows "roots_inv (update_lock_state user status unseal db)"
proof (cases "user \<le> 0")
  case True
  with assms(1) show ?thesis by (simp add: update_lock_state_def)
next
  case False
  show ?thesis
    by (rule change_users_keeps [OF assms(1), where user = user and P = "\<lambda>r. us_id r = user \<and> \<not> us_deleted r"
          and f = "\<lambda>r. r\<lparr>us_status := status, us_unseal := unseal, us_version := Suc (us_version r), us_hash := None\<rparr>"])
      (use False assms(2) in \<open>auto simp: update_lock_state_def UserStatusNormal_def\<close>)
qed

lemma root_lock_state: "root_account (lock_state_body env now user status unseal)"
proof (rule root_accountI)
  fix w x w'
  assume inv: "roots_inv (ac_db w)" and run: "lock_state_body env now user status unseal OrdinaryTx w = (Inr x, w')"
  let ?leaves = "status \<noteq> UserStatusNormal"
  obtain u w1 w2 v where steps: "status_guard env user ?leaves OrdinaryTx w = (Inr u, w1)"
      "w2 = w1\<lparr>ac_db := update_lock_state user status unseal (ac_db w1)\<rparr>"
      "end_sessions env now user ?leaves OrdinaryTx w2 = (Inr v, w')"
    using run unfolding lock_state_body_def account_steps change_db_def by auto
  have "w1 = w" "?leaves \<Longrightarrow> guard_user_deactivation (ac_db w) user = Inr ()"
    using steps(1) guarded [of env user OrdinaryTx w u w1] unguarded [of env user OrdinaryTx w u w1] by (cases ?leaves; simp)+
  then have "roots_inv (ac_db w2)" using update_lock_state_keeps [OF inv] steps(2) by simp
  then show "roots_inv (ac_db w')" using end_sessions_db [OF steps(3)] by simp
qed

lemma soft_delete_keeps:
  assumes "roots_inv db" "guard_user_deactivation db user = Inr ()" "soft_delete_user dup user db = (Inr u, db')"
  shows "roots_inv db'"
  by (rule change_users_keeps [OF assms(1), where user = user and P = "\<lambda>r. us_id r = user \<and> \<not> us_deleted r"
        and f = "\<lambda>r. r\<lparr>us_deleted := True\<rparr>"])
    (use assms(2,3) in \<open>auto simp: soft_delete_user_def Let_def split: if_splits\<close>)

lemma root_delete_user: "root_account (delete_user_body env now user)"
proof (rule root_accountI)
  fix w x w'
  assume inv: "roots_inv (ac_db w)" and run: "delete_user_body env now user OrdinaryTx w = (Inr x, w')"
  obtain u w1 db v y where steps: "status_guard env user True OrdinaryTx w = (Inr u, w1)"
      "soft_delete_user (az_dup (ae_authz env)) user (ac_db w1) = (Inr y, db)"
      "end_sessions env now user True OrdinaryTx (w1\<lparr>ac_db := db\<rparr>) = (Inr v, w')"
    using run unfolding delete_user_body_def account_steps by auto
  then show "roots_inv (ac_db w')"
    using guarded [OF steps(1)] soft_delete_keeps [OF inv] end_sessions_db [OF steps(3)] by auto
qed

lemma update_admin_user_keeps:
  assumes "roots_inv db" "leaves_normal status \<Longrightarrow> guard_user_deactivation db user = Inr ()"
    "update_admin_user null user nick email phone profile status db = (Inr u, db')"
  shows "roots_inv db'"
proof (cases "user \<le> 0")
  case True
  with assms(1,3) show ?thesis by (simp add: update_admin_user_def)
next
  case False
  let ?f = "\<lambda>r. let r1 = r\<lparr>us_nick := trim_space nick, us_email := trim_space email, us_phone := nullable_text phone,
                          us_profile := (case profile of None \<Rightarrow> us_profile r | Some p \<Rightarrow> trim_space p)\<rparr>
             in case status of
                  None \<Rightarrow> r1
                | Some s \<Rightarrow> r1\<lparr>us_status := s, us_version := Suc (us_version r), us_hash := None\<rparr>"
  have "db' = db\<lparr>db_users := update_where (\<lambda>r. us_id r = user \<and> \<not> us_deleted r) ?f (db_users db)\<rparr>"
    using assms(3) False by (auto simp: update_admin_user_def split: if_splits)
  then show ?thesis
  proof (rule change_users_keeps [OF assms(1), where user = user])
    show "us_id (?f r) = us_id r" for r by (simp add: Let_def split: option.split)
    show "us_id r = user \<and> \<not> us_deleted r \<Longrightarrow> us_id r = user" for r by simp
    show "(\<forall>r. us_deleted (?f r) = us_deleted r \<and> (us_status r = 0 \<longrightarrow> us_status (?f r) = 0))
      \<or> guard_user_deactivation db user = Inr ()"
      using assms(2) by (cases status) (auto simp: Let_def leaves_normal_def UserStatusNormal_def)
  qed
qed

lemma root_update_admin: "root_account (update_admin_body env now c r status)"
proof (rule root_accountI)
  fix w x w'
  assume inv: "roots_inv (ac_db w)" and run: "update_admin_body env now c r status OrdinaryTx w = (Inr x, w')"
  obtain u w1 db v y where steps: "status_guard env (au_id c) (leaves_normal status) OrdinaryTx w = (Inr u, w1)"
      "update_admin_user (az_null (ae_authz env)) (au_id c) (or_existing (au_nick c) (us_nick r))
         (or_existing (au_email c) (us_email r)) (or_existing (au_phone c) (phone_text r)) (au_remark c) status (ac_db w1)
       = (Inr y, db)"
      "end_sessions env now (au_id c) (leaves_normal status) OrdinaryTx (w1\<lparr>ac_db := db\<rparr>) = (Inr v, w')"
    using run unfolding update_admin_body_def account_steps by auto
  have "w1 = w" "leaves_normal status \<Longrightarrow> guard_user_deactivation (ac_db w) (au_id c) = Inr ()"
    using steps(1) guarded [of env "au_id c" OrdinaryTx w u w1] unguarded [of env "au_id c" OrdinaryTx w u w1]
    by (cases "leaves_normal status"; simp)+
  then have "roots_inv db" using update_admin_user_keeps [OF inv] steps(2) by blast
  then show "roots_inv (ac_db w')" using end_sessions_db [OF steps(3)] by simp
qed

lemma compare_and_set_keeps:
  assumes "roots_inv db" "status \<noteq> UserStatusNormal \<Longrightarrow> guard_user_deactivation db user = Inr ()"
    "compare_and_set_managed_user_status user expected version status unseal hash db = (ok, db')"
  shows "roots_inv db'"
proof (cases "user \<le> 0")
  case True
  with assms(1,3) show ?thesis by (simp add: compare_and_set_managed_user_status_def)
next
  case False
  then have "db' = db\<lparr>db_users := update_where
      (\<lambda>r. us_id r = user \<and> us_status r = expected \<and> us_version r = version \<and> \<not> us_deleted r)
      (\<lambda>r. r\<lparr>us_status := status, us_unseal := unseal, us_version := Suc (us_version r),
             us_hash := Some (trim_space hash)\<rparr>) (db_users db)\<rparr>"
    using assms(3) by (auto simp: compare_and_set_managed_user_status_def Let_def)
  then show ?thesis
    by (rule change_users_keeps [OF assms(1), where user = user]) (use assms(2) in \<open>auto simp: UserStatusNormal_def\<close>)
qed

lemma managed_revoke_db: "managed_revoke env now c m w = (Inr u, w') \<Longrightarrow> ac_db w' = ac_db w"
  by (auto simp: managed_revoke_def account_steps revoke_of_user_before_def split: if_splits)

lemma managed_guard_Inr:
  "managed_guard env c m w = (Inr u, w') \<Longrightarrow> w' = w \<and>
     (ms_status c \<noteq> UserStatusNormal \<longrightarrow> guard_user_deactivation (ac_db w) (ms_user c) = Inr ())"
  by (auto simp: managed_guard_def account_steps guard_deactivation_def split: if_splits)

lemma managed_replay_db: "managed_replay env now c m w = (Inr u, w') \<Longrightarrow> ac_db w' = ac_db w"
  by (auto simp: managed_replay_def split: option.splits if_splits dest: managed_revoke_db)

lemma root_managed_status: "root_account (managed_status_body env now c)"
proof (rule root_accountI)
  fix w x w'
  assume inv: "roots_inv (ac_db w)" and run: "managed_status_body env now c OrdinaryTx w = (Inr x, w')"
  obtain ok db where cas: "compare_and_set_managed_user_status (ms_user c) (ms_expected c) (ms_version c) (ms_status c)
      None (ms_hash c) (ac_db w) = (ok, db)" by fastforce
  obtain u w1 where first: "managed_guard env c OrdinaryTx w = (Inr u, w1)"
    using run unfolding managed_status_body_def account_steps by blast
  then have rest: "(if ok then managed_revoke env now c else managed_replay env now c) OrdinaryTx (w\<lparr>ac_db := db\<rparr>)
      = (Inr x, w')"
    using run managed_guard_Inr [OF first] cas unfolding managed_status_body_def account_steps by auto
  have "roots_inv db" using compare_and_set_keeps [OF inv _ cas] managed_guard_Inr [OF first] by blast
  moreover have "ac_db w' = db"
    using rest by (cases ok) (auto dest!: managed_revoke_db managed_replay_db)
  ultimately show "roots_inv (ac_db w')" by simp
qed

lemma root_store_password: "root_account (store_password env now user hash operator)"
  unfolding store_password_def by (rule root_account_credentials)

lemma root_account_roles:
  "root_account (on_db (assign_provisioned_user_roles aenv user roles))"
  "root_account (on_db (assign_created_user_roles aenv now user name roles operator prf))"
  "root_account (on_db (bootstrap_owner_roles aenv user roles operator))"
proof -
  have never: "root_account (on_db body)" if "\<And>db. \<exists>e. body OrdinaryTx db = (Inl e, db)" for body :: "(unit, authz_db) tx_body"
  proof (rule root_account_never)
    fix w :: "'w accounts"
    from that [of "ac_db w"] show "\<exists>e w'. on_db body OrdinaryTx w = (Inl e, w')" by (auto simp: on_db_def)
  qed
  show "root_account (on_db (assign_provisioned_user_roles aenv user roles))"
    "root_account (on_db (assign_created_user_roles aenv now user name roles operator prf))"
    "root_account (on_db (bootstrap_owner_roles aenv user roles operator))"
    by (rule never, rule roles_in_ordinary)+
qed

lemmas root_account_members = root_body_members [THEN root_account_db] root_body_new_rows [THEN root_account_db]

lemma root_provision: "root_account (provision_defaults env c)"
  unfolding provision_defaults_def Let_def
  by (simp add: root_account_seq root_account_checked root_account_members root_account_roles)

lemma root_admin_user: "root_account (admin_user_body env now c hash)"
  unfolding admin_user_body_def Let_def
  by (simp add: root_account_seq root_account_checked root_account_members root_account_roles root_store_password)

section \<open>Operations\<close>

lemma account_tx_keeps_roots:
  assumes "az_transactor (ae_authz env)" "root_account body" "roots_inv (ac_db w)"
  shows "roots_inv (ac_db (snd (account_tx env body NoTx w)))"
proof -
  obtain r w' where run: "account_tx env body NoTx w = (r, w')" by fastforce
  from account_tx_cases [OF assms(1) run] assms(2,3) show ?thesis
    unfolding run root_account_def by (auto simp: tables_same_def)
qed

lemma account_checks_keep:
  "roots_inv (ac_db w) \<Longrightarrow> (\<And>x. check = Inr x \<Longrightarrow> roots_inv (ac_db (snd (f x w)))) \<Longrightarrow>
     roots_inv (ac_db (snd (then_do (check, w) f)))"
  by (cases check) auto

lemma subjects_keep_roots:
  assumes "az_transactor (ae_authz env)" "roots_inv (ac_db w)"
  shows "roots_inv (ac_db (snd (create_external_subject env now c seen NoTx w)))"
    "roots_inv (ac_db (snd (create_form_subject env now c seen NoTx w)))"
proof -
  have external: "root_account (seq_body
      (on_db (\<lambda>_. create_subject_row dup user account nick email avatar)) (\<lambda>_. provision_defaults env c))"
    for dup user account nick email avatar
    by (intro root_account_seq root_account_members root_provision)
  have form: "root_account (seq_body (on_db (\<lambda>_. create_subject_row dup user account nick email avatar))
      (\<lambda>_. seq_body (store_password env now user hash None) (\<lambda>_. provision_defaults env c)))"
    for dup user account nick email avatar hash
    by (intro root_account_seq root_account_members root_provision root_store_password)
  show "roots_inv (ac_db (snd (create_external_subject env now c seen NoTx w)))"
    unfolding create_external_subject_def
  proof (rule account_checks_keep [OF assms(2)])
    fix decision :: "user_row + string \<times> string"
    show "roots_inv (ac_db (snd (case decision of Inl r \<Rightarrow> (Inr (Some r), w)
         | Inr (account, email) \<Rightarrow>
             let nick = if blank (sc_nick c) then email else trim_space (sc_nick c); user = ae_user_id env
             in then_do (account_mutation env (seq_body
                  (on_db (\<lambda>_. create_subject_row (az_dup (ae_authz env)) user account nick email (sc_avatar c)))
                  (\<lambda>_. provision_defaults env c)) NoTx w)
                (\<lambda>_ w1. (find_subject_by_id (ac_db w1) user, w1)))))"
      by (cases decision) (auto simp: assms(2) Let_def keeps_before_read split: prod.split
          intro!: account_mutation_keeps_roots [OF assms(1) external assms(2)])
  qed
  show "roots_inv (ac_db (snd (create_form_subject env now c seen NoTx w)))"
    unfolding create_form_subject_def
    by (rule account_checks_keep [OF assms(2)])
      (auto simp: Let_def keeps_before_read split: prod.split
        intro!: account_mutation_keeps_roots [OF assms(1) form assms(2)])
qed

lemma self_service_keeps_roots:
  assumes "roots_inv (ac_db w)"
  shows "roots_inv (ac_db (snd (update_self_profile user nick phone avatar profile seen m w)))"
    "roots_inv (ac_db (snd (update_self_email user email seen m w)))"
    "roots_inv (ac_db (snd (sync_external_profile c seen m w)))"
proof -
  have keep: "roots_inv (ac_db (snd (on_db (change_db (update_profile u n p a pr)) m v)))"
    "roots_inv (ac_db (snd (on_db (change_db (update_email u e)) m v)))"
    if "roots_inv (ac_db v)" for u n p a pr e and v :: "'a accounts"
    using that by (simp_all add: on_db_def change_db_def update_profile_keeps update_email_keeps)
  show "roots_inv (ac_db (snd (update_self_profile user nick phone avatar profile seen m w)))"
    "roots_inv (ac_db (snd (update_self_email user email seen m w)))"
    unfolding update_self_profile_def update_self_email_def by (rule account_checks_keep [OF assms], rule keep, rule assms)+
  show "roots_inv (ac_db (snd (sync_external_profile c seen m w)))"
    unfolding sync_external_profile_def Let_def
  proof (rule account_checks_keep [OF assms])
    fix r :: user_row
    let ?step = "on_db (change_db (update_profile (xp_user c)
        (if (if blank (xp_nick c) then trim_space (xp_login c) else trim_space (xp_nick c)) \<noteq> [] \<and>
            (if blank (xp_nick c) then trim_space (xp_login c) else trim_space (xp_nick c)) \<noteq> trim_space (us_nick r)
         then Some (if blank (xp_nick c) then trim_space (xp_login c) else trim_space (xp_nick c)) else None) None
        (if trim_space (xp_avatar c) \<noteq> [] \<and> trim_space (xp_avatar c) \<noteq> trim_space (us_avatar r)
         then Some (trim_space (xp_avatar c)) else None) None)) m w"
    have "roots_inv (ac_db (snd ?step))" by (rule keep(1) [OF assms])
    then show "roots_inv (ac_db (snd (then_do ?step (\<lambda>_ w1.
        if \<not> xp_verified c \<or> to_lower (trim_space (xp_email c)) = [] \<or>
           to_lower (trim_space (xp_email c)) = to_lower (trim_space (us_email r)) \<or>
           \<not> validate_email (to_lower (trim_space (xp_email c))) \<or>
           0 < count_by_email (ac_db w1) (xp_user c) (to_lower (trim_space (xp_email c)))
        then (Inr (), w1)
        else on_db (change_db (update_email (xp_user c) (to_lower (trim_space (xp_email c))))) m w1))))"
      by (cases ?step) (auto simp: then_do_def keep(2) split: sum.split)
  qed
qed

lemma administration_keeps_roots:
  assumes "az_transactor (ae_authz env)" "roots_inv (ac_db w)"
  shows "roots_inv (ac_db (snd (update_password env now user raw operator NoTx w)))"
    "roots_inv (ac_db (snd (change_lock_state env now user status unseal NoTx w)))"
    "roots_inv (ac_db (snd (create_owner_user env now account nick raw seen NoTx w)))"
    "roots_inv (ac_db (snd (create_admin_user env now c seen NoTx w)))"
    "roots_inv (ac_db (snd (change_admin_user env now c seen NoTx w)))"
    "roots_inv (ac_db (snd (delete_admin_user env now user operator prf NoTx w)))"
    "roots_inv (ac_db (snd (update_admin_user_status env now user status operator prf NoTx w)))"
    "roots_inv (ac_db (snd (set_managed_user_status env now mc NoTx w)))"
    "roots_inv (ac_db (snd (assign_user_orgs env user ids primary operator seen NoTx w)))"
    "roots_inv (ac_db (snd (assign_user_depts env user ids primary operator seen NoTx w)))"
    "roots_inv (ac_db (snd (assign_user_posts env user ids primary operator seen NoTx w)))"
proof -
  note keep = account_mutation_keeps_roots [OF assms(1) _ assms(2)]
  have password: "root_account (seq_body (store_password env now user hash operator)
      (\<lambda>_. seq_body (revoke_of_user env now user) (\<lambda>_. checked (Inr ()))))" for hash operator
    by (intro root_account_seq root_store_password root_account_checked) (simp add: revoke_of_user_def root_account_sso)
  show "roots_inv (ac_db (snd (update_password env now user raw operator NoTx w)))"
    unfolding update_password_def by (rule account_checks_keep [OF assms(2)], rule keep, rule password)
  show "roots_inv (ac_db (snd (change_lock_state env now user status unseal NoTx w)))"
    unfolding change_lock_state_def by (simp add: assms(2) keep root_lock_state)
  have owner: "root_account (seq_body (on_db (\<lambda>_. create_owner_row dup i account nick))
      (\<lambda>_. store_password env now new_user hash operator))" for dup i account nick hash operator new_user
    by (intro root_account_seq root_account_members root_store_password)
  show "roots_inv (ac_db (snd (create_owner_user env now account nick raw seen NoTx w)))"
    unfolding create_owner_user_def Let_def
    by (rule account_checks_keep [OF assms(2)])
      (simp add: keeps_before_read account_tx_keeps_roots [OF assms(1) owner assms(2)])
  show "roots_inv (ac_db (snd (create_admin_user env now c seen NoTx w)))"
    unfolding create_admin_user_def
    by (rule account_checks_keep [OF assms(2)]) (simp add: keeps_before_read keep root_admin_user)
  show "roots_inv (ac_db (snd (change_admin_user env now c seen NoTx w)))"
    unfolding change_admin_user_def
    by (rule account_checks_keep [OF assms(2)]) (simp add: keep root_update_admin split: prod.split)
  show "roots_inv (ac_db (snd (delete_admin_user env now user operator prf NoTx w)))"
    unfolding delete_admin_user_def refreshed_same by (rule account_checks_keep [OF assms(2)], rule keep, rule root_delete_user)
  show "roots_inv (ac_db (snd (update_admin_user_status env now user status operator prf NoTx w)))"
    unfolding update_admin_user_status_def refreshed_same by (rule account_checks_keep [OF assms(2)], rule keep, rule root_lock_state)
  show "roots_inv (ac_db (snd (set_managed_user_status env now mc NoTx w)))"
    unfolding set_managed_user_status_def
    by (rule account_checks_keep [OF assms(2)]) (simp add: keeps_before_read keep root_managed_status)
  show "roots_inv (ac_db (snd (assign_user_orgs env user ids primary operator seen NoTx w)))"
    "roots_inv (ac_db (snd (assign_user_depts env user ids primary operator seen NoTx w)))"
    "roots_inv (ac_db (snd (assign_user_posts env user ids primary operator seen NoTx w)))"
    unfolding assign_user_orgs_def assign_user_depts_def assign_user_posts_def refreshed_same
    by (rule account_checks_keep [OF assms(2)], rule keep, rule root_account_members)+
qed

end
