(* ===== verification/Sso_Login.thy ===== *)
theory Sso_Login
  imports Sso_Service
begin

text \<open>
  A login started by an authorization request and completed interactively
  (\<open>CreateAuthorizationSession\<close> to \<open>CompleteInteractiveAuthentication\<close> of \<open>app/sso/application/service.go\<close>).
\<close>

record login_request =
  lq_client :: string
  lq_response_type :: string
  lq_redirect :: string
  lq_scopes :: "string list"
  lq_state :: string
  lq_nonce :: string
  lq_prompt :: string
  lq_challenge :: string
  lq_challenge_method :: string
  lq_device :: string
  lq_tenant :: string
  lq_ip :: string
  lq_agent :: string
  lq_trace :: string

definition create_authorization_session :: "'w sso_env \<Rightarrow> time \<Rightarrow> login_request \<Rightarrow> (login_snapshot, 'w) sso_action" where
  "create_authorization_session env now q w =
     then_do (require_client env now (lq_client q) w) (\<lambda>client w1.
       case validate_authorize_request client (lq_response_type q) (lq_redirect q) (lq_challenge q)
              (lq_challenge_method q) (lq_prompt q) of
         Inl e \<Rightarrow> (Inl e, w1)
       | Inr _ \<Rightarrow>
           (case normalize_scopes client (lq_scopes q) of
              Inl e \<Rightarrow> (Inl e, w1)
            | Inr scopes \<Rightarrow>
                (let expires = now + seconds_duration (se_login_ttl env); (login, w2) = new_id env ''login_txn'' w1;
                     snapshot = \<lparr>ln_id = login, ln_client = sc_client_id client,
                       ln_redirect = trim_space (lq_redirect q), ln_scopes = scopes,
                       ln_state = trim_space (lq_state q), ln_nonce = trim_space (lq_nonce q),
                       ln_challenge = trim_space (lq_challenge q),
                       ln_challenge_method = to_upper (trim_space (lq_challenge_method q)),
                       ln_device = trim_space (lq_device q), ln_tenant = trim_space (lq_tenant q),
                       ln_ip = trim_space (lq_ip q), ln_agent = trim_space (lq_agent q),
                       ln_trace = trim_space (lq_trace q), ln_created = Some now, ln_expires = Some expires\<rparr>
                 in then_do (save_login now snapshot (time_sub expires now) w2) (\<lambda>_ w3. (Inr snapshot, w3)))))"

definition get_authorization_session :: "time \<Rightarrow> string \<Rightarrow> (login_snapshot option, 'w) sso_action" where
  "get_authorization_session now login w =
     then_do (get_login now (trim_space login) w) (\<lambda>found w1.
       case found of
         None \<Rightarrow> (Inr None, w1)
       | Some s \<Rightarrow>
           (case ln_expires s of
              None \<Rightarrow> (Inr (Some s), w1)
            | Some e \<Rightarrow> if e < now then (Inr None, snd (remove_login login w1)) else (Inr (Some s), w1)))"

section \<open>Completion\<close>

record completion_command =
  cc_login :: string
  cc_user :: int
  cc_platform :: string
  cc_acr :: string
  cc_amr :: "string list"
  cc_login_method :: string
  cc_provider :: string
  cc_identity :: int
  cc_auth_time :: "time option"

definition login_missing :: go_error where
  "login_missing = operation_error (utf8 [0x767B, 0x5F55, 0x4E8B, 0x52A1, 0x4E0D, 0x5B58, 0x5728, 0x6216, 0x5DF2, 0x5931, 0x6548])"

definition login_busy :: go_error where
  "login_busy = operation_error (utf8 [0x767B, 0x5F55, 0x5B8C, 0x6210, 0x6D41, 0x7A0B, 0x6B63, 0x5728, 0x5904, 0x7406, 0x4E2D])"

text \<open>The session of the user who logged in; \<open>src\<close> is the normalized source.\<close>

definition login_session ::
    "'w sso_env \<Rightarrow> time \<Rightarrow> completion_command \<Rightarrow> (string \<times> string \<times> int \<times> string \<times> string list) \<Rightarrow> login_snapshot \<Rightarrow> string \<Rightarrow> sso_session" where
  "login_session env now c src snapshot sid =
     (case src of (login_kind, provider, identity, acr, amr) \<Rightarrow>
        \<lparr>ss_id = sid, ss_user = cc_user c, ss_client = ln_client snapshot,
         ss_platform = trim_space (cc_platform c), ss_device = trim_space (ln_device snapshot),
         ss_ip = trim_space (ln_ip snapshot), ss_agent = trim_space (ln_agent snapshot),
         ss_acr = acr, ss_amr = amr, ss_login_method = login_kind, ss_provider = provider,
         ss_identity = identity,
         ss_login_at = (case cc_auth_time c of None \<Rightarrow> now | Some t \<Rightarrow> if is_zero_time t then now else t),
         ss_last_access = None,
         ss_expires = now + seconds_duration (max_int (se_session_idle env) 1800),
         ss_revoked = None, ss_status = SessionStatusActive, ss_create = now\<rparr>)"

text \<open>Code, cached result and removal of the pending login; a client that cannot be loaded ends the completion.\<close>

definition complete_for_client ::
    "'w sso_env \<Rightarrow> time \<Rightarrow> string \<Rightarrow> sso_client \<Rightarrow> login_snapshot \<Rightarrow> time \<Rightarrow> sso_session \<Rightarrow> (completion_result, 'w) sso_action" where
  "complete_for_client env now login client snapshot expires session w =
     (let scopes = (if ln_scopes snapshot = [] then sc_scopes client else ln_scopes snapshot);
          w1 = (if sc_require_consent client \<or> sc_trusted client
                then snd (upsert_consent_grant \<lparr>cg_user = ss_user session, cg_client = sc_client_id client,
                       cg_scopes = scopes, cg_granted = now, cg_revoked = None, cg_status = ConsentStatusActive\<rparr> w)
                else w);
          (code, w2) = new_id env ''sso_code'' w1
      in case insert_authorization_code
                \<lparr>ac_code = code, ac_client = ln_client snapshot, ac_user = ss_user session,
                 ac_session = ss_id session, ac_redirect = ln_redirect snapshot, ac_scopes = scopes,
                 ac_challenge = ln_challenge snapshot, ac_challenge_method = ln_challenge_method snapshot,
                 ac_nonce = ln_nonce snapshot, ac_acr = ss_acr session, ac_amr = ss_amr session,
                 ac_expires = now + 5 * minute, ac_consumed = None, ac_status = CodeStatusActive\<rparr> w2 of
           (Inl e, w3) \<Rightarrow> (Inl e, snd (release_session_finalized login w3))
         | (Inr _, w3) \<Rightarrow>
             (let result = \<lparr>cp_authenticated = True, cp_login = login,
                    cp_redirect = \<lparr>cr_uri = ln_redirect snapshot, cr_code = code, cr_state = ln_state snapshot\<rparr>,
                    cp_session_cookie = ss_id session, cp_session_expires = ss_expires session\<rparr>;
                  w4 = snd (save_completion_result now login result (time_sub expires now) w3)
              in (Inr result, snd (remove_login login w4))))"

definition complete_finalized ::
    "'w sso_env \<Rightarrow> time \<Rightarrow> completion_command \<Rightarrow> (string \<times> string \<times> int \<times> string \<times> string list) \<Rightarrow>
     string \<Rightarrow> login_snapshot \<Rightarrow> time \<Rightarrow> (completion_result, 'w) sso_action" where
  "complete_finalized env now c src login snapshot expires w =
     (let (sid, w1) = new_id env ''sso_sess'' w; session = login_session env now c src snapshot sid
      in case insert_session session w1 of
           (Inl e, w2) \<Rightarrow> (Inl e, snd (release_session_finalized login w2))
         | (Inr _, w2) \<Rightarrow>
             (case require_client env now (ln_client snapshot) w2 of
                (Inl _, w3) \<Rightarrow>
                  (Inl (operation_error (utf8 [0x5BA2, 0x6237, 0x7AEF, 0x4E0D, 0x5B58, 0x5728, 0x6216, 0x5DF2, 0x7981, 0x7528])), snd (release_session_finalized login w3))
              | (Inr client, w3) \<Rightarrow> complete_for_client env now login client snapshot expires session w3))"

text \<open>
  A stored result, if it can be read. Without an expiry the code would dereference nil; the snapshots that
  \<open>CreateAuthorizationSession\<close> stores have one.
\<close>

definition login_without_expiry :: go_error where
  "login_without_expiry = PlainError ''invalid memory address or nil pointer dereference''"

definition complete_locked ::
    "'w sso_env \<Rightarrow> time \<Rightarrow> completion_command \<Rightarrow> (string \<times> string \<times> int \<times> string \<times> string list) \<Rightarrow>
     string \<Rightarrow> (completion_result, 'w) sso_action" where
  "complete_locked env now c src login w =
     (case get_completion_result now login w of
        (Inr (Some r), w1) \<Rightarrow> (Inr r, w1)
      | (_, w1) \<Rightarrow>
          then_do (get_login now login w1) (\<lambda>found w2.
            case found of
              None \<Rightarrow> (Inl login_missing, w2)
            | Some snapshot \<Rightarrow>
                (case ln_expires snapshot of
                   None \<Rightarrow> (Inl login_without_expiry, w2)
                 | Some expires \<Rightarrow>
                     if expires < now then (Inl login_missing, snd (remove_login login w2))
                     else then_do (mark_session_finalized now login (time_sub expires now) w2) (\<lambda>marked w3.
                       if marked then complete_finalized env now c src login snapshot expires w3
                       else case get_completion_result now login w3 of
                              (Inr (Some r), w4) \<Rightarrow> (Inr r, w4)
                            | (_, w4) \<Rightarrow> (Inl login_busy, w4)))))"

definition complete_interactive_authentication ::
    "'w sso_env \<Rightarrow> time \<Rightarrow> completion_command \<Rightarrow> (completion_result, 'w) sso_action" where
  "complete_interactive_authentication env now c w =
     (let login = trim_space (cc_login c)
      in if cc_user c \<le> 0 then (Inl (params_error (''userId'' @ utf8 [0x4E0D, 0x80FD, 0x4E3A, 0x7A7A])), w)
         else if login = [] then (Inl (params_error (''loginTransactionId'' @ utf8 [0x4E0D, 0x80FD, 0x4E3A, 0x7A7A])), w)
         else case normalize_session_source (cc_login_method c) (cc_provider c) (cc_identity c) (cc_acr c) (cc_amr c) of
                Inl e \<Rightarrow> (Inl e, w)
              | Inr src \<Rightarrow>
                  then_do (acquire_completion_lock now login w) (\<lambda>locked w1.
                    if \<not> locked then (Inl login_busy, w1)
                    else case complete_locked env now c src login w1 of
                           (r, w2) \<Rightarrow> (r, snd (release_completion_lock login w2))))"

end
