(* ===== verification/Sso_Refresh.thy ===== *)
theory Sso_Refresh
  imports Sso_Service
begin

text \<open>
  Rotation of refresh tokens, revocation and introspection of tokens, and the session that a first-party
  login starts (\<open>app/sso/application/service.go\<close>).
\<close>

section \<open>Rotation\<close>

definition is_refresh_rotation_within_replay_skew ::
    "'w sso_env \<Rightarrow> refresh_family \<Rightarrow> token_principal \<Rightarrow> string \<Rightarrow> time \<Rightarrow> bool" where
  "is_refresh_rotation_within_replay_skew env family holder cid now =
     (case rf_rotated family of
        None \<Rightarrow> False
      | Some rotated \<Rightarrow>
          if rf_status family \<noteq> RefreshFamilyStatusActive \<or> rf_expires family < now \<or>
             \<not> not_revoked (rf_revoked family) then False
          else if tp_session holder \<noteq> rf_session family \<or> tp_user holder \<noteq> rf_user family \<or>
                  tp_client holder \<noteq> rf_client family \<or> rf_client family \<noteq> trim_space cid then False
          else if se_replay_skew env \<le> 0 then False
          else \<bar>time_sub now rotated\<bar> \<le> seconds_duration (se_replay_skew env))"

text \<open>
  The handling of a token whose hash is the previous one of a family. \<open>Inr None\<close> is the signal by which
  a transaction commits the punishment (\<open>refreshReuseCommitted\<close>).
\<close>

definition reuse_detected :: go_error where
  "reuse_detected = unauthorized ''refresh token reuse detected''"

definition punish_reuse ::
    "'w sso_env \<Rightarrow> time \<Rightarrow> sso_client \<Rightarrow> token_principal \<Rightarrow> refresh_family \<Rightarrow> (token_bundle option, 'w) sso_action" where
  "punish_reuse env now client holder prev w =
     (if is_refresh_rotation_within_replay_skew env prev holder (sc_client_id client) now
      then (Inl (unauthorized (''refresh token '' @ utf8 [0x5DF2, 0x8F6E, 0x6362, 0xFF0C, 0x8BF7, 0x4F7F, 0x7528, 0x6700, 0x65B0] @ '' refresh token'')), w)
      else then_do (mark_refresh_family_reuse_detected (rf_id prev) now w) (\<lambda>_ w1.
           then_do (if invalidating env then (Inr (), w1)
                    else revoke_refresh_families_by_session_id (rf_session prev) now w1) (\<lambda>_ w2.
           then_do (revoke_session_within env now (rf_session prev) w2) (\<lambda>_ w3.
             if invalidating env then (Inr None, w3) else (Inl reuse_detected, w3)))))"

definition family_live :: "time \<Rightarrow> refresh_family \<Rightarrow> bool" where
  "family_live now family \<longleftrightarrow>
     \<not> (rf_status family \<noteq> RefreshFamilyStatusActive \<or> rf_expires family < now \<or> \<not> not_revoked (rf_revoked family))"

definition family_scopes :: "refresh_family \<Rightarrow> string list" where
  "family_scopes family = (if rf_scopes family = [] then default_scopes else rf_scopes family)"

definition check_refresh_session :: "time \<Rightarrow> sso_client \<Rightarrow> refresh_family \<Rightarrow> sso_session \<Rightarrow> unit result" where
  "check_refresh_session now client family session =
     (if ss_status session \<noteq> SessionStatusActive \<or> ss_expires session < now then Inl session_invalid
      else if ss_user session \<noteq> rf_user family \<or> ss_client session \<noteq> sc_client_id client
      then Inl (unauthorized (''refresh token '' @ utf8 [0x4E0E, 0x767B, 0x5F55, 0x4F1A, 0x8BDD, 0x4E0D, 0x5339, 0x914D]))
      else Inr ())"

definition rotate_family ::
    "'w sso_env \<Rightarrow> time \<Rightarrow> sso_client \<Rightarrow> string \<Rightarrow> refresh_family \<Rightarrow> sso_session \<Rightarrow> (token_bundle, 'w) sso_action" where
  "rotate_family env now client hash family session w =
     (let scopes = family_scopes family
      in then_do (issue_refresh_token env now client session scopes w) (\<lambda>(refresh, refresh_expires) w1.
         then_do (rotate_refresh_family (rf_id family) hash (build_token_hash env refresh) now w1) (\<lambda>rotated w2.
           if \<not> rotated then (Inl refresh_token_invalid, w2)
           else then_do (issue_access_token env now client session scopes w2) (\<lambda>(access, access_expires) w3.
                then_do (issue_id_token env now client session scopes [] w3) (\<lambda>id_token w4.
                  (Inr \<lparr>tb_access = access, tb_id = id_token, tb_refresh = refresh, tb_type = ''Bearer'',
                        tb_expires_in = token_expires_in now access_expires,
                        tb_scope = join_scopes scopes, tb_refresh_expires = Some refresh_expires,
                        tb_refresh_in_body = (\<not> sc_trusted client)\<rparr>, w4))))))"

definition refresh_with_family ::
    "'w sso_env \<Rightarrow> time \<Rightarrow> sso_client \<Rightarrow> token_principal \<Rightarrow> string \<Rightarrow> refresh_family \<Rightarrow> (token_bundle, 'w) sso_action" where
  "refresh_with_family env now client holder hash family w =
     (if \<not> family_live now family then (Inl refresh_token_invalid, w)
      else if tp_session holder \<noteq> rf_session family \<or> tp_user holder \<noteq> rf_user family \<or>
              tp_client holder \<noteq> rf_client family \<or> rf_client family \<noteq> sc_client_id client
      then (Inl refresh_token_invalid, w)
      else then_do (found_or session_invalid (find_session_by_session_id (rf_session family) w)) (\<lambda>session w1.
        case check_refresh_session now client family session of
          Inl e \<Rightarrow> (Inl e, w1)
        | Inr _ \<Rightarrow> rotate_family env now client hash family session w1))"

definition refresh_principal_for ::
    "'w sso_env \<Rightarrow> time \<Rightarrow> sso_client \<Rightarrow> string \<Rightarrow> string \<Rightarrow> bool \<Rightarrow> token_principal result" where
  "refresh_principal_for env now client secret token from_cookie =
     (if from_cookie \<and> \<not> sc_trusted client
      then Inl (params_error ''refresh token cookie fallback requires trusted first-party client'')
      else if \<not> client_allows_grant client ''refresh_token''
      then Inl (unauthorized (utf8 [0x5F53, 0x524D, 0x5BA2, 0x6237, 0x7AEF, 0x4E0D, 0x5141, 0x8BB8] @ '' refresh_token '' @ utf8 [0x6388, 0x6743]))
      else case authenticate_client (se_password env) client secret of
             Inl e \<Rightarrow> Inl e
           | Inr _ \<Rightarrow>
               (case parse_refresh_token env now token of
                  Inl e \<Rightarrow> Inl e
                | Inr p \<Rightarrow> if tp_client p \<noteq> sc_client_id client then Inl refresh_token_invalid else Inr p))"

definition refresh_within ::
    "'w sso_env \<Rightarrow> time \<Rightarrow> string \<Rightarrow> string \<Rightarrow> string \<Rightarrow> bool \<Rightarrow> (token_bundle option, 'w) sso_action" where
  "refresh_within env now cid secret token from_cookie w =
     (if trim_space cid = [] then (Inl (params_error (utf8 [0x7F3A, 0x5C11] @ '' client_id'')), w)
      else if trim_space token = [] then (Inl (params_error (utf8 [0x7F3A, 0x5C11] @ '' refresh_token'')), w)
      else then_do (require_client env now cid w) (\<lambda>client w1.
        case refresh_principal_for env now client secret token from_cookie of
          Inl e \<Rightarrow> (Inl e, w1)
        | Inr holder \<Rightarrow>
            (let hash = build_token_hash env token
             in case find_refresh_family_by_current_hash hash w1 of
                  (Inr (Some family), w2) \<Rightarrow>
                    then_do (refresh_with_family env now client holder hash family w2) (\<lambda>b w3. (Inr (Some b), w3))
                | (_, w2) \<Rightarrow>
                    (case find_refresh_family_by_previous_hash hash w2 of
                       (Inr (Some prev), w3) \<Rightarrow> punish_reuse env now client holder prev w3
                     | (_, w3) \<Rightarrow> (Inl refresh_token_invalid, w3)))))"

text \<open>
  Outside the transaction the signal becomes the error of a reused token, whether or not the commit of the
  punishment succeeded.
\<close>

definition refresh_failed :: "'a option result \<Rightarrow> bool" where
  "refresh_failed r = (case r of Inr None \<Rightarrow> True | _ \<Rightarrow> False)"

definition exchange_refresh_token ::
    "'w sso_env \<Rightarrow> time \<Rightarrow> string \<Rightarrow> string \<Rightarrow> string \<Rightarrow> bool \<Rightarrow> (token_bundle, 'w) sso_action" where
  "exchange_refresh_token env now cid secret token from_cookie w =
     (let attempt = refresh_within env now cid secret token from_cookie;
          outcome = validity_transaction env attempt w
      in if invalidating env \<and> se_transactor env \<and> refresh_failed (fst (attempt w)) then (Inl reuse_detected, snd outcome)
         else case outcome of
                (Inl e, w1) \<Rightarrow> (Inl e, w1)
              | (Inr None, w1) \<Rightarrow> (Inl reuse_detected, w1)
              | (Inr (Some b), w1) \<Rightarrow> (Inr b, w1))"

section \<open>Revocation of tokens\<close>

definition is_invalid_oauth_token_error :: "go_error \<Rightarrow> bool" where
  "is_invalid_oauth_token_error e =
     (case from_error (Some e) of None \<Rightarrow> False | Some a \<Rightarrow> err_kind a = KindAuth)"

definition unit_of :: "'a result \<times> 'w sso_world \<Rightarrow> unit result \<times> 'w sso_world" where
  "unit_of r = then_do r (\<lambda>_ w. (Inr (), w))"

text \<open>The session of the first family found by current, then by previous hash.\<close>

definition family_of_hash :: "string \<Rightarrow> (refresh_family option, 'w) sso_action" where
  "family_of_hash hash w =
     then_do (find_refresh_family_by_current_hash hash w) (\<lambda>found w1.
       case found of
         Some f \<Rightarrow> (Inr (Some f), w1)
       | None \<Rightarrow> find_refresh_family_by_previous_hash hash w1)"

definition revoke_by_access_token :: "'w sso_env \<Rightarrow> time \<Rightarrow> string \<Rightarrow> (unit, 'w) sso_action" where
  "revoke_by_access_token env now token w =
     (case validate_access_token env now token w of
        (Inl e, w1) \<Rightarrow> if is_invalid_oauth_token_error e then (Inr (), w1) else (Inl e, w1)
      | (Inr p, w1) \<Rightarrow> unit_of (revoke_families_and_session env now (tp_session p) w1))"

definition revoke_token_within :: "'w sso_env \<Rightarrow> time \<Rightarrow> string \<Rightarrow> string \<Rightarrow> (unit, 'w) sso_action" where
  "revoke_token_within env now token hint w =
     (let t = trim_space token
      in if t = [] then (Inr (), w)
         else if equal_fold (trim_space hint) ''access_token'' then revoke_by_access_token env now t w
         else then_do (family_of_hash (build_token_hash env t) w) (\<lambda>found w1.
           case found of
             Some f \<Rightarrow> unit_of (revoke_families_and_session env now (rf_session f) w1)
           | None \<Rightarrow> revoke_by_access_token env now t w1))"

definition revoke_token :: "'w sso_env \<Rightarrow> time \<Rightarrow> string \<Rightarrow> string \<Rightarrow> (unit, 'w) sso_action" where
  "revoke_token env now token hint = validity_transaction env (revoke_token_within env now token hint)"

definition normalize_oauth_token_type_hint :: "string \<Rightarrow> string" where
  "normalize_oauth_token_type_hint value =
     (let v = to_lower (trim_space value)
      in if v \<in> {''access_token'', ''refresh_token''} then v else ''unspecified'')"

definition revoke_refresh_token_for_client :: "'w sso_env \<Rightarrow> time \<Rightarrow> string \<Rightarrow> string \<Rightarrow> (unit, 'w) sso_action" where
  "revoke_refresh_token_for_client env now cid token w =
     then_do (family_of_hash (build_token_hash env token) w) (\<lambda>found w1.
       case found of
         None \<Rightarrow> (Inr (), w1)
       | Some f \<Rightarrow>
           if trim_space (rf_client f) \<noteq> trim_space cid then (Inr (), w1)
           else unit_of (revoke_families_and_session env now (rf_session f) w1))"

definition revoke_access_token_for_client :: "'w sso_env \<Rightarrow> time \<Rightarrow> sso_client \<Rightarrow> string \<Rightarrow> (unit, 'w) sso_action" where
  "revoke_access_token_for_client env now client token w =
     (case parse_access_token_for_revocation env now token of
        Inl e \<Rightarrow> if is_invalid_oauth_token_error e then (Inr (), w) else (Inl e, w)
      | Inr p \<Rightarrow>
          if trim_space (tp_client p) \<noteq> trim_space (sc_client_id client) then (Inr (), w)
          else case validate_access_token env now token w of
                 (Inl e, w1) \<Rightarrow> if is_invalid_oauth_token_error e then (Inr (), w1) else (Inl e, w1)
               | (Inr active, w1) \<Rightarrow>
                   if trim_space (tp_client active) \<noteq> trim_space (sc_client_id client) then (Inr (), w1)
                   else unit_of (revoke_families_and_session env now (tp_session active) w1))"

definition revoke_token_for_client_within ::
    "'w sso_env \<Rightarrow> time \<Rightarrow> string \<Rightarrow> string \<Rightarrow> string \<Rightarrow> string \<Rightarrow> (unit, 'w) sso_action" where
  "revoke_token_for_client_within env now cid secret token hint w =
     then_do (require_client env now cid w) (\<lambda>client w1.
       case authenticate_client (se_password env) client secret of
         Inl e \<Rightarrow> (Inl e, w1)
       | Inr _ \<Rightarrow>
           (let t = trim_space token; h = normalize_oauth_token_type_hint hint
            in if t = [] then (Inr (), w1)
               else if h = ''access_token'' then revoke_access_token_for_client env now client t w1
               else case parse_refresh_token env now t of
                      Inr p \<Rightarrow>
                        if trim_space (tp_client p) \<noteq> trim_space (sc_client_id client) then (Inr (), w1)
                        else revoke_refresh_token_for_client env now (sc_client_id client) t w1
                    | Inl e \<Rightarrow>
                        if \<not> is_invalid_oauth_token_error e then (Inl e, w1)
                        else if h = ''refresh_token'' then (Inr (), w1)
                        else revoke_access_token_for_client env now client t w1))"

definition revoke_token_for_client ::
    "'w sso_env \<Rightarrow> time \<Rightarrow> string \<Rightarrow> string \<Rightarrow> string \<Rightarrow> string \<Rightarrow> (unit, 'w) sso_action" where
  "revoke_token_for_client env now cid secret token hint =
     validity_transaction env (revoke_token_for_client_within env now cid secret token hint)"

section \<open>Introspection\<close>

text \<open>The answer is the principal of an active token, or that the token is not active.\<close>

datatype introspection = Inactive | ActiveAccess token_principal | ActiveRefresh token_principal

definition introspect_access_token ::
    "'w sso_env \<Rightarrow> time \<Rightarrow> string \<Rightarrow> string \<Rightarrow> 'w sso_world \<Rightarrow> introspection option \<times> 'w sso_world" where
  "introspect_access_token env now cid token w =
     (case parse_access_token_for_revocation env now token of
        Inl _ \<Rightarrow> (None, w)
      | Inr p \<Rightarrow>
          if trim_space (tp_client p) \<noteq> trim_space cid then (None, w)
          else case validate_access_token env now token w of
                 (Inl _, w1) \<Rightarrow> (Some Inactive, w1)
               | (Inr active, w1) \<Rightarrow>
                   if trim_space (tp_client active) \<noteq> trim_space cid then (Some Inactive, w1)
                   else (Some (ActiveAccess active), w1))"

definition introspect_refresh_token ::
    "'w sso_env \<Rightarrow> time \<Rightarrow> string \<Rightarrow> string \<Rightarrow> 'w sso_world \<Rightarrow> introspection option \<times> 'w sso_world" where
  "introspect_refresh_token env now cid token w =
     (case parse_refresh_token env now token of
        Inl _ \<Rightarrow> (None, w)
      | Inr p \<Rightarrow>
          if trim_space (tp_client p) \<noteq> trim_space cid then (None, w)
          else case find_refresh_family_by_current_hash (build_token_hash env token) w of
                 (Inr (Some f), w1) \<Rightarrow>
                   if trim_space (rf_client f) \<noteq> trim_space cid \<or> \<not> family_live now f then (Some Inactive, w1)
                   else (case resolve_active_session env now (rf_session f) w1 of
                           (Inr (Some s), w2) \<Rightarrow>
                             if ss_user s \<noteq> tp_user p \<or> ss_client s \<noteq> tp_client p then (Some Inactive, w2)
                             else (Some (ActiveRefresh p), w2)
                         | (_, w2) \<Rightarrow> (Some Inactive, w2))
               | (_, w1) \<Rightarrow> (Some Inactive, w1))"

definition introspect_token_for_client ::
    "'w sso_env \<Rightarrow> time \<Rightarrow> string \<Rightarrow> string \<Rightarrow> string \<Rightarrow> string \<Rightarrow> (introspection, 'w) sso_action" where
  "introspect_token_for_client env now cid secret token hint w =
     then_do (require_client env now cid w) (\<lambda>client w1.
       case authenticate_client (se_password env) client secret of
         Inl e \<Rightarrow> (Inl e, w1)
       | Inr _ \<Rightarrow>
           (let t = trim_space token; h = normalize_oauth_token_type_hint hint;
                answer = (\<lambda>(r, w). (Inr (case r of None \<Rightarrow> Inactive | Some x \<Rightarrow> x), w))
            in if t = [] then (Inr Inactive, w1)
               else if h = ''refresh_token'' then answer (introspect_refresh_token env now (sc_client_id client) t w1)
               else case introspect_access_token env now (sc_client_id client) t w1 of
                      (Some x, w2) \<Rightarrow> (Inr x, w2)
                    | (None, w2) \<Rightarrow>
                        if h = ''access_token'' then (Inr Inactive, w2)
                        else answer (introspect_refresh_token env now (sc_client_id client) t w2)))"

section \<open>First-party sessions\<close>

record bootstrap_command =
  bc_client :: string
  bc_user :: int
  bc_platform :: string
  bc_login_method :: string
  bc_provider :: string
  bc_identity :: int
  bc_acr :: string
  bc_amr :: "string list"
  bc_device :: string
  bc_ip :: string
  bc_agent :: string

record bootstrap_result =
  br_access :: string
  br_type :: string
  br_ttl :: int
  br_session_cookie :: string
  br_session_expires :: time
  br_refresh_cookie :: string
  br_refresh_expires :: time

definition bootstrap_family ::
    "'w sso_env \<Rightarrow> time \<Rightarrow> sso_client \<Rightarrow> sso_session \<Rightarrow> (bootstrap_result, 'w) sso_action" where
  "bootstrap_family env now client session w =
     (let (refresh, w1) = new_id env ''sso_rt'' w; (fid, w2) = new_id env ''sso_rtf'' w1;
          refresh_expires = refresh_expiry client now
      in then_do (insert_refresh_token_family
           \<lparr>rf_id = fid, rf_session = ss_id session, rf_client = sc_client_id client, rf_user = ss_user session,
            rf_current = build_token_hash env refresh, rf_previous = [], rf_reuse = False, rf_rotated = None,
            rf_expires = refresh_expires, rf_revoked = None, rf_status = RefreshFamilyStatusActive,
            rf_scopes = default_scopes, rf_create = now\<rparr> w2) (\<lambda>_ w3.
         then_do (issue_access_token env now client session default_scopes w3) (\<lambda>(access, access_expires) w4.
           (Inr \<lparr>br_access = access, br_type = ''Bearer'', br_ttl = token_expires_in now access_expires,
                 br_session_cookie = ss_id session, br_session_expires = ss_expires session,
                 br_refresh_cookie = refresh, br_refresh_expires = refresh_expires\<rparr>, w4))))"

definition bootstrap_first_party_session ::
    "'w sso_env \<Rightarrow> time \<Rightarrow> bootstrap_command \<Rightarrow> (bootstrap_result, 'w) sso_action" where
  "bootstrap_first_party_session env now c w =
     (if bc_user c \<le> 0 then (Inl (params_error (''userId'' @ utf8 [0x4E0D, 0x80FD, 0x4E3A, 0x7A7A])), w)
      else
        let cid = (if trim_space (bc_client c) = [] then trim_space (se_default_client env) else trim_space (bc_client c))
        in then_do (require_client env now cid w) (\<lambda>client w1.
          case normalize_session_source (bc_login_method c) (bc_provider c) (bc_identity c) (bc_acr c) (bc_amr c) of
            Inl e \<Rightarrow> (Inl e, w1)
          | Inr (login_kind, provider, identity, acr, amr) \<Rightarrow>
              (let (sid, w2) = new_id env ''sso_sess'' w1;
                   session = \<lparr>ss_id = sid, ss_user = bc_user c, ss_client = sc_client_id client,
                     ss_platform = trim_space (bc_platform c), ss_device = trim_space (bc_device c),
                     ss_ip = trim_space (bc_ip c), ss_agent = trim_space (bc_agent c),
                     ss_acr = acr, ss_amr = amr, ss_login_method = login_kind, ss_provider = provider,
                     ss_identity = identity, ss_login_at = now, ss_last_access = None,
                     ss_expires = now + seconds_duration (max_int (se_session_idle env) 1800),
                     ss_revoked = None, ss_status = SessionStatusActive, ss_create = now\<rparr>
               in then_do (insert_session session w2) (\<lambda>_ w3. bootstrap_family env now client session w3))))"

end
