(* ===== verification/Sso_Run.thy ===== *)
theory Sso_Run
  imports Sso_Login Sso_Refresh
begin

text \<open>
  What requests of the single sign-on service do to its tables, statement by statement. The relation
  \<open>sso_statement\<close> has a rule for each writing statement of the repository, with any arguments; every
  operation changes the tables by a run of such statements, whatever fails on the way. So what holds for
  runs of statements holds for any interleaving of requests, at the level of single statements.
\<close>

section \<open>Statements\<close>

text \<open>\<open>A\<close> limits the hashes that are stored as the current one of a family.\<close>

inductive sso_statement :: "string set \<Rightarrow> sso_tables \<Rightarrow> sso_tables \<Rightarrow> bool" for A where
  session_inserted: "ss_id s \<notin> ss_id ` set (st_sessions t) \<Longrightarrow>
     sso_statement A t (t\<lparr>st_sessions := st_sessions t @ [s]\<rparr>)"
| session_touched: "sso_statement A t (t\<lparr>st_sessions :=
     update_where (\<lambda>r. ss_id r = sid \<and> ss_status r = SessionStatusActive)
       (\<lambda>r. r\<lparr>ss_last_access := Some at\<rparr>) (st_sessions t)\<rparr>)"
| sessions_closed: "sso_statement A t (t\<lparr>st_sessions :=
     update_where (\<lambda>r. P r \<and> ss_status r = SessionStatusActive)
       (\<lambda>r. r\<lparr>ss_revoked := Some at, ss_status := SessionStatusRevoked\<rparr>) (st_sessions t)\<rparr>)"
| sessions_expired: "sso_statement A t (t\<lparr>st_sessions :=
     update_where (\<lambda>r. ss_status r = SessionStatusActive \<and> ss_expires r \<le> now)
       (\<lambda>r. r\<lparr>ss_status := SessionStatusExpired\<rparr>) (st_sessions t)\<rparr>)"
| code_inserted: "ac_code c \<notin> ac_code ` set (st_codes t) \<Longrightarrow>
     sso_statement A t (t\<lparr>st_codes := st_codes t @ [c]\<rparr>)"
| code_consumed: "sso_statement A t (t\<lparr>st_codes :=
     update_where (\<lambda>r. ac_code r = code \<and> ac_status r = CodeStatusActive)
       (\<lambda>r. r\<lparr>ac_consumed := Some at, ac_status := CodeStatusConsumed\<rparr>) (st_codes t)\<rparr>)"
| codes_expired: "sso_statement A t (t\<lparr>st_codes :=
     update_where (\<lambda>r. ac_status r = CodeStatusActive \<and> ac_expires r \<le> now)
       (\<lambda>r. r\<lparr>ac_status := CodeStatusExpired\<rparr>) (st_codes t)\<rparr>)"
| family_inserted: "rf_id f \<notin> rf_id ` set (st_families t) \<Longrightarrow> rf_current f \<in> A \<Longrightarrow>
     sso_statement A t (t\<lparr>st_families := st_families t @ [f]\<rparr>)"
| family_rotated: "h \<in> A \<Longrightarrow> sso_statement A t (t\<lparr>st_families :=
     update_where (\<lambda>r. rf_id r = fid \<and> rf_current r = previous \<and> rf_status r = RefreshFamilyStatusActive)
       (\<lambda>r. r\<lparr>rf_previous := previous, rf_current := h, rf_rotated := Some at\<rparr>) (st_families t)\<rparr>)"
| family_reused: "sso_statement A t (t\<lparr>st_families :=
     update_where (\<lambda>r. rf_id r = fid)
       (\<lambda>r. r\<lparr>rf_reuse := True, rf_revoked := Some at, rf_status := RefreshFamilyStatusRevoked\<rparr>) (st_families t)\<rparr>)"
| families_closed: "sso_statement A t (t\<lparr>st_families :=
     update_where (\<lambda>r. Q r \<and> rf_status r = RefreshFamilyStatusActive)
       (\<lambda>r. r\<lparr>rf_revoked := Some at, rf_status := RefreshFamilyStatusRevoked\<rparr>) (st_families t)\<rparr>)"
| families_expired: "sso_statement A t (t\<lparr>st_families :=
     update_where (\<lambda>r. rf_status r = RefreshFamilyStatusActive \<and> rf_expires r \<le> now)
       (\<lambda>r. r\<lparr>rf_status := RefreshFamilyStatusExpired\<rparr>) (st_families t)\<rparr>)"
| consent_stored: "sso_statement A t (t\<lparr>st_consents := cs\<rparr>)"

abbreviation sso_run :: "string set \<Rightarrow> sso_tables \<Rightarrow> sso_tables \<Rightarrow> bool" where
  "sso_run A \<equiv> (sso_statement A)\<^sup>*\<^sup>*"

section \<open>Operations that stay in a relation\<close>

definition stays :: "('w sso_world \<Rightarrow> 'w sso_world \<Rightarrow> bool) \<Rightarrow> ('w sso_world \<Rightarrow> 'b \<times> 'w sso_world) \<Rightarrow> bool" where
  "stays R f \<longleftrightarrow> (\<forall>w. R w (snd (f w)))"

lemma stays_if: "(b \<Longrightarrow> stays R f) \<Longrightarrow> (\<not> b \<Longrightarrow> stays R g) \<Longrightarrow> stays R (\<lambda>w. if b then f w else g w)"
  by (cases b) simp_all

lemma stays_option:
  "stays R f \<Longrightarrow> (\<And>y. stays R (g y)) \<Longrightarrow> stays R (\<lambda>w. case x of None \<Rightarrow> f w | Some y \<Rightarrow> g y w)"
  by (cases x) simp_all

lemma stays_result:
  "(\<And>e. stays R (f e)) \<Longrightarrow> (\<And>y. stays R (g y)) \<Longrightarrow> stays R (\<lambda>w. case x of Inl e \<Rightarrow> f e w | Inr y \<Rightarrow> g y w)"
  by (cases x) simp_all

lemma stays_pair: "(\<And>a b. stays R (f a b)) \<Longrightarrow> stays R (\<lambda>w. case x of (a, b) \<Rightarrow> f a b w)"
  by (cases x) simp

lemma stays_pair_fun: "(\<And>a b. stays R (f a b)) \<Longrightarrow> stays R (case x of (a, b) \<Rightarrow> f a b)"
  by (cases x) simp

text \<open>
  The interface: which changes of the world a relation has to admit for every operation to stay in it.
  The login operations write keys of the cache that the others do not.
\<close>

locale sso_frame =
  fixes R :: "'w sso_world \<Rightarrow> 'w sso_world \<Rightarrow> bool"
  assumes same: "R w w"
    and steps: "R w w1 \<Longrightarrow> R w1 w2 \<Longrightarrow> R w w2"
    and tables: "sso_statement UNIV (sw_sql w) t \<Longrightarrow> R w (w\<lparr>sw_sql := t\<rparr>)"
    and drawn: "R w (w\<lparr>sw_ids := Suc (sw_ids w)\<rparr>)"
    and outcomes: "R w (w\<lparr>sw_faults := fs\<rparr>)"
    and registrar: "R w (w\<lparr>sw_outside := out\<rparr>)"
    and marks: "R w (w\<lparr>sw_marks := m\<rparr>)"
    and touches: "R w (w\<lparr>sw_texts := (sw_texts w)(touch_key sid := x)\<rparr>)"
    and rollback: "R w w1 \<Longrightarrow> R w (roll_back w w1)"
begin

lemma stays_return: "stays R (\<lambda>w. (r w, w))"
  by (simp add: stays_def same)

lemma stays_then_do:
  assumes "stays R f" "\<And>x. stays R (g x)"
  shows "stays R (\<lambda>w. then_do (f w) g)"
  unfolding stays_def
proof
  fix w
  have f: "R w (snd (f w))" using assms(1) by (simp add: stays_def)
  show "R w (snd (then_do (f w) g))"
  proof (cases "f w")
    case (Pair r w1)
    then show ?thesis using f assms(2) steps by (cases r) (auto simp: stays_def)
  qed
qed

lemma stays_case:
  assumes "stays R f" "\<And>r. stays R (g r)"
  shows "stays R (\<lambda>w. case f w of (r, w1) \<Rightarrow> g r w1)"
  using assms steps by (auto simp: stays_def split: prod.splits) (metis snd_conv)

lemma stays_either:
  assumes "stays R f" "\<And>e. stays R (g e)" "\<And>x. stays R (h x)"
  shows "stays R (\<lambda>w. case f w of (Inl e, w1) \<Rightarrow> g e w1 | (Inr x, w1) \<Rightarrow> h x w1)"
  by (rule stays_case [OF assms(1)]) (auto intro: stays_result assms)

lemma stays_scheduled:
  assumes "stays R f"
  shows "stays R (scheduled f)"
  unfolding stays_def
proof
  fix w
  show "R w (snd (scheduled f w))"
  proof (cases "sw_faults w")
    case Nil
    then show ?thesis using assms by (simp add: scheduled_def stays_def)
  next
    case (Cons outcome rest)
    have "R w (w\<lparr>sw_faults := rest\<rparr>)" by (rule outcomes)
    moreover have "R (w\<lparr>sw_faults := rest\<rparr>) (snd (f (w\<lparr>sw_faults := rest\<rparr>)))"
      using assms by (simp add: stays_def)
    ultimately show ?thesis
      using Cons steps by (cases outcome) (auto simp: scheduled_def)
  qed
qed

lemma stays_labelled: "stays R f \<Longrightarrow> stays R (labelled label f)"
  unfolding labelled_def [abs_def] by (intro stays_either stays_return) simp

lemma stays_read: "stays R (sql_read label q)"
  unfolding sql_read_def by (intro stays_labelled stays_scheduled) (simp add: stays_def same)

lemma stays_write:
  assumes "\<And>t. snd (f t) = t \<or> sso_statement UNIV t (snd (f t))"
  shows "stays R (sql_write label f)"
  unfolding sql_write_def
proof (intro stays_labelled stays_scheduled)
  show "stays R (\<lambda>w. let (r, t) = f (sw_sql w) in (r, w\<lparr>sw_sql := t\<rparr>))"
    unfolding stays_def
  proof
    fix w :: "'w sso_world"
    have "w\<lparr>sw_sql := sw_sql w\<rparr> = w" by simp
    then have "R w (w\<lparr>sw_sql := snd (f (sw_sql w))\<rparr>)"
      using assms [of "sw_sql w"] tables [of w] same [of w] by auto
    then show "R w (snd (let (r, t) = f (sw_sql w) in (r, w\<lparr>sw_sql := t\<rparr>)))"
      by (simp add: Let_def split_def)
  qed
qed

lemma stays_new_id: "stays R (new_id env prefix)"
  by (simp add: stays_def new_id_def drawn)

lemmas stays_intros =
  stays_return stays_then_do stays_either stays_if stays_option stays_result stays_pair stays_pair_fun stays_read
  stays_new_id

end

end
