(* ===== verification/Sso_Frame.thy ===== *)
theory Sso_Frame
  imports Sso_Run
begin

text \<open>
  Every operation of the single sign-on service stays in a relation that satisfies the interface
  \<open>sso_frame\<close>; the operations of the login also need their own keys. The instance here is the run of
  statements on the tables.
\<close>

context sso_frame begin

section \<open>Statements and cache commands\<close>

lemma stays_insert_session: "stays R (insert_session s)"
  unfolding insert_session_def by (rule stays_write) (auto intro: sso_statement.intros)

lemma stays_find_session: "stays R (find_session_by_session_id sid)"
  unfolding find_session_by_session_id_def by (rule stays_read)

lemma stays_touch_row: "stays R (touch_session_row sid at)"
  unfolding touch_session_row_def by (rule stays_write) (simp add: sso_statement.session_touched)

lemma stays_close_sessions: "stays R (sql_write label (close_sessions P at))"
  by (rule stays_write) (simp add: close_sessions_def update_rows_def sso_statement.sessions_closed)

lemma stays_revoke_row: "stays R (revoke_session_row sid at)"
  unfolding revoke_session_row_def [abs_def] by (intro stays_intros stays_close_sessions)

lemma stays_revoke_rows: "stays R (revoke_session_rows_by_user user at)"
  "stays R (revoke_session_rows_by_user_cutoff user at)"
  unfolding revoke_session_rows_by_user_def revoke_session_rows_by_user_cutoff_def
  by (rule stays_close_sessions)+

lemma stays_insert_code: "stays R (insert_authorization_code c)"
  unfolding insert_authorization_code_def by (rule stays_write) (auto intro: sso_statement.intros)

lemma stays_find_code: "stays R (find_authorization_code code)"
  unfolding find_authorization_code_def by (rule stays_read)

lemma stays_consume: "stays R (consume_authorization_code code at)"
  unfolding consume_authorization_code_def [abs_def]
  by (intro stays_intros stays_write) (simp add: update_rows_def sso_statement.code_consumed)

lemma stays_insert_family: "stays R (insert_refresh_token_family f)"
  unfolding insert_refresh_token_family_def by (rule stays_write) (auto intro: sso_statement.intros)

lemma stays_find_family: "stays R (find_refresh_family_by_current_hash hash)"
  "stays R (find_refresh_family_by_previous_hash hash)"
  unfolding find_refresh_family_by_current_hash_def find_refresh_family_by_previous_hash_def
  by (rule stays_read)+

lemma stays_rotate: "stays R (rotate_refresh_family fid previous h at)"
  unfolding rotate_refresh_family_def [abs_def]
  by (intro stays_intros stays_write) (simp add: update_rows_def sso_statement.family_rotated)

lemma stays_mark_reuse: "stays R (mark_refresh_family_reuse_detected fid at)"
  unfolding mark_refresh_family_reuse_detected_def by (rule stays_write) (simp add: sso_statement.family_reused)

lemma stays_close_families: "stays R (sql_write label (close_families Q at))"
  by (rule stays_write) (simp add: close_families_def sso_statement.families_closed)

lemma stays_revoke_families:
  "stays R (revoke_refresh_families_by_session_id sid at)"
  "stays R (revoke_refresh_families_by_user_id user at)"
  "stays R (revoke_refresh_families_by_user_id_cutoff user at)"
  unfolding revoke_refresh_families_by_session_id_def revoke_refresh_families_by_user_id_def
    revoke_refresh_families_by_user_id_cutoff_def
  by (rule stays_close_families)+

lemma stays_expiry:
  "stays R (expire_active_sessions now)" "stays R (expire_authorization_codes now)"
  "stays R (expire_refresh_families now)"
  unfolding expire_active_sessions_def expire_authorization_codes_def expire_refresh_families_def
  by (rule stays_write, simp add: sso_statement.intros)+

lemma stays_consent: "stays R (upsert_consent_grant g)"
  unfolding upsert_consent_grant_def by (rule stays_write) (simp add: sso_statement.consent_stored)

lemma stays_find_client: "stays R (find_client env now cid)"
  unfolding find_client_def [abs_def] by (intro stays_intros)

lemma stays_require_client: "stays R (require_client env now cid)"
  unfolding require_client_def [abs_def] by (intro stays_intros stays_find_client)

lemma stays_mark_user: "stays R (mark_user_revoked now user at)"
  unfolding mark_user_revoked_def [abs_def]
  by (intro stays_intros stays_scheduled) (simp add: stays_def marks Let_def split_def)

lemma stays_user_mark: "stays R (user_revoked_at now user)"
  unfolding user_revoked_at_def [abs_def] by (intro stays_intros stays_scheduled)

lemma stays_allow_touch: "stays R (allow_touch now sid throttle)"
proof -
  have "R w (w\<lparr>sw_texts := snd (kv_set_nx now (touch_key sid) v throttle (sw_texts w))\<rparr>)" for w :: "'w sso_world" and v
    using touches [of w sid "(sw_texts w) (touch_key sid)"] touches [of w]
    by (auto simp: kv_set_nx_def same)
  then show ?thesis
    unfolding allow_touch_def [abs_def]
    by (intro stays_intros stays_scheduled) (simp add: stays_def Let_def split_def)
qed

lemma stays_clear_touch: "stays R (clear_session_touch sid)"
  unfolding clear_session_touch_def [abs_def]
  by (intro stays_intros stays_scheduled) (simp add: stays_def touches)

lemma clear_touches_stays: "R w (clear_touches sids w)"
proof (induction sids arbitrary: w)
  case (Cons sid sids)
  have "R w (snd (clear_session_touch sid w))" using stays_clear_touch by (simp add: stays_def)
  then show ?case using Cons [of "snd (clear_session_touch sid w)"] steps by simp
qed (simp add: same)

lemma stays_register: "stays R (register_targets env sids)"
  unfolding stays_def
proof
  fix w
  show "R w (snd (register_targets env sids w))"
  proof (induction sids arbitrary: w)
    case (Cons sid sids)
    show ?case
    proof (cases "se_register env")
      case (Some register)
      have "R w (w\<lparr>sw_outside := out\<rparr>)" "R (w\<lparr>sw_outside := out\<rparr>) (snd (register_targets env sids (w\<lparr>sw_outside := out\<rparr>)))" for out
        by (rule registrar, rule Cons)
      then show ?thesis using steps by (simp add: Some split: prod.splits sum.splits) (metis snd_conv)
    qed (simp add: same)
  qed (simp add: same)
qed

lemma stays_transaction:
  assumes "stays R f"
  shows "stays R (in_transaction f)"
  unfolding stays_def
proof
  fix w
  obtain r w1 where f: "f w = (r, w1)" by fastforce
  then have w1: "R w w1" using assms by (metis stays_def snd_conv)
  have "R w (w1\<lparr>sw_faults := fs\<rparr>)" for fs using w1 outcomes steps by blast
  then show "R w (snd (in_transaction f w))"
    using w1 rollback by (simp add: in_transaction_def f Let_def split: sum.split list.split sql_outcome.split)
qed

lemma stays_validity: "stays R f \<Longrightarrow> stays R (validity_transaction env f)"
  unfolding validity_transaction_def [abs_def] by (intro stays_intros stays_transaction)

section \<open>Operations\<close>

lemma stays_issue:
  "stays R (issue_access_token env now client session scopes)"
  "stays R (issue_id_token env now client session scopes nonce)"
  "stays R (issue_refresh_token env now client session scopes)"
  using drawn by (simp_all add: stays_def issue_access_token_def issue_id_token_def issue_refresh_token_def
      new_id_def same Let_def split: sum.split)

lemma stays_resolve: "stays R (resolve_active_session env now sid)"
  unfolding resolve_active_session_def [abs_def]
  by (intro stays_intros stays_find_session stays_user_mark)

lemma stays_candidate: "stays R (resolve_candidate env now sid)"
  unfolding resolve_candidate_def [abs_def] by (intro stays_intros stays_resolve)

lemma touch_throttled_stays: "R w (touch_throttled env now sid w)"
proof -
  have "stays R (\<lambda>w. ((), touch_throttled env now sid w))"
    unfolding stays_def
  proof
    fix w :: "'w sso_world"
    obtain r w1 where a: "allow_touch now sid (seconds_duration (max_int (se_touch_throttle env) 30)) w = (r, w1)"
      by fastforce
    then have "R w w1" using stays_allow_touch by (metis stays_def snd_conv)
    moreover have "R w1 (snd (touch_session_row sid now w1))" using stays_touch_row by (simp add: stays_def)
    ultimately show "R w (snd ((), touch_throttled env now sid w))"
      using steps by (auto simp: touch_throttled_def a split: sum.split bool.split)
  qed
  then show ?thesis by (simp add: stays_def)
qed

lemma stays_validate: "stays R (validate_access_token env now token)"
  unfolding validate_access_token_def [abs_def] Let_def
  by (intro stays_intros stays_candidate) (simp add: stays_def touch_throttled_stays)

lemma stays_authorize: "stays R (authorize_with_active_session env now cid uri scope st nonce challenge kind cand)"
  unfolding authorize_with_active_session_def [abs_def] Let_def
  by (intro stays_intros stays_require_client stays_case [OF stays_new_id] stays_insert_code)

lemma stays_issue_for_code: "stays R (issue_for_code env now client session item)"
  unfolding issue_for_code_def [abs_def] Let_def
  by (intro stays_intros stays_issue stays_case [OF stays_new_id] stays_insert_family)

lemma stays_found_or: "stays R f \<Longrightarrow> stays R (\<lambda>w. found_or e (f w))"
  unfolding stays_def found_or_def by (auto split: prod.split sum.split option.split) (metis snd_conv)+

lemma stays_redeem: "stays R (redeem_code env now client item)"
  unfolding redeem_code_def [abs_def]
  by (intro stays_intros stays_consume stays_found_or stays_find_session stays_issue_for_code)

lemma stays_exchange: "stays R (exchange_authorization_code env now cid secret code uri verifier)"
  unfolding exchange_authorization_code_def [abs_def]
  by (intro stays_intros stays_require_client stays_found_or stays_find_code stays_redeem)

lemma stays_revoke_all: "stays R (revoke_families_and_session env now sid)"
  unfolding revoke_families_and_session_def [abs_def] Let_def
  by (intro stays_intros stays_find_session stays_register stays_revoke_families stays_revoke_row)

lemma stays_revoke_within: "stays R (revoke_session_within env now sid)"
  unfolding revoke_session_within_def [abs_def]
  by (intro stays_intros stays_find_session stays_revoke_all)

lemma stays_revoke_session:
  "stays R (revoke_session env now sid)" "stays R (revoke_session_and_families env now sid)"
  unfolding revoke_session_def revoke_session_and_families_def
  by (intro stays_validity stays_revoke_within stays_revoke_all)+

lemma stays_revoke_managed: "stays R (revoke_managed_session env now sid)"
  unfolding revoke_managed_session_def by (simp add: stays_revoke_session)

lemma stays_collect: "stays R (collect_effects env label rest)"
proof -
  have "R w (snd (collect_effects env label rest w))" for w
  proof (induction env label rest w rule: collect_effects.induct)
    case (1 env label rest w)
    obtain r w1 where r: "sql_read label (\<lambda>_. take session_page rest) w = (r, w1)" by fastforce
    have w1: "R w w1" using stays_read [of label "\<lambda>_. take session_page rest"] r by (metis stays_def snd_conv)
    show ?case
    proof (cases r)
      case (Inr page)
      obtain q w2 where q: "register_targets env (map ss_id (take session_page rest)) w1 = (q, w2)" by fastforce
      have "R w1 w2" using stays_register q by (metis stays_def snd_conv)
      then have w2: "R w w2" using w1 steps by blast
      let ?w3 = "clear_touches (map ss_id (take session_page rest)) w2"
      have w3: "R w ?w3" using w2 clear_touches_stays steps by blast
      have "rest \<noteq> [] \<Longrightarrow> q = Inr () \<Longrightarrow> \<not> length rest < session_page \<Longrightarrow>
          R ?w3 (snd (collect_effects env label (drop session_page rest) ?w3))"
        using "1.IH" [of r w1 page q w2 "()" ?w3] r q Inr by simp
      then show ?thesis
        using w1 w2 w3 steps
        by (subst collect_effects.simps) (cases q, auto simp: r q Inr Let_def)
    qed (use w1 r in \<open>subst collect_effects.simps, simp\<close>)
  qed
  then show ?thesis by (simp add: stays_def)
qed

lemma stays_cutoff: "stays R (capture_cutoff now)"
  unfolding capture_cutoff_def [abs_def] by (intro stays_intros)

lemma stays_user_sessions:
  "stays R (revoke_sessions_by_user_id env now user)"
proof -
  have collect: "stays R (\<lambda>w. collect_effects env label (q (sw_sql w)) w)" for label q
    using stays_collect by (simp add: stays_def)
  show ?thesis
    unfolding revoke_sessions_by_user_id_def revoke_user_within_def [abs_def]
    by (intro stays_validity stays_intros stays_cutoff collect stays_revoke_families stays_revoke_rows stays_mark_user)
qed

lemma stays_user_sessions_before:
  "stays R (revoke_sessions_by_user_id_at_or_before env now user cutoff)"
proof -
  have collect: "stays R (\<lambda>w. collect_effects env label (q (sw_sql w)) w)" for label q
    using stays_collect by (simp add: stays_def)
  show ?thesis
    unfolding revoke_sessions_by_user_id_at_or_before_def revoke_user_before_within_def [abs_def]
    by (intro stays_validity stays_intros collect stays_revoke_families stays_revoke_rows stays_mark_user)
qed

section \<open>Refresh tokens and first-party sessions\<close>

lemma stays_punish: "stays R (punish_reuse env now client holder prev)"
  unfolding punish_reuse_def [abs_def]
  by (intro stays_intros stays_mark_reuse stays_revoke_families stays_revoke_within)

lemma stays_rotate_family: "stays R (rotate_family env now client hash family session)"
  unfolding rotate_family_def [abs_def] Let_def by (intro stays_intros stays_issue stays_rotate)

lemma stays_refresh_with: "stays R (refresh_with_family env now client holder hash family)"
  unfolding refresh_with_family_def [abs_def]
  by (intro stays_intros stays_found_or stays_find_session stays_rotate_family)

lemma stays_lookup:
  assumes "stays R f" "\<And>x. stays R (g x)" "stays R h"
  shows "stays R (\<lambda>w. case f w of (Inr (Some x), w1) \<Rightarrow> g x w1 | (_, w1) \<Rightarrow> h w1)"
proof (rule stays_case [OF assms(1)])
  fix r
  show "stays R (\<lambda>w1. case r of Inr (Some x) \<Rightarrow> g x w1 | _ \<Rightarrow> h w1)"
    using assms(2,3) by (auto simp: stays_def split: sum.split option.split)
qed

lemma stays_refresh_within: "stays R (refresh_within env now cid secret token from_cookie)"
  unfolding refresh_within_def [abs_def] Let_def
  by (intro stays_intros stays_require_client stays_lookup stays_find_family stays_punish stays_refresh_with)

lemma stays_refresh: "stays R (exchange_refresh_token env now cid secret token from_cookie)"
  using stays_validity [OF stays_refresh_within, of env env now cid secret token from_cookie]
  by (auto simp: stays_def exchange_refresh_token_def Let_def split: prod.split sum.split option.split)
     (metis snd_conv)+

lemma stays_unit_of: "stays R f \<Longrightarrow> stays R (\<lambda>w. unit_of (f w))"
  unfolding unit_of_def by (intro stays_intros)

lemma stays_family_of: "stays R (family_of_hash hash)"
  unfolding family_of_hash_def [abs_def] by (intro stays_intros stays_find_family)

lemma stays_by_access: "stays R (revoke_by_access_token env now token)"
  unfolding revoke_by_access_token_def [abs_def]
  by (intro stays_intros stays_validate stays_unit_of stays_revoke_all)

lemma stays_revoke_token: "stays R (revoke_token env now token hint)"
  unfolding revoke_token_def revoke_token_within_def [abs_def] Let_def
  by (intro stays_validity stays_intros stays_by_access stays_family_of stays_unit_of stays_revoke_all)

lemma stays_revoke_refresh: "stays R (revoke_refresh_token_for_client env now cid token)"
  unfolding revoke_refresh_token_for_client_def [abs_def]
  by (intro stays_intros stays_family_of stays_unit_of stays_revoke_all)

lemma stays_revoke_access: "stays R (revoke_access_token_for_client env now client token)"
  unfolding revoke_access_token_for_client_def [abs_def]
  by (intro stays_intros stays_validate stays_unit_of stays_revoke_all)

lemma stays_revoke_for_client: "stays R (revoke_token_for_client env now cid secret token hint)"
  unfolding revoke_token_for_client_def revoke_token_for_client_within_def [abs_def] Let_def
  by (intro stays_validity stays_intros stays_require_client stays_revoke_access stays_revoke_refresh)

lemma stays_introspect_parts:
  "stays R (introspect_access_token env now cid token)" "stays R (introspect_refresh_token env now cid token)"
  unfolding introspect_access_token_def [abs_def] introspect_refresh_token_def [abs_def]
  by (intro stays_intros stays_validate stays_lookup stays_find_family stays_resolve)+

lemma stays_introspect: "stays R (introspect_token_for_client env now cid secret token hint)"
proof -
  let ?a = "\<lambda>(r, w). (Inr (case r of None \<Rightarrow> Inactive | Some x \<Rightarrow> x), w)"
  have answer: "stays R (\<lambda>w. ?a (introspect_refresh_token env now c t w))" for c t
    using stays_introspect_parts(2) [of env now c t] by (simp add: stays_def split_def)
  have access: "stays R (\<lambda>w. case introspect_access_token env now c t w of
      (None, w2) \<Rightarrow> g w2 | (Some x, w2) \<Rightarrow> (Inr x, w2))" if "stays R g" for c t g
    by (rule stays_case [OF stays_introspect_parts(1)]) (use that in \<open>auto intro: stays_intros split: option.split\<close>)
  show ?thesis
    unfolding introspect_token_for_client_def [abs_def] Let_def
    by (intro stays_intros stays_require_client access answer)
qed

lemma stays_bootstrap: "stays R (bootstrap_first_party_session env now c)"
  unfolding bootstrap_first_party_session_def [abs_def] bootstrap_family_def [abs_def] Let_def
  by (intro stays_intros stays_require_client stays_case [OF stays_new_id] stays_insert_session
      stays_insert_family stays_issue)

end

section \<open>The login\<close>

text \<open>A relation that admits the keys of a login as well.\<close>

locale sso_login_frame = sso_frame R for R :: "'w sso_world \<Rightarrow> 'w sso_world \<Rightarrow> bool" +
  assumes texts: "R w (w\<lparr>sw_texts := m\<rparr>)"
    and logins: "R w (w\<lparr>sw_logins := lm\<rparr>)"
    and results: "R w (w\<lparr>sw_results := rm\<rparr>)"
begin

lemma stays_login_cache:
  "stays R (save_login now s ttl)" "stays R (get_login now login)" "stays R (remove_login login)"
  "stays R (acquire_completion_lock now login)" "stays R (release_completion_lock login)"
  "stays R (mark_session_finalized now login ttl)" "stays R (release_session_finalized login)"
  "stays R (save_completion_result now login r ttl)" "stays R (get_completion_result now login)"
  unfolding save_login_def [abs_def] get_login_def [abs_def] remove_login_def [abs_def]
    acquire_completion_lock_def release_completion_lock_def mark_session_finalized_def
    release_session_finalized_def save_completion_result_def get_completion_result_def
  by (intro stays_if stays_return stays_scheduled; simp add: stays_def same texts logins results Let_def split_def)+

lemma stays_create_login: "stays R (create_authorization_session env now q)"
  unfolding create_authorization_session_def [abs_def] Let_def
  by (intro stays_intros stays_require_client stays_case [OF stays_new_id] stays_login_cache)

lemma stays_after: "stays R f \<Longrightarrow> stays R g \<Longrightarrow> stays R (\<lambda>w. (r w, snd (f (snd (g w)))))"
  using steps by (simp add: stays_def) blast

lemma stays_last: "stays R f \<Longrightarrow> stays R (\<lambda>w. (r w, snd (f w)))"
  by (simp add: stays_def)

lemma stays_complete_for: "stays R (complete_for_client env now login client snapshot expires session)"
proof -
  have consent: "stays R (\<lambda>w. f (if b then snd (upsert_consent_grant g w) else w))"
    if "stays R f" for f :: "'w sso_world \<Rightarrow> 'x \<times> 'w sso_world" and b g
    using that stays_consent [of g] steps by (cases b) (auto simp: stays_def, blast)
  show ?thesis
    unfolding complete_for_client_def [abs_def] Let_def
    by (rule consent, intro stays_intros stays_case [OF stays_new_id] stays_insert_code stays_last
        stays_after stays_login_cache)
qed

lemma stays_complete_finalized: "stays R (complete_finalized env now c src login snapshot expires)"
  unfolding complete_finalized_def [abs_def] Let_def
  by (intro stays_intros stays_case [OF stays_new_id] stays_insert_session stays_last stays_login_cache
      stays_require_client stays_complete_for)

lemma stays_complete_locked: "stays R (complete_locked env now c src login)"
  unfolding complete_locked_def [abs_def]
  by (intro stays_lookup stays_intros stays_login_cache stays_last stays_complete_finalized)

lemma stays_complete: "stays R (complete_interactive_authentication env now c)"
  unfolding complete_interactive_authentication_def [abs_def] Let_def
  by (intro stays_intros stays_login_cache stays_case [OF stays_complete_locked] stays_last)

end

section \<open>The tables\<close>

interpretation sso_tables: sso_login_frame "\<lambda>w w1. sso_run UNIV (sw_sql w) (sw_sql w1)"
  by unfold_locales (auto simp: roll_back_def)

end
