(* ===== verification/Sso_Invariants.thy ===== *)
theory Sso_Invariants
  imports Sso_Frame
begin

text \<open>
  What runs of statements keep: a code that was consumed and a session that was closed stay so, rows keep
  the client and session they belong to, and a hash that is no longer current does not become so. And the
  case analysis of the operations that succeed.
\<close>

section \<open>Kept by every statement\<close>

definition code_used :: "string \<Rightarrow> sso_tables \<Rightarrow> bool" where
  "code_used c t \<longleftrightarrow> c \<in> ac_code ` set (st_codes t) \<and>
     (\<forall>r \<in> set (st_codes t). ac_code r = c \<longrightarrow> ac_status r \<noteq> CodeStatusActive)"

definition session_closed :: "string \<Rightarrow> sso_tables \<Rightarrow> bool" where
  "session_closed sid t \<longleftrightarrow> sid \<in> ss_id ` set (st_sessions t) \<and>
     (\<forall>r \<in> set (st_sessions t). ss_id r = sid \<longrightarrow> ss_status r \<noteq> SessionStatusActive)"

definition session_of :: "string \<Rightarrow> string \<Rightarrow> sso_tables \<Rightarrow> bool" where
  "session_of sid client t \<longleftrightarrow> sid \<in> ss_id ` set (st_sessions t) \<and>
     (\<forall>r \<in> set (st_sessions t). ss_id r = sid \<longrightarrow> ss_client r = client)"

definition code_of :: "string \<Rightarrow> string \<Rightarrow> string \<Rightarrow> sso_tables \<Rightarrow> bool" where
  "code_of c client sid t \<longleftrightarrow> c \<in> ac_code ` set (st_codes t) \<and>
     (\<forall>r \<in> set (st_codes t). ac_code r = c \<longrightarrow> ac_client r = client \<and> ac_session r = sid)"

definition hash_not_current :: "string \<Rightarrow> sso_tables \<Rightarrow> bool" where
  "hash_not_current h t \<longleftrightarrow> h \<notin> rf_current ` set (st_families t)"

text \<open>Updating rows in place keeps the keys and every fact that the update respects.\<close>

lemma keys_update: "(\<And>r. key (f r) = key r) \<Longrightarrow> key ` set (update_where P f rs) = key ` set rs"
  using map_update_where [of key f P rs] by (metis list.set_map)

lemma ball_update: "(\<forall>r \<in> set (update_where P f rs). Q r) \<longleftrightarrow> (\<forall>r \<in> set rs. Q (if P r then f r else r))"
  unfolding set_update_where by blast

lemma code_used_statement: "sso_statement A t t' \<Longrightarrow> code_used c t \<Longrightarrow> code_used c t'"
  by (induction rule: sso_statement.induct)
     (auto simp: code_used_def keys_update ball_update)

lemma session_closed_statement: "sso_statement A t t' \<Longrightarrow> session_closed sid t \<Longrightarrow> session_closed sid t'"
  by (induction rule: sso_statement.induct)
     (auto simp: session_closed_def keys_update ball_update)

lemma session_of_statement: "sso_statement A t t' \<Longrightarrow> session_of sid cl t \<Longrightarrow> session_of sid cl t'"
  by (induction rule: sso_statement.induct)
     (auto simp: session_of_def keys_update ball_update)

lemma code_of_statement: "sso_statement A t t' \<Longrightarrow> code_of c cl sid t \<Longrightarrow> code_of c cl sid t'"
  by (induction rule: sso_statement.induct)
     (auto simp: code_of_def keys_update ball_update)

lemma hash_statement: "sso_statement (- {h}) t t' \<Longrightarrow> hash_not_current h t \<Longrightarrow> hash_not_current h t'"
  by (induction rule: sso_statement.induct)
     (auto simp: hash_not_current_def set_update_where image_iff)

lemma kept_by_run:
  assumes "\<And>t t'. sso_statement A t t' \<Longrightarrow> K t \<Longrightarrow> K t'"
  shows "sso_run A t t' \<Longrightarrow> K t \<Longrightarrow> K t'"
  by (induction rule: rtranclp_induct) (auto intro: assms)

lemma code_used_run: "sso_run A t t' \<Longrightarrow> code_used c t \<Longrightarrow> code_used c t'"
  using kept_by_run [of "A" "code_used c"] code_used_statement by blast

lemma session_closed_run: "sso_run A t t' \<Longrightarrow> session_closed sid t \<Longrightarrow> session_closed sid t'"
  using kept_by_run [of "A" "session_closed sid"] session_closed_statement by blast

lemma session_of_run: "sso_run A t t' \<Longrightarrow> session_of sid cl t \<Longrightarrow> session_of sid cl t'"
  using kept_by_run [of "A" "session_of sid cl"] session_of_statement by blast

lemma code_of_run: "sso_run A t t' \<Longrightarrow> code_of c cl sid t \<Longrightarrow> code_of c cl sid t'"
  using kept_by_run [of "A" "code_of c cl sid"] code_of_statement by blast

lemma hash_run: "sso_run (- {h}) t t' \<Longrightarrow> hash_not_current h t \<Longrightarrow> hash_not_current h t'"
  using kept_by_run [of "(- {h})" "hash_not_current h"] hash_statement by blast

text \<open>An operation ends in a run of statements from where it began.\<close>

lemma run_of: "stays (\<lambda>w w1. sso_run UNIV (sw_sql w) (sw_sql w1)) f \<Longrightarrow> f w = (r, w1) \<Longrightarrow> sso_run UNIV (sw_sql w) (sw_sql w1)"
  by (metis snd_conv stays_def)

section \<open>Statements that succeed\<close>

lemma scheduled_Inr:
  "scheduled f w = (Inr x, w') \<Longrightarrow> \<exists>fs. f (w\<lparr>sw_faults := fs\<rparr>) = (Inr x, w')"
  by (auto simp: scheduled_def Let_def split: list.splits sql_outcome.splits)
    (metis sso_world.surjective sso_world.update_convs(7))

lemma labelled_Inr [simp]: "labelled label f w = (Inr x, w') \<longleftrightarrow> f w = (Inr x, w')"
  by (auto simp: labelled_def split: prod.splits sum.splits)

lemma sql_read_Inr: "sql_read label q w = (Inr x, w') \<Longrightarrow> x = q (sw_sql w) \<and> sw_sql w' = sw_sql w"
  by (auto simp: sql_read_def dest!: scheduled_Inr)

lemma sql_write_Inr:
  "sql_write label f w = (Inr x, w') \<Longrightarrow> fst (f (sw_sql w)) = Inr x \<and> sw_sql w' = snd (f (sw_sql w))"
  by (auto simp: sql_write_def Let_def split_def dest!: scheduled_Inr)

text \<open>A read leaves the tables alone, whatever its outcome.\<close>

definition reads :: "('a, 'w) sso_action \<Rightarrow> bool" where
  "reads f \<longleftrightarrow> (\<forall>w. sw_sql (snd (f w)) = sw_sql w)"

lemma reads_scheduled: "reads f \<Longrightarrow> reads (scheduled f)"
  by (auto simp: reads_def scheduled_def Let_def split: list.split sql_outcome.split)

lemma reads_pair: "reads f \<Longrightarrow> f w = (r, w') \<Longrightarrow> sw_sql w' = sw_sql w"
  by (metis reads_def snd_conv)

lemma reads_labelled: "reads f \<Longrightarrow> reads (labelled label f)"
  unfolding reads_def labelled_def by (auto split: prod.split sum.split) (metis snd_conv)+

lemma reads_sql: "reads (sql_read label q)"
  unfolding sql_read_def by (intro reads_labelled reads_scheduled) (simp add: reads_def)

lemma found_or_Inr [simp]: "found_or e r = (Inr x, w) \<longleftrightarrow> r = (Inr (Some x), w)"
  by (auto simp: found_or_def split: prod.splits sum.splits option.splits)

lemma find_client_Inr:
  assumes "find_client env now cid w = (Inr (Some c), w')"
  shows "sc_client_id c = cid \<and> sw_sql w' = sw_sql w"
  using assms
  by (auto simp: find_client_def then_do_Inr loaded_client_def find_Some_iff2 split: option.splits dest!: sql_read_Inr)

lemma require_client_Inr:
  assumes "require_client env now cid w = (Inr c, w')"
  shows "sc_client_id c = trim_space cid \<and> sc_status c = ClientStatusActive \<and> sw_sql w' = sw_sql w"
  using assms
  by (auto simp: require_client_def then_do_Inr split: option.splits if_splits dest!: find_client_Inr)

lemma consume_code_Inr:
  assumes "consume_authorization_code code at w = (Inr True, w')"
  shows "code_used code (sw_sql w')"
proof -
  let ?P = "\<lambda>r. ac_code r = code \<and> ac_status r = CodeStatusActive"
  let ?rows = "update_where ?P (\<lambda>r. r\<lparr>ac_consumed := Some at, ac_status := CodeStatusConsumed\<rparr>) (st_codes (sw_sql w))"
  have pos: "0 < count_where ?P (st_codes (sw_sql w))" and t: "sw_sql w' = (sw_sql w)\<lparr>st_codes := ?rows\<rparr>"
    using assms by (auto simp: consume_authorization_code_def then_do_Inr update_rows_def dest!: sql_write_Inr)
  obtain r where "r \<in> set (st_codes (sw_sql w))" "ac_code r = code"
    using pos unfolding count_where_pos by blast
  then have "code \<in> ac_code ` set ?rows" by (simp add: keys_update image_iff) blast
  moreover have "\<forall>r \<in> set ?rows. ac_code r = code \<longrightarrow> ac_status r \<noteq> CodeStatusActive"
    unfolding ball_update by simp
  ultimately show ?thesis by (simp add: code_used_def t)
qed

section \<open>Operations that succeed\<close>

text \<open>An error branch is not taken by what succeeds.\<close>

lemma success_result:
  "(case x of Inl e \<Rightarrow> (Inl (f e), v e) | Inr y \<Rightarrow> g y) = (Inr b, w') \<longleftrightarrow> (\<exists>y. x = Inr y \<and> g y = (Inr b, w'))"
  by (cases x) auto

lemma success_option:
  "(case x of None \<Rightarrow> (Inl e, v) | Some y \<Rightarrow> g y) = (Inr b, w') \<longleftrightarrow> (\<exists>y. x = Some y \<and> g y = (Inr b, w'))"
  by (cases x) auto

lemma success_if: "(if c then (Inl e, v) else r) = (Inr b, w') \<longleftrightarrow> \<not> c \<and> r = (Inr b, w')"
  by auto

lemmas success_iffs = success_result success_option success_if then_do_Inr

lemma check_code_Inr:
  assumes "check_code env now client uri verifier item = Inr ()"
  shows "ac_status item = CodeStatusActive" "now \<le> ac_expires item" "ac_client item = sc_client_id client"
    "uri = ac_redirect item" "client_requires_pkce client \<Longrightarrow> ac_challenge item \<noteq> []"
    "ac_challenge item \<noteq> [] \<Longrightarrow> verify_pkce (se_digest env) (ac_challenge item) (trim_space verifier)"
  using assms by (auto simp: check_code_def split: if_splits)

lemma check_code_session_Inr:
  assumes "check_code_session now client item (Some s) = Inr s'"
  shows "s' = s" "ss_status s = SessionStatusActive" "now \<le> ss_expires s" "ss_user s = ac_user item"
    "ss_client s = sc_client_id client"
  using assms by (auto simp: check_code_session_def split: if_splits)

lemma redeem_Inr:
  assumes "redeem_code env now client item w = (Inr b, w')"
  obtains w1 w2 s where "consume_authorization_code (ac_code item) now w = (Inr True, w1)"
    "find (\<lambda>r. ss_id r = ac_session item) (st_sessions (sw_sql w1)) = Some s" "sw_sql w2 = sw_sql w1"
    "check_code_session now client item (Some s) = Inr s" "issue_for_code env now client s item w2 = (Inr b, w')"
proof -
  obtain consumed w1 where 1: "consume_authorization_code (ac_code item) now w = (Inr consumed, w1)" "consumed"
    using assms by (auto simp: redeem_code_def then_do_Inr split: if_splits)
  obtain s w2 where 2: "find_session_by_session_id (ac_session item) w1 = (Inr (Some s), w2)"
      "(case check_code_session now client item (Some s) of Inl e \<Rightarrow> (Inl e, w2)
        | Inr session \<Rightarrow> issue_for_code env now client session item w2) = (Inr b, w')"
    using assms 1 by (auto simp: redeem_code_def then_do_Inr)
  from 2(1) have 3: "find (\<lambda>r. ss_id r = ac_session item) (st_sessions (sw_sql w1)) = Some s" "sw_sql w2 = sw_sql w1"
    unfolding find_session_by_session_id_def by (auto dest!: sql_read_Inr)
  obtain s' where 4: "check_code_session now client item (Some s) = Inr s'"
      "issue_for_code env now client s' item w2 = (Inr b, w')"
    using 2(2) by (auto simp: success_iffs)
  have "s' = s" by (rule check_code_session_Inr(1) [OF 4(1)])
  then show ?thesis using that [of w1 s w2] 1 3 4 by simp
qed

lemma exchange_Inr:
  assumes "exchange_authorization_code env now cid secret code uri verifier w = (Inr b, w')"
  obtains client item w2 where "sc_client_id client = trim_space cid"
    "client_allows_grant client ''authorization_code''"
    "authenticate_client (se_password env) client secret = Inr ()"
    "find (\<lambda>r. ac_code r = trim_space code) (st_codes (sw_sql w)) = Some item"
    "check_code env now client uri verifier item = Inr ()"
    "redeem_code env now client item w2 = (Inr b, w')" "sw_sql w2 = sw_sql w"
proof -
  obtain client w1 where 1: "require_client env now cid w = (Inr client, w1)"
      "client_allows_grant client ''authorization_code''" "authenticate_client (se_password env) client secret = Inr ()"
    and rest: "then_do (found_or code_invalid (find_authorization_code (trim_space code) w1)) (\<lambda>item w2.
                   case check_code env now client uri verifier item of
                     Inl e \<Rightarrow> (Inl e, w2)
                   | Inr _ \<Rightarrow> redeem_code env now client item w2) = (Inr b, w')"
    using assms by (auto simp: exchange_authorization_code_def then_do_Inr split: if_splits sum.splits)
  obtain item w2 where 2: "find_authorization_code (trim_space code) w1 = (Inr (Some item), w2)"
      "check_code env now client uri verifier item = Inr ()" "redeem_code env now client item w2 = (Inr b, w')"
    using rest by (auto simp: success_iffs)
  note client = require_client_Inr [OF 1(1)]
  have "find (\<lambda>r. ac_code r = trim_space code) (st_codes (sw_sql w)) = Some item" "sw_sql w2 = sw_sql w"
    using 2(1) client unfolding find_authorization_code_def by (auto dest!: sql_read_Inr)
  then show ?thesis using that 1 2 client by blast
qed

lemma found_code: "find (\<lambda>r. ac_code r = c) (st_codes t) = Some r \<Longrightarrow> r \<in> set (st_codes t) \<and> ac_code r = c"
  by (auto simp: find_Some_iff)

lemma found_session: "find (\<lambda>r. ss_id r = sid) (st_sessions t) = Some r \<Longrightarrow> r \<in> set (st_sessions t) \<and> ss_id r = sid"
  by (auto simp: find_Some_iff)

lemma found_family: "find (\<lambda>r. rf_current r = h) (st_families t) = Some r \<Longrightarrow> r \<in> set (st_families t) \<and> rf_current r = h"
  by (auto simp: find_Some_iff)

lemma resolve_Inr:
  assumes "resolve_active_session env now sid w = (Inr (Some s), w')"
  shows "s \<in> set (st_sessions (sw_sql w)) \<and> ss_id s = trim_space sid \<and> ss_status s = SessionStatusActive \<and> now \<le> ss_expires s"
proof -
  obtain found w1 where f: "find_session_by_session_id (trim_space sid) w = (Inr found, w1)"
    and rest: "(case found of None \<Rightarrow> (Inr None, w1) | Some s \<Rightarrow>
        if ss_status s \<noteq> SessionStatusActive \<or> ss_expires s < now \<or> \<not> not_revoked (ss_revoked s)
        then (Inr None, w1)
        else then_do (user_revoked_at now (ss_user s) w1) (\<lambda>mark w2.
          case mark of None \<Rightarrow> (Inr (Some s), w2)
          | Some cutoff \<Rightarrow> if is_zero_time (ss_create s) \<or> revoked_by_user_watermark (ss_create s) cutoff
              then (Inr None, w2) else (Inr (Some s), w2))) = (Inr (Some s), w')"
    using assms unfolding resolve_active_session_def then_do_Inr by blast
  from rest obtain x where x: "found = Some x" by (cases found) simp_all
  have live: "ss_status x = SessionStatusActive \<and> \<not> ss_expires x < now \<and> not_revoked (ss_revoked x)"
    using rest unfolding x option.case by (auto split: if_split_asm)
  obtain u w2 where u: "user_revoked_at now (ss_user x) w1 = (u, w2)" by fastforce
  have "x = s"
  proof (cases u)
    case (Inl e)
    show ?thesis using rest live unfolding x option.case u Inl by simp
  next
    case (Inr mark)
    show ?thesis
      using rest live unfolding x option.case u Inr
      by (cases mark) (simp_all split: if_split_asm)
  qed
  then have r: "find_session_by_session_id (trim_space sid) w = (Inr (Some s), w1)"
      "ss_status s = SessionStatusActive" "\<not> ss_expires s < now"
    using f live x by simp_all
  from r(1) have "find (\<lambda>r. ss_id r = trim_space sid) (st_sessions (sw_sql w)) = Some s"
    unfolding find_session_by_session_id_def by (auto dest!: sql_read_Inr)
  from found_session [OF this] r(2,3) show ?thesis by simp
qed

lemma validate_Inr:
  assumes "validate_access_token env now token w = (Inr p, w')"
  shows "\<exists>s \<in> set (st_sessions (sw_sql w)). ss_id s = tp_session p \<and> ss_status s = SessionStatusActive \<and>
    now \<le> ss_expires s \<and> ss_user s = tp_user p \<and> ss_client s = tp_client p"
proof -
  obtain payload where v: "verify_kind env access_token_invalid ''access_token'' token = Inr payload"
    using assms by (cases "verify_kind env access_token_invalid ''access_token'' token") (simp_all add: validate_access_token_def)
  let ?sid = "trim_space (claim_text (se_json env) (any_get payload ''sid''))"
  let ?cid = "claim_field env payload [''client_id'', ''cid'']"
  obtain expires user subject where
    rest: "then_do (resolve_candidate env now ?sid w) (\<lambda>found w1.
             case found of None \<Rightarrow> (Inl (unauthorized (''access token '' @ utf8 [0x5BF9, 0x5E94, 0x4F1A, 0x8BDD, 0x4E0D, 0x5B58, 0x5728, 0x6216, 0x5DF2, 0x5931, 0x6548])), w1)
             | Some s \<Rightarrow> if cd_user s \<noteq> user \<or> cd_client s \<noteq> ?cid
                 then (Inl (unauthorized (''access token '' @ utf8 [0x4E0E, 0x4F1A, 0x8BDD, 0x4E0D, 0x5339, 0x914D])), w1)
                 else (Inr (access_principal env payload user subject ?cid ?sid expires),
                       touch_throttled env now (cd_session s) w1)) = (Inr p, w')"
    using assms by (auto simp: validate_access_token_def v Let_def split: option.splits if_splits)
  obtain c w1 where c: "resolve_candidate env now ?sid w = (Inr (Some c), w1)" "cd_user c = user" "cd_client c = ?cid"
    and p: "p = access_principal env payload user subject ?cid ?sid expires"
    using rest unfolding success_iffs by auto
  then obtain s w2 where s: "resolve_active_session env now (tp_session p) w = (Inr (Some s), w2)" "ss_user s = user" "ss_client s = ?cid"
    by (auto simp: resolve_candidate_def then_do_Inr candidate_of_def access_principal_def)
  have "trim_space (tp_session p) = tp_session p" by (simp add: p access_principal_def)
  then show ?thesis
    using resolve_Inr [OF s(1)] s(2,3) by (intro bexI [of _ s]) (auto simp: p access_principal_def)
qed

text \<open>A refresh that succeeds: the family found by the token's hash rotated to a new hash.\<close>

lemma in_transaction_Inr:
  "in_transaction f w = (Inr x, w') \<Longrightarrow> \<exists>w1. f w = (Inr x, w1) \<and> sw_sql w' = sw_sql w1"
  by (auto simp: in_transaction_def Let_def split: prod.splits sum.splits list.splits sql_outcome.splits)

lemma validity_Inr:
  "validity_transaction env f w = (Inr x, w') \<Longrightarrow> \<exists>w1. f w = (Inr x, w1) \<and> sw_sql w' = sw_sql w1"
  by (auto simp: validity_transaction_def dest: in_transaction_Inr split: if_splits)

lemma exchange_refresh_Inr:
  assumes "exchange_refresh_token env now cid secret token from_cookie w = (Inr b, w')"
  shows "\<exists>w1. refresh_within env now cid secret token from_cookie w = (Inr (Some b), w1) \<and> sw_sql w' = sw_sql w1"
proof -
  obtain r w1 where v: "validity_transaction env (refresh_within env now cid secret token from_cookie) w = (r, w1)"
    by fastforce
  have "r = Inr (Some b)" "w1 = w'"
    using assms unfolding exchange_refresh_token_def Let_def v
    by (auto split: if_split_asm sum.splits option.splits)
  with validity_Inr [OF v [unfolded this]] show ?thesis by simp
qed

lemma punish_never_bundle: "punish_reuse env now client holder prev w \<noteq> (Inr (Some b), w')"
  by (auto simp: punish_reuse_def then_do_def split: prod.splits sum.splits if_splits)

lemma refresh_within_Inr:
  assumes "refresh_within env now cid secret token from_cookie w = (Inr (Some b), w')"
  obtains client family holder w2 where "sc_client_id client = trim_space cid"
    "refresh_principal_for env now client secret token from_cookie = Inr holder"
    "find (\<lambda>r. rf_current r = build_token_hash env token) (st_families (sw_sql w)) = Some family"
    "refresh_with_family env now client holder (build_token_hash env token) family w2 = (Inr b, w')"
    "sw_sql w2 = sw_sql w"
proof -
  let ?hash = "build_token_hash env token"
  obtain client w1 holder where c: "require_client env now cid w = (Inr client, w1)"
      "refresh_principal_for env now client secret token from_cookie = Inr holder"
    and rest: "(case find_refresh_family_by_current_hash ?hash w1 of
                  (Inr (Some family), w2) \<Rightarrow>
                    then_do (refresh_with_family env now client holder ?hash family w2) (\<lambda>b w3. (Inr (Some b), w3))
                | (_, w2) \<Rightarrow>
                    (case find_refresh_family_by_previous_hash ?hash w2 of
                       (Inr (Some prev), w3) \<Rightarrow> punish_reuse env now client holder prev w3
                     | (_, w3) \<Rightarrow> (Inl refresh_token_invalid, w3))) = (Inr (Some b), w')"
    using assms unfolding refresh_within_def success_iffs Let_def by auto
  obtain r w2 where f: "find_refresh_family_by_current_hash ?hash w1 = (r, w2)" by fastforce
  have miss: "(case find_refresh_family_by_previous_hash ?hash w2 of
                 (Inr (Some prev), w3) \<Rightarrow> punish_reuse env now client holder prev w3
               | (_, w3) \<Rightarrow> (Inl refresh_token_invalid, w3)) \<noteq> (Inr (Some b), w')"
    by (auto simp: punish_never_bundle split: prod.split sum.split option.split)
  obtain family where r: "r = Inr (Some family)"
    using rest miss unfolding f by (auto split: sum.splits option.splits)
  have "refresh_with_family env now client holder ?hash family w2 = (Inr b, w')"
    using rest unfolding f r by (auto simp: then_do_Inr)
  moreover have "find (\<lambda>r. rf_current r = ?hash) (st_families (sw_sql w1)) = Some family" "sw_sql w2 = sw_sql w1"
    using f unfolding r find_refresh_family_by_current_hash_def by (auto dest!: sql_read_Inr)
  ultimately show ?thesis using that c require_client_Inr [OF c(1)] by metis
qed

lemma issue_keeps_tables:
  "issue_access_token env now client session scopes w = (r, w') \<Longrightarrow> sw_sql w' = sw_sql w"
  "issue_id_token env now client session scopes nonce w = (r2, w') \<Longrightarrow> sw_sql w' = sw_sql w"
  "issue_refresh_token env now client session scopes w = (r, w') \<Longrightarrow> sw_sql w' = sw_sql w"
  by (auto simp: issue_access_token_def issue_id_token_def issue_refresh_token_def new_id_def Let_def
      split: sum.splits if_splits)

lemma rotate_Inr:
  assumes "rotate_refresh_family fid h h' at w = (Inr True, w')"
  shows "sw_sql w' = (sw_sql w)\<lparr>st_families :=
     update_where (\<lambda>r. rf_id r = fid \<and> rf_current r = h \<and> rf_status r = RefreshFamilyStatusActive)
       (\<lambda>r. r\<lparr>rf_previous := h, rf_current := h', rf_rotated := Some at\<rparr>) (st_families (sw_sql w))\<rparr>"
  using assms by (auto simp: rotate_refresh_family_def then_do_Inr update_rows_def dest!: sql_write_Inr)

lemma rotate_family_Inr:
  assumes "rotate_family env now client h family session w = (Inr b, w')"
  shows "sw_sql w' = (sw_sql w)\<lparr>st_families :=
     update_where (\<lambda>r. rf_id r = rf_id family \<and> rf_current r = h \<and> rf_status r = RefreshFamilyStatusActive)
       (\<lambda>r. r\<lparr>rf_previous := h, rf_current := build_token_hash env (tb_refresh b), rf_rotated := Some now\<rparr>)
       (st_families (sw_sql w))\<rparr>"
proof -
  let ?sc = "family_scopes family"
  obtain refresh re w1 where 1: "issue_refresh_token env now client session ?sc w = (Inr (refresh, re), w1)"
    and rest: "then_do (rotate_refresh_family (rf_id family) h (build_token_hash env refresh) now w1) (\<lambda>rotated w2.
           if \<not> rotated then (Inl refresh_token_invalid, w2)
           else then_do (issue_access_token env now client session ?sc w2) (\<lambda>(access, access_expires) w3.
                then_do (issue_id_token env now client session ?sc [] w3) (\<lambda>id_token w4.
                  (Inr \<lparr>tb_access = access, tb_id = id_token, tb_refresh = refresh, tb_type = ''Bearer'',
                        tb_expires_in = token_expires_in now access_expires,
                        tb_scope = join_scopes ?sc, tb_refresh_expires = Some re,
                        tb_refresh_in_body = (\<not> sc_trusted client)\<rparr>, w4)))) = (Inr b, w')"
    using assms unfolding rotate_family_def Let_def
      then_do_Inr [of "issue_refresh_token env now client session ?sc w"] by auto
  obtain w2 a w3 i w4 where 2: "rotate_refresh_family (rf_id family) h (build_token_hash env refresh) now w1 = (Inr True, w2)"
      "issue_access_token env now client session ?sc w2 = (Inr a, w3)" "issue_id_token env now client session ?sc [] w3 = (Inr i, w4)"
      "w4 = w'" "tb_refresh b = refresh"
    using rest unfolding success_iffs by (auto simp: then_do_Inr)
  show ?thesis
    using rotate_Inr [OF 2(1)] issue_keeps_tables(3) [OF 1] issue_keeps_tables(1) [OF 2(2)] issue_keeps_tables(2) [OF 2(3)] 2(4,5)
    by simp
qed

lemma refresh_with_Inr:
  assumes "refresh_with_family env now client holder h family w = (Inr b, w')"
  obtains s w1 where "family_live now family"
    "find (\<lambda>r. ss_id r = rf_session family) (st_sessions (sw_sql w)) = Some s"
    "check_refresh_session now client family s = Inr ()" "rf_client family = sc_client_id client"
    "tp_session holder = rf_session family" "tp_user holder = rf_user family"
    "rotate_family env now client h family s w1 = (Inr b, w')" "sw_sql w1 = sw_sql w"
proof -
  obtain s w1 where s: "family_live now family" "rf_client family = sc_client_id client"
      "tp_session holder = rf_session family" "tp_user holder = rf_user family"
      "find_session_by_session_id (rf_session family) w = (Inr (Some s), w1)"
      "check_refresh_session now client family s = Inr ()" "rotate_family env now client h family s w1 = (Inr b, w')"
    using assms unfolding refresh_with_family_def success_iffs by auto
  from s(5) have "find (\<lambda>r. ss_id r = rf_session family) (st_sessions (sw_sql w)) = Some s" "sw_sql w1 = sw_sql w"
    unfolding find_session_by_session_id_def by (auto dest!: sql_read_Inr)
  with that s show ?thesis by blast
qed

lemma refresh_Inr:
  assumes "exchange_refresh_token env now cid secret token from_cookie w = (Inr b, w')"
  obtains client family s where "sc_client_id client = trim_space cid"
    "find (\<lambda>r. rf_current r = build_token_hash env token) (st_families (sw_sql w)) = Some family"
    "family_live now family" "rf_client family = sc_client_id client"
    "find (\<lambda>r. ss_id r = rf_session family) (st_sessions (sw_sql w)) = Some s"
    "check_refresh_session now client family s = Inr ()"
    "sw_sql w' = (sw_sql w)\<lparr>st_families :=
       update_where (\<lambda>r. rf_id r = rf_id family \<and> rf_current r = build_token_hash env token \<and> rf_status r = RefreshFamilyStatusActive)
         (\<lambda>r. r\<lparr>rf_previous := build_token_hash env token, rf_current := build_token_hash env (tb_refresh b), rf_rotated := Some now\<rparr>)
         (st_families (sw_sql w))\<rparr>"
proof -
  obtain w1 where r: "refresh_within env now cid secret token from_cookie w = (Inr (Some b), w1)" "sw_sql w' = sw_sql w1"
    using exchange_refresh_Inr [OF assms] by blast
  obtain client family holder w2 where f: "sc_client_id client = trim_space cid"
      "find (\<lambda>r. rf_current r = build_token_hash env token) (st_families (sw_sql w)) = Some family"
      "refresh_with_family env now client holder (build_token_hash env token) family w2 = (Inr b, w1)" "sw_sql w2 = sw_sql w"
    by (rule refresh_within_Inr [OF r(1)])
  obtain s w3 where g: "family_live now family"
      "find (\<lambda>r. ss_id r = rf_session family) (st_sessions (sw_sql w2)) = Some s"
      "check_refresh_session now client family s = Inr ()" "rf_client family = sc_client_id client"
      "rotate_family env now client (build_token_hash env token) family s w3 = (Inr b, w1)" "sw_sql w3 = sw_sql w2"
    by (rule refresh_with_Inr [OF f(3)])
  show ?thesis
    by (rule that [OF f(1,2) g(1,4) _ g(3)]) (use g(2,6) f(4) r(2) rotate_family_Inr [OF g(5)] in simp_all)
qed

end
