(* ===== verification/Sso_Samples.thy ===== *)
theory Sso_Samples
  imports Sso_Invariants
begin

text \<open>
  A small instance of the single sign-on service for the witnesses: one confidential client, one session,
  one authorization code and one family of refresh tokens, with a signing service that names tokens by
  their identifier.
\<close>

definition sample_sign :: "anymap \<Rightarrow> string result" where
  "sample_sign payload = Inr (''jwt.'' @ string_value (any_get payload ''jti''))"

definition sample_refresh_payload :: anymap where
  "sample_refresh_payload =
     [''iss'' \<mapsto> AStr ''https://id'', ''sub'' \<mapsto> AStr ''7'', ''aud'' \<mapsto> AStrs [''app''], ''jti'' \<mapsto> AStr ''rft_0'',
      ''exp'' \<mapsto> AInt 1000, ''token_type'' \<mapsto> AStr ''refresh_token'', ''uid'' \<mapsto> AStr ''7'',
      ''sid'' \<mapsto> AStr ''s'', ''client_id'' \<mapsto> AStr ''app'', ''scope'' \<mapsto> AStr ''openid'']"

definition sample_verify :: "string \<Rightarrow> anymap result" where
  "sample_verify t = (if t = ''jwt.r'' then Inr sample_refresh_payload
                      else if t = ''jwt.a'' then Inr (sample_refresh_payload(''token_type'' \<mapsto> AStr ''access_token''))
                      else Inl (PlainError ''token is malformed''))"

definition sample_sso_env :: "unit sso_env" where
  "sample_sso_env =
     \<lparr>se_issuer = ''https://id'', se_base_url = [], se_default_client = ''app'', se_session_idle = 1800,
      se_login_ttl = 300, se_touch_throttle = 30, se_replay_skew = 5,
      se_sign = sample_sign, se_verify = sample_verify, se_digest = (\<lambda>s. CHR ''#'' # s),
      se_password = (\<lambda>secret hash. secret = hash), se_json = (\<lambda>_. ''null''),
      se_decode = (\<lambda>s. if s = ''g'' then [''authorization_code'', ''refresh_token''] else [''openid'', ''offline_access'']),
      se_profile = (\<lambda>_. None), se_id = int, se_register = None, se_transactor = False\<rparr>"

definition sample_client_row :: client_row where
  "sample_client_row =
     \<lparr>cl_client_id = ''app'', cl_type = ''CONFIDENTIAL'', cl_auth_method = ''client_secret_basic'',
      cl_grants_json = ''g'', cl_scopes_json = ''s'', cl_require_pkce = False, cl_require_consent = False,
      cl_trusted = True, cl_access_ttl = 60, cl_refresh_ttl = 3600, cl_status = 0, cl_deleted = False\<rparr>"

definition sample_sso_session :: sso_session where
  "sample_sso_session =
     \<lparr>ss_id = ''s'', ss_user = 7, ss_client = ''app'', ss_platform = [], ss_device = [], ss_ip = [],
      ss_agent = [], ss_acr = [], ss_amr = [''pwd''], ss_login_method = ''LOCAL'', ss_provider = [],
      ss_identity = 0, ss_login_at = 0, ss_last_access = None, ss_expires = 1800 * second,
      ss_revoked = None, ss_status = SessionStatusActive, ss_create = 0\<rparr>"

definition sample_code :: auth_code where
  "sample_code =
     \<lparr>ac_code = ''c'', ac_client = ''app'', ac_user = 7, ac_session = ''s'', ac_redirect = ''https://app/cb'',
      ac_scopes = [''openid''], ac_challenge = [], ac_challenge_method = [], ac_nonce = [], ac_acr = [],
      ac_amr = [''pwd''], ac_expires = 300 * second, ac_consumed = None, ac_status = CodeStatusActive\<rparr>"

definition sample_family :: refresh_family where
  "sample_family =
     \<lparr>rf_id = ''f'', rf_session = ''s'', rf_client = ''app'', rf_user = 7, rf_current = ''#jwt.r'',
      rf_previous = [], rf_reuse = False, rf_rotated = None, rf_expires = 3600 * second, rf_revoked = None,
      rf_status = RefreshFamilyStatusActive, rf_scopes = [''openid''], rf_create = 0\<rparr>"

definition sample_tables :: sso_tables where
  "sample_tables =
     \<lparr>st_clients = [sample_client_row],
      st_redirects = [\<lparr>rd_client = ''app'', rd_uri = ''https://app/cb'', rd_status = 0, rd_deleted = False\<rparr>],
      st_secrets = [\<lparr>sk_client = ''app'', sk_hash = ''pw'', sk_expires = None, sk_status = 0, sk_deleted = False\<rparr>],
      st_sessions = [sample_sso_session], st_codes = [sample_code], st_families = [sample_family], st_consents = []\<rparr>"

definition sample_sso_world :: "unit sso_world" where
  "sample_sso_world =
     \<lparr>sw_sql = sample_tables, sw_marks = Map.empty, sw_texts = Map.empty, sw_logins = Map.empty,
      sw_results = Map.empty, sw_ids = 10, sw_faults = [], sw_outside = ()\<rparr>"

lemmas sample_sso_rows =
  sample_client_row_def sample_sso_session_def sample_code_def sample_family_def

text \<open>Texts without blanks are their own trimmed form.\<close>

lemma sample_sso_trims [simp]:
  "trim_space ''app'' = ''app''" "trim_space ''c'' = ''c''" "trim_space ''s'' = ''s''" "trim_space ''pw'' = ''pw''"
  "trim_space ''https://app/cb'' = ''https://app/cb''" "trim_space ''https://id'' = ''https://id''"
  "trim_space ''jwt.r'' = ''jwt.r''" "trim_space ''jwt.a'' = ''jwt.a''" "trim_space ''openid'' = ''openid''"
  "trim_space ''offline_access'' = ''offline_access''" "trim_space ''7'' = ''7''"
  "trim_space ''authorization_code'' = ''authorization_code''" "trim_space ''refresh_token'' = ''refresh_token''"
  "trim_space ''access_token'' = ''access_token''" "trim_space ''CONFIDENTIAL'' = ''CONFIDENTIAL''"
  "trim_space ''client_secret_basic'' = ''client_secret_basic''" "trim_space ''S256'' = ''S256''"
  by (rule trim_visible; simp add: visible_def)+

lemma sample_case [simp]:
  "to_lower ''authorization_code'' = ''authorization_code''" "to_lower ''refresh_token'' = ''refresh_token''"
  "to_lower ''client_secret_basic'' = ''client_secret_basic''" "to_upper ''CONFIDENTIAL'' = ''CONFIDENTIAL''"
  "to_lower ''confidential'' = ''confidential''" "to_lower ''none'' = ''none''"
  by (simp_all add: to_lower_def to_upper_def lower_char_def upper_char_def)

definition sample_client :: sso_client where
  "sample_client =
     \<lparr>sc_client_id = ''app'', sc_type = ''CONFIDENTIAL'', sc_auth_method = ''client_secret_basic'',
      sc_grants = [''authorization_code'', ''refresh_token''], sc_scopes = [''openid'', ''offline_access''],
      sc_require_pkce = False, sc_require_consent = False, sc_trusted = True, sc_access_ttl = 60,
      sc_refresh_ttl = 3600, sc_status = 0, sc_redirects = [''https://app/cb''], sc_secrets = [''pw'']\<rparr>"

lemma sql_read_now [simp]: "sw_faults w = [] \<Longrightarrow> sql_read label q w = (Inr (q (sw_sql w)), w)"
  by (simp add: sql_read_def labelled_def scheduled_def)

lemma sql_write_now:
  "sw_faults w = [] \<Longrightarrow> sql_write label f w = (case f (sw_sql w) of (Inr x, t) \<Rightarrow> (Inr x, w\<lparr>sw_sql := t\<rparr>)
     | (Inl e, t) \<Rightarrow> (Inl (WrapError (label @ '': '' @ error_text e) e), w\<lparr>sw_sql := t\<rparr>))"
  by (simp add: sql_write_def labelled_def scheduled_def Let_def split_def split: sum.split)

lemma sample_world_simps [simp]:
  "sw_faults sample_sso_world = []" "sw_sql sample_sso_world = sample_tables" "sw_ids sample_sso_world = 10"
  "sw_marks sample_sso_world = Map.empty"
  by (simp_all add: sample_sso_world_def)

lemma sample_require:
  assumes "sw_faults w = []" "st_clients (sw_sql w) = st_clients sample_tables"
    "st_redirects (sw_sql w) = st_redirects sample_tables" "st_secrets (sw_sql w) = st_secrets sample_tables"
  shows "require_client sample_sso_env now ''app'' w = (Inr sample_client, w)"
  using assms
  by (simp add: require_client_def find_client_def sample_tables_def sample_client_row_def loaded_client_def
      client_redirects_def client_secrets_def sample_sso_env_def sample_client_def ClientStatusActive_def)

lemma sample_authenticate: "authenticate_client (se_password sample_sso_env) sample_client ''pw'' = Inr ()"
  by (simp add: authenticate_client_def validate_client_auth_policy_def normalize_client_type_def
      sample_client_def sample_sso_env_def Let_def)

lemma sample_grants: "client_allows_grant sample_client ''authorization_code''" "client_allows_grant sample_client ''refresh_token''"
  by (simp_all add: client_allows_grant_def sample_client_def)

text \<open>What a code and a refresh token of the sample are exchanged for.\<close>

lemma sample_code_fields: "ac_code sample_code = ''c''" "ac_session sample_code = ''s''"
  by (simp_all add: sample_code_def)

definition sample_exchanged :: "token_bundle result \<times> unit sso_world" where
  "sample_exchanged = exchange_authorization_code sample_sso_env second ''app'' ''pw'' ''c'' ''https://app/cb'' [] sample_sso_world"

lemma sample_exchange: "\<exists>b w1. sample_exchanged = (Inr b, w1) \<and> tb_refresh b = [] \<and>
    sw_sql w1 = sample_tables\<lparr>st_codes := [sample_code\<lparr>ac_consumed := Some second, ac_status := CodeStatusConsumed\<rparr>]\<rparr>"
proof -
  let ?env = sample_sso_env and ?w = sample_sso_world
  let ?w1 = "?w\<lparr>sw_sql := sample_tables\<lparr>st_codes := [sample_code\<lparr>ac_consumed := Some second, ac_status := CodeStatusConsumed\<rparr>]\<rparr>\<rparr>"
  have client: "require_client ?env second ''app'' ?w = (Inr sample_client, ?w)"
    by (rule sample_require) simp_all
  have found: "find_authorization_code ''c'' ?w = (Inr (Some sample_code), ?w)"
    by (simp add: find_authorization_code_def sample_tables_def sample_code_def)
  have ok: "check_code ?env second sample_client ''https://app/cb'' [] sample_code = Inr ()"
    by (simp add: check_code_def sample_code_def sample_client_def client_requires_pkce_def equal_fold_def to_lower_def)
  have consumed: "consume_authorization_code ''c'' second ?w = (Inr True, ?w1)"
    by (simp add: consume_authorization_code_def sql_write_now update_rows_def count_where_def update_where_def
        sample_tables_def sample_code_def)
  have sess: "find_session_by_session_id ''s'' ?w1 = (Inr (Some sample_sso_session), ?w1)"
    by (simp add: find_session_by_session_id_def sample_tables_def sample_sso_session_def)
  have sok: "check_code_session second sample_client sample_code (Some sample_sso_session) = Inr sample_sso_session"
    by (simp add: check_code_session_def sample_sso_session_def sample_client_def sample_code_def second_def)
  have no_offline: "\<not> has_scope (ac_scopes sample_code) ''offline_access''" "has_scope (ac_scopes sample_code) ''openid''"
    by (simp_all add: has_scope_def sample_code_def)
  obtain b w2 where issued: "issue_for_code ?env second sample_client sample_sso_session sample_code ?w1 = (Inr b, w2)"
      "tb_refresh b = []" "sw_sql w2 = sw_sql ?w1"
    by (simp add: issue_for_code_def issue_access_token_def issue_id_token_def new_id_def sample_sso_env_def
        sample_sign_def no_offline Let_def)
  have "sample_exchanged = (Inr b, w2)"
    using issued(1) by (simp add: sample_exchanged_def exchange_authorization_code_def client sample_grants
        sample_authenticate found ok redeem_code_def found_or_def sample_code_fields consumed sess sok)
  then have "sample_exchanged = (Inr b, w2) \<and> tb_refresh b = [] \<and> sw_sql w2 = sw_sql ?w1" using issued(2,3) by blast
  then show ?thesis by auto
qed

definition sample_refreshed :: "token_bundle result \<times> unit sso_world" where
  "sample_refreshed = exchange_refresh_token sample_sso_env second ''app'' ''pw'' ''jwt.r'' False sample_sso_world"

lemma sample_signs: "se_sign sample_sso_env payload = Inr (''jwt.'' @ string_value (any_get payload ''jti''))"
  by (simp add: sample_sso_env_def sample_sign_def)

lemma sample_parse: "parse_refresh_token sample_sso_env second ''jwt.r'' = Inr
    \<lparr>tp_token_id = trim_space ''rft_0'', tp_user = 7, tp_subject = ''7'', tp_client = ''app'', tp_session = ''s'',
     tp_scopes = str_fields ''openid'', tp_acr = [], tp_amr = [], tp_issued = None, tp_expires = Some (1000 * second)\<rparr>"
proof -
  have seven: "parse_int64 ''7'' = Some 7"
    by (simp add: parse_int64_def parse_nat_def digit_value_def in_int64_def)
  show ?thesis
    by (simp add: parse_refresh_token_def verify_kind_def sample_sso_env_def sample_verify_def sample_refresh_payload_def
        claim_field_def token_issuer_valid_def service_issuer_def resolve_issuer_def token_user_claims_def any_get_def
        seven Let_def second_def)
qed

lemma sample_refresh: "\<exists>b w1. sample_refreshed = (Inr b, w1) \<and> tb_refresh b = ''jwt.rft_10'' \<and>
    sw_sql w1 = sample_tables\<lparr>st_families := [sample_family\<lparr>rf_previous := ''#jwt.r'', rf_current := ''#jwt.rft_10'', rf_rotated := Some second\<rparr>]\<rparr>"
proof -
  let ?env = sample_sso_env and ?w = sample_sso_world
  let ?h = "build_token_hash ?env ''jwt.r''"
  have h: "?h = ''#jwt.r''" by (simp add: build_token_hash_def sample_sso_env_def)
  have client: "require_client ?env second ''app'' ?w = (Inr sample_client, ?w)"
    by (rule sample_require) simp_all
  obtain p where p: "refresh_principal_for ?env second sample_client ''pw'' ''jwt.r'' False = Inr p"
      "tp_session p = ''s''" "tp_user p = 7" "tp_client p = ''app''"
    by (simp add: refresh_principal_for_def sample_grants sample_authenticate sample_parse)
      (simp add: sample_client_def)
  have fam: "find_refresh_family_by_current_hash ?h ?w = (Inr (Some sample_family), ?w)"
    by (simp add: h find_refresh_family_by_current_hash_def sample_tables_def sample_family_def)
  have sess: "find_session_by_session_id ''s'' ?w = (Inr (Some sample_sso_session), ?w)"
    by (simp add: find_session_by_session_id_def sample_tables_def sample_sso_session_def)
  have rft: "trim_space ''jwt.rft_10'' = ''jwt.rft_10''" by (rule trim_visible) (simp add: visible_def)
  have ten: "show_int 10 = ''10''" by code_simp
  have sc: "family_scopes sample_family = [''openid'']" by (simp add: family_scopes_def sample_family_def)
  let ?w1 = "?w\<lparr>sw_ids := 11\<rparr>"
  let ?row = "sample_family\<lparr>rf_previous := ''#jwt.r'', rf_current := ''#jwt.rft_10'', rf_rotated := Some second\<rparr>"
  let ?w2 = "?w1\<lparr>sw_sql := sample_tables\<lparr>st_families := [?row]\<rparr>\<rparr>"
  obtain re where issue: "issue_refresh_token ?env second sample_client sample_sso_session [''openid''] ?w = (Inr (''jwt.rft_10'', re), ?w1)"
    by (simp add: issue_refresh_token_def new_id_def sample_sso_env_def sample_sign_def token_claims_def any_get_def ten Let_def)
  have rotated: "rotate_refresh_family ''f'' ?h (build_token_hash ?env ''jwt.rft_10'') second ?w1 = (Inr True, ?w2)"
    by (simp add: h rotate_refresh_family_def sql_write_now update_rows_def update_where_def count_where_def
        sample_tables_def sample_family_def build_token_hash_def rft) (simp add: sample_sso_env_def)
  have fid: "rf_id sample_family = ''f''" by (simp add: sample_family_def)
  obtain b w2 where rot: "rotate_family ?env second sample_client ?h sample_family sample_sso_session ?w = (Inr b, w2)"
      "tb_refresh b = ''jwt.rft_10''" "sw_sql w2 = sample_tables\<lparr>st_families := [?row]\<rparr>"
    by (simp add: rotate_family_def sc issue fid rotated issue_access_token_def issue_id_token_def new_id_def
        has_scope_def Let_def sample_signs)
  have with_family: "refresh_with_family ?env second sample_client p ?h sample_family ?w = (Inr b, w2)"
    using rot(1) by (simp add: refresh_with_family_def family_live_def not_revoked_def sample_family_def p
        sess check_refresh_session_def sample_sso_session_def sample_client_def second_def found_or_def)
  have "refresh_within ?env second ''app'' ''pw'' ''jwt.r'' False ?w = (Inr (Some b), w2)"
    by (simp add: refresh_within_def client p(1) fam with_family Let_def)
  then have "sample_refreshed = (Inr b, w2)"
    by (simp add: sample_refreshed_def exchange_refresh_token_def validity_transaction_def invalidating_def
        sample_sso_env_def)
  with rot(2,3) show ?thesis by blast
qed

text \<open>Authorization by the sample session, and its revocation.\<close>

definition sample_candidate :: session_candidate where
  "sample_candidate = candidate_of ''s'' sample_sso_session"

definition foreign_world :: "unit sso_world" where
  "foreign_world = sample_sso_world\<lparr>sw_sql := sample_tables\<lparr>st_sessions := [sample_sso_session\<lparr>ss_client := ''other''\<rparr>]\<rparr>\<rparr>"

lemma sample_scopes: "normalize_scopes sample_client (str_fields ''openid'') = Inr [''openid'']"
proof -
  have "str_fields ''openid'' = [''openid'']" by code_simp
  then show ?thesis by (simp add: normalize_scopes_def sample_client_def has_scope_def Let_def)
qed

lemma sample_request_valid: "validate_authorize_request sample_client ''code'' ''https://app/cb'' [] [] [] = Inr ()"
proof -
  have "trim_space ''code'' = ''code''" by (rule trim_visible) (simp add: visible_def)
  then show ?thesis
    by (simp add: validate_authorize_request_def validate_client_auth_policy_def normalize_client_type_def
        validate_pkce_parameters_def client_requires_pkce_def equal_fold_def sample_grants is_redirect_allowed_def Let_def)
       (simp add: sample_client_def)
qed

lemma sample_authorized_at:
  assumes "sw_faults w = []" "sw_sql w = sample_tables\<lparr>st_sessions := ss\<rparr>" "sw_ids w = 10"
  shows "\<exists>r w1. authorize_with_active_session sample_sso_env second ''app'' ''https://app/cb'' ''openid'' [] [] [] [] sample_candidate w =
     (Inr r, w1) \<and> cr_code r = ''sso_code_10''"
proof -
  have ten: "show_int 10 = ''10''" by code_simp
  have client: "require_client sample_sso_env second ''app'' w = (Inr sample_client, w)"
    by (rule sample_require) (simp_all add: assms)
  have new_code: "new_id sample_sso_env ''sso_code'' w = (''sso_code_10'', w\<lparr>sw_ids := 11\<rparr>)"
    by (simp add: new_id_def sample_sso_env_def assms ten)
  have inserted: "\<exists>w1. insert_authorization_code c (w\<lparr>sw_ids := 11\<rparr>) = (Inr (), w1)" if "ac_code c = ''sso_code_10''" for c
    using that by (simp add: insert_authorization_code_def sql_write_now assms sample_tables_def sample_code_def)
  obtain w1 where "insert_authorization_code \<lparr>ac_code = ''sso_code_10'', ac_client = sc_client_id sample_client,
      ac_user = cd_user sample_candidate, ac_session = cd_session sample_candidate, ac_redirect = ''https://app/cb'',
      ac_scopes = [''openid''], ac_challenge = trim_space [], ac_challenge_method = to_upper (trim_space []),
      ac_nonce = trim_space [], ac_acr = cd_acr sample_candidate, ac_amr = cd_amr sample_candidate,
      ac_expires = second + 5 * minute, ac_consumed = None, ac_status = CodeStatusActive\<rparr> (w\<lparr>sw_ids := 11\<rparr>) = (Inr (), w1)"
    using inserted by fastforce
  then show ?thesis
    by (simp add: authorize_with_active_session_def client sample_request_valid sample_scopes new_code)
qed

lemma sample_authorized:
  "\<exists>r w1. authorize_with_active_session sample_sso_env second ''app'' ''https://app/cb'' ''openid'' [] [] [] [] sample_candidate foreign_world =
     (Inr r, w1) \<and> cr_code r = ''sso_code_10''"
  by (rule sample_authorized_at) (simp_all add: foreign_world_def)

lemma sample_revoked: "\<exists>w1. revoke_session sample_sso_env second ''s'' sample_sso_world = (Inr True, w1)"
  by (simp add: revoke_session_def validity_transaction_def invalidating_def revoke_session_within_def
      revoke_families_and_session_def find_session_by_session_id_def revoke_refresh_families_by_session_id_def
      revoke_session_row_def sql_write_now close_families_def close_sessions_def update_rows_def count_where_def
      sample_sso_env_def sample_tables_def sample_sso_session_def Let_def)

end
