(* ===== verification/Account_Samples.thy ===== *)
theory Account_Samples
  imports Account_Frame Sso_Samples
begin

text \<open>A small system on which the hypotheses of the properties about accounts and rights are shown to hold:
  the root user 1, the user 7, the root role 1 and a role 5, and a store that answers.\<close>

definition sample_authz_env :: authz_env where
  "sample_authz_env =
     \<lparr>az_features = None, az_transactor = True, az_serial = (\<lambda>_. False), az_outcome = (\<lambda>_. SqlOk), az_snapshot = SqlOk,
      az_governance = None, az_cache = None, az_dup = PlainError ''duplicate'', az_null = PlainError ''null'',
      az_new_id = 100, az_digest = (\<lambda>s. s), az_instant = (\<lambda>_. [])\<rparr>"

definition sample_user :: "int \<Rightarrow> string \<Rightarrow> user_row" where
  "sample_user i account =
     \<lparr>us_id = i, us_account = account, us_nick = account, us_email = [], us_phone = None, us_status = 0,
      us_unseal = None, us_version = 0, us_hash = None, us_avatar = [], us_profile = [], us_deleted = False\<rparr>"

definition sample_root_role :: role_row where
  "sample_root_role =
     \<lparr>ro_id = 1, ro_name = ''root'', ro_code = ''SUPER_ADMIN'', ro_system_key = AuthorizationRootSystemKey, ro_type = 1,
      ro_status = 0, ro_data_scope = 1, ro_sort = 0, ro_remark = [], ro_revision = 0, ro_deleted = False\<rparr>"

definition sample_db :: authz_db where
  "sample_db =
     \<lparr>db_users = [sample_user 1 ''rooty'', sample_user 7 ''alice''], db_orgs = [], db_depts = [], db_posts = [],
      db_user_orgs = [], db_user_depts = [], db_user_posts = [],
      db_roles = [sample_root_role], db_menus = [], db_permissions = [],
      db_user_roles = [\<lparr>ur_user = 1, ur_role = 1, ur_deleted = False\<rparr>], db_post_roles = [],
      db_role_permissions = [], db_role_menus = [], db_menu_permissions = [], db_role_depts = [],
      db_user_permissions = [], db_grant_requests = [], db_bootstrap = [], db_invalidations = []\<rparr>"

definition sample_sql_env :: cred_env where
  "sample_sql_env =
     \<lparr>ce_transactor = True, ce_outcome = SqlOk, ce_dup = PlainError ''duplicate'', ce_new_id = (\<lambda>i. 900 + int i),
      ce_uuid = (\<lambda>i. ''u''), ce_random_code = (\<lambda>i. Inr ''abcde''), ce_random_salt = (\<lambda>i. Inr ''s''),
      ce_base64_encode = (\<lambda>s. s), ce_base64_decode = Inr, ce_pbkdf2 = (\<lambda>code salt n. ''k''),
      ce_encode_passkey = (\<lambda>p. Inr ''j''), ce_decode_passkey = (\<lambda>s. Inl (PlainError ''passkey'')),
      ce_encode_recovery = (\<lambda>p. Inr ''j''), ce_decode_recovery = (\<lambda>s. Inl (PlainError ''recovery''))\<rparr>"

definition sample_account_env :: "unit account_env" where
  "sample_account_env =
     \<lparr>ae_authz = sample_authz_env, ae_cred = sample_sql_env, ae_sso = sample_sso_env, ae_has_roles = True, ae_has_permissions = True,
      ae_has_sessions = True, ae_has_managed = True, ae_has_credentials = True, ae_has_password = True, ae_has_ids = True,
      ae_hash = (\<lambda>s. Inr (CHR ''#'' # s)), ae_sha256_hex = (\<lambda>s. s), ae_user_id = 50\<rparr>"

definition sample_accounts :: "unit accounts" where
  "sample_accounts = \<lparr>ac_db = sample_db, ac_credentials = [], ac_sso = sample_sso_world\<rparr>"

lemma sample_account_simps [simp]:
  "az_transactor sample_authz_env" "az_governance sample_authz_env = None" "az_outcome sample_authz_env i = SqlOk"
  "az_new_id sample_authz_env = 100" "ae_authz sample_account_env = sample_authz_env"
  "ae_user_id sample_account_env = 50" "ac_db sample_accounts = sample_db"
  "ae_has_roles sample_account_env" "ae_has_sessions sample_account_env" "ae_sso sample_account_env = sample_sso_env"
  "ac_sso sample_accounts = sample_sso_world"
  by (simp_all add: sample_authz_env_def sample_account_env_def sample_accounts_def)

lemma sample_roots: "roots_inv sample_db"
proof -
  have root: "root_row sample_root_role" by (simp add: root_row_def sample_root_role_def)
  have "1 \<in> active_roots sample_db"
    using root unfolding active_roots_iff by (auto simp: sample_db_def sample_user_def sample_root_role_def)
  moreover have "roles_ok (db_roles sample_db)"
    using root unfolding roles_ok_def
    by (simp add: sample_db_def sample_root_role_def is_system_def RoleTypeSystem_def)
  ultimately show ?thesis by (auto simp: roots_inv_def)
qed

end
