(* ===== verification/Credential_Codes.thy ===== *)
theory Credential_Codes
  imports Credentials
begin

text \<open>
  What the table of credentials keeps: the unique keys under every operation, one password and one TOTP
  secret at most in the whole table, and the recovery codes of a user, each of which is accepted once.
\<close>

section \<open>Keys\<close>

lemma put_credentials_keys:
  "put_credentials env next_rows rows = (r, rows') \<Longrightarrow> credential_keys_unique rows \<Longrightarrow> credential_keys_unique rows'"
  by (auto simp: put_credentials_def split: if_splits)

lemma insert_credential_keys:
  "credential_keys_unique rows \<Longrightarrow> credential_keys_unique (snd (insert_credential env r rows))"
  by (simp add: insert_credential_def put_credentials_def)

lemma update_credential_keys:
  "credential_keys_unique rows \<Longrightarrow> credential_keys_unique (snd (update_credential env r rows))"
  by (simp add: update_credential_def put_credentials_def)

lemma same_keys:
  assumes "\<And>r. cr_id (f r) = cr_id r" "\<And>r. cr_user (f r) = cr_user r" "\<And>r. cr_kind (f r) = cr_kind r"
    "\<And>r. cr_key (f r) = cr_key r" "\<And>r. cr_deleted (f r) = cr_deleted r"
  shows "credential_keys_unique (update_where P f rows) = credential_keys_unique rows"
  using assms by (simp add: credential_keys_unique_def map_update_where)

lemma set_status_columns [simp]:
  "cr_id (mark_status st at r) = cr_id r" "cr_user (mark_status st at r) = cr_user r"
  "cr_kind (mark_status st at r) = cr_kind r" "cr_key (mark_status st at r) = cr_key r"
  "cr_deleted (mark_status st at r) = cr_deleted r" "cr_status (mark_status st at r) = st"
  "cr_payload (mark_status st at r) = cr_payload r" "cr_hash (mark_status st at r) = cr_hash r"
  by (simp_all add: mark_status_def)

lemma stored_credential_columns [simp]:
  "cr_id (stored_credential r) = cr_id r" "cr_user (stored_credential r) = cr_user r"
  "cr_kind (stored_credential r) = cr_kind r" "cr_key (stored_credential r) = cr_key r"
  "cr_deleted (stored_credential r) = cr_deleted r" "cr_status (stored_credential r) = cr_status r"
  "cr_hash (stored_credential r) = stored_text (cr_hash r)" "cr_payload (stored_credential r) = stored_text (cr_payload r)"
  by (simp_all add: stored_credential_def)

lemma one_per_kind_and_key:
  assumes "credential_keys_unique rows" "r \<in> set rows" "r' \<in> set rows" "cr_kind r = cr_kind r'" "cr_key r = cr_key r'"
    "cr_deleted r = cr_deleted r'"
  shows "r = r'"
proof -
  have "inj_on (\<lambda>r. (cr_kind r, cr_key r, cr_deleted r)) (set rows)"
    using assms(1) by (simp add: credential_keys_unique_def distinct_map)
  then show ?thesis using assms(2-6) by (auto dest: inj_onD)
qed

lemma find_Some: "find P xs = Some x \<Longrightarrow> x \<in> set xs \<and> P x"
  by (auto simp: find_Some_iff)

section \<open>One password for all\<close>

text \<open>The row of a user takes the only place of its kind and key.\<close>

lemma place_taken:
  assumes "credential_keys_unique rows" "find_single_any a kind key rows = Some r" "a \<noteq> b"
  shows "find_single_any b kind key rows = None"
    "cr_kind n = kind \<Longrightarrow> cr_key n = key \<Longrightarrow> \<not> cr_deleted n \<Longrightarrow> insert_credential env n rows = (Inl (ce_dup env), rows)"
proof -
  have r: "r \<in> set rows" "in_scope a kind key r"
    using find_Some [OF assms(2) [unfolded find_single_any_def]] by simp_all
  show "find_single_any b kind key rows = None"
  proof (rule ccontr)
    assume "find_single_any b kind key rows \<noteq> None"
    then obtain x where x: "x \<in> set rows" "in_scope b kind key x"
      unfolding find_single_any_def using find_Some by (metis not_None_eq)
    with r(2) have "r = x" by (intro one_per_kind_and_key [OF assms(1) r(1)]) (simp_all add: in_scope_def)
    with x(2) r(2) assms(3) show False by (simp add: in_scope_def)
  qed
  show "insert_credential env n rows = (Inl (ce_dup env), rows)"
    if "cr_kind n = kind" "cr_key n = key" "\<not> cr_deleted n"
  proof -
    have "(kind, key, False) \<in> (\<lambda>r. (cr_kind r, cr_key r, cr_deleted r)) ` set rows"
      using r(2) by (intro rev_image_eqI [OF r(1)]) (simp add: in_scope_def)
    then show ?thesis
      using that by (auto simp: insert_credential_def put_credentials_def credential_keys_unique_def)
  qed
qed

lemma second_user_refused:
  assumes "credential_keys_unique rows" "find_single_any a CredentialTypePassword PrimaryCredentialKey rows \<noteq> None"
    "a \<noteq> pi_user i"
  shows "\<exists>e. upsert_password_credential env now i rows = (Inl e, rows)"
proof -
  obtain r where r: "find_single_any a CredentialTypePassword PrimaryCredentialKey rows = Some r" using assms(2) by blast
  show ?thesis
    using place_taken [OF assms(1) r assms(3)]
    by (cases "validate_user_id (pi_user i)") (simp_all add: upsert_password_credential_def Let_def empty_credential_def)
qed

section \<open>Accepting a recovery code\<close>

definition snapshot_of :: "credential_row list \<Rightarrow> credential_row list \<Rightarrow> bool" where
  "snapshot_of seen rows \<longleftrightarrow>
     (\<forall>r \<in> set seen. \<forall>x \<in> set rows. cr_id x = cr_id r \<longrightarrow> cr_user x = cr_user r \<and> cr_kind x = cr_kind r)"

lemma consume_by_id:
  "consume_recovery_code_by_id i used rows = (ok, rows') \<Longrightarrow>
     (ok \<longleftrightarrow> (\<exists>x \<in> set rows. cr_id x = i \<and> active x)) \<and> (\<not> ok \<longrightarrow> rows' = rows) \<and>
     rows' = update_where (\<lambda>r. cr_id r = i \<and> active r)
       (\<lambda>r. (mark_status CredentialStatusConsumed used r)\<lparr>cr_used := Some used\<rparr>) rows"
  unfolding consume_recovery_code_by_id_def update_rows_def
  by (auto simp: count_where_def filter_empty_conv update_where_no_match)

lemma consume_first_True:
  "consume_first env used code cs rows = (True, rows') \<Longrightarrow>
     \<exists>c \<in> set cs. recovery_code_fits env code c \<and> (\<exists>x \<in> set rows. cr_id x = cr_id c \<and> active x) \<and>
       rows' = update_where (\<lambda>r. cr_id r = cr_id c \<and> active r)
         (\<lambda>r. (mark_status CredentialStatusConsumed used r)\<lparr>cr_used := Some used\<rparr>) rows"
proof (induction cs)
  case (Cons c cs)
  then show ?case
    by (cases "consume_recovery_code_by_id (cr_id c) used rows")
       (auto split: if_splits dest: consume_by_id)
qed simp

lemma consume_first_False:
  "consume_first env used code cs rows = (False, rows') \<Longrightarrow>
     rows' = rows \<and> (\<forall>c \<in> set cs. recovery_code_fits env code c \<longrightarrow> \<not> (\<exists>x \<in> set rows. cr_id x = cr_id c \<and> active x))"
proof (induction cs)
  case (Cons c cs)
  then show ?case
    by (cases "consume_recovery_code_by_id (cr_id c) used rows")
       (auto split: if_splits dest: consume_by_id)
qed simp

text \<open>A user's own codes: a success takes one of them away, whatever the snapshot was.\<close>

lemma count_where_remove:
  assumes "x \<in> set rows" "Q x" "P x" "\<And>r. P r \<Longrightarrow> \<not> Q (f r)" "distinct (map key rows)" "\<And>r. P r \<Longrightarrow> key r = key x"
  shows "count_where Q (update_where P f rows) + 1 = count_where Q rows"
proof -
  obtain ys zs where rows: "rows = ys @ x # zs" using split_list [OF assms(1)] by blast
  have none: "\<not> P y" if "y \<in> set ys \<union> set zs" for y
    using that assms(5) assms(6) [of y] unfolding rows by auto (metis image_eqI)+
  have same: "update_where P f us = us" if "set us \<subseteq> set ys \<union> set zs" for us
    using that none unfolding update_where_def by (intro map_idI) auto
  have "update_where P f rows = ys @ f x # zs"
    using same [of ys] same [of zs] assms(3) unfolding rows update_where_def by simp
  then show ?thesis using assms(2,3,4) by (simp add: rows count_where_def)
qed

section \<open>Attempts\<close>

record recovery_attempt =
  ra_now :: time
  ra_code :: string
  ra_used_at :: time
  ra_seen :: "credential_row list"

text \<open>Attempts of a user one after the other; the number of those that were accepted.\<close>

fun try_codes :: "cred_env \<Rightarrow> int \<Rightarrow> recovery_attempt list \<Rightarrow> credential_row list \<Rightarrow> nat \<times> credential_row list" where
  "try_codes env user [] rows = (0, rows)"
| "try_codes env user (a # as) rows =
     (case consume_recovery_code env (ra_now a) user (ra_code a) (ra_used_at a) (ra_seen a) rows of
        (r, rows1) \<Rightarrow> (case try_codes env user as rows1 of
           (n, rows2) \<Rightarrow> (n + (if r = Inr True then 1 else 0), rows2)))"

lemma snapshot_of_same:
  assumes "\<And>r. cr_id (f r) = cr_id r" "\<And>r. cr_user (f r) = cr_user r" "\<And>r. cr_kind (f r) = cr_kind r"
  shows "snapshot_of seen (update_where P f rows) = snapshot_of seen rows"
proof -
  have same: "(\<forall>x \<in> set (update_where P f rows). cr_id x = cr_id r \<longrightarrow> cr_user x = cr_user r \<and> cr_kind x = cr_kind r) \<longleftrightarrow>
      (\<forall>x \<in> set rows. cr_id x = cr_id r \<longrightarrow> cr_user x = cr_user r \<and> cr_kind x = cr_kind r)" for r
    unfolding set_update_where ball_simps by (intro ball_cong refl) (simp add: assms)
  show ?thesis by (simp only: snapshot_of_def same)
qed

lemma consume_recovery_code_True:
  assumes "consume_recovery_code env now user code used_at seen rows = (Inr True, rows')"
  obtains c x where "c \<in> set seen" "active_of user CredentialTypeRecoveryCode c" "recovery_code_fits env code c"
    "x \<in> set rows" "cr_id x = cr_id c" "active x"
    "rows' = update_where (\<lambda>r. cr_id r = cr_id c \<and> active r)
       (\<lambda>r. (mark_status CredentialStatusConsumed (choose_instant now used_at) r)
              \<lparr>cr_used := Some (choose_instant now used_at)\<rparr>) rows"
proof -
  have "consume_first env (choose_instant now used_at) code
      (list_active_by_user_and_type user CredentialTypeRecoveryCode seen) rows = (True, rows')"
    using assms by (auto simp: consume_recovery_code_def then_do_Inr split: if_splits prod.splits)
  from consume_first_True [OF this] that show ?thesis by (auto simp: list_active_by_user_and_type_def)
qed

lemma consume_recovery_code_other:
  assumes "consume_recovery_code env now user code used_at seen rows = (r, rows')" "r \<noteq> Inr True"
  shows "rows' = rows"
proof (cases "validate_user_id user")
  case (Inl e)
  then show ?thesis using assms(1) by (simp add: consume_recovery_code_def)
next
  case (Inr u)
  then show ?thesis
    using assms consume_first_False [of env "choose_instant now used_at" code
        "list_active_by_user_and_type user CredentialTypeRecoveryCode seen" rows]
    by (auto simp: consume_recovery_code_def split: if_splits prod.splits)
qed

lemma consume_counts:
  assumes "consume_recovery_code env now user code used_at seen rows = (Inr True, rows')"
    "credential_keys_unique rows" "snapshot_of seen rows"
  shows "count_active_by_user_and_type user CredentialTypeRecoveryCode rows' + 1
    = count_active_by_user_and_type user CredentialTypeRecoveryCode rows"
proof -
  let ?f = "\<lambda>r. (mark_status CredentialStatusConsumed (choose_instant now used_at) r)
    \<lparr>cr_used := Some (choose_instant now used_at)\<rparr>"
  obtain c x where c: "c \<in> set seen" "active_of user CredentialTypeRecoveryCode c"
    "recovery_code_fits env code c" "x \<in> set rows" "cr_id x = cr_id c" "active x"
    "rows' = update_where (\<lambda>r. cr_id r = cr_id c \<and> active r) ?f rows"
    using consume_recovery_code_True [OF assms(1)] .
  have "active_of user CredentialTypeRecoveryCode x"
    using assms(3) [unfolded snapshot_of_def, rule_format, OF c(1,4,5)] c(2,6) by (simp add: active_of_def)
  then show ?thesis unfolding count_active_by_user_and_type_def c(7)
    using assms(2) c(4-6) by (intro count_where_remove [where x = x and key = cr_id])
      (auto simp: active_of_def active_def credential_keys_unique_def)
qed

lemma consume_keeps_table:
  assumes "consume_recovery_code env now user code used_at seen rows = (r, rows')"
  shows "credential_keys_unique rows' = credential_keys_unique rows" "snapshot_of s rows' = snapshot_of s rows"
proof -
  have "credential_keys_unique rows' = credential_keys_unique rows \<and> snapshot_of s rows' = snapshot_of s rows"
  proof (cases "r = Inr True")
    case True
    with assms obtain i at where "rows' = update_where (\<lambda>r. cr_id r = i \<and> active r)
        (\<lambda>r. (mark_status CredentialStatusConsumed at r)\<lparr>cr_used := Some at\<rparr>) rows"
      using consume_recovery_code_True [of env now user code used_at seen rows rows'] by metis
    then show ?thesis by (simp add: same_keys snapshot_of_same)
  next
    case False
    with consume_recovery_code_other [OF assms] show ?thesis by simp
  qed
  then show "credential_keys_unique rows' = credential_keys_unique rows" "snapshot_of s rows' = snapshot_of s rows"
    by simp_all
qed

lemma try_codes_counts:
  "try_codes env user as rows = (n, rows') \<Longrightarrow> credential_keys_unique rows \<Longrightarrow>
   (\<forall>a \<in> set as. snapshot_of (ra_seen a) rows) \<Longrightarrow>
   n + count_active_by_user_and_type user CredentialTypeRecoveryCode rows'
     = count_active_by_user_and_type user CredentialTypeRecoveryCode rows"
proof (induction as arbitrary: n rows)
  case (Cons a as)
  obtain r rows1 where step: "consume_recovery_code env (ra_now a) user (ra_code a) (ra_used_at a) (ra_seen a) rows = (r, rows1)"
    by fastforce
  obtain k rows2 where rest: "try_codes env user as rows1 = (k, rows2)" by fastforce
  have "k + count_active_by_user_and_type user CredentialTypeRecoveryCode rows2
      = count_active_by_user_and_type user CredentialTypeRecoveryCode rows1"
    using Cons.IH [of rows1 k] rest Cons.prems consume_keeps_table [OF step] step by simp
  moreover have "rows' = rows2" "n = k + (if r = Inr True then 1 else 0)"
    using Cons.prems(1) step rest by simp_all
  moreover have "if r = Inr True then count_active_by_user_and_type user CredentialTypeRecoveryCode rows1 + 1
      = count_active_by_user_and_type user CredentialTypeRecoveryCode rows else rows1 = rows"
    using consume_counts [of env "ra_now a" user "ra_code a" "ra_used_at a" "ra_seen a" rows rows1]
      consume_recovery_code_other [OF step] step Cons.prems(2,3) by auto
  ultimately show ?case by (auto split: if_splits)
qed simp

section \<open>A new batch\<close>

lemma insert_credential_Inr: "insert_credential env r rows = (Inr u, rows') \<Longrightarrow> rows' = rows @ [stored_credential r]"
  by (auto simp: insert_credential_def put_credentials_def split: if_splits)

lemma insert_recovery_codes_Inr:
  "insert_recovery_codes env now user batch i codes rows = (Inr u, rows') \<Longrightarrow>
     \<exists>new. rows' = rows @ map stored_credential new \<and>
       list_all2 (\<lambda>code r. \<exists>j. recovery_row env now user batch j code = Inr r) codes new"
proof (induction codes arbitrary: i rows)
  case (Cons code codes)
  then obtain r v rows1 where r: "recovery_row env now user batch i code = Inr r"
    "insert_credential env r rows = (Inr v, rows1)"
    "insert_recovery_codes env now user batch (Suc i) codes rows1 = (Inr u, rows')"
    by (auto simp: then_do_Inr)
  with Cons.IH [OF r(3)] insert_credential_Inr [OF r(2)] obtain new where
    "rows' = rows @ stored_credential r # map stored_credential new"
    "list_all2 (\<lambda>code r. \<exists>j. recovery_row env now user batch j code = Inr r) codes new" by auto
  with r(1) show ?case by (intro exI [of _ "r # new"]) auto
qed simp

lemma generate_codes_length: "generate_codes_from env i n = Inr codes \<Longrightarrow> length codes = n"
  by (induction n arbitrary: i codes) (auto simp: if_ok_Inr)

lemma recovery_row_Inr:
  assumes "recovery_row env now user batch j code = Inr r"
  shows "active_of user CredentialTypeRecoveryCode (stored_credential r)"
  using assms by (auto simp: recovery_row_def if_ok_Inr active_of_def active_def empty_credential_def)

lemma count_where_cleared: "(\<And>r. P r \<Longrightarrow> \<not> P (f r)) \<Longrightarrow> count_where P (update_where P f rows) = 0"
  by (auto simp: count_where_def update_where_def filter_empty_conv)

lemma invalidate_leaves_none:
  "count_where (active_of user CredentialTypeRecoveryCode) (snd (invalidate_active_recovery_codes user at rows)) = 0"
  unfolding invalidate_active_recovery_codes_def update_rows_def snd_conv
  by (rule count_where_cleared) (simp add: active_of_def active_def)

lemma regenerate_Inr:
  assumes "regenerate_recovery_codes env now user n rows = (Inr b, rows')"
  obtains new where "rows' = snd (invalidate_active_recovery_codes user now rows) @ map stored_credential new"
    "list_all2 (\<lambda>code r. \<exists>j. recovery_row env now user (rb_batch b) j code = Inr r) (rb_codes b) new"
    "length (rb_codes b) = nat n" "0 < user" "rb_batch b = ''batch_'' @ compact_uuid env 0"
proof -
  from assms obtain codes u where
    "generate_codes env n = Inr codes" "0 < user" "b = \<lparr>rb_batch = ''batch_'' @ compact_uuid env 0, rb_codes = codes, rb_at = now\<rparr>"
    "insert_recovery_codes env now user (''batch_'' @ compact_uuid env 0) 0 codes
       (snd (invalidate_active_recovery_codes user now rows)) = (Inr u, rows')"
    by (auto simp: regenerate_recovery_codes_def then_do_Inr if_ok_Inr validate_user_id_def Let_def)
  with insert_recovery_codes_Inr [OF this(4)] generate_codes_length [of env 0 "nat n" codes] that
  show ?thesis by (auto simp: generate_codes_def)
qed

lemma regenerate_counts:
  assumes "regenerate_recovery_codes env now user n rows = (Inr b, rows')"
  shows "count_active_by_user_and_type user CredentialTypeRecoveryCode rows' = nat n"
proof -
  obtain new where new: "rows' = snd (invalidate_active_recovery_codes user now rows) @ map stored_credential new"
    "list_all2 (\<lambda>code r. \<exists>j. recovery_row env now user (rb_batch b) j code = Inr r) (rb_codes b) new"
    "length (rb_codes b) = nat n" using regenerate_Inr [OF assms] .
  then have "\<forall>r \<in> set new. active_of user CredentialTypeRecoveryCode (stored_credential r)"
    using recovery_row_Inr by (fastforce simp: list_all2_conv_all_nth in_set_conv_nth)
  then have "filter (active_of user CredentialTypeRecoveryCode) (map stored_credential new) = map stored_credential new"
    by (simp add: filter_id_conv)
  moreover have "length new = nat n" using new(2,3) by (auto dest: list_all2_lengthD)
  ultimately show ?thesis using invalidate_leaves_none [of user now rows]
    by (simp add: count_active_by_user_and_type_def count_where_def new(1))
qed

section \<open>A fresh code is accepted\<close>

text \<open>What the libraries promise of the texts they produce.\<close>

definition cred_libraries_ok :: "cred_env \<Rightarrow> bool" where
  "cred_libraries_ok env \<longleftrightarrow>
     (\<forall>p s. ce_encode_recovery env p = Inr s \<longrightarrow> \<not> blank s \<and> ce_decode_recovery env (trim_space s) = Inr p)
     \<and> (\<forall>c s n. \<not> blank (ce_base64_encode env (ce_pbkdf2 env c s n))
          \<and> trim_space (ce_base64_encode env (ce_pbkdf2 env c s n)) = ce_base64_encode env (ce_pbkdf2 env c s n))
     \<and> (\<forall>i s. ce_random_salt env i = Inr s \<longrightarrow> \<not> blank s)"

lemma hash_code_typed: "normalize_code typed = normalize_code code \<Longrightarrow> hash_code env typed = hash_code env code"
  by (intro ext) (simp add: hash_code_def)

lemma batch_not_blank: "list_all visible (ce_uuid env 0) \<Longrightarrow> \<not> blank (''batch_'' @ compact_uuid env 0)"
proof -
  assume "list_all visible (ce_uuid env 0)"
  then have "list_all visible (''batch_'' @ compact_uuid env 0)"
    by (auto simp: compact_uuid_def remove_char_def list_all_iff visible_def)
  then show ?thesis by (simp add: blank_def trim_visible)
qed

lemma fresh_code_fits:
  assumes "cred_libraries_ok env" "recovery_row env now user batch j code = Inr r" "\<not> blank batch"
    "normalize_code typed = normalize_code code"
  shows "recovery_code_fits env typed (stored_credential r)"
proof -
  from assms(2) obtain salt hash payload where
    parts: "ce_random_salt env j = Inr salt" "hash_code env code salt DefaultRecoveryHashIteration = Inr hash"
      "ce_encode_recovery env \<lparr>rcp_salt = salt, rcp_algorithm = HashAlgorithm,
         rcp_iterations = DefaultRecoveryHashIteration, rcp_batch = batch\<rparr> = Inr payload"
    and r: "cr_hash r = hash" "cr_payload r = payload"
    by (auto simp: recovery_row_def if_ok_Inr)
  have payload: "\<not> blank payload" "ce_decode_recovery env (trim_space payload) = Inr
      \<lparr>rcp_salt = salt, rcp_algorithm = HashAlgorithm, rcp_iterations = DefaultRecoveryHashIteration, rcp_batch = batch\<rparr>"
    using assms(1) parts(3) unfolding cred_libraries_ok_def by blast+
  have "\<not> blank salt" using assms(1) parts(1) unfolding cred_libraries_ok_def by blast
  moreover have "\<not> blank hash" "trim_space hash = hash"
    using assms(1) parts(2) unfolding cred_libraries_ok_def hash_code_def by (auto simp: if_ok_Inr)
  moreover have "\<not> blank HashAlgorithm"
    by (simp add: blank_def trim_visible HashAlgorithm_def visible_def)
  moreover have "hash_code env typed salt DefaultRecoveryHashIteration = Inr hash"
    using hash_code_typed [OF assms(4), of env] parts(2) by simp
  ultimately show ?thesis using payload r assms(3)
    by (simp add: recovery_code_fits_def decode_recovery_code_def stored_text_def is_valid_recovery_code_payload_def
        verify_code_def DefaultRecoveryHashIteration_def)
qed

lemma consume_first_finds:
  "c \<in> set cs \<Longrightarrow> recovery_code_fits env code c \<Longrightarrow> c \<in> set rows \<Longrightarrow> active c \<Longrightarrow>
     \<exists>rows'. consume_first env used code cs rows = (True, rows')"
  using consume_first_False [of env used code cs rows] by (cases "consume_first env used code cs rows") auto

lemma fresh_code_accepted:
  assumes ok: "cred_libraries_ok env" "list_all visible (ce_uuid env 0)"
    and made: "regenerate_recovery_codes env now user n rows = (Inr b, rows')" "code \<in> set (rb_codes b)"
    and typed: "normalize_code typed = normalize_code code" "\<not> blank typed"
  shows "\<exists>rows2. consume_recovery_code env now2 user typed used rows' rows' = (Inr True, rows2)"
proof -
  obtain new where new: "rows' = snd (invalidate_active_recovery_codes user now rows) @ map stored_credential new"
    "list_all2 (\<lambda>code r. \<exists>j. recovery_row env now user (rb_batch b) j code = Inr r) (rb_codes b) new"
    "length (rb_codes b) = nat n" "0 < user" "rb_batch b = ''batch_'' @ compact_uuid env 0"
    using regenerate_Inr [OF made(1)] .
  obtain i where i: "i < length (rb_codes b)" "code = rb_codes b ! i" using made(2) by (auto simp: in_set_conv_nth)
  let ?r = "new ! i"
  obtain j where row: "recovery_row env now user (rb_batch b) j code = Inr ?r"
    using new(2) i by (auto simp: list_all2_conv_all_nth)
  have "?r \<in> set new" using new(2) i by (auto simp: list_all2_conv_all_nth)
  then have mem: "stored_credential ?r \<in> set rows'" by (simp add: new(1))
  have act: "active_of user CredentialTypeRecoveryCode (stored_credential ?r)" by (rule recovery_row_Inr [OF row])
  have fits: "recovery_code_fits env typed (stored_credential ?r)"
    using fresh_code_fits [OF ok(1) row _ typed(1)] batch_not_blank [OF ok(2)] unfolding new(5) by blast
  have "stored_credential ?r \<in> set (list_active_by_user_and_type user CredentialTypeRecoveryCode rows')"
    using mem act by (simp add: list_active_by_user_and_type_def)
  then obtain rows2 where "consume_first env (choose_instant now2 used) typed
      (list_active_by_user_and_type user CredentialTypeRecoveryCode rows') rows' = (True, rows2)"
    using consume_first_finds fits mem act unfolding active_of_def by blast
  then show ?thesis using typed(2) new(4)
    by (simp add: consume_recovery_code_def validate_user_id_def require_def)
qed

end
