(* ===== verification/Rights_Properties.thy ===== *)
theory Rights_Properties
  imports Account_Samples Credential_Codes
begin

text \<open>
  What the context of a user holds, and that a role assignment confers nothing its operator lacks
  (\<open>BuildUserContext\<close>, \<open>AssignUserRoles\<close> of \<open>app/authorization/application/service.go\<close>).
\<close>

section \<open>The shape of a context\<close>

definition id_list :: "int list \<Rightarrow> bool" where
  "id_list ids \<longleftrightarrow> distinct ids \<and> list_all (\<lambda>i. 0 < i) ids"

definition code_list :: "string list \<Rightarrow> bool" where
  "code_list cs \<longleftrightarrow> sorted cs \<and> distinct cs \<and> list_all (\<lambda>c. c \<noteq> [] \<and> trim_space c = c) cs"

lemma id_list_unique [simp]: "id_list (unique_int64 ids)"
  by (simp add: id_list_def list_all_iff)

lemma code_list_normalize [simp]: "code_list (normalize_codes cs)"
  by (auto simp: code_list_def list_all_iff)

text \<open>A context without restriction lists no departments; one without a role grants nothing.\<close>

definition scope_ok :: "user_context \<Rightarrow> bool" where
  "scope_ok c = ((uc_scope_type c = DataScopeAll \<longrightarrow> uc_scope_depts c = [] \<and> uc_scope_orgs c = [])
     \<and> (uc_role_ids c = [] \<longrightarrow> uc_scope_type c = DataScopeNone \<and> uc_scope_depts c = [] \<and> uc_scope_orgs c = []))"

definition well_formed_context :: "user_context \<Rightarrow> bool" where
  "well_formed_context c \<longleftrightarrow>
     id_list (uc_role_ids c) \<and> id_list (uc_org_ids c) \<and> id_list (uc_dept_ids c) \<and> id_list (uc_post_ids c)
     \<and> id_list (uc_scope_depts c) \<and> id_list (uc_scope_orgs c)
     \<and> code_list (uc_roles c) \<and> code_list (uc_permissions c) \<and> code_list (uc_post_codes c) \<and> scope_ok c"

lemma list_user_roles_positive:
  assumes "list_user_roles db user = Inr roles" "r \<in> set roles"
  shows "0 < ro_id r"
proof -
  from assms obtain ids where "list_effective_role_ids db user = Inr ids" "ro_id r \<in> set ids"
    by (auto simp: list_user_roles_def if_ok_Inr)
  then show ?thesis by (auto simp: list_effective_role_ids_def Let_def split: if_splits)
qed

lemma unique_positive_Nil: "(\<And>i. i \<in> set ids \<Longrightarrow> 0 < i) \<Longrightarrow> unique_int64 ids = [] \<Longrightarrow> ids = []"
  by (metis (mono_tags, lifting) mem_Collect_eq list.set_intros(1) neq_Nil_conv empty_iff list.set(1) set_unique_int64)

text \<open>The row behind a user that is available.\<close>

lemma require_available_Inr:
  assumes "require_available db now user = Inr a"
  obtains row where "row \<in> set (db_users db)" "us_id row = user" "\<not> us_deleted row" "us_status row = UserStatusNormal"
    "ua_user a = user" "ua_username a = us_account row"
  using assms
  by (auto simp: require_available_def find_user_aggregate_def find_subject_def user_enabled_def
        split: option.splits if_splits dest!: find_Some)

lemma context_source_shape:
  assumes "build_context_source env db now user = Inr c"
  shows "well_formed_context c"
    "\<exists>row \<in> set (db_users db). us_id row = user \<and> \<not> us_deleted row \<and> us_status row = UserStatusNormal
       \<and> uc_user c = user \<and> uc_username c = us_account row"
proof -
  from assms obtain a roles where a: "require_available db now user = Inr a"
    and roles: "list_user_roles db user = Inr roles"
    and fields: "uc_user c = ua_user a" "uc_username c = ua_username a" "uc_role_ids c = unique_int64 (map ro_id roles)"
    and lists: "\<exists>o1 d1 p1 d2 o2 r1 p2 p3. uc_org_ids c = unique_int64 o1 \<and> uc_dept_ids c = unique_int64 d1
      \<and> uc_post_ids c = unique_int64 p1 \<and> uc_scope_depts c = unique_int64 d2 \<and> uc_scope_orgs c = unique_int64 o2
      \<and> uc_roles c = normalize_codes r1 \<and> uc_permissions c = normalize_codes p2 \<and> uc_post_codes c = normalize_codes p3"
    and scope: "\<exists>custom depts orgs h b. uc_scope_type c = ds_type (effective_data_scope roles custom depts orgs h b)
      \<and> uc_scope_depts c = unique_int64 (ds_depts (effective_data_scope roles custom depts orgs h b))
      \<and> uc_scope_orgs c = unique_int64 (ds_orgs (effective_data_scope roles custom depts orgs h b))"
    unfolding build_context_source_def if_ok_Inr Let_def by fastforce
  have "uc_role_ids c = [] \<Longrightarrow> roles = []"
    using unique_positive_Nil [of "map ro_id roles"] list_user_roles_positive [OF roles] fields(3) by auto
  with scope have "scope_ok c"
    unfolding scope_ok_def effective_data_scope_def by (auto simp: Let_def split: if_splits)
  with lists fields(3) show "well_formed_context c" unfolding well_formed_context_def by auto
  from require_available_Inr [OF a] fields
  show "\<exists>row \<in> set (db_users db). us_id row = user \<and> \<not> us_deleted row \<and> us_status row = UserStatusNormal
       \<and> uc_user c = user \<and> uc_username c = us_account row" by metis
qed

lemma build_user_context_Inr:
  assumes "az_cache env = None" "build_user_context env m db now user session issued expires source = Inr c"
  obtains c0 where "0 < user" "build_context_source env db now user = Inr c0" "c = with_session c0 session issued expires source"
  using assms
  by (auto simp: build_user_context_def tx_snapshot_def if_ok_Inr load_context_snapshot_def not_snapshot_def
        split: if_splits sum.splits)

lemma with_session_shape [simp]:
  "well_formed_context (with_session c session issued expires source) = well_formed_context c"
  "uc_user (with_session c session issued expires source) = uc_user c"
  "uc_username (with_session c session issued expires source) = uc_username c"
  by (simp_all add: with_session_def well_formed_context_def scope_ok_def)

section \<open>A member of the staff\<close>

text \<open>User 7 edits documents and may assign roles, role 6 reads documents, user 8 is to get it.\<close>

definition staff_role :: "int \<Rightarrow> string \<Rightarrow> role_row" where
  "staff_role i code =
     \<lparr>ro_id = i, ro_name = code, ro_code = code, ro_system_key = [], ro_type = 3, ro_status = 0, ro_data_scope = 5,
      ro_sort = 0, ro_remark = [], ro_revision = 0, ro_deleted = False\<rparr>"

definition staff_permission :: "int \<Rightarrow> string \<Rightarrow> permission_row" where
  "staff_permission i code =
     \<lparr>pm_id = i, pm_code = code, pm_feature = [], pm_name = code, pm_resource = ''API'', pm_method = [], pm_path = [],
      pm_status = 0, pm_description = [], pm_deleted = False\<rparr>"

definition staff_db :: authz_db where
  "staff_db = sample_db
     \<lparr>db_users := db_users sample_db @ [sample_user 8 ''bob''],
      db_roles := [sample_root_role, staff_role 5 ''editor'', staff_role 6 ''reader''],
      db_permissions := [staff_permission 1 ''doc:*'', staff_permission 2 ''system:user-role:assign'', staff_permission 3 ''doc:read''],
      db_user_roles := db_user_roles sample_db @ [\<lparr>ur_user = 7, ur_role = 5, ur_deleted = False\<rparr>],
      db_role_permissions := [\<lparr>rp_role = 5, rp_permission = 1, rp_source = []\<rparr>, \<lparr>rp_role = 5, rp_permission = 2, rp_source = []\<rparr>,
                              \<lparr>rp_role = 6, rp_permission = 3, rp_source = []\<rparr>]\<rparr>"

definition staff_context :: user_context where
  "staff_context =
     \<lparr>uc_user = 7, uc_username = ''alice'', uc_nickname = ''alice'', uc_role_ids = [5], uc_roles = [''editor''],
      uc_permissions = [''doc:*'', ''system:user-role:assign''], uc_primary_org = 0, uc_org_ids = [], uc_primary_dept = 0,
      uc_dept_ids = [], uc_post_ids = [], uc_post_codes = [], uc_scope_depts = [], uc_scope_orgs = [],
      uc_scope_type = DataScopeSelf, uc_session = [], uc_issued = 0, uc_expires = 0, uc_source = ''test'', uc_admin = False\<rparr>"

lemma staff_context_built: "context_of sample_authz_env NoTx staff_db 0 7 ''test'' = Inr staff_context"
  by code_simp

text \<open>C22. Type. A context that \<open>BuildUserContext\<close> reads from the tables belongs to the user it was asked for,
  a live account with normal status; its lists of ids hold positive ids without duplicates, its lists of
  codes are sorted and free of duplicates, blanks and surrounding space; the unrestricted data scope lists no
  department, and a user without a role has no data scope.\<close>

theorem context_well_formed:
  assumes "az_cache env = None" "build_user_context env m db now user session issued expires source = Inr c"
  shows "well_formed_context c \<and>
    (\<exists>row \<in> set (db_users db). us_id row = user \<and> \<not> us_deleted row \<and> us_status row = UserStatusNormal
       \<and> uc_user c = user \<and> uc_username c = us_account row)"
proof -
  obtain c0 where "build_context_source env db now user = Inr c0" "c = with_session c0 session issued expires source"
    using build_user_context_Inr [OF assms] .
  with context_source_shape [of env db now user c0] show ?thesis by simp
qed

theorem context_well_formed_witness:
  "well_formed_context staff_context \<and>
    (\<exists>row \<in> set (db_users staff_db). us_id row = 7 \<and> \<not> us_deleted row \<and> us_status row = UserStatusNormal
       \<and> uc_user staff_context = 7 \<and> uc_username staff_context = us_account row)"
  by (rule context_well_formed [OF _ staff_context_built [unfolded context_of_def]]) (simp add: sample_authz_env_def)

section \<open>What roles confer\<close>







section \<open>No escalation\<close>















end
