(* ===== verification/Org_Hierarchy.thy ===== *)
theory Org_Hierarchy
  imports Org_Units
begin

text \<open>
  The hierarchy of departments. The scope DEPT_AND_CHILD is decided on the column \<open>hierarchy\<close> alone: a
  department belongs to the scope of another if its path is that path or continues it after a slash
  (\<open>ListDeptIDsByHierarchies\<close>). The lemmas relate this test to the parents of the departments: both agree as
  long as every path is the one that \<open>buildDeptRecord\<close> computes, which creation and deletion keep.
\<close>

section \<open>Decimal ids in a path\<close>

lemma show_nat_no_slash: "CHR ''/'' \<notin> set (show_nat n)"
proof
  assume "CHR ''/'' \<in> set (show_nat n)"
  from show_nat_digit [OF this] show False by (simp add: digit_value_def)
qed

lemma show_int_no_slash: "CHR ''/'' \<notin> set (show_int i)"
proof (cases "i < 0")
  case True
  then have "set (show_int i) = insert (CHR ''-'') (set (show_nat (nat (- i))))"
    by (simp only: show_int_def if_True list.set)
  then show ?thesis by (simp add: show_nat_no_slash)
next
  case False
  then have "set (show_int i) = set (show_nat (nat i))" by (simp only: show_int_def if_False)
  then show ?thesis by (simp add: show_nat_no_slash)
qed

lemma show_int_inj:
  assumes "0 \<le> i" "0 \<le> j" "show_int i = show_int j"
  shows "i = j"
proof -
  have "show_int k = show_nat (nat k)" if "0 \<le> k" for k
    unfolding show_int_def using that by (intro if_not_P) simp
  then have "show_nat (nat i) = show_nat (nat j)" using assms by metis
  from arg_cong [OF this, of parse_nat] have "nat i = nat j" by simp
  then show ?thesis using assms(1,2) by simp
qed

lemma slash_split:
  assumes "xs @ CHR ''/'' # ys = as @ CHR ''/'' # bs" "CHR ''/'' \<notin> set ys" "CHR ''/'' \<notin> set bs"
  shows "xs = as \<and> ys = bs"
proof -
  have "rev ys @ CHR ''/'' # rev xs = rev bs @ CHR ''/'' # rev as"
    using arg_cong [OF assms(1), of rev] by simp
  moreover have "takeWhile (\<lambda>c. c \<noteq> CHR ''/'') (rev ys @ CHR ''/'' # rev xs) = rev ys"
    "takeWhile (\<lambda>c. c \<noteq> CHR ''/'') (rev bs @ CHR ''/'' # rev as) = rev bs"
    using assms(2,3) by (simp_all add: takeWhile_append takeWhile_eq_all_conv)
  ultimately show ?thesis using assms(1) by simp
qed

text \<open>A path that continues another after a slash either ends there or continues its own base.\<close>

lemma prefix_of_extension:
  assumes "xs @ CHR ''/'' # zs = as @ CHR ''/'' # bs" "CHR ''/'' \<notin> set bs"
  shows "xs = as \<or> (\<exists>ws. xs @ CHR ''/'' # ws = as)"
proof (cases "CHR ''/'' \<in> set zs")
  case False
  then show ?thesis using slash_split [OF assms(1)] assms(2) by blast
next
  case True
  then obtain us vs where z: "zs = us @ CHR ''/'' # vs" "CHR ''/'' \<notin> set vs"
    using split_list_last by metis
  have "(xs @ CHR ''/'' # us) @ CHR ''/'' # vs = as @ CHR ''/'' # bs" using assms(1) z(1) by simp
  from slash_split [OF this z(2) assms(2)] show ?thesis by auto
qed

section \<open>Paths that agree with the parents\<close>

definition path_ok :: "dept_row list \<Rightarrow> dept_row \<Rightarrow> bool" where
  "path_ok depts d \<longleftrightarrow>
     0 < dp_id d
     \<and> (if dp_parent d \<le> 0 then dp_hierarchy d = ''/'' @ show_int (dp_id d)
        else \<exists>p \<in> set depts. live_dept (dp_parent d) p
               \<and> dp_hierarchy d = dp_hierarchy p @ ''/'' @ show_int (dp_id d))"

definition hierarchy_ok :: "dept_row list \<Rightarrow> bool" where
  "hierarchy_ok depts \<longleftrightarrow> distinct (map dp_id depts) \<and> (\<forall>d \<in> set depts. \<not> dp_deleted d \<longrightarrow> path_ok depts d)"

text \<open>The department \<open>d\<close> is \<open>e\<close> or stands somewhere below it.\<close>

inductive is_under :: "dept_row list \<Rightarrow> int \<Rightarrow> int \<Rightarrow> bool" for depts where
  itself: "d \<in> set depts \<Longrightarrow> \<not> dp_deleted d \<Longrightarrow> is_under depts (dp_id d) (dp_id d)"
| below: "d \<in> set depts \<Longrightarrow> \<not> dp_deleted d \<Longrightarrow> 0 < dp_parent d \<Longrightarrow> is_under depts (dp_parent d) e \<Longrightarrow>
    is_under depts (dp_id d) e"

definition in_scope_of :: "string \<Rightarrow> dept_row \<Rightarrow> bool" where
  "in_scope_of path d \<longleftrightarrow> dp_hierarchy d = path \<or> has_prefix (dp_hierarchy d) (path @ ''/'')"

lemma in_scope_of_iff: "in_scope_of path d \<longleftrightarrow> dp_hierarchy d = path \<or> (\<exists>r. dp_hierarchy d = path @ CHR ''/'' # r)"
  by (auto simp: in_scope_of_def has_prefix_def starts_with_iff)

lemma same_dept: "distinct (map dp_id depts) \<Longrightarrow> d \<in> set depts \<Longrightarrow> e \<in> set depts \<Longrightarrow> dp_id d = dp_id e \<Longrightarrow> d = e"
  by (auto simp: distinct_map inj_on_def)

lemma path_last:
  assumes "path_ok depts d"
  shows "\<exists>base. dp_hierarchy d = base @ CHR ''/'' # show_int (dp_id d)"
  using assms by (auto simp: path_ok_def split: if_splits)

lemma same_path:
  assumes "hierarchy_ok depts" "d \<in> set depts" "e \<in> set depts" "\<not> dp_deleted d" "\<not> dp_deleted e"
    "dp_hierarchy d = dp_hierarchy e"
  shows "d = e"
proof -
  have ok: "path_ok depts d" "path_ok depts e" using assms unfolding hierarchy_ok_def by blast+
  obtain x y where "dp_hierarchy d = x @ CHR ''/'' # show_int (dp_id d)" "dp_hierarchy e = y @ CHR ''/'' # show_int (dp_id e)"
    using path_last ok by blast
  then have "x @ CHR ''/'' # show_int (dp_id d) = y @ CHR ''/'' # show_int (dp_id e)" using assms(6) by simp
  from slash_split [OF this show_int_no_slash show_int_no_slash]
  have "show_int (dp_id d) = show_int (dp_id e)" by simp
  moreover have "0 < dp_id d" "0 < dp_id e" using ok by (simp_all add: path_ok_def)
  ultimately have "dp_id d = dp_id e" using show_int_inj by simp
  then show ?thesis using same_dept assms unfolding hierarchy_ok_def by blast
qed

text \<open>Whatever a path continues after a slash is the path of a department above.\<close>

lemma prefix_is_above:
  assumes ok: "hierarchy_ok depts"
  shows "d \<in> set depts \<Longrightarrow> \<not> dp_deleted d \<Longrightarrow> dp_hierarchy d = x @ CHR ''/'' # r \<Longrightarrow> x \<noteq> [] \<Longrightarrow>
    \<exists>e \<in> set depts. \<not> dp_deleted e \<and> dp_hierarchy e = x \<and> is_under depts (dp_id d) (dp_id e)"
proof (induction "length (dp_hierarchy d)" arbitrary: d r rule: less_induct)
  case less
  have path: "path_ok depts d" using ok less.prems unfolding hierarchy_ok_def by blast
  show ?case
  proof (cases "dp_parent d \<le> 0")
    case True
    then have "x @ CHR ''/'' # r = [] @ CHR ''/'' # show_int (dp_id d)"
      using path less.prems(3) by (simp add: path_ok_def)
    from prefix_of_extension [OF this show_int_no_slash] show ?thesis using less.prems(4) by simp
  next
    case False
    then obtain p where p: "p \<in> set depts" "dp_id p = dp_parent d" "\<not> dp_deleted p"
        "dp_hierarchy d = dp_hierarchy p @ ''/'' @ show_int (dp_id d)"
      using path by (auto simp: path_ok_def live_dept_def)
    have up: "is_under depts (dp_id d) e" if "is_under depts (dp_id p) e" for e
      using is_under.below [OF less.prems(1,2)] that False p(2) by simp
    have "x @ CHR ''/'' # r = dp_hierarchy p @ CHR ''/'' # show_int (dp_id d)" using p(4) less.prems(3) by simp
    from prefix_of_extension [OF this show_int_no_slash] show ?thesis
    proof (elim disjE exE)
      assume "x = dp_hierarchy p"
      then show ?thesis using p up is_under.itself by blast
    next
      fix ws assume ws: "x @ CHR ''/'' # ws = dp_hierarchy p"
      have "length (dp_hierarchy p) < length (dp_hierarchy d)" using p(4) by simp
      from less.hyps [OF this p(1,3) ws [symmetric] less.prems(4)] show ?thesis using up by blast
    qed
  qed
qed

lemma under_in_scope:
  assumes ok: "hierarchy_ok depts" and under: "is_under depts i j"
    and d: "d \<in> set depts" "\<not> dp_deleted d" "dp_id d = i" and e: "e \<in> set depts" "\<not> dp_deleted e" "dp_id e = j"
  shows "in_scope_of (dp_hierarchy e) d"
  using under d e(3)
proof (induction arbitrary: d rule: is_under.induct)
  case (itself x)
  have dist: "distinct (map dp_id depts)" using ok by (simp add: hierarchy_ok_def)
  have "d = e" by (rule same_dept [OF dist itself.prems(1) e(1)]) (use itself.prems(3,4) in simp)
  then show ?case by (simp add: in_scope_of_def)
next
  case (below x)
  have dist: "distinct (map dp_id depts)" using ok by (simp add: hierarchy_ok_def)
  have "x = d" by (rule same_dept [OF dist below.hyps(1) below.prems(1)]) (use below.prems(3) in simp)
  moreover have "path_ok depts x" using ok below.hyps(1,2) unfolding hierarchy_ok_def by blast
  ultimately obtain p where p: "p \<in> set depts" "\<not> dp_deleted p" "dp_id p = dp_parent x"
      "dp_hierarchy d = dp_hierarchy p @ ''/'' @ show_int (dp_id d)"
    using below.hyps(3) by (auto simp: path_ok_def live_dept_def split: if_splits)
  from below.IH [OF p(1-3) below.prems(4)] show ?case using p(4) by (auto simp: in_scope_of_iff)
qed

lemma in_scope_iff_under:
  assumes ok: "hierarchy_ok depts" and d: "d \<in> set depts" "\<not> dp_deleted d" and e: "e \<in> set depts" "\<not> dp_deleted e"
  shows "in_scope_of (dp_hierarchy e) d \<longleftrightarrow> is_under depts (dp_id d) (dp_id e)"
proof
  assume "in_scope_of (dp_hierarchy e) d"
  then consider "dp_hierarchy d = dp_hierarchy e" | r where "dp_hierarchy d = dp_hierarchy e @ CHR ''/'' # r"
    by (auto simp: in_scope_of_iff)
  then show "is_under depts (dp_id d) (dp_id e)"
  proof cases
    case 1
    then show ?thesis using same_path [OF ok d(1) e(1)] d e is_under.itself by blast
  next
    case 2
    obtain b where "dp_hierarchy e = b @ CHR ''/'' # show_int (dp_id e)"
      using path_last ok e unfolding hierarchy_ok_def by blast
    then have "dp_hierarchy e \<noteq> []" by simp
    from prefix_is_above [OF ok d 2 this] show ?thesis using same_path [OF ok _ e(1)] e(2) by blast
  qed
qed (use under_in_scope [OF ok] d e in blast)

section \<open>The scope of a user\<close>

lemma path_visible:
  assumes ok: "hierarchy_ok depts"
  shows "d \<in> set depts \<Longrightarrow> \<not> dp_deleted d \<Longrightarrow> list_all visible (dp_hierarchy d) \<and> dp_hierarchy d \<noteq> []"
proof (induction "length (dp_hierarchy d)" arbitrary: d rule: less_induct)
  case less
  have path: "path_ok depts d" using ok less.prems unfolding hierarchy_ok_def by blast
  have id_visible: "list_all visible (show_int (dp_id d))" using show_int_chars by (simp add: list_all_iff)
  have slash: "visible CHR ''/''" by (simp add: visible_def)
  show ?case
  proof (cases "dp_parent d \<le> 0")
    case True
    then show ?thesis using path id_visible slash by (simp add: path_ok_def)
  next
    case False
    then obtain p where p: "p \<in> set depts" "\<not> dp_deleted p"
        "dp_hierarchy d = dp_hierarchy p @ ''/'' @ show_int (dp_id d)"
      using path by (auto simp: path_ok_def live_dept_def)
    then show ?thesis using less.hyps [of p] id_visible slash by simp
  qed
qed

lemma path_trimmed: "hierarchy_ok depts \<Longrightarrow> d \<in> set depts \<Longrightarrow> \<not> dp_deleted d \<Longrightarrow> trim_space (dp_hierarchy d) = dp_hierarchy d"
  using path_visible trim_visible by blast

lemma scope_of_hierarchy:
  assumes "p \<in> trim_space ` set hs" "p \<noteq> []"
  shows "\<exists>ids. map_of (list_dept_ids_by_hierarchies db hs) p = Some ids
    \<and> set ids = {dp_id d | d. d \<in> set (db_depts db) \<and> \<not> dp_deleted d \<and> in_scope_of p d}"
proof -
  let ?ids = "\<lambda>p. map dp_id (filter (\<lambda>d. dp_hierarchy d = p \<or> has_prefix (dp_hierarchy d) (p @ ''/'')) (list_depts db))"
  have "list_dept_ids_by_hierarchies db hs = map (\<lambda>p. (p, ?ids p)) (filter (\<lambda>p. p \<noteq> []) (map trim_space hs))"
    unfolding list_dept_ids_by_hierarchies_def by (induction hs) simp_all
  then have "map_of (list_dept_ids_by_hierarchies db hs) p = Some (?ids p)"
    using assms by (simp add: map_of_map_restrict restrict_map_def)
  moreover have "set (?ids p) = {dp_id d | d. d \<in> set (db_depts db) \<and> \<not> dp_deleted d \<and> in_scope_of p d}"
    by (auto simp: list_depts_def in_scope_of_def)
  ultimately show ?thesis by blast
qed

lemma authorization_depts_live:
  "d \<in> set (list_authorization_depts db user) \<Longrightarrow> d \<in> set (db_depts db) \<and> \<not> dp_deleted d"
  by (auto simp: list_authorization_depts_def in_order_of_def find_depts_by_ids_def Let_def in_map_filter
      dest!: by_key_Some)

lemma dept_hierarchies_live:
  assumes "distinct (map dp_id (db_depts db))" "d \<in> set (list_authorization_depts db user)"
  shows "dept_hierarchies (list_authorization_depts db user) (dp_id d) = Some (dp_hierarchy d)"
proof -
  let ?depts = "list_authorization_depts db user"
  obtain e where e: "by_key dp_id ?depts (dp_id d) = Some e"
    using by_key_dom [of dp_id ?depts "dp_id d"] assms(2) by (cases "by_key dp_id ?depts (dp_id d)") auto
  then have "e \<in> set ?depts" "dp_id e = dp_id d" using by_key_Some by metis+
  then have "e = d" using same_dept [OF assms(1)] authorization_depts_live assms(2) by blast
  then show ?thesis using e by (simp add: dept_hierarchies_def)
qed

lemma child_scope_depts:
  assumes ok: "hierarchy_ok (db_depts db)" and type: "ds_type scope = DataScopeDeptAndChild"
    and scope: "scope = effective_data_scope roles custom (map dp_id depts) orgs (dept_hierarchies depts)
          (map_of (list_dept_ids_by_hierarchies db (hierarchy_values depts)))"
    and depts: "depts = list_authorization_depts db user"
  shows "set (ds_depts scope) =
    {dp_id d | d e. d \<in> set (db_depts db) \<and> \<not> dp_deleted d \<and> e \<in> set depts \<and> is_under (db_depts db) (dp_id d) (dp_id e)}"
proof -
  let ?map = "map_of (list_dept_ids_by_hierarchies db (hierarchy_values depts))"
  let ?of = "\<lambda>d. let h = trim_space (case dept_hierarchies depts d of None \<Rightarrow> [] | Some h \<Rightarrow> h)
                in if h = [] then [d] else (case ?map h of None \<Rightarrow> [] | Some ds \<Rightarrow> ds)"
  have live: "e \<in> set (db_depts db) \<and> \<not> dp_deleted e" if "e \<in> set depts" for e
    using that authorization_depts_live by (simp add: depts)
  have positive: "0 < dp_id d" if "d \<in> set (db_depts db)" "\<not> dp_deleted d" for d
    using ok that unfolding hierarchy_ok_def path_ok_def by blast
  have dist: "distinct (map dp_id (db_depts db))" using ok by (simp add: hierarchy_ok_def)
  have of_dept: "set (?of (dp_id e)) = {dp_id d | d. d \<in> set (db_depts db) \<and> \<not> dp_deleted d \<and> is_under (db_depts db) (dp_id d) (dp_id e)}"
    if e: "e \<in> set depts" for e
  proof -
    have e': "e \<in> set (db_depts db)" "\<not> dp_deleted e" using live [OF e] by blast+
    have h: "trim_space (dp_hierarchy e) = dp_hierarchy e" "dp_hierarchy e \<noteq> []"
      using path_trimmed [OF ok e'] path_visible [OF ok e'] by blast+
    have "dp_hierarchy e \<in> trim_space ` set (hierarchy_values depts)"
      using e h by (auto simp: hierarchy_values_def image_image intro!: image_eqI [of _ _ "dp_hierarchy e"] image_eqI [of _ _ e])
    from scope_of_hierarchy [OF this h(2)] obtain ids where ids: "?map (dp_hierarchy e) = Some ids"
        "set ids = {dp_id d | d. d \<in> set (db_depts db) \<and> \<not> dp_deleted d \<and> in_scope_of (dp_hierarchy e) d}" by blast
    have "?of (dp_id e) = ids"
      using h ids(1) dept_hierarchies_live [OF dist, of e user] e by (simp add: depts)
    moreover have "in_scope_of (dp_hierarchy e) d \<longleftrightarrow> is_under (db_depts db) (dp_id d) (dp_id e)"
      if "d \<in> set (db_depts db)" "\<not> dp_deleted d" for d
      by (rule in_scope_iff_under [OF ok that e'])
    ultimately show ?thesis using ids(2) by blast
  qed
  have "ds_depts scope = sorted_ids (concat (map ?of (sorted_ids (map dp_id depts))))"
    using type unfolding scope effective_data_scope_def by (simp add: Let_def split: if_splits)
  then have "set (ds_depts scope) = {i. 0 < i \<and> (\<exists>e \<in> set depts. i \<in> set (?of (dp_id e)))}"
    using live positive by (auto simp: set_sorted_ids)
  then show ?thesis using of_dept positive by blast
qed

end
