(* ===== verification/Org_Trees.thy ===== *)
theory Org_Trees
  imports Org_Units
begin

text \<open>
  The trees of organizations and departments that the administration pages show
  (\<open>buildOrgTree\<close>, \<open>buildDeptTree\<close> of \<open>app/system/user/application/service.go\<close>).

  The Go code keeps a map from ids to nodes and goes through the records once. A node is appended to the
  children of its parent, or to the result, by value: \<open>*node\<close> is the node as it is at that moment, and
  what is appended to it later in the map does not reach the copy. The fold below passes the map along, so
  the same copies are made.
\<close>

datatype 'a tree_node = TreeNode (unit_of_node: 'a) (children: "'a tree_node list")

definition add_child :: "'a tree_node \<Rightarrow> 'a tree_node \<Rightarrow> 'a tree_node" where
  "add_child c n = TreeNode (unit_of_node n) (children n @ [c])"

fun link_units ::
    "('a \<Rightarrow> int) \<Rightarrow> int list \<Rightarrow> (int \<rightharpoonup> 'a tree_node) \<Rightarrow> 'a tree_node list \<Rightarrow> 'a tree_node list" where
  "link_units parent [] nodes found = found"
| "link_units parent (i # is) nodes found =
     (case nodes i of
        None \<Rightarrow> link_units parent is nodes found
      | Some n \<Rightarrow>
          (let p = parent (unit_of_node n)
           in case nodes p of
                None \<Rightarrow> link_units parent is nodes (found @ [n])
              | Some q \<Rightarrow> if i \<noteq> p then link_units parent is (nodes(p \<mapsto> add_child n q)) found
                          else link_units parent is nodes (found @ [n])))"

definition build_unit_tree :: "('a \<Rightarrow> int) \<Rightarrow> ('a \<Rightarrow> int) \<Rightarrow> 'a list \<Rightarrow> 'a tree_node list" where
  "build_unit_tree key parent records =
     link_units parent (map key records) (map_of (map (\<lambda>r. (key r, TreeNode r [])) (rev records))) []"

definition build_org_tree :: "org_row list \<Rightarrow> org_row tree_node list" where
  "build_org_tree = build_unit_tree og_id og_parent"

definition build_dept_tree :: "dept_row list \<Rightarrow> dept_row tree_node list" where
  "build_dept_tree = build_unit_tree dp_id dp_parent"

definition get_org_tree :: "authz_db \<Rightarrow> org_row tree_node list" where
  "get_org_tree db = build_org_tree (list_orgs db False)"

definition list_enabled_depts :: "authz_db \<Rightarrow> bool \<Rightarrow> dept_row list" where
  "list_enabled_depts db enabled_only = filter (\<lambda>r. enabled_only \<longrightarrow> dp_status r = 0) (list_depts db)"

definition get_dept_tree :: "authz_db \<Rightarrow> bool \<Rightarrow> dept_row tree_node list" where
  "get_dept_tree db enabled_only = build_dept_tree (list_enabled_depts db enabled_only)"

section \<open>What the copies lose\<close>

text \<open>Every unit is listed after its parent, as the order by sort number and id usually has it.\<close>

fun parents_first :: "('a \<Rightarrow> int) \<Rightarrow> ('a \<Rightarrow> int) \<Rightarrow> 'a list \<Rightarrow> bool" where
  "parents_first key parent [] = True"
| "parents_first key parent (r # rs) = (parent r \<notin> key ` set (r # rs) \<and> parents_first key parent rs)"

lemma link_units_leaves:
  assumes "\<forall>r \<in> set rs. nodes (key r) = Some (TreeNode r [])" "distinct (map key rs)" "parents_first key parent rs"
  shows "link_units parent (map key rs) nodes found =
           found @ map (\<lambda>r. TreeNode r []) (filter (\<lambda>r. parent r \<notin> dom nodes) rs)"
  using assms
proof (induction rs arbitrary: nodes found)
  case (Cons r rs)
  have leaf: "nodes (key r) = Some (TreeNode r [])" and own: "parent r \<noteq> key r" "parent r \<notin> key ` set rs"
    using Cons.prems by auto
  show ?case
  proof (cases "nodes (parent r)")
    case None
    with leaf Cons show ?thesis by (simp add: domIff)
  next
    case (Some q)
    let ?n = "nodes(parent r \<mapsto> add_child (TreeNode r []) q)"
    have "dom ?n = dom nodes" using Some by auto
    moreover have "\<forall>x \<in> set rs. key x \<noteq> parent r" using own(2) by force
    then have "\<forall>x \<in> set rs. ?n (key x) = Some (TreeNode x [])" using Cons.prems by simp
    ultimately show ?thesis using Cons leaf own Some by auto
  qed
qed simp

lemma start_nodes:
  assumes "distinct (map key rs)"
  shows "r \<in> set rs \<Longrightarrow> map_of (map (\<lambda>r. (key r, TreeNode r [])) (rev rs)) (key r) = Some (TreeNode r [])"
    "dom (map_of (map (\<lambda>r. (key r, TreeNode r [])) (rev rs))) = key ` set rs"
proof -
  let ?kv = "map (\<lambda>r. (key r, TreeNode r [])) (rev rs)"
  have "distinct (map fst ?kv)" using assms by (simp add: comp_def rev_map [symmetric])
  then show "r \<in> set rs \<Longrightarrow> map_of ?kv (key r) = Some (TreeNode r [])" by (simp add: map_of_eq_Some_iff)
  show "dom (map_of ?kv) = key ` set rs" by (simp add: dom_map_of_conv_image_fst image_image)
qed

lemma build_unit_tree_leaves:
  assumes "distinct (map key records)" "parents_first key parent records"
  shows "build_unit_tree key parent records =
           map (\<lambda>r. TreeNode r []) (filter (\<lambda>r. parent r \<notin> key ` set records) records)"
  unfolding build_unit_tree_def
  by (subst link_units_leaves) (simp_all add: assms start_nodes)

text \<open>
  The other way round, a unit that comes after all of its subordinates is shown with them: two levels,
  children first, is the order in which the code works.
\<close>

lemma children_before_parent:
  assumes "distinct (map key (cs @ [p]))" "\<forall>c \<in> set cs. parent c = key p" "parent p \<notin> key ` set (cs @ [p])"
  shows "build_unit_tree key parent (cs @ [p]) = [TreeNode p (map (\<lambda>c. TreeNode c []) cs)]"
proof -
  have "link_units parent (map key (ds @ [p])) nodes [] = [TreeNode p (kids @ map (\<lambda>c. TreeNode c []) ds)]"
    if "\<forall>c \<in> set ds. nodes (key c) = Some (TreeNode c [])" "nodes (key p) = Some (TreeNode p kids)"
      "distinct (map key (ds @ [p]))" "\<forall>c \<in> set ds. parent c = key p" "nodes (parent p) = None" for ds nodes kids
    using that
  proof (induction ds arbitrary: nodes kids)
    case (Cons d ds)
    let ?n = "nodes(key p \<mapsto> TreeNode p (kids @ [TreeNode d []]))"
    have keys: "key d \<noteq> key p" "key p \<notin> key ` set ds" "distinct (map key (ds @ [p]))"
      using Cons.prems(3) by (simp_all add: image_iff)
    have top: "parent p \<noteq> key p" using Cons.prems(2,5) by (metis option.distinct(1))
    have others: "\<forall>c \<in> set ds. key c \<noteq> key p" using keys(2) by (metis imageI)
    have "link_units parent (map key (ds @ [p])) ?n [] =
        [TreeNode p ((kids @ [TreeNode d []]) @ map (\<lambda>c. TreeNode c []) ds)]"
      by (rule Cons.IH) (use Cons.prems keys top others in simp_all)
    then show ?case using Cons.prems keys(1) by (simp add: add_child_def)
  qed simp
  moreover let ?nodes = "map_of (map (\<lambda>r. (key r, TreeNode r [])) (rev (cs @ [p])))"
  have "?nodes (parent p) = None"
    using assms(3) start_nodes(2) [OF assms(1)] by blast
  moreover have "\<forall>c \<in> set cs. ?nodes (key c) = Some (TreeNode c [])" "?nodes (key p) = Some (TreeNode p [])"
    using start_nodes(1) [OF assms(1)] by simp_all
  ultimately have "link_units parent (map key (cs @ [p])) ?nodes [] = [TreeNode p ([] @ map (\<lambda>c. TreeNode c []) cs)]"
    using assms(1,2) by blast
  then show ?thesis unfolding build_unit_tree_def by simp
qed

end
