(* ===== verification/Org_Properties.thy ===== *)
theory Org_Properties
  imports Org_Hierarchy Org_Trees Rights_Properties
begin

text \<open>
  What the tree of departments means for the rights of a user, which operations keep its paths, and
  what the administration pages show of the trees (\<open>app/system/user/application/service.go\<close> together with
  the data scope of \<open>app/authorization\<close>).
\<close>

section \<open>Mutations of the organization\<close>

text \<open>The body of a mutation with the registration of its invalidations.\<close>

definition registered_body :: "authz_db registrar \<Rightarrow> ('a, authz_db) tx_body \<Rightarrow> ('a, authz_db) tx_body" where
  "registered_body rg body m db =
     then_do (body m db) (\<lambda>x d2. then_do (register_classes rg invalidation_classes d2) (\<lambda>_ d3.
       if has_callbacks m then (Inr x, d3) else (Inl no_rollback_hook, d3)))"

lemma user_mutation_registered:
  "user_mutation env body m db =
     (case authz_registrar env of
        None \<Rightarrow> user_with_tx env body m db
      | Some rg \<Rightarrow> (case acquire_fences rg invalidation_classes of
          Inl e \<Rightarrow> (Inl e, db) | Inr _ \<Rightarrow> user_with_tx env (registered_body rg body) m db))"
proof -
  have eq: "registered_body rg body = (\<lambda>m1 d1. then_do (body m1 d1) (\<lambda>x d2. then_do (register_classes rg invalidation_classes d2) (\<lambda>_ d3.
      if has_callbacks m1 then (Inr x, d3) else (Inl no_rollback_hook, d3))))" for rg
    by (intro ext) (simp only: registered_body_def)
  show ?thesis unfolding user_mutation_def user_mutation_boundary_def run_invalidated_changing eq ..
qed

text \<open>A mutation leaves the state its body leaves, up to the registered invalidations, or the state before.\<close>

lemma wrapped_body_state:
  assumes "authz_registrar env = Some rg" "P (snd (body m db))" "\<And>d is. P d \<Longrightarrow> P (d\<lparr>db_invalidations := is\<rparr>)"
  shows "P (snd (registered_body rg body m db))"
proof -
  have reg: "P (snd (register_classes rg invalidation_classes d))" if "P d" for d
  proof (rule register_classes_keeps [where I = P, OF _ that])
    show "P (snd (rg_register rg c d))" if "P d" for c d
      using registrar_invalidations [OF assms(1), of c d] assms(3) that by auto
  qed
  have "P (snd (then_do (register_classes rg invalidation_classes d) (\<lambda>_ d3. if c then (Inr x, d3) else (Inl e, d3))))"
    if "P d" for d c x e
    using reg [OF that] by (cases "register_classes rg invalidation_classes d") (auto simp: then_do_def split: sum.splits)
  with assms(2) show ?thesis
    by (cases "body m db") (auto simp: registered_body_def then_do_def split: sum.splits)
qed

lemma user_with_tx_state:
  assumes "P db" "\<And>m. P (snd (body m db))"
  shows "P (snd (user_with_tx env body m db))"
  using assms within_transaction_state [of "az_outcome env 0" "body OrdinaryTx" db]
  by (auto simp: user_with_tx_def tx_ordinary_def) (metis snd_conv)

lemma user_mutation_state:
  assumes "P db" "\<And>m. P (snd (body m db))" "\<And>d is. P d \<Longrightarrow> P (d\<lparr>db_invalidations := is\<rparr>)"
  shows "P (snd (user_mutation env body m db))"
proof (cases "authz_registrar env")
  case None
  then show ?thesis using user_with_tx_state [of P db body, OF assms(1,2)] by (simp add: user_mutation_registered)
next
  case (Some rg)
  have "P (snd (registered_body rg body m1 db))" for m1
    using wrapped_body_state [where P = P and body = body, OF Some] assms(2,3) by blast
  from user_with_tx_state [of P db "registered_body rg body", OF assms(1) this] assms(1) Some
  show ?thesis by (simp add: user_mutation_registered split: sum.split)
qed

lemma user_with_tx_Inr: "user_with_tx env body m db = (Inr x, db') \<Longrightarrow> \<exists>m1. body m1 db = (Inr x, db')"
  by (auto simp: user_with_tx_def dest: tx_ordinary_Inr split: if_splits)

lemma same_invalidations: "\<exists>is. db = db\<lparr>db_invalidations := is\<rparr>" for db :: authz_db
proof
  show "db = db\<lparr>db_invalidations := db_invalidations db\<rparr>" by (cases db) simp
qed

lemma user_mutation_Inr:
  assumes "user_mutation env body m db = (Inr x, db')"
  shows "\<exists>m1 d1 is. body m1 db = (Inr x, d1) \<and> db' = d1\<lparr>db_invalidations := is\<rparr>"
proof (cases "authz_registrar env")
  case None
  with assms have "user_with_tx env body m db = (Inr x, db')" by (simp add: user_mutation_registered)
  from user_with_tx_Inr [OF this] obtain m1 where "body m1 db = (Inr x, db')" ..
  moreover obtain l where "db' = db'\<lparr>db_invalidations := l\<rparr>" using same_invalidations [of db'] ..
  ultimately show ?thesis by metis
next
  case (Some rg)
  with assms have "user_with_tx env (registered_body rg body) m db = (Inr x, db')"
    by (simp add: user_mutation_registered split: sum.splits)
  from user_with_tx_Inr [OF this] obtain m1 where "registered_body rg body m1 db = (Inr x, db')" ..
  then obtain d1 u where body: "body m1 db = (Inr x, d1)" "register_classes rg invalidation_classes d1 = (Inr u, db')"
    by (auto simp: registered_body_def then_do_Inr split: if_splits)
  have "\<exists>is. snd (register_classes rg invalidation_classes d1) = d1\<lparr>db_invalidations := is\<rparr>"
  proof (rule register_classes_keeps [where I = "\<lambda>d. \<exists>is. d = d1\<lparr>db_invalidations := is\<rparr>"])
    show "\<exists>is. snd (rg_register rg c d) = d1\<lparr>db_invalidations := is\<rparr>" if "\<exists>is. d = d1\<lparr>db_invalidations := is\<rparr>" for c d
      using registrar_invalidations [OF Some, of c d] that by auto
    show "\<exists>is. d1 = d1\<lparr>db_invalidations := is\<rparr>" by (rule same_invalidations)
  qed
  with body show ?thesis by auto
qed

section \<open>The data scope over departments\<close>

text \<open>C23. Equivalence. For a user whose data scope is its departments and their children, the departments
  that \<open>BuildUserContext\<close> computes from the text of the paths are exactly the live departments that are
  one of the user's departments or stand below one in the tree of parents, provided the rights are read from the
  tables and not from a cached projection, and the paths in the table agree with the parents. Creations and
  deletions keep that agreement (\<open>create_dept_row_paths\<close>, \<open>delete_dept_row_paths\<close>), a department that moves
  with children loses it (\<open>child_keeps_old_path\<close>).\<close>

theorem dept_scope_exact:
  assumes "hierarchy_ok (db_depts db)" "az_cache env = None"
    "build_user_context env m db now user session issued expires source = Inr c"
    "uc_scope_type c = DataScopeDeptAndChild"
  shows "set (uc_scope_depts c) =
    {dp_id d | d own. d \<in> set (db_depts db) \<and> \<not> dp_deleted d \<and> own \<in> set (uc_dept_ids c)
                      \<and> is_under (db_depts db) (dp_id d) own}"
proof -
  obtain c0 where c0: "build_context_source env db now user = Inr c0" "c = with_session c0 session issued expires source"
    using build_user_context_Inr [OF assms(2,3)] .
  let ?depts = "list_authorization_depts db user"
  from c0(1) obtain roles custom orgs where
      scope: "ds_type (effective_data_scope roles custom (map dp_id ?depts) orgs (dept_hierarchies ?depts)
        (map_of (list_dept_ids_by_hierarchies db (hierarchy_values ?depts)))) = uc_scope_type c0"
    and lists: "uc_scope_depts c0 = unique_int64 (ds_depts (effective_data_scope roles custom (map dp_id ?depts) orgs
        (dept_hierarchies ?depts) (map_of (list_dept_ids_by_hierarchies db (hierarchy_values ?depts)))))"
      "uc_dept_ids c0 = unique_int64 (map dp_id ?depts)"
    unfolding build_context_source_def if_ok_Inr Let_def dept_ids_by_hierarchies_def by (fastforce split: if_splits)
  have type: "uc_scope_type c0 = DataScopeDeptAndChild" "uc_scope_depts c = uc_scope_depts c0" "uc_dept_ids c = uc_dept_ids c0"
    using assms(4) c0(2) by (simp_all add: with_session_def)
  have positive: "0 < dp_id d" if "d \<in> set (db_depts db)" "\<not> dp_deleted d" for d
    using assms(1) that unfolding hierarchy_ok_def path_ok_def by blast
  have own: "set (uc_dept_ids c) = dp_id ` set ?depts"
    unfolding type(3) lists(2) using positive authorization_depts_live by auto
  from child_scope_depts [OF assms(1) scope [unfolded type(1)] refl refl]
  have "set (uc_scope_depts c) = {dp_id d | d e. d \<in> set (db_depts db) \<and> \<not> dp_deleted d \<and> e \<in> set ?depts
      \<and> is_under (db_depts db) (dp_id d) (dp_id e)}"
    unfolding type(2) lists(1) set_unique_int64 using positive by auto
  then show ?thesis unfolding own by blast
qed

section \<open>Operations that keep the paths\<close>

lemma show_int_ends: "\<exists>xs c. show_int i = xs @ [c] \<and> c \<noteq> CHR ''/''"
proof -
  have "show_int i \<noteq> []" by (simp add: show_int_def)
  then obtain xs c where "show_int i = xs @ [c]" by (metis rev_exhaust)
  with show_int_no_slash [of i] show ?thesis by auto
qed

lemma trim_path: "path_ok depts d \<Longrightarrow> trim_right_char (CHR ''/'') (dp_hierarchy d) = dp_hierarchy d"
  using path_last [of depts d] show_int_ends [of "dp_id d"] by (auto simp: trim_right_char_def)

lemma path_ok_mono:
  assumes "path_ok depts d" "\<And>p. p \<in> set depts \<Longrightarrow> live_dept (dp_parent d) p \<Longrightarrow> p \<in> set depts'"
  shows "path_ok depts' d"
  using assms unfolding path_ok_def by (auto split: if_splits)

text \<open>
  The record of a department is built, and its children are counted, before the transaction: \<open>seen\<close> are the
  tables then, \<open>db\<close> the tables when the rows are written. What was read of the parent is still so when
  it has the same path.
\<close>

definition same_parent :: "authz_db \<Rightarrow> authz_db \<Rightarrow> int \<Rightarrow> bool" where
  "same_parent seen db parent \<longleftrightarrow> parent \<le> 0 \<or>
     map_option dp_hierarchy (find_dept_by_id db parent) = map_option dp_hierarchy (find_dept_by_id seen parent)"

lemma found_dept:
  assumes "find_dept_by_id db dept = Some p"
  shows "p \<in> set (db_depts db)" "live_dept dept p"
  using assms by (auto simp: find_dept_by_id_def dest: find_Some)

lemma find_live_dept:
  assumes "distinct (map dp_id (db_depts db))" "p \<in> set (db_depts db)" "live_dept dept p"
  shows "find_dept_by_id db dept = Some p"
proof -
  obtain q where q: "find_dept_by_id db dept = Some q"
    using assms(2,3) by (cases "find_dept_by_id db dept") (auto simp: find_dept_by_id_def find_None_iff)
  from found_dept [OF q] have "q = p" using same_dept [OF assms(1) _ assms(2)] assms(3) by (simp add: live_dept_def)
  with q show ?thesis by simp
qed

text \<open>The record that was built has a path below the parent as it was read.\<close>

lemma built_record:
  assumes "build_dept_record env seen cmd = Inr x"
  shows "dp_parent x = dc_parent cmd" "\<not> dp_deleted x" "0 < az_new_id env \<Longrightarrow> 0 < dp_id x"
    "dp_parent x = dp_id x \<Longrightarrow> dp_id x \<le> 0"
  using assms by (auto simp: build_dept_record_def Let_def split: if_splits)

lemma built_top:
  assumes "build_dept_record env seen cmd = Inr x" "dc_parent cmd \<le> 0"
  shows "dp_hierarchy x = ''/'' @ show_int (dp_id x)"
  using assms by (auto simp: build_dept_record_def Let_def dept_path_def split: if_splits)

lemma built_below:
  assumes "build_dept_record env seen cmd = Inr x" "hierarchy_ok (db_depts seen)" "0 < dc_parent cmd"
  obtains p where "find_dept_by_id seen (dc_parent cmd) = Some p"
    "dp_hierarchy x = dp_hierarchy p @ ''/'' @ show_int (dp_id x)"
proof -
  from assms(1,3) obtain p where p: "find_dept_by_id seen (dc_parent cmd) = Some p"
      and path: "dp_hierarchy x = dept_path (Some p) (dp_id x)"
    by (cases "find_dept_by_id seen (dc_parent cmd)") (auto simp: build_dept_record_def Let_def split: if_splits)
  from found_dept [OF p] have "path_ok (db_depts seen) p" using assms(2) by (auto simp: hierarchy_ok_def live_dept_def)
  with path have "dp_hierarchy x = dp_hierarchy p @ ''/'' @ show_int (dp_id x)" by (simp add: dept_path_def trim_path)
  with p show thesis by (rule that)
qed

lemma built_path:
  assumes "build_dept_record env seen cmd = Inr x" "hierarchy_ok (db_depts seen)" "0 < dp_id x"
    "same_parent seen db (dc_parent cmd)"
  shows "path_ok (db_depts db @ ys) (dept_columns x x)"
proof (cases "dc_parent cmd \<le> 0")
  case True
  with built_top [OF assms(1)] built_record(1) [OF assms(1)] assms(3) show ?thesis
    by (simp add: path_ok_def dept_columns_def)
next
  case False
  then have pos: "0 < dc_parent cmd" by simp
  from built_below [OF assms(1,2) pos] obtain p where
      p: "find_dept_by_id seen (dc_parent cmd) = Some p" "dp_hierarchy x = dp_hierarchy p @ ''/'' @ show_int (dp_id x)" .
  with assms(4) pos obtain q where q: "find_dept_by_id db (dc_parent cmd) = Some q" "dp_hierarchy q = dp_hierarchy p"
    by (auto simp: same_parent_def)
  with p(2) built_record(1) [OF assms(1)] found_dept [OF q(1)] pos assms(3) show ?thesis
    by (auto simp: path_ok_def dept_columns_def)
qed

text \<open>A row whose parent changed since it was read has a path that does not agree with the parent.\<close>

lemma built_stale_path:
  assumes "build_dept_record env seen cmd = Inr x" "hierarchy_ok (db_depts seen)" "0 < dp_id x"
    "distinct (map dp_id (db_depts db))" "\<not> same_parent seen db (dc_parent cmd)"
  shows "\<not> path_ok (db_depts db @ [dept_columns x x]) (dept_columns x x)"
proof
  assume ok: "path_ok (db_depts db @ [dept_columns x x]) (dept_columns x x)"
  from assms(5) have pos: "0 < dc_parent cmd" by (simp add: same_parent_def)
  from built_below [OF assms(1,2) pos] obtain p where
      p: "find_dept_by_id seen (dc_parent cmd) = Some p" "dp_hierarchy x = dp_hierarchy p @ ''/'' @ show_int (dp_id x)" .
  from ok pos built_record(1) [OF assms(1)] obtain q where
      q: "q \<in> set (db_depts db @ [dept_columns x x])" "live_dept (dc_parent cmd) q"
         "dp_hierarchy x = dp_hierarchy q @ ''/'' @ show_int (dp_id x)"
    by (auto simp: path_ok_def dept_columns_def)
  have "dp_parent x \<noteq> dp_id x" using built_record(4) [OF assms(1)] assms(3) by auto
  then have "q \<noteq> dept_columns x x" using q(2) built_record(1) [OF assms(1)] by (auto simp: live_dept_def dept_columns_def)
  with q(1) have "find_dept_by_id db (dc_parent cmd) = Some q" using find_live_dept [OF assms(4) _ q(2)] by simp
  with p q(3) assms(5) show False by (simp add: same_parent_def)
qed

lemma create_dept_row_rows:
  assumes "\<not> dp_deleted x"
  shows "create_dept_row dup x db = put_depts dup (db_depts db @ [dept_columns x x]) db"
proof -
  from assms have "(dept_columns x x)\<lparr>dp_deleted := False\<rparr> = dept_columns x x" by (simp add: dept_columns_def)
  then show ?thesis by (simp add: create_dept_row_def)
qed

lemma create_dept_row_paths:
  assumes "build_dept_record env seen cmd = Inr x" "hierarchy_ok (db_depts seen)" "hierarchy_ok (db_depts db)"
    "0 < dp_id x" "same_parent seen db (dc_parent cmd)"
  shows "hierarchy_ok (db_depts (snd (create_dept_row dup x db)))"
proof -
  have "path_ok (db_depts db @ [dept_columns x x]) d" if "d \<in> set (db_depts db)" "\<not> dp_deleted d" for d
    using assms(3) that by (auto simp: hierarchy_ok_def intro: path_ok_mono)
  with assms(3) built_path [OF assms(1,2,4,5), of "[dept_columns x x]"] show ?thesis
    by (auto simp: create_dept_row_rows [OF built_record(2) [OF assms(1)]] put_depts_def hierarchy_ok_def dept_keys_unique_def)
qed

lemma delete_dept_row_paths:
  assumes "hierarchy_ok (db_depts db)" "count_dept_children db dept = 0"
  shows "hierarchy_ok (db_depts (snd (delete_dept_row dup dept db)))"
proof -
  let ?f = "\<lambda>r. r\<lparr>dp_deleted := True\<rparr>" and ?P = "live_dept dept"
  have "path_ok (update_where ?P ?f (db_depts db)) d"
    if d: "d \<in> set (db_depts db)" "\<not> ?P d" "\<not> dp_deleted d" for d
  proof (rule path_ok_mono)
    show "path_ok (db_depts db) d" using assms(1) d by (simp add: hierarchy_ok_def)
    fix p assume p: "p \<in> set (db_depts db)" "live_dept (dp_parent d) p"
    have "dp_parent d \<noteq> dept" using assms(2) d(1,3) by (auto simp: count_dept_children_def count_where_def filter_empty_conv)
    then have "\<not> ?P p" using p(2) by (simp add: live_dept_def)
    with p(1) show "p \<in> set (update_where ?P ?f (db_depts db))" by (force simp: update_where_def)
  qed
  then have "path_ok (update_where ?P ?f (db_depts db)) d"
    if "d \<in> set (update_where ?P ?f (db_depts db))" "\<not> dp_deleted d" for d
    using that by (auto simp: update_where_def split: if_splits)
  then show ?thesis using assms(1)
    by (auto simp: delete_dept_row_def put_depts_def hierarchy_ok_def dept_keys_unique_def)
qed

lemma path_parent:
  assumes "path_ok depts d" "0 < dp_parent d"
  obtains p where "p \<in> set depts" "live_dept (dp_parent d) p" "dp_hierarchy d = dp_hierarchy p @ ''/'' @ show_int (dp_id d)"
  using assms by (auto simp: path_ok_def)

text \<open>The deletion of a department with a live child leaves the child without a live parent.\<close>

lemma delete_dept_row_orphans:
  assumes "hierarchy_ok (db_depts db)" "0 < dept" "child \<in> set (db_depts db)" "\<not> dp_deleted child" "dp_parent child = dept"
  shows "\<not> hierarchy_ok (update_where (live_dept dept) (\<lambda>r. r\<lparr>dp_deleted := True\<rparr>) (db_depts db))" (is "\<not> hierarchy_ok ?rows")
proof
  assume ok: "hierarchy_ok ?rows"
  have child: "path_ok (db_depts db) child" using assms(1,3,4) unfolding hierarchy_ok_def by blast
  have "dp_id child \<noteq> dept"
  proof
    assume own: "dp_id child = dept"
    from assms(2,5) have "0 < dp_parent child" by simp
    with child obtain p where p: "p \<in> set (db_depts db)" "live_dept (dp_parent child) p"
        "dp_hierarchy child = dp_hierarchy p @ ''/'' @ show_int (dp_id child)"
      by (rule path_parent)
    have "distinct (map dp_id (db_depts db))" using assms(1) by (simp add: hierarchy_ok_def)
    from same_dept [OF this p(1) assms(3)] p(2) own assms(5) have "p = child" by (simp add: live_dept_def)
    with p(3) show False by simp
  qed
  then have "child \<in> set ?rows" using assms(3) by (force simp: update_where_def live_dept_def)
  with ok assms(4) have "path_ok ?rows child" unfolding hierarchy_ok_def by blast
  moreover have "0 < dp_parent child" using assms(2,5) by simp
  ultimately obtain p where p: "p \<in> set ?rows" "live_dept (dp_parent child) p"
      "dp_hierarchy child = dp_hierarchy p @ ''/'' @ show_int (dp_id child)"
    by (rule path_parent)
  from p(1) consider r where "p = r\<lparr>dp_deleted := True\<rparr>" | "\<not> live_dept dept p"
    by (auto simp: update_where_def split: if_splits)
  then show False using p(2) assms(5) by cases (auto simp: live_dept_def)
qed

lemma created_dept:
  assumes "create_dept env seen cmd m db = (Inr (), db')"
  obtains x where "build_dept_record env seen cmd = Inr x" "db_depts db' = db_depts db @ [dept_columns x x]"
proof -
  from assms obtain x where x: "build_dept_record env seen cmd = Inr x"
      "user_mutation env (\<lambda>_. create_dept_row (az_dup env) x) m db = (Inr (), db')"
    by (auto simp: create_dept_def then_do_Inr)
  from user_mutation_Inr [OF x(2)] create_dept_row_rows [OF built_record(2) [OF x(1)]]
  have "db_depts db' = db_depts db @ [dept_columns x x]" by (auto simp: put_depts_def split: if_splits)
  with x(1) show thesis by (rule that)
qed

lemma deleted_dept_rows:
  assumes "delete_dept env seen dept m db = (Inr (), db')"
  shows "db_depts db' = update_where (live_dept dept) (\<lambda>r. r\<lparr>dp_deleted := True\<rparr>) (db_depts db)"
  using assms user_mutation_Inr [of env "\<lambda>_. delete_dept_row (az_dup env) dept" m db "()" db']
  by (auto simp: delete_dept_def delete_dept_row_def put_depts_def split: if_splits)

text \<open>C24. Invariant. The paths agree with the parents in the tables a request has read and in those it writes
  to. The creation of a department keeps the agreement, however it ends, when the parent was not moved or
  deleted since it was read, and so does a deletion that refused, or ran while no child had appeared since they
  were counted. These conditions are needed: the transactions repeat none of the checks, so a creation that
  succeeds under a parent that changed in between breaks the agreement, and so does a deletion that succeeds
  after a child was created.\<close>

theorem hierarchy_kept:
  assumes "hierarchy_ok (db_depts seen)" "hierarchy_ok (db_depts db)" "0 < az_new_id env" "0 < dept"
  shows "(same_parent seen db (dc_parent cmd) \<longrightarrow> hierarchy_ok (db_depts (snd (create_dept env seen cmd m db))))
    \<and> (create_dept env seen cmd m db = (Inr (), db1) \<longrightarrow>
         (hierarchy_ok (db_depts db1) \<longleftrightarrow> same_parent seen db (dc_parent cmd)))
    \<and> (0 < count_dept_children seen dept \<or> count_dept_children db dept = 0 \<longrightarrow>
         hierarchy_ok (db_depts (snd (delete_dept env seen dept m db))))
    \<and> (delete_dept env seen dept m db = (Inr (), db2) \<longrightarrow>
         (hierarchy_ok (db_depts db2) \<longleftrightarrow> count_dept_children db dept = 0))"
proof -
  let ?ok = "\<lambda>d. hierarchy_ok (db_depts d)"
  have create: "?ok (snd (create_dept env seen cmd m db))" if "same_parent seen db (dc_parent cmd)"
  proof (cases "build_dept_record env seen cmd")
    case (Inr x)
    from create_dept_row_paths [OF Inr assms(1,2) built_record(3) [OF Inr assms(3)] that] show ?thesis
      using Inr assms(2) user_mutation_state [where P = ?ok and db = db and body = "\<lambda>_. create_dept_row (az_dup env) x"]
      by (simp add: create_dept_def)
  qed (simp add: create_dept_def assms(2))
  have stale: "\<not> ?ok db1" if "create_dept env seen cmd m db = (Inr (), db1)" "\<not> same_parent seen db (dc_parent cmd)"
  proof -
    from created_dept [OF that(1)] obtain x where
        x: "build_dept_record env seen cmd = Inr x" "db_depts db1 = db_depts db @ [dept_columns x x]" .
    from built_stale_path [OF x(1) assms(1) built_record(3) [OF x(1) assms(3)] _ that(2)] assms(2) built_record(2) [OF x(1)]
    show ?thesis by (auto simp: x(2) hierarchy_ok_def dept_columns_def)
  qed
  have delete: "?ok (snd (delete_dept env seen dept m db))"
    if "0 < count_dept_children seen dept \<or> count_dept_children db dept = 0"
    using that delete_dept_row_paths [OF assms(2), of dept "az_dup env"] assms(2)
      user_mutation_state [where P = ?ok and db = db and body = "\<lambda>_. delete_dept_row (az_dup env) dept"]
    by (auto simp: delete_dept_def)
  have orphan: "\<not> ?ok db2" if "delete_dept env seen dept m db = (Inr (), db2)" "count_dept_children db dept \<noteq> 0"
    using that(2) delete_dept_row_orphans [OF assms(2,4)]
    by (auto simp: deleted_dept_rows [OF that(1)] count_dept_children_def count_where_def filter_empty_conv)
  show ?thesis using create stale delete orphan by (metis snd_conv)
qed

section \<open>A department that moves\<close>

text \<open>The child of a department is not below a path with the department's id that is not the department's.\<close>

lemma child_keeps_old_path:
  assumes ok: "hierarchy_ok depts" and d: "d \<in> set depts" "\<not> dp_deleted d" "0 < dp_id d"
    and child: "child \<in> set depts" "\<not> dp_deleted child" "dp_parent child = dp_id d"
    and path: "path = base @ CHR ''/'' # show_int (dp_id d)" "path \<noteq> dp_hierarchy d"
  shows "child \<noteq> d \<and> \<not> in_scope_of path child"
proof -
  have dist: "distinct (map dp_id depts)" using ok by (simp add: hierarchy_ok_def)
  have "path_ok depts child" using ok child unfolding hierarchy_ok_def by blast
  then obtain p where p: "p \<in> set depts" "live_dept (dp_id d) p" "0 < dp_id child"
      "dp_hierarchy child = dp_hierarchy p @ ''/'' @ show_int (dp_id child)"
    using child(3) d(3) by (auto simp: path_ok_def split: if_splits)
  then have "p = d" using same_dept [OF dist] d(1) by (simp add: live_dept_def)
  then have c: "dp_hierarchy child = dp_hierarchy d @ CHR ''/'' # show_int (dp_id child)" using p(4) by simp
  then have "child \<noteq> d" by auto
  moreover have False if scope: "in_scope_of path child"
  proof -
    from scope consider "dp_hierarchy child = path" | r where "dp_hierarchy child = path @ CHR ''/'' # r"
      by (auto simp: in_scope_of_iff)
    then show False
    proof cases
      case 1
      then have "dp_hierarchy d @ CHR ''/'' # show_int (dp_id child) = base @ CHR ''/'' # show_int (dp_id d)"
        using c path(1) by simp
      from slash_split [OF this show_int_no_slash show_int_no_slash] have "show_int (dp_id child) = show_int (dp_id d)" by simp
      then have "dp_id child = dp_id d" using show_int_inj p(3) d(3) by simp
      then show False using same_dept [OF dist child(1) d(1)] \<open>child \<noteq> d\<close> by blast
    next
      case 2
      then have "path @ CHR ''/'' # r = dp_hierarchy d @ CHR ''/'' # show_int (dp_id child)" using c by simp
      from prefix_of_extension [OF this show_int_no_slash] path(2) obtain ws where "dp_hierarchy d = path @ CHR ''/'' # ws"
        by metis
      from prefix_is_above [OF ok d(1,2) this] path(1) obtain e where
          e: "e \<in> set depts" "\<not> dp_deleted e" "dp_hierarchy e = path" by auto
      then have p_ok: "path_ok depts e" using ok unfolding hierarchy_ok_def by blast
      then have pos: "0 < dp_id e" by (simp add: path_ok_def)
      obtain b where "b @ CHR ''/'' # show_int (dp_id e) = base @ CHR ''/'' # show_int (dp_id d)"
        using path_last [OF p_ok] e(3) path(1) by metis
      from slash_split [OF this(1) show_int_no_slash show_int_no_slash] have "dp_id e = dp_id d"
        using show_int_inj pos d(3) by simp
      then show False using same_dept [OF dist e(1) d(1)] e(3) path(2) by blast
    qed
  qed
  ultimately show ?thesis by blast
qed

text \<open>C25. Error. When \<open>UpdateDept\<close> gives a department with a live child another path, by moving it, the child
  keeps its old path: it still names the department as its parent and is no longer in the scope of the
  department's path, so a user whose scope is the department and its children loses the child.\<close>

theorem moved_department_leaves_child:
  assumes "hierarchy_ok (db_depts db)" "update_dept env db cmd NoTx db = (Inr (), db')" "0 < dc_id cmd"
    "d \<in> set (db_depts db)" "live_dept (dc_id cmd) d" "child \<in> set (db_depts db)" "\<not> dp_deleted child"
    "dp_parent child = dc_id cmd" "new \<in> set (db_depts db')" "live_dept (dc_id cmd) new"
    "dp_hierarchy new \<noteq> dp_hierarchy d"
  shows "child \<in> set (db_depts db') \<and> dp_parent child = dp_id new \<and> \<not> in_scope_of (dp_hierarchy new) child"
proof -
  have dist: "distinct (map dp_id (db_depts db))" using assms(1) by (simp add: hierarchy_ok_def)
  from assms(2) obtain x where x: "build_dept_record env db cmd = Inr x"
      and run: "user_mutation env (\<lambda>_. update_dept_row (az_dup env) x) NoTx db = (Inr (), db')"
    by (auto simp: update_dept_def then_do_Inr)
  have built: "dp_id x = dc_id cmd" "\<exists>base. dp_hierarchy x = base @ CHR ''/'' # show_int (dc_id cmd)"
    using x assms(3) by (auto simp: build_dept_record_def Let_def dept_path_def split: if_splits option.splits)
  from user_mutation_Inr [OF run] have
    rows: "db_depts db' = update_where (live_dept (dc_id cmd)) (dept_columns x) (db_depts db)"
    by (auto simp: update_dept_row_def put_depts_def built(1) split: if_splits)
  with assms(9,10) obtain r where r: "r \<in> set (db_depts db)" "live_dept (dc_id cmd) r" "new = dept_columns x r"
    by (auto simp: update_where_def live_dept_def dept_columns_def split: if_splits)
  have "r = d" using same_dept [OF dist r(1) assms(4)] r(2) assms(5) by (simp add: live_dept_def)
  from built(2) r(3) obtain base where "dp_hierarchy new = base @ CHR ''/'' # show_int (dc_id cmd)"
    by (auto simp: dept_columns_def)
  with child_keeps_old_path [OF assms(1,4) _ _ assms(6,7), of "dp_hierarchy new" base] assms(3,5,8,11)
  have child: "child \<noteq> d" "\<not> in_scope_of (dp_hierarchy new) child" by (auto simp: live_dept_def)
  have "\<not> live_dept (dc_id cmd) child"
    using same_dept [OF dist assms(6,4)] child(1) assms(5) by (auto simp: live_dept_def)
  then have "child \<in> set (db_depts db')" using assms(6) unfolding rows by (force simp: update_where_def)
  moreover have "dp_parent child = dp_id new" using assms(8,10) by (simp add: live_dept_def)
  ultimately show ?thesis using child(2) by blast
qed

section \<open>A small organization\<close>

definition sample_org :: org_row where
  "sample_org = \<lparr>og_id = 1, og_code = ''acme'', og_name = ''acme'', og_parent = 0, og_status = 0, og_sort = 0,
    og_leader = 0, og_deleted = False\<rparr>"

definition sample_dept :: "int \<Rightarrow> string \<Rightarrow> int \<Rightarrow> string \<Rightarrow> dept_row" where
  "sample_dept i code parent path = \<lparr>dp_id = i, dp_code = code, dp_name = code, dp_org = 1, dp_parent = parent, dp_leader = 0,
    dp_status = 0, dp_sort = 0, dp_hierarchy = path, dp_level = 1, dp_deleted = False\<rparr>"

definition org_db :: authz_db where
  "org_db = staff_db\<lparr>db_orgs := [sample_org],
     db_depts := [sample_dept 2 ''sales'' 0 ''/2'', sample_dept 3 ''it'' 0 ''/3'', sample_dept 4 ''web'' 2 ''/2/4''],
     db_user_depts := [\<lparr>mb_user = 7, mb_of = 2, mb_primary = 1, mb_deleted = False\<rparr>],
     db_roles := [sample_root_role, (staff_role 5 ''editor'')\<lparr>ro_data_scope := 4\<rparr>]\<rparr>"

definition org_context :: user_context where
  "org_context = staff_context\<lparr>uc_primary_dept := 2, uc_dept_ids := [2], uc_scope_type := DataScopeDeptAndChild,
     uc_scope_depts := [2, 4]\<rparr>"

lemma org_context_built: "context_of sample_authz_env NoTx org_db 0 7 ''test'' = Inr org_context"
  by code_simp

lemma org_paths: "hierarchy_ok (db_depts org_db)"
proof -
  have "show_int 2 = ''2''" "show_int 3 = ''3''" "show_int 4 = ''4''" by code_simp+
  then show ?thesis by (simp add: hierarchy_ok_def path_ok_def org_db_def sample_dept_def live_dept_def)
qed

definition org_move :: dept_command where
  "org_move = \<lparr>dc_id = 2, dc_name = ''sales'', dc_code = ''sales'', dc_org = 1, dc_parent = 3, dc_leader = 0,
     dc_status = None, dc_sort = None\<rparr>"

definition org_moved :: authz_db where
  "org_moved = org_db\<lparr>db_depts := [(sample_dept 2 ''sales'' 3 ''/3/2'')\<lparr>dp_level := 2\<rparr>, sample_dept 3 ''it'' 0 ''/3'',
     sample_dept 4 ''web'' 2 ''/2/4'']\<rparr>"

lemma org_moves: "update_dept sample_authz_env org_db org_move NoTx org_db = (Inr (), org_moved)"
proof -
  have x: "build_dept_record sample_authz_env org_db org_move = Inr ((sample_dept 2 ''sales'' 3 ''/3/2'')\<lparr>dp_level := 2\<rparr>)"
    by code_simp
  have rows: "update_where (live_dept 2) (dept_columns ((sample_dept 2 ''sales'' 3 ''/3/2'')\<lparr>dp_level := 2\<rparr>)) (db_depts org_db)
      = db_depts org_moved" "dept_keys_unique (db_depts org_moved)" "dp_id ((sample_dept 2 ''sales'' 3 ''/3/2'')\<lparr>dp_level := 2\<rparr>) = 2"
    by code_simp+
  show ?thesis
    by (simp add: update_dept_def x user_mutation_registered authz_registrar_def user_with_tx_def tx_ordinary_def
        within_transaction_def update_dept_row_def put_depts_def rows)
      (simp add: org_moved_def)
qed

theorem dept_scope_exact_witness:
  "set (uc_scope_depts org_context) =
    {dp_id d | d own. d \<in> set (db_depts org_db) \<and> \<not> dp_deleted d \<and> own \<in> set (uc_dept_ids org_context)
                      \<and> is_under (db_depts org_db) (dp_id d) own}"
  by (rule dept_scope_exact [OF org_paths _ org_context_built [unfolded context_of_def]])
    (simp_all add: sample_authz_env_def org_context_def)

text \<open>A department that gets a child while its deletion is on the way.\<close>

definition org_before :: authz_db where
  "org_before = org_db\<lparr>db_depts := [sample_dept 2 ''sales'' 0 ''/2'', sample_dept 3 ''it'' 0 ''/3''], db_user_depts := []\<rparr>"

definition org_orphaned :: authz_db where
  "org_orphaned = org_db\<lparr>db_depts := [(sample_dept 2 ''sales'' 0 ''/2'')\<lparr>dp_deleted := True\<rparr>, sample_dept 3 ''it'' 0 ''/3'',
     sample_dept 4 ''web'' 2 ''/2/4'']\<rparr>"

lemma org_before_paths: "hierarchy_ok (db_depts org_before)"
proof -
  have "show_int 2 = ''2''" "show_int 3 = ''3''" by code_simp+
  then show ?thesis by (simp add: hierarchy_ok_def path_ok_def org_before_def sample_dept_def live_dept_def)
qed

lemma org_orphans: "delete_dept sample_authz_env org_before 2 NoTx org_db = (Inr (), org_orphaned)"
proof -
  have counts: "count_dept_children org_before 2 = 0" "count_user_dept org_before 2 = 0"
      and rows: "update_where (live_dept 2) (\<lambda>r. r\<lparr>dp_deleted := True\<rparr>) (db_depts org_db) = db_depts org_orphaned"
        "dept_keys_unique (db_depts org_orphaned)"
    by code_simp+
  show ?thesis
    by (simp add: delete_dept_def counts user_mutation_registered authz_registrar_def user_with_tx_def tx_ordinary_def
        within_transaction_def delete_dept_row_def put_depts_def rows)
      (simp add: org_orphaned_def)
qed

theorem hierarchy_kept_witness:
  "hierarchy_ok (db_depts (snd (delete_dept sample_authz_env org_db 3 NoTx org_db))) \<and> \<not> hierarchy_ok (db_depts org_orphaned)"
proof
  have now: "count_dept_children org_db 3 = 0" "count_dept_children org_db 2 \<noteq> 0" by code_simp+
  show "hierarchy_ok (db_depts (snd (delete_dept sample_authz_env org_db 3 NoTx org_db)))"
    using hierarchy_kept [OF org_paths org_paths, of sample_authz_env 3] now(1) by simp
  show "\<not> hierarchy_ok (db_depts org_orphaned)"
    using hierarchy_kept [OF org_before_paths org_paths, of sample_authz_env 2 _ NoTx _ org_orphaned] org_orphans now(2) by simp
qed

theorem moved_department_leaves_child_witness:
  "sample_dept 4 ''web'' 2 ''/2/4'' \<in> set (db_depts org_moved) \<and> dp_parent (sample_dept 4 ''web'' 2 ''/2/4'') = 2
     \<and> \<not> in_scope_of ''/3/2'' (sample_dept 4 ''web'' 2 ''/2/4'')"
proof -
  let ?d = "sample_dept 2 ''sales'' 0 ''/2''" and ?c = "sample_dept 4 ''web'' 2 ''/2/4''"
    and ?n = "(sample_dept 2 ''sales'' 3 ''/3/2'')\<lparr>dp_level := 2\<rparr>"
  have "?c \<in> set (db_depts org_moved) \<and> dp_parent ?c = dp_id ?n \<and> \<not> in_scope_of (dp_hierarchy ?n) ?c"
    by (rule moved_department_leaves_child [OF org_paths org_moves, of ?d ?c ?n])
      (simp_all add: org_move_def org_db_def org_moved_def sample_dept_def live_dept_def)
  then show ?thesis by (simp add: sample_dept_def)
qed

section \<open>The tree of organizations\<close>

text \<open>\<open>GetOrgTree\<close> shows no organization below another when every organization is listed after its
  parent, the order in which parents are created: all shown nodes are without children, and an organization
  whose parent is shown does not appear at all, because nodes are copied before their children are
  linked.\<close>

lemma org_tree_flat:
  assumes "distinct (map og_id (list_orgs db False))" "parents_first og_id og_parent (list_orgs db False)"
  shows "get_org_tree db =
    map (\<lambda>r. TreeNode r []) (filter (\<lambda>r. og_parent r \<notin> og_id ` set (list_orgs db False)) (list_orgs db False))"
  unfolding get_org_tree_def build_org_tree_def by (rule build_unit_tree_leaves [OF assms])

definition org_pair_db :: authz_db where
  "org_pair_db = org_db\<lparr>db_orgs := [sample_org, sample_org\<lparr>og_id := 2, og_code := ''lab'', og_parent := 1\<rparr>]\<rparr>"

theorem org_tree_flat_witness: "get_org_tree org_pair_db = [TreeNode sample_org []]"
proof -
  have orgs: "list_orgs org_pair_db False = [sample_org, sample_org\<lparr>og_id := 2, og_code := ''lab'', og_parent := 1\<rparr>]"
    by (simp add: list_orgs_def org_pair_db_def sample_org_def)
  show ?thesis
    by (subst org_tree_flat) (simp_all add: orgs sample_org_def)
qed

end
