(* ===== verification/Outbox.thy ===== *)
theory Outbox
  imports Sql_Model Fenced_Lease
begin

text \<open>
  The transactional outbox (\<open>infrastructure/messaging/outbox/store.go\<close>): appending events, listing the
  ready ones of an owner and scope, claiming one with a fencing token and a deadline, and marking its
  outcome under that token. The clock and the fresh token of an operation are its arguments.
\<close>

section \<open>Rows and events\<close>

record outbox_row =
  ob_id :: int
  ob_event_id :: string
  ob_owner :: string
  ob_scope :: "string option"
  ob_type :: string
  ob_aggregate_type :: string
  ob_aggregate_id :: string
  ob_payload :: string
  ob_status :: string
  ob_retry_count :: int
  ob_next_retry_at :: "time option"
  ob_error_msg :: "string option"
  ob_lease_owner :: "string option"
  ob_lease_token :: "string option"
  ob_lease_until :: "time option"
  ob_create_time :: time
  ob_update_time :: "time option"

record outbox_event =
  ev_id :: int
  ev_event_id :: string
  ev_owner :: string
  ev_scope :: string
  ev_type :: string
  ev_aggregate_type :: string
  ev_aggregate_id :: string
  ev_payload :: string
  ev_payload_oversized :: bool
  ev_status :: string
  ev_retry_count :: int
  ev_next_retry_at :: time
  ev_last_error :: string
  ev_lease_owner :: string
  ev_lease_token :: string
  ev_lease_until :: time
  ev_create_time :: time
  ev_update_time :: time

record lease =
  lease_token :: string
  lease_until :: time

definition default_lease_ttl :: int where "default_lease_ttl = 10 * minute"

definition outbox_lease_duration :: "int \<Rightarrow> int" where
  "outbox_lease_duration ttl = (if 0 < ttl then ttl else default_lease_ttl)"

text \<open>\<open>eventRow.event\<close>, for a row read with the given payload projection.\<close>

definition row_event :: "outbox_row \<Rightarrow> outbox_event" where
  "row_event r =
     \<lparr>ev_id = ob_id r, ev_event_id = ob_event_id r, ev_owner = ob_owner r,
      ev_scope = string_of_null (ob_scope r), ev_type = ob_type r,
      ev_aggregate_type = ob_aggregate_type r, ev_aggregate_id = ob_aggregate_id r,
      ev_payload = ob_payload r, ev_payload_oversized = False, ev_status = ob_status r,
      ev_retry_count = ob_retry_count r, ev_next_retry_at = time_of_null (ob_next_retry_at r),
      ev_last_error = string_of_null (ob_error_msg r),
      ev_lease_owner = string_of_null (ob_lease_owner r),
      ev_lease_token = string_of_null (ob_lease_token r),
      ev_lease_until = time_of_null (ob_lease_until r), ev_create_time = ob_create_time r,
      ev_update_time = time_of_null (ob_update_time r)\<rparr>"

section \<open>Appending\<close>

definition event_row :: "time \<Rightarrow> outbox_event \<Rightarrow> outbox_row" where
  "event_row now e =
     \<lparr>ob_id = ev_id e, ob_event_id = ev_event_id e, ob_owner = trim_space (ev_owner e),
      ob_scope = null_string (ev_scope e), ob_type = trim_space (ev_type e),
      ob_aggregate_type = ev_aggregate_type e, ob_aggregate_id = ev_aggregate_id e,
      ob_payload = ev_payload e, ob_status = ev_status e, ob_retry_count = ev_retry_count e,
      ob_next_retry_at = null_time (ev_next_retry_at e), ob_error_msg = null_string (ev_last_error e),
      ob_lease_owner = null_string (ev_lease_owner e), ob_lease_token = null_string (ev_lease_token e),
      ob_lease_until = null_time (ev_lease_until e), ob_create_time = now, ob_update_time = Some now\<rparr>"

definition default_status :: "outbox_event \<Rightarrow> outbox_event" where
  "default_status e = (if ev_status e = [] then e\<lparr>ev_status := ''PENDING''\<rparr> else e)"

text \<open>The keys of the table: the primary key and the unique event id.\<close>

definition outbox_unique :: "outbox_row list \<Rightarrow> bool" where
  "outbox_unique rs \<longleftrightarrow> distinct (map ob_id rs) \<and> distinct (map ob_event_id rs)"

text \<open>The event the caller passed has its status filled in, also when the statement fails.\<close>

definition outbox_append ::
    "go_error \<Rightarrow> sql_outcome \<Rightarrow> time \<Rightarrow> outbox_event option \<Rightarrow> outbox_row list \<Rightarrow>
     unit result \<times> outbox_event option \<times> outbox_row list" where
  "outbox_append dup outcome now event rs =
     (case event of
        None \<Rightarrow> (Inl (PlainError ''outbox event must not be nil''), None, rs)
      | Some e \<Rightarrow>
          if blank (ev_owner e)
          then (Inl (PlainError ''outbox event owner must not be empty''), Some e, rs)
          else if blank (ev_type e)
          then (Inl (PlainError ''outbox event type must not be empty''), Some e, rs)
          else if ev_id e \<le> 0
          then (Inl (PlainError ''outbox event id must be supplied by a distributed id generator''),
                Some e, rs)
          else let e' = default_status e;
                   (r, rs') = insert_rows dup outbox_unique [event_row now e'] outcome rs
               in (r, Some e', rs'))"

text \<open>
  The loop of \<open>AppendBatch\<close> over its events: it stops at the first invalid one, and fills in the
  status of the events before it.
\<close>

fun batch_rows ::
    "time \<Rightarrow> outbox_event option list \<Rightarrow> go_error option \<times> outbox_event option list \<times> outbox_row list" where
  "batch_rows now [] = (None, [], [])"
| "batch_rows now (None # es) =
     (Some (PlainError ''outbox batch contains invalid event''), None # es, [])"
| "batch_rows now (Some e # es) =
     (if blank (ev_owner e) \<or> blank (ev_type e)
      then (Some (PlainError ''outbox batch contains invalid event''), Some e # es, [])
      else if ev_id e \<le> 0
      then (Some (PlainError ''outbox batch event id must be supplied by a distributed id generator''),
            Some e # es, [])
      else let e' = default_status e; (err, es', rows) = batch_rows now es
           in (err, Some e' # es', event_row now e' # rows))"

definition outbox_append_batch ::
    "go_error \<Rightarrow> sql_outcome \<Rightarrow> time \<Rightarrow> outbox_event option list \<Rightarrow> outbox_row list \<Rightarrow>
     unit result \<times> outbox_event option list \<times> outbox_row list" where
  "outbox_append_batch dup outcome now es rs =
     (if es = [] then (Inr (), es, rs)
      else if 50 < length es then (Inl (PlainError ''outbox batch exceeds 50''), es, rs)
      else case batch_rows now es of
             (Some err, es', _) \<Rightarrow> (Inl err, es', rs)
           | (None, es', rows) \<Rightarrow>
               (case insert_rows dup outbox_unique rows outcome rs of
                  (Inl e, rs') \<Rightarrow> (Inl (WrapError (''append outbox batch: '' @ error_text e) e), es', rs')
                | (Inr u, rs') \<Rightarrow> (Inr u, es', rs')))"

section \<open>Listing\<close>

definition outbox_ready :: "time \<Rightarrow> outbox_row \<Rightarrow> bool" where
  "outbox_ready now r \<longleftrightarrow>
     ob_status r \<in> {''PENDING'', ''FAILED''} \<and>
       (case ob_next_retry_at r of None \<Rightarrow> True | Some t \<Rightarrow> t \<le> now)
   \<or> ob_status r = ''PROCESSING'' \<and>
       (case ob_lease_until r of None \<Rightarrow> True | Some t \<Rightarrow> t \<le> now)"

definition scoped_outbox_predicate :: "string \<Rightarrow> outbox_row \<Rightarrow> bool" where
  "scoped_outbox_predicate scope_id r =
     (let scope = trim_space scope_id
      in if scope = [] then True
         else if scope = ''local'' then ob_scope r = Some scope \<or> ob_scope r = None
         else ob_scope r = Some scope)"

text \<open>The first occurrence of each non-blank event type, trimmed.\<close>

fun distinct_types :: "string list \<Rightarrow> string list \<Rightarrow> string list" where
  "distinct_types seen [] = []"
| "distinct_types seen (t # ts) =
     (let n = trim_space t
      in if n = [] \<or> n \<in> set seen then distinct_types seen ts else n # distinct_types (n # seen) ts)"

definition normalize_event_types :: "string list \<Rightarrow> string list result" where
  "normalize_event_types ts =
     (let result = distinct_types [] ts
      in if result = [] then Inl (PlainError ''outbox event types must not be empty'') else Inr result)"

text \<open>\<open>ORDER BY createTime ASC LIMIT n\<close>; rows of the same instant keep the order of the table.\<close>

definition oldest_first :: "outbox_row list \<Rightarrow> outbox_row list" where
  "oldest_first rs = sort_key ob_create_time rs"

definition list_where ::
    "time \<Rightarrow> string \<Rightarrow> string \<Rightarrow> string list \<Rightarrow> bool \<Rightarrow> outbox_row \<Rightarrow> bool" where
  "list_where now owner scope_id types unknown r \<longleftrightarrow>
     ob_owner r = owner \<and> scoped_outbox_predicate scope_id r \<and>
     (if unknown then ob_type r \<notin> set types else ob_type r \<in> set types) \<and> outbox_ready now r"

definition list_limit :: "int \<Rightarrow> nat" where
  "list_limit limit = (if limit \<le> 0 then 100 else nat limit)"

definition list_ready ::
    "sql_outcome \<Rightarrow> time \<Rightarrow> string \<Rightarrow> string \<Rightarrow> string list \<Rightarrow> bool \<Rightarrow> int \<Rightarrow> outbox_row list \<Rightarrow>
     outbox_event list result" where
  "list_ready outcome now event_owner scope_id event_types unknown limit rs =
     (let owner = trim_space event_owner
      in if owner = [] then Inl (PlainError ''outbox event owner must not be empty'')
         else case normalize_event_types event_types of
                Inl e \<Rightarrow> Inl e
              | Inr types \<Rightarrow>
                  query_sql outcome
                    (map row_event
                       (take (list_limit limit)
                          (oldest_first (filter (list_where now owner scope_id types unknown) rs)))))"

text \<open>The bounded projection: an oversized body, and any body of an unknown type, is not selected.\<close>

definition bounded_event :: "bool \<Rightarrow> int \<Rightarrow> outbox_row \<Rightarrow> outbox_event" where
  "bounded_event unknown max_bytes r =
     (if unknown then (row_event r)\<lparr>ev_payload := [], ev_payload_oversized := False\<rparr>
      else if max_bytes < int (length (ob_payload r))
      then (row_event r)\<lparr>ev_payload := [], ev_payload_oversized := True\<rparr>
      else row_event r)"

definition list_ready_payload_bounded ::
    "sql_outcome \<Rightarrow> time \<Rightarrow> string \<Rightarrow> string \<Rightarrow> string list \<Rightarrow> bool \<Rightarrow> int \<Rightarrow> int \<Rightarrow> outbox_row list \<Rightarrow>
     outbox_event list result" where
  "list_ready_payload_bounded outcome now event_owner scope_id event_types unknown max_bytes limit rs =
     (let owner = trim_space event_owner
      in if owner = [] then Inl (PlainError ''outbox event owner must not be empty'')
         else if max_bytes \<le> 0 then Inl (PlainError ''outbox payload bound must be positive'')
         else case normalize_event_types event_types of
                Inl e \<Rightarrow> Inl e
              | Inr types \<Rightarrow>
                  query_sql outcome
                    (map (bounded_event unknown max_bytes)
                       (take (list_limit limit)
                          (oldest_first (filter (list_where now owner scope_id types unknown) rs)))))"

definition find_ready ::
    "sql_outcome \<Rightarrow> time \<Rightarrow> string \<Rightarrow> string \<Rightarrow> string \<Rightarrow> string \<Rightarrow> outbox_row list \<Rightarrow>
     outbox_event option result" where
  "find_ready outcome now event_owner scope_id event_type event_id rs =
     (let owner = trim_space event_owner; kind = trim_space event_type; ident = trim_space event_id
      in if owner = [] \<or> kind = [] \<or> ident = []
         then Inl (PlainError ''outbox ready lookup requires owner, type, and event id'')
         else query_sql outcome
                (map_option row_event
                   (find (\<lambda>r. ob_owner r = owner \<and> scoped_outbox_predicate scope_id r \<and> ob_type r = kind
                              \<and> ob_event_id r = ident \<and> outbox_ready now r) rs)))"

section \<open>Claiming and marking\<close>

text \<open>The row an \<open>UPDATE\<close> of \<open>claim\<close> or \<open>mark\<close> addresses: key, owner, type, and the exact scope if asked.\<close>

definition addressed :: "int \<Rightarrow> string \<Rightarrow> string option \<Rightarrow> string \<Rightarrow> outbox_row \<Rightarrow> bool" where
  "addressed ident owner scope kind r \<longleftrightarrow>
     ob_id r = ident \<and> ob_owner r = owner \<and> (scope \<noteq> None \<longrightarrow> ob_scope r = scope) \<and> ob_type r = kind"

definition claimed_row :: "string \<Rightarrow> time \<Rightarrow> string \<Rightarrow> time \<Rightarrow> outbox_row \<Rightarrow> outbox_row" where
  "claimed_row worker now token until r =
     r\<lparr>ob_status := ''PROCESSING'', ob_lease_owner := Some worker, ob_lease_token := Some token,
       ob_lease_until := Some until, ob_update_time := Some now\<rparr>"

definition marked_row ::
    "time \<Rightarrow> string \<times> string option \<times> int \<times> time option \<Rightarrow> outbox_row \<Rightarrow> outbox_row" where
  "marked_row now result r =
     (case result of (status, error_msg, retry_count, next_retry) \<Rightarrow>
        r\<lparr>ob_status := status, ob_error_msg := error_msg, ob_retry_count := retry_count,
          ob_next_retry_at := next_retry, ob_lease_owner := None, ob_lease_token := None,
          ob_lease_until := None, ob_update_time := Some now\<rparr>)"

definition claim_update ::
    "int \<Rightarrow> string \<Rightarrow> string option \<Rightarrow> string \<Rightarrow> string \<Rightarrow> time \<Rightarrow> string \<Rightarrow> time \<Rightarrow> outbox_row list \<Rightarrow>
     nat \<times> outbox_row list" where
  "claim_update ident owner scope kind worker now token until =
     update_rows (\<lambda>r. addressed ident owner scope kind r \<and> outbox_ready now r)
       (claimed_row worker now token until)"

definition mark_update ::
    "int \<Rightarrow> string \<Rightarrow> string option \<Rightarrow> string \<Rightarrow> time \<Rightarrow> string \<Rightarrow>
     string \<times> string option \<times> int \<times> time option \<Rightarrow> outbox_row list \<Rightarrow> nat \<times> outbox_row list" where
  "mark_update ident owner scope kind now token result =
     update_rows
       (\<lambda>r. addressed ident owner scope kind r \<and> ob_status r = ''PROCESSING'' \<and> ob_lease_token r = Some token)
       (marked_row now result)"

definition outbox_claim ::
    "sql_outcome \<Rightarrow> int \<Rightarrow> time \<Rightarrow> string \<Rightarrow> string \<Rightarrow> string \<Rightarrow> string \<Rightarrow> int \<Rightarrow> string \<Rightarrow> bool \<Rightarrow>
     outbox_row list \<Rightarrow> lease option result \<times> outbox_row list" where
  "outbox_claim outcome ttl now token event_owner scope_id event_type ident worker exact rs =
     (let owner = trim_space event_owner; scope = trim_space scope_id; kind = trim_space event_type;
          worker' = trim_space worker
      in if owner = [] \<or> kind = [] \<or> worker' = [] \<or> ident \<le> 0 \<or> (exact \<and> scope = [])
         then (Inl (PlainError ''outbox claim requires owner, type, id, and worker''), rs)
         else let until = now + outbox_lease_duration ttl;
                  (r, rs') = exec_sql outcome
                    (claim_update ident owner (if exact then Some scope else None) kind worker' now token until rs) rs
              in (case r of
                    Inl e \<Rightarrow> Inl e
                  | Inr n \<Rightarrow> if n = 0 then Inr None
                            else Inr (Some \<lparr>lease_token = token, lease_until = until\<rparr>), rs'))"

definition outbox_mark ::
    "sql_outcome \<Rightarrow> time \<Rightarrow> string \<Rightarrow> string \<Rightarrow> string \<Rightarrow> int \<Rightarrow> string \<Rightarrow> string \<Rightarrow> string \<Rightarrow> int \<Rightarrow>
     time option \<Rightarrow> bool \<Rightarrow> outbox_row list \<Rightarrow> bool result \<times> outbox_row list" where
  "outbox_mark outcome now event_owner scope_id event_type ident token status last_error retry_count
     next_retry exact rs =
     (let owner = trim_space event_owner; scope = trim_space scope_id; kind = trim_space event_type;
          token' = trim_space token
      in if owner = [] \<or> kind = [] \<or> token' = [] \<or> ident \<le> 0 \<or> (exact \<and> scope = [])
         then (Inl (PlainError ''outbox mark requires owner, type, id, and lease token''), rs)
         else let (r, rs') = exec_sql outcome
                    (mark_update ident owner (if exact then Some scope else None) kind now token'
                       (status, null_string last_error, retry_count, next_retry) rs) rs
              in (case r of Inl e \<Rightarrow> Inl e | Inr n \<Rightarrow> Inr (0 < n), rs'))"

end
