(* ===== verification/Consume_Guard.thy ===== *)
theory Consume_Guard
  imports Outbox
begin

text \<open>
  The consume guard (\<open>ConsumeGuard\<close> in \<open>infrastructure/messaging/outbox/store.go\<close>): one row per message
  and consumer in the consume log, claimed by \<open>Begin\<close> with the same kind of lease as the outbox, and
  closed by \<open>finish\<close> or \<open>fail\<close>. \<open>consume_once\<close> wraps a message handler in it. The contract
  \<open>fenced_lease\<close> is interpreted on the log.

  Arguments that stand for the environment: the clock, the fresh token, the driver's error for a
  duplicate key, the printing of an instant, and the outcome of each statement.
\<close>

section \<open>The log\<close>

record consume_row =
  cr_id :: int
  cr_message :: string
  cr_consumer :: string
  cr_status :: string
  cr_detail :: "string option"
  cr_lease_owner :: "string option"
  cr_lease_token :: "string option"
  cr_lease_until :: "time option"
  cr_create_time :: time
  cr_update_time :: time

definition consume_unique :: "consume_row list \<Rightarrow> bool" where
  "consume_unique rs \<longleftrightarrow>
     distinct (map cr_id rs) \<and> distinct (map (\<lambda>r. (cr_message r, cr_consumer r)) rs)"

definition err_consume_lease_held :: go_error where
  "err_consume_lease_held = PlainError ''message consume lease is still held''"

definition consume_lease_held_error :: "(time \<Rightarrow> string) \<Rightarrow> time \<Rightarrow> go_error" where
  "consume_lease_held_error show_time until =
     WrapError
       (if is_zero_time until then error_text err_consume_lease_held
        else error_text err_consume_lease_held @ '' until '' @ show_time until)
       err_consume_lease_held"

definition is_duplicate :: "go_error \<Rightarrow> bool" where
  "is_duplicate err =
     (let text = to_lower (error_text err) in contains text ''duplicate'' \<or> contains text ''unique'')"

section \<open>The statements\<close>

definition log_entry :: "string \<Rightarrow> string \<Rightarrow> consume_row \<Rightarrow> bool" where
  "log_entry message consumer r \<longleftrightarrow> cr_message r = message \<and> cr_consumer r = consumer"

definition consume_reclaimable :: "time \<Rightarrow> consume_row \<Rightarrow> bool" where
  "consume_reclaimable now r \<longleftrightarrow>
     cr_status r = ''FAILED''
   \<or> cr_status r = ''PROCESSING'' \<and>
       (case cr_lease_until r of None \<Rightarrow> True | Some t \<Rightarrow> t \<le> now)"

definition new_consume_row ::
    "string \<Rightarrow> string \<Rightarrow> string \<Rightarrow> string \<Rightarrow> time \<Rightarrow> string \<Rightarrow> time \<Rightarrow> consume_row" where
  "new_consume_row message consumer worker detail now token until =
     \<lparr>cr_id = now, cr_message = message, cr_consumer = consumer, cr_status = ''PROCESSING'',
      cr_detail = null_string detail, cr_lease_owner = Some worker, cr_lease_token = Some token,
      cr_lease_until = Some until, cr_create_time = now, cr_update_time = now\<rparr>"

definition reclaimed_row :: "string \<Rightarrow> string \<Rightarrow> time \<Rightarrow> string \<Rightarrow> time \<Rightarrow> consume_row \<Rightarrow> consume_row" where
  "reclaimed_row worker detail now token until r =
     r\<lparr>cr_status := ''PROCESSING'', cr_detail := null_string detail, cr_lease_owner := Some worker,
       cr_lease_token := Some token, cr_lease_until := Some until, cr_update_time := now\<rparr>"

definition reclaim_update ::
    "string \<Rightarrow> string \<Rightarrow> string \<Rightarrow> string \<Rightarrow> time \<Rightarrow> string \<Rightarrow> time \<Rightarrow> consume_row list \<Rightarrow>
     nat \<times> consume_row list" where
  "reclaim_update message consumer worker detail now token until =
     update_rows (\<lambda>r. log_entry message consumer r \<and> consume_reclaimable now r)
       (reclaimed_row worker detail now token until)"

definition completed_row :: "string \<Rightarrow> string \<Rightarrow> time \<Rightarrow> consume_row \<Rightarrow> consume_row" where
  "completed_row status detail now r =
     r\<lparr>cr_status := status, cr_detail := null_string detail, cr_lease_owner := None,
       cr_lease_token := None, cr_lease_until := None, cr_update_time := now\<rparr>"

definition complete_update ::
    "string \<Rightarrow> string \<Rightarrow> time \<Rightarrow> string \<Rightarrow> string \<times> string \<Rightarrow> consume_row list \<Rightarrow> nat \<times> consume_row list" where
  "complete_update message consumer now token result =
     update_rows
       (\<lambda>r. log_entry message consumer r \<and> cr_status r = ''PROCESSING'' \<and> cr_lease_token r = Some token)
       (completed_row (fst result) (snd result) now)"

text \<open>\<open>consumeState\<close>; \<open>%q\<close> of the message and the consumer is the parameter \<open>quote\<close>.\<close>

definition consume_state ::
    "(string \<Rightarrow> string) \<Rightarrow> sql_outcome \<Rightarrow> string \<Rightarrow> string \<Rightarrow> consume_row list \<Rightarrow>
     (string \<times> time option) result" where
  "consume_state quote outcome message consumer rs =
     (case query_sql outcome (find (log_entry message consumer) rs) of
        Inl e \<Rightarrow> Inl e
      | Inr None \<Rightarrow>
          Inl (PlainError (''consume lease disappeared while resolving duplicate message ''
                 @ quote message @ '' for consumer '' @ quote consumer))
      | Inr (Some r) \<Rightarrow> Inr (cr_status r, cr_lease_until r))"

section \<open>The operations\<close>

text \<open>What the driver and the runtime contribute.\<close>

record consume_env =
  ce_dup :: go_error
  ce_show_time :: "time \<Rightarrow> string"
  ce_quote :: "string \<Rightarrow> string"
  ce_ttl :: int

text \<open>
  \<open>Begin\<close> inserts a row; \<open>consume_reclaim\<close> is its second half, for a row that is already there: take over
  the lease if it may be taken over, and otherwise look up why not.
\<close>

definition consume_reclaim ::
    "consume_env \<Rightarrow> sql_outcome \<Rightarrow> sql_outcome \<Rightarrow> time \<Rightarrow> lease \<Rightarrow> string \<Rightarrow> string \<Rightarrow> string \<Rightarrow> string \<Rightarrow>
     consume_row list \<Rightarrow> lease option result \<times> consume_row list" where
  "consume_reclaim env oc_update oc_select now issued message consumer worker detail rs =
     (case exec_sql oc_update
             (reclaim_update message consumer worker detail now (lease_token issued) (lease_until issued) rs) rs of
        (Inl e, rs') \<Rightarrow> (Inl e, rs')
      | (Inr n, rs') \<Rightarrow>
          if 0 < n then (Inr (Some issued), rs')
          else (case consume_state (ce_quote env) oc_select message consumer rs' of
                  Inl e \<Rightarrow> (Inl e, rs')
                | Inr (status, held_until) \<Rightarrow>
                    if status = ''DONE'' then (Inr None, rs')
                    else (Inl (consume_lease_held_error (ce_show_time env) (time_of_null held_until)), rs')))"

definition consume_begin ::
    "consume_env \<Rightarrow> sql_outcome \<Rightarrow> sql_outcome \<Rightarrow> sql_outcome \<Rightarrow> time \<Rightarrow> string \<Rightarrow>
     string \<Rightarrow> string \<Rightarrow> string \<Rightarrow> string \<Rightarrow> consume_row list \<Rightarrow>
     lease option result \<times> consume_row list" where
  "consume_begin env oc_insert oc_update oc_select now token message_id consumer_id worker_id detail rs =
     (let message = trim_space message_id; consumer = trim_space consumer_id; worker = trim_space worker_id
      in if message = [] \<or> consumer = [] \<or> worker = []
         then (Inl (PlainError ''message id, consumer, and worker must not be empty''), rs)
         else let issued = \<lparr>lease_token = token, lease_until = now + outbox_lease_duration (ce_ttl env)\<rparr>
              in case insert_rows (ce_dup env) consume_unique
                        [new_consume_row message consumer worker detail now token (lease_until issued)]
                        oc_insert rs of
                   (Inr u, rs1) \<Rightarrow> (Inr (Some issued), rs1)
                 | (Inl err, rs1) \<Rightarrow>
                     if \<not> is_duplicate err then (Inl err, rs1)
                     else consume_reclaim env oc_update oc_select now issued message consumer worker detail rs1)"

definition consume_complete ::
    "sql_outcome \<Rightarrow> time \<Rightarrow> string \<Rightarrow> string \<Rightarrow> string \<Rightarrow> string \<Rightarrow> string \<Rightarrow> consume_row list \<Rightarrow>
     bool result \<times> consume_row list" where
  "consume_complete outcome now message_id consumer_id lease_tok status detail rs =
     (let message = trim_space message_id; consumer = trim_space consumer_id; token = trim_space lease_tok
      in if message = [] \<or> consumer = [] \<or> token = []
         then (Inl (PlainError ''message id, consumer, and lease token must not be empty''), rs)
         else let (r, rs') = exec_sql outcome
                    (complete_update message consumer now token (status, detail) rs) rs
              in (case r of Inl e \<Rightarrow> Inl e | Inr n \<Rightarrow> Inr (0 < n), rs'))"

definition consume_finish ::
    "sql_outcome \<Rightarrow> time \<Rightarrow> string \<Rightarrow> string \<Rightarrow> string \<Rightarrow> string \<Rightarrow> consume_row list \<Rightarrow>
     bool result \<times> consume_row list" where
  "consume_finish outcome now message consumer token detail rs =
     consume_complete outcome now message consumer token ''DONE'' detail rs"

definition consume_fail ::
    "sql_outcome \<Rightarrow> time \<Rightarrow> string \<Rightarrow> string \<Rightarrow> string \<Rightarrow> string \<Rightarrow> consume_row list \<Rightarrow>
     bool result \<times> consume_row list" where
  "consume_fail outcome now message consumer token detail rs =
     consume_complete outcome now message consumer token ''FAILED'' detail rs"

text \<open>
  \<open>ConsumeOnce\<close>. The handler \<open>fn\<close> runs for a while, during which its own state \<open>'w\<close> and the log may
  change under it, so it transforms both; a nil handler is \<open>None\<close>. The result is the pair the source
  returns: whether the message was claimed, and the error.
\<close>

definition consume_once ::
    "consume_env \<Rightarrow> sql_outcome \<Rightarrow> sql_outcome \<Rightarrow> sql_outcome \<Rightarrow> sql_outcome \<Rightarrow> time \<Rightarrow> time \<Rightarrow> string \<Rightarrow>
     string \<Rightarrow> string \<Rightarrow> string \<Rightarrow> string \<Rightarrow>
     ('w \<times> consume_row list \<Rightarrow> go_error option \<times> 'w \<times> consume_row list) option \<Rightarrow>
     'w \<Rightarrow> consume_row list \<Rightarrow> (bool \<times> go_error option) \<times> 'w \<times> consume_row list" where
  "consume_once env oc1 oc2 oc3 oc4 now later token message consumer worker detail fn w rs =
     (case consume_begin env oc1 oc2 oc3 now token message consumer worker detail rs of
        (Inl e, rs1) \<Rightarrow> ((False, Some e), w, rs1)
      | (Inr None, rs1) \<Rightarrow> ((False, None), w, rs1)
      | (Inr (Some l), rs1) \<Rightarrow>
          (case fn of
             None \<Rightarrow>
               let (r, rs2) = consume_finish oc4 later message consumer (lease_token l) detail rs1
               in ((True, case r of Inl e \<Rightarrow> Some e | Inr _ \<Rightarrow> None), w, rs2)
           | Some run \<Rightarrow>
               (case run (w, rs1) of
                  (Some e, w1, rs2) \<Rightarrow>
                    let (r, rs3) = consume_fail oc4 later message consumer (lease_token l) (error_text e) rs2
                    in ((True, Some e), w1, rs3)
                | (None, w1, rs2) \<Rightarrow>
                    let (r, rs3) = consume_finish oc4 later message consumer (lease_token l) detail rs2
                    in ((True, case r of Inl e \<Rightarrow> Some e | Inr _ \<Rightarrow> None), w1, rs3))))"

section \<open>The contract on the log\<close>

text \<open>
  The interpretation speaks of the two statements that move an existing row: a claim that finds no row
  inserts one, which is a success as well. \<open>begin_op\<close> is \<open>Begin\<close> with all statements executed.
\<close>

definition begin_op ::
    "string \<Rightarrow> string \<Rightarrow> string \<Rightarrow> string \<Rightarrow> time \<Rightarrow> string \<Rightarrow> time \<Rightarrow> consume_row list \<Rightarrow>
     bool \<times> consume_row list" where
  "begin_op message consumer worker detail now token until rs =
     (let new = new_consume_row message consumer worker detail now token until
      in if consume_unique (rs @ [new]) then (True, rs @ [new])
         else let (n, rs') = reclaim_update message consumer worker detail now token until rs
              in (0 < n, rs'))"

definition complete_op ::
    "string \<Rightarrow> string \<Rightarrow> time \<Rightarrow> string \<Rightarrow> string \<times> string \<Rightarrow> consume_row list \<Rightarrow> bool \<times> consume_row list" where
  "complete_op message consumer now token result rs =
     (let (n, rs') = complete_update message consumer now token result rs in (0 < n, rs'))"

definition consume_holder ::
    "string \<Rightarrow> string \<Rightarrow> consume_row list \<Rightarrow> (string \<times> time option) option" where
  "consume_holder message consumer rs =
     (case find (log_entry message consumer) rs of
        None \<Rightarrow> None
      | Some r \<Rightarrow>
          if cr_status r = ''PROCESSING''
          then map_option (\<lambda>t. (t, cr_lease_until r)) (cr_lease_token r) else None)"

lemma reclaimed_row_simps [simp]:
  "cr_id (reclaimed_row w d now t u r) = cr_id r"
  "cr_message (reclaimed_row w d now t u r) = cr_message r"
  "cr_consumer (reclaimed_row w d now t u r) = cr_consumer r"
  "cr_status (reclaimed_row w d now t u r) = ''PROCESSING''"
  "cr_lease_token (reclaimed_row w d now t u r) = Some t"
  "cr_lease_until (reclaimed_row w d now t u r) = Some u"
  by (simp_all add: reclaimed_row_def)

lemma completed_row_simps [simp]:
  "cr_id (completed_row st d now r) = cr_id r"
  "cr_message (completed_row st d now r) = cr_message r"
  "cr_consumer (completed_row st d now r) = cr_consumer r"
  "cr_status (completed_row st d now r) = st"
  "cr_lease_token (completed_row st d now r) = None"
  by (simp_all add: completed_row_def)

lemma log_entry_same [simp]:
  "log_entry m c (reclaimed_row w d now t u r) = log_entry m c r"
  "log_entry m c (completed_row st d now r) = log_entry m c r"
  by (simp_all add: log_entry_def)

lemma new_row_simps [simp]:
  "log_entry m c (new_consume_row m c w d now t u)"
  "cr_status (new_consume_row m c w d now t u) = ''PROCESSING''"
  "cr_lease_token (new_consume_row m c w d now t u) = Some t"
  "cr_lease_until (new_consume_row m c w d now t u) = Some u"
  by (simp_all add: log_entry_def new_consume_row_def)

lemma found_entry: "find (log_entry m c) rs = Some r \<Longrightarrow> r \<in> set rs \<and> log_entry m c r"
  by (auto simp: find_Some_iff)

lemma entry_unique:
  "consume_unique rs \<Longrightarrow> r \<in> set rs \<Longrightarrow> r' \<in> set rs \<Longrightarrow> log_entry m c r \<Longrightarrow> log_entry m c r' \<Longrightarrow> r = r'"
  by (auto simp: consume_unique_def log_entry_def distinct_map inj_on_def)

lemma entry_found:
  assumes "consume_unique rs"
  shows "0 < count_where (\<lambda>r. log_entry m c r \<and> P r) rs \<longleftrightarrow>
    (case find (log_entry m c) rs of None \<Rightarrow> False | Some r \<Rightarrow> P r)"
proof -
  have "0 < count_where (\<lambda>r. log_entry m c r \<and> P r) rs \<longleftrightarrow>
      (case find (log_entry m c) rs of None \<Rightarrow> False | Some r \<Rightarrow> log_entry m c r \<and> P r)"
    by (rule count_where_found) (auto dest: entry_unique [OF assms])
  then show ?thesis by (auto dest: found_entry split: option.splits)
qed

lemma found_update:
  assumes "\<And>r. log_entry m c (f r) = log_entry m c r"
  shows "find (log_entry m c) (update_where (\<lambda>r. log_entry m c r \<and> P r) f rs) =
    map_option (\<lambda>r. if P r then f r else r) (find (log_entry m c) rs)"
proof -
  have "find (log_entry m c) (update_where (\<lambda>r. log_entry m c r \<and> P r) f rs) =
      map_option (\<lambda>r. if log_entry m c r \<and> P r then f r else r) (find (log_entry m c) rs)"
    by (rule find_update_where) (rule assms)
  then show ?thesis by (cases "find (log_entry m c) rs") (auto dest: found_entry)
qed

lemma update_unique:
  assumes "consume_unique rs"
    "\<And>r. cr_id (f r) = cr_id r" "\<And>r. cr_message (f r) = cr_message r" "\<And>r. cr_consumer (f r) = cr_consumer r"
  shows "consume_unique (update_where P f rs)"
proof -
  have "map cr_id (update_where P f rs) = map cr_id rs"
    "map (\<lambda>r. (cr_message r, cr_consumer r)) (update_where P f rs) = map (\<lambda>r. (cr_message r, cr_consumer r)) rs"
    using assms(2-4) by (simp_all add: update_where_def)
  with assms(1) show ?thesis by (simp add: consume_unique_def)
qed

lemma no_entry_if_new:
  "consume_unique (rs @ [new_consume_row m c w d now t u]) \<Longrightarrow> find (log_entry m c) rs = None"
  by (auto simp: consume_unique_def new_consume_row_def log_entry_def find_None_iff)

lemma find_append: "find P (xs @ ys) = (case find P xs of None \<Rightarrow> find P ys | Some x \<Rightarrow> Some x)"
  by (induction xs) auto

lemma holder_after_insert:
  "consume_unique (rs @ [new_consume_row m c w d now t u]) \<Longrightarrow>
   consume_holder m c (rs @ [new_consume_row m c w d now t u]) = Some (t, Some u)"
  using no_entry_if_new [of rs m c w d now t u] by (simp add: consume_holder_def find_append)

interpretation consume: fenced_lease
  "begin_op message consumer worker detail" "complete_op message consumer"
  "consume_holder message consumer" consume_unique
  for message consumer worker detail
proof
  fix s :: "consume_row list" and now t u r
  assume inv: "consume_unique s"
  let ?start = "begin_op message consumer worker detail now t u s"
  let ?new = "new_consume_row message consumer worker detail now t u"
  let ?done = "complete_op message consumer now t r s"
  note defs = begin_op_def complete_op_def reclaim_update_def complete_update_def update_rows_def
    Let_def
  show "consume_unique (snd ?start)" "consume_unique (snd ?done)"
    using inv by (auto simp: defs intro: update_unique)
  show "\<not> fst ?start \<Longrightarrow> snd ?start = s" "\<not> fst ?done \<Longrightarrow> snd ?done = s"
    by (auto simp: defs update_where_no_match split: if_splits)
  show "consume_holder message consumer (snd ?start) = Some (t, Some u)" if ok: "fst ?start"
  proof (cases "consume_unique (s @ [?new])")
    case True
    then show ?thesis by (simp add: begin_op_def holder_after_insert)
  next
    case False
    with ok have "case find (log_entry message consumer) s of None \<Rightarrow> False
        | Some r \<Rightarrow> consume_reclaimable now r"
      by (simp add: defs entry_found [OF inv])
    with False show ?thesis
      by (auto simp: defs consume_holder_def found_update split: option.splits)
  qed
  show "\<not> fst ?start"
    if held: "consume_holder message consumer s = Some (t', Some until)" and live: "now < until" for t' until
  proof -
    obtain x where x: "find (log_entry message consumer) s = Some x" "cr_status x = ''PROCESSING''"
        "cr_lease_until x = Some until"
      using held by (auto simp: consume_holder_def split: option.splits if_splits)
    then have "\<not> consume_unique (s @ [?new])" using no_entry_if_new by fastforce
    moreover have "\<not> consume_reclaimable now x" using x live by (simp add: consume_reclaimable_def)
    ultimately show ?thesis using x(1) by (simp add: defs entry_found [OF inv])
  qed
  have done_iff: "fst ?done \<longleftrightarrow> (case find (log_entry message consumer) s of None \<Rightarrow> False
      | Some x \<Rightarrow> cr_status x = ''PROCESSING'' \<and> cr_lease_token x = Some t)"
    by (simp add: defs entry_found [OF inv])
  show "\<exists>until. consume_holder message consumer s = Some (t, until)" if "fst ?done"
    using that by (auto simp: done_iff consume_holder_def split: option.splits)
  show "fst ?done" if "consume_holder message consumer s = Some (t, Some until)" "now < until" for until
    using that by (auto simp: done_iff consume_holder_def split: option.splits if_splits)
  show "consume_holder message consumer (snd ?done) = None" if "fst ?done"
    using that
    by (simp add: done_iff) (simp add: defs consume_holder_def found_update split: option.splits)
qed

end
