(* ===== verification/Consume_Properties.thy ===== *)
theory Consume_Properties
  imports Consume_Guard
begin

text \<open>
  What the consume guard promises: its verdict in every state of the log, that a finished message is
  never handed to a handler again, and that one lease is worth one completion.
\<close>

section \<open>Samples for the witnesses\<close>

definition sample_env :: consume_env where
  "sample_env =
     \<lparr>ce_dup = PlainError ''duplicate entry'', ce_show_time = show_int, ce_quote = (\<lambda>s. s), ce_ttl = 5\<rparr>"

definition sample_entry :: "string \<Rightarrow> consume_row" where
  "sample_entry status =
     \<lparr>cr_id = 1, cr_message = ''m'', cr_consumer = ''c'', cr_status = status, cr_detail = None,
      cr_lease_owner = None, cr_lease_token = None, cr_lease_until = None, cr_create_time = 1,
      cr_update_time = 1\<rparr>"

lemma trim_sample_ids [simp]:
  "trim_space ''m'' = ''m''" "trim_space ''c'' = ''c''" "trim_space ''w'' = ''w''"
  by (simp_all add: trim_visible visible_def)

lemma sample_dup: "is_duplicate (ce_dup sample_env)"
  by (simp add: is_duplicate_def sample_env_def contains_def to_lower_def lower_char_def)

section \<open>The verdict of a claim\<close>

lemma reclaim_none:
  assumes "\<And>r. r \<in> set rs \<Longrightarrow> log_entry m c r \<Longrightarrow> \<not> consume_reclaimable now r"
  shows "reclaim_update m c w d now t u rs = (0, rs)"
  unfolding reclaim_update_def
  by (rule update_rows_none) (use assms in \<open>auto simp: count_where_def filter_empty_conv\<close>)

lemma unique_insert:
  assumes "consume_unique rs" "now \<notin> cr_id ` set rs" "find (log_entry m c) rs = None"
  shows "consume_unique (rs @ [new_consume_row m c w d now t u])"
proof -
  have "(m, c) \<notin> (\<lambda>r. (cr_message r, cr_consumer r)) ` set rs"
    using assms(3) by (auto simp: find_None_iff log_entry_def)
  with assms(1,2) show ?thesis by (simp add: consume_unique_def new_consume_row_def)
qed

text \<open>What \<open>Begin\<close> answers, when its statements execute and its row id is fresh: an unknown message is
  claimed; one whose entry failed or whose lease has run out is claimed again, under the new token; one
  that is done is refused without an error; and one under a live lease (or in any other state) is
  refused with the error that makes the broker deliver it again. A refusal changes nothing.\<close>

lemma consume_begin_verdict:
  fixes t detail :: string
  assumes "consume_unique rs" "is_duplicate (ce_dup env)" "now \<notin> cr_id ` set rs"
    and "\<not> blank message" "\<not> blank consumer" "\<not> blank worker"
  defines "entry \<equiv> find (log_entry (trim_space message) (trim_space consumer)) rs"
    and "issued \<equiv> \<lparr>lease_token = t, lease_until = now + outbox_lease_duration (ce_ttl env)\<rparr>"
    and "outcome \<equiv> consume_begin env SqlOk SqlOk SqlOk now t message consumer worker detail rs"
  shows "(case entry of
      None \<Rightarrow> fst outcome = Inr (Some issued) \<and> length (snd outcome) = Suc (length rs)
    | Some r \<Rightarrow>
        if consume_reclaimable now r
        then fst outcome = Inr (Some issued) \<and>
          consume_holder (trim_space message) (trim_space consumer) (snd outcome) = Some (t, Some (lease_until issued))
        else if cr_status r = ''DONE'' then outcome = (Inr None, rs)
        else outcome = (Inl (consume_lease_held_error (ce_show_time env) (time_of_null (cr_lease_until r))), rs))"
proof (cases entry)
  case None
  then have "consume_unique (rs @ [new_consume_row (trim_space message) (trim_space consumer) (trim_space worker)
      detail now t (now + outbox_lease_duration (ce_ttl env))])"
    using unique_insert assms(1,3) unfolding entry_def by blast
  with assms(4-6) None show ?thesis
    by (simp add: outcome_def issued_def consume_begin_def insert_rows_def Let_def blank_def)
next
  case (Some r)
  let ?m = "trim_space message" and ?c = "trim_space consumer"
  let ?u = "now + outbox_lease_duration (ce_ttl env)"
  let ?re = "reclaim_update ?m ?c (trim_space worker) detail now t ?u rs"
  have r: "r \<in> set rs" "log_entry ?m ?c r" using Some found_entry unfolding entry_def by blast+
  have clash: "\<not> consume_unique (rs @ [new_consume_row ?m ?c (trim_space worker) detail now t ?u])"
    using Some no_entry_if_new unfolding entry_def by fastforce
  have pos: "0 < fst ?re \<longleftrightarrow> consume_reclaimable now r"
    using entry_found [OF assms(1), where P = "consume_reclaimable now"] Some
    by (simp add: reclaim_update_def update_rows_def entry_def)
  have answer: "outcome = (if 0 < fst ?re then (Inr (Some issued), snd ?re)
      else if cr_status r = ''DONE'' then (Inr None, snd ?re)
      else (Inl (consume_lease_held_error (ce_show_time env) (time_of_null (cr_lease_until r))), snd ?re))"
    if "\<not> 0 < fst ?re \<longrightarrow> snd ?re = rs"
    using clash assms(2,4-6) Some that
    by (simp add: outcome_def issued_def consume_begin_def insert_rows_def Let_def blank_def
        consume_reclaim_def consume_state_def entry_def case_prod_beta)
  show ?thesis
  proof (cases "consume_reclaimable now r")
    case True
    have "consume_holder ?m ?c (snd ?re) = Some (t, Some ?u)"
      using Some True unfolding entry_def
      by (simp add: consume_holder_def reclaim_update_def update_rows_def found_update)
    with True Some answer pos show ?thesis by (simp add: issued_def)
  next
    case False
    have "?re = (0, rs)"
      by (rule reclaim_none) (use entry_unique [OF assms(1) r(1) _ r(2)] False in blast)
    with False Some answer show ?thesis by simp
  qed
qed

theorem consume_begin_verdict_witness:
  "consume_begin sample_env SqlOk SqlOk SqlOk 3 ''t'' ''m'' ''c'' ''w'' [] [sample_entry ''DONE''] =
     (Inr None, [sample_entry ''DONE''])"
  using consume_begin_verdict [of "[sample_entry ''DONE'']" sample_env 3 "''m''" "''c''" "''w''" "''t''" "[]"]
    sample_dup
  by (simp add: sample_entry_def consume_unique_def blank_def log_entry_def consume_reclaimable_def)

section \<open>A finished message\<close>

definition message_done :: "string \<Rightarrow> string \<Rightarrow> consume_row list \<Rightarrow> bool" where
  "message_done m c rs \<longleftrightarrow> (\<exists>r \<in> set rs. log_entry m c r \<and> cr_status r = ''DONE'')"

text \<open>The operations of the guard, on any messages, with any outcomes of their statements.\<close>

datatype consume_op =
    BeginOp consume_env sql_outcome sql_outcome sql_outcome time string string string string string
  | CompleteOp sql_outcome time string string string string string

fun consume_exec :: "consume_op \<Rightarrow> consume_row list \<Rightarrow> consume_row list" where
  "consume_exec (BeginOp env oc1 oc2 oc3 now t m c w d) rs = snd (consume_begin env oc1 oc2 oc3 now t m c w d rs)"
| "consume_exec (CompleteOp oc now m c t st d) rs = snd (consume_complete oc now m c t st d rs)"

lemma insert_rows_state: "snd (insert_rows dup unique new oc rs) \<in> {rs, rs @ new}"
  by (cases oc) (auto simp: insert_rows_def)

lemma insert_rows_ok: "insert_rows dup unique new oc rs = (Inr u, rs') \<Longrightarrow> rs' = rs @ new \<and> unique (rs @ new)"
  by (cases oc) (auto simp: insert_rows_def split: if_splits)

lemma insert_rows_unique: "unique rs \<Longrightarrow> unique (snd (insert_rows dup unique new oc rs))"
  by (cases oc) (auto simp: insert_rows_def)

lemma reclaim_state:
  "snd (consume_reclaim env oc2 oc3 now l m c w d rs) = rs \<or>
   snd (consume_reclaim env oc2 oc3 now l m c w d rs) =
     snd (reclaim_update m c w d now (lease_token l) (lease_until l) rs)"
proof (cases "exec_sql oc2 (reclaim_update m c w d now (lease_token l) (lease_until l) rs) rs")
  case (Pair r rs')
  then have "rs' \<in> {rs, snd (reclaim_update m c w d now (lease_token l) (lease_until l) rs)}"
    using exec_sql_state [of oc2 "reclaim_update m c w d now (lease_token l) (lease_until l) rs" rs] by simp
  moreover have "snd (consume_reclaim env oc2 oc3 now l m c w d rs) = rs'"
    by (cases r) (auto simp: consume_reclaim_def Pair split: sum.split prod.split)
  ultimately show ?thesis by simp
qed

lemma begin_state:
  "\<exists>rs1. rs1 \<in> {rs} \<union> {rs @ [new_consume_row (trim_space m) (trim_space c) (trim_space w) d now t u] |u. True} \<and>
     (consume_unique rs \<longrightarrow> consume_unique rs1) \<and>
     (snd (consume_begin env oc1 oc2 oc3 now t m c w d rs) = rs1 \<or>
      (\<exists>u. snd (consume_begin env oc1 oc2 oc3 now t m c w d rs) =
         snd (reclaim_update (trim_space m) (trim_space c) (trim_space w) d now t u rs1)))"
proof (cases "trim_space m = [] \<or> trim_space c = [] \<or> trim_space w = []")
  case True
  then show ?thesis by (auto simp: consume_begin_def Let_def intro!: exI [of _ rs])
next
  case False
  let ?u = "now + outbox_lease_duration (ce_ttl env)"
  let ?new = "[new_consume_row (trim_space m) (trim_space c) (trim_space w) d now t ?u]"
  let ?ins = "insert_rows (ce_dup env) consume_unique ?new oc1 rs"
  have "snd ?ins \<in> {rs, rs @ ?new}" "consume_unique rs \<longrightarrow> consume_unique (snd ?ins)"
    using insert_rows_state insert_rows_unique by blast+
  moreover have "snd (consume_begin env oc1 oc2 oc3 now t m c w d rs) = snd ?ins \<or>
      snd (consume_begin env oc1 oc2 oc3 now t m c w d rs) =
        snd (reclaim_update (trim_space m) (trim_space c) (trim_space w) d now t ?u (snd ?ins))"
  proof (cases ?ins)
    case (Pair ins rs1)
    with False show ?thesis
      using reclaim_state [of env oc2 oc3 now "\<lparr>lease_token = t, lease_until = ?u\<rparr>" "trim_space m"
          "trim_space c" "trim_space w" d rs1]
      by (cases ins) (auto simp: consume_begin_def Let_def)
  qed
  ultimately show ?thesis by (intro exI [of _ "snd ?ins"]) blast
qed

lemma reclaim_keeps_done:
  assumes "r \<in> set rs" "cr_status r = ''DONE''"
  shows "r \<in> set (snd (reclaim_update m' c' w d now t u rs))"
proof -
  have "\<not> consume_reclaimable now r" using assms(2) by (simp add: consume_reclaimable_def)
  with assms(1) show ?thesis
    by (force simp: reclaim_update_def update_rows_def set_update_where)
qed

lemma exec_keeps_done: "message_done m c rs \<Longrightarrow> message_done m c (consume_exec p rs)"
proof (cases p)
  case (BeginOp env oc1 oc2 oc3 now t m' c' w d)
  assume "message_done m c rs"
  then obtain r where r: "r \<in> set rs" "log_entry m c r" "cr_status r = ''DONE''"
    by (auto simp: message_done_def)
  from begin_state [of rs m' c' w d now t env oc1 oc2 oc3] show ?thesis
  proof (elim exE conjE)
    fix rs1
    assume rs1: "rs1 \<in> {rs} \<union> {rs @ [new_consume_row (trim_space m') (trim_space c') (trim_space w) d now t u] |u. True}"
      and state: "snd (consume_begin env oc1 oc2 oc3 now t m' c' w d rs) = rs1 \<or>
        (\<exists>u. snd (consume_begin env oc1 oc2 oc3 now t m' c' w d rs) =
          snd (reclaim_update (trim_space m') (trim_space c') (trim_space w) d now t u rs1))"
    have "r \<in> set rs1" using rs1 r(1) by auto
    then have "r \<in> set (consume_exec p rs)"
      using state reclaim_keeps_done [of r rs1] r(3) BeginOp by auto
    with r show ?thesis by (auto simp: message_done_def)
  qed
next
  case (CompleteOp oc now m' c' t st d)
  assume "message_done m c rs"
  then obtain r where r: "r \<in> set rs" "log_entry m c r" "cr_status r = ''DONE''"
    by (auto simp: message_done_def)
  then have "r \<in> set (snd (complete_update m'' c'' now t' x rs))" for m'' c'' t' x
    by (force simp: complete_update_def update_rows_def set_update_where)
  then have "r \<in> set (consume_exec p rs)"
    using CompleteOp r(1)
    by (cases oc) (auto simp: consume_complete_def Let_def case_prod_beta)
  with r show ?thesis by (auto simp: message_done_def)
qed

lemma exec_unique: "consume_unique rs \<Longrightarrow> consume_unique (consume_exec p rs)"
proof (cases p)
  case (BeginOp env oc1 oc2 oc3 now t m' c' w d)
  assume "consume_unique rs"
  from begin_state [of rs m' c' w d now t env oc1 oc2 oc3] obtain rs1 where
      "consume_unique rs \<longrightarrow> consume_unique rs1"
      "snd (consume_begin env oc1 oc2 oc3 now t m' c' w d rs) = rs1 \<or>
        (\<exists>u. snd (consume_begin env oc1 oc2 oc3 now t m' c' w d rs) =
          snd (reclaim_update (trim_space m') (trim_space c') (trim_space w) d now t u rs1))"
    by (elim exE conjE)
  with \<open>consume_unique rs\<close> BeginOp have "consume_unique rs1" "consume_exec p rs = rs1 \<or>
      (\<exists>u. consume_exec p rs = snd (reclaim_update (trim_space m') (trim_space c') (trim_space w) d now t u rs1))"
    by simp_all
  then show ?thesis by (auto simp: reclaim_update_def update_rows_def intro!: update_unique)
next
  case (CompleteOp oc now m' c' t st d)
  assume "consume_unique rs"
  then have "consume_unique (snd (complete_update m'' c'' now t' x rs))" for m'' c'' t' x
    by (auto simp: complete_update_def update_rows_def intro!: update_unique)
  with \<open>consume_unique rs\<close> show ?thesis
    using CompleteOp by (cases oc) (auto simp: consume_complete_def Let_def case_prod_beta)
qed

lemma run_keeps_done:
  "consume_unique rs \<Longrightarrow> message_done m c rs \<Longrightarrow>
   consume_unique (fold consume_exec ops rs) \<and> message_done m c (fold consume_exec ops rs)"
  by (induction ops arbitrary: rs) (auto intro: exec_keeps_done exec_unique)

lemma done_not_claimed:
  assumes "consume_unique rs" "message_done (trim_space m) (trim_space c) rs"
  shows "fst (consume_begin env oc1 oc2 oc3 now t m c w d rs) \<noteq> Inr (Some l) \<and>
    snd (consume_begin env oc1 oc2 oc3 now t m c w d rs) = rs"
proof -
  obtain r where r: "r \<in> set rs" "log_entry (trim_space m) (trim_space c) r" "cr_status r = ''DONE''"
    using assms(2) by (auto simp: message_done_def)
  have clash: "\<not> consume_unique (rs @ [new_consume_row (trim_space m) (trim_space c) w' d now t u])" for w' u
    using no_entry_if_new [of rs "trim_space m" "trim_space c"] r by (auto simp: find_None_iff)
  have "reclaim_update (trim_space m) (trim_space c) w' d now t u rs = (0, rs)" for w' u
    by (rule reclaim_none)
      (use entry_unique [OF assms(1) r(1) _ r(2)] r(3) in \<open>auto simp: consume_reclaimable_def\<close>)
  with clash show ?thesis
    by (cases oc1; cases oc2)
       (auto simp: consume_begin_def consume_reclaim_def insert_rows_def Let_def split: sum.splits option.splits)
qed

text \<open>A finished message is never handled again. Once the log has a message as DONE for a consumer, then after
  any further operations on the log, whatever their statements' outcomes, \<open>ConsumeOnce\<close> does not call
  the handler: the handler's state and the log stay as they are and the message is not claimed.\<close>

lemma done_message_not_handled:
  fixes ops :: "consume_op list"
  assumes "consume_unique rs" "message_done (trim_space message) (trim_space consumer) rs"
  defines "rs' \<equiv> fold consume_exec ops rs"
  shows "\<exists>err. consume_once env oc1 oc2 oc3 oc4 now later t message consumer worker detail fn w rs' =
    ((False, err), w, rs')"
proof -
  have "consume_unique rs'" "message_done (trim_space message) (trim_space consumer) rs'"
    using run_keeps_done [OF assms(1,2)] by (simp_all add: rs'_def)
  then have "fst (consume_begin env oc1 oc2 oc3 now t message consumer worker detail rs') \<noteq> Inr (Some l)"
    and "snd (consume_begin env oc1 oc2 oc3 now t message consumer worker detail rs') = rs'" for l
    using done_not_claimed by blast+
  then show ?thesis
    by (cases "consume_begin env oc1 oc2 oc3 now t message consumer worker detail rs'")
       (auto simp: consume_once_def split: sum.split option.split)
qed

theorem done_message_not_handled_witness:
  "\<exists>err. consume_once sample_env SqlOk SqlOk SqlOk SqlOk 9 10 ''t'' ''m'' ''c'' ''w'' []
      (Some (\<lambda>(n, rs). (None, n + 1, rs))) (0 :: nat) [sample_entry ''DONE''] = ((False, err), 0, [sample_entry ''DONE''])"
  using done_message_not_handled [of "[sample_entry ''DONE'']" "''m''" "''c''" sample_env SqlOk SqlOk SqlOk SqlOk
      9 10 "''t''" "''w''" "[]" "Some (\<lambda>(n, rs). (None, n + 1, rs))" "0 :: nat" "[]"]
  by (simp add: consume_unique_def message_done_def sample_entry_def log_entry_def)

text \<open>One lease of a message is worth one completion, in any interleaving of claims of the message by a worker
  and completions under any tokens in which the token is not issued again.\<close>

lemma consume_completion_at_most_once:
  assumes "consume_unique rs" "\<forall>p \<in> set ops. \<not> claims t p"
  shows "finish_count t ops
    (fst (run_lease (begin_op message consumer worker detail) (complete_op message consumer) ops rs)) \<le> 1"
  by (rule consume.finish_at_most_once [OF assms])

definition sample_finishes :: "(string, string \<times> string) lease_op list" where
  "sample_finishes = [FinishOp 1 ''t'' (''DONE'', []), FinishOp 2 ''t'' (''FAILED'', [])]"

theorem consume_completion_at_most_once_witness:
  "finish_count ''t'' sample_finishes
    (fst (run_lease (begin_op ''m'' ''c'' ''w'' []) (complete_op ''m'' ''c'') sample_finishes
      [new_consume_row ''m'' ''c'' ''w'' [] 0 ''t'' 5])) \<le> 1"
  by (rule consume_completion_at_most_once) (simp_all add: consume_unique_def sample_finishes_def)

end
