(* ===== verification/Hub_Node.thy ===== *)
theory Hub_Node
  imports Sql_Model
begin

text \<open>
  The node entity of the hub (\<open>app/hub_control/domain/node.go\<close>): its metadata, its enablement, and the
  state of its connection to the hub. A connection is provisioned by a saga that is identified by a
  version, a request hash and the target revision of the node; the operations below decide when a
  result of a saga may still be recorded.

  A method with a pointer receiver returns the node it leaves behind.
\<close>

section \<open>State\<close>

record encrypted_secret =
  ciphertext :: string
  edek :: string
  wrap_key_ref :: string

definition secret_present :: "encrypted_secret \<Rightarrow> bool" where
  "secret_present s \<longleftrightarrow> ciphertext s \<noteq> [] \<and> edek s \<noteq> [] \<and> wrap_key_ref s \<noteq> []"

definition no_secret :: encrypted_secret where
  "no_secret = \<lparr>ciphertext = [], edek = [], wrap_key_ref = []\<rparr>"

definition err_node_code_immutable :: go_error where
  "err_node_code_immutable = PlainError ''nodeCode is immutable''"
definition err_issuer_locked :: go_error where
  "err_issuer_locked = PlainError ''hub issuer is permanently locked''"
definition err_provision_replay :: go_error where
  "err_provision_replay = PlainError ''connection version replay differs from the original request''"
definition err_provision_superseded :: go_error where
  "err_provision_superseded = PlainError ''connection version has been superseded''"
definition err_stale_provision_result :: go_error where
  "err_stale_provision_result = PlainError ''connection provision result is stale''"

definition node_status_enabled :: int where "node_status_enabled = 0"
definition node_status_disabled :: int where "node_status_disabled = 1"

definition discovery_static :: string where "discovery_static = ''STATIC''"
definition discovery_consul :: string where "discovery_consul = ''CONSUL''"

definition connection_pending :: string where "connection_pending = ''PENDING''"
definition connection_active :: string where "connection_active = ''ACTIVE''"
definition connection_error :: string where "connection_error = ''ERROR''"

definition command_pending :: string where "command_pending = ''PENDING''"
definition command_active :: string where "command_active = ''ACTIVE''"
definition command_error :: string where "command_error = ''ERROR''"
definition command_superseded :: string where "command_superseded = ''SUPERSEDED''"

lemmas connection_states = connection_pending_def connection_active_def connection_error_def
lemmas command_states = command_pending_def command_active_def command_error_def command_superseded_def
lemmas provision_errors = err_node_code_immutable_def err_issuer_locked_def err_provision_replay_def
  err_provision_superseded_def err_stale_provision_result_def

record hub_node =
  node_id :: int
  node_code :: string
  node_name :: string
  node_status :: int
  discovery_type :: string
  service_name :: string
  management_base_url :: string
  hub_issuer :: string
  oidc_client_id :: string
  oidc_client_secret :: encrypted_secret
  management_bearer :: encrypted_secret
  capabilities_json :: string
  connection_status :: string
  connection_version :: string
  connection_request_hash :: string
  target_revision :: int
  issuer_locked_at :: "time option"
  last_connection_error :: string
  last_connection_trace_id :: string
  last_healthy_at :: "time option"
  node_created_at :: time
  node_updated_at :: time

record node_metadata =
  meta_code :: string
  meta_name :: string
  meta_discovery_type :: string
  meta_service_name :: string
  meta_base_url :: string
  meta_issuer :: string
  meta_capabilities :: string

record provision_decision =
  already_active :: bool
  new_version :: bool
  needs_managed_client :: bool
  rotate_secret :: bool
  decision_revision :: int

record connection_command =
  command_node :: string
  command_version :: string
  command_hash :: string
  command_revision :: int
  command_state :: string
  command_created :: time
  command_updated :: time

section \<open>Operations\<close>

definition ensure_target_revision :: "hub_node \<Rightarrow> hub_node" where
  "ensure_target_revision n = (if target_revision n < 1 then n\<lparr>target_revision := 1\<rparr> else n)"

definition effective_target_revision :: "hub_node \<Rightarrow> int" where
  "effective_target_revision n = target_revision (ensure_target_revision n)"

definition invalidate_target :: "time \<Rightarrow> string \<Rightarrow> hub_node \<Rightarrow> hub_node" where
  "invalidate_target now reason n =
     (let n1 = ensure_target_revision n
      in n1\<lparr>target_revision := target_revision n1 + 1, connection_status := connection_pending,
           last_connection_error := reason, last_connection_trace_id := [], node_updated_at := now\<rparr>)"

definition edit_metadata :: "node_metadata \<Rightarrow> time \<Rightarrow> hub_node \<Rightarrow> unit result \<times> hub_node" where
  "edit_metadata m now n =
     (if meta_code m \<noteq> node_code n then (Inl err_node_code_immutable, n)
      else if (issuer_locked_at n \<noteq> None \<or> connection_status n = connection_active)
              \<and> meta_issuer m \<noteq> hub_issuer n
      then (Inl err_issuer_locked, n)
      else let target_changed = (discovery_type n \<noteq> meta_discovery_type m \<or>
                 service_name n \<noteq> meta_service_name m \<or> management_base_url n \<noteq> meta_base_url m);
               n1 = n\<lparr>node_name := meta_name m, discovery_type := meta_discovery_type m,
                      service_name := meta_service_name m, management_base_url := meta_base_url m,
                      hub_issuer := meta_issuer m, capabilities_json := meta_capabilities m\<rparr>;
               n2 = (if target_changed
                     then invalidate_target now (''Node'' @ utf8 [0x8DEF, 0x7531, 0x76EE, 0x6807, 0x5DF2, 0x53D8, 0x66F4]) n1 else n1)
           in (Inr (), n2\<lparr>node_updated_at := now\<rparr>))"

definition replace_management_bearer :: "encrypted_secret \<Rightarrow> time \<Rightarrow> hub_node \<Rightarrow> hub_node" where
  "replace_management_bearer secret now n =
     (invalidate_target now (''Node'' @ utf8 [0x7BA1, 0x7406, 0x51ED, 0x8BC1, 0x5DF2, 0x53D8, 0x66F4])
        (n\<lparr>management_bearer := secret\<rparr>))\<lparr>node_updated_at := now\<rparr>"

definition set_node_status :: "int \<Rightarrow> time \<Rightarrow> hub_node \<Rightarrow> hub_node" where
  "set_node_status status now n =
     (let n1 = (if node_status n \<noteq> status
                then let m = ensure_target_revision n in m\<lparr>target_revision := target_revision m + 1\<rparr>
                else n);
          n2 = (if node_status n1 \<noteq> node_status_disabled \<and> status = node_status_disabled
                   \<and> connection_status n1 = connection_pending
                then n1\<lparr>connection_status := connection_error,
                        last_connection_error := (''Node'' @ utf8 [0x5DF2, 0x7981, 0x7528]),
                        last_connection_trace_id := []\<rparr>
                else n1)
      in n2\<lparr>node_status := status, node_updated_at := now\<rparr>)"

definition record_healthy :: "time \<Rightarrow> hub_node \<Rightarrow> hub_node" where
  "record_healthy now n = n\<lparr>last_healthy_at := Some now, node_updated_at := now\<rparr>"

definition copy_node ::
    "int \<Rightarrow> string \<Rightarrow> string \<Rightarrow> encrypted_secret \<Rightarrow> time \<Rightarrow> hub_node \<Rightarrow> hub_node" where
  "copy_node new_id code name bearer now n =
     \<lparr>node_id = new_id, node_code = code, node_name = name, node_status = node_status_disabled,
      discovery_type = discovery_type n, service_name = service_name n,
      management_base_url = management_base_url n, hub_issuer = hub_issuer n,
      oidc_client_id = [], oidc_client_secret = no_secret, management_bearer = bearer,
      capabilities_json = capabilities_json n, connection_status = connection_pending,
      connection_version = [], connection_request_hash = [], target_revision = 1,
      issuer_locked_at = None, last_connection_error = [], last_connection_trace_id = [],
      last_healthy_at = None, node_created_at = now, node_updated_at = now\<rparr>"

definition start_provision ::
    "string \<Rightarrow> string \<Rightarrow> bool \<Rightarrow> time \<Rightarrow> hub_node \<Rightarrow> provision_decision result \<times> hub_node" where
  "start_provision version request_hash rotate_requested now node =
     (let n = ensure_target_revision node;
          newer = (connection_version n \<noteq> version)
      in if \<not> newer \<and> connection_request_hash n \<noteq> [] \<and> connection_request_hash n \<noteq> request_hash
         then (Inl err_provision_replay, n)
         else if connection_status n = connection_active \<and> \<not> newer
         then (Inr \<lparr>already_active = True, new_version = False, needs_managed_client = False,
                    rotate_secret = False, decision_revision = 0\<rparr>, n)
         else let n1 = (if connection_status n = connection_active \<and> issuer_locked_at n = None
                        then n\<lparr>issuer_locked_at := Some now\<rparr> else n)
              in (Inr \<lparr>already_active = False, new_version = newer,
                       needs_managed_client =
                         (newer \<or> \<not> secret_present (oidc_client_secret n1) \<or> oidc_client_id n1 = []),
                       rotate_secret = (rotate_requested \<and> newer),
                       decision_revision = target_revision n1\<rparr>,
                  n1\<lparr>connection_status := connection_pending, connection_version := version,
                     connection_request_hash := request_hash, last_connection_error := [],
                     last_connection_trace_id := [], node_updated_at := now\<rparr>))"

definition accept_managed_client :: "string \<Rightarrow> encrypted_secret \<Rightarrow> time \<Rightarrow> hub_node \<Rightarrow> hub_node" where
  "accept_managed_client client_id secret now n =
     (let n1 = (if client_id \<noteq> [] then n\<lparr>oidc_client_id := client_id\<rparr> else n);
          n2 = (if secret_present secret then n1\<lparr>oidc_client_secret := secret\<rparr> else n1)
      in n2\<lparr>node_updated_at := now\<rparr>)"

definition complete_provision ::
    "string \<Rightarrow> string \<Rightarrow> time \<Rightarrow> hub_node \<Rightarrow> unit result \<times> hub_node" where
  "complete_provision version request_hash now n =
     (if connection_version n \<noteq> version \<or> connection_request_hash n \<noteq> request_hash
      then (Inl err_stale_provision_result, n)
      else let n1 = n\<lparr>connection_status := connection_active, last_connection_error := [],
                     last_connection_trace_id := [], node_updated_at := now\<rparr>
           in (Inr (), if issuer_locked_at n1 = None then n1\<lparr>issuer_locked_at := Some now\<rparr> else n1))"

definition complete_provision_for_target ::
    "string \<Rightarrow> string \<Rightarrow> int \<Rightarrow> time \<Rightarrow> hub_node \<Rightarrow> unit result \<times> hub_node" where
  "complete_provision_for_target version request_hash revision now node =
     (let n = ensure_target_revision node
      in if node_status n \<noteq> node_status_enabled \<or> target_revision n \<noteq> revision
         then (Inl err_stale_provision_result, n)
         else complete_provision version request_hash now n)"

definition fail_provision ::
    "string \<Rightarrow> string \<Rightarrow> string \<Rightarrow> string \<Rightarrow> time \<Rightarrow> hub_node \<Rightarrow> bool \<times> hub_node" where
  "fail_provision version request_hash message trace_id now n =
     (if connection_version n \<noteq> version \<or> connection_request_hash n \<noteq> request_hash
         \<or> connection_status n = connection_active
      then (False, n)
      else (True, n\<lparr>connection_status := connection_error, last_connection_error := message,
                    last_connection_trace_id := trace_id, node_updated_at := now\<rparr>))"

definition fail_provision_for_target ::
    "string \<Rightarrow> string \<Rightarrow> int \<Rightarrow> string \<Rightarrow> string \<Rightarrow> time \<Rightarrow> hub_node \<Rightarrow> bool \<times> hub_node" where
  "fail_provision_for_target version request_hash revision message trace_id now node =
     (let n = ensure_target_revision node
      in if target_revision n \<noteq> revision then (False, n)
         else fail_provision version request_hash message trace_id now n)"

section \<open>The entity alone\<close>

text \<open>The operations an administrator or a saga applies to a node, one after the other.\<close>

datatype node_op =
    EditMetadata node_metadata time
  | ReplaceBearer encrypted_secret time
  | SetStatus int time
  | RecordHealthy time
  | StartProvision string string bool time
  | AcceptClient string encrypted_secret time
  | CompleteProvision string string int time
  | FailProvision string string int string string time

fun node_exec :: "node_op \<Rightarrow> hub_node \<Rightarrow> hub_node" where
  "node_exec (EditMetadata m now) n = snd (edit_metadata m now n)"
| "node_exec (ReplaceBearer s now) n = replace_management_bearer s now n"
| "node_exec (SetStatus st now) n = set_node_status st now n"
| "node_exec (RecordHealthy now) n = record_healthy now n"
| "node_exec (StartProvision v h rot now) n = snd (start_provision v h rot now n)"
| "node_exec (AcceptClient c s now) n = accept_managed_client c s now n"
| "node_exec (CompleteProvision v h gen now) n = snd (complete_provision_for_target v h gen now n)"
| "node_exec (FailProvision v h gen msg trace now) n =
     snd (fail_provision_for_target v h gen msg trace now n)"

lemmas node_operation_defs =
  edit_metadata_def replace_management_bearer_def set_node_status_def record_healthy_def
  start_provision_def accept_managed_client_def complete_provision_for_target_def
  complete_provision_def fail_provision_for_target_def fail_provision_def invalidate_target_def
  ensure_target_revision_def Let_def

definition issuer_settled :: "hub_node \<Rightarrow> bool" where
  "issuer_settled n \<longleftrightarrow> issuer_locked_at n \<noteq> None \<or> connection_status n = connection_active"

lemma node_exec_code: "node_code (node_exec p n) = node_code n"
  by (cases p) (auto simp: node_operation_defs)

lemma node_exec_revision: "effective_target_revision n \<le> effective_target_revision (node_exec p n)"
  by (cases p) (auto simp: node_operation_defs effective_target_revision_def)

lemma node_exec_locked: "issuer_locked_at n = Some t \<Longrightarrow> issuer_locked_at (node_exec p n) = Some t"
  by (cases p) (auto simp: node_operation_defs)

lemma node_exec_issuer: "issuer_settled n \<Longrightarrow> hub_issuer (node_exec p n) = hub_issuer n"
  by (cases p) (auto simp: node_operation_defs issuer_settled_def)

definition active_locked :: "hub_node \<Rightarrow> bool" where
  "active_locked n \<longleftrightarrow> (connection_status n = connection_active \<longrightarrow> issuer_locked_at n \<noteq> None)"

lemma node_exec_active_locked: "active_locked n \<Longrightarrow> active_locked (node_exec p n)"
  by (cases p) (auto simp: node_operation_defs active_locked_def connection_states)

text \<open>The route of a node: what the target revision stands for.\<close>

definition node_route :: "hub_node \<Rightarrow> string \<times> string \<times> string \<times> encrypted_secret \<times> int" where
  "node_route n =
     (discovery_type n, service_name n, management_base_url n, management_bearer n, node_status n)"

lemma node_exec_route:
  "effective_target_revision (node_exec p n) = effective_target_revision n \<Longrightarrow>
   node_route (node_exec p n) = node_route n"
  by (cases p) (auto simp: node_operation_defs effective_target_revision_def node_route_def split: if_splits)

lemma fold_revision_mono: "effective_target_revision n \<le> effective_target_revision (fold node_exec ops n)"
  by (induction ops arbitrary: n) (auto intro: order_trans [OF node_exec_revision])

section \<open>Properties of the entity\<close>

definition sample_node :: hub_node where
  "sample_node =
     \<lparr>node_id = 1, node_code = ''edge-1'', node_name = ''Edge'', node_status = 0,
      discovery_type = ''CONSUL'', service_name = ''edge'', management_base_url = [],
      hub_issuer = ''https://hub'', oidc_client_id = ''hub-node-edge-1'',
      oidc_client_secret = \<lparr>ciphertext = ''c'', edek = ''e'', wrap_key_ref = ''w''\<rparr>,
      management_bearer = \<lparr>ciphertext = ''c'', edek = ''e'', wrap_key_ref = ''w''\<rparr>,
      capabilities_json = [], connection_status = ''PENDING'', connection_version = ''v1'',
      connection_request_hash = ''h1'', target_revision = 1, issuer_locked_at = None,
      last_connection_error = [], last_connection_trace_id = [], last_healthy_at = None,
      node_created_at = 0, node_updated_at = 0\<rparr>"

text \<open>Identity of a node under any sequence of operations. The code of a node never changes; its target
  revision never decreases; as long as it is unchanged, so are the route, the management credential and
  the enablement it stands for; and an active node has its issuer locked, if it had so at the start.\<close>

lemma node_identity:
  "node_code (fold node_exec ops n) = node_code n \<and>
   effective_target_revision n \<le> effective_target_revision (fold node_exec ops n) \<and>
   (effective_target_revision (fold node_exec ops n) = effective_target_revision n \<longrightarrow>
      node_route (fold node_exec ops n) = node_route n) \<and>
   (active_locked n \<longrightarrow> active_locked (fold node_exec ops n))"
proof (induction ops arbitrary: n)
  case (Cons p ops)
  have "effective_target_revision n \<le> effective_target_revision (node_exec p n)"
    by (rule node_exec_revision)
  with Cons [of "node_exec p n"] show ?case
    using node_exec_code [of p n] node_exec_route [of p n] node_exec_active_locked [of n p] by auto
qed simp

theorem node_identity_witness:
  "active_locked (fold node_exec [CompleteProvision ''v1'' ''h1'' 1 5] sample_node)"
  using node_identity [of "[CompleteProvision ''v1'' ''h1'' 1 5]" sample_node]
  by (simp add: active_locked_def sample_node_def connection_states)

text \<open>The issuer of a node is permanent once it is locked (which the first activation does). From then on no
  sequence of operations changes the issuer of the node or the time of the lock.\<close>

lemma issuer_permanent:
  assumes "issuer_locked_at n = Some t"
  shows "hub_issuer (fold node_exec ops n) = hub_issuer n \<and> issuer_locked_at (fold node_exec ops n) = Some t"
  using assms
proof (induction ops arbitrary: n)
  case (Cons p ops)
  with Cons.IH [of "node_exec p n"] node_exec_locked [of n t p] node_exec_issuer [of n p]
  show ?case by (simp add: issuer_settled_def)
qed simp

definition sample_takeover :: node_op where
  "sample_takeover =
     EditMetadata \<lparr>meta_code = ''edge-1'', meta_name = ''x'', meta_discovery_type = ''CONSUL'',
       meta_service_name = ''edge'', meta_base_url = [], meta_issuer = ''https://evil'',
       meta_capabilities = []\<rparr> 9"

theorem issuer_permanent_witness:
  "hub_issuer (fold node_exec [sample_takeover] (sample_node\<lparr>issuer_locked_at := Some 5\<rparr>)) =
     hub_issuer sample_node"
  using issuer_permanent [of "sample_node\<lparr>issuer_locked_at := Some 5\<rparr>" 5 "[sample_takeover]"] by simp

end
