(* ===== verification/Hub_Saga.thy ===== *)
theory Hub_Saga
  imports Hub_Node Federation
begin

text \<open>
  The connection saga of the hub (\<open>app/hub_control/application/service.go\<close>) over its repository
  (\<open>app/hub_control/infrastructure/repository.go\<close>). \<open>ProvisionNodeConnection\<close> is three steps: a
  transaction that accepts the request and records it in the ledger of connection commands, a call to
  the remote node, and a second transaction that records success or failure against the snapshot of
  the node taken by the first. Administrator changes may come between them.

  The repository state is the table of nodes by code and the ledger by node and version; an update
  statement writes the columns the source lists. The environment record holds what is not under the
  repository's control: the request hash (JSON and SHA-256), URL parsing, the managed SSO client, the
  envelope encryption and the remote call. The readings of the clock within one transaction are one
  instant. A nil dereference is the runtime error that the recovery middleware receives.
\<close>

section \<open>State and environment\<close>

record hub_state =
  hub_nodes :: "string \<rightharpoonup> hub_node"
  hub_commands :: "string \<times> string \<rightharpoonup> connection_command"

record provision_request =
  pr_node_code :: string
  pr_version :: string
  pr_display_name :: string
  pr_redirect_uri :: string
  pr_rotate_secret :: bool
  pr_reason :: string
  pr_idempotency_key :: string

record managed_client =
  mc_client_id :: string
  mc_client_secret :: string

record parsed_url =
  url_scheme :: string
  url_host :: string
  url_fragment :: string

record hub_env =
  env_request_hash :: "provision_request \<Rightarrow> string result"
  env_parse_url :: "string \<Rightarrow> parsed_url result"
  env_upsert_client :: "string \<Rightarrow> string \<Rightarrow> string \<Rightarrow> bool \<Rightarrow> string \<Rightarrow> managed_client option result"
  env_set_client_status :: "string \<Rightarrow> string \<Rightarrow> int \<Rightarrow> unit result"
  env_encrypt :: "string \<Rightarrow> encrypted_secret result"
  env_decrypt :: "encrypted_secret \<Rightarrow> string result"
  env_apply_remote :: "hub_node \<Rightarrow> string \<Rightarrow> provision_request \<Rightarrow> unit result"
  env_trace_id :: string
  env_allow_http :: bool

definition err_no_rows :: go_error where "err_no_rows = PlainError ''sql: no rows in result set''"

definition nil_dereference :: go_error where
  "nil_dereference = PlainError ''runtime error: invalid memory address or nil pointer dereference''"

section \<open>The repository\<close>

definition find_node :: "string \<Rightarrow> hub_state \<Rightarrow> hub_node option" where
  "find_node code st = hub_nodes st (trim_space code)"

definition update_stored ::
    "(hub_node \<Rightarrow> hub_node) \<Rightarrow> hub_node \<Rightarrow> hub_state \<Rightarrow> unit result \<times> hub_state" where
  "update_stored f n st =
     (case hub_nodes st (node_code n) of
        None \<Rightarrow> (Inl err_no_rows, st)
      | Some r \<Rightarrow> (Inr (), st\<lparr>hub_nodes := (hub_nodes st)(node_code n \<mapsto> f r)\<rparr>))"

text \<open>The columns that each update statement takes from the node in memory.\<close>

definition with_metadata :: "hub_node \<Rightarrow> hub_node \<Rightarrow> hub_node" where
  "with_metadata n r =
     r\<lparr>node_name := node_name n, discovery_type := discovery_type n,
       service_name := service_name n, management_base_url := management_base_url n,
       hub_issuer := hub_issuer n, capabilities_json := capabilities_json n,
       node_updated_at := node_updated_at n\<rparr>"

definition with_bearer :: "hub_node \<Rightarrow> hub_node \<Rightarrow> hub_node" where
  "with_bearer n r = r\<lparr>management_bearer := management_bearer n, node_updated_at := node_updated_at n\<rparr>"

definition with_status :: "hub_node \<Rightarrow> hub_node \<Rightarrow> hub_node" where
  "with_status n r = r\<lparr>node_status := node_status n, node_updated_at := node_updated_at n\<rparr>"

definition with_target_state :: "hub_node \<Rightarrow> hub_node \<Rightarrow> hub_node" where
  "with_target_state n r =
     r\<lparr>target_revision := target_revision n, connection_status := connection_status n,
       last_connection_error := last_connection_error n,
       last_connection_trace_id := last_connection_trace_id n,
       node_updated_at := node_updated_at n\<rparr>"

definition with_connection :: "hub_node \<Rightarrow> hub_node \<Rightarrow> hub_node" where
  "with_connection n r =
     r\<lparr>oidc_client_id := oidc_client_id n, oidc_client_secret := oidc_client_secret n,
       connection_status := connection_status n, connection_version := connection_version n,
       connection_request_hash := connection_request_hash n,
       issuer_locked_at := issuer_locked_at n,
       last_connection_error := last_connection_error n,
       last_connection_trace_id := last_connection_trace_id n,
       node_updated_at := node_updated_at n\<rparr>"

definition update_metadata :: "hub_node \<Rightarrow> hub_state \<Rightarrow> unit result \<times> hub_state" where
  "update_metadata n = update_stored (with_metadata n) n"

definition update_bearer :: "hub_node \<Rightarrow> hub_state \<Rightarrow> unit result \<times> hub_state" where
  "update_bearer n = update_stored (with_bearer n) n"

definition update_status :: "hub_node \<Rightarrow> hub_state \<Rightarrow> unit result \<times> hub_state" where
  "update_status n = update_stored (with_status n) n"

definition update_target_state :: "hub_node \<Rightarrow> hub_state \<Rightarrow> unit result \<times> hub_state" where
  "update_target_state n = update_stored (with_target_state n) n"

definition update_connection :: "hub_node \<Rightarrow> hub_state \<Rightarrow> unit result \<times> hub_state" where
  "update_connection n = update_stored (with_connection n) n"

definition find_connection_command :: "string \<Rightarrow> string \<Rightarrow> hub_state \<Rightarrow> connection_command option" where
  "find_connection_command code version st = hub_commands st (trim_space code, trim_space version)"

text \<open>An upsert: an existing row keeps its hash, revision and creation time.\<close>

definition save_connection_command :: "connection_command \<Rightarrow> hub_state \<Rightarrow> hub_state" where
  "save_connection_command c st =
     (let key = (command_node c, command_version c);
          row = (case hub_commands st key of
                   None \<Rightarrow> c
                 | Some old \<Rightarrow>
                     old\<lparr>command_state := command_state c, command_updated := command_updated c\<rparr>)
      in st\<lparr>hub_commands := (hub_commands st)(key \<mapsto> row)\<rparr>)"

section \<open>Validation of a request\<close>

definition validate_node_code :: "string \<Rightarrow> unit result" where
  "validate_node_code value =
     (case canonical_managed_owner value of
        Inl _ \<Rightarrow> Inl (params_error (''nodeCode'' @ utf8 [0x683C, 0x5F0F, 0x65E0, 0x6548]))
      | Inr _ \<Rightarrow> Inr ())"

definition validate_bounded :: "string \<Rightarrow> string \<Rightarrow> nat \<Rightarrow> unit result" where
  "validate_bounded name value bound =
     (let v = trim_space value
      in if v = [] \<or> bound < length v then Inl (params_error (name @ (utf8 [0x4E0D, 0x80FD, 0x4E3A, 0x7A7A, 0x6216, 0x8FC7, 0x957F]))) else Inr ())"

definition validate_write :: "string \<Rightarrow> string \<Rightarrow> unit result" where
  "validate_write key reason =
     (case validate_bounded ''Idempotency-Key'' key 256 of
        Inl e \<Rightarrow> Inl e
      | Inr _ \<Rightarrow>
          if trim_space reason = [] \<or> 512 < rune_count reason
          then Inl (params_error (''reason'' @ utf8 [0x4E0D, 0x80FD, 0x4E3A, 0x7A7A, 0x4E14, 0x4E0D, 0x80FD, 0x8D85, 0x8FC7] @ ''512'' @ utf8 [0x5B57, 0x7B26])) else Inr ())"

text \<open>
  The source reads \<open>parsed.Scheme\<close> before it looks at the error of \<open>url.Parse\<close>, and \<open>parsed\<close> is nil
  when there is an error.
\<close>

definition validate_provision :: "hub_env \<Rightarrow> provision_request \<Rightarrow> unit result" where
  "validate_provision env cmd =
     (case validate_node_code (pr_node_code cmd) of
        Inl e \<Rightarrow> Inl e
      | Inr _ \<Rightarrow>
        (case validate_bounded ''connectionVersion'' (pr_version cmd) 128 of
           Inl e \<Rightarrow> Inl e
         | Inr _ \<Rightarrow>
           (case validate_write (pr_idempotency_key cmd) (pr_reason cmd) of
              Inl e \<Rightarrow> Inl e
            | Inr _ \<Rightarrow>
              (case env_parse_url env (trim_space (pr_redirect_uri cmd)) of
                 Inl _ \<Rightarrow> Inl nil_dereference
               | Inr u \<Rightarrow>
                   if \<not> (url_scheme u = ''https'' \<or> env_allow_http env \<and> url_scheme u = ''http'')
                      \<or> url_host u = [] \<or> url_fragment u \<noteq> [] \<or> 2048 < length (pr_redirect_uri cmd)
                   then Inl (params_error (''redirectUri'' @ utf8 [0x65E0, 0x6548]))
                   else if 128 < rune_count (pr_display_name cmd)
                   then Inl (params_error (''displayName'' @ utf8 [0x8FC7, 0x957F])) else Inr ()))))"

definition map_domain_mutation_error :: "go_error \<Rightarrow> go_error" where
  "map_domain_mutation_error e =
     (if e = err_node_code_immutable
      then object_state_error (''nodeCode'' @ utf8 [0x4E0D, 0x53EF, 0x4FEE, 0x6539, 0xFF0C, 0x8BF7, 0x4F7F, 0x7528, 0x590D, 0x5236, 0x521B, 0x5EFA, 0x65B0, 0x8282, 0x70B9])
      else if e = err_issuer_locked then object_state_error (utf8 [0x8FDE, 0x63A5, 0x6FC0, 0x6D3B, 0x540E] @ ''hubIssuer'' @ utf8 [0x4E0D, 0x53EF, 0x4FEE, 0x6539])
      else if e = err_provision_replay
      then object_state_error (utf8 [0x540C, 0x4E00] @ ''connectionVersion'' @ utf8 [0x7684, 0x91CD, 0x653E, 0x8BF7, 0x6C42, 0x4E0D, 0x4E00, 0x81F4])
      else if e = err_provision_superseded
      then object_state_error (''connectionVersion'' @ utf8 [0x5DF2, 0x88AB, 0x540E, 0x7EED, 0x7248, 0x672C, 0x66FF, 0x4EE3])
      else if e = err_stale_provision_result then object_state_error (utf8 [0x8FDE, 0x63A5, 0x7F16, 0x6392, 0x7ED3, 0x679C, 0x5DF2, 0x8FC7, 0x671F])
      else e)"

definition node_missing :: go_error where "node_missing = not_found (''Node'' @ utf8 [0x4E0D, 0x5B58, 0x5728])"

section \<open>The ledger\<close>

definition durable_request_hash :: "string \<Rightarrow> string" where
  "durable_request_hash value = (if length value = 64 then value else replicate 64 (CHR ''0''))"

definition supersede_connection_command ::
    "string \<Rightarrow> string \<Rightarrow> string \<Rightarrow> int \<Rightarrow> time \<Rightarrow> hub_state \<Rightarrow> hub_state" where
  "supersede_connection_command code version request_hash revision now st =
     (if trim_space version = [] then st
      else let c = (case find_connection_command code version st of
                      None \<Rightarrow> \<lparr>command_node = code, command_version = version,
                               command_hash = durable_request_hash request_hash,
                               command_revision = revision, command_state = [],
                               command_created = now, command_updated = zero_time\<rparr>
                    | Some c \<Rightarrow> c)
           in save_connection_command (c\<lparr>command_state := command_superseded, command_updated := now\<rparr>) st)"

definition save_connection_command_state ::
    "hub_node \<Rightarrow> string \<Rightarrow> time \<Rightarrow> hub_state \<Rightarrow> unit result \<times> hub_state" where
  "save_connection_command_state node state now st =
     (case find_connection_command (node_code node) (connection_version node) st of
        None \<Rightarrow> (Inl (map_domain_mutation_error err_stale_provision_result), st)
      | Some c \<Rightarrow>
          if command_hash c \<noteq> connection_request_hash node \<or> command_revision c \<noteq> target_revision node
          then (Inl (map_domain_mutation_error err_stale_provision_result), st)
          else (Inr (), save_connection_command (c\<lparr>command_state := state, command_updated := now\<rparr>) st))"

section \<open>Accepting a request\<close>

definition managed_client_id :: "string \<Rightarrow> string" where
  "managed_client_id code = ''hub-node-'' @ code"

text \<open>The command record of the request: the one in the ledger, checked, or a new one.\<close>

definition provision_command_record ::
    "hub_node \<Rightarrow> provision_request \<Rightarrow> string \<Rightarrow> time \<Rightarrow> hub_state \<Rightarrow> connection_command result \<times> hub_state" where
  "provision_command_record locked cmd request_hash now st =
     (case find_connection_command (node_code locked) (pr_version cmd) st of
        Some c \<Rightarrow>
          if command_hash c \<noteq> request_hash
          then (Inl (map_domain_mutation_error err_provision_replay), st)
          else if command_state c = command_superseded \<or> connection_version locked \<noteq> pr_version cmd
                  \<or> command_revision c \<noteq> target_revision locked
          then (Inl (map_domain_mutation_error err_provision_superseded), st)
          else (Inr c, st)
      | None \<Rightarrow>
          if connection_version locked = pr_version cmd \<and> connection_request_hash locked \<noteq> []
             \<and> connection_request_hash locked \<noteq> request_hash
          then (Inl (map_domain_mutation_error err_provision_replay), st)
          else let st' = (if connection_version locked \<noteq> [] \<and> connection_version locked \<noteq> pr_version cmd
                          then supersede_connection_command (node_code locked) (connection_version locked)
                                 (connection_request_hash locked) (target_revision locked) now st
                          else st)
               in (Inr \<lparr>command_node = node_code locked, command_version = pr_version cmd,
                        command_hash = request_hash, command_revision = target_revision locked,
                        command_state = command_pending, command_created = now,
                        command_updated = now\<rparr>, st'))"

text \<open>The managed SSO client of the node, created or rotated as the decision asks.\<close>

definition provision_client ::
    "hub_env \<Rightarrow> provision_request \<Rightarrow> provision_decision \<Rightarrow> time \<Rightarrow> hub_node \<Rightarrow> hub_node result" where
  "provision_client env cmd d now locked =
     (if \<not> needs_managed_client d then Inr locked
      else let client_id = (if oidc_client_id locked = [] then managed_client_id (node_code locked)
                            else oidc_client_id locked)
           in case env_upsert_client env client_id (''Hub Node '' @ node_name locked) (pr_redirect_uri cmd)
                     (rotate_secret d) (node_code locked) of
                Inl e \<Rightarrow> Inl e
              | Inr managed \<Rightarrow>
                  let managed_id = (case managed of
                                      Some m \<Rightarrow> if mc_client_id m \<noteq> [] then mc_client_id m else client_id
                                    | None \<Rightarrow> client_id)
                  in case (case managed of
                             Some m \<Rightarrow>
                               if mc_client_secret m \<noteq> []
                                  \<and> (\<not> secret_present (oidc_client_secret locked) \<or> rotate_secret d)
                               then env_encrypt env (mc_client_secret m) else Inr no_secret
                           | None \<Rightarrow> Inr no_secret) of
                       Inl e \<Rightarrow> Inl e
                     | Inr secret \<Rightarrow> Inr (accept_managed_client managed_id secret now locked))"

text \<open>The rest of the first transaction, once the record of the command \<open>c\<close> is there.\<close>

definition provision_continue ::
    "hub_env \<Rightarrow> provision_request \<Rightarrow> string \<Rightarrow> time \<Rightarrow> hub_node \<Rightarrow> connection_command \<Rightarrow> hub_state \<Rightarrow>
     (bool \<times> hub_node) result \<times> hub_state" where
  "provision_continue env cmd request_hash now locked c st =
     (case start_provision (pr_version cmd) request_hash (pr_rotate_secret cmd) now locked of
        (Inl e, _) \<Rightarrow> (Inl (map_domain_mutation_error e), st)
      | (Inr d, n1) \<Rightarrow>
          if already_active d
          then (Inr (True, n1),
                save_connection_command (c\<lparr>command_state := command_active, command_updated := now\<rparr>) st)
          else (case provision_client env cmd d now n1 of
                  Inl e \<Rightarrow> (Inl e, st)
                | Inr n2 \<Rightarrow>
                    if \<not> secret_present (oidc_client_secret n2)
                    then (Inl (PlainError ''managed SSO client secret unavailable''), st)
                    else then_do (update_connection n2 st) (\<lambda>_ st2.
                           (Inr (False, n2),
                            save_connection_command
                              (c\<lparr>command_revision := decision_revision d,
                                 command_state := command_pending,
                                 command_updated := now\<rparr>) st2))))"

definition provision_accept ::
    "hub_env \<Rightarrow> provision_request \<Rightarrow> string \<Rightarrow> time \<Rightarrow> hub_state \<Rightarrow> (bool \<times> hub_node) result \<times> hub_state" where
  "provision_accept env cmd request_hash now st =
     (case find_node (pr_node_code cmd) st of
        None \<Rightarrow> (Inl node_missing, st)
      | Some found \<Rightarrow>
          if node_status found \<noteq> node_status_enabled
          then (Inl (object_state_error (''Node'' @ utf8 [0x5DF2, 0x7981, 0x7528])), st)
          else let locked = ensure_target_revision found
               in then_do (provision_command_record locked cmd request_hash now st)
                    (provision_continue env cmd request_hash now locked))"

section \<open>Recording the outcome\<close>

text \<open>The bodies of the two terminal transactions, against the snapshot \<open>node\<close>.\<close>

definition saga_failed_message :: string where
  "saga_failed_message = utf8 [0x8282, 0x70B9, 0x8FDE, 0x63A5, 0x7F16, 0x6392, 0x5931, 0x8D25]"

definition fail_saga_body :: "string \<Rightarrow> hub_node \<Rightarrow> time \<Rightarrow> hub_state \<Rightarrow> unit result \<times> hub_state" where
  "fail_saga_body trace_id node now st =
     (case find_node (node_code node) st of
        None \<Rightarrow> (Inl node_missing, st)
      | Some current \<Rightarrow>
          (case fail_provision_for_target (connection_version node) (connection_request_hash node)
                  (target_revision node) saga_failed_message trace_id now current of
             (False, _) \<Rightarrow> (Inr (), st)
           | (True, n) \<Rightarrow>
               then_do (update_connection n st) (\<lambda>_ st1.
                 save_connection_command_state node command_error now st1)))"

definition complete_saga_body :: "hub_node \<Rightarrow> time \<Rightarrow> hub_state \<Rightarrow> unit result \<times> hub_state" where
  "complete_saga_body node now st =
     (case find_node (node_code node) st of
        None \<Rightarrow> (Inl node_missing, st)
      | Some current \<Rightarrow>
          (case complete_provision_for_target (connection_version node) (connection_request_hash node)
                  (target_revision node) now current of
             (Inl e, _) \<Rightarrow> (Inl (map_domain_mutation_error e), st)
           | (Inr _, n) \<Rightarrow>
               then_do (update_connection n st) (\<lambda>_ st1.
                 save_connection_command_state node command_active now st1)))"

text \<open>The text of \<open>%v\<close> of the cause is its message.\<close>

definition fail_saga ::
    "hub_env \<Rightarrow> sql_outcome \<Rightarrow> hub_node \<Rightarrow> go_error \<Rightarrow> time \<Rightarrow> hub_state \<Rightarrow> go_error \<times> hub_state" where
  "fail_saga env outcome node cause now st =
     (case within_transaction outcome (fail_saga_body (env_trace_id env) node now) st of
        (Inl e, st') \<Rightarrow>
          (WrapError (''persist connection error after '' @ error_text cause @ '': '' @ error_text e) e, st')
      | (Inr _, st') \<Rightarrow> (cause, st'))"

definition complete_saga ::
    "sql_outcome \<Rightarrow> hub_node \<Rightarrow> time \<Rightarrow> hub_state \<Rightarrow> unit result \<times> hub_state" where
  "complete_saga outcome node now st = within_transaction outcome (complete_saga_body node now) st"

text \<open>
  The first step of \<open>ProvisionNodeConnection\<close> and what follows its commit. Between the two, and during
  the remote call, other requests change the state: \<open>others\<close> is their effect.
\<close>

definition provision_first ::
    "hub_env \<Rightarrow> sql_outcome \<Rightarrow> provision_request \<Rightarrow> time \<Rightarrow> hub_state \<Rightarrow> (bool \<times> hub_node) result \<times> hub_state" where
  "provision_first env outcome cmd now st =
     (case validate_provision env cmd of
        Inl e \<Rightarrow> (Inl e, st)
      | Inr _ \<Rightarrow>
          (case env_request_hash env cmd of
             Inl e \<Rightarrow> (Inl e, st)
           | Inr h \<Rightarrow> within_transaction outcome (provision_accept env cmd h now) st))"

definition provision_node_connection ::
    "hub_env \<Rightarrow> sql_outcome \<Rightarrow> sql_outcome \<Rightarrow> (hub_state \<Rightarrow> hub_state) \<Rightarrow> provision_request \<Rightarrow> time \<Rightarrow> time \<Rightarrow>
     hub_state \<Rightarrow> unit result \<times> hub_state" where
  "provision_node_connection env oc1 oc2 others cmd now later st =
     (case provision_first env oc1 cmd now st of
        (Inl e, st1) \<Rightarrow> (Inl e, st1)
      | (Inr (True, _), st1) \<Rightarrow> (Inr (), st1)
      | (Inr (False, node), st1) \<Rightarrow>
          (case env_decrypt env (oidc_client_secret node) of
             Inl e \<Rightarrow> let (err, st2) = fail_saga env oc2 node e later (others st1) in (Inl err, st2)
           | Inr secret \<Rightarrow>
               (case env_apply_remote env (ensure_target_revision node) secret cmd of
                  Inl e \<Rightarrow> let (err, st2) = fail_saga env oc2 (ensure_target_revision node) e later (others st1)
                           in (Inl err, st2)
                | Inr _ \<Rightarrow> complete_saga oc2 (ensure_target_revision node) later (others st1))))"

section \<open>Administrator changes\<close>

text \<open>The status of the node is given to its managed SSO client, if it has one.\<close>

definition client_status_update :: "hub_env \<Rightarrow> hub_node \<Rightarrow> unit result" where
  "client_status_update env n =
     (if oidc_client_id n \<noteq> [] then env_set_client_status env (oidc_client_id n) (node_code n) (node_status n)
      else Inr ())"

text \<open>\<open>SetNodeStatus\<close>, up to its commit; disabling then informs the remote node.\<close>

definition set_status_body :: "hub_env \<Rightarrow> string \<Rightarrow> int \<Rightarrow> time \<Rightarrow> hub_state \<Rightarrow> hub_node result \<times> hub_state" where
  "set_status_body env code status now st =
     (case find_node code st of
        None \<Rightarrow> (Inl node_missing, st)
      | Some found \<Rightarrow>
          let n0 = ensure_target_revision found; n = set_node_status status now n0
          in case client_status_update env n of
               Inl e \<Rightarrow> (Inl e, st)
             | Inr _ \<Rightarrow>
                 then_do (update_status n st) (\<lambda>_ st1.
                   if target_revision n = target_revision n0 then (Inr n, st1)
                   else then_do (update_target_state n st1) (\<lambda>_ st2.
                          (Inr n, supersede_connection_command (node_code n) (connection_version n0)
                                    (connection_request_hash n0) (target_revision n0) now st2))))"

definition set_status ::
    "hub_env \<Rightarrow> sql_outcome \<Rightarrow> string \<Rightarrow> int \<Rightarrow> time \<Rightarrow> hub_state \<Rightarrow> hub_node result \<times> hub_state" where
  "set_status env outcome code status now st =
     (if status \<noteq> node_status_enabled \<and> status \<noteq> node_status_disabled
      then (Inl (params_error (''status'' @ utf8 [0x65E0, 0x6548])), st)
      else within_transaction outcome (set_status_body env code status now) st)"

text \<open>
  \<open>SaveNode\<close> on an existing node, for a normalized command: new metadata, a status, and a new
  management credential if one was given (already encrypted).
\<close>

definition save_node_body ::
    "hub_env \<Rightarrow> node_metadata \<Rightarrow> int \<Rightarrow> encrypted_secret \<Rightarrow> time \<Rightarrow> hub_node \<Rightarrow> hub_state \<Rightarrow>
     hub_node result \<times> hub_state" where
  "save_node_body env m status replacement now found st =
     (let n0 = ensure_target_revision found
      in case edit_metadata m now n0 of
           (Inl e, _) \<Rightarrow> (Inl (map_domain_mutation_error e), st)
         | (Inr _, n1) \<Rightarrow>
             let changed = (node_status n1 \<noteq> status); n2 = set_node_status status now n1
             in then_do (update_metadata n2 st) (\<lambda>_ st1.
                then_do (if changed then update_status n2 st1 else (Inr (), st1)) (\<lambda>_ st2.
                let n3 = (if secret_present replacement then replace_management_bearer replacement now n2 else n2)
                in then_do (if secret_present replacement then update_bearer n3 st2 else (Inr (), st2)) (\<lambda>_ st3.
                then_do (if changed then client_status_update env n3 else Inr (), st3) (\<lambda>_ st4.
                if target_revision n3 = target_revision n0 then (Inr n3, st4)
                else then_do (update_target_state n3 st4) (\<lambda>_ st5.
                       (Inr n3, supersede_connection_command (node_code n3) (connection_version n0)
                                  (connection_request_hash n0) (target_revision n0) now st5)))))))"

text \<open>The node that \<open>SaveNode\<close> inserts, and \<open>SaveNode\<close> with its lookup; \<open>new_id\<close> is the next identifier.\<close>

definition new_hub_node :: "int \<Rightarrow> node_metadata \<Rightarrow> int \<Rightarrow> encrypted_secret \<Rightarrow> time \<Rightarrow> hub_node" where
  "new_hub_node new_id m status bearer now =
     \<lparr>node_id = new_id, node_code = meta_code m, node_name = meta_name m,
      node_status = status, discovery_type = meta_discovery_type m,
      service_name = meta_service_name m, management_base_url = meta_base_url m,
      hub_issuer = meta_issuer m, oidc_client_id = [], oidc_client_secret = no_secret,
      management_bearer = bearer, capabilities_json = meta_capabilities m,
      connection_status = connection_pending, connection_version = [],
      connection_request_hash = [], target_revision = 1, issuer_locked_at = None,
      last_connection_error = [], last_connection_trace_id = [],
      last_healthy_at = None, node_created_at = now, node_updated_at = now\<rparr>"

definition insert_node :: "hub_node \<Rightarrow> hub_state \<Rightarrow> hub_state" where
  "insert_node n st = st\<lparr>hub_nodes := (hub_nodes st)(node_code n \<mapsto> n)\<rparr>"

definition save_node_transaction ::
    "hub_env \<Rightarrow> int \<Rightarrow> string \<Rightarrow> node_metadata \<Rightarrow> int \<Rightarrow> encrypted_secret \<Rightarrow> time \<Rightarrow> hub_state \<Rightarrow>
     hub_node result \<times> hub_state" where
  "save_node_transaction env new_id original_code m status replacement now st =
     (case find_node (if original_code = [] then meta_code m else original_code) st of
        Some found \<Rightarrow> save_node_body env m status replacement now found st
      | None \<Rightarrow>
          if original_code \<noteq> [] then (Inl node_missing, st)
          else if \<not> secret_present replacement
          then (Inl (params_error (''managementBearer'' @ utf8 [0x4E0D, 0x80FD, 0x4E3A, 0x7A7A])), st)
          else (let n = new_hub_node new_id m status replacement now in (Inr n, insert_node n st)))"

definition save_node ::
    "hub_env \<Rightarrow> sql_outcome \<Rightarrow> int \<Rightarrow> string \<Rightarrow> node_metadata \<Rightarrow> int \<Rightarrow> encrypted_secret \<Rightarrow> time \<Rightarrow> hub_state \<Rightarrow>
     hub_node result \<times> hub_state" where
  "save_node env outcome new_id original_code m status replacement now st =
     within_transaction outcome (save_node_transaction env new_id original_code m status replacement now) st"

end
