(* ===== verification/Hub_Properties.thy ===== *)
theory Hub_Properties
  imports Hub_Saga
begin

text \<open>
  What the connection saga guarantees when requests, results and administrator changes interleave: a
  result is recorded only for the generation it was computed for, and a superseded version of a
  connection is never revived.
\<close>

section \<open>Well-formed states\<close>

definition is_superseded :: "connection_command \<Rightarrow> bool" where
  "is_superseded c \<longleftrightarrow> command_state c = command_superseded"

text \<open>
  Nodes are stored under their trimmed code; a ledger row belongs to a node, has a trimmed version and a
  revision the node has reached; and a superseded row is behind its node, in version or in revision.
\<close>

definition node_ok :: "string \<Rightarrow> hub_node \<Rightarrow> bool" where
  "node_ok k n \<longleftrightarrow> node_code n = k \<and> trim_space k = k \<and>
     trim_space (connection_version n) = connection_version n"

definition command_ok :: "string \<Rightarrow> string \<Rightarrow> connection_command \<Rightarrow> hub_node \<Rightarrow> bool" where
  "command_ok k v c n \<longleftrightarrow>
     command_node c = k \<and> command_version c = v \<and> trim_space v = v \<and> v \<noteq> [] \<and>
     command_revision c \<le> effective_target_revision n \<and>
     (is_superseded c \<longrightarrow> connection_version n \<noteq> v \<or> command_revision c < effective_target_revision n)"

definition hub_inv :: "hub_state \<Rightarrow> bool" where
  "hub_inv st \<longleftrightarrow>
     (\<forall>k n. hub_nodes st k = Some n \<longrightarrow> node_ok k n) \<and>
     (\<forall>k v c. hub_commands st (k, v) = Some c \<longrightarrow> (\<exists>n. hub_nodes st k = Some n \<and> command_ok k v c n))"

definition keeps_superseded :: "hub_state \<Rightarrow> hub_state \<Rightarrow> bool" where
  "keeps_superseded st st' \<longleftrightarrow>
     (\<forall>key c. hub_commands st key = Some c \<and> is_superseded c \<longrightarrow>
        (\<exists>c'. hub_commands st' key = Some c' \<and> is_superseded c'))"

lemma keeps_refl [simp]: "keeps_superseded st st"
  by (simp add: keeps_superseded_def)

lemma keeps_trans: "keeps_superseded st t \<Longrightarrow> keeps_superseded t u \<Longrightarrow> keeps_superseded st u"
  unfolding keeps_superseded_def by blast

lemma keeps_same_commands: "hub_commands st' = hub_commands st \<Longrightarrow> keeps_superseded st st'"
  by (simp add: keeps_superseded_def)

lemma inv_node: "hub_inv st \<Longrightarrow> hub_nodes st k = Some n \<Longrightarrow> node_ok k n"
  by (simp add: hub_inv_def)

lemma inv_command:
  "hub_inv st \<Longrightarrow> hub_commands st (k, v) = Some c \<Longrightarrow> hub_nodes st k = Some n \<Longrightarrow> command_ok k v c n"
  unfolding hub_inv_def by fastforce

section \<open>Primitive changes\<close>

lemma update_stored_Inr:
  "update_stored f n st = (Inr u, st') \<longleftrightarrow>
     (\<exists>r. hub_nodes st (node_code n) = Some r \<and> st' = st\<lparr>hub_nodes := (hub_nodes st)(node_code n \<mapsto> f r)\<rparr>)"
  by (auto simp: update_stored_def split: option.splits)

text \<open>Replacing a node: its revision may not fall, and no superseded row may catch up with it.\<close>

lemma inv_replace_node:
  assumes "hub_inv st" "hub_nodes st k = Some r" "node_ok k r'"
    "effective_target_revision r \<le> effective_target_revision r'"
    "\<forall>c. hub_commands st (k, connection_version r') = Some c \<and> is_superseded c \<longrightarrow>
       command_revision c < effective_target_revision r'"
  shows "hub_inv (st\<lparr>hub_nodes := (hub_nodes st)(k \<mapsto> r')\<rparr>)"
proof -
  have "\<exists>n. ((hub_nodes st)(k \<mapsto> r')) k' = Some n \<and> command_ok k' v c n"
    if row: "hub_commands st (k', v) = Some c" for k' v c
  proof (cases "k' = k")
    case True
    then have "command_ok k v c r" using inv_command [OF assms(1)] row assms(2) by blast
    then have "command_ok k v c r'" using assms(4,5) row True by (auto simp: command_ok_def)
    with True show ?thesis by simp
  next
    case False
    with assms(1) row show ?thesis by (simp add: hub_inv_def)
  qed
  with assms(1,3) show ?thesis by (simp add: hub_inv_def)
qed

text \<open>Saving a row of a stored node.\<close>

lemma save_command_rows:
  "hub_commands (save_connection_command c st) =
     (hub_commands st)((command_node c, command_version c) \<mapsto>
        (case hub_commands st (command_node c, command_version c) of
           None \<Rightarrow> c
         | Some old \<Rightarrow> old\<lparr>command_state := command_state c, command_updated := command_updated c\<rparr>))"
  "hub_nodes (save_connection_command c st) = hub_nodes st"
  by (simp_all add: save_connection_command_def Let_def)

lemma inv_save_command:
  assumes "hub_inv st" "hub_nodes st k = Some n" "command_node c = k" "command_version c = v"
    "trim_space v = v" "v \<noteq> []" "command_revision c \<le> effective_target_revision n"
    "is_superseded c \<longrightarrow> connection_version n \<noteq> v \<or>
       (case hub_commands st (k, v) of None \<Rightarrow> command_revision c | Some old \<Rightarrow> command_revision old)
         < effective_target_revision n"
  shows "hub_inv (save_connection_command c st)"
proof -
  have "\<exists>m. hub_nodes st k' = Some m \<and> command_ok k' v' c' m"
    if row: "hub_commands (save_connection_command c st) (k', v') = Some c'" for k' v' c'
  proof (cases "(k', v') = (k, v)")
    case True
    have "command_ok k v c' n"
    proof (cases "hub_commands st (k, v)")
      case None
      with row True assms show ?thesis by (auto simp: save_command_rows command_ok_def)
    next
      case (Some old)
      then have "command_ok k v old n" using inv_command [OF assms(1) _ assms(2)] by blast
      with row True assms Some show ?thesis
        by (auto simp: save_command_rows command_ok_def is_superseded_def)
    qed
    with True assms(2) show ?thesis by simp
  next
    case False
    with row assms have "hub_commands st (k', v') = Some c'" by (auto simp: save_command_rows split: if_splits)
    with assms(1) show ?thesis by (simp add: hub_inv_def)
  qed
  with assms(1) show ?thesis by (simp add: hub_inv_def save_command_rows)
qed

lemma keeps_save_command:
  assumes "\<forall>old. hub_commands st (command_node c, command_version c) = Some old \<and> is_superseded old \<longrightarrow>
    is_superseded c"
  shows "keeps_superseded st (save_connection_command c st)"
  using assms by (auto simp: keeps_superseded_def save_command_rows is_superseded_def split: option.splits)

text \<open>Superseding a version of a stored node, when the node is past it.\<close>

lemma supersede_nodes [simp]: "hub_nodes (supersede_connection_command k v h g now st) = hub_nodes st"
  by (simp add: supersede_connection_command_def save_command_rows Let_def)

lemma keeps_supersede: "keeps_superseded st (supersede_connection_command k v h g now st)"
proof (cases "trim_space v = []")
  case False
  show ?thesis
    unfolding supersede_connection_command_def Let_def if_not_P [OF False]
    by (rule keeps_save_command) (simp add: is_superseded_def)
qed (simp add: supersede_connection_command_def)

lemma inv_supersede:
  assumes "hub_inv st" "hub_nodes st k = Some n" "trim_space v = v" "g \<le> effective_target_revision n"
    "connection_version n \<noteq> v \<or>
       (case hub_commands st (k, v) of None \<Rightarrow> g | Some old \<Rightarrow> command_revision old) < effective_target_revision n"
  shows "hub_inv (supersede_connection_command k v h g now st)"
proof (cases "v = []")
  case True
  with assms(1) show ?thesis by (simp add: supersede_connection_command_def)
next
  case False
  have k: "trim_space k = k" using inv_node [OF assms(1,2)] by (simp add: node_ok_def)
  show ?thesis
  proof (cases "hub_commands st (k, v)")
    case None
    with False k assms show ?thesis
      unfolding supersede_connection_command_def find_connection_command_def Let_def
      by (auto intro!: inv_save_command)
  next
    case (Some old)
    then have "command_ok k v old n" using inv_command [OF assms(1) _ assms(2)] by blast
    with False k assms Some show ?thesis
      unfolding supersede_connection_command_def find_connection_command_def Let_def
      by (auto simp: command_ok_def intro!: inv_save_command)
  qed
qed

section \<open>The columns of the statements\<close>

lemma with_simps [simp]:
  "node_code (with_metadata n r) = node_code r" "node_code (with_bearer n r) = node_code r"
  "node_code (with_status n r) = node_code r" "node_code (with_target_state n r) = node_code r"
  "node_code (with_connection n r) = node_code r"
  "connection_version (with_metadata n r) = connection_version r"
  "connection_version (with_bearer n r) = connection_version r"
  "connection_version (with_status n r) = connection_version r"
  "connection_version (with_target_state n r) = connection_version r"
  "connection_version (with_connection n r) = connection_version n"
  "target_revision (with_metadata n r) = target_revision r"
  "target_revision (with_bearer n r) = target_revision r"
  "target_revision (with_status n r) = target_revision r"
  "target_revision (with_target_state n r) = target_revision n"
  "target_revision (with_connection n r) = target_revision r"
  "connection_status (with_connection n r) = connection_status n"
  "node_status (with_connection n r) = node_status r"
  "issuer_locked_at (with_connection n r) = issuer_locked_at n"
  "connection_request_hash (with_connection n r) = connection_request_hash n"
  by (simp_all add: with_metadata_def with_bearer_def with_status_def with_target_state_def with_connection_def)

lemma effective_eq: "target_revision r = target_revision n \<Longrightarrow> effective_target_revision r = effective_target_revision n"
  by (simp add: effective_target_revision_def ensure_target_revision_def)

lemma ensure_simps [simp]:
  "node_code (ensure_target_revision n) = node_code n"
  "connection_version (ensure_target_revision n) = connection_version n"
  "connection_request_hash (ensure_target_revision n) = connection_request_hash n"
  "connection_status (ensure_target_revision n) = connection_status n"
  "node_status (ensure_target_revision n) = node_status n"
  "issuer_locked_at (ensure_target_revision n) = issuer_locked_at n"
  "target_revision (ensure_target_revision n) = effective_target_revision n"
  "effective_target_revision (ensure_target_revision n) = effective_target_revision n"
  by (simp_all add: ensure_target_revision_def effective_target_revision_def)

lemmas update_defs = update_metadata_def update_bearer_def update_status_def update_target_state_def
  update_connection_def

lemma inv_find: "hub_inv st \<Longrightarrow> find_node code st = Some n \<Longrightarrow> node_ok (trim_space code) n"
  by (simp add: find_node_def inv_node)

section \<open>Recording an outcome\<close>

text \<open>The snapshot is the one of the current generation, and its ledger row is not superseded.\<close>

definition current_generation :: "hub_node \<Rightarrow> hub_node \<Rightarrow> bool" where
  "current_generation snapshot current \<longleftrightarrow>
     connection_version current = connection_version snapshot \<and>
     connection_request_hash current = connection_request_hash snapshot \<and>
     effective_target_revision current = target_revision snapshot"

lemma complete_for_target_Inr:
  "complete_provision_for_target v h g now n = (Inr u, n') \<longleftrightarrow>
     node_status n = node_status_enabled \<and> effective_target_revision n = g \<and>
     connection_version n = v \<and> connection_request_hash n = h \<and>
     (let m = (ensure_target_revision n)\<lparr>connection_status := connection_active,
            last_connection_error := [], last_connection_trace_id := [], node_updated_at := now\<rparr>
      in n' = (if issuer_locked_at n = None then m\<lparr>issuer_locked_at := Some now\<rparr> else m))"
  by (auto simp: complete_provision_for_target_def complete_provision_def Let_def)

lemma fail_for_target_True:
  "fail_provision_for_target v h g msg trace now n = (True, n') \<Longrightarrow>
     effective_target_revision n = g \<and> connection_version n = v \<and> connection_request_hash n = h \<and>
     connection_status n \<noteq> connection_active \<and>
     n' = (ensure_target_revision n)\<lparr>connection_status := connection_error, last_connection_error := msg,
       last_connection_trace_id := trace, node_updated_at := now\<rparr>"
  by (auto simp: fail_provision_for_target_def fail_provision_def Let_def split: if_splits)

lemma save_state_Inr:
  "save_connection_command_state s state now st = (Inr u, st') \<longleftrightarrow>
     (\<exists>c. find_connection_command (node_code s) (connection_version s) st = Some c \<and>
        command_hash c = connection_request_hash s \<and> command_revision c = target_revision s \<and>
        st' = save_connection_command (c\<lparr>command_state := state, command_updated := now\<rparr>) st)"
  by (auto simp: save_connection_command_state_def split: option.splits if_splits)

text \<open>Both outcomes: the node of the snapshot gets new connection columns and its row a new state.\<close>

lemma record_outcome:
  assumes inv: "hub_inv st" and cur: "find_node (node_code s) st = Some current"
    and gen: "current_generation s current"
    and n: "node_code n = node_code current" "connection_version n = connection_version current"
    and upd: "update_connection n st = (Inr u, st1)"
    and save: "save_connection_command_state s state now st1 = (Inr u', st')" and state: "state \<noteq> command_superseded"
  shows "hub_inv st' \<and> keeps_superseded st st' \<and>
    hub_nodes st' = (hub_nodes st)(trim_space (node_code s) \<mapsto> with_connection n current) \<and>
    (\<exists>c. hub_commands st' (trim_space (node_code s), connection_version s) = Some c \<and> command_state c = state)"
proof -
  let ?k = "trim_space (node_code s)" and ?v = "connection_version s"
  have stored: "hub_nodes st ?k = Some current" using cur by (simp add: find_node_def)
  have ok: "node_ok ?k current" by (rule inv_node [OF inv stored])
  then have code: "node_code n = ?k" and ver: "trim_space ?v = ?v" and vn: "connection_version n = ?v"
    using n gen by (auto simp: node_ok_def current_generation_def)
  let ?r = "with_connection n current"
  have st1: "st1 = st\<lparr>hub_nodes := (hub_nodes st)(?k \<mapsto> ?r)\<rparr>"
    using upd stored code by (auto simp: update_connection_def update_stored_Inr)
  have eff: "effective_target_revision ?r = effective_target_revision current"
    by (rule effective_eq) simp
  have behind: "\<forall>c. hub_commands st (?k, ?v) = Some c \<and> is_superseded c \<longrightarrow>
      command_revision c < effective_target_revision current"
    using inv_command [OF inv _ stored] gen by (auto simp: command_ok_def current_generation_def)
  have inv1: "hub_inv st1"
    unfolding st1 by (rule inv_replace_node [OF inv stored]) (use ok eff behind vn ver in \<open>auto simp: node_ok_def\<close>)
  obtain c where c: "hub_commands st (?k, ?v) = Some c" "command_revision c = target_revision s"
      "st' = save_connection_command (c\<lparr>command_state := state, command_updated := now\<rparr>) st1"
    using save ver by (auto simp: save_state_Inr find_connection_command_def st1)
  have c_ok: "command_ok ?k ?v c current" by (rule inv_command [OF inv c(1) stored])
  have fresh: "\<not> is_superseded c"
    using behind c(1,2) gen by (auto simp: current_generation_def)
  have node1: "hub_nodes st1 ?k = Some ?r" by (simp add: st1)
  have "hub_inv st'"
    unfolding c(3)
    by (rule inv_save_command [OF inv1 node1])
       (use c_ok eff state in \<open>auto simp: command_ok_def is_superseded_def\<close>)
  moreover have "keeps_superseded st st'"
    unfolding c(3)
    by (rule keeps_trans [OF keeps_same_commands keeps_save_command])
       (use c_ok c(1) fresh in \<open>auto simp: st1 command_ok_def\<close>)
  moreover have "command_node c = ?k" "command_version c = ?v" using c_ok by (auto simp: command_ok_def)
  ultimately show ?thesis
    using c(1) by (simp add: c(3) save_command_rows st1)
qed

lemma complete_saga_effect:
  assumes "hub_inv st" "complete_saga_body s now st = (Inr u, st')"
  shows "\<exists>current n. find_node (node_code s) st = Some current \<and> current_generation s current \<and>
    node_status current = node_status_enabled \<and>
    complete_provision_for_target (connection_version s) (connection_request_hash s) (target_revision s) now current
      = (Inr (), n) \<and>
    hub_nodes st' = (hub_nodes st)(trim_space (node_code s) \<mapsto> with_connection n current) \<and>
    (\<exists>c. hub_commands st' (trim_space (node_code s), connection_version s) = Some c \<and>
       command_state c = command_active) \<and>
    hub_inv st' \<and> keeps_superseded st st'"
proof -
  obtain current n st1 where cur: "find_node (node_code s) st = Some current"
    and comp: "complete_provision_for_target (connection_version s) (connection_request_hash s)
      (target_revision s) now current = (Inr (), n)"
    and upd: "update_connection n st = (Inr (), st1)"
    and save: "save_connection_command_state s command_active now st1 = (Inr u, st')"
    using assms(2) by (auto simp: complete_saga_body_def then_do_Inr split: option.splits sum.splits prod.splits)
  have gen: "current_generation s current" and "node_status current = node_status_enabled"
    and "node_code n = node_code current" "connection_version n = connection_version current"
    using comp by (auto simp: complete_for_target_Inr current_generation_def Let_def)
  moreover have "command_active \<noteq> command_superseded" by (simp add: command_states)
  ultimately show ?thesis
    using record_outcome [OF assms(1) cur gen _ _ upd save] cur comp by blast
qed

lemma fail_saga_effect:
  assumes "hub_inv st" "fail_saga_body trace s now st = (Inr u, st')"
  shows "hub_inv st' \<and> keeps_superseded st st'"
proof -
  obtain current b n where cur: "find_node (node_code s) st = Some current"
    and fail: "fail_provision_for_target (connection_version s) (connection_request_hash s)
      (target_revision s) saga_failed_message trace now current = (b, n)"
    using assms(2) by (auto simp: fail_saga_body_def split: option.splits prod.splits)
  show ?thesis
  proof (cases b)
    case False
    with assms cur fail show ?thesis by (simp add: fail_saga_body_def)
  next
    case True
    then obtain st1 where upd: "update_connection n st = (Inr (), st1)"
      and save: "save_connection_command_state s command_error now st1 = (Inr u, st')"
      using assms(2) cur fail by (auto simp: fail_saga_body_def then_do_Inr)
    have failed: "fail_provision_for_target (connection_version s) (connection_request_hash s)
      (target_revision s) saga_failed_message trace now current = (True, n)"
      using fail True by simp
    have gen: "current_generation s current" "node_code n = node_code current"
        "connection_version n = connection_version current"
      using fail_for_target_True [OF failed] by (auto simp: current_generation_def)
    moreover have "command_error \<noteq> command_superseded" by (simp add: command_states)
    ultimately show ?thesis using record_outcome [OF assms(1) cur gen(1) _ _ upd save] by blast
  qed
qed

section \<open>Accepting a request\<close>

lemma supersede_set_nodes:
  "supersede_connection_command k v h g now (st\<lparr>hub_nodes := N\<rparr>) =
     (supersede_connection_command k v h g now st)\<lparr>hub_nodes := N\<rparr>"
  by (simp add: supersede_connection_command_def find_connection_command_def save_connection_command_def Let_def
      split: option.split)

lemma supersede_other_row:
  assumes "hub_inv st" "hub_nodes st k = Some n" "trim_space v' = v'" "v \<noteq> v'"
  shows "hub_commands (supersede_connection_command k v' h g now st) (k, v) = hub_commands st (k, v)"
proof -
  have k: "trim_space k = k" using inv_node [OF assms(1,2)] by (simp add: node_ok_def)
  have "command_version c = v'" if "hub_commands st (k, v') = Some c" for c
    using inv_command [OF assms(1) that assms(2)] by (simp add: command_ok_def)
  with assms(3,4) k show ?thesis
    by (auto simp: supersede_connection_command_def find_connection_command_def save_command_rows Let_def
        split: option.split)
qed

text \<open>The command record of an accepted request belongs to a row that is not superseded.\<close>

lemma command_record_Inr:
  assumes inv: "hub_inv st" and stored: "hub_nodes st k = Some found"
    and ver: "trim_space (pr_version cmd) = pr_version cmd"
    and rec: "provision_command_record (ensure_target_revision found) cmd h now st = (Inr c, st1)"
  shows "command_node c = k \<and> command_version c = pr_version cmd \<and>
    command_revision c = effective_target_revision found \<and>
    (\<forall>old. hub_commands st (k, pr_version cmd) = Some old \<longrightarrow> \<not> is_superseded old) \<and>
    (st1 = st \<or> connection_version found \<noteq> pr_version cmd \<and>
      st1 = supersede_connection_command k (connection_version found) (connection_request_hash found)
        (effective_target_revision found) now st)"
proof -
  have k: "node_code found = k" "trim_space k = k" using inv_node [OF inv stored] by (simp_all add: node_ok_def)
  show ?thesis
  proof (cases "hub_commands st (k, pr_version cmd)")
    case (Some old)
    then have "command_ok k (pr_version cmd) old found" by (rule inv_command [OF inv _ stored])
    with Some rec k ver show ?thesis
      by (auto simp: provision_command_record_def find_connection_command_def command_ok_def is_superseded_def
          split: if_splits)
  next
    case None
    with rec k ver show ?thesis
      by (auto simp: provision_command_record_def find_connection_command_def Let_def split: if_splits)
  qed
qed

lemma start_provision_identity:
  "node_code (snd (start_provision v h rot now n)) = node_code n"
  "target_revision (snd (start_provision v h rot now n)) = effective_target_revision n"
  by (simp_all add: start_provision_def Let_def)

lemma start_provision_version:
  assumes "fst (start_provision v h rot now n) = Inr d"
  shows "connection_version (snd (start_provision v h rot now n)) = v"
  using assms by (simp add: start_provision_def Let_def split: if_split_asm)

text \<open>The three cases of the decision.\<close>

lemma start_provision_replay:
  "connection_version n = v \<Longrightarrow> connection_request_hash n \<noteq> [] \<Longrightarrow> connection_request_hash n \<noteq> h \<Longrightarrow>
     fst (start_provision v h rot now n) = Inl err_provision_replay"
  by (simp add: start_provision_def Let_def)

lemma start_provision_again:
  "connection_version n = v \<Longrightarrow> connection_status n = connection_active \<Longrightarrow>
   connection_request_hash n = [] \<or> connection_request_hash n = h \<Longrightarrow>
     start_provision v h rot now n =
       (Inr \<lparr>already_active = True, new_version = False, needs_managed_client = False,
             rotate_secret = False, decision_revision = 0\<rparr>, ensure_target_revision n)"
  by (simp add: start_provision_def Let_def)

lemma start_provision_fresh:
  "connection_version n \<noteq> v \<or>
     (connection_request_hash n = [] \<or> connection_request_hash n = h) \<and> connection_status n \<noteq> connection_active \<Longrightarrow>
   \<exists>d. fst (start_provision v h rot now n) = Inr d \<and> \<not> already_active d \<and>
     decision_revision d = effective_target_revision n"
  by (rule disjE, assumption) (simp_all add: start_provision_def Let_def)

lemma start_provision_decision:
  assumes "fst (start_provision v h rot now n) = Inr d"
  shows "if already_active d then snd (start_provision v h rot now n) = ensure_target_revision n \<and>
      connection_version n = v
    else decision_revision d = effective_target_revision n"
proof -
  consider "connection_version n = v" "connection_request_hash n \<noteq> []" "connection_request_hash n \<noteq> h"
    | "connection_version n = v" "connection_status n = connection_active"
      "connection_request_hash n = [] \<or> connection_request_hash n = h"
    | "connection_version n \<noteq> v \<or>
     (connection_request_hash n = [] \<or> connection_request_hash n = h) \<and> connection_status n \<noteq> connection_active"
    by blast
  then show ?thesis
  proof cases
    case 1
    with start_provision_replay [OF this, of rot now] assms show ?thesis by simp
  next
    case 2
    from start_provision_again [OF this, of rot now] assms 2(1) show ?thesis by auto
  next
    case 3
    from start_provision_fresh [OF this, of rot now] assms show ?thesis by auto
  qed
qed

lemma start_provision_Inr:
  assumes "start_provision v h rot now n = (Inr d, n1)"
  shows "node_code n1 = node_code n \<and> target_revision n1 = effective_target_revision n \<and>
    connection_version n1 = v \<and>
    (if already_active d then n1 = ensure_target_revision n \<and> connection_version n = v
     else decision_revision d = effective_target_revision n)"
  using start_provision_identity [of v h rot now n] start_provision_version [of v h rot now n d]
    start_provision_decision [of v h rot now n d] assms by (simp split: if_split_asm)

lemma provision_client_Inr:
  assumes "provision_client env cmd d now n = Inr n1"
  shows "node_code n1 = node_code n \<and> connection_version n1 = connection_version n \<and>
    target_revision n1 = target_revision n"
proof -
  have "n1 = n \<or> (\<exists>c secret. n1 = accept_managed_client c secret now n)"
    using assms unfolding provision_client_def Let_def
    by (simp split: if_split_asm sum.split_asm) blast+
  then show ?thesis by (auto simp: accept_managed_client_def Let_def)
qed

lemma accept_effect:
  assumes inv: "hub_inv st" and ver: "trim_space (pr_version cmd) = pr_version cmd" "pr_version cmd \<noteq> []"
    and acc: "provision_accept env cmd h now st = (Inr (b, n), st')"
  shows "hub_inv st' \<and> keeps_superseded st st'"
proof -
  let ?k = "trim_space (pr_node_code cmd)" and ?v = "pr_version cmd"
  obtain found where stored: "hub_nodes st ?k = Some found"
    using acc by (cases "hub_nodes st ?k") (simp_all add: provision_accept_def find_node_def)
  have enabled: "node_status found = node_status_enabled"
    using acc stored by (simp add: provision_accept_def find_node_def split: if_splits)
  note body = acc [unfolded provision_accept_def find_node_def stored option.case enabled Let_def,
      simplified]
  obtain c st1 where rec: "provision_command_record (ensure_target_revision found) cmd h now st = (Inr c, st1)"
    and cont: "provision_continue env cmd h now (ensure_target_revision found) c st1 = (Inr (b, n), st')"
    using body unfolding then_do_Inr by blast
  obtain d n1 where start: "start_provision ?v h (pr_rotate_secret cmd) now (ensure_target_revision found) = (Inr d, n1)"
    using cont by (auto simp: provision_continue_def split: sum.splits prod.splits)
  note rest = cont [unfolded provision_continue_def start prod.case sum.case]
  have ok: "node_ok ?k found" by (rule inv_node [OF inv stored])
  note c = command_record_Inr [OF inv stored ver(1) rec]
  note d = start_provision_Inr [OF start]
  have active: "command_active \<noteq> command_superseded" "command_pending \<noteq> command_superseded"
    by (simp_all add: command_states)
  show ?thesis
  proof (cases "already_active d")
    case True
    with c d have st1: "st1 = st" by auto
    then have st': "st' = save_connection_command (c\<lparr>command_state := command_active, command_updated := now\<rparr>) st"
      using rest True by simp
    show ?thesis
      unfolding st'
      using inv_save_command [OF inv stored, of _ ?v] keeps_save_command c ver active
      by (auto simp: is_superseded_def)
  next
    case False
    then obtain n2 st2 where client: "provision_client env cmd d now n1 = Inr n2"
      and upd: "update_connection n2 st1 = (Inr (), st2)"
      and st': "st' = save_connection_command
        (c\<lparr>command_revision := decision_revision d, command_state := command_pending, command_updated := now\<rparr>) st2"
      using rest by (auto simp: then_do_Inr split: sum.splits if_splits)
    have n2: "node_code n2 = ?k" "connection_version n2 = ?v"
      using provision_client_Inr [OF client] d False ok by (auto simp: node_ok_def)
    have stored1: "hub_nodes st1 = hub_nodes st" using c by auto
    let ?r = "with_connection n2 found"
    have eff: "effective_target_revision ?r = effective_target_revision found" by (rule effective_eq) simp
    let ?base = "st\<lparr>hub_nodes := (hub_nodes st)(?k \<mapsto> ?r)\<rparr>"
    have base: "hub_inv ?base"
      by (rule inv_replace_node [OF inv stored]) (use ok n2 ver c eff in \<open>auto simp: node_ok_def\<close>)
    have node_base: "hub_nodes ?base ?k = Some ?r" by simp
    have "hub_inv st2 \<and> keeps_superseded st st2 \<and> hub_nodes st2 ?k = Some ?r \<and>
        hub_commands st2 (?k, ?v) = hub_commands st (?k, ?v)"
    proof (cases "st1 = st")
      case True
      then have "st2 = ?base" using upd stored n2 by (auto simp: update_connection_def update_stored_Inr)
      with base show ?thesis by (simp add: keeps_same_commands)
    next
      case False
      let ?old = "connection_version found"
      let ?sup = "supersede_connection_command ?k ?old (connection_request_hash found) (effective_target_revision found) now"
      from False c have old: "?old \<noteq> ?v" and st1: "st1 = ?sup st" by auto
      have "st2 = ?sup ?base"
        using upd stored n2 by (auto simp: update_connection_def update_stored_Inr st1 supersede_set_nodes)
      moreover have "hub_inv (?sup ?base)"
        by (rule inv_supersede [OF base node_base]) (use ok eff old n2 in \<open>auto simp: node_ok_def\<close>)
      moreover have "keeps_superseded st (?sup ?base)"
        by (rule keeps_trans [OF keeps_same_commands keeps_supersede]) simp
      moreover have "hub_commands (?sup ?base) (?k, ?v) = hub_commands ?base (?k, ?v)"
        by (rule supersede_other_row [OF base node_base]) (use ok old in \<open>auto simp: node_ok_def\<close>)
      ultimately show ?thesis by simp
    qed
    then show ?thesis
      unfolding st'
      using inv_save_command [of st2 ?k ?r _ ?v] keeps_trans [OF _ keeps_save_command, of st st2] c d False ver active eff
      by (auto simp: is_superseded_def)
  qed
qed

section \<open>Administrator changes\<close>

text \<open>A change that leaves the code and the version of the connection alone.\<close>

lemma inv_admin_change:
  assumes inv: "hub_inv st" and stored: "hub_nodes st k = Some r"
    and same: "node_code r' = k" "connection_version r' = connection_version r"
    and le: "effective_target_revision r \<le> effective_target_revision r'"
  shows "hub_inv (st\<lparr>hub_nodes := (hub_nodes st)(k \<mapsto> r')\<rparr>)"
proof (rule inv_replace_node [OF inv stored _ le])
  show "node_ok k r'" using inv_node [OF inv stored] same by (simp add: node_ok_def)
  show "\<forall>c. hub_commands st (k, connection_version r') = Some c \<and> is_superseded c \<longrightarrow>
      command_revision c < effective_target_revision r'"
    using inv_command [OF inv _ stored] same le by (fastforce simp: command_ok_def)
qed

lemma inv_admin_supersede:
  assumes inv: "hub_inv st" and stored: "hub_nodes st k = Some r"
    and same: "node_code r' = k" "connection_version r' = connection_version r"
    and less: "effective_target_revision r < effective_target_revision r'"
  shows "hub_inv (supersede_connection_command k (connection_version r) h (effective_target_revision r) now
      (st\<lparr>hub_nodes := (hub_nodes st)(k \<mapsto> r')\<rparr>))"
proof (rule inv_supersede [where n = r'])
  show "hub_inv (st\<lparr>hub_nodes := (hub_nodes st)(k \<mapsto> r')\<rparr>)"
    by (rule inv_admin_change [OF inv stored same less [THEN less_imp_le]])
  show "trim_space (connection_version r) = connection_version r"
    using inv_node [OF inv stored] by (simp add: node_ok_def)
  show "connection_version r' \<noteq> connection_version r \<or>
      (case hub_commands (st\<lparr>hub_nodes := (hub_nodes st)(k \<mapsto> r')\<rparr>) (k, connection_version r) of
         None \<Rightarrow> effective_target_revision r
       | Some old \<Rightarrow> command_revision old) < effective_target_revision r'"
  proof (cases "hub_commands st (k, connection_version r)")
    case (Some old)
    with inv_command [OF inv Some stored] less show ?thesis by (simp add: command_ok_def)
  qed (use less in simp)
qed (use less in simp_all)

lemma set_node_status_fields [simp]:
  "node_code (set_node_status status now n) = node_code n"
  "connection_version (set_node_status status now n) = connection_version n"
  "target_revision (set_node_status status now n) =
     (if node_status n = status then target_revision n else effective_target_revision n + 1)"
  by (simp_all add: set_node_status_def Let_def)

lemma effective_pos [simp]: "1 \<le> effective_target_revision n"
  by (simp add: effective_target_revision_def ensure_target_revision_def)

lemma target_le_effective: "target_revision n \<le> effective_target_revision n"
  by (simp add: effective_target_revision_def ensure_target_revision_def)

lemma effective_of: "1 \<le> target_revision n \<Longrightarrow> effective_target_revision n = target_revision n"
  by (simp add: effective_target_revision_def ensure_target_revision_def)

text \<open>Successive statements on one row that leave its revision alone.\<close>

definition row_edited :: "hub_state \<Rightarrow> string \<Rightarrow> hub_node \<Rightarrow> hub_state \<Rightarrow> bool" where
  "row_edited st k r st' \<longleftrightarrow>
     (\<exists>r'. st' = st\<lparr>hub_nodes := (hub_nodes st)(k \<mapsto> r')\<rparr> \<and> node_code r' = k \<and>
        connection_version r' = connection_version r \<and> target_revision r' = target_revision r)"

lemma row_edited_start: "hub_nodes st k = Some r \<Longrightarrow> node_code r = k \<Longrightarrow> row_edited st k r st"
  by (auto simp: row_edited_def fun_upd_idem intro!: exI [of _ r])

lemma row_edited_update:
  assumes "row_edited st k r s" "update_stored f n s = (Inr u, s')" "node_code n = k"
    "\<And>x. node_code (f x) = node_code x" "\<And>x. connection_version (f x) = connection_version x"
    "\<And>x. target_revision (f x) = target_revision x"
  shows "row_edited st k r s'"
proof -
  from assms(1) obtain r' where "s = st\<lparr>hub_nodes := (hub_nodes st)(k \<mapsto> r')\<rparr>" "node_code r' = k"
    "connection_version r' = connection_version r" "target_revision r' = target_revision r"
    by (auto simp: row_edited_def)
  with assms(2-) show ?thesis by (auto simp: row_edited_def update_stored_Inr intro!: exI [of _ "f r'"])
qed

lemma row_edited_optional:
  assumes "row_edited st k r s" "(if b then update_stored f n s else (Inr (), s)) = (Inr u, s')" "node_code n = k"
    "\<And>x. node_code (f x) = node_code x" "\<And>x. connection_version (f x) = connection_version x"
    "\<And>x. target_revision (f x) = target_revision x"
  shows "row_edited st k r s'"
  using assms row_edited_update [OF assms(1) _ assms(3-)] by (cases b) auto

lemma row_edited_effect:
  assumes inv: "hub_inv st" and stored: "hub_nodes st k = Some r" and ed: "row_edited st k r st'"
  shows "hub_inv st' \<and> keeps_superseded st st'"
proof -
  from ed obtain r' where r': "st' = st\<lparr>hub_nodes := (hub_nodes st)(k \<mapsto> r')\<rparr>" "node_code r' = k"
    "connection_version r' = connection_version r" "target_revision r' = target_revision r"
    by (auto simp: row_edited_def)
  have "hub_inv st'"
    unfolding r'(1) by (rule inv_admin_change [OF inv stored r'(2,3)]) (simp add: effective_eq [OF r'(4)])
  then show ?thesis by (simp add: keeps_same_commands r'(1))
qed

text \<open>The revision is advanced, and the version it makes obsolete is superseded.\<close>

lemma row_advanced_effect:
  assumes inv: "hub_inv st" and stored: "hub_nodes st k = Some r" and ed: "row_edited st k r s"
    and n: "node_code n = k" "effective_target_revision r < target_revision n"
    and upd: "update_target_state n s = (Inr u, s')"
  shows "hub_inv (supersede_connection_command k (connection_version r) h (effective_target_revision r) now s') \<and>
    keeps_superseded st (supersede_connection_command k (connection_version r) h (effective_target_revision r) now s')"
proof -
  from ed obtain r' where r': "s = st\<lparr>hub_nodes := (hub_nodes st)(k \<mapsto> r')\<rparr>" "node_code r' = k"
    "connection_version r' = connection_version r"
    by (auto simp: row_edited_def)
  let ?r = "with_target_state n r'"
  have s': "s' = st\<lparr>hub_nodes := (hub_nodes st)(k \<mapsto> ?r)\<rparr>"
    using upd n(1) by (auto simp: update_target_state_def update_stored_Inr r'(1))
  have "1 \<le> target_revision n" using n(2) effective_pos [of r] by linarith
  then have eff: "effective_target_revision r < effective_target_revision ?r"
    using n(2) by (simp add: effective_of)
  show ?thesis
    unfolding s'
    using inv_admin_supersede [OF inv stored _ _ eff] r'
      keeps_trans [OF keeps_same_commands keeps_supersede] by simp
qed

lemma invalidate_fields [simp]:
  "node_code (invalidate_target now reason n) = node_code n"
  "connection_version (invalidate_target now reason n) = connection_version n"
  "target_revision (invalidate_target now reason n) = effective_target_revision n + 1"
  by (simp_all add: invalidate_target_def Let_def)

lemma edit_metadata_fields:
  assumes "edit_metadata m now n = (Inr u, n')"
  shows "node_code n' = node_code n" "connection_version n' = connection_version n"
    "target_revision n' = target_revision n \<or> target_revision n' = effective_target_revision n + 1"
  using assms unfolding edit_metadata_def Let_def by (auto split: if_split_asm simp: effective_target_revision_def ensure_target_revision_def)

lemma set_status_effect:
  assumes inv: "hub_inv st" and ok: "set_status_body env code status now st = (Inr n, st')"
  shows "hub_inv st' \<and> keeps_superseded st st'"
proof -
  let ?k = "trim_space code"
  obtain found where stored: "hub_nodes st ?k = Some found"
    using ok by (cases "hub_nodes st ?k") (simp_all add: set_status_body_def find_node_def)
  let ?n = "set_node_status status now (ensure_target_revision found)"
  have code: "node_code found = ?k" using inv_node [OF inv stored] by (simp add: node_ok_def)
  obtain st1 where up1: "update_status ?n st = (Inr (), st1)"
    using stored code by (simp add: update_status_def update_stored_def)
  note body = ok [unfolded set_status_body_def find_node_def stored option.case Let_def up1, simplified]
  have told: "client_status_update env ?n = Inr ()"
    using body by (cases "client_status_update env ?n") simp_all
  have ed: "row_edited st ?k found st1"
    by (rule row_edited_update [OF row_edited_start [OF stored code] up1 [unfolded update_status_def]])
      (simp_all add: code)
  show ?thesis
  proof (cases "node_status found = status")
    case True
    then have "st' = st1" using body told by simp
    with row_edited_effect [OF inv stored ed] show ?thesis by simp
  next
    case False
    then obtain st2 where up2: "update_target_state ?n st1 = (Inr (), st2)"
      and st': "st' = supersede_connection_command ?k (connection_version found) (connection_request_hash found)
        (effective_target_revision found) now st2"
      using body told code by (auto simp: then_do_Inr)
    show ?thesis
      unfolding st' by (rule row_advanced_effect [OF inv stored ed _ _ up2]) (use False code in simp_all)
  qed
qed

lemma save_node_effect:
  assumes inv: "hub_inv st" and stored: "hub_nodes st k = Some found"
    and ok: "save_node_body env m status replacement now found st = (Inr n, st')"
  shows "hub_inv st' \<and> keeps_superseded st st'"
proof -
  let ?n0 = "ensure_target_revision found"
  have code: "node_code found = k" using inv_node [OF inv stored] by (simp add: node_ok_def)
  obtain n1 where edit: "edit_metadata m now ?n0 = (Inr (), n1)"
    using ok by (cases "edit_metadata m now ?n0"; cases "fst (edit_metadata m now ?n0)")
      (auto simp: save_node_body_def)
  let ?changed = "node_status n1 \<noteq> status"
  let ?n2 = "set_node_status status now n1"
  let ?n3 = "if secret_present replacement then replace_management_bearer replacement now ?n2 else ?n2"
  note body = ok [unfolded save_node_body_def Let_def edit prod.case sum.case]
  obtain st1 st2 st3 where up1: "update_metadata ?n2 st = (Inr (), st1)"
    and up2: "(if ?changed then update_status ?n2 st1 else (Inr (), st1)) = (Inr (), st2)"
    and up3: "(if secret_present replacement then update_bearer ?n3 st2 else (Inr (), st2)) = (Inr (), st3)"
    and told: "(if ?changed then client_status_update env ?n3 else Inr ()) = Inr ()"
    and last: "(if target_revision ?n3 = target_revision ?n0 then (Inr ?n3, st3)
      else then_do (update_target_state ?n3 st3) (\<lambda>_ st5.
             (Inr ?n3, supersede_connection_command (node_code ?n3) (connection_version ?n0)
                        (connection_request_hash ?n0) (target_revision ?n0) now st5))) = (Inr n, st')"
    using body unfolding then_do_Inr by auto
  have n1: "node_code n1 = k" "target_revision n1 = effective_target_revision found \<or>
      target_revision n1 = effective_target_revision found + 1"
    using edit_metadata_fields [OF edit] code by simp_all
  have codes: "node_code ?n2 = k" "node_code ?n3 = k"
    using n1 by (simp_all add: replace_management_bearer_def)
  have ed1: "row_edited st k found st1"
    by (rule row_edited_update [OF row_edited_start [OF stored code] up1 [unfolded update_metadata_def] codes(1)]) simp_all
  have ed2: "row_edited st k found st2"
    by (rule row_edited_optional [OF ed1 up2 [unfolded update_status_def] codes(1)]) simp_all
  have ed3: "row_edited st k found st3"
    by (rule row_edited_optional [OF ed2 up3 [unfolded update_bearer_def] codes(2)]) simp_all
  have "effective_target_revision found \<le> target_revision ?n2"
    using n1(2) target_le_effective [of n1] by auto
  then have grow: "effective_target_revision found \<le> target_revision ?n3"
    using target_le_effective [of ?n2] effective_eq [of "?n2\<lparr>management_bearer := replacement\<rparr>" ?n2]
    by (auto simp: replace_management_bearer_def)
  show ?thesis
  proof (cases "target_revision ?n3 = target_revision ?n0")
    case True
    with last have "st' = st3" by simp
    with row_edited_effect [OF inv stored ed3] show ?thesis by simp
  next
    case False
    then obtain st5 where up5: "update_target_state ?n3 st3 = (Inr (), st5)"
      and st': "st' = supersede_connection_command k (connection_version found) (connection_request_hash found)
        (effective_target_revision found) now st5"
      using last codes(2) unfolding if_not_P [OF False] then_do_Inr by auto
    show ?thesis
      unfolding st' by (rule row_advanced_effect [OF inv stored ed3 codes(2) _ up5]) (use False grow in simp)
  qed
qed

lemma insert_node_effect:
  assumes inv: "hub_inv st" and "hub_nodes st k = None" "node_code n = k" "trim_space k = k" "connection_version n = []"
  shows "hub_inv (st\<lparr>hub_nodes := (hub_nodes st)(k \<mapsto> n)\<rparr>)"
proof -
  have "\<exists>m. ((hub_nodes st)(k \<mapsto> n)) k' = Some m \<and> command_ok k' v c m"
    if "hub_commands st (k', v) = Some c" for k' v c
  proof -
    from inv that obtain m where "hub_nodes st k' = Some m" "command_ok k' v c m" unfolding hub_inv_def by blast
    with assms(2) show ?thesis by (cases "k' = k") auto
  qed
  moreover have "node_ok k n" using assms by (simp add: node_ok_def trim_space_def)
  ultimately show ?thesis using inv by (simp add: hub_inv_def)
qed

section \<open>Interleavings\<close>

text \<open>
  A step of the system: a transaction of any request, completed or not, with any environment, any clock
  and (for the outcome of a saga) any snapshot. The versions that the requests for a connection carry are
  those in the set that labels the relation: neither the handler nor \<open>validateProvision\<close> trims them, so all
  steps of the program are those of \<open>UNIV\<close>. The service trims the code of a node it saves.
\<close>

inductive hub_step :: "string set \<Rightarrow> hub_state \<Rightarrow> hub_state \<Rightarrow> bool" for versions where
  accept: "pr_version cmd \<in> versions \<Longrightarrow> hub_step versions st (snd (provision_first env outcome cmd now st))"
| complete: "hub_step versions st (snd (complete_saga outcome s now st))"
| failed: "hub_step versions st (snd (fail_saga env outcome s cause now st))"
| status: "hub_step versions st (snd (set_status env outcome code v now st))"
| saved: "trim_space (meta_code m) = meta_code m \<Longrightarrow>
    hub_step versions st (snd (save_node env outcome i original m v replacement now st))"

definition trimmed_versions :: "string set" where
  "trimmed_versions = {v. trim_space v = v}"

inductive_cases hub_stepE: "hub_step versions st st'"

lemma transaction_effect:
  assumes "\<And>x st'. body st = (Inr x, st') \<Longrightarrow> Q st'" "Q st"
  shows "Q (snd (within_transaction outcome body st))"
  using within_transaction_state [of outcome body st] assms by metis

lemma validated_version: "validate_provision env cmd = Inr u \<Longrightarrow> trim_space (pr_version cmd) \<noteq> []"
  by (auto simp: validate_provision_def validate_bounded_def Let_def split: sum.splits if_splits)

lemma provision_first_effect:
  assumes "hub_inv st" "trim_space (pr_version cmd) = pr_version cmd"
  shows "hub_inv (snd (provision_first env outcome cmd now st)) \<and>
    keeps_superseded st (snd (provision_first env outcome cmd now st))"
proof (cases "validate_provision env cmd")
  case (Inr u)
  then have "pr_version cmd \<noteq> []" using validated_version assms(2) by fastforce
  show ?thesis
  proof (cases "env_request_hash env cmd")
    case (Inr h)
    have "hub_inv st' \<and> keeps_superseded st st'" if "provision_accept env cmd h now st = (Inr x, st')" for x st'
      using accept_effect [OF assms \<open>pr_version cmd \<noteq> []\<close>] that by (cases x) blast
    then have "hub_inv (snd (within_transaction outcome (provision_accept env cmd h now) st)) \<and>
      keeps_superseded st (snd (within_transaction outcome (provision_accept env cmd h now) st))"
      by (rule transaction_effect) (use assms in simp_all)
    with Inr \<open>validate_provision env cmd = Inr u\<close> show ?thesis by (simp add: provision_first_def)
  qed (use assms \<open>validate_provision env cmd = Inr u\<close> in \<open>simp add: provision_first_def\<close>)
qed (use assms in \<open>simp add: provision_first_def\<close>)

lemma complete_saga_step:
  "hub_inv st \<Longrightarrow> hub_inv (snd (complete_saga outcome s now st)) \<and>
     keeps_superseded st (snd (complete_saga outcome s now st))"
  unfolding complete_saga_def by (rule transaction_effect) (use complete_saga_effect in blast, simp)

lemma fail_saga_step:
  assumes "hub_inv st"
  shows "hub_inv (snd (fail_saga env outcome s cause now st)) \<and>
    keeps_superseded st (snd (fail_saga env outcome s cause now st))"
proof -
  have "snd (fail_saga env outcome s cause now st) =
      snd (within_transaction outcome (fail_saga_body (env_trace_id env) s now) st)"
    by (simp add: fail_saga_def split: prod.split sum.split)
  moreover have "hub_inv (snd (within_transaction outcome (fail_saga_body (env_trace_id env) s now) st)) \<and>
      keeps_superseded st (snd (within_transaction outcome (fail_saga_body (env_trace_id env) s now) st))"
    by (rule transaction_effect) (use fail_saga_effect assms in blast, use assms in simp)
  ultimately show ?thesis by simp
qed

lemma set_status_step:
  assumes "hub_inv st"
  shows "hub_inv (snd (set_status env outcome code v now st)) \<and>
    keeps_superseded st (snd (set_status env outcome code v now st))"
proof -
  have "hub_inv (snd (within_transaction outcome (set_status_body env code v now) st)) \<and>
      keeps_superseded st (snd (within_transaction outcome (set_status_body env code v now) st))"
    by (rule transaction_effect) (use set_status_effect assms in blast, use assms in simp)
  with assms show ?thesis by (simp add: set_status_def)
qed

lemma save_node_step:
  assumes inv: "hub_inv st" and code: "trim_space (meta_code m) = meta_code m"
  shows "hub_inv (snd (save_node env outcome i original m v replacement now st)) \<and>
    keeps_superseded st (snd (save_node env outcome i original m v replacement now st))"
  unfolding save_node_def
proof (rule transaction_effect)
  let ?k = "if original = [] then meta_code m else original"
  fix x st'
  assume ok: "save_node_transaction env i original m v replacement now st = (Inr x, st')"
  show "hub_inv st' \<and> keeps_superseded st st'"
  proof (cases "find_node ?k st")
    case (Some found)
    with ok have "save_node_body env m v replacement now found st = (Inr x, st')"
      by (simp add: save_node_transaction_def)
    with Some show ?thesis using save_node_effect [OF inv] unfolding find_node_def by blast
  next
    case None
    let ?n = "new_hub_node i m v replacement now"
    from None have absent: "original = [] \<Longrightarrow> hub_nodes st (meta_code m) = None"
      using code by (simp add: find_node_def)
    have orig: "original = []" using ok None by (simp add: save_node_transaction_def split: if_split_asm)
    have st': "st' = insert_node ?n st"
      using ok None orig by (auto simp: save_node_transaction_def Let_def split: if_split_asm)
    have n: "node_code ?n = meta_code m" "connection_version ?n = []" by (simp_all add: new_hub_node_def)
    show ?thesis
      using insert_node_effect [OF inv absent [OF orig] n(1) code n(2)] n(1)
      by (simp add: st' insert_node_def keeps_same_commands)
  qed
qed (use inv in simp)

lemma hub_step_effect: "hub_step trimmed_versions st st' \<Longrightarrow> hub_inv st \<Longrightarrow> hub_inv st' \<and> keeps_superseded st st'"
proof (induction rule: hub_step.induct)
  case (accept cmd st env outcome now)
  then show ?case using provision_first_effect by (simp add: trimmed_versions_def)
next
  case (complete st outcome s now)
  then show ?case using complete_saga_step by simp
next
  case (failed st env outcome s cause now)
  then show ?case using fail_saga_step by simp
next
  case (status st env outcome code v now)
  then show ?case using set_status_step by simp
next
  case (saved m st env outcome i original v replacement now)
  then show ?case using save_node_step by simp
qed

lemma hub_steps_effect: "(hub_step trimmed_versions)\<^sup>*\<^sup>* st st' \<Longrightarrow> hub_inv st \<Longrightarrow> hub_inv st' \<and> keeps_superseded st st'"
proof (induction rule: rtranclp_induct)
  case (step t u)
  then show ?case using hub_step_effect keeps_trans by blast
qed simp

section \<open>Properties of the saga\<close>

definition no_nodes :: hub_state where
  "no_nodes = \<lparr>hub_nodes = Map.empty, hub_commands = Map.empty\<rparr>"

lemma inv_no_nodes: "hub_inv no_nodes"
  by (simp add: hub_inv_def no_nodes_def)

lemma reachable_inv: "(hub_step trimmed_versions)\<^sup>*\<^sup>* no_nodes st \<Longrightarrow> hub_inv st"
  using hub_steps_effect inv_no_nodes by blast

text \<open>A node whose second version replaced the first, and the request for the first.\<close>

definition sample_hub :: hub_state where
  "sample_hub =
     \<lparr>hub_nodes = [''edge-1'' \<mapsto> sample_node],
      hub_commands = [(''edge-1'', ''v1'') \<mapsto>
        \<lparr>command_node = ''edge-1'', command_version = ''v1'', command_hash = ''h1'', command_revision = 1,
         command_state = ''PENDING'', command_created = 0, command_updated = 0\<rparr>]\<rparr>"

definition sample_old_hub :: hub_state where
  "sample_old_hub = supersede_connection_command ''edge-1'' ''v0'' ''h0'' 1 0 sample_hub"

lemma trim_sample_names: "trim_space ''edge-1'' = ''edge-1''" "trim_space ''v1'' = ''v1''" "trim_space ''v0'' = ''v0''"
  by code_simp+

lemma effective_sample: "effective_target_revision sample_node = 1"
  by (simp add: effective_target_revision_def ensure_target_revision_def sample_node_def)

lemma inv_sample_hub: "hub_inv sample_hub"
  by (auto simp: hub_inv_def sample_hub_def node_ok_def command_ok_def trim_sample_names effective_sample
      is_superseded_def command_states)
    (auto simp: sample_node_def trim_sample_names)

lemma inv_sample_old_hub: "hub_inv sample_old_hub"
  unfolding sample_old_hub_def
  by (rule inv_supersede [OF inv_sample_hub, where n = sample_node])
    (simp_all add: trim_sample_names effective_sample, simp_all add: sample_hub_def sample_node_def)

text \<open>C33. A superseded version is never revived. As long as the requests carry connection versions without blanks
  around them, then whatever sequence of requests, saga results with arbitrary snapshots, status changes and
  edits follows, completed or cut off in the middle: the invariant of nodes and ledger is kept, the row of a
  superseded version stays superseded, and the result of a saga for that version is refused without any change.
  The condition on the versions is one on the callers and it is needed: \<open>untrimmed_version_revived\<close>.\<close>

theorem superseded_never_revived:
  assumes "hub_inv st" "(hub_step trimmed_versions)\<^sup>*\<^sup>* st st'"
    "hub_commands st (trim_space (node_code s), connection_version s) = Some c" "is_superseded c"
  shows "hub_inv st' \<and>
    (\<exists>c'. hub_commands st' (trim_space (node_code s), connection_version s) = Some c' \<and> is_superseded c') \<and>
    (\<exists>e. complete_saga outcome s now st' = (Inl e, st'))"
proof -
  let ?key = "(trim_space (node_code s), connection_version s)"
  from hub_steps_effect [OF assms(2,1)] have inv: "hub_inv st'" and "keeps_superseded st st'" by simp_all
  then obtain c' where c': "hub_commands st' ?key = Some c'" "is_superseded c'"
    using assms(3,4) by (auto simp: keeps_superseded_def)
  have "\<exists>e. fst (complete_saga_body s now st') = Inl e"
  proof (rule ccontr)
    assume "\<not> ?thesis"
    then obtain st2 where "complete_saga_body s now st' = (Inr (), st2)"
      by (cases "complete_saga_body s now st'"; cases "fst (complete_saga_body s now st')") auto
    from complete_saga_effect [OF inv this] obtain d where
      "hub_commands st2 ?key = Some d" "command_state d = command_active" "keeps_superseded st' st2" by auto
    with c' show False by (force simp: keeps_superseded_def is_superseded_def command_states)
  qed
  then have "\<exists>e. complete_saga outcome s now st' = (Inl e, st')"
    by (auto simp: complete_saga_def within_transaction_def split: prod.splits)
  with inv c' show ?thesis by blast
qed

theorem superseded_never_revived_witness:
  "\<exists>e. complete_saga SqlOk (sample_node\<lparr>connection_version := ''v0''\<rparr>) 9 sample_old_hub = (Inl e, sample_old_hub)"
proof -
  let ?s = "sample_node\<lparr>connection_version := ''v0''\<rparr>"
  have "node_code ?s = ''edge-1''" by (simp add: sample_node_def)
  then have "\<exists>c. hub_commands sample_old_hub (trim_space (node_code ?s), connection_version ?s) = Some c \<and> is_superseded c"
    by (simp add: sample_old_hub_def supersede_connection_command_def trim_sample_names save_command_rows Let_def
        find_connection_command_def is_superseded_def sample_hub_def)
  then show ?thesis using superseded_never_revived [OF inv_sample_old_hub rtranclp.rtrancl_refl] by blast
qed

text \<open>C34. Success is recorded only for the current generation. When \<open>completeSaga\<close> succeeds, the node is enabled and
  its version, request hash and target revision are those of the snapshot; the stored node becomes ACTIVE
  with its issuer locked and with the route it had; its row of the ledger becomes ACTIVE; and no other node
  changes.\<close>

theorem completion_is_current:
  assumes "hub_inv st" "complete_saga outcome s now st = (Inr u, st')"
  shows "\<exists>current node. find_node (node_code s) st = Some current \<and> current_generation s current \<and>
    node_status current = node_status_enabled \<and>
    hub_nodes st' = (hub_nodes st)(trim_space (node_code s) \<mapsto> node) \<and>
    connection_status node = connection_active \<and> issuer_locked_at node \<noteq> None \<and>
    node_route node = node_route current \<and>
    (\<exists>c. hub_commands st' (trim_space (node_code s), connection_version s) = Some c \<and>
       command_state c = command_active)"
proof -
  from assms(2) have "complete_saga_body s now st = (Inr u, st')"
    by (simp add: complete_saga_def within_transaction_Inr)
  from complete_saga_effect [OF assms(1) this] obtain current n where
    cur: "find_node (node_code s) st = Some current" "current_generation s current"
      "node_status current = node_status_enabled"
    and comp: "complete_provision_for_target (connection_version s) (connection_request_hash s) (target_revision s)
      now current = (Inr (), n)"
    and st': "hub_nodes st' = (hub_nodes st)(trim_space (node_code s) \<mapsto> with_connection n current)"
      "\<exists>c. hub_commands st' (trim_space (node_code s), connection_version s) = Some c \<and>
       command_state c = command_active"
    by blast
  have "connection_status n = connection_active" "issuer_locked_at n \<noteq> None"
    using comp by (auto simp: complete_for_target_Inr Let_def)
  moreover have "node_route (with_connection n current) = node_route current"
    by (simp add: node_route_def with_connection_def)
  ultimately show ?thesis
    using cur st' by (intro exI [of _ current] exI [of _ "with_connection n current"]) simp
qed

lemma sample_completes: "\<exists>st'. complete_saga SqlOk sample_node 9 sample_hub = (Inr (), st')"
proof -
  have "node_code sample_node = ''edge-1''" by (simp add: sample_node_def)
  moreover have "complete_provision_for_target (connection_version sample_node) (connection_request_hash sample_node)
      (target_revision sample_node) 9 sample_node = (Inr (), snd (complete_provision_for_target ''v1'' ''h1'' 1 9 sample_node))"
    by (simp add: complete_provision_for_target_def complete_provision_def sample_node_def ensure_target_revision_def
        node_status_enabled_def)
  moreover have "node_code (snd (complete_provision_for_target ''v1'' ''h1'' 1 9 sample_node)) = ''edge-1''"
    by (simp add: complete_provision_for_target_def complete_provision_def sample_node_def ensure_target_revision_def
        node_status_enabled_def)
  ultimately show ?thesis
    by (simp add: complete_saga_def within_transaction_def complete_saga_body_def find_node_def trim_sample_names
        update_connection_def update_stored_def sample_hub_def save_connection_command_state_def
        find_connection_command_def)
      (simp add: sample_node_def trim_sample_names)
qed

theorem completion_is_current_witness:
  "\<exists>st' node. complete_saga SqlOk sample_node 9 sample_hub = (Inr (), st') \<and>
     hub_nodes st' (trim_space (node_code sample_node)) = Some node \<and> connection_status node = connection_active"
proof -
  obtain st' where fin: "complete_saga SqlOk sample_node 9 sample_hub = (Inr (), st')"
    using sample_completes by blast
  show ?thesis using completion_is_current [OF inv_sample_hub fin] fin by fastforce
qed

text \<open>A result of another generation changes nothing. When the version, the request hash or the target revision
  of the stored node is no longer that of the snapshot, \<open>completeSaga\<close> returns the error for an expired
  result and \<open>failSaga\<close> returns the cause it was given, and the nodes and the ledger are as before.\<close>

lemma stale_result_discarded:
  assumes "find_node (node_code s) st = Some current" "\<not> current_generation s current"
  shows "complete_saga outcome s now st = (Inl (map_domain_mutation_error err_stale_provision_result), st) \<and>
    snd (fail_saga env outcome s cause now st) = st \<and> fail_saga env SqlOk s cause now st = (cause, st)"
proof -
  have "fst (complete_provision_for_target (connection_version s) (connection_request_hash s) (target_revision s)
      now current) = Inl err_stale_provision_result"
    using assms(2)
    by (auto simp: complete_provision_for_target_def complete_provision_def current_generation_def Let_def)
  then have comp: "complete_saga_body s now st = (Inl (map_domain_mutation_error err_stale_provision_result), st)"
    using assms(1) by (auto simp: complete_saga_body_def split: prod.split)
  have unchanged: "\<not> fst (fail_provision_for_target (connection_version s) (connection_request_hash s) (target_revision s)
      saga_failed_message trace now current)" for trace
    using assms(2) by (auto simp: fail_provision_for_target_def fail_provision_def current_generation_def Let_def)
  then have fail: "fail_saga_body trace s now st = (Inr (), st)" for trace
  proof -
    obtain n where "fail_provision_for_target (connection_version s) (connection_request_hash s) (target_revision s)
        saga_failed_message trace now current = (False, n)"
      using unchanged [of trace] by (metis (full_types) prod.collapse)
    with assms(1) show ?thesis by (simp add: fail_saga_body_def)
  qed
  show ?thesis
    using comp fail by (cases outcome) (simp_all add: complete_saga_def fail_saga_def within_transaction_def)
qed

theorem stale_result_discarded_witness:
  "complete_saga SqlOk (sample_node\<lparr>connection_version := ''v0''\<rparr>) 9 sample_hub =
     (Inl (map_domain_mutation_error err_stale_provision_result), sample_hub)"
proof -
  let ?s = "sample_node\<lparr>connection_version := ''v0''\<rparr>"
  have "node_code ?s = ''edge-1''" by (simp add: sample_node_def)
  then have "find_node (node_code ?s) sample_hub = Some sample_node"
    by (simp add: find_node_def trim_sample_names sample_hub_def)
  moreover have "\<not> current_generation ?s sample_node" by (simp add: current_generation_def sample_node_def)
  ultimately show ?thesis using stale_result_discarded by blast
qed

section \<open>Two requests that cannot succeed\<close>

lemma accept_untrimmed:
  assumes inv: "hub_inv st" and stored: "hub_nodes st k = Some found" and first: "connection_version found = []"
    and fresh: "hub_commands st (k, trim_space (pr_version cmd)) = None"
    and version: "trim_space (pr_version cmd) \<noteq> pr_version cmd"
    and k: "trim_space (pr_node_code cmd) = k"
    and acc: "provision_accept env cmd h now st = (Inr (False, s), st')"
  shows "node_code s = k \<and> connection_version s = pr_version cmd \<and> (\<exists>r. hub_nodes st' k = Some r \<and> node_code r = k) \<and>
    hub_commands st' (k, trim_space (pr_version cmd)) = None"
proof -
  have code: "node_code found = k" "trim_space k = k" using inv_node [OF inv stored] by (simp_all add: node_ok_def)
  have enabled: "node_status found = node_status_enabled"
    using acc stored k by (simp add: provision_accept_def find_node_def split: if_splits)
  note body = acc [unfolded provision_accept_def find_node_def k stored option.case enabled Let_def, simplified]
  obtain c where cont: "provision_continue env cmd h now (ensure_target_revision found) c st = (Inr (False, s), st')"
    and c: "command_node c = k" "command_version c = pr_version cmd"
    using body fresh first code version
    by (auto simp: provision_command_record_def find_connection_command_def Let_def split: if_split_asm)
  obtain d n1 where start: "start_provision (pr_version cmd) h (pr_rotate_secret cmd) now (ensure_target_revision found)
      = (Inr d, n1)"
    using cont by (auto simp: provision_continue_def split: sum.splits prod.splits)
  note rest = cont [unfolded provision_continue_def start prod.case sum.case]
  have new: "\<not> already_active d" using rest by (auto split: if_split_asm)
  then obtain st2 where client: "provision_client env cmd d now n1 = Inr s"
    and upd: "update_connection s st = (Inr (), st2)"
    and st': "st' = save_connection_command
        (c\<lparr>command_revision := decision_revision d, command_state := command_pending, command_updated := now\<rparr>) st2"
    using rest by (auto simp: then_do_Inr split: sum.splits if_split_asm)
  have s: "node_code s = k" "connection_version s = pr_version cmd"
    using provision_client_Inr [OF client] start_provision_Inr [OF start] code by simp_all
  from upd stored s have st2: "hub_commands st2 = hub_commands st" "\<exists>r. hub_nodes st2 k = Some r \<and> node_code r = k"
    using code by (auto simp: update_connection_def update_stored_Inr)
  with s c fresh version show ?thesis by (simp add: st' save_command_rows)
qed

text \<open>The version of a request is looked up in the ledger without its surrounding blanks but recorded with them.
  When the first request for a connection carries a version with a blank at either end and is accepted, the
  remote node is called, and then \<open>completeSaga\<close> always fails with the error for an expired result and
  leaves the connection as it was: such a connection is never activated.\<close>

lemma untrimmed_version_never_completes:
  assumes "hub_inv st" "find_node (pr_node_code cmd) st = Some found" "connection_version found = []"
    "find_connection_command (pr_node_code cmd) (pr_version cmd) st = None"
    "trim_space (pr_version cmd) \<noteq> pr_version cmd"
    "provision_first env SqlOk cmd now st = (Inr (False, s), st1)"
  shows "complete_saga outcome (ensure_target_revision s) later st1 =
    (Inl (map_domain_mutation_error err_stale_provision_result), st1)"
proof -
  let ?k = "trim_space (pr_node_code cmd)" and ?s = "ensure_target_revision s"
  obtain h where acc: "provision_accept env cmd h now st = (Inr (False, s), st1)"
    using assms(6) by (auto simp: provision_first_def within_transaction_Inr split: sum.splits)
  have k: "trim_space ?k = ?k" using inv_find [OF assms(1,2)] by (simp add: node_ok_def)
  obtain r where s: "node_code s = ?k" "connection_version s = pr_version cmd" and r: "hub_nodes st1 ?k = Some r" "node_code r = ?k"
    and absent: "hub_commands st1 (?k, trim_space (pr_version cmd)) = None"
    using accept_untrimmed [OF assms(1) _ assms(3) _ assms(5) refl acc] assms(2,4)
    by (auto simp: find_node_def find_connection_command_def)
  have "complete_saga_body ?s later st1 = (Inl (map_domain_mutation_error err_stale_provision_result), snd (complete_saga_body ?s later st1))"
  proof (cases "complete_provision_for_target (connection_version ?s) (connection_request_hash ?s) (target_revision ?s) later r")
    case (Pair x n)
    show ?thesis
    proof (cases x)
      case (Inl e)
      with Pair have "e = err_stale_provision_result"
        by (auto simp: complete_provision_for_target_def complete_provision_def Let_def split: if_split_asm)
      with Inl Pair r s k show ?thesis by (simp add: complete_saga_body_def find_node_def)
    next
      case (Inr u)
      with Pair have "node_code n = ?k" using r(2) by (auto simp: complete_for_target_Inr Let_def)
      then show ?thesis
        using Pair Inr r s k absent
        by (auto simp: complete_saga_body_def find_node_def save_connection_command_state_def
            find_connection_command_def update_connection_def update_stored_def)
    qed
  qed
  then show ?thesis by (cases "complete_saga_body ?s later st1") (simp add: complete_saga_def within_transaction_def)
qed

definition sample_env :: hub_env where
  "sample_env =
     \<lparr>env_request_hash = (\<lambda>_. Inr ''h''), env_parse_url = (\<lambda>u.
        if u = ''https://edge'' then Inr \<lparr>url_scheme = ''https'', url_host = ''edge'', url_fragment = []\<rparr>
        else Inl (PlainError ''parse'')),
      env_upsert_client = (\<lambda>_ _ _ _ _. Inr None), env_set_client_status = (\<lambda>_ _ _. Inr ()),
      env_encrypt = (\<lambda>_. Inr no_secret), env_decrypt = (\<lambda>_. Inr []), env_apply_remote = (\<lambda>_ _ _. Inr ()),
      env_trace_id = [], env_allow_http = False\<rparr>"

definition sample_request :: "string \<Rightarrow> string \<Rightarrow> provision_request" where
  "sample_request version uri =
     \<lparr>pr_node_code = ''edge-1'', pr_version = version, pr_display_name = ''x'', pr_redirect_uri = uri,
      pr_rotate_secret = False, pr_reason = ''r'', pr_idempotency_key = ''k''\<rparr>"

definition sample_fresh_node :: hub_node where
  "sample_fresh_node = sample_node\<lparr>connection_version := [], connection_request_hash := []\<rparr>"

definition sample_fresh_hub :: hub_state where
  "sample_fresh_hub = \<lparr>hub_nodes = [''edge-1'' \<mapsto> sample_fresh_node], hub_commands = Map.empty\<rparr>"

lemma inv_sample_fresh_hub: "hub_inv sample_fresh_hub"
  by (simp add: hub_inv_def sample_fresh_hub_def node_ok_def trim_sample_names)
    (simp add: sample_fresh_node_def sample_node_def trim_space_def)

lemma sample_validates: "validate_provision sample_env (sample_request ''v1 '' ''https://edge'') = Inr ()"
  by code_simp

lemma sample_accepted:
  "fst (provision_accept sample_env (sample_request ''v1 '' ''https://edge'') ''h'' 0 sample_fresh_hub) =
     Inr (False, snd (start_provision ''v1 '' ''h'' False 0 sample_fresh_node)\<lparr>node_updated_at := 0\<rparr>)"
  by code_simp

theorem untrimmed_version_never_completes_witness:
  "\<exists>s st1. provision_first sample_env SqlOk (sample_request ''v1 '' ''https://edge'') 0 sample_fresh_hub =
       (Inr (False, s), st1) \<and>
     complete_saga SqlOk (ensure_target_revision s) 1 st1 =
       (Inl (map_domain_mutation_error err_stale_provision_result), st1)"
proof -
  let ?cmd = "sample_request ''v1 '' ''https://edge''"
  obtain s st1 where "provision_accept sample_env ?cmd ''h'' 0 sample_fresh_hub = (Inr (False, s), st1)"
    using sample_accepted by (metis prod.collapse)
  then have first: "provision_first sample_env SqlOk ?cmd 0 sample_fresh_hub = (Inr (False, s), st1)"
    using sample_validates by (simp add: provision_first_def within_transaction_Inr sample_env_def)
  have code: "trim_space (pr_node_code ?cmd) = ''edge-1''" by (simp add: sample_request_def trim_sample_names)
  have "find_node (pr_node_code ?cmd) sample_fresh_hub = Some sample_fresh_node"
    unfolding find_node_def code by (simp add: sample_fresh_hub_def)
  moreover have "connection_version sample_fresh_node = []" by (simp add: sample_fresh_node_def)
  moreover have "find_connection_command (pr_node_code ?cmd) (pr_version ?cmd) sample_fresh_hub = None"
    by (simp add: find_connection_command_def sample_fresh_hub_def)
  moreover have "trim_space (pr_version ?cmd) \<noteq> pr_version ?cmd" by code_simp
  ultimately show ?thesis
    using untrimmed_version_never_completes [OF inv_sample_fresh_hub _ _ _ _ first] first by blast
qed

text \<open>Nor does a superseded row of such a version stay superseded. The ledger is searched for the version without
  its blanks and has no row for it, so when the version is requested again after another one, the request is
  accepted as a new one and its upsert turns the superseded row back into a pending one.\<close>

lemma command_record_untrimmed:
  assumes "find_connection_command (node_code locked) (pr_version cmd) st = None"
    "provision_command_record locked cmd h now st = (Inr c, st1)"
  shows "command_node c = node_code locked \<and> command_version c = pr_version cmd"
  using assms by (auto simp: provision_command_record_def Let_def split: if_split_asm)

lemma untrimmed_version_revived:
  assumes "find_node (pr_node_code cmd) st = Some found" "node_code found = k"
    "find_connection_command k (pr_version cmd) st = None" "hub_commands st (k, pr_version cmd) = Some c" "is_superseded c"
    "provision_first env outcome cmd now st = (Inr (False, s), st')"
  shows "\<exists>c'. hub_commands st' (k, pr_version cmd) = Some c' \<and> command_state c' = command_pending"
proof -
  obtain h where acc: "provision_accept env cmd h now st = (Inr (False, s), st')"
    using assms(6) by (auto simp: provision_first_def within_transaction_Inr split: sum.splits)
  let ?locked = "ensure_target_revision found"
  from acc assms(1) obtain c0 st1 where rec: "provision_command_record ?locked cmd h now st = (Inr c0, st1)"
      and cont: "provision_continue env cmd h now ?locked c0 st1 = (Inr (False, s), st')"
    by (auto simp: provision_accept_def Let_def then_do_Inr split: if_split_asm)
  have c0: "command_node c0 = k" "command_version c0 = pr_version cmd"
    using command_record_untrimmed [OF _ rec] assms(2,3) by simp_all
  obtain d n1 where start: "start_provision (pr_version cmd) h (pr_rotate_secret cmd) now ?locked = (Inr d, n1)"
    using cont by (auto simp: provision_continue_def split: sum.splits prod.splits)
  from cont obtain st2 where "st' = save_connection_command
      (c0\<lparr>command_revision := decision_revision d, command_state := command_pending, command_updated := now\<rparr>) st2"
    by (auto simp: provision_continue_def start then_do_Inr split: sum.splits if_split_asm)
  with c0 show ?thesis by (auto simp: save_command_rows split: option.split)
qed

text \<open>The requests ''v1 '', ''v2'' and ''v1 '' one after the other.\<close>

definition revival :: "string list \<Rightarrow> hub_state" where
  "revival vs = foldl (\<lambda>st v. snd (provision_first sample_env SqlOk (sample_request v ''https://edge'') 0 st)) sample_fresh_hub vs"

definition revival_state :: "string list \<Rightarrow> string option" where
  "revival_state vs = map_option command_state (hub_commands (revival vs) (''edge-1'', ''v1 ''))"

lemma revival_reachable: "(hub_step UNIV)\<^sup>*\<^sup>* sample_fresh_hub (revival vs)"
proof (induction vs rule: rev_induct)
  case (snoc v vs)
  have "hub_step UNIV (revival vs) (revival (vs @ [v]))" unfolding revival_def by (simp add: hub_step.accept)
  with snoc show ?case by (rule rtranclp.rtrancl_into_rtrancl)
qed (simp add: revival_def)

theorem untrimmed_version_revived_witness:
  "(hub_step UNIV)\<^sup>*\<^sup>* sample_fresh_hub (revival [''v1 '', ''v2'']) \<and> revival_state [''v1 '', ''v2''] = Some command_superseded
     \<and> hub_step UNIV (revival [''v1 '', ''v2'']) (revival [''v1 '', ''v2'', ''v1 ''])
     \<and> revival_state [''v1 '', ''v2'', ''v1 ''] = Some command_pending"
proof (intro conjI)
  show "hub_step UNIV (revival [''v1 '', ''v2'']) (revival [''v1 '', ''v2'', ''v1 ''])"
    unfolding revival_def by (simp add: hub_step.accept)
  show "revival_state [''v1 '', ''v2''] = Some command_superseded" by code_simp
  show "revival_state [''v1 '', ''v2'', ''v1 ''] = Some command_pending" by code_simp
qed (rule revival_reachable)

text \<open>A request whose redirect URI does not parse is not answered with a parameter error: validation reads the
  missing result of the parser, so the request ends in a nil dereference. No state is changed.\<close>

lemma unparsable_redirect_panics:
  assumes "validate_node_code (pr_node_code cmd) = Inr ()"
    "validate_bounded ''connectionVersion'' (pr_version cmd) 128 = Inr ()"
    "validate_write (pr_idempotency_key cmd) (pr_reason cmd) = Inr ()"
    "env_parse_url env (trim_space (pr_redirect_uri cmd)) = Inl e"
  shows "provision_node_connection env oc1 oc2 others cmd now later st = (Inl nil_dereference, st)"
  using assms by (simp add: provision_node_connection_def provision_first_def validate_provision_def)

theorem unparsable_redirect_panics_witness:
  "provision_node_connection sample_env SqlOk SqlOk id (sample_request ''v1'' ''%zz'') 0 1 sample_hub =
     (Inl nil_dereference, sample_hub)"
proof (rule unparsable_redirect_panics)
  let ?r = "sample_request ''v1'' ''%zz''"
  show "validate_node_code (pr_node_code ?r) = Inr ()" by code_simp
  show "validate_bounded ''connectionVersion'' (pr_version ?r) 128 = Inr ()" by code_simp
  show "validate_write (pr_idempotency_key ?r) (pr_reason ?r) = Inr ()" by code_simp
  show "env_parse_url sample_env (trim_space (pr_redirect_uri ?r)) = Inl (PlainError ''parse'')" by code_simp
qed

end
