(* ===== verification/Outbox_Lease.thy ===== *)
theory Outbox_Lease
  imports Outbox
begin

text \<open>
  The outbox as a fenced lease: the interpretation of the contract on the two \<open>UPDATE\<close> statements, an
  abstract work item that they implement, and the properties of claiming, marking and listing.
\<close>

section \<open>The row of a work item\<close>

lemma marked_row_simps [simp]:
  "ob_id (marked_row now x r) = ob_id r" "ob_owner (marked_row now x r) = ob_owner r"
  "ob_scope (marked_row now x r) = ob_scope r" "ob_type (marked_row now x r) = ob_type r"
  "ob_event_id (marked_row now x r) = ob_event_id r"
  "ob_lease_token (marked_row now x r) = None" "ob_lease_until (marked_row now x r) = None"
  "ob_status (marked_row now x r) = fst x" "ob_next_retry_at (marked_row now x r) = snd (snd (snd x))"
  by (simp_all add: marked_row_def split: prod.split)

lemma claimed_row_simps [simp]:
  "ob_id (claimed_row w now t u r) = ob_id r" "ob_owner (claimed_row w now t u r) = ob_owner r"
  "ob_scope (claimed_row w now t u r) = ob_scope r" "ob_type (claimed_row w now t u r) = ob_type r"
  "ob_event_id (claimed_row w now t u r) = ob_event_id r"
  "ob_lease_token (claimed_row w now t u r) = Some t" "ob_lease_until (claimed_row w now t u r) = Some u"
  "ob_status (claimed_row w now t u r) = ''PROCESSING''"
  by (simp_all add: claimed_row_def)

lemma addressed_unique:
  "distinct (map ob_id rs) \<Longrightarrow> r \<in> set rs \<Longrightarrow> r' \<in> set rs \<Longrightarrow>
   addressed ident owner scope kind r \<Longrightarrow> addressed ident owner scope kind r' \<Longrightarrow> r = r'"
  by (auto simp: addressed_def distinct_map inj_on_def)

lemma addressed_same [simp]:
  "addressed ident owner scope kind (marked_row now x r) = addressed ident owner scope kind r"
  "addressed ident owner scope kind (claimed_row w now t u r) = addressed ident owner scope kind r"
  by (simp_all add: addressed_def)

lemma found_addressed: "find (addressed ident owner scope kind) rs = Some r \<Longrightarrow> addressed ident owner scope kind r"
  by (auto simp: find_Some_iff)

lemma found_row:
  assumes "distinct (map ob_id rs)"
  shows "0 < count_where (\<lambda>r. addressed ident owner scope kind r \<and> P r) rs \<longleftrightarrow>
    (case find (addressed ident owner scope kind) rs of None \<Rightarrow> False | Some r \<Rightarrow> P r)"
proof -
  let ?A = "addressed ident owner scope kind"
  have "0 < count_where (\<lambda>r. ?A r \<and> P r) rs \<longleftrightarrow>
      (case find ?A rs of None \<Rightarrow> False | Some r \<Rightarrow> ?A r \<and> P r)"
    by (rule count_where_found) (auto dest: addressed_unique [OF assms])
  also have "\<dots> \<longleftrightarrow> (case find ?A rs of None \<Rightarrow> False | Some r \<Rightarrow> P r)"
    by (cases "find ?A rs") (auto dest: found_addressed)
  finally show ?thesis .
qed

text \<open>The effect of the two statements on the row that they address.\<close>

lemma claim_found:
  assumes "distinct (map ob_id rs)"
  shows "0 < fst (claim_update ident owner scope kind w now t u rs) \<longleftrightarrow>
      (case find (addressed ident owner scope kind) rs of None \<Rightarrow> False | Some r \<Rightarrow> outbox_ready now r)"
    "find (addressed ident owner scope kind) (snd (claim_update ident owner scope kind w now t u rs)) =
      map_option (\<lambda>r. if outbox_ready now r then claimed_row w now t u r else r)
        (find (addressed ident owner scope kind) rs)"
proof -
  let ?A = "addressed ident owner scope kind"
  show "0 < fst (claim_update ident owner scope kind w now t u rs) \<longleftrightarrow>
      (case find ?A rs of None \<Rightarrow> False | Some r \<Rightarrow> outbox_ready now r)"
    using found_row [OF assms, where P = "outbox_ready now"] by (simp add: claim_update_def update_rows_def)
  have "find ?A (update_where (\<lambda>r. ?A r \<and> outbox_ready now r) (claimed_row w now t u) rs) =
      map_option (\<lambda>r. if ?A r \<and> outbox_ready now r then claimed_row w now t u r else r) (find ?A rs)"
    by (rule find_update_where) simp
  then show "find ?A (snd (claim_update ident owner scope kind w now t u rs)) =
      map_option (\<lambda>r. if outbox_ready now r then claimed_row w now t u r else r) (find ?A rs)"
    by (cases "find ?A rs") (auto simp: claim_update_def update_rows_def dest: found_addressed)
qed

lemma mark_found:
  assumes "distinct (map ob_id rs)"
  shows "0 < fst (mark_update ident owner scope kind now t x rs) \<longleftrightarrow>
      (case find (addressed ident owner scope kind) rs of None \<Rightarrow> False
       | Some r \<Rightarrow> ob_status r = ''PROCESSING'' \<and> ob_lease_token r = Some t)"
    "find (addressed ident owner scope kind) (snd (mark_update ident owner scope kind now t x rs)) =
      map_option
        (\<lambda>r. if ob_status r = ''PROCESSING'' \<and> ob_lease_token r = Some t then marked_row now x r else r)
        (find (addressed ident owner scope kind) rs)"
proof -
  let ?A = "addressed ident owner scope kind"
  let ?P = "\<lambda>r. ?A r \<and> ob_status r = ''PROCESSING'' \<and> ob_lease_token r = Some t"
  show "0 < fst (mark_update ident owner scope kind now t x rs) \<longleftrightarrow>
      (case find ?A rs of None \<Rightarrow> False
       | Some r \<Rightarrow> ob_status r = ''PROCESSING'' \<and> ob_lease_token r = Some t)"
    using found_row [OF assms, where P = "\<lambda>r. ob_status r = ''PROCESSING'' \<and> ob_lease_token r = Some t"]
    by (simp add: mark_update_def update_rows_def)
  have "find ?A (update_where ?P (marked_row now x) rs) =
      map_option (\<lambda>r. if ?P r then marked_row now x r else r) (find ?A rs)"
    by (rule find_update_where) simp
  then show "find ?A (snd (mark_update ident owner scope kind now t x rs)) =
      map_option
        (\<lambda>r. if ob_status r = ''PROCESSING'' \<and> ob_lease_token r = Some t then marked_row now x r else r)
        (find ?A rs)"
    by (cases "find ?A rs") (auto simp: mark_update_def update_rows_def dest: found_addressed)
qed

lemma claim_ids [simp]: "map ob_id (snd (claim_update ident owner scope kind w now t u rs)) = map ob_id rs"
  by (simp add: claim_update_def update_rows_def map_update_where)

lemma mark_ids [simp]: "map ob_id (snd (mark_update ident owner scope kind now t x rs)) = map ob_id rs"
  by (simp add: mark_update_def update_rows_def map_update_where)

section \<open>The contract holds\<close>

definition claim_op ::
    "int \<Rightarrow> string \<Rightarrow> string option \<Rightarrow> string \<Rightarrow> string \<Rightarrow> time \<Rightarrow> string \<Rightarrow> time \<Rightarrow> outbox_row list \<Rightarrow>
     bool \<times> outbox_row list" where
  "claim_op ident owner scope kind w now t u rs =
     (let (n, rs') = claim_update ident owner scope kind w now t u rs in (0 < n, rs'))"

definition mark_op ::
    "int \<Rightarrow> string \<Rightarrow> string option \<Rightarrow> string \<Rightarrow> time \<Rightarrow> string \<Rightarrow>
     string \<times> string option \<times> int \<times> time option \<Rightarrow> outbox_row list \<Rightarrow> bool \<times> outbox_row list" where
  "mark_op ident owner scope kind now t x rs =
     (let (n, rs') = mark_update ident owner scope kind now t x rs in (0 < n, rs'))"

definition outbox_holder ::
    "int \<Rightarrow> string \<Rightarrow> string option \<Rightarrow> string \<Rightarrow> outbox_row list \<Rightarrow> (string \<times> time option) option" where
  "outbox_holder ident owner scope kind rs =
     (case find (addressed ident owner scope kind) rs of
        None \<Rightarrow> None
      | Some r \<Rightarrow>
          if ob_status r = ''PROCESSING''
          then map_option (\<lambda>t. (t, ob_lease_until r)) (ob_lease_token r) else None)"

lemma claim_op_simps [simp]:
  "fst (claim_op ident owner scope kind w now t u rs) \<longleftrightarrow> 0 < fst (claim_update ident owner scope kind w now t u rs)"
  "snd (claim_op ident owner scope kind w now t u rs) = snd (claim_update ident owner scope kind w now t u rs)"
  by (simp_all add: claim_op_def case_prod_beta)

lemma mark_op_simps [simp]:
  "fst (mark_op ident owner scope kind now t x rs) \<longleftrightarrow> 0 < fst (mark_update ident owner scope kind now t x rs)"
  "snd (mark_op ident owner scope kind now t x rs) = snd (mark_update ident owner scope kind now t x rs)"
  by (simp_all add: mark_op_def case_prod_beta)

interpretation outbox: fenced_lease
  "claim_op ident owner scope kind w" "mark_op ident owner scope kind"
  "outbox_holder ident owner scope kind" "\<lambda>rs. distinct (map ob_id rs)"
  for ident owner scope kind w
proof
  fix s :: "outbox_row list" and now t u r
  assume inv: "distinct (map ob_id s)"
  note found = claim_found [OF inv] mark_found [OF inv]
  show "distinct (map ob_id (snd (claim_op ident owner scope kind w now t u s)))"
    "distinct (map ob_id (snd (mark_op ident owner scope kind now t r s)))"
    using inv by simp_all
  show "\<not> fst (claim_op ident owner scope kind w now t u s) \<Longrightarrow> snd (claim_op ident owner scope kind w now t u s) = s"
    by (simp add: claim_update_def update_rows_def update_where_no_match)
  show "\<not> fst (mark_op ident owner scope kind now t r s) \<Longrightarrow> snd (mark_op ident owner scope kind now t r s) = s"
    by (simp add: mark_update_def update_rows_def update_where_no_match)
  show "fst (claim_op ident owner scope kind w now t u s) \<Longrightarrow>
      outbox_holder ident owner scope kind (snd (claim_op ident owner scope kind w now t u s)) = Some (t, Some u)"
    by (auto simp: found outbox_holder_def split: option.splits)
  show "\<not> fst (claim_op ident owner scope kind w now t u s)"
    if "outbox_holder ident owner scope kind s = Some (t', Some until)" "now < until" for t' until
    using that
    by (auto simp: found outbox_holder_def outbox_ready_def split: option.splits if_splits)
  show "\<exists>until. outbox_holder ident owner scope kind s = Some (t, until)"
    if "fst (mark_op ident owner scope kind now t r s)"
    using that by (auto simp: found outbox_holder_def split: option.splits)
  show "fst (mark_op ident owner scope kind now t r s)"
    if "outbox_holder ident owner scope kind s = Some (t, Some until)" "now < until" for until
    using that by (auto simp: found outbox_holder_def split: option.splits if_splits)
  show "outbox_holder ident owner scope kind (snd (mark_op ident owner scope kind now t r s)) = None"
    if "fst (mark_op ident owner scope kind now t r s)"
    using that by (auto simp: found outbox_holder_def split: option.splits)
qed

section \<open>Interleaved use of the table\<close>

text \<open>Every operation that changes the table, with its arguments and the outcome of its statement.\<close>

datatype outbox_op =
    AppendEvent go_error sql_outcome time "outbox_event option"
  | ClaimEvent sql_outcome int time string string string string int string bool
  | MarkEvent sql_outcome time string string string int string string string int "time option" bool

fun outbox_exec :: "outbox_op \<Rightarrow> outbox_row list \<Rightarrow> outbox_row list" where
  "outbox_exec (AppendEvent dup oc now e) rs = snd (snd (outbox_append dup oc now e rs))"
| "outbox_exec (ClaimEvent oc ttl now t owner scope kind ident w exact) rs =
     snd (outbox_claim oc ttl now t owner scope kind ident w exact rs)"
| "outbox_exec (MarkEvent oc now owner scope kind ident t status err n next exact) rs =
     snd (outbox_mark oc now owner scope kind ident t status err n next exact rs)"

definition outbox_run :: "outbox_op list \<Rightarrow> outbox_row list \<Rightarrow> outbox_row list" where
  "outbox_run ops rs = fold outbox_exec ops rs"

fun issues :: "string \<Rightarrow> outbox_op \<Rightarrow> bool" where
  "issues t (AppendEvent dup oc now e) = (case e of None \<Rightarrow> False | Some v \<Rightarrow> ev_lease_token v = t)"
| "issues t (ClaimEvent oc ttl now t' owner scope kind ident w exact) = (t' = t)"
| "issues t (MarkEvent oc now owner scope kind ident t' status err n next exact) = False"

fun presents :: "string \<Rightarrow> outbox_op \<Rightarrow> bool" where
  "presents t (MarkEvent oc now owner scope kind ident t' status err n next exact) = (trim_space t' = t)"
| "presents t p = False"

fun claim_time :: "outbox_op \<Rightarrow> time option" where
  "claim_time (ClaimEvent oc ttl now t owner scope kind ident w exact) = Some now"
| "claim_time p = None"

text \<open>What an operation does to the table: some rows are replaced, and rows may be appended.\<close>

inductive row_change :: "outbox_op \<Rightarrow> outbox_row \<Rightarrow> outbox_row \<Rightarrow> bool" where
  unchanged: "row_change p r r"
| claimed:
    "\<lbrakk>ob_id r = ident; outbox_ready now r\<rbrakk> \<Longrightarrow>
     row_change (ClaimEvent oc ttl now t owner scope kind ident w exact) r
       (claimed_row (trim_space w) now t u r)"
| marked:
    "\<lbrakk>ob_id r = ident; ob_status r = ''PROCESSING''; ob_lease_token r = Some (trim_space t)\<rbrakk> \<Longrightarrow>
     row_change (MarkEvent oc now owner scope kind ident t status err n after exact) r
       (marked_row now (status, null_string err, n, after) r)"

inductive_cases row_changeE: "row_change p r r'"
inductive_cases row_change_claimE:
  "row_change (ClaimEvent oc ttl now t owner scope kind ident w exact) r r'"

lemma claim_exec_cases:
  "outbox_exec (ClaimEvent oc ttl now t owner scope kind ident w exact) rs = rs \<or>
   (\<exists>sc u. outbox_exec (ClaimEvent oc ttl now t owner scope kind ident w exact) rs =
      snd (claim_update ident (trim_space owner) sc (trim_space kind) (trim_space w) now t u rs))"
  by (cases oc) (auto simp: outbox_claim_def Let_def case_prod_beta)

lemma mark_exec_cases:
  "outbox_exec (MarkEvent oc now owner scope kind ident t status err n next exact) rs = rs \<or>
   (\<exists>sc. outbox_exec (MarkEvent oc now owner scope kind ident t status err n next exact) rs =
      snd (mark_update ident (trim_space owner) sc (trim_space kind) now (trim_space t)
             (status, null_string err, n, next) rs))"
  by (cases oc) (auto simp: outbox_mark_def Let_def case_prod_beta)

lemma append_exec_cases:
  "outbox_exec (AppendEvent dup oc now e) rs = rs \<or>
   (\<exists>v. e = Some v \<and> outbox_unique (rs @ [event_row now (default_status v)]) \<and>
      outbox_exec (AppendEvent dup oc now e) rs = rs @ [event_row now (default_status v)])"
  by (auto simp: outbox_append_def insert_rows_def Let_def case_prod_beta
      split: option.splits sql_outcome.splits if_splits)

lemma exec_rowsI:
  assumes "outbox_exec p rs = map f rs @ []" "\<And>r. row_change p r (f r)"
  shows "\<exists>f new. outbox_exec p rs = map f rs @ new \<and> (\<forall>r \<in> set rs. row_change p r (f r)) \<and>
     (new = [] \<or> (\<exists>dup oc now v. p = AppendEvent dup oc now (Some v) \<and>
        new = [event_row now (default_status v)] \<and> f = (\<lambda>r. r) \<and> outbox_unique (rs @ new)))"
  using assms by blast

lemma exec_rows:
  "\<exists>f new. outbox_exec p rs = map f rs @ new \<and> (\<forall>r \<in> set rs. row_change p r (f r)) \<and>
     (new = [] \<or> (\<exists>dup oc now v. p = AppendEvent dup oc now (Some v) \<and>
        new = [event_row now (default_status v)] \<and> f = (\<lambda>r. r) \<and> outbox_unique (rs @ new)))"
proof (cases p)
  case (AppendEvent dup oc now e)
  then consider "outbox_exec p rs = map (\<lambda>r. r) rs @ []"
    | v where "e = Some v" "outbox_unique (rs @ [event_row now (default_status v)])"
      "outbox_exec p rs = map (\<lambda>r. r) rs @ [event_row now (default_status v)]"
    using append_exec_cases [of dup oc now e rs] by auto
  then show ?thesis
  proof cases
    case 1
    then show ?thesis by (intro exI [of _ "\<lambda>r. r"] exI [of _ "[]"]) (simp add: unchanged)
  next
    case (2 v)
    then show ?thesis
      using AppendEvent
      by (intro exI [of _ "\<lambda>r. r"] exI [of _ "[event_row now (default_status v)]"])
        (simp add: unchanged)
  qed
next
  case (ClaimEvent oc ttl now t owner scope kind ident w exact)
  from claim_exec_cases [of oc ttl now t owner scope kind ident w exact rs] show ?thesis
  proof (elim disjE exE)
    assume "outbox_exec (ClaimEvent oc ttl now t owner scope kind ident w exact) rs = rs"
    with ClaimEvent show ?thesis by (intro exec_rowsI [of _ _ "\<lambda>r. r"]) (simp_all add: unchanged)
  next
    fix sc u
    let ?f = "\<lambda>r. if addressed ident (trim_space owner) sc (trim_space kind) r \<and> outbox_ready now r
        then claimed_row (trim_space w) now t u r else r"
    assume eq: "outbox_exec (ClaimEvent oc ttl now t owner scope kind ident w exact) rs =
      snd (claim_update ident (trim_space owner) sc (trim_space kind) (trim_space w) now t u rs)"
    show ?thesis
    proof (rule exec_rowsI)
      show "outbox_exec p rs = map ?f rs @ []"
        unfolding ClaimEvent eq by (simp add: claim_update_def update_rows_def update_where_def)
      show "row_change p r (?f r)" for r
        unfolding ClaimEvent by (simp add: addressed_def unchanged claimed)
    qed
  qed
next
  case (MarkEvent oc now owner scope kind ident t status err n after exact)
  from mark_exec_cases [of oc now owner scope kind ident t status err n after exact rs] show ?thesis
  proof (elim disjE exE)
    assume "outbox_exec (MarkEvent oc now owner scope kind ident t status err n after exact) rs = rs"
    with MarkEvent show ?thesis by (intro exec_rowsI [of _ _ "\<lambda>r. r"]) (simp_all add: unchanged)
  next
    fix sc
    let ?f = "\<lambda>r. if addressed ident (trim_space owner) sc (trim_space kind) r \<and>
        ob_status r = ''PROCESSING'' \<and> ob_lease_token r = Some (trim_space t)
        then marked_row now (status, null_string err, n, after) r else r"
    assume eq: "outbox_exec (MarkEvent oc now owner scope kind ident t status err n after exact) rs =
      snd (mark_update ident (trim_space owner) sc (trim_space kind) now (trim_space t)
             (status, null_string err, n, after) rs)"
    show ?thesis
    proof (rule exec_rowsI)
      show "outbox_exec p rs = map ?f rs @ []"
        unfolding MarkEvent eq by (simp add: mark_update_def update_rows_def update_where_def conj_assoc)
      show "row_change p r (?f r)" for r
        unfolding MarkEvent by (simp add: addressed_def unchanged marked)
    qed
  qed
qed

lemma row_change_id: "row_change p r r' \<Longrightarrow> ob_id r' = ob_id r"
  by (auto elim: row_changeE)

lemma exec_distinct:
  assumes "distinct (map ob_id rs)"
  shows "distinct (map ob_id (outbox_exec p rs))"
proof -
  obtain f new where f: "outbox_exec p rs = map f rs @ new" "\<forall>r \<in> set rs. row_change p r (f r)"
    "new = [] \<or> (f = (\<lambda>r. r) \<and> outbox_unique (rs @ new))"
    using exec_rows [of p rs] by blast
  have same: "map ob_id (map f rs) = map ob_id rs" using f(2) row_change_id by auto
  from f(3) show ?thesis
  proof
    assume "new = []"
    with f(1) same assms show ?thesis by (metis append_Nil2)
  next
    assume "f = (\<lambda>r. r) \<and> outbox_unique (rs @ new)"
    with f(1) show ?thesis by (simp add: outbox_unique_def)
  qed
qed

lemma run_distinct: "distinct (map ob_id rs) \<Longrightarrow> distinct (map ob_id (outbox_run ops rs))"
  unfolding outbox_run_def by (induction ops arbitrary: rs) (auto intro: exec_distinct)

lemma exec_row:
  assumes "distinct (map ob_id rs)" "r \<in> set rs"
  shows "\<exists>r' \<in> set (outbox_exec p rs). row_change p r r'"
  using exec_rows [of p rs] assms(2) by fastforce

lemma row_by_id: "distinct (map ob_id rs) \<Longrightarrow> r \<in> set rs \<Longrightarrow> r' \<in> set rs \<Longrightarrow> ob_id r = ob_id r' \<Longrightarrow> r = r'"
  by (auto simp: distinct_map inj_on_def)

text \<open>Only an operation that issues a token can make a row carry it.\<close>

lemma exec_token:
  assumes "\<not> issues t p" "r' \<in> set (outbox_exec p rs)" "ob_lease_token r' = Some t"
  shows "\<exists>r \<in> set rs. ob_id r = ob_id r' \<and> ob_lease_token r = Some t"
proof -
  obtain f new where f: "outbox_exec p rs = map f rs @ new" "\<forall>r \<in> set rs. row_change p r (f r)"
    "new = [] \<or> (\<exists>dup oc now v. p = AppendEvent dup oc now (Some v) \<and>
        new = [event_row now (default_status v)])"
    using exec_rows [of p rs] by blast
  have "ob_lease_token (event_row now (default_status v)) = Some t \<Longrightarrow> ev_lease_token v = t" for now v
    by (auto simp: event_row_def default_status_def null_string_def split: if_splits)
  then have "r' \<notin> set new" using f(3) assms by auto
  then obtain r where r: "r \<in> set rs" "r' = f r" using f(1) assms(2) by auto
  with f(2) have change: "row_change p r r'" by simp
  then have "ob_lease_token r = Some t"
    using assms(1,3) by (auto elim: row_changeE)
  with r(1) change show ?thesis using row_change_id by metis
qed

lemma run_token:
  assumes "\<forall>p \<in> set ops. \<not> issues t p" "r' \<in> set (outbox_run ops rs)" "ob_lease_token r' = Some t"
  shows "\<exists>r \<in> set rs. ob_id r = ob_id r' \<and> ob_lease_token r = Some t"
  using assms unfolding outbox_run_def
proof (induction ops arbitrary: rs)
  case (Cons p ops)
  then obtain r where r: "r \<in> set (outbox_exec p rs)" "ob_id r = ob_id r'" "ob_lease_token r = Some t"
    by fastforce
  with exec_token [of t p r rs] Cons.prems(1) show ?case by auto
qed auto

text \<open>A live lease keeps its row as it is, as long as its token is not presented.\<close>

lemma run_live_row:
  assumes "distinct (map ob_id rs)" "r \<in> set rs" "ob_status r = ''PROCESSING''"
    "ob_lease_token r = Some t" "ob_lease_until r = Some u"
    "\<forall>p \<in> set ops. \<not> presents t p \<and> (\<forall>now. claim_time p = Some now \<longrightarrow> now < u)"
  shows "r \<in> set (outbox_run ops rs)"
  using assms(1,2,6) unfolding outbox_run_def
proof (induction ops arbitrary: rs)
  case (Cons p ops)
  obtain r' where r': "r' \<in> set (outbox_exec p rs)" "row_change p r r'"
    using exec_row Cons.prems by blast
  have "r' = r"
    using r'(2) Cons.prems(3) assms(3-5) by (auto elim!: row_changeE simp: outbox_ready_def)
  with Cons r' exec_distinct show ?case by auto
qed simp

text \<open>A row that is in none of the three working states is never touched again.\<close>

lemma run_settled_row:
  assumes "distinct (map ob_id rs)" "r \<in> set rs"
    "ob_status r \<notin> {''PENDING'', ''FAILED'', ''PROCESSING''}"
  shows "r \<in> set (outbox_run ops rs)"
  using assms(1,2) unfolding outbox_run_def
proof (induction ops arbitrary: rs)
  case (Cons p ops)
  obtain r' where r': "r' \<in> set (outbox_exec p rs)" "row_change p r r'"
    using exec_row Cons.prems by blast
  have "r' = r" using r'(2) assms(3) by (auto elim!: row_changeE simp: outbox_ready_def)
  with Cons r' exec_distinct show ?case by auto
qed simp

section \<open>A claim and its completion through the interface\<close>

lemma claim_success:
  assumes "outbox_claim SqlOk ttl now t owner scope kind ident w exact rs = (Inr (Some l), rs')"
    "distinct (map ob_id rs)"
  shows "l = \<lparr>lease_token = t, lease_until = now + outbox_lease_duration ttl\<rparr> \<and>
    (\<exists>r \<in> set rs. addressed ident (trim_space owner) (if exact then Some (trim_space scope) else None)
        (trim_space kind) r \<and> outbox_ready now r \<and>
      claimed_row (trim_space w) now t (lease_until l) r \<in> set rs')"
proof -
  let ?sc = "if exact then Some (trim_space scope) else None"
  let ?A = "addressed ident (trim_space owner) ?sc (trim_space kind)"
  let ?u = "now + outbox_lease_duration ttl"
  have l: "l = \<lparr>lease_token = t, lease_until = ?u\<rparr>"
    and rs': "rs' = snd (claim_update ident (trim_space owner) ?sc (trim_space kind) (trim_space w) now t ?u rs)"
    and pos: "0 < fst (claim_update ident (trim_space owner) ?sc (trim_space kind) (trim_space w) now t ?u rs)"
    using assms(1) by (auto simp: outbox_claim_def Let_def case_prod_beta split: if_splits)
  then obtain r where r: "find ?A rs = Some r" "outbox_ready now r"
    using claim_found(1) [OF assms(2)] by (auto split: option.splits)
  have "r \<in> set rs" "?A r" using r(1) by (auto simp: find_Some_iff)
  with r(2) l show ?thesis
    unfolding rs' claim_update_def update_rows_def by (force simp: set_update_where)
qed

lemma mark_owner:
  assumes "distinct (map ob_id rs)"
  shows "snd (outbox_mark oc now owner scope kind ident t status err n next exact rs) = rs \<and>
      fst (outbox_mark oc now owner scope kind ident t status err n next exact rs) \<noteq> Inr True
    \<or> (\<exists>r \<in> set rs. ob_id r = ident \<and> ob_status r = ''PROCESSING'' \<and> ob_lease_token r = Some (trim_space t))"
proof (cases "\<exists>r \<in> set rs. ob_id r = ident \<and> ob_status r = ''PROCESSING'' \<and> ob_lease_token r = Some (trim_space t)")
  case False
  then have "count_where (\<lambda>r. addressed ident o' sc k r \<and> ob_status r = ''PROCESSING'' \<and>
      ob_lease_token r = Some (trim_space t)) rs = 0" for o' sc k
    by (auto simp: count_where_def filter_empty_conv addressed_def)
  then have "mark_update ident o' sc k now (trim_space t) x rs = (0, rs)" for o' sc k x
    unfolding mark_update_def by (rule update_rows_none)
  then show ?thesis
    by (cases oc) (auto simp: outbox_mark_def Let_def)
qed simp

end
