(* ===== verification/Outbox_Properties.thy ===== *)
theory Outbox_Properties
  imports Outbox_Lease
begin

text \<open>
  What the outbox promises: a stale worker is fenced out, a live claim is exclusive, a claim is worth one
  completion, settled events stay settled, listing returns claimable work in order, and the two
  statements implement an abstract work item.
\<close>

section \<open>A table for the witnesses\<close>

definition sample_event :: "int \<Rightarrow> string \<Rightarrow> outbox_event" where
  "sample_event ident kind =
     \<lparr>ev_id = ident, ev_event_id = show_int ident, ev_owner = ''mail'', ev_scope = ''local'',
      ev_type = kind, ev_aggregate_type = ''user'', ev_aggregate_id = ''7'', ev_payload = ''{}'',
      ev_payload_oversized = False, ev_status = [], ev_retry_count = 0,
      ev_next_retry_at = zero_time, ev_last_error = [], ev_lease_owner = [], ev_lease_token = [],
      ev_lease_until = zero_time, ev_create_time = zero_time, ev_update_time = zero_time\<rparr>"

definition sample_row :: outbox_row where
  "sample_row =
     \<lparr>ob_id = 1, ob_event_id = ''1'', ob_owner = ''mail'', ob_scope = Some ''local'',
      ob_type = ''sent'', ob_aggregate_type = ''user'', ob_aggregate_id = ''7'', ob_payload = ''{}'',
      ob_status = ''PENDING'', ob_retry_count = 0, ob_next_retry_at = None, ob_error_msg = None,
      ob_lease_owner = None, ob_lease_token = None, ob_lease_until = None, ob_create_time = 0,
      ob_update_time = Some 0\<rparr>"

definition sample_completions ::
    "(string, string \<times> string option \<times> int \<times> time option) lease_op list" where
  "sample_completions =
     [FinishOp 1 ''t1'' (''DONE'', None, 0, None), FinishOp 2 ''t1'' (''FAILED'', None, 1, None)]"

lemma trim_samples [simp]:
  "trim_space ''mail'' = ''mail''" "trim_space ''local'' = ''local''" "trim_space ''sent'' = ''sent''"
  "trim_space ''w1'' = ''w1''" "trim_space ''w2'' = ''w2''" "trim_space ''t1'' = ''t1''"
  "trim_space ''t2'' = ''t2''"
  by (simp_all add: trim_visible visible_def)

lemma sample_claim:
  "outbox_claim SqlOk 5 0 ''t1'' ''mail'' ''local'' ''sent'' 1 ''w1'' True [sample_row] =
     (Inr (Some \<lparr>lease_token = ''t1'', lease_until = 5\<rparr>), [claimed_row ''w1'' 0 ''t1'' 5 sample_row])"
  by (simp add: outbox_claim_def claim_update_def update_rows_def update_where_def count_where_def
      addressed_def outbox_ready_def sample_row_def outbox_lease_duration_def)

lemma sample_reclaim:
  "outbox_claim SqlOk 5 9 ''t2'' ''mail'' ''local'' ''sent'' 1 ''w2'' True
       [claimed_row ''w1'' 0 ''t1'' 5 sample_row] =
     (Inr (Some \<lparr>lease_token = ''t2'', lease_until = 14\<rparr>),
      [claimed_row ''w2'' 9 ''t2'' 14 (claimed_row ''w1'' 0 ''t1'' 5 sample_row)])"
  by (simp add: outbox_claim_def claim_update_def update_rows_def update_where_def count_where_def
      addressed_def outbox_ready_def sample_row_def outbox_lease_duration_def)

section \<open>Fencing\<close>

text \<open>C13. A worker whose claim was superseded is fenced out. When a worker claims an event with a fresh token
  and another worker later claims the same event with a different one, then whatever operations on the
  table come between and after (as long as the first token is not issued again), completing the event
  with the first token reports no success and leaves the table as it is.\<close>

theorem stale_worker_fenced_out:
  assumes "distinct (map ob_id rs)" "\<forall>r \<in> set rs. ob_lease_token r \<noteq> Some t" "trim_space t = t"
    and "outbox_claim oc1 ttl1 now1 t owner scope kind ident w1 exact rs = (res1, rs1)"
    and "\<forall>p \<in> set ops1. \<not> issues t p"
    and "outbox_claim SqlOk ttl2 now2 t' owner' scope' kind' ident w2 exact' (outbox_run ops1 rs1) = (Inr (Some l), rs2)"
    and "t' \<noteq> t" "\<forall>p \<in> set ops2. \<not> issues t p"
  shows "snd (outbox_mark oc now3 owner scope kind ident t status err n next exact (outbox_run ops2 rs2)) =
      outbox_run ops2 rs2 \<and>
    fst (outbox_mark oc now3 owner scope kind ident t status err n next exact (outbox_run ops2 rs2)) \<noteq> Inr True"
proof -
  have rs1: "rs1 = outbox_exec (ClaimEvent oc1 ttl1 now1 t owner scope kind ident w1 exact) rs"
    using assms(4) by simp
  have d1: "distinct (map ob_id (outbox_run ops1 rs1))"
    unfolding rs1 by (intro run_distinct exec_distinct assms)
  have only: "ob_id r = ident" if r: "r \<in> set (outbox_run ops1 rs1)" "ob_lease_token r = Some t" for r
  proof -
    obtain r1 where r1: "r1 \<in> set rs1" "ob_id r1 = ob_id r" "ob_lease_token r1 = Some t"
      using run_token [OF assms(5) r] by blast
    then obtain r0 where r0: "r0 \<in> set rs"
        "row_change (ClaimEvent oc1 ttl1 now1 t owner scope kind ident w1 exact) r0 r1"
      using exec_rows [of "ClaimEvent oc1 ttl1 now1 t owner scope kind ident w1 exact" rs]
      unfolding rs1 by auto
    have "ob_lease_token r0 \<noteq> Some t" using r0(1) assms(2) by blast
    with r0(2) r1(3) have "ob_id r0 = ident" by (auto elim: row_change_claimE)
    with row_change_id [OF r0(2)] r1(2) show ?thesis by simp
  qed
  have rs2: "rs2 = outbox_exec (ClaimEvent SqlOk ttl2 now2 t' owner' scope' kind' ident w2 exact') (outbox_run ops1 rs1)"
    using assms(6) by simp
  have d2: "distinct (map ob_id rs2)" unfolding rs2 by (rule exec_distinct [OF d1])
  obtain r where r: "ob_id r = ident" "claimed_row (trim_space w2) now2 t' (lease_until l) r \<in> set rs2"
    using claim_success [OF assms(6) d1] by (auto simp: addressed_def)
  have gone: "ob_lease_token r2 \<noteq> Some t" if r2: "r2 \<in> set rs2" for r2
  proof
    assume tok: "ob_lease_token r2 = Some t"
    then obtain r1 where "r1 \<in> set (outbox_run ops1 rs1)" "ob_id r1 = ob_id r2" "ob_lease_token r1 = Some t"
      using exec_token [of t "ClaimEvent SqlOk ttl2 now2 t' owner' scope' kind' ident w2 exact'" r2]
        r2 assms(7) unfolding rs2 by auto
    with only have "ob_id r2 = ob_id (claimed_row (trim_space w2) now2 t' (lease_until l) r)"
      using r(1) by auto
    with row_by_id [OF d2 r2 r(2)] tok assms(7) show False by simp
  qed
  have "ob_lease_token r3 \<noteq> Some t" if "r3 \<in> set (outbox_run ops2 rs2)" for r3
    using run_token [OF assms(8) that] gone by blast
  with mark_owner [OF run_distinct [OF d2], of oc now3 owner scope kind ident t] assms(3)
  show ?thesis by fastforce
qed

theorem stale_worker_fenced_out_witness:
  "fst (outbox_mark SqlOk 10 ''mail'' ''local'' ''sent'' 1 ''t1'' ''DONE'' [] 0 None True
      [claimed_row ''w2'' 9 ''t2'' 14 (claimed_row ''w1'' 0 ''t1'' 5 sample_row)]) \<noteq> Inr True"
  using stale_worker_fenced_out [OF _ _ _ sample_claim, of "[]" 5 9 "''t2''" "''mail''" "''local''" "''sent''"
      "''w2''" True _ _ "[]"] sample_reclaim
  by (simp add: outbox_run_def sample_row_def)

text \<open>C14. A live claim is exclusive. Until its deadline, and as long as nobody presents its token, every other
  operation on the table leaves the claimed row exactly as the claim wrote it, and at any time before
  the deadline the holder can still complete the event.\<close>

theorem live_claim_exclusive:
  assumes "distinct (map ob_id rs)" "trim_space t = t" "t \<noteq> []"
    and "outbox_claim SqlOk ttl now t owner scope kind ident w exact rs = (Inr (Some l), rs1)"
    and "\<forall>p \<in> set ops. \<not> presents t p \<and> (\<forall>at. claim_time p = Some at \<longrightarrow> at < lease_until l)"
  shows "(\<exists>r \<in> set rs. claimed_row (trim_space w) now t (lease_until l) r \<in> set (outbox_run ops rs1)) \<and>
    fst (outbox_mark SqlOk at owner scope kind ident t status err n next exact (outbox_run ops rs1)) = Inr True"
proof -
  let ?sc = "if exact then Some (trim_space scope) else None"
  obtain r where r: "r \<in> set rs" "addressed ident (trim_space owner) ?sc (trim_space kind) r"
      "claimed_row (trim_space w) now t (lease_until l) r \<in> set rs1"
    using claim_success [OF assms(4,1)] by blast
  have d1: "distinct (map ob_id rs1)"
    using exec_distinct [OF assms(1), of "ClaimEvent SqlOk ttl now t owner scope kind ident w exact"] assms(4)
    by simp
  let ?r = "claimed_row (trim_space w) now t (lease_until l) r"
  have kept: "?r \<in> set (outbox_run ops rs1)"
    by (rule run_live_row [OF d1 r(3), of t "lease_until l"]) (use assms(5) in auto)
  have "0 < count_where (\<lambda>x. addressed ident (trim_space owner) ?sc (trim_space kind) x \<and>
      ob_status x = ''PROCESSING'' \<and> ob_lease_token x = Some t) (outbox_run ops rs1)"
    unfolding count_where_pos using r(2) by (intro bexI [OF _ kept]) simp
  moreover have "trim_space owner \<noteq> []" "trim_space kind \<noteq> []" "0 < ident" "exact \<longrightarrow> trim_space scope \<noteq> []"
    using assms(4) by (auto simp: outbox_claim_def Let_def split: if_splits)
  ultimately have "fst (outbox_mark SqlOk at owner scope kind ident t status err n next exact (outbox_run ops rs1)) = Inr True"
    using assms(2,3) by (simp add: outbox_mark_def Let_def mark_update_def update_rows_def split: prod.split)
  with r(1) kept show ?thesis by blast
qed

theorem live_claim_exclusive_witness:
  "fst (outbox_mark SqlOk 4 ''mail'' ''local'' ''sent'' 1 ''t1'' ''DONE'' [] 0 None True
      (outbox_run [ClaimEvent SqlOk 5 3 ''t2'' ''mail'' ''local'' ''sent'' 1 ''w2'' True]
        [claimed_row ''w1'' 0 ''t1'' 5 sample_row])) = Inr True"
  using live_claim_exclusive [OF _ _ _ sample_claim,
      of "[ClaimEvent SqlOk 5 3 ''t2'' ''mail'' ''local'' ''sent'' 1 ''w2'' True]" 4 "''DONE''" "[]" 0 None]
  by simp

text \<open>One claim is worth one completion. Among any interleaving of claims of an event by a worker and
  completions of it under any tokens, in which a token is not issued (again), at most one completion
  that presents this token succeeds.\<close>

lemma completion_at_most_once:
  assumes "distinct (map ob_id rs)" "\<forall>p \<in> set ops. \<not> claims t p"
  shows "finish_count t ops
    (fst (run_lease (claim_op ident owner scope kind w) (mark_op ident owner scope kind) ops rs)) \<le> 1"
  by (rule outbox.finish_at_most_once [OF assms])

theorem completion_at_most_once_witness:
  "finish_count ''t1'' sample_completions
     (fst (run_lease (claim_op 1 ''mail'' None ''sent'' ''w2'') (mark_op 1 ''mail'' None ''sent'')
       sample_completions [claimed_row ''w1'' 0 ''t1'' 5 sample_row])) \<le> 1"
  by (rule completion_at_most_once) (simp_all add: sample_completions_def)

text \<open>A settled event stays settled. A row whose status is none of PENDING, FAILED and PROCESSING is not
  changed by any sequence of appends, claims and completions, so it is never delivered again.\<close>

lemma settled_event_stays:
  assumes "distinct (map ob_id rs)" "r \<in> set rs"
    "ob_status r \<notin> {''PENDING'', ''FAILED'', ''PROCESSING''}"
  shows "r \<in> set (outbox_run ops rs) \<and> (\<forall>now. \<not> outbox_ready now r)"
  using run_settled_row [OF assms] assms(3) by (auto simp: outbox_ready_def)

theorem settled_event_stays_witness:
  "sample_row\<lparr>ob_status := ''DONE''\<rparr> \<in>
     set (outbox_run [ClaimEvent SqlOk 5 3 ''t2'' ''mail'' [] ''sent'' 1 ''w2'' False]
       [sample_row\<lparr>ob_status := ''DONE''\<rparr>])"
  using settled_event_stays [of "[sample_row\<lparr>ob_status := ''DONE''\<rparr>]" "sample_row\<lparr>ob_status := ''DONE''\<rparr>"
      "[ClaimEvent SqlOk 5 3 ''t2'' ''mail'' [] ''sent'' 1 ''w2'' False]"]
  by simp

section \<open>Listing\<close>

lemma distinct_types_set: "set (distinct_types seen ts) = {n. n \<noteq> [] \<and> n \<in> trim_space ` set ts} - set seen"
  by (induction seen ts rule: distinct_types.induct) (auto simp: Let_def)

lemma distinct_types_distinct: "distinct (distinct_types seen ts)"
  by (induction seen ts rule: distinct_types.induct) (auto simp: Let_def distinct_types_set)

lemma normalize_event_types_Inr:
  "normalize_event_types ts = Inr types \<Longrightarrow>
   distinct types \<and> types \<noteq> [] \<and> set types = {n. n \<noteq> [] \<and> n \<in> trim_space ` set ts}"
  by (auto simp: normalize_event_types_def Let_def distinct_types_distinct distinct_types_set
      split: if_splits)

lemma take_sorted_older:
  assumes "sorted (map f xs)" "x \<in> set (take n xs)" "y \<in> set (drop n xs)"
  shows "f x \<le> f y"
proof -
  have "sorted (map f (take n xs) @ map f (drop n xs))"
    using assms(1) by (metis append_take_drop_id map_append)
  with assms(2,3) show ?thesis by (auto simp: sorted_append)
qed

lemma in_drop_if_not_take: "x \<in> set xs \<Longrightarrow> x \<notin> set (take n xs) \<Longrightarrow> x \<in> set (drop n xs)"
  by (metis Un_iff append_take_drop_id set_append)

lemma oldest_first_taken:
  fixes n :: nat and P rs
  defines "rows \<equiv> take n (oldest_first (filter P rs))"
  shows "length rows \<le> n" "sorted (map ob_create_time rows)" "\<forall>r \<in> set rows. r \<in> set rs \<and> P r"
    "r \<in> set rs \<Longrightarrow> P r \<Longrightarrow> r \<notin> set rows \<Longrightarrow>
       length rows = n \<and> (\<forall>x \<in> set rows. ob_create_time x \<le> ob_create_time r)"
proof -
  let ?all = "oldest_first (filter P rs)"
  have all: "set ?all = {r \<in> set rs. P r}" and sorted: "sorted (map ob_create_time ?all)"
    by (auto simp: oldest_first_def)
  show "length rows \<le> n" by (simp add: rows_def)
  show "sorted (map ob_create_time rows)"
    using sorted by (simp add: rows_def take_map [symmetric] sorted_wrt_take)
  show "\<forall>r \<in> set rows. r \<in> set rs \<and> P r" unfolding rows_def using all in_set_takeD by fast
  assume r: "r \<in> set rs" "P r" "r \<notin> set rows"
  then have later: "r \<in> set (drop n ?all)" unfolding rows_def
    by (intro in_drop_if_not_take) (use all in simp_all)
  then have "n < length ?all" by (metis drop_all emptyE linorder_not_less set_empty)
  then show "length rows = n \<and> (\<forall>x \<in> set rows. ob_create_time x \<le> ob_create_time r)"
    unfolding rows_def using take_sorted_older [OF sorted _ later] by simp
qed

text \<open>Listing returns the oldest ready work of the owner and scope. The events are at most as many as the
  limit, each comes from a row of the owner, the scope and one of the requested types that is ready,
  they are in order of creation, and a ready row of that kind that is not returned is no older than
  any that is, and only left out when the limit is reached. Ready is the very condition under which a
  claim at the same instant succeeds.\<close>

lemma list_ready_oldest:
  assumes "list_ready SqlOk now owner scope types False limit rs = Inr evs"
  shows "\<exists>rows. evs = map row_event rows \<and> int (length evs) \<le> (if limit \<le> 0 then 100 else limit) \<and>
    sorted (map ob_create_time rows) \<and>
    (\<forall>r \<in> set rows. r \<in> set rs \<and> ob_owner r = trim_space owner \<and> scoped_outbox_predicate scope r \<and>
       ob_type r \<in> trim_space ` set types \<and> outbox_ready now r) \<and>
    (\<forall>r \<in> set rs. ob_owner r = trim_space owner \<and> scoped_outbox_predicate scope r \<and>
       ob_type r \<in> trim_space ` set types \<and> ob_type r \<noteq> [] \<and> outbox_ready now r \<and> r \<notin> set rows \<longrightarrow>
       int (length evs) = (if limit \<le> 0 then 100 else limit) \<and>
       (\<forall>x \<in> set rows. ob_create_time x \<le> ob_create_time r))"
proof -
  obtain ts where ts: "normalize_event_types types = Inr ts" and owner: "trim_space owner \<noteq> []"
    using assms by (auto simp: list_ready_def Let_def split: if_splits sum.splits)
  let ?match = "list_where now (trim_space owner) scope ts False"
  let ?rows = "take (list_limit limit) (oldest_first (filter ?match rs))"
  have evs: "evs = map row_event ?rows" using assms ts owner by (simp add: list_ready_def Let_def)
  have match: "?match r \<longleftrightarrow> ob_owner r = trim_space owner \<and> scoped_outbox_predicate scope r \<and>
      ob_type r \<in> trim_space ` set types \<and> ob_type r \<noteq> [] \<and> outbox_ready now r" for r
    using normalize_event_types_Inr [OF ts] by (auto simp: list_where_def)
  note first = oldest_first_taken [where n = "list_limit limit" and P = ?match and rs = rs]
  have n: "int (list_limit limit) = (if limit \<le> 0 then 100 else limit)" by (simp add: list_limit_def)
  show ?thesis
  proof (intro exI [of _ ?rows] conjI)
    show "evs = map row_event ?rows" by (rule evs)
    show "sorted (map ob_create_time ?rows)" by (rule first(2))
    show "int (length evs) \<le> (if limit \<le> 0 then 100 else limit)" using first(1) by (simp add: evs n [symmetric])
    show "\<forall>r \<in> set ?rows. r \<in> set rs \<and> ob_owner r = trim_space owner \<and> scoped_outbox_predicate scope r \<and>
        ob_type r \<in> trim_space ` set types \<and> outbox_ready now r"
      using first(3) match by blast
    show "\<forall>r \<in> set rs. ob_owner r = trim_space owner \<and> scoped_outbox_predicate scope r \<and>
        ob_type r \<in> trim_space ` set types \<and> ob_type r \<noteq> [] \<and> outbox_ready now r \<and> r \<notin> set ?rows \<longrightarrow>
        int (length evs) = (if limit \<le> 0 then 100 else limit) \<and> (\<forall>x \<in> set ?rows. ob_create_time x \<le> ob_create_time r)"
      (is "\<forall>r \<in> set rs. ?left r \<longrightarrow> ?goal r")
    proof (intro ballI impI)
      fix r assume r: "r \<in> set rs" "?left r"
      have "?match r" using r(2) by (simp only: match simp_thms)
      with r first(4) show "?goal r" by (simp add: evs n [symmetric])
    qed
  qed
qed

theorem list_ready_oldest_witness:
  "\<exists>rows. [row_event sample_row] = map row_event rows \<and> sorted (map ob_create_time rows)"
proof -
  have "list_ready SqlOk 3 ''mail'' ''local'' [''sent''] False 10 [sample_row] = Inr [row_event sample_row]"
    by (simp add: list_ready_def normalize_event_types_def Let_def list_limit_def oldest_first_def
        list_where_def scoped_outbox_predicate_def outbox_ready_def sample_row_def)
  from list_ready_oldest [OF this] obtain rows
    where "[row_event sample_row] = map row_event rows" "sorted (map ob_create_time rows)"
    by (elim exE conjE)
  then show ?thesis by (intro exI [of _ rows] conjI)
qed

section \<open>An abstract work item\<close>

text \<open>
  The contract of one event, free of rows and columns: it waits until a due time, is held under a token
  until a deadline, or is settled. The two statements implement its two operations.
\<close>

datatype work_item =
    Waiting "time option"
  | Held "string option" "time option"
  | Settled string

definition due :: "time \<Rightarrow> time option \<Rightarrow> bool" where
  "due now t = (case t of None \<Rightarrow> True | Some u \<Rightarrow> u \<le> now)"

definition work_in :: "string \<Rightarrow> time option \<Rightarrow> string option \<Rightarrow> time option \<Rightarrow> work_item" where
  "work_in status next_retry token until =
     (if status \<in> {''PENDING'', ''FAILED''} then Waiting next_retry
      else if status = ''PROCESSING'' then Held token until else Settled status)"

definition work_of :: "outbox_row \<Rightarrow> work_item" where
  "work_of r = work_in (ob_status r) (ob_next_retry_at r) (ob_lease_token r) (ob_lease_until r)"

fun take_work :: "time \<Rightarrow> string \<Rightarrow> time \<Rightarrow> work_item \<Rightarrow> bool \<times> work_item" where
  "take_work now token until (Waiting t) =
     (if due now t then (True, Held (Some token) (Some until)) else (False, Waiting t))"
| "take_work now token until (Held tok t) =
     (if due now t then (True, Held (Some token) (Some until)) else (False, Held tok t))"
| "take_work now token until (Settled st) = (False, Settled st)"

fun settle_work :: "string \<Rightarrow> string \<Rightarrow> time option \<Rightarrow> work_item \<Rightarrow> bool \<times> work_item" where
  "settle_work token status next_retry (Held tok t) =
     (if tok = Some token then (True, work_in status next_retry None None) else (False, Held tok t))"
| "settle_work token status next_retry w = (False, w)"

text \<open>C32. The outbox statements implement the abstract work item. Seen through the abstraction, the claim of an
  addressed row is \<open>take_work\<close> and its completion is \<open>settle_work\<close>, with the same verdict; and every row
  that is not addressed is left alone.\<close>

theorem outbox_refines_work_item:
  assumes "distinct (map ob_id rs)" "r \<in> set rs" "addressed ident owner scope kind r"
  shows "fst (claim_op ident owner scope kind w now t u rs) = fst (take_work now t u (work_of r)) \<and>
    map work_of (snd (claim_op ident owner scope kind w now t u rs)) =
      map (\<lambda>x. if ob_id x = ident then snd (take_work now t u (work_of x)) else work_of x) rs \<and>
    fst (mark_op ident owner scope kind now t (status, err, n, nxt) rs) =
      fst (settle_work t status nxt (work_of r)) \<and>
    map work_of (snd (mark_op ident owner scope kind now t (status, err, n, nxt) rs)) =
      map (\<lambda>x. if ob_id x = ident then snd (settle_work t status nxt (work_of x)) else work_of x) rs"
proof -
  let ?A = "addressed ident owner scope kind"
  have A: "?A x \<longleftrightarrow> ob_id x = ident" if "x \<in> set rs" for x
    using assms that by (auto simp: addressed_def distinct_map inj_on_def)
  have found: "find ?A rs = Some r"
  proof (cases "find ?A rs")
    case None
    with assms show ?thesis by (auto simp: find_None_iff)
  next
    case (Some r')
    then have "r' \<in> set rs" "?A r'" by (auto simp: find_Some_iff)
    with Some assms addressed_unique show ?thesis by blast
  qed
  have "fst (take_work now t u (work_of r)) \<longleftrightarrow> outbox_ready now r"
    by (simp add: work_of_def work_in_def outbox_ready_def due_def split: option.split)
  moreover have "work_of (if ?A x \<and> outbox_ready now x then claimed_row w now t u x else x) =
      (if ob_id x = ident then snd (take_work now t u (work_of x)) else work_of x)" if "x \<in> set rs" for x
    using A [OF that]
    by (auto simp: work_of_def work_in_def outbox_ready_def due_def split: option.splits)
  moreover have "fst (settle_work t status nxt (work_of r)) \<longleftrightarrow>
      ob_status r = ''PROCESSING'' \<and> ob_lease_token r = Some t"
    by (simp add: work_of_def work_in_def)
  moreover have "work_of (if ?A x \<and> ob_status x = ''PROCESSING'' \<and> ob_lease_token x = Some t
        then marked_row now (status, err, n, nxt) x else x) =
      (if ob_id x = ident then snd (settle_work t status nxt (work_of x)) else work_of x)"
    if "x \<in> set rs" for x
    using A [OF that] by (auto simp: work_of_def work_in_def)
  ultimately show ?thesis
    using claim_found(1) [OF assms(1), of ident owner scope kind w now t u]
      mark_found(1) [OF assms(1), of ident owner scope kind now t "(status, err, n, nxt)"] found
    by (simp add: claim_update_def mark_update_def update_rows_def update_where_def)
qed

theorem outbox_refines_work_item_witness:
  "map work_of (snd (claim_op 1 ''mail'' None ''sent'' ''w1'' 0 ''t1'' 5 [sample_row])) =
     [Held (Some ''t1'') (Some 5)]"
  using outbox_refines_work_item [of "[sample_row]" sample_row 1 "''mail''" None "''sent''" "''w1''" 0 "''t1''" 5]
  by (simp add: addressed_def sample_row_def work_of_def work_in_def due_def)

end
