(* ===== verification/Challenge_Actions.thy ===== *)
theory Challenge_Actions
  imports App_Errors
begin

text \<open>
  The vocabulary of the challenge component and its action policies
  (\<open>app/challenge/domain/value.go\<close>, \<open>business_action.go\<close>, \<open>action_policy.go\<close>): the challenge types,
  states and purposes, the closed list of business actions, and for each action the policy that says
  which authentication methods its proof token must carry and whether it must be bound to an
  operation. The string constants of the source are the \<open>..._name\<close> functions.
\<close>

section \<open>Types and states\<close>

datatype challenge_type =
    ImageCaptcha
  | PasswordVerification
  | EmailOneTimePassword
  | TimeBasedOneTimePassword
  | RecoveryCodeVerification
  | WebAuthnPasskeyAssertion
  | WebAuthnPasskeyRegistration

fun type_name :: "challenge_type \<Rightarrow> string" where
  "type_name ImageCaptcha = ''IMAGE_CAPTCHA''"
| "type_name PasswordVerification = ''PASSWORD_VERIFICATION''"
| "type_name EmailOneTimePassword = ''EMAIL_ONE_TIME_PASSWORD''"
| "type_name TimeBasedOneTimePassword = ''TIME_BASED_ONE_TIME_PASSWORD''"
| "type_name RecoveryCodeVerification = ''RECOVERY_CODE_VERIFICATION''"
| "type_name WebAuthnPasskeyAssertion = ''WEBAUTHN_PASSKEY_ASSERTION''"
| "type_name WebAuthnPasskeyRegistration = ''WEBAUTHN_PASSKEY_REGISTRATION''"

definition all_challenge_types :: "challenge_type list" where
  "all_challenge_types =
     [ImageCaptcha, PasswordVerification, EmailOneTimePassword, TimeBasedOneTimePassword,
      RecoveryCodeVerification, WebAuthnPasskeyAssertion, WebAuthnPasskeyRegistration]"

definition challenge_type_of :: "string \<Rightarrow> challenge_type option" where
  "challenge_type_of s = find (\<lambda>t. type_name t = s) all_challenge_types"

datatype challenge_step_purpose = PurposeDefault | VerifyOld | VerifyNew | RegisterNew | RecoveryVerify

fun purpose_name :: "challenge_step_purpose \<Rightarrow> string" where
  "purpose_name PurposeDefault = ''DEFAULT''"
| "purpose_name VerifyOld = ''VERIFY_OLD''"
| "purpose_name VerifyNew = ''VERIFY_NEW''"
| "purpose_name RegisterNew = ''REGISTER_NEW''"
| "purpose_name RecoveryVerify = ''RECOVERY_VERIFY''"

datatype challenge_state = ChallengePending | ChallengePassed | ChallengeFailed | ChallengeExpired

fun state_name :: "challenge_state \<Rightarrow> string" where
  "state_name ChallengePending = ''PENDING''"
| "state_name ChallengePassed = ''PASSED''"
| "state_name ChallengeFailed = ''FAILED''"
| "state_name ChallengeExpired = ''EXPIRED''"

datatype challenge_step_state = StepPending | StepInProgress | StepLocked | StepCompleted

fun step_state_name :: "challenge_step_state \<Rightarrow> string" where
  "step_state_name StepPending = ''PENDING''"
| "step_state_name StepInProgress = ''IN_PROGRESS''"
| "step_state_name StepLocked = ''LOCKED''"
| "step_state_name StepCompleted = ''COMPLETED''"

section \<open>Business actions\<close>

datatype (plugins only: code size) business_action =
    ActLogin
  | ActRegisterAccount
  | ActChangeMFA
  | ActResetPassword
  | ActAdminResetPassword
  | ActCurrentUserPasswordChange
  | ActAdminForceLogout
  | ActAdminDeleteUser
  | ActAdminChangeUserStatus
  | ActProfilePhoneUpdate
  | ActProfileEmailUpdate
  | ActMFAOTPBind
  | ActMFAOTPSwitch
  | ActMFAPasskeyBind
  | ActMFAPasskeySwitch
  | ActMFARecoveryVerify
  | ActMFARecoveryCodesRegenerate
  | ActMFAOTPDelete
  | ActMFAPasskeyDelete
  | ActRBACAssignUserRoles
  | ActRBACAssignRolePermissions
  | ActRBACAssignRoleMenus
  | ActRBACAssignRoleDepts
  | ActRBACAssignMenuPermissions
  | ActRBACAssignPostRoles
  | ActRBACCommitRoleGrants
  | ActRBACGrantTempPermission
  | ActRBACRevokeTempPermission
  | ActRBACExtendTempPermission
  | ActConfigSensitiveReveal
  | ActConfigApplyPending
  | ActConfigRollback
  | ActConfigScopeAssign
  | ActNotificationDeliveryContentView
  | ActSSOClientCreate
  | ActSSOClientUpdate
  | ActSSOClientStatusChange
  | ActSSOClientRedirectEdit
  | ActSSOClientSecretGenerate
  | ActSSOClientSecretDisable
  | ActExternalLoginProviderCreate
  | ActExternalLoginProviderUpdate
  | ActExternalLoginProviderStatusChange
  | ActExternalLoginProviderSecretRotate
  | ActExternalLoginIdentityStatusChange
  | ActExternalOAuthTokenRevoke
  | ActPlatformCreate
  | ActPlatformUpdate
  | ActPlatformStatusChange
  | ActPlatformLoginMethodsReplace
  | ActPlatformSourceRulesReplace
  | ActPlatformDefaultRolesReplace

primrec action_name :: "business_action \<Rightarrow> string" where
  "action_name ActLogin = ''LOGIN''"
| "action_name ActRegisterAccount = ''REGISTER_ACCOUNT''"
| "action_name ActChangeMFA = ''CHANGE_MFA''"
| "action_name ActResetPassword = ''RESET_PASSWORD''"
| "action_name ActAdminResetPassword = ''ADMIN_RESET_PASSWORD''"
| "action_name ActCurrentUserPasswordChange = ''CURRENT_USER_PASSWORD_CHANGE''"
| "action_name ActAdminForceLogout = ''ADMIN_FORCE_LOGOUT''"
| "action_name ActAdminDeleteUser = ''ADMIN_DELETE_USER''"
| "action_name ActAdminChangeUserStatus = ''ADMIN_CHANGE_USER_STATUS''"
| "action_name ActProfilePhoneUpdate = ''PROFILE_PHONE_UPDATE''"
| "action_name ActProfileEmailUpdate = ''PROFILE_EMAIL_UPDATE''"
| "action_name ActMFAOTPBind = ''MFA_OTP_BIND''"
| "action_name ActMFAOTPSwitch = ''MFA_OTP_SWITCH''"
| "action_name ActMFAPasskeyBind = ''MFA_PASSKEY_BIND''"
| "action_name ActMFAPasskeySwitch = ''MFA_PASSKEY_SWITCH''"
| "action_name ActMFARecoveryVerify = ''MFA_RECOVERY_VERIFY''"
| "action_name ActMFARecoveryCodesRegenerate = ''MFA_RECOVERY_CODES_REGENERATE''"
| "action_name ActMFAOTPDelete = ''MFA_OTP_DELETE''"
| "action_name ActMFAPasskeyDelete = ''MFA_PASSKEY_DELETE''"
| "action_name ActRBACAssignUserRoles = ''RBAC_ASSIGN_USER_ROLES''"
| "action_name ActRBACAssignRolePermissions = ''RBAC_ASSIGN_ROLE_PERMISSIONS''"
| "action_name ActRBACAssignRoleMenus = ''RBAC_ASSIGN_ROLE_MENUS''"
| "action_name ActRBACAssignRoleDepts = ''RBAC_ASSIGN_ROLE_DEPTS''"
| "action_name ActRBACAssignMenuPermissions = ''RBAC_ASSIGN_MENU_PERMISSIONS''"
| "action_name ActRBACAssignPostRoles = ''RBAC_ASSIGN_POST_ROLES''"
| "action_name ActRBACCommitRoleGrants = ''RBAC_COMMIT_ROLE_GRANTS''"
| "action_name ActRBACGrantTempPermission = ''RBAC_GRANT_TEMP_PERMISSION''"
| "action_name ActRBACRevokeTempPermission = ''RBAC_REVOKE_TEMP_PERMISSION''"
| "action_name ActRBACExtendTempPermission = ''RBAC_EXTEND_TEMP_PERMISSION''"
| "action_name ActConfigSensitiveReveal = ''CONFIG_SENSITIVE_REVEAL''"
| "action_name ActConfigApplyPending = ''CONFIG_APPLY_PENDING''"
| "action_name ActConfigRollback = ''CONFIG_ROLLBACK''"
| "action_name ActConfigScopeAssign = ''CONFIG_SCOPE_ASSIGN''"
| "action_name ActNotificationDeliveryContentView = ''NOTIFICATION_DELIVERY_CONTENT_VIEW''"
| "action_name ActSSOClientCreate = ''SSO_CLIENT_CREATE''"
| "action_name ActSSOClientUpdate = ''SSO_CLIENT_UPDATE''"
| "action_name ActSSOClientStatusChange = ''SSO_CLIENT_STATUS_CHANGE''"
| "action_name ActSSOClientRedirectEdit = ''SSO_CLIENT_REDIRECT_EDIT''"
| "action_name ActSSOClientSecretGenerate = ''SSO_CLIENT_SECRET_GENERATE''"
| "action_name ActSSOClientSecretDisable = ''SSO_CLIENT_SECRET_DISABLE''"
| "action_name ActExternalLoginProviderCreate = ''EXTERNAL_LOGIN_PROVIDER_CREATE''"
| "action_name ActExternalLoginProviderUpdate = ''EXTERNAL_LOGIN_PROVIDER_UPDATE''"
| "action_name ActExternalLoginProviderStatusChange = ''EXTERNAL_LOGIN_PROVIDER_STATUS_CHANGE''"
| "action_name ActExternalLoginProviderSecretRotate = ''EXTERNAL_LOGIN_PROVIDER_SECRET_ROTATE''"
| "action_name ActExternalLoginIdentityStatusChange = ''EXTERNAL_LOGIN_IDENTITY_STATUS_CHANGE''"
| "action_name ActExternalOAuthTokenRevoke = ''EXTERNAL_OAUTH_TOKEN_REVOKE''"
| "action_name ActPlatformCreate = ''PLATFORM_CREATE''"
| "action_name ActPlatformUpdate = ''PLATFORM_UPDATE''"
| "action_name ActPlatformStatusChange = ''PLATFORM_STATUS_CHANGE''"
| "action_name ActPlatformLoginMethodsReplace = ''PLATFORM_LOGIN_METHODS_REPLACE''"
| "action_name ActPlatformSourceRulesReplace = ''PLATFORM_SOURCE_RULES_REPLACE''"
| "action_name ActPlatformDefaultRolesReplace = ''PLATFORM_DEFAULT_ROLES_REPLACE''"

definition all_business_actions :: "business_action list" where
  "all_business_actions =
     [ActLogin, ActRegisterAccount, ActChangeMFA, ActResetPassword, ActAdminResetPassword,
      ActCurrentUserPasswordChange, ActAdminForceLogout, ActAdminDeleteUser,
      ActAdminChangeUserStatus, ActProfilePhoneUpdate, ActProfileEmailUpdate, ActMFAOTPBind,
      ActMFAOTPSwitch, ActMFAPasskeyBind, ActMFAPasskeySwitch, ActMFARecoveryVerify,
      ActMFARecoveryCodesRegenerate, ActMFAOTPDelete, ActMFAPasskeyDelete,
      ActRBACAssignUserRoles, ActRBACAssignRolePermissions, ActRBACAssignRoleMenus,
      ActRBACAssignRoleDepts, ActRBACAssignMenuPermissions, ActRBACAssignPostRoles,
      ActRBACCommitRoleGrants, ActRBACGrantTempPermission, ActRBACRevokeTempPermission,
      ActRBACExtendTempPermission, ActConfigSensitiveReveal, ActConfigApplyPending,
      ActConfigRollback, ActConfigScopeAssign, ActNotificationDeliveryContentView,
      ActSSOClientCreate, ActSSOClientUpdate, ActSSOClientStatusChange,
      ActSSOClientRedirectEdit, ActSSOClientSecretGenerate, ActSSOClientSecretDisable,
      ActExternalLoginProviderCreate, ActExternalLoginProviderUpdate,
      ActExternalLoginProviderStatusChange, ActExternalLoginProviderSecretRotate,
      ActExternalLoginIdentityStatusChange, ActExternalOAuthTokenRevoke, ActPlatformCreate,
      ActPlatformUpdate, ActPlatformStatusChange, ActPlatformLoginMethodsReplace,
      ActPlatformSourceRulesReplace, ActPlatformDefaultRolesReplace]"

definition business_action_of :: "string \<Rightarrow> business_action option" where
  "business_action_of s = find (\<lambda>a. action_name a = s) all_business_actions"

section \<open>Policies\<close>

record challenge_action_policy =
  p_action :: business_action
  minimum_assurance_level :: string
  required_proof_methods :: "challenge_type list"
  accepted_proof_methods :: "challenge_type list"
  required_operation_binding :: bool
  allow_empty_binding :: bool
  public_start_allowed :: bool

definition strong_privileged_mutation_methods :: "challenge_type list" where
  "strong_privileged_mutation_methods =
     [WebAuthnPasskeyAssertion, TimeBasedOneTimePassword, EmailOneTimePassword]"

definition diagnostic_content_reveal_methods :: "challenge_type list" where
  "diagnostic_content_reveal_methods = [WebAuthnPasskeyAssertion, TimeBasedOneTimePassword]"

text \<open>A policy literal: the fields it does not name have their zero value.\<close>

definition bare_policy :: "business_action \<Rightarrow> challenge_action_policy" where
  "bare_policy a =
     \<lparr>p_action = a, minimum_assurance_level = [], required_proof_methods = [],
      accepted_proof_methods = [], required_operation_binding = False,
      allow_empty_binding = False, public_start_allowed = False\<rparr>"

definition privileged_mutation_policy :: "business_action \<Rightarrow> challenge_action_policy" where
  "privileged_mutation_policy a =
     (bare_policy a)\<lparr>public_start_allowed := True, required_operation_binding := True,
       accepted_proof_methods := strong_privileged_mutation_methods,
       minimum_assurance_level := ''AAL2''\<rparr>"

definition diagnostic_content_reveal_policy :: "business_action \<Rightarrow> challenge_action_policy" where
  "diagnostic_content_reveal_policy a =
     (bare_policy a)\<lparr>public_start_allowed := True, required_operation_binding := True,
       accepted_proof_methods := diagnostic_content_reveal_methods,
       minimum_assurance_level := ''AAL2''\<rparr>"

text \<open>The table \<open>challengeActionPolicies\<close>; it has an entry for every action.\<close>

primrec challenge_action_policies :: "business_action \<Rightarrow> challenge_action_policy" where
  "challenge_action_policies ActLogin =
     (bare_policy ActLogin)\<lparr>public_start_allowed := True, allow_empty_binding := True\<rparr>"
| "challenge_action_policies ActRegisterAccount =
     (bare_policy ActRegisterAccount)\<lparr>public_start_allowed := True, required_operation_binding := True,
     accepted_proof_methods := [ImageCaptcha]\<rparr>"
| "challenge_action_policies ActChangeMFA =
     (bare_policy ActChangeMFA)\<lparr>public_start_allowed := True, allow_empty_binding := True\<rparr>"
| "challenge_action_policies ActResetPassword =
     (bare_policy ActResetPassword)\<lparr>public_start_allowed := True, allow_empty_binding := True\<rparr>"
| "challenge_action_policies ActProfilePhoneUpdate =
     (bare_policy ActProfilePhoneUpdate)\<lparr>public_start_allowed := True, required_operation_binding := True\<rparr>"
| "challenge_action_policies ActProfileEmailUpdate =
     (bare_policy ActProfileEmailUpdate)\<lparr>public_start_allowed := True, required_operation_binding := True\<rparr>"
| "challenge_action_policies ActMFAOTPBind =
     (bare_policy ActMFAOTPBind)\<lparr>public_start_allowed := True, allow_empty_binding := True\<rparr>"
| "challenge_action_policies ActMFAOTPSwitch =
     (bare_policy ActMFAOTPSwitch)\<lparr>public_start_allowed := True, allow_empty_binding := True,
     required_proof_methods := [TimeBasedOneTimePassword], minimum_assurance_level := ''AAL2''\<rparr>"
| "challenge_action_policies ActMFAPasskeyBind =
     (bare_policy ActMFAPasskeyBind)\<lparr>public_start_allowed := True, allow_empty_binding := True\<rparr>"
| "challenge_action_policies ActMFAPasskeySwitch =
     (bare_policy ActMFAPasskeySwitch)\<lparr>public_start_allowed := True, allow_empty_binding := True,
     required_proof_methods := [WebAuthnPasskeyAssertion], minimum_assurance_level := ''AAL2''\<rparr>"
| "challenge_action_policies ActMFARecoveryVerify =
     (bare_policy ActMFARecoveryVerify)\<lparr>public_start_allowed := True, allow_empty_binding := True,
     required_proof_methods := [RecoveryCodeVerification], minimum_assurance_level := ''AAL2''\<rparr>"
| "challenge_action_policies ActMFARecoveryCodesRegenerate =
     (bare_policy ActMFARecoveryCodesRegenerate)\<lparr>public_start_allowed := True, allow_empty_binding := True,
     required_proof_methods := [RecoveryCodeVerification], minimum_assurance_level := ''AAL2''\<rparr>"
| "challenge_action_policies ActMFAOTPDelete =
     (bare_policy ActMFAOTPDelete)\<lparr>public_start_allowed := True, allow_empty_binding := True,
     required_proof_methods := [TimeBasedOneTimePassword], minimum_assurance_level := ''AAL2''\<rparr>"
| "challenge_action_policies ActMFAPasskeyDelete =
     (bare_policy ActMFAPasskeyDelete)\<lparr>public_start_allowed := True, required_operation_binding := True,
     required_proof_methods := [WebAuthnPasskeyAssertion], minimum_assurance_level := ''AAL2''\<rparr>"
| "challenge_action_policies ActRBACAssignUserRoles =
     privileged_mutation_policy ActRBACAssignUserRoles"
| "challenge_action_policies ActRBACAssignRolePermissions =
     privileged_mutation_policy ActRBACAssignRolePermissions"
| "challenge_action_policies ActRBACAssignRoleMenus =
     privileged_mutation_policy ActRBACAssignRoleMenus"
| "challenge_action_policies ActRBACAssignRoleDepts =
     privileged_mutation_policy ActRBACAssignRoleDepts"
| "challenge_action_policies ActRBACAssignMenuPermissions =
     privileged_mutation_policy ActRBACAssignMenuPermissions"
| "challenge_action_policies ActRBACAssignPostRoles =
     privileged_mutation_policy ActRBACAssignPostRoles"
| "challenge_action_policies ActRBACCommitRoleGrants =
     privileged_mutation_policy ActRBACCommitRoleGrants"
| "challenge_action_policies ActRBACGrantTempPermission =
     privileged_mutation_policy ActRBACGrantTempPermission"
| "challenge_action_policies ActRBACRevokeTempPermission =
     privileged_mutation_policy ActRBACRevokeTempPermission"
| "challenge_action_policies ActRBACExtendTempPermission =
     privileged_mutation_policy ActRBACExtendTempPermission"
| "challenge_action_policies ActConfigSensitiveReveal =
     privileged_mutation_policy ActConfigSensitiveReveal"
| "challenge_action_policies ActConfigApplyPending =
     privileged_mutation_policy ActConfigApplyPending"
| "challenge_action_policies ActConfigRollback =
     privileged_mutation_policy ActConfigRollback"
| "challenge_action_policies ActConfigScopeAssign =
     privileged_mutation_policy ActConfigScopeAssign"
| "challenge_action_policies ActNotificationDeliveryContentView =
     diagnostic_content_reveal_policy ActNotificationDeliveryContentView"
| "challenge_action_policies ActAdminResetPassword =
     privileged_mutation_policy ActAdminResetPassword"
| "challenge_action_policies ActCurrentUserPasswordChange =
     privileged_mutation_policy ActCurrentUserPasswordChange"
| "challenge_action_policies ActAdminForceLogout =
     privileged_mutation_policy ActAdminForceLogout"
| "challenge_action_policies ActAdminDeleteUser =
     privileged_mutation_policy ActAdminDeleteUser"
| "challenge_action_policies ActAdminChangeUserStatus =
     privileged_mutation_policy ActAdminChangeUserStatus"
| "challenge_action_policies ActSSOClientCreate =
     privileged_mutation_policy ActSSOClientCreate"
| "challenge_action_policies ActSSOClientUpdate =
     privileged_mutation_policy ActSSOClientUpdate"
| "challenge_action_policies ActSSOClientStatusChange =
     privileged_mutation_policy ActSSOClientStatusChange"
| "challenge_action_policies ActSSOClientRedirectEdit =
     privileged_mutation_policy ActSSOClientRedirectEdit"
| "challenge_action_policies ActSSOClientSecretGenerate =
     privileged_mutation_policy ActSSOClientSecretGenerate"
| "challenge_action_policies ActSSOClientSecretDisable =
     privileged_mutation_policy ActSSOClientSecretDisable"
| "challenge_action_policies ActExternalLoginProviderCreate =
     privileged_mutation_policy ActExternalLoginProviderCreate"
| "challenge_action_policies ActExternalLoginProviderUpdate =
     privileged_mutation_policy ActExternalLoginProviderUpdate"
| "challenge_action_policies ActExternalLoginProviderStatusChange =
     privileged_mutation_policy ActExternalLoginProviderStatusChange"
| "challenge_action_policies ActExternalLoginProviderSecretRotate =
     privileged_mutation_policy ActExternalLoginProviderSecretRotate"
| "challenge_action_policies ActExternalLoginIdentityStatusChange =
     privileged_mutation_policy ActExternalLoginIdentityStatusChange"
| "challenge_action_policies ActExternalOAuthTokenRevoke =
     privileged_mutation_policy ActExternalOAuthTokenRevoke"
| "challenge_action_policies ActPlatformCreate =
     privileged_mutation_policy ActPlatformCreate"
| "challenge_action_policies ActPlatformUpdate =
     privileged_mutation_policy ActPlatformUpdate"
| "challenge_action_policies ActPlatformStatusChange =
     privileged_mutation_policy ActPlatformStatusChange"
| "challenge_action_policies ActPlatformLoginMethodsReplace =
     privileged_mutation_policy ActPlatformLoginMethodsReplace"
| "challenge_action_policies ActPlatformSourceRulesReplace =
     privileged_mutation_policy ActPlatformSourceRulesReplace"
| "challenge_action_policies ActPlatformDefaultRolesReplace =
     privileged_mutation_policy ActPlatformDefaultRolesReplace"

definition lookup_challenge_action_policy :: "string \<Rightarrow> challenge_action_policy option" where
  "lookup_challenge_action_policy action =
     map_option challenge_action_policies (business_action_of (trim_space action))"

definition requires_operation_binding :: "challenge_action_policy \<Rightarrow> bool" where
  "requires_operation_binding p \<longleftrightarrow> required_operation_binding p \<and> \<not> allow_empty_binding p"

definition proof_methods_satisfied :: "challenge_action_policy \<Rightarrow> string list \<Rightarrow> bool" where
  "proof_methods_satisfied p method_names \<longleftrightarrow>
     (let seen = filter (\<lambda>v. v \<noteq> []) (map trim_space method_names)
      in list_all (\<lambda>r. type_name r \<in> set seen) (required_proof_methods p)
         \<and> (accepted_proof_methods p = []
            \<or> list_ex (\<lambda>a. type_name a \<in> set seen) (accepted_proof_methods p)))"

section \<open>The vocabulary is a bijection\<close>

lemma all_challenge_types_complete: "t \<in> set all_challenge_types"
  by (cases t) (simp_all add: all_challenge_types_def)

lemma challenge_type_of_name [simp]: "challenge_type_of (type_name t) = Some t"
  by (cases t) (simp_all add: challenge_type_of_def all_challenge_types_def)

lemma type_name_inj [simp]: "type_name t = type_name u \<longleftrightarrow> t = u"
  by (metis challenge_type_of_name option.inject)

lemma challenge_type_of_SomeD: "challenge_type_of s = Some t \<Longrightarrow> type_name t = s"
  by (auto simp: challenge_type_of_def find_Some_iff)

lemma action_name_complete: "a \<in> set all_business_actions"
  by (cases a) (simp_all add: all_business_actions_def)

lemma distinct_action_names: "distinct (map action_name all_business_actions)"
  by (simp add: all_business_actions_def)

lemma find_by_key: "distinct (map f xs) \<Longrightarrow> x \<in> set xs \<Longrightarrow> find (\<lambda>y. f y = f x) xs = Some x"
  by (induction xs) auto

lemma business_action_of_name [simp]: "business_action_of (action_name a) = Some a"
  unfolding business_action_of_def
  by (rule find_by_key [OF distinct_action_names action_name_complete])

lemma business_action_of_SomeD: "business_action_of s = Some a \<Longrightarrow> action_name a = s"
  by (auto simp: business_action_of_def find_Some_iff)

lemma trim_type_name [simp]: "trim_space (type_name t) = type_name t"
  by (cases t) (simp_all add: trim_visible visible_def)

lemma trim_action_name [simp]: "trim_space (action_name a) = action_name a"
  by (cases a) (simp_all add: trim_visible visible_def)

lemma type_name_nonempty [simp]: "type_name t \<noteq> []"
  by (cases t) simp_all

lemma lookup_action_name [simp]:
  "lookup_challenge_action_policy (action_name a) = Some (challenge_action_policies a)"
  by (simp add: lookup_challenge_action_policy_def)

lemma p_action_policies [simp]: "p_action (challenge_action_policies a) = a"
  by (cases a) (simp_all add: bare_policy_def privileged_mutation_policy_def
      diagnostic_content_reveal_policy_def)

text \<open>Satisfaction on a list of method names that holds names of challenge types.\<close>

lemma proof_methods_satisfied_types:
  "proof_methods_satisfied p (map type_name ts) \<longleftrightarrow>
     set (required_proof_methods p) \<subseteq> set ts \<and>
     (accepted_proof_methods p = [] \<or> set (accepted_proof_methods p) \<inter> set ts \<noteq> {})"
proof -
  have "map (trim_space \<circ> type_name) ts = map type_name ts" by simp
  then show ?thesis
    by (auto simp: proof_methods_satisfied_def Let_def list_all_iff list_ex_iff)
qed

lemma proof_methods_satisfied_mono:
  "proof_methods_satisfied p ms \<Longrightarrow> set ms \<subseteq> set ns \<Longrightarrow> proof_methods_satisfied p ns"
  by (fastforce simp: proof_methods_satisfied_def Let_def list_all_iff list_ex_iff)

end
