(* ===== verification/Challenge_Session.thy ===== *)
theory Challenge_Session
  imports Challenge_Actions
begin

text \<open>
  The challenge session and its state machine (\<open>app/challenge/domain/value.go\<close> and \<open>model.go\<close>).
  A session holds a list of steps in numbered slots. The steps of one slot are alternatives: when
  one of them succeeds the others are locked and the next slot opens; when all of them are locked by
  failures the challenge fails.

  A \<open>*ChallengeStep\<close> into \<open>session.Steps\<close> is the index of the step. Nil receivers, which the source
  guards against and no caller passes, are not represented.
\<close>

section \<open>State\<close>

record challenge_step =
  step_identifier :: string
  challenge_type :: challenge_type
  step_purpose :: string
  slot_number :: int
  attempt_number :: int
  max_attempts :: int
  cooldown_seconds :: int
  cooldown_until :: "time option"
  step_state :: challenge_step_state
  user_interface_hints :: anymap

record subject_hint =
  subject_type :: string
  subject_value :: string

record challenge_session =
  challenge_identifier :: string
  issuing_service_name :: string
  audience_service_names :: "string list"
  session_subject_hint :: "subject_hint option"
  subject_identifier :: string
  subject_account_name :: string
  subject_user_id :: int
  flow_nonce :: string
  idempotency_key :: string
  created_at :: "time option"
  expires_at :: "time option"
  effective_ttl_seconds :: int
  session_business_action :: string
  session_state :: challenge_state
  recommended_step_identifier :: string
  authentication_method_names :: "string list"
  steps :: "challenge_step list"
  session_context :: anymap
  failure_code :: string

section \<open>Operations on a step\<close>

definition remaining_attempt_count :: "challenge_step \<Rightarrow> int" where
  "remaining_attempt_count st =
     (let remaining = max_attempts st - attempt_number st in if remaining < 0 then 0 else remaining)"

definition can_retry :: "challenge_step \<Rightarrow> bool" where
  "can_retry st \<longleftrightarrow> attempt_number st < max_attempts st"

definition is_cooling_down :: "challenge_step \<Rightarrow> time \<Rightarrow> bool" where
  "is_cooling_down st now =
     (case cooldown_until st of None \<Rightarrow> False | Some u \<Rightarrow> now < u)"

definition remaining_cooldown_seconds :: "challenge_step \<Rightarrow> time \<Rightarrow> int" where
  "remaining_cooldown_seconds st now =
     (if \<not> is_cooling_down st now then 0
      else let seconds = whole_seconds (time_sub (the (cooldown_until st)) now)
           in if seconds \<le> 0 then 1 else seconds)"

definition activate_cooldown :: "time \<Rightarrow> challenge_step \<Rightarrow> challenge_step" where
  "activate_cooldown now st =
     (if cooldown_seconds st \<le> 0 then st
      else st\<lparr>cooldown_until := Some (now + seconds_duration (cooldown_seconds st))\<rparr>)"

definition clear_cooldown :: "challenge_step \<Rightarrow> challenge_step" where
  "clear_cooldown st = st\<lparr>cooldown_until := None\<rparr>"

definition is_verifiable :: "challenge_step \<Rightarrow> bool" where
  "is_verifiable st \<longleftrightarrow> step_state st = StepInProgress"

section \<open>Operations on a session\<close>

definition is_expired :: "challenge_session \<Rightarrow> time \<Rightarrow> bool" where
  "is_expired s now = (case expires_at s of None \<Rightarrow> True | Some e \<Rightarrow> e < now)"

text \<open>
  Four passes: the recommended step when it can be answered at once, any step that can, the
  recommended step even in its cooldown, any open step.
\<close>

definition recommended :: "challenge_session \<Rightarrow> challenge_step \<Rightarrow> bool" where
  "recommended s st \<longleftrightarrow>
     recommended_step_identifier s \<noteq> [] \<and> step_identifier st = recommended_step_identifier s"

definition current_step :: "challenge_session \<Rightarrow> time \<Rightarrow> nat option" where
  "current_step s now =
     (case find_index
             (\<lambda>st. recommended s st \<and> step_state st = StepInProgress \<and> \<not> is_cooling_down st now)
             (steps s) of
        Some i \<Rightarrow> Some i
      | None \<Rightarrow>
        (case find_index (\<lambda>st. step_state st = StepInProgress \<and> \<not> is_cooling_down st now) (steps s) of
           Some i \<Rightarrow> Some i
         | None \<Rightarrow>
           (case find_index (\<lambda>st. recommended s st \<and> step_state st = StepInProgress) (steps s) of
              Some i \<Rightarrow> Some i
            | None \<Rightarrow> find_index (\<lambda>st. step_state st = StepInProgress) (steps s))))"

definition active_slot_steps :: "challenge_session \<Rightarrow> time \<Rightarrow> challenge_step list" where
  "active_slot_steps s now =
     (case current_step s now of
        None \<Rightarrow> []
      | Some i \<Rightarrow>
          filter (\<lambda>st. slot_number st = slot_number (steps s ! i) \<and> step_state st = StepInProgress)
            (steps s))"

definition refresh_recommended_step_identifier ::
    "time \<Rightarrow> challenge_session \<Rightarrow> challenge_session" where
  "refresh_recommended_step_identifier now s =
     (case current_step s now of
        None \<Rightarrow> s\<lparr>recommended_step_identifier := []\<rparr>
      | Some i \<Rightarrow> s\<lparr>recommended_step_identifier := step_identifier (steps s ! i)\<rparr>)"

definition activate_slot :: "int \<Rightarrow> challenge_session \<Rightarrow> bool \<times> challenge_session" where
  "activate_slot slot s =
     (let opens = (\<lambda>st. slot_number st = slot \<and> step_state st = StepPending)
      in (list_ex opens (steps s),
          s\<lparr>steps := update_where opens (\<lambda>st. st\<lparr>step_state := StepInProgress\<rparr>) (steps s)\<rparr>))"

definition update_step ::
    "nat \<Rightarrow> (challenge_step \<Rightarrow> challenge_step) \<Rightarrow> challenge_session \<Rightarrow> challenge_session" where
  "update_step i f s = s\<lparr>steps := (steps s)[i := f (steps s ! i)]\<rparr>"

definition lock_alternatives :: "challenge_step \<Rightarrow> challenge_step list \<Rightarrow> challenge_step list" where
  "lock_alternatives st =
     update_where
       (\<lambda>x. step_identifier x \<noteq> step_identifier st \<and> slot_number x = slot_number st
            \<and> step_state x = StepInProgress)
       (\<lambda>x. clear_cooldown (x\<lparr>step_state := StepLocked\<rparr>))"

definition mark_step_success :: "nat \<Rightarrow> time \<Rightarrow> challenge_session \<Rightarrow> challenge_session" where
  "mark_step_success i now s =
     (let s1 = update_step i (\<lambda>st. (clear_cooldown st)\<lparr>step_state := StepCompleted\<rparr>) s;
          st = steps s1 ! i;
          s2 = s1\<lparr>authentication_method_names :=
                    authentication_method_names s1 @ [type_name (challenge_type st)],
                  steps := lock_alternatives st (steps s1)\<rparr>;
          (activated, s3) = activate_slot (slot_number st + 1) s2;
          s4 = (if activated then s3 else s3\<lparr>session_state := ChallengePassed\<rparr>)
      in refresh_recommended_step_identifier now s4)"

definition mark_step_failure :: "nat \<Rightarrow> string \<Rightarrow> time \<Rightarrow> challenge_session \<Rightarrow> challenge_session" where
  "mark_step_failure i code now s =
     (let s1 = update_step i (\<lambda>st. st\<lparr>attempt_number := attempt_number st + 1\<rparr>) s;
          s2 = (if \<not> can_retry (steps s1 ! i)
                then let s' = update_step i (\<lambda>st. (clear_cooldown st)\<lparr>step_state := StepLocked\<rparr>) s1
                     in if active_slot_steps s' now = []
                        then s'\<lparr>session_state := ChallengeFailed, failure_code := code\<rparr> else s'
                else update_step i (activate_cooldown now) s1)
      in refresh_recommended_step_identifier now s2)"

definition is_switchable :: "challenge_session \<Rightarrow> nat \<Rightarrow> bool" where
  "is_switchable s i \<longleftrightarrow>
     step_state (steps s ! i) = StepInProgress \<and>
     1 < count_where (\<lambda>x. slot_number x = slot_number (steps s ! i) \<and> step_state x = StepInProgress)
           (steps s)"

section \<open>The choice of the current step\<close>

lemma current_step_open:
  assumes "current_step s now = Some i"
  shows "i < length (steps s) \<and> step_state (steps s ! i) = StepInProgress"
  using assms unfolding current_step_def
  by (auto split: option.splits dest: find_index_SomeD)

lemma current_step_None:
  "current_step s now = None \<longleftrightarrow> (\<forall>st \<in> set (steps s). step_state st \<noteq> StepInProgress)"
proof
  assume "current_step s now = None"
  then show "\<forall>st \<in> set (steps s). step_state st \<noteq> StepInProgress"
    unfolding current_step_def by (simp split: option.splits)
next
  assume closed: "\<forall>st \<in> set (steps s). step_state st \<noteq> StepInProgress"
  show "current_step s now = None"
  proof (cases "current_step s now")
    case (Some i)
    from current_step_open [OF this] closed show ?thesis using nth_mem by blast
  qed
qed

lemma active_slot_steps_Nil:
  "active_slot_steps s now = [] \<longleftrightarrow> (\<forall>st \<in> set (steps s). step_state st \<noteq> StepInProgress)"
proof (cases "current_step s now")
  case None
  then show ?thesis using current_step_None [of s now] by (simp add: active_slot_steps_def)
next
  case (Some i)
  then have "steps s ! i \<in> set (active_slot_steps s now)"
    using current_step_open [OF Some] by (simp add: active_slot_steps_def)
  moreover have "\<not> (\<forall>st \<in> set (steps s). step_state st \<noteq> StepInProgress)"
    using current_step_open [OF Some] nth_mem by blast
  ultimately show ?thesis by force
qed

lemma current_step_ready:
  assumes "current_step s now = Some i" "is_cooling_down (steps s ! i) now"
    "st \<in> set (steps s)" "step_state st = StepInProgress"
  shows "is_cooling_down st now"
proof (rule ccontr)
  let ?P = "\<lambda>st. step_state st = StepInProgress \<and> \<not> is_cooling_down st now"
  assume "\<not> is_cooling_down st now"
  with assms(3,4) obtain j where "find_index ?P (steps s) = Some j"
    using find_index_exists [of st "steps s" ?P] by blast
  with assms(1) have "\<not> is_cooling_down (steps s ! i) now"
    unfolding current_step_def by (auto split: option.splits dest: find_index_SomeD)
  with assms(2) show False by simp
qed

text \<open>A pending session, for the witnesses: a password step, then two alternatives.\<close>

definition sample_step :: "string \<Rightarrow> challenge_type \<Rightarrow> int \<Rightarrow> challenge_step_state \<Rightarrow> challenge_step" where
  "sample_step ident t slot st =
     \<lparr>step_identifier = ident, challenge_type = t, step_purpose = ''DEFAULT'', slot_number = slot,
      attempt_number = 0, max_attempts = 2, cooldown_seconds = 10, cooldown_until = None,
      step_state = st, user_interface_hints = Map.empty\<rparr>"

definition sample_session :: challenge_session where
  "sample_session =
     \<lparr>challenge_identifier = ''c'', issuing_service_name = [], audience_service_names = [''a''],
      session_subject_hint = None, subject_identifier = ''u'', subject_account_name = [],
      subject_user_id = 7, flow_nonce = ''f'', idempotency_key = ''k'', created_at = Some 0,
      expires_at = Some (300 * second), effective_ttl_seconds = 300,
      session_business_action = ''MFA_OTP_BIND'', session_state = ChallengePending,
      recommended_step_identifier = ''p'', authentication_method_names = [],
      steps = [sample_step ''p'' PasswordVerification 1 StepInProgress,
               sample_step ''t'' TimeBasedOneTimePassword 2 StepPending,
               sample_step ''e'' EmailOneTimePassword 2 StepPending],
      session_context = Map.empty, failure_code = []\<rparr>"

text \<open>Which step the session presents. \<open>CurrentStep\<close> returns an open step, and returns one whenever a
  step is open; it returns a step in its cooldown only when every open step is; and an open
  recommended step that is not in its cooldown is the one returned when identifiers are distinct.\<close>

lemma current_step_choice:
  "(current_step s now = None \<longleftrightarrow> StepInProgress \<notin> step_state ` set (steps s)) \<and>
   (\<forall>i. current_step s now = Some i \<longrightarrow>
      i < length (steps s) \<and> is_verifiable (steps s ! i) \<and>
      (is_cooling_down (steps s ! i) now \<longrightarrow>
         (\<forall>st \<in> set (steps s). is_verifiable st \<longrightarrow> is_cooling_down st now))) \<and>
   (\<forall>i < length (steps s).
      distinct (map step_identifier (steps s)) \<and> recommended s (steps s ! i) \<and>
      is_verifiable (steps s ! i) \<and> \<not> is_cooling_down (steps s ! i) now \<longrightarrow>
      current_step s now = Some i)"
proof (intro conjI allI impI)
  show "current_step s now = None \<longleftrightarrow> StepInProgress \<notin> step_state ` set (steps s)"
    by (auto simp: current_step_None image_iff)
  fix i assume i: "current_step s now = Some i"
  show "i < length (steps s)" "is_verifiable (steps s ! i)"
    using current_step_open [OF i] by (simp_all add: is_verifiable_def)
  show "is_cooling_down (steps s ! i) now \<Longrightarrow>
      \<forall>st \<in> set (steps s). is_verifiable st \<longrightarrow> is_cooling_down st now"
    using current_step_ready [OF i] by (auto simp: is_verifiable_def)
next
  let ?P = "\<lambda>st. recommended s st \<and> step_state st = StepInProgress \<and> \<not> is_cooling_down st now"
  fix i assume il: "i < length (steps s)"
    and a: "distinct (map step_identifier (steps s)) \<and> recommended s (steps s ! i) \<and>
      is_verifiable (steps s ! i) \<and> \<not> is_cooling_down (steps s ! i) now"
  obtain j where j: "find_index ?P (steps s) = Some j"
    using find_index_exists [of "steps s ! i" "steps s" ?P] il a by (auto simp: is_verifiable_def)
  then have "recommended s (steps s ! j)" "j < length (steps s)"
    using find_index_SomeD [OF j] by auto
  then have "step_identifier (steps s ! j) = step_identifier (steps s ! i)"
    using a by (simp add: recommended_def)
  then have "j = i"
    using a il \<open>j < length (steps s)\<close> by (simp add: distinct_conv_nth)
      (metis length_map nth_map)
  with j show "current_step s now = Some i" by (simp add: current_step_def)
qed

theorem current_step_choice_witness: "current_step sample_session 0 = Some 0"
  using current_step_choice [of sample_session 0, THEN conjunct2, THEN conjunct2, rule_format, of 0]
  by (simp add: sample_session_def sample_step_def recommended_def is_verifiable_def is_cooling_down_def)

end
