(* ===== verification/Challenge_Store.thy ===== *)
theory Challenge_Store
  imports Redis_Store Challenge_Session
begin

text \<open>
  The repositories of the challenge component over the key-value layer
  (\<open>app/challenge/infrastructure/session_repository.go\<close> and \<open>throttle_repository.go\<close>), and the state
  they work on: the key space by kind of value, a schedule of the failures still to come (one entry per
  command; after its end every command succeeds), and the state \<open>'w\<close> of what lies outside (mail,
  credential store, random numbers). The hash of a throttle key (SHA-256 in hexadecimal) is a parameter.
  The readings of the clock within one request are one instant.
\<close>

section \<open>State\<close>

record 'w challenge_world =
  cw_sessions :: "challenge_session kv"
  cw_texts :: "string kv"
  cw_counts :: "int kv"
  cw_faults :: "sql_outcome list"
  cw_outside :: 'w

type_synonym ('a, 'w) action = "'w challenge_world \<Rightarrow> 'a result \<times> 'w challenge_world"

text \<open>One command: the next entry of the schedule says whether and when it fails.\<close>

definition command :: "('a, 'w) action \<Rightarrow> ('a, 'w) action" where
  "command effect w =
     (case cw_faults w of
        [] \<Rightarrow> effect w
      | outcome # rest \<Rightarrow>
          (let w1 = w\<lparr>cw_faults := rest\<rparr>
           in case outcome of
                SqlOk \<Rightarrow> effect w1
              | SqlLost e \<Rightarrow> (Inl e, w1)
              | SqlUnacked e \<Rightarrow> (Inl e, snd (effect w1))))"

lemma command_Inr:
  "command effect w = (Inr x, w') \<Longrightarrow> \<exists>fs. effect (w\<lparr>cw_faults := fs\<rparr>) = (Inr x, w')"
  by (auto simp: command_def Let_def split: list.splits sql_outcome.splits)
    (metis challenge_world.surjective challenge_world.update_convs(4))

lemma command_no_faults [simp]: "cw_faults w = [] \<Longrightarrow> command effect w = effect w"
  by (simp add: command_def)

text \<open>A command either does not happen or has the effect it has with fewer failures to come.\<close>

lemma command_state:
  "\<exists>fs. snd (command effect w) = w\<lparr>cw_faults := fs\<rparr> \<or>
     snd (command effect w) = snd (effect (w\<lparr>cw_faults := fs\<rparr>))"
proof (cases "cw_faults w")
  case Nil
  then have same: "w\<lparr>cw_faults := []\<rparr> = w" by (cases w) simp
  have "command effect w = effect w" using Nil by simp
  then show ?thesis by (intro exI [of _ "[]"] disjI2) (simp only: same)
next
  case (Cons outcome rest)
  then show ?thesis by (intro exI [of _ rest]) (cases outcome; simp add: command_def Let_def)
qed

section \<open>Sessions\<close>

definition repository_unconfigured :: go_error where
  "repository_unconfigured = PlainError ''challenge session repository is not configured''"

definition challenge_session_cache_key :: "string \<Rightarrow> string" where
  "challenge_session_cache_key ident = ''challenge:session:'' @ trim_space ident"

definition challenge_idempotency_cache_key :: "string \<Rightarrow> string" where
  "challenge_idempotency_cache_key k = ''challenge:idempotency:'' @ trim_space k"

definition challenge_submit_lock_cache_key :: "string \<Rightarrow> string" where
  "challenge_submit_lock_cache_key ident = ''challenge:submit-lock:'' @ trim_space ident"

definition challenge_proof_consumed_cache_key :: "string \<Rightarrow> string" where
  "challenge_proof_consumed_cache_key jti = ''challenge:proof-consumed:'' @ trim_space jti"

definition session_ttl :: "time \<Rightarrow> challenge_session \<Rightarrow> int" where
  "session_ttl now s =
     (case expires_at s of
        None \<Rightarrow> minute
      | Some e \<Rightarrow> (let ttl = time_sub e now in if ttl \<le> 0 then second else ttl))"

definition save_session :: "time \<Rightarrow> challenge_session \<Rightarrow> (unit, 'w) action" where
  "save_session now s w =
     (if blank (challenge_identifier s) then (Inl repository_unconfigured, w)
      else command (\<lambda>w. (Inr (), w\<lparr>cw_sessions :=
             kv_set now (challenge_session_cache_key (challenge_identifier s)) s (session_ttl now s)
               (cw_sessions w)\<rparr>)) w)"

definition repo_get_session :: "time \<Rightarrow> string \<Rightarrow> (challenge_session option, 'w) action" where
  "repo_get_session now ident w =
     (if blank ident then (Inr None, w)
      else command (\<lambda>w. (Inr (kv_get now (challenge_session_cache_key ident) (cw_sessions w)), w)) w)"

definition bind_idempotency_key :: "time \<Rightarrow> string \<Rightarrow> string \<Rightarrow> int \<Rightarrow> (unit, 'w) action" where
  "bind_idempotency_key now key ident ttl w =
     (if blank key \<or> blank ident then (Inl repository_unconfigured, w)
      else command (\<lambda>w. (Inr (), w\<lparr>cw_texts :=
             kv_set now (challenge_idempotency_cache_key key) ident ttl (cw_texts w)\<rparr>)) w)"

definition get_session_by_idempotency_key :: "time \<Rightarrow> string \<Rightarrow> (string option, 'w) action" where
  "get_session_by_idempotency_key now key w =
     (if blank key then (Inr None, w)
      else command (\<lambda>w. (Inr (kv_get now (challenge_idempotency_cache_key key) (cw_texts w)), w)) w)"

text \<open>The submit lock of a challenge, taken with the fresh token \<open>token\<close>.\<close>

definition default_submit_lock_ttl :: int where "default_submit_lock_ttl = 15 * second"

definition acquire_submit_lock :: "time \<Rightarrow> string \<Rightarrow> string \<Rightarrow> int \<Rightarrow> (bool, 'w) action" where
  "acquire_submit_lock now token ident ttl w =
     (if blank ident then (Inl repository_unconfigured, w)
      else let ttl' = (if ttl \<le> 0 then default_submit_lock_ttl else ttl)
           in command (\<lambda>w. let (r, kv) = kv_set_nx now (challenge_submit_lock_cache_key ident) token ttl' (cw_texts w)
                           in (r, w\<lparr>cw_texts := kv\<rparr>)) w)"

definition release_submit_lock :: "time \<Rightarrow> string \<Rightarrow> string \<Rightarrow> (unit, 'w) action" where
  "release_submit_lock now ident token w =
     (if blank ident \<or> blank token then (Inr (), w)
      else command (\<lambda>w. (Inr (), w\<lparr>cw_texts :=
             snd (kv_compare_and_delete now (challenge_submit_lock_cache_key ident) token (cw_texts w))\<rparr>)) w)"

definition mark_proof_consumed :: "time \<Rightarrow> string \<Rightarrow> string \<Rightarrow> int \<Rightarrow> (bool, 'w) action" where
  "mark_proof_consumed now jti audience ttl w =
     (if blank jti \<or> blank audience then (Inl repository_unconfigured, w)
      else command (\<lambda>w. let (r, kv) = kv_set_nx now (challenge_proof_consumed_cache_key jti) audience ttl (cw_texts w)
                        in (r, w\<lparr>cw_texts := kv\<rparr>)) w)"

section \<open>Throttling\<close>

record throttle_key =
  tk_dimension :: string
  tk_value :: string

record throttle_decision =
  td_locked :: bool
  td_dimension :: string
  td_failure_count :: int
  td_remaining_seconds :: int

definition normalize_throttle_key :: "(string \<Rightarrow> string) \<Rightarrow> throttle_key \<Rightarrow> string option" where
  "normalize_throttle_key digest key =
     (let dimension = to_lower (trim_space (tk_dimension key)); v = to_lower (trim_space (tk_value key))
      in if dimension = [] \<or> v = [] then None
         else Some (dimension @ '':'' @ digest (dimension @ ''|'' @ v)))"

definition challenge_throttle_count_cache_key :: "string \<Rightarrow> string" where
  "challenge_throttle_count_cache_key normalized = ''challenge:throttle:count:'' @ normalized"

definition challenge_throttle_lock_cache_key :: "string \<Rightarrow> string" where
  "challenge_throttle_lock_cache_key normalized = ''challenge:throttle:lock:'' @ normalized"

text \<open>The first of the keys that is locked, in the order given; keys without content are skipped.\<close>

fun check_locked :: "(string \<Rightarrow> string) \<Rightarrow> time \<Rightarrow> throttle_key list \<Rightarrow> (throttle_decision option, 'w) action" where
  "check_locked digest now [] w = (Inr None, w)"
| "check_locked digest now (key # keys) w =
     (case normalize_throttle_key digest key of
        None \<Rightarrow> check_locked digest now keys w
      | Some normalized \<Rightarrow>
          then_do (command (\<lambda>w. (Inr (kv_get now (challenge_throttle_lock_cache_key normalized) (cw_texts w)), w)) w)
            (\<lambda>lock w1. case lock of
                Some _ \<Rightarrow> (Inr (Some \<lparr>td_locked = True, td_dimension = tk_dimension key,
                                     td_failure_count = 0, td_remaining_seconds = 1\<rparr>), w1)
              | None \<Rightarrow> check_locked digest now keys w1))"

text \<open>
  Count a failure under every key; a key whose count reaches the bound is locked, and the first such
  key is the decision.
\<close>

fun record_failures ::
    "(string \<Rightarrow> string) \<Rightarrow> time \<Rightarrow> int \<Rightarrow> int \<Rightarrow> int \<Rightarrow> throttle_decision option \<Rightarrow> throttle_key list \<Rightarrow>
     (throttle_decision option, 'w) action" where
  "record_failures digest now max_failures window lock_ttl locked [] w = (Inr locked, w)"
| "record_failures digest now max_failures window lock_ttl locked (key # keys) w =
     (case normalize_throttle_key digest key of
        None \<Rightarrow> record_failures digest now max_failures window lock_ttl locked keys w
      | Some normalized \<Rightarrow>
          then_do (command (\<lambda>w. let (n, kv) = kv_incr now (challenge_throttle_count_cache_key normalized) window (cw_counts w)
                                in (Inr n, w\<lparr>cw_counts := kv\<rparr>)) w)
            (\<lambda>count w1.
               if max_failures \<le> count
               then then_do (command (\<lambda>w. (Inr (), w\<lparr>cw_texts :=
                       kv_set now (challenge_throttle_lock_cache_key normalized) ''1'' lock_ttl (cw_texts w)\<rparr>)) w1)
                     (\<lambda>_ w2.
                        record_failures digest now max_failures window lock_ttl
                          (case locked of
                             Some d \<Rightarrow> Some d
                           | None \<Rightarrow> Some \<lparr>td_locked = True, td_dimension = tk_dimension key,
                                          td_failure_count = count,
                                          td_remaining_seconds = whole_seconds lock_ttl\<rparr>) keys w2)
               else record_failures digest now max_failures window lock_ttl locked keys w1))"

definition record_failure ::
    "(string \<Rightarrow> string) \<Rightarrow> time \<Rightarrow> throttle_key list \<Rightarrow> int \<Rightarrow> int \<Rightarrow> int \<Rightarrow> (throttle_decision option, 'w) action" where
  "record_failure digest now keys max_failures window lock_ttl w =
     (if max_failures \<le> 0 then (Inr None, w)
      else let window' = (if window \<le> 0 then 5 * minute else window);
               lock_ttl' = (if lock_ttl \<le> 0 then window' else lock_ttl)
           in record_failures digest now max_failures window' lock_ttl' None keys w)"

definition throttle_cache_keys :: "(string \<Rightarrow> string) \<Rightarrow> throttle_key list \<Rightarrow> string list" where
  "throttle_cache_keys digest keys =
     concat (map (\<lambda>key. case normalize_throttle_key digest key of
                          None \<Rightarrow> []
                        | Some n \<Rightarrow> [challenge_throttle_count_cache_key n, challenge_throttle_lock_cache_key n]) keys)"

definition clear_failures :: "(string \<Rightarrow> string) \<Rightarrow> throttle_key list \<Rightarrow> (unit, 'w) action" where
  "clear_failures digest keys w =
     (let ks = throttle_cache_keys digest keys
      in if ks = [] then (Inr (), w)
         else command (\<lambda>w. (Inr (), w\<lparr>cw_texts := kv_delete_many ks (cw_texts w),
                                      cw_counts := kv_delete_many ks (cw_counts w)\<rparr>)) w)"

end
