(* ===== verification/Challenge_Building.thy ===== *)
theory Challenge_Building
  imports Challenge_Store
begin

text \<open>
  How a challenge session is built from a request (\<open>app/challenge/application/challenge_service.go\<close>,
  \<open>buildSession\<close> and \<open>buildSteps\<close>, with the request of \<open>facade/types.go\<close> and the settings of
  \<open>shared/config\<close>): the table from actions to steps, and the limits of each type of step.

  Fresh identifiers (UUIDs) are the argument \<open>fresh\<close>: 0 names the challenge, \<open>i + 1\<close> its step \<open>i\<close>.
\<close>

section \<open>Requests and settings\<close>

record risk_context =
  rc_ip_address :: string
  rc_user_agent :: string
  rc_device_identifier :: string
  rc_tenant_identifier :: string

record start_request =
  sr_issuing_service_name :: string
  sr_audience_service_names :: "string list"
  sr_business_action :: string
  sr_subject_hint :: "subject_hint option"
  sr_subject_identifier :: string
  sr_flow_nonce :: string
  sr_requested_ttl_seconds :: int
  sr_idempotency_key :: string
  sr_risk_context :: "risk_context option"
  sr_required_assurance_level :: string
  sr_minimum_assurance_level :: string
  sr_expected_challenge_types :: "string list"
  sr_allow_downgrade :: "bool option"
  sr_policy_identifier :: string
  sr_extension_context :: "(string \<times> anyv) list option"

record challenge_config =
  cfg_session_ttl :: int
  cfg_password_max_attempts :: int
  cfg_password_cooldown :: int
  cfg_image_max_attempts :: int
  cfg_image_cooldown :: int
  cfg_otp_max_attempts :: int
  cfg_otp_cooldown :: int
  cfg_recovery_max_attempts :: int
  cfg_recovery_cooldown :: int
  cfg_email_max_attempts :: int
  cfg_email_cooldown :: int
  cfg_trigger_max_attempts :: int
  cfg_throttle_max_failures :: int
  cfg_throttle_window :: int
  cfg_throttle_lock :: int

definition default_positive :: "int \<Rightarrow> int \<Rightarrow> int" where
  "default_positive v fallback = (if v \<le> 0 then fallback else v)"

text \<open>Reading a key of a map that came as a value.\<close>

definition amap_get :: "(string \<times> anyv) list \<Rightarrow> string \<Rightarrow> anyv" where
  "amap_get es k = (case map_of es k of None \<Rightarrow> ANil | Some v \<Rightarrow> v)"

definition operation_binding_from_extension :: "(string \<times> anyv) list option \<Rightarrow> string" where
  "operation_binding_from_extension ext =
     (case ext of None \<Rightarrow> [] | Some es \<Rightarrow> trim_space (string_value (amap_get es ''operationBinding'')))"

definition to_domain_subject_hint :: "subject_hint option \<Rightarrow> subject_hint option" where
  "to_domain_subject_hint h =
     map_option (\<lambda>h. \<lparr>subject_type = trim_space (subject_type h), subject_value = trim_space (subject_value h)\<rparr>) h"

section \<open>Steps\<close>

definition challenge_limits :: "challenge_config \<Rightarrow> challenge_type \<Rightarrow> int \<times> int" where
  "challenge_limits cfg t =
     (case t of
        ImageCaptcha \<Rightarrow>
          (default_positive (cfg_image_max_attempts cfg) 5, default_positive (cfg_image_cooldown cfg) 10)
      | PasswordVerification \<Rightarrow>
          (default_positive (cfg_password_max_attempts cfg) 5, default_positive (cfg_password_cooldown cfg) 10)
      | EmailOneTimePassword \<Rightarrow>
          (default_positive (cfg_email_max_attempts cfg) 5, default_positive (cfg_email_cooldown cfg) 60)
      | TimeBasedOneTimePassword \<Rightarrow>
          (default_positive (cfg_otp_max_attempts cfg) 5, default_positive (cfg_otp_cooldown cfg) 30)
      | RecoveryCodeVerification \<Rightarrow>
          (default_positive (cfg_recovery_max_attempts cfg) 5, default_positive (cfg_recovery_cooldown cfg) 30)
      | WebAuthnPasskeyAssertion \<Rightarrow> (default_positive (cfg_password_max_attempts cfg) 5, 0)
      | WebAuthnPasskeyRegistration \<Rightarrow> (default_positive (cfg_password_max_attempts cfg) 5, 0))"

definition build_step ::
    "challenge_config \<Rightarrow> string \<Rightarrow> challenge_type \<Rightarrow> challenge_step_purpose \<Rightarrow> int \<Rightarrow> challenge_step" where
  "build_step cfg uuid t purpose slot =
     \<lparr>step_identifier = ''step-'' @ to_lower (type_name t) @ ''-'' @ take 8 uuid,
      challenge_type = t, step_purpose = purpose_name purpose, slot_number = slot, attempt_number = 0,
      max_attempts = fst (challenge_limits cfg t), cooldown_seconds = snd (challenge_limits cfg t),
      cooldown_until = None, step_state = (if slot = 1 then StepInProgress else StepPending),
      user_interface_hints = Map.empty\<rparr>"

text \<open>The types a client may ask for when it logs in or registers: the first one that is offered.\<close>

fun login_type :: "string list \<Rightarrow> challenge_type" where
  "login_type [] = ImageCaptcha"
| "login_type (x # xs) =
     (case challenge_type_of (trim_space x) of
        Some TimeBasedOneTimePassword \<Rightarrow> TimeBasedOneTimePassword
      | Some WebAuthnPasskeyAssertion \<Rightarrow> WebAuthnPasskeyAssertion
      | Some ImageCaptcha \<Rightarrow> ImageCaptcha
      | _ \<Rightarrow> login_type xs)"

fun register_type :: "string list \<Rightarrow> challenge_type \<times> challenge_step_purpose" where
  "register_type [] = (ImageCaptcha, PurposeDefault)"
| "register_type (x # xs) =
     (case challenge_type_of (trim_space x) of
        Some EmailOneTimePassword \<Rightarrow> (EmailOneTimePassword, VerifyNew)
      | Some ImageCaptcha \<Rightarrow> (ImageCaptcha, PurposeDefault)
      | _ \<Rightarrow> register_type xs)"

type_synonym step_plan = "(challenge_type \<times> challenge_step_purpose \<times> int) list"

definition profile_update_plan :: step_plan where
  "profile_update_plan =
     [(WebAuthnPasskeyAssertion, VerifyOld, 1), (TimeBasedOneTimePassword, VerifyOld, 1),
      (RecoveryCodeVerification, RecoveryVerify, 1), (EmailOneTimePassword, VerifyOld, 1)]"

definition recovery_plan :: step_plan where
  "recovery_plan =
     [(PasswordVerification, PurposeDefault, 1), (RecoveryCodeVerification, RecoveryVerify, 2)]"

definition privileged_plan :: step_plan where
  "privileged_plan =
     [(WebAuthnPasskeyAssertion, VerifyOld, 1), (TimeBasedOneTimePassword, VerifyOld, 1),
      (EmailOneTimePassword, VerifyOld, 1)]"

text \<open>The switch of \<open>buildSteps\<close>. Two actions of the vocabulary have no case of their own.\<close>

primrec step_plan_of :: "business_action \<Rightarrow> string list \<Rightarrow> step_plan" where
  "step_plan_of ActLogin expected = [(login_type expected, PurposeDefault, 1)]"
| "step_plan_of ActRegisterAccount expected =
     [(fst (register_type expected), snd (register_type expected), 1)]"
| "step_plan_of ActChangeMFA expected = []"
| "step_plan_of ActResetPassword expected = []"
| "step_plan_of ActProfilePhoneUpdate expected = profile_update_plan"
| "step_plan_of ActProfileEmailUpdate expected = profile_update_plan"
| "step_plan_of ActMFAOTPBind expected =
     [(PasswordVerification, PurposeDefault, 1), (TimeBasedOneTimePassword, RegisterNew, 2)]"
| "step_plan_of ActMFAOTPSwitch expected =
     [(TimeBasedOneTimePassword, VerifyOld, 1), (PasswordVerification, PurposeDefault, 2),
      (TimeBasedOneTimePassword, RegisterNew, 3)]"
| "step_plan_of ActMFAPasskeyBind expected =
     [(PasswordVerification, PurposeDefault, 1), (WebAuthnPasskeyRegistration, RegisterNew, 2)]"
| "step_plan_of ActMFAPasskeySwitch expected =
     [(WebAuthnPasskeyAssertion, VerifyOld, 1), (WebAuthnPasskeyRegistration, RegisterNew, 2)]"
| "step_plan_of ActMFARecoveryVerify expected = recovery_plan"
| "step_plan_of ActMFARecoveryCodesRegenerate expected = recovery_plan"
| "step_plan_of ActMFAOTPDelete expected = [(TimeBasedOneTimePassword, VerifyOld, 1)]"
| "step_plan_of ActMFAPasskeyDelete expected = [(WebAuthnPasskeyAssertion, VerifyOld, 1)]"
| "step_plan_of ActNotificationDeliveryContentView expected =
     [(WebAuthnPasskeyAssertion, VerifyOld, 1), (TimeBasedOneTimePassword, VerifyOld, 1)]"
| "step_plan_of ActAdminResetPassword expected = privileged_plan"
| "step_plan_of ActCurrentUserPasswordChange expected = privileged_plan"
| "step_plan_of ActAdminForceLogout expected = privileged_plan"
| "step_plan_of ActAdminDeleteUser expected = privileged_plan"
| "step_plan_of ActAdminChangeUserStatus expected = privileged_plan"
| "step_plan_of ActRBACAssignUserRoles expected = privileged_plan"
| "step_plan_of ActRBACAssignRolePermissions expected = privileged_plan"
| "step_plan_of ActRBACAssignRoleMenus expected = privileged_plan"
| "step_plan_of ActRBACAssignRoleDepts expected = privileged_plan"
| "step_plan_of ActRBACAssignMenuPermissions expected = privileged_plan"
| "step_plan_of ActRBACAssignPostRoles expected = privileged_plan"
| "step_plan_of ActRBACCommitRoleGrants expected = privileged_plan"
| "step_plan_of ActRBACGrantTempPermission expected = privileged_plan"
| "step_plan_of ActRBACRevokeTempPermission expected = privileged_plan"
| "step_plan_of ActRBACExtendTempPermission expected = privileged_plan"
| "step_plan_of ActConfigSensitiveReveal expected = privileged_plan"
| "step_plan_of ActConfigApplyPending expected = privileged_plan"
| "step_plan_of ActConfigRollback expected = privileged_plan"
| "step_plan_of ActConfigScopeAssign expected = privileged_plan"
| "step_plan_of ActSSOClientCreate expected = privileged_plan"
| "step_plan_of ActSSOClientUpdate expected = privileged_plan"
| "step_plan_of ActSSOClientStatusChange expected = privileged_plan"
| "step_plan_of ActSSOClientRedirectEdit expected = privileged_plan"
| "step_plan_of ActSSOClientSecretGenerate expected = privileged_plan"
| "step_plan_of ActSSOClientSecretDisable expected = privileged_plan"
| "step_plan_of ActExternalLoginProviderCreate expected = privileged_plan"
| "step_plan_of ActExternalLoginProviderUpdate expected = privileged_plan"
| "step_plan_of ActExternalLoginProviderStatusChange expected = privileged_plan"
| "step_plan_of ActExternalLoginProviderSecretRotate expected = privileged_plan"
| "step_plan_of ActExternalLoginIdentityStatusChange expected = privileged_plan"
| "step_plan_of ActExternalOAuthTokenRevoke expected = privileged_plan"
| "step_plan_of ActPlatformCreate expected = privileged_plan"
| "step_plan_of ActPlatformUpdate expected = privileged_plan"
| "step_plan_of ActPlatformStatusChange expected = privileged_plan"
| "step_plan_of ActPlatformLoginMethodsReplace expected = privileged_plan"
| "step_plan_of ActPlatformSourceRulesReplace expected = privileged_plan"
| "step_plan_of ActPlatformDefaultRolesReplace expected = privileged_plan"

definition plan_steps :: "challenge_config \<Rightarrow> (nat \<Rightarrow> string) \<Rightarrow> step_plan \<Rightarrow> challenge_step list" where
  "plan_steps cfg fresh plan =
     map (\<lambda>(i, t, purpose, slot). build_step cfg (fresh (Suc i)) t purpose slot) (enumerate 0 plan)"

definition build_steps ::
    "challenge_config \<Rightarrow> (nat \<Rightarrow> string) \<Rightarrow> string \<Rightarrow> string list \<Rightarrow> challenge_step list" where
  "build_steps cfg fresh action expected =
     (case business_action_of (trim_space action) of
        None \<Rightarrow> []
      | Some a \<Rightarrow> plan_steps cfg fresh (step_plan_of a expected))"

section \<open>Sessions\<close>

definition risk_value :: "risk_context \<Rightarrow> anyv" where
  "risk_value r =
     AMap [(''deviceIdentifier'', AStr (rc_device_identifier r)), (''ipAddress'', AStr (rc_ip_address r)),
           (''tenantIdentifier'', AStr (rc_tenant_identifier r)), (''userAgent'', AStr (rc_user_agent r))]"

text \<open>The entries of the session context, in the order in which they are written.\<close>

definition put_unless_empty :: "string \<Rightarrow> string \<Rightarrow> anymap \<Rightarrow> anymap" where
  "put_unless_empty k v m = (if v = [] then m else m(k \<mapsto> AStr v))"

definition put_if :: "string \<Rightarrow> anyv option \<Rightarrow> anymap \<Rightarrow> anymap" where
  "put_if k v m = (case v of None \<Rightarrow> m | Some x \<Rightarrow> m(k \<mapsto> x))"

definition build_context :: "challenge_action_policy \<Rightarrow> start_request \<Rightarrow> anymap" where
  "build_context policy request =
     (let level = (if trim_space (sr_required_assurance_level request) \<noteq> []
                   then trim_space (sr_required_assurance_level request)
                   else trim_space (minimum_assurance_level policy));
          m1 = put_if ''extensionContext'' (map_option AMap (sr_extension_context request)) Map.empty;
          m2 = put_unless_empty ''resolvedAssuranceLevel'' level (put_unless_empty ''requiredAssuranceLevel'' level m1);
          m3 = put_unless_empty ''minimumAssuranceLevel'' (trim_space (sr_minimum_assurance_level request)) m2;
          m4 = (if sr_expected_challenge_types request = [] then m3
                else m3(''expectedChallengeTypes'' \<mapsto> AStrs (sr_expected_challenge_types request)));
          m5 = put_if ''allowDowngrade'' (map_option ABool (sr_allow_downgrade request)) m4;
          m6 = put_unless_empty ''policyIdentifier'' (trim_space (sr_policy_identifier request)) m5
      in put_if ''riskContext'' (map_option risk_value (sr_risk_context request)) m6)"

definition effective_ttl :: "challenge_config \<Rightarrow> start_request \<Rightarrow> int" where
  "effective_ttl cfg request =
     (let ttl = (if sr_requested_ttl_seconds request \<le> 0 then cfg_session_ttl cfg
                 else sr_requested_ttl_seconds request)
      in if ttl \<le> 0 then 300 else ttl)"

definition build_session ::
    "challenge_config \<Rightarrow> (nat \<Rightarrow> string) \<Rightarrow> challenge_action_policy \<Rightarrow> start_request \<Rightarrow> time \<Rightarrow> challenge_session" where
  "build_session cfg fresh policy request now =
     (let ttl = effective_ttl cfg request
      in refresh_recommended_step_identifier now
           \<lparr>challenge_identifier = ''challenge_'' @ filter (\<lambda>c. c \<noteq> CHR ''-'') (fresh 0),
            issuing_service_name = trim_space (sr_issuing_service_name request),
            audience_service_names = sr_audience_service_names request,
            session_subject_hint = to_domain_subject_hint (sr_subject_hint request),
            subject_identifier = trim_space (sr_subject_identifier request),
            subject_account_name = [], subject_user_id = 0,
            flow_nonce = trim_space (sr_flow_nonce request),
            idempotency_key = trim_space (sr_idempotency_key request),
            created_at = Some now, expires_at = Some (now + seconds_duration ttl),
            effective_ttl_seconds = ttl,
            session_business_action = trim_space (sr_business_action request),
            session_state = ChallengePending, recommended_step_identifier = [],
            authentication_method_names = [],
            steps = build_steps cfg fresh (sr_business_action request) (sr_expected_challenge_types request),
            session_context = build_context policy request, failure_code = []\<rparr>)"

end
