(* ===== verification/Challenge_Flow.thy ===== *)
theory Challenge_Flow
  imports Challenge_Building
begin

text \<open>
  The challenge service (\<open>app/challenge/application/challenge_service.go\<close>, with \<open>step_service.go\<close>): starting a
  challenge, answering and refreshing its steps, and issuing its proof token
  (\<open>infrastructure/proof_token_service.go\<close>, \<open>Issue\<close>).

  A step provider is the record of its methods; it works on the session in memory and on what lies
  outside, and reports an error instead of a session. What \<open>OnPassed\<close> does and the signature of a token
  are fields of the environment. In memory a session is a value; it lasts only when it is saved.
  The text of an instant that the session context holds is RFC 3339 in the source; only that reading
  it back gives the instant matters, and here it is the decimal count of nanoseconds.
\<close>

section \<open>Providers and environment\<close>

record 'w step_provider =
  sp_prepare :: "time \<Rightarrow> nat \<Rightarrow> challenge_session \<Rightarrow> 'w \<Rightarrow> challenge_session result \<times> 'w"
  sp_verify :: "time \<Rightarrow> nat \<Rightarrow> anymap \<Rightarrow> challenge_session \<Rightarrow> 'w \<Rightarrow> (bool \<times> challenge_session) result \<times> 'w"
  sp_eligible :: "(challenge_step \<Rightarrow> challenge_session \<Rightarrow> 'w \<Rightarrow> (bool \<times> challenge_session) result \<times> 'w) option"
  sp_refresh :: "(time \<Rightarrow> nat \<Rightarrow> challenge_session \<Rightarrow> 'w \<Rightarrow> challenge_session result \<times> 'w) option"

record proof_claims =
  pc_issuer :: string
  pc_audiences :: "string list"
  pc_subject :: string
  pc_business_action :: string
  pc_challenge_identifier :: string
  pc_flow_nonce :: string
  pc_operation_binding :: string
  pc_methods :: "string list"
  pc_token_identifier :: string
  pc_issued_at :: "time option"
  pc_expires_at :: "time option"

record 'w challenge_env =
  ce_config :: challenge_config
  ce_providers :: "challenge_type \<Rightarrow> 'w step_provider option"
  ce_digest :: "string \<Rightarrow> string"
  ce_on_passed :: "challenge_session \<Rightarrow> 'w \<Rightarrow> challenge_session result \<times> 'w"
  ce_sign :: "proof_claims \<Rightarrow> string result"
  ce_min_ttl :: int
  ce_max_ttl :: int

text \<open>A step outside the key space.\<close>

definition outside :: "('w \<Rightarrow> 'a result \<times> 'w) \<Rightarrow> ('a, 'w) action" where
  "outside f w = (let (r, x) = f (cw_outside w) in (r, w\<lparr>cw_outside := x\<rparr>))"

section \<open>Steps and their providers\<close>

definition provider_missing :: go_error where
  "provider_missing = operation_error (''challenge step provider'' @ (utf8 [0x4E0D, 0x5B58, 0x5728]))"

definition prepare_step :: "'w challenge_env \<Rightarrow> time \<Rightarrow> nat \<Rightarrow> challenge_session \<Rightarrow> (challenge_session, 'w) action" where
  "prepare_step env now i s w =
     (case ce_providers env (challenge_type (steps s ! i)) of
        None \<Rightarrow> (Inl provider_missing, w)
      | Some p \<Rightarrow> outside (sp_prepare p now i s) w)"

definition is_step_eligible ::
    "'w challenge_env \<Rightarrow> challenge_step \<Rightarrow> challenge_session \<Rightarrow> (bool \<times> challenge_session, 'w) action" where
  "is_step_eligible env st s w =
     (case ce_providers env (challenge_type st) of
        None \<Rightarrow> (Inl provider_missing, w)
      | Some p \<Rightarrow> (case sp_eligible p of None \<Rightarrow> (Inr (True, s), w) | Some f \<Rightarrow> outside (f st s) w))"

definition verify_step ::
    "'w challenge_env \<Rightarrow> time \<Rightarrow> nat \<Rightarrow> anymap \<Rightarrow> challenge_session \<Rightarrow> (bool \<times> challenge_session, 'w) action" where
  "verify_step env now i payload s w =
     (case ce_providers env (challenge_type (steps s ! i)) of
        None \<Rightarrow> (Inl provider_missing, w)
      | Some p \<Rightarrow> outside (sp_verify p now i payload s) w)"

definition refresh_step :: "'w challenge_env \<Rightarrow> time \<Rightarrow> nat \<Rightarrow> challenge_session \<Rightarrow> (challenge_session, 'w) action" where
  "refresh_step env now i s w =
     (case ce_providers env (challenge_type (steps s ! i)) of
        None \<Rightarrow> (Inl provider_missing, w)
      | Some p \<Rightarrow>
          (case sp_refresh p of
             None \<Rightarrow> (Inl (operation_error ((utf8 [0x5F53, 0x524D, 0x6B65, 0x9AA4, 0x4E0D, 0x652F, 0x6301, 0x5237, 0x65B0]))), w)
           | Some f \<Rightarrow> outside (f now i s) w))"

section \<open>Throttle keys\<close>

text \<open>The address and the device in the risk context of the session.\<close>

definition risk_identity :: "challenge_session \<Rightarrow> string \<times> string" where
  "risk_identity s =
     (case any_get (session_context s) ''riskContext'' of
        AMap es \<Rightarrow> (trim_space (string_value (amap_get es ''ipAddress'')),
                    trim_space (string_value (amap_get es ''deviceIdentifier'')))
      | _ \<Rightarrow> ([], []))"

definition email_throttle_target :: "challenge_session \<Rightarrow> string" where
  "email_throttle_target s =
     (let target = trim_space (string_value (any_get (session_context s) ''email.target''))
      in if target \<noteq> [] then target else trim_space (subject_identifier s))"

definition key_if :: "bool \<Rightarrow> string \<Rightarrow> string \<Rightarrow> throttle_key list" where
  "key_if b dimension v = (if b then [\<lparr>tk_dimension = dimension, tk_value = v\<rparr>] else [])"

definition challenge_throttle_keys :: "challenge_session \<Rightarrow> challenge_step \<Rightarrow> throttle_key list" where
  "challenge_throttle_keys s st =
     (let action = trim_space (session_business_action s);
          factor = trim_space (type_name (challenge_type st));
          scope = ''|'' @ action @ ''|'' @ factor;
          subject = trim_space (subject_identifier s);
          ip = fst (risk_identity s); device = snd (risk_identity s);
          target = email_throttle_target s
      in if action = [] \<or> factor = [] then []
         else key_if (subject \<noteq> []) ''subject-action-factor'' (subject @ scope)
              @ key_if (ip \<noteq> []) ''ip-action-factor'' (ip @ scope)
              @ key_if (device \<noteq> []) ''device-action-factor'' (device @ scope)
              @ key_if (ip \<noteq> [] \<and> device \<noteq> []) ''ip-device-action-factor'' (ip @ ''|'' @ device @ scope)
              @ key_if (challenge_type st = EmailOneTimePassword \<and> target \<noteq> [])
                  ''email-target-action-factor'' (target @ scope))"

definition challenge_trigger_throttle_keys :: "challenge_session \<Rightarrow> challenge_step \<Rightarrow> throttle_key list" where
  "challenge_trigger_throttle_keys s st =
     map (\<lambda>k. k\<lparr>tk_dimension := ''trigger-'' @ tk_dimension k\<rparr>) (challenge_throttle_keys s st)"

definition window_ttl :: "challenge_config \<Rightarrow> int" where
  "window_ttl cfg = seconds_duration (default_positive (cfg_throttle_window cfg) (cfg_session_ttl cfg))"

definition lock_ttl :: "challenge_config \<Rightarrow> int" where
  "lock_ttl cfg = seconds_duration (default_positive (cfg_throttle_lock cfg) (cfg_session_ttl cfg))"

definition check_throttle :: "'w challenge_env \<Rightarrow> time \<Rightarrow> throttle_key list \<Rightarrow> (throttle_decision option, 'w) action" where
  "check_throttle env now keys w = check_locked (ce_digest env) now keys w"

definition record_throttle_failure ::
    "'w challenge_env \<Rightarrow> time \<Rightarrow> throttle_key list \<Rightarrow> challenge_step \<Rightarrow> (throttle_decision option, 'w) action" where
  "record_throttle_failure env now keys st w =
     record_failure (ce_digest env) now keys
       (default_positive (cfg_throttle_max_failures (ce_config env)) (max_attempts st))
       (window_ttl (ce_config env)) (lock_ttl (ce_config env)) w"

definition record_throttle_event :: "'w challenge_env \<Rightarrow> time \<Rightarrow> throttle_key list \<Rightarrow> (throttle_decision option, 'w) action" where
  "record_throttle_event env now keys w =
     (if cfg_trigger_max_attempts (ce_config env) \<le> 0 then (Inr None, w)
      else record_failure (ce_digest env) now keys (cfg_trigger_max_attempts (ce_config env))
             (window_ttl (ce_config env)) (lock_ttl (ce_config env)) w)"

definition challenge_throttled_error :: "throttle_decision \<Rightarrow> go_error" where
  "challenge_throttled_error d =
     with_details (challenge_throttled ((utf8 [0x6311, 0x6218, 0x89E6, 0x53D1, 0x8FC7, 0x4E8E, 0x9891, 0x7E41, 0xFF0C, 0x8BF7, 0x7A0D, 0x540E, 0x518D, 0x8BD5])))
       (AMap [(''cooldownSeconds'', AInt (if 0 < td_remaining_seconds d then td_remaining_seconds d else 1)),
              (''dimension'', AStr (trim_space (td_dimension d)))])"

definition ensure_step_trigger_allowed :: "'w challenge_env \<Rightarrow> time \<Rightarrow> challenge_session \<Rightarrow> nat \<Rightarrow> (unit, 'w) action" where
  "ensure_step_trigger_allowed env now s i w =
     (if cfg_trigger_max_attempts (ce_config env) \<le> 0 then (Inr (), w)
      else then_do (check_throttle env now (challenge_trigger_throttle_keys s (steps s ! i)) w)
             (\<lambda>d w1. case d of
                Some d \<Rightarrow> if td_locked d then (Inl (challenge_throttled_error d), w1) else (Inr (), w1)
              | None \<Rightarrow> (Inr (), w1)))"

definition email_otp_trigger_context_key :: "challenge_step \<Rightarrow> string" where
  "email_otp_trigger_context_key st = ''email.otp.lastTriggeredAt.'' @ trim_space (step_identifier st)"

definition instant_text :: "time \<Rightarrow> string" where "instant_text t = show_int t"

definition parse_instant :: "string \<Rightarrow> time option" where "parse_instant s = parse_int64 s"

definition note_trigger :: "time \<Rightarrow> nat \<Rightarrow> challenge_session \<Rightarrow> challenge_session" where
  "note_trigger now i s =
     (if challenge_type (steps s ! i) = EmailOneTimePassword
      then s\<lparr>session_context := (session_context s)
               (email_otp_trigger_context_key (steps s ! i) \<mapsto> AStr (instant_text now))\<rparr>
      else s)"

definition record_step_trigger :: "'w challenge_env \<Rightarrow> time \<Rightarrow> nat \<Rightarrow> challenge_session \<Rightarrow> (challenge_session, 'w) action" where
  "record_step_trigger env now i s w =
     (let s' = note_trigger now i s; keys = challenge_trigger_throttle_keys s' (steps s' ! i)
      in if cfg_trigger_max_attempts (ce_config env) \<le> 0 \<or> keys = [] then (Inr s', w)
         else then_do (record_throttle_event env now keys w) (\<lambda>_ w1. (Inr s', w1)))"

definition email_otp_resend_cooldown_seconds :: "challenge_session \<Rightarrow> challenge_step \<Rightarrow> time \<Rightarrow> int" where
  "email_otp_resend_cooldown_seconds s st now =
     (if challenge_type st \<noteq> EmailOneTimePassword \<or> cooldown_seconds st \<le> 0 then 0
      else case parse_instant (trim_space (string_value (any_get (session_context s) (email_otp_trigger_context_key st)))) of
             None \<Rightarrow> 0
           | Some triggered \<Rightarrow>
               (let remaining = time_sub (triggered + seconds_duration (cooldown_seconds st)) now
                in if remaining \<le> 0 then 0
                   else let seconds = whole_seconds remaining in if seconds \<le> 0 then 1 else seconds))"

end
