(* ===== verification/Challenge_Service.thy ===== *)
theory Challenge_Service
  imports Challenge_Flow
begin

text \<open>
  The operations of the challenge service: \<open>StartChallenge\<close>, \<open>GetChallenge\<close>, \<open>Respond\<close> and \<open>Refresh\<close> of
  \<open>app/challenge/application/challenge_service.go\<close>, with the issue of the proof token. \<open>Respond\<close> and
  \<open>Refresh\<close> hold the submit lock of the challenge, taken with a fresh token, and give it back at the
  end whatever happened in between.
\<close>

section \<open>Responses\<close>

record step_view =
  sv_identifier :: string
  sv_type :: string
  sv_purpose :: string
  sv_state :: string
  sv_remaining :: int
  sv_cooldown :: int
  sv_switchable :: bool
  sv_hints :: anymap

record start_response =
  st_challenge_identifier :: string
  st_expires_at :: "time option"
  st_steps :: "step_view list"
  st_state :: string
  st_ttl :: int
  st_required_level :: string
  st_resolved_level :: string
  st_recommended :: string
  st_types :: "string list"

record respond_response =
  rr_state :: string
  rr_proof_token :: string
  rr_next_step :: string
  rr_remaining :: int
  rr_cooldown :: int
  rr_can_switch :: bool
  rr_recommended :: string
  rr_failure_reason :: string

definition append_if_missing :: "string list \<Rightarrow> string \<Rightarrow> string list" where
  "append_if_missing xs x = (if x \<in> set xs then xs else xs @ [x])"

definition view_step :: "challenge_session \<Rightarrow> time \<Rightarrow> nat \<Rightarrow> step_view" where
  "view_step s now i =
     (let st = steps s ! i; resend = email_otp_resend_cooldown_seconds s st now
      in \<lparr>sv_identifier = step_identifier st, sv_type = type_name (challenge_type st),
          sv_purpose = step_purpose st, sv_state = step_state_name (step_state st),
          sv_remaining = remaining_attempt_count st, sv_cooldown = remaining_cooldown_seconds st now,
          sv_switchable = is_switchable s i,
          sv_hints = (if 0 < resend then (user_interface_hints st)(''resendCooldownSeconds'' \<mapsto> AInt resend)
                      else user_interface_hints st)\<rparr>)"

definition to_start_response :: "challenge_session \<Rightarrow> time \<Rightarrow> start_response" where
  "to_start_response s now =
     \<lparr>st_challenge_identifier = challenge_identifier s, st_expires_at = expires_at s,
      st_steps = map (view_step s now) [0..<length (steps s)],
      st_state = state_name (session_state s), st_ttl = effective_ttl_seconds s,
      st_required_level = trim_space (string_value (any_get (session_context s) ''requiredAssuranceLevel'')),
      st_resolved_level = trim_space (string_value (any_get (session_context s) ''resolvedAssuranceLevel'')),
      st_recommended = recommended_step_identifier s,
      st_types = foldl append_if_missing [] (map (\<lambda>st. type_name (challenge_type st)) (steps s))\<rparr>"

definition throttled_response :: "challenge_session \<Rightarrow> nat \<Rightarrow> throttle_decision \<Rightarrow> respond_response" where
  "throttled_response s i d =
     \<lparr>rr_state = state_name (session_state s), rr_proof_token = [],
      rr_next_step = recommended_step_identifier s,
      rr_remaining = remaining_attempt_count (steps s ! i),
      rr_cooldown = (if 0 < td_remaining_seconds d then td_remaining_seconds d else 1),
      rr_can_switch = is_switchable s i, rr_recommended = recommended_step_identifier s,
      rr_failure_reason = ''CHALLENGE_THROTTLED''\<rparr>"

definition failure_response :: "string \<Rightarrow> string \<Rightarrow> time \<Rightarrow> challenge_session \<Rightarrow> nat \<Rightarrow> respond_response" where
  "failure_response state reason now s i =
     \<lparr>rr_state = state, rr_proof_token = [], rr_next_step = recommended_step_identifier s,
      rr_remaining = remaining_attempt_count (steps s ! i),
      rr_cooldown = remaining_cooldown_seconds (steps s ! i) now,
      rr_can_switch = is_switchable s i, rr_recommended = recommended_step_identifier s,
      rr_failure_reason = reason\<rparr>"

definition passed_response :: "string \<Rightarrow> respond_response" where
  "passed_response token =
     \<lparr>rr_state = state_name ChallengePassed, rr_proof_token = token, rr_next_step = [], rr_remaining = 0,
      rr_cooldown = 0, rr_can_switch = False, rr_recommended = [], rr_failure_reason = []\<rparr>"

definition progress_response :: "challenge_session \<Rightarrow> respond_response" where
  "progress_response s =
     \<lparr>rr_state = state_name (session_state s), rr_proof_token = [],
      rr_next_step = recommended_step_identifier s, rr_remaining = 0, rr_cooldown = 0,
      rr_can_switch = False, rr_recommended = recommended_step_identifier s, rr_failure_reason = []\<rparr>"

section \<open>Starting\<close>

definition no_method_available :: go_error where
  "no_method_available = operation_error ((utf8 [0x5F53, 0x524D, 0x4E3B, 0x4F53, 0x6CA1, 0x6709, 0x53EF, 0x7528, 0x7684, 0x9A8C, 0x8BC1, 0x65B9, 0x5F0F]))"

text \<open>The eligible steps, in order; checking a step may write into the session context.\<close>

fun eligible_steps ::
    "'w challenge_env \<Rightarrow> challenge_step list \<Rightarrow> challenge_session \<Rightarrow> (challenge_step list \<times> challenge_session, 'w) action" where
  "eligible_steps env [] s w = (Inr ([], s), w)"
| "eligible_steps env (st # sts) s w =
     then_do (is_step_eligible env st s w) (\<lambda>(ok, s1) w1.
       then_do (eligible_steps env sts s1 w1) (\<lambda>(kept, s2) w2.
         (Inr (if ok then st # kept else kept, s2), w2)))"

definition filter_eligible_steps :: "'w challenge_env \<Rightarrow> time \<Rightarrow> challenge_session \<Rightarrow> (challenge_session, 'w) action" where
  "filter_eligible_steps env now s w =
     then_do (eligible_steps env (steps s) s w) (\<lambda>(kept, s1) w1.
       let s2 = refresh_recommended_step_identifier now (s1\<lparr>steps := kept\<rparr>)
       in if current_step s2 now = None then (Inl no_method_available, w1) else (Inr s2, w1))"

definition ensure_required_proof_steps_available ::
    "challenge_session \<Rightarrow> challenge_action_policy \<Rightarrow> unit result" where
  "ensure_required_proof_steps_available s policy =
     (if \<exists>r \<in> set (required_proof_methods policy). r \<notin> challenge_type ` set (steps s)
      then Inl no_method_available else Inr ())"

text \<open>A loop over the positions of the steps that may change the session, and stops at an error.\<close>

fun each_step ::
    "(nat \<Rightarrow> challenge_session \<Rightarrow> (challenge_session, 'w) action) \<Rightarrow> nat list \<Rightarrow> challenge_session \<Rightarrow>
     (challenge_session, 'w) action" where
  "each_step f [] s w = (Inr s, w)"
| "each_step f (i # is) s w = then_do (f i s w) (\<lambda>s1 w1. each_step f is s1 w1)"

definition session_missing :: go_error where
  "session_missing = not_found ((utf8 [0x6311, 0x6218, 0x4F1A, 0x8BDD, 0x4E0D, 0x5B58, 0x5728]))"

definition get_session :: "time \<Rightarrow> string \<Rightarrow> (challenge_session, 'w) action" where
  "get_session now ident w =
     then_do (repo_get_session now (trim_space ident) w) (\<lambda>found w1.
       case found of None \<Rightarrow> (Inl session_missing, w1) | Some s \<Rightarrow> (Inr s, w1))"

definition get_challenge :: "time \<Rightarrow> string \<Rightarrow> (start_response, 'w) action" where
  "get_challenge now ident w =
     then_do (get_session now ident w) (\<lambda>s w1. (Inr (to_start_response s now), w1))"

text \<open>A new session, from the built one to the saved one.\<close>

definition open_session ::
    "'w challenge_env \<Rightarrow> challenge_action_policy \<Rightarrow> time \<Rightarrow> string \<Rightarrow> challenge_session \<Rightarrow> (challenge_session, 'w) action" where
  "open_session env policy now key built w =
     then_do (filter_eligible_steps env now built w) (\<lambda>s1 w1.
       case ensure_required_proof_steps_available s1 policy of
         Inl e \<Rightarrow> (Inl e, w1)
       | Inr _ \<Rightarrow>
           (let positions = [0..<length (steps s1)]
            in then_do (each_step (\<lambda>i s w. then_do (ensure_step_trigger_allowed env now s i w) (\<lambda>_ w. (Inr s, w)))
                          positions s1 w1) (\<lambda>s2 w2.
               then_do (each_step (prepare_step env now) positions s2 w2) (\<lambda>s3 w3.
               then_do (each_step (record_step_trigger env now) positions s3 w3) (\<lambda>s4 w4.
               let s5 = refresh_recommended_step_identifier now s4
               in then_do (save_session now s5 w4) (\<lambda>_ w5.
                  then_do (bind_idempotency_key now key (challenge_identifier s5)
                             (seconds_duration (effective_ttl_seconds s5)) w5) (\<lambda>_ w6.
                  (Inr s5, w6))))))))"

definition start_challenge ::
    "'w challenge_env \<Rightarrow> (nat \<Rightarrow> string) \<Rightarrow> time \<Rightarrow> start_request \<Rightarrow> (start_response, 'w) action" where
  "start_challenge env fresh now request w =
     (if blank (sr_business_action request) \<or> blank (sr_flow_nonce request) \<or> blank (sr_idempotency_key request)
      then (Inl (params_error (''businessAction/flowNonce/idempotencyKey'' @ (utf8 [0x4E0D, 0x80FD, 0x4E3A, 0x7A7A]))), w)
      else if sr_audience_service_names request = []
      then (Inl (params_error (''audienceServiceNames'' @ (utf8 [0x4E0D, 0x80FD, 0x4E3A, 0x7A7A]))), w)
      else case lookup_challenge_action_policy (sr_business_action request) of
             None \<Rightarrow> (Inl (params_error ((utf8 [0x672A, 0x77E5, 0x6216, 0x4E0D, 0x652F, 0x6301, 0x7684, 0x4E1A, 0x52A1, 0x52A8, 0x4F5C]))), w)
           | Some policy \<Rightarrow>
               if requires_operation_binding policy
                  \<and> operation_binding_from_extension (sr_extension_context request) = []
               then (Inl (params_error ((utf8 [0x5F53, 0x524D, 0x4E1A, 0x52A1, 0x52A8, 0x4F5C, 0x5FC5, 0x987B, 0x7ED1, 0x5B9A, 0x5177, 0x4F53, 0x64CD, 0x4F5C, 0x5BF9, 0x8C61]))), w)
               else then_do (get_session_by_idempotency_key now (sr_idempotency_key request) w) (\<lambda>existing w1.
                    case existing of
                      Some ident \<Rightarrow> then_do (get_session now ident w1) (\<lambda>s w2. (Inr (to_start_response s now), w2))
                    | None \<Rightarrow>
                        then_do (open_session env policy now (sr_idempotency_key request)
                                   (build_session (ce_config env) fresh policy request now) w1)
                          (\<lambda>s w2. (Inr (to_start_response s now), w2))))"

section \<open>The proof token\<close>

definition resolve_operation_binding :: "challenge_session \<Rightarrow> string" where
  "resolve_operation_binding s =
     (let direct = trim_space (string_value (any_get (session_context s) ''operationBinding''))
      in if direct \<noteq> [] then direct
         else case any_get (session_context s) ''extensionContext'' of
                AMap es \<Rightarrow> trim_space (string_value (amap_get es ''operationBinding''))
              | _ \<Rightarrow> [])"

definition proof_expiry :: "'w challenge_env \<Rightarrow> time \<Rightarrow> challenge_session \<Rightarrow> time" where
  "proof_expiry env now s =
     (let e1 = now + ce_min_ttl env;
          e2 = (if 0 < ce_max_ttl env \<and> now + ce_max_ttl env < e1 then now + ce_max_ttl env else e1)
      in case expires_at s of Some e \<Rightarrow> if e < e2 then e else e2 | None \<Rightarrow> e2)"

definition proof_claims_of :: "'w challenge_env \<Rightarrow> time \<Rightarrow> string \<Rightarrow> challenge_session \<Rightarrow> proof_claims" where
  "proof_claims_of env now jti s =
     \<lparr>pc_issuer = trim_space (issuing_service_name s), pc_audiences = audience_service_names s,
      pc_subject = trim_space (subject_identifier s),
      pc_business_action = trim_space (session_business_action s),
      pc_challenge_identifier = trim_space (challenge_identifier s),
      pc_flow_nonce = trim_space (flow_nonce s),
      pc_operation_binding = resolve_operation_binding s,
      pc_methods = authentication_method_names s, pc_token_identifier = jti,
      pc_issued_at = Some now, pc_expires_at = Some (proof_expiry env now s)\<rparr>"

text \<open>The cached token of the session, or a new one that is cached before it is returned.\<close>

definition build_passed_response ::
    "'w challenge_env \<Rightarrow> time \<Rightarrow> string \<Rightarrow> challenge_session \<Rightarrow> (respond_response, 'w) action" where
  "build_passed_response env now jti s w =
     (let cached = trim_space (string_value (any_get (session_context s) ''proofToken''))
      in if cached \<noteq> [] then (Inr (passed_response cached), w)
         else case ce_sign env (proof_claims_of env now jti s) of
                Inl e \<Rightarrow> (Inl e, w)
              | Inr raw \<Rightarrow>
                  then_do (save_session now
                             (s\<lparr>session_context := (session_context s)(''proofToken'' \<mapsto> AStr raw)\<rparr>) w)
                    (\<lambda>_ w1. (Inr (passed_response raw), w1)))"

section \<open>Answering\<close>

definition find_step :: "challenge_session \<Rightarrow> string \<Rightarrow> time \<Rightarrow> nat result" where
  "find_step s ident now =
     (if trim_space ident = []
      then case current_step s now of
             None \<Rightarrow> Inl (operation_error ((utf8 [0x5F53, 0x524D, 0x6B65, 0x9AA4, 0x4E0D, 0x5B58, 0x5728])))
           | Some i \<Rightarrow> Inr i
      else case find_index (\<lambda>st. step_identifier st = trim_space ident) (steps s) of
             None \<Rightarrow> Inl (not_found ((utf8 [0x6311, 0x6218, 0x6B65, 0x9AA4, 0x4E0D, 0x5B58, 0x5728])))
           | Some i \<Rightarrow> Inr i)"

definition expire_session :: "time \<Rightarrow> challenge_session \<Rightarrow> ('a, 'w) action" where
  "expire_session now s w =
     then_do (save_session now (s\<lparr>session_state := ChallengeExpired, failure_code := ''SESSION_EXPIRED''\<rparr>) w)
       (\<lambda>_ w1. (Inl (operation_error ((utf8 [0x6311, 0x6218, 0x5DF2, 0x8FC7, 0x671F]))), w1))"

definition not_continuable :: go_error where
  "not_continuable = operation_error ((utf8 [0x6311, 0x6218, 0x72B6, 0x6001, 0x4E0D, 0x53EF, 0x7EE7, 0x7EED]))"

definition respond_wrong ::
    "'w challenge_env \<Rightarrow> time \<Rightarrow> throttle_key list \<Rightarrow> nat \<Rightarrow> challenge_session \<Rightarrow> (respond_response, 'w) action" where
  "respond_wrong env now keys i s w =
     (let s1 = mark_step_failure i ''STEP_VERIFY_FAILED'' now s
      in then_do (record_throttle_failure env now keys (steps s1 ! i) w) (\<lambda>decision w1.
         then_do (save_session now s1 w1) (\<lambda>_ w2.
         case decision of
           Some d \<Rightarrow>
             if td_locked d \<and> session_state s1 \<noteq> ChallengeFailed
             then (Inr (throttled_response s1 i d), w2)
             else (Inr (failure_response (state_name (session_state s1))
                          (if session_state s1 = ChallengeFailed then ''STEP_LOCKED'' else ''STEP_VERIFY_FAILED'')
                          now s1 i), w2)
         | None \<Rightarrow>
             (Inr (failure_response (state_name (session_state s1))
                     (if session_state s1 = ChallengeFailed then ''STEP_LOCKED'' else ''STEP_VERIFY_FAILED'')
                     now s1 i), w2))))"

definition respond_right ::
    "'w challenge_env \<Rightarrow> time \<Rightarrow> string \<Rightarrow> throttle_key list \<Rightarrow> nat \<Rightarrow> challenge_session \<Rightarrow> (respond_response, 'w) action" where
  "respond_right env now jti keys i s w =
     (let s1 = mark_step_success i now s
      in then_do (clear_failures (ce_digest env) keys w) (\<lambda>_ w1.
         then_do (if session_state s1 = ChallengePassed then outside (ce_on_passed env s1) w1 else (Inr s1, w1)) (\<lambda>s2 w2.
         then_do (save_session now s2 w2) (\<lambda>_ w3.
         if session_state s2 = ChallengePassed then build_passed_response env now jti s2 w3
         else (Inr (progress_response s2), w3)))))"

definition respond_pending ::
    "'w challenge_env \<Rightarrow> time \<Rightarrow> string \<Rightarrow> string \<Rightarrow> anymap \<Rightarrow> challenge_session \<Rightarrow> (respond_response, 'w) action" where
  "respond_pending env now jti step payload s w =
     (case find_step s step now of
        Inl e \<Rightarrow> (Inl e, w)
      | Inr i \<Rightarrow>
          if \<not> is_verifiable (steps s ! i) then (Inl (operation_error ((utf8 [0x5F53, 0x524D, 0x6B65, 0x9AA4, 0x4E0D, 0x53EF, 0x63D0, 0x4EA4]))), w)
          else if 0 < remaining_cooldown_seconds (steps s ! i) now
          then (Inr (failure_response (state_name ChallengePending) ''STEP_COOLDOWN_ACTIVE'' now s i), w)
          else let keys = challenge_throttle_keys s (steps s ! i)
               in then_do (check_throttle env now keys w) (\<lambda>decision w1.
                  case decision of
                    Some d \<Rightarrow> (Inr (throttled_response s i d), w1)
                  | None \<Rightarrow>
                      then_do (verify_step env now i payload s w1) (\<lambda>(verified, s1) w2.
                        if verified then respond_right env now jti keys i s1 w2
                        else respond_wrong env now keys i s1 w2)))"

definition respond_locked ::
    "'w challenge_env \<Rightarrow> time \<Rightarrow> string \<Rightarrow> string \<Rightarrow> string \<Rightarrow> anymap \<Rightarrow> (respond_response, 'w) action" where
  "respond_locked env now jti ident step payload w =
     then_do (get_session now ident w) (\<lambda>s w1.
       if is_expired s now then expire_session now s w1
       else case session_state s of
              ChallengePassed \<Rightarrow> build_passed_response env now jti s w1
            | ChallengePending \<Rightarrow> respond_pending env now jti step payload s w1
            | _ \<Rightarrow> (Inl not_continuable, w1))"

text \<open>A request under the submit lock; the token of the lock is fresh.\<close>

definition under_submit_lock :: "time \<Rightarrow> string \<Rightarrow> string \<Rightarrow> ('a, 'w) action \<Rightarrow> ('a, 'w) action" where
  "under_submit_lock now token ident body w =
     then_do (acquire_submit_lock now token ident (15 * second) w) (\<lambda>locked w1.
       if \<not> locked then (Inl (operation_error ((utf8 [0x6311, 0x6218, 0x6B63, 0x5728, 0x5904, 0x7406, 0x4E2D, 0xFF0C, 0x8BF7, 0x52FF, 0x91CD, 0x590D, 0x63D0, 0x4EA4]))), w1)
       else let (r, w2) = body w1 in (r, snd (release_submit_lock now ident token w2)))"

definition respond ::
    "'w challenge_env \<Rightarrow> time \<Rightarrow> string \<Rightarrow> string \<Rightarrow> string \<Rightarrow> string \<Rightarrow> anymap \<Rightarrow> (respond_response, 'w) action" where
  "respond env now token jti ident step payload =
     under_submit_lock now token ident (respond_locked env now jti ident step payload)"

section \<open>Refreshing\<close>

definition ensure_refresh_throttle_context ::
    "'w challenge_env \<Rightarrow> nat \<Rightarrow> challenge_session \<Rightarrow> (challenge_session, 'w) action" where
  "ensure_refresh_throttle_context env i s w =
     (if challenge_type (steps s ! i) \<noteq> EmailOneTimePassword
         \<or> trim_space (string_value (any_get (session_context s) ''email.target'')) \<noteq> []
      then (Inr s, w)
      else then_do (is_step_eligible env (steps s ! i) s w) (\<lambda>(ok, s1) w1.
             if \<not> ok \<or> trim_space (string_value (any_get (session_context s1) ''email.target'')) = []
             then (Inl (operation_error ((utf8 [0x5F53, 0x524D, 0x6B65, 0x9AA4, 0x4E0D, 0x53EF, 0x5237, 0x65B0]))), w1) else (Inr s1, w1)))"

definition resend_throttled :: "int \<Rightarrow> go_error" where
  "resend_throttled cooldown =
     with_details (challenge_throttled ((utf8 [0x9A8C, 0x8BC1, 0x7801, 0x5DF2, 0x53D1, 0x9001, 0xFF0C, 0x8BF7, 0x7A0D, 0x540E, 0x518D, 0x83B7, 0x53D6])))
       (AMap [(''cooldownSeconds'', AInt cooldown), (''dimension'', AStr ''email-otp-resend'')])"

definition refresh_pending ::
    "'w challenge_env \<Rightarrow> time \<Rightarrow> string \<Rightarrow> challenge_session \<Rightarrow> (start_response, 'w) action" where
  "refresh_pending env now step s w =
     (case find_step s step now of
        Inl e \<Rightarrow> (Inl e, w)
      | Inr i \<Rightarrow>
          then_do (ensure_refresh_throttle_context env i s w) (\<lambda>s1 w1.
          let cooldown = email_otp_resend_cooldown_seconds s1 (steps s1 ! i) now
          in if 0 < cooldown then (Inl (resend_throttled cooldown), w1)
             else then_do (ensure_step_trigger_allowed env now s1 i w1) (\<lambda>_ w2.
                  then_do (refresh_step env now i s1 w2) (\<lambda>s2 w3.
                  then_do (record_step_trigger env now i (update_step i clear_cooldown s2) w3) (\<lambda>s3 w4.
                  then_do (save_session now s3 w4) (\<lambda>_ w5. (Inr (to_start_response s3 now), w5)))))))"

definition refresh_locked :: "'w challenge_env \<Rightarrow> time \<Rightarrow> string \<Rightarrow> string \<Rightarrow> (start_response, 'w) action" where
  "refresh_locked env now ident step w =
     then_do (get_session now ident w) (\<lambda>s w1.
       if is_expired s now then expire_session now s w1
       else if session_state s \<noteq> ChallengePending then (Inl not_continuable, w1)
       else refresh_pending env now step s w1)"

definition refresh_challenge :: "'w challenge_env \<Rightarrow> time \<Rightarrow> string \<Rightarrow> string \<Rightarrow> string \<Rightarrow> (start_response, 'w) action" where
  "refresh_challenge env now token ident step =
     under_submit_lock now token ident (refresh_locked env now ident step)"

end
