(* ===== verification/Challenge_Proof.thy ===== *)
theory Challenge_Proof
  imports Challenge_Service
begin

text \<open>
  Verifying a proof token (\<open>app/challenge/infrastructure/proof_token_service.go\<close>, \<open>Verify\<close>, and
  \<open>VerifyProofToken\<close> of \<open>challenge_service.go\<close>). What the JWT service returns for a token that it
  accepts, a map of claims, is the argument \<open>jwt\<close>. A \<open>json.Number\<close> is not represented apart from the
  integer or the text it holds.
\<close>

section \<open>Reading claims\<close>

record verify_request =
  vr_proof_token :: string
  vr_audience :: string
  vr_business_action :: string
  vr_flow_nonce :: string
  vr_subject :: string
  vr_operation_binding :: string
  vr_consume_once :: bool

definition invalid_proof_token_error :: go_error where
  "invalid_proof_token_error = forbidden (''step-up proof'' @ (utf8 [0x65E0, 0x6548, 0x6216, 0x5DF2, 0x8FC7, 0x671F]))"

definition proof_time_missing :: go_error where
  "proof_time_missing = operation_error (''proof token'' @ (utf8 [0x65F6, 0x95F4, 0x5B57, 0x6BB5, 0x7F3A, 0x5931]))"

fun string_slice :: "anyv \<Rightarrow> string list" where
  "string_slice (AStrs xs) = xs"
| "string_slice (AList xs) = filter (\<lambda>s. s \<noteq> []) (map (\<lambda>x. trim_space (string_value x)) xs)"
| "string_slice v = (let s = trim_space (string_value v) in if s = [] then [] else [s])"

definition first_non_blank :: "anyv \<Rightarrow> anyv \<Rightarrow> string" where
  "first_non_blank v w =
     (let s = trim_space (string_value v) in if s \<noteq> [] then s else trim_space (string_value w))"

fun int64_value :: "anyv \<Rightarrow> int" where
  "int64_value (AInt i) = i"
| "int64_value (AFloat i s) = i"
| "int64_value v =
     (let s = trim_space (string_value v)
      in if s = [] then 0 else case parse_int64 s of None \<Rightarrow> 0 | Some i \<Rightarrow> i)"

fun unix_time :: "anyv \<Rightarrow> time option" where
  "unix_time (ATime t s) = Some t"
| "unix_time v = (let raw = int64_value v in if raw \<le> 0 then None else Some (raw * second))"

definition resolve_time :: "anyv \<Rightarrow> anyv \<Rightarrow> time option" where
  "resolve_time v w = (case unix_time v of Some t \<Rightarrow> Some t | None \<Rightarrow> unix_time w)"

definition parse_proof_claims :: "anymap \<Rightarrow> proof_claims result" where
  "parse_proof_claims payload =
     (case resolve_time (any_get payload ''issuedAtUnix'') (any_get payload ''iat'') of
        None \<Rightarrow> Inl proof_time_missing
      | Some issued \<Rightarrow>
          (case resolve_time (any_get payload ''expiresAtUnix'') (any_get payload ''exp'') of
             None \<Rightarrow> Inl proof_time_missing
           | Some expires \<Rightarrow> Inr
               \<lparr>pc_issuer = first_non_blank (any_get payload ''issuerServiceName'') (any_get payload ''iss''),
                pc_audiences = string_slice (any_get payload ''audienceServiceNames''),
                pc_subject = first_non_blank (any_get payload ''subjectIdentifier'') (any_get payload ''sub''),
                pc_business_action = trim_space (string_value (any_get payload ''businessAction'')),
                pc_challenge_identifier = trim_space (string_value (any_get payload ''challengeIdentifier'')),
                pc_flow_nonce = trim_space (string_value (any_get payload ''flowNonce'')),
                pc_operation_binding = trim_space (string_value (any_get payload ''operationBinding'')),
                pc_methods = string_slice (any_get payload ''authenticationMethodNames''),
                pc_token_identifier = first_non_blank (any_get payload ''tokenUniqueIdentifier'') (any_get payload ''jti''),
                pc_issued_at = Some issued, pc_expires_at = Some expires\<rparr>))"

text \<open>The claims that \<open>Issue\<close> puts into a token.\<close>

definition signed_payload :: "proof_claims \<Rightarrow> anymap" where
  "signed_payload c =
     [''iss'' \<mapsto> AStr (pc_issuer c), ''sub'' \<mapsto> AStr (pc_subject c), ''aud'' \<mapsto> AStrs (pc_audiences c),
      ''jti'' \<mapsto> AStr (pc_token_identifier c),
      ''iat'' \<mapsto> AInt (unix_seconds (the (pc_issued_at c))), ''exp'' \<mapsto> AInt (unix_seconds (the (pc_expires_at c))),
      ''issuerServiceName'' \<mapsto> AStr (pc_issuer c), ''audienceServiceNames'' \<mapsto> AStrs (pc_audiences c),
      ''subjectIdentifier'' \<mapsto> AStr (pc_subject c), ''businessAction'' \<mapsto> AStr (pc_business_action c),
      ''challengeIdentifier'' \<mapsto> AStr (pc_challenge_identifier c), ''flowNonce'' \<mapsto> AStr (pc_flow_nonce c),
      ''operationBinding'' \<mapsto> AStr (pc_operation_binding c),
      ''authenticationMethodNames'' \<mapsto> AStrs (pc_methods c),
      ''tokenUniqueIdentifier'' \<mapsto> AStr (pc_token_identifier c),
      ''issuedAtUnix'' \<mapsto> AInt (unix_seconds (the (pc_issued_at c))),
      ''expiresAtUnix'' \<mapsto> AInt (unix_seconds (the (pc_expires_at c)))]"

section \<open>Verification\<close>

definition contains_string :: "string list \<Rightarrow> string \<Rightarrow> bool" where
  "contains_string items target \<longleftrightarrow> (\<exists>x \<in> set items. trim_space x = target)"

definition claims_match :: "verify_request \<Rightarrow> time \<Rightarrow> proof_claims \<Rightarrow> bool" where
  "claims_match request now c \<longleftrightarrow>
     pc_business_action c = trim_space (vr_business_action request) \<and>
     pc_flow_nonce c = trim_space (vr_flow_nonce request) \<and>
     (trim_space (vr_subject request) \<noteq> [] \<longrightarrow> pc_subject c = trim_space (vr_subject request)) \<and>
     (if trim_space (vr_operation_binding request) \<noteq> []
      then pc_operation_binding c = trim_space (vr_operation_binding request)
      else trim_space (pc_operation_binding c) = []) \<and>
     contains_string (pc_audiences c) (trim_space (vr_audience request)) \<and>
     (case pc_expires_at c of None \<Rightarrow> False | Some e \<Rightarrow> \<not> e < now)"

definition verify_claims :: "(string \<Rightarrow> anymap result) \<Rightarrow> time \<Rightarrow> verify_request \<Rightarrow> (proof_claims, 'w) action" where
  "verify_claims jwt now request w =
     (case jwt (trim_space (vr_proof_token request)) of
        Inl _ \<Rightarrow> (Inl invalid_proof_token_error, w)
      | Inr payload \<Rightarrow>
          (case parse_proof_claims payload of
             Inl _ \<Rightarrow> (Inl invalid_proof_token_error, w)
           | Inr c \<Rightarrow>
               if \<not> claims_match request now c then (Inl invalid_proof_token_error, w)
               else if \<not> vr_consume_once request then (Inr c, w)
               else then_do (mark_proof_consumed now (pc_token_identifier c) (trim_space (vr_audience request))
                               (time_sub (the (pc_expires_at c)) now) w)
                      (\<lambda>ok w1. if ok then (Inr c, w1) else (Inl invalid_proof_token_error, w1))))"

definition verify_proof_token :: "(string \<Rightarrow> anymap result) \<Rightarrow> time \<Rightarrow> verify_request \<Rightarrow> (proof_claims, 'w) action" where
  "verify_proof_token jwt now request w =
     (case lookup_challenge_action_policy (vr_business_action request) of
        None \<Rightarrow> (Inl (params_error ((utf8 [0x672A, 0x77E5, 0x6216, 0x4E0D, 0x652F, 0x6301, 0x7684, 0x4E1A, 0x52A1, 0x52A8, 0x4F5C]))), w)
      | Some policy \<Rightarrow>
          if requires_operation_binding policy \<and> trim_space (vr_operation_binding request) = []
          then (Inl (operation_error ((utf8 [0x64CD, 0x4F5C, 0x7ED1, 0x5B9A, 0x7F3A, 0x5931]))), w)
          else then_do (verify_claims jwt now request w) (\<lambda>c w1.
               if \<not> proof_methods_satisfied policy (pc_methods c)
               then (Inl (operation_error (''proof token'' @ (utf8 [0x8BA4, 0x8BC1, 0x65B9, 0x5F0F, 0x4E0D, 0x6EE1, 0x8DB3, 0x5F53, 0x524D, 0x4E1A, 0x52A1, 0x52A8, 0x4F5C, 0x8981, 0x6C42]))), w1)
               else (Inr c, w1)))"

end
