(* ===== verification/Challenge_Frame.thy ===== *)
theory Challenge_Frame
  imports Challenge_Service
begin

text \<open>
  What the requests of the challenge service leave alone in the text part of the key space. The
  interface \<open>text_frame\<close> says which writes a relation between key spaces has to admit (bindings of
  idempotency keys, submit locks, throttle locks); under it every operation of the service stays in the
  relation, with any failures of the store. Its instance here is the entry of a consumed proof token.
\<close>

section \<open>Operations that stay in a relation\<close>

definition frames :: "(string kv \<Rightarrow> string kv \<Rightarrow> bool) \<Rightarrow> ('a, 'w) action \<Rightarrow> bool" where
  "frames keep f \<longleftrightarrow> (\<forall>w. keep (cw_texts w) (cw_texts (snd (f w))))"

lemma frames_if: "(b \<Longrightarrow> frames keep f) \<Longrightarrow> (\<not> b \<Longrightarrow> frames keep g) \<Longrightarrow> frames keep (\<lambda>w. if b then f w else g w)"
  by (simp add: frames_def)

lemma frames_option:
  "frames keep f \<Longrightarrow> (\<And>y. x = Some y \<Longrightarrow> frames keep (g y)) \<Longrightarrow>
     frames keep (\<lambda>w. case x of None \<Rightarrow> f w | Some y \<Rightarrow> g y w)"
  by (cases x) simp_all

lemma frames_result:
  "(\<And>e. frames keep (f e)) \<Longrightarrow> (\<And>y. x = Inr y \<Longrightarrow> frames keep (g y)) \<Longrightarrow>
     frames keep (\<lambda>w. case x of Inl e \<Rightarrow> f e w | Inr y \<Rightarrow> g y w)"
  by (cases x) simp_all

locale text_frame =
  fixes keep :: "string kv \<Rightarrow> string kv \<Rightarrow> bool"
  assumes keep_refl: "keep m m"
    and keep_trans: "keep m m1 \<Longrightarrow> keep m1 m2 \<Longrightarrow> keep m m2"
    and keep_idempotency: "keep m (m(challenge_idempotency_cache_key k := x))"
    and keep_submit_lock: "keep m (m(challenge_submit_lock_cache_key k := x))"
    and keep_throttle_lock: "keep m (m(challenge_throttle_lock_cache_key k := x))"
    and keep_clear: "keep m (kv_delete_many (throttle_cache_keys digest keys) m)"
begin

lemma frames_return: "frames keep (\<lambda>w. (r, w))"
  by (simp add: frames_def keep_refl)

lemma frames_then_do:
  assumes "frames keep f" "\<And>x. frames keep (g x)"
  shows "frames keep (\<lambda>w. then_do (f w) g)"
  unfolding frames_def
proof
  fix w
  have f: "keep (cw_texts w) (cw_texts (snd (f w)))" using assms(1) by (simp add: frames_def)
  show "keep (cw_texts w) (cw_texts (snd (then_do (f w) g)))"
  proof (cases "f w")
    case (Pair r w1)
    then show ?thesis
      using f assms(2) keep_trans [OF f] by (cases r) (simp_all add: frames_def)
  qed
qed

lemma frames_command:
  assumes "\<And>w. keep (cw_texts w) (cw_texts (snd (f w)))"
  shows "frames keep (command f)"
  unfolding frames_def
proof
  fix w :: "'a challenge_world"
  obtain fs where "snd (command f w) = w\<lparr>cw_faults := fs\<rparr> \<or> snd (command f w) = snd (f (w\<lparr>cw_faults := fs\<rparr>))"
    using command_state by blast
  then show "keep (cw_texts w) (cw_texts (snd (command f w)))"
    using assms [of "w\<lparr>cw_faults := fs\<rparr>"] keep_refl by auto
qed

lemma frames_outside: "frames keep (outside f)"
  by (simp add: frames_def outside_def keep_refl Let_def split: prod.split)

lemmas frames_intros =
  frames_return frames_then_do frames_if frames_option frames_result frames_outside

text \<open>The repositories.\<close>

lemma frames_save: "frames keep (save_session now s)"
  unfolding save_session_def [abs_def] by (intro frames_intros frames_command) (simp add: keep_refl)

lemma frames_get: "frames keep (get_session now ident)"
  unfolding get_session_def [abs_def] repo_get_session_def [abs_def]
  by (intro frames_intros frames_command) (simp add: keep_refl)

lemma frames_bind: "frames keep (bind_idempotency_key now key ident ttl)"
  unfolding bind_idempotency_key_def [abs_def]
  by (intro frames_intros frames_command) (simp add: kv_set_def keep_idempotency)

lemma frames_lookup_key: "frames keep (get_session_by_idempotency_key now key)"
  unfolding get_session_by_idempotency_key_def [abs_def]
  by (intro frames_intros frames_command) (simp add: keep_refl)

lemma frames_acquire: "frames keep (acquire_submit_lock now token ident ttl)"
  unfolding acquire_submit_lock_def [abs_def] Let_def
  by (intro frames_intros frames_command) (simp add: kv_set_nx_def keep_refl keep_submit_lock)

lemma frames_release: "frames keep (release_submit_lock now ident token)"
  unfolding release_submit_lock_def [abs_def]
  by (intro frames_intros frames_command) (simp add: kv_compare_and_delete_def keep_refl keep_submit_lock)

lemma frames_check_locked: "frames keep (check_locked digest now keys)"
proof (induction keys)
  case (Cons key keys)
  show ?case
  proof (cases "normalize_throttle_key digest key")
    case (Some n)
    have eq: "check_locked digest now (key # keys) = (\<lambda>w.
        then_do (command (\<lambda>w. (Inr (kv_get now (challenge_throttle_lock_cache_key n) (cw_texts w)), w)) w)
        (\<lambda>lock w1. case lock of
            Some _ \<Rightarrow> (Inr (Some \<lparr>td_locked = True, td_dimension = tk_dimension key,
                                 td_failure_count = 0, td_remaining_seconds = 1\<rparr>), w1)
          | None \<Rightarrow> check_locked digest now keys w1))"
      by (rule ext) (simp add: Some)
    show ?thesis unfolding eq by (intro frames_intros frames_command Cons) (simp add: keep_refl)
  qed (use Cons in \<open>simp add: frames_def\<close>)
qed (simp add: frames_def keep_refl)

lemma frames_record_failures: "frames keep (record_failures digest now m wd lk locked keys)"
proof (induction keys arbitrary: locked)
  case (Cons key keys)
  have count: "frames keep (command (\<lambda>w. let (n, kv) = kv_incr now k wd (cw_counts w) in (Inr n, w\<lparr>cw_counts := kv\<rparr>)))" for k
    by (rule frames_command) (simp add: Let_def keep_refl split: prod.split)
  have lock: "frames keep (command (\<lambda>w. (Inr (), w\<lparr>cw_texts :=
      kv_set now (challenge_throttle_lock_cache_key n) ''1'' lk (cw_texts w)\<rparr>)))" for n
    by (rule frames_command) (simp add: kv_set_def keep_throttle_lock)
  show ?case
  proof (cases "normalize_throttle_key digest key")
    case (Some n)
    show ?thesis
      unfolding record_failures.simps [abs_def] Some option.case
      by (intro frames_intros count lock Cons)
  qed (use Cons in \<open>simp add: frames_def\<close>)
qed (simp add: frames_def keep_refl)

lemma frames_record_failure: "frames keep (record_failure digest now keys m wd lk)"
  unfolding record_failure_def [abs_def] Let_def by (intro frames_intros frames_record_failures)

lemma frames_clear: "frames keep (clear_failures digest keys)"
  unfolding clear_failures_def [abs_def] Let_def by (intro frames_intros frames_command) (simp add: keep_clear)

text \<open>The throttle and the steps.\<close>

lemma frames_throttling:
  "frames keep (check_throttle env now keys)"
  "frames keep (record_throttle_failure env now keys st)"
  "frames keep (record_throttle_event env now keys)"
  unfolding check_throttle_def [abs_def] record_throttle_failure_def [abs_def] record_throttle_event_def [abs_def]
  by (intro frames_intros frames_check_locked frames_record_failure)+

lemma frames_steps:
  "frames keep (prepare_step env now i s)"
  "frames keep (is_step_eligible env st s)"
  "frames keep (verify_step env now i payload s)"
  "frames keep (refresh_step env now i s)"
  unfolding prepare_step_def [abs_def] is_step_eligible_def [abs_def] verify_step_def [abs_def] refresh_step_def [abs_def]
  by (intro frames_intros)+

lemma frames_trigger_allowed: "frames keep (ensure_step_trigger_allowed env now s i)"
  unfolding ensure_step_trigger_allowed_def [abs_def] by (intro frames_intros frames_throttling)

lemma frames_record_trigger: "frames keep (record_step_trigger env now i s)"
  unfolding record_step_trigger_def [abs_def] Let_def by (intro frames_intros frames_throttling)

text \<open>The requests.\<close>

lemma frames_eligible_steps: "frames keep (eligible_steps env sts s)"
proof (induction sts arbitrary: s)
  case (Cons st sts)
  show ?case unfolding eligible_steps.simps [abs_def] split_def by (intro frames_intros frames_steps Cons)
qed (simp add: frames_def keep_refl)

lemma frames_filter: "frames keep (filter_eligible_steps env now s)"
  unfolding filter_eligible_steps_def [abs_def] Let_def split_def
  by (intro frames_intros frames_eligible_steps)

lemma frames_each_step:
  assumes "\<And>i s. frames keep (f i s)"
  shows "frames keep (each_step f is s)"
proof (induction "is" arbitrary: s)
  case (Cons i "is")
  show ?case unfolding each_step.simps [abs_def] by (intro frames_intros assms Cons)
qed (simp add: frames_def keep_refl)

lemma frames_open: "frames keep (open_session env policy now key s)"
  unfolding open_session_def [abs_def] Let_def
  by (intro frames_intros frames_filter frames_each_step frames_trigger_allowed frames_steps
      frames_record_trigger frames_save frames_bind)

lemma frames_start: "frames keep (start_challenge env fresh now request)"
  unfolding start_challenge_def [abs_def]
  by (intro frames_intros frames_lookup_key frames_get frames_open)

lemma frames_passed: "frames keep (build_passed_response env now jti s)"
  unfolding build_passed_response_def [abs_def] Let_def by (intro frames_intros frames_save)

lemma frames_expire: "frames keep (expire_session now s)"
  unfolding expire_session_def [abs_def] by (intro frames_intros frames_save)

lemma frames_answers:
  "frames keep (respond_wrong env now keys i s)"
  "frames keep (respond_right env now jti keys i s)"
  unfolding respond_wrong_def [abs_def] respond_right_def [abs_def] Let_def
  by (intro frames_intros frames_throttling frames_clear frames_save frames_passed)+

lemma frames_pending: "frames keep (respond_pending env now jti step payload s)"
  unfolding respond_pending_def [abs_def] Let_def split_def
  by (intro frames_intros frames_throttling frames_steps frames_answers)

lemma frames_locked:
  assumes "frames keep f"
  shows "frames keep (under_submit_lock now token ident f)"
proof -
  have "frames keep (\<lambda>w. (fst (f w), snd (release_submit_lock now ident token (snd (f w)))))"
    using assms frames_release keep_trans unfolding frames_def by (metis snd_conv)
  then show ?thesis
    unfolding under_submit_lock_def [abs_def] Let_def split_def by (intro frames_intros frames_acquire)
qed

lemma frames_respond: "frames keep (respond env now token jti ident step payload)"
  unfolding respond_def
proof (rule frames_locked)
  have "frames keep (\<lambda>w1. if is_expired s now then expire_session now s w1
      else case session_state s of
              ChallengePassed \<Rightarrow> build_passed_response env now jti s w1
            | ChallengePending \<Rightarrow> respond_pending env now jti step payload s w1
            | _ \<Rightarrow> (Inl not_continuable, w1))" for s
    by (cases "session_state s") (simp_all add: frames_if frames_expire frames_passed frames_pending frames_return)
  then show "frames keep (respond_locked env now jti ident step payload)"
    unfolding respond_locked_def [abs_def] by (intro frames_then_do frames_get)
qed

lemma frames_refresh: "frames keep (refresh_challenge env now token ident step)"
  unfolding refresh_challenge_def
proof (rule frames_locked)
  have context_kept: "frames keep (ensure_refresh_throttle_context env i s)" for i s
    unfolding ensure_refresh_throttle_context_def [abs_def] split_def by (intro frames_intros frames_steps)
  have "frames keep (refresh_pending env now step s)" for s
    unfolding refresh_pending_def [abs_def] Let_def
    by (intro frames_intros context_kept frames_trigger_allowed frames_steps frames_record_trigger frames_save)
  then show "frames keep (refresh_locked env now ident step)"
    unfolding refresh_locked_def [abs_def] by (intro frames_intros frames_get frames_expire)
qed

end

section \<open>The entry of a consumed token\<close>

lemma throttle_keys_shape:
  "k \<in> set (throttle_cache_keys digest keys) \<Longrightarrow>
     \<exists>n. k = challenge_throttle_count_cache_key n \<or> k = challenge_throttle_lock_cache_key n"
  by (auto simp: throttle_cache_keys_def split: option.splits)

lemma consumed_key_apart [simp]:
  "challenge_proof_consumed_cache_key jti \<noteq> challenge_idempotency_cache_key k"
  "challenge_proof_consumed_cache_key jti \<noteq> challenge_submit_lock_cache_key k"
  "challenge_proof_consumed_cache_key jti \<noteq> challenge_throttle_lock_cache_key k"
  "challenge_proof_consumed_cache_key jti \<noteq> challenge_throttle_count_cache_key k"
  by (simp_all add: challenge_proof_consumed_cache_key_def challenge_idempotency_cache_key_def
      challenge_submit_lock_cache_key_def challenge_throttle_lock_cache_key_def challenge_throttle_count_cache_key_def)

interpretation consumed: text_frame
  "\<lambda>m m'. m' (challenge_proof_consumed_cache_key jti) = m (challenge_proof_consumed_cache_key jti)" for jti
proof (unfold_locales, goal_cases)
  case (6 m digest keys)
  then show ?case using throttle_keys_shape [of "challenge_proof_consumed_cache_key jti" digest keys]
    by (auto simp: kv_delete_many_def)
qed simp_all

end
