(* ===== verification/Challenge_Machine.thy ===== *)
theory Challenge_Machine
  imports Challenge_Session "HOL-Library.Multiset"
begin

text \<open>
  The challenge session as a state machine. A run of a session consists of answered submissions
  (\<open>mark_step_success\<close>, \<open>mark_step_failure\<close> on an open step of a pending session) and of changes that
  leave its progress alone (providers write hints and context, a refresh clears a cooldown). The
  invariant says that the open steps are those of one slot, that every earlier slot has a completed
  step, that attempts stay within their bound, and that the recorded authentication methods are those
  of the completed steps.
\<close>

section \<open>What an operation does to each step\<close>

definition success_step :: "challenge_step \<Rightarrow> challenge_step \<Rightarrow> challenge_step" where
  "success_step target st =
     (if step_identifier st = step_identifier target
      then (clear_cooldown st)\<lparr>step_state := StepCompleted\<rparr>
      else if slot_number st = slot_number target \<and> step_state st = StepInProgress
      then clear_cooldown (st\<lparr>step_state := StepLocked\<rparr>)
      else if slot_number st = slot_number target + 1 \<and> step_state st = StepPending
      then st\<lparr>step_state := StepInProgress\<rparr>
      else st)"

definition failure_step :: "time \<Rightarrow> challenge_step \<Rightarrow> challenge_step \<Rightarrow> challenge_step" where
  "failure_step now target st =
     (if step_identifier st = step_identifier target
      then let st' = st\<lparr>attempt_number := attempt_number st + 1\<rparr>
           in if can_retry st' then activate_cooldown now st'
              else (clear_cooldown st')\<lparr>step_state := StepLocked\<rparr>
      else st)"

definition distinct_steps :: "challenge_session \<Rightarrow> bool" where
  "distinct_steps s \<longleftrightarrow> distinct (map step_identifier (steps s))"

lemma refresh_recommended_simps [simp]:
  "steps (refresh_recommended_step_identifier now s) = steps s"
  "session_state (refresh_recommended_step_identifier now s) = session_state s"
  "authentication_method_names (refresh_recommended_step_identifier now s) = authentication_method_names s"
  "failure_code (refresh_recommended_step_identifier now s) = failure_code s"
  by (simp_all add: refresh_recommended_step_identifier_def split: option.split)

lemma clear_cooldown_simps [simp]:
  "step_identifier (clear_cooldown st) = step_identifier st"
  "challenge_type (clear_cooldown st) = challenge_type st"
  "slot_number (clear_cooldown st) = slot_number st"
  "attempt_number (clear_cooldown st) = attempt_number st"
  "max_attempts (clear_cooldown st) = max_attempts st"
  "step_state (clear_cooldown st) = step_state st"
  "cooldown_until (clear_cooldown st) = None"
  by (simp_all add: clear_cooldown_def)

lemma activate_cooldown_simps [simp]:
  "step_identifier (activate_cooldown now st) = step_identifier st"
  "challenge_type (activate_cooldown now st) = challenge_type st"
  "slot_number (activate_cooldown now st) = slot_number st"
  "attempt_number (activate_cooldown now st) = attempt_number st"
  "max_attempts (activate_cooldown now st) = max_attempts st"
  "step_state (activate_cooldown now st) = step_state st"
  by (simp_all add: activate_cooldown_def)

lemma update_step_simps [simp]:
  "steps (update_step i f s) = (steps s)[i := f (steps s ! i)]"
  "session_state (update_step i f s) = session_state s"
  "authentication_method_names (update_step i f s) = authentication_method_names s"
  "session_context (update_step i f s) = session_context s"
  by (simp_all add: update_step_def)

text \<open>The steps between the locking of the alternatives and the opening of the next slot.\<close>

definition settled_step :: "challenge_step \<Rightarrow> challenge_step \<Rightarrow> challenge_step" where
  "settled_step target st =
     (if step_identifier st = step_identifier target
      then (clear_cooldown st)\<lparr>step_state := StepCompleted\<rparr>
      else if slot_number st = slot_number target \<and> step_state st = StepInProgress
      then clear_cooldown (st\<lparr>step_state := StepLocked\<rparr>)
      else st)"

lemma settled_steps:
  fixes s i
  defines "target \<equiv> (clear_cooldown (steps s ! i))\<lparr>step_state := StepCompleted\<rparr>"
  assumes "distinct_steps s" "i < length (steps s)"
  shows "lock_alternatives target ((steps s)[i := target]) = map (settled_step (steps s ! i)) (steps s)"
proof -
  let ?c = "\<lambda>st. (clear_cooldown st)\<lparr>step_state := StepCompleted\<rparr>"
  have "(steps s)[i := ?c (steps s ! i)] =
      map (\<lambda>x. if step_identifier x = step_identifier (steps s ! i) then ?c x else x) (steps s)"
    using list_update_by_key [of step_identifier "steps s" i ?c] assms by (simp add: distinct_steps_def)
  then show ?thesis
    by (simp add: target_def lock_alternatives_def update_where_def settled_step_def)
qed

lemma opens_settled:
  assumes "distinct_steps s" "i < length (steps s)" "st \<in> set (steps s)"
  shows "slot_number (settled_step (steps s ! i) st) = slot_number (steps s ! i) + 1 \<and>
       step_state (settled_step (steps s ! i) st) = StepPending
     \<longleftrightarrow> slot_number st = slot_number (steps s ! i) + 1 \<and> step_state st = StepPending"
proof (cases "step_identifier st = step_identifier (steps s ! i)")
  case True
  then have "st = steps s ! i"
    using nth_key_eq [of step_identifier "steps s" st i] assms by (simp add: distinct_steps_def)
  then show ?thesis by (simp add: settled_step_def)
qed (auto simp: settled_step_def)

lemma mark_step_success_unfold:
  assumes "distinct_steps s" "i < length (steps s)"
  shows "mark_step_success i now s =
     (let settled = map (settled_step (steps s ! i)) (steps s);
          opens = (\<lambda>st. slot_number st = slot_number (steps s ! i) + 1 \<and> step_state st = StepPending);
          s' = s\<lparr>authentication_method_names :=
                   authentication_method_names s @ [type_name (challenge_type (steps s ! i))],
                 steps := update_where opens (\<lambda>st. st\<lparr>step_state := StepInProgress\<rparr>) settled\<rparr>
      in refresh_recommended_step_identifier now
           (if \<exists>st \<in> set (steps s). opens st then s' else s'\<lparr>session_state := ChallengePassed\<rparr>))"
proof -
  have "list_ex (\<lambda>st. slot_number st = slot_number (steps s ! i) + 1 \<and> step_state st = StepPending)
          (map (settled_step (steps s ! i)) (steps s))
      \<longleftrightarrow> (\<exists>st \<in> set (steps s). slot_number st = slot_number (steps s ! i) + 1 \<and> step_state st = StepPending)"
    using opens_settled [OF assms] by (auto simp: list_ex_iff)
  with settled_steps [OF assms] assms(2) show ?thesis
    by (simp add: mark_step_success_def activate_slot_def Let_def update_step_def) blast
qed

lemma steps_success:
  assumes "distinct_steps s" "i < length (steps s)"
  shows "steps (mark_step_success i now s) = map (success_step (steps s ! i)) (steps s)"
proof -
  have "update_where (\<lambda>st. slot_number st = slot_number (steps s ! i) + 1 \<and> step_state st = StepPending)
          (\<lambda>st. st\<lparr>step_state := StepInProgress\<rparr>) (map (settled_step (steps s ! i)) (steps s))
      = map (success_step (steps s ! i)) (steps s)"
    by (auto simp: update_where_def success_step_def settled_step_def)
  then show ?thesis by (simp add: mark_step_success_unfold [OF assms] Let_def if_distrib [of steps])
qed

lemma success_passes:
  assumes "distinct_steps s" "i < length (steps s)"
  shows "session_state (mark_step_success i now s) =
     (if \<exists>st \<in> set (steps s). slot_number st = slot_number (steps s ! i) + 1 \<and> step_state st = StepPending
      then session_state s else ChallengePassed)"
  by (simp add: mark_step_success_unfold [OF assms] Let_def) blast

lemma success_methods:
  assumes "distinct_steps s" "i < length (steps s)"
  shows "authentication_method_names (mark_step_success i now s) =
     authentication_method_names s @ [type_name (challenge_type (steps s ! i))]"
  by (simp add: mark_step_success_unfold [OF assms] Let_def)

lemma steps_failure:
  assumes "distinct_steps s" "i < length (steps s)"
  shows "steps (mark_step_failure i code now s) = map (failure_step now (steps s ! i)) (steps s)"
proof -
  have "map (failure_step now (steps s ! i)) (steps s) =
      (steps s)[i := failure_step now (steps s ! i) (steps s ! i)]"
    using list_update_by_key [of step_identifier "steps s" i "failure_step now (steps s ! i)"] assms
    by (simp add: distinct_steps_def failure_step_def cong: if_cong)
  with assms(2) show ?thesis
    unfolding mark_step_failure_def by (simp add: Let_def failure_step_def)
qed

lemma failure_fails:
  assumes "i < length (steps s)"
  shows "session_state (mark_step_failure i code now s) =
     (if \<not> can_retry ((steps s ! i)\<lparr>attempt_number := attempt_number (steps s ! i) + 1\<rparr>)
         \<and> \<not> (\<exists>st \<in> set (steps (mark_step_failure i code now s)). step_state st = StepInProgress)
      then ChallengeFailed else session_state s)"
proof -
  define s1 where "s1 = update_step i (\<lambda>st. st\<lparr>attempt_number := attempt_number st + 1\<rparr>) s"
  define s2 where "s2 = update_step i (\<lambda>st. (clear_cooldown st)\<lparr>step_state := StepLocked\<rparr>) s1"
  have eq: "mark_step_failure i code now s =
      refresh_recommended_step_identifier now
        (if \<not> can_retry (steps s1 ! i)
         then if active_slot_steps s2 now = []
              then s2\<lparr>session_state := ChallengeFailed, failure_code := code\<rparr> else s2
         else update_step i (activate_cooldown now) s1)"
    by (simp only: mark_step_failure_def Let_def s1_def s2_def)
  have state: "session_state s1 = session_state s" "session_state s2 = session_state s"
    by (simp_all add: s1_def s2_def)
  have target: "steps s1 ! i = (steps s ! i)\<lparr>attempt_number := attempt_number (steps s ! i) + 1\<rparr>"
    using assms by (simp add: s1_def)
  show ?thesis
    by (simp add: eq state active_slot_steps_Nil flip: target)
qed

lemma failure_methods [simp]:
  "authentication_method_names (mark_step_failure i code now s) = authentication_method_names s"
  by (simp add: mark_step_failure_def Let_def)


section \<open>The invariant\<close>

text \<open>\<open>k\<close> is the slot the session works on (or stopped at).\<close>

definition step_in_slot :: "int \<Rightarrow> challenge_step \<Rightarrow> bool" where
  "step_in_slot k st \<longleftrightarrow>
     0 \<le> attempt_number st \<and> attempt_number st \<le> max_attempts st \<and>
     (case step_state st of
        StepInProgress \<Rightarrow> slot_number st = k \<and> can_retry st
      | StepPending \<Rightarrow> k < slot_number st \<and> can_retry st
      | StepLocked \<Rightarrow> slot_number st \<le> k
      | StepCompleted \<Rightarrow> slot_number st \<le> k)"

definition completed_in :: "challenge_session \<Rightarrow> int \<Rightarrow> bool" where
  "completed_in s j \<longleftrightarrow> (\<exists>st \<in> set (steps s). step_state st = StepCompleted \<and> slot_number st = j)"

definition some_open :: "challenge_session \<Rightarrow> bool" where
  "some_open s \<longleftrightarrow> (\<exists>st \<in> set (steps s). step_state st = StepInProgress)"

definition next_waits :: "challenge_session \<Rightarrow> int \<Rightarrow> bool" where
  "next_waits s k \<longleftrightarrow>
     (\<exists>st \<in> set (steps s). slot_number st = k + 1 \<and> step_state st = StepPending)"

definition completed_methods :: "challenge_session \<Rightarrow> string list" where
  "completed_methods s =
     map (\<lambda>st. type_name (challenge_type st)) (filter (\<lambda>st. step_state st = StepCompleted) (steps s))"

definition session_inv :: "int \<Rightarrow> challenge_session \<Rightarrow> bool" where
  "session_inv k s \<longleftrightarrow>
     distinct_steps s \<and>
     (\<forall>st \<in> set (steps s). step_in_slot k st) \<and>
     (\<forall>j. 1 \<le> j \<and> j < k \<longrightarrow> completed_in s j) \<and>
     mset (authentication_method_names s) = mset (completed_methods s) \<and>
     (case session_state s of
        ChallengePending \<Rightarrow> some_open s \<and> \<not> completed_in s k
      | ChallengePassed \<Rightarrow> \<not> some_open s \<and> completed_in s k \<and> \<not> next_waits s k
      | ChallengeFailed \<Rightarrow> \<not> some_open s \<and> \<not> completed_in s k
      | ChallengeExpired \<Rightarrow> False)"

text \<open>The progress of a session: all of it that the answers decide.\<close>

definition bare_step :: "challenge_step \<Rightarrow> challenge_step" where
  "bare_step st = st\<lparr>cooldown_until := None, user_interface_hints := Map.empty\<rparr>"

definition same_progress :: "challenge_session \<Rightarrow> challenge_session \<Rightarrow> bool" where
  "same_progress s s' \<longleftrightarrow>
     session_state s' = session_state s \<and>
     authentication_method_names s' = authentication_method_names s \<and>
     map bare_step (steps s') = map bare_step (steps s)"

inductive session_event :: "nat \<Rightarrow> challenge_session \<Rightarrow> challenge_session \<Rightarrow> bool" where
  answered_right:
    "\<lbrakk>session_state s = ChallengePending; i < length (steps s); is_verifiable (steps s ! i)\<rbrakk> \<Longrightarrow>
     session_event 1 s (mark_step_success i now s)"
| answered_wrong:
    "\<lbrakk>session_state s = ChallengePending; i < length (steps s); is_verifiable (steps s ! i)\<rbrakk> \<Longrightarrow>
     session_event 1 s (mark_step_failure i code now s)"
| bookkeeping: "same_progress s s' \<Longrightarrow> session_event 0 s s'"

text \<open>A run, with the number of answers it contains.\<close>

inductive session_run :: "nat \<Rightarrow> challenge_session \<Rightarrow> challenge_session \<Rightarrow> bool" where
  run_stop: "session_run 0 s s"
| run_step: "session_event a s t \<Longrightarrow> session_run n t u \<Longrightarrow> session_run (a + n) s u"

inductive_cases session_eventE: "session_event a s t"

lemma same_progress_refl [simp]: "same_progress s s"
  by (simp add: same_progress_def)

lemma same_progress_trans: "same_progress s t \<Longrightarrow> same_progress t u \<Longrightarrow> same_progress s u"
  by (simp add: same_progress_def)

lemma bare_step_fields:
  assumes "bare_step st' = bare_step st"
  shows "step_identifier st' = step_identifier st" "challenge_type st' = challenge_type st"
    "slot_number st' = slot_number st" "attempt_number st' = attempt_number st"
    "max_attempts st' = max_attempts st" "step_state st' = step_state st"
    "step_purpose st' = step_purpose st"
  using assms by (cases st; cases st'; simp add: bare_step_def)+

lemma bare_step_selectors:
  "step_identifier (bare_step st) = step_identifier st"
  "challenge_type (bare_step st) = challenge_type st"
  "slot_number (bare_step st) = slot_number st"
  "attempt_number (bare_step st) = attempt_number st"
  "max_attempts (bare_step st) = max_attempts st"
  "step_state (bare_step st) = step_state st"
  by (simp_all add: bare_step_def)

text \<open>A property of steps that ignores cooldown and hints holds of all steps, or of some step, alike.\<close>

lemma same_progress_map:
  assumes "same_progress s s'" "\<And>st. f (bare_step st) = f st"
  shows "map f (steps s') = map f (steps s)"
proof -
  have "map f (steps t) = map f (map bare_step (steps t))" for t
    by (simp add: assms(2))
  then show ?thesis using assms(1) by (metis same_progress_def)
qed

lemma same_progress_image:
  assumes "same_progress s s'" "\<And>st. f (bare_step st) = f st"
  shows "f ` set (steps s') = f ` set (steps s)"
  using same_progress_map [OF assms(1), of f] assms(2) by (metis list.set_map)

lemma same_progress_ball:
  assumes "same_progress s s'" "\<And>st. P (bare_step st) = P st"
  shows "(\<forall>st \<in> set (steps s'). P st) \<longleftrightarrow> (\<forall>st \<in> set (steps s). P st)"
  using same_progress_image [OF assms(1), of P] assms(2) by (metis (mono_tags) image_iff)

lemma same_progress_bex:
  assumes "same_progress s s'" "\<And>st. P (bare_step st) = P st"
  shows "(\<exists>st \<in> set (steps s'). P st) \<longleftrightarrow> (\<exists>st \<in> set (steps s). P st)"
  using same_progress_ball [OF assms(1), of "\<lambda>st. \<not> P st"] assms(2) by auto

lemma map_filter_concat: "map f (filter P xs) = concat (map (\<lambda>x. if P x then [f x] else []) xs)"
  by (induction xs) auto

lemma same_progress_inv:
  assumes "same_progress s s'"
  shows "session_inv k s' = session_inv k s"
proof -
  have "distinct_steps s' = distinct_steps s"
    using same_progress_map [OF assms, of step_identifier]
    by (simp add: distinct_steps_def bare_step_selectors)
  moreover have "(\<forall>st \<in> set (steps s'). step_in_slot k st) \<longleftrightarrow> (\<forall>st \<in> set (steps s). step_in_slot k st)"
    by (rule same_progress_ball [OF assms])
       (simp add: step_in_slot_def can_retry_def bare_step_selectors cong: challenge_step_state.case_cong)
  moreover have "completed_in s' = completed_in s" "some_open s' = some_open s" "next_waits s' = next_waits s"
    unfolding completed_in_def some_open_def next_waits_def
    by (intro ext same_progress_bex [OF assms] | simp add: bare_step_selectors)+
  moreover have "completed_methods s' = completed_methods s"
    using same_progress_map [OF assms, of
        "\<lambda>st. if step_state st = StepCompleted then [type_name (challenge_type st)] else []"]
    by (simp add: completed_methods_def map_filter_concat bare_step_selectors)
  ultimately show ?thesis
    using assms by (simp add: session_inv_def same_progress_def split: challenge_state.split)
qed

section \<open>Answers keep the invariant\<close>

lemma mset_concat_update:
  assumes "i < length ys" "ys ! i = []"
  shows "mset (concat (ys[i := z])) = mset (concat ys) + mset z"
proof -
  have "ys = take i ys @ [] # drop (Suc i) ys"
    using assms id_take_nth_drop by metis
  then have "mset (concat ys) = mset (concat (take i ys)) + mset (concat (drop (Suc i) ys))"
    by (metis concat.simps(2) concat_append mset_append self_append_conv2)
  with assms(1) show ?thesis by (simp add: upd_conv_take_nth_drop)
qed

lemma success_step_state:
  "step_state (success_step t st) =
     (if step_identifier st = step_identifier t then StepCompleted
      else if slot_number st = slot_number t \<and> step_state st = StepInProgress then StepLocked
      else if slot_number st = slot_number t + 1 \<and> step_state st = StepPending then StepInProgress
      else step_state st)"
  by (simp add: success_step_def)

lemma success_step_simps [simp]:
  "step_identifier (success_step t st) = step_identifier st"
  "challenge_type (success_step t st) = challenge_type st"
  "slot_number (success_step t st) = slot_number st"
  "attempt_number (success_step t st) = attempt_number st"
  "max_attempts (success_step t st) = max_attempts st"
  by (simp_all add: success_step_def)

lemma failure_step_simps [simp]:
  "step_identifier (failure_step now t st) = step_identifier st"
  "challenge_type (failure_step now t st) = challenge_type st"
  "slot_number (failure_step now t st) = slot_number st"
  "max_attempts (failure_step now t st) = max_attempts st"
  by (simp_all add: failure_step_def Let_def)

lemma failure_step_state:
  "step_state (failure_step now t st) =
     (if step_identifier st = step_identifier t \<and> \<not> attempt_number st + 1 < max_attempts st
      then StepLocked else step_state st)"
  "attempt_number (failure_step now t st) =
     (if step_identifier st = step_identifier t then attempt_number st + 1 else attempt_number st)"
  by (simp_all add: failure_step_def Let_def can_retry_def)

lemma inv_open_slot:
  assumes "session_inv k s" "i < length (steps s)" "is_verifiable (steps s ! i)"
  shows "slot_number (steps s ! i) = k" "can_retry (steps s ! i)"
proof -
  have "step_in_slot k (steps s ! i)" using assms by (simp add: session_inv_def)
  with assms(3) show "slot_number (steps s ! i) = k" "can_retry (steps s ! i)"
    by (simp_all add: step_in_slot_def is_verifiable_def)
qed

lemma inv_target:
  assumes "session_inv k s" "i < length (steps s)" "st \<in> set (steps s)"
    "step_identifier st = step_identifier (steps s ! i)"
  shows "st = steps s ! i"
  using nth_key_eq [of step_identifier "steps s" st i] assms
  by (simp add: session_inv_def distinct_steps_def)

lemma success_completed_methods:
  assumes "distinct_steps s" "i < length (steps s)" "is_verifiable (steps s ! i)"
  shows "mset (completed_methods (mark_step_success i now s)) =
     mset (completed_methods s) + {#type_name (challenge_type (steps s ! i))#}"
proof -
  let ?g = "\<lambda>st. if step_state st = StepCompleted then [type_name (challenge_type st)] else []"
  let ?t = "steps s ! i"
  have "map (?g \<circ> success_step ?t) (steps s) =
      map (\<lambda>x. if step_identifier x = step_identifier ?t then [type_name (challenge_type x)] else ?g x) (steps s)"
    by (rule map_cong) (auto simp: success_step_state)
  also have "\<dots> = (map ?g (steps s))[i := [type_name (challenge_type ?t)]]"
  proof (rule nth_equalityI)
    fix j assume "j < length (map (\<lambda>x. if step_identifier x = step_identifier ?t
        then [type_name (challenge_type x)] else ?g x) (steps s))"
    with assms(1,2) show "map (\<lambda>x. if step_identifier x = step_identifier ?t
        then [type_name (challenge_type x)] else ?g x) (steps s) ! j
        = (map ?g (steps s))[i := [type_name (challenge_type ?t)]] ! j"
      by (auto simp: distinct_steps_def distinct_conv_nth nth_list_update)
  qed simp
  finally show ?thesis
    using assms mset_concat_update [of i "map ?g (steps s)" "[type_name (challenge_type ?t)]"]
    by (simp add: completed_methods_def map_filter_concat steps_success is_verifiable_def)
qed

lemma success_inv:
  fixes now :: time
  assumes inv: "session_inv k s" and pend: "session_state s = ChallengePending"
    and i: "i < length (steps s)" and open_i: "is_verifiable (steps s ! i)"
  defines "s' \<equiv> mark_step_success i now s"
  shows "session_inv (if next_waits s k then k + 1 else k) s'"
proof -
  let ?t = "steps s ! i" and ?k = "if next_waits s k then k + 1 else k"
  have ds: "distinct_steps s" using inv by (simp add: session_inv_def)
  have slot: "slot_number ?t = k" using inv_open_slot [OF inv i open_i] by simp
  have steps': "steps s' = map (success_step ?t) (steps s)"
    unfolding s'_def by (rule steps_success [OF ds i])
  have old: "step_in_slot k st" if "st \<in> set (steps s)" for st
    using inv that by (simp add: session_inv_def)
  have is_t: "st = ?t" if "st \<in> set (steps s)" "step_identifier st = step_identifier ?t" for st
    using inv_target [OF inv i that] .
  have in_slot: "step_in_slot ?k (success_step ?t st)" if st: "st \<in> set (steps s)" for st
  proof (cases "step_identifier st = step_identifier ?t")
    case True
    with old [OF st] slot is_t [OF st True] show ?thesis
      by (auto simp: step_in_slot_def success_step_state split: challenge_step_state.splits)
  next
    case False
    with old [OF st] st slot show ?thesis
      by (auto simp: step_in_slot_def success_step_state next_waits_def can_retry_def
          split: challenge_step_state.splits)
  qed
  have done_k: "completed_in s' k"
    using i slot unfolding completed_in_def steps'
    by (auto simp: success_step_state intro!: bexI [of _ ?t])
  moreover have "completed_in s' j" if done_j: "completed_in s j" for j
  proof -
    obtain st where "st \<in> set (steps s)" "step_state st = StepCompleted" "slot_number st = j"
      using done_j by (auto simp: completed_in_def)
    then show ?thesis
      unfolding completed_in_def steps' by (auto simp: success_step_state intro!: bexI [of _ st])
  qed
  ultimately have earlier: "completed_in s' j" if "1 \<le> j \<and> j < ?k" for j
    using inv that by (cases "j = k") (auto simp: session_inv_def split: if_splits)
  have in_slots: "\<forall>st \<in> set (steps s'). step_in_slot ?k st"
    using in_slot by (simp add: steps')
  have "\<not> completed_in s' (k + 1)"
    using old is_t slot unfolding completed_in_def steps'
    by (fastforce simp: success_step_state step_in_slot_def split: if_splits)
  moreover have "some_open s' \<longleftrightarrow> next_waits s k"
    using old slot is_t unfolding some_open_def steps' next_waits_def
    by (fastforce simp: success_step_state step_in_slot_def split: if_splits)
  moreover have "\<not> next_waits s' k"
    using slot is_t unfolding next_waits_def steps' by (auto simp: success_step_state split: if_splits)
  moreover have "session_state s' = (if next_waits s k then ChallengePending else ChallengePassed)"
    unfolding s'_def using success_passes [OF ds i, of now] slot pend by (simp add: next_waits_def)
  moreover have "mset (authentication_method_names s') = mset (completed_methods s')"
    unfolding s'_def
    using success_completed_methods [OF ds i open_i, of now] success_methods [OF ds i, of now] inv
    by (simp add: session_inv_def)
  moreover have "distinct_steps s'"
    using ds by (simp add: distinct_steps_def steps' comp_def)
  ultimately show ?thesis
    using in_slots earlier done_k by (simp add: session_inv_def)
qed

lemma failure_inv:
  fixes now :: time and code :: string
  assumes inv: "session_inv k s" and pend: "session_state s = ChallengePending"
    and i: "i < length (steps s)" and open_i: "is_verifiable (steps s ! i)"
  defines "s' \<equiv> mark_step_failure i code now s"
  shows "session_inv k s'"
proof -
  let ?t = "steps s ! i"
  have ds: "distinct_steps s" using inv by (simp add: session_inv_def)
  have slot: "slot_number ?t = k" "can_retry ?t" using inv_open_slot [OF inv i open_i] by simp_all
  have steps': "steps s' = map (failure_step now ?t) (steps s)"
    unfolding s'_def by (rule steps_failure [OF ds i])
  have old: "step_in_slot k st" if "st \<in> set (steps s)" for st
    using inv that by (simp add: session_inv_def)
  have is_t: "st = ?t" if "st \<in> set (steps s)" "step_identifier st = step_identifier ?t" for st
    using inv_target [OF inv i that] .
  have completed: "step_state (failure_step now ?t st) = StepCompleted \<longleftrightarrow> step_state st = StepCompleted"
    if "st \<in> set (steps s)" for st
    using is_t [OF that] open_i by (auto simp: failure_step_state is_verifiable_def)
  have "step_in_slot k (failure_step now ?t st)" if st: "st \<in> set (steps s)" for st
  proof (cases "step_identifier st = step_identifier ?t")
    case True
    with old [OF st] slot open_i is_t [OF st True] show ?thesis
      by (auto simp: step_in_slot_def failure_step_state can_retry_def is_verifiable_def)
  next
    case False
    with old [OF st] show ?thesis by (simp add: failure_step_def)
  qed
  moreover have "completed_in s' j \<longleftrightarrow> completed_in s j" for j
    unfolding completed_in_def steps' using completed by auto
  moreover have "completed_methods s' = completed_methods s"
    unfolding completed_methods_def steps' using completed
    by (induction "steps s") (auto simp: map_filter_concat comp_def intro!: arg_cong [of _ _ concat])
  moreover have "session_state s' = (if some_open s' then ChallengePending else ChallengeFailed)"
  proof (cases "can_retry (?t\<lparr>attempt_number := attempt_number ?t + 1\<rparr>)")
    case True
    then have "some_open s'"
      using i open_i unfolding some_open_def steps'
      by (auto simp: failure_step_state can_retry_def is_verifiable_def intro!: bexI [of _ ?t])
    with True show ?thesis
      using failure_fails [OF i, of code now] pend by (simp add: s'_def)
  next
    case False
    then show ?thesis
      using failure_fails [OF i, of code now] pend by (simp add: s'_def some_open_def)
  qed
  moreover have "distinct_steps s'"
    using ds by (simp add: distinct_steps_def steps' comp_def)
  moreover have "authentication_method_names s' = authentication_method_names s"
    by (simp add: s'_def)
  ultimately show ?thesis
    using inv pend by (simp add: session_inv_def steps' split: if_splits)
qed

lemma event_inv:
  assumes "session_event a s s'" "session_inv k s"
  shows "\<exists>k'. k \<le> k' \<and> session_inv k' s'"
  using assms(1)
proof cases
  case (answered_right i now)
  then have "session_inv (if next_waits s k then k + 1 else k) s'"
    using success_inv [OF assms(2)] by simp
  then show ?thesis by (metis less_add_one order.refl order_less_imp_le)
next
  case (answered_wrong i code now)
  then show ?thesis using failure_inv [OF assms(2)] by auto
next
  case bookkeeping
  then show ?thesis using assms(2) same_progress_inv by blast
qed

lemma run_inv:
  assumes "session_run n s s'" "session_inv k s"
  shows "\<exists>k'. k \<le> k' \<and> session_inv k' s'"
  using assms
proof (induction arbitrary: k rule: session_run.induct)
  case (run_step a s t n u)
  then obtain k1 where "k \<le> k1" "session_inv k1 t" using event_inv by blast
  with run_step.IH [of k1] show ?case using order_trans by blast
qed auto

lemma sample_session_inv: "session_inv 1 sample_session"
  by (simp add: session_inv_def sample_session_def sample_step_def distinct_steps_def step_in_slot_def
      can_retry_def some_open_def completed_in_def completed_methods_def)

lemma sample_session_run: "session_run 1 sample_session (mark_step_success 0 0 sample_session)"
  using run_step [OF answered_right run_stop, of sample_session 0 0]
  by (simp add: sample_session_def sample_step_def is_verifiable_def)

text \<open>C1. The session invariant survives every run. If the open steps of a session are those of one slot,
  earlier slots have a completed step, attempts are within bounds and the recorded methods are those
  of the completed steps, then this still holds after any sequence of right and wrong answers and of
  bookkeeping, at the same slot or a later one; so the slots are passed in order and none is skipped.\<close>

theorem session_invariant:
  assumes "session_run n s s'" "session_inv k s"
  shows "\<exists>k'. k \<le> k' \<and> session_inv k' s'"
  by (rule run_inv [OF assms])

theorem session_invariant_witness:
  "\<exists>k'. 1 \<le> k' \<and> session_inv k' (mark_step_success 0 0 sample_session)"
  by (rule session_invariant [OF sample_session_run sample_session_inv])

section \<open>Bounded attempts\<close>

definition step_attempts_left :: "challenge_step \<Rightarrow> int" where
  "step_attempts_left st =
     (if step_state st = StepInProgress \<or> step_state st = StepPending
      then max_attempts st - attempt_number st else 0)"

definition attempts_left :: "challenge_session \<Rightarrow> int" where
  "attempts_left s = sum_list (map step_attempts_left (steps s))"

lemma sum_list_drop_one:
  fixes f g :: "'a \<Rightarrow> int"
  assumes "\<forall>x \<in> set xs. f x \<le> g x" "t \<in> set xs" "f t + 1 \<le> g t"
  shows "sum_list (map f xs) + 1 \<le> sum_list (map g xs)"
  using assms
proof (induction xs)
  case (Cons x xs)
  then show ?case
    using sum_list_mono [of xs f g] by (cases "t = x") force+
qed simp

lemma attempts_left_nonneg: "session_inv k s \<Longrightarrow> 0 \<le> attempts_left s"
  unfolding attempts_left_def session_inv_def
  by (intro sum_list_nonneg) (auto simp: step_attempts_left_def step_in_slot_def)

lemma attempts_left_bound: "session_inv k s \<Longrightarrow> attempts_left s \<le> sum_list (map max_attempts (steps s))"
  unfolding attempts_left_def session_inv_def
  by (intro sum_list_mono) (auto simp: step_attempts_left_def step_in_slot_def)

lemma success_attempts_left:
  assumes inv: "session_inv k s" and i: "i < length (steps s)" "is_verifiable (steps s ! i)"
  shows "attempts_left (mark_step_success i now s) + 1 \<le> attempts_left s"
proof -
  have old: "step_in_slot k st" if "st \<in> set (steps s)" for st
    using inv that by (simp add: session_inv_def)
  have "\<forall>st \<in> set (steps s). step_attempts_left (success_step (steps s ! i) st) \<le> step_attempts_left st"
    using old by (auto simp: step_attempts_left_def success_step_state step_in_slot_def can_retry_def
        split: challenge_step_state.splits)
  moreover have "step_attempts_left (success_step (steps s ! i) (steps s ! i)) + 1
      \<le> step_attempts_left (steps s ! i)"
    using inv_open_slot(2) [OF inv i] i(2)
    by (simp add: step_attempts_left_def success_step_state can_retry_def is_verifiable_def)
  moreover have "steps (mark_step_success i now s) = map (success_step (steps s ! i)) (steps s)"
    using inv i by (simp add: steps_success session_inv_def)
  ultimately show ?thesis
    using sum_list_drop_one [of "steps s" "step_attempts_left \<circ> success_step (steps s ! i)"
        step_attempts_left "steps s ! i"] i
    by (simp add: attempts_left_def)
qed

lemma failure_attempts_left:
  assumes inv: "session_inv k s" and i: "i < length (steps s)" "is_verifiable (steps s ! i)"
  shows "attempts_left (mark_step_failure i code now s) + 1 \<le> attempts_left s"
proof -
  let ?f = "failure_step now (steps s ! i)"
  have old: "step_in_slot k st" if "st \<in> set (steps s)" for st
    using inv that by (simp add: session_inv_def)
  have "\<forall>st \<in> set (steps s). step_attempts_left (?f st) \<le> step_attempts_left st"
    using old by (auto simp: step_attempts_left_def failure_step_state step_in_slot_def can_retry_def)
  moreover have "step_attempts_left (?f (steps s ! i)) + 1 \<le> step_attempts_left (steps s ! i)"
    using inv_open_slot(2) [OF inv i] i(2)
    by (simp add: step_attempts_left_def failure_step_state can_retry_def is_verifiable_def)
  moreover have "steps (mark_step_failure i code now s) = map ?f (steps s)"
    using inv i by (simp add: steps_failure session_inv_def)
  ultimately show ?thesis
    using sum_list_drop_one [of "steps s" "step_attempts_left \<circ> ?f" step_attempts_left "steps s ! i"] i
    by (simp add: attempts_left_def)
qed

lemma event_attempts_left:
  assumes "session_event a s s'" "session_inv k s"
  shows "attempts_left s' + int a \<le> attempts_left s"
  using assms(1)
proof cases
  case (answered_right i now)
  then show ?thesis using success_attempts_left [OF assms(2)] by simp
next
  case (answered_wrong i code now)
  then show ?thesis using failure_attempts_left [OF assms(2)] by simp
next
  case bookkeeping
  then show ?thesis
    using same_progress_map [of s s' step_attempts_left]
    by (simp add: attempts_left_def step_attempts_left_def bare_step_selectors)
qed

lemma run_attempts_left:
  assumes "session_run n s s'" "session_inv k s"
  shows "attempts_left s' + int n \<le> attempts_left s"
  using assms
proof (induction arbitrary: k rule: session_run.induct)
  case (run_step a s t n u)
  then obtain k1 where k1: "session_inv k1 t" using event_inv by blast
  have "attempts_left t + int a \<le> attempts_left s"
    using event_attempts_left run_step.hyps(1) run_step.prems by blast
  with run_step.IH [OF k1] show ?case by simp
qed simp

text \<open>C31. A session accepts boundedly many answers. However its run goes, a session takes no more answers
  than its open and waiting steps have attempts left, hence no more than the sum of the attempt limits
  of its steps; and when that many answers have been given it is no longer pending.\<close>

theorem answers_bounded:
  assumes "session_run n s s'" "session_inv k s"
  shows "int n \<le> attempts_left s \<and> attempts_left s \<le> sum_list (map max_attempts (steps s)) \<and>
    (int n = attempts_left s \<longrightarrow> session_state s' \<noteq> ChallengePending)"
proof -
  obtain k' where inv': "session_inv k' s'" using run_inv [OF assms] by blast
  have n: "attempts_left s' + int n \<le> attempts_left s" by (rule run_attempts_left [OF assms])
  have "0 < attempts_left s'" if pend: "session_state s' = ChallengePending"
  proof -
    obtain st where st: "st \<in> set (steps s')" "step_state st = StepInProgress"
      using inv' pend by (auto simp: session_inv_def some_open_def)
    have nonneg: "\<forall>x \<in> set (steps s'). 0 \<le> step_attempts_left x"
      using inv' by (auto simp: session_inv_def step_attempts_left_def step_in_slot_def)
    have "0 + 1 \<le> step_attempts_left st"
      using inv' st by (auto simp: session_inv_def step_attempts_left_def step_in_slot_def can_retry_def)
    with sum_list_drop_one [of "steps s'" "\<lambda>_. 0" step_attempts_left st] nonneg st show ?thesis
      by (simp add: attempts_left_def)
  qed
  with n attempts_left_nonneg [OF inv'] attempts_left_bound [OF assms(2)] show ?thesis by auto
qed

theorem answers_bounded_witness: "int 1 \<le> attempts_left sample_session"
  using answers_bounded [OF sample_session_run sample_session_inv] by simp

end
