(* ===== verification/Challenge_Safety.thy ===== *)
theory Challenge_Safety
  imports Challenge_Service Challenge_Machine
begin

text \<open>
  What the challenge service guarantees about the tokens it issues. A session in the store is
  \<open>reliable\<close>: its steps are at a state that answers can reach, and the steps of its first slots are such
  that passing them satisfies the policy of its action. Every operation keeps the stored sessions
  reliable, whatever commands fail, and a token is signed only for a reliable session that has passed.
  Providers may write into the session context and the hints of steps, and nothing else.
\<close>

section \<open>What providers may change\<close>

definition bare_hints :: "challenge_step \<Rightarrow> challenge_step" where
  "bare_hints st = st\<lparr>user_interface_hints := Map.empty\<rparr>"

definition same_challenge :: "challenge_session \<Rightarrow> challenge_session \<Rightarrow> bool" where
  "same_challenge s s' \<longleftrightarrow>
     s'\<lparr>session_context := Map.empty, steps := []\<rparr> = s\<lparr>session_context := Map.empty, steps := []\<rparr> \<and>
     map bare_hints (steps s') = map bare_hints (steps s) \<and>
     any_get (session_context s') ''proofToken'' = any_get (session_context s) ''proofToken''"

definition well_behaved_provider :: "'w step_provider \<Rightarrow> bool" where
  "well_behaved_provider p \<longleftrightarrow>
     (\<forall>now i s s' x. fst (sp_prepare p now i s x) = Inr s' \<longrightarrow> same_challenge s s') \<and>
     (\<forall>now i m s b s' x. fst (sp_verify p now i m s x) = Inr (b, s') \<longrightarrow> same_challenge s s') \<and>
     (\<forall>f st s b s' x. sp_eligible p = Some f \<and> fst (f st s x) = Inr (b, s') \<longrightarrow> same_challenge s s') \<and>
     (\<forall>f now i s s' x. sp_refresh p = Some f \<and> fst (f now i s x) = Inr s' \<longrightarrow> same_challenge s s')"

definition well_behaved :: "'w challenge_env \<Rightarrow> bool" where
  "well_behaved env \<longleftrightarrow>
     (\<forall>t p. ce_providers env t = Some p \<longrightarrow> well_behaved_provider p) \<and>
     (\<forall>s s' x. fst (ce_on_passed env s x) = Inr s' \<longrightarrow> same_challenge s s')"

lemma well_behavedD:
  assumes "well_behaved env"
  shows "ce_providers env t = Some p \<Longrightarrow> fst (sp_prepare p now i s x) = Inr s' \<Longrightarrow> same_challenge s s'"
    "ce_providers env t = Some p \<Longrightarrow> fst (sp_verify p now i m s x) = Inr (b, s') \<Longrightarrow> same_challenge s s'"
    "ce_providers env t = Some p \<Longrightarrow> sp_eligible p = Some f \<Longrightarrow> fst (f st s x) = Inr (b, s') \<Longrightarrow> same_challenge s s'"
    "ce_providers env t = Some p \<Longrightarrow> sp_refresh p = Some g \<Longrightarrow> fst (g now i s x) = Inr s' \<Longrightarrow> same_challenge s s'"
    "fst (ce_on_passed env s x) = Inr s' \<Longrightarrow> same_challenge s s'"
  using assms unfolding well_behaved_def well_behaved_provider_def by metis+

lemma same_challenge_refl [simp]: "same_challenge s s"
  by (simp add: same_challenge_def)

lemma same_challenge_trans: "same_challenge s t \<Longrightarrow> same_challenge t u \<Longrightarrow> same_challenge s u"
  by (simp add: same_challenge_def)

lemma same_challenge_length: "same_challenge s s' \<Longrightarrow> length (steps s') = length (steps s)"
  by (metis same_challenge_def length_map)

lemma same_challenge_fields:
  assumes "same_challenge s s'"
  shows "session_state s' = session_state s" "authentication_method_names s' = authentication_method_names s"
    "session_business_action s' = session_business_action s" "challenge_identifier s' = challenge_identifier s"
    "issuing_service_name s' = issuing_service_name s" "audience_service_names s' = audience_service_names s"
    "subject_identifier s' = subject_identifier s" "flow_nonce s' = flow_nonce s"
proof -
  have eq: "s'\<lparr>session_context := Map.empty, steps := []\<rparr> = s\<lparr>session_context := Map.empty, steps := []\<rparr>"
    using assms by (simp add: same_challenge_def)
  show "session_state s' = session_state s" using arg_cong [OF eq, of session_state] by simp
  show "authentication_method_names s' = authentication_method_names s"
    using arg_cong [OF eq, of authentication_method_names] by simp
  show "session_business_action s' = session_business_action s"
    using arg_cong [OF eq, of session_business_action] by simp
  show "challenge_identifier s' = challenge_identifier s" using arg_cong [OF eq, of challenge_identifier] by simp
  show "issuing_service_name s' = issuing_service_name s" using arg_cong [OF eq, of issuing_service_name] by simp
  show "audience_service_names s' = audience_service_names s"
    using arg_cong [OF eq, of audience_service_names] by simp
  show "subject_identifier s' = subject_identifier s" using arg_cong [OF eq, of subject_identifier] by simp
  show "flow_nonce s' = flow_nonce s" using arg_cong [OF eq, of flow_nonce] by simp
qed

lemma bare_hints_selectors:
  "bare_step (bare_hints st) = bare_step st"
  "challenge_type (bare_hints st) = challenge_type st" "slot_number (bare_hints st) = slot_number st"
  "step_identifier (bare_hints st) = step_identifier st"
  by (simp_all add: bare_hints_def bare_step_def)

lemma same_challenge_map:
  assumes "same_challenge s s'" "\<And>st. f (bare_hints st) = f st"
  shows "map f (steps s') = map f (steps s)"
proof -
  have "map (f \<circ> bare_hints) (steps s') = map (f \<circ> bare_hints) (steps s)"
    using assms(1) by (metis same_challenge_def map_map)
  then show ?thesis using assms(2) by (simp add: comp_def)
qed

lemma same_challenge_progress: "same_challenge s s' \<Longrightarrow> same_progress s s'"
  using same_challenge_fields same_challenge_map [of s s' bare_step]
  by (simp add: same_progress_def bare_hints_selectors)

section \<open>Plans and policies\<close>

text \<open>
  The shape of the steps that lets a policy rely on a passed session: a required method is the only
  one of the first slot, or of a second slot that exists; the first slot holds accepted methods only.
\<close>

definition step_support :: "challenge_action_policy \<Rightarrow> (challenge_type \<times> int) list \<Rightarrow> bool" where
  "step_support p ts \<longleftrightarrow>
     (\<forall>r \<in> set (required_proof_methods p).
        (\<forall>(t, j) \<in> set ts. j = 1 \<longrightarrow> t = r) \<or>
        (\<exists>(t, j) \<in> set ts. j = 2) \<and> (\<forall>(t, j) \<in> set ts. j = 2 \<longrightarrow> t = r)) \<and>
     (accepted_proof_methods p = [] \<or> (\<forall>(t, j) \<in> set ts. j = 1 \<longrightarrow> t \<in> set (accepted_proof_methods p)))"

definition step_shape :: "challenge_session \<Rightarrow> (challenge_type \<times> int) list" where
  "step_shape s = map (\<lambda>st. (challenge_type st, slot_number st)) (steps s)"

definition supports :: "challenge_session \<Rightarrow> bool" where
  "supports s \<longleftrightarrow>
     (\<forall>p. lookup_challenge_action_policy (session_business_action s) = Some p \<longrightarrow>
        p_action p = ActRegisterAccount \<or> step_support p (step_shape s))"

lemma passed_methods:
  assumes inv: "session_inv k s" "1 \<le> k" and passed: "session_state s = ChallengePassed"
    and sup: "step_support p (step_shape s)"
  shows "proof_methods_satisfied p (authentication_method_names s)"
proof -
  let ?done = "map challenge_type (filter (\<lambda>st. step_state st = StepCompleted) (steps s))"
  have methods: "set (authentication_method_names s) = set (map type_name ?done)"
    using mset_eq_setD [of "authentication_method_names s" "completed_methods s"] inv(1)
    by (simp add: session_inv_def completed_methods_def)
  have slot: "step_in_slot k st" if "st \<in> set (steps s)" for st using inv(1) that by (simp add: session_inv_def)
  have at_k: "completed_in s k" and before: "\<And>j. 1 \<le> j \<Longrightarrow> j < k \<Longrightarrow> completed_in s j"
    and last: "\<not> next_waits s k" and closed: "\<not> some_open s"
    using inv(1) passed by (auto simp: session_inv_def)
  have shape: "(challenge_type st, slot_number st) \<in> set (step_shape s)" if "st \<in> set (steps s)" for st
    using that by (auto simp: step_shape_def)
  have first: "completed_in s 1" using at_k before inv(2) by (cases "k = 1") auto
  then obtain st1 where st1: "st1 \<in> set (steps s)" "step_state st1 = StepCompleted" "slot_number st1 = 1"
    by (auto simp: completed_in_def)
  have "r \<in> set ?done" if r: "r \<in> set (required_proof_methods p)" for r
  proof (cases "\<forall>(t, j) \<in> set (step_shape s). j = 1 \<longrightarrow> t = r")
    case True
    with shape [OF st1(1)] st1 show ?thesis by force
  next
    case False
    then have second: "\<exists>(t, j) \<in> set (step_shape s). j = 2" "\<forall>(t, j) \<in> set (step_shape s). j = 2 \<longrightarrow> t = r"
      using sup r by (auto simp: step_support_def)
    from second(1) obtain st where st: "st \<in> set (steps s)" "slot_number st = 2" by (auto simp: step_shape_def)
    have "completed_in s 2"
    proof (cases "k = 1")
      case True
      then have "step_state st = StepPending"
        using slot [OF st(1)] st(2) by (auto simp: step_in_slot_def split: challenge_step_state.splits)
      with st last True show ?thesis by (auto simp: next_waits_def)
    next
      case False
      then show ?thesis using at_k before inv(2) by (cases "k = 2") auto
    qed
    then obtain st2 where "st2 \<in> set (steps s)" "step_state st2 = StepCompleted" "slot_number st2 = 2"
      by (auto simp: completed_in_def)
    with shape second(2) show ?thesis by force
  qed
  moreover have "accepted_proof_methods p = [] \<or> set (accepted_proof_methods p) \<inter> set ?done \<noteq> {}"
  proof (cases "accepted_proof_methods p = []")
    case False
    then have "challenge_type st1 \<in> set (accepted_proof_methods p)"
      using sup shape [OF st1(1)] st1(3) by (auto simp: step_support_def)
    with st1 show ?thesis by force
  qed simp
  ultimately have "proof_methods_satisfied p (map type_name ?done)"
    by (subst proof_methods_satisfied_types) blast
  then show ?thesis using methods proof_methods_satisfied_mono by blast
qed

text \<open>Every plan of the switch supports the policy of its action, once the required methods are there.\<close>

definition plan_supports :: "challenge_action_policy \<Rightarrow> step_plan \<Rightarrow> bool" where
  "plan_supports p plan \<longleftrightarrow>
     (accepted_proof_methods p = [] \<or>
        list_all (\<lambda>(t, q, j). j = 1 \<longrightarrow> t \<in> set (accepted_proof_methods p)) plan) \<and>
     list_all (\<lambda>r. list_all (\<lambda>(t, q, j). j = 1 \<longrightarrow> t = r) plan \<or> list_all (\<lambda>(t, q, j). t = r \<longleftrightarrow> j = 2) plan)
       (required_proof_methods p)"

lemma privileged_plan_supports: "plan_supports (privileged_mutation_policy a) privileged_plan"
  by (simp add: plan_supports_def privileged_mutation_policy_def bare_policy_def privileged_plan_def
      strong_privileged_mutation_methods_def)

lemma all_plans_support:
  "a \<noteq> ActRegisterAccount \<Longrightarrow> plan_supports (challenge_action_policies a) (step_plan_of a expected)"
  by (cases a)
    (simp_all only: challenge_action_policies.simps step_plan_of.simps privileged_plan_supports,
     simp_all add: plan_supports_def bare_policy_def recovery_plan_def profile_update_plan_def
      diagnostic_content_reveal_policy_def diagnostic_content_reveal_methods_def)

lemma plan_support:
  assumes "plan_supports p plan" "\<forall>(t, j) \<in> set ts. \<exists>q. (t, q, j) \<in> set plan"
    and "set (required_proof_methods p) \<subseteq> fst ` set ts"
  shows "step_support p ts"
proof -
  have entry: "\<exists>q. (t, q, j) \<in> set plan" if "(t, j) \<in> set ts" for t j using assms(2) that by auto
  have "(\<forall>(t, j) \<in> set ts. j = 1 \<longrightarrow> t = r) \<or> (\<exists>(t, j) \<in> set ts. j = 2) \<and> (\<forall>(t, j) \<in> set ts. j = 2 \<longrightarrow> t = r)"
    if r: "r \<in> set (required_proof_methods p)" for r
  proof (cases "list_all (\<lambda>(t, q, j). j = 1 \<longrightarrow> t = r) plan")
    case True
    then have plan: "\<forall>(t, q, j) \<in> set plan. j = 1 \<longrightarrow> t = r" by (simp add: list_all_iff)
    have "t = r" if in_ts: "(t, j) \<in> set ts" and "j = 1" for t j
    proof -
      obtain q where "(t, q, j) \<in> set plan" using entry [OF in_ts] by blast
      from bspec [OF plan this] \<open>j = 1\<close> show ?thesis by simp
    qed
    then show ?thesis by (intro disjI1) auto
  next
    case False
    have "list_all (\<lambda>(t, q, j). j = 1 \<longrightarrow> t = r) plan \<or> list_all (\<lambda>(t, q, j). t = r \<longleftrightarrow> j = 2) plan"
      by (rule list_all_iff [THEN iffD1, OF assms(1) [unfolded plan_supports_def, THEN conjunct2], THEN bspec, OF r])
    with False have plan: "\<forall>(t, q, j) \<in> set plan. t = r \<longleftrightarrow> j = 2" by (simp only: list_all_iff simp_thms)
    have iff: "t = r \<longleftrightarrow> j = 2" if in_ts: "(t, j) \<in> set ts" for t j
    proof -
      obtain q where "(t, q, j) \<in> set plan" using entry [OF in_ts] by blast
      from bspec [OF plan this] show ?thesis by simp
    qed
    obtain j where "(r, j) \<in> set ts" using assms(3) r by force
    with iff [OF this] iff show ?thesis by (intro disjI2 conjI) auto
  qed
  moreover have "accepted_proof_methods p = [] \<or> (\<forall>(t, j) \<in> set ts. j = 1 \<longrightarrow> t \<in> set (accepted_proof_methods p))"
  proof (cases "accepted_proof_methods p = []")
    case False
    then have plan: "\<forall>(t, q, j) \<in> set plan. j = 1 \<longrightarrow> t \<in> set (accepted_proof_methods p)"
      using assms(1) [unfolded plan_supports_def, THEN conjunct1] by (simp only: list_all_iff simp_thms)
    have "t \<in> set (accepted_proof_methods p)" if in_ts: "(t, j) \<in> set ts" and "j = 1" for t j
    proof -
      obtain q where "(t, q, j) \<in> set plan" using entry [OF in_ts] by blast
      from bspec [OF plan this] \<open>j = 1\<close> show ?thesis by simp
    qed
    then show ?thesis by auto
  qed simp
  ultimately show ?thesis by (simp add: step_support_def)
qed

section \<open>Reliable sessions\<close>

text \<open>
  An accepted answer names the challenge, the step and the type of the step. A session is vouched for by
  a set of them when each of its completed steps was completed by an answer of the set.
\<close>

type_synonym answer = "string \<times> string \<times> challenge_type"

definition vouched :: "answer set \<Rightarrow> challenge_session \<Rightarrow> bool" where
  "vouched A s \<longleftrightarrow>
     (\<forall>st \<in> set (steps s). step_state st = StepCompleted \<longrightarrow>
        (challenge_identifier s, step_identifier st, challenge_type st) \<in> A)"

text \<open>What a signed token says of the session it was issued for, and the token of a session.\<close>

definition issued_for :: "challenge_session \<Rightarrow> proof_claims \<Rightarrow> bool" where
  "issued_for s c \<longleftrightarrow>
     pc_issuer c = trim_space (issuing_service_name s) \<and> pc_audiences c = audience_service_names s \<and>
     pc_subject c = trim_space (subject_identifier s) \<and>
     pc_business_action c = trim_space (session_business_action s) \<and>
     pc_challenge_identifier c = trim_space (challenge_identifier s) \<and>
     pc_flow_nonce c = trim_space (flow_nonce s) \<and> pc_methods c = authentication_method_names s"

definition signed_for :: "'w challenge_env \<Rightarrow> challenge_session \<Rightarrow> string \<Rightarrow> bool" where
  "signed_for env s token \<longleftrightarrow>
     (\<exists>claims raw. ce_sign env claims = Inr raw \<and> issued_for s claims \<and> (token = raw \<or> token = trim_space raw))"

definition cached_token :: "challenge_session \<Rightarrow> string" where
  "cached_token s = trim_space (string_value (any_get (session_context s) ''proofToken''))"

definition in_progress :: "challenge_session \<Rightarrow> bool" where
  "in_progress s \<longleftrightarrow> session_state s = ChallengeExpired \<or> (\<exists>k. 1 \<le> k \<and> session_inv k s)"

definition reliable :: "'w challenge_env \<Rightarrow> answer set \<Rightarrow> challenge_session \<Rightarrow> bool" where
  "reliable env A s \<longleftrightarrow>
     in_progress s \<and> supports s \<and> vouched A s \<and>
     (cached_token s \<noteq> [] \<longrightarrow>
        session_state s \<in> {ChallengePassed, ChallengeExpired} \<and> signed_for env s (cached_token s))"

lemma proof_claims_issued: "issued_for s (proof_claims_of env now jti s)"
  by (simp add: issued_for_def proof_claims_of_def)

lemma vouched_bare:
  "vouched A s \<longleftrightarrow> (\<forall>e \<in> set (map (\<lambda>st. (step_state st, step_identifier st, challenge_type st)) (steps s)).
     fst e = StepCompleted \<longrightarrow> (challenge_identifier s, snd e) \<in> A)"
  by (auto simp: vouched_def)

lemma reliable_mono: "reliable env A s \<Longrightarrow> A \<subseteq> B \<Longrightarrow> reliable env B s"
  by (auto simp: reliable_def vouched_def)

lemma signed_for_cong: "issued_for s = issued_for s' \<Longrightarrow> signed_for env s = signed_for env s'"
  by (simp add: signed_for_def fun_eq_iff)

lemma same_challenge_reliable:
  assumes "same_challenge s s'" "reliable env A s"
  shows "reliable env A s'"
proof -
  have "step_shape s' = step_shape s"
    unfolding step_shape_def by (rule same_challenge_map [OF assms(1)]) (simp add: bare_hints_selectors)
  then have "supports s' = supports s" using same_challenge_fields [OF assms(1)] by (simp add: supports_def)
  moreover have "in_progress s' = in_progress s"
    using same_progress_inv [OF same_challenge_progress [OF assms(1)]] same_challenge_fields [OF assms(1)]
    by (simp add: in_progress_def)
  moreover have "cached_token s' = cached_token s" using assms(1) by (simp add: cached_token_def same_challenge_def)
  moreover have "map (\<lambda>st. (step_state st, step_identifier st, challenge_type st)) (steps s') =
      map (\<lambda>st. (step_state st, step_identifier st, challenge_type st)) (steps s)"
    by (rule same_challenge_map [OF assms(1)]) (simp add: bare_hints_def)
  then have "vouched A s' = vouched A s" using same_challenge_fields [OF assms(1)] by (simp only: vouched_bare)
  moreover have "signed_for env s' = signed_for env s"
    by (rule signed_for_cong) (simp add: fun_eq_iff issued_for_def same_challenge_fields [OF assms(1)])
  ultimately show ?thesis
    using assms(2) same_challenge_fields [OF assms(1)] by (simp add: reliable_def)
qed

text \<open>A passed session: its methods are those of the completed steps and satisfy the policy of its action.\<close>

definition well_passed :: "challenge_session \<Rightarrow> bool" where
  "well_passed s \<longleftrightarrow>
     session_state s = ChallengePassed \<and> \<not> some_open s \<and>
     mset (authentication_method_names s) = mset (completed_methods s) \<and>
     (\<forall>p. lookup_challenge_action_policy (session_business_action s) = Some p \<longrightarrow>
        p_action p = ActRegisterAccount \<or> proof_methods_satisfied p (authentication_method_names s))"

lemma reliable_passed:
  assumes "reliable env A s" "session_state s = ChallengePassed"
  shows "well_passed s"
proof -
  obtain k where k: "1 \<le> k" "session_inv k s" using assms by (auto simp: reliable_def in_progress_def)
  with passed_methods [OF k(2,1) assms(2)] assms show ?thesis
    by (auto simp: well_passed_def session_inv_def reliable_def supports_def)
qed

text \<open>Answers on an open step keep a session reliable.\<close>

lemma success_frame [simp]:
  "session_context (mark_step_success i now s) = session_context s"
  "session_business_action (mark_step_success i now s) = session_business_action s"
  "challenge_identifier (mark_step_success i now s) = challenge_identifier s"
  by (simp_all add: mark_step_success_def activate_slot_def update_step_def Let_def
      refresh_recommended_step_identifier_def split: option.split)

lemma failure_frame [simp]:
  "session_context (mark_step_failure i code now s) = session_context s"
  "session_business_action (mark_step_failure i code now s) = session_business_action s"
  "challenge_identifier (mark_step_failure i code now s) = challenge_identifier s"
  by (simp_all add: mark_step_failure_def update_step_def Let_def
      refresh_recommended_step_identifier_def split: option.split)

lemma shape_success:
  assumes "distinct_steps s" "i < length (steps s)"
  shows "step_shape (mark_step_success i now s) = step_shape s"
  by (simp add: step_shape_def steps_success [OF assms])

lemma shape_failure:
  assumes "distinct_steps s" "i < length (steps s)"
  shows "step_shape (mark_step_failure i code now s) = step_shape s"
  by (simp add: step_shape_def steps_failure [OF assms])

lemma vouched_success:
  assumes "distinct_steps s" "i < length (steps s)" "vouched A s"
    and "(challenge_identifier s, step_identifier (steps s ! i), challenge_type (steps s ! i)) \<in> A"
  shows "vouched A (mark_step_success i now s)"
proof -
  have "(challenge_identifier s, step_identifier st, challenge_type st) \<in> A"
    if st: "st \<in> set (steps s)" "step_state (success_step (steps s ! i) st) = StepCompleted" for st
  proof (cases "step_identifier st = step_identifier (steps s ! i)")
    case True
    with assms(1,2) st(1) have "st = steps s ! i"
      using nth_key_eq [of step_identifier "steps s" st i] by (simp add: distinct_steps_def)
    with assms(4) show ?thesis by simp
  next
    case False
    with st assms(3) show ?thesis by (simp add: success_step_state vouched_def split: if_split_asm)
  qed
  then show ?thesis by (simp add: vouched_def steps_success [OF assms(1,2)])
qed

lemma vouched_failure:
  assumes "distinct_steps s" "i < length (steps s)" "vouched A s"
  shows "vouched A (mark_step_failure i code now s)"
  using assms(3) by (simp add: vouched_def steps_failure [OF assms(1,2)] failure_step_state)

lemma reliable_success:
  assumes rel: "reliable env A s" and open_i: "session_state s = ChallengePending" "i < length (steps s)"
    "is_verifiable (steps s ! i)"
    and answered: "(challenge_identifier s, step_identifier (steps s ! i), challenge_type (steps s ! i)) \<in> A"
  shows "reliable env A (mark_step_success i now s)"
proof -
  obtain k where k: "1 \<le> k" "session_inv k s" using rel open_i(1) by (auto simp: reliable_def in_progress_def)
  have ds: "distinct_steps s" using k(2) by (simp add: session_inv_def)
  then have "supports (mark_step_success i now s) = supports s"
    using open_i(2) by (simp add: supports_def shape_success)
  moreover have "in_progress (mark_step_success i now s)"
    using success_inv [OF k(2) open_i, of now] k(1) unfolding in_progress_def by (auto split: if_split_asm)
  moreover have "vouched A (mark_step_success i now s)"
    using rel by (intro vouched_success [OF ds open_i(2) _ answered]) (simp add: reliable_def)
  ultimately show ?thesis using rel open_i(1) by (simp add: reliable_def cached_token_def)
qed

lemma reliable_failure:
  assumes rel: "reliable env A s" and open_i: "session_state s = ChallengePending" "i < length (steps s)"
    "is_verifiable (steps s ! i)"
  shows "reliable env A (mark_step_failure i code now s)"
proof -
  obtain k where k: "1 \<le> k" "session_inv k s" using rel open_i(1) by (auto simp: reliable_def in_progress_def)
  have ds: "distinct_steps s" using k(2) by (simp add: session_inv_def)
  then have "supports (mark_step_failure i code now s) = supports s"
    using open_i(2) by (simp add: supports_def shape_failure)
  moreover have "in_progress (mark_step_failure i code now s)"
    using failure_inv [OF k(2) open_i, of code now] k(1) unfolding in_progress_def by auto
  moreover have "vouched A (mark_step_failure i code now s)"
    using rel by (intro vouched_failure [OF ds open_i(2)]) (simp add: reliable_def)
  ultimately show ?thesis using rel open_i(1) by (simp add: reliable_def cached_token_def)
qed

section \<open>Operations and the store\<close>

definition store_ok :: "'w challenge_env \<Rightarrow> answer set \<Rightarrow> 'w challenge_world \<Rightarrow> bool" where
  "store_ok env A w \<longleftrightarrow>
     (\<forall>k s d. cw_sessions w k = Some (s, d) \<longrightarrow>
        reliable env A s \<and> k = challenge_session_cache_key (challenge_identifier s))"

lemma store_ok_mono: "store_ok env A w \<Longrightarrow> A \<subseteq> B \<Longrightarrow> store_ok env B w"
  using reliable_mono unfolding store_ok_def by blast

text \<open>An operation keeps the store in order, and what it returns satisfies \<open>Q\<close>.\<close>

definition yields :: "'w challenge_env \<Rightarrow> answer set \<Rightarrow> ('a, 'w) action \<Rightarrow> ('a \<Rightarrow> bool) \<Rightarrow> bool" where
  "yields env A f Q \<longleftrightarrow>
     (\<forall>w. store_ok env A w \<longrightarrow> store_ok env A (snd (f w)) \<and> (\<forall>x. fst (f w) = Inr x \<longrightarrow> Q x))"

named_theorems yields_rules

lemma yields_Inl [yields_rules]: "yields env A (\<lambda>w. (Inl e, w)) Q"
  by (simp add: yields_def)

lemma yields_Inr: "Q x \<Longrightarrow> yields env A (\<lambda>w. (Inr x, w)) Q"
  by (simp add: yields_def)

lemma yields_weaken: "yields env A f P \<Longrightarrow> (\<And>x. P x \<Longrightarrow> Q x) \<Longrightarrow> yields env A f Q"
  by (simp add: yields_def)

lemma yields_then_do:
  assumes "yields env A f P" "\<And>x. P x \<Longrightarrow> yields env A (g x) Q"
  shows "yields env A (\<lambda>w. then_do (f w) g) Q"
  unfolding yields_def
proof (intro allI impI)
  fix w assume "store_ok env A w"
  then show "store_ok env A (snd (then_do (f w) g)) \<and> (\<forall>y. fst (then_do (f w) g) = Inr y \<longrightarrow> Q y)"
    using assms by (cases "f w"; cases "fst (f w)") (auto simp: yields_def)
qed

lemma yields_if: "(b \<Longrightarrow> yields env A f Q) \<Longrightarrow> (\<not> b \<Longrightarrow> yields env A g Q) \<Longrightarrow> yields env A (\<lambda>w. if b then f w else g w) Q"
  by (simp add: yields_def)

lemma yields_option:
  "(x = None \<Longrightarrow> yields env A f Q) \<Longrightarrow> (\<And>y. x = Some y \<Longrightarrow> yields env A (g y) Q) \<Longrightarrow>
     yields env A (\<lambda>w. case x of None \<Rightarrow> f w | Some y \<Rightarrow> g y w) Q"
  by (cases x) simp_all

lemma yields_result:
  "(\<And>e. x = Inl e \<Longrightarrow> yields env A (f e) Q) \<Longrightarrow> (\<And>y. x = Inr y \<Longrightarrow> yields env A (g y) Q) \<Longrightarrow>
     yields env A (\<lambda>w. case x of Inl e \<Rightarrow> f e w | Inr y \<Rightarrow> g y w) Q"
  by (cases x) simp_all

lemma yields_command:
  assumes "\<And>w. store_ok env A w \<Longrightarrow> store_ok env A (snd (f w)) \<and> (\<forall>x. fst (f w) = Inr x \<longrightarrow> Q x)"
  shows "yields env A (command f) Q"
  unfolding yields_def
proof (intro allI impI)
  fix w :: "'a challenge_world" assume ok: "store_ok env A w"
  have faults: "store_ok env A (w\<lparr>cw_faults := fs\<rparr>)" for fs using ok by (simp add: store_ok_def)
  show "store_ok env A (snd (command f w)) \<and> (\<forall>x. fst (command f w) = Inr x \<longrightarrow> Q x)"
  proof (cases "cw_faults w")
    case Nil
    then show ?thesis using assms [OF ok] by simp
  next
    case (Cons outcome rest)
    then show ?thesis using assms [OF faults [of rest]] faults [of rest]
      by (cases outcome) (simp_all add: command_def Let_def)
  qed
qed

text \<open>A command on texts or counters, or a reading one.\<close>

lemma yields_other_command:
  assumes "\<And>w. cw_sessions (snd (f w)) = cw_sessions w"
  shows "yields env A (command f) (\<lambda>_. True)"
  by (rule yields_command) (simp add: store_ok_def assms)

lemma yields_outside:
  assumes "\<And>x y. fst (f x) = Inr y \<Longrightarrow> Q y"
  shows "yields env A (outside f) Q"
  using assms by (auto simp: yields_def outside_def store_ok_def Let_def split: prod.splits) (metis fst_conv)

section \<open>Every operation keeps the store in order\<close>

lemma yields_save:
  assumes "reliable env A s"
  shows "yields env A (save_session now s) (\<lambda>_. True)"
  unfolding save_session_def [abs_def]
  by (rule yields_if [OF yields_Inl yields_command]) (use assms in \<open>auto simp: store_ok_def kv_set_def\<close>)

lemma kv_get_mem: "kv_get now k kv = Some v \<Longrightarrow> \<exists>d. kv k = Some (v, d)"
  by (auto simp: kv_get_def split: option.splits prod.splits if_split_asm)

lemma yields_get_session: "yields env A (get_session now ident) (reliable env A)"
proof -
  have "yields env A (repo_get_session now (trim_space ident)) (\<lambda>r. \<forall>s. r = Some s \<longrightarrow> reliable env A s)"
    unfolding repo_get_session_def [abs_def]
    by (rule yields_if [OF yields_Inr yields_command]) (auto simp: store_ok_def dest!: kv_get_mem)
  then show ?thesis
    unfolding get_session_def [abs_def]
    by (rule yields_then_do) (auto intro!: yields_option yields_Inl yields_Inr)
qed

text \<open>What the repository found, and what it saved, is stored under the key of the challenge.\<close>

lemma session_key_trim [simp]: "challenge_session_cache_key (trim_space ident) = challenge_session_cache_key ident"
  by (simp add: challenge_session_cache_key_def)

lemma got_session:
  assumes "get_session now ident w = (Inr s, w')"
  shows "\<exists>d. cw_sessions w' (challenge_session_cache_key ident) = Some (s, d)"
proof -
  have "\<exists>fs. kv_get now (challenge_session_cache_key ident) (cw_sessions w) = Some s \<and> w' = w\<lparr>cw_faults := fs\<rparr>"
    using assms
    by (auto simp: get_session_def repo_get_session_def then_do_def split: if_split_asm sum.splits option.splits prod.splits
        dest!: command_Inr)
  then show ?thesis by (auto dest!: kv_get_mem)
qed

lemma saved_session:
  assumes "save_session now s w = (Inr u, w')"
  shows "\<exists>d. cw_sessions w' (challenge_session_cache_key (challenge_identifier s)) = Some (s, d)"
  using assms by (auto simp: save_session_def kv_set_def split: if_split_asm dest!: command_Inr)

lemma yields_check_locked: "yields env A (check_locked digest now keys) (\<lambda>_. True)"
proof (induction keys)
  case (Cons key keys)
  have "yields env A (command (\<lambda>w. (Inr (kv_get now k (cw_texts w)), w))) (\<lambda>_. True)" for k
    by (rule yields_other_command) simp
  note read = yields_then_do [OF this]
  show ?case
  proof (cases "normalize_throttle_key digest key")
    case None
    then show ?thesis using Cons by (simp add: yields_def)
  next
    case (Some n)
    have "yields env A (\<lambda>w. then_do (command (\<lambda>w. (Inr (kv_get now (challenge_throttle_lock_cache_key n) (cw_texts w)), w)) w)
        (\<lambda>lock w1. case lock of
            Some _ \<Rightarrow> (Inr (Some \<lparr>td_locked = True, td_dimension = tk_dimension key,
                                 td_failure_count = 0, td_remaining_seconds = 1\<rparr>), w1)
          | None \<Rightarrow> check_locked digest now keys w1)) (\<lambda>_. True)"
      by (rule read) (use Cons in \<open>auto intro!: yields_option yields_Inr\<close>)
    with Some show ?thesis by (simp add: yields_def)
  qed
qed (simp add: yields_def)

lemma yields_record_failures:
  "yields env A (record_failures digest now m wd lk locked keys) (\<lambda>_. True)"
proof (induction keys arbitrary: locked)
  case (Cons key keys)
  have count: "yields env A (command (\<lambda>w. let (n, kv) = kv_incr now k wd (cw_counts w) in (Inr n, w\<lparr>cw_counts := kv\<rparr>))) (\<lambda>_. True)" for k
    by (rule yields_other_command) (simp add: Let_def split: prod.split)
  have lock: "yields env A (command (\<lambda>w. (Inr (), w\<lparr>cw_texts := kv_set now k ''1'' lk (cw_texts w)\<rparr>))) (\<lambda>_. True)" for k
    by (rule yields_other_command) simp
  show ?case
  proof (cases "normalize_throttle_key digest key")
    case None
    then show ?thesis using Cons by (simp add: yields_def)
  next
    case (Some n)
    have eq: "record_failures digest now m wd lk locked (key # keys) = (\<lambda>w.
          then_do (command (\<lambda>w. let (n, kv) = kv_incr now (challenge_throttle_count_cache_key n) wd (cw_counts w)
                                in (Inr n, w\<lparr>cw_counts := kv\<rparr>)) w)
            (\<lambda>count w1.
               if m \<le> count
               then then_do (command (\<lambda>w. (Inr (), w\<lparr>cw_texts :=
                       kv_set now (challenge_throttle_lock_cache_key n) ''1'' lk (cw_texts w)\<rparr>)) w1)
                     (\<lambda>_ w2.
                        record_failures digest now m wd lk
                          (case locked of
                             Some d \<Rightarrow> Some d
                           | None \<Rightarrow> Some \<lparr>td_locked = True, td_dimension = tk_dimension key,
                                          td_failure_count = count,
                                          td_remaining_seconds = whole_seconds lk\<rparr>) keys w2)
               else record_failures digest now m wd lk locked keys w1))"
      by (rule ext) (simp add: Some)
    show ?thesis
      unfolding eq
      by (intro yields_then_do [OF count] yields_if yields_then_do [OF lock] Cons)
  qed
qed (simp add: yields_def)

lemma yields_record_failure: "yields env A (record_failure digest now keys m wd lk) (\<lambda>_. True)"
  unfolding record_failure_def [abs_def] Let_def
  by (intro yields_if yields_Inr yields_record_failures TrueI)

lemma yields_clear_failures: "yields env A (clear_failures digest keys) (\<lambda>_. True)"
  unfolding clear_failures_def [abs_def] Let_def
  by (intro yields_if yields_Inr yields_other_command TrueI) simp

lemma yields_throttling:
  "yields env A (check_throttle env' now keys) (\<lambda>_. True)"
  "yields env A (record_throttle_failure env' now keys st) (\<lambda>_. True)"
  "yields env A (record_throttle_event env' now keys) (\<lambda>_. True)"
  unfolding check_throttle_def [abs_def] record_throttle_failure_def [abs_def] record_throttle_event_def [abs_def]
  by (intro yields_if yields_Inr yields_check_locked yields_record_failure TrueI)+

text \<open>Operations that return a session: the one they were given, but for context and hints.\<close>

lemma yields_outside_session:
  assumes "\<And>x s'. fst (f x) = Inr s' \<Longrightarrow> same_challenge s s'"
  shows "yields env A (outside f) (same_challenge s)"
  by (rule yields_outside) (rule assms)

lemma yields_prepare: "well_behaved env \<Longrightarrow> yields env A (prepare_step env now i s) (same_challenge s)"
  unfolding prepare_step_def [abs_def]
  by (intro yields_option yields_Inl yields_outside_session) (auto dest: well_behavedD)

lemma yields_verify:
  "well_behaved env \<Longrightarrow> yields env A (verify_step env now i m s) (\<lambda>(b, s'). same_challenge s s')"
  unfolding verify_step_def [abs_def]
  by (intro yields_option yields_Inl yields_outside) (auto dest: well_behavedD)

lemma yields_refresh: "well_behaved env \<Longrightarrow> yields env A (refresh_step env now i s) (same_challenge s)"
  unfolding refresh_step_def [abs_def]
  by (intro yields_option yields_Inl yields_outside_session) (auto dest: well_behavedD)

lemma yields_eligible:
  "well_behaved env \<Longrightarrow> yields env A (is_step_eligible env st s) (\<lambda>(b, s'). same_challenge s s')"
  unfolding is_step_eligible_def [abs_def]
  by (intro yields_option yields_Inl yields_Inr yields_outside) (auto dest: well_behavedD)

lemma yields_on_passed: "well_behaved env \<Longrightarrow> yields env A (outside (ce_on_passed env s)) (same_challenge s)"
  by (rule yields_outside_session) (auto dest: well_behavedD)

lemma yields_trigger_allowed: "yields env A (ensure_step_trigger_allowed env now s i) (\<lambda>_. True)"
  unfolding ensure_step_trigger_allowed_def [abs_def]
  by (intro yields_if yields_Inr yields_then_do [OF yields_throttling(1)] yields_option yields_Inl TrueI)

lemma note_trigger_same: "same_challenge s (note_trigger now i s)"
  by (simp add: note_trigger_def same_challenge_def email_otp_trigger_context_key_def)

lemma yields_record_trigger: "yields env A (record_step_trigger env now i s) (same_challenge s)"
  unfolding record_step_trigger_def [abs_def] Let_def
  by (intro yields_if yields_Inr yields_then_do [OF yields_throttling(3)] note_trigger_same)

section \<open>Answers and refreshes\<close>

text \<open>
  Triples for one start: from the world \<open>w\<close> the operation keeps the store in order, and what it returns
  satisfies \<open>Q\<close> together with the world it leaves.
\<close>

definition yields_at ::
    "'w challenge_env \<Rightarrow> answer set \<Rightarrow> 'w challenge_world \<Rightarrow> ('a, 'w) action \<Rightarrow> ('a \<Rightarrow> 'w challenge_world \<Rightarrow> bool) \<Rightarrow> bool" where
  "yields_at env A w f Q \<longleftrightarrow>
     (store_ok env A w \<longrightarrow> store_ok env A (snd (f w)) \<and> (\<forall>x. fst (f w) = Inr x \<longrightarrow> Q x (snd (f w))))"

lemma at_yields: "yields env A f Q \<Longrightarrow> yields_at env A w f (\<lambda>x w'. Q x)"
  by (simp add: yields_def yields_at_def)

lemma at_Inl: "yields_at env A w (\<lambda>w. (Inl e, w)) Q"
  by (simp add: yields_at_def)

lemma at_Inr: "Q x w \<Longrightarrow> yields_at env A w (\<lambda>w. (Inr x, w)) Q"
  by (simp add: yields_at_def)

lemma at_then_do:
  assumes "yields env A f P" "\<And>x w'. f w = (Inr x, w') \<Longrightarrow> P x \<Longrightarrow> yields_at env A w' (g x) Q"
  shows "yields_at env A w (\<lambda>w. then_do (f w) g) Q"
  using assms by (cases "f w"; cases "fst (f w)") (auto simp: yields_at_def yields_def)

lemma at_if:
  "(b \<Longrightarrow> yields_at env A w f Q) \<Longrightarrow> (\<not> b \<Longrightarrow> yields_at env A w g Q) \<Longrightarrow>
     yields_at env A w (\<lambda>w. if b then f w else g w) Q"
  by (cases b) simp_all

lemma at_option:
  "(x = None \<Longrightarrow> yields_at env A w f Q) \<Longrightarrow> (\<And>y. x = Some y \<Longrightarrow> yields_at env A w (g y) Q) \<Longrightarrow>
     yields_at env A w (\<lambda>w. case x of None \<Rightarrow> f w | Some y \<Rightarrow> g y w) Q"
  by (cases x) simp_all

lemma at_result:
  "(\<And>e. x = Inl e \<Longrightarrow> yields_at env A w (f e) Q) \<Longrightarrow> (\<And>y. x = Inr y \<Longrightarrow> yields_at env A w (g y) Q) \<Longrightarrow>
     yields_at env A w (\<lambda>w. case x of Inl e \<Rightarrow> f e w | Inr y \<Rightarrow> g y w) Q"
  by (cases x) simp_all

text \<open>A token is delivered when the store holds the passed session that it was signed for.\<close>

definition delivered :: "'w challenge_env \<Rightarrow> string \<Rightarrow> respond_response \<Rightarrow> 'w challenge_world \<Rightarrow> bool" where
  "delivered env ident r w \<longleftrightarrow>
     (rr_proof_token r \<noteq> [] \<longrightarrow>
        (\<exists>s d. cw_sessions w (challenge_session_cache_key ident) = Some (s, d) \<and>
           session_state s = ChallengePassed \<and> signed_for env s (rr_proof_token r)))"

lemma delivered_without_token [simp]:
  "delivered env ident (throttled_response s i d) w" "delivered env ident (failure_response a b now s i) w"
  "delivered env ident (progress_response s) w"
  by (simp_all add: delivered_def throttled_response_def failure_response_def progress_response_def)

text \<open>The session at hand is the one of the challenge that the request names.\<close>

definition of_challenge :: "string \<Rightarrow> challenge_session \<Rightarrow> bool" where
  "of_challenge ident s \<longleftrightarrow>
     challenge_session_cache_key (challenge_identifier s) = challenge_session_cache_key ident"

lemma at_passed_response:
  assumes rel: "reliable env A s" and passed: "session_state s = ChallengePassed" and ident: "of_challenge ident s"
    and stored: "\<exists>d. cw_sessions w (challenge_session_cache_key ident) = Some (s, d)"
  shows "yields_at env A w (build_passed_response env now jti s) (delivered env ident)"
proof -
  have fresh: "yields_at env A w (\<lambda>w. then_do (save_session now
        (s\<lparr>session_context := (session_context s)(''proofToken'' \<mapsto> AStr raw)\<rparr>) w)
        (\<lambda>_ w1. (Inr (passed_response raw), w1))) (delivered env ident)"
    if sign: "ce_sign env (proof_claims_of env now jti s) = Inr raw" for raw
  proof -
    let ?s = "s\<lparr>session_context := (session_context s)(''proofToken'' \<mapsto> AStr raw)\<rparr>"
    have "issued_for ?s = issued_for s" by (simp add: fun_eq_iff issued_for_def)
    then have signed: "signed_for env ?s raw" "signed_for env ?s (trim_space raw)"
      using sign proof_claims_issued [of s env now jti] by (auto simp: signed_for_def)
    have "same_progress s ?s" by (simp add: same_progress_def)
    then have "in_progress ?s" using rel same_progress_inv [of s ?s]
      by (simp add: in_progress_def reliable_def)
    then have "reliable env A ?s"
      using rel passed signed(2) by (simp add: reliable_def supports_def step_shape_def vouched_def cached_token_def)
    then show ?thesis
    proof (rule at_then_do [OF yields_save])
      fix u w' assume "save_session now ?s w = (Inr u, w')"
      from saved_session [OF this] ident signed(1) passed
      show "yields_at env A w' (\<lambda>w1. (Inr (passed_response raw), w1)) (delivered env ident)"
        by (intro at_Inr) (auto simp: delivered_def passed_response_def of_challenge_def)
    qed
  qed
  show ?thesis
    unfolding build_passed_response_def [abs_def] Let_def
    using rel stored passed
    by (intro at_if at_Inr at_result at_Inl fresh)
      (auto simp: delivered_def passed_response_def reliable_def cached_token_def)
qed

lemma find_step_bound: "find_step s ident now = Inr i \<Longrightarrow> i < length (steps s)"
  by (auto simp: find_step_def current_step_open split: if_split_asm option.splits dest: find_index_SomeD)

lemma at_respond_wrong:
  assumes "reliable env A s" "session_state s = ChallengePending" "i < length (steps s)" "is_verifiable (steps s ! i)"
  shows "yields_at env A w (respond_wrong env now keys i s) (delivered env ident)"
  unfolding respond_wrong_def [abs_def] Let_def
  by (intro at_then_do [OF yields_throttling(2)] at_then_do [OF yields_save] at_option at_if at_Inr)
    (simp_all add: reliable_failure assms)

lemma at_respond_right:
  assumes good: "well_behaved env" and ident: "of_challenge ident s"
    and rel: "reliable env A s" "session_state s = ChallengePending" "i < length (steps s)" "is_verifiable (steps s ! i)"
    and answered: "(challenge_identifier s, step_identifier (steps s ! i), challenge_type (steps s ! i)) \<in> A"
  shows "yields_at env A w (respond_right env now jti keys i s) (delivered env ident)"
proof -
  let ?s1 = "mark_step_success i now s"
  have rel1: "reliable env A ?s1" by (rule reliable_success [OF rel answered])
  have finish: "yields env A (\<lambda>w. if session_state ?s1 = ChallengePassed then outside (ce_on_passed env ?s1) w else (Inr ?s1, w))
      (same_challenge ?s1)"
    by (intro yields_if yields_on_passed [OF good] yields_Inr) simp
  have saved: "yields_at env A w2 (\<lambda>w2. then_do (save_session now s2 w2) (\<lambda>_ w3.
        if session_state s2 = ChallengePassed then build_passed_response env now jti s2 w3
        else (Inr (progress_response s2), w3))) (delivered env ident)"
    if same: "same_challenge ?s1 s2" for s2 w2
  proof -
    have rel2: "reliable env A s2" by (rule same_challenge_reliable [OF same rel1])
    have of2: "of_challenge ident s2"
      using ident same_challenge_fields [OF same] by (simp add: of_challenge_def)
    show ?thesis
    proof (rule at_then_do [OF yields_save [OF rel2]])
      fix u w' assume "save_session now s2 w2 = (Inr u, w')"
      from saved_session [OF this] of2
      have "\<exists>d. cw_sessions w' (challenge_session_cache_key ident) = Some (s2, d)" by (simp add: of_challenge_def)
      then show "yields_at env A w' (\<lambda>w3. if session_state s2 = ChallengePassed then build_passed_response env now jti s2 w3
          else (Inr (progress_response s2), w3)) (delivered env ident)"
        by (intro at_if at_passed_response [OF rel2 _ of2] at_Inr) simp_all
    qed
  qed
  show ?thesis
    unfolding respond_right_def [abs_def] Let_def
    by (rule at_then_do [OF yields_clear_failures], rule at_then_do [OF finish], rule saved)
qed

lemma same_challenge_step:
  assumes "same_challenge s s'" "i < length (steps s)"
  shows "bare_hints (steps s' ! i) = bare_hints (steps s ! i)"
proof -
  have "map bare_hints (steps s') ! i = map bare_hints (steps s) ! i"
    using assms(1) by (simp only: same_challenge_def)
  then show ?thesis using assms(2) same_challenge_length [OF assms(1)] by simp
qed

lemma same_challenge_open:
  assumes "same_challenge s s'" "i < length (steps s)"
  shows "is_verifiable (steps s' ! i) = is_verifiable (steps s ! i)"
    "step_identifier (steps s' ! i) = step_identifier (steps s ! i)"
    "challenge_type (steps s' ! i) = challenge_type (steps s ! i)"
proof -
  note eq = same_challenge_step [OF assms]
  have "step_state (bare_hints (steps s' ! i)) = step_state (bare_hints (steps s ! i))" by (simp add: eq)
  then show "is_verifiable (steps s' ! i) = is_verifiable (steps s ! i)" by (simp add: is_verifiable_def bare_hints_def)
  show "step_identifier (steps s' ! i) = step_identifier (steps s ! i)"
    "challenge_type (steps s' ! i) = challenge_type (steps s ! i)"
    using eq bare_hints_selectors(2,4) by metis+
qed

text \<open>
  The answer that a request gives and the provider accepts, if it does: the commands of the request up
  to the verdict of the provider, on the session they read.
\<close>

definition pending_verdict ::
    "'w challenge_env \<Rightarrow> time \<Rightarrow> string \<Rightarrow> anymap \<Rightarrow> challenge_session \<Rightarrow> (answer option, 'w) action" where
  "pending_verdict env now step payload s w =
     (case find_step s step now of
        Inl e \<Rightarrow> (Inl e, w)
      | Inr i \<Rightarrow>
          if \<not> is_verifiable (steps s ! i) \<or> 0 < remaining_cooldown_seconds (steps s ! i) now then (Inr None, w)
          else then_do (check_throttle env now (challenge_throttle_keys s (steps s ! i)) w) (\<lambda>decision w1.
               if decision \<noteq> None then (Inr None, w1)
               else then_do (verify_step env now i payload s w1) (\<lambda>(verified, s1) w2.
                    (Inr (if verified
                          then Some (challenge_identifier s, step_identifier (steps s ! i), challenge_type (steps s ! i))
                          else None), w2))))"

definition accepted_answer ::
    "'w challenge_env \<Rightarrow> time \<Rightarrow> string \<Rightarrow> string \<Rightarrow> string \<Rightarrow> anymap \<Rightarrow> 'w challenge_world \<Rightarrow> answer option" where
  "accepted_answer env now token ident step payload w =
     (case fst (then_do (acquire_submit_lock now token ident (15 * second) w) (\<lambda>locked w1.
              if \<not> locked then (Inr None, w1)
              else then_do (get_session now ident w1) (\<lambda>s w2.
                   if is_expired s now \<or> session_state s \<noteq> ChallengePending then (Inr None, w2)
                   else pending_verdict env now step payload s w2)))
      of Inl e \<Rightarrow> None | Inr verdict \<Rightarrow> verdict)"

lemma at_respond_pending:
  assumes good: "well_behaved env" and rel: "reliable env A s" and pend: "session_state s = ChallengePending"
    and ident: "of_challenge ident s"
    and heard: "\<And>a. fst (pending_verdict env now step payload s w) = Inr (Some a) \<Longrightarrow> a \<in> A"
  shows "yields_at env A w (respond_pending env now jti step payload s) (delivered env ident)"
proof -
  have answer: "yields_at env A w2 (\<lambda>w2. if verified then respond_right env now jti keys i s1 w2
      else respond_wrong env now keys i s1 w2) (delivered env ident)"
    if "find_step s step now = Inr i" "is_verifiable (steps s ! i)" "same_challenge s s1"
      "verified \<longrightarrow> (challenge_identifier s, step_identifier (steps s ! i), challenge_type (steps s ! i)) \<in> A"
    for verified keys i s1 w2
  proof -
    have i: "i < length (steps s)" by (rule find_step_bound [OF that(1)])
    note same = same_challenge_fields [OF that(3)] same_challenge_open [OF that(3) i] same_challenge_length [OF that(3)]
    have s1: "reliable env A s1" "session_state s1 = ChallengePending" "i < length (steps s1)"
      "is_verifiable (steps s1 ! i)" "of_challenge ident s1"
      using that rel pend ident i same by (simp_all add: same_challenge_reliable [OF that(3)] of_challenge_def)
    show ?thesis
      using that(4)
      by (intro at_if at_respond_right [OF good s1(5,1-4)] at_respond_wrong [OF s1(1-4)]) (simp add: same)
  qed
  have judged: "yields_at env A w1 (\<lambda>w1. then_do (verify_step env now i payload s w1) (\<lambda>(verified, s1) w2.
      if verified then respond_right env now jti (challenge_throttle_keys s (steps s ! i)) i s1 w2
      else respond_wrong env now (challenge_throttle_keys s (steps s ! i)) i s1 w2)) (delivered env ident)"
    if i: "find_step s step now = Inr i" and ready: "is_verifiable (steps s ! i)"
      "\<not> 0 < remaining_cooldown_seconds (steps s ! i) now"
      and calm: "check_throttle env now (challenge_throttle_keys s (steps s ! i)) w = (Inr None, w1)" for i w1
  proof (rule at_then_do [OF yields_verify [OF good]], clarify)
    fix verified s1 w2
    assume verdict: "verify_step env now i payload s w1 = (Inr (verified, s1), w2)" and same: "same_challenge s s1"
    have "(challenge_identifier s, step_identifier (steps s ! i), challenge_type (steps s ! i)) \<in> A" if verified
      using that ready by (intro heard) (simp add: pending_verdict_def i calm verdict)
    then show "yields_at env A w2 (\<lambda>w2. if verified then respond_right env now jti (challenge_throttle_keys s (steps s ! i)) i s1 w2
        else respond_wrong env now (challenge_throttle_keys s (steps s ! i)) i s1 w2) (delivered env ident)"
      by (intro answer [OF i ready(1) same]) simp
  qed
  show ?thesis
    unfolding respond_pending_def [abs_def] Let_def
    by (intro at_result at_Inl at_if at_Inr delivered_without_token at_then_do [OF yields_throttling(1)] at_option judged)
      simp_all
qed

lemma reliable_expired: "reliable env A s \<Longrightarrow> reliable env A (s\<lparr>session_state := ChallengeExpired, failure_code := c\<rparr>)"
  by (simp add: reliable_def in_progress_def supports_def step_shape_def cached_token_def vouched_def
      signed_for_def issued_for_def)

lemma yields_expire: "reliable env A s \<Longrightarrow> yields env A (expire_session now s) Q"
  unfolding expire_session_def [abs_def]
  by (intro yields_then_do [OF yields_save [OF reliable_expired]] yields_Inl)

lemma yields_acquire: "yields env A (acquire_submit_lock now token ident ttl) (\<lambda>_. True)"
  unfolding acquire_submit_lock_def [abs_def] Let_def
  by (intro yields_if yields_Inl yields_other_command) (simp split: prod.split)

lemma yields_release: "yields env A (release_submit_lock now ident token) (\<lambda>_. True)"
  unfolding release_submit_lock_def [abs_def]
  by (intro yields_if yields_Inr yields_other_command) simp_all

lemma release_sessions: "cw_sessions (snd (release_submit_lock now ident token w)) = cw_sessions w"
proof (cases "blank ident \<or> blank token")
  case False
  then show ?thesis
    using command_state [of "\<lambda>w. (Inr (), w\<lparr>cw_texts :=
      snd (kv_compare_and_delete now (challenge_submit_lock_cache_key ident) token (cw_texts w))\<rparr>)" w]
    by (auto simp: release_submit_lock_def)
qed (simp add: release_submit_lock_def)

lemma yields_locked: "yields env A f Q \<Longrightarrow> yields env A (under_submit_lock now token ident f) Q"
proof -
  assume f: "yields env A f Q"
  have "yields env A (\<lambda>w1. let (r, w2) = f w1 in (r, snd (release_submit_lock now ident token w2))) Q"
    using f yields_release [of env A now ident token]
    by (simp add: yields_def Let_def split: prod.split) (metis fst_conv snd_conv)
  then show ?thesis
    unfolding under_submit_lock_def [abs_def]
    by (intro yields_then_do [OF yields_acquire] yields_if yields_Inl)
qed

lemma at_respond_locked:
  assumes good: "well_behaved env"
    and heard: "\<And>s w2 a. get_session now ident w = (Inr s, w2) \<Longrightarrow> \<not> is_expired s now \<Longrightarrow>
      session_state s = ChallengePending \<Longrightarrow> fst (pending_verdict env now step payload s w2) = Inr (Some a) \<Longrightarrow> a \<in> A"
  shows "yields_at env A w (respond_locked env now jti ident step payload) (delivered env ident)"
  unfolding yields_at_def
proof
  assume ok: "store_ok env A w"
  have "yields_at env A w (respond_locked env now jti ident step payload) (delivered env ident)"
    unfolding respond_locked_def [abs_def]
  proof (rule at_then_do [OF yields_get_session])
    fix s w1
    assume got: "get_session now ident w = (Inr s, w1)" and rel: "reliable env A s"
    have "store_ok env A w1"
      using yields_get_session [of env A now ident] ok got by (metis yields_def snd_conv)
    with got_session [OF got] have of_s: "of_challenge ident s"
      unfolding of_challenge_def store_ok_def by metis
    show "yields_at env A w1 (\<lambda>w1. if is_expired s now then expire_session now s w1
        else case session_state s of
                ChallengePassed \<Rightarrow> build_passed_response env now jti s w1
              | ChallengePending \<Rightarrow> respond_pending env now jti step payload s w1
              | _ \<Rightarrow> (Inl not_continuable, w1)) (delivered env ident)"
    proof (rule at_if)
      show "yields_at env A w1 (expire_session now s) (delivered env ident)"
        using yields_expire [OF rel, of now "\<lambda>_. False"] by (auto simp: yields_def yields_at_def)
      assume "\<not> is_expired s now"
      then show "yields_at env A w1 (\<lambda>w1. case session_state s of
                ChallengePassed \<Rightarrow> build_passed_response env now jti s w1
              | ChallengePending \<Rightarrow> respond_pending env now jti step payload s w1
              | _ \<Rightarrow> (Inl not_continuable, w1)) (delivered env ident)"
        using heard [OF got] got_session [OF got]
        by (cases "session_state s")
          (auto intro!: at_Inl at_passed_response [OF rel _ of_s] at_respond_pending [OF good rel _ of_s])
    qed
  qed
  with ok show "store_ok env A (snd (respond_locked env now jti ident step payload w)) \<and>
      (\<forall>x. fst (respond_locked env now jti ident step payload w) = Inr x \<longrightarrow>
         delivered env ident x (snd (respond_locked env now jti ident step payload w)))"
    by (simp add: yields_at_def)
qed

lemma at_respond:
  assumes good: "well_behaved env" and heard: "set_option (accepted_answer env now token ident step payload w) \<subseteq> A"
  shows "yields_at env A w (respond env now token jti ident step payload) (delivered env ident)"
  unfolding respond_def under_submit_lock_def [abs_def]
proof (rule at_then_do [OF yields_acquire], rule at_if)
  fix locked w1
  assume lock: "acquire_submit_lock now token ident (15 * second) w = (Inr locked, w1)"
  show "yields_at env A w1 (\<lambda>w1. (Inl e, w1)) (delivered env ident)" for e by (rule at_Inl)
  assume "\<not> \<not> locked"
  let ?body = "respond_locked env now jti ident step payload"
  have "yields_at env A w1 ?body (delivered env ident)"
  proof (rule at_respond_locked [OF good])
    fix s w2 a
    assume "get_session now ident w1 = (Inr s, w2)" "\<not> is_expired s now" "session_state s = ChallengePending"
      "fst (pending_verdict env now step payload s w2) = Inr (Some a)"
    then have "accepted_answer env now token ident step payload w = Some a"
      using \<open>\<not> \<not> locked\<close> by (simp add: accepted_answer_def lock)
    with heard show "a \<in> A" by simp
  qed
  moreover have "delivered env ident r (snd (release_submit_lock now ident token w2)) = delivered env ident r w2" for r w2
    by (simp add: delivered_def release_sessions)
  ultimately show "yields_at env A w1 (\<lambda>w1. let (r, w2) = ?body w1 in (r, snd (release_submit_lock now ident token w2)))
      (delivered env ident)"
    using yields_release [of env A now ident token] by (auto simp: yields_at_def yields_def Let_def split: prod.split)
qed

lemma map_update_same:
  assumes "f (g (xs ! i)) = f (xs ! i)"
  shows "map f (xs[i := g (xs ! i)]) = map f xs"
proof (cases "i < length xs")
  case True
  then have "map f (xs[i := g (xs ! i)]) = (map f xs)[i := map f xs ! i]" by (simp add: map_update assms)
  then show ?thesis by simp
qed (simp add: not_less list_update_beyond)

lemma reliable_clear_cooldown:
  assumes "reliable env A s" "i < length (steps s)"
  shows "reliable env A (update_step i clear_cooldown s)"
proof -
  have bare: "map bare_step ((steps s)[i := clear_cooldown (steps s ! i)]) = map bare_step (steps s)"
    by (rule map_update_same) (simp add: bare_step_def clear_cooldown_def)
  have "same_progress s (update_step i clear_cooldown s)"
    using bare by (simp add: same_progress_def)
  then have "in_progress (update_step i clear_cooldown s)"
    using assms(1) same_progress_inv [of s "update_step i clear_cooldown s"]
    by (simp add: in_progress_def reliable_def)
  moreover have "step_shape (update_step i clear_cooldown s) = step_shape s"
    unfolding step_shape_def update_step_simps by (rule map_update_same) simp
  then have "supports (update_step i clear_cooldown s) = supports s"
    by (simp add: supports_def update_step_def)
  moreover have "map (\<lambda>st. (step_state st, step_identifier st, challenge_type st)) ((steps s)[i := clear_cooldown (steps s ! i)]) =
      map (\<lambda>st. (step_state st, step_identifier st, challenge_type st)) (steps s)"
    by (rule map_update_same) (simp add: clear_cooldown_def)
  then have "vouched A (update_step i clear_cooldown s) = vouched A s"
    by (simp add: vouched_bare update_step_def)
  moreover have "signed_for env (update_step i clear_cooldown s) = signed_for env s"
    by (rule signed_for_cong) (simp add: fun_eq_iff issued_for_def update_step_def)
  ultimately show ?thesis using assms(1) by (simp add: reliable_def cached_token_def)
qed

lemma yields_refresh_context:
  assumes "well_behaved env"
  shows "yields env A (ensure_refresh_throttle_context env i s) (same_challenge s)"
  unfolding ensure_refresh_throttle_context_def [abs_def]
  by (intro yields_if yields_Inr same_challenge_refl yields_then_do [OF yields_eligible [OF assms]])
    (auto intro!: yields_if yields_Inl yields_Inr)

lemma yields_refresh_pending:
  assumes good: "well_behaved env" and rel: "reliable env A s"
  shows "yields env A (refresh_pending env now step s) (\<lambda>_. True)"
proof -
  have main: "yields env A (\<lambda>w1. let cooldown = email_otp_resend_cooldown_seconds s1 (steps s1 ! i) now
          in if 0 < cooldown then (Inl (resend_throttled cooldown), w1)
             else then_do (ensure_step_trigger_allowed env now s1 i w1) (\<lambda>_ w2.
                  then_do (refresh_step env now i s1 w2) (\<lambda>s2 w3.
                  then_do (record_step_trigger env now i (update_step i clear_cooldown s2) w3) (\<lambda>s3 w4.
                  then_do (save_session now s3 w4) (\<lambda>_ w5. (Inr (to_start_response s3 now), w5)))))) (\<lambda>_. True)"
    if "find_step s step now = Inr i" "same_challenge s s1" for i s1
  proof -
    have s1: "reliable env A s1" "i < length (steps s1)"
      using same_challenge_reliable [OF that(2) rel] find_step_bound [OF that(1)] same_challenge_length [OF that(2)]
      by simp_all
    have "reliable env A s3" if "same_challenge s1 s2" "same_challenge (update_step i clear_cooldown s2) s3" for s2 s3
      using that s1 same_challenge_reliable [OF that(1) s1(1)] same_challenge_length [OF that(1)]
      by (intro same_challenge_reliable [OF that(2)] reliable_clear_cooldown) simp_all
    then show ?thesis
      unfolding Let_def
      by (intro yields_if yields_Inl yields_then_do [OF yields_trigger_allowed]
          yields_then_do [OF yields_refresh [OF good]] yields_then_do [OF yields_record_trigger]
          yields_then_do [OF yields_save] yields_Inr) simp_all
  qed
  show ?thesis
    unfolding refresh_pending_def [abs_def]
    by (intro yields_result yields_Inl yields_then_do [OF yields_refresh_context [OF good]]) (rule main)
qed

lemma yields_refresh_challenge:
  assumes good: "well_behaved env"
  shows "yields env A (refresh_challenge env now token ident step) (\<lambda>_. True)"
  unfolding refresh_challenge_def
proof (rule yields_locked)
  show "yields env A (refresh_locked env now ident step) (\<lambda>_. True)"
    unfolding refresh_locked_def [abs_def]
    by (intro yields_then_do [OF yields_get_session] yields_if yields_expire yields_Inl yields_refresh_pending [OF good])
qed

end
