(* ===== verification/Challenge_Properties.thy ===== *)
theory Challenge_Properties
  imports Challenge_Safety
begin

text \<open>
  Properties of the challenge service: sessions start reliable, tokens are earned, throttled and
  locked requests test no answer, and what the proof of a registration can satisfy.
\<close>

section \<open>Starting a session\<close>

definition waiting_step :: "challenge_step \<Rightarrow> bool" where
  "waiting_step st \<longleftrightarrow>
     attempt_number st = 0 \<and> 1 \<le> max_attempts st \<and> 1 \<le> slot_number st \<and>
     step_state st = (if slot_number st = 1 then StepInProgress else StepPending)"

definition new_session :: "business_action \<Rightarrow> string list \<Rightarrow> challenge_session \<Rightarrow> bool" where
  "new_session a expected s \<longleftrightarrow>
     session_state s = ChallengePending \<and> authentication_method_names s = [] \<and>
     business_action_of (trim_space (session_business_action s)) = Some a \<and> distinct_steps s \<and>
     (\<forall>st \<in> set (steps s). waiting_step st \<and>
        (\<exists>q. (challenge_type st, q, slot_number st) \<in> set (step_plan_of a expected))) \<and>
     cached_token s = []"

lemma waiting_bare_hints [simp]: "waiting_step (bare_hints st) = waiting_step st"
  by (simp add: waiting_step_def bare_hints_def)

lemma same_challenge_new:
  assumes "same_challenge s s'" "new_session a expected s"
  shows "new_session a expected s'"
proof -
  let ?P = "\<lambda>st. waiting_step st \<and> (\<exists>q. (challenge_type st, q, slot_number st) \<in> set (step_plan_of a expected))"
  have "map ?P (steps s') = map ?P (steps s)"
    by (rule same_challenge_map [OF assms(1)]) (simp add: bare_hints_selectors)
  moreover have ball: "(\<forall>st \<in> set xs. ?P st) \<longleftrightarrow> False \<notin> set (map ?P xs)" for xs by auto
  ultimately have "(\<forall>st \<in> set (steps s'). ?P st) = (\<forall>st \<in> set (steps s). ?P st)"
    by (simp only: ball)
  moreover have "distinct_steps s' = distinct_steps s"
    using same_challenge_map [OF assms(1), of step_identifier] by (simp add: distinct_steps_def bare_hints_selectors)
  moreover have "cached_token s' = cached_token s" using assms(1) by (simp add: cached_token_def same_challenge_def)
  ultimately show ?thesis using assms(2) same_challenge_fields [OF assms(1)] by (simp add: new_session_def)
qed

lemma plan_slots: "(t, q, j) \<in> set (step_plan_of a expected) \<Longrightarrow> 1 \<le> j"
proof -
  have "list_all (\<lambda>(t, q, j). 1 \<le> j) (step_plan_of a expected)"
    by (cases a)
      (simp_all add: profile_update_plan_def recovery_plan_def privileged_plan_def)
  then show "(t, q, j) \<in> set (step_plan_of a expected) \<Longrightarrow> 1 \<le> j" by (auto simp: list_all_iff)
qed

lemma challenge_limits_pos: "1 \<le> fst (challenge_limits cfg t)"
  by (cases t) (simp_all add: challenge_limits_def default_positive_def)

lemma put_other [simp]:
  "k \<noteq> k' \<Longrightarrow> any_get (put_if k v m) k' = any_get m k'"
  "k \<noteq> k' \<Longrightarrow> any_get (put_unless_empty k x m) k' = any_get m k'"
  by (simp_all add: put_if_def put_unless_empty_def split: option.split)

lemma built_context_token: "any_get (build_context policy request) ''proofToken'' = ANil"
  by (simp add: build_context_def Let_def)

lemma built_new:
  assumes "business_action_of (trim_space (sr_business_action request)) = Some a"
    and "distinct (map step_identifier (build_steps cfg fresh (sr_business_action request) (sr_expected_challenge_types request)))"
  shows "new_session a (sr_expected_challenge_types request) (build_session cfg fresh policy request now)"
proof -
  let ?s = "build_session cfg fresh policy request now"
  have steps: "steps ?s = build_steps cfg fresh (sr_business_action request) (sr_expected_challenge_types request)"
    by (simp add: build_session_def Let_def)
  have "waiting_step st \<and> (\<exists>q. (challenge_type st, q, slot_number st) \<in> set (step_plan_of a (sr_expected_challenge_types request)))"
    if "st \<in> set (steps ?s)" for st
  proof -
    from that obtain i t q j where st: "st = build_step cfg (fresh (Suc i)) t q j"
      and "(i, t, q, j) \<in> set (enumerate 0 (step_plan_of a (sr_expected_challenge_types request)))"
      unfolding steps build_steps_def plan_steps_def using assms(1) by auto
    then have mem: "(t, q, j) \<in> set (step_plan_of a (sr_expected_challenge_types request))"
      by (auto simp: in_set_enumerate_eq) (metis nth_mem)
    with plan_slots [OF mem] challenge_limits_pos [of cfg t] show ?thesis
      by (auto simp: st build_step_def waiting_step_def)
  qed
  moreover have "session_context ?s = build_context policy request"
    "session_business_action ?s = trim_space (sr_business_action request)"
    by (simp_all add: build_session_def Let_def refresh_recommended_step_identifier_def split: option.split)
  moreover have "session_state ?s = ChallengePending" "authentication_method_names ?s = []"
    by (simp_all add: build_session_def Let_def)
  moreover have "trim_space (sr_business_action request) = action_name a"
    using business_action_of_SomeD [OF assms(1)] by simp
  moreover have "trim_space [] = []" by (simp add: trim_space_def)
  ultimately show ?thesis
    using assms(2) steps by (simp add: new_session_def distinct_steps_def cached_token_def built_context_token)
qed

lemma yields_eligible_steps:
  assumes "well_behaved env"
  shows "yields env A (eligible_steps env sts s) (\<lambda>(kept, s'). same_challenge s s' \<and> set kept \<subseteq> set sts \<and>
    (distinct (map step_identifier sts) \<longrightarrow> distinct (map step_identifier kept)))"
proof (induction sts arbitrary: s)
  case (Cons st sts)
  have eq: "eligible_steps env (st # sts) s = (\<lambda>w. then_do (is_step_eligible env st s w) (\<lambda>(ok, s1) w1.
       then_do (eligible_steps env sts s1 w1) (\<lambda>(kept, s2) w2. (Inr (if ok then st # kept else kept, s2), w2))))"
    by (rule ext) simp
  show ?case
    unfolding eq
  proof (rule yields_then_do [OF yields_eligible [OF assms]], clarify)
    fix ok s1 assume s1: "same_challenge s s1"
    show "yields env A (\<lambda>w1. then_do (eligible_steps env sts s1 w1)
        (\<lambda>(kept, s2) w2. (Inr (if ok then st # kept else kept, s2), w2)))
      (\<lambda>(kept, s'). same_challenge s s' \<and> set kept \<subseteq> set (st # sts) \<and>
        (distinct (map step_identifier (st # sts)) \<longrightarrow> distinct (map step_identifier kept)))"
      by (rule yields_then_do [OF Cons.IH], clarify, rule yields_Inr)
        (use s1 in \<open>auto intro: same_challenge_trans\<close>)
  qed
qed (simp add: yields_def)

lemma refresh_recommended_frame [simp]:
  "session_business_action (refresh_recommended_step_identifier now s) = session_business_action s"
  "session_context (refresh_recommended_step_identifier now s) = session_context s"
  by (simp_all add: refresh_recommended_step_identifier_def split: option.split)

lemma refresh_recommended_identity [simp]:
  "challenge_identifier (refresh_recommended_step_identifier now s) = challenge_identifier s"
  "expires_at (refresh_recommended_step_identifier now s) = expires_at s"
  "subject_identifier (refresh_recommended_step_identifier now s) = subject_identifier s"
  "effective_ttl_seconds (refresh_recommended_step_identifier now s) = effective_ttl_seconds s"
  "issuing_service_name (refresh_recommended_step_identifier now s) = issuing_service_name s"
  "audience_service_names (refresh_recommended_step_identifier now s) = audience_service_names s"
  "flow_nonce (refresh_recommended_step_identifier now s) = flow_nonce s"
  by (simp_all add: refresh_recommended_step_identifier_def split: option.split)

lemma new_session_refresh [simp]:
  "new_session a expected (refresh_recommended_step_identifier now s) = new_session a expected s"
  by (simp add: new_session_def distinct_steps_def cached_token_def)

lemma yields_filter:
  assumes good: "well_behaved env" and new: "new_session a expected s"
  shows "yields env A (filter_eligible_steps env now s) (\<lambda>s'. new_session a expected s' \<and> some_open s')"
  unfolding filter_eligible_steps_def [abs_def]
proof (rule yields_then_do [OF yields_eligible_steps [OF good]], clarify)
  fix kept s1
  assume s1: "same_challenge s s1" and kept: "set kept \<subseteq> set (steps s)"
    "distinct (map step_identifier (steps s)) \<longrightarrow> distinct (map step_identifier kept)"
  let ?s2 = "refresh_recommended_step_identifier now (s1\<lparr>steps := kept\<rparr>)"
  have "new_session a expected s1" by (rule same_challenge_new [OF s1 new])
  then have "new_session a expected (s1\<lparr>steps := kept\<rparr>)"
    using kept new by (auto simp: new_session_def distinct_steps_def cached_token_def)
  then have "current_step ?s2 now \<noteq> None \<Longrightarrow> new_session a expected ?s2 \<and> some_open ?s2"
    using current_step_open by (force simp: some_open_def)
  then show "yields env A (\<lambda>w1. let s2 = ?s2 in if current_step s2 now = None then (Inl no_method_available, w1) else (Inr s2, w1))
      (\<lambda>s'. new_session a expected s' \<and> some_open s')"
    unfolding Let_def by (intro yields_if yields_Inl yields_Inr) simp_all
qed

lemma new_session_reliable:
  assumes new: "new_session a expected s" and "some_open s"
    and req: "set (required_proof_methods (challenge_action_policies a)) \<subseteq> challenge_type ` set (steps s)"
  shows "reliable env A s"
proof -
  have waiting: "waiting_step st" if "st \<in> set (steps s)" for st using new that by (simp add: new_session_def)
  have open_states: "step_state st \<noteq> StepCompleted" if "st \<in> set (steps s)" for st
    using waiting [OF that] by (auto simp: waiting_step_def split: if_split_asm)
  then have "\<not> completed_in s j" for j by (auto simp: completed_in_def)
  moreover have "completed_methods s = []" using open_states by (auto simp: completed_methods_def filter_empty_conv)
  moreover have "step_in_slot 1 st" if "st \<in> set (steps s)" for st
    using waiting [OF that] by (auto simp: waiting_step_def step_in_slot_def can_retry_def)
  ultimately have "session_inv 1 s" using new assms(2) by (simp add: session_inv_def new_session_def)
  then have "in_progress s" by (auto simp: in_progress_def)
  moreover have "vouched A s" using open_states by (auto simp: vouched_def)
  moreover have policy: "lookup_challenge_action_policy (session_business_action s) = Some (challenge_action_policies a)"
    using new by (simp add: new_session_def lookup_challenge_action_policy_def)
  have "step_support (challenge_action_policies a) (step_shape s)" if "a \<noteq> ActRegisterAccount"
    by (rule plan_support [OF all_plans_support [OF that, of expected]])
      (use new req in \<open>auto simp: step_shape_def new_session_def image_image\<close>)
  then have "supports s"
    unfolding supports_def policy option.inject using p_action_policies [of a] by metis
  ultimately show ?thesis using new by (simp add: reliable_def new_session_def)
qed

lemma yields_each_step:
  assumes "\<And>i s. yields env A (f i s) (same_challenge s)"
  shows "yields env A (each_step f is s) (same_challenge s)"
proof (induction "is" arbitrary: s)
  case (Cons i "is")
  have eq: "each_step f (i # is) s = (\<lambda>w. then_do (f i s w) (\<lambda>s1 w1. each_step f is s1 w1))" by (rule ext) simp
  show ?case
    unfolding eq
  proof (rule yields_then_do [OF assms])
    fix s1 assume "same_challenge s s1"
    with Cons.IH show "yields env A (each_step f is s1) (same_challenge s)"
      using yields_weaken same_challenge_trans by metis
  qed
qed (simp add: yields_def)

lemma yields_open_session:
  assumes good: "well_behaved env" and new: "new_session a expected built"
  shows "yields env A (open_session env (challenge_action_policies a) now key built) (\<lambda>_. True)"
proof -
  have allowed: "yields env A (\<lambda>w. then_do (ensure_step_trigger_allowed env now s i w) (\<lambda>_ w. (Inr s, w))) (same_challenge s)" for i s
    by (intro yields_then_do [OF yields_trigger_allowed] yields_Inr) simp
  have bind: "yields env A (bind_idempotency_key now key ident ttl) (\<lambda>_. True)" for ident ttl
    unfolding bind_idempotency_key_def [abs_def] by (intro yields_if yields_Inl yields_other_command) simp
  have rel: "reliable env A s4" if "new_session a expected s1 \<and> some_open s1"
    "ensure_required_proof_steps_available s1 (challenge_action_policies a) = Inr u"
    "same_challenge s1 s2" "same_challenge s2 s3" "same_challenge s3 s4" for s1 s2 s3 s4 u
  proof -
    have "reliable env A s1"
      using that(1,2) by (intro new_session_reliable)
        (auto simp: ensure_required_proof_steps_available_def split: if_split_asm)
    then show ?thesis using that(3-5) same_challenge_reliable by blast
  qed
  have refreshed: "reliable env A (refresh_recommended_step_identifier now s)" if "reliable env A s" for s
  proof -
    have "same_progress s (refresh_recommended_step_identifier now s)" by (simp add: same_progress_def)
    from same_progress_inv [OF this] that show ?thesis
      by (simp add: reliable_def in_progress_def supports_def step_shape_def cached_token_def vouched_def
          signed_for_def issued_for_def)
  qed
  show ?thesis
    unfolding open_session_def [abs_def] Let_def
    by (intro yields_then_do [OF yields_filter [OF good new]] yields_result yields_Inl
        yields_then_do [OF yields_each_step [OF allowed]]
        yields_then_do [OF yields_each_step [OF yields_prepare [OF good]]]
        yields_then_do [OF yields_each_step [OF yields_record_trigger]]
        yields_then_do [OF yields_save] yields_then_do [OF bind] yields_Inr refreshed)
      (auto intro: rel)
qed

lemma yields_start:
  assumes good: "well_behaved env"
    and ids: "distinct (map step_identifier
      (build_steps (ce_config env) fresh (sr_business_action request) (sr_expected_challenge_types request)))"
  shows "yields env A (start_challenge env fresh now request) (\<lambda>_. True)"
proof -
  have read: "yields env A (get_session_by_idempotency_key now k) (\<lambda>_. True)" for k
    unfolding get_session_by_idempotency_key_def [abs_def]
    by (intro yields_if yields_Inr yields_other_command) simp_all
  have new: "yields env A (\<lambda>w1. then_do (open_session env policy now key (build_session (ce_config env) fresh policy request now) w1)
      (\<lambda>s w2. (Inr (to_start_response s now), w2))) (\<lambda>_. True)"
    if found: "lookup_challenge_action_policy (sr_business_action request) = Some policy" for policy key
  proof -
    obtain a where a: "business_action_of (trim_space (sr_business_action request)) = Some a"
        "policy = challenge_action_policies a"
      using found by (auto simp: lookup_challenge_action_policy_def)
    show ?thesis
      unfolding a(2)
      by (intro yields_then_do [OF yields_open_session [OF good built_new [OF a(1) ids]]] yields_Inr TrueI)
  qed
  show ?thesis
    unfolding start_challenge_def [abs_def]
    by (intro yields_if yields_Inl yields_option yields_then_do [OF read] yields_then_do [OF yields_get_session]
        yields_Inr TrueI) (rule new)
qed

section \<open>Tokens are earned\<close>

text \<open>
  Requests in any order and number, with any failures of commands, and with them the log of the answers
  that providers accepted; between requests the rest of the store may change (locks and counters expire,
  failures are scheduled, providers' data changes), but not the sessions. The identifiers of the steps of
  one session are distinct, as fresh UUIDs make them.
\<close>

type_synonym 'w logged = "answer list \<times> 'w challenge_world"

definition heard :: "answer option \<Rightarrow> answer list \<Rightarrow> answer list" where
  "heard verdict log = (case verdict of None \<Rightarrow> log | Some a \<Rightarrow> a # log)"

inductive service_step :: "'w challenge_env \<Rightarrow> 'w logged \<Rightarrow> 'w logged \<Rightarrow> bool"
  for env :: "'w challenge_env" where
  started:
    "distinct (map step_identifier (build_steps (ce_config env) fresh (sr_business_action request)
        (sr_expected_challenge_types request))) \<Longrightarrow>
     service_step env (log, w) (log, snd (start_challenge env fresh now request w))"
| responded:
    "service_step env (log, w)
       (heard (accepted_answer env now token ident step payload w) log,
        snd (respond env now token jti ident step payload w))"
| refreshed: "service_step env (log, w) (log, snd (refresh_challenge env now token ident step w))"
| elsewhere: "cw_sessions w' = cw_sessions w \<Longrightarrow> service_step env (log, w) (log, w')"

definition log_ok :: "'w challenge_env \<Rightarrow> 'w logged \<Rightarrow> bool" where
  "log_ok env lw \<longleftrightarrow> store_ok env (set (fst lw)) (snd lw)"

lemma set_heard: "set (heard verdict log) = set_option verdict \<union> set log"
  by (simp add: heard_def split: option.split)

lemma heard_ok:
  assumes "well_behaved env" "log_ok env (log, w)"
  shows "store_ok env (set (heard (accepted_answer env now token ident step payload w) log))
      (snd (respond env now token jti ident step payload w))"
    "fst (respond env now token jti ident step payload w) = Inr r \<Longrightarrow>
      delivered env ident r (snd (respond env now token jti ident step payload w))"
proof -
  let ?A = "set (heard (accepted_answer env now token ident step payload w) log)"
  have "store_ok env ?A w" using assms(2) by (auto simp: log_ok_def set_heard intro: store_ok_mono)
  with at_respond [OF assms(1), of now token ident step payload w ?A jti]
  show "store_ok env ?A (snd (respond env now token jti ident step payload w))"
    "fst (respond env now token jti ident step payload w) = Inr r \<Longrightarrow>
      delivered env ident r (snd (respond env now token jti ident step payload w))"
    by (simp_all add: yields_at_def set_heard)
qed

lemma service_step_ok:
  assumes good: "well_behaved env"
  shows "service_step env lw lw' \<Longrightarrow> log_ok env lw \<Longrightarrow> log_ok env lw'"
proof (induction rule: service_step.induct)
  case (started fresh request log w now)
  with yields_start [OF good started(1), of "set log" now] show ?case by (simp add: yields_def log_ok_def)
next
  case (responded log w now token ident step payload jti)
  with heard_ok(1) [OF good] show ?case by (simp add: log_ok_def)
next
  case (refreshed log w now token ident step)
  with yields_refresh_challenge [OF good, of "set log" now token ident step] show ?case
    by (simp add: yields_def log_ok_def)
qed (simp add: store_ok_def log_ok_def)

lemma service_run_ok:
  assumes "well_behaved env"
  shows "(service_step env)\<^sup>*\<^sup>* lw lw' \<Longrightarrow> log_ok env lw \<Longrightarrow> log_ok env lw'"
  by (induction rule: rtranclp_induct) (use service_step_ok [OF assms] in blast)+

text \<open>An environment whose captcha is 7, a store without sessions, and a login.\<close>

definition sample_provider :: "unit step_provider" where
  "sample_provider =
     \<lparr>sp_prepare = (\<lambda>now i s x. (Inr s, x)),
      sp_verify = (\<lambda>now i m s x. (Inr (string_value (any_get m ''code'') = ''7'', s), x)),
      sp_eligible = None, sp_refresh = None\<rparr>"

definition sample_config :: challenge_config where
  "sample_config =
     \<lparr>cfg_session_ttl = 300, cfg_password_max_attempts = 5, cfg_password_cooldown = 10,
      cfg_image_max_attempts = 2, cfg_image_cooldown = 10, cfg_otp_max_attempts = 5, cfg_otp_cooldown = 30,
      cfg_recovery_max_attempts = 5, cfg_recovery_cooldown = 30, cfg_email_max_attempts = 5,
      cfg_email_cooldown = 60, cfg_trigger_max_attempts = 0, cfg_throttle_max_failures = 3,
      cfg_throttle_window = 300, cfg_throttle_lock = 300\<rparr>"

definition sample_challenge_env :: "unit challenge_env" where
  "sample_challenge_env =
     \<lparr>ce_config = sample_config, ce_providers = (\<lambda>t. Some sample_provider), ce_digest = (\<lambda>x. x),
      ce_on_passed = (\<lambda>s x. (Inr s, x)), ce_sign = (\<lambda>c. Inr (''jwt.'' @ pc_token_identifier c)),
      ce_min_ttl = 60 * second, ce_max_ttl = 300 * second\<rparr>"

definition sample_world :: "unit challenge_world" where
  "sample_world =
     \<lparr>cw_sessions = Map.empty, cw_texts = Map.empty, cw_counts = Map.empty, cw_faults = [], cw_outside = ()\<rparr>"

definition sample_login :: start_request where
  "sample_login =
     \<lparr>sr_issuing_service_name = ''s'', sr_audience_service_names = [''s''], sr_business_action = action_name ActLogin,
      sr_subject_hint = None, sr_subject_identifier = [], sr_flow_nonce = ''f'',
      sr_requested_ttl_seconds = 0, sr_idempotency_key = ''k'', sr_risk_context = None,
      sr_required_assurance_level = [], sr_minimum_assurance_level = [], sr_expected_challenge_types = [],
      sr_allow_downgrade = None, sr_policy_identifier = [], sr_extension_context = None\<rparr>"

definition sample_started :: "unit challenge_world" where
  "sample_started = snd (start_challenge sample_challenge_env (\<lambda>i. ''u'') 0 sample_login sample_world)"

lemma sample_well_behaved: "well_behaved sample_challenge_env"
  by (auto simp: well_behaved_def well_behaved_provider_def sample_challenge_env_def sample_provider_def)

lemma sample_trims: "trim_space ''k'' = ''k''" "trim_space ''f'' = ''f''" "trim_space ''u'' = ''u''"
  "trim_space ''s'' = ''s''" "trim_space [] = []" "trim_space ''challenge_u'' = ''challenge_u''"
  by code_simp+

definition sample_built :: challenge_session where
  "sample_built = build_session sample_config (\<lambda>i. ''u'') (challenge_action_policies ActLogin) sample_login 0"

definition sample_login_step :: challenge_step where
  "sample_login_step = build_step sample_config ''u'' ImageCaptcha PurposeDefault 1"

lemma sample_login_fields [simp]:
  "sr_issuing_service_name sample_login = ''s''" "sr_audience_service_names sample_login = [''s'']"
  "sr_business_action sample_login = action_name ActLogin" "sr_subject_identifier sample_login = []"
  "sr_flow_nonce sample_login = ''f''" "sr_requested_ttl_seconds sample_login = 0"
  "sr_idempotency_key sample_login = ''k''" "sr_expected_challenge_types sample_login = []"
  "sr_extension_context sample_login = None" "cfg_session_ttl sample_config = 300"
  "cfg_trigger_max_attempts sample_config = 0"
  by (simp_all add: sample_login_def sample_config_def)

lemma sample_build_steps:
  "build_steps cfg fresh (sr_business_action sample_login) (sr_expected_challenge_types sample_login) =
     [build_step cfg (fresh 1) ImageCaptcha PurposeDefault 1]"
  by (simp add: build_steps_def plan_steps_def del: action_name.simps)

lemma sample_started_step: "service_step sample_challenge_env ([], sample_world) ([], sample_started)"
  unfolding sample_started_def
  by (rule started) (simp add: sample_build_steps del: sample_login_fields action_name.simps)

lemma sample_step_fields [simp]:
  "challenge_type sample_login_step = ImageCaptcha" "step_state sample_login_step = StepInProgress"
  "cooldown_until sample_login_step = None" "slot_number sample_login_step = 1"
  by (simp_all add: sample_login_step_def build_step_def)

lemma current_step_steps: "steps s = [st] \<Longrightarrow> step_state st = StepInProgress \<Longrightarrow> current_step s now = Some 0"
  by (auto simp: current_step_def split: option.splits)

lemma sample_built_fields:
  "steps sample_built = [sample_login_step]" "challenge_identifier sample_built = ''challenge_u''"
  "expires_at sample_built = Some (300 * second)" "session_state sample_built = ChallengePending"
  "session_context sample_built = build_context (challenge_action_policies ActLogin) sample_login"
  "subject_identifier sample_built = []"
  using sample_build_steps [of sample_config "\<lambda>i. ''u''"]
  by (simp_all add: sample_built_def build_session_def Let_def effective_ttl_def
     sample_login_step_def seconds_duration_exact sample_trims
     del: action_name.simps challenge_action_policies.simps)

definition sample_opened :: challenge_session where
  "sample_opened = refresh_recommended_step_identifier 0 (refresh_recommended_step_identifier 0 sample_built)"

lemma sample_opened_fields [simp]:
  "steps sample_opened = [sample_login_step]" "challenge_identifier sample_opened = ''challenge_u''"
  "expires_at sample_opened = Some (300 * second)" "session_state sample_opened = ChallengePending"
  "subject_identifier sample_opened = []"
  by (simp_all add: sample_opened_def sample_built_fields)

lemma sample_opened_context:
  "session_context sample_opened = build_context (challenge_action_policies ActLogin) sample_login"
  by (simp add: sample_opened_def sample_built_fields)

lemma sample_env_fields [simp]:
  "ce_config sample_challenge_env = sample_config" "ce_providers sample_challenge_env t = Some sample_provider"
  "ce_on_passed sample_challenge_env s x = (Inr s, x)"
  "ce_sign sample_challenge_env c = Inr (''jwt.'' @ pc_token_identifier c)"
  by (simp_all add: sample_challenge_env_def)

lemma sample_filter: "filter_eligible_steps sample_challenge_env 0 sample_built w =
    (Inr (refresh_recommended_step_identifier 0 sample_built), w)"
proof -
  have same: "sample_built\<lparr>steps := [sample_login_step]\<rparr> = sample_built"
    by (cases sample_built) (use sample_built_fields(1) in simp)
  show ?thesis
    by (simp add: filter_eligible_steps_def sample_built_fields is_step_eligible_def sample_provider_def Let_def same
        current_step_steps)
qed

lemma sample_open: "open_session sample_challenge_env (challenge_action_policies ActLogin) 0 ''k'' sample_built sample_world =
   (Inr sample_opened, sample_world\<lparr>
      cw_sessions := [''challenge:session:challenge_u'' \<mapsto> (sample_opened, Some (300 * second))],
      cw_texts := (cw_texts sample_world)(''challenge:idempotency:k'' \<mapsto> (''challenge_u'', Some (300 * second)))\<rparr>)"
proof -
  have ttl: "session_ttl 0 sample_opened = 300 * second" "sent_duration (300 * second) = 300 * second"
      "effective_ttl_seconds sample_opened = 300" "seconds_duration 300 = 300 * second"
    by (simp_all add: session_ttl_def time_sub_def second_def Let_def sent_duration_def millisecond_def
        sample_opened_def sample_built_def build_session_def effective_ttl_def seconds_duration_exact)
  have policy: "ensure_required_proof_steps_available s (challenge_action_policies ActLogin) = Inr ()" for s
    by (simp add: ensure_required_proof_steps_available_def bare_policy_def)
  show ?thesis
    by (simp add: open_session_def sample_filter policy sample_built_fields Let_def
        ensure_step_trigger_allowed_def prepare_step_def outside_def sample_provider_def record_step_trigger_def
        note_trigger_def sample_opened_def [symmetric] save_session_def bind_idempotency_key_def sample_trims
        challenge_session_cache_key_def challenge_idempotency_cache_key_def kv_set_def ttl sample_world_def blank_def
        del: challenge_action_policies.simps)
qed

lemma sample_started_world: "sample_started = sample_world\<lparr>
      cw_sessions := [''challenge:session:challenge_u'' \<mapsto> (sample_opened, Some (300 * second))],
      cw_texts := (cw_texts sample_world)(''challenge:idempotency:k'' \<mapsto> (''challenge_u'', Some (300 * second)))\<rparr>"
proof -
  have "start_challenge sample_challenge_env (\<lambda>i. ''u'') 0 sample_login sample_world =
      then_do (open_session sample_challenge_env (challenge_action_policies ActLogin) 0 ''k'' sample_built sample_world)
        (\<lambda>s w2. (Inr (to_start_response s 0), w2))"
    by (simp add: start_challenge_def blank_def sample_trims sample_built_def get_session_by_idempotency_key_def
        sample_world_def kv_get_def requires_operation_binding_def del: action_name.simps challenge_action_policies.simps)
      (simp add: bare_policy_def)
  then show ?thesis unfolding sample_started_def by (simp only: sample_open then_do_simps prod.sel)
qed

lemma sample_keys: "challenge_throttle_keys sample_opened sample_login_step = []"
proof -
  have "any_get (build_context policy sample_login) ''riskContext'' = ANil" for policy
    by (simp add: build_context_def Let_def put_if_def sample_login_def)
  then have "risk_identity sample_opened = ([], [])" by (simp add: risk_identity_def sample_opened_context)
  then show ?thesis by (simp add: challenge_throttle_keys_def key_if_def sample_trims Let_def)
qed

definition sample_finished :: challenge_session where
  "sample_finished = (let s = mark_step_success 0 1 sample_opened
     in s\<lparr>session_context := (session_context s)(''proofToken'' \<mapsto> AStr ''jwt.j'')\<rparr>)"

lemma sample_answer:
  "\<exists>r w' d. respond sample_challenge_env 1 ''t'' ''j'' ''challenge_u'' [] [''code'' \<mapsto> AStr ''7''] sample_started = (Inr r, w') \<and>
     rr_proof_token r = ''jwt.j'' \<and> cw_sessions w' ''challenge:session:challenge_u'' = Some (sample_finished, d)"
proof -
  let ?s = "mark_step_success 0 1 sample_opened" and ?k = "''challenge:session:challenge_u''"
  have passed: "session_state ?s = ChallengePassed"
    by (subst success_passes) (simp_all add: distinct_steps_def)
  have token: "any_get (session_context sample_opened) ''proofToken'' = ANil" by (simp add: built_context_token sample_opened_context)
  have ident: "challenge_identifier ?s = ''challenge_u''" by simp
  have step: "find_step sample_opened [] 1 = Inr 0"
    by (simp add: find_step_def sample_trims current_step_steps)
  have answer: "\<exists>r w' d. respond_right sample_challenge_env 1 ''j'' [] 0 sample_opened w = (Inr r, w') \<and> rr_proof_token r = ''jwt.j'' \<and>
      cw_sessions w' ?k = Some (sample_finished, d) \<and> cw_faults w' = []"
    if "cw_faults w = []" for w
    using that
    by (simp add: respond_right_def Let_def clear_failures_def throttle_cache_keys_def passed outside_def save_session_def
        ident blank_def sample_trims build_passed_response_def token passed_response_def proof_claims_of_def
        sample_finished_def challenge_session_cache_key_def kv_set_def)
  have ready: "is_verifiable sample_login_step" "remaining_cooldown_seconds sample_login_step 1 = 0"
    by (simp_all add: is_verifiable_def remaining_cooldown_seconds_def is_cooling_down_def)
  have body: "\<exists>r w' d. respond_locked sample_challenge_env 1 ''j'' ''challenge_u'' [] [''code'' \<mapsto> AStr ''7''] w = (Inr r, w') \<and>
      rr_proof_token r = ''jwt.j'' \<and> cw_sessions w' ?k = Some (sample_finished, d) \<and> cw_faults w' = []"
    if "cw_faults w = []" "cw_sessions w = cw_sessions sample_started" for w
    using that answer [of "w\<lparr>cw_outside := ()\<rparr>"]
    by (simp add: respond_locked_def get_session_def repo_get_session_def blank_def sample_trims
        challenge_session_cache_key_def sample_started_world kv_get_def second_def is_expired_def respond_pending_def step
        ready sample_keys check_throttle_def verify_step_def outside_def sample_provider_def Let_def)
  have "acquire_submit_lock 1 ''t'' ''challenge_u'' (15 * second) sample_started =
      (Inr True, sample_started\<lparr>cw_texts := snd (kv_set_nx 1 (challenge_submit_lock_cache_key ''challenge_u'') ''t'' (15 * second)
        (cw_texts sample_started))\<rparr>)"
    by (simp add: acquire_submit_lock_def blank_def sample_trims sample_started_world sample_world_def kv_set_nx_def
        kv_get_def challenge_submit_lock_cache_key_def second_def)
  then show ?thesis
    using body [of "sample_started\<lparr>cw_texts := snd (kv_set_nx 1 (challenge_submit_lock_cache_key ''challenge_u'') ''t'' (15 * second)
        (cw_texts sample_started))\<rparr>"]
    by (auto simp: respond_def under_submit_lock_def sample_started_world sample_world_def release_sessions)
qed

text \<open>C2. Every proof token is earned. After any requests, in any order and with any failures of the store,
  with the log of the answers that the providers accepted: a token that \<open>Respond\<close> returns for a challenge
  belongs to the session that the store then holds under that challenge. This session has passed and has
  no open step, and every step of it that is completed was completed by an accepted answer, in the log or
  in this request. The claims that were signed are those of the session: its challenge, its business
  action, its subject and flow nonce, and as methods exactly the types of its completed steps; they
  satisfy the policy of the action (the registration of an account aside).\<close>

theorem tokens_are_earned:
  assumes "well_behaved env" "(service_step env)\<^sup>*\<^sup>* ([], w0) (log, w)" "cw_sessions w0 = Map.empty"
    and answer: "respond env now token jti ident step payload w = (Inr r, w')" "rr_proof_token r \<noteq> []"
  shows "\<exists>s d claims raw.
    cw_sessions w' (challenge_session_cache_key ident) = Some (s, d) \<and>
    session_state s = ChallengePassed \<and> \<not> some_open s \<and>
    (\<forall>st \<in> set (steps s). step_state st = StepCompleted \<longrightarrow>
       (challenge_identifier s, step_identifier st, challenge_type st)
         \<in> set (heard (accepted_answer env now token ident step payload w) log)) \<and>
    ce_sign env claims = Inr raw \<and> (rr_proof_token r = raw \<or> rr_proof_token r = trim_space raw) \<and>
    issued_for s claims \<and> pc_challenge_identifier claims = trim_space ident \<and>
    mset (pc_methods claims) = mset (completed_methods s) \<and>
    (\<forall>p. lookup_challenge_action_policy (session_business_action s) = Some p \<longrightarrow>
       p_action p = ActRegisterAccount \<or> proof_methods_satisfied p (pc_methods claims))"
proof -
  have "log_ok env ([], w0)" using assms(3) by (simp add: store_ok_def log_ok_def)
  then have "log_ok env (log, w)" by (rule service_run_ok [OF assms(1,2)])
  note ok = heard_ok [OF assms(1) this, where now = now and token = token and ident = ident and step = step
      and payload = payload and jti = jti]
  from ok(2) [of r] answer obtain s d where s: "cw_sessions w' (challenge_session_cache_key ident) = Some (s, d)"
    "session_state s = ChallengePassed" "signed_for env s (rr_proof_token r)"
    by (auto simp: delivered_def)
  let ?A = "set (heard (accepted_answer env now token ident step payload w) log)"
  from ok(1) answer(1) have store: "store_ok env ?A w'" by simp
  with s(1) have rel: "reliable env ?A s"
    and "challenge_session_cache_key ident = challenge_session_cache_key (challenge_identifier s)"
    unfolding store_ok_def by blast+
  then have named: "trim_space (challenge_identifier s) = trim_space ident" by (simp add: challenge_session_cache_key_def)
  from s(3) obtain claims raw where claims: "ce_sign env claims = Inr raw" "issued_for s claims"
    "rr_proof_token r = raw \<or> rr_proof_token r = trim_space raw" by (auto simp: signed_for_def)
  have "pc_challenge_identifier claims = trim_space ident" "pc_methods claims = authentication_method_names s"
    using claims(2) named by (simp_all add: issued_for_def)
  with reliable_passed [OF rel s(2)] rel s(1,2) claims show ?thesis
    by (intro exI [of _ s] exI [of _ d] exI [of _ claims] exI [of _ raw]) (simp add: well_passed_def reliable_def vouched_def)
qed

theorem tokens_are_earned_witness:
  "\<exists>r w' s d. respond sample_challenge_env 1 ''t'' ''j'' ''challenge_u'' [] [''code'' \<mapsto> AStr ''7''] sample_started = (Inr r, w') \<and>
     rr_proof_token r = ''jwt.j'' \<and> cw_sessions w' ''challenge:session:challenge_u'' = Some (s, d) \<and>
     session_state s = ChallengePassed"
proof -
  obtain r w' where r: "respond sample_challenge_env 1 ''t'' ''j'' ''challenge_u'' [] [''code'' \<mapsto> AStr ''7''] sample_started
      = (Inr r, w')" "rr_proof_token r = ''jwt.j''" using sample_answer by blast
  have empty: "cw_sessions sample_world = Map.empty" by (simp add: sample_world_def)
  have "rr_proof_token r \<noteq> []" by (simp add: r(2))
  from tokens_are_earned [OF sample_well_behaved r_into_rtranclp [of "service_step sample_challenge_env", OF sample_started_step]
      empty r(1) this] r
  show ?thesis by (auto simp: challenge_session_cache_key_def sample_trims)
qed

end
