(* ===== verification/Proof_Properties.thy ===== *)
theory Proof_Properties
  imports Challenge_Proof Challenge_Frame Challenge_Properties
begin

text \<open>
  What a proof token is worth: the claims of a token survive signing and parsing up to whole seconds, a
  token that was issued for the action, the nonce, the subject, the operation and the audience of a request
  is accepted until it expires, and a token that is consumed on verification is accepted once. What the JWT
  service delivers for the payload it signed is a hypothesis: the entries it was given, a list of strings
  as such or as a list of dynamic values, a number as such or as a float.
\<close>

section \<open>Round trip of the claims\<close>

fun delivered_as :: "anyv \<Rightarrow> anyv \<Rightarrow> bool" where
  "delivered_as (AStrs xs) v \<longleftrightarrow> v = AStrs xs \<or> v = AList (map AStr xs)"
| "delivered_as (AInt i) v \<longleftrightarrow> (case v of AFloat j s \<Rightarrow> j = i | _ \<Rightarrow> v = AInt i)"
| "delivered_as a v \<longleftrightarrow> v = a"

definition read_claims :: "string list" where
  "read_claims = [''iss'', ''sub'', ''jti'', ''issuerServiceName'', ''audienceServiceNames'', ''subjectIdentifier'',
     ''businessAction'', ''challengeIdentifier'', ''flowNonce'', ''operationBinding'', ''authenticationMethodNames'',
     ''tokenUniqueIdentifier'', ''issuedAtUnix'', ''expiresAtUnix'']"

definition delivers :: "anymap \<Rightarrow> anymap \<Rightarrow> bool" where
  "delivers sent got \<longleftrightarrow> (\<forall>k \<in> set read_claims. delivered_as (any_get sent k) (any_get got k))"

definition trimmed :: "string \<Rightarrow> bool" where "trimmed s \<longleftrightarrow> trim_space s = s"

definition clean_list :: "string list \<Rightarrow> bool" where "clean_list xs \<longleftrightarrow> (\<forall>x \<in> set xs. trimmed x \<and> x \<noteq> [])"

definition clean_claims :: "proof_claims \<Rightarrow> bool" where
  "clean_claims c \<longleftrightarrow>
     trimmed (pc_issuer c) \<and> trimmed (pc_subject c) \<and> trimmed (pc_business_action c) \<and>
     trimmed (pc_challenge_identifier c) \<and> trimmed (pc_flow_nonce c) \<and> trimmed (pc_operation_binding c) \<and>
     trimmed (pc_token_identifier c) \<and> clean_list (pc_audiences c) \<and> clean_list (pc_methods c) \<and>
     (case pc_issued_at c of None \<Rightarrow> False | Some t \<Rightarrow> second \<le> t) \<and>
     (case pc_expires_at c of None \<Rightarrow> False | Some t \<Rightarrow> second \<le> t)"

definition whole_second_claims :: "proof_claims \<Rightarrow> proof_claims" where
  "whole_second_claims c =
     c\<lparr>pc_issued_at := map_option (\<lambda>t. unix_seconds t * second) (pc_issued_at c),
       pc_expires_at := map_option (\<lambda>t. unix_seconds t * second) (pc_expires_at c)\<rparr>"

lemma string_slice_delivered:
  "clean_list xs \<Longrightarrow> delivered_as (AStrs xs) v \<Longrightarrow> string_slice v = xs"
proof -
  assume clean: "clean_list xs" and v: "delivered_as (AStrs xs) v"
  have "map trim_space xs = xs" "filter (\<lambda>s. s \<noteq> []) xs = xs"
    using clean by (auto simp: clean_list_def trimmed_def intro: map_idI)
  then have "filter (\<lambda>s. s \<noteq> []) (map (\<lambda>x. trim_space (string_value x)) (map AStr xs)) = xs"
    by (simp add: o_def)
  with v show ?thesis by auto
qed

lemma unix_time_delivered:
  assumes "delivered_as (AInt i) v" "0 < i"
  shows "unix_time v = Some (i * second)"
  using assms by (cases v) simp_all

lemma first_non_blank_delivered:
  "trimmed s \<Longrightarrow> delivered_as (AStr s) v \<Longrightarrow> delivered_as (AStr s) v' \<Longrightarrow> first_non_blank v v' = s"
  by (simp add: first_non_blank_def trimmed_def Let_def)

lemma trim_delivered: "trimmed s \<Longrightarrow> delivered_as (AStr s) v \<Longrightarrow> trim_space (string_value v) = s"
  by (simp add: trimmed_def)

lemma unix_seconds_pos: "second \<le> t \<Longrightarrow> 0 < unix_seconds t"
  by (simp add: unix_seconds_def pos_imp_zdiv_pos_iff)

lemma delivers_entry: "delivers sent got \<Longrightarrow> k \<in> set read_claims \<Longrightarrow> delivered_as (any_get sent k) (any_get got k)"
  by (simp add: delivers_def)

lemma delivered_fields:
  assumes "delivers (signed_payload c) got"
  shows "delivered_as (AStr (pc_issuer c)) (any_get got ''issuerServiceName'')"
    "delivered_as (AStr (pc_issuer c)) (any_get got ''iss'')"
    "delivered_as (AStr (pc_subject c)) (any_get got ''subjectIdentifier'')"
    "delivered_as (AStr (pc_subject c)) (any_get got ''sub'')"
    "delivered_as (AStr (pc_token_identifier c)) (any_get got ''tokenUniqueIdentifier'')"
    "delivered_as (AStr (pc_token_identifier c)) (any_get got ''jti'')"
    "delivered_as (AStr (pc_business_action c)) (any_get got ''businessAction'')"
    "delivered_as (AStr (pc_challenge_identifier c)) (any_get got ''challengeIdentifier'')"
    "delivered_as (AStr (pc_flow_nonce c)) (any_get got ''flowNonce'')"
    "delivered_as (AStr (pc_operation_binding c)) (any_get got ''operationBinding'')"
    "delivered_as (AStrs (pc_audiences c)) (any_get got ''audienceServiceNames'')"
    "delivered_as (AStrs (pc_methods c)) (any_get got ''authenticationMethodNames'')"
  using assms [THEN delivers_entry, of "''issuerServiceName''"] assms [THEN delivers_entry, of "''iss''"] assms [THEN delivers_entry, of "''subjectIdentifier''"] assms [THEN delivers_entry, of "''sub''"]
    assms [THEN delivers_entry, of "''tokenUniqueIdentifier''"] assms [THEN delivers_entry, of "''jti''"] assms [THEN delivers_entry, of "''businessAction''"]
    assms [THEN delivers_entry, of "''challengeIdentifier''"] assms [THEN delivers_entry, of "''flowNonce''"] assms [THEN delivers_entry, of "''operationBinding''"]
    assms [THEN delivers_entry, of "''audienceServiceNames''"] assms [THEN delivers_entry, of "''authenticationMethodNames''"]
  by (simp_all add: read_claims_def signed_payload_def del: delivered_as.simps)

lemma parse_delivered:
  assumes clean: "clean_claims c" and sent: "delivers (signed_payload c) got"
  shows "parse_proof_claims got = Inr (whole_second_claims c)"
proof -
  note entry = delivers_entry [OF sent]
  obtain i e where times: "pc_issued_at c = Some i" "second \<le> i" "pc_expires_at c = Some e" "second \<le> e"
    using clean by (auto simp: clean_claims_def split: option.splits)
  have issued: "resolve_time (any_get got ''issuedAtUnix'') v = Some (unix_seconds i * second)" for v
    using entry [of "''issuedAtUnix''"] times unix_time_delivered [OF _ unix_seconds_pos [OF times(2)]]
    by (simp add: resolve_time_def read_claims_def signed_payload_def del: delivered_as.simps)
  have expires: "resolve_time (any_get got ''expiresAtUnix'') v = Some (unix_seconds e * second)" for v
    using entry [of "''expiresAtUnix''"] times unix_time_delivered [OF _ unix_seconds_pos [OF times(4)]]
    by (simp add: resolve_time_def read_claims_def signed_payload_def del: delivered_as.simps)
  note sent_as = delivered_fields [OF sent]
  have c: "trimmed (pc_issuer c)" "trimmed (pc_subject c)" "trimmed (pc_token_identifier c)"
      "trimmed (pc_business_action c)" "trimmed (pc_challenge_identifier c)" "trimmed (pc_flow_nonce c)"
      "trimmed (pc_operation_binding c)" "clean_list (pc_audiences c)" "clean_list (pc_methods c)"
    using clean by (simp_all add: clean_claims_def)
  have "parse_proof_claims got = Inr
      \<lparr>pc_issuer = pc_issuer c, pc_audiences = pc_audiences c, pc_subject = pc_subject c,
       pc_business_action = pc_business_action c, pc_challenge_identifier = pc_challenge_identifier c,
       pc_flow_nonce = pc_flow_nonce c, pc_operation_binding = pc_operation_binding c, pc_methods = pc_methods c,
       pc_token_identifier = pc_token_identifier c, pc_issued_at = Some (unix_seconds i * second),
       pc_expires_at = Some (unix_seconds e * second)\<rparr>"
    unfolding parse_proof_claims_def issued expires option.case
      first_non_blank_delivered [OF c(1) sent_as(1,2)] first_non_blank_delivered [OF c(2) sent_as(3,4)]
      first_non_blank_delivered [OF c(3) sent_as(5,6)] trim_delivered [OF c(4) sent_as(7)]
      trim_delivered [OF c(5) sent_as(8)] trim_delivered [OF c(6) sent_as(9)] trim_delivered [OF c(7) sent_as(10)]
      string_slice_delivered [OF c(8) sent_as(11)] string_slice_delivered [OF c(9) sent_as(12)] ..
  then show ?thesis by (simp add: whole_second_claims_def times)
qed

text \<open>Round trip. The claims that are signed into a token are the claims that are parsed from it, their
  instants cut to whole seconds.\<close>

lemma claims_round_trip:
  assumes "clean_claims c" "delivers (signed_payload c) got"
  shows "parse_proof_claims got = Inr (whole_second_claims c)"
  by (rule parse_delivered [OF assms])

definition sample_claims :: proof_claims where
  "sample_claims =
     \<lparr>pc_issuer = ''seven'', pc_audiences = [''seven''], pc_subject = ''7'', pc_business_action = ''LOGIN'',
      pc_challenge_identifier = ''c'', pc_flow_nonce = ''n'', pc_operation_binding = [],
      pc_methods = [''IMAGE_CAPTCHA''], pc_token_identifier = ''j'',
      pc_issued_at = Some (5 * second + 3), pc_expires_at = Some (65 * second + 3)\<rparr>"

definition sample_delivered :: anymap where
  "sample_delivered = (signed_payload sample_claims)
     (''audienceServiceNames'' \<mapsto> AList [AStr ''seven''],
      ''authenticationMethodNames'' \<mapsto> AList [AStr ''IMAGE_CAPTCHA''],
      ''issuedAtUnix'' \<mapsto> AFloat 5 ''5'', ''expiresAtUnix'' \<mapsto> AFloat 65 ''65'',
      ''exp'' \<mapsto> ATime (65 * second) ''1970-01-01 00:01:05 +0000 UTC'')"

lemma trimmed_samples [simp]:
  "trimmed []" "trimmed ''seven''" "trimmed ''7''" "trimmed ''LOGIN''" "trimmed ''c''" "trimmed ''n''" "trimmed ''j''"
  "trimmed ''IMAGE_CAPTCHA''"
  unfolding trimmed_def by code_simp+

lemma sample_clean: "clean_claims sample_claims"
  by (simp add: clean_claims_def sample_claims_def clean_list_def second_def)

lemma sample_delivers: "delivers (signed_payload sample_claims) sample_delivered"
  by (simp add: delivers_def read_claims_def sample_delivered_def signed_payload_def sample_claims_def unix_seconds_def second_def)

theorem claims_round_trip_witness:
  "\<exists>c. parse_proof_claims sample_delivered = Inr c \<and> pc_subject c = ''7'' \<and> pc_expires_at c = Some (65 * second)"
  using claims_round_trip [OF sample_clean sample_delivers]
  by (simp add: whole_second_claims_def sample_claims_def unix_seconds_def second_def)

section \<open>An issued token is accepted\<close>

definition asks_for :: "verify_request \<Rightarrow> challenge_session \<Rightarrow> bool" where
  "asks_for r s \<longleftrightarrow>
     trim_space (vr_business_action r) = trim_space (session_business_action s) \<and>
     trim_space (vr_flow_nonce r) = trim_space (flow_nonce s) \<and>
     trim_space (vr_subject r) \<in> {[], trim_space (subject_identifier s)} \<and>
     trim_space (vr_operation_binding r) = resolve_operation_binding s \<and>
     trim_space (vr_audience r) \<in> trim_space ` set (audience_service_names s)"

definition consumable :: "time \<Rightarrow> string \<Rightarrow> verify_request \<Rightarrow> 'w challenge_world \<Rightarrow> bool" where
  "consumable now jti r w \<longleftrightarrow>
     (vr_consume_once r \<longrightarrow>
        cw_faults w = [] \<and> \<not> blank jti \<and> \<not> blank (vr_audience r) \<and>
        kv_get now (challenge_proof_consumed_cache_key jti) (cw_texts w) = None)"

lemma asks_for_claims_match:
  assumes "asks_for r s" "now \<le> unix_seconds (proof_expiry env issued s) * second"
  shows "claims_match r now (whole_second_claims (proof_claims_of env issued jti s))"
  using assms
  by (auto simp: claims_match_def asks_for_def whole_second_claims_def proof_claims_of_def contains_string_def)

lemma mark_unused:
  assumes "consumable now jti r w" "vr_consume_once r" "0 \<le> ttl"
  shows "fst (mark_proof_consumed now jti (trim_space (vr_audience r)) ttl w) = Inr True"
  using assms by (simp add: consumable_def mark_proof_consumed_def blank_def kv_set_nx_def Let_def)

lemma then_do_fst: "fst r = Inr x \<Longrightarrow> then_do r f = f x (snd r)"
  by (cases r) simp

lemma verify_issued:
  assumes policy: "lookup_challenge_action_policy (vr_business_action r) = Some p"
      "requires_operation_binding p \<longrightarrow> resolve_operation_binding s \<noteq> []"
      "proof_methods_satisfied p (authentication_method_names s)"
    and asked: "asks_for r s"
    and token: "jwt (trim_space (vr_proof_token r)) = Inr got"
      "delivers (signed_payload (proof_claims_of env issued jti s)) got" "clean_claims (proof_claims_of env issued jti s)"
    and fresh: "now \<le> unix_seconds (proof_expiry env issued s) * second" "consumable now jti r w"
  shows "fst (verify_proof_token jwt now r w) = Inr (whole_second_claims (proof_claims_of env issued jti s))"
proof -
  let ?c = "whole_second_claims (proof_claims_of env issued jti s)"
  have expiry: "pc_expires_at ?c = Some (unix_seconds (proof_expiry env issued s) * second)"
      "pc_token_identifier ?c = jti" "pc_methods ?c = authentication_method_names s"
    by (simp_all add: whole_second_claims_def proof_claims_of_def)
  have match: "claims_match r now ?c" by (rule asks_for_claims_match [OF asked fresh(1)])
  have "0 \<le> time_sub (unix_seconds (proof_expiry env issued s) * second) now" using fresh(1) by (simp add: time_sub_def)
  note mark = mark_unused [OF fresh(2) _ this]
  have "fst (verify_claims jwt now r w) = Inr ?c"
    by (cases "vr_consume_once r")
      (simp_all add: verify_claims_def token(1) parse_delivered [OF token(3,2)] match expiry then_do_fst [OF mark])
  moreover have "requires_operation_binding p \<longrightarrow> trim_space (vr_operation_binding r) \<noteq> []"
    using policy(2) asked by (simp add: asks_for_def)
  ultimately show ?thesis
    by (cases "verify_claims jwt now r w") (simp add: verify_proof_token_def policy(1) expiry policy(3))
qed

text \<open>
  Most of what makes claims clean holds of every session: the service trims what it signs, and the methods
  of a session are names of challenge types.
\<close>

lemma type_name_clean: "trimmed (type_name t) \<and> type_name t \<noteq> []"
  unfolding trimmed_def by (cases t) (simp_all only: type_name.simps, code_simp+)

lemma passed_claims_clean:
  assumes "mset (authentication_method_names s) = mset (completed_methods s)" "clean_list (audience_service_names s)"
    and "trimmed jti" "second \<le> issued" "second \<le> now" "now \<le> unix_seconds (proof_expiry env issued s) * second"
  shows "clean_claims (proof_claims_of env issued jti s)"
proof -
  have "set (authentication_method_names s) = set (completed_methods s)" using assms(1) by (metis set_mset_mset)
  then have "clean_list (authentication_method_names s)"
    using type_name_clean by (auto simp: clean_list_def completed_methods_def)
  moreover have "trimmed (resolve_operation_binding s)"
    using trimmed_samples(1) by (simp add: trimmed_def resolve_operation_binding_def Let_def split: anyv.split)
  moreover have "unix_seconds (proof_expiry env issued s) * second \<le> proof_expiry env issued s"
    by (simp add: unix_seconds_def second_def)
  ultimately show ?thesis
    using assms(2-6) by (simp add: clean_claims_def proof_claims_of_def trimmed_def)
qed

text \<open>C17. Liveness. Let a challenge that is not a registration of an account have passed in some run of the
  service (any requests, any failures of the store), and let a token be signed for its session. If the JWT
  service delivers the claims of the token, every request for the action, the nonce, the subject, the
  operation and an audience of the session is accepted until the whole-second expiry, and returns the
  claims; when the request consumes the token, the store has to answer and the token must not have been
  consumed. The claims survive the round trip because the audiences are trimmed and not blank, the token
  identifier is trimmed, and the clock is past the first second of 1970. A registration is left out: its
  proof by mail does not satisfy its policy.\<close>

theorem issued_token_verifies:
  assumes run: "well_behaved (env :: 'w challenge_env)" "(service_step env)\<^sup>*\<^sup>* ([], w0) (log, w1)" "cw_sessions w0 = Map.empty"
    and session: "cw_sessions w1 key = Some (s, d)" "session_state s = ChallengePassed"
    and policy: "lookup_challenge_action_policy (vr_business_action r) = Some p" "p_action p \<noteq> ActRegisterAccount"
      "requires_operation_binding p \<longrightarrow> resolve_operation_binding s \<noteq> []"
    and asked: "asks_for r s"
    and token: "jwt (trim_space (vr_proof_token r)) = Inr got"
      "delivers (signed_payload (proof_claims_of env issued jti s)) got"
    and clean: "clean_list (audience_service_names s)" "trimmed jti" "second \<le> issued" "second \<le> now"
    and fresh: "now \<le> unix_seconds (proof_expiry env issued s) * second" "consumable now jti r w"
  shows "fst (verify_proof_token jwt now r w) = Inr (whole_second_claims (proof_claims_of env issued jti s))"
proof -
  have "log_ok env ([], w0)" using run(3) by (simp add: store_ok_def log_ok_def)
  then have "log_ok env (log, w1)" by (rule service_run_ok [OF run(1,2)])
  then have "reliable env (set log) s" using session(1) by (auto simp: log_ok_def store_ok_def)
  from reliable_passed [OF this session(2)] have passed: "well_passed s" .
  have "lookup_challenge_action_policy (session_business_action s) = Some p"
    using policy(1) asked by (simp add: asks_for_def lookup_challenge_action_policy_def)
  with passed policy(2) have "proof_methods_satisfied p (authentication_method_names s)" by (simp add: well_passed_def)
  moreover have "clean_claims (proof_claims_of env issued jti s)"
    using passed by (intro passed_claims_clean [OF _ clean fresh(1)]) (simp add: well_passed_def)
  ultimately show ?thesis by (intro verify_issued [of r p s jwt got] policy asked token fresh)
qed

definition sample_finished_verify :: verify_request where
  "sample_finished_verify =
     \<lparr>vr_proof_token = ''j'', vr_audience = ''s'', vr_business_action = ''LOGIN'', vr_flow_nonce = ''f'',
      vr_subject = [], vr_operation_binding = [], vr_consume_once = True\<rparr>"

lemma delivers_itself: "delivers sent sent"
proof -
  have "delivered_as v v" for v by (cases v) simp_all
  then show ?thesis by (simp add: delivers_def)
qed

lemma success_identity:
  "issuing_service_name (mark_step_success i now s) = issuing_service_name s"
  "audience_service_names (mark_step_success i now s) = audience_service_names s"
  "subject_identifier (mark_step_success i now s) = subject_identifier s"
  "flow_nonce (mark_step_success i now s) = flow_nonce s" "expires_at (mark_step_success i now s) = expires_at s"
  by (simp_all add: mark_step_success_def activate_slot_def update_step_def Let_def)

lemma sample_opened_identity:
  "session_business_action sample_opened = ''LOGIN''" "audience_service_names sample_opened = [''s'']"
  "flow_nonce sample_opened = ''f''"
proof -
  have "trim_space ''LOGIN'' = ''LOGIN''" using trimmed_samples by (simp add: trimmed_def)
  then show "session_business_action sample_opened = ''LOGIN''" "audience_service_names sample_opened = [''s'']"
    "flow_nonce sample_opened = ''f''"
    by (simp_all add: sample_opened_def sample_built_def build_session_def Let_def sample_trims)
qed

lemma sample_finished_fields:
  "session_state sample_finished = ChallengePassed" "session_business_action sample_finished = ''LOGIN''"
  "audience_service_names sample_finished = [''s'']" "flow_nonce sample_finished = ''f''"
  "subject_identifier sample_finished = []" "challenge_identifier sample_finished = ''challenge_u''"
  "resolve_operation_binding sample_finished = []"
  "proof_expiry sample_challenge_env (5 * second + 3) sample_finished = 65 * second + 3"
proof -
  have "session_state (mark_step_success 0 1 sample_opened) = ChallengePassed"
    by (subst success_passes) (simp_all add: distinct_steps_def)
  then show "session_state sample_finished = ChallengePassed" by (simp add: sample_finished_def Let_def)
  show "session_business_action sample_finished = ''LOGIN''" "audience_service_names sample_finished = [''s'']"
    "flow_nonce sample_finished = ''f''" "subject_identifier sample_finished = []"
    "challenge_identifier sample_finished = ''challenge_u''"
    by (simp_all add: sample_finished_def Let_def success_identity sample_opened_identity)
  have "any_get (build_context policy sample_login) k = ANil" if "k \<in> {''operationBinding'', ''extensionContext''}" for k policy
    using that by (auto simp: build_context_def Let_def put_if_def put_unless_empty_def sample_login_def)
  then show "resolve_operation_binding sample_finished = []"
    by (simp add: resolve_operation_binding_def sample_finished_def Let_def sample_opened_context sample_trims)
  show "proof_expiry sample_challenge_env (5 * second + 3) sample_finished = 65 * second + 3"
    by (simp add: proof_expiry_def sample_challenge_env_def sample_finished_def success_identity Let_def second_def)
qed

definition sample_passed :: challenge_session where
  "sample_passed = sample_built\<lparr>issuing_service_name := ''seven'', audience_service_names := [''seven''],
     subject_identifier := ''7'', session_business_action := ''LOGIN'', challenge_identifier := ''c'', flow_nonce := ''n'',
     session_context := Map.empty, authentication_method_names := [''IMAGE_CAPTCHA''],
     expires_at := Some (300 * second)\<rparr>"

definition sample_verify :: "string \<Rightarrow> verify_request" where
  "sample_verify token =
     \<lparr>vr_proof_token = token, vr_audience = ''seven'', vr_business_action = ''LOGIN'', vr_flow_nonce = ''n'',
      vr_subject = [], vr_operation_binding = [], vr_consume_once = True\<rparr>"

definition sample_jwt :: "string \<Rightarrow> anymap result" where
  "sample_jwt raw = (if raw = ''j'' then Inr sample_delivered
     else Inr (signed_payload (sample_claims\<lparr>pc_token_identifier := ''k''\<rparr>)))"

lemma sample_passed_claims:
  "proof_claims_of sample_challenge_env (5 * second + 3) jti sample_passed = sample_claims\<lparr>pc_token_identifier := jti\<rparr>"
  "proof_expiry sample_challenge_env (5 * second + 3) sample_passed = 65 * second + 3"
  "resolve_operation_binding sample_passed = []"
proof -
  have trims: "trim_space ''seven'' = ''seven''" "trim_space ''7'' = ''7''" "trim_space ''LOGIN'' = ''LOGIN''"
      "trim_space ''c'' = ''c''" "trim_space ''n'' = ''n''"
    using trimmed_samples by (simp_all add: trimmed_def)
  show expiry: "proof_expiry sample_challenge_env (5 * second + 3) sample_passed = 65 * second + 3"
    by (simp add: proof_expiry_def sample_challenge_env_def sample_passed_def Let_def second_def)
  show binding: "resolve_operation_binding sample_passed = []"
    by (simp add: resolve_operation_binding_def sample_passed_def)
  show "proof_claims_of sample_challenge_env (5 * second + 3) jti sample_passed = sample_claims\<lparr>pc_token_identifier := jti\<rparr>"
    unfolding proof_claims_of_def expiry binding by (simp add: sample_passed_def sample_claims_def trims)
qed

lemma sample_policy: "\<exists>p. lookup_challenge_action_policy ''LOGIN'' = Some p \<and> \<not> requires_operation_binding p \<and>
    proof_methods_satisfied p [''IMAGE_CAPTCHA'']"
  using lookup_action_name [of ActLogin]
  by (intro exI [of _ "challenge_action_policies ActLogin"])
    (simp add: requires_operation_binding_def proof_methods_satisfied_def bare_policy_def)

lemma sample_verifies:
  assumes jwt: "sample_jwt token = Inr got" "delivers (signed_payload (sample_claims\<lparr>pc_token_identifier := jti\<rparr>)) got"
    and jti: "trimmed token" "trimmed jti" "jti \<noteq> []" "now \<le> 65 * second" "cw_faults w = []"
      "kv_get now (challenge_proof_consumed_cache_key jti) (cw_texts w) = None"
  shows "\<exists>p. lookup_challenge_action_policy (vr_business_action (sample_verify token)) = Some p \<and>
      \<not> requires_operation_binding p \<and> proof_methods_satisfied p (authentication_method_names sample_passed)"
    "asks_for (sample_verify token) sample_passed"
    "sample_jwt (trim_space (vr_proof_token (sample_verify token))) = Inr got"
    "clean_claims (proof_claims_of sample_challenge_env (5 * second + 3) jti sample_passed)"
    "now \<le> unix_seconds (proof_expiry sample_challenge_env (5 * second + 3) sample_passed) * second"
    "consumable now jti (sample_verify token) w"
proof -
  show "\<exists>p. lookup_challenge_action_policy (vr_business_action (sample_verify token)) = Some p \<and>
      \<not> requires_operation_binding p \<and> proof_methods_satisfied p (authentication_method_names sample_passed)"
    using sample_policy by (simp add: sample_verify_def sample_passed_def)
  show "asks_for (sample_verify token) sample_passed"
    using sample_passed_claims(3) by (simp add: asks_for_def sample_verify_def) (simp add: sample_passed_def)
  show "sample_jwt (trim_space (vr_proof_token (sample_verify token))) = Inr got"
    using jwt(1) jti(1) by (simp add: sample_verify_def trimmed_def)
  show "clean_claims (proof_claims_of sample_challenge_env (5 * second + 3) jti sample_passed)"
    using sample_clean jti by (simp add: sample_passed_claims clean_claims_def)
  show "now \<le> unix_seconds (proof_expiry sample_challenge_env (5 * second + 3) sample_passed) * second"
    using jti by (simp only: sample_passed_claims(2)) (simp add: unix_seconds_def second_def)
  show "consumable now jti (sample_verify token) w"
    using jti trimmed_samples(2) by (simp add: consumable_def sample_verify_def blank_def trimmed_def)
qed

lemma sample_claims_token [simp]: "sample_claims\<lparr>pc_token_identifier := ''j''\<rparr> = sample_claims"
  by (simp add: sample_claims_def)

lemma sample_jwt_delivers:
  "\<exists>got. sample_jwt ''j'' = Inr got \<and> delivers (signed_payload (sample_claims\<lparr>pc_token_identifier := ''j''\<rparr>)) got"
  "\<exists>got. sample_jwt ''k'' = Inr got \<and> delivers (signed_payload (sample_claims\<lparr>pc_token_identifier := ''k''\<rparr>)) got"
  using sample_delivers by (simp_all add: sample_jwt_def)
    (simp add: delivers_def read_claims_def signed_payload_def sample_claims_def)

theorem issued_token_verifies_witness:
  "\<exists>c. fst (verify_proof_token
      (\<lambda>_. Inr (signed_payload (proof_claims_of sample_challenge_env (5 * second + 3) ''j'' sample_finished)))
      (65 * second) sample_finished_verify sample_world) = Inr c \<and> pc_challenge_identifier c = ''challenge_u''"
proof -
  let ?request = "respond sample_challenge_env 1 ''t'' ''j'' ''challenge_u'' [] [''code'' \<mapsto> AStr ''7''] sample_started"
  let ?jwt = "\<lambda>_. Inr (signed_payload (proof_claims_of sample_challenge_env (5 * second + 3) ''j'' sample_finished))"
  note f = sample_finished_fields
  obtain r w' d where w': "?request = (Inr r, w')" "cw_sessions w' ''challenge:session:challenge_u'' = Some (sample_finished, d)"
    using sample_answer by blast
  obtain log where "service_step sample_challenge_env ([], sample_started) (log, w')"
    using responded [of sample_challenge_env "[]" sample_started 1 "''t''" "''challenge_u''" "[]" "[''code'' \<mapsto> AStr ''7'']" "''j''"]
    by (simp add: w'(1))
  then have run: "(service_step sample_challenge_env)\<^sup>*\<^sup>* ([], sample_world) (log, w')"
    using sample_started_step by (metis rtranclp.simps)
  obtain p where p: "lookup_challenge_action_policy (vr_business_action sample_finished_verify) = Some p"
      "p_action p \<noteq> ActRegisterAccount" "requires_operation_binding p \<longrightarrow> resolve_operation_binding sample_finished \<noteq> []"
    using lookup_action_name [of ActLogin] by (simp add: sample_finished_verify_def bare_policy_def requires_operation_binding_def)
  have asked: "asks_for sample_finished_verify sample_finished"
    by (simp add: asks_for_def sample_finished_verify_def f)
  have expiry: "65 * second \<le> unix_seconds (proof_expiry sample_challenge_env (5 * second + 3) sample_finished) * second"
    by (simp only: f(8)) (simp add: unix_seconds_def second_def)
  have ready: "clean_list (audience_service_names sample_finished)" "second \<le> 5 * second + 3" "second \<le> 65 * second"
      "consumable (65 * second) ''j'' sample_finished_verify sample_world"
    using sample_trims trimmed_samples(7)
    by (simp_all add: f clean_list_def trimmed_def second_def unix_seconds_def consumable_def sample_world_def kv_get_def
        blank_def sample_finished_verify_def)
  have "cw_sessions sample_world = Map.empty" by (simp add: sample_world_def)
  from issued_token_verifies [OF sample_well_behaved run this w'(2) f(1) p asked _ delivers_itself ready(1)
      trimmed_samples(7) ready(2,3) expiry ready(4), of ?jwt]
  show ?thesis by (simp add: whole_second_claims_def proof_claims_of_def f sample_trims)
qed

section \<open>A consumed token\<close>

text \<open>Requests to the challenge service and verifications of tokens, at instants before \<open>until\<close>.\<close>

inductive proof_traffic ::
    "'w challenge_env \<Rightarrow> (string \<Rightarrow> anymap result) \<Rightarrow> time \<Rightarrow> 'w challenge_world \<Rightarrow> 'w challenge_world \<Rightarrow> bool"
  for env :: "'w challenge_env" and jwt :: "string \<Rightarrow> anymap result" and until :: time where
  starting: "proof_traffic env jwt until w (snd (start_challenge env fresh now request w))"
| responding: "proof_traffic env jwt until w (snd (respond env now token jti ident step payload w))"
| refreshing: "proof_traffic env jwt until w (snd (refresh_challenge env now token ident step w))"
| verifying: "now < until \<Longrightarrow> proof_traffic env jwt until w (snd (verify_proof_token jwt now r w))"

definition consumed_until :: "time \<Rightarrow> string \<Rightarrow> 'w challenge_world \<Rightarrow> bool" where
  "consumed_until until jti w \<longleftrightarrow>
     (\<exists>v d. cw_texts w (challenge_proof_consumed_cache_key jti) = Some (v, d) \<and>
        (case d of None \<Rightarrow> True | Some deadline \<Rightarrow> until \<le> deadline))"

lemma consumed_live:
  "consumed_until until jti w \<Longrightarrow> now < until \<Longrightarrow>
     kv_get now (challenge_proof_consumed_cache_key jti) (cw_texts w) \<noteq> None"
  by (auto simp: consumed_until_def kv_get_def split: option.splits)

lemma consumed_frame:
  assumes "frames (\<lambda>m m'. m' (challenge_proof_consumed_cache_key jti) = m (challenge_proof_consumed_cache_key jti)) f"
    "consumed_until until jti w"
  shows "consumed_until until jti (snd (f w))"
  using assms by (simp add: frames_def consumed_until_def)

lemma mark_keeps_consumed:
  assumes "consumed_until until jti w" "now < until"
  shows "consumed_until until jti (snd (mark_proof_consumed now jti' audience ttl w))"
proof -
  have step: "consumed_until until jti (w\<lparr>cw_faults := fs, cw_texts := snd (kv_set_nx now (challenge_proof_consumed_cache_key jti') a ttl (cw_texts w))\<rparr>)" for fs a
    using assms consumed_live [OF assms]
    by (cases "challenge_proof_consumed_cache_key jti' = challenge_proof_consumed_cache_key jti")
      (auto simp: kv_set_nx_def consumed_until_def)
  obtain fs where "snd (command (\<lambda>w. let (r, kv) = kv_set_nx now (challenge_proof_consumed_cache_key jti') audience ttl (cw_texts w)
        in (r, w\<lparr>cw_texts := kv\<rparr>)) w) = w\<lparr>cw_faults := fs\<rparr> \<or>
      snd (command (\<lambda>w. let (r, kv) = kv_set_nx now (challenge_proof_consumed_cache_key jti') audience ttl (cw_texts w)
        in (r, w\<lparr>cw_texts := kv\<rparr>)) w) =
      w\<lparr>cw_faults := fs, cw_texts := snd (kv_set_nx now (challenge_proof_consumed_cache_key jti') audience ttl (cw_texts w))\<rparr>"
    using command_state by (fastforce simp: Let_def split_def)
  moreover have "consumed_until until jti (w\<lparr>cw_faults := fs\<rparr>)" using assms(1) by (simp add: consumed_until_def)
  ultimately show ?thesis using assms(1) step by (auto simp: mark_proof_consumed_def)
qed

lemma verify_state:
  "snd (verify_proof_token jwt now r w) = w \<or>
   (\<exists>jti a ttl. snd (verify_proof_token jwt now r w) = snd (mark_proof_consumed now jti a ttl w))"
proof -
  have claims: "snd (verify_claims jwt now r w) = w \<or>
     (\<exists>jti a ttl. snd (verify_claims jwt now r w) = snd (mark_proof_consumed now jti a ttl w))"
    by (auto simp: verify_claims_def then_do_def split: sum.split prod.split) (metis snd_conv)+
  then show ?thesis
    by (cases "verify_claims jwt now r w"; cases "fst (verify_claims jwt now r w)")
      (auto simp: verify_proof_token_def split: option.split)
qed

lemma traffic_keeps_consumed:
  "proof_traffic env jwt until w w' \<Longrightarrow> consumed_until until jti w \<Longrightarrow> consumed_until until jti w'"
proof (induction rule: proof_traffic.induct)
  case (verifying now w r)
  then show ?case using verify_state [of jwt now r w] mark_keeps_consumed [OF verifying(2,1)] by auto
qed (rule consumed_frame [OF consumed.frames_start] consumed_frame [OF consumed.frames_respond]
      consumed_frame [OF consumed.frames_refresh], assumption)+

lemma run_keeps_consumed:
  "(proof_traffic env jwt until)\<^sup>*\<^sup>* w w' \<Longrightarrow> consumed_until until jti w \<Longrightarrow> consumed_until until jti w'"
  by (induction rule: rtranclp_induct) (use traffic_keeps_consumed in blast)+

lemma verify_accepts:
  assumes "fst (verify_proof_token jwt now r w) = Inr c" "vr_consume_once r"
  shows "claims_match r now c" "fst (mark_proof_consumed now (pc_token_identifier c) (trim_space (vr_audience r))
      (time_sub (the (pc_expires_at c)) now) w) = Inr True"
    "snd (verify_proof_token jwt now r w) = snd (mark_proof_consumed now (pc_token_identifier c) (trim_space (vr_audience r))
      (time_sub (the (pc_expires_at c)) now) w)"
  using assms
  by (auto simp: verify_proof_token_def verify_claims_def then_do_def split: sum.splits prod.splits option.splits if_splits)

lemma mark_consumes:
  assumes "fst (mark_proof_consumed now jti a ttl w) = Inr True"
  shows "kv_get now (challenge_proof_consumed_cache_key jti) (cw_texts w) = None"
    "until + millisecond \<le> now + ttl \<Longrightarrow> consumed_until until jti (snd (mark_proof_consumed now jti a ttl w))"
proof -
  obtain w' where marked: "mark_proof_consumed now jti a ttl w = (Inr True, w')" "\<not> (blank jti \<or> blank a)"
    using assms(1) by (cases "mark_proof_consumed now jti a ttl w") (auto simp: mark_proof_consumed_def split: if_splits)
  let ?k = "challenge_proof_consumed_cache_key jti"
  from marked obtain fs where done_at: "(let (r, kv) = kv_set_nx now ?k a ttl (cw_texts (w\<lparr>cw_faults := fs\<rparr>))
      in (r, w\<lparr>cw_faults := fs, cw_texts := kv\<rparr>)) = (Inr True, w')"
    by (auto simp: mark_proof_consumed_def dest: command_Inr)
  then obtain kv where kv: "kv_set_nx now ?k a ttl (cw_texts w) = (Inr True, kv)" "cw_texts w' = kv"
    by (cases "kv_set_nx now ?k a ttl (cw_texts w)") auto
  show "kv_get now ?k (cw_texts w) = None" using kv_get_set_nx [OF kv(1)] by simp
  have "kv ?k = Some (a, if 0 < ttl then Some (now + sent_duration ttl) else None)"
    using kv(1) by (auto simp: kv_set_nx_def split: if_splits)
  then show "consumed_until until jti (snd (mark_proof_consumed now jti a ttl w))" if "until + millisecond \<le> now + ttl"
    using sent_duration_lower [of ttl] that by (simp add: marked(1) consumed_until_def kv(2))
qed

text \<open>C15. Safety. A verification that consumes a token accepts it once: whatever challenges are started, answered
  and refreshed and whatever tokens are verified after it, with any failures of the store, no consuming
  verification accepts a token with that identifier until one millisecond before its expiry.\<close>

theorem one_time_token:
  assumes first: "fst (verify_proof_token jwt now r w) = Inr c" "vr_consume_once r"
    and expiry: "until + millisecond \<le> the (pc_expires_at c)" "the (pc_expires_at c) - now < 2 ^ 63"
    and run: "(proof_traffic env jwt until)\<^sup>*\<^sup>* (snd (verify_proof_token jwt now r w)) w'"
    and later: "fst (verify_proof_token jwt now' r' w') = Inr c'" "vr_consume_once r'" "now' < until"
  shows "trim_space (pc_token_identifier c') \<noteq> trim_space (pc_token_identifier c)"
proof
  assume same: "trim_space (pc_token_identifier c') = trim_space (pc_token_identifier c)"
  let ?k = "challenge_proof_consumed_cache_key (pc_token_identifier c)"
  have live: "\<not> the (pc_expires_at c) < now"
    using verify_accepts(1) [OF first] by (auto simp: claims_match_def split: option.splits)
  have ttl: "time_sub (the (pc_expires_at c)) now = the (pc_expires_at c) - now"
    using expiry(2) live by (simp add: time_sub_def)
  have "consumed_until until (pc_token_identifier c) (snd (verify_proof_token jwt now r w))"
    unfolding verify_accepts(3) [OF first]
    by (rule mark_consumes(2) [OF verify_accepts(2) [OF first]]) (use ttl live expiry(1) in simp_all)
  from consumed_live [OF run_keeps_consumed [OF run this] later(3)]
  have "kv_get now' ?k (cw_texts w') \<noteq> None" .
  moreover have "kv_get now' (challenge_proof_consumed_cache_key (pc_token_identifier c')) (cw_texts w') = None"
    by (rule mark_consumes(1) [OF verify_accepts(2) [OF later(1,2)]])
  ultimately show False using same by (simp add: challenge_proof_consumed_cache_key_def)
qed

lemma sample_accepts:
  assumes "sample_jwt t = Inr got" "delivers (signed_payload (sample_claims\<lparr>pc_token_identifier := t\<rparr>)) got"
    "trimmed t" "t \<noteq> []" "now \<le> 65 * second" "cw_faults w = []"
    "kv_get now (challenge_proof_consumed_cache_key t) (cw_texts w) = None"
  shows "fst (verify_proof_token sample_jwt now (sample_verify t) w) = Inr (whole_second_claims (sample_claims\<lparr>pc_token_identifier := t\<rparr>))"
proof -
  note ready = sample_verifies [OF assms(1,2,3,3-)]
  obtain p where p: "lookup_challenge_action_policy (vr_business_action (sample_verify t)) = Some p"
      "requires_operation_binding p \<longrightarrow> resolve_operation_binding sample_passed \<noteq> []"
      "proof_methods_satisfied p (authentication_method_names sample_passed)"
    using ready(1) by auto
  have sent: "delivers (signed_payload (proof_claims_of sample_challenge_env (5 * second + 3) t sample_passed)) got"
    using assms(2) by (simp only: sample_passed_claims)
  show ?thesis
    using verify_issued [of "sample_verify t" p sample_passed sample_jwt got sample_challenge_env "5 * second + 3"
        t now w, OF p ready(2,3) sent ready(4,5,6)]
    by (simp only: sample_passed_claims)
qed

theorem one_time_token_witness:
  "\<exists>c c'. fst (verify_proof_token sample_jwt (6 * second) (sample_verify ''j'') sample_world) = Inr c \<and>
     fst (verify_proof_token sample_jwt (63 * second) (sample_verify ''k'')
       (snd (verify_proof_token sample_jwt (6 * second) (sample_verify ''j'') sample_world))) = Inr c' \<and>
     trim_space (pc_token_identifier c') \<noteq> trim_space (pc_token_identifier c)"
proof -
  let ?w = "snd (verify_proof_token sample_jwt (6 * second) (sample_verify ''j'') sample_world)"
  let ?c = "whole_second_claims sample_claims"
  have keys: "challenge_proof_consumed_cache_key ''k'' \<noteq> challenge_proof_consumed_cache_key ''j''"
    unfolding challenge_proof_consumed_cache_key_def by code_simp
  obtain got got' where got: "sample_jwt ''j'' = Inr got" "delivers (signed_payload (sample_claims\<lparr>pc_token_identifier := ''j''\<rparr>)) got"
    and got': "sample_jwt ''k'' = Inr got'" "delivers (signed_payload (sample_claims\<lparr>pc_token_identifier := ''k''\<rparr>)) got'"
    using sample_jwt_delivers by blast
  have jti: "pc_token_identifier ?c = ''j''" by (simp add: whole_second_claims_def sample_claims_def)
  have first: "fst (verify_proof_token sample_jwt (6 * second) (sample_verify ''j'') sample_world) = Inr ?c"
    using sample_accepts [OF got, of "6 * second" sample_world]
    by (simp add: sample_world_def kv_get_def second_def)
  have once: "vr_consume_once (sample_verify t)" for t by (simp add: sample_verify_def)
  have world: "cw_faults ?w = []" "kv_get (63 * second) (challenge_proof_consumed_cache_key ''k'') (cw_texts ?w) = None"
    unfolding verify_accepts(3) [OF first once]
    using keys by (simp_all add: jti mark_proof_consumed_def Let_def kv_set_nx_def sample_world_def kv_get_def)
  have trimmed_k: "trimmed ''k''" using sample_trims(1) by (simp add: trimmed_def)
  have later: "fst (verify_proof_token sample_jwt (63 * second) (sample_verify ''k'') ?w) =
      Inr (whole_second_claims (sample_claims\<lparr>pc_token_identifier := ''k''\<rparr>))"
    by (rule sample_accepts [OF got' trimmed_k _ _ world]) (simp_all add: second_def)
  have expiry: "64 * second + millisecond \<le> the (pc_expires_at ?c)" "the (pc_expires_at ?c) - 6 * second < 2 ^ 63"
    by (simp_all add: whole_second_claims_def sample_claims_def unix_seconds_def second_def millisecond_def)
  have "63 * second < 64 * second" by simp
  from one_time_token [OF first once expiry rtranclp.rtrancl_refl later once this] first later
  show ?thesis by blast
qed

section \<open>What the vocabulary promises\<close>

text \<open>
  Actions of the vocabulary that the service cannot carry through: a registration that is verified by mail
  yields a token that no verification accepts, and two actions have a policy but no steps.
\<close>

lemma register_plan_by_mail:
  "challenge_type_of (trim_space x) = Some EmailOneTimePassword \<Longrightarrow>
     step_plan_of ActRegisterAccount (x # xs) = [(EmailOneTimePassword, VerifyNew, 1)]"
  by simp

lemma mail_not_accepted: "\<not> proof_methods_satisfied (challenge_action_policies ActRegisterAccount) [type_name EmailOneTimePassword]"
  by (simp add: proof_methods_satisfied_def trim_type_name bare_policy_def type_name_inj del: type_name.simps)

text \<open>The registration of an account may be verified by mail: the steps built for an expected
  challenge type of mail are the one mail step. The token of such a session carries that one method, and
  verification refuses every such token for the action.\<close>

lemma register_by_mail_unverifiable:
  assumes "challenge_type_of (trim_space x) = Some EmailOneTimePassword"
    "pc_methods c = [type_name EmailOneTimePassword]"
  shows "step_plan_of ActRegisterAccount (x # xs) = [(EmailOneTimePassword, VerifyNew, 1)] \<and>
    (trim_space (vr_business_action r) = action_name ActRegisterAccount \<longrightarrow> fst (verify_proof_token jwt now r w) \<noteq> Inr c)"
proof -
  have policy: "lookup_challenge_action_policy (vr_business_action r) = Some (challenge_action_policies ActRegisterAccount)"
    if "trim_space (vr_business_action r) = action_name ActRegisterAccount"
    using that lookup_action_name [of ActRegisterAccount]
    by (simp add: lookup_challenge_action_policy_def del: action_name.simps challenge_action_policies.simps)
  have "fst (verify_proof_token jwt now r w) \<noteq> Inr c"
    if "trim_space (vr_business_action r) = action_name ActRegisterAccount"
    using mail_not_accepted assms(2)
    by (auto simp: verify_proof_token_def policy [OF that] then_do_def split: prod.split sum.split
        simp del: challenge_action_policies.simps type_name.simps)
  then show ?thesis using register_plan_by_mail [OF assms(1)] by blast
qed

theorem register_by_mail_unverifiable_witness:
  "step_plan_of ActRegisterAccount [''EMAIL_ONE_TIME_PASSWORD''] = [(EmailOneTimePassword, VerifyNew, 1)] \<and>
   fst (verify_proof_token (\<lambda>s. Inr (signed_payload (sample_claims\<lparr>pc_methods := [''EMAIL_ONE_TIME_PASSWORD'']\<rparr>))) 0
       ((sample_verify ''t'')\<lparr>vr_business_action := ''REGISTER_ACCOUNT''\<rparr>) sample_world) \<noteq>
     Inr (sample_claims\<lparr>pc_methods := [''EMAIL_ONE_TIME_PASSWORD'']\<rparr>)"
proof -
  have type: "challenge_type_of (trim_space ''EMAIL_ONE_TIME_PASSWORD'') = Some EmailOneTimePassword"
    using trim_type_name [of EmailOneTimePassword] challenge_type_of_name [of EmailOneTimePassword] by simp
  have only_mail: "pc_methods (sample_claims\<lparr>pc_methods := [''EMAIL_ONE_TIME_PASSWORD'']\<rparr>) = [type_name EmailOneTimePassword]"
    by simp
  have action: "trim_space (vr_business_action ((sample_verify ''t'')\<lparr>vr_business_action := ''REGISTER_ACCOUNT''\<rparr>)) = action_name ActRegisterAccount"
    using trim_action_name [of ActRegisterAccount] by simp
  show ?thesis using register_by_mail_unverifiable [OF type only_mail] action by blast
qed

lemma nothing_built:
  assumes "business_action_of (trim_space (sr_business_action request)) = Some a" "step_plan_of a (sr_expected_challenge_types request) = []"
  shows "steps (build_session cfg fresh policy request now) = []"
  using assms by (simp add: build_session_def build_steps_def plan_steps_def Let_def refresh_recommended_step_identifier_def
      split: option.split)

lemma nothing_eligible:
  assumes "steps s = []"
  shows "filter_eligible_steps env now s w = (Inl no_method_available, w)"
proof -
  have "steps (refresh_recommended_step_identifier now (s\<lparr>steps := []\<rparr>)) = []"
    by (simp add: refresh_recommended_step_identifier_def split: option.split)
  then have "current_step (refresh_recommended_step_identifier now (s\<lparr>steps := []\<rparr>)) now = None"
    by (simp add: current_step_None)
  then show ?thesis by (simp add: filter_eligible_steps_def assms Let_def)
qed

text \<open>Changing the second factors and resetting the password have a policy, but no steps are built for
  them: a request to start one that is not a repetition always fails, and leaves no session.\<close>

lemma actions_without_steps:
  assumes "trim_space (sr_business_action request) \<in> {action_name ActChangeMFA, action_name ActResetPassword}"
    "cw_faults w = []" "kv_get now (challenge_idempotency_cache_key (sr_idempotency_key request)) (cw_texts w) = None"
  shows "\<exists>e. start_challenge env fresh now request w = (Inl e, w)"
proof -
  obtain a where a: "business_action_of (trim_space (sr_business_action request)) = Some a"
      "step_plan_of a (sr_expected_challenge_types request) = []"
    using assms(1) business_action_of_name by (auto simp del: action_name.simps)
  have fresh_key: "get_session_by_idempotency_key now (sr_idempotency_key request) w = (Inr None, w)"
    using assms(2,3) by (simp add: get_session_by_idempotency_key_def)
  show ?thesis
    by (simp add: start_challenge_def fresh_key open_session_def nothing_eligible [OF nothing_built [OF a]] split: option.split)
qed

theorem actions_without_steps_witness:
  "\<exists>e. start_challenge sample_challenge_env (\<lambda>i. ''u'') 0 (sample_login\<lparr>sr_business_action := ''RESET_PASSWORD''\<rparr>) sample_world =
     (Inl e, sample_world)"
proof (rule actions_without_steps)
  show "trim_space (sr_business_action (sample_login\<lparr>sr_business_action := ''RESET_PASSWORD''\<rparr>)) \<in>
      {action_name ActChangeMFA, action_name ActResetPassword}"
    using trim_action_name [of ActResetPassword] by simp
qed (simp_all add: sample_world_def kv_get_def)

end
