(* ===== verification/Challenge_Lock.thy ===== *)
theory Challenge_Lock
  imports Challenge_Properties Fenced_Lease
begin

text \<open>
  The submit lock of a challenge (\<open>AcquireSubmitLock\<close>, \<open>ReleaseSubmitLock\<close> of
  \<open>session_repository.go\<close>) as a fenced lease: claiming it is \<open>SET NX\<close> with 15 seconds to live, releasing
  it is the script that deletes the key when it still holds the token. The requests themselves are one step
  each; what interleaves here are the acquisitions and the releases of several requests.
\<close>

section \<open>The operations\<close>

definition lock_claim :: "string \<Rightarrow> time \<Rightarrow> string \<Rightarrow> time \<Rightarrow> 'w challenge_world \<Rightarrow> bool \<times> 'w challenge_world" where
  "lock_claim ident now token until w =
     (if blank token \<or> until \<noteq> now + 15 * second then (False, w)
      else (fst (acquire_submit_lock now token ident (15 * second) w) = Inr True,
            snd (acquire_submit_lock now token ident (15 * second) w)))"

text \<open>The verdict is the answer of the script, which \<open>ReleaseSubmitLock\<close> drops.\<close>

definition lock_finish :: "string \<Rightarrow> time \<Rightarrow> string \<Rightarrow> unit \<Rightarrow> 'w challenge_world \<Rightarrow> bool \<times> 'w challenge_world" where
  "lock_finish ident now token r w =
     (\<not> blank token \<and> kv_get now (challenge_submit_lock_cache_key ident) (cw_texts w) = Some token,
      snd (release_submit_lock now ident token w))"

definition lock_holder :: "string \<Rightarrow> 'w challenge_world \<Rightarrow> (string \<times> time option) option" where
  "lock_holder ident w = cw_texts w (challenge_submit_lock_cache_key ident)"

definition lock_invar :: "string \<Rightarrow> 'w challenge_world \<Rightarrow> bool" where
  "lock_invar ident w \<longleftrightarrow>
     \<not> blank ident \<and> cw_faults w = [] \<and> (\<forall>v d. lock_holder ident w = Some (v, d) \<longrightarrow> \<not> blank v)"

lemma fifteen_seconds [simp]: "sent_duration (15 * second) = 15 * second"
  by (simp add: sent_duration_def second_def millisecond_def)

lemma acquire_unfold:
  assumes "\<not> blank ident" "cw_faults w = []"
  shows "acquire_submit_lock now token ident (15 * second) w =
    (if kv_get now (challenge_submit_lock_cache_key ident) (cw_texts w) = None
     then (Inr True, w\<lparr>cw_texts := (cw_texts w)(challenge_submit_lock_cache_key ident \<mapsto> (token, Some (now + 15 * second)))\<rparr>)
     else (Inr False, w))"
  using assms by (simp add: acquire_submit_lock_def kv_set_nx_def second_def [symmetric])
    (simp add: second_def)

lemma release_unfold:
  assumes "\<not> blank ident" "\<not> blank token" "cw_faults w = []"
  shows "release_submit_lock now ident token w =
    (Inr (), if kv_get now (challenge_submit_lock_cache_key ident) (cw_texts w) = Some token
             then w\<lparr>cw_texts := (cw_texts w)(challenge_submit_lock_cache_key ident := None)\<rparr> else w)"
  using assms by (simp add: release_submit_lock_def kv_compare_and_delete_def)

lemma release_blank: "blank token \<Longrightarrow> release_submit_lock now ident token w = (Inr (), w)"
  by (simp add: release_submit_lock_def)

lemma holder_get:
  "kv_get now (challenge_submit_lock_cache_key ident) (cw_texts w) =
     (case lock_holder ident w of
        None \<Rightarrow> None | Some (v, None) \<Rightarrow> Some v | Some (v, Some u) \<Rightarrow> if now < u then Some v else None)"
  by (simp add: kv_get_def lock_holder_def)

interpretation submit_lock: fenced_lease "lock_claim ident" "lock_finish ident" "lock_holder ident" "lock_invar ident"
  for ident
proof (unfold_locales, goal_cases)
  case (1 s now t until)
  then show ?case
    by (auto simp: lock_claim_def lock_invar_def acquire_unfold lock_holder_def)
next
  case (2 s now t r)
  then show ?case
    by (cases "blank t") (auto simp: lock_finish_def lock_invar_def release_unfold lock_holder_def release_blank split: if_splits)
next
  case (3 s now t until)
  then show ?case by (auto simp: lock_claim_def lock_invar_def acquire_unfold split: if_splits)
next
  case (4 s now t until)
  then show ?case by (auto simp: lock_claim_def lock_invar_def acquire_unfold lock_holder_def split: if_splits)
next
  case (5 s t' u now t until)
  then show ?case by (auto simp: lock_claim_def lock_invar_def acquire_unfold holder_get)
next
  case (6 s now t r)
  then show ?case
    by (cases "blank t") (auto simp: lock_finish_def lock_invar_def release_unfold release_blank)
next
  case (7 s now t r)
  then show ?case by (auto simp: lock_finish_def holder_get split: option.splits if_splits)
next
  case (8 s t u now r)
  then show ?case by (auto simp: lock_finish_def lock_invar_def holder_get)
next
  case (9 s now t r)
  then show ?case by (auto simp: lock_finish_def lock_invar_def release_unfold lock_holder_def)
qed

section \<open>Requests\<close>

lemma locked_request:
  assumes "lock_invar ident w" "lock_holder ident w = Some (t, Some u)" "now < u"
  shows "\<exists>e. under_submit_lock now token ident body w = (Inl e, w)"
  using assms by (simp add: under_submit_lock_def lock_invar_def acquire_unfold holder_get)

text \<open>C16. Safety. Once a request has taken the submit lock of a challenge, then for 15 seconds, unless its own
  token is presented for release, every acquisition and release by others fails without effect; an answer or
  a refresh of that challenge is refused and changes nothing; and the owner can still release the lock.\<close>

theorem submit_lock_exclusive:
  assumes "\<not> blank ident" "\<not> blank t" "cw_faults w = []"
    and taken: "acquire_submit_lock now t ident (15 * second) w = (Inr True, w1)"
    and others: "\<forall>p \<in> set ops. op_time p < now + 15 * second \<and> \<not> finishes t p"
    and before: "now' < now + 15 * second"
  shows "run_lease (lock_claim ident) (lock_finish ident) ops w1 = (replicate (length ops) False, w1) \<and>
    (\<exists>e. respond env now' token jti ident step payload w1 = (Inl e, w1)) \<and>
    (\<exists>e. refresh_challenge env now' token ident step w1 = (Inl e, w1)) \<and>
    lock_holder ident (snd (release_submit_lock now' ident t w1)) = None"
proof -
  have w1: "w1 = w\<lparr>cw_texts := (cw_texts w)(challenge_submit_lock_cache_key ident \<mapsto> (t, Some (now + 15 * second)))\<rparr>"
    using taken assms(1,3) by (auto simp: acquire_unfold split: if_splits)
  have holds: "lock_holder ident w1 = Some (t, Some (now + 15 * second))" by (simp add: w1 lock_holder_def)
  have inv: "lock_invar ident w1" using assms(1-3) holds by (simp add: lock_invar_def w1)
  have "run_lease (lock_claim ident) (lock_finish ident) ops w1 = (replicate (length ops) False, w1)"
    by (rule submit_lock.live_lease_exclusive [OF inv holds others])
  moreover have "lock_holder ident (snd (release_submit_lock now' ident t w1)) = None"
    using submit_lock.finish_frees [OF inv] submit_lock.finish_live [OF inv holds before]
    by (simp add: lock_finish_def)
  ultimately show ?thesis
    unfolding respond_def refresh_challenge_def by (simp only: locked_request [OF inv holds before] simp_thms)
qed

theorem submit_lock_exclusive_witness:
  "\<exists>w1. acquire_submit_lock 0 ''k'' ''u'' (15 * second) sample_world = (Inr True, w1) \<and>
     run_lease (lock_claim ''u'') (lock_finish ''u'') [ClaimOp 1 ''f'' (1 + 15 * second), FinishOp 2 ''f'' ()] w1 =
       ([False, False], w1) \<and>
     lock_holder ''u'' (snd (release_submit_lock 3 ''u'' ''k'' w1)) = None"
proof -
  have names: "\<not> blank ''u''" "\<not> blank ''k''" by (simp_all add: blank_def sample_trims)
  have world: "cw_faults sample_world = []" "cw_texts sample_world = Map.empty" by (simp_all add: sample_world_def)
  have taken: "acquire_submit_lock 0 ''k'' ''u'' (15 * second) sample_world =
      (Inr True, snd (acquire_submit_lock 0 ''k'' ''u'' (15 * second) sample_world))"
    by (simp add: acquire_unfold names world kv_get_def)
  have others: "\<forall>p \<in> set [ClaimOp 1 ''f'' (1 + 15 * second), FinishOp 2 ''f'' ()].
      op_time p < 0 + 15 * second \<and> \<not> finishes ''k'' p"
    by (simp add: second_def)
  have "(3::int) < 0 + 15 * second" by (simp add: second_def)
  from submit_lock_exclusive [OF names world(1) taken others this] taken show ?thesis by auto
qed

section \<open>The throttle of a step\<close>

text \<open>
  The throttle of a challenge (\<open>throttle_repository.go\<close> and the throttle helpers of
  \<open>challenge_service.go\<close>): so many failures under a key within the window lock the key, and while a key of
  a step is locked an answer to that step is not tested.
\<close>

section \<open>Counting\<close>

text \<open>
  The failures under \<open>n\<close> that count at an instant, and the instant they lapse; \<open>span\<close> is the window as the
  script receives it.
\<close>

definition counted :: "time \<Rightarrow> int \<Rightarrow> string \<Rightarrow> int \<Rightarrow> time \<Rightarrow> 'w challenge_world \<Rightarrow> bool" where
  "counted now span n c lapse w \<longleftrightarrow>
     (if c = 0 then kv_get now (challenge_throttle_count_cache_key n) (cw_counts w) = None \<and> lapse = now + span
      else 0 < c \<and> now < lapse \<and> cw_counts w (challenge_throttle_count_cache_key n) = Some (c, Some lapse))"

definition locked_until :: "time \<Rightarrow> string \<Rightarrow> 'w challenge_world \<Rightarrow> bool" where
  "locked_until t n w \<longleftrightarrow> cw_texts w (challenge_throttle_lock_cache_key n) = Some (''1'', Some t)"

lemma counted_texts [simp]: "counted now span n c lapse (w\<lparr>cw_texts := x\<rparr>) = counted now span n c lapse w"
  by (simp add: counted_def)

lemma counted_later: "counted now span n c lapse w \<Longrightarrow> 0 < c \<Longrightarrow> now' < lapse \<Longrightarrow> counted now' span n c lapse w"
  by (simp add: counted_def)

lemma throttle_key_inj [simp]:
  "challenge_throttle_count_cache_key n = challenge_throttle_count_cache_key n' \<longleftrightarrow> n = n'"
  "challenge_throttle_lock_cache_key n = challenge_throttle_lock_cache_key n' \<longleftrightarrow> n = n'"
  by (simp_all add: challenge_throttle_count_cache_key_def challenge_throttle_lock_cache_key_def)

lemma incr_counted:
  assumes "counted now (whole_millis window * millisecond) n c lapse w" "0 < whole_millis window"
    "kv_incr now (challenge_throttle_count_cache_key n) window (cw_counts w) = (k, kv)"
  shows "k = c + 1 \<and> counted now (whole_millis window * millisecond) n (c + 1) lapse (w\<lparr>cw_counts := kv\<rparr>)"
  using assms by (auto simp: counted_def kv_incr_def kv_get_def Let_def split: if_splits)

lemma incr_other:
  assumes "kv_incr now (challenge_throttle_count_cache_key n') window (cw_counts w) = (k, kv)" "n' \<noteq> n"
  shows "counted now span n c lapse (w\<lparr>cw_counts := kv\<rparr>) = counted now span n c lapse w"
  using assms by (auto simp: counted_def kv_incr_def kv_get_def Let_def split: option.splits)

text \<open>One recorded failure counts under each key at least once, and locks the keys that reach the bound.\<close>

lemma record_failures_counted:
  assumes "cw_faults w = []" "counted now (whole_millis window * millisecond) n c lapse w" "0 < whole_millis window" "0 < lock"
  shows "\<exists>c' d w'. record_failures digest now m window lock found keys w = (Inr d, w') \<and> cw_faults w' = [] \<and>
      counted now (whole_millis window * millisecond) n c' lapse w' \<and> c \<le> c' \<and>
      (locked_until (now + sent_duration lock) n w \<longrightarrow> locked_until (now + sent_duration lock) n w') \<and>
      (Some n \<in> normalize_throttle_key digest ` set keys \<longrightarrow>
         c + 1 \<le> c' \<and> (m \<le> c + 1 \<longrightarrow> locked_until (now + sent_duration lock) n w'))"
  using assms
proof (induction keys arbitrary: w c found)
  case (Cons key keys)
  show ?case
  proof (cases "normalize_throttle_key digest key")
    case None
    with Cons show ?thesis by simp
  next
    case (Some n')
    obtain k kv where incr: "kv_incr now (challenge_throttle_count_cache_key n') window (cw_counts w) = (k, kv)"
      by fastforce
    let ?c = "if n' = n then c + 1 else c"
    let ?w1 = "w\<lparr>cw_counts := kv\<rparr>"
    let ?w2 = "if m \<le> k then ?w1\<lparr>cw_texts := kv_set now (challenge_throttle_lock_cache_key n') ''1'' lock (cw_texts ?w1)\<rparr> else ?w1"
    have counted: "counted now (whole_millis window * millisecond) n ?c lapse ?w1" "n' = n \<Longrightarrow> k = c + 1"
      using incr_counted [OF Cons.prems(2,3)] incr_other [OF incr] incr Cons.prems(2) by auto
    then have counted2: "counted now (whole_millis window * millisecond) n ?c lapse ?w2" by (simp only: counted_texts if_cancel split: if_split) simp
    have faults: "cw_faults ?w2 = []" using Cons.prems(1) by simp
    have kept: "locked_until (now + sent_duration lock) n w \<Longrightarrow> locked_until (now + sent_duration lock) n ?w2"
      using Cons.prems(4) by (auto simp: locked_until_def kv_set_def)
    have locks: "n' = n \<Longrightarrow> m \<le> c + 1 \<Longrightarrow> locked_until (now + sent_duration lock) n ?w2"
      using counted(2) Cons.prems(4) by (simp add: locked_until_def kv_set_def)
    note IH = Cons.IH [OF faults counted2 Cons.prems(3,4)]
    have "\<exists>found'. record_failures digest now m window lock found (key # keys) w = record_failures digest now m window lock found' keys ?w2"
      by (cases "m \<le> k") (auto simp: Some incr Cons.prems(1) Let_def)
    then obtain found' where step: "record_failures digest now m window lock found (key # keys) w =
        record_failures digest now m window lock found' keys ?w2" by blast
    obtain c' d w' where rest: "record_failures digest now m window lock found' keys ?w2 = (Inr d, w')" "cw_faults w' = []"
        "counted now (whole_millis window * millisecond) n c' lapse w'" "?c \<le> c'"
        "locked_until (now + sent_duration lock) n ?w2 \<longrightarrow> locked_until (now + sent_duration lock) n w'"
        "Some n \<in> normalize_throttle_key digest ` set keys \<longrightarrow>
           ?c + 1 \<le> c' \<and> (m \<le> ?c + 1 \<longrightarrow> locked_until (now + sent_duration lock) n w')"
      using IH [of found'] by blast
    then show ?thesis
      unfolding step using kept locks Some by (intro exI [of _ c'] exI [of _ d] exI [of _ w']) (auto split: if_splits)
  qed
qed auto

lemma check_locked_found:
  assumes "cw_faults w = []" "locked_until u n w" "now < u" "Some n \<in> normalize_throttle_key digest ` set keys"
  shows "\<exists>d. check_locked digest now keys w = (Inr (Some d), w) \<and> td_locked d"
  using assms(4)
proof (induction keys)
  case (Cons key keys)
  have found: "kv_get now (challenge_throttle_lock_cache_key n) (cw_texts w) = Some ''1''"
    using assms(2,3) by (simp add: locked_until_def kv_get_def)
  show ?case
  proof (cases "normalize_throttle_key digest key")
    case (Some n')
    then show ?thesis
      using Cons found assms(1) by (cases "kv_get now (challenge_throttle_lock_cache_key n') (cw_texts w)") auto
  qed (use Cons in auto)
qed simp

text \<open>Failures recorded for a step at the given instants.\<close>

definition record_at :: "'w challenge_env \<Rightarrow> throttle_key list \<Rightarrow> challenge_step \<Rightarrow> time list \<Rightarrow> 'w challenge_world \<Rightarrow> 'w challenge_world" where
  "record_at env keys st ts w = foldl (\<lambda>w t. snd (record_throttle_failure env t keys st w)) w ts"

definition failure_bound :: "'w challenge_env \<Rightarrow> challenge_step \<Rightarrow> int" where
  "failure_bound env st = default_positive (cfg_throttle_max_failures (ce_config env)) (max_attempts st)"

definition counting_span :: "'w challenge_env \<Rightarrow> int" where
  "counting_span env = whole_millis (window_ttl (ce_config env)) * millisecond"

lemma whole_millis_nonpos: "d \<le> 0 \<Longrightarrow> whole_millis d \<le> 0"
  by (auto simp: whole_millis_def pos_imp_zdiv_nonneg_iff)

lemma record_throttle_counted:
  assumes "cw_faults w = []" "counted now (counting_span env) n c lapse w" "0 < counting_span env"
    "0 < lock_ttl (ce_config env)" "0 < failure_bound env st" "Some n \<in> normalize_throttle_key (ce_digest env) ` set keys"
  shows "\<exists>c' w'. snd (record_throttle_failure env now keys st w) = w' \<and> cw_faults w' = [] \<and>
      counted now (counting_span env) n c' lapse w' \<and> c + 1 \<le> c' \<and>
      (failure_bound env st \<le> c + 1 \<longrightarrow> locked_until (now + sent_duration (lock_ttl (ce_config env))) n w')"
proof -
  have "0 < whole_millis (window_ttl (ce_config env))"
    using assms(3) millisecond_pos by (auto simp: counting_span_def zero_less_mult_iff)
  then have span: "0 < whole_millis (window_ttl (ce_config env))" "0 < window_ttl (ce_config env)"
    using whole_millis_nonpos [of "window_ttl (ce_config env)"] by (auto simp: not_less [symmetric])
  have eq: "record_throttle_failure env now keys st w = record_failures (ce_digest env) now (failure_bound env st)
      (window_ttl (ce_config env)) (lock_ttl (ce_config env)) None keys w"
    using assms(4,5) span(2) by (simp add: record_throttle_failure_def record_failure_def failure_bound_def)
  show ?thesis
    unfolding eq
    using record_failures_counted [OF assms(1) assms(2) [unfolded counting_span_def] span(1) assms(4), where digest = "ce_digest env" and
        m = "failure_bound env st" and found = None and keys = keys] assms(6)
    by (auto simp: counting_span_def)
qed

lemma record_at_counted:
  assumes "ts \<noteq> []" "cw_faults w = []"
    "kv_get (hd ts) (challenge_throttle_count_cache_key n) (cw_counts w) = None"
    "\<forall>t \<in> set ts. t < hd ts + counting_span env" "0 < counting_span env" "0 < lock_ttl (ce_config env)"
    "0 < failure_bound env st" "Some n \<in> normalize_throttle_key (ce_digest env) ` set keys"
  shows "\<exists>c. counted (last ts) (counting_span env) n c (hd ts + counting_span env) (record_at env keys st ts w) \<and>
      int (length ts) \<le> c \<and> cw_faults (record_at env keys st ts w) = [] \<and>
      (failure_bound env st \<le> int (length ts) \<longrightarrow>
        locked_until (last ts + sent_duration (lock_ttl (ce_config env))) n (record_at env keys st ts w))"
  using assms(1,3,4)
proof (induction ts rule: rev_nonempty_induct)
  case (single t)
  then have "counted t (counting_span env) n 0 (t + counting_span env) w" by (simp add: counted_def)
  from record_throttle_counted [OF assms(2) this assms(5-8)] show ?case by (auto simp: record_at_def)
next
  case (snoc t ts)
  let ?w = "record_at env keys st ts w"
  obtain c where c: "counted (last ts) (counting_span env) n c (hd ts + counting_span env) ?w" "int (length ts) \<le> c"
      "cw_faults ?w = []"
    using snoc by auto
  have "0 < c" using c(2) snoc.hyps(1) by (cases ts) auto
  then have "counted t (counting_span env) n c (hd ts + counting_span env) ?w"
    using counted_later [OF c(1)] snoc by simp
  from record_throttle_counted [OF c(3) this assms(5-8)] c(2) snoc.hyps show ?case
    by (fastforce simp: record_at_def)
qed

text \<open>C30. Bound. When as many failures of a step are recorded within one window as its bound allows, then until
  the lock lapses, counted from the last of them, every check of a key under which they were recorded finds
  it locked.\<close>

theorem throttle_locks:
  assumes "ts \<noteq> []" "cw_faults w = []"
    "kv_get (hd ts) (challenge_throttle_count_cache_key n) (cw_counts w) = None"
    "\<forall>t \<in> set ts. t < hd ts + counting_span env" "0 < counting_span env" "0 < lock_ttl (ce_config env)"
    "0 < failure_bound env st" "failure_bound env st \<le> int (length ts)"
    "Some n \<in> normalize_throttle_key (ce_digest env) ` set keys"
    "Some n \<in> normalize_throttle_key (ce_digest env) ` set keys'"
    "now < last ts + sent_duration (lock_ttl (ce_config env))"
  shows "\<exists>d. check_throttle env now keys' (record_at env keys st ts w) = (Inr (Some d), record_at env keys st ts w) \<and> td_locked d"
proof -
  obtain c where "cw_faults (record_at env keys st ts w) = []"
      "locked_until (last ts + sent_duration (lock_ttl (ce_config env))) n (record_at env keys st ts w)"
    using record_at_counted [OF assms(1-7,9)] assms(8) by blast
  from check_locked_found [OF this assms(11,10)] show ?thesis by (simp add: check_throttle_def)
qed

definition sample_throttle_key :: throttle_key where
  "sample_throttle_key = \<lparr>tk_dimension = ''subject-action-factor'', tk_value = ''u|LOGIN|IMAGE_CAPTCHA''\<rparr>"

lemma sample_throttle_name: "\<exists>n. normalize_throttle_key (ce_digest sample_challenge_env) sample_throttle_key = Some n"
proof -
  have "normalize_throttle_key (\<lambda>x. x) sample_throttle_key \<noteq> None" by code_simp
  then show ?thesis by (auto simp: sample_challenge_env_def)
qed

lemma sample_throttle_config:
  "counting_span sample_challenge_env = 300 * second" "lock_ttl (ce_config sample_challenge_env) = 300 * second"
  "failure_bound sample_challenge_env st = 3" "sent_duration (300 * second) = 300 * second"
  by (simp_all add: counting_span_def window_ttl_def lock_ttl_def failure_bound_def sample_config_def default_positive_def
      seconds_duration_exact whole_millis_def second_def millisecond_def sent_duration_def)

theorem throttle_locks_witness:
  "\<exists>d. fst (check_throttle sample_challenge_env 3 [sample_throttle_key]
      (record_at sample_challenge_env [sample_throttle_key] sample_login_step [0, 1, 2] sample_world)) = Inr (Some d) \<and> td_locked d"
proof -
  obtain n where n: "normalize_throttle_key (ce_digest sample_challenge_env) sample_throttle_key = Some n"
    using sample_throttle_name by blast
  have key: "Some n \<in> normalize_throttle_key (ce_digest sample_challenge_env) ` set [sample_throttle_key]" by (simp add: n)
  have world: "cw_faults sample_world = []"
      "kv_get (hd [0, 1, 2]) (challenge_throttle_count_cache_key n) (cw_counts sample_world) = None"
    by (simp_all add: sample_world_def kv_get_def)
  have times: "\<forall>t \<in> set [0, 1, 2]. t < hd [0, 1, 2] + counting_span sample_challenge_env"
      "0 < counting_span sample_challenge_env" "0 < lock_ttl (ce_config sample_challenge_env)"
      "0 < failure_bound sample_challenge_env sample_login_step"
      "failure_bound sample_challenge_env sample_login_step \<le> int (length [0, 1, 2::time])"
      "3 < last [0, 1, 2] + sent_duration (lock_ttl (ce_config sample_challenge_env))"
    unfolding sample_throttle_config by (simp_all add: second_def)
  from throttle_locks [OF _ world times(1-5) key key times(6)] show ?thesis by auto
qed

section \<open>A throttled answer is not tested\<close>

lemma throttled_pending:
  assumes "find_step s step now = Inr i" "is_verifiable (steps s ! i)" "remaining_cooldown_seconds (steps s ! i) now \<le> 0"
    "cw_faults w = []" "locked_until u n w" "now < u"
    "Some n \<in> normalize_throttle_key (ce_digest env) ` set (challenge_throttle_keys s (steps s ! i))"
  shows "\<exists>d. respond_pending env now jti step payload s w = (Inr (throttled_response s i d), w)"
  using check_locked_found [OF assms(4-7)] assms(1-3)
  by (auto simp: respond_pending_def Let_def check_throttle_def)

text \<open>While one of the throttle keys of a step is locked, an answer to the step is not tested,
  right or wrong: the response says so, and sessions, counters and everything outside the store (the
  credential store, the mail) are as before.\<close>

lemma throttled_answer_not_tested:
  assumes ready: "\<not> blank ident" "\<not> blank token" "cw_faults w = []"
      "kv_get now (challenge_submit_lock_cache_key ident) (cw_texts w) = None"
    and session: "kv_get now (challenge_session_cache_key ident) (cw_sessions w) = Some s" "\<not> is_expired s now"
      "session_state s = ChallengePending"
    and step: "find_step s step now = Inr i" "is_verifiable (steps s ! i)" "remaining_cooldown_seconds (steps s ! i) now \<le> 0"
    and locked: "locked_until u n w" "now < u"
      "Some n \<in> normalize_throttle_key (ce_digest env) ` set (challenge_throttle_keys s (steps s ! i))"
  shows "\<exists>d w'. respond env now token jti ident step payload w = (Inr (throttled_response s i d), w') \<and>
      cw_sessions w' = cw_sessions w \<and> cw_counts w' = cw_counts w \<and> cw_outside w' = cw_outside w"
proof -
  let ?k = "challenge_submit_lock_cache_key ident"
  let ?w1 = "w\<lparr>cw_texts := (cw_texts w)(?k \<mapsto> (token, Some (now + 15 * second)))\<rparr>"
  have acquire: "acquire_submit_lock now token ident (15 * second) w = (Inr True, ?w1)"
    by (simp add: acquire_unfold [OF ready(1,3)] ready(4))
  have "locked_until u n ?w1"
    using locked(1) by (simp add: locked_until_def challenge_submit_lock_cache_key_def challenge_throttle_lock_cache_key_def)
  from throttled_pending [OF step _ this locked(2,3)] ready(3)
  obtain d where pending: "respond_pending env now jti step payload s ?w1 = (Inr (throttled_response s i d), ?w1)" by auto
  have same_key: "challenge_session_cache_key (trim_space ident) = challenge_session_cache_key ident"
    by (simp add: challenge_session_cache_key_def)
  have "get_session now ident ?w1 = (Inr s, ?w1)"
    using ready(1,3) session(1) by (simp add: get_session_def repo_get_session_def blank_def same_key)
  then have "respond_locked env now jti ident step payload ?w1 = (Inr (throttled_response s i d), ?w1)"
    using session(2,3) pending by (simp add: respond_locked_def)
  then show ?thesis
    by (intro exI [of _ d]) (simp add: respond_def under_submit_lock_def acquire release_unfold [OF ready(1,2)] ready(3))
qed

definition sample_subject :: challenge_session where
  "sample_subject = sample_opened\<lparr>subject_identifier := ''u''\<rparr>"

lemma sample_subject_keys: "challenge_throttle_keys sample_subject sample_login_step = [sample_throttle_key]"
proof -
  have context_risk: "any_get (session_context sample_subject) ''riskContext'' = ANil"
    by (simp add: sample_subject_def sample_opened_context build_context_def Let_def put_if_def sample_login_def)
  then have "risk_identity sample_subject = ([], [])" by (simp add: risk_identity_def)
  moreover have "session_business_action sample_subject = ''LOGIN''"
    using trim_action_name [of ActLogin]
    by (simp add: sample_subject_def sample_opened_def sample_built_def build_session_def Let_def refresh_recommended_step_identifier_def
        split: option.split)
  moreover have "trim_space ''LOGIN'' = ''LOGIN''" "trim_space ''IMAGE_CAPTCHA'' = ''IMAGE_CAPTCHA''" by code_simp+
  ultimately show ?thesis
    by (simp add: challenge_throttle_keys_def Let_def key_if_def sample_trims sample_throttle_key_def)
      (simp add: sample_subject_def sample_trims)
qed

theorem throttled_answer_not_tested_witness:
  "\<exists>w d w'. respond sample_challenge_env 1 ''t'' ''j'' ''challenge_u'' [] [''code'' \<mapsto> AStr ''7''] w =
      (Inr (throttled_response sample_subject 0 d), w') \<and> cw_sessions w' = cw_sessions w"
proof -
  obtain n where n: "normalize_throttle_key (ce_digest sample_challenge_env) sample_throttle_key = Some n"
    using sample_throttle_name by blast
  define w where "w = sample_world\<lparr>cw_sessions := [challenge_session_cache_key ''challenge_u'' \<mapsto> (sample_subject, None)],
      cw_texts := [challenge_throttle_lock_cache_key n \<mapsto> (''1'', Some 2)]\<rparr>"
  have ready: "\<not> blank ''challenge_u''" "\<not> blank ''t''" "cw_faults w = []"
      "kv_get 1 (challenge_submit_lock_cache_key ''challenge_u'') (cw_texts w) = None"
    by (simp_all add: blank_def sample_trims(6) w_def sample_world_def kv_get_def challenge_submit_lock_cache_key_def
        challenge_throttle_lock_cache_key_def) code_simp
  have session: "kv_get 1 (challenge_session_cache_key ''challenge_u'') (cw_sessions w) = Some sample_subject"
      "\<not> is_expired sample_subject 1" "session_state sample_subject = ChallengePending"
    by (simp_all add: w_def kv_get_def is_expired_def sample_subject_def second_def)
  have steps: "steps sample_subject = [sample_login_step]" by (simp add: sample_subject_def)
  have step: "find_step sample_subject [] 1 = Inr 0" "is_verifiable (steps sample_subject ! 0)"
      "remaining_cooldown_seconds (steps sample_subject ! 0) 1 \<le> 0"
    using current_step_steps [OF steps, of 1]
    by (simp_all add: steps find_step_def sample_trims is_verifiable_def remaining_cooldown_seconds_def is_cooling_down_def)
  have locked: "locked_until 2 n w" "(1::time) < 2"
      "Some n \<in> normalize_throttle_key (ce_digest sample_challenge_env) ` set (challenge_throttle_keys sample_subject (steps sample_subject ! 0))"
    by (simp_all add: locked_until_def w_def steps sample_subject_keys n)
  from throttled_answer_not_tested [OF ready session step locked, of "''j''" "[''code'' \<mapsto> AStr ''7'']"] show ?thesis by blast
qed

end
