(* ===== verification/Sso_Properties.thy ===== *)
theory Sso_Properties
  imports Sso_Samples
begin

text \<open>
  What the single sign-on service promises about codes, sessions and refresh tokens. The runs of
  statements between two requests are arbitrary: any requests of any clients, interleaved statement by
  statement and failing anywhere.
\<close>

section \<open>Authorization codes\<close>

lemma exchanged_code_used:
  assumes "exchange_authorization_code env now cid secret code uri verifier w = (Inr b, w1)"
  shows "code_used (trim_space code) (sw_sql w1)"
proof -
  obtain client item w2 where item: "find (\<lambda>r. ac_code r = trim_space code) (st_codes (sw_sql w)) = Some item"
      "redeem_code env now client item w2 = (Inr b, w1)"
    by (rule exchange_Inr [OF assms])
  obtain wa wb s where used: "consume_authorization_code (ac_code item) now w2 = (Inr True, wa)"
      "sw_sql wb = sw_sql wa" "issue_for_code env now client s item wb = (Inr b, w1)"
    by (rule redeem_Inr [OF item(2)])
  have "code_used (ac_code item) (sw_sql wb)" using consume_code_Inr [OF used(1)] used(2) by simp
  then show ?thesis
    using code_used_run [OF run_of [OF sso_tables.stays_issue_for_code used(3)]] found_code [OF item(1)] by simp
qed

lemma used_code_refused:
  assumes "code_used (trim_space code) (sw_sql w)"
  shows "fst (exchange_authorization_code env now cid secret code uri verifier w) \<noteq> Inr b"
proof
  assume "fst (exchange_authorization_code env now cid secret code uri verifier w) = Inr b"
  then obtain w' where "exchange_authorization_code env now cid secret code uri verifier w = (Inr b, w')"
    by (cases "exchange_authorization_code env now cid secret code uri verifier w") simp
  then obtain client item where item: "find (\<lambda>r. ac_code r = trim_space code) (st_codes (sw_sql w)) = Some item"
      "check_code env now client uri verifier item = Inr ()"
    by (rule exchange_Inr)
  show False
    using check_code_Inr(1) [OF item(2)] found_code [OF item(1)] assms by (auto simp: code_used_def)
qed

text \<open>C8. Safety. An authorization code is exchanged for tokens at most once: after an exchange that succeeded, and
  any run of statements of other requests, every exchange of that code fails, with any client, secret and verifier.\<close>

theorem code_exchanged_once:
  assumes "exchange_authorization_code env now cid secret code uri verifier w = (Inr b, w1)"
    and "sso_run UNIV (sw_sql w1) (sw_sql w2)" "trim_space code2 = trim_space code"
  shows "fst (exchange_authorization_code env2 now2 cid2 secret2 code2 uri2 verifier2 w2) \<noteq> Inr b2"
  using used_code_refused code_used_run [OF assms(2) exchanged_code_used [OF assms(1)]] assms(3) by metis

theorem code_exchanged_once_witness:
  "\<forall>b. fst (exchange_authorization_code sample_sso_env second ''app'' ''pw'' ''c'' ''https://app/cb'' []
      (snd sample_exchanged)) \<noteq> Inr b"
proof
  fix b
  obtain b0 w1 where "sample_exchanged = (Inr b0, w1)" using sample_exchange by blast
  then show "fst (exchange_authorization_code sample_sso_env second ''app'' ''pw'' ''c'' ''https://app/cb'' []
      (snd sample_exchanged)) \<noteq> Inr b"
    using code_exchanged_once [OF _ rtranclp.rtrancl_refl refl, of sample_sso_env second "''app''" "''pw''" "''c''"]
    by (simp add: sample_exchanged_def)
qed

text \<open>C18. Functional. Tokens are only given for a code that is active and not expired, to the client it was
  issued to, authenticated by its policy and allowed the grant, with the very redirect URI of the code; with a proof key whenever the
  code has one, and it has one whenever the client needs it; and while its session is active, unexpired and of the same user and client.\<close>

theorem exchange_requires:
  assumes "exchange_authorization_code env now cid secret code uri verifier w = (Inr b, w1)"
  shows "\<exists>client item s. sc_client_id client = trim_space cid \<and>
    authenticate_client (se_password env) client secret = Inr () \<and> client_allows_grant client ''authorization_code'' \<and>
    item \<in> set (st_codes (sw_sql w)) \<and> ac_code item = trim_space code \<and> ac_status item = CodeStatusActive \<and>
    now \<le> ac_expires item \<and> ac_client item = sc_client_id client \<and> ac_redirect item = uri \<and>
    (client_requires_pkce client \<longrightarrow> ac_challenge item \<noteq> []) \<and>
    (ac_challenge item \<noteq> [] \<longrightarrow> verify_pkce (se_digest env) (ac_challenge item) (trim_space verifier)) \<and>
    s \<in> set (st_sessions (sw_sql w)) \<and> ss_id s = ac_session item \<and> ss_status s = SessionStatusActive \<and>
    now \<le> ss_expires s \<and> ss_user s = ac_user item \<and> ss_client s = ac_client item"
proof -
  obtain client item w2 where ex: "sc_client_id client = trim_space cid" "client_allows_grant client ''authorization_code''"
      "authenticate_client (se_password env) client secret = Inr ()"
      "find (\<lambda>r. ac_code r = trim_space code) (st_codes (sw_sql w)) = Some item"
      "check_code env now client uri verifier item = Inr ()" "redeem_code env now client item w2 = (Inr b, w1)" "sw_sql w2 = sw_sql w"
    by (rule exchange_Inr [OF assms])
  obtain wa s where re: "consume_authorization_code (ac_code item) now w2 = (Inr True, wa)"
      "find (\<lambda>r. ss_id r = ac_session item) (st_sessions (sw_sql wa)) = Some s"
      "check_code_session now client item (Some s) = Inr s"
    by (rule redeem_Inr [OF ex(6)])
  have "st_sessions (sw_sql wa) = st_sessions (sw_sql w)"
    using re(1) ex(7) by (auto simp: consume_authorization_code_def then_do_Inr update_rows_def dest!: sql_write_Inr)
  then have s: "s \<in> set (st_sessions (sw_sql w)) \<and> ss_id s = ac_session item" using found_session [OF re(2)] by simp
  show ?thesis
    by (rule exI [of _ client], rule exI [of _ item], rule exI [of _ s])
       (use ex(1,2,3) s found_code [OF ex(4)] check_code_Inr [OF ex(5)] check_code_session_Inr [OF re(3)] in auto)
qed

theorem exchange_requires_witness:
  "\<exists>item \<in> set (st_codes sample_tables). ac_code item = ''c'' \<and> ac_status item = CodeStatusActive \<and> ac_redirect item = ''https://app/cb''"
proof -
  obtain b0 w1 where "sample_exchanged = (Inr b0, w1)" using sample_exchange by blast
  from exchange_requires [OF this [unfolded sample_exchanged_def]] show ?thesis by auto
qed

section \<open>Codes of another client's session\<close>

lemma foreign_code_refused:
  assumes "code_of (trim_space code) cl sid (sw_sql w)" "session_of sid owner (sw_sql w)" "owner \<noteq> cl"
  shows "fst (exchange_authorization_code env now cid secret code uri verifier w) \<noteq> Inr b"
proof
  assume "fst (exchange_authorization_code env now cid secret code uri verifier w) = Inr b"
  then obtain w' where "exchange_authorization_code env now cid secret code uri verifier w = (Inr b, w')"
    by (cases "exchange_authorization_code env now cid secret code uri verifier w") simp
  from exchange_requires [OF this] show False
    using assms by (auto simp: code_of_def session_of_def)
qed

lemma insert_code_Inr:
  assumes "insert_authorization_code c w = (Inr (), w')"
  shows "code_of (ac_code c) (ac_client c) (ac_session c) (sw_sql w') \<and> st_sessions (sw_sql w') = st_sessions (sw_sql w)"
proof -
  have "ac_code c \<notin> ac_code ` set (st_codes (sw_sql w))" and row: "sw_sql w' = (sw_sql w)\<lparr>st_codes := st_codes (sw_sql w) @
      [c\<lparr>ac_challenge := trim_space (ac_challenge c), ac_challenge_method := trim_space (ac_challenge_method c),
         ac_nonce := trim_space (ac_nonce c), ac_acr := trim_space (ac_acr c)\<rparr>]\<rparr>"
    using assms by (auto simp: insert_authorization_code_def split: if_split_asm dest!: sql_write_Inr)
  then have "ac_code r \<noteq> ac_code c" if "r \<in> set (st_codes (sw_sql w))" for r using that by (metis imageI)
  then show ?thesis by (auto simp: code_of_def row)
qed

lemma authorize_Inr:
  assumes "authorize_with_active_session env now cid uri scope st nonce challenge kind cand w = (Inr r, w')"
  shows "code_of (cr_code r) (trim_space cid) (cd_session cand) (sw_sql w') \<and> st_sessions (sw_sql w') = st_sessions (sw_sql w)"
proof -
  obtain client w1 scopes where c: "require_client env now cid w = (Inr client, w1)"
    and rest: "(let (code, w2) = new_id env ''sso_code'' w1
                 in then_do (insert_authorization_code
                      \<lparr>ac_code = code, ac_client = sc_client_id client, ac_user = cd_user cand,
                       ac_session = cd_session cand, ac_redirect = uri, ac_scopes = scopes,
                       ac_challenge = trim_space challenge, ac_challenge_method = to_upper (trim_space kind),
                       ac_nonce = trim_space nonce, ac_acr = cd_acr cand, ac_amr = cd_amr cand,
                       ac_expires = now + 5 * minute, ac_consumed = None, ac_status = CodeStatusActive\<rparr> w2)
                    (\<lambda>_ w3. (Inr \<lparr>cr_uri = uri, cr_code = code, cr_state = st\<rparr>, w3))) = (Inr r, w')"
    using assms unfolding authorize_with_active_session_def success_iffs by auto
  obtain code w2 where n: "new_id env ''sso_code'' w1 = (code, w2)" by fastforce
  then have "sw_sql w2 = sw_sql w1" by (auto simp: new_id_def)
  with rest require_client_Inr [OF c] show ?thesis
    by (auto simp: n then_do_Inr dest!: insert_code_Inr)
qed

text \<open>A session serves single sign-on only for the client that started it: when a request for another
  client is authorized by an active session, the code it hands out can never be exchanged, by anyone.\<close>

lemma foreign_session_code_useless:
  assumes "authorize_with_active_session env now cid uri scope st nonce challenge kind cand w = (Inr r, w1)"
    and "session_of (cd_session cand) owner (sw_sql w)" "owner \<noteq> trim_space cid"
    and "sso_run UNIV (sw_sql w1) (sw_sql w2)" "trim_space code = cr_code r"
  shows "fst (exchange_authorization_code env2 now2 cid2 secret code uri2 verifier w2) \<noteq> Inr b"
proof (rule foreign_code_refused)
  have a: "code_of (trim_space code) (trim_space cid) (cd_session cand) (sw_sql w1)"
      "session_of (cd_session cand) owner (sw_sql w1)"
    using authorize_Inr [OF assms(1)] assms(2,5) by (simp_all add: session_of_def)
  show "code_of (trim_space code) (trim_space cid) (cd_session cand) (sw_sql w2)"
    by (rule code_of_run [OF assms(4) a(1)])
  show "session_of (cd_session cand) owner (sw_sql w2)" by (rule session_of_run [OF assms(4) a(2)])
qed (rule assms(3))

theorem foreign_session_code_useless_witness:
  "\<forall>b. fst (exchange_authorization_code sample_sso_env second ''app'' ''pw'' ''sso_code_10'' ''https://app/cb'' []
      (snd (authorize_with_active_session sample_sso_env second ''app'' ''https://app/cb'' ''openid'' [] [] [] []
        sample_candidate foreign_world))) \<noteq> Inr b"
proof
  fix b
  obtain r w1 where a: "authorize_with_active_session sample_sso_env second ''app'' ''https://app/cb'' ''openid'' [] [] [] []
      sample_candidate foreign_world = (Inr r, w1)" "cr_code r = ''sso_code_10''"
    using sample_authorized by blast
  have owner: "session_of (cd_session sample_candidate) ''other'' (sw_sql foreign_world)"
    by (simp add: session_of_def sample_candidate_def candidate_of_def foreign_world_def sample_sso_session_def)
  have "trim_space ''sso_code_10'' = cr_code r" unfolding a(2) by (rule trim_visible) (simp add: visible_def)
  then show "fst (exchange_authorization_code sample_sso_env second ''app'' ''pw'' ''sso_code_10'' ''https://app/cb'' []
      (snd (authorize_with_active_session sample_sso_env second ''app'' ''https://app/cb'' ''openid'' [] [] [] []
        sample_candidate foreign_world))) \<noteq> Inr b"
    unfolding a(1) snd_conv
    by (intro foreign_session_code_useless [OF a(1) owner _ rtranclp.rtrancl_refl]) simp_all
qed

section \<open>Revoked sessions\<close>

lemma closed_session_refused:
  assumes "session_closed sid (sw_sql w)"
  shows "resolve_active_session env now sid' w = (Inr (Some s), w') \<Longrightarrow> ss_id s \<noteq> sid"
    and "validate_access_token env now token w = (Inr p, w') \<Longrightarrow> tp_session p \<noteq> sid"
    and "exchange_refresh_token env now cid secret token from_cookie w = (Inr b, w') \<Longrightarrow>
      \<exists>f \<in> set (st_families (sw_sql w)). rf_current f = build_token_hash env token \<and> rf_session f \<noteq> sid"
    and "exchange_authorization_code env now cid secret code uri verifier w = (Inr b, w') \<Longrightarrow>
      \<exists>c \<in> set (st_codes (sw_sql w)). ac_code c = trim_space code \<and> ac_session c \<noteq> sid"
proof -
  have open_only: "r \<in> set (st_sessions (sw_sql w)) \<Longrightarrow> ss_status r = SessionStatusActive \<Longrightarrow> ss_id r \<noteq> sid" for r
    using assms by (auto simp: session_closed_def)
  show "resolve_active_session env now sid' w = (Inr (Some s), w') \<Longrightarrow> ss_id s \<noteq> sid"
    using resolve_Inr open_only by blast
  show "validate_access_token env now token w = (Inr p, w') \<Longrightarrow> tp_session p \<noteq> sid"
    using validate_Inr open_only by metis
  show "\<exists>f \<in> set (st_families (sw_sql w)). rf_current f = build_token_hash env token \<and> rf_session f \<noteq> sid"
    if r: "exchange_refresh_token env now cid secret token from_cookie w = (Inr b, w')"
  proof -
    obtain client f s where f: "find (\<lambda>r. rf_current r = build_token_hash env token) (st_families (sw_sql w)) = Some f"
        "find (\<lambda>r. ss_id r = rf_session f) (st_sessions (sw_sql w)) = Some s"
        "check_refresh_session now client f s = Inr ()"
      by (rule refresh_Inr [OF r])
    have "ss_status s = SessionStatusActive" using f(3) by (auto simp: check_refresh_session_def split: if_splits)
    with found_session [OF f(2)] found_family [OF f(1)] open_only show ?thesis by blast
  qed
  show "\<exists>c \<in> set (st_codes (sw_sql w)). ac_code c = trim_space code \<and> ac_session c \<noteq> sid"
    if e: "exchange_authorization_code env now cid secret code uri verifier w = (Inr b, w')"
    using exchange_requires [OF e] open_only by metis
qed

lemma close_sessions_closed:
  assumes "P r" "r \<in> set (st_sessions t)" "\<And>r'. r' \<in> set (st_sessions t) \<Longrightarrow> ss_id r' = ss_id r \<Longrightarrow> P r'"
  shows "session_closed (ss_id r) (snd (close_sessions P at t))"
proof -
  let ?rows = "update_where (\<lambda>r. P r \<and> ss_status r = SessionStatusActive)
      (\<lambda>r. r\<lparr>ss_revoked := Some at, ss_status := SessionStatusRevoked\<rparr>) (st_sessions t)"
  have "ss_id r \<in> ss_id ` set ?rows" using assms(2) by (simp add: keys_update)
  moreover have "\<forall>r' \<in> set ?rows. ss_id r' = ss_id r \<longrightarrow> ss_status r' \<noteq> SessionStatusActive"
    unfolding ball_update using assms(3) by simp
  ultimately show ?thesis by (simp add: session_closed_def close_sessions_def update_rows_def)
qed

lemma revoke_row_Inr:
  assumes "revoke_session_row sid at w = (Inr b, w')" "sid \<in> ss_id ` set (st_sessions (sw_sql w))"
  shows "session_closed sid (sw_sql w')"
proof -
  obtain r where r: "r \<in> set (st_sessions (sw_sql w))" "ss_id r = sid" using assms(2) by blast
  have "sw_sql w' = snd (close_sessions (\<lambda>r. ss_id r = sid) at (sw_sql w))"
    using assms(1) by (auto simp: revoke_session_row_def then_do_Inr dest!: sql_write_Inr)
  moreover have "session_closed (ss_id r) (snd (close_sessions (\<lambda>r. ss_id r = sid) at (sw_sql w)))"
    by (rule close_sessions_closed) (use r in auto)
  ultimately show ?thesis using r(2) by simp
qed

lemma sessions_kept_by_run: "sso_run A t t' \<Longrightarrow> ss_id ` set (st_sessions t) \<subseteq> ss_id ` set (st_sessions t')"
proof (induction rule: rtranclp_induct)
  case (step t1 t2)
  have "ss_id ` set (st_sessions t1) \<subseteq> ss_id ` set (st_sessions t2)"
    using step(2) by (induction rule: sso_statement.induct) (auto simp: keys_update)
  with step(3) show ?case by blast
qed simp

lemma revoke_all_Inr:
  assumes "revoke_families_and_session env now sid w = (Inr b, w')"
    "trim_space sid \<in> ss_id ` set (st_sessions (sw_sql w))"
  shows "session_closed (trim_space sid) (sw_sql w')"
proof -
  obtain w1 where w1: "revoke_session_row (trim_space sid) now w1 = (Inr b, w')"
      "sso_run UNIV (sw_sql w) (sw_sql w1)"
  proof -
    let ?reg = "\<lambda>w. if \<not> invalidating env then (Inr (), w)
            else then_do (find_session_by_session_id (trim_space sid) w) (\<lambda>found w1.
                   case found of None \<Rightarrow> (Inr (), w1) | Some s \<Rightarrow> register_targets env [ss_id s] w1)"
    have reg: "stays (\<lambda>w w1. sso_run UNIV (sw_sql w) (sw_sql w1)) ?reg"
      by (intro sso_tables.stays_intros sso_tables.stays_find_session sso_tables.stays_register)
    obtain u w2 w3 u' where s: "?reg w = (Inr u, w2)" "revoke_refresh_families_by_session_id (trim_space sid) now w2 = (Inr u', w3)"
        "revoke_session_row (trim_space sid) now w3 = (Inr b, w')"
      using assms(1) unfolding revoke_families_and_session_def Let_def then_do_Inr by blast
    show ?thesis
      by (rule that [OF s(3)])
         (rule rtranclp_trans [OF run_of [OF reg s(1)] run_of [OF sso_tables.stays_revoke_families(1) s(2)]])
  qed
  have "trim_space sid \<in> ss_id ` set (st_sessions (sw_sql w1))"
    using sessions_kept_by_run [OF w1(2)] assms(2) by (rule subsetD)
  then show ?thesis by (rule revoke_row_Inr [OF w1(1)])
qed

lemma revoke_session_Inr:
  assumes "revoke_session env now sid w = (Inr True, w')"
  shows "session_closed (trim_space sid) (sw_sql w')"
proof -
  obtain w1 where w1: "revoke_session_within env now sid w = (Inr True, w1)" "sw_sql w' = sw_sql w1"
    using validity_Inr [OF assms [unfolded revoke_session_def]] by blast
  obtain found w2 where f: "find_session_by_session_id (trim_space sid) w = (Inr found, w2)"
    and rest: "(case found of None \<Rightarrow> (Inr False, w2) | Some s \<Rightarrow> revoke_families_and_session env now (ss_id s) w2) = (Inr True, w1)"
    using w1(1) unfolding revoke_session_within_def then_do_Inr by blast
  obtain s where s: "found = Some s" "revoke_families_and_session env now (ss_id s) w2 = (Inr True, w1)"
    using rest by (cases found) simp_all
  have "find (\<lambda>r. ss_id r = trim_space sid) (st_sessions (sw_sql w)) = Some s" "sw_sql w2 = sw_sql w"
    using f s(1) unfolding find_session_by_session_id_def by (auto dest!: sql_read_Inr)
  then have "ss_id s = trim_space sid" "trim_space (ss_id s) \<in> ss_id ` set (st_sessions (sw_sql w2))"
    using found_session by (metis, metis imageI trim_space_idem)
  with revoke_all_Inr [OF s(2)] w1(2) show ?thesis by simp
qed

text \<open>C9. Safety. Once \<open>RevokeSession\<close> reports a session as revoked, no run of requests brings it back: no access token is
  accepted for it, no code and no refresh token of it is exchanged.\<close>

theorem revoked_session_stays_out:
  assumes "revoke_session env now sid w = (Inr True, w1)" "sso_run UNIV (sw_sql w1) (sw_sql w2)"
  shows "(\<forall>p w3. validate_access_token env2 now2 token w2 = (Inr p, w3) \<longrightarrow> tp_session p \<noteq> trim_space sid) \<and>
    (\<forall>b w3. exchange_refresh_token env2 now2 cid secret token from_cookie w2 = (Inr b, w3) \<longrightarrow>
       (\<exists>f \<in> set (st_families (sw_sql w2)). rf_current f = build_token_hash env2 token \<and> rf_session f \<noteq> trim_space sid)) \<and>
    (\<forall>b w3. exchange_authorization_code env2 now2 cid secret code uri verifier w2 = (Inr b, w3) \<longrightarrow>
       (\<exists>c \<in> set (st_codes (sw_sql w2)). ac_code c = trim_space code \<and> ac_session c \<noteq> trim_space sid))"
proof -
  note closed = session_closed_run [OF assms(2) revoke_session_Inr [OF assms(1)]]
  show ?thesis
    by (intro conjI allI impI)
       (erule closed_session_refused(2) [OF closed] closed_session_refused(3) [OF closed] closed_session_refused(4) [OF closed])+
qed

theorem revoked_session_stays_out_witness:
  "\<not> (\<exists>p w3. validate_access_token sample_sso_env second ''jwt.a'' (snd (revoke_session sample_sso_env second ''s'' sample_sso_world)) =
     (Inr p, w3) \<and> tp_session p = ''s'')"
proof -
  obtain w1 where gone: "revoke_session sample_sso_env second ''s'' sample_sso_world = (Inr True, w1)"
    using sample_revoked by blast
  have "\<forall>p w3. validate_access_token sample_sso_env second ''jwt.a'' w1 = (Inr p, w3) \<longrightarrow> tp_session p \<noteq> trim_space ''s''"
    by (rule conjunct1 [OF revoked_session_stays_out [OF gone rtranclp.rtrancl_refl]])
  then show ?thesis by (auto simp: gone)
qed

end
