(* ===== verification/Sso_Policy_Properties.thy ===== *)
theory Sso_Policy_Properties
  imports Sso_Properties
begin

text \<open>
  The decisions of the single sign-on service in closed form, and that an authorized code can be exchanged.
\<close>

section \<open>Scopes and clients\<close>

lemma clean_scopes_Inr:
  "clean_scopes allow xs = Inr ys \<longleftrightarrow>
     ys = filter (\<lambda>s. s \<noteq> []) (map trim_space xs) \<and> set ys \<subseteq> set allow"
proof (induction xs arbitrary: ys)
  case (Cons x xs)
  show ?case
  proof (cases "clean_scopes allow xs")
    case (Inl e)
    with Cons show ?thesis by (auto simp: Let_def)
  next
    case (Inr zs)
    with Cons [of zs] Cons [of ys] show ?thesis by (auto simp: Let_def subset_iff)
  qed
qed auto

text \<open>C21. Equivalence. The scopes that are granted are exactly the requested ones, trimmed, without blanks and in byte order, provided
  that all of them are scopes of the client and \<open>openid\<close> is among them; every other request is refused.\<close>

theorem normalize_scopes_exactly:
  "normalize_scopes client requested = Inr granted \<longleftrightarrow>
     granted = sort (filter (\<lambda>s. s \<noteq> []) (map trim_space requested)) \<and>
     set granted \<subseteq> trim_space ` set (sc_scopes client) \<and> ''openid'' \<in> set granted"
proof -
  let ?ys = "filter (\<lambda>s. s \<noteq> []) (map trim_space requested)"
  have openid: "has_scope ?ys ''openid'' \<longleftrightarrow> ''openid'' \<in> set ?ys"
  proof -
    have "\<forall>x \<in> set ?ys. trim_space x = x" by auto
    then show ?thesis unfolding has_scope_def by metis
  qed
  show ?thesis
  proof (cases "clean_scopes (map trim_space (sc_scopes client)) requested")
    case (Inl e)
    then have "\<not> set ?ys \<subseteq> trim_space ` set (sc_scopes client)"
      using clean_scopes_Inr [of "map trim_space (sc_scopes client)" requested ?ys] by auto
    then have "\<not> (granted = sort ?ys \<and> set granted \<subseteq> trim_space ` set (sc_scopes client))" by (metis set_sort)
    then show ?thesis by (auto simp: normalize_scopes_def Inl simp del: set_sort)
  next
    case (Inr ys)
    then have ys: "ys = ?ys" "set ys \<subseteq> trim_space ` set (sc_scopes client)"
      using clean_scopes_Inr by fastforce+
    have "normalize_scopes client requested = Inr granted \<longleftrightarrow> requested \<noteq> [] \<and> ?ys \<noteq> [] \<and> has_scope ?ys ''openid'' \<and> granted = sort ?ys"
      by (auto simp: normalize_scopes_def Inr ys(1))
    also have "\<dots> \<longleftrightarrow> granted = sort ?ys \<and> set granted \<subseteq> trim_space ` set (sc_scopes client) \<and> ''openid'' \<in> set granted"
      unfolding openid using ys by auto
    finally show ?thesis .
  qed
qed

text \<open>A client is authenticated exactly when it presents no secret and its policy asks for none, or presents one that
  matches a stored hash under the basic policy; public clients have the first policy, confidential ones the second, and a
  client without a type either.\<close>

lemma client_authentication_exactly:
  "authenticate_client verify client secret = Inr () \<longleftrightarrow>
     (let kind = normalize_client_type (sc_type client); auth = to_lower (trim_space (sc_auth_method client))
      in auth \<in> {[], ''none''} \<and> kind \<in> {[], ''public''} \<and> blank secret \<or>
         auth = ''client_secret_basic'' \<and> kind \<in> {[], ''confidential''} \<and> \<not> blank secret \<and>
         list_ex (verify secret) (sc_secrets client))"
  by (auto simp: authenticate_client_def validate_client_auth_policy_def blank_def Let_def split: sum.splits if_splits)

section \<open>From authorization to tokens\<close>

lemma upper_lower_char: "upper_char (lower_char c) = upper_char c"
proof -
  have "(of_char c :: nat) \<le> 90 \<Longrightarrow> of_char (char_of (of_char c + (32 :: nat)) :: char) = (of_char c + 32 :: nat)"
    by (rule of_char_char_of_small) simp
  then show ?thesis by (auto simp: lower_char_def upper_char_def)
qed

lemma s256_stored: "equal_fold k ''S256'' \<Longrightarrow> to_upper k = ''S256''"
proof -
  assume "equal_fold k ''S256''"
  moreover have "to_upper (to_lower x) = to_upper x" for x
    by (simp add: to_upper_def to_lower_def upper_lower_char)
  moreover have "to_upper ''S256'' = ''S256''" by code_simp
  ultimately show ?thesis unfolding equal_fold_def by metis
qed

lemma find_client_later:
  assumes "sw_faults w = []" "find_client env now cid w = (Inr (Some c), w')"
  shows "find_client env later cid w = (Inr (Some (c\<lparr>sc_secrets := client_secrets later cid (sw_sql w)\<rparr>)), w) \<and> w' = w"
  using assms by (auto simp: find_client_def loaded_client_def split: option.splits)

lemma require_client_later:
  assumes "sw_faults w = []" "require_client env now cid w = (Inr c, w')" "require_client env later cid w = (Inr c', w'')"
  shows "c' = c\<lparr>sc_secrets := sc_secrets c'\<rparr> \<and> w' = w"
proof -
  obtain w1 where 1: "find_client env now (trim_space cid) w = (Inr (Some c), w1)" "w1 = w'"
    using assms(2) by (auto simp: require_client_def then_do_Inr split: option.splits if_splits)
  obtain w2 where 2: "find_client env later (trim_space cid) w = (Inr (Some c'), w2)"
    using assms(3) by (auto simp: require_client_def then_do_Inr split: option.splits if_splits)
  show ?thesis using find_client_later [OF assms(1) 1(1), of later] 1(2) 2 by auto
qed

lemma new_id_trim: "list_all visible prefix \<Longrightarrow> trim_space (fst (new_id env prefix w)) = fst (new_id env prefix w)"
proof (rule trim_visible)
  assume p: "list_all visible prefix"
  have "visible c" if "c \<in> set (show_int i)" for c i
  proof -
    have "c = CHR ''-'' \<or> digit_value c \<noteq> None"
      using that show_nat_digit by (auto simp: show_int_def split: if_splits)
    then show ?thesis by (auto simp: visible_def digit_value_def split: if_splits)
  qed
  with p show "list_all visible (fst (new_id env prefix w))"
    by (auto simp: new_id_def list_all_iff visible_def)
qed

lemma issue_for_code_succeeds:
  assumes "sw_faults w = []" "\<And>payload. \<exists>t. se_sign env payload = Inr t"
    "\<And>n. ''sso_rtf_'' @ show_int (se_id env n) \<notin> rf_id ` set (st_families (sw_sql w))"
  shows "\<exists>b w'. issue_for_code env now client s item w = (Inr b, w')"
proof -
  have access: "\<exists>t. issue_access_token env now client s scopes v = (Inr (t, access_expiry client now), v\<lparr>sw_ids := Suc (sw_ids v)\<rparr>)"
    and refresh: "\<exists>t. issue_refresh_token env now client s scopes v = (Inr (t, refresh_expiry client now), v\<lparr>sw_ids := Suc (sw_ids v)\<rparr>)"
    for scopes v
    using assms(2) by (auto simp: issue_access_token_def issue_refresh_token_def new_id_def Let_def split: sum.split)
      (metis Inr_not_Inl, metis Inr_not_Inl)
  have idt: "\<exists>t n. issue_id_token env now client s scopes nonce v = (Inr t, v\<lparr>sw_ids := n\<rparr>)" for scopes nonce v
  proof (cases "has_scope scopes ''openid''")
    case True
    then show ?thesis using assms(2) by (simp add: issue_id_token_def new_id_def Let_def) metis
  next
    case False
    then have "issue_id_token env now client s scopes nonce v = (Inr [], v\<lparr>sw_ids := sw_ids v\<rparr>)"
      by (simp add: issue_id_token_def)
    then show ?thesis by blast
  qed
  obtain t where 1: "issue_access_token env now client s (ac_scopes item) w = (Inr (t, access_expiry client now), w\<lparr>sw_ids := Suc (sw_ids w)\<rparr>)"
    using access by blast
  obtain t2 n where 2: "issue_id_token env now client s (ac_scopes item) (ac_nonce item) (w\<lparr>sw_ids := Suc (sw_ids w)\<rparr>) = (Inr t2, w\<lparr>sw_ids := n\<rparr>)"
    using idt [of "ac_scopes item" "ac_nonce item" "w\<lparr>sw_ids := Suc (sw_ids w)\<rparr>"] by auto
  obtain t3 where 3: "issue_refresh_token env now client s (ac_scopes item) (w\<lparr>sw_ids := n\<rparr>) = (Inr (t3, refresh_expiry client now), w\<lparr>sw_ids := Suc n\<rparr>)"
    using refresh [of "ac_scopes item" "w\<lparr>sw_ids := n\<rparr>"] by auto
  show ?thesis
    using assms(1,3)
    by (simp add: issue_for_code_def 1 2 3 new_id_def insert_refresh_token_family_def sql_write_now Let_def)
qed

lemma pkce_validated:
  assumes "validate_pkce_parameters client challenge kind = Inr ()"
  shows "client_requires_pkce client \<Longrightarrow> trim_space challenge \<noteq> []"
    and "trim_space challenge \<noteq> [] \<Longrightarrow> equal_fold (trim_space kind) ''S256''"
  using assms by (auto simp: validate_pkce_parameters_def Let_def split: if_splits)

lemma authorize_request_validated:
  assumes "validate_authorize_request client response uri challenge kind prompt = Inr ()"
  shows "client_allows_grant client ''authorization_code'' \<and> validate_pkce_parameters client challenge kind = Inr ()"
  using assms by (auto simp: validate_authorize_request_def split: sum.splits if_splits)

text \<open>What an authorization stores.\<close>

lemma authorize_stores:
  assumes "authorize_with_active_session env now cid uri scope st nonce challenge kind cand w = (Inr r, w1)" "sw_faults w = []"
  obtains client item where "require_client env now cid w = (Inr client, w)"
    "client_allows_grant client ''authorization_code''" "validate_pkce_parameters client challenge kind = Inr ()"
    "find (\<lambda>x. ac_code x = cr_code r) (st_codes (sw_sql w1)) = Some item" "ac_code item = cr_code r"
    "ac_client item = sc_client_id client" "ac_user item = cd_user cand" "ac_session item = cd_session cand"
    "ac_redirect item = uri" "ac_challenge item = trim_space challenge"
    "ac_challenge_method item = trim_space (to_upper (trim_space kind))" "ac_expires item = now + 5 * minute"
    "ac_status item = CodeStatusActive" "trim_space (cr_code r) = cr_code r" "sw_faults w1 = []" "cr_code r \<noteq> []"
    "\<exists>cs. sw_sql w1 = (sw_sql w)\<lparr>st_codes := cs\<rparr>"
proof -
  obtain client v scopes where c: "require_client env now cid w = (Inr client, v)"
      "validate_authorize_request client ''code'' uri challenge kind [] = Inr ()"
    and rest: "(let (code, w2) = new_id env ''sso_code'' v
                 in then_do (insert_authorization_code
                      \<lparr>ac_code = code, ac_client = sc_client_id client, ac_user = cd_user cand,
                       ac_session = cd_session cand, ac_redirect = uri, ac_scopes = scopes,
                       ac_challenge = trim_space challenge, ac_challenge_method = to_upper (trim_space kind),
                       ac_nonce = trim_space nonce, ac_acr = cd_acr cand, ac_amr = cd_amr cand,
                       ac_expires = now + 5 * minute, ac_consumed = None, ac_status = CodeStatusActive\<rparr> w2)
                    (\<lambda>_ w3. (Inr \<lparr>cr_uri = uri, cr_code = code, cr_state = st\<rparr>, w3))) = (Inr r, w1)"
    using assms(1) unfolding authorize_with_active_session_def success_iffs by auto
  have "v = w" using c(1) assms(2) by (auto simp: require_client_def find_client_def split: option.splits if_splits)
  define code where "code = fst (new_id env ''sso_code'' w)"
  have n: "new_id env ''sso_code'' w = (code, w\<lparr>sw_ids := Suc (sw_ids w)\<rparr>)" by (simp add: code_def new_id_def)
  have trim: "trim_space code = code" unfolding code_def by (rule new_id_trim) (simp add: visible_def)
  define item where "item = \<lparr>ac_code = code, ac_client = sc_client_id client, ac_user = cd_user cand,
                       ac_session = cd_session cand, ac_redirect = uri, ac_scopes = scopes,
                       ac_challenge = trim_space challenge, ac_challenge_method = trim_space (to_upper (trim_space kind)),
                       ac_nonce = trim_space nonce, ac_acr = trim_space (cd_acr cand), ac_amr = cd_amr cand,
                       ac_expires = now + 5 * minute, ac_consumed = None, ac_status = CodeStatusActive\<rparr>"
  have new: "code \<notin> ac_code ` set (st_codes (sw_sql w))" and r: "cr_code r = code" and
      w1: "w1 = w\<lparr>sw_ids := Suc (sw_ids w), sw_sql := (sw_sql w)\<lparr>st_codes := st_codes (sw_sql w) @ [item]\<rparr>\<rparr>"
    using rest assms(2) unfolding \<open>v = w\<close> n
    by (auto simp: insert_authorization_code_def sql_write_now item_def split: if_split_asm)
  have "ac_code x \<noteq> code" if "x \<in> set (st_codes (sw_sql w))" for x using new that by (metis imageI)
  then have "find (\<lambda>x. ac_code x = code) (st_codes (sw_sql w)) = None" by (simp add: find_None_iff)
  moreover have "find P (xs @ [x]) = (if find P xs = None \<and> P x then Some x else find P xs)" for P :: "auth_code \<Rightarrow> bool" and xs x
    by (induction xs) auto
  ultimately have found: "find (\<lambda>x. ac_code x = cr_code r) (st_codes (sw_sql w1)) = Some item"
    by (simp add: w1 r item_def)
  note valid = authorize_request_validated [OF c(2)]
  have filled: "code \<noteq> []" by (simp add: code_def new_id_def)
  have tables: "\<exists>cs. sw_sql w1 = (sw_sql w)\<lparr>st_codes := cs\<rparr>" by (auto simp: w1)
  show ?thesis
    by (rule that [OF c(1) [unfolded \<open>v = w\<close>] conjunct1 [OF valid] conjunct2 [OF valid] found]; (rule tables)?)
      (simp_all add: w1 r item_def trim filled assms(2))
qed

lemma require_client_tables:
  assumes "require_client env now cid w = (Inr c, w)" "sw_faults w = []" "sw_faults w1 = []"
    "sw_sql w1 = (sw_sql w)\<lparr>st_codes := cs\<rparr>"
  shows "require_client env now cid w1 = (Inr c, w1)"
proof -
  have "client_redirects i (sw_sql w1) = client_redirects i (sw_sql w)" "client_secrets now i (sw_sql w1) = client_secrets now i (sw_sql w)" for i
    by (simp_all add: client_redirects_def client_secrets_def assms(4))
  then have "find_client env now i w1 = (fst (find_client env now i w), w1)" for i
    using assms(2-4) by (simp add: find_client_def split: option.split)
  moreover have snd: "snd (find_client env now i w) = w" for i
    using assms(2) by (simp add: find_client_def split: option.split)
  ultimately have move: "find_client env now i w = (Inr x, w) \<Longrightarrow> find_client env now i w1 = (Inr x, w1)" for i x by simp
  obtain found v where found: "find_client env now (trim_space cid) w = (found, v)" by (cases "find_client env now (trim_space cid) w")
  have "v = w" using snd [of "trim_space cid"] found by simp
  moreover have "found = Inr (Some c) \<and> sc_status c = ClientStatusActive"
    using assms(1) found by (cases found) (auto simp: require_client_def then_do_Inr split: option.splits if_splits)
  ultimately show ?thesis
    using move [of "trim_space cid" "Some c"] found by (simp add: require_client_def)
qed

lemma quiet_found_code:
  "sw_faults w = [] \<Longrightarrow> find (\<lambda>x. ac_code x = c) (st_codes (sw_sql w)) = Some item \<Longrightarrow>
    find_authorization_code c w = (Inr (Some item), w)"
  by (simp add: find_authorization_code_def)

lemma quiet_consume:
  assumes "sw_faults w = []" "item \<in> set (st_codes (sw_sql w))" "ac_code item = c" "ac_status item = CodeStatusActive"
  obtains cs where "consume_authorization_code c now w = (Inr True, w\<lparr>sw_sql := (sw_sql w)\<lparr>st_codes := cs\<rparr>\<rparr>)"
proof -
  have "0 < count_where (\<lambda>r. ac_code r = c \<and> ac_status r = CodeStatusActive) (st_codes (sw_sql w))"
    unfolding count_where_pos using assms by blast
  then show ?thesis using that assms(1) by (simp add: consume_authorization_code_def sql_write_now update_rows_def)
qed

text \<open>C19. Liveness. A code authorized by an active session of the client is worth tokens: within five minutes, while the session is active and
  the store answers, the client's exchange with the same redirect URI and the verifier of the challenge succeeds.\<close>

theorem authorized_code_exchanges:
  assumes "authorize_with_active_session env now cid uri scope st nonce challenge kind cand w = (Inr r, w1)"
    and "sw_faults w = []" "trim_space cid \<noteq> []" "trim_space uri \<noteq> []" "later \<le> now + 5 * minute"
    and "require_client env later cid w = (Inr client, w)" "authenticate_client (se_password env) client secret = Inr ()"
    and "find (\<lambda>x. ss_id x = cd_session cand) (st_sessions (sw_sql w)) = Some s"
    and "ss_status s = SessionStatusActive" "later \<le> ss_expires s" "ss_user s = cd_user cand" "ss_client s = trim_space cid"
    and "trim_space challenge \<noteq> [] \<longrightarrow> verify_pkce (se_digest env) (trim_space challenge) verifier"
    and "\<forall>payload. \<exists>t. se_sign env payload = Inr t"
    and "\<forall>n. ''sso_rtf_'' @ show_int (se_id env n) \<notin> rf_id ` set (st_families (sw_sql w))"
  shows "\<exists>b w2. exchange_authorization_code env later cid secret (cr_code r) uri verifier w1 = (Inr b, w2)"
proof -
  obtain c0 item where a: "require_client env now cid w = (Inr c0, w)"
      "client_allows_grant c0 ''authorization_code''" "validate_pkce_parameters c0 challenge kind = Inr ()"
      "find (\<lambda>x. ac_code x = cr_code r) (st_codes (sw_sql w1)) = Some item" "ac_code item = cr_code r"
      "ac_client item = sc_client_id c0" "ac_user item = cd_user cand" "ac_session item = cd_session cand"
      "ac_redirect item = uri" "ac_challenge item = trim_space challenge"
      "ac_challenge_method item = trim_space (to_upper (trim_space kind))" "ac_expires item = now + 5 * minute"
      "ac_status item = CodeStatusActive" "trim_space (cr_code r) = cr_code r" "sw_faults w1 = []" "cr_code r \<noteq> []"
      "\<exists>cs. sw_sql w1 = (sw_sql w)\<lparr>st_codes := cs\<rparr>"
    by (rule authorize_stores [OF assms(1,2)])
  have client: "client = c0\<lparr>sc_secrets := sc_secrets client\<rparr>"
    using require_client_later [OF assms(2) a(1) assms(6)] by simp
  have cid: "sc_client_id client = trim_space cid" "sc_client_id c0 = trim_space cid"
    using require_client_Inr [OF assms(6)] require_client_Inr [OF a(1)] by simp_all
  have grant: "client_allows_grant client ''authorization_code''"
    using a(2) by (subst client) (simp add: client_allows_grant_def)
  have pkce: "client_requires_pkce client = client_requires_pkce c0"
    by (subst client) (simp add: client_requires_pkce_def)
  obtain cs where tables: "sw_sql w1 = (sw_sql w)\<lparr>st_codes := cs\<rparr>" using a(17) by blast
  have load: "require_client env later cid w1 = (Inr client, w1)"
    by (rule require_client_tables [OF assms(6,2) a(15) tables])
  have found: "find_authorization_code (cr_code r) w1 = (Inr (Some item), w1)"
    by (rule quiet_found_code [OF a(15,4)])
  have ok: "check_code env later client uri verifier item = Inr ()"
  proof (cases "trim_space challenge = []")
    case True
    then show ?thesis
      using a(5-13) assms(5) pkce cid pkce_validated(1) [OF a(3)] by (auto simp: check_code_def)
  next
    case False
    have v: "verify_pkce (se_digest env) (trim_space challenge) verifier" using assms(13) False by blast
    then have "verify_pkce (se_digest env) (trim_space challenge) (trim_space verifier)"
      unfolding verify_pkce_def trim_space_idem .
    moreover have "trim_space verifier \<noteq> []"
      using v by (auto simp: verify_pkce_def is_valid_pkce_verifier_def)
    moreover have "to_upper (trim_space kind) = ''S256''"
      using s256_stored pkce_validated(2) [OF a(3) False] by blast
    ultimately show ?thesis
      using a(5-13) assms(5) cid False by (auto simp: check_code_def)
  qed
  obtain cs2 where consumed: "consume_authorization_code (ac_code item) later w1 = (Inr True, w1\<lparr>sw_sql := (sw_sql w1)\<lparr>st_codes := cs2\<rparr>\<rparr>)"
    using quiet_consume [OF a(15) _ refl a(13)] found_code [OF a(4)] by metis
  let ?w2 = "w1\<lparr>sw_sql := (sw_sql w1)\<lparr>st_codes := cs2\<rparr>\<rparr>"
  have sess: "find_session_by_session_id (ac_session item) ?w2 = (Inr (Some s), ?w2)"
    using a(8,15) assms(8) by (simp add: find_session_by_session_id_def tables)
  have sok: "check_code_session later client item (Some s) = Inr s"
    using assms(9-12) a(7) cid by (simp add: check_code_session_def)
  obtain b w3 where "issue_for_code env later client s item ?w2 = (Inr b, w3)"
    using issue_for_code_succeeds [of ?w2 env later client s item] a(15) assms(14,15) by (auto simp: tables)
  then show ?thesis
    using assms(3,4) a(5,14,16)
    by (simp add: exchange_authorization_code_def load grant assms(7) found ok redeem_code_def found_or_def consumed [unfolded a(5)] sess sok)
qed

theorem authorized_code_exchanges_witness:
  "\<exists>r w1 b w2. authorize_with_active_session sample_sso_env second ''app'' ''https://app/cb'' ''openid'' [] [] [] [] sample_candidate
      sample_sso_world = (Inr r, w1) \<and>
    exchange_authorization_code sample_sso_env (2 * second) ''app'' ''pw'' (cr_code r) ''https://app/cb'' [] w1 = (Inr b, w2)"
proof -
  obtain r w1 where a: "authorize_with_active_session sample_sso_env second ''app'' ''https://app/cb'' ''openid'' [] [] [] [] sample_candidate
      sample_sso_world = (Inr r, w1)"
    using sample_authorized_at [of sample_sso_world "st_sessions sample_tables"] by auto
  have client: "require_client sample_sso_env (2 * second) ''app'' sample_sso_world = (Inr sample_client, sample_sso_world)"
    by (rule sample_require) simp_all
  have "\<exists>b w2. exchange_authorization_code sample_sso_env (2 * second) ''app'' ''pw'' (cr_code r) ''https://app/cb'' [] w1 = (Inr b, w2)"
  proof (rule authorized_code_exchanges [OF a _ _ _ _ client sample_authenticate, where s = sample_sso_session])
    show "find (\<lambda>x. ss_id x = cd_session sample_candidate) (st_sessions (sw_sql sample_sso_world)) = Some sample_sso_session"
      by (simp add: sample_candidate_def candidate_of_def sample_tables_def sample_sso_session_def)
    show "\<forall>n. ''sso_rtf_'' @ show_int (se_id sample_sso_env n) \<notin> rf_id ` set (st_families (sw_sql sample_sso_world))"
      by (simp add: sample_tables_def sample_family_def)
  qed (simp_all add: sample_signs sample_candidate_def candidate_of_def sample_sso_session_def minute_def second_def)
  with a show ?thesis by blast
qed

end
