(* ===== verification/Credential_Properties.thy ===== *)
theory Credential_Properties
  imports Credential_Codes
begin

text \<open>The properties of the credentials of users, with the inputs that show their hypotheses can hold.\<close>

definition sample_recovery_payload :: recovery_payload where
  "sample_recovery_payload =
     \<lparr>rcp_salt = ''s'', rcp_algorithm = HashAlgorithm, rcp_iterations = DefaultRecoveryHashIteration,
      rcp_batch = ''batch_a''\<rparr>"

definition sample_cred_env :: cred_env where
  "sample_cred_env =
     \<lparr>ce_transactor = True, ce_outcome = SqlOk, ce_dup = PlainError ''duplicate'', ce_new_id = (\<lambda>i. 9 + int i),
      ce_uuid = (\<lambda>i. ''a''), ce_random_code = (\<lambda>i. Inr ''abcde''), ce_random_salt = (\<lambda>i. Inr ''s''),
      ce_base64_encode = (\<lambda>s. s), ce_base64_decode = Inr, ce_pbkdf2 = (\<lambda>code salt n. ''k''),
      ce_encode_passkey = (\<lambda>p. Inl (PlainError ''passkey'')), ce_decode_passkey = (\<lambda>s. Inl (PlainError ''passkey'')),
      ce_encode_recovery = (\<lambda>p. if p = sample_recovery_payload then Inr ''j'' else Inl (PlainError ''json'')),
      ce_decode_recovery = (\<lambda>s. Inr sample_recovery_payload)\<rparr>"

lemma sample_cred_env_simps [simp]:
  "ce_new_id sample_cred_env i = 9 + int i" "ce_uuid sample_cred_env i = ''a''"
  "ce_random_code sample_cred_env i = Inr ''abcde''" "ce_random_salt sample_cred_env i = Inr ''s''"
  "ce_base64_encode sample_cred_env s = s" "ce_base64_decode sample_cred_env s = Inr s"
  "ce_pbkdf2 sample_cred_env c s n = ''k''" "ce_decode_recovery sample_cred_env s = Inr sample_recovery_payload"
  "ce_encode_recovery sample_cred_env p =
     (if p = sample_recovery_payload then Inr ''j'' else Inl (PlainError ''json''))"
  by (simp_all add: sample_cred_env_def)

definition sample_password :: "int \<Rightarrow> password_input" where
  "sample_password user =
     \<lparr>pi_user = user, pi_hash = ''h'', pi_must_change = False, pi_changed_at = None, pi_creator = None, pi_updater = None\<rparr>"

definition sample_credential :: "int \<Rightarrow> string \<Rightarrow> string \<Rightarrow> credential_row" where
  "sample_credential user kind key = empty_credential\<lparr>cr_id := 1, cr_user := user, cr_kind := kind, cr_key := key\<rparr>"

text \<open>C38. Error. The key of a password is the same text for every user and the table's key on kind and key leaves
  out the user: as soon as one user has a password, storing a password for any other user fails and changes nothing.\<close>

theorem second_password_refused:
  assumes "credential_keys_unique rows"
    and "find_single_any owner CredentialTypePassword PrimaryCredentialKey rows \<noteq> None" "owner \<noteq> pi_user i"
  shows "\<exists>e. upsert_password env now i m rows = (Inl e, rows)"
proof -
  obtain e where "upsert_password_credential env now i rows = (Inl e, rows)"
    using second_user_refused [OF assms] by blast
  then show ?thesis
    by (simp add: upsert_password_def cred_with_tx_def tx_ordinary_def within_transaction_def)
qed

theorem second_password_refused_witness:
  "\<exists>e. upsert_password sample_cred_env 5 (sample_password 8) NoTx
     [sample_credential 7 CredentialTypePassword PrimaryCredentialKey]
   = (Inl e, [sample_credential 7 CredentialTypePassword PrimaryCredentialKey])"
  by (rule second_password_refused [where owner = 7])
    (simp_all add: credential_keys_unique_def find_single_any_def in_scope_def sample_credential_def
      sample_password_def empty_credential_def)

text \<open>Whatever snapshots the attempts read, and whatever is typed, the attempts of a user are accepted at
  most as often as the user has unused recovery codes: a code is accepted once.\<close>

lemma recovery_codes_bounded:
  assumes "credential_keys_unique rows" "\<And>a. a \<in> set attempts \<Longrightarrow> snapshot_of (ra_seen a) rows"
  shows "fst (try_codes env user attempts rows) \<le> count_active_by_user_and_type user CredentialTypeRecoveryCode rows"
  using try_codes_counts [of env user attempts rows "fst (try_codes env user attempts rows)"] assms
  by (metis le_add1 prod.collapse)

theorem recovery_codes_bounded_witness:
  "fst (try_codes sample_cred_env 7
     [\<lparr>ra_now = 5, ra_code = ''c'', ra_used_at = 5,
       ra_seen = [sample_credential 7 CredentialTypeRecoveryCode ''rc_a'']\<rparr>]
     [sample_credential 7 CredentialTypeRecoveryCode ''rc_a''])
   \<le> count_active_by_user_and_type 7 CredentialTypeRecoveryCode [sample_credential 7 CredentialTypeRecoveryCode ''rc_a'']"
  by (rule recovery_codes_bounded) (simp_all add: credential_keys_unique_def snapshot_of_def)

text \<open>C39. Round trip. A new batch leaves the user exactly its codes: as many unused codes as were asked for, and each
  of them is accepted in every way of typing it, in lower case or without its dashes.\<close>

theorem fresh_codes_round_trip:
  assumes "cred_libraries_ok env" "list_all visible (ce_uuid env 0)"
    and "regenerate_recovery_codes env now user n rows = (Inr b, rows')"
    and "code \<in> set (rb_codes b)" "normalize_code typed = normalize_code code" "\<not> blank typed"
  shows "count_available_recovery_codes user rows' = Inr (nat n) \<and>
    (\<exists>rows2. consume_recovery_code env now2 user typed used rows' rows' = (Inr True, rows2))"
proof -
  have "0 < user" using assms(3) by (auto simp: regenerate_recovery_codes_def then_do_Inr if_ok_Inr validate_user_id_def)
  then show ?thesis
    using regenerate_counts [OF assms(3)] fresh_code_accepted [OF assms]
    by (simp add: count_available_recovery_codes_def validate_user_id_def require_def)
qed

theorem fresh_codes_round_trip_witness:
  "\<exists>b rows'. regenerate_recovery_codes sample_cred_env 5 7 1 [] = (Inr b, rows') \<and> ''ABCD-E'' \<in> set (rb_codes b) \<and>
     count_available_recovery_codes 7 rows' = Inr 1 \<and>
     (\<exists>rows2. consume_recovery_code sample_cred_env 6 7 ''abcde'' 6 rows' rows' = (Inr True, rows2))"
proof -
  have lib: "cred_libraries_ok sample_cred_env"
    by (simp add: cred_libraries_ok_def blank_def trim_visible visible_def)
  have code: "format_code (to_upper ''abcde'') = ''ABCD-E''" by code_simp
  have same: "normalize_code ''abcde'' = normalize_code ''ABCD-E''" by code_simp
  have codes: "generate_codes sample_cred_env 1 = Inr [''ABCD-E'']"
    using code by (simp add: generate_codes_def)
  obtain b rows' where run: "regenerate_recovery_codes sample_cred_env 5 7 1 [] = (Inr b, rows')" "rb_codes b = [''ABCD-E'']"
  proof -
    have "\<exists>b rows'. regenerate_recovery_codes sample_cred_env 5 7 1 [] = (Inr b, rows') \<and> rb_codes b = [''ABCD-E'']"
      by (simp add: regenerate_recovery_codes_def codes validate_user_id_def require_def Let_def
          invalidate_active_recovery_codes_def update_rows_def update_where_def recovery_row_def hash_code_def
          sample_recovery_payload_def compact_uuid_def remove_char_def insert_credential_def
          put_credentials_def credential_keys_unique_def HashAlgorithm_def)
    then show ?thesis using that by blast
  qed
  have "count_available_recovery_codes 7 rows' = Inr (nat 1) \<and>
      (\<exists>rows2. consume_recovery_code sample_cred_env 6 7 ''abcde'' 6 rows' rows' = (Inr True, rows2))"
    by (rule fresh_codes_round_trip [OF lib _ run(1), where code = "''ABCD-E''"])
      (simp_all add: run(2) same visible_def trim_visible blank_def)
  with run show ?thesis by auto
qed

end
