(* ===== verification/Sso_Refresh_Properties.thy ===== *)
theory Sso_Refresh_Properties
  imports Sso_Properties
begin

text \<open>
  What the single sign-on service promises about refresh tokens and the sessions of a user: rotation,
  the punishment of reuse, the revocation of all sessions of a user, and the refresh token of a
  first-party login.
\<close>

section \<open>Rotation\<close>

lemma rotated_hash_gone:
  assumes "exchange_refresh_token env now cid secret token from_cookie w = (Inr b, w1)"
    "distinct (map rf_current (st_families (sw_sql w)))"
    "build_token_hash env (tb_refresh b) \<noteq> build_token_hash env token"
  shows "hash_not_current (build_token_hash env token) (sw_sql w1)"
proof -
  let ?h = "build_token_hash env token"
  obtain f where f: "find (\<lambda>r. rf_current r = ?h) (st_families (sw_sql w)) = Some f" "family_live now f"
    and t: "sw_sql w1 = (sw_sql w)\<lparr>st_families :=
       update_where (\<lambda>r. rf_id r = rf_id f \<and> rf_current r = ?h \<and> rf_status r = RefreshFamilyStatusActive)
         (\<lambda>r. r\<lparr>rf_previous := ?h, rf_current := build_token_hash env (tb_refresh b), rf_rotated := Some now\<rparr>)
         (st_families (sw_sql w))\<rparr>"
    by (rule refresh_Inr [OF assms(1)])
  have same: "r = f" if "r \<in> set (st_families (sw_sql w))" "rf_current r = ?h" for r
    using that found_family [OF f(1)] assms(2) by (metis distinct_map inj_onD)
  have "rf_status f = RefreshFamilyStatusActive" using f(2) by (simp add: family_live_def)
  then have "\<forall>r \<in> set (st_families (sw_sql w)). rf_current r = ?h \<longrightarrow> rf_id r = rf_id f \<and> rf_status r = RefreshFamilyStatusActive"
    using same by blast
  then have "\<forall>r \<in> set (st_families (sw_sql w1)). rf_current r \<noteq> ?h"
    unfolding t using assms(3) by (auto simp: ball_update)
  then show ?thesis by (auto simp: hash_not_current_def)
qed

text \<open>C10. Safety. A refresh token that was rotated is never exchanged again, as long as no family is given its hash anew
  (the hashes of the families are distinct, and the token handed out has another one).\<close>

theorem rotated_token_spent:
  assumes "exchange_refresh_token env now cid secret token from_cookie w = (Inr b, w1)"
    and "distinct (map rf_current (st_families (sw_sql w)))"
    and "build_token_hash env (tb_refresh b) \<noteq> build_token_hash env token"
    and "sso_run (- {build_token_hash env token}) (sw_sql w1) (sw_sql w2)"
    and "build_token_hash env2 token2 = build_token_hash env token"
  shows "fst (exchange_refresh_token env2 now2 cid2 secret2 token2 from_cookie2 w2) \<noteq> Inr b2"
proof
  assume "fst (exchange_refresh_token env2 now2 cid2 secret2 token2 from_cookie2 w2) = Inr b2"
  then obtain w3 where "exchange_refresh_token env2 now2 cid2 secret2 token2 from_cookie2 w2 = (Inr b2, w3)"
    by (cases "exchange_refresh_token env2 now2 cid2 secret2 token2 from_cookie2 w2") simp
  then obtain f where f: "find (\<lambda>r. rf_current r = build_token_hash env2 token2) (st_families (sw_sql w2)) = Some f"
    by (rule refresh_Inr)
  have "hash_not_current (build_token_hash env token) (sw_sql w2)"
    by (rule hash_run [OF assms(4) rotated_hash_gone [OF assms(1-3)]])
  with found_family [OF f] show False using assms(5) by (metis hash_not_current_def imageI)
qed

theorem rotated_token_spent_witness:
  "\<forall>b. fst (exchange_refresh_token sample_sso_env second ''app'' ''pw'' ''jwt.r'' True (snd sample_refreshed)) \<noteq> Inr b"
proof
  fix b
  obtain b0 w1 where r: "sample_refreshed = (Inr b0, w1)" "tb_refresh b0 = ''jwt.rft_10''" using sample_refresh by blast
  have trim: "trim_space ''jwt.rft_10'' = ''jwt.rft_10''" by (rule trim_visible) (simp add: visible_def)
  have new_hash: "build_token_hash sample_sso_env (tb_refresh b0) \<noteq> build_token_hash sample_sso_env ''jwt.r''"
    unfolding r(2) by (simp add: build_token_hash_def sample_sso_env_def trim)
  have "distinct (map rf_current (st_families (sw_sql sample_sso_world)))" by (simp add: sample_tables_def)
  from rotated_token_spent [OF r(1) [unfolded sample_refreshed_def] this new_hash rtranclp.rtrancl_refl refl]
  show "fst (exchange_refresh_token sample_sso_env second ''app'' ''pw'' ''jwt.r'' True (snd sample_refreshed)) \<noteq> Inr b"
    by (simp add: r(1))
qed

section \<open>The sessions of a user\<close>

lemma reads_cutoff: "capture_cutoff now w = (Inr c, w') \<Longrightarrow> c = now \<and> sw_sql w' = sw_sql w"
  by (auto simp: capture_cutoff_def then_do_Inr split: if_splits dest!: sql_read_Inr)

lemma clear_touch_keeps: "sw_sql (snd (clear_session_touch sid w)) = sw_sql w"
  by (auto simp: clear_session_touch_def scheduled_def Let_def split: list.split sql_outcome.split)

lemma clear_touches_keeps: "sw_sql (clear_touches sids w) = sw_sql w"
  by (induction sids arbitrary: w) (simp_all add: clear_touch_keeps)

lemma register_keeps: "sw_sql (snd (register_targets env sids w)) = sw_sql w"
  by (induction sids arbitrary: w) (auto split: option.split prod.split sum.split)

lemma read_keeps: "sw_sql (snd (sql_read label q w)) = sw_sql w"
  using reads_sql by (auto simp: reads_def)

lemma collect_keeps: "sw_sql (snd (collect_effects env label rest w)) = sw_sql w"
proof (induction env label rest w rule: collect_effects.induct)
  case (1 env label rest w)
  obtain r w1 where r: "sql_read label (\<lambda>_. take session_page rest) w = (r, w1)" by fastforce
  have w1: "sw_sql w1 = sw_sql w" using read_keeps r by (metis snd_conv)
  show ?case
  proof (cases r)
    case (Inr page)
    obtain q w2 where q: "register_targets env (map ss_id (take session_page rest)) w1 = (q, w2)" by fastforce
    have w2: "sw_sql w2 = sw_sql w" using register_keeps q w1 by (metis snd_conv)
    let ?w3 = "clear_touches (map ss_id (take session_page rest)) w2"
    have "rest \<noteq> [] \<Longrightarrow> q = Inr () \<Longrightarrow> \<not> length rest < session_page \<Longrightarrow>
        sw_sql (snd (collect_effects env label (drop session_page rest) ?w3)) = sw_sql ?w3"
      using "1.IH" [of r w1 page q w2 "()" ?w3] r q Inr by simp
    then show ?thesis
      using w1 w2 by (subst collect_effects.simps) (cases q, auto simp: r q Inr Let_def clear_touches_keeps)
  qed (use w1 r in \<open>subst collect_effects.simps, simp\<close>)
qed

lemma families_leave_sessions:
  assumes "revoke_refresh_families_by_user_id user at w = (r, w')"
  shows "st_sessions (sw_sql w') = st_sessions (sw_sql w)"
proof -
  have "st_sessions (sw_sql (snd (sql_write label (close_families Q at) w))) = st_sessions (sw_sql w)" for label Q
    by (auto simp: sql_write_def labelled_def scheduled_def close_families_def Let_def
        split: prod.split sum.split list.split sql_outcome.split)
  from this [of "''revoke refresh families by user''" "\<lambda>r. rf_user r = user \<and> rf_create r \<le> at"] assms show ?thesis
    by (simp add: revoke_refresh_families_by_user_id_def)
qed

lemma mark_user_keeps: "mark_user_revoked now user at w = (r, w') \<Longrightarrow> sw_sql w' = sw_sql w"
  by (auto simp: mark_user_revoked_def scheduled_def then_do_def Let_def
      split: if_splits list.splits sql_outcome.splits prod.splits sum.splits)

lemma unmatched_kept: "r \<in> set rs \<Longrightarrow> \<not> P r \<Longrightarrow> r \<in> set (update_where P f rs)"
  unfolding set_update_where by (rule image_eqI [of _ _ r]) simp_all

lemma revoke_user_within_Inr:
  assumes "revoke_user_within env now user w = (Inr n, v)"
  shows "st_sessions (sw_sql v) = update_where
     (\<lambda>r. (ss_user r = user \<and> ss_create r \<le> now) \<and> ss_status r = SessionStatusActive)
     (\<lambda>r. r\<lparr>ss_revoked := Some now, ss_status := SessionStatusRevoked\<rparr>) (st_sessions (sw_sql w))"
proof -
  obtain c w1 u w2 u' w3 m w4 u'' where s: "capture_cutoff now w = (Inr c, w1)"
      "collect_effects env user_page_label (active_before (\<lambda>r. ss_user r = user) c (sw_sql w1)) w1 = (Inr u, w2)"
      "revoke_refresh_families_by_user_id user c w2 = (Inr u', w3)"
      "revoke_session_rows_by_user user c w3 = (Inr m, w4)" "mark_user_revoked now user c w4 = (Inr u'', v)"
    using assms unfolding revoke_user_within_def then_do_Inr by auto
  have c: "c = now" "sw_sql w1 = sw_sql w" using reads_cutoff [OF s(1)] by simp_all
  have "sw_sql w2 = sw_sql w"
    using collect_keeps [of env user_page_label "active_before (\<lambda>r. ss_user r = user) c (sw_sql w1)" w1] s(2) c by simp
  then have w3: "st_sessions (sw_sql w3) = st_sessions (sw_sql w)" using families_leave_sessions [OF s(3)] by simp
  have "st_sessions (sw_sql w4) = update_where
     (\<lambda>r. (ss_user r = user \<and> ss_create r \<le> now) \<and> ss_status r = SessionStatusActive)
     (\<lambda>r. r\<lparr>ss_revoked := Some now, ss_status := SessionStatusRevoked\<rparr>) (st_sessions (sw_sql w3))"
    using s(4) unfolding revoke_session_rows_by_user_def c
    by (auto simp: close_sessions_def update_rows_def dest!: sql_write_Inr)
  then show ?thesis using mark_user_keeps [OF s(5)] w3 by simp
qed

lemma revoke_user_Inr:
  assumes "revoke_sessions_by_user_id env now user w = (Inr n, w')"
  shows "st_sessions (sw_sql w') = update_where
     (\<lambda>r. (ss_user r = user \<and> ss_create r \<le> now) \<and> ss_status r = SessionStatusActive)
     (\<lambda>r. r\<lparr>ss_revoked := Some now, ss_status := SessionStatusRevoked\<rparr>) (st_sessions (sw_sql w))"
proof -
  obtain v where "revoke_user_within env now user w = (Inr n, v)" "sw_sql w' = sw_sql v"
    using validity_Inr [OF assms [unfolded revoke_sessions_by_user_id_def]] by blast
  then show ?thesis by (simp add: revoke_user_within_Inr)
qed

lemma closed_by_update:
  assumes "st_sessions t' = update_where
     (\<lambda>r. (ss_user r = user \<and> ss_create r \<le> now) \<and> ss_status r = SessionStatusActive)
     (\<lambda>r. r\<lparr>ss_revoked := Some now, ss_status := SessionStatusRevoked\<rparr>) (st_sessions t)"
    and "distinct (map ss_id (st_sessions t))" "r \<in> set (st_sessions t)" "ss_user r = user" "ss_create r \<le> now"
  shows "session_closed (ss_id r) t'"
proof -
  have same: "r' = r" if "r' \<in> set (st_sessions t)" "ss_id r' = ss_id r" for r'
    using that assms(2,3) by (metis distinct_map inj_onD)
  show ?thesis
    unfolding session_closed_def assms(1) ball_update using assms(3-5) same by (auto simp: keys_update)
qed

text \<open>C12. Safety. Revoking the sessions of a user ends every session of the user created up to that instant, for every
  later run of requests; sessions of other users and later ones are left as they are.\<close>

theorem user_sessions_revoked:
  assumes "revoke_sessions_by_user_id env now user w = (Inr n, w1)" "distinct (map ss_id (st_sessions (sw_sql w)))"
    and "r \<in> set (st_sessions (sw_sql w))" "sso_run UNIV (sw_sql w1) (sw_sql w2)"
  shows "if ss_user r = user \<and> ss_create r \<le> now
    then (\<forall>p w3. validate_access_token env2 now2 token w2 = (Inr p, w3) \<longrightarrow> tp_session p \<noteq> ss_id r) \<and>
         (\<forall>s w3. resolve_active_session env2 now2 sid w2 = (Inr (Some s), w3) \<longrightarrow> ss_id s \<noteq> ss_id r)
    else r \<in> set (st_sessions (sw_sql w1))"
proof (cases "ss_user r = user \<and> ss_create r \<le> now")
  case True
  have "session_closed (ss_id r) (sw_sql w1)"
    using closed_by_update [OF revoke_user_Inr [OF assms(1)] assms(2,3)] True by simp
  note closed = session_closed_run [OF assms(4) this]
  show ?thesis
    using closed_session_refused(1) [OF closed] closed_session_refused(2) [OF closed] True by simp
next
  case False
  have "r \<in> set (st_sessions (sw_sql w1))"
    unfolding revoke_user_Inr [OF assms(1)] by (rule unmatched_kept [OF assms(3)]) (use False in blast)
  then show ?thesis unfolding if_not_P [OF False] .
qed

lemma sample_user_revoked: "\<exists>n w1. revoke_user_within sample_sso_env second 7 sample_sso_world = (Inr n, w1)"
proof -
  have ab: "active_before (\<lambda>r. ss_user r = 7) second sample_tables = [sample_sso_session]"
    by (simp add: active_before_def sample_tables_def sample_sso_session_def second_def)
  have page: "collect_effects sample_sso_env user_page_label [sample_sso_session] sample_sso_world =
      (Inr (), clear_touches [''s''] sample_sso_world)"
    by (subst collect_effects.simps) (simp add: session_page_def sample_sso_env_def sample_sso_session_def)
  have quiet: "sw_faults (clear_touches [''s''] sample_sso_world) = []"
    by (simp add: clear_session_touch_def scheduled_def blank_def)
  have cut: "capture_cutoff second sample_sso_world = (Inr second, sample_sso_world)"
    by (simp add: capture_cutoff_def is_zero_time_def zero_time_def second_def)
  have mark: "mark_user_revoked second 7 second w = (Inr (), w\<lparr>sw_marks := snd (kv_set_max second (revoked_marker_key 7) second revoked_marker_ttl (sw_marks w))\<rparr>)"
    if "sw_faults w = []" "sw_marks w = Map.empty" for w :: "unit sso_world"
    using that by (simp add: mark_user_revoked_def scheduled_def kv_set_max_def kv_get_def revoked_marker_ttl_def
        whole_millis_def hour_def minute_def second_def millisecond_def)
  have marks: "sw_marks (clear_touches [''s''] sample_sso_world) = Map.empty"
    by (simp add: clear_session_touch_def scheduled_def blank_def)
  let ?w = "clear_touches [''s''] sample_sso_world"
  have sql: "sw_sql ?w = sample_tables" by (simp only: clear_touches_keeps sample_world_simps)
  show ?thesis
    by (simp add: revoke_user_within_def cut ab page
        revoke_refresh_families_by_user_id_def revoke_session_rows_by_user_def sql_write_now quiet sql marks mark
        close_families_def close_sessions_def update_rows_def del: clear_touches.simps)
qed

theorem user_sessions_revoked_witness:
  "\<not> (\<exists>p w3. validate_access_token sample_sso_env second ''jwt.a''
     (snd (revoke_sessions_by_user_id sample_sso_env second 7 sample_sso_world)) = (Inr p, w3) \<and> tp_session p = ''s'')"
proof -
  have inv: "\<not> invalidating sample_sso_env" by (simp add: invalidating_def sample_sso_env_def)
  obtain n w1 where gone: "revoke_sessions_by_user_id sample_sso_env second 7 sample_sso_world = (Inr n, w1)"
    using sample_user_revoked by (auto simp: revoke_sessions_by_user_id_def validity_transaction_def inv)
  have "if ss_user sample_sso_session = 7 \<and> ss_create sample_sso_session \<le> second
    then (\<forall>p w3. validate_access_token sample_sso_env second ''jwt.a'' w1 = (Inr p, w3) \<longrightarrow> tp_session p \<noteq> ss_id sample_sso_session) \<and>
         (\<forall>s w3. resolve_active_session sample_sso_env second ''s'' w1 = (Inr (Some s), w3) \<longrightarrow> ss_id s \<noteq> ss_id sample_sso_session)
    else sample_sso_session \<in> set (st_sessions (sw_sql w1))"
    by (rule user_sessions_revoked [OF gone _ _ rtranclp.rtrancl_refl]) (simp_all add: sample_tables_def)
  moreover have "ss_user sample_sso_session = 7" "ss_create sample_sso_session \<le> second" "ss_id sample_sso_session = ''s''"
    by (simp_all add: sample_sso_session_def second_def)
  ultimately show ?thesis by (auto simp: gone)
qed

section \<open>Reuse\<close>

text \<open>Without failures, and with a registrar that accepts every session.\<close>

definition undisturbed :: "'w sso_env \<Rightarrow> 'w sso_world \<Rightarrow> bool" where
  "undisturbed env w \<longleftrightarrow> sw_faults w = [] \<and> (\<forall>register. se_register env = Some register \<longrightarrow>
     se_transactor env \<and> (\<forall>sid out. \<exists>out'. register sid out = (Inr (), out')))"

lemma register_undisturbed:
  assumes "undisturbed env w"
  obtains out where "register_targets env [sid] w = (Inr (), w\<lparr>sw_outside := out\<rparr>)"
proof (cases "se_register env")
  case None
  have "w\<lparr>sw_outside := sw_outside w\<rparr> = w" by simp
  then show ?thesis using that [of "sw_outside w"] by (simp add: None)
next
  case (Some register)
  then obtain out where "register sid (sw_outside w) = (Inr (), out)"
    using assms unfolding undisturbed_def by blast
  then show ?thesis using that by (simp add: Some)
qed

definition families_after :: "(refresh_family \<Rightarrow> bool) \<Rightarrow> time \<Rightarrow> refresh_family list \<Rightarrow> refresh_family list" where
  "families_after Q at = update_where (\<lambda>r. Q r \<and> rf_status r = RefreshFamilyStatusActive)
     (\<lambda>r. r\<lparr>rf_revoked := Some at, rf_status := RefreshFamilyStatusRevoked\<rparr>)"

lemma families_after_closed: "f \<in> set (families_after Q at fs) \<Longrightarrow> Q f \<Longrightarrow> (\<And>r. Q (r\<lparr>rf_revoked := Some at, rf_status := RefreshFamilyStatusRevoked\<rparr>) = Q r) \<Longrightarrow>
    rf_status f \<noteq> RefreshFamilyStatusActive"
  by (auto simp: families_after_def set_update_where split: if_splits)

lemma revoke_all_undisturbed:
  assumes "undisturbed env w" "s \<in> set (st_sessions (sw_sql w))" "ss_id s = sid" "trim_space sid = sid"
  obtains b w1 where "revoke_families_and_session env now sid w = (Inr b, w1)" "sw_faults w1 = []"
    "st_families (sw_sql w1) = families_after (\<lambda>r. rf_session r = sid) now (st_families (sw_sql w))"
    "session_closed sid (sw_sql w1)"
proof -
  have quiet: "sw_faults w = []" using assms(1) by (simp add: undisturbed_def)
  obtain s' where s': "find (\<lambda>r. ss_id r = sid) (st_sessions (sw_sql w)) = Some s'" "ss_id s' = sid"
    using assms(2,3) found_session by (cases "find (\<lambda>r. ss_id r = sid) (st_sessions (sw_sql w))") (auto simp: find_None_iff)
  obtain out where reg: "register_targets env [sid] w = (Inr (), w\<lparr>sw_outside := out\<rparr>)"
    by (rule register_undisturbed [OF assms(1)])
  obtain out2 where first: "(if \<not> invalidating env then (Inr (), w)
            else then_do (find_session_by_session_id sid w) (\<lambda>found w1.
                   case found of None \<Rightarrow> (Inr (), w1) | Some s \<Rightarrow> register_targets env [ss_id s] w1)) = (Inr (), w\<lparr>sw_outside := out2\<rparr>)"
  proof (cases "invalidating env")
    case True
    then show ?thesis using that [of out] reg s' quiet by (simp add: find_session_by_session_id_def)
  next
    case False
    have "w = w\<lparr>sw_outside := sw_outside w\<rparr>" by simp
    then show ?thesis using that [of "sw_outside w"] False by simp
  qed
  let ?w = "w\<lparr>sw_outside := out2\<rparr>"
  let ?w1 = "?w\<lparr>sw_sql := (sw_sql w)\<lparr>st_families := families_after (\<lambda>r. rf_session r = sid) now (st_families (sw_sql w))\<rparr>\<rparr>"
  have fams: "revoke_refresh_families_by_session_id sid now ?w = (Inr (), ?w1)"
    using quiet by (simp add: revoke_refresh_families_by_session_id_def sql_write_now close_families_def families_after_def)
  obtain b w2 where row: "revoke_session_row sid now ?w1 = (Inr b, w2)" "sw_faults w2 = []"
      "st_families (sw_sql w2) = st_families (sw_sql ?w1)"
    using quiet by (simp add: revoke_session_row_def sql_write_now close_sessions_def update_rows_def)
  have "session_closed sid (sw_sql w2)"
    using assms(2,3) by (intro revoke_row_Inr [OF row(1)]) auto
  moreover have "revoke_families_and_session env now sid w = (Inr b, w2)"
    using first fams row(1) by (simp add: revoke_families_and_session_def assms(4) Let_def)
  ultimately show ?thesis using that row by simp
qed

lemma undisturbed_cong: "undisturbed env w \<Longrightarrow> sw_faults w1 = [] \<Longrightarrow> undisturbed env w1"
  by (simp add: undisturbed_def)

lemma punish_undisturbed:
  assumes "undisturbed env w" "\<not> is_refresh_rotation_within_replay_skew env prev holder (sc_client_id client) now"
    "s \<in> set (st_sessions (sw_sql w))" "ss_id s = rf_session prev" "trim_space (rf_session prev) = rf_session prev"
  obtains w1 where "punish_reuse env now client holder prev w = (if invalidating env then Inr None else Inl reuse_detected, w1)"
    "sw_faults w1 = []" "session_closed (rf_session prev) (sw_sql w1)"
    "\<forall>f \<in> set (st_families (sw_sql w1)). rf_session f = rf_session prev \<longrightarrow> rf_status f \<noteq> RefreshFamilyStatusActive"
proof -
  let ?sid = "rf_session prev"
  have quiet: "sw_faults w = []" using assms(1) by (simp add: undisturbed_def)
  obtain wa where marked: "mark_refresh_family_reuse_detected (rf_id prev) now w = (Inr (), wa)" "sw_faults wa = []"
      "st_sessions (sw_sql wa) = st_sessions (sw_sql w)"
    using quiet by (simp add: mark_refresh_family_reuse_detected_def sql_write_now)
  obtain wb where fams: "(if invalidating env then (Inr (), wa)
        else revoke_refresh_families_by_session_id ?sid now wa) = (Inr (), wb)" "sw_faults wb = []"
      "st_sessions (sw_sql wb) = st_sessions (sw_sql w)"
    using marked(2,3) by (cases "invalidating env") (simp_all add: revoke_refresh_families_by_session_id_def sql_write_now close_families_def)
  obtain s' where s': "find (\<lambda>r. ss_id r = ?sid) (st_sessions (sw_sql w)) = Some s'" "ss_id s' = ?sid"
    using assms(3,4) found_session by (cases "find (\<lambda>r. ss_id r = ?sid) (st_sessions (sw_sql w))") (auto simp: find_None_iff)
  obtain b wc where all: "revoke_families_and_session env now ?sid wb = (Inr b, wc)" "sw_faults wc = []"
      "st_families (sw_sql wc) = families_after (\<lambda>r. rf_session r = ?sid) now (st_families (sw_sql wb))"
      "session_closed ?sid (sw_sql wc)"
    using revoke_all_undisturbed [OF undisturbed_cong [OF assms(1) fams(2)] _ assms(4,5), of now] assms(3) fams(3) by metis
  have "revoke_session_within env now ?sid wb = (Inr b, wc)"
    using fams(2,3) s' all(1) by (simp add: revoke_session_within_def find_session_by_session_id_def assms(5))
  then have "punish_reuse env now client holder prev w = (if invalidating env then Inr None else Inl reuse_detected, wc)"
    using assms(2) marked(1) fams(1) by (simp add: punish_reuse_def)
  moreover have "\<forall>f \<in> set (st_families (sw_sql wc)). rf_session f = ?sid \<longrightarrow> rf_status f \<noteq> RefreshFamilyStatusActive"
    unfolding all(3) using families_after_closed [of _ "\<lambda>r. rf_session r = ?sid"] by auto
  ultimately show ?thesis using that all(2,4) by blast
qed

text \<open>C11. Safety. A refresh token that was already rotated away and comes back outside the replay window is answered with the reuse
  error, and its punishment is kept although the request fails: all families of its session and the session itself are closed,
  so that no run of requests gets anything for that session again.\<close>

theorem reuse_punished:
  assumes "undisturbed env w" "trim_space cid \<noteq> []" "trim_space token \<noteq> []"
    and "require_client env now cid w = (Inr client, w)"
    and "refresh_principal_for env now client secret token from_cookie = Inr holder"
    and "find (\<lambda>r. rf_current r = build_token_hash env token) (st_families (sw_sql w)) = None"
    and "find (\<lambda>r. rf_previous r \<noteq> [] \<and> rf_previous r = build_token_hash env token) (st_families (sw_sql w)) = Some prev"
    and "\<not> is_refresh_rotation_within_replay_skew env prev holder (sc_client_id client) now"
    and "s \<in> set (st_sessions (sw_sql w))" "ss_id s = rf_session prev" "trim_space (rf_session prev) = rf_session prev"
    and "sso_run UNIV (sw_sql (snd (exchange_refresh_token env now cid secret token from_cookie w))) (sw_sql w2)"
  shows "fst (exchange_refresh_token env now cid secret token from_cookie w) = Inl reuse_detected \<and>
    (\<forall>f \<in> set (st_families (sw_sql (snd (exchange_refresh_token env now cid secret token from_cookie w)))).
       rf_session f = rf_session prev \<longrightarrow> rf_status f \<noteq> RefreshFamilyStatusActive) \<and>
    (\<forall>p w3. validate_access_token env2 now2 token2 w2 = (Inr p, w3) \<longrightarrow> tp_session p \<noteq> rf_session prev) \<and>
    (\<forall>b w3. exchange_refresh_token env2 now2 cid2 secret2 token2 from_cookie2 w2 = (Inr b, w3) \<longrightarrow>
       (\<exists>f \<in> set (st_families (sw_sql w2)). rf_current f = build_token_hash env2 token2 \<and> rf_session f \<noteq> rf_session prev))"
proof -
  have quiet: "sw_faults w = []" using assms(1) by (simp add: undisturbed_def)
  obtain w1 where p: "punish_reuse env now client holder prev w = (if invalidating env then Inr None else Inl reuse_detected, w1)"
      "sw_faults w1 = []" "session_closed (rf_session prev) (sw_sql w1)"
      "\<forall>f \<in> set (st_families (sw_sql w1)). rf_session f = rf_session prev \<longrightarrow> rf_status f \<noteq> RefreshFamilyStatusActive"
    by (rule punish_undisturbed [OF assms(1,8-11)])
  have attempt: "refresh_within env now cid secret token from_cookie w = (if invalidating env then Inr None else Inl reuse_detected, w1)"
    using assms(2-7) p(1) quiet
    by (simp add: refresh_within_def find_refresh_family_by_current_hash_def find_refresh_family_by_previous_hash_def Let_def)
  have transactor: "invalidating env \<Longrightarrow> se_transactor env"
    using assms(1) by (auto simp: undisturbed_def invalidating_def)
  have done_: "exchange_refresh_token env now cid secret token from_cookie w = (Inl reuse_detected, w1)"
    using attempt transactor p(2)
    by (cases "invalidating env") (simp_all add: exchange_refresh_token_def validity_transaction_def in_transaction_def refresh_failed_def)
  note closed = session_closed_run [OF assms(12) [unfolded done_ snd_conv] p(3)]
  show ?thesis
    unfolding done_ fst_conv snd_conv
    by (intro conjI p(4) allI impI refl; erule closed_session_refused(2) [OF closed] closed_session_refused(3) [OF closed])
qed

definition rotated_world :: "unit sso_world" where
  "rotated_world = sample_sso_world\<lparr>sw_sql := sample_tables\<lparr>st_families :=
     [sample_family\<lparr>rf_previous := ''#jwt.r'', rf_current := ''#x''\<rparr>]\<rparr>\<rparr>"

theorem reuse_punished_witness:
  "fst (exchange_refresh_token sample_sso_env second ''app'' ''pw'' ''jwt.r'' False rotated_world) = Inl reuse_detected"
proof -
  have h: "build_token_hash sample_sso_env ''jwt.r'' = ''#jwt.r''" by (simp add: build_token_hash_def sample_sso_env_def)
  obtain p where p: "refresh_principal_for sample_sso_env second sample_client ''pw'' ''jwt.r'' False = Inr p"
    by (simp add: refresh_principal_for_def sample_grants sample_authenticate sample_parse) (simp add: sample_client_def)
  show ?thesis
  proof (rule conjunct1 [OF reuse_punished [where prev = "sample_family\<lparr>rf_previous := ''#jwt.r'', rf_current := ''#x''\<rparr>"
          and client = sample_client and holder = p and s = sample_sso_session and ?w2.0 = "snd (exchange_refresh_token sample_sso_env second ''app'' ''pw'' ''jwt.r'' False rotated_world)"
          and ?env2.0 = sample_sso_env and ?now2.0 = second and ?token2.0 = "''t''" and ?cid2.0 = "''app''" and ?secret2.0 = "[]" and ?from_cookie2.0 = False]])
    show "undisturbed sample_sso_env rotated_world"
      by (simp add: undisturbed_def rotated_world_def sample_sso_env_def)
    show "require_client sample_sso_env second ''app'' rotated_world = (Inr sample_client, rotated_world)"
      by (rule sample_require) (simp_all add: rotated_world_def)
    show "\<not> is_refresh_rotation_within_replay_skew sample_sso_env (sample_family\<lparr>rf_previous := ''#jwt.r'', rf_current := ''#x''\<rparr>) p
        (sc_client_id sample_client) second"
      by (simp add: is_refresh_rotation_within_replay_skew_def sample_family_def)
  qed (use p in \<open>simp_all add: h rotated_world_def sample_tables_def sample_family_def sample_sso_session_def\<close>)
qed

section \<open>The refresh token of a first-party login\<close>

lemma bootstrap_refresh_cookie:
  assumes "bootstrap_first_party_session env now c w = (Inr r, w1)"
  shows "\<exists>i. br_refresh_cookie r = ''sso_rt_'' @ show_int i"
proof -
  have fam: "\<exists>i. br_refresh_cookie r = ''sso_rt_'' @ show_int i"
    if "bootstrap_family env now client session v = (Inr r, v1)" for client session v v1
    using that unfolding bootstrap_family_def new_id_def Let_def by (auto simp: then_do_Inr)
  obtain client session v where "bootstrap_family env now client session v = (Inr r, w1)"
    using assms unfolding bootstrap_first_party_session_def new_id_def Let_def
    by (auto simp: success_iffs)
  then show ?thesis by (rule fam)
qed

lemma unparsable_refresh_refused:
  assumes "se_verify env (trim_space token) = Inl e"
  shows "fst (exchange_refresh_token env now cid secret token from_cookie w) \<noteq> Inr b"
proof
  assume "fst (exchange_refresh_token env now cid secret token from_cookie w) = Inr b"
  then obtain w' where "exchange_refresh_token env now cid secret token from_cookie w = (Inr b, w')"
    by (cases "exchange_refresh_token env now cid secret token from_cookie w") simp
  then obtain w1 where "refresh_within env now cid secret token from_cookie w = (Inr (Some b), w1)"
    using exchange_refresh_Inr by blast
  then obtain client holder where "refresh_principal_for env now client secret token from_cookie = Inr holder"
    by (rule refresh_within_Inr)
  then show False
    by (auto simp: refresh_principal_for_def parse_refresh_token_def verify_kind_def assms split: if_splits sum.splits)
qed

text \<open>The refresh token that a first-party login puts into its cookie is a bare identifier, not a signed token.
  Any JWT service that refuses texts without a dot makes every refresh with it fail, at any time and for any client.\<close>

lemma bootstrap_refresh_useless:
  assumes "bootstrap_first_party_session env now c w = (Inr r, w1)"
    and "\<forall>t. CHR ''.'' \<notin> set t \<longrightarrow> (\<exists>e. se_verify env2 t = Inl e)"
  shows "fst (exchange_refresh_token env2 now2 cid secret (br_refresh_cookie r) from_cookie w2) \<noteq> Inr b"
proof -
  obtain i where i: "br_refresh_cookie r = ''sso_rt_'' @ show_int i"
    using bootstrap_refresh_cookie [OF assms(1)] by blast
  have "list_all visible (br_refresh_cookie r)" "CHR ''.'' \<notin> set (br_refresh_cookie r)"
    unfolding i using show_int_chars by (auto simp: list_all_iff visible_def)
  then obtain e where "se_verify env2 (trim_space (br_refresh_cookie r)) = Inl e"
    using assms(2) trim_visible by metis
  then show ?thesis by (rule unparsable_refresh_refused)
qed

definition sample_bootstrap :: bootstrap_command where
  "sample_bootstrap =
     \<lparr>bc_client = ''app'', bc_user = 7, bc_platform = [], bc_login_method = ''LOCAL'', bc_provider = [],
      bc_identity = 0, bc_acr = [], bc_amr = [], bc_device = [], bc_ip = [], bc_agent = []\<rparr>"

lemma sample_bootstrapped: "\<exists>r w1. bootstrap_first_party_session sample_sso_env second sample_bootstrap sample_sso_world = (Inr r, w1)"
proof -
  have client: "require_client sample_sso_env second ''app'' sample_sso_world = (Inr sample_client, sample_sso_world)"
    by (rule sample_require) simp_all
  have src: "normalize_session_source ''LOCAL'' [] 0 [] [] = Inr (''LOCAL'', [], 0, [], [''pwd''])"
  proof -
    have "trim_space ''LOCAL'' = ''LOCAL''" by (rule trim_visible) (simp add: visible_def)
    then show ?thesis
      by (simp add: normalize_session_source_def session_amr_def normalize_amr_def to_upper_def upper_char_def Let_def)
  qed
  have other: "''sso_sess_10'' \<noteq> ''s''" "''sso_rtf_12'' \<noteq> ''f''" by simp_all
  have ids: "show_int 10 = ''10''" "show_int 12 = ''12''" by code_simp+
  show ?thesis
    by (simp add: bootstrap_first_party_session_def sample_bootstrap_def client src new_id_def sample_sso_env_def [THEN arg_cong, of se_id]
        ids insert_session_def sql_write_now sample_tables_def sample_sso_session_def bootstrap_family_def
        insert_refresh_token_family_def sample_family_def issue_access_token_def sample_signs Let_def)
qed

theorem bootstrap_refresh_useless_witness:
  "\<exists>r. \<forall>b. fst (exchange_refresh_token sample_sso_env second ''app'' ''pw'' (br_refresh_cookie r) True
      (snd (bootstrap_first_party_session sample_sso_env second sample_bootstrap sample_sso_world))) \<noteq> Inr b \<and>
    fst (bootstrap_first_party_session sample_sso_env second sample_bootstrap sample_sso_world) = Inr r"
proof -
  obtain r w1 where b: "bootstrap_first_party_session sample_sso_env second sample_bootstrap sample_sso_world = (Inr r, w1)"
    using sample_bootstrapped by blast
  have "\<forall>t. CHR ''.'' \<notin> set t \<longrightarrow> (\<exists>e. se_verify sample_sso_env t = Inl e)"
    by (auto simp: sample_sso_env_def sample_verify_def)
  from bootstrap_refresh_useless [OF b this] b show ?thesis by (intro exI [of _ r]) simp
qed

end
