(* ===== verification/Account_Properties.thy ===== *)
theory Account_Properties
  imports Account_Samples Sso_Refresh_Properties
begin

text \<open>
  The properties of accounts that span the components: what the administration of users does to roles and to
  the sessions of single sign-on.
\<close>

section \<open>Roles of new users\<close>

lemma mutation_never:
  assumes "az_transactor (ae_authz env)" "\<And>x w1. body OrdinaryTx w \<noteq> (Inr x, w1)"
  shows "\<exists>e w'. account_mutation env body NoTx w = (Inl e, w') \<and> tables_same w w'"
proof -
  obtain r w' where run: "account_mutation env body NoTx w = (r, w')" by fastforce
  with account_mutation_cases [OF assms(1) run] assms(2) show ?thesis by blast
qed

lemma admin_never:
  assumes "az_transactor (ae_authz env)" "au_roles c \<noteq> []"
  shows "\<exists>e w'. create_admin_user env now c seen NoTx w = (Inl e, w') \<and> tables_same w w'"
proof (cases "admin_user_checks env now NoTx c seen")
  case (Inr hash)
  obtain e w' where "account_mutation env (admin_user_body env now c hash) NoTx w = (Inl e, w')" "tables_same w w'"
    using mutation_never [where body = "admin_user_body env now c hash", OF assms(1)] admin_roles_fail [OF assms(2)] by blast
  with Inr show ?thesis by (simp add: create_admin_user_def)
qed (simp add: create_admin_user_def)

lemma after_row_never:
  assumes "unique_int64 (sc_roles c) \<noteq> []"
  shows "seq_body a (\<lambda>_. provision_defaults env c) OrdinaryTx w \<noteq> (Inr u, w')"
    "seq_body a (\<lambda>_. seq_body b (\<lambda>_. provision_defaults env c)) OrdinaryTx w \<noteq> (Inr u, w')"
  using provision_roles_fail [OF assms] by (auto simp: seq_body_Inr)

lemma form_never:
  assumes "az_transactor (ae_authz env)" "unique_int64 (sc_roles c) \<noteq> []"
  shows "\<exists>e w'. create_form_subject env now c seen NoTx w = (Inl e, w') \<and> tables_same w w'"
proof (cases "form_subject_checks env c seen")
  case (Inr x)
  obtain account email nick hash where x: "x = (account, email, nick, hash)" by (cases x) auto
  let ?body = "seq_body (on_db (\<lambda>_. create_subject_row (az_dup (ae_authz env)) (ae_user_id env) account nick email []))
    (\<lambda>_. seq_body (store_password env now (ae_user_id env) hash None) (\<lambda>_. provision_defaults env c))"
  obtain e w' where "account_mutation env ?body NoTx w = (Inl e, w')" "tables_same w w'"
    using mutation_never [where body = ?body, OF assms(1)] after_row_never(2) [OF assms(2)] by blast
  with Inr show ?thesis by (simp add: create_form_subject_def x Let_def)
qed (simp add: create_form_subject_def)

lemma email_row: "find_row_by_email db email = Inr (Some r) \<Longrightarrow> r \<in> set (db_users db)"
proof -
  assume "find_row_by_email db email = Inr (Some r)"
  then have "filter (\<lambda>x. to_lower (us_email x) = to_lower (trim_space email) \<and> us_status x = 0 \<and> \<not> us_deleted x)
      (db_users db) = [r]"
    by (auto simp: find_row_by_email_def Let_def split: if_splits list.splits)
  then have "r \<in> set (filter (\<lambda>x. to_lower (us_email x) = to_lower (trim_space email) \<and> us_status x = 0 \<and> \<not> us_deleted x)
      (db_users db))" by simp
  then show ?thesis by simp
qed

lemma found_subject:
  assumes "find_subject_by_email db now email = Inr (Some r)"
  shows "r \<in> set (db_users db)"
proof -
  define pick where "pick x = (if user_enabled (us_status x) \<and> \<not> user_locked (us_status x) (us_unseal x) now
    then Some x else None)" for x :: user_row
  have only: "pick x = Some r \<Longrightarrow> x = r" for x by (simp add: pick_def split: if_split_asm)
  from assms obtain found where row: "find_row_by_email db email = Inr found" and
      "(case found of None \<Rightarrow> Inr None | Some x \<Rightarrow> Inr (pick x)) = (Inr (Some r) :: user_row option result)"
    unfolding find_subject_by_email_def if_ok_Inr pick_def by blast
  then have "found = Some r" using only by (cases found) auto
  with row show ?thesis by (simp add: email_row)
qed

lemma existing_subject:
  assumes "external_subject_checks env now c seen = Inr (Inl r)"
  shows "r \<in> set (db_users seen)"
proof -
  let ?email = "to_lower (trim_space (sc_email c))"
  have "(if sc_disable_merge c then Inr None else find_subject_by_email seen now ?email) = Inr (Some r)"
  proof (cases "if sc_disable_merge c then Inr None else find_subject_by_email seen now ?email")
    case (Inr found)
    with assms show ?thesis
      by (cases found) (simp_all add: external_subject_checks_def Let_def if_ok_Inr split: if_split_asm)
  qed (use assms in \<open>simp add: external_subject_checks_def Let_def split: if_split_asm\<close>)
  then show ?thesis by (intro found_subject) (simp split: if_split_asm)
qed

lemma external_cases:
  assumes "az_transactor (ae_authz env)" "unique_int64 (sc_roles c) \<noteq> []"
  shows "(\<exists>e w'. create_external_subject env now c seen NoTx w = (Inl e, w') \<and> tables_same w w') \<or>
    (\<exists>r. create_external_subject env now c seen NoTx w = (Inr (Some r), w) \<and> r \<in> set (db_users seen))"
proof (cases "external_subject_checks env now c seen")
  case (Inr x)
  show ?thesis
  proof (cases x)
    case (Inl r)
    with Inr have "r \<in> set (db_users seen)" by (simp add: existing_subject)
    with Inr Inl show ?thesis by (simp add: create_external_subject_def)
  next
    case new: (Inr y)
    obtain account email where y: "y = (account, email)" by (cases y) auto
    let ?nick = "if blank (sc_nick c) then email else trim_space (sc_nick c)"
    let ?body = "seq_body (on_db (\<lambda>_. create_subject_row (az_dup (ae_authz env)) (ae_user_id env) account ?nick email (sc_avatar c)))
      (\<lambda>_. provision_defaults env c)"
    obtain e w' where "account_mutation env ?body NoTx w = (Inl e, w')" "tables_same w w'"
      using mutation_never [where body = ?body, OF assms(1)] after_row_never(1) [OF assms(2)] by blast
    with Inr new show ?thesis by (simp add: create_external_subject_def y Let_def)
  qed
qed (simp add: create_external_subject_def)

text \<open>C40. Error. A user is never created with roles. The service of users opens an ordinary transaction, in which the
  authorization component refuses to assign roles: every such request of an administrator and every registration with
  default roles ends in an error, and nothing is stored.\<close>

theorem roles_never_provisioned:
  assumes "az_transactor (ae_authz env)" "au_roles c \<noteq> []" "unique_int64 (sc_roles d) \<noteq> []"
  shows "(\<exists>e w'. create_admin_user env now c seen NoTx w = (Inl e, w') \<and> tables_same w w') \<and>
    (\<exists>e w'. create_form_subject env now d seen NoTx w = (Inl e, w') \<and> tables_same w w') \<and>
    ((\<exists>e w'. create_external_subject env now d seen NoTx w = (Inl e, w') \<and> tables_same w w') \<or>
     (\<exists>r. create_external_subject env now d seen NoTx w = (Inr (Some r), w) \<and> r \<in> set (db_users seen)))"
  by (intro conjI admin_never form_never external_cases assms)

definition sample_admin_command :: admin_user_command where
  "sample_admin_command =
     \<lparr>au_id = 0, au_username = ''bobby'', au_password = ''Passw0rd1'', au_nick = [], au_email = [], au_phone = [],
      au_remark = None, au_status = None, au_roles = [5], au_orgs = [], au_depts = [], au_posts = [], au_operator = 1,
      au_proof = \<lparr>pf_action = [], pf_binding = [], pf_proof_id = [], pf_challenge_id = [], pf_level = [], pf_methods = []\<rparr>\<rparr>"

definition sample_subject_command :: subject_command where
  "sample_subject_command =
     \<lparr>sc_account = ''bobby'', sc_nick = [], sc_email = ''b@x.io'', sc_password = ''Passw0rd1'', sc_avatar = [],
      sc_roles = [5], sc_posts = [], sc_org = None, sc_dept = None, sc_disable_merge = False\<rparr>"

theorem roles_never_provisioned_witness:
  "\<exists>e w'. create_form_subject sample_account_env 1 sample_subject_command sample_db NoTx sample_accounts = (Inl e, w')
     \<and> tables_same sample_accounts w'"
  by (rule conjunct1 [OF conjunct2 [OF roles_never_provisioned [where c = sample_admin_command]]])
    (simp_all add: sample_admin_command_def sample_subject_command_def unique_int64_def)

section \<open>Sessions of users who may not go on\<close>

lemma accounts_like_sso: "accounts_like w w' \<Longrightarrow> ac_sso w' = ac_sso w"
  by (simp add: accounts_like_parts)

text \<open>The four bodies all end in the revocation of the user's sessions, on the tables of single sign-on as they were.\<close>

lemma revokes_at_the_end:
  "lock_state_body env now user status unseal OrdinaryTx w = (Inr u, w1) \<Longrightarrow> status \<noteq> UserStatusNormal \<Longrightarrow>
     \<exists>n. revoke_user_within (ae_sso env) now user (ac_sso w) = (Inr n, ac_sso w1)"
  "delete_user_body env now user OrdinaryTx w = (Inr u, w1) \<Longrightarrow>
     \<exists>n. revoke_user_within (ae_sso env) now user (ac_sso w) = (Inr n, ac_sso w1)"
  "seq_body (store_password env now user hash operator) (\<lambda>_. seq_body (revoke_of_user env now user) (\<lambda>_. checked (Inr ())))
     OrdinaryTx w = (Inr u, w1) \<Longrightarrow>
     \<exists>n. revoke_user_within (ae_sso env) now user (ac_sso w) = (Inr n, ac_sso w1)"
  by (auto simp: lock_state_body_def delete_user_body_def end_sessions_def account_steps revoke_of_user_def
      store_password_def dest!: guarded)

lemma mutation_revokes:
  assumes tx: "az_transactor (ae_authz env)" and run: "account_mutation env body NoTx w = (Inr u, w1)"
    and body: "\<And>x v. body OrdinaryTx w = (Inr x, v) \<Longrightarrow> \<exists>n. revoke_user_within (ae_sso env) now user (ac_sso w) = (Inr n, ac_sso v)"
  shows "\<exists>n. revoke_user_within (ae_sso env) now user (ac_sso w) = (Inr n, ac_sso w1)"
proof -
  obtain v where v: "body OrdinaryTx w = (Inr u, v)" "accounts_like v w1"
    using account_mutation_Inr [OF tx run] .
  have "ac_sso w1 = ac_sso v" using v(2) by (rule accounts_like_sso)
  with body [OF v(1)] show ?thesis by simp
qed

text \<open>The requests after which a user is signed out everywhere.\<close>

datatype sign_out =
    NewStatus int int proof_metadata
  | LockState int "time option"
  | DeleteUser int proof_metadata
  | NewPassword string int

fun sign_out_request :: "'w account_env \<Rightarrow> time \<Rightarrow> int \<Rightarrow> sign_out \<Rightarrow> (unit, 'w) account_body" where
  "sign_out_request env now user (NewStatus status operator prf) =
     (if status = UserStatusNormal then checked (Inl user_missing)
      else update_admin_user_status env now user status operator prf)"
| "sign_out_request env now user (LockState status unseal) =
     (if status = UserStatusNormal then checked (Inl user_missing) else change_lock_state env now user status unseal)"
| "sign_out_request env now user (DeleteUser operator prf) = delete_admin_user env now user operator prf"
| "sign_out_request env now user (NewPassword raw operator) = update_password env now user raw operator"

lemma sign_out_revokes:
  assumes tx: "az_transactor (ae_authz env)" and run: "sign_out_request env now user req NoTx w = (Inr u, w1)"
  shows "\<exists>n. revoke_user_within (ae_sso env) now user (ac_sso w) = (Inr n, ac_sso w1)"
proof (cases req)
  case (NewStatus status operator meta)
  with run have "status \<noteq> UserStatusNormal" "account_mutation env (lock_state_body env now user status None) NoTx w = (Inr u, w1)"
    by (auto simp: update_admin_user_status_def then_do_Inr split: if_splits)
  then show ?thesis by (auto intro: mutation_revokes [OF tx] revokes_at_the_end(1))
next
  case (LockState status unseal)
  with run have "status \<noteq> UserStatusNormal" "account_mutation env (lock_state_body env now user status unseal) NoTx w = (Inr u, w1)"
    by (auto simp: change_lock_state_def split: if_splits)
  then show ?thesis by (auto intro: mutation_revokes [OF tx] revokes_at_the_end(1))
next
  case (DeleteUser operator meta)
  with run have "account_mutation env (delete_user_body env now user) NoTx w = (Inr u, w1)"
    by (auto simp: delete_admin_user_def then_do_Inr split: if_splits)
  then show ?thesis by (rule mutation_revokes [OF tx _ revokes_at_the_end(2)])
next
  case (NewPassword raw operator)
  with run obtain hash where "account_mutation env (seq_body (store_password env now user hash (pointer_int64 operator))
      (\<lambda>_. seq_body (revoke_of_user env now user) (\<lambda>_. checked (Inr ())))) NoTx w = (Inr u, w1)"
    by (auto simp: update_password_def then_do_Inr)
  then show ?thesis by (rule mutation_revokes [OF tx _ revokes_at_the_end(3)])
qed

text \<open>C5. Safety. Once a user was locked, disabled, deleted or given a new password, no run of requests brings back a
  session the user had: no access token is accepted for it, it is not found, and no code or refresh token of it is
  exchanged.\<close>

theorem signed_out_everywhere:
  assumes "az_transactor (ae_authz env)" "sign_out_request env now user req NoTx w = (Inr u, w1)"
    and "distinct (map ss_id (st_sessions (sw_sql (ac_sso w))))" "r \<in> set (st_sessions (sw_sql (ac_sso w)))"
    and "ss_user r = user" "ss_create r \<le> now" "sso_run UNIV (sw_sql (ac_sso w1)) (sw_sql s2)"
  shows "(\<forall>p s3. validate_access_token senv t token s2 = (Inr p, s3) \<longrightarrow> tp_session p \<noteq> ss_id r) \<and>
    (\<forall>s s3. resolve_active_session senv t sid s2 = (Inr (Some s), s3) \<longrightarrow> ss_id s \<noteq> ss_id r) \<and>
    (\<forall>b s3. exchange_authorization_code senv t cid secret code uri verifier s2 = (Inr b, s3) \<longrightarrow>
       (\<exists>c \<in> set (st_codes (sw_sql s2)). ac_code c = trim_space code \<and> ac_session c \<noteq> ss_id r))"
proof -
  obtain n where "revoke_user_within (ae_sso env) now user (ac_sso w) = (Inr n, ac_sso w1)"
    using sign_out_revokes [OF assms(1,2)] by blast
  note closed = closed_by_update [OF revoke_user_within_Inr [OF this] assms(3-6)]
  note closed = session_closed_run [OF assms(7) closed]
  show ?thesis
    by (intro conjI allI impI)
       (erule closed_session_refused(1) [OF closed] closed_session_refused(2) [OF closed] closed_session_refused(4) [OF closed])+
qed

lemma sample_guard: "guard_user_deactivation sample_db 7 = Inr ()"
proof -
  have "7 \<notin> active_roots sample_db" unfolding active_roots_iff by (auto simp: sample_db_def)
  then show ?thesis
    using sample_roots by (simp add: guard_user_deactivation_def require_def would_remove_last_user_def
        lock_super_admin_invariant_root roots_inv_def)
qed

lemma sample_locked: "\<exists>w1. sign_out_request sample_account_env second 7 (LockState UserStatusDisabled None) NoTx sample_accounts
    = (Inr (), w1)"
proof -
  obtain n s1 where "revoke_user_within sample_sso_env second 7 sample_sso_world = (Inr n, s1)"
    using sample_user_revoked by blast
  then show ?thesis
    by (simp add: change_lock_state_def account_mutation_def run_invalidated_changing account_registrar_def
        authz_registrar_def account_tx_def lock_state_body_def status_guard_def end_sessions_def seq_body_def
        guard_deactivation_def sample_guard checked_def require_def on_db_def change_db_def revoke_of_user_def on_sso_def
        UserStatusDisabled_def UserStatusNormal_def)
qed

theorem signed_out_everywhere_witness:
  "\<exists>w1. sign_out_request sample_account_env second 7 (LockState UserStatusDisabled None) NoTx sample_accounts = (Inr (), w1)
     \<and> \<not> (\<exists>p s3. validate_access_token sample_sso_env second ''jwt.a'' (ac_sso w1) = (Inr p, s3) \<and> tp_session p = ''s'')"
proof -
  obtain w1 where gone: "sign_out_request sample_account_env second 7 (LockState UserStatusDisabled None) NoTx sample_accounts
      = (Inr (), w1)" using sample_locked by blast
  have "\<forall>p s3. validate_access_token sample_sso_env second ''jwt.a'' (ac_sso w1) = (Inr p, s3) \<longrightarrow>
      tp_session p \<noteq> ss_id sample_sso_session"
    by (rule conjunct1 [OF signed_out_everywhere [OF _ gone _ _ _ _ rtranclp.rtrancl_refl]])
      (simp_all add: sample_tables_def sample_sso_session_def second_def)
  with gone show ?thesis by (auto simp: sample_sso_session_def)
qed

end
