(* ===== verification/Setup.thy ===== *)
theory Setup
  imports User_Admin Sso_Refresh
begin

text \<open>
  The first start of the system: the token of the setup page, the check of where a request comes from and
  the creation of the owner (\<open>app/setup/domain\<close>, \<open>app/setup/application/service.go\<close>,
  \<open>app/setup/infrastructure/store.go\<close>, and \<open>BootstrapAuthorizationRoot\<close> of the authorization component).

  The state is that of the accounts with the keys of the setup in the cache. HMAC, JSON, base64 and the
  parser of URLs are the environment.
\<close>

section \<open>Where a request comes from\<close>

definition trusted_browser_fetch :: "string \<Rightarrow> string \<Rightarrow> bool" where
  "trusted_browser_fetch site mode \<longleftrightarrow>
     (let s = to_lower (trim_space site); m = to_lower (trim_space mode)
      in s \<in> set [''same-origin'', ''same-site'', ''none'']
         \<and> (m = [] \<or> m \<in> set [''cors'', ''same-origin'', ''navigate'']))"

text \<open>The parser gives scheme, host and port; \<open>None\<close> is a text that is no URL.\<close>

definition normalize_origin :: "(string \<Rightarrow> (string \<times> string \<times> string) option) \<Rightarrow> string \<Rightarrow> string" where
  "normalize_origin parse value =
     (case parse (trim_space value) of
        None \<Rightarrow> []
      | Some (scheme, host, port) \<Rightarrow>
          if scheme = [] \<or> host = [] then []
          else to_lower scheme @ ''://'' @ host @ (if port = [] then [] else CHR '':'' # port))"

text \<open>\<open>*\<close> stands for any text without a line break, every other byte for itself.\<close>

fun glob :: "string \<Rightarrow> string \<Rightarrow> bool" where
  "glob [] v \<longleftrightarrow> v = []"
| "glob (p # ps) v \<longleftrightarrow>
     (if p = CHR ''*'' then glob ps v \<or> (case v of [] \<Rightarrow> False | c # cs \<Rightarrow> c \<noteq> CHR 0x0A \<and> glob (p # ps) cs)
      else case v of [] \<Rightarrow> False | c # cs \<Rightarrow> c = p \<and> glob ps cs)"

definition wildcard_match :: "string \<Rightarrow> string \<Rightarrow> bool" where
  "wildcard_match pattern value \<longleftrightarrow> pattern \<noteq> [] \<and> glob pattern value"

record origin_input =
  oi_origin :: string
  oi_referer :: string
  oi_fetch_site :: string
  oi_fetch_mode :: string
  oi_patterns :: "string list"
  oi_require :: bool

definition validate_origin :: "(string \<Rightarrow> (string \<times> string \<times> string) option) \<Rightarrow> origin_input \<Rightarrow> bool" where
  "validate_origin parse i =
     (let requested = (if blank (oi_origin i) then trim_space (oi_referer i) else trim_space (oi_origin i))
      in if requested = [] then \<not> oi_require i \<and> trusted_browser_fetch (oi_fetch_site i) (oi_fetch_mode i)
         else let n = normalize_origin parse requested
              in n \<noteq> [] \<and> list_ex (\<lambda>p. wildcard_match (trim_space p) n) (oi_patterns i))"

section \<open>Tokens\<close>

record setup_token_payload =
  stp_exp :: int
  stp_epoch :: int
  stp_nonce :: string

record token_service =
  ts_secret :: string
  ts_ttl :: int
  ts_epoch :: int
  ts_hmac :: "string \<Rightarrow> string \<Rightarrow> string"
  ts_encode :: "string \<Rightarrow> string"
  ts_decode :: "string \<Rightarrow> string option"
  ts_marshal :: "setup_token_payload \<Rightarrow> string"
  ts_unmarshal :: "string \<Rightarrow> setup_token_payload option"

text \<open>The secret and the lifetime of \<open>NewTokenService\<close>; \<open>random\<close> is the secret drawn where none is configured.\<close>

definition token_secret :: "string \<Rightarrow> string \<Rightarrow> string result" where
  "token_secret random configured =
     (let s = trim_space configured
      in if s \<noteq> [] \<and> length s < 32 then Inl (PlainError ''setup.tokenSecret length must not be less than 32 characters'')
         else Inr (if s = [] then random else s))"

definition token_ttl :: "int \<Rightarrow> int" where
  "token_ttl seconds = seconds_duration (if seconds \<le> 0 then 300 else seconds)"

definition sign_payload :: "token_service \<Rightarrow> string \<Rightarrow> string" where
  "sign_payload ts encoded = ts_encode ts (ts_hmac ts (ts_secret ts) encoded)"

definition setup_token_unconfigured :: go_error where
  "setup_token_unconfigured = system_error (''setup token service'' @ utf8 [0x672A, 0x914D, 0x7F6E])"

definition generate_setup_token :: "token_service \<Rightarrow> string \<Rightarrow> time \<Rightarrow> string result" where
  "generate_setup_token ts nonce now =
     (if ts_secret ts = [] then Inl setup_token_unconfigured
      else
        let encoded = ts_encode ts (ts_marshal ts
              \<lparr>stp_exp = unix_seconds (now + ts_ttl ts), stp_epoch = ts_epoch ts, stp_nonce = nonce\<rparr>)
        in Inr (encoded @ ''.'' @ sign_payload ts encoded))"

definition invalid_setup_token :: "string \<Rightarrow> go_error" where
  "invalid_setup_token message =
     new_error CodeNoAuth KindForbidden (or_default message (utf8 [0x521D, 0x59CB, 0x5316, 0x6821, 0x9A8C, 0x65E0, 0x6548, 0xFF0C, 0x8BF7, 0x5237, 0x65B0, 0x9875, 0x9762, 0x540E, 0x91CD, 0x8BD5]))"

text \<open>The two parts of a text with exactly one dot.\<close>

definition dot_parts :: "string \<Rightarrow> (string \<times> string) option" where
  "dot_parts t =
     (case dropWhile (\<lambda>c. c \<noteq> CHR ''.'') t of
        [] \<Rightarrow> None
      | _ # rest \<Rightarrow> if CHR ''.'' \<in> set rest then None else Some (takeWhile (\<lambda>c. c \<noteq> CHR ''.'') t, rest))"

definition validate_setup_token :: "token_service \<Rightarrow> string \<Rightarrow> time \<Rightarrow> setup_token_payload result" where
  "validate_setup_token ts token now =
     (if ts_secret ts = [] then Inl setup_token_unconfigured
      else if blank token then Inl (invalid_setup_token (utf8 [0x521D, 0x59CB, 0x5316, 0x6821, 0x9A8C, 0x7F3A, 0x5931, 0xFF0C, 0x8BF7, 0x5237, 0x65B0, 0x9875, 0x9762, 0x540E, 0x91CD, 0x8BD5]))
      else case dot_parts (trim_space token) of
             None \<Rightarrow> Inl (invalid_setup_token [])
           | Some (encoded, signature) \<Rightarrow>
               if sign_payload ts encoded \<noteq> signature then Inl (invalid_setup_token [])
               else case ts_decode ts encoded of
                      None \<Rightarrow> Inl (invalid_setup_token [])
                    | Some raw \<Rightarrow>
                        (case ts_unmarshal ts raw of
                           None \<Rightarrow> Inl (invalid_setup_token [])
                         | Some p \<Rightarrow>
                             if blank (stp_nonce p) \<or> stp_epoch p \<noteq> ts_epoch ts \<or> stp_exp p \<le> unix_seconds now
                               then Inl (invalid_setup_token [])
                             else Inr p))"

section \<open>Keys in the cache\<close>

definition nonce_key :: "string \<Rightarrow> string" where "nonce_key nonce = ''setup:owner:token:nonce:'' @ nonce"
definition bootstrap_lock_key :: string where "bootstrap_lock_key = ''setup:owner:bootstrap:lock''"

definition consume_nonce :: "time \<Rightarrow> string \<Rightarrow> int \<Rightarrow> string kv \<Rightarrow> bool result \<times> string kv" where
  "consume_nonce now nonce ttl keys =
     (if blank nonce then (Inr False, keys)
      else kv_set_nx now (nonce_key (trim_space nonce)) ''1'' (if ttl \<le> 0 then second else ttl) keys)"

definition acquire_bootstrap_lock :: "time \<Rightarrow> string \<Rightarrow> int \<Rightarrow> string kv \<Rightarrow> bool result \<times> string kv" where
  "acquire_bootstrap_lock now token ttl keys =
     kv_set_nx now bootstrap_lock_key (trim_space token) (if ttl \<le> 0 then 30 * second else ttl) keys"

definition release_bootstrap_lock :: "time \<Rightarrow> string \<Rightarrow> string kv \<Rightarrow> string kv" where
  "release_bootstrap_lock now token keys =
     snd (kv_compare_and_delete now bootstrap_lock_key (trim_space token) keys)"

section \<open>The root role\<close>

definition root_code_ok :: "string \<Rightarrow> bool" where
  "root_code_ok code =
     (case code of
        [] \<Rightarrow> False
      | c # rest \<Rightarrow> is_upper_letter c \<and> 2 \<le> length rest \<and> length rest \<le> 49
                     \<and> list_all (\<lambda>x. is_upper_letter x \<or> is_digit x \<or> x = CHR ''_'') rest)"

definition record_bootstrap :: "role_row \<Rightarrow> string \<Rightarrow> authz_db \<Rightarrow> authz_db" where
  "record_bootstrap r code db =
     db\<lparr>db_bootstrap := db_bootstrap db
          @ [\<lparr>bs_key = AuthorizationRootSystemKey, bs_role = ro_id r, bs_code = code\<rparr>]\<rparr>"

text \<open>The role and whether the system had been initialized; a system that has users already is.\<close>

definition bootstrap_root_rows :: "string \<Rightarrow> string \<Rightarrow> authz_db \<Rightarrow> (role_record \<times> bool) result \<times> authz_db" where
  "bootstrap_root_rows code name db =
     (case find root_row (db_roles db) of
        None \<Rightarrow> (Inl (PlainError ''authorization root role is missing''), db)
      | Some r \<Rightarrow>
          if list_ex (\<lambda>b. bs_key b = AuthorizationRootSystemKey) (db_bootstrap db) then (Inr (as_role r, True), db)
          else if list_ex (\<lambda>u. \<not> us_deleted u) (db_users db) then (Inr (as_role r, True), record_bootstrap r (ro_code r) db)
          else if list_ex (\<lambda>x. ro_code x = code \<and> ro_id x \<noteq> ro_id r \<and> \<not> ro_deleted x) (db_roles db)
            then (Inl (PlainError ''authorization root code conflicts with an existing role''), db)
          else (Inr ((as_role r)\<lparr>ro_code := code, ro_name := name\<rparr>, False),
                record_bootstrap r code
                  (db\<lparr>db_roles := update_where (\<lambda>x. ro_id x = ro_id r \<and> root_row x)
                     (\<lambda>x. x\<lparr>ro_code := code, ro_name := name\<rparr>) (db_roles db)\<rparr>)))"

definition bootstrap_authorization_root :: "string \<Rightarrow> string \<Rightarrow> (role_record \<times> bool, authz_db) tx_body" where
  "bootstrap_authorization_root code_text name_text m db =
     (let code = trim_space code_text; name = trim_space name_text
      in if \<not> root_code_ok code then (Inl (params_error (utf8 [0x8D85, 0x7EA7, 0x7BA1, 0x7406, 0x5458, 0x89D2, 0x8272, 0x7F16, 0x7801, 0x683C, 0x5F0F, 0x65E0, 0x6548])), db)
         else if name = [] then (Inl (params_error (utf8 [0x8D85, 0x7EA7, 0x7BA1, 0x7406, 0x5458, 0x89D2, 0x8272, 0x540D, 0x79F0, 0x4E0D, 0x80FD, 0x4E3A, 0x7A7A])), db)
         else then_do (bootstrap_root_rows code name db) (\<lambda>(r, done_before) db1.
           if \<not> is_authorization_root r then (Inl (system_error (utf8 [0x6388, 0x6743, 0x5B89, 0x5168, 0x6839, 0x4E0D, 0x5B58, 0x5728])), db1)
           else (Inr (r, done_before), db1)))"

section \<open>The service\<close>

record 'w setup_world =
  su_accounts :: "'w accounts"
  su_keys :: "string kv"

record 'w setup_env =
  st_accounts :: "'w account_env"
  st_tokens :: token_service
  st_enabled :: bool
  st_login_enabled :: bool
  st_frontend_primary :: bool
  st_role_code :: string
  st_role_name :: string
  st_lock_seconds :: int
  st_client :: string
  st_nonce :: string
  st_lock_token :: string

definition find_authorization_root_role_id :: "authz_db \<Rightarrow> int" where
  "find_authorization_root_role_id db =
     (case filter (\<lambda>r. is_authorization_root r \<and> ro_status r = 0 \<and> 0 < ro_id r) (list_role_list db) of
        [] \<Rightarrow> 0
      | rs \<Rightarrow> Min (set (map ro_id rs)))"

definition list_active_user_ids_by_role_page :: "authz_db \<Rightarrow> int \<Rightarrow> int \<Rightarrow> int \<Rightarrow> int list" where
  "list_active_user_ids_by_role_page db role after_user limit =
     (if role \<le> 0 then []
      else take (if limit \<le> 0 \<or> 500 < limit then 100 else nat limit)
        (sort (remdups (map us_id (filter (\<lambda>u. \<not> us_deleted u \<and> us_status u = 0 \<and> max 0 after_user < us_id u
           \<and> (\<exists>l \<in> set (db_user_roles db). ur_user l = us_id u \<and> ur_role l = role \<and> \<not> ur_deleted l))
           (db_users db))))))"

definition has_super_admin_account :: "authz_db \<Rightarrow> bool" where
  "has_super_admin_account db =
     (let role = find_authorization_root_role_id db
      in 0 < role \<and> list_active_user_ids_by_role_page db role 0 1 \<noteq> [])"

record setup_status =
  sts_initialized :: bool
  sts_owner_required :: bool
  sts_login_enabled :: bool
  sts_token :: "string option"

definition get_setup_status :: "'w setup_env \<Rightarrow> time \<Rightarrow> authz_db \<Rightarrow> setup_status result" where
  "get_setup_status env now db =
     (if \<not> st_enabled env
        then Inr \<lparr>sts_initialized = True, sts_owner_required = False, sts_login_enabled = True, sts_token = None\<rparr>
      else
        let initialized = has_super_admin_account db
        in if_ok (if initialized then Inr None
                  else map_sum id Some (generate_setup_token (st_tokens env) (st_nonce env) now)) (\<lambda>token.
             Inr \<lparr>sts_initialized = initialized, sts_owner_required = \<not> initialized,
                  sts_login_enabled = initialized \<and> st_login_enabled env \<and> st_frontend_primary env,
                  sts_token = token\<rparr>))"

record owner_request =
  or_username :: string
  or_nick :: string
  or_password :: string
  or_confirm :: string
  or_device :: string
  or_ip :: string
  or_agent :: string

definition validate_owner_request :: "owner_request \<Rightarrow> unit result" where
  "validate_owner_request q =
     (if blank (or_username q) then Inl (params_error (utf8 [0x7528, 0x6237, 0x540D, 0x4E0D, 0x80FD, 0x4E3A, 0x7A7A]))
      else if blank (or_password q) then Inl (params_error (utf8 [0x5BC6, 0x7801, 0x4E0D, 0x80FD, 0x4E3A, 0x7A7A]))
      else if blank (or_confirm q) then Inl (params_error (utf8 [0x786E, 0x8BA4, 0x5BC6, 0x7801, 0x4E0D, 0x80FD, 0x4E3A, 0x7A7A]))
      else require (or_password q = or_confirm q) (params_error (utf8 [0x4E24, 0x6B21, 0x8F93, 0x5165, 0x7684, 0x5BC6, 0x7801, 0x4E0D, 0x4E00, 0x81F4])))"

definition setup_completed :: go_error where "setup_completed = operation_error (utf8 [0x7CFB, 0x7EDF, 0x5DF2, 0x5B8C, 0x6210, 0x521D, 0x59CB, 0x5316])"

definition owner_body ::
    "'w setup_env \<Rightarrow> time \<Rightarrow> owner_request \<Rightarrow> (created_user \<times> bootstrap_result, 'w) account_body" where
  "owner_body env now q =
     (let account = trim_space (or_username q); ae = st_accounts env;
          nick = (if blank (or_nick q) then account else trim_space (or_nick q))
      in seq_body (\<lambda>m w. (if has_super_admin_account (ac_db w) then Inl setup_completed
                           else require (find_subject_by_account (ac_db w) account = None) (params_error (utf8 [0x7528, 0x6237, 0x540D, 0x5DF2, 0x5B58, 0x5728])), w)) (\<lambda>_.
         seq_body (on_db (bootstrap_authorization_root (st_role_code env) (st_role_name env))) (\<lambda>(root, done_before).
         seq_body (checked (require (\<not> done_before) setup_completed)) (\<lambda>_.
         seq_body (\<lambda>m w. create_owner_user ae now account nick (or_password q) (ac_db w) m w) (\<lambda>created.
         seq_body (on_db (bootstrap_owner_roles (ae_authz ae) (cu_id created) [ro_id root] (cu_id created))) (\<lambda>_.
         seq_body (on_sso (\<lambda>_. bootstrap_first_party_session (ae_sso ae) now
           \<lparr>bc_client = trim_space (st_client env), bc_user = cu_id created, bc_platform = [], bc_login_method = [],
            bc_provider = [], bc_identity = 0, bc_acr = [], bc_amr = [], bc_device = or_device q,
            bc_ip = or_ip q, bc_agent = or_agent q\<rparr>)) (\<lambda>session.
           checked (Inr (created, session)))))))))"

definition owner_transaction ::
    "'w setup_env \<Rightarrow> ('a, 'w) account_body \<Rightarrow> ('a, 'w) account_body" where
  "owner_transaction env body m w =
     (if \<not> az_transactor (ae_authz (st_accounts env))
        then (Inl (system_error ''setup owner bootstrap requires datasource transaction''), w)
      else account_tx (st_accounts env) body m w)"

record owner_result =
  ow_owner :: created_user
  ow_permissions :: "string list"
  ow_roles :: "string list"
  ow_session :: bootstrap_result

definition owner_locked ::
    "'w setup_env \<Rightarrow> time \<Rightarrow> owner_request \<Rightarrow> 'w accounts \<Rightarrow> owner_result result \<times> 'w accounts" where
  "owner_locked env now q w =
     then_do (owner_transaction env (owner_body env now q) NoTx w) (\<lambda>(created, session) w1.
       (if_ok (get_user_permissions (ae_authz (st_accounts env)) (ac_db w1) now (cu_id created)) (\<lambda>permissions.
        if_ok (get_user_roles (ac_db w1) (cu_id created)) (\<lambda>roles. Inr
          \<lparr>ow_owner = created, ow_permissions = sort (normalize_permission_codes permissions),
           ow_roles = sort (normalize_permission_codes roles), ow_session = session\<rparr>)), w1))"

definition create_owner ::
    "'w setup_env \<Rightarrow> time \<Rightarrow> owner_request \<Rightarrow> string \<Rightarrow> 'w setup_world \<Rightarrow> owner_result result \<times> 'w setup_world" where
  "create_owner env now q token w =
     (if \<not> st_enabled env then (Inl setup_completed, w)
      else then_do (if_ok (validate_owner_request q) (\<lambda>_. validate_setup_token (st_tokens env) token now), w) (\<lambda>p w0.
        let ttl = seconds_duration (max (stp_exp p - unix_seconds now) 1)
        in (case consume_nonce now (stp_nonce p) ttl (su_keys w0) of
              (Inl e, keys1) \<Rightarrow> (Inl e, w0\<lparr>su_keys := keys1\<rparr>)
            | (Inr False, keys1) \<Rightarrow> (Inl (invalid_setup_token []), w0\<lparr>su_keys := keys1\<rparr>)
            | (Inr True, keys1) \<Rightarrow>
                (case acquire_bootstrap_lock now (st_lock_token env) (seconds_duration (max (st_lock_seconds env) 5)) keys1 of
                   (Inl e, keys2) \<Rightarrow> (Inl e, w0\<lparr>su_keys := keys2\<rparr>)
                 | (Inr False, keys2) \<Rightarrow> (Inl (operation_error (utf8 [0x7CFB, 0x7EDF, 0x521D, 0x59CB, 0x5316, 0x6B63, 0x5728, 0x6267, 0x884C, 0xFF0C, 0x8BF7, 0x7A0D, 0x540E, 0x91CD, 0x8BD5])), w0\<lparr>su_keys := keys2\<rparr>)
                 | (Inr True, keys2) \<Rightarrow>
                     (case owner_locked env now q (su_accounts w0) of
                        (r, accounts) \<Rightarrow>
                          (r, w0\<lparr>su_accounts := accounts, su_keys := release_bootstrap_lock now (st_lock_token env) keys2\<rparr>))))))"

end
