(* ===== verification/Setup_Properties.thy ===== *)
theory Setup_Properties
  imports Setup Account_Samples
begin

text \<open>
  The properties of the first start of the system: what a setup token is worth, and that the owner is never
  created.
\<close>

section \<open>The owner\<close>

lemma owner_body_fails: "owner_body env now q OrdinaryTx w \<noteq> (Inr x, w')"
proof
  assume "owner_body env now q OrdinaryTx w = (Inr x, w')"
  then obtain user roles u db db' where
      "bootstrap_owner_roles (ae_authz (st_accounts env)) user roles user OrdinaryTx db = (Inr u, db')"
    by (auto simp: owner_body_def Let_def seq_body_Inr on_db_Inr split: prod.splits)
  with roles_in_ordinary(3) [of "ae_authz (st_accounts env)" user roles user db] show False by simp
qed

lemma owner_locked_fails:
  "\<exists>e w'. owner_locked env now q w = (Inl e, w') \<and> tables_same w w'"
proof (cases "az_transactor (ae_authz (st_accounts env))")
  case True
  obtain r w' where run: "account_tx (st_accounts env) (owner_body env now q) NoTx w = (r, w')" by fastforce
  with account_tx_cases [OF True run] owner_body_fails [of env now q w]
  obtain e where "r = Inl e" "tables_same w w'" by blast
  with run True show ?thesis by (auto simp: owner_locked_def owner_transaction_def)
qed (simp add: owner_locked_def owner_transaction_def)

text \<open>Every way through a request: refused before the nonce, by the nonce, by the lock, or in the transaction.\<close>

definition token_checks :: "'w setup_env \<Rightarrow> time \<Rightarrow> owner_request \<Rightarrow> string \<Rightarrow> setup_token_payload result" where
  "token_checks env now q token =
     if_ok (validate_owner_request q) (\<lambda>_. validate_setup_token (st_tokens env) token now)"

definition nonce_ttl :: "setup_token_payload \<Rightarrow> time \<Rightarrow> int" where
  "nonce_ttl p now = seconds_duration (max (stp_exp p - unix_seconds now) 1)"

lemma create_owner_refused:
  "\<not> st_enabled env \<Longrightarrow> create_owner env now q token w = (Inl setup_completed, w)"
  "token_checks env now q token = Inl e \<Longrightarrow>
     \<exists>e. create_owner env now q token w = (Inl e, w)"
  by (auto simp: create_owner_def token_checks_def)

lemma create_owner_nonce:
  assumes "st_enabled env" "token_checks env now q token = Inr p"
    and "consume_nonce now (stp_nonce p) (nonce_ttl p now) (su_keys w) = (r, keys1)"
  shows "r = Inl e \<Longrightarrow> create_owner env now q token w = (Inl e, w\<lparr>su_keys := keys1\<rparr>)"
    "r = Inr False \<Longrightarrow> create_owner env now q token w = (Inl (invalid_setup_token []), w\<lparr>su_keys := keys1\<rparr>)"
  using assms by (simp_all add: create_owner_def token_checks_def nonce_ttl_def Let_def)

lemma create_owner_locked:
  assumes "st_enabled env" "token_checks env now q token = Inr p"
    and "consume_nonce now (stp_nonce p) (nonce_ttl p now) (su_keys w) = (Inr True, keys1)"
    and "acquire_bootstrap_lock now (st_lock_token env) (seconds_duration (max (st_lock_seconds env) 5)) keys1 = (r, keys2)"
  shows "\<exists>e. create_owner env now q token w = (Inl e, w\<lparr>su_keys := keys2\<rparr>) \<and> r \<noteq> Inr True \<or>
    (\<exists>w'. create_owner env now q token w = (Inl e, w\<lparr>su_accounts := w',
       su_keys := release_bootstrap_lock now (st_lock_token env) keys2\<rparr>) \<and> tables_same (su_accounts w) w')"
proof -
  obtain e w' where "owner_locked env now q (su_accounts w) = (Inl e, w')" "tables_same (su_accounts w) w'"
    using owner_locked_fails by blast
  with assms show ?thesis
    by (auto simp: create_owner_def token_checks_def nonce_ttl_def Let_def split: sum.splits bool.splits)
qed

lemma create_owner_fails:
  "\<exists>e w'. create_owner env now q token w = (Inl e, w') \<and> tables_same (su_accounts w) (su_accounts w')"
proof (cases "st_enabled env")
  case True
  show ?thesis
  proof (cases "token_checks env now q token")
    case (Inl e)
    then show ?thesis using create_owner_refused(2) [OF Inl, of w] by auto
  next
    case p: (Inr p)
    obtain r keys1 where nonce: "consume_nonce now (stp_nonce p) (nonce_ttl p now) (su_keys w) = (r, keys1)"
      by fastforce
    obtain r2 keys2 where lock: "acquire_bootstrap_lock now (st_lock_token env)
        (seconds_duration (max (st_lock_seconds env) 5)) keys1 = (r2, keys2)" by fastforce
    consider e where "r = Inl e" | "r = Inr False" | "r = Inr True" by (cases r) auto
    then show ?thesis
    proof cases
      case 1 then show ?thesis using create_owner_nonce(1) [OF True p nonce] by simp
    next
      case 2 then show ?thesis using create_owner_nonce(2) [OF True p nonce] by simp
    next
      case 3
      then show ?thesis using create_owner_locked [OF True p _ lock] nonce by fastforce
    qed
  qed
qed (simp add: create_owner_refused)

text \<open>The owner of the system is never created. The setup opens an ordinary transaction and the
  authorization component refuses to join one that is not consistent, so every request ends in an error and the
  tables stay as they were.\<close>

lemma setup_never_completes:
  "\<exists>e w'. create_owner env now q token w = (Inl e, w') \<and> tables_same (su_accounts w) (su_accounts w')"
  by (rule create_owner_fails)

section \<open>Setup tokens\<close>

lemma dot_parts_one:
  assumes "CHR ''.'' \<notin> set a" "CHR ''.'' \<notin> set b"
  shows "dot_parts (a @ ''.'' @ b) = Some (a, b)"
proof -
  have "takeWhile (\<lambda>c. c \<noteq> CHR ''.'') (a @ ''.'' @ b) = a" "dropWhile (\<lambda>c. c \<noteq> CHR ''.'') (a @ ''.'' @ b) = ''.'' @ b"
    using assms(1) by (auto simp: takeWhile_append dropWhile_append)
  then show ?thesis using assms(2) by (simp add: dot_parts_def)
qed

text \<open>
  What the service relies on: base64 without padding is decoded again and consists of visible characters
  other than a dot, and JSON gives the payload back; only for the payload in question.
\<close>

definition token_libraries_ok :: "token_service \<Rightarrow> setup_token_payload \<Rightarrow> bool" where
  "token_libraries_ok ts p \<longleftrightarrow>
     ts_decode ts (ts_encode ts (ts_marshal ts p)) = Some (ts_marshal ts p)
     \<and> ts_unmarshal ts (ts_marshal ts p) = Some p
     \<and> (\<forall>s. list_all visible (ts_encode ts s) \<and> CHR ''.'' \<notin> set (ts_encode ts s))"

lemma shown_token_accepted:
  assumes "token_libraries_ok (st_tokens env) p" "\<not> blank (st_nonce env)"
    and "p = \<lparr>stp_exp = unix_seconds (now + ts_ttl (st_tokens env)), stp_epoch = ts_epoch (st_tokens env),
              stp_nonce = st_nonce env\<rparr>"
    and "get_setup_status env now db = Inr st" "sts_token st = Some token"
    and "unix_seconds later < unix_seconds (now + ts_ttl (st_tokens env))"
  shows "validate_setup_token (st_tokens env) token later = Inr p"
proof -
  let ?ts = "st_tokens env"
  let ?x = "ts_encode ?ts (ts_marshal ?ts p)"
  have made: "generate_setup_token ?ts (st_nonce env) now = Inr token"
    using assms(4,5) by (cases "generate_setup_token ?ts (st_nonce env) now")
      (auto simp: get_setup_status_def Let_def if_ok_Inr split: if_splits)
  then have secret: "ts_secret ?ts \<noteq> []" and token: "token = ?x @ ''.'' @ sign_payload ?ts ?x"
    by (auto simp: generate_setup_token_def Let_def assms(3) split: if_splits)
  have "list_all visible token" "token \<noteq> []" using assms(1)
    by (simp_all add: token token_libraries_ok_def sign_payload_def visible_def)
  then have "trim_space token = token" "\<not> blank token" by (simp_all add: trim_visible blank_def)
  moreover have "dot_parts token = Some (?x, sign_payload ?ts ?x)"
    unfolding token by (rule dot_parts_one) (use assms(1) in \<open>simp_all add: token_libraries_ok_def sign_payload_def\<close>)
  ultimately show ?thesis using assms(1,2,6) secret
    by (simp add: validate_setup_token_def token_libraries_ok_def assms(3))
qed

text \<open>Round trip. The token the setup page shows is accepted, with the nonce and the epoch it was made with, by
  every request before its last second.\<close>

lemma setup_token_round_trip:
  assumes "token_libraries_ok (st_tokens env) p" "\<not> blank (st_nonce env)"
    and "p = \<lparr>stp_exp = unix_seconds (now + ts_ttl (st_tokens env)), stp_epoch = ts_epoch (st_tokens env),
              stp_nonce = st_nonce env\<rparr>"
    and "get_setup_status env now db = Inr st" "sts_token st = Some token"
    and "unix_seconds later < unix_seconds (now + ts_ttl (st_tokens env))"
  shows "validate_setup_token (st_tokens env) token later = Inr p"
  using assms by (rule shown_token_accepted)

definition sample_payload :: setup_token_payload where
  "sample_payload = \<lparr>stp_exp = 300, stp_epoch = 1, stp_nonce = ''n''\<rparr>"

definition sample_token_service :: token_service where
  "sample_token_service =
     \<lparr>ts_secret = ''secret'', ts_ttl = 300 * second, ts_epoch = 1, ts_hmac = (\<lambda>key s. ''m''), ts_encode = (\<lambda>s. s),
      ts_decode = Some, ts_marshal = (\<lambda>p. ''p''), ts_unmarshal = (\<lambda>s. if s = ''p'' then Some sample_payload else None)\<rparr>"

definition sample_setup_env :: "unit setup_env" where
  "sample_setup_env =
     \<lparr>st_accounts = sample_account_env, st_tokens = sample_token_service\<lparr>ts_encode := (\<lambda>s. ''p'')\<rparr>, st_enabled = True,
      st_login_enabled = True, st_frontend_primary = True, st_role_code = ''SUPER_ADMIN'', st_role_name = ''root'',
      st_lock_seconds = 30, st_client = ''app'', st_nonce = ''n'', st_lock_token = ''l''\<rparr>"

definition empty_db :: authz_db where
  "empty_db = sample_db\<lparr>db_users := [], db_user_roles := []\<rparr>"

lemma sample_setup_simps [simp]:
  "st_enabled sample_setup_env" "st_nonce sample_setup_env = ''n''" "\<not> blank ''n''" "trim_space ''p.p'' = ''p.p''"
  "\<not> blank ''p.p''" "st_lock_token sample_setup_env = ''l''"
  "generate_setup_token (st_tokens sample_setup_env) ''n'' 0 = Inr ''p.p''"
  "ts_ttl (st_tokens sample_setup_env) = 300 * second"  "ts_epoch (st_tokens sample_setup_env) = 1"
  by (simp_all add: sample_setup_env_def sample_token_service_def generate_setup_token_def sign_payload_def
      blank_def trim_visible visible_def)

lemma sample_setup_status: "get_setup_status sample_setup_env 0 empty_db =
    Inr \<lparr>sts_initialized = False, sts_owner_required = True, sts_login_enabled = False, sts_token = Some ''p.p''\<rparr>"
proof -
  have "\<not> has_super_admin_account empty_db"
    by (simp add: has_super_admin_account_def empty_db_def list_active_user_ids_by_role_page_def)
  then show ?thesis by (simp add: get_setup_status_def)
qed

lemma sample_seconds [simp]: "unix_seconds 0 = 0" "unix_seconds second = 1" "unix_seconds (300 * second) = 300"
  by (simp_all add: unix_seconds_def second_def)

lemma sample_token_libraries: "token_libraries_ok (st_tokens sample_setup_env) sample_payload"
  by (simp add: token_libraries_ok_def sample_setup_env_def sample_token_service_def visible_def)

theorem setup_token_round_trip_witness:
  "validate_setup_token (st_tokens sample_setup_env) ''p.p'' second = Inr sample_payload"
  by (rule setup_token_round_trip [OF sample_token_libraries _ _ sample_setup_status])
    (simp_all add: sample_payload_def)

section \<open>A token is used once\<close>

definition spent_until :: "time \<Rightarrow> string \<Rightarrow> string kv \<Rightarrow> bool" where
  "spent_until limit nonce keys \<longleftrightarrow> (\<forall>t < limit. kv_get t (nonce_key (trim_space nonce)) keys \<noteq> None)"

lemma nonce_key_inj [simp]: "nonce_key a = nonce_key b \<longleftrightarrow> a = b"
  by (simp add: nonce_key_def)

lemma lock_key_apart [simp]: "nonce_key n \<noteq> bootstrap_lock_key" "bootstrap_lock_key \<noteq> nonce_key n"
  by (simp_all add: nonce_key_def bootstrap_lock_key_def)

lemma consume_keeps_spent:
  assumes "spent_until limit nonce keys" "t < limit" "consume_nonce t n ttl keys = (r, keys1)"
  shows "spent_until limit nonce keys1"
proof (cases "trim_space n = trim_space nonce")
  case True
  with assms have "keys1 = keys"
    by (auto simp: consume_nonce_def spent_until_def kv_set_nx_def split: if_splits)
  with assms(1) show ?thesis by simp
next
  case False
  have "kv_get u (nonce_key (trim_space nonce)) keys1 = kv_get u (nonce_key (trim_space nonce)) keys" for u
    using assms(3) False by (auto simp: consume_nonce_def kv_set_nx_def split: if_splits)
  with assms(1) show ?thesis by (simp add: spent_until_def)
qed

lemma lock_keeps_spent:
  "acquire_bootstrap_lock t token ttl keys = (r, keys1) \<Longrightarrow> spent_until limit nonce keys1 = spent_until limit nonce keys"
  "spent_until limit nonce (release_bootstrap_lock t token keys) = spent_until limit nonce keys"
  by (auto simp: acquire_bootstrap_lock_def release_bootstrap_lock_def kv_set_nx_def kv_compare_and_delete_def
      spent_until_def split: if_splits)

lemma create_owner_keeps_spent:
  assumes "spent_until limit nonce (su_keys w)" "t < limit"
  shows "spent_until limit nonce (su_keys (snd (create_owner env t q token w)))"
proof (cases "st_enabled env")
  case True
  show ?thesis
  proof (cases "token_checks env t q token")
    case (Inl e)
    then show ?thesis using create_owner_refused(2) [OF Inl, of w] assms(1) by auto
  next
    case p: (Inr p)
    obtain r keys1 where nonce: "consume_nonce t (stp_nonce p) (nonce_ttl p t) (su_keys w) = (r, keys1)"
      by fastforce
    have kept: "spent_until limit nonce keys1" by (rule consume_keeps_spent [OF assms nonce])
    obtain r2 keys2 where lock: "acquire_bootstrap_lock t (st_lock_token env)
        (seconds_duration (max (st_lock_seconds env) 5)) keys1 = (r2, keys2)" by fastforce
    consider e where "r = Inl e" | "r = Inr False" | "r = Inr True" by (cases r) auto
    then show ?thesis
    proof cases
      case 1 then show ?thesis using create_owner_nonce(1) [OF True p nonce] kept by simp
    next
      case 2 then show ?thesis using create_owner_nonce(2) [OF True p nonce] kept by simp
    next
      case 3
      with nonce have taken: "consume_nonce t (stp_nonce p) (nonce_ttl p t) (su_keys w) = (Inr True, keys1)" by simp
      have "spent_until limit nonce keys2" using kept lock_keeps_spent(1) [OF lock] by simp
      then show ?thesis using create_owner_locked [OF True p taken lock] by (auto simp: lock_keeps_spent(2))
    qed
  qed
qed (simp add: create_owner_refused assms(1))

type_synonym 'w setup_call = "'w setup_env \<times> time \<times> owner_request \<times> string"

fun setup_requests :: "'w setup_call list \<Rightarrow> 'w setup_world \<Rightarrow> 'w setup_world" where
  "setup_requests [] w = w"
| "setup_requests ((env, t, q, token) # calls) w = setup_requests calls (snd (create_owner env t q token w))"

lemma setup_requests_keep_spent:
  "spent_until limit nonce (su_keys w) \<Longrightarrow> \<forall>(env, t, q, token) \<in> set calls. t < limit \<Longrightarrow>
   spent_until limit nonce (su_keys (setup_requests calls w))"
  by (induction calls w rule: setup_requests.induct) (auto simp: create_owner_keeps_spent)

lemma whole_seconds_floor:
  "unix_seconds t * second \<le> t" "t < (unix_seconds t + 1) * second"
  using minus_mod_eq_div_mult [of t second] pos_mod_sign [OF second_pos, of t] pos_mod_bound [OF second_pos, of t]
  unfolding unix_seconds_def distrib_right by linarith+

lemma unix_seconds_less: "unix_seconds t < e \<longleftrightarrow> t < e * second"
proof
  assume "unix_seconds t < e"
  then have "(unix_seconds t + 1) * second \<le> e * second" by (intro mult_right_mono) (simp_all add: order_less_imp_le)
  with whole_seconds_floor(2) [of t] show "t < e * second" by (rule order_less_le_trans)
next
  assume "t < e * second"
  then have "unix_seconds t * second < e * second" by (rule order_le_less_trans [OF whole_seconds_floor(1)])
  then show "unix_seconds t < e" by simp
qed

lemma nonce_spent_by:
  assumes "consume_nonce now (stp_nonce p) (nonce_ttl p now) keys = (Inr True, keys1)"
    and "stp_exp p \<le> unix_seconds now + 9223372036"
  shows "spent_until (stp_exp p * second) (stp_nonce p) keys1"
proof -
  define n where "n = max (stp_exp p - unix_seconds now) 1"
  define d where "d = n * second"
  have ttl: "nonce_ttl p now = d"
    using assms(2) unfolding nonce_ttl_def d_def n_def by (intro seconds_duration_exact) simp_all
  have "d = (n * 1000) * millisecond" by (simp add: d_def second_def millisecond_def)
  then have "d mod millisecond = 0" by simp
  then have sent: "sent_duration d = d" by (rule sent_duration_exact)
  have pos: "0 < d" by (simp add: d_def n_def second_def)
  with assms(1) have "kv_set_nx now (nonce_key (trim_space (stp_nonce p))) ''1'' d keys = (Inr True, keys1)"
    by (simp add: consume_nonce_def ttl split: if_split_asm)
  from kv_get_set_nx [OF this] pos
  have live: "kv_get t (nonce_key (trim_space (stp_nonce p))) keys1 \<noteq> None" if "t < now + d" for t
    using that by (auto simp: sent)
  have "stp_exp p \<le> unix_seconds now + n" by (simp add: n_def)
  then have "stp_exp p * second \<le> (unix_seconds now + n) * second"
    by (rule mult_right_mono) (simp add: order_less_imp_le)
  moreover have "unix_seconds now * second \<le> now"
    by (rule whole_seconds_floor(1))
  ultimately have "stp_exp p * second \<le> now + d" unfolding distrib_right d_def by simp
  with live show ?thesis by (simp add: spent_until_def)
qed

text \<open>A setup token is used once. After a request whose nonce was free, and whatever requests with
  whatever tokens follow, every further request with the token is refused and changes
  nothing: not even a transaction that is rolled back gives the token back.\<close>

lemma setup_token_once:
  fixes env env2 :: "'w setup_env"
  assumes "token_checks env now q token = Inr p" "stp_exp p \<le> unix_seconds now + 9223372036" "st_enabled env"
    and "consume_nonce now (stp_nonce p) (nonce_ttl p now) (su_keys w) = (Inr True, keys1)"
    and "\<forall>(e, t, q, k) \<in> set calls. t \<le> now2"
    and "st_tokens env2 = st_tokens env" "st_enabled env2" "validate_owner_request q2 = Inr ()"
    and "w2 = setup_requests ((env, now, q, token) # calls) w"
  shows "\<exists>e. create_owner env2 now2 q2 token w2 = (Inl e, w2)"
proof (cases "token_checks env2 now2 q2 token")
  case (Inl e)
  then show ?thesis by (rule create_owner_refused(2))
next
  case (Inr p2)
  then have p2: "validate_setup_token (st_tokens env) token now2 = Inr p2"
    using assms(6) by (simp add: token_checks_def if_ok_Inr)
  have "validate_setup_token (st_tokens env) token now = Inr p" using assms(1) by (simp add: token_checks_def if_ok_Inr)
  then have same: "p2 = p" and "now2 < stp_exp p * second"
    using p2 by (auto simp: validate_setup_token_def unix_seconds_less [symmetric] split: if_splits option.splits prod.splits)
  let ?limit = "stp_exp p * second"
  obtain r2 keys2 where lock: "acquire_bootstrap_lock now (st_lock_token env)
      (seconds_duration (max (st_lock_seconds env) 5)) keys1 = (r2, keys2)" by fastforce
  have "spent_until ?limit (stp_nonce p) keys1" by (rule nonce_spent_by [OF assms(4,2)])
  then have "spent_until ?limit (stp_nonce p) (su_keys (snd (create_owner env now q token w)))"
    using create_owner_locked [OF assms(3,1,4) lock] lock_keeps_spent(1) [OF lock] by (auto simp: lock_keeps_spent(2))
  moreover have "\<forall>(e, t, q, k) \<in> set calls. t < ?limit" using assms(5) \<open>now2 < ?limit\<close> by fastforce
  ultimately have "spent_until ?limit (stp_nonce p) (su_keys w2)"
    unfolding assms(9) by (simp add: setup_requests_keep_spent)
  then have "kv_get now2 (nonce_key (trim_space (stp_nonce p))) (su_keys w2) \<noteq> None"
    using \<open>now2 < ?limit\<close> by (simp add: spent_until_def)
  then have "consume_nonce now2 (stp_nonce p) (nonce_ttl p now2) (su_keys w2) = (fst (consume_nonce now2 (stp_nonce p)
      (nonce_ttl p now2) (su_keys w2)), su_keys w2)" "fst (consume_nonce now2 (stp_nonce p) (nonce_ttl p now2) (su_keys w2)) \<noteq> Inr True"
    by (auto simp: consume_nonce_def kv_set_nx_def)
  then show ?thesis using create_owner_nonce [OF assms(7) Inr [unfolded same]]
    by (cases "fst (consume_nonce now2 (stp_nonce p) (nonce_ttl p now2) (su_keys w2))") auto
qed

definition sample_owner :: owner_request where
  "sample_owner = \<lparr>or_username = ''owner'', or_nick = [], or_password = ''pw'', or_confirm = ''pw'',
     or_device = [], or_ip = [], or_agent = []\<rparr>"

lemma sample_token_checks: "token_checks sample_setup_env 0 sample_owner ''p.p'' = Inr sample_payload"
proof -
  have "validate_owner_request sample_owner = Inr ()"
    by (simp add: validate_owner_request_def sample_owner_def require_def blank_def trim_visible visible_def)
  moreover have "validate_setup_token (st_tokens sample_setup_env) ''p.p'' 0 = Inr sample_payload"
    by (rule shown_token_accepted [OF sample_token_libraries _ _ sample_setup_status])
      (simp_all add: sample_payload_def)
  ultimately show ?thesis by (simp add: token_checks_def)
qed

theorem setup_token_once_witness:
  "\<exists>e. create_owner sample_setup_env second sample_owner ''p.p''
       (setup_requests [(sample_setup_env, 0, sample_owner, ''p.p'')] \<lparr>su_accounts = sample_accounts, su_keys = Map.empty\<rparr>)
     = (Inl e, setup_requests [(sample_setup_env, 0, sample_owner, ''p.p'')]
                 \<lparr>su_accounts = sample_accounts, su_keys = Map.empty\<rparr>)"
proof -
  have ok: "validate_owner_request sample_owner = Inr ()"
    by (simp add: validate_owner_request_def sample_owner_def require_def blank_def trim_visible visible_def)
  have "\<exists>keys1. consume_nonce 0 (stp_nonce sample_payload) (nonce_ttl sample_payload 0) Map.empty = (Inr True, keys1)"
    by (simp add: consume_nonce_def kv_set_nx_def kv_get_def sample_payload_def nonce_ttl_def second_def)
  then obtain keys1 where free: "consume_nonce 0 (stp_nonce sample_payload) (nonce_ttl sample_payload 0)
      (su_keys \<lparr>su_accounts = sample_accounts, su_keys = Map.empty\<rparr>) = (Inr True, keys1)" by auto
  show ?thesis
    by (rule setup_token_once [OF sample_token_checks _ _ free, where calls = "[]"])
      (simp_all add: sample_payload_def ok)
qed

end
