(* ===== verification/Org_Frame.thy ===== *)
theory Org_Frame
  imports Org_Units Authz_Frame
begin

text \<open>
  The administration of organizations, departments and positions leaves users, roles and the links between them
  as they are, whether it succeeds or not.
\<close>

definition role_tables :: "authz_db \<Rightarrow> user_row list \<times> user_role_row list \<times> role_row list" where
  "role_tables db = (db_users db, db_user_roles db, db_roles db)"

definition keeps_roles :: "('a, authz_db) tx_body \<Rightarrow> bool" where
  "keeps_roles body \<longleftrightarrow> (\<forall>m db. role_tables (snd (body m db)) = role_tables db)"

lemma keeps_rolesD [simp]: "keeps_roles body \<Longrightarrow> role_tables (snd (body m db)) = role_tables db"
  by (simp add: keeps_roles_def)

lemma role_tables_roots: "role_tables db' = role_tables db \<Longrightarrow> roots_inv db' = roots_inv db"
  by (rule roots_inv_same) (simp_all add: role_tables_def)

lemma role_tables_others [simp]:
  "role_tables (db\<lparr>db_orgs := a\<rparr>) = role_tables db" "role_tables (db\<lparr>db_depts := b\<rparr>) = role_tables db"
  "role_tables (db\<lparr>db_posts := c\<rparr>) = role_tables db" "role_tables (db\<lparr>db_post_roles := e\<rparr>) = role_tables db"
  "role_tables (db\<lparr>db_invalidations := f\<rparr>) = role_tables db"
  by (simp_all add: role_tables_def)

named_theorems keeps_intros

lemma keeps_then [keeps_intros]:
  assumes "role_tables (snd r) = role_tables db" "\<And>x d. role_tables (snd (f x d)) = role_tables d"
  shows "role_tables (snd (then_do r f)) = role_tables db"
  using assms by (cases r) (auto simp: then_do_def split: sum.split)

lemma keeps_within:
  assumes "keeps_roles body"
  shows "role_tables (snd (within_transaction o1 (body m) db)) = role_tables db"
proof -
  consider "snd (within_transaction o1 (body m) db) = db"
    | x where "body m db = (Inr x, snd (within_transaction o1 (body m) db))"
    using within_transaction_state [of o1 "body m" db] by blast
  then show ?thesis by cases (simp, metis assms keeps_rolesD snd_conv)
qed

lemma keeps_ordinary: "keeps_roles body \<Longrightarrow> keeps_roles (tx_ordinary o1 body)"
  by (simp add: keeps_roles_def [of "tx_ordinary o1 body"] tx_ordinary_def keeps_within)

lemma keeps_consistent: "keeps_roles body \<Longrightarrow> keeps_roles (tx_consistent o1 body)"
  by (simp add: keeps_roles_def [of "tx_consistent o1 body"] tx_consistent_def keeps_within)

lemma keeps_user_tx: "keeps_roles body \<Longrightarrow> keeps_roles (user_with_tx env body)"
  using keeps_ordinary [of body "az_outcome env 0"] by (simp add: keeps_roles_def user_with_tx_def)

lemma keeps_registered:
  assumes "authz_registrar env = Some rg"
  shows "role_tables (snd (register_classes rg cs d)) = role_tables d"
proof (rule register_classes_keeps [where I = "\<lambda>x. role_tables x = role_tables d"])
  show "role_tables (snd (rg_register rg c x)) = role_tables d" if "role_tables x = role_tables d" for c x
    using registrar_invalidations [OF assms, of c x] that by auto
qed simp

lemma keeps_boundary:
  assumes "\<And>b. keeps_roles b \<Longrightarrow> keeps_roles (boundary b)" "keeps_roles body"
  shows "keeps_roles (user_mutation_boundary env boundary body)"
proof (cases "authz_registrar env")
  case None
  then show ?thesis using assms
    by (simp add: keeps_roles_def user_mutation_boundary_def run_invalidated_changing)
next
  case (Some rg)
  have "keeps_roles (\<lambda>m1 d1. then_do (body m1 d1) (\<lambda>x d2.
     then_do (register_classes rg invalidation_classes d2) (\<lambda>_ d3.
       if has_callbacks m1 then (Inr x, d3) else (Inl no_rollback_hook, d3))))"
    unfolding keeps_roles_def by (intro allI keeps_then) (simp_all add: assms(2) keeps_registered [OF Some] keeps_then)
  from assms(1) [OF this] Some show ?thesis
    by (auto simp: keeps_roles_def user_mutation_boundary_def run_invalidated_changing split: sum.split)
qed

lemma keeps_mutation [keeps_intros]:
  "keeps_roles body \<Longrightarrow> role_tables (snd (user_mutation env body m db)) = role_tables db"
  unfolding user_mutation_def by (rule keeps_rolesD, rule keeps_boundary) (rule keeps_user_tx)

lemma keeps_change: "(\<And>db. role_tables (f db) = role_tables db) \<Longrightarrow> keeps_roles (change_db f)"
  by (simp add: keeps_roles_def change_db_def)

lemma keeps_statement: "(\<And>db. role_tables (snd (f db)) = role_tables db) \<Longrightarrow> keeps_roles (\<lambda>_. f)"
  by (simp add: keeps_roles_def)

lemmas unit_statements = create_org_row_def update_org_row_def delete_org_row_def update_org_status_def
  update_org_parent_def put_orgs_def create_dept_row_def update_dept_row_def delete_dept_row_def put_depts_def
  create_post_row_def update_post_row_def update_post_status_def delete_posts_rows_def replace_post_roles_def

lemma org_operations_keep [simp]:
  "role_tables (snd (create_org env seen oc m db)) = role_tables db"
  "role_tables (snd (update_org env seen oc m db)) = role_tables db"
  "role_tables (snd (delete_org env seen org m db)) = role_tables db"
  "role_tables (snd (change_org_status env org status m db)) = role_tables db"
  "role_tables (snd (move_org env org parent m db)) = role_tables db"
  unfolding create_org_def update_org_def delete_org_def change_org_status_def move_org_def
  by (auto intro!: keeps_intros keeps_change keeps_statement simp: unit_statements Let_def)

lemma dept_operations_keep [simp]:
  "role_tables (snd (create_dept env seen dc m db)) = role_tables db"
  "role_tables (snd (update_dept env seen dc m db)) = role_tables db"
  "role_tables (snd (delete_dept env seen dept m db)) = role_tables db"
  unfolding create_dept_def update_dept_def delete_dept_def
  by (auto intro!: keeps_intros keeps_change keeps_statement simp: unit_statements Let_def)

lemma keeps_delete_posts: "role_tables (snd (delete_posts ids m db)) = role_tables db"
  "role_tables (snd (delete_post_row post m db)) = role_tables db"
  by (simp_all add: delete_posts_def delete_post_row_def delete_posts_rows_def Let_def)

lemma post_operations_keep [simp]:
  "role_tables (snd (create_post env seen pc m db)) = role_tables db"
  "role_tables (snd (update_post env seen pc m db)) = role_tables db"
  "role_tables (snd (delete_post env post m db)) = role_tables db"
  "role_tables (snd (batch_delete_posts env posts m db)) = role_tables db"
  "role_tables (snd (change_post_status env post status m db)) = role_tables db"
proof -
  have one: "keeps_roles (\<lambda>m1 db1. if 0 < count_user_post db1 post then (Inl posts_in_use, db1) else delete_post_row post m1 db1)"
    by (simp add: keeps_roles_def keeps_delete_posts)
  have many: "keeps_roles (\<lambda>m1 db1. then_do (list_referenced_post_ids db1 ids, db1) (\<lambda>used db2.
      if used \<noteq> [] then (Inl posts_in_use, db2) else delete_posts ids m1 db2))" for ids
    unfolding keeps_roles_def by (intro allI keeps_then) (simp_all add: keeps_delete_posts)
  show "role_tables (snd (create_post env seen pc m db)) = role_tables db"
    "role_tables (snd (update_post env seen pc m db)) = role_tables db"
    "role_tables (snd (change_post_status env post status m db)) = role_tables db"
    unfolding create_post_def update_post_def change_post_status_def
    by (auto intro!: keeps_intros keeps_change keeps_statement simp: unit_statements)
  show "role_tables (snd (delete_post env post m db)) = role_tables db"
    unfolding delete_post_def by (simp add: keeps_mutation [OF one])
  show "role_tables (snd (batch_delete_posts env posts m db)) = role_tables db"
    unfolding batch_delete_posts_def Let_def by (simp add: keeps_mutation [OF many])
qed

lemma assign_post_roles_keeps [simp]:
  "role_tables (snd (assign_post_roles env now post ids operator prf m db)) = role_tables db"
proof -
  have body: "keeps_roles (\<lambda>m1 db1. then_do ((if roles = [] then Inr True
      else lock_and_validate_post_role_assignments env m1 db1 now operator post roles), db1) (\<lambda>allowed db2.
      if \<not> allowed then (Inl e, db2) else replace_post_roles post roles db2))" for roles e
    unfolding keeps_roles_def by (intro allI keeps_then) (simp_all add: replace_post_roles_def Let_def)
  show ?thesis
    unfolding assign_post_roles_def Let_def
    by (auto intro!: keeps_then keeps_rolesD [OF keeps_boundary [OF keeps_consistent body]])
qed

end
