(* ===== verification/Account_Run.thy ===== *)
theory Account_Run
  imports Setup_Properties Org_Frame
begin

text \<open>
  Every request that changes users, roles, rights or units, in any order: the step relation of the whole
  administration, and the invariant that the system never loses its last administrator.

  A step is one operation of a service, whole: what runs in a transaction is one step, whatever it reads
  before the transaction (\<open>seen\<close>) may be as old as one likes, and every statement may fail. Steps of single sign-on
  and of credentials on their own are the last rule: they do not touch the tables of rights.
\<close>

inductive account_step :: "'w accounts \<Rightarrow> 'w accounts \<Rightarrow> bool" where
  step_assign_user_roles: "account_step w (w\<lparr>ac_db := snd (assign_user_roles env now user ids operator p NoTx (ac_db w))\<rparr>)"
| step_assign_created_user_roles: "account_step w (w\<lparr>ac_db := snd (assign_created_user_roles env now user username ids operator p NoTx (ac_db w))\<rparr>)"
| step_bootstrap_owner_roles: "account_step w (w\<lparr>ac_db := snd (bootstrap_owner_roles env user ids operator NoTx (ac_db w))\<rparr>)"
| step_assign_role_depts: "account_step w (w\<lparr>ac_db := snd (assign_role_depts env role ids operator p seen NoTx (ac_db w))\<rparr>)"
| step_assign_role_menus: "account_step w (w\<lparr>ac_db := snd (assign_role_menus env now role ids operator p seen NoTx (ac_db w))\<rparr>)"
| step_assign_role_permissions: "account_step w (w\<lparr>ac_db := snd (assign_role_permissions env now role ids menus operator p seen NoTx (ac_db w))\<rparr>)"
| step_create_role: "0 < az_new_id env \<Longrightarrow> account_step w (w\<lparr>ac_db := snd (create_role env c NoTx (ac_db w))\<rparr>)"
| step_update_role: "account_step w (w\<lparr>ac_db := snd (update_role env c NoTx (ac_db w))\<rparr>)"
| step_delete_role: "account_step w (w\<lparr>ac_db := snd (delete_role env role NoTx (ac_db w))\<rparr>)"
| step_advance_role_grant_revision: "account_step w (w\<lparr>ac_db := snd (advance_role_grant_revision env role NoTx (ac_db w))\<rparr>)"
| step_create_menu: "account_step w (w\<lparr>ac_db := snd (create_menu env now c seen NoTx (ac_db w))\<rparr>)"
| step_update_menu: "account_step w (w\<lparr>ac_db := snd (update_menu env now c seen NoTx (ac_db w))\<rparr>)"
| step_delete_menu: "account_step w (w\<lparr>ac_db := snd (delete_menu env menu NoTx (ac_db w))\<rparr>)"
| step_bind_menu_permissions: "account_step w (w\<lparr>ac_db := snd (bind_menu_permissions env now menu ids operator p seen NoTx (ac_db w))\<rparr>)"
| step_create_permission: "account_step w (w\<lparr>ac_db := snd (create_permission env now c seen NoTx (ac_db w))\<rparr>)"
| step_update_permission: "account_step w (w\<lparr>ac_db := snd (update_permission env now permission c seen NoTx (ac_db w))\<rparr>)"
| step_delete_permission: "account_step w (w\<lparr>ac_db := snd (delete_permission env permission NoTx (ac_db w))\<rparr>)"
| step_grant_temporary_permission: "account_step w (w\<lparr>ac_db := snd (grant_temporary_permission env now c seen NoTx (ac_db w))\<rparr>)"
| step_revoke_temporary_permission: "account_step w (w\<lparr>ac_db := snd (revoke_temporary_permission env now c seen NoTx (ac_db w))\<rparr>)"
| step_extend_temporary_permission: "account_step w (w\<lparr>ac_db := snd (extend_temporary_permission env now c seen NoTx (ac_db w))\<rparr>)"
| step_create_org: "account_step w (w\<lparr>ac_db := snd (create_org env seen c NoTx (ac_db w))\<rparr>)"
| step_update_org: "account_step w (w\<lparr>ac_db := snd (update_org env seen c NoTx (ac_db w))\<rparr>)"
| step_delete_org: "account_step w (w\<lparr>ac_db := snd (delete_org env seen org NoTx (ac_db w))\<rparr>)"
| step_change_org_status: "account_step w (w\<lparr>ac_db := snd (change_org_status env org status NoTx (ac_db w))\<rparr>)"
| step_move_org: "account_step w (w\<lparr>ac_db := snd (move_org env org parent NoTx (ac_db w))\<rparr>)"
| step_create_dept: "account_step w (w\<lparr>ac_db := snd (create_dept env seen c NoTx (ac_db w))\<rparr>)"
| step_update_dept: "account_step w (w\<lparr>ac_db := snd (update_dept env seen c NoTx (ac_db w))\<rparr>)"
| step_delete_dept: "account_step w (w\<lparr>ac_db := snd (delete_dept env seen dept NoTx (ac_db w))\<rparr>)"
| step_create_post: "account_step w (w\<lparr>ac_db := snd (create_post env seen c NoTx (ac_db w))\<rparr>)"
| step_update_post: "account_step w (w\<lparr>ac_db := snd (update_post env seen c NoTx (ac_db w))\<rparr>)"
| step_delete_post: "account_step w (w\<lparr>ac_db := snd (delete_post env post NoTx (ac_db w))\<rparr>)"
| step_batch_delete_posts: "account_step w (w\<lparr>ac_db := snd (batch_delete_posts env posts NoTx (ac_db w))\<rparr>)"
| step_change_post_status: "account_step w (w\<lparr>ac_db := snd (change_post_status env post status NoTx (ac_db w))\<rparr>)"
| step_assign_post_roles: "account_step w (w\<lparr>ac_db := snd (assign_post_roles env now post ids operator p NoTx (ac_db w))\<rparr>)"
| step_cleanup: "cleanup_expired fuel env now after NoTx (ac_db w) = Some (r, db) \<Longrightarrow> account_step w (w\<lparr>ac_db := db\<rparr>)"
| step_create_external_subject: "az_transactor (ae_authz env) \<Longrightarrow> account_step w (snd (create_external_subject env now c seen NoTx w))"
| step_create_form_subject: "az_transactor (ae_authz env) \<Longrightarrow> account_step w (snd (create_form_subject env now c seen NoTx w))"
| step_update_self_profile: "account_step w (snd (update_self_profile user nick phone avatar profile seen NoTx w))"
| step_update_self_email: "account_step w (snd (update_self_email user email seen NoTx w))"
| step_sync_external_profile: "account_step w (snd (sync_external_profile c seen NoTx w))"
| step_update_password: "az_transactor (ae_authz env) \<Longrightarrow> account_step w (snd (update_password env now user raw operator NoTx w))"
| step_change_lock_state: "az_transactor (ae_authz env) \<Longrightarrow> account_step w (snd (change_lock_state env now user status unseal NoTx w))"
| step_create_owner_user: "az_transactor (ae_authz env) \<Longrightarrow> account_step w (snd (create_owner_user env now account nick raw seen NoTx w))"
| step_create_admin_user: "az_transactor (ae_authz env) \<Longrightarrow> account_step w (snd (create_admin_user env now c seen NoTx w))"
| step_change_admin_user: "az_transactor (ae_authz env) \<Longrightarrow> account_step w (snd (change_admin_user env now c seen NoTx w))"
| step_delete_admin_user: "az_transactor (ae_authz env) \<Longrightarrow> account_step w (snd (delete_admin_user env now user operator p NoTx w))"
| step_update_admin_user_status: "az_transactor (ae_authz env) \<Longrightarrow> account_step w (snd (update_admin_user_status env now user status operator p NoTx w))"
| step_set_managed_user_status: "az_transactor (ae_authz env) \<Longrightarrow> account_step w (snd (set_managed_user_status env now c NoTx w))"
| step_assign_user_orgs: "az_transactor (ae_authz env) \<Longrightarrow> account_step w (snd (assign_user_orgs env user ids primary operator seen NoTx w))"
| step_assign_user_depts: "az_transactor (ae_authz env) \<Longrightarrow> account_step w (snd (assign_user_depts env user ids primary operator seen NoTx w))"
| step_assign_user_posts: "az_transactor (ae_authz env) \<Longrightarrow> account_step w (snd (assign_user_posts env user ids primary operator seen NoTx w))"
| step_roles_of_user: "account_step w (snd (assign_roles_of_user env now user ids operator p NoTx w))"
| step_setup: "account_step w (su_accounts (snd (create_owner env now q token \<lparr>su_accounts = w, su_keys = keys\<rparr>)))"
| step_other: "account_step w (w\<lparr>ac_credentials := c, ac_sso := s\<rparr>)"

section \<open>The invariant\<close>

lemma same_tables_roots: "tables_same w w' \<Longrightarrow> roots_inv (ac_db w') = roots_inv (ac_db w)"
  by (simp add: tables_same_def)

lemma setup_keeps_roots:
  assumes "roots_inv (ac_db w)"
  shows "roots_inv (ac_db (su_accounts (snd (create_owner env now q token \<lparr>su_accounts = w, su_keys = keys\<rparr>))))"
proof -
  obtain e w' where "create_owner env now q token \<lparr>su_accounts = w, su_keys = keys\<rparr> = (Inl e, w')"
      "tables_same w (su_accounts w')"
    using create_owner_fails [of env now q token "\<lparr>su_accounts = w, su_keys = keys\<rparr>"] by auto
  with assms show ?thesis by (simp add: same_tables_roots)
qed

lemma roles_of_user_keep:
  assumes "roots_inv (ac_db w)"
  shows "roots_inv (ac_db (snd (assign_roles_of_user env now user ids operator p NoTx w)))"
proof (cases "assign_user_roles (ae_authz env) now user ids operator p NoTx (ac_db w)")
  case (Pair r db)
  with grants_keep_roots(1) [OF assms, of "ae_authz env" now user ids operator p]
  show ?thesis using assms by (simp add: assign_roles_of_user_def checked_def on_db_def)
qed

lemmas units_keep_roots = org_operations_keep [THEN role_tables_roots] dept_operations_keep [THEN role_tables_roots]
  post_operations_keep [THEN role_tables_roots] assign_post_roles_keeps [THEN role_tables_roots]

lemma account_step_keeps_roots:
  assumes "account_step w w'" "roots_inv (ac_db w)"
  shows "roots_inv (ac_db w')"
  using assms(1)
proof cases
  case (step_cleanup fuel env now after r db)
  with cleanup_keeps_roots [OF assms(2)] show ?thesis by simp
qed (use assms(2) in \<open>simp_all add: grants_keep_roots role_admin_keeps_roots menu_admin_keeps_roots
      permission_admin_keeps_roots subjects_keep_roots self_service_keeps_roots administration_keeps_roots
      setup_keeps_roots roles_of_user_keep units_keep_roots\<close>)

lemma account_run_keeps_roots: "account_step\<^sup>*\<^sup>* w w' \<Longrightarrow> roots_inv (ac_db w) \<Longrightarrow> roots_inv (ac_db w')"
  by (induction rule: rtranclp_induct) (blast intro: account_step_keeps_roots)+

text \<open>C3. Invariant. The system never loses its last administrator. Whatever requests follow each other, and however
  old what they have read is, there stays a user who is neither deleted nor disabled and holds the enabled root role.\<close>

theorem administrator_remains:
  assumes "account_step\<^sup>*\<^sup>* w w'" "roots_inv (ac_db w)"
  shows "\<exists>u \<in> set (db_users (ac_db w')). \<exists>l \<in> set (db_user_roles (ac_db w')). \<exists>r \<in> set (db_roles (ac_db w')).
    \<not> us_deleted u \<and> us_status u = UserStatusNormal \<and> ur_user l = us_id u \<and> \<not> ur_deleted l \<and> ur_role l = ro_id r
    \<and> \<not> ro_deleted r \<and> is_active_super_admin (as_role r)"
proof -
  have "active_roots (ac_db w') \<noteq> {}" using account_run_keeps_roots [OF assms] by (simp add: roots_inv_def)
  then obtain v where "v \<in> active_roots (ac_db w')" by blast
  then obtain u l r where "u \<in> set (db_users (ac_db w'))" "us_id u = v" "\<not> us_deleted u" "us_status u = 0"
      "l \<in> set (db_user_roles (ac_db w'))" "ur_user l = v" "\<not> ur_deleted l"
      "r \<in> set (db_roles (ac_db w'))" "ro_id r = ur_role l" "root_row r" "ro_status r = 0"
    unfolding active_roots_iff by blast
  then show ?thesis
    by (intro bexI [of _ u] bexI [of _ l] bexI [of _ r])
      (simp_all add: root_row_def is_active_super_admin_def RoleStatusEnabled_def UserStatusNormal_def)
qed

theorem administrator_remains_witness:
  "\<exists>u \<in> set (db_users (ac_db (snd (update_self_email 7 ''a@b.c'' sample_db NoTx sample_accounts)))). \<not> us_deleted u"
proof -
  have "account_step\<^sup>*\<^sup>* sample_accounts (snd (update_self_email 7 ''a@b.c'' sample_db NoTx sample_accounts))"
    by (rule r_into_rtranclp) (rule step_update_self_email)
  from administrator_remains [OF this] sample_roots show ?thesis by auto
qed

end
