(* ===== verification/Login_Failures.thy ===== *)
theory Login_Failures
  imports Challenge_Proof User_Admin
begin

text \<open>
  The state of a login and the failures of logins: the keys of the cache
  (\<open>infrastructure/cache/key/builder.go\<close>), the counters and locks
  (\<open>app/system/admin/infrastructure/login_failure_store.go\<close>), the service over them
  (\<open>app/system/admin/application/service.go\<close>, lines 83 to 323 and 752 to 800) and the pending logins
  (\<open>app/login/infrastructure/interaction_cache.go\<close>, \<open>app/login/domain\<close>).

  A login runs over the challenge service, the accounts with their credentials and sessions, and texts of its
  own in the cache. A command of the cache may fail before or after its effect, as the schedule says.
\<close>

section \<open>Keys of the cache\<close>

definition sanitize_segment :: "string \<Rightarrow> string" where
  "sanitize_segment v = trim_char (CHR '':'') (trim_space v)"

definition plain_key_char :: "char \<Rightarrow> bool" where
  "plain_key_char c \<longleftrightarrow> is_letter c \<or> is_digit c \<or> c \<in> set ''-_.~''"

definition hex_digit :: "nat \<Rightarrow> char" where
  "hex_digit n = ''0123456789ABCDEF'' ! n"

text \<open>\<open>url.QueryEscape\<close>.\<close>

definition query_escape_char :: "char \<Rightarrow> string" where
  "query_escape_char c =
     (if plain_key_char c then [c] else if c = CHR '' '' then ''+''
      else [CHR ''%'', hex_digit ((of_char c :: nat) div 16), hex_digit ((of_char c :: nat) mod 16)])"

definition encode_part :: "string \<Rightarrow> string" where
  "encode_part v =
     (let t = sanitize_segment v in if list_all plain_key_char t then t else concat (map query_escape_char t))"

fun join_segments :: "string list \<Rightarrow> string" where
  "join_segments [] = []"
| "join_segments [s] = s"
| "join_segments (s # ss) = s @ '':'' @ join_segments ss"

definition build_cache_key :: "(string \<Rightarrow> string) \<Rightarrow> string \<Rightarrow> string \<Rightarrow> string \<Rightarrow> string list \<Rightarrow> string" where
  "build_cache_key sha1 prefix namespace name parts =
     (let segments = filter (\<lambda>s. s \<noteq> []) (map sanitize_segment [prefix, namespace, name] @ map encode_part parts);
          key = join_segments segments
      in if key = [] \<or> length key \<le> 256 then key
         else join_segments (take 3 segments @ [''sha1'', sha1 key]))"

text \<open>A text with a printable character is not blank.\<close>

lemma strip_units_keeps:
  "(\<And>u. u \<in> set us \<Longrightarrow> c \<notin> set u) \<Longrightarrow> c \<in> set s \<Longrightarrow> c \<in> set (strip_units us s)"
proof (induction us s rule: strip_units.induct)
  case (1 us s)
  show ?case
  proof (cases "find (\<lambda>u. u \<noteq> [] \<and> starts_with u s) us")
    case None
    then show ?thesis using "1.prems" by (simp add: strip_units.simps [of us s])
  next
    case (Some u)
    then have u: "u \<in> set us" "starts_with u s" by (auto simp: find_Some_iff)
    then obtain r where "s = u @ r" by (auto simp: starts_with_iff)
    then have "c \<in> set (drop (length u) s)" using "1.prems" u(1) by auto
    with "1.IH" [OF Some] "1.prems"(1) Some show ?thesis by (simp add: strip_units.simps [of us s])
  qed
qed

lemma visible_not_blank:
  assumes "c \<in> set s" "visible c"
  shows "\<not> blank s"
proof -
  have units: "c \<notin> set u" if "u \<in> set ws_units" for u
    using that assms(2) by (auto simp: ws_units_def visible_def)
  then have "c \<in> set (strip_units ws_units s)" using strip_units_keeps assms(1) by metis
  then have "c \<in> set (strip_units (map rev ws_units) (rev (strip_units ws_units s)))"
    using units by (intro strip_units_keeps) auto
  then show ?thesis by (auto simp: blank_def trim_space_def)
qed

section \<open>Pending logins\<close>

record interaction =
  it_login :: string
  it_context :: string
  it_platform :: string
  it_account :: string
  it_user :: int
  it_primary_nonce :: string
  it_primary_challenge :: string
  it_primary_satisfied :: bool
  it_register_account :: string
  it_register_email :: string
  it_captcha_nonce :: string
  it_captcha_challenge :: string
  it_captcha_satisfied :: bool
  it_email_nonce :: string
  it_email_challenge :: string
  it_email_satisfied :: bool
  it_nonce :: string
  it_challenge :: string
  it_created :: "time option"
  it_expires :: "time option"

record ('c, 'w) login_world =
  lw_interactions :: "interaction kv"
  lw_texts :: "string kv"
  lw_faults :: "sql_outcome list"
  lw_challenge :: "'c challenge_world"
  lw_accounts :: "'w accounts"

type_synonym ('a, 'c, 'w) login_action = "('c, 'w) login_world \<Rightarrow> 'a result \<times> ('c, 'w) login_world"

text \<open>
  What a login is configured with and what it calls outside: the thresholds of \<open>RiskPolicy\<close> and of the
  service of failures, the lifetime of a pending login, hashes in hexadecimal, the verification of a proof token
  by the JWT service and of a password against its hash, the answers of the platform component (\<open>None\<close>
  when it is not bound), whether sessions of authorization requests and first-party sessions are bound, the
  answers of the limiter and of \<open>mail.ParseAddress\<close>, and the options of a passkey prompt.
\<close>

record context_validation =
  cv_context :: string
  cv_platform :: string

record registration_policy =
  gp_allow_form :: bool
  gp_default_org :: "int option"
  gp_default_dept :: "int option"
  gp_default_posts :: "int list"
  gp_default_roles :: "int list"

text \<open>The context of a request, and what of it the platform component is told.\<close>

record login_source =
  lc_ip :: string
  lc_agent :: string
  lc_device :: string
  lc_tenant :: string
  lc_host :: string
  lc_origin :: string
  lc_referer :: string

record trusted_source =
  ts_host :: string
  ts_origin :: string
  ts_referer :: string

record platform_answers =
  pa_validate :: "string \<Rightarrow> string \<Rightarrow> trusted_source \<Rightarrow> context_validation option result"
  pa_require_method :: "string \<Rightarrow> string \<Rightarrow> string \<Rightarrow> unit result"
  pa_registration :: "string \<Rightarrow> registration_policy option result"

record limiter_answer =
  la_allowed :: bool
  la_retry_after :: int
  la_error :: "go_error option"
  la_limited :: bool

record ('c, 'w) login_env =
  le_prefix :: string
  le_sha1 :: "string \<Rightarrow> string"
  le_sha256 :: "string \<Rightarrow> string"
  le_captcha_threshold :: int
  le_totp_threshold :: int
  le_lock_threshold :: int
  le_context_threshold :: int
  le_lock_hours :: int
  le_ttl :: int
  le_accounts :: "'w account_env"
  le_challenge :: "'c challenge_env"
  le_jwt :: "string \<Rightarrow> anymap result"
  le_password_ok :: "string \<Rightarrow> string \<Rightarrow> bool"
  le_platform :: "platform_answers option"
  le_has_authorization :: bool
  le_has_bootstrap :: bool
  le_limiter :: "(string \<Rightarrow> int \<Rightarrow> int \<Rightarrow> limiter_answer) option"
  le_parse_address :: "string \<Rightarrow> string option"
  le_rp_id :: string
  le_prompt_timeout :: int
  le_random :: "string result"

definition requires_captcha :: "('c, 'w) login_env \<Rightarrow> int \<Rightarrow> bool" where
  "requires_captcha env failures \<longleftrightarrow> le_captcha_threshold env \<le> failures"

definition requires_totp :: "('c, 'w) login_env \<Rightarrow> int \<Rightarrow> bool" where
  "requires_totp env failures \<longleftrightarrow> le_totp_threshold env \<le> failures"

section \<open>Commands\<close>

definition login_command :: "('a, 'c, 'w) login_action \<Rightarrow> ('a, 'c, 'w) login_action" where
  "login_command effect w =
     (case lw_faults w of
        [] \<Rightarrow> effect w
      | outcome # rest \<Rightarrow>
          (let w1 = w\<lparr>lw_faults := rest\<rparr>
           in case outcome of
                SqlOk \<Rightarrow> effect w1
              | SqlLost e \<Rightarrow> (Inl e, w1)
              | SqlUnacked e \<Rightarrow> (Inl e, snd (effect w1))))"

definition on_challenge :: "('a, 'c) action \<Rightarrow> ('a, 'c, 'w) login_action" where
  "on_challenge body w = (case body (lw_challenge w) of (r, c) \<Rightarrow> (r, w\<lparr>lw_challenge := c\<rparr>))"

definition on_accounts :: "('a, 'w) account_body \<Rightarrow> ('a, 'c, 'w) login_action" where
  "on_accounts body w = (case body NoTx (lw_accounts w) of (r, a) \<Rightarrow> (r, w\<lparr>lw_accounts := a\<rparr>))"

definition get_text :: "time \<Rightarrow> string \<Rightarrow> (string option, 'c, 'w) login_action" where
  "get_text now key = login_command (\<lambda>w. (Inr (kv_get now key (lw_texts w)), w))"

definition set_text :: "time \<Rightarrow> string \<Rightarrow> string \<Rightarrow> int \<Rightarrow> (unit, 'c, 'w) login_action" where
  "set_text now key v ttl = login_command (\<lambda>w. (Inr (), w\<lparr>lw_texts := kv_set now key v ttl (lw_texts w)\<rparr>))"

definition delete_texts :: "string list \<Rightarrow> (unit, 'c, 'w) login_action" where
  "delete_texts keys = login_command (\<lambda>w. (Inr (), w\<lparr>lw_texts := kv_delete_many keys (lw_texts w)\<rparr>))"

definition interaction_key :: "('c, 'w) login_env \<Rightarrow> string \<Rightarrow> string" where
  "interaction_key env login = build_cache_key (le_sha1 env) (le_prefix env) ''login'' ''interaction'' [login]"

definition completed_key :: "('c, 'w) login_env \<Rightarrow> string \<Rightarrow> string" where
  "completed_key env login = build_cache_key (le_sha1 env) (le_prefix env) ''login'' ''completed'' [login]"

definition primary_lock_key :: "('c, 'w) login_env \<Rightarrow> string \<Rightarrow> string" where
  "primary_lock_key env login = build_cache_key (le_sha1 env) (le_prefix env) ''login'' ''primary-lock'' [login]"

definition get_interaction :: "('c, 'w) login_env \<Rightarrow> time \<Rightarrow> string \<Rightarrow> (interaction option, 'c, 'w) login_action" where
  "get_interaction env now login =
     login_command (\<lambda>w. (Inr (kv_get now (interaction_key env login) (lw_interactions w)), w))"

definition save_interaction :: "('c, 'w) login_env \<Rightarrow> time \<Rightarrow> interaction \<Rightarrow> (unit, 'c, 'w) login_action" where
  "save_interaction env now s =
     login_command (\<lambda>w. (Inr (), w\<lparr>lw_interactions :=
        kv_set now (interaction_key env (it_login s)) s (le_ttl env) (lw_interactions w)\<rparr>))"

definition remove_interaction :: "('c, 'w) login_env \<Rightarrow> string \<Rightarrow> (unit, 'c, 'w) login_action" where
  "remove_interaction env login =
     login_command (\<lambda>w. (Inr (), w\<lparr>lw_interactions := kv_delete_many [interaction_key env login] (lw_interactions w)\<rparr>))"

definition is_completed :: "('c, 'w) login_env \<Rightarrow> time \<Rightarrow> string \<Rightarrow> (bool, 'c, 'w) login_action" where
  "is_completed env now login w =
     then_do (get_text now (completed_key env login) w) (\<lambda>found w1. (Inr (found \<noteq> None), w1))"

definition mark_completed :: "('c, 'w) login_env \<Rightarrow> time \<Rightarrow> string \<Rightarrow> (unit, 'c, 'w) login_action" where
  "mark_completed env now login = set_text now (completed_key env login) ''1'' (le_ttl env)"

definition acquire_primary_lock :: "('c, 'w) login_env \<Rightarrow> time \<Rightarrow> string \<Rightarrow> (bool, 'c, 'w) login_action" where
  "acquire_primary_lock env now login =
     login_command (\<lambda>w. case kv_set_nx now (primary_lock_key env login) ''1'' (15 * second) (lw_texts w) of
                          (r, kv) \<Rightarrow> (r, w\<lparr>lw_texts := kv\<rparr>))"

definition release_primary_lock :: "('c, 'w) login_env \<Rightarrow> string \<Rightarrow> (unit, 'c, 'w) login_action" where
  "release_primary_lock env login = delete_texts [primary_lock_key env login]"

section \<open>Counters and locks\<close>

definition failureExpireTTL :: int where "failureExpireTTL = 24 * hour"

definition hashed_account_segment :: "('c, 'w) login_env \<Rightarrow> string \<Rightarrow> string" where
  "hashed_account_segment env account =
     (if blank account then [] else ''sha256:'' @ le_sha256 env (trim_space account))"

definition account_keys :: "('c, 'w) login_env \<Rightarrow> string \<Rightarrow> string \<Rightarrow> string \<Rightarrow> string list" where
  "account_keys env prefix name account =
     [prefix @ hashed_account_segment env account, prefix @ trim_space account,
      build_cache_key (le_sha1 env) (le_prefix env) ''login'' name [trim_space account]]"

definition failure_keys :: "('c, 'w) login_env \<Rightarrow> string \<Rightarrow> string list" where
  "failure_keys env account = account_keys env ''login_failure:'' ''failure'' account"

definition lock_keys :: "('c, 'w) login_env \<Rightarrow> string \<Rightarrow> string list" where
  "lock_keys env account = account_keys env ''account_lock:'' ''lock'' account"

definition captcha_failure_keys :: "('c, 'w) login_env \<Rightarrow> string \<Rightarrow> string list" where
  "captcha_failure_keys env account = account_keys env ''captcha_failure:'' ''captcha-failure'' account"

definition normalize_context_scope :: "string \<Rightarrow> string" where
  "normalize_context_scope scope =
     (let s = trim_space scope in if s \<in> set [''ip'', ''device'', ''ip_device''] then s else [])"

definition context_failure_key :: "('c, 'w) login_env \<Rightarrow> string \<Rightarrow> string \<Rightarrow> string" where
  "context_failure_key env scope v =
     (let s = normalize_context_scope scope
      in if s = [] \<or> blank v then []
         else ''login_context_failure:'' @ s @ '':'' @ hashed_account_segment env v)"

text \<open>The first key with a number; texts that are none are passed over.\<close>

fun first_number :: "time \<Rightarrow> string list \<Rightarrow> (int option, 'c, 'w) login_action" where
  "first_number now [] w = (Inr None, w)"
| "first_number now (k # ks) w =
     then_do (get_text now k w) (\<lambda>raw w1.
       case raw of
         None \<Rightarrow> first_number now ks w1
       | Some s \<Rightarrow> (case parse_int64 (trim_space s) of
                      None \<Rightarrow> first_number now ks w1
                    | Some n \<Rightarrow> (Inr (Some n), w1)))"

definition get_count :: "time \<Rightarrow> string list \<Rightarrow> (int, 'c, 'w) login_action" where
  "get_count now keys w =
     then_do (first_number now (filter (\<lambda>k. \<not> blank k) keys) w) (\<lambda>found w1.
       (Inr (case found of None \<Rightarrow> 0 | Some n \<Rightarrow> n), w1))"

definition get_failure_count :: "('c, 'w) login_env \<Rightarrow> time \<Rightarrow> string \<Rightarrow> (int, 'c, 'w) login_action" where
  "get_failure_count env now account = get_count now (failure_keys env account)"

definition save_failure_count :: "('c, 'w) login_env \<Rightarrow> time \<Rightarrow> string \<Rightarrow> int \<Rightarrow> (unit, 'c, 'w) login_action" where
  "save_failure_count env now account n =
     (if blank account then (\<lambda>w. (Inr (), w))
      else set_text now (hd (failure_keys env account)) (show_int n) failureExpireTTL)"

definition get_context_failure_count ::
    "('c, 'w) login_env \<Rightarrow> time \<Rightarrow> string \<Rightarrow> string \<Rightarrow> (int, 'c, 'w) login_action" where
  "get_context_failure_count env now scope v = get_count now [context_failure_key env scope v]"

definition save_context_failure_count ::
    "('c, 'w) login_env \<Rightarrow> time \<Rightarrow> string \<Rightarrow> string \<Rightarrow> int \<Rightarrow> (unit, 'c, 'w) login_action" where
  "save_context_failure_count env now scope v n =
     (if blank scope \<or> blank v then (\<lambda>w. (Inr (), w))
      else set_text now (context_failure_key env scope v) (show_int n) failureExpireTTL)"

definition get_captcha_failure_count :: "('c, 'w) login_env \<Rightarrow> time \<Rightarrow> string \<Rightarrow> (int, 'c, 'w) login_action" where
  "get_captcha_failure_count env now account = get_count now (captcha_failure_keys env account)"

definition save_captcha_failure_count ::
    "('c, 'w) login_env \<Rightarrow> time \<Rightarrow> string \<Rightarrow> int \<Rightarrow> (unit, 'c, 'w) login_action" where
  "save_captcha_failure_count env now account n =
     (if blank account then (\<lambda>w. (Inr (), w))
      else set_text now (hd (captcha_failure_keys env account)) (show_int n) failureExpireTTL)"

definition delete_many :: "string list \<Rightarrow> (unit, 'c, 'w) login_action" where
  "delete_many keys =
     (let ks = filter (\<lambda>k. \<not> blank k) keys in if ks = [] then (\<lambda>w. (Inr (), w)) else delete_texts ks)"

definition get_lock_until :: "('c, 'w) login_env \<Rightarrow> time \<Rightarrow> string \<Rightarrow> (int option, 'c, 'w) login_action" where
  "get_lock_until env now account =
     (if blank account then (\<lambda>w. (Inr None, w)) else first_number now (lock_keys env account))"

definition save_lock_until ::
    "('c, 'w) login_env \<Rightarrow> time \<Rightarrow> string \<Rightarrow> int \<Rightarrow> int \<Rightarrow> (unit, 'c, 'w) login_action" where
  "save_lock_until env now account unlock hours =
     (if blank account then (\<lambda>w. (Inr (), w))
      else set_text now (hd (lock_keys env account)) (show_int unlock) (if hours \<le> 0 then 0 else wrap64 (hours * hour)))"

section \<open>The service of failures\<close>

definition lock_threshold :: "('c, 'w) login_env \<Rightarrow> int" where
  "lock_threshold env = (if 0 < le_lock_threshold env then le_lock_threshold env else 10)"

definition context_lock_threshold :: "('c, 'w) login_env \<Rightarrow> int" where
  "context_lock_threshold env = (if 0 < le_context_threshold env then le_context_threshold env else lock_threshold env)"

definition lock_duration_hours :: "('c, 'w) login_env \<Rightarrow> int" where
  "lock_duration_hours env = (if 0 < le_lock_hours env then le_lock_hours env else 24)"

definition unix_milli :: "time \<Rightarrow> int" where
  "unix_milli t = t div millisecond"

text \<open>A subject as the facade of users returns it: with the two answers about its status.\<close>

definition subject_of_account :: "string \<Rightarrow> (user_row option, 'c, 'w) login_action" where
  "subject_of_account account w =
     (if blank account then (Inl (params_error (''account'' @ (utf8 [0x4E0D, 0x80FD, 0x4E3A, 0x7A7A]))), w)
      else (Inr (find_subject_by_account (ac_db (lw_accounts w)) account), w))"

definition subject_locked :: "time \<Rightarrow> user_row \<Rightarrow> bool" where
  "subject_locked now r \<longleftrightarrow> user_locked (us_status r) (us_unseal r) now"

definition sync_user_lock_state ::
    "('c, 'w) login_env \<Rightarrow> time \<Rightarrow> string \<Rightarrow> int \<Rightarrow> time option \<Rightarrow> (unit, 'c, 'w) login_action" where
  "sync_user_lock_state env now account status unseal w =
     (if blank account then (Inr (), w)
      else then_do (subject_of_account (trim_space account) w) (\<lambda>found w1.
        case found of
          None \<Rightarrow> (Inr (), w1)
        | Some r \<Rightarrow> on_accounts (change_lock_state (le_accounts env) now (us_id r) status unseal) w1))"

definition clear_failure :: "('c, 'w) login_env \<Rightarrow> time \<Rightarrow> string \<Rightarrow> (unit, 'c, 'w) login_action" where
  "clear_failure env now account w =
     (if blank account then (Inr (), w)
      else then_do (delete_many (failure_keys env account) w) (\<lambda>_ w1.
           then_do (delete_many (lock_keys env account) w1) (\<lambda>_ w2.
           then_do (delete_many (captcha_failure_keys env account) w2) (\<lambda>_ w3.
           sync_user_lock_state env now account 0 None w3))))"

definition context_signals :: "string \<Rightarrow> string \<Rightarrow> (string \<times> string) list" where
  "context_signals client_ip device =
     (let i = trim_space client_ip; d = trim_space device
      in (if i \<noteq> [] then [(''ip'', i)] else []) @ (if d \<noteq> [] then [(''device'', d)] else [])
         @ (if i \<noteq> [] \<and> d \<noteq> [] then [(''ip_device'', i @ ''|'' @ d)] else []))"

fun record_contexts :: "('c, 'w) login_env \<Rightarrow> time \<Rightarrow> (string \<times> string) list \<Rightarrow> int \<Rightarrow> (int, 'c, 'w) login_action" where
  "record_contexts env now [] highest w = (Inr highest, w)"
| "record_contexts env now ((scope, v) # rest) highest w =
     then_do (get_context_failure_count env now scope v w) (\<lambda>n w1.
       let n1 = wrap64 (n + 1)
       in then_do (save_context_failure_count env now scope v n1 w1) (\<lambda>_ w2.
          record_contexts env now rest (max highest n1) w2))"

fun highest_context :: "('c, 'w) login_env \<Rightarrow> time \<Rightarrow> (string \<times> string) list \<Rightarrow> int \<Rightarrow> (int, 'c, 'w) login_action" where
  "highest_context env now [] highest w = (Inr highest, w)"
| "highest_context env now ((scope, v) # rest) highest w =
     then_do (get_context_failure_count env now scope v w) (\<lambda>n w1. highest_context env now rest (max highest n) w1)"

definition unlock_instant :: "('c, 'w) login_env \<Rightarrow> time \<Rightarrow> time" where
  "unlock_instant env now = now + wrap64 (lock_duration_hours env * hour)"

definition record_login_failure ::
    "('c, 'w) login_env \<Rightarrow> time \<Rightarrow> string \<Rightarrow> string \<Rightarrow> string \<Rightarrow> (unit, 'c, 'w) login_action" where
  "record_login_failure env now account client_ip device w =
     (if blank account then (Inr (), w)
      else then_do (get_failure_count env now account w) (\<lambda>n w1.
        let n1 = wrap64 (n + 1)
        in then_do (save_failure_count env now account n1 w1) (\<lambda>_ w2.
           then_do (record_contexts env now (context_signals client_ip device) 0 w2) (\<lambda>c w3.
             if lock_threshold env \<le> n1 \<or> context_lock_threshold env \<le> c
             then let unlock = unlock_instant env now
                  in then_do (save_lock_until env now account (unix_milli unlock) (lock_duration_hours env) w3) (\<lambda>_ w4.
                     sync_user_lock_state env now account 1 (Some unlock) w4)
             else (Inr (), w3)))))"

definition failure_count :: "('c, 'w) login_env \<Rightarrow> time \<Rightarrow> string \<Rightarrow> (int, 'c, 'w) login_action" where
  "failure_count env now account w = (if blank account then (Inr 0, w) else get_failure_count env now account w)"

definition risk_failure_count ::
    "('c, 'w) login_env \<Rightarrow> time \<Rightarrow> string \<Rightarrow> string \<Rightarrow> string \<Rightarrow> (int, 'c, 'w) login_action" where
  "risk_failure_count env now account client_ip device w =
     then_do (failure_count env now account w) (\<lambda>a w1.
     then_do (highest_context env now (context_signals client_ip device) 0 w1) (\<lambda>c w2. (Inr (max a c), w2)))"

definition find_login_subject :: "string \<Rightarrow> (user_row option, 'c, 'w) login_action" where
  "find_login_subject account w = (if blank account then (Inr None, w) else subject_of_account (trim_space account) w)"

definition unlock_time_of_subject :: "('c, 'w) login_env \<Rightarrow> time \<Rightarrow> string \<Rightarrow> (int option, 'c, 'w) login_action" where
  "unlock_time_of_subject env now account w =
     then_do (find_login_subject account w) (\<lambda>found w1.
       case found of
         None \<Rightarrow> (Inr None, w1)
       | Some r \<Rightarrow>
           if \<not> subject_locked now r then (Inr None, w1)
           else case us_unseal r of
                  None \<Rightarrow> (Inr None, w1)
                | Some t \<Rightarrow>
                    if unix_milli t \<le> unix_milli now
                    then then_do (clear_failure env now account w1) (\<lambda>_ w2. (Inr None, w2))
                    else (let hours = time_sub t now div hour; ttl = (if hours \<le> 0 then 1 else hours)
                          in (Inr (Some (unix_milli t)), snd (save_lock_until env now account (unix_milli t) ttl w1))))"

definition get_unlock_time :: "('c, 'w) login_env \<Rightarrow> time \<Rightarrow> string \<Rightarrow> (int option, 'c, 'w) login_action" where
  "get_unlock_time env now account w =
     then_do (get_lock_until env now account w) (\<lambda>until w1.
       case until of
         Some t \<Rightarrow> if 0 < t \<and> t \<le> unix_milli now
                   then then_do (clear_failure env now account w1) (\<lambda>_ w2. (Inr None, w2))
                   else (Inr (Some t), w1)
       | None \<Rightarrow> unlock_time_of_subject env now account w1)"

definition is_account_locked :: "('c, 'w) login_env \<Rightarrow> time \<Rightarrow> string \<Rightarrow> (bool, 'c, 'w) login_action" where
  "is_account_locked env now account w =
     then_do (get_unlock_time env now account w) (\<lambda>unlock w1.
       if unlock \<noteq> None then (Inr True, w1)
       else then_do (find_login_subject account w1) (\<lambda>found w2.
            (Inr (case found of None \<Rightarrow> False | Some r \<Rightarrow> subject_locked now r), w2)))"

definition lock_account :: "('c, 'w) login_env \<Rightarrow> time \<Rightarrow> string \<Rightarrow> int \<Rightarrow> (unit, 'c, 'w) login_action" where
  "lock_account env now account hours w =
     (if blank account then (Inr (), w)
      else if hours \<le> 0 then clear_failure env now account w
      else let unlock = now + wrap64 (hours * hour)
           in then_do (save_lock_until env now account (unix_milli unlock) hours w) (\<lambda>_ w1.
              sync_user_lock_state env now account 1 (Some unlock) w1))"

definition record_captcha_failure :: "('c, 'w) login_env \<Rightarrow> time \<Rightarrow> string \<Rightarrow> (unit, 'c, 'w) login_action" where
  "record_captcha_failure env now account w =
     (if blank account then (Inr (), w)
      else then_do (get_captcha_failure_count env now account w) (\<lambda>n w1.
           save_captcha_failure_count env now account (wrap64 (n + 1)) w1))"

definition clear_captcha_failure :: "('c, 'w) login_env \<Rightarrow> string \<Rightarrow> (unit, 'c, 'w) login_action" where
  "clear_captcha_failure env account w =
     (if blank account then (Inr (), w) else delete_many (captcha_failure_keys env account) w)"

end
