(* ===== verification/Login_Challenges.thy ===== *)
theory Login_Challenges
  imports Login_Failures
begin

text \<open>
  What the operations of \<open>app/login/application/service.go\<close> share: the pending login a request works on
  (\<open>prepareInteraction\<close>, \<open>prepareRegisterInteraction\<close>, \<open>attachPlatformContext\<close>), the limits on
  registrations, and the challenges of a login: captcha, mail code, TOTP and passkey.

  The code changes the pending login in place; here a helper returns the changed one. It is lost with an
  error, as no operation goes on with it after one. \<open>u\<close> gives the identifiers drawn from the generator, by the
  place that draws them: a start of a challenge at place \<open>b\<close> uses \<open>b\<close> for its nonce and \<open>b + 1\<close> for those of the
  challenge, a refresh \<open>b + 2\<close>, a response \<open>b + 3\<close>.
\<close>

section \<open>The context of a request\<close>

definition login_failure_context :: "login_source option \<Rightarrow> string \<times> string" where
  "login_failure_context q =
     (case q of None \<Rightarrow> ([], []) | Some c \<Rightarrow> (trim_space (lc_ip c), trim_space (lc_device c)))"

definition to_platform_source :: "login_source option \<Rightarrow> trusted_source" where
  "to_platform_source q =
     (case q of
        None \<Rightarrow> \<lparr>ts_host = [], ts_origin = [], ts_referer = []\<rparr>
      | Some c \<Rightarrow> \<lparr>ts_host = trim_space (lc_host c), ts_origin = trim_space (lc_origin c),
                   ts_referer = trim_space (lc_referer c)\<rparr>)"

definition to_risk_context :: "login_source option \<Rightarrow> risk_context option" where
  "to_risk_context q =
     map_option (\<lambda>c. \<lparr>rc_ip_address = lc_ip c, rc_user_agent = lc_agent c, rc_device_identifier = lc_device c,
                      rc_tenant_identifier = lc_tenant c\<rparr>) q"

section \<open>Failures and locks of an account\<close>

definition get_risk_failure_count ::
    "('c, 'w) login_env \<Rightarrow> time \<Rightarrow> string \<Rightarrow> login_source option \<Rightarrow> (int, 'c, 'w) login_action" where
  "get_risk_failure_count env now account q w =
     (if blank account then (Inr 0, w)
      else case login_failure_context q of (i, d) \<Rightarrow> risk_failure_count env now (trim_space account) i d w)"

text \<open>Whether an account is locked, and until when.\<close>

definition is_locked :: "('c, 'w) login_env \<Rightarrow> time \<Rightarrow> string \<Rightarrow> (bool \<times> int option, 'c, 'w) login_action" where
  "is_locked env now account w =
     (if blank account then (Inr (False, None), w)
      else then_do (is_account_locked env now (trim_space account) w) (\<lambda>locked w1.
        if \<not> locked then (Inr (False, None), w1)
        else then_do (get_unlock_time env now (trim_space account) w1) (\<lambda>unlock w2. (Inr (True, unlock), w2))))"

definition clear_failure_state :: "('c, 'w) login_env \<Rightarrow> time \<Rightarrow> string \<Rightarrow> (unit, 'c, 'w) login_action" where
  "clear_failure_state env now account w =
     (if blank account then (Inr (), w) else clear_failure env now (trim_space account) w)"

definition clear_captcha_failure_state :: "('c, 'w) login_env \<Rightarrow> string \<Rightarrow> (unit, 'c, 'w) login_action" where
  "clear_captcha_failure_state env account w =
     (if blank account then (Inr (), w) else clear_captcha_failure env (trim_space account) w)"

definition note_failure ::
    "('c, 'w) login_env \<Rightarrow> time \<Rightarrow> string \<Rightarrow> login_source option \<Rightarrow> (int \<times> bool \<times> int option, 'c, 'w) login_action" where
  "note_failure env now account q w =
     (if blank account then (Inr (0, False, None), w)
      else case login_failure_context q of (i, d) \<Rightarrow>
        then_do (record_login_failure env now (trim_space account) i d w) (\<lambda>_ w1.
        then_do (risk_failure_count env now (trim_space account) i d w1) (\<lambda>n w2.
        then_do (is_account_locked env now (trim_space account) w2) (\<lambda>locked w3.
          if \<not> locked then (Inr (n, False, None), w3)
          else then_do (get_unlock_time env now (trim_space account) w3) (\<lambda>unlock w4.
               (Inr (n, True, unlock), w4))))))"

definition record_captcha_failure_state :: "('c, 'w) login_env \<Rightarrow> time \<Rightarrow> string \<Rightarrow> (unit, 'c, 'w) login_action" where
  "record_captcha_failure_state env now account w =
     (if blank account then (Inr (), w) else record_captcha_failure env now (trim_space account) w)"

section \<open>The pending login of a request\<close>

definition context_invalid :: go_error where
  "context_invalid = forbidden (utf8 [0x767B, 0x5F55, 0x4E0A, 0x4E0B, 0x6587, 0x65E0, 0x6548, 0xFF0C, 0x8BF7, 0x91CD, 0x65B0, 0x767B, 0x5F55])"

definition ask_platform ::
    "platform_answers \<Rightarrow> string \<Rightarrow> string \<Rightarrow> login_source option \<Rightarrow> context_validation result" where
  "ask_platform p context login q =
     if_ok (pa_validate p context login (to_platform_source q)) (\<lambda>answer.
       case answer of
         None \<Rightarrow> Inl context_invalid
       | Some v \<Rightarrow> if blank (cv_platform v) then Inl context_invalid else Inr v)"

definition attach_context ::
    "platform_answers \<Rightarrow> string \<Rightarrow> interaction \<Rightarrow> login_source option \<Rightarrow> interaction result" where
  "attach_context p context s q =
     (if context = [] \<or> context = trim_space (it_context s) then Inr s
      else if_ok (ask_platform p context (it_login s) q) (\<lambda>v.
           if \<not> blank (it_platform s) \<and> \<not> equal_fold (it_platform s) (cv_platform v)
           then Inl (forbidden (utf8 [0x767B, 0x5F55, 0x4E0A, 0x4E0B, 0x6587, 0x5E73, 0x53F0, 0x4E0D, 0x4E00, 0x81F4]))
           else Inr (s\<lparr>it_context := cv_context v, it_platform := cv_platform v\<rparr>)))"

definition attach_platform ::
    "platform_answers \<Rightarrow> string \<Rightarrow> interaction \<Rightarrow> login_source option \<Rightarrow> interaction result" where
  "attach_platform p context s q =
     (if \<not> blank (it_platform s) then Inr s
      else if context = [] then Inl (forbidden (utf8 [0x767B, 0x5F55, 0x4E0A, 0x4E0B, 0x6587, 0x7F3A, 0x5931, 0xFF0C, 0x8BF7, 0x91CD, 0x65B0, 0x767B, 0x5F55]))
      else if_ok (ask_platform p context (it_login s) q) (\<lambda>v.
           Inr (s\<lparr>it_context := cv_context v, it_platform := cv_platform v\<rparr>)))"

definition attach_platform_context ::
    "('c, 'w) login_env \<Rightarrow> interaction \<Rightarrow> string \<Rightarrow> login_source option \<Rightarrow> string \<Rightarrow> string \<Rightarrow> interaction result" where
  "attach_platform_context env s context_id q method_type provider =
     (case le_platform env of
        None \<Rightarrow> Inr s
      | Some p \<Rightarrow>
          let context = (if blank context_id then trim_space (it_context s) else trim_space context_id)
          in if_ok (attach_context p context s q) (\<lambda>s1.
             if_ok (attach_platform p context s1 q) (\<lambda>s2.
             if blank method_type then Inr s2
             else if_ok (pa_require_method p (it_platform s2) method_type provider) (\<lambda>_. Inr s2))))"

definition new_interaction :: "('c, 'w) login_env \<Rightarrow> time \<Rightarrow> string \<Rightarrow> string \<Rightarrow> string \<Rightarrow> interaction" where
  "new_interaction env now login context account =
     \<lparr>it_login = login, it_context = context, it_platform = [], it_account = account, it_user = 0,
      it_primary_nonce = [], it_primary_challenge = [], it_primary_satisfied = False, it_register_account = [],
      it_register_email = [], it_captcha_nonce = [], it_captcha_challenge = [], it_captcha_satisfied = False,
      it_email_nonce = [], it_email_challenge = [], it_email_satisfied = False, it_nonce = [], it_challenge = [],
      it_created = Some now, it_expires = Some (now + le_ttl env)\<rparr>"

definition login_over :: go_error where
  "login_over = operation_error (utf8 [0x767B, 0x5F55, 0x4E8B, 0x52A1, 0x5DF2, 0x5B8C, 0x6210, 0x6216, 0x5DF2, 0x5931, 0x6548])"

text \<open>The stored login, or a new one unless the login is over.\<close>

definition load_interaction ::
    "('c, 'w) login_env \<Rightarrow> time \<Rightarrow> string \<Rightarrow> interaction \<Rightarrow> (interaction \<times> bool, 'c, 'w) login_action" where
  "load_interaction env now login fresh w =
     then_do (get_interaction env now login w) (\<lambda>found w1.
       case found of
         Some s \<Rightarrow> (Inr (s, True), w1)
       | None \<Rightarrow> then_do (is_completed env now login w1) (\<lambda>completed w2.
                 if completed then (Inl login_over, w2)
                 else (Inr (fresh, False), w2)))"

definition bind_account :: "string \<Rightarrow> interaction \<times> bool \<Rightarrow> interaction result" where
  "bind_account account = (\<lambda>(s, stored).
     let existing = trim_space (it_account s)
     in if \<not> stored then Inr s
        else if existing \<noteq> [] \<and> existing \<noteq> account then Inl (operation_error (utf8 [0x767B, 0x5F55, 0x4E8B, 0x52A1, 0x5DF2, 0x7ED1, 0x5B9A, 0x5176, 0x4ED6, 0x8D26, 0x53F7]))
        else Inr (s\<lparr>it_account := account\<rparr>))"

definition prepare_interaction ::
    "('c, 'w) login_env \<Rightarrow> time \<Rightarrow> string \<Rightarrow> string \<Rightarrow> string \<Rightarrow> login_source option \<Rightarrow> string \<Rightarrow> string \<Rightarrow>
     (string \<times> interaction, 'c, 'w) login_action" where
  "prepare_interaction env now login_id context_id user_account q method_type provider w =
     (let login = trim_space login_id; context = trim_space context_id; account = trim_space user_account
      in if login = [] \<or> account = []
         then (Inl (params_error ((utf8 [0x7F3A, 0x5C11]) @ '' loginTransactionId '' @ (utf8 [0x6216]) @ '' userAccount'')), w)
         else then_do (load_interaction env now login (new_interaction env now login context account) w) (\<lambda>loaded w1.
              (if_ok (bind_account account loaded) (\<lambda>s.
               if_ok (attach_platform_context env s context q method_type provider) (\<lambda>s1. Inr (account, s1))), w1)))"

definition forget_registration :: "interaction \<Rightarrow> interaction" where
  "forget_registration s =
     s\<lparr>it_captcha_challenge := [], it_captcha_nonce := [], it_captcha_satisfied := False, it_register_email := [],
       it_email_challenge := [], it_email_nonce := [], it_email_satisfied := False\<rparr>"

definition bind_register_account :: "string \<Rightarrow> interaction \<Rightarrow> interaction" where
  "bind_register_account account s =
     (let existing = trim_space (it_register_account s)
      in (if existing \<noteq> [] \<and> existing \<noteq> account then forget_registration s else s)\<lparr>it_register_account := account\<rparr>)"

definition prepare_register_interaction ::
    "('c, 'w) login_env \<Rightarrow> time \<Rightarrow> string \<Rightarrow> string \<Rightarrow> string \<Rightarrow> login_source option \<Rightarrow>
     (string \<times> interaction, 'c, 'w) login_action" where
  "prepare_register_interaction env now login_id context_id user_account q w =
     (let login = trim_space login_id; context = trim_space context_id; account = trim_space user_account
      in if login = [] \<or> context = [] \<or> account = []
         then (Inl (params_error ((utf8 [0x7F3A, 0x5C11]) @ '' loginTransactionId'' @ (utf8 [0x3001]) @ ''loginContextId '' @ (utf8 [0x6216]) @ '' userAccount'')), w)
         else then_do (load_interaction env now login (new_interaction env now login context []) w) (\<lambda>(s, _) w1.
              (if_ok (attach_platform_context env (bind_register_account account s) context q [] []) (\<lambda>s1.
               Inr (account, s1)), w1)))"

definition require_form_registration_policy ::
    "('c, 'w) login_env \<Rightarrow> interaction \<Rightarrow> login_source option \<Rightarrow> (registration_policy \<times> interaction) result" where
  "require_form_registration_policy env s q =
     (case le_platform env of
        None \<Rightarrow> Inl (forbidden (utf8 [0x5F53, 0x524D, 0x5E73, 0x53F0, 0x4E0D, 0x5141, 0x8BB8, 0x6CE8, 0x518C]))
      | Some p \<Rightarrow>
          if_ok (ask_platform p (it_context s) (it_login s) q) (\<lambda>v.
          if_ok (pa_registration p (cv_platform v)) (\<lambda>answer.
            case answer of
              None \<Rightarrow> Inl (forbidden (utf8 [0x5F53, 0x524D, 0x5E73, 0x53F0, 0x672A, 0x5F00, 0x653E, 0x6CE8, 0x518C]))
            | Some policy \<Rightarrow>
                if gp_allow_form policy
                then Inr (policy, s\<lparr>it_context := cv_context v, it_platform := cv_platform v\<rparr>)
                else Inl (forbidden (utf8 [0x5F53, 0x524D, 0x5E73, 0x53F0, 0x672A, 0x5F00, 0x653E, 0x6CE8, 0x518C])))))"

section \<open>Limits on registrations\<close>

definition request_ip :: "login_source option \<Rightarrow> string" where
  "request_ip q = (case q of None \<Rightarrow> ''unknown'' | Some c \<Rightarrow> trim_space (lc_ip c))"

definition digest_rate_limit :: "('c, 'w) login_env \<Rightarrow> string \<Rightarrow> string" where
  "digest_rate_limit env v = le_sha256 env (if blank v then ''anonymous'' else trim_space v)"

definition register_limits ::
    "('c, 'w) login_env \<Rightarrow> string \<Rightarrow> string \<Rightarrow> string \<Rightarrow> string \<Rightarrow> login_source option \<Rightarrow> (string \<times> int \<times> int) list" where
  "register_limits env prefix platform account email q =
     (let d = digest_rate_limit env
      in [(prefix @ ''ip:'' @ d (request_ip q), 10, hour),
          (prefix @ ''platform-ip:'' @ to_lower (trim_space platform) @ '':'' @ d (request_ip q), 5, 10 * minute),
          (prefix @ ''account:'' @ d account, 3, hour),
          (prefix @ ''email:'' @ d (to_lower (trim_space email)), 3, hour)]
         @ (case q of
              None \<Rightarrow> []
            | Some c \<Rightarrow> if blank (lc_device c) then [] else [(prefix @ ''device:'' @ d (lc_device c), 5, hour)]))"

definition too_frequent :: "string \<Rightarrow> int \<Rightarrow> go_error" where
  "too_frequent message retry_after =
     with_details (rate_limited message) (AMap [(''retryAfterSeconds'', AInt (whole_seconds retry_after))])"

definition registration_busy :: go_error where
  "registration_busy = rate_limited (utf8 [0x6CE8, 0x518C, 0x670D, 0x52A1, 0x7E41, 0x5FD9, 0xFF0C, 0x8BF7, 0x7A0D, 0x540E, 0x518D, 0x8BD5])"

fun within_limits :: "(string \<Rightarrow> int \<Rightarrow> int \<Rightarrow> limiter_answer) \<Rightarrow> string \<Rightarrow> (string \<times> int \<times> int) list \<Rightarrow> unit result" where
  "within_limits limiter message [] = Inr ()"
| "within_limits limiter message ((k, limit, window) # rest) =
     (let d = limiter k limit window
      in if la_error d \<noteq> None \<and> \<not> la_limited d \<and> la_allowed d then Inl registration_busy
         else if la_error d \<noteq> None \<or> \<not> la_allowed d then Inl (too_frequent message (la_retry_after d))
         else within_limits limiter message rest)"

definition enforce_register_limits ::
    "('c, 'w) login_env \<Rightarrow> string \<Rightarrow> string \<Rightarrow> string \<Rightarrow> string \<Rightarrow> string \<Rightarrow> login_source option \<Rightarrow> unit result" where
  "enforce_register_limits env message prefix platform account email q =
     (case le_limiter env of
        None \<Rightarrow> Inl registration_busy
      | Some limiter \<Rightarrow> within_limits limiter message (register_limits env prefix platform account email q))"

definition enforce_register_rate_limit ::
    "('c, 'w) login_env \<Rightarrow> string \<Rightarrow> string \<Rightarrow> string \<Rightarrow> login_source option \<Rightarrow> unit result" where
  "enforce_register_rate_limit env =
     enforce_register_limits env (utf8 [0x6CE8, 0x518C, 0x8BF7, 0x6C42, 0x8FC7, 0x4E8E, 0x9891, 0x7E41, 0xFF0C, 0x8BF7, 0x7A0D, 0x540E, 0x518D, 0x8BD5]) ''login:register:''"

definition enforce_register_email_code_rate_limit ::
    "('c, 'w) login_env \<Rightarrow> string \<Rightarrow> string \<Rightarrow> string \<Rightarrow> login_source option \<Rightarrow> unit result" where
  "enforce_register_email_code_rate_limit env =
     enforce_register_limits env (utf8 [0x9A8C, 0x8BC1, 0x7801, 0x53D1, 0x9001, 0x8FC7, 0x4E8E, 0x9891, 0x7E41, 0xFF0C, 0x8BF7, 0x7A0D, 0x540E, 0x518D, 0x8BD5]) ''login:register-email:''"

definition normalize_register_email :: "('c, 'w) login_env \<Rightarrow> string \<Rightarrow> string result" where
  "normalize_register_email env v =
     (let normalized = to_lower (trim_space v)
      in if normalized = [] then Inl (params_error (utf8 [0x8BF7, 0x8F93, 0x5165, 0x90AE, 0x7BB1]))
         else case le_parse_address env normalized of
                None \<Rightarrow> Inl (params_error (utf8 [0x8BF7, 0x8F93, 0x5165, 0x6709, 0x6548, 0x90AE, 0x7BB1]))
              | Some a \<Rightarrow> if trim_space a \<noteq> normalized then Inl (params_error (utf8 [0x8BF7, 0x8F93, 0x5165, 0x6709, 0x6548, 0x90AE, 0x7BB1])) else Inr normalized)"

end
