(* ===== verification/Login_Steps.thy ===== *)
theory Login_Steps
  imports Login_Challenges
begin

text \<open>
  The challenges of a login (\<open>app/login/application/service.go\<close>, lines 957 to 1296): the captcha before a
  password, the captcha and the mail code of a registration, the TOTP code and the passkey. Each is started at
  the challenge service or found again under the identifier the pending login keeps.
\<close>

type_synonym ids = "nat \<Rightarrow> nat \<Rightarrow> string"

definition find_view :: "start_response \<Rightarrow> string \<Rightarrow> step_view option" where
  "find_view r type = find (\<lambda>v. sv_type v = type) (st_steps r)"

definition find_step_identifier :: "start_response \<Rightarrow> string \<Rightarrow> string" where
  "find_step_identifier r type = (case find_view r type of None \<Rightarrow> [] | Some v \<Rightarrow> sv_identifier v)"

definition hint_text :: "step_view \<Rightarrow> string \<Rightarrow> string" where
  "hint_text v key = trim_space (string_value (any_get (sv_hints v) key))"

record captcha =
  ca_challenge :: string
  ca_step :: string
  ca_image :: string

definition captcha_of :: "start_response \<Rightarrow> captcha result" where
  "captcha_of r =
     (case find_view r ''IMAGE_CAPTCHA'' of
        None \<Rightarrow> Inl (operation_error (utf8 [0x56FE, 0x5F62, 0x9A8C, 0x8BC1, 0x7801, 0x6B65, 0x9AA4, 0x4E0D, 0x53EF, 0x7528]))
      | Some v \<Rightarrow> Inr \<lparr>ca_challenge = st_challenge_identifier r, ca_step = sv_identifier v,
                       ca_image = hint_text v ''codeImage''\<rparr>)"

definition login_start_request ::
    "string \<Rightarrow> string \<Rightarrow> string \<Rightarrow> string \<Rightarrow> int \<Rightarrow> string \<Rightarrow> login_source option \<Rightarrow> string \<Rightarrow>
     (string \<times> anyv) list option \<Rightarrow> start_request" where
  "login_start_request action hint_type subject nonce ttl idempotency q type extension =
     \<lparr>sr_issuing_service_name = ''login-app'', sr_audience_service_names = [''login-app''],
      sr_business_action = action, sr_subject_hint = Some \<lparr>subject_type = hint_type, subject_value = subject\<rparr>,
      sr_subject_identifier = subject, sr_flow_nonce = nonce, sr_requested_ttl_seconds = whole_seconds ttl,
      sr_idempotency_key = idempotency, sr_risk_context = to_risk_context q, sr_required_assurance_level = [],
      sr_minimum_assurance_level = [], sr_expected_challenge_types = [type], sr_allow_downgrade = None,
      sr_policy_identifier = [], sr_extension_context = extension\<rparr>"

definition start_at ::
    "('c, 'w) login_env \<Rightarrow> time \<Rightarrow> ids \<Rightarrow> nat \<Rightarrow> start_request \<Rightarrow> (start_response, 'c, 'w) login_action" where
  "start_at env now u b request = on_challenge (start_challenge (le_challenge env) (u (b + 1)) now request)"

definition get_at :: "time \<Rightarrow> string \<Rightarrow> (start_response, 'c, 'w) login_action" where
  "get_at now ident = on_challenge (get_challenge now ident)"

definition refresh_at ::
    "('c, 'w) login_env \<Rightarrow> time \<Rightarrow> ids \<Rightarrow> nat \<Rightarrow> string \<Rightarrow> string \<Rightarrow> (start_response, 'c, 'w) login_action" where
  "refresh_at env now u b ident step = on_challenge (refresh_challenge (le_challenge env) now (u (b + 2) 0) ident step)"

definition respond_at ::
    "('c, 'w) login_env \<Rightarrow> time \<Rightarrow> ids \<Rightarrow> nat \<Rightarrow> string \<Rightarrow> string \<Rightarrow> anymap \<Rightarrow> (respond_response, 'c, 'w) login_action" where
  "respond_at env now u b ident step payload =
     on_challenge (respond (le_challenge env) now (u (b + 3) 0) (u (b + 3) 1) ident step payload)"

definition operation_binding :: "interaction \<Rightarrow> string \<times> anyv" where
  "operation_binding s = (''operationBinding'', AStr (''register:'' @ it_login s))"

definition passed :: "respond_response \<Rightarrow> bool" where
  "passed r \<longleftrightarrow> trim_space (rr_state r) = ''PASSED''"

text \<open>The nonce the pending login keeps, or one drawn now.\<close>

definition nonce_or :: "ids \<Rightarrow> nat \<Rightarrow> string \<Rightarrow> string" where
  "nonce_or u b nonce = (if blank nonce then u b 0 else nonce)"

section \<open>The captcha before a password\<close>

definition start_or_reuse_primary ::
    "('c, 'w) login_env \<Rightarrow> time \<Rightarrow> ids \<Rightarrow> nat \<Rightarrow> interaction \<Rightarrow> string \<Rightarrow> login_source option \<Rightarrow>
     (start_response \<times> interaction, 'c, 'w) login_action" where
  "start_or_reuse_primary env now u b s account q w =
     (if \<not> blank (it_primary_challenge s)
      then then_do (get_at now (it_primary_challenge s) w) (\<lambda>r w1. (Inr (r, s), w1))
      else let s1 = s\<lparr>it_primary_nonce := nonce_or u b (it_primary_nonce s)\<rparr>
           in then_do (start_at env now u b
                (login_start_request ''LOGIN'' ''ANONYMOUS'' (''login:'' @ account) (it_primary_nonce s1) (le_ttl env)
                   (''LOGIN_PRIMARY|'' @ it_login s1 @ ''|'' @ it_primary_nonce s1) q ''IMAGE_CAPTCHA''
                   (Some [operation_binding s1])) w)
                (\<lambda>r w1. (Inr (r, s1\<lparr>it_primary_challenge := st_challenge_identifier r\<rparr>), w1)))"

definition resolve_primary_captcha ::
    "('c, 'w) login_env \<Rightarrow> time \<Rightarrow> ids \<Rightarrow> nat \<Rightarrow> interaction \<Rightarrow> string \<Rightarrow> login_source option \<Rightarrow>
     (captcha \<times> interaction, 'c, 'w) login_action" where
  "resolve_primary_captcha env now u b s account q w =
     then_do (start_or_reuse_primary env now u b s account q w) (\<lambda>(r, s1) w1.
       (if_ok (captcha_of r) (\<lambda>c. Inr (c, s1)), w1))"

text \<open>A refresh of the kept challenge, or nothing when it cannot be read or refreshed.\<close>

definition try_refresh ::
    "('c, 'w) login_env \<Rightarrow> time \<Rightarrow> ids \<Rightarrow> nat \<Rightarrow> string \<Rightarrow> ('c, 'w) login_world \<Rightarrow>
     start_response option \<times> ('c, 'w) login_world" where
  "try_refresh env now u b ident w =
     (case get_at now ident w of
        (Inl _, w1) \<Rightarrow> (None, w1)
      | (Inr r, w1) \<Rightarrow>
          let step = find_step_identifier r ''IMAGE_CAPTCHA''
          in if step = [] then (None, w1)
             else (case refresh_at env now u b ident step w1 of
                     (Inl _, w2) \<Rightarrow> (None, w2)
                   | (Inr r2, w2) \<Rightarrow> (Some r2, w2)))"

definition refresh_or_start_primary ::
    "('c, 'w) login_env \<Rightarrow> time \<Rightarrow> ids \<Rightarrow> nat \<Rightarrow> interaction \<Rightarrow> string \<Rightarrow> login_source option \<Rightarrow>
     (start_response \<times> interaction, 'c, 'w) login_action" where
  "refresh_or_start_primary env now u b s account q w =
     (if blank (it_primary_challenge s) then start_or_reuse_primary env now u b s account q w
      else case try_refresh env now u b (it_primary_challenge s) w of
             (Some r, w1) \<Rightarrow> (Inr (r, s\<lparr>it_primary_satisfied := False\<rparr>), w1)
           | (None, w1) \<Rightarrow> start_or_reuse_primary env now u b
                             (s\<lparr>it_primary_challenge := [], it_primary_satisfied := False\<rparr>) account q w1)"

definition refresh_primary_captcha ::
    "('c, 'w) login_env \<Rightarrow> time \<Rightarrow> ids \<Rightarrow> nat \<Rightarrow> interaction \<Rightarrow> string \<Rightarrow> login_source option \<Rightarrow>
     (captcha \<times> interaction, 'c, 'w) login_action" where
  "refresh_primary_captcha env now u b s account q w =
     then_do (refresh_or_start_primary env now u b s account q w) (\<lambda>(r, s1) w1.
       (if_ok (captcha_of r) (\<lambda>c. Inr (c, s1)), w1))"

text \<open>
  The answer to the captcha: \<open>None\<close> when it is right, else the captcha to show next. A first start is at
  place \<open>b\<close>, one after a wrong answer at \<open>b + 10\<close>.
\<close>

definition verify_primary_captcha ::
    "('c, 'w) login_env \<Rightarrow> time \<Rightarrow> ids \<Rightarrow> nat \<Rightarrow> interaction \<Rightarrow> string \<Rightarrow> string \<Rightarrow> login_source option \<Rightarrow>
     (captcha option \<times> interaction, 'c, 'w) login_action" where
  "verify_primary_captcha env now u b s account code q w =
     then_do (start_or_reuse_primary env now u b s account q w) (\<lambda>(r, s1) w1.
       let step = find_step_identifier r ''IMAGE_CAPTCHA''
       in if step = [] then (Inl (operation_error (utf8 [0x56FE, 0x5F62, 0x9A8C, 0x8BC1, 0x7801, 0x6B65, 0x9AA4, 0x4E0D, 0x53EF, 0x7528])), w1)
          else then_do (respond_at env now u b (st_challenge_identifier r) step
                          [''captchaCode'' \<mapsto> AStr (trim_space code)] w1) (\<lambda>a w2.
               if passed a
               then then_do (clear_captcha_failure_state env account w2) (\<lambda>_ w3.
                    (Inr (None, s1\<lparr>it_primary_satisfied := True\<rparr>), w3))
               else then_do (record_captcha_failure_state env now account w2) (\<lambda>_ w3.
                    then_do (refresh_primary_captcha env now u (b + 10) (s1\<lparr>it_primary_satisfied := False\<rparr>) account q w3)
                      (\<lambda>(c, s2) w4. (Inr (Some c, s2), w4)))))"

section \<open>The captcha of a registration\<close>

definition start_or_reuse_register_captcha ::
    "('c, 'w) login_env \<Rightarrow> time \<Rightarrow> ids \<Rightarrow> nat \<Rightarrow> interaction \<Rightarrow> string \<Rightarrow> login_source option \<Rightarrow>
     (start_response \<times> interaction, 'c, 'w) login_action" where
  "start_or_reuse_register_captcha env now u b s account q w =
     (if \<not> blank (it_captcha_challenge s)
      then then_do (get_at now (it_captcha_challenge s) w) (\<lambda>r w1. (Inr (r, s), w1))
      else let s1 = s\<lparr>it_captcha_nonce := nonce_or u b (it_captcha_nonce s)\<rparr>
           in then_do (start_at env now u b
                (login_start_request ''REGISTER_ACCOUNT'' ''ANONYMOUS'' (''register:'' @ account) (it_captcha_nonce s1)
                   (le_ttl env) (''REGISTER_FORM_CAPTCHA|'' @ it_login s1 @ ''|'' @ it_captcha_nonce s1) q
                   ''IMAGE_CAPTCHA'' (Some [operation_binding s1])) w)
                (\<lambda>r w1. (Inr (r, s1\<lparr>it_captcha_challenge := st_challenge_identifier r\<rparr>), w1)))"

definition refresh_or_start_register_captcha ::
    "('c, 'w) login_env \<Rightarrow> time \<Rightarrow> ids \<Rightarrow> nat \<Rightarrow> interaction \<Rightarrow> string \<Rightarrow> login_source option \<Rightarrow>
     (start_response \<times> interaction, 'c, 'w) login_action" where
  "refresh_or_start_register_captcha env now u b s account q w =
     (if blank (it_captcha_challenge s) then start_or_reuse_register_captcha env now u b s account q w
      else case try_refresh env now u b (it_captcha_challenge s) w of
             (Some r, w1) \<Rightarrow> (Inr (r, s\<lparr>it_captcha_satisfied := False\<rparr>), w1)
           | (None, w1) \<Rightarrow> start_or_reuse_register_captcha env now u b
                             (s\<lparr>it_captcha_challenge := [], it_captcha_satisfied := False\<rparr>) account q w1)"

definition resolve_register_captcha ::
    "('c, 'w) login_env \<Rightarrow> time \<Rightarrow> ids \<Rightarrow> nat \<Rightarrow> interaction \<Rightarrow> string \<Rightarrow> login_source option \<Rightarrow>
     (captcha \<times> interaction, 'c, 'w) login_action" where
  "resolve_register_captcha env now u b s account q w =
     then_do (refresh_or_start_register_captcha env now u b s account q w) (\<lambda>(r, s1) w1.
       (if_ok (captcha_of r) (\<lambda>c. Inr (c, s1)), w1))"

definition verify_register_captcha ::
    "('c, 'w) login_env \<Rightarrow> time \<Rightarrow> ids \<Rightarrow> nat \<Rightarrow> interaction \<Rightarrow> string \<Rightarrow> string \<Rightarrow> login_source option \<Rightarrow>
     (captcha option \<times> interaction, 'c, 'w) login_action" where
  "verify_register_captcha env now u b s account code q w =
     then_do (start_or_reuse_register_captcha env now u b s account q w) (\<lambda>(r, s1) w1.
       let step = find_step_identifier r ''IMAGE_CAPTCHA''
       in if step = [] then (Inl (operation_error (utf8 [0x56FE, 0x5F62, 0x9A8C, 0x8BC1, 0x7801, 0x6B65, 0x9AA4, 0x4E0D, 0x53EF, 0x7528])), w1)
          else then_do (respond_at env now u b (st_challenge_identifier r) step
                          [''captchaCode'' \<mapsto> AStr (trim_space code)] w1) (\<lambda>a w2.
               if passed a then (Inr (None, s1\<lparr>it_captcha_satisfied := True\<rparr>), w2)
               else then_do (resolve_register_captcha env now u (b + 10) (s1\<lparr>it_captcha_satisfied := False\<rparr>) account q w2)
                      (\<lambda>(c, s2) w3. (Inr (Some c, s2), w3))))"

section \<open>The mail code of a registration\<close>

definition register_email_ttl :: int where "register_email_ttl = 5 * minute"

definition renew_email_flow :: "ids \<Rightarrow> nat \<Rightarrow> string \<Rightarrow> interaction \<Rightarrow> interaction" where
  "renew_email_flow u b email s =
     (if blank (it_email_nonce s) \<or> trim_space (it_register_email s) \<noteq> email
      then s\<lparr>it_email_nonce := u b 0, it_email_challenge := [], it_email_satisfied := False\<rparr> else s)"

definition start_register_email ::
    "('c, 'w) login_env \<Rightarrow> time \<Rightarrow> ids \<Rightarrow> nat \<Rightarrow> interaction \<Rightarrow> string \<Rightarrow> string \<Rightarrow> login_source option \<Rightarrow>
     (start_response \<times> interaction, 'c, 'w) login_action" where
  "start_register_email env now u b s account email q w =
     then_do (start_at env now u b
       (login_start_request ''REGISTER_ACCOUNT'' ''ANONYMOUS'' (''register:'' @ account) (it_email_nonce s)
          register_email_ttl (''REGISTER_FORM_EMAIL|'' @ it_login s @ ''|'' @ it_email_nonce s) q
          ''EMAIL_ONE_TIME_PASSWORD'' (Some [operation_binding s, (''targetEmail'', AStr email)])) w)
       (\<lambda>r w1. (Inr (r, s\<lparr>it_email_challenge := st_challenge_identifier r\<rparr>), w1))"

definition start_or_refresh_register_email ::
    "('c, 'w) login_env \<Rightarrow> time \<Rightarrow> ids \<Rightarrow> nat \<Rightarrow> interaction \<Rightarrow> string \<Rightarrow> string \<Rightarrow> login_source option \<Rightarrow>
     (start_response \<times> interaction, 'c, 'w) login_action" where
  "start_or_refresh_register_email env now u b s account email q w =
     (let s1 = renew_email_flow u b email s
      in if blank (it_email_challenge s1) then start_register_email env now u b s1 account email q w
         else case get_at now (it_email_challenge s1) w of
                (Inl _, w1) \<Rightarrow> start_register_email env now u b (s1\<lparr>it_email_challenge := []\<rparr>) account email q w1
              | (Inr r, w1) \<Rightarrow>
                  let step = find_step_identifier r ''EMAIL_ONE_TIME_PASSWORD''
                  in if step = [] then start_register_email env now u b (s1\<lparr>it_email_challenge := []\<rparr>) account email q w1
                     else then_do (refresh_at env now u b (it_email_challenge s1) step w1) (\<lambda>r2 w2. (Inr (r2, s1), w2)))"

text \<open>The pattern of one-time passwords: six decimal digits.\<close>

definition otp_pattern :: "string \<Rightarrow> bool" where
  "otp_pattern v \<longleftrightarrow> length v = 6 \<and> list_all is_digit v"

definition verify_register_email_code ::
    "('c, 'w) login_env \<Rightarrow> time \<Rightarrow> ids \<Rightarrow> nat \<Rightarrow> interaction \<Rightarrow> string \<Rightarrow> string \<Rightarrow>
     (bool \<times> interaction, 'c, 'w) login_action" where
  "verify_register_email_code env now u b s email code w =
     (let ident = trim_space (it_email_challenge s)
      in if \<not> otp_pattern (trim_space code) then (Inr (False, s), w)
         else if ident = [] \<or> trim_space (it_register_email s) \<noteq> email then (Inr (False, s), w)
         else then_do (get_at now ident w) (\<lambda>r w1.
              let step = find_step_identifier r ''EMAIL_ONE_TIME_PASSWORD''
              in if step = [] then (Inl (operation_error (utf8 [0x90AE, 0x7BB1, 0x9A8C, 0x8BC1, 0x7801, 0x6B65, 0x9AA4, 0x4E0D, 0x53EF, 0x7528])), w1)
                 else then_do (respond_at env now u b ident step [''emailCode'' \<mapsto> AStr (trim_space code)] w1) (\<lambda>a w2.
                      (Inr (passed a, s\<lparr>it_email_satisfied := passed a\<rparr>), w2))))"

section \<open>The second factor and the passkey\<close>

definition user_subject :: "interaction \<Rightarrow> string" where
  "user_subject s = ''user:'' @ show_int (it_user s)"

definition start_user_challenge ::
    "('c, 'w) login_env \<Rightarrow> time \<Rightarrow> ids \<Rightarrow> nat \<Rightarrow> string \<Rightarrow> string \<Rightarrow> interaction \<Rightarrow> login_source option \<Rightarrow>
     (start_response \<times> interaction, 'c, 'w) login_action" where
  "start_user_challenge env now u b flow type s q w =
     (let s1 = s\<lparr>it_challenge := [], it_nonce := nonce_or u b (it_nonce s)\<rparr>
      in then_do (start_at env now u b
           (login_start_request ''LOGIN'' ''USER'' (user_subject s1) (it_nonce s1) (le_ttl env)
              (flow @ ''|'' @ it_login s1 @ ''|'' @ it_nonce s1) q type None) w)
           (\<lambda>r w1. let s2 = s1\<lparr>it_challenge := st_challenge_identifier r\<rparr>
                   in then_do (save_interaction env now s2 w1) (\<lambda>_ w2. (Inr (r, s2), w2))))"

definition start_or_reuse_user_challenge ::
    "('c, 'w) login_env \<Rightarrow> time \<Rightarrow> ids \<Rightarrow> nat \<Rightarrow> string \<Rightarrow> string \<Rightarrow> interaction \<Rightarrow> login_source option \<Rightarrow>
     (start_response \<times> interaction, 'c, 'w) login_action" where
  "start_or_reuse_user_challenge env now u b flow type s q w =
     (if blank (it_challenge s) then start_user_challenge env now u b flow type s q w
      else case get_at now (it_challenge s) w of
             (Inr r, w1) \<Rightarrow> if find_view r type \<noteq> None then (Inr (r, s), w1)
                           else start_user_challenge env now u b flow type s q w1
           | (Inl _, w1) \<Rightarrow> start_user_challenge env now u b flow type s q w1)"

definition start_or_reuse_totp ::
    "('c, 'w) login_env \<Rightarrow> time \<Rightarrow> ids \<Rightarrow> nat \<Rightarrow> interaction \<Rightarrow> login_source option \<Rightarrow>
     (start_response \<times> interaction, 'c, 'w) login_action" where
  "start_or_reuse_totp env now u b = start_or_reuse_user_challenge env now u b ''LOGIN_TOTP'' ''TIME_BASED_ONE_TIME_PASSWORD''"

definition start_or_reuse_passkey ::
    "('c, 'w) login_env \<Rightarrow> time \<Rightarrow> ids \<Rightarrow> nat \<Rightarrow> interaction \<Rightarrow> login_source option \<Rightarrow>
     (start_response \<times> interaction, 'c, 'w) login_action" where
  "start_or_reuse_passkey env now u b = start_or_reuse_user_challenge env now u b ''LOGIN_PASSKEY'' ''WEBAUTHN_PASSKEY_ASSERTION''"

definition check_login_proof ::
    "('c, 'w) login_env \<Rightarrow> time \<Rightarrow> interaction \<Rightarrow> string \<Rightarrow> (proof_claims, 'c, 'w) login_action" where
  "check_login_proof env now s token =
     on_challenge (verify_proof_token (le_jwt env) now
       \<lparr>vr_proof_token = token, vr_audience = ''login-app'', vr_business_action = ''LOGIN'',
        vr_flow_nonce = it_nonce s, vr_subject = user_subject s, vr_operation_binding = [], vr_consume_once = True\<rparr>)"

definition challenge_punishment :: "respond_response option \<Rightarrow> bool" where
  "challenge_punishment a =
     (case a of None \<Rightarrow> False
      | Some r \<Rightarrow> trim_space (rr_failure_reason r) \<in> set [''STEP_LOCKED'', ''CHALLENGE_THROTTLED''])"

definition challenge_lock_expires_at :: "time \<Rightarrow> respond_response option \<Rightarrow> int option" where
  "challenge_lock_expires_at now a =
     (case a of None \<Rightarrow> None
      | Some r \<Rightarrow> if rr_cooldown r \<le> 0 then None else Some (unix_milli (now + wrap64 (rr_cooldown r * second))))"

definition passkey_failure :: "respond_response \<Rightarrow> bool" where
  "passkey_failure r \<longleftrightarrow> \<not> passed r \<or> trim_space (rr_failure_reason r) \<in>
     set [''STEP_VERIFY_FAILED'', ''STEP_LOCKED'', ''CHALLENGE_THROTTLED'']"

end
