(* ===== verification/Login_Service.thy ===== *)
theory Login_Service
  imports Login_Steps Sso_Login Sso_Refresh
begin

text \<open>
  The operations of the login component (\<open>app/login/application/service.go\<close>): the state of a password login,
  its submission, the second factor, the passkey, and the registration by form, with the completion of a login
  at the session component (\<open>completeLogin\<close>). A submission of a password holds the lock of its login.
\<close>

section \<open>Completion\<close>

record login_success =
  ls_redirect :: "code_redirect option"
  ls_access :: string
  ls_type :: string
  ls_ttl :: int
  ls_session_cookie :: string
  ls_refresh_cookie :: string

definition bare_success :: login_success where
  "bare_success =
     \<lparr>ls_redirect = None, ls_access = [], ls_type = [], ls_ttl = 0, ls_session_cookie = [], ls_refresh_cookie = []\<rparr>"

definition choose_acr :: "string list \<Rightarrow> string" where
  "choose_acr amr = (if 1 < length amr \<or> ''otp'' \<in> set amr \<or> ''hwk'' \<in> set amr then ''LEVEL_2'' else ''LEVEL_1'')"

definition sso_env_of :: "('c, 'w) login_env \<Rightarrow> 'w sso_env" where
  "sso_env_of env = ae_sso (le_accounts env)"

definition complete_with_session ::
    "('c, 'w) login_env \<Rightarrow> time \<Rightarrow> interaction \<Rightarrow> string list \<Rightarrow> (login_success, 'c, 'w) login_action" where
  "complete_with_session env now s amr w =
     then_do (on_accounts (on_sso (\<lambda>_. complete_interactive_authentication (sso_env_of env) now
        \<lparr>cc_login = it_login s, cc_user = it_user s, cc_platform = it_platform s, cc_acr = choose_acr amr,
         cc_amr = amr, cc_login_method = [], cc_provider = [], cc_identity = 0, cc_auth_time = Some now\<rparr>)) w)
       (\<lambda>r w1. (Inr (bare_success\<lparr>ls_redirect := Some (cp_redirect r), ls_session_cookie := cp_session_cookie r\<rparr>), w1))"

definition complete_with_bootstrap ::
    "('c, 'w) login_env \<Rightarrow> time \<Rightarrow> interaction \<Rightarrow> login_source option \<Rightarrow> string list \<Rightarrow> (login_success, 'c, 'w) login_action" where
  "complete_with_bootstrap env now s q amr w =
     (if \<not> le_has_bootstrap env then (Inr bare_success, w)
      else let part = (\<lambda>f. case q of None \<Rightarrow> [] | Some c \<Rightarrow> trim_space (f c))
           in then_do (on_accounts (on_sso (\<lambda>_. bootstrap_first_party_session (sso_env_of env) now
                \<lparr>bc_client = [], bc_user = it_user s, bc_platform = it_platform s, bc_login_method = [],
                 bc_provider = [], bc_identity = 0, bc_acr = choose_acr amr, bc_amr = amr,
                 bc_device = part lc_device, bc_ip = part lc_ip, bc_agent = part lc_agent\<rparr>)) w)
                (\<lambda>r w1. (Inr (bare_success\<lparr>ls_access := br_access r, ls_type := br_type r, ls_ttl := br_ttl r,
                   ls_session_cookie := br_session_cookie r, ls_refresh_cookie := br_refresh_cookie r\<rparr>), w1)))"

definition complete_login ::
    "('c, 'w) login_env \<Rightarrow> time \<Rightarrow> interaction \<Rightarrow> login_source option \<Rightarrow> string list \<Rightarrow> (login_success, 'c, 'w) login_action" where
  "complete_login env now s q amr w =
     (if \<not> le_has_authorization env then complete_with_bootstrap env now s q amr w
      else then_do (on_accounts (on_sso (\<lambda>_. get_authorization_session now (it_login s))) w) (\<lambda>found w1.
           if found \<noteq> None then complete_with_session env now s amr w1
           else complete_with_bootstrap env now s q amr w1))"

text \<open>The completed login: the session, then the mark that the login is over; a failed removal is ignored.\<close>

definition finish_login ::
    "('c, 'w) login_env \<Rightarrow> time \<Rightarrow> string \<Rightarrow> interaction \<Rightarrow> login_source option \<Rightarrow> string list \<Rightarrow>
     (login_success, 'c, 'w) login_action" where
  "finish_login env now login s q amr w =
     then_do (complete_login env now s q amr w) (\<lambda>success w1.
     then_do (mark_completed env now login w1) (\<lambda>_ w2.
       (Inr success, snd (remove_interaction env login w2))))"

section \<open>The password\<close>

record password_state =
  pt_captcha_required :: bool
  pt_totp_required :: bool
  pt_locked :: bool
  pt_lock_expires :: "int option"
  pt_captcha :: "captcha option"

definition has_totp :: "('c, 'w) login_env \<Rightarrow> int \<Rightarrow> (bool, 'c, 'w) login_action" where
  "has_totp env user =
     on_accounts (\<lambda>_ a. (if_ok (find_active_totp user (ac_credentials a)) (\<lambda>r. Inr (r \<noteq> None)), a))"

definition totp_demanded ::
    "('c, 'w) login_env \<Rightarrow> user_row option \<Rightarrow> int \<Rightarrow> (bool, 'c, 'w) login_action" where
  "totp_demanded env subject failures w =
     (case subject of
        Some r \<Rightarrow> if 0 < us_id r \<and> requires_totp env failures then has_totp env (us_id r) w else (Inr False, w)
      | None \<Rightarrow> (Inr False, w))"

definition captcha_for_state ::
    "('c, 'w) login_env \<Rightarrow> time \<Rightarrow> ids \<Rightarrow> interaction \<Rightarrow> string \<Rightarrow> login_source option \<Rightarrow> bool \<Rightarrow> bool \<Rightarrow>
     (captcha option \<times> interaction, 'c, 'w) login_action" where
  "captcha_for_state env now u s account q required refresh w =
     (if \<not> required then (Inr (None, s), w)
      else then_do (if refresh then refresh_primary_captcha env now u 0 s account q w
                    else resolve_primary_captcha env now u 0 s account q w)
             (\<lambda>(c, s1) w1. (Inr (Some c, s1), w1)))"

definition get_password_state ::
    "('c, 'w) login_env \<Rightarrow> time \<Rightarrow> ids \<Rightarrow> string \<Rightarrow> string \<Rightarrow> string \<Rightarrow> bool \<Rightarrow> login_source option \<Rightarrow>
     (password_state, 'c, 'w) login_action" where
  "get_password_state env now u login context account_name refresh q w =
     then_do (prepare_interaction env now login context account_name q ''PASSWORD'' [] w) (\<lambda>(account, s) w1.
     then_do (is_locked env now account w1) (\<lambda>(locked, expires) w2.
       if locked
       then (Inr \<lparr>pt_captcha_required = False, pt_totp_required = False, pt_locked = True, pt_lock_expires = expires,
                  pt_captcha = None\<rparr>, w2)
       else then_do (get_risk_failure_count env now account q w2) (\<lambda>failures w3.
            let subject = (case fst (subject_of_account account w3) of Inl _ \<Rightarrow> None | Inr r \<Rightarrow> r);
                s1 = (case subject of None \<Rightarrow> s | Some r \<Rightarrow> s\<lparr>it_user := us_id r\<rparr>)
            in then_do (totp_demanded env subject failures w3) (\<lambda>totp w4.
               then_do (captcha_for_state env now u s1 account q (requires_captcha env failures) refresh w4) (\<lambda>(c, s2) w5.
               then_do (save_interaction env now s2 w5) (\<lambda>_ w6.
                 (Inr \<lparr>pt_captcha_required = requires_captcha env failures, pt_totp_required = totp, pt_locked = False,
                       pt_lock_expires = None, pt_captcha = c\<rparr>, w6)))))))"

record password_answer =
  pr_success :: "login_success option"
  pr_captcha_required :: bool
  pr_totp_required :: bool
  pr_locked :: bool
  pr_lock_expires :: "int option"
  pr_captcha :: "captcha option"
  pr_rejected :: bool

definition no_answer :: password_answer where
  "no_answer =
     \<lparr>pr_success = None, pr_captcha_required = False, pr_totp_required = False, pr_locked = False,
      pr_lock_expires = None, pr_captcha = None, pr_rejected = False\<rparr>"

text \<open>A pending login is saved and the answer given.\<close>

definition save_and ::
    "('c, 'w) login_env \<Rightarrow> time \<Rightarrow> interaction \<Rightarrow> 'a result \<Rightarrow> ('a, 'c, 'w) login_action" where
  "save_and env now s answer w = then_do (save_interaction env now s w) (\<lambda>_ w1. (answer, w1))"

text \<open>The captcha before the password: \<open>Inl\<close> the answer that asks for one, \<open>Inr\<close> the login to go on with.\<close>

definition pass_captcha ::
    "('c, 'w) login_env \<Rightarrow> time \<Rightarrow> ids \<Rightarrow> interaction \<Rightarrow> string \<Rightarrow> string \<Rightarrow> login_source option \<Rightarrow> int \<Rightarrow>
     (password_answer + interaction, 'c, 'w) login_action" where
  "pass_captcha env now u s account code q failures w =
     (if \<not> requires_captcha env failures \<or> it_primary_satisfied s then (Inr (Inr s), w)
      else if blank code
      then then_do (resolve_primary_captcha env now u 0 s account q w) (\<lambda>(c, s1) w1.
           save_and env now s1 (Inr (Inl (no_answer\<lparr>pr_captcha_required := True, pr_captcha := Some c\<rparr>))) w1)
      else then_do (verify_primary_captcha env now u 0 s account code q w) (\<lambda>(c, s1) w1.
           if c = None then (Inr (Inr s1), w1)
           else save_and env now s1
                  (Inr (Inl (no_answer\<lparr>pr_captcha_required := True, pr_captcha := c, pr_rejected := True\<rparr>))) w1))"

definition password_usable :: "user_row \<Rightarrow> bool" where
  "password_usable r \<longleftrightarrow> user_enabled (us_status r) \<or> us_status r = UserStatusPendingReview"

definition stored_password :: "user_row option \<Rightarrow> (credential_row option, 'c, 'w) login_action" where
  "stored_password subject =
     (case subject of
        None \<Rightarrow> (\<lambda>w. (Inr None, w))
      | Some r \<Rightarrow> if password_usable r then on_accounts (\<lambda>_ a. (find_active_password (us_id r) (ac_credentials a), a))
                  else (\<lambda>w. (Inr None, w)))"

definition password_matches :: "('c, 'w) login_env \<Rightarrow> string \<Rightarrow> credential_row option \<Rightarrow> bool" where
  "password_matches env raw c \<longleftrightarrow> (case c of None \<Rightarrow> False | Some r \<Rightarrow> le_password_ok env raw (cr_hash r))"

text \<open>The answer to a wrong password.\<close>

definition refuse_password ::
    "('c, 'w) login_env \<Rightarrow> time \<Rightarrow> ids \<Rightarrow> interaction \<Rightarrow> string \<Rightarrow> login_source option \<Rightarrow>
     (password_answer, 'c, 'w) login_action" where
  "refuse_password env now u s account q w =
     then_do (note_failure env now account q w) (\<lambda>(n, locked, expires) w1.
       let s1 = s\<lparr>it_primary_satisfied := False\<rparr>
       in if locked then save_and env now s1 (Inr (no_answer\<lparr>pr_locked := True, pr_lock_expires := expires\<rparr>)) w1
          else if requires_captcha env n
          then then_do (resolve_primary_captcha env now u 20 s1 account q w1) (\<lambda>(c, s2) w2.
               save_and env now s2 (Inr (no_answer\<lparr>pr_captcha_required := True, pr_captcha := Some c\<rparr>)) w2)
          else save_and env now s1 (Inl (unauthorized (utf8 [0x8D26, 0x53F7, 0x6216, 0x5BC6, 0x7801, 0x9519, 0x8BEF]))) w1)"

definition accept_interaction :: "ids \<Rightarrow> user_row \<Rightarrow> interaction \<Rightarrow> interaction" where
  "accept_interaction u r s =
     s\<lparr>it_user := us_id r, it_account := us_account r, it_primary_satisfied := False, it_primary_challenge := [],
       it_primary_nonce := [], it_nonce := nonce_or u 30 (it_nonce s)\<rparr>"

definition accept_password ::
    "('c, 'w) login_env \<Rightarrow> time \<Rightarrow> ids \<Rightarrow> string \<Rightarrow> interaction \<Rightarrow> user_row \<Rightarrow> string \<Rightarrow> login_source option \<Rightarrow> int \<Rightarrow>
     (password_answer, 'c, 'w) login_action" where
  "accept_password env now u login s r account q failures w =
     then_do (on_accounts (on_credentials (\<lambda>_. mark_password_used now (us_id r) now)) w) (\<lambda>_ w1.
       let s1 = accept_interaction u r s
       in then_do (save_interaction env now s1 w1) (\<lambda>_ w2.
          then_do (if requires_totp env failures then has_totp env (us_id r) w2 else (Inr False, w2)) (\<lambda>totp w3.
            if totp then (Inr (no_answer\<lparr>pr_totp_required := True\<rparr>), w3)
            else then_do (clear_failure_state env now account w3) (\<lambda>_ w4.
                 then_do (finish_login env now login s1 q [''pwd''] w4) (\<lambda>success w5.
                   (Inr (no_answer\<lparr>pr_success := Some success\<rparr>), w5))))))"

definition judge_password ::
    "('c, 'w) login_env \<Rightarrow> time \<Rightarrow> ids \<Rightarrow> string \<Rightarrow> interaction \<Rightarrow> string \<Rightarrow> string \<Rightarrow> login_source option \<Rightarrow> int \<Rightarrow>
     (password_answer, 'c, 'w) login_action" where
  "judge_password env now u login s account raw q failures w =
     then_do (subject_of_account account w) (\<lambda>subject w1.
     then_do (stored_password subject w1) (\<lambda>credential w2.
       let matched = password_matches env raw credential
       in case subject of
            None \<Rightarrow> refuse_password env now u s account q w2
          | Some r \<Rightarrow>
              if us_status r = UserStatusPendingReview \<and> matched
              then save_and env now (s\<lparr>it_primary_satisfied := False\<rparr>)
                     (Inl (forbidden (utf8 [0x8D26, 0x53F7, 0x6B63, 0x5728, 0x5BA1, 0x6838, 0x4E2D, 0xFF0C, 0x8BF7, 0x7B49, 0x5F85, 0x7BA1, 0x7406, 0x5458, 0x5BA1, 0x6838, 0x901A, 0x8FC7]))) w2
              else if \<not> user_enabled (us_status r) \<or> \<not> matched then refuse_password env now u s account q w2
              else accept_password env now u login s r account q failures w2))"

definition submit_password_locked ::
    "('c, 'w) login_env \<Rightarrow> time \<Rightarrow> ids \<Rightarrow> string \<Rightarrow> string \<Rightarrow> string \<Rightarrow> string \<Rightarrow> string \<Rightarrow> login_source option \<Rightarrow>
     (password_answer, 'c, 'w) login_action" where
  "submit_password_locked env now u login context account_name raw code q w =
     then_do (prepare_interaction env now login context account_name q ''PASSWORD'' [] w) (\<lambda>(account, s) w1.
     then_do (is_locked env now account w1) (\<lambda>(locked, expires) w2.
       if locked then (Inr (no_answer\<lparr>pr_locked := True, pr_lock_expires := expires\<rparr>), w2)
       else then_do (get_risk_failure_count env now account q w2) (\<lambda>failures w3.
            then_do (pass_captcha env now u s account code q failures w3) (\<lambda>outcome w4.
              case outcome of
                Inl answer \<Rightarrow> (Inr answer, w4)
              | Inr s1 \<Rightarrow> judge_password env now u login s1 account raw q failures w4))))"

definition submit_password ::
    "('c, 'w) login_env \<Rightarrow> time \<Rightarrow> ids \<Rightarrow> string \<Rightarrow> string \<Rightarrow> string \<Rightarrow> string \<Rightarrow> string \<Rightarrow> login_source option \<Rightarrow>
     (password_answer, 'c, 'w) login_action" where
  "submit_password env now u login context account_name raw code q w =
     (if blank raw then (Inl (params_error (utf8 [0x8D26, 0x53F7, 0x548C, 0x5BC6, 0x7801, 0x4E0D, 0x80FD, 0x4E3A, 0x7A7A])), w)
      else then_do (acquire_primary_lock env now login w) (\<lambda>locked w1.
           if \<not> locked then (Inl (operation_error (utf8 [0x767B, 0x5F55, 0x4E3B, 0x8BA4, 0x8BC1, 0x6B63, 0x5728, 0x88AB, 0x5E76, 0x53D1, 0x5904, 0x7406])), w1)
           else case submit_password_locked env now u login context account_name raw code q w1 of
                  (r, w2) \<Rightarrow> (r, snd (release_primary_lock env login w2))))"

section \<open>The second factor\<close>

record factor_answer =
  fa_success :: "login_success option"
  fa_locked :: bool
  fa_lock_expires :: "int option"

definition not_authenticated :: factor_answer where
  "not_authenticated = \<lparr>fa_success = None, fa_locked = False, fa_lock_expires = None\<rparr>"

text \<open>The answer to a wrong code or a wrong assertion.\<close>

definition refuse_factor ::
    "('c, 'w) login_env \<Rightarrow> time \<Rightarrow> string \<Rightarrow> login_source option \<Rightarrow> respond_response option \<Rightarrow>
     (factor_answer, 'c, 'w) login_action" where
  "refuse_factor env now account q a w =
     then_do (note_failure env now account q w) (\<lambda>(_, locked, expires) w1.
       (Inr (if locked then not_authenticated\<lparr>fa_locked := True, fa_lock_expires := expires\<rparr>
             else if challenge_punishment a
             then not_authenticated\<lparr>fa_locked := True, fa_lock_expires := challenge_lock_expires_at now a\<rparr>
             else not_authenticated), w1))"

definition accept_factor ::
    "('c, 'w) login_env \<Rightarrow> time \<Rightarrow> string \<Rightarrow> interaction \<Rightarrow> string \<Rightarrow> string \<Rightarrow> login_source option \<Rightarrow> string list \<Rightarrow>
     (factor_answer, 'c, 'w) login_action" where
  "accept_factor env now login s account token q amr w =
     then_do (check_login_proof env now s token w) (\<lambda>_ w1.
     then_do (clear_failure_state env now account w1) (\<lambda>_ w2.
     then_do (finish_login env now login s q amr w2) (\<lambda>success w3.
       (Inr (not_authenticated\<lparr>fa_success := Some success\<rparr>), w3))))"

text \<open>The one-time code of the user the pending login holds.\<close>

definition judge_totp ::
    "('c, 'w) login_env \<Rightarrow> time \<Rightarrow> ids \<Rightarrow> string \<Rightarrow> string \<Rightarrow> interaction \<Rightarrow> string \<Rightarrow> login_source option \<Rightarrow>
     (factor_answer, 'c, 'w) login_action" where
  "judge_totp env now u login account s code q w =
     then_do (is_locked env now account w) (\<lambda>(locked, expires) w1.
       if locked then (Inr (not_authenticated\<lparr>fa_locked := True, fa_lock_expires := expires\<rparr>), w1)
       else then_do (start_or_reuse_totp env now u 0 s q w1) (\<lambda>(r, s1) w2.
         let step = find_step_identifier r ''TIME_BASED_ONE_TIME_PASSWORD''
         in if step = [] then (Inl (operation_error (''TOTP '' @ (utf8 [0x6311, 0x6218, 0x6B65, 0x9AA4, 0x4E0D, 0x53EF, 0x7528]))), w2)
            else then_do (respond_at env now u 0 (st_challenge_identifier r) step
                            [''oneTimePassword'' \<mapsto> AStr (trim_space code)] w2) (\<lambda>a w3.
                 if passed a then accept_factor env now login s1 account (rr_proof_token a) q [''pwd'', ''otp''] w3
                 else refuse_factor env now account q (Some a) w3)))"

definition verify_totp ::
    "('c, 'w) login_env \<Rightarrow> time \<Rightarrow> ids \<Rightarrow> string \<Rightarrow> string \<Rightarrow> string \<Rightarrow> string \<Rightarrow> login_source option \<Rightarrow>
     (factor_answer, 'c, 'w) login_action" where
  "verify_totp env now u login context account_name code q w =
     (if \<not> otp_pattern (trim_space code) then (Inl (params_error (''TOTP '' @ (utf8 [0x683C, 0x5F0F, 0x975E, 0x6CD5]))), w)
      else then_do (prepare_interaction env now login context account_name q ''PASSWORD'' [] w) (\<lambda>(account, s) w1.
        if it_user s \<le> 0 then (Inl (params_error (utf8 [0x5BC6, 0x7801, 0x9636, 0x6BB5, 0x5C1A, 0x672A, 0x5B8C, 0x6210])), w1)
        else judge_totp env now u login account s code q w1))"

section \<open>The passkey\<close>

record passkey_start =
  ps_challenge :: string
  ps_step :: string
  ps_hints :: anymap
  ps_view :: start_response

text \<open>The answer that does not say whether the account has a passkey.\<close>

definition public_hints :: "('c, 'w) login_env \<Rightarrow> string \<Rightarrow> anymap" where
  "public_hints env challenge =
     [''challenge'' \<mapsto> AStr challenge, ''rpId'' \<mapsto> AStr (le_rp_id env),
      ''timeoutSeconds'' \<mapsto> AInt (le_prompt_timeout env), ''allowCredentialIds'' \<mapsto> AStrs []]"

definition public_passkey_start :: "('c, 'w) login_env \<Rightarrow> time \<Rightarrow> ids \<Rightarrow> passkey_start result" where
  "public_passkey_start env now u =
     if_ok (le_random env) (\<lambda>challenge.
       let ident = u 40 0; step = u 40 1; hints = public_hints env challenge
       in Inr \<lparr>ps_challenge = ident, ps_step = step, ps_hints = hints,
               ps_view = \<lparr>st_challenge_identifier = ident, st_expires_at = Some (now + le_ttl env),
                 st_steps = [\<lparr>sv_identifier = step, sv_type = ''WEBAUTHN_PASSKEY_ASSERTION'', sv_purpose = [],
                              sv_state = ''PENDING'', sv_remaining = 0, sv_cooldown = 0, sv_switchable = False,
                              sv_hints = hints\<rparr>],
                 st_state = ''PENDING'', st_ttl = whole_seconds (le_ttl env), st_required_level = [],
                 st_resolved_level = [], st_recommended = step, st_types = [''WEBAUTHN_PASSKEY_ASSERTION'']\<rparr>\<rparr>)"

definition sanitize_hints :: "anymap \<Rightarrow> anymap" where
  "sanitize_hints hints = hints(''allowCredentialIds'' \<mapsto> AStrs [])"

definition sanitize_start :: "start_response \<Rightarrow> string \<Rightarrow> start_response" where
  "sanitize_start r step =
     r\<lparr>st_steps := map (\<lambda>v. if sv_identifier v = step \<or> sv_type v = ''WEBAUTHN_PASSKEY_ASSERTION''
                            then v\<lparr>sv_hints := sanitize_hints (sv_hints v)\<rparr> else v) (st_steps r)\<rparr>"

definition has_passkeys :: "('c, 'w) login_env \<Rightarrow> int \<Rightarrow> (bool, 'c, 'w) login_action" where
  "has_passkeys env user =
     on_accounts (\<lambda>_ a. (if_ok (list_active_passkeys (ae_cred (le_accounts env)) user (ac_credentials a))
                           (\<lambda>items. Inr (items \<noteq> [])), a))"

definition shown_passkey_start ::
    "('c, 'w) login_env \<Rightarrow> time \<Rightarrow> ids \<Rightarrow> start_response \<Rightarrow> passkey_start result" where
  "shown_passkey_start env now u r =
     (case find_view r ''WEBAUTHN_PASSKEY_ASSERTION'' of
        None \<Rightarrow> public_passkey_start env now u
      | Some v \<Rightarrow>
          let shown = sanitize_start r (sv_identifier v)
          in case find_view shown ''WEBAUTHN_PASSKEY_ASSERTION'' of
               None \<Rightarrow> public_passkey_start env now u
             | Some p \<Rightarrow> Inr \<lparr>ps_challenge = st_challenge_identifier shown, ps_step = sv_identifier p,
                              ps_hints = sv_hints p, ps_view = shown\<rparr>)"

definition enabled_subject :: "user_row option \<Rightarrow> user_row option" where
  "enabled_subject subject =
     (case subject of None \<Rightarrow> None | Some r \<Rightarrow> if user_enabled (us_status r) then Some r else None)"

definition start_passkey ::
    "('c, 'w) login_env \<Rightarrow> time \<Rightarrow> ids \<Rightarrow> string \<Rightarrow> string \<Rightarrow> string \<Rightarrow> login_source option \<Rightarrow>
     (passkey_start, 'c, 'w) login_action" where
  "start_passkey env now u login context account_name q w =
     then_do (prepare_interaction env now login context account_name q ''PASSKEY'' [] w) (\<lambda>(_, s) w1.
     then_do (subject_of_account (it_account s) w1) (\<lambda>subject w2.
       case enabled_subject subject of
         None \<Rightarrow> save_and env now s (public_passkey_start env now u) w2
       | Some r \<Rightarrow>
           let s1 = s\<lparr>it_user := us_id r, it_account := us_account r\<rparr>
           in then_do (save_interaction env now s1 w2) (\<lambda>_ w3.
              then_do (has_passkeys env (us_id r) w3) (\<lambda>some w4.
                if \<not> some then (public_passkey_start env now u, w4)
                else case start_or_reuse_passkey env now u 0 s1 q w4 of
                       (Inl _, w5) \<Rightarrow> (public_passkey_start env now u, w5)
                     | (Inr (c, _), w5) \<Rightarrow> (shown_passkey_start env now u c, w5)))))"

record assertion =
  as_credential :: string
  as_client_data :: string
  as_authenticator :: string
  as_signature :: string

definition assertion_payload :: "assertion \<Rightarrow> anymap" where
  "assertion_payload a =
     [''credentialIdentifier'' \<mapsto> AStr (as_credential a), ''clientDataJSON'' \<mapsto> AStr (as_client_data a),
      ''authenticatorData'' \<mapsto> AStr (as_authenticator a), ''signature'' \<mapsto> AStr (as_signature a)]"

definition answer_passkey ::
    "('c, 'w) login_env \<Rightarrow> time \<Rightarrow> ids \<Rightarrow> string \<Rightarrow> string \<Rightarrow> assertion \<Rightarrow> login_source option \<Rightarrow> start_response \<Rightarrow> interaction \<Rightarrow>
     (factor_answer, 'c, 'w) login_action" where
  "answer_passkey env now u login account a q r s w =
     (let step = find_step_identifier r ''WEBAUTHN_PASSKEY_ASSERTION''
      in if step = [] then refuse_factor env now account q None w
         else then_do (respond_at env now u 0 (st_challenge_identifier r) step (assertion_payload a) w) (\<lambda>d w1.
              if passed d then accept_factor env now login s account (rr_proof_token d) q [''hwk''] w1
              else if passkey_failure d then refuse_factor env now account q (Some d) w1
              else (Inr not_authenticated, w1)))"

definition verify_passkey ::
    "('c, 'w) login_env \<Rightarrow> time \<Rightarrow> ids \<Rightarrow> string \<Rightarrow> string \<Rightarrow> string \<Rightarrow> assertion \<Rightarrow> login_source option \<Rightarrow>
     (factor_answer, 'c, 'w) login_action" where
  "verify_passkey env now u login context account_name a q w =
     then_do (prepare_interaction env now login context account_name q ''PASSKEY'' [] w) (\<lambda>(account, s) w1.
     then_do (subject_of_account account w1) (\<lambda>subject w2.
       case enabled_subject subject of
         None \<Rightarrow> (Inr not_authenticated, w2)
       | Some r \<Rightarrow>
           let s1 = s\<lparr>it_user := us_id r, it_account := us_account r\<rparr>
           in then_do (has_passkeys env (us_id r) w2) (\<lambda>some w3.
              if \<not> some then (Inr not_authenticated, w3)
              else then_do (is_locked env now account w3) (\<lambda>(locked, expires) w4.
                if locked then (Inr (not_authenticated\<lparr>fa_locked := True, fa_lock_expires := expires\<rparr>), w4)
                else case start_or_reuse_passkey env now u 0 s1 q w4 of
                       (Inl _, w5) \<Rightarrow> (Inr not_authenticated, w5)
                     | (Inr (c, s2), w5) \<Rightarrow> answer_passkey env now u login account a q c s2 w5))))"

section \<open>Registration by form\<close>

definition register_context ::
    "('c, 'w) login_env \<Rightarrow> time \<Rightarrow> string \<Rightarrow> string \<Rightarrow> string \<Rightarrow> login_source option \<Rightarrow>
     (string \<times> registration_policy \<times> interaction, 'c, 'w) login_action" where
  "register_context env now login context account_name q w =
     then_do (prepare_register_interaction env now login context account_name q w) (\<lambda>(account, s) w1.
       (if_ok (require_form_registration_policy env s q) (\<lambda>(policy, s1). Inr (account, policy, s1)), w1))"

definition get_register_state ::
    "('c, 'w) login_env \<Rightarrow> time \<Rightarrow> ids \<Rightarrow> string \<Rightarrow> string \<Rightarrow> string \<Rightarrow> login_source option \<Rightarrow> (captcha, 'c, 'w) login_action" where
  "get_register_state env now u login context account_name q w =
     then_do (register_context env now login context account_name q w) (\<lambda>(account, _, s) w1.
     then_do (resolve_register_captcha env now u 0 s account q w1) (\<lambda>(c, s1) w2. save_and env now s1 (Inr c) w2))"

record email_code_answer =
  ec_sent :: bool
  ec_masked :: string
  ec_message :: string
  ec_captcha :: "captcha option"

definition send_code ::
    "('c, 'w) login_env \<Rightarrow> time \<Rightarrow> ids \<Rightarrow> interaction \<Rightarrow> string \<Rightarrow> string \<Rightarrow> login_source option \<Rightarrow>
     (email_code_answer, 'c, 'w) login_action" where
  "send_code env now u s account email q w =
     then_do (enforce_register_email_code_rate_limit env (it_platform s) account email q, w) (\<lambda>_ w1.
     then_do (start_or_refresh_register_email env now u 20 s account email q w1) (\<lambda>(r, s1) w2.
       save_and env now (s1\<lparr>it_register_email := email, it_email_satisfied := False\<rparr>)
         (Inr \<lparr>ec_sent = True,
               ec_masked = (case find_view r ''EMAIL_ONE_TIME_PASSWORD'' of None \<Rightarrow> [] | Some v \<Rightarrow> hint_text v ''emailMasked''),
               ec_message = (utf8 [0x9A8C, 0x8BC1, 0x7801, 0x5DF2, 0x53D1, 0x9001, 0xFF0C, 0x8BF7, 0x67E5, 0x6536, 0x90AE, 0x7BB1]), ec_captcha = None\<rparr>) w2))"

definition send_register_email_code ::
    "('c, 'w) login_env \<Rightarrow> time \<Rightarrow> ids \<Rightarrow> string \<Rightarrow> string \<Rightarrow> string \<Rightarrow> string \<Rightarrow> string \<Rightarrow> login_source option \<Rightarrow>
     (email_code_answer, 'c, 'w) login_action" where
  "send_register_email_code env now u login context account_name user_email code q w =
     then_do (register_context env now login context account_name q w) (\<lambda>(account, _, s) w1.
     then_do (normalize_register_email env user_email, w1) (\<lambda>email w2.
       if blank code
       then then_do (resolve_register_captcha env now u 0 s account q w2) (\<lambda>(c, s1) w3.
            save_and env now s1 (Inr \<lparr>ec_sent = False, ec_masked = [], ec_message = (utf8 [0x8BF7, 0x8F93, 0x5165, 0x56FE, 0x5F62, 0x9A8C, 0x8BC1, 0x7801]), ec_captcha = Some c\<rparr>) w3)
       else then_do (verify_register_captcha env now u 0 s account code q w2) (\<lambda>(c, s1) w3.
            if c \<noteq> None
            then save_and env now s1 (Inr \<lparr>ec_sent = False, ec_masked = [], ec_message = (utf8 [0x56FE, 0x5F62, 0x9A8C, 0x8BC1, 0x7801, 0x9519, 0x8BEF, 0xFF0C, 0x8BF7, 0x91CD, 0x65B0, 0x8F93, 0x5165]),
                                           ec_captcha = c\<rparr>) w3
            else send_code env now u s1 account email q w3)))"

record register_answer =
  ra_registered :: bool
  ra_user :: int
  ra_account :: string
  ra_message :: string

definition not_registered :: "string \<Rightarrow> string \<Rightarrow> register_answer" where
  "not_registered account message = \<lparr>ra_registered = False, ra_user = 0, ra_account = account, ra_message = message\<rparr>"

definition register_command ::
    "string \<Rightarrow> string \<Rightarrow> string \<Rightarrow> string \<Rightarrow> registration_policy \<Rightarrow> subject_command" where
  "register_command account nick email raw policy =
     \<lparr>sc_account = account, sc_nick = trim_space nick, sc_email = email, sc_password = raw, sc_avatar = [],
      sc_roles = gp_default_roles policy, sc_posts = gp_default_posts policy, sc_org = gp_default_org policy,
      sc_dept = gp_default_dept policy, sc_disable_merge = False\<rparr>"

definition register_subject ::
    "('c, 'w) login_env \<Rightarrow> time \<Rightarrow> interaction \<Rightarrow> subject_command \<Rightarrow> login_source option \<Rightarrow>
     (register_answer, 'c, 'w) login_action" where
  "register_subject env now s c q w =
     then_do (enforce_register_rate_limit env (it_platform s) (sc_account c) (sc_email c) q, w) (\<lambda>_ w1.
     then_do (on_accounts (\<lambda>m a. create_form_subject (le_accounts env) now c (ac_db a) m a) w1) (\<lambda>subject w2.
       save_and env now (s\<lparr>it_email_satisfied := True\<rparr>)
         (Inr \<lparr>ra_registered = True, ra_user = (case subject of None \<Rightarrow> 0 | Some r \<Rightarrow> us_id r), ra_account = sc_account c,
               ra_message = (utf8 [0x6CE8, 0x518C, 0x6210, 0x529F, 0xFF0C, 0x8BF7, 0x4F7F, 0x7528, 0x65B0, 0x8D26, 0x53F7, 0x767B, 0x5F55])\<rparr>) w2))"

definition submit_register ::
    "('c, 'w) login_env \<Rightarrow> time \<Rightarrow> ids \<Rightarrow> string \<Rightarrow> string \<Rightarrow> string \<Rightarrow> string \<Rightarrow> string \<Rightarrow> string \<Rightarrow> string \<Rightarrow> string \<Rightarrow>
     login_source option \<Rightarrow> (register_answer, 'c, 'w) login_action" where
  "submit_register env now u login context account_name nick user_email raw confirm code q w =
     (if blank raw \<or> raw \<noteq> confirm then (Inl (params_error (utf8 [0x4E24, 0x6B21, 0x8F93, 0x5165, 0x7684, 0x5BC6, 0x7801, 0x4E0D, 0x4E00, 0x81F4])), w)
      else then_do (register_context env now login context account_name q w) (\<lambda>(account, policy, s) w1.
      then_do (normalize_register_email env user_email, w1) (\<lambda>email w2.
        if trim_space (it_register_email s) \<noteq> email \<or> blank (it_email_challenge s)
        then (Inr (not_registered account (utf8 [0x8BF7, 0x5148, 0x83B7, 0x53D6, 0x90AE, 0x7BB1, 0x9A8C, 0x8BC1, 0x7801])), w2)
        else if blank code then (Inr (not_registered account (utf8 [0x8BF7, 0x8F93, 0x5165, 0x90AE, 0x7BB1, 0x9A8C, 0x8BC1, 0x7801])), w2)
        else then_do (verify_register_email_code env now u 0 s email code w2) (\<lambda>(ok, s1) w3.
             if \<not> ok then save_and env now s1 (Inr (not_registered account (utf8 [0x90AE, 0x7BB1, 0x9A8C, 0x8BC1, 0x7801, 0x9519, 0x8BEF, 0x6216, 0x5DF2, 0x8FC7, 0x671F]))) w3
             else register_subject env now s1 (register_command account nick email raw policy) q w3))))"

end
