(* ===== verification/Login_Frame.thy ===== *)
theory Login_Frame
  imports Login_Service Account_Frame
begin

text \<open>
  What the first stages of a login leave alone. A relation between states that is reflexive and transitive
  (\<open>state_relation\<close>) holds across a sequence of steps that stay in it. One that admits changes of the texts
  (\<open>text_relation\<close>), of the pending logins and challenges besides (\<open>store_relation\<close>), of the lock of a user
  besides (\<open>lock_relation\<close>), or of all of them (\<open>login_relation\<close>), is kept by every operation that does
  nothing else. The instances: nothing but
  the schedule changes, the accounts stay as they are, and users keep their names and credentials.
\<close>

section \<open>Operations that stay in a relation\<close>

definition within :: "('s \<Rightarrow> 's \<Rightarrow> bool) \<Rightarrow> ('s \<Rightarrow> 'a result \<times> 's) \<Rightarrow> bool" where
  "within R f \<longleftrightarrow> (\<forall>w. R w (snd (f w)))"

lemma withinI: "(\<And>w. R w (snd (f w))) \<Longrightarrow> within R f"
  by (simp add: within_def)

lemma withinD: "within R f \<Longrightarrow> f w = (r, w') \<Longrightarrow> R w w'"
  by (metis within_def snd_conv)

lemma within_if: "within R f \<Longrightarrow> within R g \<Longrightarrow> within R (\<lambda>w. if b then f w else g w)"
  by (simp add: within_def)

lemma within_if_action: "within R f \<Longrightarrow> within R g \<Longrightarrow> within R (if b then f else g)"
  by simp

lemma within_option:
  "within R f \<Longrightarrow> (\<And>y. within R (g y)) \<Longrightarrow> within R (\<lambda>w. case x of None \<Rightarrow> f w | Some y \<Rightarrow> g y w)"
  by (cases x) simp_all

lemma within_sum:
  "(\<And>e. within R (f e)) \<Longrightarrow> (\<And>y. within R (g y)) \<Longrightarrow> within R (\<lambda>w. case x of Inl e \<Rightarrow> f e w | Inr y \<Rightarrow> g y w)"
  by (cases x) simp_all

lemma within_pair: "(\<And>x y. within R (f x y)) \<Longrightarrow> within R (\<lambda>w. case p of (x, y) \<Rightarrow> f x y w)"
  by (cases p) simp

lemma within_pair_action: "(\<And>x y. within R (f x y)) \<Longrightarrow> within R (case p of (x, y) \<Rightarrow> f x y)"
  by (cases p) simp

lemma within_option_action:
  "within R f \<Longrightarrow> (\<And>y. within R (g y)) \<Longrightarrow> within R (case x of None \<Rightarrow> f | Some y \<Rightarrow> g y)"
  by (cases x) simp_all

lemma within_let: "within R (f x) \<Longrightarrow> within R (\<lambda>w. let y = x in f y w)"
  by simp

locale state_relation =
  fixes R :: "'s \<Rightarrow> 's \<Rightarrow> bool"
  assumes same: "R w w"
    and chain: "R w w1 \<Longrightarrow> R w1 w2 \<Longrightarrow> R w w2"
begin

lemma return: "within R (\<lambda>w. (r w, w))"
  by (simp add: within_def same)

lemma then_do:
  assumes "within R f" "\<And>x. within R (g x)"
  shows "within R (\<lambda>w. then_do (f w) g)"
proof (rule withinI)
  fix w
  obtain r w1 where f: "f w = (r, w1)" by fastforce
  with assms show "R w (snd (Sql_Model.then_do (f w) g))"
    by (cases r) (auto simp: within_def intro: chain dest: spec [of _ w])
qed

lemmas steps = return then_do within_if within_if_action within_option within_sum within_pair within_let

end

text \<open>Relations that admit every change of the texts, and of the schedule as commands use it up.\<close>

locale text_relation = state_relation R for R :: "('c, 'w) login_world \<Rightarrow> ('c, 'w) login_world \<Rightarrow> bool" +
  fixes env :: "('c, 'w) login_env"
  assumes texts: "R w (w\<lparr>lw_texts := t\<rparr>)"
    and used_up: "lw_faults w = outcome # fs \<Longrightarrow> R w (w\<lparr>lw_faults := fs\<rparr>)"
begin

lemma command:
  assumes "\<And>w. R w (snd (f w))"
  shows "within R (login_command f)"
proof (rule withinI)
  fix w
  show "R w (snd (login_command f w))"
  proof (cases "lw_faults w")
    case (Cons outcome fs)
    have "R w (snd (f (w\<lparr>lw_faults := fs\<rparr>)))" by (rule chain [OF used_up [OF Cons] assms])
    then show ?thesis using used_up [OF Cons] by (simp add: login_command_def Cons Let_def split: sql_outcome.split)
  qed (simp add: login_command_def assms)
qed

lemma text_commands: "within R (get_text now k)" "within R (set_text now k v ttl)" "within R (delete_texts ks)"
  unfolding get_text_def set_text_def delete_texts_def by (rule command, simp add: same texts)+

lemma reading: "within R (on_accounts (\<lambda>m a. (f m a, a)))"
  by (simp add: on_accounts_def within_def same)

lemma marks:
  "within R (is_completed env now login)" "within R (mark_completed env now login)"
  "within R (acquire_primary_lock env now login)" "within R (release_primary_lock env login)"
  unfolding is_completed_def [abs_def] mark_completed_def acquire_primary_lock_def release_primary_lock_def
  by (intro steps text_commands command; simp add: texts split: prod.split)+

lemma first_number: "within R (first_number now ks)"
proof (induction ks)
  case Nil
  show ?case by (simp add: within_def same)
next
  case (Cons k ks)
  have "within R (\<lambda>w. first_number now (k # ks) w)"
    by (simp only: first_number.simps) (intro steps text_commands Cons)
  then show ?case by simp
qed

lemma counters:
  "within R (get_count now ks)" "within R (delete_many ks)" "within R (get_lock_until env now account)"
  "within R (save_lock_until env now account unlock hours)"
  unfolding get_count_def [abs_def] delete_many_def get_lock_until_def [abs_def] save_lock_until_def Let_def
  by (intro steps text_commands first_number)+

lemma counts:
  "within R (get_failure_count env now account)" "within R (save_failure_count env now account n)"
  "within R (get_context_failure_count env now scope v)" "within R (save_context_failure_count env now scope v n)"
  "within R (get_captcha_failure_count env now account)" "within R (save_captcha_failure_count env now account n)"
  unfolding get_failure_count_def save_failure_count_def get_context_failure_count_def save_context_failure_count_def
    get_captcha_failure_count_def save_captcha_failure_count_def
  by (intro steps text_commands counters)+

lemma subject: "within R (subject_of_account account)" "within R (find_login_subject account)"
  unfolding find_login_subject_def [abs_def] subject_of_account_def [abs_def] by (intro steps)+

lemma clear_captcha:
  "within R (clear_captcha_failure env account)" "within R (clear_captcha_failure_state env account)"
  "within R (record_captcha_failure_state env now account)"
  unfolding clear_captcha_failure_def [abs_def] clear_captcha_failure_state_def [abs_def]
    record_captcha_failure_state_def [abs_def] record_captcha_failure_def [abs_def]
  by (intro steps counters counts | simp)+

lemma contexts: "within R (record_contexts env now signals n)" "within R (highest_context env now signals n)"
proof (induction signals arbitrary: n)
  case Nil
  { case 1 show ?case by (simp add: within_def same)
  next case 2 show ?case by (simp add: within_def same) }
next
  case (Cons p ps)
  obtain scope v where p: "p = (scope, v)" by fastforce
  { case 1
    have "within R (\<lambda>w. record_contexts env now (p # ps) n w)"
      unfolding p record_contexts.simps Let_def by (intro steps counts Cons)
    then show ?case by simp
  next
    case 2
    have "within R (\<lambda>w. highest_context env now (p # ps) n w)"
      unfolding p highest_context.simps by (intro steps counts Cons)
    then show ?case by simp }
qed

lemma risk: "within R (failure_count env now account)" "within R (risk_failure_count env now account client_ip device)"
  unfolding risk_failure_count_def [abs_def] failure_count_def [abs_def] by (intro steps counts contexts)+

lemma risk_of_request: "within R (get_risk_failure_count env now account q)"
  unfolding get_risk_failure_count_def [abs_def] by (intro steps risk)

end

text \<open>Relations that admit a change of the lock of a user besides.\<close>

locale lock_relation = text_relation +
  assumes locks: "within R (on_accounts (change_lock_state (le_accounts env) now user status unseal))"
begin

lemma sync: "within R (sync_user_lock_state env now account status unseal)"
  unfolding sync_user_lock_state_def [abs_def] by (intro steps subject locks)

lemma clear: "within R (clear_failure env now account)"
  unfolding clear_failure_def [abs_def] by (intro steps counters sync)

lemma recorded: "within R (record_login_failure env now account client_ip device)"
  unfolding record_login_failure_def [abs_def] Let_def by (intro steps counts counters contexts sync)

lemma unlock_of_subject: "within R (unlock_time_of_subject env now account)"
proof -
  have ignored: "within R (\<lambda>w. (r, snd (save_lock_until env now account unlock hours w)))" for r unlock hours
    using counters(4) [of now account unlock hours] by (simp add: within_def)
  show ?thesis unfolding unlock_time_of_subject_def [abs_def] Let_def by (intro steps subject clear ignored)
qed

lemma locked:
  "within R (get_unlock_time env now account)" "within R (is_account_locked env now account)"
  unfolding is_account_locked_def [abs_def] get_unlock_time_def [abs_def]
  by (intro steps counters clear unlock_of_subject subject)+

lemma failures:
  "within R (is_locked env now account)" "within R (clear_failure_state env now account)"
  "within R (note_failure env now account q)"
  unfolding is_locked_def [abs_def] clear_failure_state_def [abs_def] note_failure_def [abs_def]
  by (intro steps risk locked clear recorded)+

end

text \<open>Relations that admit every change of the caches.\<close>

locale store_relation = text_relation +
  assumes interactions: "R w (w\<lparr>lw_interactions := t1\<rparr>)"
    and challenges: "R w (w\<lparr>lw_challenge := c\<rparr>)"
begin

lemma challenge: "within R (on_challenge f)"
  by (auto simp: on_challenge_def intro!: withinI challenges split: prod.split)

lemma stores:
  "within R (get_text now k)" "within R (set_text now k v ttl)" "within R (delete_texts ks)"
  "within R (get_interaction env now login)" "within R (save_interaction env now s)"
  "within R (remove_interaction env login)"
  unfolding get_interaction_def save_interaction_def remove_interaction_def
  by (rule text_commands, rule text_commands, rule text_commands) (rule command, simp add: same interactions)+

lemma prepared: "within R (prepare_interaction env now login context account q method provider)"
proof -
  have load: "within R (load_interaction env now id fresh)" for id fresh
    unfolding load_interaction_def [abs_def] by (intro steps stores marks)
  show ?thesis unfolding prepare_interaction_def [abs_def] Let_def by (intro steps load)
qed

lemma challenge_commands:
  "within R (start_at env now u b request)" "within R (get_at now ident)" "within R (refresh_at env now u b ident step)"
  "within R (respond_at env now u b ident step payload)"
  unfolding start_at_def get_at_def refresh_at_def respond_at_def by (rule challenge)+

lemma primary: "within R (start_or_reuse_primary env now u b s account q)"
  unfolding start_or_reuse_primary_def [abs_def] Let_def by (intro steps challenge_commands)

lemma refreshed: "R w (snd (try_refresh env now u b ident w))"
proof (cases "get_at now ident w")
  case (Pair r w1)
  have first: "R w w1" using withinD [OF challenge_commands(2) Pair] .
  have second: "R w w2" if "refresh_at env now u b ident step w1 = (r2, w2)" for r2 w2 step
    using chain [OF first withinD [OF challenge_commands(3) that]] .
  show ?thesis
    using first second by (cases r) (simp_all add: try_refresh_def Pair Let_def split: prod.split sum.split)
qed

lemma refresh_primary: "within R (refresh_or_start_primary env now u b s account q)"
proof (rule withinI)
  fix w
  obtain r w1 where tried: "try_refresh env now u b (it_primary_challenge s) w = (r, w1)" by fastforce
  then have "R w w1" using refreshed by (metis snd_conv)
  then show "R w (snd (refresh_or_start_primary env now u b s account q w))"
    using primary tried same by (cases r) (auto simp: refresh_or_start_primary_def within_def intro: chain)
qed

lemma captchas:
  "within R (resolve_primary_captcha env now u b s account q)"
  "within R (refresh_primary_captcha env now u b s account q)"
  "within R (verify_primary_captcha env now u b s account code q)"
  unfolding resolve_primary_captcha_def [abs_def] verify_primary_captcha_def [abs_def]
    refresh_primary_captcha_def [abs_def] Let_def
  by (intro steps within_pair_action primary refresh_primary challenge_commands clear_captcha)+

lemma password_stages:
  "within R (save_and env now s answer)" "within R (pass_captcha env now u s account code q failures)"
  "within R (stored_password subject)"
  unfolding save_and_def [abs_def] pass_captcha_def [abs_def] stored_password_def
  by (intro steps within_pair_action within_option_action stores captchas reading)+

end

text \<open>Both together.\<close>

locale login_relation = store_relation + lock_relation

section \<open>Operations that only read\<close>

definition only_read :: "('c, 'w) login_world \<Rightarrow> ('c, 'w) login_world \<Rightarrow> bool" where
  "only_read w w' \<longleftrightarrow> (\<exists>fs. w' = w\<lparr>lw_faults := fs\<rparr>)"

interpretation reads: state_relation "only_read :: ('c, 'w) login_world \<Rightarrow> ('c, 'w) login_world \<Rightarrow> bool"
proof
  show "only_read w w" for w :: "('c, 'w) login_world"
    unfolding only_read_def by (rule exI [of _ "lw_faults w"]) simp
qed (auto simp: only_read_def)

lemma reading_command:
  assumes "\<And>w. snd (f w) = w"
  shows "within only_read (login_command f)"
proof (rule withinI)
  fix w :: "('a, 'b) login_world"
  show "only_read w (snd (login_command f w))"
    using assms reads.same by (auto simp: login_command_def Let_def only_read_def split: list.split sql_outcome.split)
qed

lemma reading_prepare: "within only_read (prepare_interaction env now login context account q method provider)"
proof -
  have get: "within only_read (get_text now k)" "within only_read (get_interaction env now id)" for k id
    unfolding get_text_def get_interaction_def by (rule reading_command, simp)+
  have load: "within only_read (load_interaction env now id fresh)" for id fresh
    unfolding load_interaction_def [abs_def] is_completed_def [abs_def] by (intro reads.steps get)
  show ?thesis unfolding prepare_interaction_def [abs_def] Let_def by (intro reads.steps load)
qed

end
