(* ===== verification/Login_Samples.thy ===== *)
theory Login_Samples
  imports Login_Service Account_Samples Challenge_Properties
begin

text \<open>A small login: the user 7 with a password and a second factor, over a store that answers.\<close>

definition sample_credential :: "int \<Rightarrow> string \<Rightarrow> string \<Rightarrow> credential_row" where
  "sample_credential i kind hash =
     \<lparr>cr_id = i, cr_user = 7, cr_kind = kind, cr_key = PrimaryCredentialKey, cr_hash = hash, cr_cipher = [],
      cr_payload = [], cr_status = CredentialStatusActive, cr_verified = None, cr_used = None, cr_invalidated = None,
      cr_must_change = False, cr_password_changed = None, cr_creator = None, cr_created = None, cr_updater = None,
      cr_updated = None, cr_deleted = False\<rparr>"

definition sample_code_provider :: "unit step_provider" where
  "sample_code_provider =
     \<lparr>sp_prepare = (\<lambda>now i s x. (Inr s, x)),
      sp_verify = (\<lambda>now i m s x. (Inr (string_value (any_get m ''oneTimePassword'') = ''123456''
                                    \<or> string_value (any_get m ''captchaCode'') = ''abcd'', s), x)),
      sp_eligible = None, sp_refresh = None\<rparr>"

definition sample_proof :: anymap where
  "sample_proof = signed_payload
     \<lparr>pc_issuer = ''login-app'', pc_audiences = [''login-app''], pc_subject = ''user:7'', pc_business_action = ''LOGIN'',
      pc_challenge_identifier = ''challenge_n1'', pc_flow_nonce = ''n0'', pc_operation_binding = [],
      pc_methods = [''TIME_BASED_ONE_TIME_PASSWORD''], pc_token_identifier = ''j'', pc_issued_at = Some (10 * second),
      pc_expires_at = Some (70 * second)\<rparr>"

definition sample_login_env :: "(unit, unit) login_env" where
  "sample_login_env =
     \<lparr>le_prefix = ''seven'', le_sha1 = (\<lambda>s. s), le_sha256 = (\<lambda>s. s), le_captcha_threshold = 3, le_totp_threshold = 1,
      le_lock_threshold = 10, le_context_threshold = 10, le_lock_hours = 24, le_ttl = 300 * second,
      le_accounts = sample_account_env, le_challenge = sample_challenge_env\<lparr>ce_providers := \<lambda>t. Some sample_code_provider\<rparr>,
      le_jwt = (\<lambda>t. Inr sample_proof), le_password_ok = (\<lambda>raw hash. CHR ''#'' # raw = hash), le_platform = None,
      le_has_authorization = False, le_has_bootstrap = False, le_limiter = None, le_parse_address = Some,
      le_rp_id = ''localhost'', le_prompt_timeout = 60, le_random = Inr ''r''\<rparr>"

definition sample_login_world :: "(unit, unit) login_world" where
  "sample_login_world =
     \<lparr>lw_interactions = Map.empty, lw_texts = Map.empty, lw_faults = [], lw_challenge = sample_world,
      lw_accounts = sample_accounts\<lparr>ac_credentials := [sample_credential 1 CredentialTypePassword ''#secret'',
                                                      sample_credential 2 CredentialTypeTotp []]\<rparr>\<rparr>"

definition sample_ids :: ids where
  "sample_ids p i = (if i = 0 then ''n0'' else ''n1'')"

lemma sample_pending_fields [simp]:
  "le_prefix sample_login_env = ''seven''" "le_sha1 sample_login_env = (\<lambda>s. s)" "le_sha256 sample_login_env = (\<lambda>s. s)"
  "le_captcha_threshold sample_login_env = 3" "le_totp_threshold sample_login_env = 1"
  "le_lock_threshold sample_login_env = 10" "le_context_threshold sample_login_env = 10" "le_lock_hours sample_login_env = 24"
  "le_ttl sample_login_env = 300 * second" "le_accounts sample_login_env = sample_account_env"
  "le_password_ok sample_login_env raw hash \<longleftrightarrow> CHR ''#'' # raw = hash" "le_platform sample_login_env = None"
  "\<not> le_has_authorization sample_login_env" "\<not> le_has_bootstrap sample_login_env"
  by (simp_all add: sample_login_env_def)

lemma sample_login_state [simp]:
  "lw_interactions sample_login_world = Map.empty" "lw_texts sample_login_world = Map.empty" "lw_faults sample_login_world = []"
  "ac_db (lw_accounts sample_login_world) = sample_db"
  by (simp_all add: sample_login_world_def)

lemma sample_login_trims [simp]: "trim_space ''tx'' = ''tx''" "trim_space ''alice'' = ''alice''" "trim_space ''secret'' = ''secret''"
  by (rule trim_visible; simp add: visible_def)+

lemma visible_head: "visible c \<Longrightarrow> \<not> blank (c # s)"
  by (rule visible_not_blank) simp_all

lemma not_blank_samples [simp]: "\<not> blank (CHR ''a'' # s)" "\<not> blank (CHR ''c'' # s)" "\<not> blank (CHR ''l'' # s)"
  "\<not> blank (CHR ''s'' # s)" "\<not> blank (CHR ''t'' # s)" "\<not> blank (CHR ''P'' # s)"
  by (rule visible_head, simp add: visible_def)+

lemma sample_login_keys [simp]:
  "primary_lock_key sample_login_env ''tx'' = ''seven:login:primary-lock:tx''"
  "interaction_key sample_login_env ''tx'' = ''seven:login:interaction:tx''"
  "completed_key sample_login_env ''tx'' = ''seven:login:completed:tx''"
  "lock_keys sample_login_env ''alice'' = [''account_lock:sha256:alice'', ''account_lock:alice'', ''seven:login:lock:alice'']"
  "failure_keys sample_login_env ''alice'' = [''login_failure:sha256:alice'', ''login_failure:alice'', ''seven:login:failure:alice'']"
  "captcha_failure_keys sample_login_env ''alice''
     = [''captcha_failure:sha256:alice'', ''captcha_failure:alice'', ''seven:login:captcha-failure:alice'']"
  by code_simp+

lemma sample_login_subject: "find_subject_by_account sample_db ''alice'' = Some (sample_user 7 ''alice'')"
  by (simp add: find_subject_by_account_def sample_db_def sample_user_def)

text \<open>The stages of a login in a state that holds no lock and no failure of the user.\<close>

definition sample_quiet :: "time \<Rightarrow> (unit, unit) login_world \<Rightarrow> bool" where
  "sample_quiet now w \<longleftrightarrow> lw_faults w = [] \<and> ac_db (lw_accounts w) = sample_db \<and>
     (\<forall>k \<in> set [''account_lock:sha256:alice'', ''account_lock:alice'', ''seven:login:lock:alice'',
        ''login_failure:sha256:alice'', ''login_failure:alice'', ''seven:login:failure:alice'', ''seven:login:completed:tx''].
        kv_get now k (lw_texts w) = None)"

lemma sample_prepares:
  assumes "sample_quiet now w" "lw_interactions w = Map.empty"
  shows "prepare_interaction sample_login_env now ''tx'' [] ''alice'' None ''PASSWORD'' [] w =
    (Inr (''alice'', new_interaction sample_login_env now ''tx'' [] ''alice''), w)"
  using assms by (simp add: sample_quiet_def prepare_interaction_def Let_def load_interaction_def get_interaction_def
      login_command_def is_completed_def get_text_def kv_get_def bind_account_def new_interaction_def attach_platform_context_def)

lemma sample_unlocked:
  assumes "sample_quiet now w"
  shows "is_locked sample_login_env now ''alice'' w = (Inr (False, None), w)"
  using assms by (simp add: sample_quiet_def is_locked_def is_account_locked_def get_unlock_time_def get_lock_until_def
      get_text_def login_command_def unlock_time_of_subject_def find_login_subject_def subject_of_account_def
      sample_login_subject subject_locked_def user_locked_def sample_user_def UserStatusNormal_def)

lemma sample_no_failures:
  assumes "sample_quiet now w"
  shows "get_risk_failure_count sample_login_env now ''alice'' None w = (Inr 0, w)"
  using assms by (simp add: sample_quiet_def get_risk_failure_count_def login_failure_context_def risk_failure_count_def
      failure_count_def get_failure_count_def get_count_def get_text_def login_command_def context_signals_def Let_def)

lemma sample_unlock:
  "change_lock_state sample_account_env now 7 0 None NoTx a = (Inr (), a\<lparr>ac_db := update_lock_state 7 0 None (ac_db a)\<rparr>)"
  by (simp add: change_lock_state_def account_mutation_def run_invalidated_changing account_registrar_def
      authz_registrar_def account_tx_def lock_state_body_def status_guard_def end_sessions_def seq_body_def checked_def
      on_db_def change_db_def UserStatusNormal_def split: prod.split)

lemma sample_password: "find_active_password 7 (ac_credentials (lw_accounts sample_login_world))
    = Inr (Some (sample_credential 1 CredentialTypePassword ''#secret''))"
  by (simp add: find_active_password_def validate_user_id_def require_def find_single_active_def in_scope_def active_def
      sample_login_world_def sample_credential_def)

definition sample_success :: "password_answer" where
  "sample_success = no_answer\<lparr>pr_success := Some bare_success\<rparr>"

lemma sample_submits:
  "fst (submit_password sample_login_env 0 sample_ids ''tx'' [] ''alice'' ''secret'' [] None sample_login_world) = Inr sample_success"
proof -
  define w1 where "w1 = sample_login_world\<lparr>lw_texts := [''seven:login:primary-lock:tx'' \<mapsto> (''1'', Some (15 * second))]\<rparr>"
  have locked: "acquire_primary_lock sample_login_env 0 ''tx'' sample_login_world = (Inr True, w1)"
    by (simp add: acquire_primary_lock_def login_command_def kv_set_nx_def kv_get_def w1_def second_def sent_duration_def millisecond_def)
  have quiet: "sample_quiet 0 w1" "lw_interactions w1 = Map.empty" by (simp_all add: sample_quiet_def w1_def kv_get_def)
  have known: "subject_of_account ''alice'' w = (Inr (Some (sample_user 7 ''alice'')), w)" if "ac_db (lw_accounts w) = sample_db"
    for w :: "(unit, unit) login_world"
    using that by (simp add: subject_of_account_def sample_login_subject)
  have fields: "us_status (sample_user 7 ''alice'') = 0" "us_id (sample_user 7 ''alice'') = 7" "us_account (sample_user 7 ''alice'') = ''alice''"
    by (simp_all add: sample_user_def)
  have w1: "lw_accounts w1 = lw_accounts sample_login_world" "lw_faults w1 = []" by (simp_all add: w1_def)
  have stored: "stored_password (Some (sample_user 7 ''alice'')) w1 = (Inr (Some (sample_credential 1 CredentialTypePassword ''#secret'')), w1)"
    using sample_password by (simp add: stored_password_def password_usable_def fields user_enabled_def UserStatusNormal_def on_accounts_def w1)
  define s where "s = new_interaction sample_login_env 0 ''tx'' [] ''alice''"
  have accepted: "fst (accept_password sample_login_env 0 sample_ids ''tx'' s (sample_user 7 ''alice'') ''alice'' None 0 w1) = Inr sample_success"
    by (simp add: accept_password_def on_accounts_def on_credentials_def mark_password_used_def validate_user_id_def require_def
        fields save_interaction_def login_command_def w1 requires_totp_def clear_failure_state_def clear_failure_def
        delete_many_def delete_texts_def Let_def sync_user_lock_state_def known sample_unlock finish_login_def complete_login_def
        complete_with_bootstrap_def mark_completed_def set_text_def sample_success_def split: prod.split)
  then obtain w2 where "accept_password sample_login_env 0 sample_ids ''tx'' s (sample_user 7 ''alice'') ''alice'' None 0 w1
      = (Inr sample_success, w2)" by (metis prod.collapse)
  then show ?thesis
    by (simp add: submit_password_def locked submit_password_locked_def sample_prepares [OF quiet] sample_unlocked [OF quiet(1)]
        sample_no_failures [OF quiet(1)] pass_captcha_def requires_captcha_def judge_password_def known w1 stored
        password_matches_def sample_credential_def fields user_enabled_def UserStatusNormal_def UserStatusPendingReview_def s_def)
qed

end
