(* ===== verification/Login_Properties.thy ===== *)
theory Login_Properties
  imports Login_Frame Login_Samples
begin

text \<open>
  What makes a login safe: who may log in with a password, what a lock and a finished login shut out, and what
  they let through.
\<close>

section \<open>Users keep their names and their credentials\<close>

definition person :: "user_row \<Rightarrow> int \<times> string \<times> bool" where
  "person r = (us_id r, us_account r, us_deleted r)"

definition people :: "'w accounts \<Rightarrow> (int \<times> string \<times> bool) list \<times> credential_row list" where
  "people a = (map person (db_users (ac_db a)), ac_credentials a)"

definition same_people :: "('c, 'w) login_env \<Rightarrow> ('c, 'w) login_world \<Rightarrow> ('c, 'w) login_world \<Rightarrow> bool" where
  "same_people env w w' \<longleftrightarrow>
     (az_transactor (ae_authz (le_accounts env)) \<longrightarrow> people (lw_accounts w') = people (lw_accounts w))"

lemma people_like: "accounts_like a a' \<Longrightarrow> people a' = people a"
  by (auto simp: accounts_like_def db_like_def people_def)

lemma people_tables: "tables_same a a' \<Longrightarrow> people a' = people a"
  by (simp add: tables_same_def people_def)

lemma people_lock_body:
  assumes "lock_state_body env now user status unseal m a = (Inr x, a')"
  shows "people a' = people a"
proof -
  have "map person (db_users (update_lock_state user status unseal db)) = map person (db_users db)" for db
    by (simp add: update_lock_state_def update_where_def person_def)
  then show ?thesis using assms
    by (auto simp: lock_state_body_def account_steps change_db_def people_def status_guard_def end_sessions_def
        guard_deactivation_def revoke_of_user_def split: if_splits)
qed

lemma people_lock:
  assumes "az_transactor (ae_authz env)" "change_lock_state env now user status unseal NoTx a = (r, a')"
  shows "people a' = people a"
proof (cases "user \<le> 0")
  case True
  with assms(2) show ?thesis by (simp add: change_lock_state_def)
next
  case False
  then have "account_mutation env (lock_state_body env now user status unseal) NoTx a = (r, a')"
    using assms(2) by (simp add: change_lock_state_def)
  from account_mutation_cases [OF assms(1) this] show ?thesis
    by (metis people_like people_lock_body people_tables)
qed

interpretation kept: login_relation "same_people env" env for env :: "('c, 'w) login_env"
proof (unfold_locales, goal_cases)
  case (7 now user status unseal)
  show ?case
    by (rule withinI) (auto simp: same_people_def on_accounts_def split: prod.split dest: people_lock)
qed (auto simp: same_people_def)

lemma find_person: "find (\<lambda>r. Q (person r)) rows = None \<longleftrightarrow> find Q (map person rows) = None"
    "map_option person (find (\<lambda>r. Q (person r)) rows) = find Q (map person rows)"
  by (induction rows) auto

lemma find_subject_person:
  "map_option person (find_subject_by_account db account) =
     (if blank account then None else find (\<lambda>(_, n, gone). n = trim_space account \<and> \<not> gone) (map person (db_users db)))"
  using find_person(2) [of "\<lambda>(_, n, gone). n = trim_space account \<and> \<not> gone" "db_users db"]
  by (simp add: find_subject_by_account_def person_def)

lemma found_before:
  assumes "people a' = people a" "find_subject_by_account (ac_db a') account = Some r'"
  obtains r where "find_subject_by_account (ac_db a) account = Some r" "us_id r = us_id r'"
proof -
  have "map_option person (find_subject_by_account (ac_db a) account)
      = map_option person (find_subject_by_account (ac_db a') account)"
    unfolding find_subject_person using assms(1) by (simp add: people_def)
  then have "map_option person (find_subject_by_account (ac_db a) account) = Some (person r')"
    using assms(2) by simp
  with that show thesis by (auto simp: person_def)
qed

section \<open>The password\<close>

lemma accepted_password:
  assumes "judge_password env now u login s account raw q failures w = (Inr a, w')" "pr_success a \<noteq> None"
  obtains r c where "find_subject_by_account (ac_db (lw_accounts w)) account = Some r"
    "find_active_password (us_id r) (ac_credentials (lw_accounts w)) = Inr (Some c)" "le_password_ok env raw (cr_hash c)"
    "user_enabled (us_status r)"
proof -
  have refused: "pr_success b = None" if "refuse_password env now u s1 account q w1 = (Inr b, w2)" for s1 w1 w2 b
    using that by (auto simp: refuse_password_def then_do_Inr save_and_def no_answer_def Let_def split: if_splits)
  have saved [simp]: "save_and env now s1 (Inl e) w1 \<noteq> (Inr b, w2)" for s1 w1 w2 b and e
    by (simp add: save_and_def then_do_Inr)
  from assms obtain subject w1 credential w2 where subject: "subject_of_account account w = (Inr subject, w1)"
    and credential: "stored_password subject w1 = (Inr credential, w2)"
    and rest: "(case subject of
            None \<Rightarrow> refuse_password env now u s account q w2
          | Some r \<Rightarrow>
              if us_status r = UserStatusPendingReview \<and> password_matches env raw credential
              then save_and env now (s\<lparr>it_primary_satisfied := False\<rparr>)
                     (Inl (forbidden (utf8 [0x8D26, 0x53F7, 0x6B63, 0x5728, 0x5BA1, 0x6838, 0x4E2D, 0xFF0C, 0x8BF7, 0x7B49, 0x5F85, 0x7BA1, 0x7406, 0x5458, 0x5BA1, 0x6838, 0x901A, 0x8FC7]))) w2
              else if \<not> user_enabled (us_status r) \<or> \<not> password_matches env raw credential
              then refuse_password env now u s account q w2
              else accept_password env now u login s r account q failures w2) = (Inr a, w')"
    by (auto simp: judge_password_def then_do_Inr Let_def)
  have w1: "w1 = w" "subject = find_subject_by_account (ac_db (lw_accounts w)) account"
    using subject by (auto simp: subject_of_account_def split: if_splits)
  obtain r where r: "subject = Some r" "user_enabled (us_status r)" "password_matches env raw credential"
    using rest refused assms(2) by (cases subject) (auto split: if_splits)
  obtain c where "find_active_password (us_id r) (ac_credentials (lw_accounts w)) = Inr (Some c)" "le_password_ok env raw (cr_hash c)"
    using credential r w1 by (cases credential)
      (auto simp: stored_password_def password_usable_def on_accounts_def password_matches_def)
  with r w1 that show thesis by metis
qed


lemma captcha_asks:
  "pass_captcha env now u s account code q n w = (Inr (Inl answer), w') \<Longrightarrow> pr_success answer = None"
  by (auto simp: pass_captcha_def then_do_Inr save_and_def no_answer_def split: if_splits)

lemma prepared_account:
  "prepare_interaction env now login context account q kind provider w = (Inr (name, s), w') \<Longrightarrow> name = trim_space account"
  by (auto simp: prepare_interaction_def Let_def then_do_Inr if_ok_Inr split: if_splits)

text \<open>The stages of a submission that is not stopped before the password.\<close>

lemma submission_stages:
  assumes "submit_password env now u login context account raw code q w = (Inr a, w')" "pr_success a \<noteq> None"
  obtains w1 w2 s w3 e w4 n w5 s1 w6 where "acquire_primary_lock env now login w = (Inr True, w1)"
    "prepare_interaction env now login context account q ''PASSWORD'' [] w1 = (Inr (trim_space account, s), w3)"
    "is_locked env now (trim_space account) w3 = (Inr (False, e), w4)"
    "get_risk_failure_count env now (trim_space account) q w4 = (Inr n, w5)"
    "pass_captcha env now u s (trim_space account) code q n w5 = (Inr (Inr s1), w6)"
    "judge_password env now u login s1 (trim_space account) raw q n w6 = (Inr a, w2)"
proof -
  obtain w1 w2 where locked: "acquire_primary_lock env now login w = (Inr True, w1)"
    and inside: "submit_password_locked env now u login context account raw code q w1 = (Inr a, w2)"
    using assms(1) by (auto simp: submit_password_def then_do_Inr split: if_splits prod.splits)
  obtain name s w3 e w4 n w5 outcome w6 where
    prepared: "prepare_interaction env now login context account q ''PASSWORD'' [] w1 = (Inr (name, s), w3)"
    and checked: "is_locked env now name w3 = (Inr (False, e), w4)" "get_risk_failure_count env now name q w4 = (Inr n, w5)"
      "pass_captcha env now u s name code q n w5 = (Inr outcome, w6)"
    and judged: "(case outcome of Inl answer \<Rightarrow> (Inr answer, w6)
        | Inr s1 \<Rightarrow> judge_password env now u login s1 name raw q n w6) = (Inr a, w2)"
    using inside assms(2) by (auto simp: submit_password_locked_def then_do_Inr no_answer_def split: if_splits)
  have "outcome \<noteq> Inl answer" for answer
    using judged assms(2) checked(3) by (auto dest: captcha_asks)
  then obtain s1 where outcome: "outcome = Inr s1" by (cases outcome) auto
  have name: "name = trim_space account" using prepared_account [OF prepared] .
  show thesis
    using that [OF locked prepared [unfolded name] checked(1) [unfolded name] checked(2) [unfolded name]
        checked(3) [unfolded name outcome]] judged by (simp add: outcome name)
qed

text \<open>C6. Safety. A password submission that logs in names an account whose stored password is the one
  submitted, whatever the captcha, the failures of the store and the state of the counters.\<close>

theorem password_required:
  assumes "az_transactor (ae_authz (le_accounts env))"
    "submit_password env now u login context account raw code q w = (Inr a, w')" "pr_success a \<noteq> None"
  shows "\<exists>r c. find_subject_by_account (ac_db (lw_accounts w)) account = Some r \<and>
    find_active_password (us_id r) (ac_credentials (lw_accounts w)) = Inr (Some c) \<and> le_password_ok env raw (cr_hash c)"
  using submission_stages [OF assms(2,3)]
proof cases
  case (1 w1 w2 s w3 e w4 n w5 s1 w6)
  note before_password = withinD [OF kept.marks(3) 1(1)] withinD [OF kept.prepared 1(2)] withinD [OF kept.failures(1) 1(3)]
    withinD [OF kept.risk_of_request 1(4)] withinD [OF kept.password_stages(2) 1(5)]
  from before_password have before: "people (lw_accounts w6) = people (lw_accounts w)" using assms(1) by (simp add: same_people_def)
  show ?thesis
  proof (rule accepted_password [OF 1(6) assms(3)])
    fix r' c
    assume found: "find_subject_by_account (ac_db (lw_accounts w6)) (trim_space account) = Some r'"
      "find_active_password (us_id r') (ac_credentials (lw_accounts w6)) = Inr (Some c)" "le_password_ok env raw (cr_hash c)"
    obtain r where "find_subject_by_account (ac_db (lw_accounts w)) (trim_space account) = Some r" "us_id r = us_id r'"
      using found_before [OF before found(1)] .
    then show ?thesis using found(2,3) before by (auto simp: find_subject_by_account_def people_def)
  qed
qed

theorem password_required_witness:
  "\<exists>r c. find_subject_by_account sample_db ''alice'' = Some r \<and>
    find_active_password (us_id r) (ac_credentials (lw_accounts sample_login_world)) = Inr (Some c) \<and>
    le_password_ok sample_login_env ''secret'' (cr_hash c)"
proof -
  obtain w' where run: "submit_password sample_login_env 0 sample_ids ''tx'' [] ''alice'' ''secret'' [] None sample_login_world
      = (Inr sample_success, w')"
    using sample_submits by (metis prod.collapse)
  show ?thesis using password_required [OF _ run] by (simp add: sample_success_def)
qed

section \<open>A lock\<close>

text \<open>The lock of an account as the cache holds it: a number that is no past instant.\<close>

definition lock_in_force :: "('c, 'w) login_env \<Rightarrow> time \<Rightarrow> string \<Rightarrow> string kv \<Rightarrow> bool" where
  "lock_in_force env now account texts \<longleftrightarrow>
     (case kv_get now (hd (lock_keys env account)) texts of
        None \<Rightarrow> False
      | Some v \<Rightarrow> (case parse_int64 (trim_space v) of None \<Rightarrow> False | Some t \<Rightarrow> t \<le> 0 \<or> unix_milli now < t))"

lemma lock_read:
  assumes "lock_in_force env now account (lw_texts w)" "\<not> blank account"
    "get_unlock_time env now account w = (Inr t, w')"
  shows "t \<noteq> None \<and> lw_texts w' = lw_texts w"
proof -
  obtain v n where v: "kv_get now (hd (lock_keys env account)) (lw_texts w) = Some v"
    and n: "parse_int64 (trim_space v) = Some n" "n \<le> 0 \<or> unix_milli now < n"
    using assms(1) by (auto simp: lock_in_force_def split: option.splits)
  have texts: "x = kv_get now k (lw_texts w) \<and> lw_texts w1 = lw_texts w" if "get_text now k w = (Inr x, w1)" for k x w1
    using that by (auto simp: get_text_def login_command_def Let_def split: list.splits sql_outcome.splits)
  have first: "x = Some n \<and> lw_texts w1 = lw_texts w"
    if "first_number now (lock_keys env account) w = (Inr x, w1)" for x w1
  proof -
    obtain k ks where keys: "lock_keys env account = k # ks" by (simp add: lock_keys_def account_keys_def)
    with v have v1: "kv_get now k (lw_texts w) = Some v" by simp
    from that obtain raw w2 where raw: "get_text now k w = (Inr raw, w2)"
      and rest: "(case raw of
         None \<Rightarrow> first_number now ks w2
       | Some s \<Rightarrow> (case parse_int64 (trim_space s) of
                      None \<Rightarrow> first_number now ks w2
                    | Some n \<Rightarrow> (Inr (Some n), w2))) = (Inr x, w1)"
      by (auto simp: keys then_do_Inr)
    show ?thesis using texts [OF raw] rest v1 n(1) by auto
  qed
  show ?thesis using assms(2,3) n(2) first
    by (auto simp: get_unlock_time_def get_lock_until_def then_do_Inr)
qed

lemma lock_seen:
  assumes "lock_in_force env now account (lw_texts w)" "\<not> blank account"
    "is_locked env now (trim_space account) w = (Inr (l, e), w')"
  shows "l"
proof -
  have "hd (lock_keys env (trim_space account)) = hd (lock_keys env account)"
    by (simp add: lock_keys_def account_keys_def hashed_account_segment_def)
  then have force: "lock_in_force env now (trim_space account) (lw_texts w)"
    using assms(1) by (simp add: lock_in_force_def)
  have "locked" if run: "is_account_locked env now (trim_space account) w = (Inr locked, w1)" for locked w1
  proof -
    obtain t w2 where t: "get_unlock_time env now (trim_space account) w = (Inr t, w2)"
      using run by (auto simp: is_account_locked_def then_do_Inr)
    then show ?thesis using lock_read [OF force _ t] assms(2) run by (auto simp: is_account_locked_def)
  qed
  then show ?thesis using assms(2,3) by (auto simp: is_locked_def then_do_Inr split: if_splits)
qed

text \<open>The stages of the other two methods before the challenge is asked for.\<close>

lemma totp_stages:
  assumes "verify_totp env now u login context account code q w = (Inr a, w')" "fa_success a \<noteq> None"
  obtains s w1 e w2 where
    "prepare_interaction env now login context account q ''PASSWORD'' [] w = (Inr (trim_space account, s), w1)"
    "is_locked env now (trim_space account) w1 = (Inr (False, e), w2)" "0 < it_user s"
proof -
  obtain name s w1 e w2 where prepared:
    "prepare_interaction env now login context account q ''PASSWORD'' [] w = (Inr (name, s), w1)"
    and checked: "is_locked env now name w1 = (Inr (False, e), w2)" "0 < it_user s"
    using assms by (auto simp: verify_totp_def judge_totp_def then_do_Inr not_authenticated_def split: if_splits)
  show thesis using that prepared checked prepared_account [OF prepared] by metis
qed

lemma passkey_stages:
  assumes "verify_passkey env now u login context account credential q w = (Inr a, w')" "fa_success a \<noteq> None"
  obtains s w1 e w2 w3 where
    "prepare_interaction env now login context account q ''PASSKEY'' [] w = (Inr (trim_space account, s), w1)"
    "is_locked env now (trim_space account) w2 = (Inr (False, e), w3)" "lw_texts w2 = lw_texts w1"
proof -
  obtain name s w1 where prepared:
    "prepare_interaction env now login context account q ''PASSKEY'' [] w = (Inr (name, s), w1)"
    and rest: "then_do (subject_of_account name w1) (\<lambda>subject w2.
       case enabled_subject subject of
         None \<Rightarrow> (Inr not_authenticated, w2)
       | Some r \<Rightarrow>
           let s1 = s\<lparr>it_user := us_id r, it_account := us_account r\<rparr>
           in then_do (has_passkeys env (us_id r) w2) (\<lambda>some w3.
              if \<not> some then (Inr not_authenticated, w3)
              else then_do (is_locked env now name w3) (\<lambda>(locked, expires) w4.
                if locked then (Inr (not_authenticated\<lparr>fa_locked := True, fa_lock_expires := expires\<rparr>), w4)
                else case start_or_reuse_passkey env now u 0 s1 q w4 of
                       (Inl _, w5) \<Rightarrow> (Inr not_authenticated, w5)
                     | (Inr (c, s2), w5) \<Rightarrow> answer_passkey env now u login name credential q c s2 w5))) = (Inr a, w')"
    using assms by (auto simp: verify_passkey_def then_do_Inr)
  obtain subject w2 where subject: "subject_of_account name w1 = (Inr subject, w2)"
    using rest by (auto simp: then_do_Inr)
  obtain r where r: "enabled_subject subject = Some r"
    using rest subject assms(2) by (cases "enabled_subject subject") (auto simp: not_authenticated_def)
  obtain w3 e w4 where steps: "subject_of_account name w1 = (Inr subject, w2)"
    "has_passkeys env (us_id r) w2 = (Inr True, w3)" "is_locked env now name w3 = (Inr (False, e), w4)"
    using rest subject r assms(2) by (auto simp: then_do_Inr not_authenticated_def Let_def split: if_splits)
  have "lw_texts w3 = lw_texts w1"
    using steps(1,2) by (auto simp: subject_of_account_def has_passkeys_def on_accounts_def split: if_splits)
  with that steps(3) prepared prepared_account [OF prepared] show thesis by metis
qed

text \<open>C7. Safety. While the lock of an account is in force nobody logs in under its name: not with a password,
  not with a one-time code and not with a passkey, whatever is sent and whichever commands of the store fail.\<close>

theorem locked_account_refused:
  assumes "lock_in_force env now account (lw_texts w)" "\<not> blank account"
    "hd (lock_keys env account) \<noteq> primary_lock_key env login"
  shows "(case fst (submit_password env now u login context account raw code q w) of
            Inl _ \<Rightarrow> True | Inr a \<Rightarrow> pr_success a = None) \<and>
    (case fst (verify_totp env now u login context account code q w) of
       Inl _ \<Rightarrow> True | Inr a \<Rightarrow> fa_success a = None) \<and>
    (case fst (verify_passkey env now u login context account credential q w) of
       Inl _ \<Rightarrow> True | Inr a \<Rightarrow> fa_success a = None)"
proof (intro conjI)
  have prepared: "lw_texts w2 = lw_texts w1"
    if "prepare_interaction env now login context account q kind provider w1 = (r, w2)" for kind provider r w1 w2
    using withinD [OF reading_prepare that] by (auto simp: only_read_def)
  show "case fst (submit_password env now u login context account raw code q w) of
            Inl _ \<Rightarrow> True | Inr a \<Rightarrow> pr_success a = None"
  proof (cases "fst (submit_password env now u login context account raw code q w)")
    case (Inr a)
    then obtain w' where run: "submit_password env now u login context account raw code q w = (Inr a, w')"
      by (metis prod.collapse)
    have "pr_success a = None"
    proof (rule ccontr)
      assume "pr_success a \<noteq> None"
      from submission_stages [OF run this] show False
      proof cases
        case (1 w1 w2 s w3 e w4 n w5 s1 w6)
        have "kv_get now (hd (lock_keys env account)) (lw_texts w1) = kv_get now (hd (lock_keys env account)) (lw_texts w)"
          using 1(1) assms(3) by (auto simp: acquire_primary_lock_def login_command_def Let_def kv_set_nx_def kv_get_def
              split: list.splits sql_outcome.splits if_splits prod.splits)
        then have "lock_in_force env now account (lw_texts w3)"
          using assms(1) prepared [OF 1(2)] by (simp add: lock_in_force_def)
        from lock_seen [OF this assms(2) 1(3)] show False by simp
      qed
    qed
    with Inr show ?thesis by simp
  qed simp
  show "case fst (verify_totp env now u login context account code q w) of
       Inl _ \<Rightarrow> True | Inr a \<Rightarrow> fa_success a = None"
  proof (cases "verify_totp env now u login context account code q w")
    case (Pair r w')
    have "fa_success a = None" if "r = Inr a" for a
    proof (rule ccontr)
      assume "fa_success a \<noteq> None"
      from totp_stages [OF Pair [unfolded that] this] show False
        using lock_seen [OF _ assms(2)] assms(1) prepared by metis
    qed
    with Pair show ?thesis by (cases r) simp_all
  qed
  show "case fst (verify_passkey env now u login context account credential q w) of
       Inl _ \<Rightarrow> True | Inr a \<Rightarrow> fa_success a = None"
  proof (cases "verify_passkey env now u login context account credential q w")
    case (Pair r w')
    have "fa_success a = None" if "r = Inr a" for a
    proof (rule ccontr)
      assume "fa_success a \<noteq> None"
      from passkey_stages [OF Pair [unfolded that] this] show False
        using lock_seen [OF _ assms(2)] assms(1) prepared by metis
    qed
    with Pair show ?thesis by (cases r) simp_all
  qed
qed

definition sample_locked_world :: "(unit, unit) login_world" where
  "sample_locked_world = sample_login_world\<lparr>lw_texts := [''account_lock:sha256:alice'' \<mapsto> (''9'', Some (60 * second))]\<rparr>"

theorem locked_account_refused_witness:
  "(case fst (submit_password sample_login_env 0 sample_ids ''tx'' [] ''alice'' ''secret'' [] None sample_locked_world) of
      Inl _ \<Rightarrow> True | Inr a \<Rightarrow> pr_success a = None) \<and>
    (case fst (verify_totp sample_login_env 0 sample_ids ''tx'' [] ''alice'' ''123456'' None sample_locked_world) of
       Inl _ \<Rightarrow> True | Inr a \<Rightarrow> fa_success a = None) \<and>
    (case fst (verify_passkey sample_login_env 0 sample_ids ''tx'' [] ''alice'' \<lparr>as_credential = [], as_client_data = [],
        as_authenticator = [], as_signature = []\<rparr> None sample_locked_world) of
       Inl _ \<Rightarrow> True | Inr a \<Rightarrow> fa_success a = None)"
proof -
  have "show_int 9 = ''9''" by code_simp
  then have "parse_int64 (trim_space ''9'') = Some 9"
    using parse_show_int64 [of 9] trim_visible [of "''9''"] by (simp add: in_int64_def visible_def)
  then have "lock_in_force sample_login_env 0 ''alice'' (lw_texts sample_locked_world)"
    by (simp add: lock_in_force_def sample_locked_world_def kv_get_def second_def unix_milli_def)
  from locked_account_refused [OF this, of "''tx''"] show ?thesis by simp
qed

section \<open>A finished login\<close>

lemma accounts_same: "w = w\<lparr>lw_accounts := lw_accounts w\<rparr>"
  by simp

lemma on_accounts_part: "on_accounts body w = (r, w') \<Longrightarrow> \<exists>a. w' = w\<lparr>lw_accounts := a\<rparr>"
  by (auto simp: on_accounts_def split: prod.splits)

lemma completion_part:
  assumes "complete_login env now s q amr w = (Inr x, w')"
  shows "\<exists>a. w' = w\<lparr>lw_accounts := a\<rparr>"
proof -
  have bootstrap: "\<exists>a. w2 = w1\<lparr>lw_accounts := a\<rparr>" if "complete_with_bootstrap env now s q amr w1 = (Inr x, w2)" for w1 w2
    using that by (auto simp: complete_with_bootstrap_def Let_def then_do_Inr split: if_splits dest: on_accounts_part)
      (metis accounts_same)
  have session: "\<exists>a. w2 = w1\<lparr>lw_accounts := a\<rparr>" if "complete_with_session env now s amr w1 = (Inr x, w2)" for w1 w2
    using that by (auto simp: complete_with_session_def then_do_Inr dest: on_accounts_part)
  show ?thesis
    using assms by (auto simp: complete_login_def then_do_Inr split: if_splits dest!: on_accounts_part bootstrap session)
qed

lemma same_lock_keys:
  "interaction_key env (trim_space login) = interaction_key env login"
  "completed_key env (trim_space login) = completed_key env login"
  by (simp_all add: interaction_key_def completed_key_def build_cache_key_def encode_part_def sanitize_segment_def)

lemma join_segments_empty: "join_segments ss = [] \<longleftrightarrow> ss = [] \<or> ss = [[]]"
  by (cases ss rule: join_segments.cases) auto

lemma cache_key_nonempty:
  assumes "sanitize_segment namespace \<noteq> []"
  shows "build_cache_key sha1 prefix namespace name parts \<noteq> []"
proof -
  have "join_segments (filter (\<lambda>s. s \<noteq> []) xs) \<noteq> []" if "sanitize_segment namespace \<in> set xs" for xs
    using that assms by (auto simp: join_segments_empty filter_eq_Cons_iff filter_empty_conv)
  then show ?thesis by (simp add: build_cache_key_def Let_def join_segments_empty del: filter.simps map_append)
qed

lemma login_command_Inr:
  "login_command f w = (Inr x, w') \<Longrightarrow> \<exists>fs. f (w\<lparr>lw_faults := fs\<rparr>) = (Inr x, w') \<and> (lw_faults w = [] \<longrightarrow> fs = [])"
proof (cases "lw_faults w")
  case Nil
  then have same: "w\<lparr>lw_faults := []\<rparr> = w" by (cases w) simp
  assume "login_command f w = (Inr x, w')"
  then have "f w = (Inr x, w')" using Nil by (simp add: login_command_def)
  then show ?thesis by (intro exI [of _ "[]"]) (simp only: same simp_thms)
qed (auto simp: login_command_def Let_def split: sql_outcome.splits)

lemma login_command_state:
  "\<exists>fs. snd (login_command f w) = w\<lparr>lw_faults := fs\<rparr> \<and> lw_faults w \<noteq> [] \<or> snd (login_command f w) = snd (f (w\<lparr>lw_faults := fs\<rparr>))"
proof (cases "lw_faults w")
  case Nil
  then have same: "w\<lparr>lw_faults := []\<rparr> = w" by (cases w) simp
  with Nil show ?thesis by (intro exI [of _ "[]"] disjI2) (simp only: login_command_def list.case same)
next
  case (Cons outcome rest)
  then show ?thesis by (intro exI [of _ rest]) (cases outcome; simp add: login_command_def Let_def)
qed

lemma mark_read:
  assumes "lw_interactions w (interaction_key env login) = None" "kv_get now (completed_key env login) (lw_texts w) = Some v"
  shows "\<exists>e. fst (load_interaction env now login fresh w) = Inl e"
    "lw_faults w = [] \<Longrightarrow> fst (load_interaction env now login fresh w) = Inl login_over"
proof -
  have gone: "found = None \<and> lw_texts w1 = lw_texts w" if "get_interaction env now login w = (Inr found, w1)" for found w1
    using that assms(1) by (auto simp: get_interaction_def kv_get_def dest!: login_command_Inr)
  have over: "completed" if "is_completed env now login w1 = (Inr completed, w2)" "lw_texts w1 = lw_texts w" for completed w1 w2
    using that assms(2) by (auto simp: is_completed_def get_text_def then_do_Inr dest!: login_command_Inr)
  show "\<exists>e. fst (load_interaction env now login fresh w) = Inl e"
  proof (cases "load_interaction env now login fresh w")
    case (Pair r w')
    then show ?thesis using gone over
      by (cases r) (auto simp: load_interaction_def then_do_Inr split: option.splits if_splits)
  qed
  show "fst (load_interaction env now login fresh w) = Inl login_over" if "lw_faults w = []"
    using that assms by (simp add: load_interaction_def get_interaction_def is_completed_def get_text_def login_command_def
        kv_get_def)
qed

text \<open>C20. Safety. Once a login was completed, with any failures of the store on the way, either the pending login was
  removed, and then no request continues it while the mark that it is over lives: a login by any method
  and a registration fail, whatever commands fail, and fail because the login is over if the store
  answers; or the store failed and the removal, whose error is ignored, left the pending logins as they
  were.\<close>

theorem completed_login_closed:
  assumes finished: "finish_login env now login s q amr w = (Inr x, w')"
    and time: "now' < now + sent_duration (le_ttl env)" "0 < le_ttl env"
    and named: "trim_space login \<noteq> []" "trim_space account \<noteq> []" "trim_space context \<noteq> []"
  shows "(lw_faults w \<noteq> [] \<and> lw_interactions w' = lw_interactions w \<and> lw_interactions w (interaction_key env login) \<noteq> None) \<or>
    (\<forall>fs. (\<exists>e. fst (prepare_interaction env now' login context account q' kind provider (w'\<lparr>lw_faults := fs\<rparr>)) = Inl e) \<and>
      (\<exists>e. fst (prepare_register_interaction env now' login context account q' (w'\<lparr>lw_faults := fs\<rparr>)) = Inl e)) \<and>
    fst (prepare_interaction env now' login context account q' kind provider (w'\<lparr>lw_faults := []\<rparr>)) = Inl login_over \<and>
    fst (prepare_register_interaction env now' login context account q' (w'\<lparr>lw_faults := []\<rparr>)) = Inl login_over"
proof -
  obtain success w1 w2 where run: "complete_login env now s q amr w = (Inr success, w1)"
      "mark_completed env now login w1 = (Inr (), w2)" "w' = snd (remove_interaction env login w2)"
    using finished by (auto simp: finish_login_def then_do_Inr)
  from completion_part [OF run(1)] have first: "lw_interactions w1 = lw_interactions w" "lw_faults w1 = lw_faults w" by auto
  from run(2) obtain fs where "w2 = w1\<lparr>lw_faults := fs, lw_texts := kv_set now (completed_key env login) ''1'' (le_ttl env) (lw_texts w1)\<rparr>"
      "lw_faults w1 = [] \<longrightarrow> fs = []"
    by (auto simp: mark_completed_def set_text_def dest!: login_command_Inr)
  then have marked: "lw_texts w2 = kv_set now (completed_key env login) ''1'' (le_ttl env) (lw_texts w1)"
      "lw_interactions w2 = lw_interactions w" "lw_faults w2 \<noteq> [] \<Longrightarrow> lw_faults w \<noteq> []"
    using first by auto
  obtain fs' where removal: "w' = w2\<lparr>lw_faults := fs'\<rparr> \<and> lw_faults w2 \<noteq> [] \<or>
      w' = w2\<lparr>lw_faults := fs', lw_interactions := kv_delete_many [interaction_key env login] (lw_interactions w2)\<rparr>"
    using login_command_state [of "\<lambda>w. (Inr (), w\<lparr>lw_interactions := kv_delete_many [interaction_key env login] (lw_interactions w)\<rparr>)" w2]
    by (auto simp: run(3) remove_interaction_def)
  show ?thesis
  proof (cases "lw_faults w \<noteq> [] \<and> lw_interactions w' = lw_interactions w \<and> lw_interactions w (interaction_key env login) \<noteq> None")
    case False
    have "interaction_key env login \<noteq> []"
      unfolding interaction_key_def by (rule cache_key_nonempty) code_simp
    then have "lw_interactions w' (interaction_key env login) = None" "lw_texts w' = lw_texts w2"
      using False removal marked by (cases "lw_interactions w (interaction_key env login)"; auto simp: kv_delete_many_def)+
    then have "lw_interactions (w'\<lparr>lw_faults := fs\<rparr>) (interaction_key env (trim_space login)) = None"
      "kv_get now' (completed_key env (trim_space login)) (lw_texts (w'\<lparr>lw_faults := fs\<rparr>)) = Some ''1''" for fs
      using time by (simp_all add: same_lock_keys marked(1) kv_get_def kv_set_def)
    note refused = mark_read [OF this]
    have preparing: "\<exists>e. fst (then_do (load_interaction env now' (trim_space login) fresh (w'\<lparr>lw_faults := fs\<rparr>)) f) = Inl e"
      "fst (then_do (load_interaction env now' (trim_space login) fresh (w'\<lparr>lw_faults := []\<rparr>)) f) = Inl login_over" for fs fresh f
    proof -
      have "\<exists>e. fst (load_interaction env now' (trim_space login) fresh (w'\<lparr>lw_faults := fs\<rparr>)) = Inl e" by (rule refused(1))
      then show "\<exists>e. fst (then_do (load_interaction env now' (trim_space login) fresh (w'\<lparr>lw_faults := fs\<rparr>)) f) = Inl e"
        by (auto simp: then_do_def split: prod.splits sum.splits)
      have "fst (load_interaction env now' (trim_space login) fresh (w'\<lparr>lw_faults := []\<rparr>)) = Inl login_over"
        by (rule refused(2)) simp
      then show "fst (then_do (load_interaction env now' (trim_space login) fresh (w'\<lparr>lw_faults := []\<rparr>)) f) = Inl login_over"
        by (auto simp: then_do_def split: prod.splits sum.splits)
    qed
    show ?thesis
      unfolding prepare_interaction_def prepare_register_interaction_def Let_def
      by (intro disjI2 conjI allI) (simp_all only: named if_False simp_thms preparing)
  qed simp
qed

theorem completed_login_closed_witness:
  "\<exists>w'. finish_login sample_login_env 0 ''tx'' (new_interaction sample_login_env 0 ''tx'' [] ''alice'') None [''pwd'']
      sample_login_world = (Inr bare_success, w') \<and>
    fst (prepare_interaction sample_login_env (60 * second) ''tx'' ''cx'' ''alice'' None ''PASSWORD'' [] w') = Inl login_over"
proof -
  let ?run = "finish_login sample_login_env 0 ''tx'' (new_interaction sample_login_env 0 ''tx'' [] ''alice'') None [''pwd'']
      sample_login_world"
  have "fst ?run = Inr bare_success"
    by (simp add: finish_login_def complete_login_def complete_with_bootstrap_def mark_completed_def set_text_def login_command_def)
  then obtain w' where run: "?run = (Inr bare_success, w')" by (metis prod.collapse)
  from run have "lw_faults w' = []"
    by (auto simp: finish_login_def complete_login_def complete_with_bootstrap_def mark_completed_def set_text_def
        remove_interaction_def login_command_def)
  then have quiet: "w'\<lparr>lw_faults := []\<rparr> = w'" by (cases w') simp
  have "trim_space ''cx'' = ''cx''" by (rule trim_visible) (simp add: visible_def)
  then have "fst (prepare_interaction sample_login_env (60 * second) ''tx'' ''cx'' ''alice'' None ''PASSWORD'' [] w') = Inl login_over"
    using completed_login_closed [OF run, of "60 * second" "''alice''" "''cx''"] quiet
    by (simp add: sent_duration_def second_def millisecond_def)
  with run show ?thesis by blast
qed

end
