(* ===== verification/Login_Gaps.thy ===== *)
theory Login_Gaps
  imports Login_Properties Challenge_Lock
begin

text \<open>
  What the login lets through, or shuts out, against its purpose: a lock that has run out leaves the account
  disabled, a captcha that was solved once answers every later one, and a one-time code is taken where no
  password was given.
\<close>

section \<open>A lock that has run out\<close>

definition same_accounts :: "('c, 'w) login_world \<Rightarrow> ('c, 'w) login_world \<Rightarrow> bool" where
  "same_accounts w w' \<longleftrightarrow> lw_accounts w' = lw_accounts w"

interpretation caches: store_relation "same_accounts :: ('c, 'w) login_world \<Rightarrow> ('c, 'w) login_world \<Rightarrow> bool" env
  for env :: "('c, 'w) login_env"
  by unfold_locales (simp_all add: same_accounts_def)

lemma no_number:
  assumes "first_number now ks w = (Inr x, w')" "\<forall>k \<in> set ks. kv_get now k (lw_texts w) = None"
  shows "x = None \<and> lw_texts w' = lw_texts w \<and> lw_accounts w' = lw_accounts w"
  using assms
proof (induction ks arbitrary: w)
  case (Cons k ks)
  then obtain raw w1 where raw: "get_text now k w = (Inr raw, w1)"
    and rest: "(case raw of
         None \<Rightarrow> first_number now ks w1
       | Some s \<Rightarrow> (case parse_int64 (trim_space s) of
                      None \<Rightarrow> first_number now ks w1
                    | Some n \<Rightarrow> (Inr (Some n), w1))) = (Inr x, w')"
    by (auto simp: then_do_Inr)
  have same: "raw = None \<and> lw_texts w1 = lw_texts w \<and> lw_accounts w1 = lw_accounts w"
    using raw Cons.prems(2) by (auto simp: get_text_def login_command_def Let_def split: list.splits sql_outcome.splits)
  with Cons.IH [of w1] rest Cons.prems(2) show ?case by simp
qed simp

definition lock_gone :: "('c, 'w) login_env \<Rightarrow> time \<Rightarrow> string \<Rightarrow> string kv \<Rightarrow> bool" where
  "lock_gone env now account texts \<longleftrightarrow> (\<forall>k \<in> set (lock_keys env (trim_space account)). kv_get now k texts = None)"

definition lock_expired :: "time \<Rightarrow> user_row \<Rightarrow> bool" where
  "lock_expired now r \<longleftrightarrow> (case us_unseal r of None \<Rightarrow> True | Some t \<Rightarrow> t \<le> now)"

lemma subject_trimmed: "find_subject_by_account db (trim_space account) = find_subject_by_account db account"
  by (simp add: find_subject_by_account_def)

lemma not_locked_any_more:
  assumes "lock_gone env now account (lw_texts w)" "\<not> blank account"
    "find_subject_by_account (ac_db (lw_accounts w)) account = Some r" "lock_expired now r"
    "is_locked env now (trim_space account) w = (Inr (l, e), w')"
  shows "\<not> l \<and> lw_accounts w' = lw_accounts w"
proof -
  have found: "find_login_subject (trim_space account) w1 = (Inr (Some r), w1)"
    if "lw_accounts w1 = lw_accounts w" for w1
    using that assms(2,3) by (auto simp: find_login_subject_def subject_of_account_def find_subject_by_account_def)
  have free: "\<not> subject_locked now r"
    using assms(4) by (auto simp: subject_locked_def user_locked_def lock_expired_def split: option.splits)
  have unlock: "x = None \<and> lw_accounts w1 = lw_accounts w"
    if run: "get_unlock_time env now (trim_space account) w = (Inr x, w1)" for x w1
  proof -
    obtain until w2 where until: "first_number now (lock_keys env (trim_space account)) w = (Inr until, w2)"
      and rest: "(case until of
         Some t \<Rightarrow> if 0 < t \<and> t \<le> unix_milli now
                   then then_do (clear_failure env now (trim_space account) w2) (\<lambda>_ w2. (Inr None, w2))
                   else (Inr (Some t), w2)
       | None \<Rightarrow> unlock_time_of_subject env now (trim_space account) w2) = (Inr x, w1)"
      using run assms(2) by (auto simp: get_unlock_time_def get_lock_until_def then_do_Inr)
    have none: "until = None" "lw_accounts w2 = lw_accounts w"
      using no_number [OF until] assms(1) by (simp_all add: lock_gone_def)
    then show ?thesis using rest found [of w2] free by (simp add: unlock_time_of_subject_def)
  qed
  have "\<not> b \<and> lw_accounts w1 = lw_accounts w"
    if run: "is_account_locked env now (trim_space account) w = (Inr b, w1)" for b w1
  proof -
    obtain x w2 where step: "get_unlock_time env now (trim_space account) w = (Inr x, w2)"
      using run by (auto simp: is_account_locked_def then_do_Inr)
    with unlock [OF step] found [of w2] run free show ?thesis by (auto simp: is_account_locked_def)
  qed
  then show ?thesis using assms(2,5) by (auto simp: is_locked_def then_do_Inr split: if_splits)
qed

text \<open>C29. Error. An account whose lock has run out stays disabled: nothing counts it as locked, and nobody logs in
  with its password, although recording failures disabled it only for the time of the lock.\<close>

theorem expired_lock_not_lifted:
  assumes "find_subject_by_account (ac_db (lw_accounts w)) account = Some r" "us_status r = UserStatusDisabled"
    "lock_expired now r" "lock_gone env now account (lw_texts w)" "\<not> blank account"
    "primary_lock_key env login \<notin> set (lock_keys env (trim_space account))"
  shows "(case fst (is_locked env now (trim_space account) w) of Inl _ \<Rightarrow> True | Inr (l, _) \<Rightarrow> \<not> l) \<and>
    (case fst (submit_password env now u login context account raw code q w) of
       Inl _ \<Rightarrow> True | Inr a \<Rightarrow> pr_success a = None)"
proof
  show "case fst (is_locked env now (trim_space account) w) of Inl _ \<Rightarrow> True | Inr (l, _) \<Rightarrow> \<not> l"
    using not_locked_any_more [OF assms(4,5,1,3)] by (auto split: sum.split prod.split) (metis prod.collapse)
  show "case fst (submit_password env now u login context account raw code q w) of
       Inl _ \<Rightarrow> True | Inr a \<Rightarrow> pr_success a = None"
  proof (cases "submit_password env now u login context account raw code q w")
    case (Pair answer w')
    have "pr_success a = None" if "answer = Inr a" for a
    proof (rule ccontr)
      assume success: "pr_success a \<noteq> None"
      from submission_stages [OF Pair [unfolded that] this] show False
      proof cases
        case (1 w1 w2 s w3 e w4 n w5 s1 w6)
        have acc3: "lw_accounts w3 = lw_accounts w"
          using withinD [OF caches.marks(3) 1(1)] withinD [OF caches.prepared 1(2)] by (simp add: same_accounts_def)
        have "lw_texts w3 = lw_texts w1" using withinD [OF reading_prepare 1(2)] by (auto simp: only_read_def)
        moreover have "kv_get now k (lw_texts w1) = kv_get now k (lw_texts w)" if "k \<in> set (lock_keys env (trim_space account))" for k
          using 1(1) assms(6) that by (auto simp: acquire_primary_lock_def login_command_def Let_def kv_set_nx_def kv_get_def
              split: list.splits sql_outcome.splits if_splits prod.splits)
        ultimately have "lock_gone env now account (lw_texts w3)" using assms(4) by (simp add: lock_gone_def)
        then have "lw_accounts w4 = lw_accounts w"
          using not_locked_any_more [OF _ assms(5) _ assms(3) 1(3)] assms(1) acc3 by simp
        then have acc6: "lw_accounts w6 = lw_accounts w"
          using withinD [OF caches.risk_of_request 1(4)] withinD [OF caches.password_stages(2) 1(5)] by (simp add: same_accounts_def)
        show False
        proof (rule accepted_password [OF 1(6) success])
          fix r' c
          assume "find_subject_by_account (ac_db (lw_accounts w6)) (trim_space account) = Some r'" "user_enabled (us_status r')"
          then show False using assms(1,2)
            by (auto simp: acc6 subject_trimmed user_enabled_def UserStatusDisabled_def UserStatusNormal_def)
        qed
      qed
    qed
    with Pair show ?thesis by (cases answer) simp_all
  qed
qed

definition sample_disabled_world :: "(unit, unit) login_world" where
  "sample_disabled_world = sample_login_world\<lparr>lw_accounts := (lw_accounts sample_login_world)\<lparr>ac_db :=
     sample_db\<lparr>db_users := [(sample_user 7 ''alice'')\<lparr>us_status := UserStatusDisabled, us_unseal := Some second\<rparr>]\<rparr>\<rparr>\<rparr>"

theorem expired_lock_not_lifted_witness:
  "(case fst (is_locked sample_login_env second ''alice'' sample_disabled_world) of Inl _ \<Rightarrow> True | Inr (l, _) \<Rightarrow> \<not> l) \<and>
    (case fst (submit_password sample_login_env second sample_ids ''tx'' [] ''alice'' ''secret'' [] None sample_disabled_world) of
       Inl _ \<Rightarrow> True | Inr a \<Rightarrow> pr_success a = None)"
proof -
  let ?r = "(sample_user 7 ''alice'')\<lparr>us_status := UserStatusDisabled, us_unseal := Some second\<rparr>"
  have "find_subject_by_account (ac_db (lw_accounts sample_disabled_world)) ''alice'' = Some ?r"
    by (simp add: find_subject_by_account_def sample_disabled_world_def sample_user_def)
  from expired_lock_not_lifted [OF this, where env = sample_login_env and now = second and login = "''tx''"]
  show ?thesis by (simp add: lock_expired_def lock_gone_def sample_disabled_world_def kv_get_def)
qed

section \<open>A captcha that was solved\<close>

text \<open>The captcha a pending login keeps was solved, and its challenge can be read and answered.\<close>

definition solved_captcha :: "time \<Rightarrow> string \<Rightarrow> challenge_session \<Rightarrow> 'c challenge_world \<Rightarrow> bool" where
  "solved_captcha now ident cs c \<longleftrightarrow>
     kv_get now (challenge_session_cache_key ident) (cw_sessions c) = Some cs \<and> cw_faults c = [] \<and>
     challenge_identifier cs = ident \<and> session_state cs = ChallengePassed \<and> \<not> is_expired cs now \<and>
     trim_space (string_value (any_get (session_context cs) ''proofToken'')) \<noteq> [] \<and>
     kv_get now (challenge_submit_lock_cache_key ident) (cw_texts c) = None \<and>
     find_step_identifier (to_start_response cs now) ''IMAGE_CAPTCHA'' \<noteq> []"

lemma solved_answers:
  assumes "solved_captcha now ident cs c" "\<not> blank ident"
  shows "get_challenge now ident c = (Inr (to_start_response cs now), c)"
    "\<exists>c'. respond env now token jti ident step payload c = (Inr (passed_response
       (trim_space (string_value (any_get (session_context cs) ''proofToken'')))), c')"
proof -
  have get: "get_session now ident c1 = (Inr cs, c1)"
    if "cw_sessions c1 = cw_sessions c" "cw_faults c1 = []" for c1
    using assms that by (simp add: get_session_def repo_get_session_def solved_captcha_def challenge_session_cache_key_def)
  show "get_challenge now ident c = (Inr (to_start_response cs now), c)"
    using get [of c] assms(1) by (simp add: get_challenge_def solved_captcha_def)
  obtain c1 where c1: "acquire_submit_lock now token ident (15 * second) c = (Inr True, c1)"
    "cw_sessions c1 = cw_sessions c" "cw_faults c1 = []"
    using assms by (simp add: acquire_submit_lock_def solved_captcha_def kv_set_nx_def second_def)
  have "respond_locked env now jti ident step payload c1 = (Inr (passed_response
       (trim_space (string_value (any_get (session_context cs) ''proofToken'')))), c1)"
    using get [OF c1(2,3)] assms(1) by (simp add: respond_locked_def build_passed_response_def solved_captcha_def)
  then show "\<exists>c'. respond env now token jti ident step payload c = (Inr (passed_response
       (trim_space (string_value (any_get (session_context cs) ''proofToken'')))), c')"
    by (simp add: respond_def under_submit_lock_def c1(1) Let_def)
qed

lemma solved_captcha_passes:
  assumes "solved_captcha now (it_primary_challenge s) cs (lw_challenge w)" "\<not> blank (it_primary_challenge s)"
    "lw_faults w = []" "\<not> blank code"
  shows "fst (pass_captcha env now u s account code q failures w)
      = Inr (Inr (s\<lparr>it_primary_satisfied := requires_captcha env failures \<or> it_primary_satisfied s\<rparr>))"
proof (cases "requires_captcha env failures \<and> \<not> it_primary_satisfied s")
  case False
  then show ?thesis by (cases s) (auto simp: pass_captcha_def)
next
  case True
  let ?ident = "it_primary_challenge s"
  have started: "start_or_reuse_primary env now u 0 s account q w = (Inr (to_start_response cs now, s), w)"
    using assms(2) solved_answers(1) [OF assms(1,2)]
    by (simp add: start_or_reuse_primary_def get_at_def on_challenge_def split: prod.split)
  have ident: "st_challenge_identifier (to_start_response cs now) = ?ident"
    "find_step_identifier (to_start_response cs now) ''IMAGE_CAPTCHA'' \<noteq> []"
    using assms(1) by (auto simp: to_start_response_def solved_captcha_def)
  let ?t = "trim_space (string_value (any_get (session_context cs) ''proofToken''))"
  let ?step = "find_step_identifier (to_start_response cs now) ''IMAGE_CAPTCHA''"
  obtain c' where answered: "respond_at env now u 0 ?ident ?step [''captchaCode'' \<mapsto> AStr (trim_space code)] w
      = (Inr (passed_response ?t), w\<lparr>lw_challenge := c'\<rparr>)"
    using solved_answers(2) [OF assms(1,2), of "le_challenge env" "u 3 0" "u 3 1" ?step "[''captchaCode'' \<mapsto> AStr (trim_space code)]"]
    by (auto simp: respond_at_def on_challenge_def)
  have passes: "passed (passed_response ?t)"
    by (simp add: passed_def passed_response_def) code_simp
  have "fst (clear_captcha_failure_state env account (w\<lparr>lw_challenge := c'\<rparr>)) = Inr ()"
    using assms(3) by (simp add: clear_captcha_failure_state_def clear_captcha_failure_def delete_many_def delete_texts_def
        login_command_def Let_def)
  then obtain w1 where "clear_captcha_failure_state env account (w\<lparr>lw_challenge := c'\<rparr>) = (Inr (), w1)"
    by (metis prod.collapse)
  then have "verify_primary_captcha env now u 0 s account code q w = (Inr (None, s\<lparr>it_primary_satisfied := True\<rparr>), w1)"
    using started ident answered passes by (simp add: verify_primary_captcha_def Let_def)
  then show ?thesis using True assms(4) by (simp add: pass_captcha_def)
qed

text \<open>Noting a failure touches neither the challenges nor, with a store that answers, the schedule.\<close>

definition undisturbed :: "('c, 'w) login_world \<Rightarrow> ('c, 'w) login_world \<Rightarrow> bool" where
  "undisturbed w w' \<longleftrightarrow> lw_challenge w' = lw_challenge w \<and> (lw_faults w = [] \<longrightarrow> lw_faults w' = [])"

interpretation calm: lock_relation "undisturbed :: ('c, 'w) login_world \<Rightarrow> ('c, 'w) login_world \<Rightarrow> bool" env
  for env :: "('c, 'w) login_env"
proof (unfold_locales, goal_cases)
  case (5 now user status unseal)
  show ?case by (rule withinI) (auto simp: undisturbed_def on_accounts_def split: prod.split)
qed (simp_all add: undisturbed_def)

lemma saved_interaction:
  assumes "lw_faults w = []"
  shows "\<exists>r d. save_and env now s answer w = (answer, r) \<and> lw_interactions r (interaction_key env (it_login s)) = Some (s, d) \<and>
    lw_challenge r = lw_challenge w \<and> lw_faults r = []"
  using assms by (auto simp: save_and_def save_interaction_def login_command_def kv_set_def)

lemma refusal_keeps_captcha:
  assumes solved: "solved_captcha now (it_primary_challenge s) cs (lw_challenge w)" "\<not> blank (it_primary_challenge s)"
    and store: "lw_faults w = []" "fst (note_failure env now account q w) = Inr v"
    and refused: "refuse_password env now u s account q w = (r, w')"
  shows "\<exists>d. lw_interactions w' (interaction_key env (it_login s)) = Some (s\<lparr>it_primary_satisfied := False\<rparr>, d) \<and>
    lw_challenge w' = lw_challenge w \<and> lw_faults w' = []"
proof -
  let ?s = "s\<lparr>it_primary_satisfied := False\<rparr>" and ?ident = "it_primary_challenge s"
  obtain n locked expires w1 where noted: "note_failure env now account q w = (Inr (n, locked, expires), w1)"
    using store(2) by (metis prod.collapse prod_cases3)
  from withinD [OF calm.failures(3) noted] store(1) have w1: "lw_challenge w1 = lw_challenge w" "lw_faults w1 = []"
    by (simp_all add: undisturbed_def)
  from solved(1) w1(1) have again: "solved_captcha now ?ident cs (lw_challenge w1)" by simp
  have found: "get_at now ?ident w1 = (Inr (to_start_response cs now), w1)"
    using solved_answers(1) [OF again solved(2)] by (simp add: get_at_def on_challenge_def)
  obtain c where "captcha_of (to_start_response cs now) = Inr c"
    using solved(1) by (auto simp: solved_captcha_def captcha_of_def find_step_identifier_def split: option.splits)
  then have shown: "resolve_primary_captcha env now u 20 ?s account q w1 = (Inr (c, ?s), w1)"
    using solved(2) found by (simp add: resolve_primary_captcha_def start_or_reuse_primary_def)
  have "\<exists>answer. refuse_password env now u s account q w = save_and env now ?s answer w1"
    by (simp add: refuse_password_def noted shown Let_def) blast
  then obtain answer where "save_and env now ?s answer w1 = (r, w')" using refused by metis
  with saved_interaction [OF w1(2), of env now ?s answer] w1(1) show ?thesis by auto
qed

lemma shown_step: "find_step_identifier (to_start_response cs now') t = find_step_identifier (to_start_response cs now) t"
proof -
  have "find_step_identifier (to_start_response cs now) t =
      (case find (\<lambda>i. type_name (challenge_type (steps cs ! i)) = t) [0..<length (steps cs)] of
         None \<Rightarrow> [] | Some i \<Rightarrow> step_identifier (steps cs ! i))" for now
  proof -
    have "find (\<lambda>v. sv_type v = t) (map (view_step cs now) is) =
        map_option (view_step cs now) (find (\<lambda>i. type_name (challenge_type (steps cs ! i)) = t) is)" for "is"
      by (induction "is") (simp_all add: view_step_def Let_def)
    then show ?thesis
      by (simp add: find_step_identifier_def find_view_def to_start_response_def view_step_def Let_def split: option.split)
  qed
  then show ?thesis by simp
qed

text \<open>C27. Error. A captcha that was solved once lets every later password through. After a wrong password, with a
  store that answers, the pending login is saved with the challenge it had, and that challenge is still
  the passed one; from then on, while the session of the challenge lives, the next attempt passes the
  captcha with any code that is not blank.\<close>

theorem solved_captcha_reused:
  assumes solved: "solved_captcha now (it_primary_challenge s) cs (lw_challenge w)" "\<not> blank (it_primary_challenge s)"
    and store: "lw_faults w = []" "fst (note_failure env now account q w) = Inr v"
    and refused: "refuse_password env now u s account q w = (r, w')"
    and later: "\<not> is_expired cs now'"
      "kv_get now' (challenge_session_cache_key (it_primary_challenge s)) (cw_sessions (lw_challenge w)) = Some cs"
      "kv_get now' (challenge_submit_lock_cache_key (it_primary_challenge s)) (cw_texts (lw_challenge w)) = None"
    and code: "\<not> blank code"
  shows "\<exists>s' d. lw_interactions w' (interaction_key env (it_login s)) = Some (s', d) \<and>
    it_primary_challenge s' = it_primary_challenge s \<and> \<not> it_primary_satisfied s' \<and>
    fst (pass_captcha env now' u' s' account' code q' failures w')
      = Inr (Inr (s'\<lparr>it_primary_satisfied := requires_captcha env failures\<rparr>))"
proof -
  let ?s = "s\<lparr>it_primary_satisfied := False\<rparr>"
  obtain d where kept: "lw_interactions w' (interaction_key env (it_login s)) = Some (?s, d)"
      "lw_challenge w' = lw_challenge w" "lw_faults w' = []"
    using refusal_keeps_captcha [OF solved store refused] by blast
  have "find_step_identifier (to_start_response cs now') ''IMAGE_CAPTCHA''
      = find_step_identifier (to_start_response cs now) ''IMAGE_CAPTCHA''"
    by (rule shown_step)
  then have "solved_captcha now' (it_primary_challenge ?s) cs (lw_challenge w')"
    using solved(1) later kept(2) by (simp add: solved_captcha_def)
  from solved_captcha_passes [OF this _ kept(3) code, of env u' account' q' failures] solved(2) kept(1)
  show ?thesis by (intro exI [of _ ?s] exI [of _ d]) simp
qed

text \<open>A session of the login with one captcha, in a given state.\<close>

definition sample_captcha :: "challenge_state \<Rightarrow> challenge_session" where
  "sample_captcha st = sample_built\<lparr>challenge_identifier := ''c'', session_state := st,
     session_context := [''proofToken'' \<mapsto> AStr ''t'']\<rparr>"

definition sample_pending :: interaction where
  "sample_pending = (new_interaction sample_login_env 0 ''tx'' [] ''alice'')\<lparr>it_primary_challenge := ''c'', it_primary_nonce := ''n0''\<rparr>"

definition sample_captcha_world :: "challenge_state \<Rightarrow> (unit, unit) login_world" where
  "sample_captcha_world st = sample_login_world\<lparr>lw_challenge := sample_world\<lparr>
     cw_sessions := [''challenge:session:c'' \<mapsto> (sample_captcha st, None)],
     cw_texts := [''challenge:idempotency:LOGIN_PRIMARY|tx|n0'' \<mapsto> (''c'', None)]\<rparr>\<rparr>"

lemma sample_captcha_simps [simp]:
  "trim_space ''c'' = ''c''" "trim_space ''t'' = ''t''" "challenge_identifier (sample_captcha st) = ''c''"
  "session_state (sample_captcha st) = st" "\<not> is_expired (sample_captcha st) 0"
  "it_primary_challenge sample_pending = ''c''" "it_primary_nonce sample_pending = ''n0''" "it_login sample_pending = ''tx''"
  "\<not> blank ''n0''"
  by (simp_all add: sample_captcha_def sample_built_fields is_expired_def second_def sample_pending_def new_interaction_def
      trim_visible visible_head visible_def)

lemma sample_captcha_step: "find_step_identifier (to_start_response (sample_captcha st) 0) ''IMAGE_CAPTCHA'' \<noteq> []"
  by (simp add: find_step_identifier_def find_view_def to_start_response_def sample_captcha_def sample_built_fields view_step_def
      Let_def sample_login_step_def build_step_def)

lemma sample_captcha_lookup:
  "kv_get 0 (challenge_session_cache_key ''c'') (cw_sessions (lw_challenge (sample_captcha_world st))) = Some (sample_captcha st)"
  "kv_get 0 (challenge_submit_lock_cache_key ''c'') (cw_texts (lw_challenge (sample_captcha_world st))) = None"
  "cw_faults (lw_challenge (sample_captcha_world st)) = []" "lw_faults (sample_captcha_world st) = []"
  by (simp_all add: sample_captcha_world_def challenge_session_cache_key_def challenge_submit_lock_cache_key_def kv_get_def
      sample_world_def)

lemma sample_failure_noted:
  assumes "lw_faults w = []" "lw_texts w = Map.empty" "ac_db (lw_accounts w) = sample_db"
  shows "\<exists>v. fst (note_failure sample_login_env 0 ''alice'' None w) = Inr v"
proof -
  have texts: "show_int 1 = ''1''" "parse_int64 (trim_space ''1'') = Some 1" "wrap64 1 = 1" by code_simp+
  let ?w = "w\<lparr>lw_texts := kv_set 0 ''login_failure:sha256:alice'' ''1'' failureExpireTTL Map.empty\<rparr>"
  have recorded: "record_login_failure sample_login_env 0 ''alice'' [] [] w = (Inr (), ?w)"
    using assms texts by (simp add: record_login_failure_def get_failure_count_def get_count_def get_text_def login_command_def
        kv_get_def save_failure_count_def set_text_def context_signals_def Let_def lock_threshold_def context_lock_threshold_def
        visible_head visible_def)
  have risk: "risk_failure_count sample_login_env 0 ''alice'' [] [] ?w = (Inr 1, ?w)"
    using assms texts by (simp add: risk_failure_count_def failure_count_def get_failure_count_def get_count_def get_text_def
        login_command_def kv_get_def kv_set_def failureExpireTTL_def sent_duration_def second_def millisecond_def hour_def minute_def
        context_signals_def Let_def visible_head visible_def)
  have "is_account_locked sample_login_env 0 ''alice'' ?w = (Inr False, ?w)"
    using assms by (simp add: is_account_locked_def get_unlock_time_def get_lock_until_def get_text_def login_command_def
        kv_get_def kv_set_def unlock_time_of_subject_def find_login_subject_def subject_of_account_def sample_login_subject
        subject_locked_def user_locked_def sample_user_def UserStatusNormal_def)
  then have "fst (note_failure sample_login_env 0 ''alice'' None w) = Inr (1, False, None)"
    using recorded risk by (simp add: note_failure_def login_failure_context_def)
  then show ?thesis ..
qed

theorem solved_captcha_reused_witness:
  "\<exists>r w' s'. refuse_password sample_login_env 0 sample_ids sample_pending ''alice'' None (sample_captcha_world ChallengePassed) = (r, w') \<and>
    it_primary_challenge s' = ''c'' \<and>
    fst (pass_captcha sample_login_env 0 sample_ids s' ''alice'' ''wrong'' None 3 w') = Inr (Inr (s'\<lparr>it_primary_satisfied := True\<rparr>))"
proof -
  let ?w = "sample_captcha_world ChallengePassed"
  have "any_get (session_context (sample_captcha st)) ''proofToken'' = AStr ''t''" for st by (simp add: sample_captcha_def)
  then have solved: "solved_captcha 0 (it_primary_challenge sample_pending) (sample_captcha ChallengePassed) (lw_challenge ?w)"
    using sample_captcha_step sample_captcha_lookup by (simp add: solved_captcha_def)
  have challenge: "\<not> blank (it_primary_challenge sample_pending)" by simp
  have "lw_texts ?w = Map.empty" "ac_db (lw_accounts ?w) = sample_db" by (simp_all add: sample_captcha_world_def)
  from sample_failure_noted [OF sample_captcha_lookup(4) this]
  obtain v where noted: "fst (note_failure sample_login_env 0 ''alice'' None ?w) = Inr v" by blast
  obtain r w' where refused: "refuse_password sample_login_env 0 sample_ids sample_pending ''alice'' None ?w = (r, w')" by fastforce
  have rest: "\<not> is_expired (sample_captcha ChallengePassed) 0"
    "kv_get 0 (challenge_session_cache_key (it_primary_challenge sample_pending)) (cw_sessions (lw_challenge ?w))
       = Some (sample_captcha ChallengePassed)"
    "kv_get 0 (challenge_submit_lock_cache_key (it_primary_challenge sample_pending)) (cw_texts (lw_challenge ?w)) = None"
    "\<not> blank ''wrong''"
    using sample_captcha_lookup by (simp_all add: visible_head visible_def)
  from solved_captcha_reused [OF solved challenge sample_captcha_lookup(4) noted refused rest, of sample_ids "''alice''" None 3] refused
  show ?thesis by (auto simp: requires_captcha_def)
qed

section \<open>A captcha that was failed\<close>

text \<open>The captcha a pending login keeps was failed for good, and its challenge can be read and answered.\<close>

definition failed_captcha :: "time \<Rightarrow> interaction \<Rightarrow> challenge_session \<Rightarrow> 'c challenge_world \<Rightarrow> bool" where
  "failed_captcha now s cs c \<longleftrightarrow>
     kv_get now (challenge_session_cache_key (it_primary_challenge s)) (cw_sessions c) = Some cs \<and> cw_faults c = [] \<and>
     challenge_identifier cs = it_primary_challenge s \<and> session_state cs = ChallengeFailed \<and> \<not> is_expired cs now \<and>
     kv_get now (challenge_submit_lock_cache_key (it_primary_challenge s)) (cw_texts c) = None \<and>
     kv_get now (challenge_idempotency_cache_key (''LOGIN_PRIMARY|'' @ it_login s @ ''|'' @ it_primary_nonce s)) (cw_texts c)
       = Some (it_primary_challenge s) \<and>
     find_step_identifier (to_start_response cs now) ''IMAGE_CAPTCHA'' \<noteq> []"

lemma lock_and_idempotency [simp]: "challenge_submit_lock_cache_key x \<noteq> challenge_idempotency_cache_key y"
  "challenge_idempotency_cache_key y \<noteq> challenge_submit_lock_cache_key x"
  by (simp_all add: challenge_submit_lock_cache_key_def challenge_idempotency_cache_key_def)

lemma refused_under_lock:
  assumes "\<not> blank ident" "cw_faults c = []" "kv_get now (challenge_submit_lock_cache_key ident) (cw_texts c) = None"
    "\<And>t. body (c\<lparr>cw_texts := t\<rparr>) = (Inl e, c\<lparr>cw_texts := t\<rparr>)"
  shows "\<exists>t. under_submit_lock now token ident body c = (Inl e, c\<lparr>cw_texts := t\<rparr>) \<and>
    (\<forall>k. k \<noteq> challenge_submit_lock_cache_key ident \<longrightarrow> t k = cw_texts c k)"
proof -
  let ?k = "challenge_submit_lock_cache_key ident"
  let ?t = "(cw_texts c)(?k \<mapsto> (token, Some (now + 15 * second)))"
  have taken: "acquire_submit_lock now token ident (15 * second) c = (Inr True, c\<lparr>cw_texts := ?t\<rparr>)"
    using acquire_unfold [OF assms(1,2)] assms(3) by simp
  have released: "\<exists>t2. snd (release_submit_lock now ident token (c\<lparr>cw_texts := ?t\<rparr>)) = c\<lparr>cw_texts := t2\<rparr> \<and>
      (\<forall>k. k \<noteq> ?k \<longrightarrow> t2 k = cw_texts c k)"
  proof (cases "blank token")
    case True
    then show ?thesis by (auto simp: release_blank intro: exI [of _ ?t])
  next
    case False
    then show ?thesis using assms(1,2) by (auto simp: release_unfold)
  qed
  then obtain t2 where "snd (release_submit_lock now ident token (c\<lparr>cw_texts := ?t\<rparr>)) = c\<lparr>cw_texts := t2\<rparr>"
    "\<And>k. k \<noteq> ?k \<Longrightarrow> t2 k = cw_texts c k" by blast
  then show ?thesis by (auto simp: under_submit_lock_def taken assms(4))
qed

lemma login_policy: "lookup_challenge_action_policy ''LOGIN'' = Some (challenge_action_policies ActLogin)"
    "\<not> requires_operation_binding (challenge_action_policies ActLogin)"
  using lookup_action_name [of ActLogin] by (simp_all add: requires_operation_binding_def bare_policy_def)

text \<open>C28. Error. A captcha that was answered wrong too often is never replaced while its challenge lives: a refresh
  gives the same challenge again, and every answer to it is an error.\<close>

theorem failed_captcha_kept:
  assumes "failed_captcha now s cs (lw_challenge w)" "\<not> blank (it_primary_challenge s)" "\<not> blank (it_primary_nonce s)"
  shows "fst (refresh_or_start_primary env now u b s account q w)
      = Inr (to_start_response cs now, s\<lparr>it_primary_satisfied := False\<rparr>) \<and>
    fst (verify_primary_captcha env now u b s account code q w) = Inl not_continuable"
proof
  let ?ident = "it_primary_challenge s" and ?c = "lw_challenge w"
  let ?step = "find_step_identifier (to_start_response cs now) ''IMAGE_CAPTCHA''"
  have facts: "kv_get now (challenge_session_cache_key ?ident) (cw_sessions ?c) = Some cs" "cw_faults ?c = []"
    "challenge_identifier cs = ?ident" "session_state cs = ChallengeFailed" "\<not> is_expired cs now" "?step \<noteq> []"
    "kv_get now (challenge_submit_lock_cache_key ?ident) (cw_texts ?c) = None"
    using assms(1) by (simp_all add: failed_captcha_def)
  have get: "get_session now ?ident (?c\<lparr>cw_texts := t\<rparr>) = (Inr cs, ?c\<lparr>cw_texts := t\<rparr>)" for t
    using facts(1,2) assms(2) by (simp add: get_session_def repo_get_session_def challenge_session_cache_key_def)
  from get [of "cw_texts ?c"] have got: "get_at now ?ident w = (Inr (to_start_response cs now), w)"
    by (simp add: get_at_def on_challenge_def get_challenge_def)
  have locked: "refresh_locked (le_challenge env) now ?ident ?step (?c\<lparr>cw_texts := t\<rparr>) = (Inl not_continuable, ?c\<lparr>cw_texts := t\<rparr>)"
    "respond_locked (le_challenge env) now jti ?ident ?step payload (?c\<lparr>cw_texts := t\<rparr>) = (Inl not_continuable, ?c\<lparr>cw_texts := t\<rparr>)"
    for t jti payload
    by (simp_all add: refresh_locked_def respond_locked_def get facts(4,5))
  obtain t where refused: "refresh_challenge (le_challenge env) now (u (b + 2) 0) ?ident ?step ?c = (Inl not_continuable, ?c\<lparr>cw_texts := t\<rparr>)"
    and rest: "\<And>k. k \<noteq> challenge_submit_lock_cache_key ?ident \<Longrightarrow> t k = cw_texts ?c k"
    using refused_under_lock [where body = "refresh_locked (le_challenge env) now ?ident ?step" and token = "u (b + 2) 0",
        OF assms(2) facts(2,7) locked(1)] by (auto simp: refresh_challenge_def)
  have refreshed: "refresh_at env now u b ?ident ?step w = (Inl not_continuable, w\<lparr>lw_challenge := ?c\<lparr>cw_texts := t\<rparr>\<rparr>)"
    unfolding refresh_at_def on_challenge_def refused by simp
  have tried: "try_refresh env now u b ?ident w = (None, w\<lparr>lw_challenge := ?c\<lparr>cw_texts := t\<rparr>\<rparr>)"
    using facts(6) by (simp add: try_refresh_def got refreshed)
  let ?key = "''LOGIN_PRIMARY|'' @ it_login s @ ''|'' @ it_primary_nonce s"
  have bound: "kv_get now (challenge_idempotency_cache_key ?key) t = Some ?ident"
    using assms(1) rest [of "challenge_idempotency_cache_key ?key"] by (simp add: failed_captcha_def kv_get_def)
  have key: "\<not> blank ?key" "\<not> blank ''LOGIN''"
    by (rule visible_not_blank [where c = "CHR ''L''"]; simp add: visible_def)+
  have "start_challenge (le_challenge env) fresh now
      (login_start_request ''LOGIN'' ''ANONYMOUS'' subject (it_primary_nonce s) ttl ?key q ''IMAGE_CAPTCHA'' x) (?c\<lparr>cw_texts := t\<rparr>)
      = (Inr (to_start_response cs now), ?c\<lparr>cw_texts := t\<rparr>)" for fresh subject ttl x
    using assms(3) key bound facts(2) by (simp add: start_challenge_def login_start_request_def login_policy
        get_session_by_idempotency_key_def get del: challenge_action_policies.simps)
  then show "fst (refresh_or_start_primary env now u b s account q w)
      = Inr (to_start_response cs now, s\<lparr>it_primary_satisfied := False\<rparr>)"
    using assms(2,3) facts(3) by (simp add: refresh_or_start_primary_def tried start_or_reuse_primary_def nonce_or_def
        start_at_def on_challenge_def to_start_response_def blank_def)
  obtain t' where "respond (le_challenge env) now (u (b + 3) 0) (u (b + 3) 1) ?ident ?step [''captchaCode'' \<mapsto> AStr (trim_space code)] ?c
      = (Inl not_continuable, ?c\<lparr>cw_texts := t'\<rparr>)"
    using refused_under_lock [where body = "respond_locked (le_challenge env) now (u (b + 3) 1) ?ident ?step
          [''captchaCode'' \<mapsto> AStr (trim_space code)]" and token = "u (b + 3) 0", OF assms(2) facts(2,7) locked(2)]
    by (auto simp: respond_def)
  then have "respond_at env now u b ?ident ?step [''captchaCode'' \<mapsto> AStr (trim_space code)] w
      = (Inl not_continuable, w\<lparr>lw_challenge := ?c\<lparr>cw_texts := t'\<rparr>\<rparr>)"
    unfolding respond_at_def on_challenge_def by simp
  then show "fst (verify_primary_captcha env now u b s account code q w) = Inl not_continuable"
    using assms(2) facts(3,6) by (simp add: verify_primary_captcha_def start_or_reuse_primary_def got Let_def) (simp add: to_start_response_def)
qed

theorem failed_captcha_kept_witness:
  "fst (refresh_or_start_primary sample_login_env 0 sample_ids 0 sample_pending ''alice'' None (sample_captcha_world ChallengeFailed))
      = Inr (to_start_response (sample_captcha ChallengeFailed) 0, sample_pending\<lparr>it_primary_satisfied := False\<rparr>) \<and>
    fst (verify_primary_captcha sample_login_env 0 sample_ids 0 sample_pending ''alice'' ''abcd'' None
      (sample_captcha_world ChallengeFailed)) = Inl not_continuable"
proof -
  have "trim_space ''LOGIN_PRIMARY|tx|n0'' = ''LOGIN_PRIMARY|tx|n0''" by (rule trim_visible) (simp add: visible_def)
  then have "kv_get 0 (challenge_idempotency_cache_key (''LOGIN_PRIMARY|'' @ it_login sample_pending @ ''|'' @ it_primary_nonce sample_pending))
      (cw_texts (lw_challenge (sample_captcha_world ChallengeFailed))) = Some ''c''"
    by (simp add: sample_captcha_world_def challenge_idempotency_cache_key_def kv_get_def)
  then have "failed_captcha 0 sample_pending (sample_captcha ChallengeFailed) (lw_challenge (sample_captcha_world ChallengeFailed))"
    using sample_captcha_step sample_captcha_lookup by (simp add: failed_captcha_def)
  from failed_captcha_kept [OF this, where code = "''abcd''"] show ?thesis by simp
qed

section \<open>A one-time code without a password\<close>

definition well_keyed :: "('c, 'w) login_env \<Rightarrow> interaction kv \<Rightarrow> bool" where
  "well_keyed env kv \<longleftrightarrow> (\<forall>k s d. kv k = Some (s, d) \<longrightarrow> k = interaction_key env (it_login s))"

definition same_login :: "interaction \<Rightarrow> interaction \<Rightarrow> bool" where
  "same_login s s' \<longleftrightarrow> it_login s' = it_login s \<and> it_user s' = it_user s"

lemma attached_login:
  "attach_platform_context env s context q kind provider = Inr s' \<Longrightarrow> same_login s s'"
  by (auto simp: attach_platform_context_def attach_context_def attach_platform_def same_login_def if_ok_Inr Let_def
      split: option.splits if_splits)

lemma bound_login: "bind_account account (s, stored) = Inr s' \<Longrightarrow> same_login s s'"
  by (auto simp: bind_account_def same_login_def Let_def split: if_splits)

lemma captcha_login:
  assumes "captcha_for_state env now u s account q required refresh w = (Inr (c, s'), w')"
  shows "same_login s s'"
proof -
  have primary: "same_login s1 s2" if "start_or_reuse_primary env now u b s1 account q w1 = (Inr (r, s2), w2)" for b s1 r s2 w1 w2
    using that by (auto simp: start_or_reuse_primary_def same_login_def then_do_Inr Let_def split: if_splits)
  have refreshed: "same_login s1 s2" if "refresh_or_start_primary env now u b s1 account q w1 = (Inr (r, s2), w2)" for b s1 r s2 w1 w2
    using that primary by (auto simp: refresh_or_start_primary_def same_login_def split: if_splits prod.splits option.splits)
  show ?thesis using assms primary refreshed
    by (auto simp: captcha_for_state_def resolve_primary_captcha_def refresh_primary_captcha_def then_do_Inr if_ok_Inr
        same_login_def split: if_splits)
qed

lemma loaded_login:
  assumes "load_interaction env now login fresh w = (Inr (s, stored), w')" "well_keyed env (lw_interactions w)"
    "it_login fresh = login"
  shows "interaction_key env (it_login s) = interaction_key env login"
proof -
  obtain found w1 where found: "get_interaction env now login w = (Inr found, w1)"
    using assms(1) by (auto simp: load_interaction_def then_do_Inr)
  have seen: "kv_get now (interaction_key env login) (lw_interactions w) = found"
    using found by (auto simp: get_interaction_def login_command_def Let_def split: list.splits sql_outcome.splits)
  have "interaction_key env (it_login x) = interaction_key env login"
    if live: "kv_get now (interaction_key env login) (lw_interactions w) = Some x" for x
  proof -
    obtain d where "lw_interactions w (interaction_key env login) = Some (x, d)"
      using live by (auto simp: kv_get_def split: option.splits if_splits)
    with assms(2) show ?thesis unfolding well_keyed_def by metis
  qed
  then show ?thesis using assms(1,3) found seen
    by (cases found) (auto simp: load_interaction_def then_do_Inr split: if_splits)
qed

lemma prepared_login:
  assumes "prepare_interaction env now login context account q kind provider w = (Inr (name, s), w')"
    "well_keyed env (lw_interactions w)"
  shows "interaction_key env (it_login s) = interaction_key env login"
proof -
  obtain s0 stored s1 where loaded: "load_interaction env now (trim_space login)
      (new_interaction env now (trim_space login) (trim_space context) (trim_space account)) w = (Inr (s0, stored), w')"
    and s: "bind_account (trim_space account) (s0, stored) = Inr s1"
      "attach_platform_context env s1 (trim_space context) q kind provider = Inr s"
    using assms(1) by (auto simp: prepare_interaction_def Let_def then_do_Inr if_ok_Inr split: if_splits)
  have "it_login s = it_login s0" using bound_login [OF s(1)] attached_login [OF s(2)] by (simp add: same_login_def)
  with loaded_login [OF loaded assms(2)] show ?thesis by (simp add: new_interaction_def same_lock_keys)
qed

text \<open>What the request for the state of a password login leaves in the store.\<close>

lemma state_query_binds:
  assumes "get_password_state env now u login context account refresh q w = (Inr st, w')" "\<not> pt_locked st"
    "well_keyed env (lw_interactions w)" "find_subject_by_account (ac_db (lw_accounts w')) account = Some r"
  obtains s where "lw_interactions w' (interaction_key env login)
      = Some (s, if 0 < le_ttl env then Some (now + sent_duration (le_ttl env)) else None)" "it_user s = us_id r"
proof -
  obtain name s w1 e w2 failures w3 totp w4 c s2 w5 where
    prepared: "prepare_interaction env now login context account q ''PASSWORD'' [] w = (Inr (name, s), w1)"
    and locked: "is_locked env now name w1 = (Inr (False, e), w2)"
    and counted: "get_risk_failure_count env now name q w2 = (Inr failures, w3)"
    and totp: "totp_demanded env (case fst (subject_of_account name w3) of Inl _ \<Rightarrow> None | Inr r \<Rightarrow> r) failures w3 = (Inr totp, w4)"
    and asked: "captcha_for_state env now u (case (case fst (subject_of_account name w3) of Inl _ \<Rightarrow> None | Inr r \<Rightarrow> r) of
          None \<Rightarrow> s | Some r \<Rightarrow> s\<lparr>it_user := us_id r\<rparr>) name q (requires_captcha env failures) refresh w4 = (Inr (c, s2), w5)"
    and saved: "save_interaction env now s2 w5 = (Inr (), w')"
    using assms(1,2) by (auto simp: get_password_state_def then_do_Inr Let_def split: if_splits)
  have name: "name = trim_space account" using prepared_account [OF prepared] .
  have "within same_accounts (totp_demanded env subject failures)" for subject
    unfolding totp_demanded_def [abs_def] has_totp_def by (intro caches.steps caches.reading)
  from withinD [OF this totp] have w4: "lw_accounts w4 = lw_accounts w3" by (simp add: same_accounts_def)
  have "within same_accounts (captcha_for_state env now u s1 name q required refresh)" for s1 required
    unfolding captcha_for_state_def [abs_def] by (intro caches.steps within_pair_action caches.captchas)
  from withinD [OF this asked] withinD [OF caches.stores(5) saved] w4 have same: "lw_accounts w' = lw_accounts w3"
    by (simp add: same_accounts_def)
  have present: "\<not> blank account" using assms(4) by (auto simp: find_subject_by_account_def split: if_splits)
  have "(case fst (subject_of_account name w3) of Inl _ \<Rightarrow> None | Inr r \<Rightarrow> r) = Some r"
    using assms(4) present by (simp add: name subject_of_account_def same [symmetric] subject_trimmed)
  then have s2: "same_login (s\<lparr>it_user := us_id r\<rparr>) s2" using captcha_login [OF asked] by simp
  then have "interaction_key env (it_login s2) = interaction_key env login"
    using prepared_login [OF prepared assms(3)] by (simp add: same_login_def)
  then have "lw_interactions w' (interaction_key env login)
      = Some (s2, if 0 < le_ttl env then Some (now + sent_duration (le_ttl env)) else None)"
    using saved by (auto simp: save_interaction_def login_command_def kv_set_def Let_def split: list.splits sql_outcome.splits)
  with that s2 show thesis by (simp add: same_login_def)
qed

text \<open>C26. Error. The request for the state of a password login, which needs no password, takes the place of the password:
  after it the pending login holds the user of the account, and a one-time code goes straight to its check.\<close>

theorem totp_without_password:
  assumes "get_password_state env now u login context account refresh q w = (Inr st, w1)" "\<not> pt_locked st"
    "well_keyed env (lw_interactions w)"
    "find_subject_by_account (ac_db (lw_accounts w1)) account = Some r" "0 < us_id r"
    "now' < now + sent_duration (le_ttl env)" "otp_pattern (trim_space code)"
    "prepare_interaction env now' login context' account q' ''PASSWORD'' [] w1 = (Inr (name, s), w2)"
  shows "it_user s = us_id r \<and>
    verify_totp env now' u' login context' account code q' w1 = judge_totp env now' u' login name s code q' w2"
proof -
  obtain s0 where s0: "lw_interactions w1 (interaction_key env login)
      = Some (s0, if 0 < le_ttl env then Some (now + sent_duration (le_ttl env)) else None)" "it_user s0 = us_id r"
    using state_query_binds [OF assms(1-4)] .
  then have live: "kv_get now' (interaction_key env login) (lw_interactions w1) = Some s0"
    using assms(6) by (simp add: kv_get_def)
  obtain s1 stored s2 where loaded: "load_interaction env now' (trim_space login)
      (new_interaction env now' (trim_space login) (trim_space context') (trim_space account)) w1 = (Inr (s1, stored), w2)"
    and s: "bind_account (trim_space account) (s1, stored) = Inr s2"
      "attach_platform_context env s2 (trim_space context') q' ''PASSWORD'' [] = Inr s"
    using assms(8) by (auto simp: prepare_interaction_def Let_def then_do_Inr if_ok_Inr split: if_splits)
  have "s1 = s0"
    using loaded live by (auto simp: load_interaction_def get_interaction_def same_lock_keys then_do_Inr login_command_def Let_def
        split: list.splits sql_outcome.splits option.splits if_splits)
  then have "it_user s = us_id r" using s0(2) bound_login [OF s(1)] attached_login [OF s(2)] by (simp add: same_login_def)
  then show ?thesis using assms(5,7,8) by (simp add: verify_totp_def)
qed

lemma sample_state_query:
  obtains st w1 where "get_password_state sample_login_env 0 sample_ids ''tx'' [] ''alice'' False None sample_login_world = (Inr st, w1)"
    "\<not> pt_locked st" "lw_accounts w1 = lw_accounts sample_login_world" "lw_faults w1 = []" "\<exists>s. kv_get second ''seven:login:interaction:tx'' (lw_interactions w1) = Some s \<and> it_account s = ''alice''"
proof -
  have quiet: "sample_quiet 0 sample_login_world" by (simp add: sample_quiet_def kv_get_def)
  show thesis
    by (rule that, simp add: get_password_state_def sample_prepares [OF quiet] sample_unlocked [OF quiet] sample_no_failures [OF quiet]
        totp_demanded_def requires_totp_def requires_captcha_def captcha_for_state_def save_interaction_def login_command_def
        subject_of_account_def sample_login_subject Let_def sample_user_def new_interaction_def)
      (simp_all add: kv_set_def kv_get_def new_interaction_def second_def sent_duration_def millisecond_def)
qed

theorem totp_without_password_witness:
  "\<exists>w2 s. it_user s = 7 \<and>
    verify_totp sample_login_env second sample_ids ''tx'' [] ''alice'' ''123456'' None
        (snd (get_password_state sample_login_env 0 sample_ids ''tx'' [] ''alice'' False None sample_login_world))
      = judge_totp sample_login_env second sample_ids ''tx'' ''alice'' s ''123456'' None w2"
proof -
  obtain st w1 where run: "get_password_state sample_login_env 0 sample_ids ''tx'' [] ''alice'' False None sample_login_world = (Inr st, w1)"
    "\<not> pt_locked st" "lw_accounts w1 = lw_accounts sample_login_world" "lw_faults w1 = []"
    and kept: "\<exists>s. kv_get second ''seven:login:interaction:tx'' (lw_interactions w1) = Some s \<and> it_account s = ''alice''"
    by (rule sample_state_query)
  obtain s w2 where prepared: "prepare_interaction sample_login_env second ''tx'' [] ''alice'' None ''PASSWORD'' [] w1 = (Inr (''alice'', s), w2)"
    using run(4) kept by (auto simp: prepare_interaction_def Let_def load_interaction_def get_interaction_def login_command_def
        bind_account_def attach_platform_context_def)
  have code: "otp_pattern (trim_space ''123456'')"
    by (simp add: trim_visible visible_def otp_pattern_def is_digit_def)
  have "well_keyed sample_login_env (lw_interactions sample_login_world)" by (simp add: well_keyed_def)
  from totp_without_password [OF run(1,2) this _ _ _ code prepared, of "sample_user 7 ''alice''"] show ?thesis
    using run(1,3) sample_login_subject by (auto simp: sample_user_def second_def sent_duration_def millisecond_def)
qed

end
