(* ===== verification/Node_Management.thy ===== *)
theory Node_Management
  imports User_Admin
begin

text \<open>
  The commands a hub sends to a node. They may be sent again (\<open>app/node_management/domain/idempotency.go\<close> over
  \<open>app/node_management/infrastructure/idempotency.go\<close>): a command carries an idempotency key and a digest of
  what it asks for. Before it runs it takes a claim in the cache that lives for two minutes; when it has run, the
  claim is replaced by its result, which later requests with the same key are answered with for a day. What a
  command read when it was accepted is kept beside it, so that a repetition works on the same input.

  The service over it (\<open>app/node_management/application/service.go\<close>) sets the status of users, ends their sessions
  and applies the login policy and the connection to the hub.

  The values in the cache are records; the JSON codec is taken to return what was encoded. Each command of the
  cache may fail before or after its effect, as the schedule \<open>nw_faults\<close> says; \<open>nw_target\<close> is what the commands
  work on. An operation takes time: a request claims at one instant and completes at a later one.
\<close>

section \<open>Commands, claims and preparations\<close>

record command_metadata =
  cd_node :: string
  cd_method :: string
  cd_path :: string
  cd_key :: string
  cd_digest :: string

record command_claim =
  cc_digest :: string
  cc_owner :: string
  cc_result :: string

record prepared_command =
  pd_digest :: string
  pd_payload :: string

record 's command_world =
  nw_claims :: "command_claim kv"
  nw_prepared :: "prepared_command kv"
  nw_faults :: "sql_outcome list"
  nw_target :: 's

type_synonym ('a, 's) node_action = "'s command_world \<Rightarrow> 'a result \<times> 's command_world"

definition default_processing_ttl :: int where "default_processing_ttl = 120 * second"
definition default_retention_ttl :: int where "default_retention_ttl = 86400 * second"

text \<open>\<open>hash\<close> is SHA-256 in hexadecimal.\<close>

definition command_scope_hash :: "(string \<Rightarrow> string) \<Rightarrow> command_metadata \<Rightarrow> string" where
  "command_scope_hash hash md =
     hash (trim_space (cd_node md) @ ''|'' @ to_upper (trim_space (cd_method md)) @ ''|'' @
           trim_space (cd_path md) @ ''|'' @ trim_space (cd_key md))"

definition scoped_cache_key :: "(string \<Rightarrow> string) \<Rightarrow> string \<Rightarrow> command_metadata \<Rightarrow> string" where
  "scoped_cache_key hash kind md = ''node_management:{'' @ command_scope_hash hash md @ ''}:'' @ kind"

definition command_cache_key :: "(string \<Rightarrow> string) \<Rightarrow> command_metadata \<Rightarrow> string" where
  "command_cache_key hash = scoped_cache_key hash ''command''"

definition prepared_cache_key :: "(string \<Rightarrow> string) \<Rightarrow> command_metadata \<Rightarrow> string" where
  "prepared_cache_key hash = scoped_cache_key hash ''prepared''"

section \<open>The store\<close>

definition store_command :: "('a, 's) node_action \<Rightarrow> ('a, 's) node_action" where
  "store_command effect w =
     (case nw_faults w of
        [] \<Rightarrow> effect w
      | outcome # rest \<Rightarrow>
          (let w1 = w\<lparr>nw_faults := rest\<rparr>
           in case outcome of
                SqlOk \<Rightarrow> effect w1
              | SqlLost e \<Rightarrow> (Inl e, w1)
              | SqlUnacked e \<Rightarrow> (Inl e, snd (effect w1))))"

definition create_claim :: "time \<Rightarrow> string \<Rightarrow> command_claim \<Rightarrow> int \<Rightarrow> (bool, 's) node_action" where
  "create_claim now key c ttl = store_command (\<lambda>w.
     case kv_set_nx now key c ttl (nw_claims w) of (r, kv) \<Rightarrow> (r, w\<lparr>nw_claims := kv\<rparr>))"

definition get_claim :: "time \<Rightarrow> string \<Rightarrow> (command_claim option, 's) node_action" where
  "get_claim now key = store_command (\<lambda>w. (Inr (kv_get now key (nw_claims w)), w))"

definition delete_claim :: "time \<Rightarrow> string \<Rightarrow> command_claim \<Rightarrow> (bool, 's) node_action" where
  "delete_claim now key expected = store_command (\<lambda>w.
     case kv_compare_and_delete now key expected (nw_claims w) of (r, kv) \<Rightarrow> (Inr r, w\<lparr>nw_claims := kv\<rparr>))"

text \<open>The second key of the script gets the deadline of the first where it exists.\<close>

definition kv_pexpire :: "time \<Rightarrow> string \<Rightarrow> int \<Rightarrow> 'v kv \<Rightarrow> 'v kv" where
  "kv_pexpire now key ttl kv =
     (case kv_get now key kv of
        None \<Rightarrow> kv
      | Some v \<Rightarrow> kv(key \<mapsto> (v, Some (now + whole_millis ttl * millisecond))))"

definition compare_set_and_expire ::
    "time \<Rightarrow> string \<Rightarrow> 'v \<Rightarrow> 'v \<Rightarrow> string \<Rightarrow> int \<Rightarrow> 'v kv \<Rightarrow> 'u kv \<Rightarrow> bool result \<times> 'v kv \<times> 'u kv" where
  "compare_set_and_expire now key expected replacement expiry_key ttl kv other =
     (case kv_compare_and_set now key expected replacement ttl kv of
        (Inr True, kv1) \<Rightarrow> (Inr True, kv1, kv_pexpire now expiry_key ttl other)
      | (r, kv1) \<Rightarrow> (r, kv1, other))"

definition complete_claim ::
    "time \<Rightarrow> string \<Rightarrow> string \<Rightarrow> command_claim \<Rightarrow> command_claim \<Rightarrow> int \<Rightarrow> (bool, 's) node_action" where
  "complete_claim now key prepared_key expected completed ttl = store_command (\<lambda>w.
     case compare_set_and_expire now key expected completed prepared_key ttl (nw_claims w) (nw_prepared w) of
       (r, kv, pkv) \<Rightarrow> (r, w\<lparr>nw_claims := kv, nw_prepared := pkv\<rparr>))"

definition create_prepared :: "time \<Rightarrow> string \<Rightarrow> prepared_command \<Rightarrow> int \<Rightarrow> (bool, 's) node_action" where
  "create_prepared now key p ttl = store_command (\<lambda>w.
     case kv_set_nx now key p ttl (nw_prepared w) of (r, kv) \<Rightarrow> (r, w\<lparr>nw_prepared := kv\<rparr>))"

definition get_prepared :: "time \<Rightarrow> string \<Rightarrow> (prepared_command option, 's) node_action" where
  "get_prepared now key = store_command (\<lambda>w. (Inr (kv_get now key (nw_prepared w)), w))"

section \<open>The coordinator\<close>

definition replay_unavailable :: go_error where
  "replay_unavailable = service_unavailable (utf8 [0x547D, 0x4EE4, 0x5E42, 0x7B49, 0x5B58, 0x50A8, 0x4E0D, 0x53EF, 0x7528])"

definition preparation_unavailable :: go_error where
  "preparation_unavailable = service_unavailable (utf8 [0x547D, 0x4EE4, 0x51C6, 0x5907, 0x72B6, 0x6001, 0x4E0D, 0x53EF, 0x7528])"

definition other_request :: go_error where
  "other_request = object_state_error (utf8 [0x5E42, 0x7B49, 0x952E, 0x5DF2, 0x7528, 0x4E8E, 0x4E0D, 0x540C, 0x8BF7, 0x6C42])"

definition still_running :: go_error where
  "still_running = with_details (object_state_error (utf8 [0x76F8, 0x540C, 0x547D, 0x4EE4, 0x6B63, 0x5728, 0x6267, 0x884C])) (AMap [(''retryAfterSeconds'', AInt 2)])"

definition result_unconfirmed :: go_error where
  "result_unconfirmed = service_unavailable (utf8 [0x547D, 0x4EE4, 0x7ED3, 0x679C, 0x6682, 0x65F6, 0x65E0, 0x6CD5, 0x786E, 0x8BA4, 0xFF0C, 0x8BF7, 0x4F7F, 0x7528, 0x76F8, 0x540C, 0x5E42, 0x7B49, 0x952E, 0x91CD, 0x8BD5])"

text \<open>An error of the store is answered with the code's own error.\<close>

definition or_answer :: "go_error \<Rightarrow> 'a result \<times> 's \<Rightarrow> ('a \<Rightarrow> 's \<Rightarrow> 'b result \<times> 's) \<Rightarrow> 'b result \<times> 's" where
  "or_answer e r f = (case r of (Inl _, w) \<Rightarrow> (Inl e, w) | (Inr x, w) \<Rightarrow> f x w)"

lemma or_answer_simps [simp]: "or_answer e (Inl e', w) f = (Inl e, w)" "or_answer e (Inr x, w) f = f x w"
  by (simp_all add: or_answer_def)

lemma or_answer_Inr: "or_answer e r f = (Inr y, w') \<longleftrightarrow> (\<exists>x w. r = (Inr x, w) \<and> f x w = (Inr y, w'))"
  by (auto simp: or_answer_def split: prod.splits sum.splits)

definition resolve_prepared :: "prepared_command \<Rightarrow> command_metadata \<Rightarrow> string result" where
  "resolve_prepared p md =
     (if pd_digest p \<noteq> trim_space (cd_digest md) then Inl other_request else Inr (pd_payload p))"

text \<open>
  \<open>Prepare\<close>: no payload (\<open>None\<close>, the nil of the source) when the command has completed already. \<open>prepare\<close> reads what the
  command works on.
\<close>

definition prepare_new ::
    "time \<Rightarrow> string \<Rightarrow> command_metadata \<Rightarrow> ('s \<Rightarrow> string result \<times> 's) \<Rightarrow> (string option, 's) node_action" where
  "prepare_new now key md prepare w =
     (case prepare (nw_target w) of
        (Inl e, t) \<Rightarrow> (Inl e, w\<lparr>nw_target := t\<rparr>)
      | (Inr payload, t) \<Rightarrow>
          or_answer preparation_unavailable
            (create_prepared now key \<lparr>pd_digest = trim_space (cd_digest md), pd_payload = payload\<rparr>
               default_retention_ttl (w\<lparr>nw_target := t\<rparr>)) (\<lambda>created w1.
          if created then (Inr (Some payload), w1)
          else or_answer (service_unavailable (utf8 [0x547D, 0x4EE4, 0x51C6, 0x5907, 0x72B6, 0x6001, 0x65E0, 0x6CD5, 0x786E, 0x8BA4])) (get_prepared now key w1) (\<lambda>found w2.
            case found of
              None \<Rightarrow> (Inl (service_unavailable (utf8 [0x547D, 0x4EE4, 0x51C6, 0x5907, 0x72B6, 0x6001, 0x65E0, 0x6CD5, 0x786E, 0x8BA4])), w2)
            | Some p \<Rightarrow> (map_sum id Some (resolve_prepared p md), w2))))"

definition prepare_command ::
    "(string \<Rightarrow> string) \<Rightarrow> time \<Rightarrow> command_metadata \<Rightarrow> ('s \<Rightarrow> string result \<times> 's) \<Rightarrow>
     (string option, 's) node_action" where
  "prepare_command hash now md prepare w =
     or_answer replay_unavailable (get_claim now (command_cache_key hash md) w) (\<lambda>claim w1.
     case claim of
       Some c \<Rightarrow>
         (if cc_digest c \<noteq> trim_space (cd_digest md) then (Inl other_request, w1)
          else if cc_result c \<noteq> [] then (Inr None, w1) else (Inl still_running, w1))
     | None \<Rightarrow>
         or_answer preparation_unavailable (get_prepared now (prepared_cache_key hash md) w1) (\<lambda>found w2.
         case found of
           Some p \<Rightarrow> (map_sum id Some (resolve_prepared p md), w2)
         | None \<Rightarrow> prepare_new now (prepared_cache_key hash md) md prepare w2))"

text \<open>
  How \<open>Execute\<close> begins: the request holds a claim of its own, or is answered with a retained result. When the claim
  of another request expires between the attempt and the look at it, the source starts over; \<open>clock\<close> says at which
  instants the commands run, \<open>owner\<close> the token of each attempt, and the fuel bounds the attempts (\<open>None\<close> when it
  runs out). \<open>Node_Properties\<close> shows that two attempts are enough unless others interfere.
\<close>

datatype start = Held command_claim | Retained string

definition resolve_existing :: "command_claim \<Rightarrow> command_metadata \<Rightarrow> start result" where
  "resolve_existing c md =
     (if cc_digest c \<noteq> trim_space (cd_digest md) then Inl other_request
      else if cc_result c \<noteq> [] then Inr (Retained (cc_result c)) else Inl still_running)"

fun begin_command ::
    "nat \<Rightarrow> (string \<Rightarrow> string) \<Rightarrow> (nat \<Rightarrow> time) \<Rightarrow> (nat \<Rightarrow> string) \<Rightarrow> command_metadata \<Rightarrow> 's command_world \<Rightarrow>
     (start result \<times> 's command_world) option" where
  "begin_command 0 hash clock owner md w = None"
| "begin_command (Suc n) hash clock owner md w =
     (let c = \<lparr>cc_digest = trim_space (cd_digest md), cc_owner = owner 0, cc_result = []\<rparr>
      in case create_claim (clock 0) (command_cache_key hash md) c default_processing_ttl w of
           (Inl e, w1) \<Rightarrow> Some (Inl replay_unavailable, w1)
         | (Inr True, w1) \<Rightarrow> Some (Inr (Held c), w1)
         | (Inr False, w1) \<Rightarrow>
             (case get_claim (clock 1) (command_cache_key hash md) w1 of
                (Inl e, w2) \<Rightarrow> Some (Inl replay_unavailable, w2)
              | (Inr (Some existing), w2) \<Rightarrow> Some (resolve_existing existing md, w2)
              | (Inr None, w2) \<Rightarrow> begin_command n hash (\<lambda>i. clock (i + 2)) (\<lambda>i. owner (i + 1)) md w2))"

text \<open>How it ends, at the instant \<open>later\<close>: the claim is dropped after an error and else replaced by the result.\<close>

definition finish_command ::
    "(string \<Rightarrow> string) \<Rightarrow> time \<Rightarrow> command_metadata \<Rightarrow> command_claim \<Rightarrow> string result \<Rightarrow>
     (string \<times> bool, 's) node_action" where
  "finish_command hash later md c outcome w =
     (case outcome of
        Inl e \<Rightarrow> (Inl e, snd (delete_claim later (command_cache_key hash md) c w))
      | Inr raw \<Rightarrow>
          (let value = if raw = [] then ''null'' else raw
           in or_answer result_unconfirmed
                (complete_claim later (command_cache_key hash md) (prepared_cache_key hash md) c
                   (c\<lparr>cc_result := value\<rparr>) default_retention_ttl w) (\<lambda>updated w1.
                if updated then (Inr (value, False), w1) else (Inl result_unconfirmed, w1))))"

definition execute_command ::
    "nat \<Rightarrow> (string \<Rightarrow> string) \<Rightarrow> (nat \<Rightarrow> time) \<Rightarrow> time \<Rightarrow> (nat \<Rightarrow> string) \<Rightarrow> command_metadata \<Rightarrow>
     ('s \<Rightarrow> string result \<times> 's) \<Rightarrow> 's command_world \<Rightarrow> ((string \<times> bool) result \<times> 's command_world) option" where
  "execute_command fuel hash clock later owner md operation w =
     (case begin_command fuel hash clock owner md w of
        None \<Rightarrow> None
      | Some (Inl e, w1) \<Rightarrow> Some (Inl e, w1)
      | Some (Inr (Retained value), w1) \<Rightarrow> Some (Inr (value, True), w1)
      | Some (Inr (Held c), w1) \<Rightarrow>
          (case operation (nw_target w1) of
             (outcome, t) \<Rightarrow> Some (finish_command hash later md c outcome (w1\<lparr>nw_target := t\<rparr>))))"

text \<open>\<open>RetryAfter\<close>.\<close>

definition retry_after :: "go_error \<Rightarrow> int" where
  "retry_after err =
     (case from_error (Some err) of
        Some (AppError code kind message (AMap m) cause) \<Rightarrow>
          (case map_of m ''retryAfterSeconds'' of Some (AInt n) \<Rightarrow> n | _ \<Rightarrow> 0)
      | _ \<Rightarrow> 0)"

section \<open>References to sessions\<close>

text \<open>
  A session is named to the hub by a sealed reference. Parameters: the AEAD (\<open>seal nonce text\<close>,
  \<open>unseal nonce sealed\<close>; AES-GCM has nonces of 12 bytes), base64url, JSON and the random source.
\<close>

record session_reference =
  sf_user :: int
  sf_session :: string

record reference_codec =
  rc_seal :: "string \<Rightarrow> string \<Rightarrow> string"
  rc_unseal :: "string \<Rightarrow> string \<Rightarrow> string option"
  rc_nonce :: "string result"
  rc_to_text :: "string \<Rightarrow> string"
  rc_of_text :: "string \<Rightarrow> string option"
  rc_marshal :: "session_reference \<Rightarrow> string"
  rc_unmarshal :: "string \<Rightarrow> session_reference option"

definition nonce_size :: nat where "nonce_size = 12"

definition malformed_reference :: go_error where
  "malformed_reference = params_error (''sessionRef'' @ (utf8 [0x683C, 0x5F0F, 0x9519, 0x8BEF]))"

definition encode_reference :: "reference_codec \<Rightarrow> session_reference \<Rightarrow> string result" where
  "encode_reference rc r =
     (if sf_user r \<le> 0 \<or> blank (sf_session r) then Inl (params_error (utf8 [0x4F1A, 0x8BDD, 0x5F15, 0x7528, 0x65E0, 0x6CD5, 0x751F, 0x6210]))
      else case rc_nonce rc of
             Inl e \<Rightarrow> Inl (WrapError ''generate session reference nonce'' e)
           | Inr nonce \<Rightarrow> Inr (rc_to_text rc (nonce @ rc_seal rc nonce (rc_marshal rc r))))"

definition decode_reference :: "reference_codec \<Rightarrow> string \<Rightarrow> session_reference result" where
  "decode_reference rc text =
     (case rc_of_text rc (trim_space text) of
        None \<Rightarrow> Inl malformed_reference
      | Some sealed \<Rightarrow>
          if length sealed \<le> nonce_size then Inl malformed_reference
          else case rc_unseal rc (take nonce_size sealed) (drop nonce_size sealed) of
                 None \<Rightarrow> Inl (forbidden (''sessionRef'' @ (utf8 [0x6821, 0x9A8C, 0x5931, 0x8D25])))
               | Some payload \<Rightarrow>
                   (case rc_unmarshal rc payload of
                      None \<Rightarrow> Inl malformed_reference
                    | Some r \<Rightarrow>
                        if sf_user r \<le> 0 \<or> blank (sf_session r) then Inl malformed_reference else Inr r))"

section \<open>Checks and projections\<close>

definition max_reason_length :: nat where "max_reason_length = 512"

definition validate_command :: "string \<Rightarrow> string \<Rightarrow> unit result" where
  "validate_command key reason =
     (if blank key \<or> 256 < length key then Inl (params_error (''Idempotency-Key'' @ (utf8 [0x4E0D, 0x80FD, 0x4E3A, 0x7A7A, 0x4E14, 0x4E0D, 0x80FD, 0x8D85, 0x8FC7]) @ ''256'' @ (utf8 [0x5B57, 0x7B26])))
      else if blank reason \<or> max_reason_length < rune_count (trim_space reason)
      then Inl (params_error (''reason'' @ (utf8 [0x4E0D, 0x80FD, 0x4E3A, 0x7A7A, 0x4E14, 0x4E0D, 0x80FD, 0x8D85, 0x8FC7]) @ ''512'' @ (utf8 [0x5B57, 0x7B26])))
      else Inr ())"

definition malformed_user :: go_error where
  "malformed_user = params_error (''userId'' @ (utf8 [0x683C, 0x5F0F, 0x9519, 0x8BEF]))"

definition parse_user_id :: "string \<Rightarrow> int result" where
  "parse_user_id text =
     (case parse_int64 (trim_space text) of
        None \<Rightarrow> Inl malformed_user
      | Some i \<Rightarrow> if i \<le> 0 then Inl malformed_user else Inr i)"

definition normalize_page :: "int \<Rightarrow> int \<Rightarrow> int \<times> int" where
  "normalize_page current rows =
     (let c = (if current \<le> 0 then 1 else current); s = (if rows \<le> 0 then 20 else rows)
      in (c, if 100 < s then 100 else s))"

definition page_offset :: "int \<Rightarrow> int \<Rightarrow> int \<Rightarrow> int result" where
  "page_offset current rows max_offset =
     (if current \<le> 0 \<or> rows \<le> 0 \<or> max_offset < 0 then Inl (params_error (utf8 [0x5206, 0x9875, 0x53C2, 0x6570, 0x9519, 0x8BEF]))
      else if max_offset div rows < current - 1 then Inl (params_error (utf8 [0x5206, 0x9875, 0x504F, 0x79FB, 0x91CF, 0x8D85, 0x51FA, 0x8303, 0x56F4]))
      else Inr (wrap64 ((current - 1) * rows)))"

text \<open>\<open>string([]rune(local)[:1])\<close>: a byte that begins no rune becomes U+FFFD.\<close>

definition first_rune :: "string \<Rightarrow> string" where
  "first_rune s =
     (case s of [] \<Rightarrow> []
      | c # _ \<Rightarrow> if rune_width s = 1 \<and> 0x80 \<le> byte c then (utf8 [0xFFFD]) else take (rune_width s) s)"

definition mask_email :: "string \<Rightarrow> string" where
  "mask_email text =
     (let v = trim_space text
      in case str_index v ''@'' of
           None \<Rightarrow> []
         | Some i \<Rightarrow>
             if i = 0 \<or> drop (Suc i) v = [] then []
             else first_rune (take i v) @ ''***@'' @ drop (Suc i) v)"

definition mask_phone :: "string \<Rightarrow> string" where
  "mask_phone text =
     (let v = trim_space text
      in if length v < 7 then [] else take 3 v @ ''****'' @ drop (length v - 4) v)"

definition effective_session_status :: "time \<Rightarrow> sso_session \<Rightarrow> string" where
  "effective_session_status now s =
     (if ss_revoked s \<noteq> None \<or> ss_status s = SessionStatusRevoked then ''REVOKED''
      else if ss_expires s \<le> now then ''EXPIRED'' else ''ACTIVE'')"

section \<open>The node\<close>

record accepted_status =
  ap_status :: int
  ap_version :: nat
  ap_cutoff :: time

record managed_method =
  mm_type :: string
  mm_provider :: string
  mm_display :: string
  mm_icon :: string
  mm_sort :: int
  mm_shown :: bool
  mm_login :: bool

record source_rule =
  sl_match :: string
  sl_value :: string
  sl_priority :: int
  sl_status :: int

record managed_policy =
  mp_platform :: string
  mp_status :: int
  mp_auto_register :: bool
  mp_form_register :: bool
  mp_methods :: "managed_method list"
  mp_rules :: "source_rule list"

record hub_connection =
  hc_version :: string
  hc_revision :: int
  hc_enabled :: bool
  hc_display :: string
  hc_issuer :: string
  hc_client :: string
  hc_secret :: string
  hc_redirect :: string

text \<open>
  What a command asks for, as far as its digest covers it: not the user of the path, nor the idempotency key.
\<close>

datatype node_request =
    StatusRequest int string
  | SessionsRequest bool "string list" string
  | PolicyRequest managed_policy string
  | ConnectionRequest hub_connection string

record ('w, 'h) node_target =
  nt_accounts :: "'w accounts"
  nt_ports :: 'h

text \<open>
  The parameters of a node: its code, SHA-256 in hexadecimal, the digest of a request, JSON, \<open>url.Parse\<close> (scheme, host
  and canonical text), the accounts, the codec of references, and the ports it is bound to: the login policy, the
  connection to the hub and the audit, whose state is \<open>nt_ports\<close>.
\<close>

record ('w, 'h) node_env =
  ne_node :: string
  ne_hash :: "string \<Rightarrow> string"
  ne_digest :: "node_request \<Rightarrow> string result"
  ne_marshal_status :: "accepted_status \<Rightarrow> string result"
  ne_unmarshal_status :: "string \<Rightarrow> accepted_status option"
  ne_marshal_cutoff :: "time \<Rightarrow> string result"
  ne_unmarshal_cutoff :: "string \<Rightarrow> time option"
  ne_marshal_count :: "int \<Rightarrow> string result"
  ne_unmarshal_count :: "string \<Rightarrow> int option"
  ne_parse_url :: "string \<Rightarrow> (string \<times> string \<times> string) option"
  ne_accounts :: "'w account_env"
  ne_has_users :: bool
  ne_has_sessions :: bool
  ne_codec :: "reference_codec option"
  ne_policies :: "(managed_policy \<Rightarrow> 'h \<Rightarrow> int result \<times> 'h) option"
  ne_connection :: "(hub_connection \<Rightarrow> 'h \<Rightarrow> unit result \<times> 'h) option"
  ne_audit :: "(string \<Rightarrow> string \<Rightarrow> string \<Rightarrow> string \<Rightarrow> string \<Rightarrow> int \<Rightarrow> 'h \<Rightarrow> unit result \<times> 'h) option"

text \<open>
  When a request runs: it prepares at \<open>tm_now\<close>, tries to claim at the instants of \<open>tm_clock\<close> with the tokens of
  \<open>tm_owner\<close>, works at \<open>tm_work\<close> and completes at \<open>tm_later\<close>.
\<close>

record node_timing =
  tm_now :: time
  tm_fuel :: nat
  tm_clock :: "nat \<Rightarrow> time"
  tm_owner :: "nat \<Rightarrow> string"
  tm_work :: time
  tm_later :: time

type_synonym ('a, 'w, 'h) node_run =
  "('w, 'h) node_target command_world \<Rightarrow> ('a result \<times> ('w, 'h) node_target command_world) option"

definition on_account :: "('a, 'w) account_body \<Rightarrow> ('w, 'h) node_target \<Rightarrow> 'a result \<times> ('w, 'h) node_target" where
  "on_account body t = (case body NoTx (nt_accounts t) of (r, a) \<Rightarrow> (r, t\<lparr>nt_accounts := a\<rparr>))"

definition on_ports :: "('h \<Rightarrow> 'a result \<times> 'h) \<Rightarrow> ('w, 'h) node_target \<Rightarrow> 'a result \<times> ('w, 'h) node_target" where
  "on_ports f t = (case f (nt_ports t) of (r, p) \<Rightarrow> (r, t\<lparr>nt_ports := p\<rparr>))"

definition unreadable_preparation :: go_error where
  "unreadable_preparation = service_unavailable (utf8 [0x547D, 0x4EE4, 0x51C6, 0x5907, 0x72B6, 0x6001, 0x65E0, 0x6CD5, 0x8BFB, 0x53D6])"

definition no_revocation :: go_error where
  "no_revocation = service_unavailable (utf8 [0x4F1A, 0x8BDD, 0x64A4, 0x9500, 0x80FD, 0x529B, 0x4E0D, 0x53EF, 0x7528])"

definition command_metadata_of :: "('w, 'h) node_env \<Rightarrow> string \<Rightarrow> string \<Rightarrow> string \<Rightarrow> node_request \<Rightarrow> command_metadata result" where
  "command_metadata_of env method path key request =
     (case ne_digest env request of
        Inl e \<Rightarrow> Inl (params_error (utf8 [0x547D, 0x4EE4, 0x8BF7, 0x6C42, 0x65E0, 0x6CD5, 0x7F16, 0x7801]))
      | Inr d \<Rightarrow> Inr \<lparr>cd_node = ne_node env, cd_method = method, cd_path = path, cd_key = key, cd_digest = d\<rparr>)"

definition write_audit ::
    "('w, 'h) node_env \<Rightarrow> string \<Rightarrow> command_metadata \<Rightarrow> string \<Rightarrow> int \<Rightarrow>
     ('w, 'h) node_target \<Rightarrow> unit result \<times> ('w, 'h) node_target" where
  "write_audit env name md target changed t =
     (case ne_audit env of
        None \<Rightarrow> (Inl (service_unavailable (utf8 [0x540C, 0x6B65, 0x64CD, 0x4F5C, 0x5BA1, 0x8BA1, 0x80FD, 0x529B, 0x4E0D, 0x53EF, 0x7528])), t)
      | Some save \<Rightarrow>
          on_ports (save name (cd_method md)
            (if name = ''NODE_USER_STATUS'' then ''/internal/node/v1/users/:userId/status''
             else if name = ''NODE_SESSION_REVOKE'' then ''/internal/node/v1/users/:userId/sessions/revoke'' else cd_path md)
            (ne_hash env (trim_space target)) (ne_hash env (trim_space (cd_key md))) changed) t)"

text \<open>\<open>executeCommand\<close>: the answer is the number of changes and whether it was replayed.\<close>

definition counted_operation ::
    "('w, 'h) node_env \<Rightarrow> ('s \<Rightarrow> int result \<times> 's) \<Rightarrow> 's \<Rightarrow> string result \<times> 's" where
  "counted_operation env operation t =
     (case operation t of (Inl e, t1) \<Rightarrow> (Inl e, t1) | (Inr changed, t1) \<Rightarrow> (ne_marshal_count env changed, t1))"

definition report_command ::
    "('w, 'h) node_env \<Rightarrow> string \<Rightarrow> command_metadata \<Rightarrow> string \<Rightarrow> (string \<times> bool) result \<Rightarrow>
     (int \<times> bool, ('w, 'h) node_target) node_action" where
  "report_command env name md target answer w =
     (case answer of
        Inl e \<Rightarrow> (Inl e, w)
      | Inr (payload, replayed) \<Rightarrow>
          (case ne_unmarshal_count env payload of
             None \<Rightarrow> (Inl (service_unavailable (utf8 [0x547D, 0x4EE4, 0x7ED3, 0x679C, 0x65E0, 0x6CD5, 0x8BFB, 0x53D6])), w)
           | Some changed \<Rightarrow>
               (case write_audit env name md target changed (nw_target w) of
                  (Inl e, t) \<Rightarrow> (Inl e, w\<lparr>nw_target := t\<rparr>)
                | (Inr _, t) \<Rightarrow> (Inr (changed, replayed), w\<lparr>nw_target := t\<rparr>))))"

definition run_command ::
    "('w, 'h) node_env \<Rightarrow> node_timing \<Rightarrow> command_metadata \<Rightarrow> string \<Rightarrow> string \<Rightarrow>
     (('w, 'h) node_target \<Rightarrow> int result \<times> ('w, 'h) node_target) \<Rightarrow> (int \<times> bool, 'w, 'h) node_run" where
  "run_command env tm md name target operation w =
     (case execute_command (tm_fuel tm) (ne_hash env) (tm_clock tm) (tm_later tm) (tm_owner tm) md
             (counted_operation env operation) w of
        None \<Rightarrow> None
      | Some (answer, w1) \<Rightarrow> Some (report_command env name md target answer w1))"

section \<open>The status of a user\<close>

record status_command =
  sm_user :: string
  sm_status :: int
  sm_reason :: string
  sm_key :: string

definition capture_managed_cutoff :: "time \<Rightarrow> (time, 'w) account_body" where
  "capture_managed_cutoff now = on_sso (\<lambda>_. capture_cutoff now)"

definition prepare_status ::
    "('w, 'h) node_env \<Rightarrow> time \<Rightarrow> int \<Rightarrow> int \<Rightarrow> ('w, 'h) node_target \<Rightarrow> string result \<times> ('w, 'h) node_target" where
  "prepare_status env now user status t =
     (case get_managed_user_status_snapshot (ac_db (nt_accounts t)) user of
        Inl e \<Rightarrow> (Inl e, t)
      | Inr (current, version) \<Rightarrow>
          if status = UserStatusNormal
          then (ne_marshal_status env \<lparr>ap_status = current, ap_version = version, ap_cutoff = zero_time\<rparr>, t)
          else if \<not> ne_has_sessions env then (Inl no_revocation, t)
          else then_do (on_account (capture_managed_cutoff now) t) (\<lambda>cutoff t1.
                 (ne_marshal_status env \<lparr>ap_status = current, ap_version = version, ap_cutoff = cutoff\<rparr>, t1)))"

definition read_accepted :: "('w, 'h) node_env \<Rightarrow> int \<Rightarrow> string \<Rightarrow> accepted_status result" where
  "read_accepted env status payload =
     (case ne_unmarshal_status env payload of
        None \<Rightarrow> Inl unreadable_preparation
      | Some a \<Rightarrow>
          if ap_status a < 0 \<or> 2 < ap_status a \<or> status \<noteq> UserStatusNormal \<and> is_zero_time (ap_cutoff a)
          then Inl unreadable_preparation else Inr a)"

definition apply_status ::
    "('w, 'h) node_env \<Rightarrow> time \<Rightarrow> int \<Rightarrow> int \<Rightarrow> string \<Rightarrow> accepted_status option \<Rightarrow>
     ('w, 'h) node_target \<Rightarrow> int result \<times> ('w, 'h) node_target" where
  "apply_status env now user status hash accepted t =
     (case accepted of
        None \<Rightarrow> (Inl unreadable_preparation, t)
      | Some a \<Rightarrow>
          if status \<noteq> UserStatusNormal \<and> is_zero_time (ap_cutoff a) then (Inl unreadable_preparation, t)
          else on_account (set_managed_user_status (ne_accounts env) now
                 \<lparr>ms_user = user, ms_expected = ap_status a, ms_version = ap_version a, ms_status = status,
                  ms_cutoff = ap_cutoff a, ms_hash = hash\<rparr>) t)"

definition status_path :: "string \<Rightarrow> string" where
  "status_path user = ''/internal/node/v1/users/'' @ user @ ''/status''"

definition run_status ::
    "('w, 'h) node_env \<Rightarrow> node_timing \<Rightarrow> status_command \<Rightarrow> int \<Rightarrow> command_metadata \<Rightarrow> string option \<Rightarrow>
     (int \<times> bool, 'w, 'h) node_run" where
  "run_status env tm c user md prepared w =
     (case (case prepared of
              None \<Rightarrow> Inr None | Some payload \<Rightarrow>
                if payload = [] then Inr None else map_sum id Some (read_accepted env (sm_status c) payload)) of
        Inl e \<Rightarrow> Some (Inl e, w)
      | Inr accepted \<Rightarrow>
          run_command env tm md ''NODE_USER_STATUS'' (sm_user c)
            (apply_status env (tm_work tm) user (sm_status c) (command_scope_hash (ne_hash env) md) accepted) w)"

definition set_user_status ::
    "('w, 'h) node_env \<Rightarrow> node_timing \<Rightarrow> status_command \<Rightarrow> (int \<times> bool, 'w, 'h) node_run" where
  "set_user_status env tm c w =
     (case parse_user_id (sm_user c) of
        Inl e \<Rightarrow> Some (Inl e, w)
      | Inr user \<Rightarrow>
          if sm_status c < 0 \<or> 2 < sm_status c then Some (Inl (params_error (''status'' @ (utf8 [0x683C, 0x5F0F, 0x9519, 0x8BEF]))), w)
          else case validate_command (sm_key c) (sm_reason c) of
            Inl e \<Rightarrow> Some (Inl e, w)
          | Inr _ \<Rightarrow>
              if \<not> ne_has_users env then Some (Inl (service_unavailable (utf8 [0x7528, 0x6237, 0x72B6, 0x6001, 0x7BA1, 0x7406, 0x80FD, 0x529B, 0x4E0D, 0x53EF, 0x7528])), w)
              else case command_metadata_of env ''PUT'' (status_path (sm_user c)) (sm_key c)
                     (StatusRequest (sm_status c) (sm_reason c)) of
                Inl e \<Rightarrow> Some (Inl e, w)
              | Inr md \<Rightarrow>
                  (case prepare_command (ne_hash env) (tm_now tm) md
                          (prepare_status env (tm_now tm) user (sm_status c)) w of
                     (Inl e, w1) \<Rightarrow> Some (Inl e, w1)
                   | (Inr prepared, w1) \<Rightarrow> run_status env tm c user md prepared w1))"

section \<open>The sessions of a user\<close>

record sessions_command =
  sn_user :: string
  sn_all :: bool
  sn_refs :: "string list"
  sn_reason :: string
  sn_key :: string

fun decode_owned :: "reference_codec \<Rightarrow> int \<Rightarrow> string list \<Rightarrow> string list result" where
  "decode_owned rc user [] = Inr []"
| "decode_owned rc user (r # refs) =
     (case decode_reference rc r of
        Inl e \<Rightarrow> Inl e
      | Inr s \<Rightarrow>
          if sf_user s \<noteq> user then Inl (forbidden (utf8 [0x4F1A, 0x8BDD, 0x4E0D, 0x5C5E, 0x4E8E, 0x76EE, 0x6807, 0x7528, 0x6237]))
          else case decode_owned rc user refs of Inl e \<Rightarrow> Inl e | Inr ids \<Rightarrow> Inr (sf_session s # ids))"

fun revoke_each :: "'w account_env \<Rightarrow> time \<Rightarrow> string list \<Rightarrow> (int, 'w) account_body" where
  "revoke_each env now [] m w = (Inr 0, w)"
| "revoke_each env now (sid # sids) m w =
     then_do (on_sso (\<lambda>_. revoke_managed_session (ae_sso env) now sid) m w) (\<lambda>revoked w1.
     then_do (revoke_each env now sids m w1) (\<lambda>n w2. (Inr (n + (if revoked then 1 else 0)), w2)))"

definition apply_revocation ::
    "('w, 'h) node_env \<Rightarrow> time \<Rightarrow> int \<Rightarrow> bool \<Rightarrow> string list \<Rightarrow> time option \<Rightarrow>
     ('w, 'h) node_target \<Rightarrow> int result \<times> ('w, 'h) node_target" where
  "apply_revocation env now user all ids cutoff t =
     (if all then
        (case cutoff of
           None \<Rightarrow> (Inl unreadable_preparation, t)
         | Some at \<Rightarrow>
             then_do (on_account (revoke_of_user_before (ne_accounts env) now user at) t) (\<lambda>n t1. (Inr (int n), t1)))
      else on_account (revoke_each (ne_accounts env) now ids) t)"

definition prepare_cutoff ::
    "('w, 'h) node_env \<Rightarrow> time \<Rightarrow> ('w, 'h) node_target \<Rightarrow> string result \<times> ('w, 'h) node_target" where
  "prepare_cutoff env now t =
     then_do (on_account (capture_managed_cutoff now) t) (\<lambda>cutoff t1. (ne_marshal_cutoff env cutoff, t1))"

definition read_cutoff :: "('w, 'h) node_env \<Rightarrow> string option \<Rightarrow> time option result" where
  "read_cutoff env prepared =
     (case prepared of
        None \<Rightarrow> Inr None
      | Some payload \<Rightarrow>
          if payload = [] then Inr None
          else case ne_unmarshal_cutoff env payload of
                 None \<Rightarrow> Inl unreadable_preparation
               | Some at \<Rightarrow> if is_zero_time at then Inl unreadable_preparation else Inr (Some at))"

definition sessions_path :: "string \<Rightarrow> string" where
  "sessions_path user = ''/internal/node/v1/users/'' @ user @ ''/sessions/revoke''"

definition sessions_checks :: "('w, 'h) node_env \<Rightarrow> sessions_command \<Rightarrow> (int \<times> reference_codec) result" where
  "sessions_checks env c =
     (case parse_user_id (sn_user c) of
        Inl e \<Rightarrow> Inl e
      | Inr user \<Rightarrow>
          (case validate_command (sn_key c) (sn_reason c) of
             Inl e \<Rightarrow> Inl e
           | Inr _ \<Rightarrow>
               if sn_all c = (sn_refs c \<noteq> []) then Inl (params_error (''all'' @ (utf8 [0x4E0E]) @ ''sessionRefs'' @ (utf8 [0x5FC5, 0x987B, 0x4E14, 0x53EA, 0x80FD, 0x6307, 0x5B9A, 0x4E00, 0x4E2A])))
               else if 100 < length (sn_refs c) then Inl (params_error (''sessionRefs'' @ (utf8 [0x4E0D, 0x80FD, 0x8D85, 0x8FC7]) @ ''100'' @ (utf8 [0x4E2A])))
               else case ne_codec env of
                 Some rc \<Rightarrow> if ne_has_sessions env then Inr (user, rc) else Inl no_revocation
               | None \<Rightarrow> Inl no_revocation))"

definition revoke_user_sessions ::
    "('w, 'h) node_env \<Rightarrow> node_timing \<Rightarrow> sessions_command \<Rightarrow> (int \<times> bool, 'w, 'h) node_run" where
  "revoke_user_sessions env tm c w =
     (case sessions_checks env c of
        Inl e \<Rightarrow> Some (Inl e, w)
      | Inr (user, rc) \<Rightarrow>
          (case command_metadata_of env ''POST'' (sessions_path (sn_user c)) (sn_key c)
                  (SessionsRequest (sn_all c) (sn_refs c) (sn_reason c)) of
             Inl e \<Rightarrow> Some (Inl e, w)
           | Inr md \<Rightarrow>
               (case (if sn_all c
                      then then_do (prepare_command (ne_hash env) (tm_now tm) md (prepare_cutoff env (tm_now tm)) w)
                             (\<lambda>prepared w1. (map_sum id (\<lambda>at. (at, [])) (read_cutoff env prepared), w1))
                      else (map_sum id (\<lambda>ids. (None, ids)) (decode_owned rc user (sn_refs c)), w)) of
                  (Inl e, w1) \<Rightarrow> Some (Inl e, w1)
                | (Inr (cutoff, ids), w1) \<Rightarrow>
                    run_command env tm md ''NODE_SESSION_REVOKE'' (sn_user c)
                      (apply_revocation env (tm_work tm) user (sn_all c) ids cutoff) w1)))"

text \<open>
  The listing: the rows of the table are in the order of their ids, and the page is read from the newest. The
  deletion mark of a session is never set by the code.
\<close>

record session_summary =
  sx_ref :: string
  sx_client :: string
  sx_method :: string
  sx_login_at :: time
  sx_last_access :: "time option"
  sx_expires :: time
  sx_status :: string

definition count_sessions_by_user_id :: "int \<Rightarrow> (int, 'w) sso_action" where
  "count_sessions_by_user_id user =
     sql_read ''count sso sessions by user'' (\<lambda>t. int (length (filter (\<lambda>r. ss_user r = user) (st_sessions t))))"

definition list_sessions_by_user_id_page :: "int \<Rightarrow> int \<Rightarrow> int \<Rightarrow> (sso_session list, 'w) sso_action" where
  "list_sessions_by_user_id_page user offset limit =
     (let o1 = (if offset < 0 then 0 else offset); l1 = (if limit \<le> 0 then 20 else limit);
          l2 = (if 100 < l1 then 100 else l1)
      in sql_read ''list sso sessions by user page''
           (\<lambda>t. take (nat l2) (drop (nat o1) (rev (filter (\<lambda>r. ss_user r = user) (st_sessions t))))))"

fun summarize_sessions :: "reference_codec \<Rightarrow> time \<Rightarrow> int \<Rightarrow> sso_session list \<Rightarrow> session_summary list result" where
  "summarize_sessions rc now user [] = Inr []"
| "summarize_sessions rc now user (s # ss) =
     (if ss_user s \<noteq> user then Inl (forbidden (utf8 [0x4F1A, 0x8BDD, 0x5F52, 0x5C5E, 0x6821, 0x9A8C, 0x5931, 0x8D25]))
      else case encode_reference rc \<lparr>sf_user = ss_user s, sf_session = ss_id s\<rparr> of
             Inl e \<Rightarrow> Inl e
           | Inr ref \<Rightarrow>
               (case summarize_sessions rc now user ss of
                  Inl e \<Rightarrow> Inl e
                | Inr rest \<Rightarrow>
                    Inr (\<lparr>sx_ref = ref, sx_client = ss_client s, sx_method = ss_login_method s,
                          sx_login_at = ss_login_at s, sx_last_access = ss_last_access s, sx_expires = ss_expires s,
                          sx_status = effective_session_status now s\<rparr> # rest)))"

definition list_user_sessions ::
    "('w, 'h) node_env \<Rightarrow> time \<Rightarrow> int \<Rightarrow> int \<Rightarrow> int \<Rightarrow> 'w sso_world \<Rightarrow>
     (int \<times> int \<times> int \<times> session_summary list) result \<times> 'w sso_world" where
  "list_user_sessions env now user current rows w =
     (if user \<le> 0 then (Inl malformed_user, w)
      else case ne_codec env of
        None \<Rightarrow> (Inl (service_unavailable (utf8 [0x4F1A, 0x8BDD, 0x67E5, 0x8BE2, 0x80FD, 0x529B, 0x4E0D, 0x53EF, 0x7528])), w)
      | Some rc \<Rightarrow>
          if \<not> ne_has_sessions env then (Inl (service_unavailable (utf8 [0x4F1A, 0x8BDD, 0x67E5, 0x8BE2, 0x80FD, 0x529B, 0x4E0D, 0x53EF, 0x7528])), w)
          else case normalize_page current rows of
            (c, s) \<Rightarrow>
              then_do (page_offset c s (2 ^ 63 - 1), w) (\<lambda>offset w0.
              then_do (count_sessions_by_user_id user w0) (\<lambda>total w1.
              then_do (list_sessions_by_user_id_page user offset s w1) (\<lambda>listed w2.
              then_do (summarize_sessions rc now user listed, w2) (\<lambda>records w3.
                (Inr (c, s, total, records), w3))))))"

section \<open>The login policy and the connection to the hub\<close>

definition plain_command ::
    "('w, 'h) node_env \<Rightarrow> node_timing \<Rightarrow> string \<Rightarrow> string \<Rightarrow> string \<Rightarrow> node_request \<Rightarrow> string \<Rightarrow> string \<Rightarrow>
     (('w, 'h) node_target \<Rightarrow> int result \<times> ('w, 'h) node_target) \<Rightarrow> (int \<times> bool, 'w, 'h) node_run" where
  "plain_command env tm method path key request name target operation w =
     (case command_metadata_of env method path key request of
        Inl e \<Rightarrow> Some (Inl e, w)
      | Inr md \<Rightarrow> run_command env tm md name target operation w)"

definition apply_login_policy ::
    "('w, 'h) node_env \<Rightarrow> node_timing \<Rightarrow> managed_policy \<Rightarrow> string \<Rightarrow> string \<Rightarrow> (int \<times> bool, 'w, 'h) node_run" where
  "apply_login_policy env tm policy reason key w =
     (case validate_command key reason of
        Inl e \<Rightarrow> Some (Inl e, w)
      | Inr _ \<Rightarrow>
          (case ne_policies env of
             None \<Rightarrow> Some (Inl (service_unavailable (utf8 [0x767B, 0x5F55, 0x7B56, 0x7565, 0x7BA1, 0x7406, 0x80FD, 0x529B, 0x4E0D, 0x53EF, 0x7528])), w)
           | Some apply_policy \<Rightarrow>
               if 32 < length (mp_methods policy) \<or> 256 < length (mp_rules policy)
               then Some (Inl (params_error (utf8 [0x767B, 0x5F55, 0x7B56, 0x7565, 0x6761, 0x76EE, 0x6570, 0x91CF, 0x8D85, 0x8FC7, 0x9650, 0x5236])), w)
               else plain_command env tm ''POST'' ''/internal/node/v1/login-policy/apply'' key (PolicyRequest policy reason)
                      ''NODE_LOGIN_POLICY_APPLY'' (mp_platform policy) (on_ports (apply_policy policy)) w))"

definition web_url :: "(string \<times> string \<times> string) option \<Rightarrow> string option" where
  "web_url parsed =
     (case parsed of
        None \<Rightarrow> None
      | Some (scheme, host, text) \<Rightarrow>
          if host = [] \<or> scheme \<noteq> ''https'' \<and> scheme \<noteq> ''http'' then None else Some text)"

definition connection_checks :: "('w, 'h) node_env \<Rightarrow> hub_connection \<Rightarrow> hub_connection result" where
  "connection_checks env c =
     (let version = trim_space (hc_version c); client = trim_space (hc_client c); redirect = trim_space (hc_redirect c)
      in if version = [] \<or> client = [] \<or> redirect = [] then Inl (params_error (''Hub'' @ (utf8 [0x8FDE, 0x63A5, 0x53C2, 0x6570, 0x4E0D, 0x5B8C, 0x6574])))
         else if hc_revision c < 0 then Inl (params_error (''targetRevision'' @ (utf8 [0x683C, 0x5F0F, 0x65E0, 0x6548])))
         else if 128 < length version \<or> 255 < length client \<or> 4096 < length (hc_secret c) \<or> 2048 < length (hc_issuer c)
                 \<or> 2048 < length redirect \<or> 128 < rune_count (hc_display c)
         then Inl (params_error (''Hub'' @ (utf8 [0x8FDE, 0x63A5, 0x53C2, 0x6570, 0x957F, 0x5EA6, 0x8D85, 0x8FC7, 0x9650, 0x5236])))
         else if hc_enabled c \<and> blank (hc_secret c)
         then Inl (params_error ((utf8 [0x542F, 0x7528]) @ ''Hub'' @ (utf8 [0x8FDE, 0x63A5, 0x65F6]) @ ''clientSecret'' @ (utf8 [0x4E0D, 0x80FD, 0x4E3A, 0x7A7A])))
         else case web_url (ne_parse_url env (trim_space (hc_issuer c))) of
                None \<Rightarrow> Inl (params_error (''issuer'' @ (utf8 [0x683C, 0x5F0F, 0x9519, 0x8BEF])))
              | Some issuer \<Rightarrow>
                  (case web_url (ne_parse_url env redirect) of
                     None \<Rightarrow> Inl (params_error (''redirectUri'' @ (utf8 [0x683C, 0x5F0F, 0x9519, 0x8BEF])))
                   | Some uri \<Rightarrow>
                       Inr (c\<lparr>hc_version := version, hc_display := trim_space (hc_display c), hc_issuer := issuer,
                              hc_client := client, hc_redirect := uri\<rparr>)))"

definition apply_hub_connection ::
    "('w, 'h) node_env \<Rightarrow> node_timing \<Rightarrow> hub_connection \<Rightarrow> string \<Rightarrow> string \<Rightarrow> (int \<times> bool, 'w, 'h) node_run" where
  "apply_hub_connection env tm c reason key w =
     (case validate_command key reason of
        Inl e \<Rightarrow> Some (Inl e, w)
      | Inr _ \<Rightarrow>
          (case ne_connection env of
             None \<Rightarrow> Some (Inl (service_unavailable (''Hub'' @ (utf8 [0x8FDE, 0x63A5, 0x7BA1, 0x7406, 0x80FD, 0x529B, 0x5C1A, 0x672A, 0x7ED1, 0x5B9A]))), w)
           | Some connect \<Rightarrow>
               (case connection_checks env c of
                  Inl e \<Rightarrow> Some (Inl e, w)
                | Inr managed \<Rightarrow>
                    plain_command env tm ''PUT'' ''/internal/node/v1/hub-connection'' key (ConnectionRequest c reason)
                      ''NODE_HUB_CONNECTION_APPLY'' (hc_version c)
                      (\<lambda>t. then_do (on_ports (connect managed) t) (\<lambda>_ t1. (Inr 1, t1))) w)))"

end
