(* ===== verification/Node_Properties.thy ===== *)
theory Node_Properties
  imports Node_Management Account_Samples
begin

text \<open>
  What the coordinator of commands promises. The commands of the cache that requests send interleave in any
  order (\<open>command_step\<close>): attempts to claim, looks at claims, completions, preparations, and whatever the operations do
  to the target. An entry of the cache survives every step that does not present it and comes before its deadline
  (\<open>entry_kept\<close>); the properties of claims and of retained results are instances of that. A status command that is sent
  again works on the status it was accepted on, so it changes the user at most once (\<open>status_changed_once\<close>).
\<close>

section \<open>Interleaved commands\<close>

inductive command_step ::
    "(string \<Rightarrow> string) \<Rightarrow> time \<Rightarrow> command_claim set \<Rightarrow> 's command_world \<Rightarrow> 's command_world \<Rightarrow> bool"
  for hash :: "string \<Rightarrow> string" and bound :: time and presented :: "command_claim set" where
  step_claim: "now < bound \<Longrightarrow> cc_result c = [] \<Longrightarrow>
    command_step hash bound presented w (snd (create_claim now (command_cache_key hash md) c ttl w))"
| step_look: "command_step hash bound presented w (snd (get_claim now (command_cache_key hash md) w))"
| step_finish: "now < bound \<Longrightarrow> cc_result c = [] \<Longrightarrow> c \<in> presented \<Longrightarrow>
    command_step hash bound presented w (snd (finish_command hash now md c outcome w))"
| step_prepare: "command_step hash bound presented w (snd (prepare_command hash now md prepare w))"
| step_work: "command_step hash bound presented w (w\<lparr>nw_target := t\<rparr>)"

abbreviation command_run ::
    "(string \<Rightarrow> string) \<Rightarrow> time \<Rightarrow> command_claim set \<Rightarrow> 's command_world \<Rightarrow> 's command_world \<Rightarrow> bool" where
  "command_run hash bound presented \<equiv> (command_step hash bound presented)\<^sup>*\<^sup>*"

text \<open>A command of the store does one of three things to the world.\<close>

lemma store_command_state:
  "\<exists>fs. snd (store_command effect w) = w\<lparr>nw_faults := fs\<rparr> \<or>
     snd (store_command effect w) = snd (effect (w\<lparr>nw_faults := fs\<rparr>))"
proof (cases "nw_faults w")
  case Nil
  then have same: "w\<lparr>nw_faults := []\<rparr> = w" by (cases w) simp
  have "snd (store_command effect w) = snd (effect (w\<lparr>nw_faults := []\<rparr>))"
    by (subst same) (simp add: store_command_def Nil)
  then show ?thesis by blast
next
  case (Cons f fs)
  then have "snd (store_command effect w) \<in> {w\<lparr>nw_faults := fs\<rparr>, snd (effect (w\<lparr>nw_faults := fs\<rparr>))}"
    by (cases f) (simp_all add: store_command_def Let_def)
  then show ?thesis by blast
qed

lemma store_command_Inr:
  assumes "store_command effect w = (Inr x, w')"
  shows "\<exists>fs. effect (w\<lparr>nw_faults := fs\<rparr>) = (Inr x, w')"
proof (cases "nw_faults w")
  case Nil
  then have same: "w\<lparr>nw_faults := []\<rparr> = w" by (cases w) simp
  have "effect (w\<lparr>nw_faults := []\<rparr>) = (Inr x, w')"
    using assms by (subst same) (simp add: store_command_def Nil)
  then show ?thesis by blast
next
  case (Cons f fs)
  then have "effect (w\<lparr>nw_faults := fs\<rparr>) = (Inr x, w')"
    using assms by (cases f) (simp_all add: store_command_def Let_def)
  then show ?thesis by blast
qed

lemma store_command_steady:
  assumes "\<And>fs. R (w\<lparr>nw_faults := fs\<rparr>)" "\<And>fs. R (snd (effect (w\<lparr>nw_faults := fs\<rparr>)))"
  shows "R (snd (store_command effect w))"
  using store_command_state [of effect w] assms by auto

section \<open>Entries that nobody presents\<close>

definition holds :: "string \<Rightarrow> command_claim \<Rightarrow> time \<Rightarrow> 's command_world \<Rightarrow> bool" where
  "holds key c deadline w \<longleftrightarrow> nw_claims w key = Some (c, Some deadline)"

lemma holds_simps [simp]:
  "holds key c d (w\<lparr>nw_faults := fs\<rparr>) = holds key c d w"
  "holds key c d (w\<lparr>nw_target := t\<rparr>) = holds key c d w"
  "holds key c d (w\<lparr>nw_prepared := p\<rparr>) = holds key c d w"
  by (simp_all add: holds_def)

lemma holds_get: "holds key c d w \<Longrightarrow> now < d \<Longrightarrow> kv_get now key (nw_claims w) = Some c"
  by (simp add: holds_def kv_get_def)

lemma create_claim_keeps:
  assumes "holds key c d w" "now < d"
  shows "holds key c d (snd (create_claim now key' c' ttl w))"
  unfolding create_claim_def
  by (rule store_command_steady) (use assms in \<open>auto simp: holds_def kv_set_nx_def kv_get_def split: prod.split\<close>)

lemma get_claim_keeps: "holds key c d w \<Longrightarrow> holds key c d (snd (get_claim now key' w))"
  unfolding get_claim_def by (rule store_command_steady) simp_all

lemma delete_claim_keeps:
  assumes "holds key c d w" "now < d" "c \<noteq> c'"
  shows "holds key c d (snd (delete_claim now key' c' w))"
  unfolding delete_claim_def
  by (rule store_command_steady)
    (use assms in \<open>auto simp: holds_def kv_compare_and_delete_def kv_get_def split: prod.split\<close>)

lemma compare_set_claims:
  "fst (compare_set_and_expire now key e r pkey ttl kv other) = fst (kv_compare_and_set now key e r ttl kv)"
  "fst (snd (compare_set_and_expire now key e r pkey ttl kv other)) = snd (kv_compare_and_set now key e r ttl kv)"
  by (auto simp: compare_set_and_expire_def kv_compare_and_set_def)

lemma compare_set_keeps:
  assumes "kv key = Some (c, Some d)" "now < d" "c \<noteq> c'"
  shows "snd (kv_compare_and_set now key' c' c'' ttl kv) key = Some (c, Some d)"
  using assms by (auto simp: kv_compare_and_set_def kv_get_def)

lemma complete_claim_keeps:
  assumes "holds key c d w" "now < d" "c \<noteq> c'"
  shows "holds key c d (snd (complete_claim now key' pkey c' c'' ttl w))"
  unfolding complete_claim_def
proof (rule store_command_steady)
  fix fs
  let ?w = "w\<lparr>nw_faults := fs\<rparr>"
  let ?r = "compare_set_and_expire now key' c' c'' pkey ttl (nw_claims ?w) (nw_prepared ?w)"
  have "fst (snd ?r) key = Some (c, Some d)"
    using compare_set_keeps [OF _ assms(2,3)] assms(1) by (simp add: compare_set_claims holds_def)
  then show "holds key c d (snd (case ?r of (r, kv, pkv) \<Rightarrow> (r, ?w\<lparr>nw_claims := kv, nw_prepared := pkv\<rparr>)))"
    by (cases ?r) (simp add: holds_def)
qed (use assms in simp)

lemma or_answer_keeps:
  assumes "R (snd r)" "\<And>x w. r = (Inr x, w) \<Longrightarrow> R w \<Longrightarrow> R (snd (f x w))"
  shows "R (snd (or_answer e r f))"
proof (cases r)
  case (Pair a w)
  then show ?thesis using assms by (cases a) simp_all
qed

lemma finish_keeps:
  assumes "holds key c d w" "now < d" "c \<noteq> c'"
  shows "holds key c d (snd (finish_command hash now md c' outcome w))"
proof (cases outcome)
  case (Inl e)
  then show ?thesis using delete_claim_keeps [OF assms] by (simp add: finish_command_def)
next
  case (Inr raw)
  then show ?thesis
    unfolding finish_command_def Let_def
    by (simp only: sum.case) (rule or_answer_keeps, rule complete_claim_keeps [OF assms], simp)
qed

lemma prepared_keeps:
  "holds key c d w \<Longrightarrow> holds key c d (snd (create_prepared now pkey p ttl w))"
  "holds key c d w \<Longrightarrow> holds key c d (snd (get_prepared now pkey w))"
  unfolding create_prepared_def get_prepared_def
  by (rule store_command_steady; auto split: prod.split)+

lemma prepare_new_keeps:
  assumes "holds key c d w"
  shows "holds key c d (snd (prepare_new now pkey md prepare w))"
proof (cases "prepare (nw_target w)")
  case (Pair r t)
  have w: "holds key c d (w\<lparr>nw_target := t\<rparr>)" using assms by simp
  show ?thesis
  proof (cases r)
    case (Inl e)
    then show ?thesis using assms Pair by (simp add: prepare_new_def)
  next
    case (Inr payload)
    show ?thesis
      unfolding prepare_new_def Pair Inr prod.case sum.case
      apply (rule or_answer_keeps, rule prepared_keeps(1), rule w)
      apply (split if_split, rule conjI, simp, rule impI)
      apply (rule or_answer_keeps, rule prepared_keeps(2), assumption)
      by (simp split: option.split)
  qed
qed

lemma prepare_keeps:
  assumes "holds key c d w"
  shows "holds key c d (snd (prepare_command hash now md prepare w))"
  unfolding prepare_command_def
  apply (rule or_answer_keeps, rule get_claim_keeps, rule assms)
  subgoal for claim w1
    apply (cases claim)
     apply (simp only: option.case)
     apply (rule or_answer_keeps, rule prepared_keeps(2), assumption)
     apply (simp add: prepare_new_keeps split: option.split)
    apply simp
    done
  done

lemma entry_kept:
  assumes "command_step hash bound presented w w'" "holds key c d w" "bound \<le> d" "c \<notin> presented"
  shows "holds key c d w'"
  using assms
proof (cases rule: command_step.cases)
  case (step_finish now c' md outcome)
  then show ?thesis using finish_keeps [OF assms(2)] assms(3,4) by (metis order_less_le_trans)
qed (auto intro: create_claim_keeps get_claim_keeps prepare_keeps)

lemma entry_kept_run:
  assumes "command_run hash bound presented w w'" "holds key c d w" "bound \<le> d" "c \<notin> presented"
  shows "holds key c d w'"
  using assms by (induction rule: rtranclp_induct) (auto intro: entry_kept)

section \<open>Beginning and ending a command\<close>

lemma begin_held:
  "begin_command n hash clock owner md w = Some (Inr (Held c), w1) \<Longrightarrow>
     cc_result c = [] \<and> cc_digest c = trim_space (cd_digest md) \<and>
     (\<exists>i < n. cc_owner c = owner i \<and>
        holds (command_cache_key hash md) c (clock (2 * i) + default_processing_ttl) w1)"
proof (induction n arbitrary: clock owner w)
  case (Suc n)
  let ?key = "command_cache_key hash md"
  let ?c = "\<lparr>cc_digest = trim_space (cd_digest md), cc_owner = owner 0, cc_result = []\<rparr>"
  obtain r w2 where claim: "create_claim (clock 0) ?key ?c default_processing_ttl w = (r, w2)" by fastforce
  show ?case
  proof (cases "r = Inr True")
    case True
    then have "c = ?c" "w1 = w2" using Suc.prems claim by (auto simp: Let_def)
    moreover have "holds ?key ?c (clock 0 + default_processing_ttl) w2"
      using store_command_Inr [OF claim [unfolded True create_claim_def]]
      by (auto simp: kv_set_nx_def holds_def default_processing_ttl_def sent_duration_def second_def millisecond_def
          split: if_splits)
    ultimately show ?thesis by (auto intro!: exI [of _ 0])
  next
    case False
    obtain r' w3 where look: "get_claim (clock 1) ?key w2 = (r', w3)" by fastforce
    have "begin_command n hash (\<lambda>i. clock (i + 2)) (\<lambda>i. owner (i + 1)) md w3 = Some (Inr (Held c), w1)"
      using Suc.prems claim look False
      by (auto simp: Let_def resolve_existing_def split: sum.splits bool.splits option.splits if_splits)
    from Suc.IH [OF this] obtain i where "i < n" "cc_result c = []" "cc_digest c = trim_space (cd_digest md)"
      "cc_owner c = owner (Suc i)" "holds ?key c (clock (2 * Suc i) + default_processing_ttl) w1"
      by auto
    then show ?thesis by (intro conjI exI [of _ "Suc i"]) simp_all
  qed
qed simp

lemma complete_claim_Inr:
  assumes "complete_claim now key pkey c c' ttl w = (Inr ok, w1)"
  shows "\<exists>fs kv pkv. kv_compare_and_set now key c c' ttl (nw_claims w) = (Inr ok, kv) \<and>
    w1 = w\<lparr>nw_faults := fs, nw_claims := kv, nw_prepared := pkv\<rparr>"
proof -
  obtain r kv pkv where set: "compare_set_and_expire now key c c' pkey ttl (nw_claims w) (nw_prepared w) = (r, kv, pkv)"
    by (metis prod_cases3)
  have "kv_compare_and_set now key c c' ttl (nw_claims w) = (r, kv)"
    using compare_set_claims [of now key c c' pkey ttl "nw_claims w" "nw_prepared w"] by (simp add: set prod_eq_iff)
  with store_command_Inr [OF assms [unfolded complete_claim_def]] show ?thesis by (auto simp: set)
qed

lemma complete_claim_sets:
  assumes "complete_claim now key pkey c c' ttl w = (Inr True, w1)" "0 < ttl" "ttl mod millisecond = 0"
  shows "holds key c' (now + ttl) w1"
proof -
  from complete_claim_Inr [OF assms(1)] obtain fs kv pkv where
    "kv_compare_and_set now key c c' ttl (nw_claims w) = (Inr True, kv)"
    and w1: "w1 = w\<lparr>nw_faults := fs, nw_claims := kv, nw_prepared := pkv\<rparr>" by blast
  then have "kv key = Some (c', Some (now + whole_millis ttl * millisecond))"
    by (auto simp: kv_compare_and_set_def split: if_splits)
  moreover have "whole_millis ttl * millisecond = ttl"
    using assms(2,3) div_mult_mod_eq [of ttl millisecond] by (simp add: whole_millis_def)
  ultimately show ?thesis by (simp add: holds_def w1)
qed

lemma retention_exact [simp]: "0 < default_retention_ttl" "default_retention_ttl mod millisecond = 0"
  by (simp_all add: default_retention_ttl_def second_def millisecond_def)

lemma finish_Inr:
  assumes "finish_command hash later md c outcome w = (Inr (reply, replayed), w1)"
  shows "\<exists>raw. outcome = Inr raw \<and> \<not> replayed \<and> reply = (if raw = [] then ''null'' else raw) \<and>
    complete_claim later (command_cache_key hash md) (prepared_cache_key hash md) c (c\<lparr>cc_result := reply\<rparr>)
      default_retention_ttl w = (Inr True, w1)"
proof (cases outcome)
  case (Inr raw)
  let ?reply = "if raw = [] then ''null'' else raw"
  obtain ok w2 where ended: "complete_claim later (command_cache_key hash md) (prepared_cache_key hash md) c
      (c\<lparr>cc_result := ?reply\<rparr>) default_retention_ttl w = (Inr ok, w2)"
    "(if ok then (Inr (?reply, False), w2) else (Inl result_unconfirmed, w2)) = (Inr (reply, replayed), w1)"
    using assms unfolding Inr finish_command_def Let_def sum.case or_answer_Inr by blast
  then have "ok" "w2 = w1" "reply = ?reply" "\<not> replayed" by (auto split: if_splits)
  with ended(1) Inr show ?thesis by auto
qed (use assms in \<open>simp add: finish_command_def\<close>)

lemma completed_claim:
  assumes "finish_command hash later md c outcome w = (Inr (reply, replayed), w1)"
  shows "reply \<noteq> [] \<and> holds (command_cache_key hash md) (c\<lparr>cc_result := reply\<rparr>) (later + default_retention_ttl) w1"
proof -
  from finish_Inr [OF assms] obtain raw where raw: "reply = (if raw = [] then ''null'' else raw)"
    and set: "complete_claim later (command_cache_key hash md) (prepared_cache_key hash md) c (c\<lparr>cc_result := reply\<rparr>)
      default_retention_ttl w = (Inr True, w1)" by blast
  show ?thesis using raw complete_claim_sets [OF set] by simp
qed

text \<open>A claim in force: who comes while it lives does not run the operation.\<close>

lemma begin_at_entry:
  assumes "holds (command_cache_key hash md) c d w" "clock 0 < d" "clock 1 < d"
  shows "\<exists>r w1. begin_command (Suc n) hash clock owner md w = Some (r, w1) \<and>
    nw_target w1 = nw_target w \<and> holds (command_cache_key hash md) c d w1 \<and>
    (r = Inl replay_unavailable \<or> r = resolve_existing c md) \<and>
    (nw_faults w = [] \<longrightarrow> r = resolve_existing c md \<and> w1 = w)"
proof -
  let ?key = "command_cache_key hash md"
  let ?c = "\<lparr>cc_digest = trim_space (cd_digest md), cc_owner = owner 0, cc_result = []\<rparr>"
  have refused: "kv_set_nx (clock 0) ?key ?c default_processing_ttl (nw_claims w) = (Inr False, nw_claims w)"
    using holds_get [OF assms(1,2)] by (simp add: kv_set_nx_def default_processing_ttl_def second_def)
  obtain r w1 where claim: "create_claim (clock 0) ?key ?c default_processing_ttl w = (r, w1)" by fastforce
  have kept: "nw_target w1 = nw_target w" "holds ?key c d w1" "(\<exists>e. r = Inl e) \<or> r = Inr False"
    "nw_faults w = [] \<Longrightarrow> r = Inr False \<and> w1 = w"
    using claim refused assms(1)
    by (auto simp: create_claim_def store_command_def Let_def split: list.splits sql_outcome.splits)
  obtain r' w2 where look: "get_claim (clock 1) ?key w1 = (r', w2)" by fastforce
  have kept': "nw_target w2 = nw_target w1" "holds ?key c d w2" "(\<exists>e. r' = Inl e) \<or> r' = Inr (Some c)"
    "nw_faults w1 = [] \<Longrightarrow> r' = Inr (Some c) \<and> w2 = w1"
    using look kept(2) holds_get [OF kept(2) assms(3)]
    by (auto simp: get_claim_def store_command_def Let_def split: list.splits sql_outcome.splits)
  show ?thesis using claim look kept kept' by auto
qed

section \<open>Properties\<close>

lemma resolve_existing_Inr:
  "resolve_existing c md = Inr s \<Longrightarrow> s = Retained (cc_result c) \<and> cc_result c \<noteq> []"
  by (auto simp: resolve_existing_def split: if_splits)

text \<open>A request that meets an entry does not run its operation.\<close>

lemma execute_at_entry:
  assumes "holds (command_cache_key hash md) c d w" "clock 0 < d" "clock 1 < d"
  shows "\<exists>r w1. execute_command (Suc n) hash clock later owner md operation w = Some (r, w1) \<and>
    nw_target w1 = nw_target w \<and> (\<forall>x. r = Inr x \<longrightarrow> x = (cc_result c, True) \<and> cc_result c \<noteq> []) \<and>
    (nw_faults w = [] \<longrightarrow> w1 = w \<and>
       r = (if cc_digest c \<noteq> trim_space (cd_digest md) then Inl other_request
            else if cc_result c \<noteq> [] then Inr (cc_result c, True) else Inl still_running))"
proof -
  from begin_at_entry [OF assms, of n owner] obtain r w1 where begun:
    "begin_command (Suc n) hash clock owner md w = Some (r, w1)" "nw_target w1 = nw_target w"
    "r = Inl replay_unavailable \<or> r = resolve_existing c md"
    "nw_faults w = [] \<Longrightarrow> r = resolve_existing c md \<and> w1 = w" by blast
  show ?thesis
  proof (cases r)
    case (Inl e)
    with begun have "execute_command (Suc n) hash clock later owner md operation w = Some (Inl e, w1)"
      by (simp add: execute_command_def del: begin_command.simps)
    with begun Inl show ?thesis by (auto simp: resolve_existing_def split: if_splits)
  next
    case (Inr s)
    with begun(3) have res: "resolve_existing c md = Inr s" by auto
    from resolve_existing_Inr [OF res] have s: "s = Retained (cc_result c)" "cc_result c \<noteq> []" by auto
    have "begin_command (Suc n) hash clock owner md w = Some (Inr (Retained (cc_result c)), w1)"
      using begun(1) Inr s(1) by simp
    then have "execute_command (Suc n) hash clock later owner md operation w = Some (Inr (cc_result c, True), w1)"
      by (simp add: execute_command_def del: begin_command.simps)
    with begun s res show ?thesis by (auto simp: resolve_existing_def split: if_splits)
  qed
qed

text \<open>A second attempt finds the key free, when nobody else takes it.\<close>

lemma begin_returns:
  assumes "clock 1 \<le> clock 2"
  shows "begin_command 2 hash clock owner md w \<noteq> None"
proof -
  let ?key = "command_cache_key hash md"
  let ?c = "\<lambda>i. \<lparr>cc_digest = trim_space (cd_digest md), cc_owner = owner i, cc_result = []\<rparr>"
  obtain r w1 where claim: "create_claim (clock 0) ?key (?c 0) default_processing_ttl w = (r, w1)" by fastforce
  obtain r' w2 where look: "get_claim (clock 1) ?key w1 = (r', w2)" by fastforce
  obtain r'' w3 where again: "create_claim (clock 2) ?key (?c 1) default_processing_ttl w2 = (r'', w3)" by fastforce
  have "r'' \<noteq> Inr False" if "r' = Inr None"
  proof
    assume "r'' = Inr False"
    from store_command_Inr [OF look [unfolded that get_claim_def]] have "kv_get (clock 1) ?key (nw_claims w2) = None"
      by auto
    then have gone: "kv_get (clock 2) ?key (nw_claims w2) = None"
      using assms by (auto simp: kv_get_def split: option.splits)
    from store_command_Inr [OF again [unfolded \<open>r'' = Inr False\<close> create_claim_def]] gone show False
      by (auto simp: kv_set_nx_def default_processing_ttl_def second_def split: prod.split_asm)
  qed
  then show ?thesis
    using claim look again
    by (auto simp: numeral_2_eq_2 Let_def split: sum.split option.split bool.split)
qed

text \<open>A whole request is such a run.\<close>

lemma begin_is_run:
  "begin_command n hash clock owner md w = Some (r, w1) \<Longrightarrow> \<forall>i. clock i < bound \<Longrightarrow> command_run hash bound presented w w1"
proof (induction n arbitrary: clock owner w)
  case (Suc n)
  let ?key = "command_cache_key hash md"
  let ?c = "\<lparr>cc_digest = trim_space (cd_digest md), cc_owner = owner 0, cc_result = []\<rparr>"
  obtain a w2 where claim: "create_claim (clock 0) ?key ?c default_processing_ttl w = (a, w2)" by fastforce
  obtain b w3 where look: "get_claim (clock 1) ?key w2 = (b, w3)" by fastforce
  have first: "command_step hash bound presented w w2"
    using step_claim [of "clock 0" bound ?c hash presented w md default_processing_ttl] Suc.prems(2) by (simp add: claim)
  have second: "command_step hash bound presented w2 w3"
    using step_look [of hash bound presented w2 "clock 1" md] look by simp
  have rest: "command_run hash bound presented w3 w1"
    if "begin_command n hash (\<lambda>i. clock (i + 2)) (\<lambda>i. owner (i + 1)) md w3 = Some (r, w1)"
    by (rule Suc.IH [OF that]) (use Suc.prems(2) in simp)
  consider "w1 = w2" | "w1 = w3" | "begin_command n hash (\<lambda>i. clock (i + 2)) (\<lambda>i. owner (i + 1)) md w3 = Some (r, w1)"
    using Suc.prems(1) claim look by (auto simp: Let_def split: sum.splits bool.splits option.splits)
  then show ?case
    using first second rest by cases (meson converse_rtranclp_into_rtranclp r_into_rtranclp)+
qed simp

lemma execute_is_run:
  assumes "execute_command n hash clock later owner md operation w = Some (r, w1)"
    "\<forall>i. clock i < bound" "later < bound"
    "\<forall>i. \<lparr>cc_digest = trim_space (cd_digest md), cc_owner = owner i, cc_result = []\<rparr> \<in> presented"
  shows "command_run hash bound presented w w1"
proof -
  obtain a w2 where begun: "begin_command n hash clock owner md w = Some (a, w2)"
    using assms(1) by (auto simp: execute_command_def split: option.splits)
  have run: "command_run hash bound presented w w2" using begin_is_run [OF begun assms(2)] .
  show ?thesis
  proof (cases "\<exists>c. a = Inr (Held c)")
    case True
    then obtain c where a: "a = Inr (Held c)" by blast
    obtain outcome t where op: "operation (nw_target w2) = (outcome, t)" by fastforce
    have w1: "w1 = snd (finish_command hash later md c outcome (w2\<lparr>nw_target := t\<rparr>))"
      using assms(1) begun a op by (auto simp: execute_command_def)
    from begin_held [OF begun [unfolded a]] obtain i where "cc_result c = []" "cc_digest c = trim_space (cd_digest md)"
      "cc_owner c = owner i" by blast
    then have "c \<in> presented" "cc_result c = []" using assms(4) by (metis command_claim.surjective unit.exhaust)+
    then show ?thesis
      unfolding w1 using run step_work [of hash bound presented w2 t] step_finish [OF assms(3)]
      by (meson rtranclp.rtrancl_into_rtrancl)
  next
    case False
    then have "w1 = w2" using assms(1) begun by (auto simp: execute_command_def split: sum.splits start.splits)
    then show ?thesis using run by simp
  qed
qed

section \<open>What a request does to the target and to the preparation\<close>

lemma begin_frame:
  "begin_command n hash clock owner md w = Some (r, w1) \<Longrightarrow>
     nw_target w1 = nw_target w \<and> nw_prepared w1 = nw_prepared w"
proof (induction n arbitrary: clock owner w)
  case (Suc n)
  let ?c = "\<lparr>cc_digest = trim_space (cd_digest md), cc_owner = owner 0, cc_result = []\<rparr>"
  obtain a w2 where claim: "create_claim (clock 0) (command_cache_key hash md) ?c default_processing_ttl w = (a, w2)"
    by fastforce
  have "nw_target (snd (create_claim (clock 0) (command_cache_key hash md) ?c default_processing_ttl w)) = nw_target w \<and>
      nw_prepared (snd (create_claim (clock 0) (command_cache_key hash md) ?c default_processing_ttl w)) = nw_prepared w"
    unfolding create_claim_def by (rule store_command_steady) (simp_all split: prod.split)
  then have same: "nw_target w2 = nw_target w" "nw_prepared w2 = nw_prepared w" by (simp_all add: claim)
  obtain b w3 where look: "get_claim (clock 1) (command_cache_key hash md) w2 = (b, w3)" by fastforce
  have "nw_target (snd (get_claim (clock 1) (command_cache_key hash md) w2)) = nw_target w2 \<and>
      nw_prepared (snd (get_claim (clock 1) (command_cache_key hash md) w2)) = nw_prepared w2"
    unfolding get_claim_def by (rule store_command_steady) simp_all
  then have same': "nw_target w3 = nw_target w" "nw_prepared w3 = nw_prepared w" using same look by (metis snd_conv)+
  show ?case
    using Suc.prems claim look same same' Suc.IH [of "\<lambda>i. clock (i + 2)" "\<lambda>i. owner (i + 1)" w3]
    by (auto simp: Let_def split: sum.splits bool.splits option.splits)
qed simp

definition refreshed :: "time \<Rightarrow> string \<Rightarrow> 'v kv \<Rightarrow> 'v kv \<Rightarrow> bool" where
  "refreshed later key kv kv' \<longleftrightarrow> kv' = kv \<or> kv' = kv_pexpire later key default_retention_ttl kv"

lemma finish_frame:
  "nw_target (snd (finish_command hash later md c outcome w)) = nw_target w \<and>
   refreshed later (prepared_cache_key hash md) (nw_prepared w) (nw_prepared (snd (finish_command hash later md c outcome w)))"
proof -
  let ?ok = "\<lambda>w'. nw_target w' = nw_target w \<and> refreshed later (prepared_cache_key hash md) (nw_prepared w) (nw_prepared w')"
  have "?ok (snd (delete_claim later (command_cache_key hash md) c w))"
    unfolding delete_claim_def by (rule store_command_steady) (simp_all add: refreshed_def split: prod.split)
  moreover have "?ok (snd (complete_claim later (command_cache_key hash md) (prepared_cache_key hash md) c c'
      default_retention_ttl w))" for c'
    unfolding complete_claim_def
    by (rule store_command_steady)
      (auto simp: refreshed_def compare_set_and_expire_def kv_compare_and_set_def)
  ultimately show ?thesis
    unfolding finish_command_def Let_def
    by (cases outcome) (auto intro!: or_answer_keeps [where R = ?ok])
qed

lemma execute_frame:
  assumes "execute_command n hash clock later owner md operation w = Some (r, w1)"
  shows "nw_target w1 \<in> {nw_target w, snd (operation (nw_target w))} \<and>
    refreshed later (prepared_cache_key hash md) (nw_prepared w) (nw_prepared w1)"
proof -
  obtain a w2 where begun: "begin_command n hash clock owner md w = Some (a, w2)"
    using assms by (auto simp: execute_command_def split: option.splits)
  note same = begin_frame [OF begun]
  show ?thesis
  proof (cases "\<exists>c. a = Inr (Held c)")
    case True
    then obtain c where a: "a = Inr (Held c)" by blast
    obtain outcome t where op: "operation (nw_target w2) = (outcome, t)" by fastforce
    have "w1 = snd (finish_command hash later md c outcome (w2\<lparr>nw_target := t\<rparr>))"
      using assms begun a op by (auto simp: execute_command_def)
    then show ?thesis
      using finish_frame [of hash later md c outcome "w2\<lparr>nw_target := t\<rparr>"] same op by simp
  next
    case False
    then have "w1 = w2"
      using assms begun by (auto simp: execute_command_def split: sum.splits start.splits)
    then show ?thesis using same by (simp add: refreshed_def)
  qed
qed

lemma run_command_frame:
  assumes "run_command env tm md name target operation w = Some (r, w1)"
  shows "nt_accounts (nw_target w1) \<in> {nt_accounts (nw_target w), nt_accounts (snd (operation (nw_target w)))} \<and>
    refreshed (tm_later tm) (prepared_cache_key (ne_hash env) md) (nw_prepared w) (nw_prepared w1)"
proof -
  obtain answer w2 where run: "execute_command (tm_fuel tm) (ne_hash env) (tm_clock tm) (tm_later tm) (tm_owner tm) md
      (counted_operation env operation) w = Some (answer, w2)"
    and w1: "report_command env name md target answer w2 = (r, w1)"
    using assms by (auto simp: run_command_def split: option.splits)
  have audit: "nt_accounts (snd (write_audit env name md target n t)) = nt_accounts t" for n t
    by (auto simp: write_audit_def on_ports_def split: option.split prod.split)
  have "nt_accounts (nw_target w1) = nt_accounts (nw_target w2) \<and> nw_prepared w1 = nw_prepared w2"
    using w1 audit
    by (auto simp: report_command_def split: sum.splits prod.splits option.splits) (metis snd_conv)+
  moreover have "snd (counted_operation env operation t) = snd (operation t)" for t
    by (auto simp: counted_operation_def split: prod.split sum.split)
  ultimately show ?thesis using execute_frame [OF run] by auto
qed

lemma prepare_cases:
  assumes "prepare_command hash now md prepare w = (r, w1)" "key = prepared_cache_key hash md"
  shows "nw_prepared w1 = nw_prepared w \<and> nw_target w1 \<in> {nw_target w, snd (prepare (nw_target w))} \<and>
      (\<forall>s. r = Inr (Some s) \<longrightarrow> (\<exists>p. kv_get now key (nw_prepared w) = Some p \<and> s = pd_payload p)) \<or>
    (\<exists>s p. fst (prepare (nw_target w)) = Inr s \<and> nw_target w1 = snd (prepare (nw_target w)) \<and>
      kv_get now key (nw_prepared w) = None \<and> pd_payload p = s \<and>
      nw_prepared w1 = (nw_prepared w)(key \<mapsto> (p, Some (now + default_retention_ttl))) \<and>
      (\<forall>s'. r = Inr (Some s') \<longrightarrow> s' = s))"
  (is "?old r w1 \<or> ?new r w1")
proof -
  have gets: "nw_prepared v' = nw_prepared v \<and> nw_target v' = nw_target v" if "get_claim now k v = (a, v')" for k v a v'
  proof -
    have "nw_prepared (snd (get_claim now k v)) = nw_prepared v \<and> nw_target (snd (get_claim now k v)) = nw_target v"
      unfolding get_claim_def by (rule store_command_steady) simp_all
    then show ?thesis by (simp add: that)
  qed
  have reads: "nw_prepared v' = nw_prepared v \<and> nw_target v' = nw_target v \<and>
      (\<forall>x. a = Inr x \<longrightarrow> kv_get now k (nw_prepared v) = x)" if "get_prepared now k v = (a, v')" for k v a v'
  proof -
    have "nw_prepared (snd (get_prepared now k v)) = nw_prepared v \<and> nw_target (snd (get_prepared now k v)) = nw_target v"
      unfolding get_prepared_def by (rule store_command_steady) simp_all
    moreover have "kv_get now k (nw_prepared v) = x" if "a = Inr x" for x
      using store_command_Inr [OF \<open>get_prepared now k v = (a, v')\<close> [unfolded that get_prepared_def]] by auto
    ultimately show ?thesis by (simp add: that)
  qed
  have sets: "nw_target v' = nw_target v \<and> (nw_prepared v' = nw_prepared v \<and> a \<noteq> Inr True \<or>
      kv_get now key (nw_prepared v) = None \<and>
      nw_prepared v' = (nw_prepared v)(key \<mapsto> (p, Some (now + default_retention_ttl))) \<and> a \<noteq> Inr False)"
    if "create_prepared now key p default_retention_ttl v = (a, v')" for p v a v'
    using that
    by (auto simp: create_prepared_def store_command_def kv_set_nx_def Let_def default_retention_ttl_def sent_duration_def
        second_def millisecond_def split: list.splits sql_outcome.splits if_splits)
  have fresh: "?old r w1 \<or> ?new r w1"
    if v: "nw_prepared v = nw_prepared w" "nw_target v = nw_target w" "prepare_new now key md prepare v = (r, w1)"
      "kv_get now key (nw_prepared w) = None" for v
  proof (cases "prepare (nw_target w)")
    case (Pair a t)
    show ?thesis
    proof (cases a)
      case (Inl e)
      then show ?thesis using v Pair by (auto simp: prepare_new_def)
    next
      case (Inr s)
      let ?p = "\<lparr>pd_digest = trim_space (cd_digest md), pd_payload = s\<rparr>"
      obtain b v1 where made: "create_prepared now key ?p default_retention_ttl (v\<lparr>nw_target := t\<rparr>) = (b, v1)" by fastforce
      note step = sets [OF made]
      have ended: "?old r w1 \<or> ?new r w1" if "w1 = v1" "\<forall>s'. r = Inr (Some s') \<longrightarrow> s' = s"
          "\<And>s'. r = Inr (Some s') \<Longrightarrow> b = Inr True"
      proof (cases "nw_prepared v1 = nw_prepared v \<and> b \<noteq> Inr True")
        case True
        then have "?old r w1" using step v Pair that by auto
        then show ?thesis ..
      next
        case False
        then have "kv_get now key (nw_prepared w) = None"
          "nw_prepared w1 = (nw_prepared w)(key \<mapsto> (?p, Some (now + default_retention_ttl)))" "nw_target w1 = t"
          using step v that(1) by auto
        then have "?new r w1" using that(2) Pair Inr by (intro exI [of _ s] exI [of _ ?p]) simp
        then show ?thesis ..
      qed
      show ?thesis
      proof (cases b)
        case (Inl e)
        then have "r = Inl preparation_unavailable" "w1 = v1" using v(2,3) Pair Inr made by (simp_all add: prepare_new_def)
        then show ?thesis using ended by simp
      next
        case (Inr created)
        show ?thesis
        proof (cases created)
          case True
          then have "r = Inr (Some s)" "w1 = v1"
            using v(2,3) Pair \<open>a = Inr s\<close> made Inr by (simp_all add: prepare_new_def)
          then show ?thesis using ended True Inr by simp
        next
          case False
          obtain d v2 where again: "get_prepared now key v1 = (d, v2)" by fastforce
          have "w1 = v2 \<and> (\<forall>s'. r \<noteq> Inr (Some s'))"
            using v Pair \<open>a = Inr s\<close> made Inr False again reads [OF again] step
            by (cases d) (auto simp: prepare_new_def resolve_prepared_def split: option.splits if_splits)
          then show ?thesis using step v Pair False Inr reads [OF again] by auto
        qed
      qed
    qed
  qed
  obtain a v where look: "get_claim now (command_cache_key hash md) w = (a, v)" by fastforce
  note v = gets [OF look]
  show ?thesis
  proof (cases "a = Inr None")
    case False
    then have "w1 = v \<and> (\<forall>s. r \<noteq> Inr (Some s))"
      using assms(1) look by (cases a) (auto simp: prepare_command_def split: option.splits if_splits)
    then show ?thesis using v by simp
  next
    case True
    obtain b v1 where read: "get_prepared now key v = (b, v1)" by fastforce
    note v1 = reads [OF read]
    show ?thesis
    proof (cases "b = Inr None")
      case True
      then have "prepare_new now key md prepare v1 = (r, w1)"
        using assms look read \<open>a = Inr None\<close> by (simp add: prepare_command_def)
      show ?thesis by (rule fresh [OF _ _ \<open>prepare_new now key md prepare v1 = (r, w1)\<close>]) (use v v1 True in auto)
    next
      case False
      then have "w1 = v1 \<and> (\<forall>s. r = Inr (Some s) \<longrightarrow> (\<exists>p. b = Inr (Some p) \<and> s = pd_payload p))"
        using assms look read \<open>a = Inr None\<close>
        by (cases b) (auto simp: prepare_command_def resolve_prepared_def split: option.splits if_splits)
      then show ?thesis using v v1 by auto
    qed
  qed
qed

section \<open>The status of a user\<close>

definition rows_of :: "int \<Rightarrow> ('w, 'h) node_target command_world \<Rightarrow> user_row list" where
  "rows_of user w = filter (\<lambda>r. us_id r = user) (db_users (ac_db (nt_accounts (nw_target w))))"

definition changed_once :: "status_command \<Rightarrow> string \<Rightarrow> user_row \<Rightarrow> user_row" where
  "changed_once c hash r =
     r\<lparr>us_status := sm_status c, us_unseal := None, us_version := Suc (us_version r), us_hash := Some (trim_space hash)\<rparr>"

lemma filter_update_where:
  assumes "\<And>r. Q (f r) = Q r"
  shows "filter Q (update_where P f rs) = update_where P f (filter Q rs)"
  using assms by (induction rs) (auto simp: update_where_def)

lemma managed_status_rows:
  fixes c :: managed_status_command
  assumes "az_transactor (ae_authz env)"
  defines "rows \<equiv> \<lambda>a. filter (\<lambda>r. us_id r = ms_user c) (db_users (ac_db a))"
  shows "rows (snd (set_managed_user_status env now c NoTx a)) \<in> {rows a, update_where
      (\<lambda>r. us_id r = ms_user c \<and> us_status r = ms_expected c \<and> us_version r = ms_version c \<and> \<not> us_deleted r)
      (\<lambda>r. r\<lparr>us_status := ms_status c, us_unseal := None, us_version := Suc (us_version r),
             us_hash := Some (trim_space (ms_hash c))\<rparr>) (rows a)}" (is "_ \<in> {_, ?changed}")
proof (cases "managed_status_checks c")
  case (Inl e)
  then show ?thesis by (simp add: set_managed_user_status_def)
next
  case (Inr u)
  then have user: "0 < ms_user c" by (auto simp: managed_status_checks_def split: if_splits)
  obtain r a' where run: "account_mutation env (managed_status_body env now c) NoTx a = (r, a')" by fastforce
  then have "snd (set_managed_user_status env now c NoTx a) = a'"
    using Inr by (cases r) (simp_all add: set_managed_user_status_def)
  moreover have "rows a' \<in> {rows a, ?changed}"
  proof -
    consider "tables_same a a'"
      | x a1 where "managed_status_body env now c OrdinaryTx a = (Inr x, a1)" "accounts_like a1 a'"
      using account_mutation_cases [OF assms(1) run] by blast
    then show ?thesis
    proof cases
      case 1
      then show ?thesis by (simp add: rows_def tables_same_def)
    next
      case 2
      obtain ok db where cas: "compare_and_set_managed_user_status (ms_user c) (ms_expected c) (ms_version c) (ms_status c)
          None (ms_hash c) (ac_db a) = (ok, db)" by fastforce
      obtain v a2 where first: "managed_guard env c OrdinaryTx a = (Inr v, a2)"
        using 2(1) unfolding managed_status_body_def account_steps by blast
      then have "(if ok then managed_revoke env now c else managed_replay env now c) OrdinaryTx (a\<lparr>ac_db := db\<rparr>)
          = (Inr x, a1)"
        using 2(1) managed_guard_Inr [OF first] cas unfolding managed_status_body_def account_steps by auto
      then have "ac_db a1 = db" by (cases ok) (auto dest!: managed_revoke_db managed_replay_db)
      moreover have "db_users (ac_db a') = db_users (ac_db a1)"
        using accounts_like_parts [OF 2(2)] by (auto simp: db_like_def)
      moreover have "filter (\<lambda>r. us_id r = ms_user c) (db_users db) = ?changed"
        using cas user
        by (auto simp: compare_and_set_managed_user_status_def Let_def rows_def intro!: filter_update_where)
      ultimately show ?thesis by (simp add: rows_def)
    qed
  qed
  ultimately show ?thesis by simp
qed

lemma apply_status_rows:
  assumes "az_transactor (ae_authz (ne_accounts env))" "a = None \<or> a = Some acc"
    "filter (\<lambda>r. us_id r = user) (db_users (ac_db (nt_accounts t))) = [r]"
  shows "filter (\<lambda>r. us_id r = user)
      (db_users (ac_db (nt_accounts (snd (apply_status env now user (sm_status c) hash a t))))) \<in>
    {[r], if a \<noteq> None \<and> us_version r = ap_version acc then [changed_once c hash r] else [r]}"
proof (cases "a = None \<or> sm_status c \<noteq> UserStatusNormal \<and> is_zero_time (ap_cutoff acc)")
  case True
  then show ?thesis using assms(2,3) by (auto simp: apply_status_def)
next
  case False
  then have a: "a = Some acc" using assms(2) by blast
  let ?m = "\<lparr>ms_user = user, ms_expected = ap_status acc, ms_version = ap_version acc, ms_status = sm_status c,
      ms_cutoff = ap_cutoff acc, ms_hash = hash\<rparr>"
  have "nt_accounts (snd (apply_status env now user (sm_status c) hash a t))
      = snd (set_managed_user_status (ne_accounts env) now ?m NoTx (nt_accounts t))"
    using False a by (auto simp: apply_status_def on_account_def split: prod.split)
  then show ?thesis
    using managed_status_rows [OF assms(1), of ?m now "nt_accounts t"] assms(3) a
    by (auto simp: update_where_def changed_once_def)
qed

text \<open>
  Requests for the same command, with anything else in between that leaves the rows of the user and the preparation of
  the command as they are: claims and results, other users, sessions, the outcomes of the store.
\<close>

inductive status_requests ::
    "('w, 'h) node_env \<Rightarrow> status_command \<Rightarrow> int \<Rightarrow> string \<Rightarrow> time \<Rightarrow>
     ('w, 'h) node_target command_world \<Rightarrow> ('w, 'h) node_target command_world \<Rightarrow> bool"
  for env :: "('w, 'h) node_env" and c :: status_command and user :: int and key :: string and start :: time where
  request_status: "set_user_status env tm c w = Some (r, w') \<Longrightarrow> start \<le> tm_now tm \<Longrightarrow> start \<le> tm_later tm \<Longrightarrow>
    tm_now tm < start + default_retention_ttl \<Longrightarrow> status_requests env c user key start w w'"
| request_other: "rows_of user w' = rows_of user w \<Longrightarrow> nw_prepared w' key = nw_prepared w key \<Longrightarrow>
    status_requests env c user key start w w'"

text \<open>What is kept between them: the row is the first one or the changed one, and once the command was prepared its
  preparation names the version of the first row.\<close>

definition status_kept ::
    "('w, 'h) node_env \<Rightarrow> status_command \<Rightarrow> int \<Rightarrow> string \<Rightarrow> string \<Rightarrow> time \<Rightarrow> user_row \<Rightarrow>
     ('w, 'h) node_target command_world \<Rightarrow> bool" where
  "status_kept env c user key hash start r0 w \<longleftrightarrow>
     (nw_prepared w key = None \<and> rows_of user w = [r0] \<or>
      rows_of user w \<in> {[r0], [changed_once c hash r0]} \<and>
      (\<exists>p d. nw_prepared w key = Some (p, Some d) \<and> start + default_retention_ttl \<le> d \<and>
         (\<forall>a. ne_unmarshal_status env (pd_payload p) = Some a \<longrightarrow> ap_version a = us_version r0)))"

lemma prepare_status_rows:
  "db_users (ac_db (nt_accounts (snd (prepare_status env now user status t)))) = db_users (ac_db (nt_accounts t))"
  by (auto simp: prepare_status_def then_do_def on_account_def capture_managed_cutoff_def on_sso_def
      split: sum.split prod.split)

lemma prepare_status_version:
  assumes "prepare_status env now user status t = (Inr s, t')"
    "\<And>a s. ne_marshal_status env a = Inr s \<Longrightarrow> ne_unmarshal_status env s = Some a"
    "filter (\<lambda>r. us_id r = user) (db_users (ac_db (nt_accounts t))) = [r]" "ne_unmarshal_status env s = Some a"
  shows "ap_version a = us_version r"
proof -
  obtain current version cutoff where found: "get_managed_user_status_snapshot (ac_db (nt_accounts t)) user = Inr (current, version)"
    and s: "ne_marshal_status env \<lparr>ap_status = current, ap_version = version, ap_cutoff = cutoff\<rparr> = Inr s"
    using assms(1) by (auto simp: prepare_status_def then_do_Inr split: sum.splits if_splits)
  from found obtain r' where "find_subject (ac_db (nt_accounts t)) user = Some r'" "version = us_version r'"
    by (auto simp: get_managed_user_status_snapshot_def split: if_splits option.splits)
  moreover from this have "r' \<in> set (filter (\<lambda>r. us_id r = user) (db_users (ac_db (nt_accounts t))))"
    by (auto simp: find_subject_def find_Some_iff split: if_splits)
  ultimately have "version = us_version r" using assms(3) by simp
  with assms(2) [OF s] assms(4) show ?thesis by auto
qed

lemma prepared_step:
  assumes "status_kept env c user key hash start r0 w" "key = prepared_cache_key (ne_hash env) md"
    "\<And>a s. ne_marshal_status env a = Inr s \<Longrightarrow> ne_unmarshal_status env s = Some a"
    "start \<le> now" "now < start + default_retention_ttl"
    "prepare_command (ne_hash env) now md (prepare_status env now user (sm_status c)) w = (r, w1)"
  shows "status_kept env c user key hash start r0 w1 \<and>
    (\<forall>s a. r = Inr (Some s) \<and> ne_unmarshal_status env s = Some a \<longrightarrow>
       ap_version a = us_version r0 \<and> nw_prepared w1 key \<noteq> None)"
proof -
  let ?prepare = "prepare_status env now user (sm_status c)"
  have rows: "rows_of user w1 = rows_of user w" if "nw_target w1 \<in> {nw_target w, snd (?prepare (nw_target w))}"
    using that prepare_status_rows [of env now user "sm_status c" "nw_target w"] by (auto simp: rows_of_def)
  show ?thesis
  proof (cases "nw_prepared w key")
    case None
    then have first: "rows_of user w = [r0]" using assms(1) by (simp add: status_kept_def)
    from None have gone: "kv_get now key (nw_prepared w) = None" by (simp add: kv_get_def)
    from prepare_cases [OF assms(6,2)] show ?thesis
    proof (elim disjE exE conjE)
      assume old: "nw_prepared w1 = nw_prepared w" "nw_target w1 \<in> {nw_target w, snd (?prepare (nw_target w))}"
        "\<forall>s. r = Inr (Some s) \<longrightarrow> (\<exists>p. kv_get now key (nw_prepared w) = Some p \<and> s = pd_payload p)"
      then show ?thesis using gone None first rows by (simp add: status_kept_def)
    next
      fix s p
      assume new: "fst (?prepare (nw_target w)) = Inr s" "nw_target w1 = snd (?prepare (nw_target w))" "pd_payload p = s"
        "nw_prepared w1 = (nw_prepared w)(key \<mapsto> (p, Some (now + default_retention_ttl)))"
        "\<forall>s'. r = Inr (Some s') \<longrightarrow> s' = s"
      have "ap_version a = us_version r0" if "ne_unmarshal_status env s = Some a" for a
        using prepare_status_version [of env now user "sm_status c" "nw_target w" s _ r0 a] new(1) assms(3) first that
        by (metis rows_of_def prod.collapse)
      then show ?thesis using new first rows assms(4) by (simp add: status_kept_def)
    qed
  next
    case (Some e)
    then obtain q d where q: "nw_prepared w key = Some (q, Some d)" "start + default_retention_ttl \<le> d"
      "\<And>a. ne_unmarshal_status env (pd_payload q) = Some a \<Longrightarrow> ap_version a = us_version r0"
      and now: "rows_of user w \<in> {[r0], [changed_once c hash r0]}"
      using assms(1) by (auto simp: status_kept_def)
    have live: "kv_get now key (nw_prepared w) = Some q" using q(1,2) assms(5) by (simp add: kv_get_def)
    from prepare_cases [OF assms(6,2)] live
    have old: "nw_prepared w1 = nw_prepared w" "nw_target w1 \<in> {nw_target w, snd (?prepare (nw_target w))}"
      "\<And>s. r = Inr (Some s) \<Longrightarrow> s = pd_payload q" by auto
    have "status_kept env c user key hash start r0 w1"
      using rows [OF old(2)] now q old(1) by (auto simp: status_kept_def)
    then show ?thesis using old(1,3) q(1,3) by auto
  qed
qed

lemma refreshed_kept:
  assumes "refreshed later key kv kv'" "start \<le> later"
  shows "(kv key = None \<longrightarrow> kv' key = None) \<and>
    (kv key = Some (p, Some d) \<and> start + default_retention_ttl \<le> d \<longrightarrow>
       (\<exists>d'. kv' key = Some (p, Some d') \<and> start + default_retention_ttl \<le> d'))"
proof -
  have "whole_millis default_retention_ttl * millisecond = default_retention_ttl"
    by (simp add: whole_millis_def default_retention_ttl_def second_def millisecond_def)
  then show ?thesis
    using assms by (auto simp: refreshed_def kv_pexpire_def kv_get_def split: option.splits if_splits)
qed

lemma run_status_kept:
  assumes "status_kept env c user key (command_scope_hash (ne_hash env) md) start r0 w"
    "key = prepared_cache_key (ne_hash env) md"
    "az_transactor (ae_authz (ne_accounts env))" "start \<le> tm_later tm"
    "\<And>s a. prepared = Some s \<Longrightarrow> ne_unmarshal_status env s = Some a \<Longrightarrow>
       ap_version a = us_version r0 \<and> nw_prepared w key \<noteq> None"
    "run_status env tm c user md prepared w = Some (r, w')"
  shows "status_kept env c user key (command_scope_hash (ne_hash env) md) start r0 w'"
proof -
  let ?hash = "command_scope_hash (ne_hash env) md"
  consider "w' = w" | a where "a = None \<or> (\<exists>s acc. prepared = Some s \<and> ne_unmarshal_status env s = Some acc \<and> a = Some acc)"
      "run_command env tm md ''NODE_USER_STATUS'' (sm_user c) (apply_status env (tm_work tm) user (sm_status c) ?hash a) w
        = Some (r, w')"
    using assms(6)
    by (auto simp: run_status_def read_accepted_def split: sum.splits option.splits if_splits)
  then show ?thesis
  proof cases
    case 1
    then show ?thesis using assms(1) by simp
  next
    case (2 a)
    note frame = run_command_frame [OF 2(2), folded assms(2)]
    obtain r1 where r1: "rows_of user w = [r1]" "r1 = r0 \<or> r1 = changed_once c ?hash r0"
      using assms(1) by (auto simp: status_kept_def)
    have stepped: "rows_of user w' \<in> {[r1], if a \<noteq> None \<and> us_version r1 = us_version r0 then [changed_once c ?hash r1] else [r1]}"
    proof -
      obtain acc where "a = None \<or> a = Some acc" "a \<noteq> None \<Longrightarrow> ap_version acc = us_version r0"
        using 2(1) assms(5) by (cases a) auto
      from apply_status_rows [OF assms(3) this(1), of user "nw_target w" r1 "tm_work tm" c ?hash] this(2) r1(1) frame
      show ?thesis by (cases "a = None") (auto simp: rows_of_def split: if_splits)
    qed
    then have rows: "rows_of user w' \<in> {[r0], [changed_once c ?hash r0]}"
      using r1(2) by (auto simp: changed_once_def split: if_splits)
    show ?thesis
    proof (cases "nw_prepared w key")
      case None
      then have "a = None" using 2(1) assms(5) by auto
      then have "rows_of user w' = [r0]" using stepped None r1 assms(1) by (auto simp: status_kept_def)
      then show ?thesis using refreshed_kept [OF conjunct2 [OF frame] assms(4)] None by (simp add: status_kept_def)
    next
      case (Some e)
      then obtain q d where q: "nw_prepared w key = Some (q, Some d)" "start + default_retention_ttl \<le> d"
        "\<forall>a. ne_unmarshal_status env (pd_payload q) = Some a \<longrightarrow> ap_version a = us_version r0"
        using assms(1) by (auto simp: status_kept_def)
      from refreshed_kept [OF conjunct2 [OF frame] assms(4), of q d] q(1,2) obtain d' where
        "nw_prepared w' key = Some (q, Some d')" "start + default_retention_ttl \<le> d'" by auto
      with rows q(3) show ?thesis by (auto simp: status_kept_def)
    qed
  qed
qed

text \<open>C36. Safety. When a command was executed, then for a day, whatever other requests do in between, a request with
  the same key does not run anything: it is answered with the retained result if it asks for the same, and refused
  if it asks for something else.\<close>

theorem executed_command_replayed:
  assumes "execute_command n hash clock later owner md operation w = Some (Inr (reply, False), w1)"
    "command_run hash bound presented w1 w2" "bound \<le> later + default_retention_ttl"
    "\<forall>c \<in> presented. cc_result c = []"
    "command_cache_key hash md' = command_cache_key hash md"
    "clock' 0 < later + default_retention_ttl" "clock' 1 < later + default_retention_ttl"
  shows "\<exists>r w3. execute_command (Suc m) hash clock' later' owner' md' operation' w2 = Some (r, w3) \<and>
    nw_target w3 = nw_target w2 \<and> (\<forall>x. r = Inr x \<longrightarrow> x = (reply, True)) \<and>
    (nw_faults w2 = [] \<longrightarrow>
       r = (if trim_space (cd_digest md') = trim_space (cd_digest md) then Inr (reply, True) else Inl other_request))"
proof -
  obtain c w0 outcome t where begun: "begin_command n hash clock owner md w = Some (Inr (Held c), w0)"
    and ended: "finish_command hash later md c outcome (w0\<lparr>nw_target := t\<rparr>) = (Inr (reply, False), w1)"
    using assms(1) by (auto simp: execute_command_def split: option.splits sum.splits start.splits prod.splits)
  from completed_claim [OF ended] have kept: "reply \<noteq> []"
    "holds (command_cache_key hash md) (c\<lparr>cc_result := reply\<rparr>) (later + default_retention_ttl) w1" by auto
  have "c\<lparr>cc_result := reply\<rparr> \<notin> presented" using assms(4) kept(1) by force
  with entry_kept_run [OF assms(2) kept(2) assms(3)]
  have "holds (command_cache_key hash md') (c\<lparr>cc_result := reply\<rparr>) (later + default_retention_ttl) w2"
    using assms(5) by simp
  from execute_at_entry [OF this assms(6,7)] kept(1) begin_held [OF begun] show ?thesis by fastforce
qed

text \<open>C37. Safety. While a command that took its claim runs, and for two minutes, no other request with its key begins:
  each is refused, whatever the requests of others do meanwhile, and nobody but the holder can complete the command.\<close>

theorem command_exclusive:
  assumes "begin_command 1 hash clock owner md w = Some (Inr (Held c), w1)"
    "command_run hash bound presented w1 w2" "bound \<le> clock 0 + default_processing_ttl" "c \<notin> presented"
    "clock' 0 < clock 0 + default_processing_ttl" "clock' 1 < clock 0 + default_processing_ttl"
    "command_cache_key hash md' = command_cache_key hash md" "c' \<noteq> c"
    "later < clock 0 + default_processing_ttl"
  shows "(\<exists>e w3. execute_command (Suc m) hash clock' later' owner' md' operation w2 = Some (Inl e, w3) \<and>
      nw_target w3 = nw_target w2) \<and>
    (\<forall>x. fst (finish_command hash later md c' outcome w2) \<noteq> Inr x) \<and>
    (nw_faults w2 = [] \<longrightarrow> (\<exists>reply w3. finish_command hash later md c (Inr raw) w2 = (Inr (reply, False), w3)))"
proof -
  let ?key = "command_cache_key hash md" and ?d = "clock 0 + default_processing_ttl"
  from begin_held [OF assms(1)] have c: "cc_result c = []" "holds ?key c ?d w1" by auto
  from entry_kept_run [OF assms(2) c(2) assms(3,4)] have held: "holds ?key c ?d w2" .
  then have held': "holds (command_cache_key hash md') c ?d w2" by (simp add: assms(7))
  from execute_at_entry [OF held' assms(5,6), of m later' owner' operation] c(1)
  have others: "\<exists>e w3. execute_command (Suc m) hash clock' later' owner' md' operation w2 = Some (Inl e, w3) \<and>
      nw_target w3 = nw_target w2" by (metis sum.exhaust)
  have present: "kv_get later ?key (nw_claims w2) = Some c" using holds_get [OF held assms(9)] .
  have alien: "fst (finish_command hash later md c' outcome w2) \<noteq> Inr x" for x
  proof
    assume "fst (finish_command hash later md c' outcome w2) = Inr x"
    then obtain reply replayed w3 where "finish_command hash later md c' outcome w2 = (Inr (reply, replayed), w3)"
      by (metis prod.collapse)
    from finish_Inr [OF this] complete_claim_Inr have "kv_get later ?key (nw_claims w2) = Some c'"
      by (fastforce simp: kv_compare_and_set_def split: if_splits)
    with present assms(8) show False by simp
  qed
  have own: "\<exists>reply w3. finish_command hash later md c (Inr raw) w2 = (Inr (reply, False), w3)" if "nw_faults w2 = []"
  proof -
    have "fst (complete_claim later ?key (prepared_cache_key hash md) c c'' default_retention_ttl w2) = Inr True" for c''
      using present that
      by (simp add: complete_claim_def store_command_def compare_set_and_expire_def kv_compare_and_set_def
          whole_millis_def default_retention_ttl_def second_def millisecond_def)
    then obtain w4 where "complete_claim later ?key (prepared_cache_key hash md) c
        (c\<lparr>cc_result := if raw = [] then ''null'' else raw\<rparr>) default_retention_ttl w2 = (Inr True, w4)"
      by (metis prod.collapse)
    then show ?thesis unfolding finish_command_def Let_def sum.case by simp
  qed
  show ?thesis using others alien own by blast
qed

text \<open>C35. Safety. However often a status command is sent again within a day of the first time, whatever else happens in
  between, whichever commands and transactions fail and whichever answers are lost, the row of the user is either as it
  was or changed exactly once, to the status asked for.\<close>

theorem status_changed_once:
  assumes "az_transactor (ae_authz (ne_accounts env))"
    "\<And>a s. ne_marshal_status env a = Inr s \<Longrightarrow> ne_unmarshal_status env s = Some a"
    "parse_user_id (sm_user c) = Inr user"
    "command_metadata_of env ''PUT'' (status_path (sm_user c)) (sm_key c) (StatusRequest (sm_status c) (sm_reason c)) = Inr md"
    "nw_prepared w (prepared_cache_key (ne_hash env) md) = None" "rows_of user w = [r]"
    "(status_requests env c user (prepared_cache_key (ne_hash env) md) start)\<^sup>*\<^sup>* w w'"
  shows "rows_of user w' = [r] \<or> rows_of user w' = [changed_once c (command_scope_hash (ne_hash env) md) r]"
proof -
  let ?key = "prepared_cache_key (ne_hash env) md" and ?hash = "command_scope_hash (ne_hash env) md"
  have "status_kept env c user ?key ?hash start r w'"
    using assms(7)
  proof (induction rule: rtranclp_induct)
    case base
    show ?case using assms(5,6) by (simp add: status_kept_def)
  next
    case (step w1 w2)
    from step.hyps(2) show ?case
    proof (cases rule: status_requests.cases)
      case (request_status tm answer)
      show ?thesis
      proof (cases "w2 = w1")
        case True
        then show ?thesis using step.IH by simp
      next
        case False
        obtain prepared w3 where ready: "prepare_command (ne_hash env) (tm_now tm) md
            (prepare_status env (tm_now tm) user (sm_status c)) w1 = (prepared, w3)" by fastforce
        note kept = prepared_step [OF step.IH refl assms(2) request_status(2,4) ready]
        consider "w2 = w3" | p where "prepared = Inr p" "run_status env tm c user md p w3 = Some (answer, w2)"
          using request_status(1) False ready assms(3,4)
          by (auto simp: set_user_status_def split: sum.splits if_splits)
        then show ?thesis
          by cases (use kept run_status_kept [OF _ refl assms(1) request_status(3)] in blast)+
      qed
    next
      case request_other
      then show ?thesis using step.IH by (simp add: status_kept_def)
    qed
  qed
  then show ?thesis by (auto simp: status_kept_def)
qed

text \<open>A reference made for a session is read back as that session.\<close>

lemma reference_round_trip:
  assumes "encode_reference rc r = Inr text"
    "\<And>n s. rc_unseal rc n (rc_seal rc n s) = Some s" "\<And>n s. rc_seal rc n s \<noteq> []"
    "\<And>s. rc_of_text rc (rc_to_text rc s) = Some s" "trim_space text = text"
    "rc_unmarshal rc (rc_marshal rc r) = Some r" "\<And>n. rc_nonce rc = Inr n \<Longrightarrow> length n = nonce_size"
  shows "decode_reference rc text = Inr r"
  using assms by (auto simp: encode_reference_def decode_reference_def split: if_splits sum.splits)

section \<open>Instances\<close>

definition sample_metadata :: command_metadata where
  "sample_metadata = \<lparr>cd_node = ''n'', cd_method = ''PUT'', cd_path = ''/p'', cd_key = ''k'', cd_digest = ''d''\<rparr>"

definition sample_commands :: "int command_world" where
  "sample_commands = \<lparr>nw_claims = Map.empty, nw_prepared = Map.empty, nw_faults = [], nw_target = 0\<rparr>"

abbreviation sample_key :: string where
  "sample_key \<equiv> command_cache_key (\<lambda>s. s) sample_metadata"

definition sample_claim :: command_claim where
  "sample_claim = \<lparr>cc_digest = trim_space ''d'', cc_owner = ''o'', cc_result = []\<rparr>"

definition sample_claimed :: "int command_world" where
  "sample_claimed = sample_commands\<lparr>nw_claims := [sample_key \<mapsto> (sample_claim, Some (120 * second))]\<rparr>"

definition sample_executed :: "int command_world" where
  "sample_executed = sample_commands\<lparr>nw_claims := [sample_key \<mapsto> (sample_claim\<lparr>cc_result := ''1''\<rparr>, Some (86401 * second))],
     nw_target := 1\<rparr>"

lemma sample_begins:
  "begin_command 1 (\<lambda>s. s) (\<lambda>_. 0) (\<lambda>_. ''o'') sample_metadata sample_commands = Some (Inr (Held sample_claim), sample_claimed)"
  by (simp add: sample_commands_def sample_claimed_def sample_claim_def create_claim_def store_command_def kv_set_nx_def kv_get_def
      default_processing_ttl_def sent_duration_def second_def millisecond_def sample_metadata_def Let_def)

lemma sample_execution:
  "execute_command 1 (\<lambda>s. s) (\<lambda>_. 0) second (\<lambda>_. ''o'') sample_metadata (\<lambda>n. (Inr ''1'', n + 1)) sample_commands
    = Some (Inr (''1'', False), sample_executed)"
  unfolding execute_command_def sample_begins
  by (simp add: sample_commands_def sample_claimed_def sample_executed_def finish_command_def complete_claim_def
      store_command_def compare_set_and_expire_def kv_compare_and_set_def kv_pexpire_def kv_get_def whole_millis_def
      default_retention_ttl_def second_def millisecond_def Let_def)

theorem executed_command_replayed_witness:
  "\<exists>w3. execute_command 1 (\<lambda>s. s) (\<lambda>_. 3600 * second) 0 (\<lambda>_. ''other'') sample_metadata (\<lambda>n. (Inr ''2'', n + 1)) sample_executed
     = Some (Inr (''1'', True), w3) \<and> nw_target w3 = 1"
  using executed_command_replayed [OF sample_execution rtranclp.rtrancl_refl [of _ sample_executed], where bound = 0
      and presented = "{}" and clock' = "\<lambda>_. 3600 * second" and md' = sample_metadata and m = 0 and later' = 0
      and owner' = "\<lambda>_. ''other''" and operation' = "\<lambda>n. (Inr ''2'', n + 1)"]
  by (auto simp: default_retention_ttl_def second_def sample_executed_def sample_commands_def)

theorem command_exclusive_witness:
  "\<exists>e w3. execute_command 1 (\<lambda>s. s) (\<lambda>_. 60 * second) 0 (\<lambda>_. ''other'') sample_metadata (\<lambda>n. (Inr ''2'', n + 1)) sample_claimed
     = Some (Inl e, w3) \<and> nw_target w3 = 0"
  using command_exclusive [OF sample_begins rtranclp.rtrancl_refl [of _ sample_claimed], where bound = 0
      and presented = "{}" and clock' = "\<lambda>_. 60 * second" and md' = sample_metadata and m = 0 and later' = 0
      and owner' = "\<lambda>_. ''other''" and operation = "\<lambda>n. (Inr ''2'', n + 1)" and later = second
      and c' = "sample_claim\<lparr>cc_owner := ''other''\<rparr>"]
  by (auto simp: default_processing_ttl_def second_def sample_claimed_def sample_commands_def sample_claim_def)

definition sample_codec :: reference_codec where
  "sample_codec =
     \<lparr>rc_seal = (\<lambda>n s. CHR ''!'' # s), rc_unseal = (\<lambda>n s. Some (tl s)), rc_nonce = Inr ''nonce1234567'',
      rc_to_text = (\<lambda>s. s), rc_of_text = Some, rc_marshal = (\<lambda>r. sf_session r),
      rc_unmarshal = (\<lambda>s. Some \<lparr>sf_user = 7, sf_session = s\<rparr>)\<rparr>"

lemma sample_reference:
  "encode_reference sample_codec \<lparr>sf_user = 7, sf_session = ''s''\<rparr> = Inr ''nonce1234567!s'' \<and>
   decode_reference sample_codec ''nonce1234567!s'' = Inr \<lparr>sf_user = 7, sf_session = ''s''\<rparr>"
proof
  have trims: "trim_space ''nonce1234567!s'' = ''nonce1234567!s''" "\<not> blank ''s''"
    by (rule trim_visible; simp add: visible_def) (simp add: blank_def)
  show encoded: "encode_reference sample_codec \<lparr>sf_user = 7, sf_session = ''s''\<rparr> = Inr ''nonce1234567!s''"
    using trims(2) by (simp add: encode_reference_def sample_codec_def)
  show "decode_reference sample_codec ''nonce1234567!s'' = Inr \<lparr>sf_user = 7, sf_session = ''s''\<rparr>"
    by (rule reference_round_trip [OF encoded]) (simp_all add: sample_codec_def trims(1) nonce_size_def)
qed

definition sample_node_env :: "(unit, unit) node_env" where
  "sample_node_env =
     \<lparr>ne_node = ''n'', ne_hash = (\<lambda>s. s), ne_digest = (\<lambda>_. Inr ''d''),
      ne_marshal_status = (\<lambda>a. if ap_version a = 0 \<and> ap_status a = 0 \<and> ap_cutoff a = 0 then Inr ''0'' else Inl (PlainError ''json'')),
      ne_unmarshal_status = (\<lambda>s. if s = ''0'' then Some \<lparr>ap_status = 0, ap_version = 0, ap_cutoff = 0\<rparr> else None),
      ne_marshal_cutoff = (\<lambda>t. Inr (show_int t)), ne_unmarshal_cutoff = parse_int64,
      ne_marshal_count = (\<lambda>n. Inr (show_int n)), ne_unmarshal_count = parse_int64,
      ne_parse_url = (\<lambda>_. None), ne_accounts = sample_account_env, ne_has_users = True, ne_has_sessions = True,
      ne_codec = Some sample_codec, ne_policies = None, ne_connection = None,
      ne_audit = Some (\<lambda>_ _ _ _ _ _ h. (Inr (), h))\<rparr>"

definition sample_node :: "(unit, unit) node_target command_world" where
  "sample_node = \<lparr>nw_claims = Map.empty, nw_prepared = Map.empty, nw_faults = [],
     nw_target = \<lparr>nt_accounts = sample_accounts, nt_ports = ()\<rparr>\<rparr>"

definition sample_timing :: node_timing where
  "sample_timing = \<lparr>tm_now = 0, tm_fuel = 2, tm_clock = (\<lambda>_. 0), tm_owner = (\<lambda>_. ''o''), tm_work = 0, tm_later = second\<rparr>"

definition sample_status :: status_command where
  "sample_status = \<lparr>sm_user = ''7'', sm_status = 1, sm_reason = ''r'', sm_key = ''k''\<rparr>"

lemma set_user_status_returns:
  assumes "tm_fuel tm = 2" "tm_clock tm 1 \<le> tm_clock tm 2"
  shows "set_user_status env tm c w \<noteq> None"
proof -
  have "run_command env tm md name target operation w1 \<noteq> None" for md name target operation w1
    using begin_returns [of "tm_clock tm", OF assms(2)] assms(1)
    by (auto simp: run_command_def execute_command_def simp del: begin_command.simps
        split: option.splits sum.splits start.splits prod.splits)
  then show ?thesis
    by (auto simp: set_user_status_def run_status_def split: sum.split prod.split)
qed

theorem status_changed_once_witness:
  "\<exists>answer w'. set_user_status sample_node_env sample_timing sample_status sample_node = Some (answer, w') \<and>
     (rows_of 7 w' = [sample_user 7 ''alice''] \<or>
      rows_of 7 w' = [(sample_user 7 ''alice'')\<lparr>us_status := 1, us_version := 1,
         us_hash := Some (trim_space (''n|PUT|/internal/node/v1/users/7/status|k''))\<rparr>])"
proof -
  obtain answer w' where run: "set_user_status sample_node_env sample_timing sample_status sample_node = Some (answer, w')"
    using set_user_status_returns [of sample_timing sample_node_env sample_status sample_node]
    by (auto simp: sample_timing_def)
  let ?md = "\<lparr>cd_node = ''n'', cd_method = ''PUT'', cd_path = ''/internal/node/v1/users/7/status'', cd_key = ''k'',
      cd_digest = ''d''\<rparr>"
  have metadata: "command_metadata_of sample_node_env ''PUT'' (status_path (sm_user sample_status)) (sm_key sample_status)
      (StatusRequest (sm_status sample_status) (sm_reason sample_status)) = Inr ?md"
    by (simp add: command_metadata_of_def sample_node_env_def status_path_def sample_status_def)
  have user: "parse_user_id (sm_user sample_status) = Inr 7"
    using trim_visible [of "''7''"]
    by (simp add: parse_user_id_def sample_status_def visible_def parse_int64_def parse_nat_def digit_value_def in_int64_def)
  have step: "status_requests sample_node_env sample_status 7 (prepared_cache_key (ne_hash sample_node_env) ?md) 0 sample_node w'"
    by (rule request_status [OF run]) (simp_all add: sample_timing_def second_def default_retention_ttl_def)
  have trims: "trim_space ''n'' = ''n''" "trim_space ''PUT'' = ''PUT''" "trim_space ''k'' = ''k''"
    "trim_space ''/internal/node/v1/users/7/status'' = ''/internal/node/v1/users/7/status''"
    by (rule trim_visible; simp add: visible_def)+
  have hash: "command_scope_hash (ne_hash sample_node_env) ?md = ''n|PUT|/internal/node/v1/users/7/status|k''"
    by (simp add: command_scope_hash_def sample_node_env_def trims to_upper_def upper_char_def)
  have row: "rows_of 7 sample_node = [sample_user 7 ''alice'']"
    by (simp add: rows_of_def sample_node_def sample_db_def sample_user_def)
  have "rows_of 7 w' = [sample_user 7 ''alice''] \<or>
      rows_of 7 w' = [changed_once sample_status (command_scope_hash (ne_hash sample_node_env) ?md) (sample_user 7 ''alice'')]"
    by (rule status_changed_once [OF _ _ user metadata _ row r_into_rtranclp [where r = "status_requests _ _ _ _ _", OF step]])
      (auto simp: sample_node_env_def sample_node_def split: if_splits)
  then show ?thesis using run unfolding hash by (auto simp: changed_once_def sample_status_def sample_user_def)
qed

end
