(* ===== verification/Spec2Isabelle.thy ===== *)
theory Spec2Isabelle
  imports Rights_Properties Org_Properties Consume_Properties Hub_Properties Outbox_Properties Proof_Properties Challenge_Lock
    Sso_Policy_Properties Credential_Properties Account_Properties Account_Run Org_Trees Org_Hierarchy Login_Gaps Node_Properties
begin

text \<open>
  A verification library for the server of the seven framework, the Go code under
  \<open>src/seven-framework-server/internal\<close>. File and function names below are relative to that directory.

  \<^bold>\<open>The program.\<close> The server is a set of components over one relational database and one key-value
  cache. The \<^emph>\<open>challenge\<close> component asks a person for proofs of identity (passwords, mail codes, second
  factors, captchas) and hands out a signed proof token when enough of them were given; other components
  demand such a token before a privileged operation. The \<^emph>\<open>sso\<close> component is an OAuth and OpenID
  provider: sessions, authorization codes, families of rotating refresh tokens. The \<^emph>\<open>authorization\<close>
  component decides who may do what from roles, permissions, menus and departments; \<^emph>\<open>system/user\<close> holds
  accounts and the organization, ends the sessions of users who lose their access, and asks authorization to
  protect the last administrator; \<^emph>\<open>credential\<close> stores passwords and second factors; \<^emph>\<open>setup\<close> creates the
  first account. The \<^emph>\<open>hub\<close> connects remote nodes through a saga with a ledger of connection versions. The
  \<^emph>\<open>outbox\<close> carries events between components and the \<^emph>\<open>consume guard\<close> keeps a message from being
  handled twice.

  \<^bold>\<open>Foundations.\<close> \<open>Go_Text\<close> has Go strings as byte strings with the functions of the packages strings,
  strconv and unicode the code calls; \<open>Seven_Prelude\<close> instants and durations (nanoseconds, durations wrap at 64
  bits), dynamically typed values and lemmas on lists; \<open>Go_Lists\<close> loops over slices and maps;
  \<open>App_Errors\<close> the errors of \<open>common/errors\<close>, so that every early return is a value \<open>Inl e\<close> with the code's
  own message. \<open>Sql_Model\<close> has tables as lists of rows and statements that may be lost before or after taking
  effect; \<open>Tx_Store\<close> the three transaction boundaries of \<open>datasource/store/tx.go\<close>, how they nest, their
  repetition and the mutation that invalidates cached projections when the operation reports a change; \<open>Tx_Boundary\<close> the contract of a boundary
  as a locale, interpreted on both transactors. \<open>Redis_Store\<close> has the string commands of the cache with
  their deadlines. \<open>Fenced_Lease\<close> is the contract of a claim with a token and a deadline, interpreted by the
  outbox (\<open>Outbox_Lease\<close>), the consume guard and the submit lock of a challenge.

  \<^bold>\<open>Challenge\<close> (\<open>app/challenge\<close>). \<open>Challenge_Actions\<close> vocabulary and policies, \<open>Challenge_Session\<close> the session and
  its steps, \<open>Challenge_Building\<close> the session of a request, \<open>Challenge_Store\<close> the repositories,
  \<open>Challenge_Proof\<close> the token service, \<open>Challenge_Flow\<close> and \<open>Challenge_Service\<close> the operations.
  \<open>Challenge_Machine\<close> proves the invariant of a session and that it takes finitely many answers;
  \<open>Challenge_Frame\<close>, \<open>Challenge_Safety\<close> and \<open>Challenge_Properties\<close> that tokens are earned: a run of the service
  keeps, beside its state, a log of the answers the providers accepted, and a token belongs to the stored, passed
  session whose completed steps are in that log. \<open>Proof_Properties\<close> has the round trip of claims, that the token
  of a passed session is accepted and that it is accepted once, and what the vocabulary promises and the service
  does not do; \<open>Challenge_Lock\<close> the lock and the throttle.

  \<^bold>\<open>Single sign-on\<close> (\<open>app/sso\<close>). \<open>Federation\<close>, \<open>Sso_Policy\<close> the decisions without state, \<open>Sso_Model\<close> tables and
  statements, \<open>Sso_Flow\<close>, \<open>Sso_Service\<close>, \<open>Sso_Refresh\<close> and \<open>Sso_Login\<close> the operations. A request is a
  sequence of statements; \<open>Sso_Run\<close> lets the statements of any requests interleave and fail, \<open>Sso_Frame\<close>
  shows that every operation is such a run, \<open>Sso_Invariants\<close> what runs keep. \<open>Sso_Properties\<close>,
  \<open>Sso_Refresh_Properties\<close> and \<open>Sso_Policy_Properties\<close> state what follows for codes, sessions and tokens.

  \<^bold>\<open>Rights and accounts\<close> (\<open>app/authorization\<close>, \<open>app/system/user\<close>, \<open>app/credential\<close>, \<open>app/setup\<close>).
  \<open>Authz_Policy\<close> decisions, \<open>Authz_Matching\<close> permission codes as a preorder (a locale interpreted on the
  code's matching), \<open>Authz_Model\<close> tables and statements, \<open>Authz_Context\<close> the context of a user and the checks
  of an operator, \<open>Authz_Grant\<close> and \<open>Authz_Admin\<close> the operations; \<open>Authz_Roots\<close> and \<open>Authz_Frame\<close> show
  that each keeps an administrator. \<open>Org_Units\<close>, \<open>Org_Trees\<close> and \<open>Org_Hierarchy\<close> have organizations,
  departments and positions, \<open>Org_Frame\<close> what they leave alone; \<open>User_Accounts\<close> and \<open>User_Admin\<close> accounts,
  \<open>Account_Frame\<close> the effect of their mutations; \<open>Credentials\<close> and \<open>Credential_Codes\<close> credentials; \<open>Setup\<close> the
  first start. \<open>Rights_Properties\<close> states that contexts are well formed and that nobody confers more than
  they held before, \<open>Org_Properties\<close> what departments mean for the data scope and which reads must be current
  for the paths of departments to stay right, \<open>Account_Run\<close> that in any sequence
  of requests of the whole administration an administrator remains, \<open>Account_Properties\<close>,
  \<open>Credential_Properties\<close> and \<open>Setup_Properties\<close> the rest.

  \<^bold>\<open>Login\<close> (\<open>app/login\<close>, the login failures of \<open>app/system/admin\<close>). A login proceeds over several requests that share
  a \<^emph>\<open>pending login\<close> in the cache. Its state \<open>login_world\<close> contains the state of the challenge component, the
  accounts with their credentials, the pending logins, the counters and locks of the cache, and a schedule
  that says which commands of the cache fail. \<open>Login_Failures\<close> has the counters of failures and the lock
  of an account (\<open>application/service.go\<close> and \<open>login_failure_store.go\<close> of \<open>system/admin\<close>), \<open>Login_Challenges\<close> the
  pending login and its limits, \<open>Login_Steps\<close> the captcha and the second factor, \<open>Login_Service\<close> the requests of
  \<open>app/login/application/service.go\<close>: password, one-time code, passkey, registration, completion. The session
  a completed login opens, the platform's answers, the rate limiter and the parser of mail addresses
  are parameters. \<open>Login_Frame\<close> has locales that extend each other: a relation between states, relations that
  the counters and marks of the cache keep, with the locks or with the pending logins and challenges, and one
  that the calls to the other components keep too; from the laws it follows for each stage of a login that the
  stage keeps the relation. They are interpreted on relations between the states before and after: only the schedule
  of failures changes (\<open>reads\<close>), the pending logins and challenges stay as they are (\<open>undisturbed\<close>), the
  accounts do (\<open>caches\<close>), users keep their names and credentials (\<open>kept\<close>). \<open>Login_Properties\<close> shows that a login needs the stored password, that a locked account
  cannot be entered by any method and that a completed login is over, unless the store failed to remove it; \<open>Login_Gaps\<close> shows what the code does
  not do: a one-time code stands in for the password, a solved captcha is good for every later password,
  a failed one is never replaced, and an expired lock leaves the account disabled.

  \<^bold>\<open>Hub and messages\<close> (\<open>app/hub_control\<close>, \<open>infrastructure/messaging/outbox\<close>). \<open>Hub_Node\<close> the entity, \<open>Hub_Saga\<close> the
  service over its statements, \<open>Hub_Properties\<close> what holds when requests, results and changes interleave, as long as the versions that
  requests carry have no blanks around them, and how a superseded version is revived when they have.
  \<open>Outbox\<close> and \<open>Consume_Guard\<close> the two tables, \<open>Outbox_Properties\<close> and \<open>Consume_Properties\<close> fencing,
  exclusive claims and the refinement of an abstract work item.

  \<^bold>\<open>Node\<close> (\<open>app/node_management\<close>). \<open>Node_Management\<close> has the commands a hub sends to a node: the coordinator of
  \<open>domain/idempotency.go\<close> over its store, and the service of \<open>application/service.go\<close>, which sets the status of
  users and ends their sessions through the modelled accounts. A request claims, works and completes at
  instants of its own, and the cache fails by a schedule. The source starts over when the claim it met expired:
  \<open>begin_command\<close> takes fuel, and two units are enough (\<open>begin_returns\<close>). \<open>Node_Properties\<close> lets the commands of the
  cache interleave and shows that a claim excludes others, that a result is replayed, and that a status
  command that is sent again changes the user at most once.

  \<^bold>\<open>Samples.\<close> \<open>Sso_Samples\<close>, \<open>Account_Samples\<close> and \<open>Login_Samples\<close> hold small instances on which the witnesses evaluate.

  \<^bold>\<open>Conventions.\<close> An operation takes its environment as a record of functions: the libraries it calls (JWT,
  JSON, bcrypt, PBKDF2, SHA-256, HMAC, base64), random sources and identifiers, and how each statement ends.
  What a property needs of a library is a hypothesis about that function. A request sees one instant of
  the clock. What an operation reads before its transaction is an argument \<open>seen\<close>, so it may be stale. A statement
  that fails inside a transaction fails the transaction. Two loops take fuel, with \<open>None\<close>
  when it runs out: \<open>cleanup_expired\<close>, one unit for every page of users, and \<open>begin_command\<close>; all others recurse on lists.

  \<^bold>\<open>Not modelled.\<close> Audit rows, metrics, logs and HTTP handlers, which no modelled operation reads. The cache of
  session validity in sso: every check reads the database. Creation and update instants
  of rows that nothing compares. Collations of the database: keys are compared byte by byte. Column
  lengths, and user columns that are only displayed. The order of rows without \<open>ORDER BY\<close>, taken as the order
  of the table. The interleaving of requests is represented statement by statement in sso and the outbox
  and request by request in the hub, the challenge and the administration, whose requests lock what they
  read or pass stale reads as \<open>seen\<close>. The components that are I/O, wiring or transport are listed in the
  manifest as not modelled, with the reason for each.
\<close>

end
